(* ===== verification/Prelude.thy ===== *)
theory Prelude
  imports Main "HOL-Library.Word"
begin

text \<open>
  Shared vocabulary of the development: the Go types the packages use, Go results and panics,
  the big-endian byte encodings of \<open>encoding/binary\<close>, Go's \<open>copy\<close> into a slice, and the
  interface locales of fixed-width codecs and of log parsers.

  \<^item> \<open>bytes\<close> is a Go \<open>[]byte\<close>; \<open>address\<close> is \<open>common.Address\<close> (\<open>[20]byte\<close>) and \<open>hash\<close> is
    \<open>common.Hash\<close> or \<open>ids.ID\<close> (\<open>[32]byte\<close>), both kept as words so that their length is fixed.
  \<^item> A Go function with results \<open>(T, error)\<close> has the type \<open>goerr + 'a\<close>; an error is the list of
    messages it wraps, outermost first (\<open>errors.Wrap\<close>, \<open>fmt.Errorf\<close> with \<open>%w\<close> or \<open>%v\<close>).
  \<^item> A function that may also panic (index out of range, \<open>log.Panic\<close>) has the type \<open>'a go\<close>.
\<close>

unbundle bit_operations_syntax

named_theorems go_simps \<open>evaluation rules of results, panics and standard library calls\<close>
named_theorems go_splits \<open>inversion rules: what a successful result says of its parts\<close>

section \<open>Go types\<close>

type_synonym byte = "8 word"
type_synonym bytes = "byte list"
type_synonym u8 = "8 word"
type_synonym u16 = "16 word"
type_synonym u32 = "32 word"
type_synonym u64 = "64 word"
type_synonym address = "160 word"
type_synonym hash = "256 word"
type_synonym goerr = "string list"

datatype 'a go = Done 'a | Panic string

section \<open>Results\<close>

definition rbind :: "goerr + 'a \<Rightarrow> ('a \<Rightarrow> goerr + 'b) \<Rightarrow> goerr + 'b" where
  "rbind m f = (case m of Inl e \<Rightarrow> Inl e | Inr x \<Rightarrow> f x)"

definition wrap :: "string \<Rightarrow> goerr + 'a \<Rightarrow> goerr + 'a" where
  "wrap msg m = (case m of Inl e \<Rightarrow> Inl (msg # e) | Inr x \<Rightarrow> Inr x)"

lemma rbind_simps [simp, go_simps]:
  "rbind (Inl e) f = Inl e" "rbind (Inr x) f = f x"
  by (simp_all add: rbind_def)

lemma wrap_simps [simp, go_simps]:
  "wrap msg (Inl e) = Inl (msg # e)" "wrap msg (Inr x) = Inr x"
  by (simp_all add: wrap_def)

lemma rbind_Inr_iff [go_splits]: "rbind m f = Inr y \<longleftrightarrow> (\<exists>x. m = Inr x \<and> f x = Inr y)"
  by (cases m) simp_all

lemma rbind_Inl_iff [go_splits]:
  "rbind m f = Inl e \<longleftrightarrow> m = Inl e \<or> (\<exists>x. m = Inr x \<and> f x = Inl e)"
  by (cases m) simp_all

lemma wrap_Inr_iff [simp, go_splits]: "wrap msg m = Inr y \<longleftrightarrow> m = Inr y"
  by (cases m) simp_all

definition is_Ok :: "goerr + 'a \<Rightarrow> bool" where
  "is_Ok m = (case m of Inl _ \<Rightarrow> False | Inr _ \<Rightarrow> True)"

lemma is_Ok_simps [simp]: "\<not> is_Ok (Inl e)" "is_Ok (Inr x)"
  by (simp_all add: is_Ok_def)

lemma is_Ok_iff: "is_Ok m \<longleftrightarrow> (\<exists>x. m = Inr x)"
  by (cases m) simp_all

definition go_bind :: "'a go \<Rightarrow> ('a \<Rightarrow> 'b go) \<Rightarrow> 'b go" where
  "go_bind m f = (case m of Panic p \<Rightarrow> Panic p | Done x \<Rightarrow> f x)"

lemma go_bind_simps [simp, go_simps]: "go_bind (Done x) f = f x" "go_bind (Panic p) f = Panic p"
  by (simp_all add: go_bind_def)

lemma go_bind_Done_iff [go_splits]: "go_bind m f = Done y \<longleftrightarrow> (\<exists>x. m = Done x \<and> f x = Done y)"
  by (cases m) simp_all

text \<open>Sequencing of a step that may panic or return an error: both end the function.\<close>

definition go_rbind :: "(goerr + 'a) go \<Rightarrow> ('a \<Rightarrow> (goerr + 'b) go) \<Rightarrow> (goerr + 'b) go" where
  "go_rbind m f = go_bind m (\<lambda>r. case r of Inl e \<Rightarrow> Done (Inl e) | Inr x \<Rightarrow> f x)"

lemma go_rbind_simps [simp, go_simps]:
  "go_rbind (Done (Inr x)) f = f x" "go_rbind (Done (Inl e)) f = Done (Inl e)"
  "go_rbind (Panic p) f = Panic p"
  by (simp_all add: go_rbind_def)

section \<open>Big-endian encodings (encoding/binary)\<close>

text \<open>The \<open>n\<close> low-order bytes of a number, most significant first, and the value of a byte list.\<close>

primrec be_bytes :: "nat \<Rightarrow> nat \<Rightarrow> bytes" where
  "be_bytes 0 v = []"
| "be_bytes (Suc n) v = of_nat (v div 256 ^ n) # be_bytes n v"

primrec be_val :: "bytes \<Rightarrow> nat" where
  "be_val [] = 0"
| "be_val (b # bs) = unat b * 256 ^ length bs + be_val bs"

lemma length_be_bytes [simp]: "length (be_bytes n v) = n"
  by (induction n) simp_all

lemma unat_of_nat_byte: "unat (of_nat k :: byte) = k mod 256"
  by (simp add: unat_of_nat)

lemma be_val_be_bytes: "be_val (be_bytes n v) = v mod 256 ^ n"
proof (induction n)
  case 0
  then show ?case by simp
next
  case (Suc n)
  have "v mod 256 ^ Suc n = 256 ^ n * (v div 256 ^ n mod 256) + v mod 256 ^ n"
    by (simp add: mod_mult2_eq power_Suc2 del: power_Suc)
  then show ?case
    by (simp add: Suc.IH unat_of_nat_byte mult.commute)
qed

lemma be_val_less: "be_val bs < 256 ^ length bs"
proof (induction bs)
  case Nil
  then show ?case by simp
next
  case (Cons b bs)
  have "unat b < 2 ^ LENGTH(8)"
    by (rule unsigned_less)
  then have "unat b * 256 ^ length bs \<le> 255 * 256 ^ length bs"
    by (intro mult_le_mono1) simp
  with Cons.IH have "unat b * 256 ^ length bs + be_val bs < 256 * 256 ^ length bs"
    by linarith
  then show ?case by simp
qed

lemma be_bytes_add: "m \<le> n \<Longrightarrow> be_bytes m (k * 256 ^ n + v) = be_bytes m v"
proof (induction m)
  case 0
  then show ?case by simp
next
  case (Suc m)
  then obtain d where n: "n = Suc m + d"
    using le_Suc_ex by blast
  have split: "k * 256 ^ n + v = (k * 256 ^ d * 256) * 256 ^ m + v"
    by (simp add: n power_add)
  have "(k * 256 ^ n + v) div 256 ^ m = k * 256 ^ d * 256 + v div 256 ^ m"
    unfolding split by (subst div_mult_self3) simp_all
  moreover have "(256 :: byte) = 0"
    by simp
  ultimately have "(of_nat ((k * 256 ^ n + v) div 256 ^ m) :: byte) = of_nat (v div 256 ^ m)"
    by (simp only: of_nat_add of_nat_mult of_nat_numeral mult_zero_right add_0)
  with Suc show ?case by simp
qed

lemma be_bytes_be_val: "be_bytes (length bs) (be_val bs) = bs"
proof (induction bs)
  case Nil
  then show ?case by simp
next
  case (Cons b bs)
  have "(unat b * 256 ^ length bs + be_val bs) div 256 ^ length bs = unat b"
    using be_val_less [of bs] by simp
  then show ?case
    by (simp add: be_bytes_add Cons.IH)
qed

lemma be_bytes_zero: "be_bytes n 0 = replicate n 0"
  by (induction n) simp_all

lemma be_bytes_mod: "be_bytes n (v mod 256 ^ n) = be_bytes n v"
  using be_bytes_be_val [of "be_bytes n v"] by (simp add: be_val_be_bytes)

lemma be_bytes_inj: "be_bytes n v = be_bytes n w \<longleftrightarrow> v mod 256 ^ n = w mod 256 ^ n"
  by (metis be_bytes_mod be_val_be_bytes)

lemma char_of_byte [simp]: "char_of (unat (of_char c :: byte)) = c"
proof -
  have "unat (of_char c :: byte) = of_char c"
    by (metis of_char_of of_nat_of_char char_of_nat unat_of_nat_byte of_char_mod_256 nat_of_char_less_256 mod_less)
  then show ?thesis by simp
qed


text \<open>The writers of \<open>binary.BigEndian\<close> and the byte views of identifiers and addresses.\<close>

definition PutUint16 :: "u16 \<Rightarrow> bytes" where
  "PutUint16 w = be_bytes 2 (unat w)"

definition PutUint32 :: "u32 \<Rightarrow> bytes" where
  "PutUint32 w = be_bytes 4 (unat w)"

definition PutUint64 :: "u64 \<Rightarrow> bytes" where
  "PutUint64 w = be_bytes 8 (unat w)"

definition hash_bytes :: "hash \<Rightarrow> bytes" where
  "hash_bytes w = be_bytes 32 (unat w)"

definition address_bytes :: "address \<Rightarrow> bytes" where
  "address_bytes w = be_bytes 20 (unat w)"

definition of_be :: "bytes \<Rightarrow> 'a::len word" where
  "of_be bs = of_nat (be_val bs)"

lemma of_be_be_bytes:
  assumes "LENGTH('a::len) \<le> 8 * n"
  shows "(of_be (be_bytes n (unat w)) :: 'a word) = w"
proof -
  have "unat w < 2 ^ LENGTH('a)"
    by (rule unsigned_less)
  also have "(2::nat) ^ LENGTH('a) \<le> 2 ^ (8 * n)"
    using assms by (intro power_increasing) simp_all
  also have "(2::nat) ^ (8 * n) = 256 ^ n"
    by (simp add: power_mult)
  finally show ?thesis
    by (simp add: of_be_def be_val_be_bytes)
qed

text \<open>
  The contract of a fixed-width encoder: what a reader of a concatenation of fields relies on.
\<close>

locale fixed_codec =
  fixes width :: nat
    and enc :: "'a \<Rightarrow> bytes"
    and dec :: "bytes \<Rightarrow> 'a"
  assumes length_enc [simp]: "length (enc x) = width"
    and dec_enc [simp]: "dec (enc x) = x"
begin

lemma enc_inj: "enc x = enc y \<longleftrightarrow> x = y"
  by (metis dec_enc)

lemma read_field: "dec (take width (enc x @ rest)) = x" "drop width (enc x @ rest) = rest"
  by simp_all

lemma enc_append_inj: "enc x @ r = enc y @ s \<longleftrightarrow> x = y \<and> r = s"
  by (metis append_eq_append_conv enc_inj length_enc)

end

interpretation u16c: fixed_codec 2 PutUint16 of_be
  by unfold_locales (simp_all add: PutUint16_def of_be_be_bytes)

interpretation u32c: fixed_codec 4 PutUint32 of_be
  by unfold_locales (simp_all add: PutUint32_def of_be_be_bytes)

interpretation u64c: fixed_codec 8 PutUint64 of_be
  by unfold_locales (simp_all add: PutUint64_def of_be_be_bytes)

interpretation hashc: fixed_codec 32 hash_bytes of_be
  by unfold_locales (simp_all add: hash_bytes_def of_be_be_bytes)

interpretation addrc: fixed_codec 20 address_bytes of_be
  by unfold_locales (simp_all add: address_bytes_def of_be_be_bytes)

lemmas codec_lengths = u16c.length_enc u32c.length_enc u64c.length_enc hashc.length_enc
  addrc.length_enc

section \<open>Slices\<close>

text \<open>
  \<open>copy(b[lo:hi], src)\<close> overwrites the first \<open>min (hi - lo) (len src)\<close> bytes of the window and
  leaves the rest of \<open>b\<close> as it was; \<open>make([]byte, n)\<close> is zeroed.
\<close>

definition go_copy :: "bytes \<Rightarrow> nat \<Rightarrow> nat \<Rightarrow> bytes \<Rightarrow> bytes" where
  "go_copy b lo hi src =
     (let n = min (hi - lo) (length src) in take lo b @ take n src @ drop (lo + n) b)"

definition go_make :: "nat \<Rightarrow> bytes" where
  "go_make n = replicate n 0"

lemma length_go_copy [simp]:
  "lo \<le> hi \<Longrightarrow> hi \<le> length b \<Longrightarrow> length (go_copy b lo hi src) = length b"
  by (simp add: go_copy_def Let_def)

text \<open>
  Writing the fields of a buffer from left to right: if \<open>b\<close> is \<open>pre @ rest\<close> with \<open>lo\<close> bytes done,
  a full-width copy extends the finished prefix and shortens the rest.
\<close>

lemma go_copy_append:
  assumes "length pre = lo" and "hi = lo + length src" and "length src \<le> length rest"
  shows "go_copy (pre @ rest) lo hi src = (pre @ src) @ drop (length src) rest"
  using assms by (simp add: go_copy_def Let_def)

lemma go_copy_short:
  assumes "length pre = lo" and "hi = lo + w" and "w \<le> length rest"
  shows "go_copy (pre @ rest) lo hi src =
    (pre @ take w src) @ drop (min w (length src)) rest"
  using assms by (simp add: go_copy_def Let_def min_def)

end
