(* ===== verification/GasUtils.thy ===== *)
theory GasUtils
  imports Prelude
begin

text \<open>
  \<open>utils/gas-utils/gas_utils.go\<close>: the gas limit of a \<open>receiveCrossChainMessage\<close> call.

  The gas prices of the Warp precompile (package \<open>subnet-evm/precompile/contracts/warp\<close>) and the
  checked addition \<open>math.Add64\<close> (package \<open>avalanchego/utils/math\<close>) are not part of the repository:
  they are the fields of the parameter \<open>warp_gas\<close>. \<open>add64_spec\<close> states the documented behaviour
  of \<open>Add64\<close> (the sum, or an error on overflow). Go's \<open>int\<close> arguments are \<open>int\<close>; the conversion
  \<open>uint64(x)\<close> is \<open>word_of_int\<close> and the products are not checked by the code, so they wrap.
\<close>

section \<open>Constants and parameters\<close>

definition ReceiveCrossChainMessageBaseGasCost :: u64 where
  "ReceiveCrossChainMessageBaseGasCost = 250000"

definition MarkMessageReceiptGasCost :: u64 where
  "MarkMessageReceiptGasCost = 2500"

definition DecodeMessageGasCostPerByte :: u64 where
  "DecodeMessageGasCostPerByte = 35"

definition BaseFeeFactor :: int where
  "BaseFeeFactor = 2"

definition MaxPriorityFeePerGas :: int where
  "MaxPriorityFeePerGas = 2500000000"

lemmas gas_constants = ReceiveCrossChainMessageBaseGasCost_def MarkMessageReceiptGasCost_def
  DecodeMessageGasCostPerByte_def

record warp_gas =
  GasCostPerWarpMessageBytes :: u64
  GasCostPerWarpSigner :: u64
  GasCostPerSignatureVerification :: u64
  Add64 :: "u64 \<Rightarrow> u64 \<Rightarrow> goerr + u64"

definition add64_spec :: "(u64 \<Rightarrow> u64 \<Rightarrow> goerr + u64) \<Rightarrow> bool" where
  "add64_spec add \<longleftrightarrow>
     (\<forall>a b. if unat a + unat b < 2 ^ 64 then add a b = Inr (a + b) else \<exists>e. add a b = Inl e)"

section \<open>The computation\<close>

fun add_gas :: "(u64 \<Rightarrow> u64 \<Rightarrow> goerr + u64) \<Rightarrow> u64 \<Rightarrow> u64 list \<Rightarrow> goerr + u64" where
  "add_gas add res [] = Inr res"
| "add_gas add res (g # gs) =
     (case add res g of Inl e \<Rightarrow> Inl e | Inr res' \<Rightarrow> add_gas add res' gs)"

definition gasAmounts :: "warp_gas \<Rightarrow> int \<Rightarrow> int \<Rightarrow> int \<Rightarrow> int \<Rightarrow> int \<Rightarrow> u64 list" where
  "gasAmounts w numSigners executionRequiredGasLimit warpMessageSize teleporterMessageSize
       teleporterReceiptsCount =
     [word_of_int executionRequiredGasLimit,
      word_of_int warpMessageSize * GasCostPerWarpMessageBytes w * 2,
      word_of_int teleporterMessageSize * DecodeMessageGasCostPerByte,
      word_of_int teleporterReceiptsCount * MarkMessageReceiptGasCost,
      ReceiveCrossChainMessageBaseGasCost,
      word_of_int numSigners * GasCostPerWarpSigner w,
      GasCostPerSignatureVerification w]"

definition CalculateReceiveMessageGasLimit ::
  "warp_gas \<Rightarrow> int \<Rightarrow> int \<Rightarrow> int \<Rightarrow> int \<Rightarrow> int \<Rightarrow> goerr + u64" where
  "CalculateReceiveMessageGasLimit w numSigners executionRequiredGasLimit warpMessageSize
       teleporterMessageSize teleporterReceiptsCount =
     (if \<not> (0 \<le> executionRequiredGasLimit \<and> executionRequiredGasLimit < 2 ^ 64)
      then Inl [''required gas limit too high'']
      else
        let amounts = gasAmounts w numSigners executionRequiredGasLimit warpMessageSize
              teleporterMessageSize teleporterReceiptsCount
        in add_gas (Add64 w) (hd amounts) (tl amounts))"

section \<open>The checked sum\<close>

definition total_gas :: "u64 list \<Rightarrow> nat" where
  "total_gas gs = sum_list (map unat gs)"

lemma add_gas_ok:
  assumes "add64_spec add"
  shows "unat res + total_gas gs < 2 ^ 64 \<Longrightarrow>
    \<exists>r. add_gas add res gs = Inr r \<and> unat r = unat res + total_gas gs"
proof (induction gs arbitrary: res)
  case Nil
  then show ?case by (simp add: total_gas_def)
next
  case (Cons g gs)
  then have fits: "unat res + unat g < 2 ^ 64"
    by (simp add: total_gas_def)
  with assms have step: "add res g = Inr (res + g)"
    by (auto simp: add64_spec_def)
  have val: "unat (res + g) = unat res + unat g"
    using fits by (simp add: unat_word_ariths)
  show ?case
    using Cons.prems Cons.IH [of "res + g"] by (simp add: step val total_gas_def add.assoc)
qed

lemma add_gas_err:
  assumes "add64_spec add"
  shows "\<not> unat res + total_gas gs < 2 ^ 64 \<Longrightarrow> \<exists>e. add_gas add res gs = Inl e"
proof (induction gs arbitrary: res)
  case Nil
  moreover have "unat res < 2 ^ LENGTH(64)"
    by (rule unsigned_less)
  ultimately show ?case by (simp add: total_gas_def)
next
  case (Cons g gs)
  show ?case
  proof (cases "unat res + unat g < 2 ^ 64")
    case True
    with assms have step: "add res g = Inr (res + g)"
      by (auto simp: add64_spec_def)
    have "unat (res + g) = unat res + unat g"
      using True by (simp add: unat_word_ariths)
    then show ?thesis
      using Cons.prems Cons.IH [of "res + g"] by (simp add: step total_gas_def add.assoc)
  next
    case False
    with assms have "\<exists>e. add res g = Inl e"
      by (auto simp: add64_spec_def)
    then show ?thesis by auto
  qed
qed

text \<open>A product that does not wrap, as a number.\<close>

lemma unat_cost:
  assumes "0 \<le> n" and "n * int (unat c) < 2 ^ 64"
  shows "unat (word_of_int n * c :: u64) = nat n * unat c"
proof (cases "c = 0")
  case True
  then show ?thesis by simp
next
  case False
  then have "unat c \<noteq> 0"
    by (simp add: unat_eq_zero)
  then have "1 \<le> int (unat c)"
    by linarith
  then have "n \<le> n * int (unat c)"
    using assms(1) by (simp add: mult_le_cancel_left1)
  with assms have "n < 2 ^ 64"
    by linarith
  then have n: "unat (word_of_int n :: u64) = nat n"
    using assms(1) by (simp add: unat_eq_nat_uint word_of_int_inverse)
  have "int (nat n * unat c) < 2 ^ 64"
    using assms by simp
  then have "nat n * unat c < 2 ^ 64"
    by (simp only: of_nat_less_numeral_power_cancel_iff)
  then show ?thesis
    by (simp add: unat_word_ariths n)
qed

section \<open>Properties\<close>

text \<open>
  The sizes for which no product of the code wraps: \<open>len\<close> of a message, a count of receipts and of
  signers, against the prices of the precompile.
\<close>

definition gas_in_range :: "warp_gas \<Rightarrow> int \<Rightarrow> int \<Rightarrow> int \<Rightarrow> int \<Rightarrow> bool" where
  "gas_in_range w numSigners warpMessageSize teleporterMessageSize teleporterReceiptsCount \<longleftrightarrow>
     0 \<le> numSigners \<and> numSigners * int (unat (GasCostPerWarpSigner w)) < 2 ^ 64 \<and>
     0 \<le> warpMessageSize \<and>
     warpMessageSize * (2 * int (unat (GasCostPerWarpMessageBytes w))) < 2 ^ 64 \<and>
     0 \<le> teleporterMessageSize \<and> teleporterMessageSize * 35 < 2 ^ 64 \<and>
     0 \<le> teleporterReceiptsCount \<and> teleporterReceiptsCount * 2500 < 2 ^ 64"

definition receive_gas :: "warp_gas \<Rightarrow> int \<Rightarrow> int \<Rightarrow> int \<Rightarrow> int \<Rightarrow> int \<Rightarrow> int" where
  "receive_gas w numSigners executionRequiredGasLimit warpMessageSize teleporterMessageSize
       teleporterReceiptsCount =
     executionRequiredGasLimit
     + warpMessageSize * (2 * int (unat (GasCostPerWarpMessageBytes w)))
     + teleporterMessageSize * 35 + teleporterReceiptsCount * 2500 + 250000
     + numSigners * int (unat (GasCostPerWarpSigner w))
     + int (unat (GasCostPerSignatureVerification w))"

lemma unat_cost2:
  assumes "0 \<le> n" and "n * (2 * int (unat c)) < 2 ^ 64"
  shows "unat (word_of_int n * c * 2 :: u64) = nat n * (2 * unat c)"
proof -
  have "n * int (unat c) \<le> n * (2 * int (unat c))"
    using assms(1) by (intro mult_left_mono) simp_all
  with assms have 1: "unat (word_of_int n * c :: u64) = nat n * unat c"
    by (intro unat_cost) simp_all
  have "int (nat n * unat c * 2) < 2 ^ 64"
    using assms by (simp add: mult.assoc mult.commute mult.left_commute)
  then have "nat n * unat c * 2 < 2 ^ 64"
    by (simp only: of_nat_less_numeral_power_cancel_iff)
  then have fits: "nat n * unat c * 2 mod 2 ^ LENGTH(64) = nat n * unat c * 2"
    by simp
  have "unat (word_of_int n * c * 2 :: u64) =
      unat (word_of_int n * c :: u64) * unat (2 :: u64) mod 2 ^ LENGTH(64)"
    by (rule unat_word_ariths(2))
  also have "\<dots> = nat n * unat c * 2"
    using fits by (simp only: 1 unat_numeral) simp
  finally show ?thesis by simp
qed

lemma total_gas_amounts:
  assumes "0 \<le> executionRequiredGasLimit" and "executionRequiredGasLimit < 2 ^ 64"
    and "gas_in_range w numSigners warpMessageSize teleporterMessageSize teleporterReceiptsCount"
  shows "int (total_gas (gasAmounts w numSigners executionRequiredGasLimit warpMessageSize
        teleporterMessageSize teleporterReceiptsCount)) =
    receive_gas w numSigners executionRequiredGasLimit warpMessageSize teleporterMessageSize
      teleporterReceiptsCount"
proof -
  have e: "int (unat (word_of_int executionRequiredGasLimit :: u64)) = executionRequiredGasLimit"
    using assms(1,2) by (simp add: word_of_int_inverse)
  have w: "int (unat (word_of_int warpMessageSize * GasCostPerWarpMessageBytes w * 2)) =
      warpMessageSize * (2 * int (unat (GasCostPerWarpMessageBytes w)))"
    using assms(3) unat_cost2 [of warpMessageSize "GasCostPerWarpMessageBytes w"]
    by (simp add: gas_in_range_def)
  have t: "int (unat (word_of_int teleporterMessageSize * DecodeMessageGasCostPerByte)) =
      teleporterMessageSize * 35"
    using assms(3) unat_cost [of teleporterMessageSize DecodeMessageGasCostPerByte]
    by (simp add: gas_in_range_def gas_constants)
  have r: "int (unat (word_of_int teleporterReceiptsCount * MarkMessageReceiptGasCost)) =
      teleporterReceiptsCount * 2500"
    using assms(3) unat_cost [of teleporterReceiptsCount MarkMessageReceiptGasCost]
    by (simp add: gas_in_range_def gas_constants)
  have s: "int (unat (word_of_int numSigners * GasCostPerWarpSigner w)) =
      numSigners * int (unat (GasCostPerWarpSigner w))"
    using assms(3) unat_cost [of numSigners "GasCostPerWarpSigner w"]
    by (simp add: gas_in_range_def)
  have b: "int (unat ReceiveCrossChainMessageBaseGasCost) = 250000"
    by (simp add: gas_constants)
  show ?thesis
    by (simp only: total_gas_def gasAmounts_def list.map sum_list.Cons sum_list.Nil of_nat_add
        e w t r s b receive_gas_def)
qed

lemma gas_limit_sum:
  assumes "add64_spec (Add64 w)"
    and "0 \<le> executionRequiredGasLimit" and "executionRequiredGasLimit < 2 ^ 64"
    and "gas_in_range w numSigners warpMessageSize teleporterMessageSize teleporterReceiptsCount"
  shows "if receive_gas w numSigners executionRequiredGasLimit warpMessageSize
           teleporterMessageSize teleporterReceiptsCount < 2 ^ 64
         then \<exists>g. CalculateReceiveMessageGasLimit w numSigners executionRequiredGasLimit
                    warpMessageSize teleporterMessageSize teleporterReceiptsCount = Inr g \<and>
                  uint g = receive_gas w numSigners executionRequiredGasLimit warpMessageSize
                    teleporterMessageSize teleporterReceiptsCount
         else \<exists>e. CalculateReceiveMessageGasLimit w numSigners executionRequiredGasLimit
                    warpMessageSize teleporterMessageSize teleporterReceiptsCount = Inl e"
proof -
  let ?gs = "gasAmounts w numSigners executionRequiredGasLimit warpMessageSize
      teleporterMessageSize teleporterReceiptsCount"
  have split: "unat (hd ?gs) + total_gas (tl ?gs) = total_gas ?gs"
    by (simp add: gasAmounts_def total_gas_def)
  have code: "CalculateReceiveMessageGasLimit w numSigners executionRequiredGasLimit
      warpMessageSize teleporterMessageSize teleporterReceiptsCount =
      add_gas (Add64 w) (hd ?gs) (tl ?gs)"
    using assms(2,3) by (simp add: CalculateReceiveMessageGasLimit_def Let_def)
  have total: "receive_gas w numSigners executionRequiredGasLimit warpMessageSize
      teleporterMessageSize teleporterReceiptsCount = int (total_gas ?gs)"
    by (rule total_gas_amounts [OF assms(2-4), symmetric])
  show ?thesis
  proof (cases "total_gas ?gs < 2 ^ 64")
    case True
    then obtain r where r: "add_gas (Add64 w) (hd ?gs) (tl ?gs) = Inr r"
        and "unat r = total_gas ?gs"
      using add_gas_ok [OF assms(1), of "hd ?gs" "tl ?gs"] split by auto
    then have "uint r = int (total_gas ?gs)"
      by (simp only: uint_nat)
    then show ?thesis
      unfolding code total using True r by auto
  next
    case False
    then show ?thesis
      unfolding code total using add_gas_err [OF assms(1), of "hd ?gs" "tl ?gs"] split by simp
  qed
qed

lemma gas_limit_value:
  assumes "add64_spec (Add64 w)"
    and "gas_in_range w numSigners warpMessageSize teleporterMessageSize teleporterReceiptsCount"
    and "CalculateReceiveMessageGasLimit w numSigners executionRequiredGasLimit
           warpMessageSize teleporterMessageSize teleporterReceiptsCount = Inr g"
  shows "uint g = receive_gas w numSigners executionRequiredGasLimit warpMessageSize
           teleporterMessageSize teleporterReceiptsCount"
proof -
  have "0 \<le> executionRequiredGasLimit" and "executionRequiredGasLimit < 2 ^ 64"
    using assms(3) by (simp_all add: CalculateReceiveMessageGasLimit_def split: if_splits)
  from gas_limit_sum [OF assms(1) this assms(2)] show ?thesis
    using assms(3) by (auto split: if_splits)
qed

text \<open>
  C27. With sizes and counts for which no product wraps, the gas limit is exactly the required
  execution gas plus the six costs the comment of the code lists, and an error is returned exactly
  when that sum does not fit in 64 bits.
\<close>

theorem gas_limit_exact:
  assumes "add64_spec (Add64 w)"
    and "0 \<le> executionRequiredGasLimit" and "executionRequiredGasLimit < 2 ^ 64"
    and "gas_in_range w numSigners warpMessageSize teleporterMessageSize teleporterReceiptsCount"
  shows "if receive_gas w numSigners executionRequiredGasLimit warpMessageSize
           teleporterMessageSize teleporterReceiptsCount < 2 ^ 64
         then \<exists>g. CalculateReceiveMessageGasLimit w numSigners executionRequiredGasLimit
                    warpMessageSize teleporterMessageSize teleporterReceiptsCount = Inr g \<and>
                  uint g = receive_gas w numSigners executionRequiredGasLimit warpMessageSize
                    teleporterMessageSize teleporterReceiptsCount
         else \<exists>e. CalculateReceiveMessageGasLimit w numSigners executionRequiredGasLimit
                    warpMessageSize teleporterMessageSize teleporterReceiptsCount = Inl e"
  using assms by (rule gas_limit_sum)

definition checked_add64 :: "u64 \<Rightarrow> u64 \<Rightarrow> goerr + u64" where
  "checked_add64 a b = (if unat a + unat b < 2 ^ 64 then Inr (a + b) else Inl [''overflow''])"

definition warp_gas_example :: warp_gas where
  "warp_gas_example = \<lparr>GasCostPerWarpMessageBytes = 100, GasCostPerWarpSigner = 500,
     GasCostPerSignatureVerification = 2000, Add64 = checked_add64\<rparr>"

lemma checked_add64_spec: "add64_spec checked_add64"
  by (simp add: add64_spec_def checked_add64_def)

lemma gas_example:
  "CalculateReceiveMessageGasLimit warp_gas_example 5 300000 400 300 2 = Inr 650000"
  by (simp add: CalculateReceiveMessageGasLimit_def gasAmounts_def warp_gas_example_def
      gas_constants checked_add64_def)

theorem gas_limit_exact_witness:
  "\<exists>g. CalculateReceiveMessageGasLimit warp_gas_example 5 300000 400 300 2 = Inr g \<and>
       uint g = 650000"
proof -
  have "add64_spec (Add64 warp_gas_example)"
    by (simp add: warp_gas_example_def checked_add64_spec)
  moreover have "gas_in_range warp_gas_example 5 400 300 2"
    by (simp add: gas_in_range_def warp_gas_example_def)
  moreover have "receive_gas warp_gas_example 5 300000 400 300 2 = 650000"
    by (simp add: receive_gas_def warp_gas_example_def)
  ultimately show ?thesis
    using gas_limit_exact [of warp_gas_example 300000 5 400 300 2] by simp
qed

text \<open>
  Whatever the sizes (even sizes whose products wrap), a returned limit covers the gas the
  message requires for its execution, the base cost and the signature check, and a required gas
  limit that is negative or does not fit in 64 bits is always refused.
\<close>

theorem gas_limit_lower_bound:
  assumes "add64_spec (Add64 w)"
    and "CalculateReceiveMessageGasLimit w numSigners executionRequiredGasLimit
           warpMessageSize teleporterMessageSize teleporterReceiptsCount = Inr g"
  shows "0 \<le> executionRequiredGasLimit \<and> executionRequiredGasLimit < 2 ^ 64 \<and>
    executionRequiredGasLimit + 250000 + uint (GasCostPerSignatureVerification w) \<le> uint g"
proof -
  let ?gs = "gasAmounts w numSigners executionRequiredGasLimit warpMessageSize
      teleporterMessageSize teleporterReceiptsCount"
  have range: "0 \<le> executionRequiredGasLimit \<and> executionRequiredGasLimit < 2 ^ 64"
    using assms(2) by (simp add: CalculateReceiveMessageGasLimit_def split: if_splits)
  then have code: "add_gas (Add64 w) (hd ?gs) (tl ?gs) = Inr g"
    using assms(2) by (simp add: CalculateReceiveMessageGasLimit_def Let_def)
  have split: "unat (hd ?gs) + total_gas (tl ?gs) = total_gas ?gs"
    by (simp add: gasAmounts_def total_gas_def)
  have sum: "unat g = total_gas ?gs"
    using add_gas_ok [OF assms(1), of "hd ?gs" "tl ?gs"]
      add_gas_err [OF assms(1), of "hd ?gs" "tl ?gs"] code
    by (cases "total_gas ?gs < 2 ^ 64") (auto simp: split)
  have e: "int (unat (word_of_int executionRequiredGasLimit :: u64)) = executionRequiredGasLimit"
    using range by (simp add: word_of_int_inverse)
  have "unat (word_of_int executionRequiredGasLimit :: u64) + 250000
      + unat (GasCostPerSignatureVerification w) \<le> total_gas ?gs"
    by (simp add: total_gas_def gasAmounts_def gas_constants)
  then have "int (unat (word_of_int executionRequiredGasLimit :: u64)) + 250000
      + int (unat (GasCostPerSignatureVerification w)) \<le> int (unat g)"
    using sum by linarith
  then show ?thesis
    using range by (simp only: e uint_nat) 
qed

theorem gas_limit_lower_bound_witness:
  "300000 + 250000 + uint (GasCostPerSignatureVerification warp_gas_example) \<le> uint (650000 :: u64)"
proof -
  have "add64_spec (Add64 warp_gas_example)"
    by (simp add: warp_gas_example_def checked_add64_spec)
  from gas_limit_lower_bound [OF this gas_example] show ?thesis
    by simp
qed

end
