(* ===== verification/GoStrings.thy ===== *)
theory GoStrings
  imports Prelude
begin

text \<open>
  The part of Go's standard library on strings that the modelled code calls: \<open>strings.ToLower\<close>,
  \<open>TrimPrefix\<close>, \<open>Split\<close>, \<open>ReplaceAll\<close>, \<open>strconv.ParseUint\<close> and \<open>FormatUint\<close> in base 10,
  \<open>strconv.FormatBool\<close>, and \<open>encoding/hex\<close>. A Go string is its list of bytes, here a HOL \<open>string\<close>;
  \<open>ToLower\<close> is exact on ASCII strings. Each pair of a printer and a parser comes with its
  round-trip law, proved once from the interface \<open>text_codec\<close>.
\<close>

section \<open>Case, prefixes, splitting, replacing\<close>

definition lower_char :: "char \<Rightarrow> char" where
  "lower_char c = (let n = of_char c :: nat in if 65 \<le> n \<and> n \<le> 90 then char_of (n + 32) else c)"

definition ToLower :: "string \<Rightarrow> string" where
  "ToLower s = map lower_char s"

definition TrimPrefix :: "string \<Rightarrow> string \<Rightarrow> string" where
  "TrimPrefix s p = (if take (length p) s = p then drop (length p) s else s)"

fun Split :: "string \<Rightarrow> char \<Rightarrow> string list" where
  "Split [] sep = [[]]"
| "Split (c # cs) sep =
     (if c = sep then [] # Split cs sep
      else case Split cs sep of [] \<Rightarrow> [[c]] | w # ws \<Rightarrow> (c # w) # ws)"

function ReplaceAll :: "string \<Rightarrow> string \<Rightarrow> string \<Rightarrow> string" where
  "ReplaceAll s old new =
     (if s = [] \<or> old = [] then s
      else if take (length old) s = old then new @ ReplaceAll (drop (length old) s) old new
      else hd s # ReplaceAll (tl s) old new)"
  by pat_completeness auto
termination
  by (relation "measure (\<lambda>(s, old, new). length s)") (auto simp: length_greater_0_conv)

declare ReplaceAll.simps [simp del]

definition FormatBool :: "bool \<Rightarrow> string" where
  "FormatBool b = (if b then ''true'' else ''false'')"

lemma lower_char_idem: "lower_char (lower_char c) = lower_char c"
  by (auto simp: lower_char_def Let_def)

lemma ToLower_idem [simp]: "ToLower (ToLower s) = ToLower s"
  by (simp add: ToLower_def lower_char_idem)

lemma TrimPrefix_append [simp]: "TrimPrefix (p @ s) p = s"
  by (simp add: TrimPrefix_def)

lemma TrimPrefix_0x [simp]: "TrimPrefix (CHR ''0'' # CHR ''x'' # s) ''0x'' = s"
  by (simp add: TrimPrefix_def)

lemma Split_nonempty: "Split s sep \<noteq> []"
  by (induction s sep rule: Split.induct) (auto split: list.splits)

lemma Split_no_sep: "sep \<notin> set s \<Longrightarrow> Split s sep = [s]"
  by (induction s) auto

lemma Split_append: "sep \<notin> set s \<Longrightarrow> Split (s @ sep # t) sep = s # Split t sep"
  by (induction s) auto

text \<open>What \<open>ReplaceAll\<close> does at an occurrence and at a text without the first character.\<close>

lemma ReplaceAll_at: "old \<noteq> [] \<Longrightarrow> ReplaceAll (old @ s) old new = new @ ReplaceAll s old new"
  by (subst ReplaceAll.simps) simp

lemma ReplaceAll_Nil [simp]: "ReplaceAll [] old new = []"
  by (subst ReplaceAll.simps) simp

lemma ReplaceAll_skip:
  assumes "hd old \<notin> set s" and "old \<noteq> []"
  shows "ReplaceAll (s @ t) old new = s @ ReplaceAll t old new"
  using assms(1)
proof (induction s)
  case Nil
  then show ?case by simp
next
  case (Cons c s)
  have "take (length old) ((c # s) @ t) \<noteq> old"
  proof
    assume "take (length old) ((c # s) @ t) = old"
    then have "hd old = c"
      using assms(2) by (cases old) auto
    with Cons.prems show False by simp
  qed
  then have "ReplaceAll ((c # s) @ t) old new = c # ReplaceAll (s @ t) old new"
    using assms(2) by (subst ReplaceAll.simps) simp
  with Cons show ?case by simp
qed

lemma ReplaceAll_absent:
  "hd old \<notin> set s \<Longrightarrow> old \<noteq> [] \<Longrightarrow> ReplaceAll s old new = s"
  using ReplaceAll_skip [of old s "[]" new] by simp

text \<open>
  Replacing all occurrences leaves none, if the new text cannot take part in one: it lacks the first
  and the last character of the old one and is at most one character shorter.
\<close>

fun occurs :: "string \<Rightarrow> string \<Rightarrow> bool" where
  "occurs old [] = (old = [])"
| "occurs old (c # cs) = (take (length old) (c # cs) = old \<or> occurs old cs)"

lemma ReplaceAll_no_occurrence:
  "old \<noteq> [] \<Longrightarrow> \<not> occurs old s \<Longrightarrow> ReplaceAll s old new = s"
proof (induction s)
  case (Cons c s)
  then show ?case
    by (subst ReplaceAll.simps) simp
qed simp

lemma occurs_append:
  assumes "old \<noteq> []" and "hd old \<notin> set new"
  shows "occurs old (new @ s) \<longleftrightarrow> occurs old s"
  using assms(2)
proof (induction new)
  case (Cons c new)
  have "take (length old) ((c # new) @ s) \<noteq> old"
    using assms(1) Cons.prems by (cases old) auto
  with Cons show ?case
    by simp
qed simp

lemma ReplaceAll_first:
  assumes "old \<noteq> []"
  shows "ReplaceAll s old new = s \<or>
    (\<exists>p u r. s = p @ old @ u \<and> ReplaceAll s old new = p @ new @ r)"
proof (induction s)
  case (Cons c s)
  show ?case
  proof (cases "take (length old) (c # s) = old")
    case True
    then have "c # s = old @ drop (length old) (c # s)"
      by (metis append_take_drop_id)
    then show ?thesis
      using ReplaceAll_at [OF assms, of "drop (length old) (c # s)" new]
      by (metis append_Nil)
  next
    case False
    then have step: "ReplaceAll (c # s) old new = c # ReplaceAll s old new"
      using assms by (subst ReplaceAll.simps) simp
    show ?thesis
      using Cons.IH
    proof
      assume "ReplaceAll s old new = s"
      with step show ?thesis
        by simp
    next
      assume "\<exists>p u r. s = p @ old @ u \<and> ReplaceAll s old new = p @ new @ r"
      then obtain p u r where "s = p @ old @ u" and "ReplaceAll s old new = p @ new @ r"
        by blast
      with step show ?thesis
        by (intro disjI2 exI [of _ "c # p"] exI [of _ u] exI [of _ r]) simp
    qed
  qed
qed simp

lemma ReplaceAll_leaves_none:
  assumes "old \<noteq> []" and "hd old \<notin> set new" and "last old \<notin> set new"
    and "length old \<le> Suc (length new)"
  shows "\<not> occurs old (ReplaceAll s old new)"
  using assms
proof (induction s old new rule: ReplaceAll.induct)
  case (1 s old new)
  consider "s = []" | "s \<noteq> []" "take (length old) s = old" | c cs where "s = c # cs" "take (length old) s \<noteq> old"
    by (cases s) auto
  then show ?case
  proof cases
    case 1
    then show ?thesis
      using "1.prems"(1) by simp
  next
    case 2
    then show ?thesis
      using "1.IH"(1) "1.prems" occurs_append [of old new] by (subst ReplaceAll.simps) simp
  next
    case 3
    let ?r = "ReplaceAll cs old new"
    have "take (length old) (c # ?r) \<noteq> old"
      using ReplaceAll_first [OF "1.prems"(1), of cs new]
    proof
      assume "?r = cs"
      with 3 show ?thesis
        by simp
    next
      assume "\<exists>p u r. cs = p @ old @ u \<and> ?r = p @ new @ r"
      then obtain p u r where cs: "cs = p @ old @ u" and r: "?r = p @ new @ r"
        by blast
      show ?thesis
      proof (cases "length old \<le> Suc (length p)")
        case True
        then have "take (length old) (c # p @ new @ r) = take (length old) (c # p @ old @ u)"
          by (cases "length old") simp_all
        then have "take (length old) (c # ?r) = take (length old) (c # cs)"
          unfolding r [symmetric] cs [symmetric] .
        with 3 show ?thesis
          by simp
      next
        case False
        then obtain k where k: "length old = Suc (Suc (length p)) + k"
          using le_Suc_ex [of "Suc (Suc (length p))" "length old"] by auto
        then have "(c # ?r) ! (length old - 1) = new ! k" and "k < length new"
          using "1.prems"(4) by (simp_all add: r nth_append)
        then have "(c # ?r) ! (length old - 1) \<noteq> last old"
          using "1.prems"(3) nth_mem by metis
        moreover have "take (length old) (c # ?r) ! (length old - 1) = (c # ?r) ! (length old - 1)"
          using "1.prems"(1) by (intro nth_take) simp
        ultimately show ?thesis
          using "1.prems"(1) last_conv_nth by metis
      qed
    qed
    moreover have "\<not> occurs old ?r"
      using "1.IH"(2) "1.prems" 3 by simp
    ultimately show ?thesis
      using 3 "1.prems"(1) by (subst ReplaceAll.simps) simp
  qed
qed

text \<open>
  A new text that starts with a character foreign to \<open>t\<close>, and has none that \<open>t\<close> starts with, cannot take
  part in an occurrence of \<open>t\<close>: replacing does not create one.
\<close>

lemma ReplaceAll_prefix:
  assumes "u \<noteq> []" and "v \<noteq> []" and "hd v \<notin> set t" and "take (length t) (ReplaceAll s u v) = t"
  shows "take (length t) s = t"
  using ReplaceAll_first [OF assms(1), of s v]
proof
  assume "ReplaceAll s u v = s"
  with assms(4) show ?thesis by simp
next
  assume "\<exists>p w r. s = p @ u @ w \<and> ReplaceAll s u v = p @ v @ r"
  then obtain p w r where s: "s = p @ u @ w" and t: "take (length t) (p @ v @ r) = t"
    using assms(4) by auto
  have "length t \<le> length p"
  proof (rule ccontr)
    assume "\<not> length t \<le> length p"
    then have "t ! length p = (p @ v @ r) ! length p" and "length p < length t"
      using t by (metis not_le nth_take, simp)
    moreover have "(p @ v @ r) ! length p = hd v"
      using assms(2) by (cases v) (simp_all add: nth_append)
    ultimately show False
      using assms(3) by (metis nth_mem)
  qed
  then show ?thesis
    using t by (simp add: s)
qed

lemma occurs_in_append: "occurs t s \<Longrightarrow> occurs t (w @ s)"
  by (induction w) simp_all

lemma ReplaceAll_creates_none:
  assumes "u \<noteq> []" and "v \<noteq> []" and "hd v \<notin> set t" and "t \<noteq> []" and "hd t \<notin> set v"
    and "occurs t (ReplaceAll s u v)"
  shows "occurs t s"
  using assms
proof (induction s u v rule: ReplaceAll.induct)
  case (1 s u v)
  show ?case
  proof (cases s)
    case Nil
    with "1.prems" show ?thesis by simp
  next
    case (Cons c cs)
    show ?thesis
    proof (cases "take (length u) s = u")
      case True
      then have s: "s = u @ drop (length u) s"
        by (metis append_take_drop_id)
      then have "ReplaceAll s u v = v @ ReplaceAll (drop (length u) s) u v"
        using ReplaceAll_at [OF "1.prems"(1), of "drop (length u) s" v] by simp
      then have "occurs t (ReplaceAll (drop (length u) s) u v)"
        using "1.prems" occurs_append [of t v] by simp
      then have "occurs t (drop (length u) s)"
        using "1.IH"(1) True Cons "1.prems" by simp
      then show ?thesis
        using s occurs_in_append by metis
    next
      case False
      then have step: "ReplaceAll s u v = c # ReplaceAll cs u v"
        using Cons "1.prems"(1) by (subst ReplaceAll.simps) simp
      show ?thesis
        using ReplaceAll_prefix [OF "1.prems"(1-3), of s] "1.IH"(2) False Cons "1.prems" step by auto
    qed
  qed
qed

lemma ReplaceAll_removes:
  assumes "u \<noteq> []" and "v \<noteq> []" and "hd v \<notin> set u" and "hd u \<notin> set v"
  shows "\<not> occurs u (ReplaceAll s u v)"
  using assms
proof (induction s u v rule: ReplaceAll.induct)
  case (1 s u v)
  show ?case
  proof (cases s)
    case Nil
    with "1.prems" show ?thesis by simp
  next
    case (Cons c cs)
    show ?thesis
    proof (cases "take (length u) s = u")
      case True
      then have "s = u @ drop (length u) s"
        by (metis append_take_drop_id)
      then have "ReplaceAll s u v = v @ ReplaceAll (drop (length u) s) u v"
        using ReplaceAll_at [OF "1.prems"(1), of "drop (length u) s" v] by simp
      then show ?thesis
        using "1.IH"(1) True Cons "1.prems" occurs_append [of u v] by simp
    next
      case False
      then have step: "ReplaceAll s u v = c # ReplaceAll cs u v"
        using Cons "1.prems"(1) by (subst ReplaceAll.simps) simp
      have "take (length u) (c # ReplaceAll cs u v) \<noteq> u"
        using ReplaceAll_prefix [OF "1.prems"(1-3), of s] False step by auto
      then show ?thesis
        using "1.IH"(2) False Cons "1.prems" step by simp
    qed
  qed
qed

section \<open>Printing and parsing\<close>

text \<open>
  The contract of a printer and its parser, with the range of values the parser accepts.
\<close>

locale text_codec =
  fixes print :: "'a \<Rightarrow> string"
    and parse :: "string \<Rightarrow> goerr + 'a"
    and ok :: "'a \<Rightarrow> bool"
  assumes parse_print: "ok x \<Longrightarrow> parse (print x) = Inr x"
begin

lemma print_inj: "ok x \<Longrightarrow> ok y \<Longrightarrow> print x = print y \<longleftrightarrow> x = y"
  by (metis Inr_inject parse_print)

lemma parse_ok: "ok x \<Longrightarrow> is_Ok (parse (print x))"
  by (simp add: parse_print)

end

subsection \<open>strconv\<close>

definition digit_char :: "nat \<Rightarrow> char" where
  "digit_char d = char_of (48 + d)"

definition digit_val :: "char \<Rightarrow> nat option" where
  "digit_val c = (let n = of_char c in if 48 \<le> n \<and> n \<le> 57 then Some (n - 48) else None)"

fun FormatUint :: "nat \<Rightarrow> string" where
  "FormatUint n =
     (if n < 10 then [digit_char n] else FormatUint (n div 10) @ [digit_char (n mod 10)])"

declare FormatUint.simps [simp del]

fun parse_loop :: "nat \<Rightarrow> string \<Rightarrow> nat \<Rightarrow> goerr + nat" where
  "parse_loop bits [] n = Inr n"
| "parse_loop bits (c # cs) n =
     (case digit_val c of
        None \<Rightarrow> Inl [''invalid syntax'']
      | Some d \<Rightarrow>
          if 10 * n + d < 2 ^ bits then parse_loop bits cs (10 * n + d)
          else Inl [''value out of range''])"

definition ParseUint :: "nat \<Rightarrow> string \<Rightarrow> goerr + nat" where
  "ParseUint bits s = (if s = [] then Inl [''invalid syntax''] else parse_loop bits s 0)"

lemma digit_val_char: "d < 10 \<Longrightarrow> digit_val (digit_char d) = Some d"
  by (simp add: digit_val_def digit_char_def)

lemma parse_loop_append:
  "parse_loop bits (xs @ ys) n = rbind (parse_loop bits xs n) (parse_loop bits ys)"
  by (induction bits xs n rule: parse_loop.induct) (auto split: option.splits)

lemma FormatUint_nonempty: "FormatUint n \<noteq> []"
  by (subst FormatUint.simps) simp

lemma parse_loop_FormatUint: "n < 2 ^ bits \<Longrightarrow> parse_loop bits (FormatUint n) 0 = Inr n"
proof (induction n rule: FormatUint.induct)
  case (1 n)
  show ?case
  proof (cases "n < 10")
    case True
    with "1.prems" show ?thesis
      by (subst FormatUint.simps) (simp add: digit_val_char)
  next
    case False
    have "n div 10 < 2 ^ bits"
      using "1.prems" by (meson div_le_dividend le_less_trans)
    with False "1.IH" have "parse_loop bits (FormatUint (n div 10)) 0 = Inr (n div 10)"
      by simp
    with False "1.prems" show ?thesis
      by (subst FormatUint.simps) (simp add: parse_loop_append digit_val_char)
  qed
qed

lemma parse_loop_less: "parse_loop bits s n = Inr m \<Longrightarrow> n < 2 ^ bits \<Longrightarrow> m < 2 ^ bits"
  by (induction bits s n rule: parse_loop.induct) (auto split: option.splits if_splits)

lemma ParseUint_less: "ParseUint bits s = Inr m \<Longrightarrow> m < 2 ^ bits"
  by (auto simp: ParseUint_def dest: parse_loop_less split: if_splits)

interpretation uint64_text: text_codec FormatUint "ParseUint 64" "\<lambda>n. n < 2 ^ 64"
  by unfold_locales (simp add: ParseUint_def FormatUint_nonempty parse_loop_FormatUint)

interpretation uint32_text: text_codec FormatUint "ParseUint 32" "\<lambda>n. n < 2 ^ 32"
  by unfold_locales (simp add: ParseUint_def FormatUint_nonempty parse_loop_FormatUint)

lemma digit_char_range: "d < 10 \<Longrightarrow> 48 \<le> (of_char (digit_char d) :: nat) \<and> (of_char (digit_char d) :: nat) \<le> 57"
  by (simp add: digit_char_def)

lemma set_FormatUint: "c \<in> set (FormatUint n) \<Longrightarrow> 48 \<le> (of_char c :: nat) \<and> (of_char c :: nat) \<le> 57"
proof (induction n rule: FormatUint.induct)
  case (1 n)
  show ?case
  proof (cases "n < 10")
    case True
    with "1.prems" have "c = digit_char n"
      by (subst (asm) FormatUint.simps) simp
    with True show ?thesis by (simp only: digit_char_range)
  next
    case False
    with "1.prems" have "c \<in> set (FormatUint (n div 10)) \<or> c = digit_char (n mod 10)"
      by (subst (asm) FormatUint.simps) auto
    then show ?thesis
      using "1.IH" [OF False] digit_char_range [of "n mod 10"] by auto
  qed
qed

subsection \<open>encoding/hex\<close>

definition hex_char :: "nat \<Rightarrow> char" where
  "hex_char d = (if d < 10 then char_of (48 + d) else char_of (87 + d))"

definition hex_val :: "char \<Rightarrow> nat option" where
  "hex_val c =
     (let n = of_char c in
      if 48 \<le> n \<and> n \<le> 57 then Some (n - 48)
      else if 97 \<le> n \<and> n \<le> 102 then Some (n - 87)
      else if 65 \<le> n \<and> n \<le> 70 then Some (n - 55)
      else None)"

fun hex_encode :: "bytes \<Rightarrow> string" where
  "hex_encode [] = []"
| "hex_encode (b # bs) = hex_char (unat b div 16) # hex_char (unat b mod 16) # hex_encode bs"

fun hex_decode :: "string \<Rightarrow> goerr + bytes" where
  "hex_decode [] = Inr []"
| "hex_decode [c] =
     (case hex_val c of
        None \<Rightarrow> Inl [''encoding/hex: invalid byte'']
      | Some _ \<Rightarrow> Inl [''encoding/hex: odd length hex string''])"
| "hex_decode (c # d # s) =
     (case hex_val c of
        None \<Rightarrow> Inl [''encoding/hex: invalid byte'']
      | Some h \<Rightarrow>
         (case hex_val d of
            None \<Rightarrow> Inl [''encoding/hex: invalid byte'']
          | Some l \<Rightarrow> rbind (hex_decode s) (\<lambda>bs. Inr (of_nat (16 * h + l) # bs))))"

lemma hex_val_char: "d < 16 \<Longrightarrow> hex_val (hex_char d) = Some d"
  by (simp add: hex_val_def hex_char_def)

lemma hex_decode_encode: "hex_decode (hex_encode bs) = Inr bs"
proof (induction bs)
  case Nil
  then show ?case by simp
next
  case (Cons b bs)
  have "unat b < 2 ^ LENGTH(8)"
    by (rule unsigned_less)
  then have "unat b div 16 < 16" and "unat b mod 16 < 16"
    by (simp_all add: less_mult_imp_div_less)
  moreover have "(of_nat (16 * (unat b div 16) + unat b mod 16) :: byte) = of_nat (unat b)"
    by (simp only: mult_div_mod_eq)
  then have "(of_nat (16 * (unat b div 16) + unat b mod 16) :: byte) = b"
    by simp
  ultimately show ?case
    by (simp only: hex_encode.simps hex_decode.simps hex_val_char option.case Cons.IH rbind_simps)
qed

interpretation hex_text: text_codec hex_encode hex_decode "\<lambda>_. True"
  by unfold_locales (rule hex_decode_encode)

lemma length_hex_encode [simp]: "length (hex_encode bs) = 2 * length bs"
  by (induction bs) simp_all

lemma hex_decode_length: "hex_decode s = Inr bs \<Longrightarrow> length s = 2 * length bs"
  by (induction s arbitrary: bs rule: hex_decode.induct)
    (auto simp: go_splits split: option.splits)

end
