(* ===== verification/Abi.thy ===== *)
theory Abi
  imports Prelude "HOL-Library.Monad_Syntax"
begin

text \<open>
  The boundary with package \<open>subnet-evm/accounts/abi\<close>, which is not part of the repository.

  \<open>abi_type\<close> is what \<open>abi.NewType\<close> builds, \<open>go_val\<close> the dynamic view \<open>reflect\<close> has of the Go values
  that are packed (a struct is the list of its exported fields; \<open>GArr32\<close> is a \<open>[32]byte\<close>, \<open>GHash\<close> a
  \<open>common.Hash\<close> and \<open>GID\<close> an \<open>ids.ID\<close>, which print differently), and \<open>contract_abi\<close> a parsed
  contract ABI. The package's functions are the fields of the parameter \<open>abi_codec\<close>; what the code
  relies on is stated by \<open>codec_roundtrip\<close>, \<open>codec_static\<close>, \<open>codec_methods\<close>, \<open>codec_events\<close>, \<open>event_ids\<close>.
  All of them speak of values that \<open>matches\<close> the declared types: the package finds the Go field of
  a tuple component by the component's name with its first letter in upper case, and a Go integer
  type by the width. The locale \<open>abi_packer\<close> is the interface \<open>ABIPacker\<close> of \<open>packer.go\<close>.
\<close>

section \<open>Types and values\<close>

datatype abi_type =
    TUint nat
  | TBool
  | TAddress
  | TBytes
  | TBytes32
  | TString
  | TTuple "(string \<times> abi_type) list"
  | TArray abi_type

datatype go_val =
    GNil
  | GBig int
  | GUint nat nat
  | GBool bool
  | GAddr address
  | GBytes bytes
  | GArr32 hash
  | GHash hash
  | GID hash
  | GStr string
  | GStruct "(string \<times> go_val) list"
  | GSlice "go_val list"

text \<open>The Go name of a component: an exported field, so its first letter is in upper case.\<close>

definition upper_char :: "char \<Rightarrow> char" where
  "upper_char c = (let n = of_char c :: nat in if 97 \<le> n \<and> n \<le> 122 then char_of (n - 32) else c)"

lemma upper_letters [simp]:
  "upper_char CHR ''a'' = CHR ''A''" "upper_char CHR ''b'' = CHR ''B''"
  "upper_char CHR ''c'' = CHR ''C''" "upper_char CHR ''d'' = CHR ''D''"
  "upper_char CHR ''e'' = CHR ''E''" "upper_char CHR ''f'' = CHR ''F''"
  "upper_char CHR ''g'' = CHR ''G''" "upper_char CHR ''h'' = CHR ''H''"
  "upper_char CHR ''i'' = CHR ''I''" "upper_char CHR ''j'' = CHR ''J''"
  "upper_char CHR ''k'' = CHR ''K''" "upper_char CHR ''l'' = CHR ''L''"
  "upper_char CHR ''m'' = CHR ''M''" "upper_char CHR ''n'' = CHR ''N''"
  "upper_char CHR ''o'' = CHR ''O''" "upper_char CHR ''p'' = CHR ''P''"
  "upper_char CHR ''q'' = CHR ''Q''" "upper_char CHR ''r'' = CHR ''R''"
  "upper_char CHR ''s'' = CHR ''S''" "upper_char CHR ''t'' = CHR ''T''"
  "upper_char CHR ''u'' = CHR ''U''" "upper_char CHR ''v'' = CHR ''V''"
  "upper_char CHR ''w'' = CHR ''W''" "upper_char CHR ''x'' = CHR ''X''"
  "upper_char CHR ''y'' = CHR ''Y''" "upper_char CHR ''z'' = CHR ''Z''"
  by code_simp+

fun export_name :: "string \<Rightarrow> string" where
  "export_name [] = []"
| "export_name (c # cs) = upper_char c # cs"

fun matches :: "abi_type \<Rightarrow> go_val \<Rightarrow> bool"
  and matches_fields :: "(string \<times> abi_type) list \<Rightarrow> (string \<times> go_val) list \<Rightarrow> bool" where
  "matches (TUint n) (GBig i) = (n = 256 \<and> 0 \<le> i \<and> i < 2 ^ 256)"
| "matches (TUint n) (GUint m k) = (n = m \<and> n \<in> {8, 16, 32, 64} \<and> k < 2 ^ m)"
| "matches TBool (GBool b) = True"
| "matches TAddress (GAddr a) = True"
| "matches TBytes (GBytes b) = True"
| "matches TBytes32 (GArr32 h) = True"
| "matches TString (GStr s) = True"
| "matches (TTuple cs) (GStruct fs) = matches_fields cs fs"
| "matches (TArray t) (GSlice vs) = (\<forall>v \<in> set vs. matches t v)"
| "matches _ _ = False"
| "matches_fields [] [] = True"
| "matches_fields ((n, t) # cs) ((f, v) # fs) =
     (f = export_name n \<and> matches t v \<and> matches_fields cs fs)"
| "matches_fields _ _ = False"

definition in_uint256 :: "int \<Rightarrow> bool" where
  "in_uint256 i \<longleftrightarrow> 0 \<le> i \<and> i < 2 ^ 256"

lemma matches_GBig [simp]: "matches (TUint 256) (GBig i) \<longleftrightarrow> in_uint256 i"
  by (simp add: in_uint256_def)

text \<open>A machine integer is always a value of the Solidity type of its width.\<close>

lemma unat_widths [simp]:
  "unat (a :: u8) < 256" "unat (b :: u16) < 65536" "unat (c :: u32) < 4294967296"
  "unat (d :: u64) < 18446744073709551616"
  using unsigned_less [of a] unsigned_less [of b] unsigned_less [of c] unsigned_less [of d]
  by simp_all

type_synonym abi_args = "(string \<times> abi_type) list"

fun matches_args :: "abi_args \<Rightarrow> go_val list \<Rightarrow> bool" where
  "matches_args [] [] = True"
| "matches_args ((n, t) # as) (v # vs) = (matches t v \<and> matches_args as vs)"
| "matches_args _ _ = False"

text \<open>Types whose encoding has no tail, and the number of 32-byte words of their encoding.\<close>

fun static :: "abi_type \<Rightarrow> bool" where
  "static (TUint n) = True"
| "static TBool = True"
| "static TAddress = True"
| "static TBytes = False"
| "static TBytes32 = True"
| "static TString = False"
| "static (TTuple cs) = (\<forall>c \<in> set cs. static (snd c))"
| "static (TArray t) = False"

fun words :: "abi_type \<Rightarrow> nat" where
  "words (TTuple cs) = sum_list (map (\<lambda>c. words (snd c)) cs)"
| "words _ = 1"

text \<open>Reading dynamic values: a struct field by name, and the content of a value of one kind.\<close>

fun go_field :: "string \<Rightarrow> go_val \<Rightarrow> go_val option" where
  "go_field f (GStruct fs) = map_of fs f"
| "go_field f _ = None"

fun go_big :: "go_val \<Rightarrow> int option" where
  "go_big (GBig i) = Some i"
| "go_big _ = None"

fun go_addr :: "go_val \<Rightarrow> address option" where
  "go_addr (GAddr a) = Some a"
| "go_addr _ = None"

fun go_arr32 :: "go_val \<Rightarrow> hash option" where
  "go_arr32 (GArr32 h) = Some h"
| "go_arr32 _ = None"

fun go_bytes :: "go_val \<Rightarrow> bytes option" where
  "go_bytes (GBytes b) = Some b"
| "go_bytes _ = None"

fun go_bool :: "go_val \<Rightarrow> bool option" where
  "go_bool (GBool b) = Some b"
| "go_bool _ = None"

fun go_str :: "go_val \<Rightarrow> string option" where
  "go_str (GStr s) = Some s"
| "go_str _ = None"

fun go_word :: "nat \<Rightarrow> go_val \<Rightarrow> 'a::len word option" where
  "go_word m (GUint n k) = (if n = m then Some (of_nat k) else None)"
| "go_word m _ = None"

fun go_slice :: "go_val \<Rightarrow> go_val list option" where
  "go_slice (GSlice vs) = Some vs"
| "go_slice _ = None"

fun all_some :: "'a option list \<Rightarrow> 'a list option" where
  "all_some [] = Some []"
| "all_some (x # xs) =
     (case x of None \<Rightarrow> None | Some y \<Rightarrow> map_option (\<lambda>ys. y # ys) (all_some xs))"

text \<open>
  \<open>Arguments.Copy\<close> into one struct or value: an error if the unpacked values do not fit it.
\<close>

definition Copy1 :: "(go_val \<Rightarrow> 'a option) \<Rightarrow> go_val list \<Rightarrow> goerr + 'a" where
  "Copy1 f vs =
     (case vs of
        [v] \<Rightarrow> (case f v of Some x \<Rightarrow> Inr x | None \<Rightarrow> Inl [''abi: cannot unmarshal''])
      | _ \<Rightarrow> Inl [''abi: argument count mismatch''])"

lemma Copy1_simps [simp]: "f v = Some x \<Longrightarrow> Copy1 f [v] = Inr x"
  by (simp add: Copy1_def)

lemma all_some_map: "(\<And>x. g (f x) = Some x) \<Longrightarrow> all_some (map g (map f xs)) = Some xs"
  by (induction xs) simp_all

text \<open>Looking a name up in a table, one comparison at a time.\<close>

lemma map_of_if: "map_of ((k, v) # xs) x = (if x = k then Some v else map_of xs x)"
  by simp

lemmas table_lookup = map_of_if list.inject list.distinct char.inject simp_thms if_True if_False

section \<open>The package as a parameter\<close>

record contract_abi =
  Methods :: "(string \<times> abi_args \<times> abi_args) list"
  Events :: "(string \<times> (string \<times> abi_type \<times> bool) list) list"

record abi_codec =
  pack_args :: "abi_args \<Rightarrow> go_val list \<Rightarrow> goerr + bytes"
  unpack_args :: "abi_args \<Rightarrow> bytes \<Rightarrow> goerr + go_val list"
  GetAbi :: "contract_abi \<Rightarrow> goerr + contract_abi"
  selector :: "contract_abi \<Rightarrow> string \<Rightarrow> bytes"
  pack_method :: "contract_abi \<Rightarrow> string \<Rightarrow> go_val list \<Rightarrow> goerr + bytes"
  pack_output :: "contract_abi \<Rightarrow> string \<Rightarrow> go_val list \<Rightarrow> goerr + bytes"
  unpack_output :: "contract_abi \<Rightarrow> string \<Rightarrow> bytes \<Rightarrow> goerr + go_val list"
  pack_event :: "contract_abi \<Rightarrow> string \<Rightarrow> go_val list \<Rightarrow> goerr + hash list \<times> bytes"
  unpack_event_data :: "contract_abi \<Rightarrow> string \<Rightarrow> go_val \<Rightarrow> bytes \<Rightarrow> goerr + go_val"
  parse_topics :: "(string \<times> abi_type \<times> bool) list \<Rightarrow> go_val \<Rightarrow> hash list \<Rightarrow> goerr + go_val"
  event_by_id :: "contract_abi \<Rightarrow> hash \<Rightarrow> goerr + string"
  keccak :: "bytes \<Rightarrow> hash"

text \<open>\<open>Arguments.Pack\<close> then \<open>Arguments.Unpack\<close> gives the packed values back.\<close>

definition codec_roundtrip :: "abi_codec \<Rightarrow> bool" where
  "codec_roundtrip c \<longleftrightarrow>
     (\<forall>as vs. matches_args as vs \<longrightarrow>
        (\<exists>b. pack_args c as vs = Inr b \<and> unpack_args c as b = Inr vs))"

text \<open>Arguments of static types are laid out one after the other in 32-byte words.\<close>

definition codec_static :: "abi_codec \<Rightarrow> bool" where
  "codec_static c \<longleftrightarrow>
     (\<forall>as vs bs ws x y. (\<forall>a \<in> set (as @ bs). static (snd a)) \<longrightarrow>
        matches_args as vs \<longrightarrow> matches_args bs ws \<longrightarrow>
        pack_args c as vs = Inr x \<longrightarrow> pack_args c bs ws = Inr y \<longrightarrow>
        pack_args c (as @ bs) (vs @ ws) = Inr (x @ y)) \<and>
     (\<forall>as vs x. (\<forall>a \<in> set as. static (snd a)) \<longrightarrow> matches_args as vs \<longrightarrow>
        pack_args c as vs = Inr x \<longrightarrow> length x = 32 * sum_list (map (\<lambda>a. words (snd a)) as))"

text \<open>
  \<open>ABI.Pack\<close> prefixes the packed arguments with the method's 4-byte selector, and fails for a method
  the ABI does not declare; \<open>PackOutput\<close> and \<open>UnpackIntoInterface\<close> use the declared outputs.
  \<open>MetaData.GetAbi\<close> parses the JSON of the generated binding.
\<close>

definition codec_methods :: "abi_codec \<Rightarrow> bool" where
  "codec_methods c \<longleftrightarrow>
     (\<forall>abi. GetAbi c abi = Inr abi) \<and>
     (\<forall>abi m. length (selector c abi m) = 4) \<and>
     (\<forall>abi m args. pack_method c abi m args =
        (case map_of (Methods abi) m of
           None \<Rightarrow> Inl [''method not found'']
         | Some (ins, outs) \<Rightarrow>
             rbind (pack_args c ins args) (\<lambda>b. Inr (selector c abi m @ b)))) \<and>
     (\<forall>abi m vals. pack_output c abi m vals =
        (case map_of (Methods abi) m of
           None \<Rightarrow> Inl [''method not found''] | Some (ins, outs) \<Rightarrow> pack_args c outs vals)) \<and>
     (\<forall>abi m b. unpack_output c abi m b =
        (case map_of (Methods abi) m of
           None \<Rightarrow> Inl [''method not found''] | Some (ins, outs) \<Rightarrow> unpack_args c outs b))"

text \<open>
  An event's indexed arguments are read from the topics after the event's own and its other
  arguments from the data; both are stored in the Go fields with the arguments' exported names
  (the package stores the data of a lone argument in the first field).
\<close>

fun set_field :: "string \<Rightarrow> go_val \<Rightarrow> (string \<times> go_val) list \<Rightarrow> (string \<times> go_val) list" where
  "set_field f v [] = []"
| "set_field f v ((g, w) # fs) = (if f = g then (g, v) # fs else (g, w) # set_field f v fs)"

fun set_args ::
  "bool \<Rightarrow> (string \<times> abi_type \<times> bool) list \<Rightarrow> go_val list \<Rightarrow> (string \<times> go_val) list \<Rightarrow>
   (string \<times> go_val) list" where
  "set_args idx ((n, t, i) # as) (v # vs) fs =
     set_args idx as vs (if i = idx then set_field (export_name n) v fs else fs)"
| "set_args idx _ _ fs = fs"

definition event_args :: "(string \<times> abi_type \<times> bool) list \<Rightarrow> abi_args" where
  "event_args ins = map (\<lambda>(n, t, i). (n, t)) ins"

definition has_fields :: "(string \<times> abi_type \<times> bool) list \<Rightarrow> (string \<times> go_val) list \<Rightarrow> bool" where
  "has_fields ins fs \<longleftrightarrow> (\<forall>a \<in> set ins. export_name (fst a) \<in> fst ` set fs)"

text \<open>
  The struct an event is decoded into: it has a field for every argument, and if there is only one
  argument it is the struct's first field.
\<close>

definition fits :: "(string \<times> abi_type \<times> bool) list \<Rightarrow> (string \<times> go_val) list \<Rightarrow> bool" where
  "fits ins fs \<longleftrightarrow> has_fields ins fs \<and>
     (length ins = 1 \<longrightarrow> take 1 (map fst fs) = map (\<lambda>a. export_name (fst a)) ins)"

definition codec_events :: "abi_codec \<Rightarrow> bool" where
  "codec_events c \<longleftrightarrow>
     (\<forall>abi ev ins args. map_of (Events abi) ev = Some ins \<longrightarrow> matches_args (event_args ins) args \<longrightarrow>
       ins \<noteq> [] \<longrightarrow>
       (\<forall>a \<in> set ins. snd (snd a) \<longrightarrow> static (fst (snd a)) \<and> words (fst (snd a)) = 1) \<longrightarrow>
       (\<forall>a \<in> set ins. \<not> snd (snd a) \<longrightarrow> 0 < words (fst (snd a))) \<longrightarrow>
       (\<exists>topic topics data. pack_event c abi ev args = Inr (topic # topics, data) \<and>
          (data = [] \<longleftrightarrow> (\<forall>a \<in> set ins. snd (snd a))) \<and>
          (\<forall>fs. fits ins fs \<longrightarrow>
             unpack_event_data c abi ev (GStruct fs) data =
               Inr (GStruct (set_args False ins args fs)) \<and>
             parse_topics c (filter (\<lambda>(n, t, i). i) ins) (GStruct fs) topics =
               Inr (GStruct (set_args True ins args fs)))))"

text \<open>\<open>EventByID\<close> finds the event of a log by its first topic.\<close>

definition event_ids :: "abi_codec \<Rightarrow> contract_abi \<Rightarrow> bool" where
  "event_ids c abi \<longleftrightarrow>
     (\<forall>ev args topic topics data. pack_event c abi ev args = Inr (topic # topics, data) \<longrightarrow>
        event_by_id c abi topic = Inr ev)"

section \<open>The interface ABIPacker\<close>

text \<open>
  \<open>Pack\<close> and \<open>Unpack\<close> of a message type: for the values the type can carry, packing succeeds and
  unpacking the bytes gives the value back.
\<close>

locale abi_packer =
  fixes Pack :: "abi_codec \<Rightarrow> 'm \<Rightarrow> goerr + bytes"
    and Unpack :: "abi_codec \<Rightarrow> bytes \<Rightarrow> goerr + 'm"
    and wf :: "'m \<Rightarrow> bool"
  assumes pack_unpack:
    "codec_roundtrip c \<Longrightarrow> wf m \<Longrightarrow> \<exists>b. Pack c m = Inr b \<and> Unpack c b = Inr m"
begin

lemma Pack_ok: "codec_roundtrip c \<Longrightarrow> wf m \<Longrightarrow> \<exists>b. Pack c m = Inr b"
  using pack_unpack by blast

lemma Unpack_Pack: "codec_roundtrip c \<Longrightarrow> wf m \<Longrightarrow> Pack c m = Inr b \<Longrightarrow> Unpack c b = Inr m"
  using pack_unpack by fastforce

lemma Pack_inj:
  "codec_roundtrip c \<Longrightarrow> wf m \<Longrightarrow> wf n \<Longrightarrow> Pack c m = Pack c n \<Longrightarrow> m = n"
  using pack_unpack by (metis Inr_inject)

end

text \<open>One argument, packed and unpacked: the shape of every \<open>Pack\<close>/\<open>Unpack\<close> pair of the code.\<close>

lemma codec_roundtrip1:
  assumes "codec_roundtrip c" and "matches t v"
  obtains b where "pack_args c [(n, t)] [v] = Inr b" and "unpack_args c [(n, t)] b = Inr [v]"
proof -
  have "matches_args [(n, t)] [v]"
    using assms(2) by simp
  with assms(1) show ?thesis
    unfolding codec_roundtrip_def by (metis that)
qed

lemma pack_method_ok:
  assumes "codec_methods c" and "codec_roundtrip c"
    and "map_of (Methods abi) m = Some (ins, outs)" and "matches_args ins args"
  shows "\<exists>b. pack_args c ins args = Inr b \<and> pack_method c abi m args = Inr (selector c abi m @ b)"
  using assms by (fastforce simp: codec_methods_def codec_roundtrip_def)

lemma GetAbi_ok: "codec_methods c \<Longrightarrow> GetAbi c abi = Inr abi"
  by (simp add: codec_methods_def)

section \<open>Packed calls\<close>

text \<open>A call packed for a method: its selector, then arguments the contract decodes to the values.\<close>

definition call_of :: "abi_codec \<Rightarrow> contract_abi \<Rightarrow> string \<Rightarrow> go_val list \<Rightarrow> goerr + bytes \<Rightarrow> bool" where
  "call_of c abi m vals r \<longleftrightarrow>
     (\<exists>ins outs b. map_of (Methods abi) m = Some (ins, outs) \<and>
        r = Inr (selector c abi m @ b) \<and> unpack_args c ins b = Inr vals)"

lemma call_of_pack_method:
  assumes "codec_methods c" and "codec_roundtrip c"
    and "map_of (Methods abi) m = Some (ins, outs)" and "matches_args ins vals"
  shows "call_of c abi m vals (pack_method c abi m vals)"
proof -
  obtain b where "pack_args c ins vals = Inr b" and "unpack_args c ins b = Inr vals"
    using assms(2,4) unfolding codec_roundtrip_def by blast
  moreover have "pack_method c abi m vals = rbind (pack_args c ins vals) (\<lambda>b. Inr (selector c abi m @ b))"
    using assms(1,3) by (simp add: codec_methods_def)
  ultimately show ?thesis
    using assms(3) by (auto simp: call_of_def)
qed

end
