(* ===== verification/TeleporterAbi.thy ===== *)
theory TeleporterAbi
  imports Abi
begin

text \<open>
  The data of the generated binding
  \<open>abi-bindings/go/teleporter/TeleporterMessenger/TeleporterMessenger.go\<close> that the rest of the
  code uses: its structs, their dynamic view, and the contract's methods and events as its metadata
  declares them. \<open>MessageID\<close> and the like are \<open>[32]byte\<close>, \<open>*big.Int\<close> fields are \<open>int\<close>.
\<close>

section \<open>Structs\<close>

record TeleporterFeeInfo =
  FeeTokenAddress :: address
  Amount :: int

record TeleporterMessageReceipt =
  ReceivedMessageNonce :: int
  RelayerRewardAddress :: address

record TeleporterMessage =
  MessageNonce :: int
  OriginSenderAddress :: address
  DestinationBlockchainID :: hash
  DestinationAddress :: address
  RequiredGasLimit :: int
  AllowedRelayerAddresses :: "address list"
  Receipts :: "TeleporterMessageReceipt list"
  Message :: bytes

record TeleporterMessageInput =
  InputDestinationBlockchainID :: hash
  InputDestinationAddress :: address
  InputFeeInfo :: TeleporterFeeInfo
  InputRequiredGasLimit :: int
  InputAllowedRelayerAddresses :: "address list"
  InputMessage :: bytes

section \<open>Their dynamic view\<close>

definition fee_info_val :: "TeleporterFeeInfo \<Rightarrow> go_val" where
  "fee_info_val f =
     GStruct [(''FeeTokenAddress'', GAddr (FeeTokenAddress f)), (''Amount'', GBig (Amount f))]"

definition receipt_val :: "TeleporterMessageReceipt \<Rightarrow> go_val" where
  "receipt_val r =
     GStruct [(''ReceivedMessageNonce'', GBig (ReceivedMessageNonce r)),
       (''RelayerRewardAddress'', GAddr (RelayerRewardAddress r))]"

definition message_val :: "TeleporterMessage \<Rightarrow> go_val" where
  "message_val m =
     GStruct [(''MessageNonce'', GBig (MessageNonce m)),
       (''OriginSenderAddress'', GAddr (OriginSenderAddress m)),
       (''DestinationBlockchainID'', GArr32 (DestinationBlockchainID m)),
       (''DestinationAddress'', GAddr (DestinationAddress m)),
       (''RequiredGasLimit'', GBig (RequiredGasLimit m)),
       (''AllowedRelayerAddresses'', GSlice (map GAddr (AllowedRelayerAddresses m))),
       (''Receipts'', GSlice (map receipt_val (Receipts m))),
       (''Message'', GBytes (Message m))]"

definition input_val :: "TeleporterMessageInput \<Rightarrow> go_val" where
  "input_val i =
     GStruct [(''DestinationBlockchainID'', GArr32 (InputDestinationBlockchainID i)),
       (''DestinationAddress'', GAddr (InputDestinationAddress i)),
       (''FeeInfo'', fee_info_val (InputFeeInfo i)),
       (''RequiredGasLimit'', GBig (InputRequiredGasLimit i)),
       (''AllowedRelayerAddresses'', GSlice (map GAddr (InputAllowedRelayerAddresses i))),
       (''Message'', GBytes (InputMessage i))]"

text \<open>
  Reading a struct back from a dynamic value, field by field, as \<open>Arguments.Copy\<close> does.
\<close>

definition receipt_of :: "go_val \<Rightarrow> TeleporterMessageReceipt option" where
  "receipt_of v = do {
     n \<leftarrow> go_field ''ReceivedMessageNonce'' v \<bind> go_big;
     a \<leftarrow> go_field ''RelayerRewardAddress'' v \<bind> go_addr;
     Some \<lparr>ReceivedMessageNonce = n, RelayerRewardAddress = a\<rparr>
   }"

definition fee_info_of :: "go_val \<Rightarrow> TeleporterFeeInfo option" where
  "fee_info_of v = do {
     a \<leftarrow> go_field ''FeeTokenAddress'' v \<bind> go_addr;
     n \<leftarrow> go_field ''Amount'' v \<bind> go_big;
     Some \<lparr>FeeTokenAddress = a, Amount = n\<rparr>
   }"

definition message_of :: "go_val \<Rightarrow> TeleporterMessage option" where
  "message_of v = do {
     nonce \<leftarrow> go_field ''MessageNonce'' v \<bind> go_big;
     sender \<leftarrow> go_field ''OriginSenderAddress'' v \<bind> go_addr;
     dest \<leftarrow> go_field ''DestinationBlockchainID'' v \<bind> go_arr32;
     addr \<leftarrow> go_field ''DestinationAddress'' v \<bind> go_addr;
     gas \<leftarrow> go_field ''RequiredGasLimit'' v \<bind> go_big;
     relayers \<leftarrow> go_field ''AllowedRelayerAddresses'' v \<bind> go_slice;
     rs \<leftarrow> all_some (map go_addr relayers);
     receipts \<leftarrow> go_field ''Receipts'' v \<bind> go_slice;
     rcs \<leftarrow> all_some (map receipt_of receipts);
     msg \<leftarrow> go_field ''Message'' v \<bind> go_bytes;
     Some \<lparr>MessageNonce = nonce, OriginSenderAddress = sender,
       DestinationBlockchainID = dest, DestinationAddress = addr,
       RequiredGasLimit = gas, AllowedRelayerAddresses = rs, Receipts = rcs, Message = msg\<rparr>
   }"

lemma receipt_of_val [simp]: "receipt_of (receipt_val r) = Some r"
  by (simp add: receipt_val_def receipt_of_def)

lemma fee_info_of_val [simp]: "fee_info_of (fee_info_val f) = Some f"
  by (simp add: fee_info_val_def fee_info_of_def)

lemma message_of_val [simp]: "message_of (message_val m) = Some m"
  by (simp add: message_val_def message_of_def all_some_map del: map_map)

section \<open>The contract's ABI (TeleporterMessengerMetaData)\<close>

definition fee_info_tuple :: abi_type where
  "fee_info_tuple = TTuple [(''feeTokenAddress'', TAddress), (''amount'', TUint 256)]"

definition receipt_tuple :: abi_type where
  "receipt_tuple =
     TTuple [(''receivedMessageNonce'', TUint 256), (''relayerRewardAddress'', TAddress)]"

definition message_tuple :: abi_type where
  "message_tuple =
     TTuple [(''messageNonce'', TUint 256), (''originSenderAddress'', TAddress),
       (''destinationBlockchainID'', TBytes32), (''destinationAddress'', TAddress),
       (''requiredGasLimit'', TUint 256), (''allowedRelayerAddresses'', TArray TAddress),
       (''receipts'', TArray receipt_tuple), (''message'', TBytes)]"

definition input_tuple :: abi_type where
  "input_tuple =
     TTuple [(''destinationBlockchainID'', TBytes32), (''destinationAddress'', TAddress),
       (''feeInfo'', fee_info_tuple), (''requiredGasLimit'', TUint 256),
       (''allowedRelayerAddresses'', TArray TAddress), (''message'', TBytes)]"

definition TeleporterMessengerABI :: contract_abi where
  "TeleporterMessengerABI = \<lparr>
      Methods = [
        (''WARP_MESSENGER'', [],
           [('''', TAddress)]),
        (''addFeeAmount'', [(''messageID'', TBytes32), (''feeTokenAddress'', TAddress),
           (''additionalFeeAmount'', TUint 256)],
           []),
        (''blockchainID'', [],
           [('''', TBytes32)]),
        (''calculateMessageID'', [(''sourceBlockchainID'', TBytes32),
           (''destinationBlockchainID'', TBytes32), (''nonce'', TUint 256)],
           [('''', TBytes32)]),
        (''checkRelayerRewardAmount'', [(''relayer'', TAddress), (''feeAsset'', TAddress)],
           [('''', TUint 256)]),
        (''getFeeInfo'', [(''messageID'', TBytes32)],
           [('''', TAddress), ('''', TUint 256)]),
        (''getMessageHash'', [(''messageID'', TBytes32)],
           [('''', TBytes32)]),
        (''getNextMessageID'', [(''destinationBlockchainID'', TBytes32)],
           [('''', TBytes32)]),
        (''getReceiptAtIndex'', [(''sourceBlockchainID'', TBytes32), (''index'', TUint 256)],
           [('''', receipt_tuple)]),
        (''getReceiptQueueSize'', [(''sourceBlockchainID'', TBytes32)],
           [('''', TUint 256)]),
        (''getRelayerRewardAddress'', [(''messageID'', TBytes32)],
           [('''', TAddress)]),
        (''initializeBlockchainID'', [],
           [('''', TBytes32)]),
        (''messageNonce'', [],
           [('''', TUint 256)]),
        (''messageReceived'', [(''messageID'', TBytes32)],
           [('''', TBool)]),
        (''receiptQueues'', [(''sourceBlockchainID'', TBytes32)],
           [(''first'', TUint 256), (''last'', TUint 256)]),
        (''receiveCrossChainMessage'', [(''messageIndex'', TUint 32), (''relayerRewardAddress'',
           TAddress)],
           []),
        (''receivedFailedMessageHashes'', [(''messageID'', TBytes32)],
           [(''messageHash'', TBytes32)]),
        (''redeemRelayerRewards'', [(''feeAsset'', TAddress)],
           []),
        (''retryMessageExecution'', [(''sourceBlockchainID'', TBytes32), (''message'',
           message_tuple)],
           []),
        (''retrySendCrossChainMessage'', [(''message'', message_tuple)],
           []),
        (''sendCrossChainMessage'', [(''messageInput'', input_tuple)],
           [('''', TBytes32)]),
        (''sendSpecifiedReceipts'', [(''sourceBlockchainID'', TBytes32), (''messageIDs'', TArray
           TBytes32), (''feeInfo'', fee_info_tuple), (''allowedRelayerAddresses'', TArray
           TAddress)],
           [('''', TBytes32)]),
        (''sentMessageInfo'', [(''messageID'', TBytes32)],
           [(''messageHash'', TBytes32), (''feeInfo'', fee_info_tuple)])],
      Events = [
        (''AddFeeAmount'', [(''messageID'', TBytes32, True), (''updatedFeeInfo'',
           fee_info_tuple, False)]),
        (''BlockchainIDInitialized'', [(''blockchainID'', TBytes32, True)]),
        (''MessageExecuted'', [(''messageID'', TBytes32, True), (''sourceBlockchainID'',
           TBytes32, True)]),
        (''MessageExecutionFailed'', [(''messageID'', TBytes32, True), (''sourceBlockchainID'',
           TBytes32, True), (''message'', message_tuple, False)]),
        (''ReceiptReceived'', [(''messageID'', TBytes32, True), (''destinationBlockchainID'',
           TBytes32, True), (''relayerRewardAddress'', TAddress, True), (''feeInfo'',
           fee_info_tuple, False)]),
        (''ReceiveCrossChainMessage'', [(''messageID'', TBytes32, True),
           (''sourceBlockchainID'', TBytes32, True), (''deliverer'', TAddress, True),
           (''rewardRedeemer'', TAddress, False), (''message'', message_tuple, False)]),
        (''RelayerRewardsRedeemed'', [(''redeemer'', TAddress, True), (''asset'', TAddress,
           True), (''amount'', TUint 256, False)]),
        (''SendCrossChainMessage'', [(''messageID'', TBytes32, True),
           (''destinationBlockchainID'', TBytes32, True), (''message'', message_tuple, False),
           (''feeInfo'', fee_info_tuple, False)])]\<rparr>"

lemmas tuple_defs = fee_info_tuple_def receipt_tuple_def message_tuple_def input_tuple_def

section \<open>Values the Solidity types can carry\<close>

definition fee_info_ok :: "TeleporterFeeInfo \<Rightarrow> bool" where
  "fee_info_ok f \<longleftrightarrow> in_uint256 (Amount f)"

definition message_ok :: "TeleporterMessage \<Rightarrow> bool" where
  "message_ok m \<longleftrightarrow> in_uint256 (MessageNonce m) \<and> in_uint256 (RequiredGasLimit m) \<and>
     list_all (\<lambda>r. in_uint256 (ReceivedMessageNonce r)) (Receipts m)"

definition input_ok :: "TeleporterMessageInput \<Rightarrow> bool" where
  "input_ok i \<longleftrightarrow> fee_info_ok (InputFeeInfo i) \<and> in_uint256 (InputRequiredGasLimit i)"

lemma matches_fee_info [simp]: "matches fee_info_tuple (fee_info_val f) \<longleftrightarrow> fee_info_ok f"
  by (simp add: fee_info_tuple_def fee_info_val_def fee_info_ok_def del: matches.simps(1))

lemma matches_receipt [simp]:
  "matches receipt_tuple (receipt_val r) \<longleftrightarrow> in_uint256 (ReceivedMessageNonce r)"
  by (simp add: receipt_tuple_def receipt_val_def del: matches.simps(1))

lemma matches_message [simp]: "matches message_tuple (message_val m) \<longleftrightarrow> message_ok m"
  by (auto simp: message_tuple_def message_val_def message_ok_def list_all_iff
      simp del: matches.simps(1))

lemma matches_input [simp]: "matches input_tuple (input_val i) \<longleftrightarrow> input_ok i"
  by (auto simp: input_tuple_def input_val_def input_ok_def
      simp del: matches.simps(1))

end
