(* ===== verification/AbiRef.thy ===== *)
theory AbiRef
  imports Abi
begin

text \<open>
  A concrete codec that satisfies the hypotheses on the ABI package, so that every property that
  assumes them has an instance. It is not the wire format of \<open>subnet-evm/accounts/abi\<close>: static
  values take 32-byte big-endian words as there, a value of dynamic length is prefixed by its
  length in unary and has no offset.
\<close>

section \<open>Encoding and decoding values\<close>

definition unary :: "nat \<Rightarrow> bytes" where
  "unary n = replicate n 1 @ [0]"

fun read_unary :: "bytes \<Rightarrow> (nat \<times> bytes) option" where
  "read_unary [] = None"
| "read_unary (b # bs) =
     (if b = 0 then Some (0, bs) else map_option (\<lambda>(n, r). (Suc n, r)) (read_unary bs))"

fun enc_val :: "go_val \<Rightarrow> bytes" where
  "enc_val GNil = []"
| "enc_val (GBig i) = be_bytes 32 (nat i)"
| "enc_val (GUint m k) = be_bytes 32 k"
| "enc_val (GBool b) = be_bytes 32 (if b then 1 else 0)"
| "enc_val (GAddr a) = be_bytes 32 (unat a)"
| "enc_val (GBytes b) = unary (length b) @ b"
| "enc_val (GArr32 h) = be_bytes 32 (unat h)"
| "enc_val (GHash h) = []"
| "enc_val (GID h) = []"
| "enc_val (GStr s) = unary (length s) @ map of_char s"
| "enc_val (GStruct fs) = concat (map (\<lambda>f. enc_val (snd f)) fs)"
| "enc_val (GSlice vs) = unary (length vs) @ concat (map enc_val vs)"

definition read_word :: "(nat \<Rightarrow> go_val) \<Rightarrow> bytes \<Rightarrow> (go_val \<times> bytes) option" where
  "read_word f b = Some (f (be_val (take 32 b)), drop 32 b)"

fun dec_val :: "abi_type \<Rightarrow> bytes \<Rightarrow> (go_val \<times> bytes) option"
  and dec_fields ::
    "(string \<times> abi_type) list \<Rightarrow> bytes \<Rightarrow> ((string \<times> go_val) list \<times> bytes) option"
  and dec_many :: "abi_type \<Rightarrow> nat \<Rightarrow> bytes \<Rightarrow> (go_val list \<times> bytes) option" where
  "dec_val (TUint n) b = read_word (\<lambda>k. if n = 256 then GBig (int k) else GUint n k) b"
| "dec_val TBool b = read_word (\<lambda>k. GBool (k = 1)) b"
| "dec_val TAddress b = read_word (\<lambda>k. GAddr (of_nat k)) b"
| "dec_val TBytes b =
     map_option (\<lambda>(n, r). (GBytes (take n r), drop n r)) (read_unary b)"
| "dec_val TBytes32 b = read_word (\<lambda>k. GArr32 (of_nat k)) b"
| "dec_val TString b =
     map_option (\<lambda>(n, r). (GStr (map (\<lambda>w. char_of (unat w)) (take n r)), drop n r)) (read_unary b)"
| "dec_val (TTuple cs) b = map_option (\<lambda>(fs, r). (GStruct fs, r)) (dec_fields cs b)"
| "dec_val (TArray t) b =
     Option.bind (read_unary b) (\<lambda>(n, r). map_option (\<lambda>(vs, s). (GSlice vs, s)) (dec_many t n r))"
| "dec_fields [] b = Some ([], b)"
| "dec_fields ((n, t) # cs) b =
     Option.bind (dec_val t b) (\<lambda>(v, r).
       map_option (\<lambda>(fs, s). ((export_name n, v) # fs, s)) (dec_fields cs r))"
| "dec_many t 0 b = Some ([], b)"
| "dec_many t (Suc n) b =
     Option.bind (dec_val t b) (\<lambda>(v, r). map_option (\<lambda>(vs, s). (v # vs, s)) (dec_many t n r))"

lemma read_unary [simp]: "read_unary (unary n @ r) = Some (n, r)"
  by (induction n) (simp_all add: unary_def)

lemma read_word_be: "read_word f (be_bytes 32 k @ r) = Some (f (k mod 256 ^ 32), r)"
  by (simp add: read_word_def be_val_be_bytes)

lemma read_word_small: "k < 2 ^ 256 \<Longrightarrow> read_word f (be_bytes 32 k @ r) = Some (f k, r)"
  by (simp add: read_word_be)

lemma read_word_word:
  assumes "LENGTH('a::len) \<le> 256"
  shows "read_word f (be_bytes 32 (unat (w :: 'a word)) @ r) = Some (f (unat w), r)"
proof (rule read_word_small)
  have "unat w < 2 ^ LENGTH('a)"
    by (rule unsigned_less)
  also have "(2::nat) ^ LENGTH('a) \<le> 2 ^ 256"
    using assms by (rule power_increasing) simp
  finally show "unat w < 2 ^ 256" .
qed

lemma uint_fits: "n \<in> {8, 16, 32, 64} \<Longrightarrow> k < 2 ^ n \<Longrightarrow> k < (2::nat) ^ 256"
  by (rule less_le_trans [OF _ power_increasing]) auto

lemma dec_many_enc:
  "(\<And>v r. v \<in> set vs \<Longrightarrow> dec_val t (enc_val v @ r) = Some (v, r)) \<Longrightarrow>
   dec_many t (length vs) (concat (map enc_val vs) @ r) = Some (vs, r)"
  by (induction vs arbitrary: r) simp_all

lemma dec_enc_val:
  shows "matches t v \<Longrightarrow> dec_val t (enc_val v @ r) = Some (v, r)"
    and "matches_fields cs fs \<Longrightarrow>
      dec_fields cs (concat (map (\<lambda>f. enc_val (snd f)) fs) @ r) = Some (fs, r)"
proof (induction t v and cs fs arbitrary: r and r rule: matches_matches_fields.induct)
  case (1 n i r)
  then have "nat i < 2 ^ 256"
    by (simp add: nat_less_iff)
  with 1 show ?case
    by (simp add: read_word_small)
next
  case (2 n m k r)
  then have "n \<in> {8, 16, 32, 64}" and "k < 2 ^ n"
    by auto
  then have k: "k < 2 ^ 256"
    by (rule uint_fits)
  from 2 have "n = m" and "n \<noteq> 256"
    by auto
  with k show ?case
    by (simp add: read_word_small)
next
  case (9 t vs r)
  then show ?case
    using dec_many_enc [of vs t r] by simp
qed (auto simp: read_word_small read_word_word comp_def)

section \<open>The length of an encoding\<close>

lemma be_bytes_empty: "be_bytes n v = [] \<longleftrightarrow> n = 0"
  by (cases n) simp_all

lemma length_enc_static:
  shows "matches t v \<Longrightarrow> static t \<Longrightarrow> length (enc_val v) = 32 * words t"
    and "matches_fields cs fs \<Longrightarrow> (\<forall>c \<in> set cs. static (snd c)) \<Longrightarrow>
      length (concat (map (\<lambda>f. enc_val (snd f)) fs)) = 32 * sum_list (map (\<lambda>c. words (snd c)) cs)"
  by (induction t v and cs fs rule: matches_matches_fields.induct) auto

lemma enc_val_nonempty:
  shows "matches t v \<Longrightarrow> 0 < words t \<Longrightarrow> enc_val v \<noteq> []"
    and "matches_fields cs fs \<Longrightarrow> 0 < sum_list (map (\<lambda>c. words (snd c)) cs) \<Longrightarrow>
      concat (map (\<lambda>f. enc_val (snd f)) fs) \<noteq> []"
proof (induction t v and cs fs rule: matches_matches_fields.induct)
qed (auto simp: unary_def be_bytes_empty)

section \<open>Argument lists\<close>

fun enc_args :: "go_val list \<Rightarrow> bytes" where
  "enc_args [] = []"
| "enc_args (v # vs) = enc_val v @ enc_args vs"

fun dec_args :: "abi_args \<Rightarrow> bytes \<Rightarrow> go_val list option" where
  "dec_args [] b = Some []"
| "dec_args ((n, t) # as) b =
     Option.bind (dec_val t b) (\<lambda>(v, r). map_option (\<lambda>vs. v # vs) (dec_args as r))"

definition ref_pack :: "abi_args \<Rightarrow> go_val list \<Rightarrow> goerr + bytes" where
  "ref_pack as vs = (if matches_args as vs then Inr (enc_args vs) else Inl [''abi: type mismatch''])"

definition ref_unpack :: "abi_args \<Rightarrow> bytes \<Rightarrow> goerr + go_val list" where
  "ref_unpack as b =
     (case dec_args as b of None \<Rightarrow> Inl [''abi: cannot unmarshal''] | Some vs \<Rightarrow> Inr vs)"

lemma enc_args_append [simp]: "enc_args (vs @ ws) = enc_args vs @ enc_args ws"
  by (induction vs) simp_all

lemma dec_enc_args: "matches_args as vs \<Longrightarrow> dec_args as (enc_args vs) = Some vs"
  by (induction as vs rule: matches_args.induct) (simp_all add: dec_enc_val)

lemma matches_args_append:
  "matches_args as vs \<Longrightarrow> matches_args bs ws \<Longrightarrow> matches_args (as @ bs) (vs @ ws)"
  by (induction as vs rule: matches_args.induct) simp_all

lemma length_enc_args:
  "matches_args as vs \<Longrightarrow> (\<forall>a \<in> set as. static (snd a)) \<Longrightarrow>
   length (enc_args vs) = 32 * sum_list (map (\<lambda>a. words (snd a)) as)"
  by (induction as vs rule: matches_args.induct) (simp_all add: length_enc_static)

section \<open>Events\<close>

fun ref_topics :: "(string \<times> abi_type \<times> bool) list \<Rightarrow> go_val list \<Rightarrow> hash list" where
  "ref_topics ((n, t, i) # as) (v # vs) =
     (if i then of_be (enc_val v) # ref_topics as vs else ref_topics as vs)"
| "ref_topics _ _ = []"

fun ref_data :: "(string \<times> abi_type \<times> bool) list \<Rightarrow> go_val list \<Rightarrow> bytes" where
  "ref_data ((n, t, i) # as) (v # vs) = (if i then ref_data as vs else enc_val v @ ref_data as vs)"
| "ref_data _ _ = []"

fun read_topics ::
  "(string \<times> abi_type \<times> bool) list \<Rightarrow> (string \<times> go_val) list \<Rightarrow> hash list \<Rightarrow>
   (string \<times> go_val) list option" where
  "read_topics [] fs [] = Some fs"
| "read_topics ((n, t, i) # as) fs (h # hs) =
     Option.bind (dec_val t (hash_bytes h)) (\<lambda>(v, r). read_topics as (set_field (export_name n) v fs) hs)"
| "read_topics _ _ _ = None"

fun read_data ::
  "(string \<times> abi_type \<times> bool) list \<Rightarrow> (string \<times> go_val) list \<Rightarrow> bytes \<Rightarrow>
   (string \<times> go_val) list option" where
  "read_data [] fs b = Some fs"
| "read_data ((n, t, i) # as) fs b =
     (if i then read_data as fs b
      else Option.bind (dec_val t b)
             (\<lambda>(v, r). read_data as (set_field (export_name n) v fs) r))"

lemma hash_bytes_of_be: "length b = 32 \<Longrightarrow> hash_bytes (of_be b) = b"
proof -
  assume len: "length b = 32"
  then have "be_val b < 2 ^ LENGTH(256)"
    using be_val_less [of b] by simp
  then have "unat (of_be b :: hash) = be_val b"
    unfolding of_be_def by (simp add: unat_of_nat)
  then show ?thesis
    using be_bytes_be_val [of b] len by (simp add: hash_bytes_def)
qed

lemma matches_args_Nil2 [simp]: "matches_args as [] \<longleftrightarrow> as = []"
  by (cases as) auto

lemma event_args_empty [simp]: "event_args ins = [] \<longleftrightarrow> ins = []"
  by (simp add: event_args_def)

lemma event_args_Cons: "event_args ((n, t, i) # as) = (n, t) # event_args as"
  by (simp add: event_args_def)

lemma read_topics_ref:
  "matches_args (event_args ins) args \<Longrightarrow>
   (\<forall>a \<in> set ins. snd (snd a) \<longrightarrow> static (fst (snd a)) \<and> words (fst (snd a)) = 1) \<Longrightarrow>
   read_topics (filter (\<lambda>(n, t, i). i) ins) fs (ref_topics ins args) = Some (set_args True ins args fs)"
proof (induction ins args arbitrary: fs rule: ref_topics.induct)
  case (1 n t i as v vs)
  show ?case
  proof (cases i)
    case True
    with "1.prems" have "length (enc_val v) = 32" and "matches t v"
      using length_enc_static(1) [of t v] by (simp_all add: event_args_Cons)
    then have "dec_val t (hash_bytes (of_be (enc_val v))) = Some (v, [])"
      using dec_enc_val(1) [of t v "[]"] by (simp add: hash_bytes_of_be)
    with True 1 show ?thesis
      by (simp add: event_args_Cons)
  next
    case False
    with 1 show ?thesis
      by (simp add: event_args_Cons)
  qed
qed (auto simp: event_args_Cons)

lemma read_data_ref:
  "matches_args (event_args ins) args \<Longrightarrow>
   read_data ins fs (ref_data ins args) = Some (set_args False ins args fs)"
proof (induction ins args arbitrary: fs rule: ref_data.induct)
  case (1 n t i as v vs)
  then show ?case
    by (simp add: event_args_Cons dec_enc_val)
qed (auto simp: event_args_Cons)

lemma ref_data_empty:
  "matches_args (event_args ins) args \<Longrightarrow>
   (\<forall>a \<in> set ins. \<not> snd (snd a) \<longrightarrow> 0 < words (fst (snd a))) \<Longrightarrow>
   ref_data ins args = [] \<longleftrightarrow> (\<forall>a \<in> set ins. snd (snd a))"
  by (induction ins args rule: ref_data.induct) (auto simp: event_args_Cons enc_val_nonempty)


section \<open>The codec and its laws\<close>

definition ref_selector :: "contract_abi \<Rightarrow> string \<Rightarrow> bytes" where
  "ref_selector abi m = take 4 (map of_char m @ replicate 4 0)"

definition ref_topic :: "string \<Rightarrow> hash" where
  "ref_topic ev = of_be (map of_char ev)"

definition ref_codec :: abi_codec where
  "ref_codec = \<lparr>
     pack_args = ref_pack,
     unpack_args = ref_unpack,
     GetAbi = Inr,
     selector = ref_selector,
     pack_method = (\<lambda>abi m args.
       (case map_of (Methods abi) m of
          None \<Rightarrow> Inl [''method not found'']
        | Some (ins, outs) \<Rightarrow> rbind (ref_pack ins args) (\<lambda>b. Inr (ref_selector abi m @ b)))),
     pack_output = (\<lambda>abi m vals.
       (case map_of (Methods abi) m of
          None \<Rightarrow> Inl [''method not found''] | Some (ins, outs) \<Rightarrow> ref_pack outs vals)),
     unpack_output = (\<lambda>abi m b.
       (case map_of (Methods abi) m of
          None \<Rightarrow> Inl [''method not found''] | Some (ins, outs) \<Rightarrow> ref_unpack outs b)),
     pack_event = (\<lambda>abi ev args.
       (case map_of (Events abi) ev of
          None \<Rightarrow> Inl [''event not found'']
        | Some ins \<Rightarrow> Inr (ref_topic ev # ref_topics ins args, ref_data ins args))),
     unpack_event_data = (\<lambda>abi ev out b.
       (case (map_of (Events abi) ev, out) of
          (Some ins, GStruct fs) \<Rightarrow>
            (case read_data ins fs b of
               None \<Rightarrow> Inl [''abi: cannot unmarshal''] | Some gs \<Rightarrow> Inr (GStruct gs))
        | _ \<Rightarrow> Inl [''event not found''])),
     parse_topics = (\<lambda>ins out hs.
       (case out of
          GStruct fs \<Rightarrow>
            (case read_topics ins fs hs of
               None \<Rightarrow> Inl [''topic/field count mismatch''] | Some gs \<Rightarrow> Inr (GStruct gs))
        | _ \<Rightarrow> Inl [''abi: not a struct''])),
     event_by_id = (\<lambda>abi h.
       (case find (\<lambda>e. ref_topic (fst e) = h) (Events abi) of
          None \<Rightarrow> Inl [''no event with id''] | Some e \<Rightarrow> Inr (fst e))),
     keccak = of_be\<rparr>"

lemma ref_roundtrip: "codec_roundtrip ref_codec"
  by (simp add: codec_roundtrip_def ref_codec_def ref_pack_def ref_unpack_def dec_enc_args)

lemma ref_static: "codec_static ref_codec"
  unfolding codec_static_def
  by (auto simp: ref_codec_def ref_pack_def matches_args_append length_enc_args split: if_splits)

lemma length_ref_selector: "length (ref_selector abi m) = 4"
  by (simp add: ref_selector_def)

lemma ref_methods: "codec_methods ref_codec"
  by (simp add: codec_methods_def ref_codec_def length_ref_selector cong: option.case_cong)

lemma ref_events: "codec_events ref_codec"
  unfolding codec_events_def
proof (intro allI impI)
  fix abi :: contract_abi and ev ins args
  assume ev: "map_of (Events abi) ev = Some ins"
    and m: "matches_args (event_args ins) args"
    and "ins \<noteq> []"
    and s: "\<forall>a \<in> set ins. snd (snd a) \<longrightarrow> static (fst (snd a)) \<and> words (fst (snd a)) = 1"
    and d: "\<forall>a \<in> set ins. \<not> snd (snd a) \<longrightarrow> 0 < words (fst (snd a))"
  show "\<exists>topic topics data. pack_event ref_codec abi ev args = Inr (topic # topics, data) \<and>
      (data = [] \<longleftrightarrow> (\<forall>a \<in> set ins. snd (snd a))) \<and>
      (\<forall>fs. fits ins fs \<longrightarrow>
         unpack_event_data ref_codec abi ev (GStruct fs) data = Inr (GStruct (set_args False ins args fs)) \<and>
         parse_topics ref_codec (filter (\<lambda>(n, t, i). i) ins) (GStruct fs) topics =
           Inr (GStruct (set_args True ins args fs)))"
    by (rule exI [of _ "ref_topic ev"], rule exI [of _ "ref_topics ins args"],
        rule exI [of _ "ref_data ins args"])
      (simp add: ref_codec_def ev ref_data_empty [OF m d] read_data_ref [OF m]
        read_topics_ref [OF m s])
qed

text \<open>
  Event names of at most 32 characters that do not start with a zero character have different
  identifiers, so the codec finds every event of an ABI with such names.
\<close>

lemma be_val_inj:
  assumes "be_val bs = be_val cs" and "bs \<noteq> []" and "hd bs \<noteq> 0" and "cs \<noteq> []" and "hd cs \<noteq> 0"
  shows "bs = cs"
proof -
  have low: "256 ^ (length xs - 1) \<le> be_val xs" if "xs \<noteq> []" and "hd xs \<noteq> 0" for xs :: bytes
  proof (cases xs)
    case (Cons x ys)
    then have "1 \<le> unat x"
      using that by (simp add: Suc_le_eq unat_gt_0)
    then have "1 * 256 ^ length ys \<le> unat x * 256 ^ length ys"
      by (rule mult_le_mono1)
    then show ?thesis
      using Cons by (simp add: trans_le_add1)
  qed (use that in simp)
  have le: "length xs \<le> length ys"
    if "be_val xs = be_val ys" and "xs \<noteq> []" and "hd xs \<noteq> 0" for xs ys :: bytes
  proof -
    have "(256::nat) ^ (length xs - 1) < 256 ^ length ys"
      using low [OF that(2,3)] be_val_less [of ys] unfolding that(1) by (rule le_less_trans)
    then have "length xs - 1 < length ys"
      by (rule power_less_imp_less_exp [rotated]) simp
    then show ?thesis
      by simp
  qed
  have "length bs = length cs"
    using le [OF assms(1-3)] le [OF assms(1) [symmetric] assms(4,5)] by (rule le_antisym)
  then show ?thesis
    using be_bytes_be_val [of bs] be_bytes_be_val [of cs] assms(1) by metis
qed

lemma unat_of_be: "be_val bs < 2 ^ LENGTH('a::len) \<Longrightarrow> unat (of_be bs :: 'a word) = be_val bs"
  by (simp add: of_be_def unat_of_nat)

definition topic_name :: "string \<Rightarrow> bool" where
  "topic_name ev \<longleftrightarrow> ev \<noteq> [] \<and> length ev \<le> 32 \<and> (of_char (hd ev) :: byte) \<noteq> 0"

lemma ref_topic_inj:
  assumes "topic_name e" and "topic_name f" and "ref_topic e = ref_topic f"
  shows "e = f"
proof -
  let ?b = "\<lambda>s. map of_char s :: bytes"
  have small: "unat (ref_topic s) = be_val (?b s)" if "topic_name s" for s
  proof -
    have "be_val (?b s) < 256 ^ length s"
      using be_val_less [of "?b s"] by simp
    also have "(256::nat) ^ length s \<le> 256 ^ 32"
      using that by (intro power_increasing) (simp_all add: topic_name_def)
    also have "(256::nat) ^ 32 = 2 ^ LENGTH(256)"
      by simp
    finally show ?thesis
      unfolding ref_topic_def by (rule unat_of_be)
  qed
  have "be_val (?b e) = be_val (?b f)"
    using small [OF assms(1)] small [OF assms(2)] assms(3) by metis
  then have "?b e = ?b f"
    using assms(1,2) unfolding topic_name_def
    by (intro be_val_inj) (simp_all only: hd_map map_is_Nil_conv not_False_eq_True)
  then have "map (\<lambda>b. char_of (unat b)) (?b e) = map (\<lambda>b. char_of (unat b)) (?b f)"
    by simp
  then show ?thesis
    by (simp add: comp_def)
qed

lemma ref_find_event:
  assumes "\<forall>e \<in> set (Events abi). topic_name (fst e)" and "map_of (Events abi) ev = Some ins"
  shows "\<exists>x. find (\<lambda>e. ref_topic (fst e) = ref_topic ev) (Events abi) = Some x \<and> fst x = ev"
proof -
  have mem: "(ev, ins) \<in> set (Events abi)"
    using assms(2) by (rule map_of_SomeD)
  then have "find (\<lambda>e. ref_topic (fst e) = ref_topic ev) (Events abi) \<noteq> None"
    by (auto simp: find_None_iff)
  then obtain x where x: "find (\<lambda>e. ref_topic (fst e) = ref_topic ev) (Events abi) = Some x"
    by auto
  then have "x \<in> set (Events abi)" and "ref_topic (fst x) = ref_topic ev"
    by (auto simp: find_Some_iff)
  moreover from this have "topic_name (fst x)" and "topic_name ev"
    using assms(1) mem by auto
  ultimately have "fst x = ev"
    using ref_topic_inj by blast
  with x show ?thesis
    by blast
qed

lemma ref_event_ids_if:
  assumes "\<forall>e \<in> set (Events abi). topic_name (fst e)"
  shows "event_ids ref_codec abi"
  unfolding event_ids_def
proof (intro allI impI)
  fix ev args topic topics data
  assume "pack_event ref_codec abi ev args = Inr (topic # topics, data)"
  then obtain ins where m: "map_of (Events abi) ev = Some ins" and t: "topic = ref_topic ev"
    by (auto simp: ref_codec_def split: option.splits)
  obtain x where "find (\<lambda>e. ref_topic (fst e) = ref_topic ev) (Events abi) = Some x"
    and "fst x = ev"
    using ref_find_event [OF assms m] by blast
  then show "event_by_id ref_codec abi topic = Inr ev"
    by (simp add: ref_codec_def t)
qed

lemmas ref_laws = ref_roundtrip ref_static ref_methods ref_events

end
