(* ===== verification/TeleporterPacking.thy ===== *)
theory TeleporterPacking
  imports TeleporterAbi AbiRef
begin

text \<open>
  \<open>abi-bindings/go/teleporter/TeleporterMessenger/packing.go\<close>: the hand-written ABI type of
  \<open>TeleporterMessage\<close>, its \<open>Pack\<close>/\<open>Unpack\<close>, the packers of contract calls and outputs and
  \<open>UnpackEvent\<close>; and \<open>CalculateMessageID\<close> of \<open>utils/teleporter-utils/teleporter_utils.go\<close>.
  The codec \<open>c\<close> is the ABI package (theory \<open>Abi\<close>).
\<close>

section \<open>The message type\<close>

definition teleporterMessageType :: abi_type where
  "teleporterMessageType =
     TTuple [(''messageNonce'', TUint 256), (''originSenderAddress'', TAddress),
       (''destinationBlockchainID'', TBytes32), (''destinationAddress'', TAddress),
       (''requiredGasLimit'', TUint 256), (''allowedRelayerAddresses'', TArray TAddress),
       (''receipts'', TArray (TTuple [(''receivedMessageNonce'', TUint 256),
          (''relayerRewardAddress'', TAddress)])),
       (''message'', TBytes)]"

definition TeleporterMessage_Pack :: "abi_codec \<Rightarrow> TeleporterMessage \<Rightarrow> goerr + bytes" where
  "TeleporterMessage_Pack c m =
     pack_args c [(''teleporterMessage'', teleporterMessageType)] [message_val m]"

definition TeleporterMessage_Unpack :: "abi_codec \<Rightarrow> bytes \<Rightarrow> goerr + TeleporterMessage" where
  "TeleporterMessage_Unpack c b =
     rbind
       (wrap ''failed to unpack to teleporter message with err''
         (unpack_args c [(''teleporterMessage'', teleporterMessageType)] b))
       (Copy1 message_of)"

section \<open>Calls of the contract\<close>

definition teleporter_abi :: "abi_codec \<Rightarrow> goerr + contract_abi" where
  "teleporter_abi c = wrap ''failed to get abi'' (GetAbi c TeleporterMessengerABI)"

definition PackSendCrossChainMessage ::
  "abi_codec \<Rightarrow> TeleporterMessageInput \<Rightarrow> goerr + bytes" where
  "PackSendCrossChainMessage c input =
     rbind (teleporter_abi c) (\<lambda>abi. pack_method c abi ''sendCrossChainMessage'' [input_val input])"

definition PackRetryMessageExecution ::
  "abi_codec \<Rightarrow> hash \<Rightarrow> TeleporterMessage \<Rightarrow> goerr + bytes" where
  "PackRetryMessageExecution c sourceBlockchainID message =
     rbind (teleporter_abi c)
       (\<lambda>abi. pack_method c abi ''retryMessageExecution''
          [GArr32 sourceBlockchainID, message_val message])"

definition PackReceiveCrossChainMessage :: "abi_codec \<Rightarrow> u32 \<Rightarrow> address \<Rightarrow> goerr + bytes" where
  "PackReceiveCrossChainMessage c messageIndex relayerRewardAddress =
     rbind (teleporter_abi c)
       (\<lambda>abi. pack_method c abi ''receiveCrossChainMessage''
          [GUint 32 (unat messageIndex), GAddr relayerRewardAddress])"

definition PackCalculateMessageID :: "abi_codec \<Rightarrow> hash \<Rightarrow> hash \<Rightarrow> int \<Rightarrow> goerr + bytes" where
  "PackCalculateMessageID c sourceBlockchainID destinationBlockchainID nonce =
     rbind (teleporter_abi c)
       (\<lambda>abi. pack_method c abi ''calculateMessageID''
          [GArr32 sourceBlockchainID, GArr32 destinationBlockchainID, GBig nonce])"

definition PackCalculateMessageIDOutput :: "abi_codec \<Rightarrow> hash \<Rightarrow> goerr + bytes" where
  "PackCalculateMessageIDOutput c messageID =
     rbind (teleporter_abi c) (\<lambda>abi. pack_output c abi ''calculateMessageID'' [GArr32 messageID])"

definition PackMessageReceived :: "abi_codec \<Rightarrow> hash \<Rightarrow> goerr + bytes" where
  "PackMessageReceived c messageID =
     rbind (teleporter_abi c) (\<lambda>abi. pack_method c abi ''messageReceived'' [GArr32 messageID])"

definition UnpackMessageReceivedResult :: "abi_codec \<Rightarrow> bytes \<Rightarrow> goerr + bool" where
  "UnpackMessageReceivedResult c result =
     rbind (teleporter_abi c)
       (\<lambda>abi. rbind (unpack_output c abi ''messageReceived'' result) (Copy1 go_bool))"

definition PackMessageReceivedOutput :: "abi_codec \<Rightarrow> bool \<Rightarrow> goerr + bytes" where
  "PackMessageReceivedOutput c success =
     rbind (teleporter_abi c) (\<lambda>abi. pack_output c abi ''messageReceived'' [GBool success])"

section \<open>Events\<close>

definition event_inputs :: "contract_abi \<Rightarrow> string \<Rightarrow> (string \<times> abi_type \<times> bool) list" where
  "event_inputs abi event = (case map_of (Events abi) event of None \<Rightarrow> [] | Some ins \<Rightarrow> ins)"

definition UnpackEvent ::
  "abi_codec \<Rightarrow> go_val \<Rightarrow> string \<Rightarrow> hash list \<Rightarrow> bytes \<Rightarrow> (goerr + go_val) go" where
  "UnpackEvent c out event topics data =
     (case teleporter_abi c of
        Inl e \<Rightarrow> Done (Inl e)
      | Inr abi \<Rightarrow>
          (case (if length data > 0 then unpack_event_data c abi event out data else Inr out) of
             Inl e \<Rightarrow> Done (Inl e)
           | Inr out' \<Rightarrow>
               (case topics of
                  [] \<Rightarrow> Panic ''slice bounds out of range [1:0]''
                | _ # topics' \<Rightarrow>
                    Done (parse_topics c (filter (\<lambda>(n, t, indexed). indexed) (event_inputs abi event))
                      out' topics'))))"

section \<open>Message identifiers\<close>

definition message_id_args :: abi_args where
  "message_id_args = [([], TAddress), ([], TBytes32), ([], TBytes32), ([], TUint 256)]"

definition CalculateMessageID ::
  "abi_codec \<Rightarrow> address \<Rightarrow> hash \<Rightarrow> hash \<Rightarrow> int \<Rightarrow> goerr + hash" where
  "CalculateMessageID c teleporterMessengerAddress sourceBlockchainID destinationBlockchainID nonce =
     rbind
       (pack_args c message_id_args
         [GAddr teleporterMessengerAddress, GArr32 sourceBlockchainID,
          GArr32 destinationBlockchainID, GBig nonce])
       (\<lambda>bytes. Inr (keccak c bytes))"

section \<open>The struct declarations the types must follow\<close>

text \<open>
  \<open>struct TeleporterMessage\<close> and \<open>struct TeleporterMessageReceipt\<close> of
  \<open>contracts/teleporter/ITeleporterMessenger.sol\<close>.
\<close>

definition sol_TeleporterMessageReceipt :: "(string \<times> abi_type) list" where
  "sol_TeleporterMessageReceipt =
     [(''receivedMessageNonce'', TUint 256), (''relayerRewardAddress'', TAddress)]"

definition sol_TeleporterMessage :: "(string \<times> abi_type) list" where
  "sol_TeleporterMessage =
     [(''messageNonce'', TUint 256), (''originSenderAddress'', TAddress),
      (''destinationBlockchainID'', TBytes32), (''destinationAddress'', TAddress),
      (''requiredGasLimit'', TUint 256), (''allowedRelayerAddresses'', TArray TAddress),
      (''receipts'', TArray (TTuple sol_TeleporterMessageReceipt)), (''message'', TBytes)]"

lemma teleporterMessageType_eq: "teleporterMessageType = message_tuple"
  by (simp add: teleporterMessageType_def message_tuple_def receipt_tuple_def)

interpretation teleporter_message:
  abi_packer TeleporterMessage_Pack TeleporterMessage_Unpack message_ok
proof
  fix c m
  assume c: "codec_roundtrip c" and m: "message_ok m"
  then have "matches teleporterMessageType (message_val m)"
    by (simp add: teleporterMessageType_eq)
  with c obtain b where
      "pack_args c [(''teleporterMessage'', teleporterMessageType)] [message_val m] = Inr b"
      and "unpack_args c [(''teleporterMessage'', teleporterMessageType)] b = Inr [message_val m]"
    by (rule codec_roundtrip1)
  then show "\<exists>b. TeleporterMessage_Pack c m = Inr b \<and> TeleporterMessage_Unpack c b = Inr m"
    by (simp add: TeleporterMessage_Pack_def TeleporterMessage_Unpack_def)
qed

lemma teleporter_abi_ok: "codec_methods c \<Longrightarrow> teleporter_abi c = Inr TeleporterMessengerABI"
  by (simp add: teleporter_abi_def GetAbi_ok)

text \<open>What the methods of the packers declare.\<close>

lemma teleporter_methods:
  "map_of (Methods TeleporterMessengerABI) ''sendCrossChainMessage'' =
     Some ([(''messageInput'', input_tuple)], [([], TBytes32)])"
  "map_of (Methods TeleporterMessengerABI) ''retryMessageExecution'' =
     Some ([(''sourceBlockchainID'', TBytes32), (''message'', message_tuple)], [])"
  "map_of (Methods TeleporterMessengerABI) ''receiveCrossChainMessage'' =
     Some ([(''messageIndex'', TUint 32), (''relayerRewardAddress'', TAddress)], [])"
  "map_of (Methods TeleporterMessengerABI) ''calculateMessageID'' =
     Some ([(''sourceBlockchainID'', TBytes32), (''destinationBlockchainID'', TBytes32),
       (''nonce'', TUint 256)], [([], TBytes32)])"
  "map_of (Methods TeleporterMessengerABI) ''messageReceived'' =
     Some ([(''messageID'', TBytes32)], [([], TBool)])"
  by (simp_all add: TeleporterMessengerABI_def)

section \<open>Properties\<close>

definition example_message :: TeleporterMessage where
  "example_message = \<lparr>MessageNonce = 1, OriginSenderAddress = 0x0123, DestinationBlockchainID = 5,
     DestinationAddress = 0x4567, RequiredGasLimit = 2,
     AllowedRelayerAddresses = [0x89, 0xab],
     Receipts = [\<lparr>ReceivedMessageNonce = 1, RelayerRewardAddress = 0xcd\<rparr>],
     Message = [1, 2, 3, 4]\<rparr>"

definition example_input :: TeleporterMessageInput where
  "example_input = \<lparr>InputDestinationBlockchainID = 5, InputDestinationAddress = 0x4567,
     InputFeeInfo = \<lparr>FeeTokenAddress = 0x77, Amount = 10\<rparr>, InputRequiredGasLimit = 2,
     InputAllowedRelayerAddresses = [0x89], InputMessage = [1, 2, 3, 4]\<rparr>"

lemma example_ok [simp]: "message_ok example_message" "input_ok example_input"
  by (simp_all add: example_message_def example_input_def message_ok_def input_ok_def
      fee_info_ok_def in_uint256_def)

text \<open>
  C28. \<open>TeleporterMessage.Pack\<close> succeeds on every message whose numbers fit in a \<open>uint256\<close>, and
  \<open>Unpack\<close> of the bytes gives the message back: no field is lost, reordered or truncated.
\<close>

theorem teleporter_message_roundtrip:
  assumes "codec_roundtrip c" and "message_ok m"
  shows "\<exists>b. TeleporterMessage_Pack c m = Inr b \<and> TeleporterMessage_Unpack c b = Inr m"
  using assms by (rule teleporter_message.pack_unpack)

theorem teleporter_message_roundtrip_witness:
  "\<exists>b. TeleporterMessage_Pack ref_codec example_message = Inr b \<and>
       TeleporterMessage_Unpack ref_codec b = Inr example_message"
  by (rule teleporter_message_roundtrip [OF ref_roundtrip example_ok(1)])

text \<open>
  The hand-written tuple type of \<open>packing.go\<close> is the struct \<open>TeleporterMessage\<close> declared in
  \<open>ITeleporterMessenger.sol\<close>, component by component, and the type the generated ABI gives to the
  message argument of \<open>retryMessageExecution\<close>; and every message the Go struct can hold (with
  numbers in range) is a value of it.
\<close>

theorem teleporter_message_type_matches_contract:
  "teleporterMessageType = TTuple sol_TeleporterMessage \<and>
   map_option (\<lambda>(ins, outs). map_of ins ''message'')
     (map_of (Methods TeleporterMessengerABI) ''retryMessageExecution'') =
     Some (Some teleporterMessageType) \<and>
   (message_ok m \<longrightarrow> matches teleporterMessageType (message_val m))"
  by (simp add: teleporter_methods teleporterMessageType_eq)
    (simp add: message_tuple_def receipt_tuple_def sol_TeleporterMessage_def
      sol_TeleporterMessageReceipt_def)

theorem teleporter_message_type_matches_contract_witness:
  "matches teleporterMessageType (message_val example_message)"
  using teleporter_message_type_matches_contract [of example_message] by simp

text \<open>
  Every packer of a contract call returns the selector of its method followed by arguments that
  decode, with the types the contract's ABI declares for that method, to the values it was given.
\<close>

theorem teleporter_calls_decode:
  assumes "codec_methods c" and "codec_roundtrip c"
    and "input_ok input" and "message_ok message" and "in_uint256 nonce"
  shows "call_of c TeleporterMessengerABI ''sendCrossChainMessage'' [input_val input]
       (PackSendCrossChainMessage c input) \<and>
     call_of c TeleporterMessengerABI ''retryMessageExecution'' [GArr32 src, message_val message]
       (PackRetryMessageExecution c src message) \<and>
     call_of c TeleporterMessengerABI ''receiveCrossChainMessage''
       [GUint 32 (unat index), GAddr relayer] (PackReceiveCrossChainMessage c index relayer) \<and>
     call_of c TeleporterMessengerABI ''calculateMessageID'' [GArr32 src, GArr32 dst, GBig nonce]
       (PackCalculateMessageID c src dst nonce) \<and>
     call_of c TeleporterMessengerABI ''messageReceived'' [GArr32 messageID]
       (PackMessageReceived c messageID)"
proof -
  note call = call_of_pack_method [OF assms(1,2)]
  have index: "unat index < 2 ^ 32"
    using unsigned_less [of index] by simp
  have nonce: "matches (TUint 256) (GBig nonce)"
    using assms(5) by (simp add: in_uint256_def)
  show ?thesis
    using assms index nonce
    by (simp add: PackSendCrossChainMessage_def PackRetryMessageExecution_def
        PackReceiveCrossChainMessage_def PackCalculateMessageID_def PackMessageReceived_def
        teleporter_abi_ok call [OF teleporter_methods(1)] call [OF teleporter_methods(2)]
        call [OF teleporter_methods(3)] call [OF teleporter_methods(4)]
        call [OF teleporter_methods(5)])
qed

theorem teleporter_calls_decode_witness:
  "call_of ref_codec TeleporterMessengerABI ''sendCrossChainMessage'' [input_val example_input]
     (PackSendCrossChainMessage ref_codec example_input)"
  using teleporter_calls_decode [OF ref_methods ref_roundtrip example_ok(2) example_ok(1), of 7]
  by (simp add: in_uint256_def)

text \<open>
  The result of \<open>messageReceived\<close> packed by \<open>PackMessageReceivedOutput\<close> is read back by
  \<open>UnpackMessageReceivedResult\<close>.
\<close>

lemma message_received_result_roundtrip:
  assumes "codec_methods c" and "codec_roundtrip c"
  shows "\<exists>b. PackMessageReceivedOutput c success = Inr b \<and>
       UnpackMessageReceivedResult c b = Inr success"
proof -
  obtain b where "pack_args c [([], TBool)] [GBool success] = Inr b"
      and "unpack_args c [([], TBool)] b = Inr [GBool success]"
    by (rule codec_roundtrip1 [OF assms(2), of TBool "GBool success"]) simp_all
  then show ?thesis
    using assms(1)
    by (simp add: PackMessageReceivedOutput_def UnpackMessageReceivedResult_def
        teleporter_abi_ok codec_methods_def teleporter_methods)
qed

lemma message_id_bytes:
  assumes "codec_roundtrip c" and "codec_static c" and "in_uint256 nonce"
  obtains x where "CalculateMessageID c a s d nonce = Inr (keccak c x)" and "length x = 128"
    and "unpack_args c message_id_args x = Inr [GAddr a, GArr32 s, GArr32 d, GBig nonce]"
proof -
  have m: "matches_args message_id_args [GAddr a, GArr32 s, GArr32 d, GBig nonce]"
    using assms(3) by (simp add: message_id_args_def in_uint256_def)
  then obtain x where x: "pack_args c message_id_args [GAddr a, GArr32 s, GArr32 d, GBig nonce] = Inr x"
      and u: "unpack_args c message_id_args x = Inr [GAddr a, GArr32 s, GArr32 d, GBig nonce]"
    using assms(1) unfolding codec_roundtrip_def by blast
  have "\<forall>arg \<in> set message_id_args. static (snd arg)"
    by (simp add: message_id_args_def)
  then have "length x = 32 * sum_list (map (\<lambda>arg. words (snd arg)) message_id_args)"
    using assms(2) m x unfolding codec_static_def by blast
  then have "length x = 128"
    by (simp add: message_id_args_def)
  with x u show ?thesis
    by (intro that) (simp_all add: CalculateMessageID_def)
qed

text \<open>
  C29. \<open>CalculateMessageID\<close> never fails on a nonce that fits in a \<open>uint256\<close>: the identifier is the
  hash of 128 bytes that determine the messenger address, the two blockchains and the nonce, so two
  messages share an identifier only if they agree in all four or the hash function collides.
\<close>

theorem message_id_preimage_injective:
  assumes "codec_roundtrip c" and "codec_static c" and "in_uint256 n1" and "in_uint256 n2"
  shows "\<exists>x y. CalculateMessageID c a1 s1 d1 n1 = Inr (keccak c x) \<and>
     CalculateMessageID c a2 s2 d2 n2 = Inr (keccak c y) \<and>
     length x = 128 \<and> length y = 128 \<and>
     (x = y \<longleftrightarrow> a1 = a2 \<and> s1 = s2 \<and> d1 = d2 \<and> n1 = n2)"
proof -
  obtain x where x: "CalculateMessageID c a1 s1 d1 n1 = Inr (keccak c x)" "length x = 128"
      "unpack_args c message_id_args x = Inr [GAddr a1, GArr32 s1, GArr32 d1, GBig n1]"
    by (rule message_id_bytes [OF assms(1,2,3)])
  obtain y where y: "CalculateMessageID c a2 s2 d2 n2 = Inr (keccak c y)" "length y = 128"
      "unpack_args c message_id_args y = Inr [GAddr a2, GArr32 s2, GArr32 d2, GBig n2]"
    by (rule message_id_bytes [OF assms(1,2,4)])
  show ?thesis
  proof (cases "a1 = a2 \<and> s1 = s2 \<and> d1 = d2 \<and> n1 = n2")
    case True
    with x show ?thesis by blast
  next
    case False
    with x(3) y(3) have "x \<noteq> y"
      by auto
    with False x y show ?thesis by blast
  qed
qed

theorem message_id_preimage_injective_witness:
  "\<exists>x y. CalculateMessageID ref_codec 1 2 3 4 = Inr (keccak ref_codec x) \<and>
     CalculateMessageID ref_codec 1 2 3 5 = Inr (keccak ref_codec y) \<and>
     length x = 128 \<and> length y = 128 \<and>
     (x = y \<longleftrightarrow> (1 :: address) = 1 \<and> (2 :: hash) = 2 \<and> (3 :: hash) = 3 \<and> (4 :: int) = 5)"
  by (rule message_id_preimage_injective [OF ref_roundtrip ref_static])
    (simp_all add: in_uint256_def)

end
