(* ===== verification/RegistryPacking.thy ===== *)
theory RegistryPacking
  imports AbiRef
begin

text \<open>
  \<open>abi-bindings/go/teleporter/registry/TeleporterRegistry/packing.go\<close>: packing of registry entries,
  of the registry's Warp payload (an entry and a destination address) and of the call
  \<open>addProtocolVersion\<close>, with the struct and the ABI of the generated binding
  \<open>TeleporterRegistry.go\<close>. Printing the unpacked values to the console is not modelled.
\<close>

section \<open>Data\<close>

record ProtocolRegistryEntry =
  Version :: int
  ProtocolAddress :: address

definition registry_entry_val :: "ProtocolRegistryEntry \<Rightarrow> go_val" where
  "registry_entry_val e =
     GStruct [(''Version'', GBig (Version e)), (''ProtocolAddress'', GAddr (ProtocolAddress e))]"

definition registry_entry_of :: "go_val \<Rightarrow> ProtocolRegistryEntry option" where
  "registry_entry_of v = do {
     n \<leftarrow> go_field ''Version'' v \<bind> go_big;
     a \<leftarrow> go_field ''ProtocolAddress'' v \<bind> go_addr;
     Some \<lparr>Version = n, ProtocolAddress = a\<rparr>
   }"

definition TeleporterRegistryABI :: contract_abi where
  "TeleporterRegistryABI = \<lparr>
      Methods = [
        (''MAX_VERSION_INCREMENT'', [],
           [('''', TUint 256)]),
        (''VALIDATORS_SOURCE_ADDRESS'', [],
           [('''', TAddress)]),
        (''WARP_MESSENGER'', [],
           [('''', TAddress)]),
        (''addProtocolVersion'', [(''messageIndex'', TUint 32)],
           []),
        (''blockchainID'', [],
           [('''', TBytes32)]),
        (''getAddressFromVersion'', [(''version'', TUint 256)],
           [('''', TAddress)]),
        (''getLatestTeleporter'', [],
           [('''', TAddress)]),
        (''getTeleporterFromVersion'', [(''version'', TUint 256)],
           [('''', TAddress)]),
        (''getVersionFromAddress'', [(''protocolAddress'', TAddress)],
           [('''', TUint 256)]),
        (''latestVersion'', [],
           [('''', TUint 256)])],
      Events = [
        (''AddProtocolVersion'', [(''version'', TUint 256, True), (''protocolAddress'',
           TAddress, True)]),
        (''LatestVersionUpdated'', [(''oldVersion'', TUint 256, True), (''newVersion'', TUint
           256, True)])]\<rparr>"

section \<open>Packing\<close>

definition protocolRegistryEntryType :: abi_type where
  "protocolRegistryEntryType =
     TTuple [(''version'', TUint 256), (''protocolAddress'', TAddress)]"

definition addressType :: abi_type where
  "addressType = TAddress"

definition ProtocolRegistryEntry_Pack :: "abi_codec \<Rightarrow> ProtocolRegistryEntry \<Rightarrow> goerr + bytes" where
  "ProtocolRegistryEntry_Pack c p =
     pack_args c [(''protocolRegistryEntry'', protocolRegistryEntryType)] [registry_entry_val p]"

definition ProtocolRegistryEntry_Unpack :: "abi_codec \<Rightarrow> bytes \<Rightarrow> goerr + ProtocolRegistryEntry" where
  "ProtocolRegistryEntry_Unpack c b =
     rbind
       (wrap ''failed to unpack to Teleporter registry entry with err''
         (unpack_args c [(''protocolRegistryEntry'', protocolRegistryEntryType)] b))
       (Copy1 registry_entry_of)"

definition warp_payload_args :: abi_args where
  "warp_payload_args =
     [(''protocolRegistryEntry'', protocolRegistryEntryType), (''destinationAddress'', addressType)]"

definition PackTeleporterRegistryWarpPayload ::
  "abi_codec \<Rightarrow> ProtocolRegistryEntry \<Rightarrow> address \<Rightarrow> goerr + bytes" where
  "PackTeleporterRegistryWarpPayload c entry destinationAddress =
     pack_args c warp_payload_args [registry_entry_val entry, GAddr destinationAddress]"

text \<open>\<open>Copy\<close> into the local struct \<open>teleporterRegistryWarpPayload\<close>.\<close>

definition copy_warp_payload :: "go_val list \<Rightarrow> goerr + ProtocolRegistryEntry \<times> address" where
  "copy_warp_payload vs =
     (case vs of
        [e, a] \<Rightarrow>
          (case (registry_entry_of e, go_addr a) of
             (Some entry, Some addr) \<Rightarrow> Inr (entry, addr)
           | _ \<Rightarrow> Inl [''abi: cannot unmarshal''])
      | _ \<Rightarrow> Inl [''abi: argument count mismatch''])"

definition UnpackTeleporterRegistryWarpPayload ::
  "abi_codec \<Rightarrow> bytes \<Rightarrow> goerr + ProtocolRegistryEntry \<times> address" where
  "UnpackTeleporterRegistryWarpPayload c entryBytes =
     rbind
       (wrap ''failed to unpack to Teleporter registry entry with err''
         (unpack_args c warp_payload_args entryBytes))
       copy_warp_payload"

definition PackAddProtocolVersion :: "abi_codec \<Rightarrow> u32 \<Rightarrow> goerr + bytes" where
  "PackAddProtocolVersion c messageIndex =
     rbind (wrap ''failed to get abi'' (GetAbi c TeleporterRegistryABI))
       (\<lambda>abi. pack_method c abi ''addProtocolVersion'' [GUint 32 (unat messageIndex)])"

section \<open>Round trips\<close>

definition registry_entry_ok :: "ProtocolRegistryEntry \<Rightarrow> bool" where
  "registry_entry_ok e \<longleftrightarrow> 0 \<le> Version e \<and> Version e < 2 ^ 256"

lemma registry_entry_of_val [simp]: "registry_entry_of (registry_entry_val e) = Some e"
  by (simp add: registry_entry_val_def registry_entry_of_def)

lemma matches_registry_entry [simp]:
  "registry_entry_ok e \<Longrightarrow> matches protocolRegistryEntryType (registry_entry_val e)"
  by (simp add: protocolRegistryEntryType_def registry_entry_val_def registry_entry_ok_def)

interpretation registry_entry:
  abi_packer ProtocolRegistryEntry_Pack ProtocolRegistryEntry_Unpack registry_entry_ok
proof
  fix c e
  assume c: "codec_roundtrip c" and e: "registry_entry_ok e"
  then have "matches protocolRegistryEntryType (registry_entry_val e)"
    by simp
  with c obtain b where
      "pack_args c [(''protocolRegistryEntry'', protocolRegistryEntryType)] [registry_entry_val e] = Inr b"
      and "unpack_args c [(''protocolRegistryEntry'', protocolRegistryEntryType)] b =
        Inr [registry_entry_val e]"
    by (rule codec_roundtrip1)
  then show "\<exists>b. ProtocolRegistryEntry_Pack c e = Inr b \<and> ProtocolRegistryEntry_Unpack c b = Inr e"
    by (simp add: ProtocolRegistryEntry_Pack_def ProtocolRegistryEntry_Unpack_def)
qed

lemma warp_payload_roundtrip:
  assumes "codec_roundtrip c" and "registry_entry_ok e"
  obtains b where "PackTeleporterRegistryWarpPayload c e a = Inr b"
    and "UnpackTeleporterRegistryWarpPayload c b = Inr (e, a)"
proof -
  have "matches_args warp_payload_args [registry_entry_val e, GAddr a]"
    using assms(2) by (simp add: warp_payload_args_def addressType_def)
  with assms(1) obtain b where
      p: "pack_args c warp_payload_args [registry_entry_val e, GAddr a] = Inr b"
      and u: "unpack_args c warp_payload_args b = Inr [registry_entry_val e, GAddr a]"
    unfolding codec_roundtrip_def by blast
  have "UnpackTeleporterRegistryWarpPayload c b = Inr (e, a)"
    by (simp add: UnpackTeleporterRegistryWarpPayload_def u copy_warp_payload_def)
  with p show ?thesis
    by (simp add: that PackTeleporterRegistryWarpPayload_def)
qed

text \<open>
  The registry's Warp payload unpacks to the entry and the destination address it was packed
  from, it is 96 bytes long, and its first 64 bytes are the packed entry itself.
\<close>

theorem registry_payload_prefixed_by_entry:
  assumes "codec_roundtrip c" and "codec_static c" and "registry_entry_ok entry"
  shows "\<exists>e b. ProtocolRegistryEntry_Pack c entry = Inr e \<and>
     ProtocolRegistryEntry_Unpack c e = Inr entry \<and>
     PackTeleporterRegistryWarpPayload c entry destinationAddress = Inr b \<and>
     UnpackTeleporterRegistryWarpPayload c b = Inr (entry, destinationAddress) \<and>
     length e = 64 \<and> length b = 96 \<and> take (length e) b = e"
proof -
  let ?as = "[(''protocolRegistryEntry'', protocolRegistryEntryType)]"
  let ?bs = "[(''destinationAddress'', addressType)]"
  obtain e where e: "ProtocolRegistryEntry_Pack c entry = Inr e"
      "ProtocolRegistryEntry_Unpack c e = Inr entry"
    using registry_entry.pack_unpack [OF assms(1,3)] by blast
  obtain b where b: "PackTeleporterRegistryWarpPayload c entry destinationAddress = Inr b"
      "UnpackTeleporterRegistryWarpPayload c b = Inr (entry, destinationAddress)"
    using warp_payload_roundtrip [OF assms(1,3)] .
  obtain y where y: "pack_args c ?bs [GAddr destinationAddress] = Inr y"
    by (rule codec_roundtrip1 [OF assms(1), of TAddress "GAddr destinationAddress"])
      (simp_all add: addressType_def)
  have st: "\<forall>a \<in> set (?as @ ?bs). static (snd a)"
    by (simp add: protocolRegistryEntryType_def addressType_def)
  have m1: "matches_args ?as [registry_entry_val entry]"
    using assms(3) by simp
  have m2: "matches_args ?bs [GAddr destinationAddress]"
    by (simp add: addressType_def)
  have pe: "pack_args c ?as [registry_entry_val entry] = Inr e"
    using e(1) by (simp add: ProtocolRegistryEntry_Pack_def)
  have "pack_args c (?as @ ?bs) ([registry_entry_val entry] @ [GAddr destinationAddress]) = Inr (e @ y)"
    using assms(2) st m1 m2 pe y unfolding codec_static_def by blast
  then have split: "b = e @ y"
    using b(1) by (simp add: PackTeleporterRegistryWarpPayload_def warp_payload_args_def)
  have len: "length x = 32 * sum_list (map (\<lambda>a. words (snd a)) as)"
    if "\<forall>a \<in> set as. static (snd a)" "matches_args as vs" "pack_args c as vs = Inr x" for as vs x
    using assms(2) that unfolding codec_static_def by blast
  have "length e = 64"
    using len [OF _ m1 pe] st by (simp add: protocolRegistryEntryType_def)
  moreover have "length y = 32"
    using len [OF _ m2 y] st by (simp add: addressType_def)
  ultimately show ?thesis
    using e b split by auto
qed

theorem registry_payload_prefixed_by_entry_witness:
  "\<exists>e b. ProtocolRegistryEntry_Pack ref_codec \<lparr>Version = 1, ProtocolAddress = 0x0123\<rparr> = Inr e \<and>
     ProtocolRegistryEntry_Unpack ref_codec e = Inr \<lparr>Version = 1, ProtocolAddress = 0x0123\<rparr> \<and>
     PackTeleporterRegistryWarpPayload ref_codec \<lparr>Version = 1, ProtocolAddress = 0x0123\<rparr> 0x0124 =
       Inr b \<and>
     UnpackTeleporterRegistryWarpPayload ref_codec b =
       Inr (\<lparr>Version = 1, ProtocolAddress = 0x0123\<rparr>, 0x0124) \<and>
     length e = 64 \<and> length b = 96 \<and> take (length e) b = e"
  by (rule registry_payload_prefixed_by_entry [OF ref_roundtrip ref_static])
    (simp add: registry_entry_ok_def)

lemma add_protocol_version_call:
  assumes "codec_methods c" and "codec_roundtrip c"
  shows "call_of c TeleporterRegistryABI ''addProtocolVersion'' [GUint 32 (unat index)]
    (PackAddProtocolVersion c index)"
proof -
  have "map_of (Methods TeleporterRegistryABI) ''addProtocolVersion'' =
      Some ([(''messageIndex'', TUint 32)], [])"
    by (simp add: TeleporterRegistryABI_def)
  moreover have "unat index < 2 ^ 32"
    using unsigned_less [of index] by simp
  ultimately show ?thesis
    using assms by (simp add: PackAddProtocolVersion_def GetAbi_ok call_of_pack_method)
qed

end
