(* ===== verification/GovernancePacking.thy ===== *)
theory GovernancePacking
  imports AbiRef
begin

text \<open>
  \<open>abi-bindings/go/governance/ValidatorSetSig/packing.go\<close>: packing of the message a validator set
  signs and of the call \<open>executeCall\<close>, with the struct and the ABI of the generated binding
  \<open>ValidatorSetSig.go\<close>.
\<close>

section \<open>Data\<close>

record ValidatorSetSigMessage =
  TargetBlockchainID :: hash
  ValidatorSetSigAddress :: address
  TargetContractAddress :: address
  Nonce :: int
  Value :: int
  Payload :: bytes

definition set_sig_val :: "ValidatorSetSigMessage \<Rightarrow> go_val" where
  "set_sig_val m =
     GStruct [(''TargetBlockchainID'', GArr32 (TargetBlockchainID m)),
       (''ValidatorSetSigAddress'', GAddr (ValidatorSetSigAddress m)),
       (''TargetContractAddress'', GAddr (TargetContractAddress m)),
       (''Nonce'', GBig (Nonce m)), (''Value'', GBig (Value m)), (''Payload'', GBytes (Payload m))]"

definition set_sig_of :: "go_val \<Rightarrow> ValidatorSetSigMessage option" where
  "set_sig_of v = do {
     b \<leftarrow> go_field ''TargetBlockchainID'' v \<bind> go_arr32;
     s \<leftarrow> go_field ''ValidatorSetSigAddress'' v \<bind> go_addr;
     t \<leftarrow> go_field ''TargetContractAddress'' v \<bind> go_addr;
     n \<leftarrow> go_field ''Nonce'' v \<bind> go_big;
     x \<leftarrow> go_field ''Value'' v \<bind> go_big;
     p \<leftarrow> go_field ''Payload'' v \<bind> go_bytes;
     Some \<lparr>TargetBlockchainID = b, ValidatorSetSigAddress = s, TargetContractAddress = t,
       Nonce = n, Value = x, Payload = p\<rparr>
   }"

text \<open>The components of the generated struct \<open>ValidatorSetSigMessage\<close>, as its metadata has them.\<close>

definition set_sig_tuple :: abi_type where
  "set_sig_tuple =
     TTuple [(''targetBlockchainID'', TBytes32), (''validatorSetSigAddress'', TAddress),
       (''targetContractAddress'', TAddress), (''nonce'', TUint 256), (''value'', TUint 256),
       (''payload'', TBytes)]"

definition ValidatorSetSigABI :: contract_abi where
  "ValidatorSetSigABI = \<lparr>
      Methods = [
        (''VALIDATORS_SOURCE_ADDRESS'', [],
           [('''', TAddress)]),
        (''WARP_MESSENGER'', [],
           [('''', TAddress)]),
        (''blockchainID'', [],
           [('''', TBytes32)]),
        (''executeCall'', [(''messageIndex'', TUint 32)],
           []),
        (''nonces'', [(''targetContractAddress'', TAddress)],
           [(''nonce'', TUint 256)]),
        (''validateMessage'', [(''message'', set_sig_tuple)],
           []),
        (''validatorBlockchainID'', [],
           [('''', TBytes32)])],
      Events = [
        (''Delivered'', [(''targetContractAddress'', TAddress, True), (''nonce'', TUint 256,
           True)])]\<rparr>"

section \<open>Packing\<close>

definition validatorSetSigMessageType :: abi_type where
  "validatorSetSigMessageType =
     TTuple [(''targetBlockchainID'', TBytes32), (''validatorSetSigAddress'', TAddress),
       (''targetContractAddress'', TAddress), (''nonce'', TUint 256), (''value'', TUint 256),
       (''payload'', TBytes)]"

definition ValidatorSetSigMessage_Pack :: "abi_codec \<Rightarrow> ValidatorSetSigMessage \<Rightarrow> goerr + bytes" where
  "ValidatorSetSigMessage_Pack c m =
     pack_args c [(''validatorSetSigMessage'', validatorSetSigMessageType)] [set_sig_val m]"

definition ValidatorSetSigMessage_Unpack :: "abi_codec \<Rightarrow> bytes \<Rightarrow> goerr + ValidatorSetSigMessage" where
  "ValidatorSetSigMessage_Unpack c messageBytes =
     rbind
       (wrap ''failed to unpack to ValidatorSetSigMessage with err''
         (unpack_args c [(''validatorSetSigMessage'', validatorSetSigMessageType)] messageBytes))
       (Copy1 set_sig_of)"

definition PackExecuteCall :: "abi_codec \<Rightarrow> u32 \<Rightarrow> goerr + bytes" where
  "PackExecuteCall c messageIndex =
     rbind (wrap ''failed to get abi'' (GetAbi c ValidatorSetSigABI))
       (\<lambda>abi. pack_method c abi ''executeCall'' [GUint 32 (unat messageIndex)])"

section \<open>Round trips\<close>

definition set_sig_ok :: "ValidatorSetSigMessage \<Rightarrow> bool" where
  "set_sig_ok m \<longleftrightarrow> 0 \<le> Nonce m \<and> Nonce m < 2 ^ 256 \<and> 0 \<le> Value m \<and> Value m < 2 ^ 256"

lemma set_sig_of_val [simp]: "set_sig_of (set_sig_val m) = Some m"
  by (simp add: set_sig_val_def set_sig_of_def)

lemma matches_set_sig [simp]:
  "set_sig_ok m \<Longrightarrow> matches validatorSetSigMessageType (set_sig_val m)"
  by (simp add: validatorSetSigMessageType_def set_sig_val_def set_sig_ok_def)

interpretation set_sig_message:
  abi_packer ValidatorSetSigMessage_Pack ValidatorSetSigMessage_Unpack set_sig_ok
proof
  fix c m
  assume c: "codec_roundtrip c" and m: "set_sig_ok m"
  then have "matches validatorSetSigMessageType (set_sig_val m)"
    by simp
  with c obtain b where
      "pack_args c [(''validatorSetSigMessage'', validatorSetSigMessageType)] [set_sig_val m] = Inr b"
      and "unpack_args c [(''validatorSetSigMessage'', validatorSetSigMessageType)] b =
        Inr [set_sig_val m]"
    by (rule codec_roundtrip1)
  then show "\<exists>b. ValidatorSetSigMessage_Pack c m = Inr b \<and>
      ValidatorSetSigMessage_Unpack c b = Inr m"
    by (simp add: ValidatorSetSigMessage_Pack_def ValidatorSetSigMessage_Unpack_def)
qed

text \<open>
  A signed governance message is recovered from its packed bytes, and the type it is packed
  with is the one the contract's \<open>validateMessage\<close> declares for its argument, so that the contract
  decodes the same fields.
\<close>

theorem set_sig_message_roundtrip:
  assumes "codec_roundtrip c" and "set_sig_ok m"
  shows "(\<exists>b. ValidatorSetSigMessage_Pack c m = Inr b \<and> ValidatorSetSigMessage_Unpack c b = Inr m) \<and>
     map_of (Methods ValidatorSetSigABI) ''validateMessage'' =
       Some ([(''message'', validatorSetSigMessageType)], [])"
  using set_sig_message.pack_unpack [OF assms]
  by (simp add: ValidatorSetSigABI_def set_sig_tuple_def validatorSetSigMessageType_def)

definition example_set_sig :: ValidatorSetSigMessage where
  "example_set_sig = \<lparr>TargetBlockchainID = 1, ValidatorSetSigAddress = 2,
     TargetContractAddress = 3, Nonce = 4, Value = 0, Payload = [1, 2, 3]\<rparr>"

theorem set_sig_message_roundtrip_witness:
  "\<exists>b. ValidatorSetSigMessage_Pack ref_codec example_set_sig = Inr b \<and>
     ValidatorSetSigMessage_Unpack ref_codec b = Inr example_set_sig"
  using set_sig_message_roundtrip [OF ref_roundtrip, of example_set_sig]
  by (simp add: set_sig_ok_def example_set_sig_def)

lemma execute_call_call:
  assumes "codec_methods c" and "codec_roundtrip c"
  shows "call_of c ValidatorSetSigABI ''executeCall'' [GUint 32 (unat index)]
    (PackExecuteCall c index)"
proof -
  have "map_of (Methods ValidatorSetSigABI) ''executeCall'' =
      Some ([(''messageIndex'', TUint 32)], [])"
    by (simp add: ValidatorSetSigABI_def)
  moreover have "unat index < 2 ^ 32"
    using unsigned_less [of index] by simp
  ultimately show ?thesis
    using assms by (simp add: PackExecuteCall_def GetAbi_ok call_of_pack_method)
qed

end
