(* ===== verification/Evm.thy ===== *)
theory Evm
  imports Prelude
begin

text \<open>
  Data of the packages \<open>subnet-evm/core/types\<close> and \<open>accounts/abi/bind\<close> that the code reads: logs and
  receipts of a transaction, and the options of contract calls, transactions and log filters.
\<close>

record evm_log =
  LogAddress :: address
  LogTopics :: "hash list"
  LogData :: bytes
  LogBlockNumber :: u64
  LogTxHash :: hash
  LogTxIndex :: nat
  LogBlockHash :: hash
  LogIndex :: nat
  LogRemoved :: bool

record evm_receipt =
  RcptStatus :: u64
  RcptTxHash :: hash
  RcptContractAddress :: address
  RcptGasUsed :: u64
  RcptEffectiveGasPrice :: int
  RcptBlockNumber :: int
  RcptLogs :: "evm_log list"

text \<open>The values of \<open>types.ReceiptStatusSuccessful\<close> and \<open>types.ReceiptStatusFailed\<close>.\<close>

definition ReceiptStatusSuccessful :: u64 where
  "ReceiptStatusSuccessful = 1"

definition ReceiptStatusFailed :: u64 where
  "ReceiptStatusFailed = 0"

record CallOpts =
  CallPending :: bool
  CallFrom :: address
  CallBlockNumber :: "int option"

record TransactOpts =
  TransactFrom :: address
  TransactNonce :: "int option"
  TransactValue :: int
  TransactGasLimit :: u64

record FilterOpts =
  FilterStart :: u64
  FilterEnd :: "u64 option"

text \<open>Concrete values the examples of the later theories use.\<close>

definition example_log :: evm_log where
  "example_log = \<lparr>LogAddress = 1, LogTopics = [], LogData = [], LogBlockNumber = 1, LogTxHash = 0,
     LogTxIndex = 0, LogBlockHash = 0, LogIndex = 0, LogRemoved = False\<rparr>"

definition example_call_opts :: CallOpts where
  "example_call_opts = \<lparr>CallPending = False, CallFrom = 1, CallBlockNumber = None\<rparr>"

definition example_transact_opts :: TransactOpts where
  "example_transact_opts = \<lparr>TransactFrom = 1, TransactNonce = None, TransactValue = 0,
     TransactGasLimit = 0\<rparr>"

end
