(* ===== verification/AbiEvents.thy ===== *)
theory AbiEvents
  imports Abi Evm
begin

text \<open>
  Logs and the structs they are decoded into: what storing the arguments of an event in a struct
  does, and what \<open>BoundContract.UnpackLog\<close> makes of a log.
\<close>

type_synonym event_fields = "(string \<times> go_val) list"

section \<open>Logs as Go values\<close>

text \<open>The value of a log as the field \<open>Raw\<close> holds it.\<close>

definition log_val :: "evm_log \<Rightarrow> go_val" where
  "log_val l =
     GStruct [(''Address'', GAddr (LogAddress l)), (''Topics'', GSlice (map GHash (LogTopics l))),
       (''Data'', GBytes (LogData l)), (''BlockNumber'', GUint 64 (unat (LogBlockNumber l))),
       (''TxHash'', GHash (LogTxHash l)), (''TxIndex'', GUint 64 (LogTxIndex l)),
       (''BlockHash'', GHash (LogBlockHash l)), (''Index'', GUint 64 (LogIndex l)),
       (''Removed'', GBool (LogRemoved l))]"

text \<open>The zero value of a \<open>types.Log\<close>.\<close>

definition zero_Log :: go_val where
  "zero_Log =
     GStruct [(''Address'', GAddr 0), (''Topics'', GNil), (''Data'', GNil),
       (''BlockNumber'', GUint 64 0), (''TxHash'', GHash 0), (''TxIndex'', GUint 64 0),
       (''BlockHash'', GHash 0), (''Index'', GUint 64 0), (''Removed'', GBool False)]"

section \<open>What storing arguments in a struct does\<close>

lemma map_of_set_field:
  "f \<in> fst ` set fs \<Longrightarrow>
   map_of (set_field f v fs) g = (if g = f then Some v else map_of fs g)"
proof (induction fs)
  case (Cons a fs)
  then show ?case
    by (cases a; cases "f = fst a") auto
qed simp

lemma fst_set_field [simp]: "map fst (set_field f v fs) = map fst fs"
  by (induction f v fs rule: set_field.induct) auto

lemma fst_set_set_field [simp]: "fst ` set (set_field f v fs) = fst ` set fs"
  using fst_set_field [of f v fs] by (metis list.set_map)

lemma fst_set_args [simp]: "fst ` set (set_args idx ins args fs) = fst ` set fs"
  by (induction idx ins args fs rule: set_args.induct) auto

lemma map_of_set_args_other:
  "g \<notin> (\<lambda>a. export_name (fst a)) ` set ins \<Longrightarrow> has_fields ins fs \<Longrightarrow>
   map_of (set_args idx ins args fs) g = map_of fs g"
proof (induction idx ins args fs rule: set_args.induct)
  case (1 idx n t i as v vs fs)
  then show ?case
    by (auto simp: has_fields_def map_of_set_field)
qed simp_all

lemma map_of_set_args:
  "distinct (map (\<lambda>a. export_name (fst a)) ins) \<Longrightarrow> has_fields ins fs \<Longrightarrow>
   length args = length ins \<Longrightarrow> k < length ins \<Longrightarrow>
   map_of (set_args idx ins args fs) (export_name (fst (ins ! k))) =
     (if snd (snd (ins ! k)) = idx then Some (args ! k)
      else map_of fs (export_name (fst (ins ! k))))"
proof (induction idx ins args fs arbitrary: k rule: set_args.induct)
  case (1 idx n t i as v vs fs)
  let ?fs = "if i = idx then set_field (export_name n) v fs else fs"
  have hf: "has_fields as ?fs" and n: "export_name n \<in> fst ` set fs"
    using "1.prems"(2) by (simp_all add: has_fields_def)
  show ?case
  proof (cases k)
    case 0
    have "export_name n \<notin> (\<lambda>a. export_name (fst a)) ` set as"
      using "1.prems"(1) by auto
    then show ?thesis
      using 0 hf n map_of_set_args_other [of "export_name n" as ?fs idx vs]
      by (simp add: map_of_set_field)
  next
    case (Suc j)
    then have "as ! j \<in> set as"
      using "1.prems"(4) by simp
    then have "export_name (fst (as ! j)) \<noteq> export_name n"
      using "1.prems"(1) by (metis (mono_tags, lifting) distinct.simps(2) fst_conv image_eqI list.set_map list.simps(9))
    then show ?thesis
      using Suc "1.prems" "1.IH" [of j] hf n by (simp add: map_of_set_field)
  qed
qed auto

lemma stored_args:
  assumes "distinct (map (\<lambda>a. export_name (fst a)) ins)" and "has_fields ins fs"
    and "length args = length ins" and "k < length ins"
  shows "map_of (set_args True ins args (set_args False ins args fs)) (export_name (fst (ins ! k))) =
    Some (args ! k)"
proof -
  have "has_fields ins (set_args False ins args fs)"
    using assms(2) by (simp add: has_fields_def)
  then show ?thesis
    using assms by (simp add: map_of_set_args)
qed

lemma stored_other:
  assumes "has_fields ins fs" and "g \<notin> (\<lambda>a. export_name (fst a)) ` set ins"
  shows "map_of (set_args True ins args (set_args False ins args fs)) g = map_of fs g"
  using assms by (simp add: map_of_set_args_other has_fields_def)

lemma length_matches: "matches_args as vs \<Longrightarrow> length vs = length as"
  by (induction as vs rule: matches_args.induct) auto

lemma length_matches_args: "matches_args (event_args ins) args \<Longrightarrow> length args = length ins"
  using length_matches by (fastforce simp: event_args_def)

lemma fits_set_args [simp]: "fits ins (set_args idx as vs fs) \<longleftrightarrow> fits ins fs"
proof -
  have "map fst (set_args idx as vs fs) = map fst fs"
    by (induction idx as vs fs rule: set_args.induct) auto
  then show ?thesis
    by (simp add: fits_def has_fields_def)
qed

section \<open>Events that a struct can hold\<close>

definition decodable :: "(string \<times> abi_type \<times> bool) list \<Rightarrow> (string \<times> go_val) list \<Rightarrow> bool" where
  "decodable ins fs \<longleftrightarrow>
     ins \<noteq> [] \<and> fits ins fs \<and> distinct (map (\<lambda>a. export_name (fst a)) ins) \<and>
     ''Raw'' \<notin> (\<lambda>a. export_name (fst a)) ` set ins \<and> map_of fs ''Raw'' = Some zero_Log \<and>
     (\<forall>a \<in> set ins. snd (snd a) \<longrightarrow> static (fst (snd a)) \<and> words (fst (snd a)) = 1) \<and>
     (\<forall>a \<in> set ins. \<not> snd (snd a) \<longrightarrow> 0 < words (fst (snd a)))"

lemma codec_events_at:
  assumes "codec_events c" and "map_of (Events abi) ev = Some ins"
    and "matches_args (event_args ins) args" and "ins \<noteq> []"
    and "\<forall>a \<in> set ins. snd (snd a) \<longrightarrow> static (fst (snd a)) \<and> words (fst (snd a)) = 1"
    and "\<forall>a \<in> set ins. \<not> snd (snd a) \<longrightarrow> 0 < words (fst (snd a))"
  shows "\<exists>topic topics data. pack_event c abi ev args = Inr (topic # topics, data) \<and>
          (data = [] \<longleftrightarrow> (\<forall>a \<in> set ins. snd (snd a))) \<and>
          (\<forall>fs. fits ins fs \<longrightarrow>
             unpack_event_data c abi ev (GStruct fs) data =
               Inr (GStruct (set_args False ins args fs)) \<and>
             parse_topics c (filter (\<lambda>(n, t, i). i) ins) (GStruct fs) topics =
               Inr (GStruct (set_args True ins args fs)))"
  by (rule assms(1) [unfolded codec_events_def, THEN spec, THEN spec, THEN spec, THEN spec, THEN mp,
        OF assms(2), THEN mp, OF assms(3), THEN mp, OF assms(4), THEN mp, OF assms(5), THEN mp,
        OF assms(6)])

section \<open>UnpackLog\<close>

text \<open>
  \<open>UnpackLog\<close> refuses a log without topics or whose first topic is not the identifier of the event;
  otherwise the data, if there is any, and then the topics are stored in the struct.
\<close>

definition unpack_log :: "abi_codec \<Rightarrow> contract_abi \<Rightarrow> event_fields \<Rightarrow> string \<Rightarrow> evm_log \<Rightarrow> goerr + event_fields" where
  "unpack_log k abi zero event log =
     (case LogTopics log of
        [] \<Rightarrow> Inl [''no event signature'']
      | t # ts \<Rightarrow>
          if event_by_id k abi t \<noteq> Inr event then Inl [''event signature mismatch'']
          else
            rbind (if LogData log \<noteq> [] then unpack_event_data k abi event (GStruct zero) (LogData log)
                   else Inr (GStruct zero)) (\<lambda>out.
            rbind (parse_topics k (filter (\<lambda>(n, t, i). i) (case map_of (Events abi) event of
                None \<Rightarrow> [] | Some ins \<Rightarrow> ins)) out ts) (\<lambda>v.
            case v of GStruct fs \<Rightarrow> Inr fs | _ \<Rightarrow> Inl [''abi: not a struct''])))"

lemma unpack_log_refuses:
  assumes "LogTopics log = [] \<or> event_by_id k abi (hd (LogTopics log)) \<noteq> Inr ev"
  shows "\<not> is_Ok (unpack_log k abi zero ev log)"
  using assms by (auto simp: unpack_log_def split: list.splits)

lemma unpack_log_stored:
  assumes "codec_events k" and "event_ids k abi" and "map_of (Events abi) ev = Some ins"
    and "decodable ins zero" and "matches_args (event_args ins) args"
    and "pack_event k abi ev args = Inr (LogTopics log, LogData log)"
  shows "unpack_log k abi zero ev log =
    Inr (set_args True ins args (set_args False ins args zero))"
proof -
  obtain t ts where t: "LogTopics log = t # ts"
      and empty: "LogData log = [] \<longleftrightarrow> (\<forall>a \<in> set ins. snd (snd a))"
      and dec: "\<forall>fs. fits ins fs \<longrightarrow>
        unpack_event_data k abi ev (GStruct fs) (LogData log) =
          Inr (GStruct (set_args False ins args fs)) \<and>
        parse_topics k (filter (\<lambda>(n, t, i). i) ins) (GStruct fs) ts =
          Inr (GStruct (set_args True ins args fs))"
    using codec_events_at [OF assms(1,3,5)] assms(4,6) unfolding decodable_def by auto
  have f: "fits ins zero"
    using assms(4) by (simp add: decodable_def)
  have none: "set_args False as vs gs = gs" if "\<forall>a \<in> set as. snd (snd a)" for as vs gs
    using that by (induction "False" as vs gs rule: set_args.induct) auto
  have "(if LogData log \<noteq> [] then unpack_event_data k abi ev (GStruct zero) (LogData log)
      else Inr (GStruct zero)) = Inr (GStruct (set_args False ins args zero))"
    using dec [rule_format, OF f] empty none by simp
  moreover have "event_by_id k abi t = Inr ev"
    using assms(2,6) t unfolding event_ids_def by metis
  ultimately show ?thesis
    using dec [rule_format, of "set_args False ins args zero"] f assms(3)
    by (simp add: unpack_log_def t)
qed

end
