(* ===== verification/Events.thy ===== *)
theory Events
  imports TeleporterPacking GoStrings AbiEvents
begin

text \<open>
  \<open>abi-bindings/go/teleporter/TeleporterMessenger/event.go\<close>: the enumeration \<open>Event\<close> of Teleporter
  log events with its printer \<open>String\<close> and parser \<open>ToEvent\<close>, \<open>FilterTeleporterEvents\<close>, which decodes a
  log into the struct of the named event, and the \<open>Readable\<close> structs the events print as.
  An interface value \<open>fmt.Stringer\<close> is its dynamic type (a Go type name) and the value.
\<close>

section \<open>The enumeration\<close>

definition Unknown :: u8 where "Unknown = 0"
definition SendCrossChainMessage :: u8 where "SendCrossChainMessage = 1"
definition ReceiveCrossChainMessage :: u8 where "ReceiveCrossChainMessage = 2"
definition AddFeeAmount :: u8 where "AddFeeAmount = 3"
definition MessageExecutionFailed :: u8 where "MessageExecutionFailed = 4"
definition MessageExecuted :: u8 where "MessageExecuted = 5"
definition RelayerRewardsRedeemed :: u8 where "RelayerRewardsRedeemed = 6"
definition ReceiptReceived :: u8 where "ReceiptReceived = 7"

lemmas event_constants = Unknown_def SendCrossChainMessage_def ReceiveCrossChainMessage_def
  AddFeeAmount_def MessageExecutionFailed_def MessageExecuted_def RelayerRewardsRedeemed_def
  ReceiptReceived_def

definition sendCrossChainMessageStr :: string where
  "sendCrossChainMessageStr = ''SendCrossChainMessage''"
definition receiveCrossChainMessageStr :: string where
  "receiveCrossChainMessageStr = ''ReceiveCrossChainMessage''"
definition addFeeAmountStr :: string where
  "addFeeAmountStr = ''AddFeeAmount''"
definition messageExecutionFailedStr :: string where
  "messageExecutionFailedStr = ''MessageExecutionFailed''"
definition messageExecutedStr :: string where
  "messageExecutedStr = ''MessageExecuted''"
definition relayerRewardsRedeemedStr :: string where
  "relayerRewardsRedeemedStr = ''RelayerRewardsRedeemed''"
definition receiptReceivedStr :: string where
  "receiptReceivedStr = ''ReceiptReceived''"
definition unknownStr :: string where
  "unknownStr = ''Unknown''"

lemmas event_names = sendCrossChainMessageStr_def receiveCrossChainMessageStr_def
  addFeeAmountStr_def messageExecutionFailedStr_def messageExecutedStr_def
  relayerRewardsRedeemedStr_def receiptReceivedStr_def unknownStr_def

definition Event_String :: "u8 \<Rightarrow> string" where
  "Event_String e =
     (if e = SendCrossChainMessage then sendCrossChainMessageStr
      else if e = ReceiveCrossChainMessage then receiveCrossChainMessageStr
      else if e = AddFeeAmount then addFeeAmountStr
      else if e = MessageExecutionFailed then messageExecutionFailedStr
      else if e = MessageExecuted then messageExecutedStr
      else if e = RelayerRewardsRedeemed then relayerRewardsRedeemedStr
      else if e = ReceiptReceived then receiptReceivedStr
      else unknownStr)"

definition ToEvent :: "string \<Rightarrow> goerr + u8" where
  "ToEvent e =
     (if ToLower e = ToLower sendCrossChainMessageStr then Inr SendCrossChainMessage
      else if ToLower e = ToLower receiveCrossChainMessageStr then Inr ReceiveCrossChainMessage
      else if ToLower e = ToLower addFeeAmountStr then Inr AddFeeAmount
      else if ToLower e = ToLower messageExecutionFailedStr then Inr MessageExecutionFailed
      else if ToLower e = ToLower messageExecutedStr then Inr MessageExecuted
      else if ToLower e = ToLower relayerRewardsRedeemedStr then Inr RelayerRewardsRedeemed
      else if ToLower e = ToLower receiptReceivedStr then Inr ReceiptReceived
      else Inl [''unknown event '' @ e])"

text \<open>The events the enumeration knows, \<open>Unknown\<close> apart.\<close>

definition known_events :: "u8 list" where
  "known_events = [SendCrossChainMessage, ReceiveCrossChainMessage, AddFeeAmount,
     MessageExecutionFailed, MessageExecuted, RelayerRewardsRedeemed, ReceiptReceived]"

lemma lower_letters [simp]:
  "lower_char CHR ''A'' = CHR ''a''" "lower_char CHR ''C'' = CHR ''c''"
  "lower_char CHR ''E'' = CHR ''e''" "lower_char CHR ''F'' = CHR ''f''"
  "lower_char CHR ''M'' = CHR ''m''" "lower_char CHR ''R'' = CHR ''r''"
  "lower_char CHR ''S'' = CHR ''s''" "lower_char CHR ''U'' = CHR ''u''"
  "lower_char CHR ''B'' = CHR ''b''" "lower_char CHR ''D'' = CHR ''d''"
  "lower_char CHR ''I'' = CHR ''i''"
  by code_simp+

lemma lower_letters' [simp]:
  "lower_char CHR ''a'' = CHR ''a''" "lower_char CHR ''b'' = CHR ''b''"
  "lower_char CHR ''c'' = CHR ''c''" "lower_char CHR ''d'' = CHR ''d''"
  "lower_char CHR ''e'' = CHR ''e''" "lower_char CHR ''f'' = CHR ''f''"
  "lower_char CHR ''g'' = CHR ''g''" "lower_char CHR ''h'' = CHR ''h''"
  "lower_char CHR ''i'' = CHR ''i''" "lower_char CHR ''k'' = CHR ''k''"
  "lower_char CHR ''l'' = CHR ''l''" "lower_char CHR ''m'' = CHR ''m''"
  "lower_char CHR ''n'' = CHR ''n''" "lower_char CHR ''o'' = CHR ''o''"
  "lower_char CHR ''p'' = CHR ''p''" "lower_char CHR ''r'' = CHR ''r''"
  "lower_char CHR ''s'' = CHR ''s''" "lower_char CHR ''t'' = CHR ''t''"
  "lower_char CHR ''u'' = CHR ''u''" "lower_char CHR ''v'' = CHR ''v''"
  "lower_char CHR ''w'' = CHR ''w''" "lower_char CHR ''x'' = CHR ''x''"
  "lower_char CHR ''y'' = CHR ''y''" "lower_char CHR ''z'' = CHR ''z''"
  by code_simp+

lemma lower_names:
  "ToLower sendCrossChainMessageStr = ''sendcrosschainmessage''"
  "ToLower receiveCrossChainMessageStr = ''receivecrosschainmessage''"
  "ToLower addFeeAmountStr = ''addfeeamount''"
  "ToLower messageExecutionFailedStr = ''messageexecutionfailed''"
  "ToLower messageExecutedStr = ''messageexecuted''"
  "ToLower relayerRewardsRedeemedStr = ''relayerrewardsredeemed''"
  "ToLower receiptReceivedStr = ''receiptreceived''"
  by (simp_all add: ToLower_def event_names)

lemma Event_String_simps:
  "Event_String SendCrossChainMessage = sendCrossChainMessageStr"
  "Event_String ReceiveCrossChainMessage = receiveCrossChainMessageStr"
  "Event_String AddFeeAmount = addFeeAmountStr"
  "Event_String MessageExecutionFailed = messageExecutionFailedStr"
  "Event_String MessageExecuted = messageExecutedStr"
  "Event_String RelayerRewardsRedeemed = relayerRewardsRedeemedStr"
  "Event_String ReceiptReceived = receiptReceivedStr"
  by (simp_all add: Event_String_def event_constants)

lemma ToEvent_Inr_iff:
  "ToEvent s = Inr e \<longleftrightarrow> e \<in> set known_events \<and> ToLower s = ToLower (Event_String e)"
  unfolding known_events_def ToEvent_def
  by (auto simp: Event_String_simps lower_names)

section \<open>The event structs\<close>

text \<open>The zero values Go's \<open>new\<close> gives: a nil pointer or slice is \<open>GNil\<close>.\<close>

definition zero_TeleporterFeeInfo :: go_val where
  "zero_TeleporterFeeInfo = GStruct [(''FeeTokenAddress'', GAddr 0), (''Amount'', GNil)]"

definition zero_TeleporterMessage :: go_val where
  "zero_TeleporterMessage =
     GStruct [(''MessageNonce'', GNil), (''OriginSenderAddress'', GAddr 0),
       (''DestinationBlockchainID'', GArr32 0), (''DestinationAddress'', GAddr 0),
       (''RequiredGasLimit'', GNil), (''AllowedRelayerAddresses'', GNil), (''Receipts'', GNil),
       (''Message'', GNil)]"

definition TeleporterMessengerSendCrossChainMessage :: "(string \<times> go_val) list" where
  "TeleporterMessengerSendCrossChainMessage =
     [(''MessageID'', GArr32 0), (''DestinationBlockchainID'', GArr32 0),
      (''Message'', zero_TeleporterMessage), (''FeeInfo'', zero_TeleporterFeeInfo),
      (''Raw'', zero_Log)]"

definition TeleporterMessengerReceiveCrossChainMessage :: "(string \<times> go_val) list" where
  "TeleporterMessengerReceiveCrossChainMessage =
     [(''MessageID'', GArr32 0), (''SourceBlockchainID'', GArr32 0), (''Deliverer'', GAddr 0),
      (''RewardRedeemer'', GAddr 0), (''Message'', zero_TeleporterMessage), (''Raw'', zero_Log)]"

definition TeleporterMessengerAddFeeAmount :: "(string \<times> go_val) list" where
  "TeleporterMessengerAddFeeAmount =
     [(''MessageID'', GArr32 0), (''UpdatedFeeInfo'', zero_TeleporterFeeInfo), (''Raw'', zero_Log)]"

definition TeleporterMessengerMessageExecutionFailed :: "(string \<times> go_val) list" where
  "TeleporterMessengerMessageExecutionFailed =
     [(''MessageID'', GArr32 0), (''SourceBlockchainID'', GArr32 0),
      (''Message'', zero_TeleporterMessage), (''Raw'', zero_Log)]"

definition TeleporterMessengerMessageExecuted :: "(string \<times> go_val) list" where
  "TeleporterMessengerMessageExecuted =
     [(''MessageID'', GArr32 0), (''SourceBlockchainID'', GArr32 0), (''Raw'', zero_Log)]"

definition TeleporterMessengerRelayerRewardsRedeemed :: "(string \<times> go_val) list" where
  "TeleporterMessengerRelayerRewardsRedeemed =
     [(''Redeemer'', GAddr 0), (''Asset'', GAddr 0), (''Amount'', GNil), (''Raw'', zero_Log)]"

definition TeleporterMessengerReceiptReceived :: "(string \<times> go_val) list" where
  "TeleporterMessengerReceiptReceived =
     [(''MessageID'', GArr32 0), (''DestinationBlockchainID'', GArr32 0),
      (''RelayerRewardAddress'', GAddr 0), (''FeeInfo'', zero_TeleporterFeeInfo),
      (''Raw'', zero_Log)]"

lemmas event_structs = TeleporterMessengerSendCrossChainMessage_def
  TeleporterMessengerReceiveCrossChainMessage_def TeleporterMessengerAddFeeAmount_def
  TeleporterMessengerMessageExecutionFailed_def TeleporterMessengerMessageExecuted_def
  TeleporterMessengerRelayerRewardsRedeemed_def TeleporterMessengerReceiptReceived_def

section \<open>Decoding a log\<close>

text \<open>The switch of \<open>FilterTeleporterEvents\<close>: the dynamic type of \<open>out\<close> and its fields.\<close>

definition new_event :: "u8 \<Rightarrow> goerr + string \<times> (string \<times> go_val) list" where
  "new_event e =
     (if e = SendCrossChainMessage then
        Inr (''TeleporterMessengerSendCrossChainMessage'', TeleporterMessengerSendCrossChainMessage)
      else if e = ReceiveCrossChainMessage then
        Inr (''TeleporterMessengerReceiveCrossChainMessage'', TeleporterMessengerReceiveCrossChainMessage)
      else if e = AddFeeAmount then
        Inr (''TeleporterMessengerAddFeeAmount'', TeleporterMessengerAddFeeAmount)
      else if e = MessageExecutionFailed then
        Inr (''TeleporterMessengerMessageExecutionFailed'', TeleporterMessengerMessageExecutionFailed)
      else if e = MessageExecuted then
        Inr (''TeleporterMessengerMessageExecuted'', TeleporterMessengerMessageExecuted)
      else if e = RelayerRewardsRedeemed then
        Inr (''TeleporterMessengerRelayerRewardsRedeemed'', TeleporterMessengerRelayerRewardsRedeemed)
      else if e = ReceiptReceived then
        Inr (''TeleporterMessengerReceiptReceived'', TeleporterMessengerReceiptReceived)
      else Inl [''unknown event '' @ Event_String e])"

definition FilterTeleporterEvents ::
  "abi_codec \<Rightarrow> hash list \<Rightarrow> bytes \<Rightarrow> string \<Rightarrow> (goerr + string \<times> go_val) go" where
  "FilterTeleporterEvents c topics data event =
     (case ToEvent event of
        Inl e \<Rightarrow> Done (Inl e)
      | Inr e \<Rightarrow>
          (case new_event e of
             Inl err \<Rightarrow> Done (Inl err)
           | Inr (dyn, zero) \<Rightarrow>
               (case UnpackEvent c (GStruct zero) (Event_String e) topics data of
                  Panic p \<Rightarrow> Panic p
                | Done (Inl err) \<Rightarrow> Done (Inl err)
                | Done (Inr out) \<Rightarrow> Done (Inr (dyn, out)))))"

section \<open>Properties\<close>

text \<open>
  \<open>ToEvent\<close> and \<open>String\<close> agree on the whole enumeration, whatever the case of the letters:
  a name is accepted as an event exactly if it is, up to case, the name that event prints as, the
  printed name of every event parses back to it, and no name parses to \<open>Unknown\<close>.
\<close>

theorem event_names_parse_back:
  "(ToEvent s = Inr e \<longleftrightarrow> e \<in> set known_events \<and> ToLower s = ToLower (Event_String e)) \<and>
   ToEvent s \<noteq> Inr Unknown \<and> (e \<in> set known_events \<longrightarrow> ToEvent (Event_String e) = Inr e)"
proof -
  have "Unknown \<notin> set known_events"
    by (simp add: known_events_def event_constants)
  then show ?thesis
    by (simp add: ToEvent_Inr_iff)
qed

theorem event_names_parse_back_witness: "ToEvent ''addfeeAMOUNT'' = Inr AddFeeAmount"
proof -
  have "ToLower ''addfeeAMOUNT'' = ToLower (Event_String AddFeeAmount)"
    by code_simp
  moreover have "AddFeeAmount \<in> set known_events"
    by (simp add: known_events_def)
  ultimately show ?thesis
    using event_names_parse_back [of "''addfeeAMOUNT''" AddFeeAmount] by simp
qed

text \<open>The declaration of each known event fits the struct it is decoded into.\<close>

definition declared :: "u8 \<Rightarrow> (string \<times> abi_type \<times> bool) list" where
  "declared e = event_inputs TeleporterMessengerABI (Event_String e)"

lemma declared_simps:
  "declared SendCrossChainMessage =
     [(''messageID'', TBytes32, True), (''destinationBlockchainID'', TBytes32, True),
      (''message'', message_tuple, False), (''feeInfo'', fee_info_tuple, False)]"
  "declared ReceiveCrossChainMessage =
     [(''messageID'', TBytes32, True), (''sourceBlockchainID'', TBytes32, True),
      (''deliverer'', TAddress, True), (''rewardRedeemer'', TAddress, False),
      (''message'', message_tuple, False)]"
  "declared AddFeeAmount =
     [(''messageID'', TBytes32, True), (''updatedFeeInfo'', fee_info_tuple, False)]"
  "declared MessageExecutionFailed =
     [(''messageID'', TBytes32, True), (''sourceBlockchainID'', TBytes32, True),
      (''message'', message_tuple, False)]"
  "declared MessageExecuted =
     [(''messageID'', TBytes32, True), (''sourceBlockchainID'', TBytes32, True)]"
  "declared RelayerRewardsRedeemed =
     [(''redeemer'', TAddress, True), (''asset'', TAddress, True), (''amount'', TUint 256, False)]"
  "declared ReceiptReceived =
     [(''messageID'', TBytes32, True), (''destinationBlockchainID'', TBytes32, True),
      (''relayerRewardAddress'', TAddress, True), (''feeInfo'', fee_info_tuple, False)]"
  by (simp_all add: declared_def event_inputs_def Event_String_simps event_names
      TeleporterMessengerABI_def)

lemma declared_in_abi:
  "e \<in> set known_events \<Longrightarrow>
   map_of (Events TeleporterMessengerABI) (Event_String e) = Some (declared e)"
  unfolding known_events_def
  by (auto simp: declared_def event_inputs_def Event_String_simps event_names
      TeleporterMessengerABI_def)

lemma new_event_simps:
  "new_event SendCrossChainMessage =
     Inr (''TeleporterMessengerSendCrossChainMessage'', TeleporterMessengerSendCrossChainMessage)"
  "new_event ReceiveCrossChainMessage =
     Inr (''TeleporterMessengerReceiveCrossChainMessage'', TeleporterMessengerReceiveCrossChainMessage)"
  "new_event AddFeeAmount = Inr (''TeleporterMessengerAddFeeAmount'', TeleporterMessengerAddFeeAmount)"
  "new_event MessageExecutionFailed =
     Inr (''TeleporterMessengerMessageExecutionFailed'', TeleporterMessengerMessageExecutionFailed)"
  "new_event MessageExecuted =
     Inr (''TeleporterMessengerMessageExecuted'', TeleporterMessengerMessageExecuted)"
  "new_event RelayerRewardsRedeemed =
     Inr (''TeleporterMessengerRelayerRewardsRedeemed'', TeleporterMessengerRelayerRewardsRedeemed)"
  "new_event ReceiptReceived =
     Inr (''TeleporterMessengerReceiptReceived'', TeleporterMessengerReceiptReceived)"
  by (simp_all add: new_event_def event_constants)

lemma decodable_structs:
  "decodable (declared SendCrossChainMessage) TeleporterMessengerSendCrossChainMessage"
  "decodable (declared ReceiveCrossChainMessage) TeleporterMessengerReceiveCrossChainMessage"
  "decodable (declared AddFeeAmount) TeleporterMessengerAddFeeAmount"
  "decodable (declared MessageExecutionFailed) TeleporterMessengerMessageExecutionFailed"
  "decodable (declared MessageExecuted) TeleporterMessengerMessageExecuted"
  "decodable (declared RelayerRewardsRedeemed) TeleporterMessengerRelayerRewardsRedeemed"
  "decodable (declared ReceiptReceived) TeleporterMessengerReceiptReceived"
  by (simp_all add: decodable_def declared_simps has_fields_def fits_def event_structs tuple_defs)

lemma new_event_known:
  assumes "e \<in> set known_events"
  shows "\<exists>fs. new_event e = Inr (''TeleporterMessenger'' @ Event_String e, fs) \<and>
    decodable (declared e) fs"
proof -
  have "e = SendCrossChainMessage \<or> e = ReceiveCrossChainMessage \<or> e = AddFeeAmount \<or>
      e = MessageExecutionFailed \<or> e = MessageExecuted \<or> e = RelayerRewardsRedeemed \<or>
      e = ReceiptReceived"
    using assms by (simp add: known_events_def)
  then show ?thesis
    by (elim disjE; hypsubst)
      (simp_all add: new_event_simps decodable_structs Event_String_simps event_names)
qed

lemma UnpackEvent_stored:
  assumes "codec_methods c" and "codec_events c" and "e \<in> set known_events"
    and "decodable (declared e) fs" and "matches_args (event_args (declared e)) args"
  obtains topic topics data where
    "pack_event c TeleporterMessengerABI (Event_String e) args = Inr (topic # topics, data)"
    and "UnpackEvent c (GStruct fs) (Event_String e) (topic # topics) data =
      Done (Inr (GStruct (set_args True (declared e) args (set_args False (declared e) args fs))))"
proof -
  let ?ins = "declared e"
  have ins: "map_of (Events TeleporterMessengerABI) (Event_String e) = Some ?ins"
    by (rule declared_in_abi [OF assms(3)])
  obtain topic topics data where
      pack: "pack_event c TeleporterMessengerABI (Event_String e) args = Inr (topic # topics, data)"
      and empty: "data = [] \<longleftrightarrow> (\<forall>a \<in> set ?ins. snd (snd a))"
      and dec: "\<forall>fs. fits ?ins fs \<longrightarrow>
        unpack_event_data c TeleporterMessengerABI (Event_String e) (GStruct fs) data =
          Inr (GStruct (set_args False ?ins args fs)) \<and>
        parse_topics c (filter (\<lambda>(n, t, i). i) ?ins) (GStruct fs) topics =
          Inr (GStruct (set_args True ?ins args fs))"
    using codec_events_at [OF assms(2) ins assms(5)] assms(4) unfolding decodable_def by blast
  have hf: "fits ?ins fs"
    using assms(4) by (simp add: decodable_def)
  then have hf': "fits ?ins (set_args False ?ins args fs)"
    by simp
  have none: "set_args False as vs gs = gs" if "\<forall>a \<in> set as. snd (snd a)" for as vs gs
    using that by (induction "False" as vs gs rule: set_args.induct) auto
  have "(if length data > 0
        then unpack_event_data c TeleporterMessengerABI (Event_String e) (GStruct fs) data
        else Inr (GStruct fs)) = Inr (GStruct (set_args False ?ins args fs))"
    using dec [rule_format, OF hf] empty none by simp
  moreover have "event_inputs TeleporterMessengerABI (Event_String e) = ?ins"
    by (simp add: declared_def)
  ultimately have "UnpackEvent c (GStruct fs) (Event_String e) (topic # topics) data =
      Done (Inr (GStruct (set_args True ?ins args (set_args False ?ins args fs))))"
    using dec [rule_format, OF hf'] by (simp add: UnpackEvent_def teleporter_abi_ok [OF assms(1)])
  with pack show ?thesis
    by (rule that)
qed

lemma decode_event_log:
  assumes "codec_methods c" and "codec_events c"
    and "e \<in> set known_events" and "ToLower name = ToLower (Event_String e)"
    and "matches_args (event_args (declared e)) args"
  shows "\<exists>topics data out.
     pack_event c TeleporterMessengerABI (Event_String e) args = Inr (topics, data) \<and>
     FilterTeleporterEvents c topics data name =
       Done (Inr (''TeleporterMessenger'' @ Event_String e, out)) \<and>
     (\<forall>k < length (declared e). go_field (export_name (fst (declared e ! k))) out = Some (args ! k)) \<and>
     go_field ''Raw'' out = Some zero_Log"
proof -
  obtain fs where new: "new_event e = Inr (''TeleporterMessenger'' @ Event_String e, fs)"
      and fs: "decodable (declared e) fs"
    using new_event_known [OF assms(3)] by blast
  obtain topic topics data where
      pack: "pack_event c TeleporterMessengerABI (Event_String e) args = Inr (topic # topics, data)"
      and unpack: "UnpackEvent c (GStruct fs) (Event_String e) (topic # topics) data =
        Done (Inr (GStruct (set_args True (declared e) args (set_args False (declared e) args fs))))"
    by (rule UnpackEvent_stored [OF assms(1,2,3) fs assms(5)])
  have "ToEvent name = Inr e"
    using assms(3,4) by (simp add: ToEvent_Inr_iff)
  then have filter: "FilterTeleporterEvents c (topic # topics) data name =
      Done (Inr (''TeleporterMessenger'' @ Event_String e,
        GStruct (set_args True (declared e) args (set_args False (declared e) args fs))))"
    by (simp add: FilterTeleporterEvents_def new unpack)
  have "go_field (export_name (fst (declared e ! k)))
      (GStruct (set_args True (declared e) args (set_args False (declared e) args fs))) =
      Some (args ! k)" if "k < length (declared e)" for k
    using stored_args that fs length_matches_args [OF assms(5)] by (simp add: decodable_def fits_def)
  moreover have "go_field ''Raw''
      (GStruct (set_args True (declared e) args (set_args False (declared e) args fs))) =
      Some zero_Log"
    using stored_other fs by (simp add: decodable_def fits_def)
  ultimately show ?thesis
    using pack filter by blast
qed

text \<open>
  C14. A log that the contract emits for any of the seven events is decoded by
  \<open>FilterTeleporterEvents\<close>, called with the event's name in any case, to the struct of that event:
  every argument of the event, indexed or not, is found in the field of its name, and the raw log is
  left at its zero value.
\<close>

theorem event_log_decodes:
  assumes "codec_methods c" and "codec_events c"
    and "e \<in> set known_events" and "ToLower name = ToLower (Event_String e)"
    and "matches_args (event_args (declared e)) args"
  shows "\<exists>topics data out.
     pack_event c TeleporterMessengerABI (Event_String e) args = Inr (topics, data) \<and>
     FilterTeleporterEvents c topics data name =
       Done (Inr (''TeleporterMessenger'' @ Event_String e, out)) \<and>
     (\<forall>k < length (declared e). go_field (export_name (fst (declared e ! k))) out = Some (args ! k)) \<and>
     go_field ''Raw'' out = Some zero_Log"
  using assms by (rule decode_event_log)

theorem event_log_decodes_witness:
  "\<exists>topics data out.
     pack_event ref_codec TeleporterMessengerABI (Event_String SendCrossChainMessage)
       [GArr32 9, GArr32 5, message_val example_message,
        fee_info_val \<lparr>FeeTokenAddress = 7, Amount = 10\<rparr>] = Inr (topics, data) \<and>
     FilterTeleporterEvents ref_codec topics data ''SendCrossChainMessage'' =
       Done (Inr (''TeleporterMessengerSendCrossChainMessage'', out)) \<and>
     go_field ''MessageID'' out = Some (GArr32 9) \<and>
     go_field ''Message'' out = Some (message_val example_message)"
proof -
  let ?args = "[GArr32 9, GArr32 5, message_val example_message,
      fee_info_val \<lparr>FeeTokenAddress = 7, Amount = 10\<rparr>]"
  have "matches_args (event_args (declared SendCrossChainMessage)) ?args"
    by (simp add: declared_simps event_args_Cons fee_info_ok_def in_uint256_def)
  moreover have "SendCrossChainMessage \<in> set known_events"
    by (simp add: known_events_def)
  moreover have "ToLower ''SendCrossChainMessage'' = ToLower (Event_String SendCrossChainMessage)"
    by (simp add: Event_String_simps sendCrossChainMessageStr_def)
  ultimately obtain topics data out where
      "pack_event ref_codec TeleporterMessengerABI (Event_String SendCrossChainMessage) ?args =
        Inr (topics, data)"
      "FilterTeleporterEvents ref_codec topics data ''SendCrossChainMessage'' =
        Done (Inr (''TeleporterMessenger'' @ Event_String SendCrossChainMessage, out))"
      and fields: "\<forall>k < length (declared SendCrossChainMessage).
        go_field (export_name (fst (declared SendCrossChainMessage ! k))) out = Some (?args ! k)"
    using event_log_decodes [OF ref_methods ref_events] by blast
  moreover have "go_field ''MessageID'' out = Some (GArr32 9)"
    using fields [rule_format, of 0] by (simp add: declared_simps)
  moreover have "go_field ''Message'' out = Some (message_val example_message)"
    using fields [rule_format, of 2] by (simp add: declared_simps)
  ultimately show ?thesis
    by (simp add: Event_String_simps sendCrossChainMessageStr_def)
qed

lemma ToEvent_initialized:
  "ToEvent ''BlockchainIDInitialized'' = Inl [''unknown event BlockchainIDInitialized'']"
  by (simp add: ToEvent_def ToLower_def event_names)

lemma initialized_event_refused:
  "FilterTeleporterEvents c topics data ''BlockchainIDInitialized'' =
     Done (Inl [''unknown event BlockchainIDInitialized''])"
  by (simp add: FilterTeleporterEvents_def ToEvent_initialized)

text \<open>
  Of the events the contract's ABI declares, \<open>BlockchainIDInitialized\<close> is the only one the
  parser refuses, so its logs cannot be decoded; the default branch of the switch after \<open>ToEvent\<close>
  is never taken.
\<close>

theorem only_blockchain_id_event_unsupported:
  "filter (\<lambda>ev. \<not> is_Ok (ToEvent ev)) (map fst (Events TeleporterMessengerABI)) =
     [''BlockchainIDInitialized''] \<and>
   FilterTeleporterEvents c topics data ''BlockchainIDInitialized'' =
     Done (Inl [''unknown event BlockchainIDInitialized'']) \<and>
   (ToEvent name = Inr e \<longrightarrow> is_Ok (new_event e))"
proof (intro conjI impI)
  show "FilterTeleporterEvents c topics data ''BlockchainIDInitialized'' =
      Done (Inl [''unknown event BlockchainIDInitialized''])"
    by (rule initialized_event_refused)
  have good: "is_Ok (ToEvent (Event_String e))" if "e \<in> set known_events" for e
    using that ToEvent_Inr_iff [of "Event_String e" e] by (simp add: is_Ok_iff)
  have "is_Ok (ToEvent ''AddFeeAmount'')" "is_Ok (ToEvent ''MessageExecuted'')"
      "is_Ok (ToEvent ''MessageExecutionFailed'')" "is_Ok (ToEvent ''ReceiptReceived'')"
      "is_Ok (ToEvent ''ReceiveCrossChainMessage'')" "is_Ok (ToEvent ''RelayerRewardsRedeemed'')"
      "is_Ok (ToEvent ''SendCrossChainMessage'')"
    using good [of AddFeeAmount] good [of MessageExecuted] good [of MessageExecutionFailed]
      good [of ReceiptReceived] good [of ReceiveCrossChainMessage] good [of RelayerRewardsRedeemed]
      good [of SendCrossChainMessage]
    by (simp_all add: known_events_def Event_String_simps event_names)
  then show "filter (\<lambda>ev. \<not> is_Ok (ToEvent ev)) (map fst (Events TeleporterMessengerABI)) =
      [''BlockchainIDInitialized'']"
    by (simp add: TeleporterMessengerABI_def ToEvent_initialized)
  assume "ToEvent name = Inr e"
  then have "e \<in> set known_events"
    by (simp add: ToEvent_Inr_iff)
  then show "is_Ok (new_event e)"
    using new_event_known [of e] by (auto simp: is_Ok_iff)
qed

theorem only_blockchain_id_event_unsupported_witness: "is_Ok (new_event AddFeeAmount)"
proof -
  have "ToEvent ''AddFeeAmount'' = Inr AddFeeAmount"
    by code_simp
  then show ?thesis
    using only_blockchain_id_event_unsupported [of ref_codec "[]" "[]" "''AddFeeAmount''" AddFeeAmount]
    by simp
qed

text \<open>
  \<open>FilterTeleporterEvents\<close> of a known event panics (slicing the topics past their end) exactly
  if the log has no topic and its data, when there is any, could be unpacked: an anonymous log is not
  reported as an error.
\<close>

theorem filter_panics_iff_no_topics:
  assumes "codec_methods c" and "ToEvent name = Inr e" and "new_event e = Inr (dyn, fs)"
  shows "(\<exists>p. FilterTeleporterEvents c topics data name = Panic p) \<longleftrightarrow>
     topics = [] \<and>
     (data = [] \<or>
      is_Ok (unpack_event_data c TeleporterMessengerABI (Event_String e) (GStruct fs) data))"
  using assms(2,3)
  by (auto simp: FilterTeleporterEvents_def UnpackEvent_def teleporter_abi_ok [OF assms(1)] is_Ok_iff
      split: list.splits sum.splits if_splits)

theorem filter_panics_iff_no_topics_witness:
  "\<exists>p. FilterTeleporterEvents ref_codec [] [] ''MessageExecuted'' = Panic p"
proof -
  have "ToEvent ''MessageExecuted'' = Inr MessageExecuted"
    by code_simp
  then show ?thesis
    using filter_panics_iff_no_topics [OF ref_methods _ new_event_simps(5), of _ "[]" "[]"] by simp
qed

section \<open>Printing\<close>

text \<open>
  The conversions \<open>common.Hash(x)\<close> and \<open>ids.ID(x)\<close> of a \<open>[32]byte\<close>, the \<open>Readable\<close> structs and the
  \<open>String\<close> methods. \<open>json.MarshalIndent\<close> is the parameter \<open>marshal\<close>; the code drops its error.
\<close>

definition as_Hash :: "go_val \<Rightarrow> go_val" where
  "as_Hash v = (case go_arr32 v of Some h \<Rightarrow> GHash h | None \<Rightarrow> v)"

definition as_ID :: "go_val \<Rightarrow> go_val" where
  "as_ID v = (case go_arr32 v of Some h \<Rightarrow> GID h | None \<Rightarrow> v)"

definition sel :: "go_val \<Rightarrow> string \<Rightarrow> go_val" where
  "sel v f = (case go_field f v of Some x \<Rightarrow> x | None \<Rightarrow> GNil)"

definition toReadableTeleporterMessage :: "go_val \<Rightarrow> go_val" where
  "toReadableTeleporterMessage t =
     GStruct [(''MessageNonce'', sel t ''MessageNonce''),
       (''OriginSenderAddress'', sel t ''OriginSenderAddress''),
       (''DestinationBlockchainID'', as_ID (sel t ''DestinationBlockchainID'')),
       (''DestinationAddress'', sel t ''DestinationAddress''),
       (''RequiredGasLimit'', sel t ''RequiredGasLimit''),
       (''AllowedRelayerAddresses'', sel t ''AllowedRelayerAddresses''),
       (''Receipts'', sel t ''Receipts''), (''Message'', sel t ''Message'')]"

definition ReadableTeleporterMessengerSendCrossChainMessage :: "go_val \<Rightarrow> go_val" where
  "ReadableTeleporterMessengerSendCrossChainMessage t =
     GStruct [(''MessageID'', as_Hash (sel t ''MessageID'')),
       (''DestinationBlockchainID'', as_ID (sel t ''DestinationBlockchainID'')),
       (''Message'', toReadableTeleporterMessage (sel t ''Message'')),
       (''FeeInfo'', sel t ''FeeInfo''), (''Raw'', sel t ''Raw'')]"

definition ReadableTeleporterMessengerReceiveCrossChainMessage :: "go_val \<Rightarrow> go_val" where
  "ReadableTeleporterMessengerReceiveCrossChainMessage t =
     GStruct [(''MessageID'', as_Hash (sel t ''MessageID'')),
       (''SourceBlockchainID'', as_ID (sel t ''SourceBlockchainID'')),
       (''Deliverer'', sel t ''Deliverer''), (''RewardRedeemer'', sel t ''RewardRedeemer''),
       (''Message'', toReadableTeleporterMessage (sel t ''Message'')), (''Raw'', sel t ''Raw'')]"

definition ReadableTeleporterMessengerAddFeeAmount :: "go_val \<Rightarrow> go_val" where
  "ReadableTeleporterMessengerAddFeeAmount t =
     GStruct [(''MessageID'', as_Hash (sel t ''MessageID'')),
       (''UpdatedFeeInfo'', sel t ''UpdatedFeeInfo''), (''Raw'', sel t ''Raw'')]"

definition ReadableTeleporterMessengerMessageExecutionFailed :: "go_val \<Rightarrow> go_val" where
  "ReadableTeleporterMessengerMessageExecutionFailed t =
     GStruct [(''MessageID'', as_Hash (sel t ''MessageID'')),
       (''SourceBlockchainID'', as_ID (sel t ''SourceBlockchainID'')),
       (''Message'', toReadableTeleporterMessage (sel t ''Message'')), (''Raw'', sel t ''Raw'')]"

definition ReadableTeleporterMessengerMessageExecuted :: "go_val \<Rightarrow> go_val" where
  "ReadableTeleporterMessengerMessageExecuted t =
     GStruct [(''MessageID'', as_Hash (sel t ''MessageID'')),
       (''SourceBlockchainID'', as_ID (sel t ''SourceBlockchainID'')), (''Raw'', sel t ''Raw'')]"

definition ReadableTeleporterMessengerReceiptReceived :: "go_val \<Rightarrow> go_val" where
  "ReadableTeleporterMessengerReceiptReceived t =
     GStruct [(''MessageID'', as_Hash (sel t ''MessageID'')),
       (''DestinationBlockchainID'', as_ID (sel t ''DestinationBlockchainID'')),
       (''RelayerRewardAddress'', sel t ''RelayerRewardAddress''),
       (''FeeInfo'', sel t ''FeeInfo''), (''Raw'', sel t ''Raw'')]"

text \<open>The value each \<open>String\<close> method marshals, by the dynamic type of the receiver.\<close>

definition readable :: "u8 \<Rightarrow> go_val \<Rightarrow> go_val" where
  "readable e t =
     (if e = SendCrossChainMessage then ReadableTeleporterMessengerSendCrossChainMessage t
      else if e = ReceiveCrossChainMessage then ReadableTeleporterMessengerReceiveCrossChainMessage t
      else if e = AddFeeAmount then ReadableTeleporterMessengerAddFeeAmount t
      else if e = MessageExecutionFailed then ReadableTeleporterMessengerMessageExecutionFailed t
      else if e = MessageExecuted then ReadableTeleporterMessengerMessageExecuted t
      else if e = RelayerRewardsRedeemed then t
      else if e = ReceiptReceived then ReadableTeleporterMessengerReceiptReceived t
      else t)"

definition event_String_method :: "(go_val \<Rightarrow> string) \<Rightarrow> u8 \<Rightarrow> go_val \<Rightarrow> string" where
  "event_String_method marshal e t = marshal (readable e t)"

definition TeleporterMessage_String :: "(go_val \<Rightarrow> string) \<Rightarrow> go_val \<Rightarrow> string" where
  "TeleporterMessage_String marshal t = marshal (toReadableTeleporterMessage t)"

text \<open>Forgetting the tags of a printed value; the raw log, whose hashes have tags, is printed as it is.\<close>

fun untag :: "go_val \<Rightarrow> go_val" where
  "untag (GHash h) = GArr32 h"
| "untag (GID h) = GArr32 h"
| "untag (GStruct fs) =
     GStruct (map (\<lambda>f. (fst f, if fst f = ''Raw'' then snd f else untag (snd f))) fs)"
| "untag (GSlice vs) = GSlice (map untag vs)"
| "untag v = v"

lemma untag_conv:
  "untag v = v \<Longrightarrow> untag (as_Hash v) = v" "untag v = v \<Longrightarrow> untag (as_ID v) = v"
  by (cases v; simp add: as_Hash_def as_ID_def)+

text \<open>A struct value of one of the event types: the declared fields, in order.\<close>

definition message_fields :: "string list" where
  "message_fields =
     [''MessageNonce'', ''OriginSenderAddress'', ''DestinationBlockchainID'', ''DestinationAddress'',
      ''RequiredGasLimit'', ''AllowedRelayerAddresses'', ''Receipts'', ''Message'']"

definition of_type :: "(string \<times> go_val) list \<Rightarrow> go_val \<Rightarrow> bool" where
  "of_type zero v \<longleftrightarrow>
     (\<exists>fs. v = GStruct fs \<and> map fst fs = map fst zero \<and> untag v = v \<and>
        (\<forall>m. map_of fs ''Message'' = Some m \<longrightarrow>
           (\<exists>gs. m = GStruct gs \<and> map fst gs = message_fields)))"

lemma untag_message:
  assumes "map fst gs = message_fields" and "untag (GStruct gs) = GStruct gs"
  shows "untag (toReadableTeleporterMessage (GStruct gs)) = GStruct gs"
  using assms
  by (auto simp: message_fields_def map_eq_Cons_conv toReadableTeleporterMessage_def sel_def untag_conv)

lemma untag_readable_known:
  "of_type TeleporterMessengerSendCrossChainMessage v \<Longrightarrow>
   untag (ReadableTeleporterMessengerSendCrossChainMessage v) = v"
  "of_type TeleporterMessengerReceiveCrossChainMessage v \<Longrightarrow>
   untag (ReadableTeleporterMessengerReceiveCrossChainMessage v) = v"
  "of_type TeleporterMessengerAddFeeAmount v \<Longrightarrow>
   untag (ReadableTeleporterMessengerAddFeeAmount v) = v"
  "of_type TeleporterMessengerMessageExecutionFailed v \<Longrightarrow>
   untag (ReadableTeleporterMessengerMessageExecutionFailed v) = v"
  "of_type TeleporterMessengerMessageExecuted v \<Longrightarrow>
   untag (ReadableTeleporterMessengerMessageExecuted v) = v"
  "of_type TeleporterMessengerReceiptReceived v \<Longrightarrow>
   untag (ReadableTeleporterMessengerReceiptReceived v) = v"
  unfolding of_type_def event_structs
  by (auto simp: map_eq_Cons_conv sel_def untag_conv untag_message
      ReadableTeleporterMessengerSendCrossChainMessage_def
      ReadableTeleporterMessengerReceiveCrossChainMessage_def
      ReadableTeleporterMessengerAddFeeAmount_def
      ReadableTeleporterMessengerMessageExecutionFailed_def
      ReadableTeleporterMessengerMessageExecuted_def
      ReadableTeleporterMessengerReceiptReceived_def)

text \<open>
  Printing loses nothing: forgetting which \<open>[32]byte\<close> fields were shown as hashes and which as
  blockchain identifiers, the value \<open>String\<close> marshals is the event itself, so two events of a type
  print the same text only if they are equal (when marshalling is injective).
\<close>

theorem printing_is_lossless:
  assumes "new_event e = Inr (dyn, zero)" and "of_type zero v" and "of_type zero w"
  shows "untag (readable e v) = v \<and>
     (inj marshal \<longrightarrow> event_String_method marshal e v = event_String_method marshal e w \<longrightarrow> v = w)"
proof -
  have e: "untag (readable e u) = u" if "of_type zero u" for u
    using assms(1) that untag_readable_known
    by (auto simp: new_event_def readable_def of_type_def split: if_splits)
  then show ?thesis
    using assms(2,3) by (metis event_String_method_def injD)
qed

definition example_event :: go_val where
  "example_event = GStruct [(''MessageID'', GArr32 9), (''SourceBlockchainID'', GArr32 5),
     (''Raw'', zero_Log)]"

theorem printing_is_lossless_witness:
  "untag (readable MessageExecuted example_event) = example_event"
proof -
  have "of_type TeleporterMessengerMessageExecuted example_event"
    by (simp add: of_type_def example_event_def TeleporterMessengerMessageExecuted_def zero_Log_def)
  then show ?thesis
    using printing_is_lossless [OF new_event_simps(5)] by blast
qed

section \<open>Event identifiers of the reference codec\<close>

lemma messenger_topic_names: "\<forall>e \<in> set (Events TeleporterMessengerABI). topic_name (fst e)"
  by (simp add: TeleporterMessengerABI_def topic_name_def)

lemmas ref_event_ids = ref_event_ids_if [OF messenger_topic_names]
lemmas find_event = ref_find_event [OF messenger_topic_names]

end
