(* ===== verification/Deployment.thy ===== *)
theory Deployment
  imports GoStrings
begin

text \<open>
  \<open>utils/deployment-utils/deployment_utils.go\<close> (the keyless deployment transaction of Nick's method)
  and the command \<open>utils/contract-deployment/contractDeploymentTools.go\<close>.

  The process state \<open>host\<close> holds the files, which names refuse a write, the log and the standard
  output; a function that touches it takes the state and returns it updated. Transactions, signer
  recovery and addresses come from \<open>subnet-evm\<close> and \<open>go-ethereum\<close> and JSON decoding from
  \<open>encoding/json\<close>: they are the fields of the parameter \<open>chain_lib\<close>. The heap of \<open>big.Int\<close> cells is
  explicit for \<open>GetDefaultContractCreationGasPrice\<close>, which hands out a pointer.
\<close>

section \<open>Process state and libraries\<close>

record host =
  files :: "string \<Rightarrow> bytes option"
  unwritable :: "string \<Rightarrow> bool"
  logs :: "string list"
  stdout :: "string list"

definition bytes_of :: "string \<Rightarrow> bytes" where
  "bytes_of s = map of_char s"

definition ReadFile :: "string \<Rightarrow> host \<Rightarrow> goerr + bytes" where
  "ReadFile name s = (case files s name of None \<Rightarrow> Inl [''open '' @ name] | Some b \<Rightarrow> Inr b)"

definition WriteFile :: "string \<Rightarrow> bytes \<Rightarrow> host \<Rightarrow> (goerr + unit) \<times> host" where
  "WriteFile name data s =
     (if unwritable s name then (Inl [''open '' @ name], s)
      else (Inr (), s\<lparr>files := (files s)(name \<mapsto> data)\<rparr>))"

definition log_Println :: "string \<Rightarrow> host \<Rightarrow> host" where
  "log_Println l s = s\<lparr>logs := logs s @ [l]\<rparr>"

definition fmt_Println :: "string \<Rightarrow> host \<Rightarrow> host" where
  "fmt_Println l s = s\<lparr>stdout := stdout s @ [l]\<rparr>"

record byteCodeObj =
  Object :: string

record byteCodeFile =
  ByteCode :: byteCodeObj
  DeployedByteCode :: byteCodeObj

record LegacyTx =
  TxNonce :: u64
  TxGas :: u64
  TxGasPrice :: int
  TxTo :: "address option"
  TxValue :: int
  TxData :: bytes
  TxV :: int
  TxR :: int
  TxS :: int

record chain_lib =
  Unmarshal :: "bytes \<Rightarrow> goerr + byteCodeFile"
  HomesteadSender :: "LegacyTx \<Rightarrow> goerr + address"
  MarshalBinary :: "LegacyTx \<Rightarrow> goerr + bytes"
  CreateAddress :: "address \<Rightarrow> u64 \<Rightarrow> address"
  Hex :: "address \<Rightarrow> string"
  HexToAddress :: "string \<Rightarrow> address"

section \<open>deployment_utils.go\<close>

definition defaultContractCreationGasLimit :: u64 where
  "defaultContractCreationGasLimit = 4000000"

definition rsValueHex :: string where
  "rsValueHex = ''3333333333333333333333333333333333333333333333333333333333333333''"

definition contractCreationTxFileName :: string where
  "contractCreationTxFileName = ''UniversalTeleporterDeployerTransaction.txt''"

definition contractCreationAddrFileName :: string where
  "contractCreationAddrFileName = ''UniversalTeleporterDeployerAddress.txt''"

definition universalContractAddressFileName :: string where
  "universalContractAddressFileName = ''UniversalTeleporterMessengerContractAddress.txt''"

definition vValue :: int where
  "vValue = 27"

text \<open>\<open>new(big.Int).SetString(s, 16)\<close> on a string of hexadecimal digits.\<close>

fun hex_nat :: "string \<Rightarrow> nat \<Rightarrow> nat option" where
  "hex_nat [] n = Some n"
| "hex_nat (c # cs) n = (case hex_val c of None \<Rightarrow> None | Some d \<Rightarrow> hex_nat cs (16 * n + d))"

definition SetString16 :: "string \<Rightarrow> int option" where
  "SetString16 s = (if s = [] then None else map_option int (hex_nat s 0))"

definition extractByteCode :: "chain_lib \<Rightarrow> string \<Rightarrow> host \<Rightarrow> (goerr + byteCodeFile) \<times> host" where
  "extractByteCode lib byteCodeFileName s0 =
     (let s = log_Println (''Using bytecode file at '' @ byteCodeFileName) s0 in
      case ReadFile byteCodeFileName s of
        Inl e \<Rightarrow> (Inl (''Failed to read bytecode file contents'' # e), s)
      | Inr contents \<Rightarrow>
          (case Unmarshal lib contents of
             Inl e \<Rightarrow> (Inl (''Failed to unmarshal bytecode file contents as JSON'' # e), s)
           | Inr byteCodeJSON \<Rightarrow> (Inr byteCodeJSON, s)))"

text \<open>The transaction the code builds, and the writes it makes when asked to.\<close>

definition contractCreationTx :: "int \<Rightarrow> bytes \<Rightarrow> int \<Rightarrow> LegacyTx" where
  "contractCreationTx contractCreationGasPrice byteCode rsValue =
     \<lparr>TxNonce = 0, TxGas = defaultContractCreationGasLimit, TxGasPrice = contractCreationGasPrice,
      TxTo = None, TxValue = 0, TxData = byteCode, TxV = vValue, TxR = rsValue, TxS = rsValue\<rparr>"

definition write_files :: "string \<Rightarrow> string \<Rightarrow> string \<Rightarrow> host \<Rightarrow> (goerr + unit) \<times> host" where
  "write_files contractCreationTxString senderAddressString contractAddressString s0 =
     (case WriteFile contractCreationTxFileName (bytes_of contractCreationTxString) s0 of
        (Inl e, s1) \<Rightarrow> (Inl (''Failed to write to contract creation tx file'' # e), s1)
      | (Inr _, s1) \<Rightarrow>
          (case WriteFile contractCreationAddrFileName (bytes_of senderAddressString) s1 of
             (Inl e, s2) \<Rightarrow> (Inl (''Failed to write to deployer address file'' # e), s2)
           | (Inr _, s2) \<Rightarrow>
               (case WriteFile universalContractAddressFileName (bytes_of contractAddressString) s2 of
                  (Inl e, s3) \<Rightarrow> (Inl (''Failed to write to contract address'' # e), s3)
                | (Inr _, s3) \<Rightarrow> (Inr (), s3))))"

definition ConstructKeylessTransaction ::
  "chain_lib \<Rightarrow> string \<Rightarrow> bool \<Rightarrow> int \<Rightarrow> host \<Rightarrow>
   (goerr + bytes \<times> string \<times> address \<times> address) \<times> host" where
  "ConstructKeylessTransaction lib byteCodeFileName writeFile contractCreationGasPrice s0 =
     (case SetString16 rsValueHex of
        None \<Rightarrow> (Inl [''Failed to convert R and S value to big.Int.''], s0)
      | Some rsValue \<Rightarrow>
      (case extractByteCode lib byteCodeFileName s0 of
         (Inl e, s1) \<Rightarrow> (Inl e, s1)
       | (Inr byteCodeFile, s1) \<Rightarrow>
      (case hex_decode (TrimPrefix (Object (ByteCode byteCodeFile)) ''0x'') of
         Inl e \<Rightarrow> (Inl e, s1)
       | Inr byteCode \<Rightarrow>
         let tx = contractCreationTx contractCreationGasPrice byteCode rsValue in
      (case HomesteadSender lib tx of
         Inl e \<Rightarrow> (Inl (''Failed to recover the sender address of transaction'' # e), s1)
       | Inr senderAddress \<Rightarrow>
      (case MarshalBinary lib tx of
         Inl e \<Rightarrow> (Inl (''Failed to serialize raw transaction'' # e), s1)
       | Inr txBytes \<Rightarrow>
         let txString = ''0x'' @ hex_encode txBytes;
             senderAddressString = Hex lib senderAddress;
             contractAddress = CreateAddress lib senderAddress 0;
             contractAddressString = Hex lib contractAddress;
             s2 = log_Println (''TeleporterMessenger Keyless Deployer Address: '' @ senderAddressString) s1;
             s3 = log_Println (''TeleporterMessenger Universal Contract Address: '' @ contractAddressString) s2;
             result = (txBytes, Object (DeployedByteCode byteCodeFile), senderAddress, contractAddress)
         in
           if writeFile then
             (case write_files txString senderAddressString contractAddressString s3 of
                (Inl e, s4) \<Rightarrow> (Inl e, s4)
              | (Inr _, s4) \<Rightarrow> (Inr result, s4))
           else (Inr result, s3))))))"

subsection \<open>The default gas price\<close>

text \<open>
  Cells of \<open>big.Int\<close> values; a pointer is an index. The package's variables \<open>vValue\<close> and
  \<open>defaultContractCreationGasPrice\<close> are the first two cells.
\<close>

type_synonym big_heap = "int list"

definition init_heap :: big_heap where
  "init_heap = [vValue, 2500000000000]"

definition defaultContractCreationGasPrice :: nat where
  "defaultContractCreationGasPrice = 1"

definition NewInt :: "int \<Rightarrow> big_heap \<Rightarrow> nat \<times> big_heap" where
  "NewInt v h = (length h, h @ [v])"

definition big_Set :: "nat \<Rightarrow> nat \<Rightarrow> big_heap \<Rightarrow> big_heap" where
  "big_Set z x h = h[z := h ! x]"

definition GetDefaultContractCreationGasPrice :: "big_heap \<Rightarrow> nat \<times> big_heap" where
  "GetDefaultContractCreationGasPrice h =
     (let (gasPrice, h1) = NewInt 0 h in (gasPrice, big_Set gasPrice defaultContractCreationGasPrice h1))"

section \<open>contractDeploymentTools.go\<close>

definition quoted :: "string \<Rightarrow> string" where
  "quoted s = CHR 0x22 # s @ [CHR 0x22]"

definition main :: "chain_lib \<Rightarrow> string list \<Rightarrow> big_heap \<Rightarrow> host \<Rightarrow> unit go \<times> host" where
  "main lib args h s0 =
     (if length args < 2 then
        (Panic ''Invalid argument count. Must provide at least one argument to specify command type.'', s0)
      else let commandType = args ! 1 in
        if commandType = ''constructKeylessTx'' then
          (if length args \<noteq> 3 then
             (Panic ''Invalid argument count. Must provide JSON file containing contract bytecode.'', s0)
           else
             let (p, h') = GetDefaultContractCreationGasPrice h in
             (case ConstructKeylessTransaction lib (args ! 2) True (h' ! p) s0 of
                (Inl e, s1) \<Rightarrow> (Panic ''Failed to construct keyless transaction.'', s1)
              | (Inr _, s1) \<Rightarrow> (Done (), s1)))
        else if commandType = ''deriveContractAddress'' then
          (if length args \<noteq> 4 then
             (Panic ''Invalid argument count. Must provide address and nonce.'', s0)
           else
             let deployerAddress = HexToAddress lib (args ! 2) in
             (case ParseUint 64 (args ! 3) of
                Inl e \<Rightarrow> (Panic ''Failed to parse nonce as uint'', s0)
              | Inr nonce \<Rightarrow>
                  let resultAddress = CreateAddress lib deployerAddress (of_nat nonce)
                  in (Done (), fmt_Println (Hex lib resultAddress) s0)))
        else
          (Panic (''Invalid command type. Supported options are '' @ quoted ''constructKeylessTx'' @
             '' and '' @ quoted ''deriveContractAddress'' @ ''.''), s0))"

section \<open>Lemmas\<close>

definition rs_value :: int where
  "rs_value = 0x3333333333333333333333333333333333333333333333333333333333333333"

lemma SetString16_rsValueHex: "SetString16 rsValueHex = Some rs_value"
proof -
  have "hex_val CHR ''3'' = Some 3"
    by code_simp
  then show ?thesis
    by (simp add: SetString16_def rsValueHex_def rs_value_def)
qed

lemma extractByteCode_Inr:
  "extractByteCode lib f s = (Inr file, s') \<longleftrightarrow>
     s' = log_Println (''Using bytecode file at '' @ f) s \<and>
     (\<exists>contents. files s f = Some contents \<and> Unmarshal lib contents = Inr file)"
  by (auto simp: extractByteCode_def ReadFile_def log_Println_def Let_def
      split: sum.splits option.splits)

lemma extractByteCode_files: "extractByteCode lib f s = (r, s') \<Longrightarrow> files s' = files s \<and> unwritable s' = unwritable s"
  by (auto simp: extractByteCode_def log_Println_def Let_def split: sum.splits)

lemma log_Println_files [simp]:
  "files (log_Println l s) = files s" "unwritable (log_Println l s) = unwritable s"
  "stdout (log_Println l s) = stdout s"
  by (simp_all add: log_Println_def)

lemma bytes_of_inj: "bytes_of x = bytes_of y \<longleftrightarrow> x = y"
proof -
  have "map (\<lambda>b. char_of (unat b)) (bytes_of z) = z" for z
    by (simp add: bytes_of_def comp_def)
  then show ?thesis by metis
qed

lemma file_names_distinct:
  "contractCreationTxFileName \<noteq> contractCreationAddrFileName"
  "contractCreationTxFileName \<noteq> universalContractAddressFileName"
  "contractCreationAddrFileName \<noteq> universalContractAddressFileName"
  by (simp_all add: contractCreationTxFileName_def contractCreationAddrFileName_def
      universalContractAddressFileName_def)

lemma write_files_Inr:
  "write_files t a c s = (Inr (), s') \<Longrightarrow>
   files s' = (files s)(contractCreationTxFileName \<mapsto> bytes_of t,
     contractCreationAddrFileName \<mapsto> bytes_of a,
     universalContractAddressFileName \<mapsto> bytes_of c)"
  by (auto simp: write_files_def WriteFile_def split: if_splits)

lemma write_files_Inl:
  "write_files t a c s = (Inl e, s') \<Longrightarrow>
   files s' = files s \<and> unwritable s contractCreationTxFileName \<or>
   files s' = (files s)(contractCreationTxFileName \<mapsto> bytes_of t) \<and>
     unwritable s contractCreationAddrFileName \<or>
   files s' = (files s)(contractCreationTxFileName \<mapsto> bytes_of t,
     contractCreationAddrFileName \<mapsto> bytes_of a) \<and> unwritable s universalContractAddressFileName"
  by (auto simp: write_files_def WriteFile_def split: if_splits)

text \<open>The two results of the construction, as relations of the state before and after.\<close>

definition keyless_tx :: "chain_lib \<Rightarrow> string \<Rightarrow> int \<Rightarrow> host \<Rightarrow> LegacyTx \<Rightarrow> byteCodeFile \<Rightarrow> bool" where
  "keyless_tx lib f gasPrice s tx file \<longleftrightarrow>
     (\<exists>contents code. files s f = Some contents \<and> Unmarshal lib contents = Inr file \<and>
        hex_decode (TrimPrefix (Object (ByteCode file)) ''0x'') = Inr code \<and>
        tx = contractCreationTx gasPrice code rs_value)"

lemma Construct_Inr:
  assumes "ConstructKeylessTransaction lib f w p s = (Inr (b, deployed, sender, contract), s')"
  shows "\<exists>tx file. keyless_tx lib f p s tx file \<and> HomesteadSender lib tx = Inr sender \<and>
     MarshalBinary lib tx = Inr b \<and> contract = CreateAddress lib sender 0 \<and>
     deployed = Object (DeployedByteCode file) \<and>
     files s' = (if w then (files s)(contractCreationTxFileName \<mapsto> bytes_of (''0x'' @ hex_encode b),
         contractCreationAddrFileName \<mapsto> bytes_of (Hex lib sender),
         universalContractAddressFileName \<mapsto> bytes_of (Hex lib contract))
       else files s)"
  using assms
  unfolding ConstructKeylessTransaction_def SetString16_rsValueHex keyless_tx_def Let_def
  by (auto simp: extractByteCode_Inr dest!: write_files_Inr
      split: prod.splits sum.splits if_splits)

lemma Construct_Inl:
  assumes "ConstructKeylessTransaction lib f w p s = (Inl e, s')"
  shows "files s' = files s \<or>
     w \<and> (\<exists>t. files s' = (files s)(contractCreationTxFileName \<mapsto> t) \<and>
          unwritable s contractCreationAddrFileName) \<or>
     w \<and> (\<exists>t a. files s' = (files s)(contractCreationTxFileName \<mapsto> t,
          contractCreationAddrFileName \<mapsto> a) \<and> unwritable s universalContractAddressFileName)"
  using assms
  unfolding ConstructKeylessTransaction_def SetString16_rsValueHex Let_def
  by (auto dest!: write_files_Inl extractByteCode_files
      split: prod.splits sum.splits if_splits) blast+


section \<open>Properties\<close>

text \<open>
  C23. When \<open>ConstructKeylessTransaction\<close> succeeds, the serialized transaction is a legacy contract
  creation with nonce 0, no recipient, the bytecode of the file as data, V = 27 and R = S = 0x33...33;
  the deployer is the sender recovered from that signature and the contract address is the one of the
  deployer's first transaction. The files written are exactly those three (and none when not asked).
\<close>

theorem keyless_transaction_result:
  assumes "ConstructKeylessTransaction lib f w p s = (Inr (b, deployed, sender, contract), s')"
  shows "\<exists>contents file code tx. files s f = Some contents \<and> Unmarshal lib contents = Inr file \<and>
     hex_decode (TrimPrefix (Object (ByteCode file)) ''0x'') = Inr code \<and>
     TxTo tx = None \<and> TxNonce tx = 0 \<and> TxData tx = code \<and> TxGasPrice tx = p \<and> TxV tx = 27 \<and>
     TxR tx = rs_value \<and> TxS tx = rs_value \<and>
     MarshalBinary lib tx = Inr b \<and> HomesteadSender lib tx = Inr sender \<and>
     contract = CreateAddress lib sender 0 \<and> deployed = Object (DeployedByteCode file) \<and>
     files s' = (if w then (files s)(contractCreationTxFileName \<mapsto> bytes_of (''0x'' @ hex_encode b),
         contractCreationAddrFileName \<mapsto> bytes_of (Hex lib sender),
         universalContractAddressFileName \<mapsto> bytes_of (Hex lib contract))
       else files s)"
proof -
  obtain tx bc where tx: "keyless_tx lib f p s tx bc" "HomesteadSender lib tx = Inr sender"
      "MarshalBinary lib tx = Inr b" "contract = CreateAddress lib sender 0"
      "deployed = Object (DeployedByteCode bc)"
      "files s' = (if w then (files s)(contractCreationTxFileName \<mapsto> bytes_of (''0x'' @ hex_encode b),
         contractCreationAddrFileName \<mapsto> bytes_of (Hex lib sender),
         universalContractAddressFileName \<mapsto> bytes_of (Hex lib contract))
       else files s)"
    using Construct_Inr [OF assms] by blast
  then obtain contents code where "files s f = Some contents" "Unmarshal lib contents = Inr bc"
      "hex_decode (TrimPrefix (Object (ByteCode bc)) ''0x'') = Inr code"
      "tx = contractCreationTx p code rs_value"
    unfolding keyless_tx_def by blast
  with tx show ?thesis
    by (intro exI [of _ contents] exI [of _ bc] exI [of _ code] exI [of _ tx])
      (simp add: contractCreationTx_def vValue_def)
qed

text \<open>A library whose signer accepts every transaction, for examples.\<close>

definition example_lib :: chain_lib where
  "example_lib = \<lparr>
     Unmarshal = (\<lambda>b. if b = [] then Inl [''unexpected end of JSON input'']
       else Inr \<lparr>ByteCode = \<lparr>Object = ''0x6080''\<rparr>, DeployedByteCode = \<lparr>Object = ''0x60''\<rparr>\<rparr>),
     HomesteadSender = (\<lambda>tx. Inr 7),
     MarshalBinary = (\<lambda>tx. Inr (TxData tx)),
     CreateAddress = (\<lambda>a n. a + ucast n + 1),
     Hex = (\<lambda>a. ''0x'' @ hex_encode (address_bytes a)),
     HexToAddress = (\<lambda>s. case hex_decode (TrimPrefix s ''0x'') of Inl _ \<Rightarrow> 0 | Inr b \<Rightarrow> of_be b)\<rparr>"

definition example_host :: host where
  "example_host = \<lparr>files = [''T.json'' \<mapsto> [1]], unwritable = (\<lambda>_. False), logs = [], stdout = []\<rparr>"

lemma example_hex: "HexToAddress example_lib (Hex example_lib a) = a"
  by (simp add: example_lib_def hex_decode_encode)

lemma example_decode: "hex_decode ''6080'' = Inr [0x60, 0x80]"
  by code_simp

lemma example_Construct:
  "\<exists>s'. ConstructKeylessTransaction example_lib ''T.json'' True p example_host =
     (Inr ([0x60, 0x80], ''0x60'', 7, 8), s')"
  unfolding ConstructKeylessTransaction_def SetString16_rsValueHex
  by (simp add: extractByteCode_def ReadFile_def example_host_def example_lib_def Let_def
      example_decode contractCreationTx_def write_files_def WriteFile_def log_Println_def
      del: hex_decode.simps)

theorem keyless_transaction_result_witness:
  "\<exists>s'. ConstructKeylessTransaction example_lib ''T.json'' True 5 example_host =
     (Inr ([0x60, 0x80], ''0x60'', 7, 8), s') \<and>
     files s' universalContractAddressFileName = Some (bytes_of (Hex example_lib 8))"
proof -
  obtain s' where "ConstructKeylessTransaction example_lib ''T.json'' True 5 example_host =
      (Inr ([0x60, 0x80], ''0x60'', 7, 8), s')"
    using example_Construct by blast
  with keyless_transaction_result [OF this] show ?thesis
    by (intro exI [of _ s']) (elim exE conjE, simp)
qed

text \<open>
  When it fails, the file system is as before or, only if files were asked for, holds the first
  or the first two of the three outputs because the next name cannot be written: the contract address
  file is never left behind by a failed run, and without \<open>writeFile\<close> a failure changes no file.
\<close>

theorem keyless_failure_is_prefix:
  assumes "ConstructKeylessTransaction lib f w p s = (Inl e, s')"
  shows "files s' universalContractAddressFileName = files s universalContractAddressFileName \<and>
    (files s' = files s \<or>
     w \<and> (\<exists>t. files s' = (files s)(contractCreationTxFileName \<mapsto> t) \<and>
          unwritable s contractCreationAddrFileName) \<or>
     w \<and> (\<exists>t a. files s' = (files s)(contractCreationTxFileName \<mapsto> t,
          contractCreationAddrFileName \<mapsto> a) \<and> unwritable s universalContractAddressFileName))"
  using Construct_Inl [OF assms] file_names_distinct by auto

theorem keyless_failure_is_prefix_witness:
  "files example_host universalContractAddressFileName = None \<and>
   (\<exists>e s'. ConstructKeylessTransaction example_lib ''missing.json'' True 5 example_host = (Inl e, s') \<and>
     files s' universalContractAddressFileName = None)"
proof -
  have none: "files example_host universalContractAddressFileName = None"
    by (simp add: example_host_def universalContractAddressFileName_def)
  obtain e s' where *: "ConstructKeylessTransaction example_lib ''missing.json'' True 5 example_host =
      (Inl e, s')"
    unfolding ConstructKeylessTransaction_def SetString16_rsValueHex
    by (simp add: extractByteCode_def ReadFile_def example_host_def Let_def log_Println_def)
  with keyless_failure_is_prefix [OF this] none show ?thesis
    by auto
qed

lemma parse_0: "ParseUint 64 ''0'' = Inr 0"
  by (simp add: ParseUint_def digit_val_def)

text \<open>
  The two commands of the deployment tool agree: after a successful \<open>constructKeylessTx\<close>,
  running \<open>deriveContractAddress\<close> on the deployer address it wrote and nonce 0 prints exactly the
  contract address it wrote, and writes nothing.
\<close>

theorem deploy_tool_commands_agree:
  assumes "\<And>a. HexToAddress lib (Hex lib a) = a"
    and "main lib [prog, ''constructKeylessTx'', f] h s = (Done (), s1)"
    and "files s1 contractCreationAddrFileName = Some (bytes_of deployer)"
  shows "\<exists>addr s2. files s1 universalContractAddressFileName = Some (bytes_of addr) \<and>
     main lib [prog, ''deriveContractAddress'', deployer, ''0''] h s1 = (Done (), s2) \<and>
     stdout s2 = stdout s1 @ [addr] \<and> files s2 = files s1"
proof -
  obtain p h' where p: "GetDefaultContractCreationGasPrice h = (p, h')"
    by fastforce
  obtain b deployed sender contract where
      c: "ConstructKeylessTransaction lib f True (h' ! p) s = (Inr (b, deployed, sender, contract), s1)"
    using assms(2) by (auto simp: main_def p split: prod.splits sum.splits)
  obtain tx where contract: "contract = CreateAddress lib sender 0"
      and fs: "files s1 = (files s)(contractCreationTxFileName \<mapsto> bytes_of (''0x'' @ hex_encode b),
         contractCreationAddrFileName \<mapsto> bytes_of (Hex lib sender),
         universalContractAddressFileName \<mapsto> bytes_of (Hex lib contract))"
    using Construct_Inr [OF c] by auto
  have d: "deployer = Hex lib sender"
    using assms(3) fs file_names_distinct by (simp add: bytes_of_inj)
  have "main lib [prog, ''deriveContractAddress'', deployer, ''0''] h s1 =
      (Done (), fmt_Println (Hex lib contract) s1)"
    unfolding main_def by (simp add: d assms(1) parse_0 contract)
  moreover have "files s1 universalContractAddressFileName = Some (bytes_of (Hex lib contract))"
    by (simp add: fs)
  ultimately show ?thesis
    by (intro exI [of _ "Hex lib contract"] exI [of _ "fmt_Println (Hex lib contract) s1"])
      (simp add: fmt_Println_def)
qed

theorem deploy_tool_commands_agree_witness:
  "\<exists>s1 s2. main example_lib [[], ''constructKeylessTx'', ''T.json''] init_heap example_host = (Done (), s1) \<and>
     main example_lib [[], ''deriveContractAddress'', Hex example_lib 7, ''0''] init_heap s1 = (Done (), s2) \<and>
     files s2 = files s1"
proof -
  obtain p h' where p: "GetDefaultContractCreationGasPrice init_heap = (p, h')"
    by fastforce
  obtain s1 where c: "ConstructKeylessTransaction example_lib ''T.json'' True (h' ! p) example_host =
      (Inr ([0x60, 0x80], ''0x60'', 7, 8), s1)"
    using example_Construct by blast
  then have m: "main example_lib [[], ''constructKeylessTx'', ''T.json''] init_heap example_host = (Done (), s1)"
    by (simp add: main_def p)
  have "files s1 contractCreationAddrFileName = Some (bytes_of (Hex example_lib 7))"
    using Construct_Inr [OF c] file_names_distinct by auto
  with deploy_tool_commands_agree [OF example_hex m] m show ?thesis
    by blast
qed

text \<open>
  The default gas price is handed out as a fresh copy of 2500 nAVAX: whatever the caller stores
  through the pointer it got, the package's own cells keep their values and the next caller is given
  the default price again.
\<close>

theorem default_gas_price_not_shared:
  assumes "defaultContractCreationGasPrice < length h"
    and "GetDefaultContractCreationGasPrice h = (p, h1)"
  shows "p \<notin> {..<length h} \<and> h1 ! p = h ! defaultContractCreationGasPrice \<and>
     (\<forall>q < length h. (h1[p := v]) ! q = h ! q) \<and>
     (case GetDefaultContractCreationGasPrice (h1[p := v]) of
        (p', h2) \<Rightarrow> h2 ! p' = h ! defaultContractCreationGasPrice \<and> p' \<noteq> p)"
  using assms
  by (auto simp: GetDefaultContractCreationGasPrice_def NewInt_def big_Set_def nth_append
      nth_list_update Let_def)

theorem default_gas_price_not_shared_witness:
  "\<exists>p h1. GetDefaultContractCreationGasPrice init_heap = (p, h1) \<and> h1 ! p = 2500000000000 \<and>
     (h1[p := 0]) ! defaultContractCreationGasPrice = 2500000000000"
proof -
  obtain p h1 where p: "GetDefaultContractCreationGasPrice init_heap = (p, h1)"
    by fastforce
  have "defaultContractCreationGasPrice < length init_heap"
    by (simp add: defaultContractCreationGasPrice_def init_heap_def)
  from default_gas_price_not_shared [OF this p, of 0] p show ?thesis
    by (auto simp: init_heap_def defaultContractCreationGasPrice_def)
qed

end
