(* ===== verification/Effects.thy ===== *)
theory Effects
  imports Prelude
begin

text \<open>
  Programs with effects: a command takes the state of the process (or of the world it talks to) and
  returns an outcome and the state after it. \<open>Returned\<close> is a normal return, \<open>Failed\<close> ends the program
  with a message (\<open>cobra.CheckErr\<close>, a failed \<open>Expect\<close> of Gomega), \<open>Panicked\<close> is a Go panic. State
  changes made before a failure are kept. The locale \<open>appender\<close> is the interface of loops whose body
  appends to an output.
\<close>

datatype 'a outcome = Returned 'a | Failed string | Panicked string

type_synonym ('s, 'a) prog = "'s \<Rightarrow> 'a outcome \<times> 's"

definition ret :: "'a \<Rightarrow> ('s, 'a) prog" where
  "ret x s = (Returned x, s)"

definition failed :: "string \<Rightarrow> ('s, 'a) prog" where
  "failed msg s = (Failed msg, s)"

definition panicked :: "string \<Rightarrow> ('s, 'a) prog" where
  "panicked msg s = (Panicked msg, s)"

definition bnd :: "('s, 'a) prog \<Rightarrow> ('a \<Rightarrow> ('s, 'b) prog) \<Rightarrow> ('s, 'b) prog" where
  "bnd m f s =
     (case m s of
        (Returned x, s') \<Rightarrow> f x s'
      | (Failed e, s') \<Rightarrow> (Failed e, s')
      | (Panicked e, s') \<Rightarrow> (Panicked e, s'))"

definition andThen :: "('s, 'a) prog \<Rightarrow> ('s, 'b) prog \<Rightarrow> ('s, 'b) prog" where
  "andThen m n = bnd m (\<lambda>_. n)"

definition upd :: "('s \<Rightarrow> 's) \<Rightarrow> ('s, unit) prog" where
  "upd f s = (Returned (), f s)"

definition gets :: "('s \<Rightarrow> 'a) \<Rightarrow> ('s, 'a) prog" where
  "gets f s = (Returned (f s), s)"

text \<open>Stop with the outermost message of an error; a nil error lets the program go on.\<close>

definition check :: "goerr + 'a \<Rightarrow> ('s, 'a) prog" where
  "check r = (case r of Inl e \<Rightarrow> failed (hd (e @ [[]])) | Inr x \<Rightarrow> ret x)"

definition check_go :: "(goerr + 'a) go \<Rightarrow> ('s, 'a) prog" where
  "check_go r = (case r of Panic p \<Rightarrow> panicked p | Done x \<Rightarrow> check x)"

primrec each :: "('x \<Rightarrow> ('s, unit) prog) \<Rightarrow> 'x list \<Rightarrow> ('s, unit) prog" where
  "each f [] = ret ()"
| "each f (x # xs) = andThen (f x) (each f xs)"

section \<open>Evaluation and inversion\<close>

lemma prog_simps [simp, go_simps]:
  "ret x s = (Returned x, s)" "failed msg s = (Failed msg, s)" "panicked msg s = (Panicked msg, s)"
  "upd f s = (Returned (), f s)" "gets g s = (Returned (g s), s)"
  by (simp_all add: ret_def failed_def panicked_def upd_def gets_def)

lemma check_simps [simp, go_simps]:
  "check (Inr x) = ret x" "check (Inl e) = failed (hd (e @ [[]]))"
  "check_go (Done r) = check r" "check_go (Panic p) = panicked p"
  by (simp_all add: check_def check_go_def)

lemma bnd_eval [simp, go_simps]:
  "m s = (Returned x, s') \<Longrightarrow> bnd m f s = f x s'"
  "m s = (Failed e, s') \<Longrightarrow> bnd m f s = (Failed e, s')"
  "m s = (Panicked e, s') \<Longrightarrow> bnd m f s = (Panicked e, s')"
  by (simp_all add: bnd_def)

lemma bnd_ret [simp]: "bnd (ret x) f = f x" "bnd (failed e) f = failed e" "bnd (panicked e) f = panicked e"
  by (simp_all add: fun_eq_iff bnd_def)

lemma bnd_upd [simp]: "bnd (upd f) k s = k () (f s)" "bnd (gets g) h s = h (g s) s"
  by (simp_all add: bnd_def)

lemma andThen_eval [simp, go_simps]:
  "m s = (Returned x, s') \<Longrightarrow> andThen m n s = n s'"
  "m s = (Failed e, s') \<Longrightarrow> andThen m n s = (Failed e, s')"
  "m s = (Panicked e, s') \<Longrightarrow> andThen m n s = (Panicked e, s')"
  by (simp_all add: andThen_def)

lemma andThen_upd [simp]: "andThen (upd f) n s = n (f s)"
  by (simp add: andThen_def)

lemma bnd_Returned_iff [go_splits]:
  "bnd m f s = (Returned y, s') \<longleftrightarrow>
   (\<exists>x s1. m s = (Returned x, s1) \<and> f x s1 = (Returned y, s'))"
  by (auto simp: bnd_def split: prod.splits outcome.splits)

lemma andThen_Returned_iff [go_splits]:
  "andThen m n s = (Returned y, s') \<longleftrightarrow>
   (\<exists>x s1. m s = (Returned x, s1) \<and> n s1 = (Returned y, s'))"
  by (simp add: andThen_def bnd_Returned_iff)

lemma check_Returned_iff [go_splits]: "check r s = (Returned x, s') \<longleftrightarrow> r = Inr x \<and> s' = s"
  by (auto simp: check_def split: sum.splits)

lemma bnd_assoc: "bnd (bnd m f) g = bnd m (\<lambda>x. bnd (f x) g)"
  by (auto simp: fun_eq_iff bnd_def split: prod.splits outcome.splits)

lemma each_append: "each f (xs @ ys) = andThen (each f xs) (each f ys)"
proof (induction xs)
  case Nil
  show ?case
    by (simp add: andThen_def)
next
  case (Cons x xs)
  then show ?case
    by (simp add: andThen_def bnd_assoc)
qed

lemma each_stops:
  assumes "each f xs s = (Returned (), s1)" and "f y s1 = (r, s2)" and "\<forall>u. r \<noteq> Returned u"
  shows "each f (xs @ y # ys) s = (r, s2)"
  using assms by (cases r) (simp_all add: each_append)

section \<open>Loops that append to an output\<close>

locale appender =
  fixes step :: "'x \<Rightarrow> ('s, unit) prog"
    and ok :: "'s \<Rightarrow> 'x \<Rightarrow> bool"
    and printed :: "'s \<Rightarrow> 'x \<Rightarrow> 'o list"
    and add :: "'o list \<Rightarrow> 's \<Rightarrow> 's"
  assumes add_Nil [simp]: "add [] s = s"
    and add_add [simp]: "add os (add ps s) = add (ps @ os) s"
    and ok_add [simp]: "ok (add os s) = ok s"
    and printed_add [simp]: "printed (add os s) = printed s"
    and step: "ok s x \<Longrightarrow> step x s = (Returned (), add (printed s x) s)"
begin

lemma each_prints:
  "(\<forall>x \<in> set xs. ok s x) \<Longrightarrow>
   each step xs s = (Returned (), add (concat (map (printed s) xs)) s)"
proof (induction xs arbitrary: s)
  case Nil
  then show ?case by simp
next
  case (Cons x xs)
  then have "step x s = (Returned (), add (printed s x) s)"
    by (simp add: step)
  moreover have "each step xs (add (printed s x) s) =
      (Returned (), add (concat (map (printed s) xs)) (add (printed s x) s))"
    using Cons by simp
  ultimately show ?case
    by simp
qed

lemma each_prints_until:
  assumes "\<forall>x \<in> set xs. ok s x"
    and "step y (add (concat (map (printed s) xs)) s) = (r, s2)" and "\<forall>u. r \<noteq> Returned u"
  shows "each step (xs @ y # ys) s = (r, s2)"
  using each_stops [OF each_prints [OF assms(1)] assms(2,3)] .

end

end
