(* ===== verification/Cli.thy ===== *)
theory Cli
  imports Events Evm Effects
begin

text \<open>
  The command \<open>cmd/teleporter-cli\<close>: \<open>root.go\<close> (initialisation before every command), \<open>event.go\<close>,
  \<open>message.go\<close> and \<open>transaction.go\<close>.

  The package's variables (\<open>logger\<close>, \<open>teleporterABI\<close>, \<open>topicArgs\<close>, \<open>data\<close>, \<open>debug\<close>, \<open>rpcEndpoint\<close>,
  \<open>teleporterAddress\<close>, \<open>client\<close>) are the fields of the state \<open>cli\<close>; a nil pointer is \<open>None\<close>. What
  \<open>cmd.Println\<close> prints and what the logger logs is the list \<open>console\<close>. \<open>cobra.CheckErr\<close> prints the error
  and exits: outcome \<open>Failed\<close>. Flag parsing (package \<open>cobra\<close>) is not modelled: the state holds the
  values it stored. The node, the Warp payload parsers and JSON marshalling are the parameter \<open>cli_env\<close>.
\<close>

section \<open>State and environment\<close>

record addressed_call =
  SourceAddress :: bytes
  CallPayload :: bytes

record node_client =
  TransactionReceipt :: "hash \<Rightarrow> goerr + evm_receipt"
  TransactionByHash :: "hash \<Rightarrow> goerr + string"
  TraceTransaction :: "hash \<Rightarrow> goerr + string"

record cli_env =
  codec :: abi_codec
  ToLevel :: "string \<Rightarrow> goerr + string"
  Dial :: "string \<Rightarrow> goerr + node_client"
  HexToHash :: "string \<Rightarrow> hash"
  ParseAddress :: "string \<Rightarrow> address"
  MarshalLog :: "evm_log \<Rightarrow> goerr + string"
  MarshalCall :: "addressed_call \<Rightarrow> goerr + string"
  MarshalVal :: "go_val \<Rightarrow> string"
  UnpackSendWarpEventDataToMessage :: "bytes \<Rightarrow> goerr + string \<times> bytes"
  ParseAddressedCall :: "bytes \<Rightarrow> goerr + addressed_call"

record cli =
  logger :: "string option"
  teleporterABI :: "contract_abi option"
  topicArgs :: "string list"
  data :: bytes
  debug :: bool
  rpcEndpoint :: string
  teleporterAddress :: address
  client :: "node_client option"
  console :: "string list"

type_synonym 'a cli_prog = "(cli, 'a) prog"

definition newline :: string where
  "newline = [CHR 0x0A]"

definition Println :: "string \<Rightarrow> unit cli_prog" where
  "Println l = upd (\<lambda>s. s\<lparr>console := console s @ [l]\<rparr>)"

text \<open>Using a package variable that is still nil panics.\<close>

definition deref :: "(cli \<Rightarrow> 'a option) \<Rightarrow> 'a cli_prog" where
  "deref var s =
     (case var s of
        None \<Rightarrow> (Panicked ''invalid memory address or nil pointer dereference'', s)
      | Some x \<Rightarrow> (Returned x, s))"

section \<open>root.go\<close>

definition rootPreRunE :: "cli_env \<Rightarrow> string \<Rightarrow> cli \<Rightarrow> (goerr + unit) \<times> cli" where
  "rootPreRunE env logLevelArg s =
     (let arg = (if logLevelArg = [] then ''info'' else logLevelArg) in
      case ToLevel env arg of
        Inl e \<Rightarrow> (Inl e, s)
      | Inr logLevel \<Rightarrow>
          let s1 = s\<lparr>logger := Some logLevel\<rparr> in
          (case GetAbi (codec env) TeleporterMessengerABI of
             Inl e \<Rightarrow> (Inl e, s1)
           | Inr abi \<Rightarrow> (Inr (), s1\<lparr>teleporterABI := Some abi\<rparr>)))"

text \<open>\<open>cmd.Parent()\<close> is the root command, the only one with children; its pre-run is \<open>rootPreRunE\<close>.\<close>

definition callPersistentPreRunE :: "cli_env \<Rightarrow> bool \<Rightarrow> string \<Rightarrow> cli \<Rightarrow> (goerr + unit) \<times> cli" where
  "callPersistentPreRunE env hasParent logLevelArg s =
     (if hasParent then rootPreRunE env logLevelArg s else (Inr (), s))"

section \<open>event.go\<close>

text \<open>
  \<open>EventByID\<close> gives the event with the name; \<open>FilterTeleporterEvents\<close> decodes and \<open>String\<close> prints.
\<close>

definition event_text :: "cli_env \<Rightarrow> string \<Rightarrow> go_val \<Rightarrow> string" where
  "event_text env name out =
     (case ToEvent name of Inl _ \<Rightarrow> [] | Inr e \<Rightarrow> event_String_method (MarshalVal env) e out)"

definition first_topic :: "hash list \<Rightarrow> hash cli_prog" where
  "first_topic topics =
     (case topics of
        [] \<Rightarrow> panicked ''index out of range [0] with length 0''
      | t # _ \<Rightarrow> ret t)"

definition eventRun :: "cli_env \<Rightarrow> unit cli_prog" where
  "eventRun env =
     bnd (gets (\<lambda>s. map (HexToHash env) (topicArgs s))) (\<lambda>topics.
     bnd (first_topic topics) (\<lambda>topic.
     bnd (deref teleporterABI) (\<lambda>abi.
     bnd (check (event_by_id (codec env) abi topic)) (\<lambda>name.
     bnd (gets data) (\<lambda>d.
     bnd (check_go (FilterTeleporterEvents (codec env) topics d name)) (\<lambda>(dyn, out).
     bnd (deref logger) (\<lambda>_.
     andThen (Println (''Parsed Teleporter event '' @ name @ '' '' @ event_text env name out))
       (Println (''Event command ran successfully for '' @ name)))))))))"

section \<open>message.go\<close>

definition messageRun :: "cli_env \<Rightarrow> string \<Rightarrow> unit cli_prog" where
  "messageRun env encodedMsg =
     bnd (check (hex_decode encodedMsg)) (\<lambda>b.
     bnd (check (TeleporterMessage_Unpack (codec env) b)) (\<lambda>msg.
     bnd (deref logger) (\<lambda>_.
     andThen
       (Println (''TeleporterMessenger Message unpacked '' @ MarshalVal env (message_val msg)))
       (Println ''Message command ran successfully''))))"

section \<open>transaction.go\<close>

definition ICMPrecompileAddressHex :: string where
  "ICMPrecompileAddressHex = ''0x0200000000000000000000000000000000000005''"

definition printTeleporterLogs :: "cli_env \<Rightarrow> evm_log \<Rightarrow> unit cli_prog" where
  "printTeleporterLogs env log =
     bnd (check (MarshalLog env log)) (\<lambda>logJson.
     andThen (Println (''Teleporter Log:'' @ newline @ logJson @ newline)) (
     bnd (deref teleporterABI) (\<lambda>abi.
     bnd (first_topic (LogTopics log)) (\<lambda>topic.
     bnd (check (event_by_id (codec env) abi topic)) (\<lambda>name.
     bnd (check_go (FilterTeleporterEvents (codec env) (LogTopics log) (LogData log) name))
       (\<lambda>(dyn, out).
     andThen (Println (name @ '' Log:'')) (Println (event_text env name out @ newline))))))))"

definition printICMLogs :: "cli_env \<Rightarrow> evm_log \<Rightarrow> unit cli_prog" where
  "printICMLogs env log =
     bnd (check (MarshalLog env log)) (\<lambda>logJson.
     andThen (Println (''ICM Log:'' @ newline @ logJson @ newline)) (
     bnd (check (UnpackSendWarpEventDataToMessage env (LogData log))) (\<lambda>(msgID, payload).
     andThen (Println (''ICM Message ID: '' @ msgID)) (
     bnd (check (ParseAddressedCall env payload)) (\<lambda>icmPayload.
     bnd (check (MarshalCall env icmPayload)) (\<lambda>icmPayloadJson.
     andThen (Println ''ICM Payload:'') (
     andThen (Println icmPayloadJson) (
     bnd (check (TeleporterMessage_Unpack (codec env) (CallPayload icmPayload)))
       (\<lambda>teleporterMessage.
     andThen (Println ''Teleporter Message:'')
       (Println (TeleporterMessage_String (MarshalVal env) (message_val teleporterMessage))))))))))))"

text \<open>The switch of \<open>checkReceipt\<close>: the first case that equals the log's address.\<close>

definition print_log :: "cli_env \<Rightarrow> evm_log \<Rightarrow> unit cli_prog" where
  "print_log env log =
     bnd (gets teleporterAddress) (\<lambda>addr.
     if LogAddress log = addr then printTeleporterLogs env log
     else if LogAddress log = ParseAddress env ICMPrecompileAddressHex then printICMLogs env log
     else ret ())"

definition checkReceipt :: "cli_env \<Rightarrow> hash \<Rightarrow> unit cli_prog" where
  "checkReceipt env txHash =
     bnd (deref client) (\<lambda>c.
     bnd (check (TransactionReceipt c txHash)) (\<lambda>receipt.
     each (print_log env) (RcptLogs receipt)))"

definition traceTransaction :: "cli_env \<Rightarrow> hash \<Rightarrow> unit cli_prog" where
  "traceTransaction env txHash =
     bnd (deref client) (\<lambda>c.
     case TraceTransaction c txHash of
       Inl e \<Rightarrow> Println (''Error calling debug_traceTransaction: '' @ concat e)
     | Inr json \<Rightarrow> Println (''Transaction Trace:'' @ newline @ json @ newline))"

definition printTransaction :: "cli_env \<Rightarrow> hash \<Rightarrow> unit cli_prog" where
  "printTransaction env txHash =
     bnd (deref client) (\<lambda>c.
     bnd (check (TransactionByHash c txHash)) (\<lambda>json.
     Println (''Transaction:'' @ newline @ json @ newline)))"

definition transactionRun :: "cli_env \<Rightarrow> string \<Rightarrow> unit cli_prog" where
  "transactionRun env arg =
     (let txHash = HexToHash env arg in
      bnd (gets debug) (\<lambda>d.
      andThen (if d then andThen (printTransaction env txHash) (traceTransaction env txHash) else ret ())
        (andThen (checkReceipt env txHash) (Println ''Transaction command ran successfully''))))"

definition transactionPreRunE :: "cli_env \<Rightarrow> string \<Rightarrow> string \<Rightarrow> cli \<Rightarrow> (goerr + unit) \<times> cli" where
  "transactionPreRunE env logLevelArg address s =
     (case callPersistentPreRunE env True logLevelArg s of
        (Inl e, s1) \<Rightarrow> (Inl e, s1)
      | (Inr _, s1) \<Rightarrow>
          let s2 = s1\<lparr>teleporterAddress := ParseAddress env address\<rparr> in
          (case Dial env (rpcEndpoint s2) of
             Inl e \<Rightarrow> (Inl e, s2)
           | Inr c \<Rightarrow> (Inr (), s2\<lparr>client := Some c\<rparr>)))"

text \<open>
  A command as cobra runs it: the nearest persistent pre-run, then the command's \<open>Run\<close>; an error of
  the pre-run makes \<open>Execute\<close> exit.
\<close>

definition run_after :: "(cli \<Rightarrow> (goerr + unit) \<times> cli) \<Rightarrow> unit cli_prog \<Rightarrow> unit cli_prog" where
  "run_after pre run s =
     (case pre s of (Inl e, s1) \<Rightarrow> failed (hd (e @ [[]])) s1 | (Inr _, s1) \<Rightarrow> run s1)"

definition transaction_command :: "cli_env \<Rightarrow> string \<Rightarrow> string \<Rightarrow> string \<Rightarrow> unit cli_prog" where
  "transaction_command env logLevelArg address arg =
     run_after (transactionPreRunE env logLevelArg address) (transactionRun env arg)"

definition event_command :: "cli_env \<Rightarrow> string \<Rightarrow> unit cli_prog" where
  "event_command env logLevelArg = run_after (rootPreRunE env logLevelArg) (eventRun env)"

definition message_command :: "cli_env \<Rightarrow> string \<Rightarrow> string \<Rightarrow> unit cli_prog" where
  "message_command env logLevelArg arg = run_after (rootPreRunE env logLevelArg) (messageRun env arg)"

section \<open>Printing commands\<close>

text \<open>A command that only appends to the console, whatever was printed before.\<close>

definition add_lines :: "string list \<Rightarrow> cli \<Rightarrow> cli" where
  "add_lines ls s = s\<lparr>console := console s @ ls\<rparr>"

definition prints :: "'a cli_prog \<Rightarrow> bool" where
  "prints p \<longleftrightarrow> (\<forall>s. \<exists>r ls. \<forall>pre. p (s\<lparr>console := pre\<rparr>) = (r, s\<lparr>console := pre @ ls\<rparr>))"

named_theorems printing

lemma prints_silent:
  "(\<And>s pre. p (s\<lparr>console := pre\<rparr>) = (fst (p s), s\<lparr>console := pre\<rparr>)) \<Longrightarrow> prints p"
  unfolding prints_def by (metis append_Nil2)

lemma prints_basic [printing]:
  "prints (ret x)" "prints (check r)" "prints (check_go g)" "prints (first_topic ts)"
  "prints (gets teleporterAddress)" "prints (deref teleporterABI)" "prints (deref client)"
  by (rule prints_silent, simp add: check_def check_go_def first_topic_def deref_def
      split: sum.split go.split list.split option.split)+

lemma prints_Println [printing]: "prints (Println l)"
  unfolding prints_def by (intro allI exI [of _ "Returned ()"] exI [of _ "[l]"]) (simp add: Println_def)

lemma prints_bnd [printing]:
  assumes "prints m" and "\<And>x. prints (f x)"
  shows "prints (bnd m f)"
  unfolding prints_def
proof
  fix s
  obtain r ls where m: "\<And>pre. m (s\<lparr>console := pre\<rparr>) = (r, s\<lparr>console := pre @ ls\<rparr>)"
    using assms(1) unfolding prints_def by meson
  show "\<exists>r ls. \<forall>pre. bnd m f (s\<lparr>console := pre\<rparr>) = (r, s\<lparr>console := pre @ ls\<rparr>)"
  proof (cases r)
    case (Returned x)
    obtain r' ls' where f: "\<And>pre. f x (s\<lparr>console := pre\<rparr>) = (r', s\<lparr>console := pre @ ls'\<rparr>)"
      using assms(2) [of x] unfolding prints_def by meson
    have "bnd m f (s\<lparr>console := pre\<rparr>) = (r', s\<lparr>console := pre @ (ls @ ls')\<rparr>)" for pre
      using m [of pre] f [of "pre @ ls"] Returned by simp
    then show ?thesis by blast
  qed (use m in auto)
qed

lemma prints_andThen [printing]: "prints m \<Longrightarrow> prints n \<Longrightarrow> prints (andThen m n)"
  by (simp add: andThen_def prints_bnd)

lemma prints_print_log: "prints (print_log env log)"
  unfolding print_log_def printTeleporterLogs_def printICMLogs_def
  by (auto intro!: printing split: prod.splits)

lemma prints_at:
  assumes "prints p"
  shows "p (add_lines ls s) = (fst (p s), add_lines ls s\<lparr>console := console (add_lines ls s) @
    drop (length (console s)) (console (snd (p s)))\<rparr>)"
proof -
  obtain r ks where p: "\<And>pre. p (s\<lparr>console := pre\<rparr>) = (r, s\<lparr>console := pre @ ks\<rparr>)"
    using assms unfolding prints_def by meson
  from p [of "console s"] p [of "console s @ ls"] show ?thesis
    by (simp add: add_lines_def)
qed

text \<open>The lines a log makes the command print, and whether it lets the command go on.\<close>

definition log_lines :: "cli_env \<Rightarrow> cli \<Rightarrow> evm_log \<Rightarrow> string list" where
  "log_lines env s log = drop (length (console s)) (console (snd (print_log env log s)))"

definition log_ok :: "cli_env \<Rightarrow> cli \<Rightarrow> evm_log \<Rightarrow> bool" where
  "log_ok env s log \<longleftrightarrow> fst (print_log env log s) = Returned ()"

lemma print_log_add:
  "print_log env log (add_lines ls s) =
     (fst (print_log env log s), add_lines (log_lines env s log) (add_lines ls s))"
  using prints_at [OF prints_print_log, of env log ls s]
  by (simp add: log_lines_def add_lines_def)

interpretation receipt_logs: appender "print_log env" "log_ok env" "log_lines env" add_lines for env
proof
  fix s log os
  show "log_ok env (add_lines os s) = log_ok env s"
    by (simp add: fun_eq_iff log_ok_def print_log_add)
  show "log_lines env (add_lines os s) = log_lines env s"
    by (simp add: fun_eq_iff log_lines_def [of env "add_lines os s"] print_log_add)
      (simp add: add_lines_def)
  show "log_ok env s log \<Longrightarrow> print_log env log s = (Returned (), add_lines (log_lines env s log) s)"
    using print_log_add [of env log "[]" s] by (simp add: log_ok_def add_lines_def)
qed (simp_all add: add_lines_def)

section \<open>What the logs of a receipt print\<close>

text \<open>
  The logs a receipt can hold: a log of the Teleporter contract for a known event and its arguments,
  a Warp message that carries a packed Teleporter message, and a log of any other contract.
\<close>

datatype expected_log =
    TeleporterLog u8 "go_val list"
  | IcmLog TeleporterMessage
  | OtherLog

definition icm_address :: "cli_env \<Rightarrow> address" where
  "icm_address env = ParseAddress env ICMPrecompileAddressHex"

fun carries :: "cli_env \<Rightarrow> address \<Rightarrow> evm_log \<Rightarrow> expected_log \<Rightarrow> bool" where
  "carries env addr log (TeleporterLog e args) \<longleftrightarrow>
     LogAddress log = addr \<and> is_Ok (MarshalLog env log) \<and> e \<in> set known_events \<and>
     matches_args (event_args (declared e)) args \<and>
     pack_event (codec env) TeleporterMessengerABI (Event_String e) args = Inr (LogTopics log, LogData log)"
| "carries env addr log (IcmLog m) \<longleftrightarrow>
     LogAddress log \<noteq> addr \<and> LogAddress log = icm_address env \<and> is_Ok (MarshalLog env log) \<and>
     message_ok m \<and>
     (\<exists>msgID payload call. UnpackSendWarpEventDataToMessage env (LogData log) = Inr (msgID, payload) \<and>
        ParseAddressedCall env payload = Inr call \<and> is_Ok (MarshalCall env call) \<and>
        TeleporterMessage_Pack (codec env) m = Inr (CallPayload call))"
| "carries env addr log OtherLog \<longleftrightarrow> LogAddress log \<noteq> addr \<and> LogAddress log \<noteq> icm_address env"

fun shown :: "cli_env \<Rightarrow> expected_log \<Rightarrow> string list \<Rightarrow> bool" where
  "shown env (TeleporterLog e args) ls \<longleftrightarrow>
     (\<exists>json out. ls = [''Teleporter Log:'' @ newline @ json @ newline, Event_String e @ '' Log:'',
        event_String_method (MarshalVal env) e out @ newline] \<and>
      (\<forall>k < length (declared e).
         go_field (export_name (fst (declared e ! k))) out = Some (args ! k)))"
| "shown env (IcmLog m) ls \<longleftrightarrow>
     (\<exists>json msgID call. ls = [''ICM Log:'' @ newline @ json @ newline, ''ICM Message ID: '' @ msgID,
        ''ICM Payload:'', call, ''Teleporter Message:'',
        TeleporterMessage_String (MarshalVal env) (message_val m)])"
| "shown env OtherLog ls \<longleftrightarrow> ls = []"

definition ready :: "cli_env \<Rightarrow> cli \<Rightarrow> bool" where
  "ready env s \<longleftrightarrow> teleporterABI s = Some TeleporterMessengerABI \<and> logger s \<noteq> None"

lemma deref_eval [simp]: "var s = Some x \<Longrightarrow> deref var s = (Returned x, s)"
  by (simp add: deref_def)

lemma Println_eval [simp]: "Println l s = (Returned (), add_lines [l] s)"
  by (simp add: Println_def add_lines_def)

lemma add_lines_sel [simp]:
  "teleporterABI (add_lines ls s) = teleporterABI s" "logger (add_lines ls s) = logger s"
  "client (add_lines ls s) = client s" "teleporterAddress (add_lines ls s) = teleporterAddress s"
  "debug (add_lines ls s) = debug s" "console (add_lines ls s) = console s @ ls"
  by (simp_all add: add_lines_def)

lemma print_teleporter_log:
  assumes "codec_methods (codec env)" and "codec_events (codec env)"
    and "event_ids (codec env) TeleporterMessengerABI" and "ready env s"
    and "carries env (teleporterAddress s) log (TeleporterLog e args)"
  shows "\<exists>ls. print_log env log s = (Returned (), add_lines ls s) \<and> shown env (TeleporterLog e args) ls"
proof -
  obtain json where json: "MarshalLog env log = Inr json"
    using assms(5) by (auto simp: is_Ok_iff)
  have e: "e \<in> set known_events" and args: "matches_args (event_args (declared e)) args"
      and pack: "pack_event (codec env) TeleporterMessengerABI (Event_String e) args =
        Inr (LogTopics log, LogData log)"
    using assms(5) by simp_all
  obtain topics data out where
      "pack_event (codec env) TeleporterMessengerABI (Event_String e) args = Inr (topics, data)"
      and "FilterTeleporterEvents (codec env) topics data (Event_String e) =
        Done (Inr (''TeleporterMessenger'' @ Event_String e, out))"
      and out: "\<forall>k < length (declared e). go_field (export_name (fst (declared e ! k))) out = Some (args ! k)"
    using decode_event_log [OF assms(1,2) e refl args] by blast
  with pack have filter: "FilterTeleporterEvents (codec env) (LogTopics log) (LogData log) (Event_String e) =
      Done (Inr (''TeleporterMessenger'' @ Event_String e, out))"
    by simp
  obtain topic topics' where topics: "LogTopics log = topic # topics'"
    using filter by (cases "LogTopics log")
      (auto simp: FilterTeleporterEvents_def UnpackEvent_def split: sum.splits prod.splits go.splits)
  then have "event_by_id (codec env) TeleporterMessengerABI topic = Inr (Event_String e)"
    using assms(3) pack unfolding event_ids_def by metis
  moreover have "ToEvent (Event_String e) = Inr e"
    using e by (simp add: ToEvent_Inr_iff)
  ultimately have "print_log env log s = (Returned (), add_lines
      [''Teleporter Log:'' @ newline @ json @ newline, Event_String e @ '' Log:'',
        event_String_method (MarshalVal env) e out @ newline] s)"
    using assms(4,5) filter topics
    by (simp add: print_log_def printTeleporterLogs_def json first_topic_def ready_def event_text_def)
  with out show ?thesis
    by auto
qed

lemma print_icm_log:
  assumes "codec_roundtrip (codec env)" and "carries env (teleporterAddress s) log (IcmLog m)"
  shows "\<exists>ls. print_log env log s = (Returned (), add_lines ls s) \<and> shown env (IcmLog m) ls"
proof -
  obtain json msgID payload call callJson where
      c: "MarshalLog env log = Inr json" "UnpackSendWarpEventDataToMessage env (LogData log) = Inr (msgID, payload)"
        "ParseAddressedCall env payload = Inr call" "MarshalCall env call = Inr callJson"
        "TeleporterMessage_Pack (codec env) m = Inr (CallPayload call)" and m: "message_ok m"
    using assms(2) by (auto simp: is_Ok_iff)
  have addr: "LogAddress log = icm_address env" "icm_address env \<noteq> teleporterAddress s"
    using assms(2) by auto
  have "TeleporterMessage_Unpack (codec env) (CallPayload call) = Inr m"
    using teleporter_message.Unpack_Pack [OF assms(1) m c(5)] .
  with c have "print_log env log s = (Returned (), add_lines
      [''ICM Log:'' @ newline @ json @ newline, ''ICM Message ID: '' @ msgID, ''ICM Payload:'',
       callJson, ''Teleporter Message:'',
       TeleporterMessage_String (MarshalVal env) (message_val m)] s)"
    using addr by (simp add: print_log_def printICMLogs_def icm_address_def)
  then show ?thesis
    by auto
qed

lemma print_any_log:
  assumes "codec_roundtrip (codec env)" and "codec_methods (codec env)"
    and "codec_events (codec env)" and "event_ids (codec env) TeleporterMessengerABI"
    and "ready env s" and "carries env (teleporterAddress s) log x"
  shows "log_ok env s log \<and> shown env x (log_lines env s log)"
proof -
  have "\<exists>ls. print_log env log s = (Returned (), add_lines ls s) \<and> shown env x ls"
  proof (cases x)
    case OtherLog
    then show ?thesis
      using assms(6) by (auto simp: print_log_def icm_address_def add_lines_def)
  qed (use print_teleporter_log [OF assms(2-5)] print_icm_log [OF assms(1)] assms(6) in blast)+
  then show ?thesis
    by (auto simp: log_ok_def log_lines_def)
qed

lemma logs_shown:
  assumes "codec_roundtrip (codec env)" and "codec_methods (codec env)"
    and "codec_events (codec env)" and "event_ids (codec env) TeleporterMessengerABI"
    and "ready env s" and "list_all2 (carries env (teleporterAddress s)) logs xs"
  shows "(\<forall>log \<in> set logs. log_ok env s log) \<and>
    list_all2 (shown env) xs (map (log_lines env s) logs)"
  using assms(6) by (induction rule: list_all2_induct) (use print_any_log [OF assms(1-5)] in auto)

section \<open>Running the commands\<close>

lemma transaction_command_starts:
  assumes "codec_methods (codec env)" and "is_Ok (ToLevel env (if lvl = [] then ''info'' else lvl))"
    and "Dial env (rpcEndpoint s) = Inr cl" and "\<not> debug s"
  obtains s1 where "ready env s1" and "teleporterAddress s1 = ParseAddress env address"
    and "client s1 = Some cl" and "console s1 = console s"
    and "transaction_command env lvl address arg s =
      andThen (checkReceipt env (HexToHash env arg)) (Println ''Transaction command ran successfully'') s1"
proof -
  obtain level where level: "ToLevel env (if lvl = [] then ''info'' else lvl) = Inr level"
    using assms(2) by (auto simp: is_Ok_iff)
  let ?s = "s\<lparr>logger := Some level, teleporterABI := Some TeleporterMessengerABI,
      teleporterAddress := ParseAddress env address, client := Some cl\<rparr>"
  have "transactionPreRunE env lvl address s = (Inr (), ?s)"
    using assms level by (simp add: transactionPreRunE_def callPersistentPreRunE_def rootPreRunE_def
        GetAbi_ok Let_def)
  then have "transaction_command env lvl address arg s =
      andThen (checkReceipt env (HexToHash env arg)) (Println ''Transaction command ran successfully'') ?s"
    using assms(4) by (simp add: transaction_command_def run_after_def transactionRun_def Let_def andThen_def)
  then show ?thesis
    by (rule that [of ?s, rotated -1]) (simp_all add: ready_def)
qed

text \<open>
  C25. The command \<open>transaction\<close> on a receipt whose logs are Teleporter logs of known events, Warp
  messages carrying Teleporter messages, and logs of other contracts succeeds and prints, log by log
  and in the order of the receipt, the decoded event with the arguments the contract emitted, the
  message that was sent, and nothing for the other logs.
\<close>

theorem transaction_command_prints_receipt:
  assumes "codec_roundtrip (codec env)" and "codec_methods (codec env)"
    and "codec_events (codec env)" and "event_ids (codec env) TeleporterMessengerABI"
    and "is_Ok (ToLevel env (if lvl = [] then ''info'' else lvl))"
    and "Dial env (rpcEndpoint s) = Inr cl" and "\<not> debug s"
    and "TransactionReceipt cl (HexToHash env arg) = Inr receipt"
    and "list_all2 (carries env (ParseAddress env address)) (RcptLogs receipt) xs"
  shows "\<exists>s' lss. transaction_command env lvl address arg s = (Returned (), s') \<and>
     list_all2 (shown env) xs lss \<and>
     console s' = console s @ concat lss @ [''Transaction command ran successfully'']"
proof -
  obtain s1 where s1: "ready env s1" "teleporterAddress s1 = ParseAddress env address"
      "client s1 = Some cl" "console s1 = console s"
      "transaction_command env lvl address arg s =
        andThen (checkReceipt env (HexToHash env arg)) (Println ''Transaction command ran successfully'') s1"
    by (rule transaction_command_starts [OF assms(2,5,6,7)])
  let ?lss = "map (log_lines env s1) (RcptLogs receipt)"
  have "(\<forall>log \<in> set (RcptLogs receipt). log_ok env s1 log) \<and> list_all2 (shown env) xs ?lss"
    using logs_shown [OF assms(1-4) s1(1)] assms(9) s1(2) by simp
  then have ok: "\<forall>log \<in> set (RcptLogs receipt). log_ok env s1 log" and shown: "list_all2 (shown env) xs ?lss"
    by blast+
  have "checkReceipt env (HexToHash env arg) s1 = (Returned (), add_lines (concat ?lss) s1)"
    using receipt_logs.each_prints [OF ok] s1(3) assms(8) by (simp add: checkReceipt_def)
  with s1 shown show ?thesis
    by (intro exI [of _ "add_lines [''Transaction command ran successfully''] (add_lines (concat ?lss) s1)"]
        exI [of _ ?lss]) simp
qed

text \<open>An environment for examples: everything a node and the parsers could do succeeds.\<close>

definition example_env :: "(hash \<Rightarrow> goerr + evm_receipt) \<Rightarrow> cli_env" where
  "example_env receipts = \<lparr>codec = ref_codec, ToLevel = Inr,
     Dial = (\<lambda>_. Inr \<lparr>TransactionReceipt = receipts, TransactionByHash = (\<lambda>_. Inr []),
       TraceTransaction = (\<lambda>_. Inr [])\<rparr>),
     HexToHash = (\<lambda>s. of_nat (length s)),
     ParseAddress = (\<lambda>s. if s = ICMPrecompileAddressHex then 5 else of_nat (length s)),
     MarshalLog = (\<lambda>_. Inr ''{}''), MarshalCall = (\<lambda>_. Inr ''{}''), MarshalVal = (\<lambda>_. ''{}''),
     UnpackSendWarpEventDataToMessage = (\<lambda>b. Inr (''0x01'', b)),
     ParseAddressedCall = (\<lambda>b. Inr \<lparr>SourceAddress = [], CallPayload = b\<rparr>)\<rparr>"

definition example_cli :: cli where
  "example_cli = \<lparr>logger = None, teleporterABI = None, topicArgs = [], data = [], debug = False,
     rpcEndpoint = ''http'', teleporterAddress = 0, client = None, console = []\<rparr>"

definition example_log :: "address \<Rightarrow> hash list \<Rightarrow> bytes \<Rightarrow> evm_log" where
  "example_log a ts d = \<lparr>LogAddress = a, LogTopics = ts, LogData = d, LogBlockNumber = 1,
     LogTxHash = 0, LogTxIndex = 0, LogBlockHash = 0, LogIndex = 0, LogRemoved = False\<rparr>"

definition example_receipt :: "evm_log list \<Rightarrow> evm_receipt" where
  "example_receipt logs = \<lparr>RcptStatus = 1, RcptTxHash = 0, RcptContractAddress = 0, RcptGasUsed = 0,
     RcptEffectiveGasPrice = 0, RcptBlockNumber = 1, RcptLogs = logs\<rparr>"

theorem transaction_command_prints_receipt_witness:
  "\<exists>b s'. TeleporterMessage_Pack ref_codec example_message = Inr b \<and>
     transaction_command (example_env (\<lambda>_. Inr (example_receipt [example_log 9 [] [], example_log 5 [] b])))
       [] ''0x'' ''0x01'' example_cli = (Returned (), s') \<and>
     last (console s') = ''Transaction command ran successfully'' \<and> length (console s') = 7"
proof -
  obtain b where b: "TeleporterMessage_Pack ref_codec example_message = Inr b"
    using teleporter_message.Pack_ok [OF ref_roundtrip example_ok(1)] by blast
  let ?env = "example_env (\<lambda>_. Inr (example_receipt [example_log 9 [] [], example_log 5 [] b]))"
  have c: "codec ?env = ref_codec"
    by (simp add: example_env_def)
  have "list_all2 (carries ?env (ParseAddress ?env ''0x''))
      (RcptLogs (example_receipt [example_log 9 [] [], example_log 5 [] b]))
      [OtherLog, IcmLog example_message]"
    using b by (simp add: example_env_def example_receipt_def example_log_def icm_address_def
        ICMPrecompileAddressHex_def)
  then obtain s' lss where
      "transaction_command ?env [] ''0x'' ''0x01'' example_cli = (Returned (), s')"
      and "list_all2 (shown ?env) [OtherLog, IcmLog example_message] lss"
      and "console s' = console example_cli @ concat lss @ [''Transaction command ran successfully'']"
    using transaction_command_prints_receipt [of ?env "[]" example_cli _ "''0x01''" _ "''0x''"
        "[OtherLog, IcmLog example_message]"] ref_laws ref_event_ids
    by (fastforce simp: example_env_def example_cli_def)
  with b show ?thesis
    by (auto simp: list_all2_Cons1 example_cli_def)
qed

text \<open>
  C40. A log the contract emits for \<open>BlockchainIDInitialized\<close> ends the command: the process exits with
  an error after printing the raw log, and the logs that follow it are never printed.
\<close>

theorem transaction_command_aborts_on_initialization_log:
  assumes "codec_roundtrip (codec env)" and "codec_methods (codec env)"
    and "codec_events (codec env)" and "event_ids (codec env) TeleporterMessengerABI"
    and "is_Ok (ToLevel env (if lvl = [] then ''info'' else lvl))"
    and "Dial env (rpcEndpoint s) = Inr cl" and "\<not> debug s"
    and "TransactionReceipt cl (HexToHash env arg) = Inr receipt"
    and "RcptLogs receipt = before @ log # later"
    and "list_all2 (carries env (ParseAddress env address)) before xs"
    and "LogAddress log = ParseAddress env address" and "MarshalLog env log = Inr json"
    and "LogTopics log = topic # topics"
    and "event_by_id (codec env) TeleporterMessengerABI topic = Inr ''BlockchainIDInitialized''"
  shows "\<exists>s' lss. transaction_command env lvl address arg s =
       (Failed ''unknown event BlockchainIDInitialized'', s') \<and>
     list_all2 (shown env) xs lss \<and>
     console s' = console s @ concat lss @ [''Teleporter Log:'' @ newline @ json @ newline]"
proof -
  obtain s1 where s1: "ready env s1" "teleporterAddress s1 = ParseAddress env address"
      "client s1 = Some cl" "console s1 = console s"
      "transaction_command env lvl address arg s =
        andThen (checkReceipt env (HexToHash env arg)) (Println ''Transaction command ran successfully'') s1"
    by (rule transaction_command_starts [OF assms(2,5,6,7)])
  let ?lss = "map (log_lines env s1) before"
  let ?header = "''Teleporter Log:'' @ newline @ json @ newline"
  have "(\<forall>log \<in> set (before). log_ok env s1 log) \<and> list_all2 (shown env) xs ?lss"
    using logs_shown [OF assms(1-4) s1(1)] assms(10) s1(2) by simp
  then have ok: "\<forall>log \<in> set (before). log_ok env s1 log" and shown: "list_all2 (shown env) xs ?lss"
    by blast+
  have "FilterTeleporterEvents (codec env) (LogTopics log) (LogData log) ''BlockchainIDInitialized'' =
      Done (Inl [''unknown event BlockchainIDInitialized''])"
    by (rule initialized_event_refused)
  then have "print_log env log (add_lines (concat ?lss) s1) =
      (Failed ''unknown event BlockchainIDInitialized'', add_lines [?header] (add_lines (concat ?lss) s1))"
    using assms(11-14) s1(1,2)
    by (simp add: print_log_def printTeleporterLogs_def first_topic_def ready_def)
  then have "checkReceipt env (HexToHash env arg) s1 =
      (Failed ''unknown event BlockchainIDInitialized'', add_lines [?header] (add_lines (concat ?lss) s1))"
    using receipt_logs.each_prints_until [OF ok] s1(3) assms(8,9) by (simp add: checkReceipt_def)
  with s1 shown show ?thesis
    by (intro exI [of _ "add_lines [?header] (add_lines (concat ?lss) s1)"] exI [of _ ?lss]) simp
qed

theorem transaction_command_aborts_on_initialization_log_witness:
  "\<exists>s'. transaction_command
       (example_env (\<lambda>_. Inr (example_receipt [example_log 2 [ref_topic ''BlockchainIDInitialized'', 1] []])))
       [] ''0x'' ''0x01'' example_cli = (Failed ''unknown event BlockchainIDInitialized'', s')"
proof -
  let ?env = "example_env (\<lambda>_. Inr (example_receipt
      [example_log 2 [ref_topic ''BlockchainIDInitialized'', 1] []]))"
  have "event_by_id ref_codec TeleporterMessengerABI (ref_topic ''BlockchainIDInitialized'') =
      Inr ''BlockchainIDInitialized''"
    using find_event [of "''BlockchainIDInitialized''"]
    by (auto simp: ref_codec_def TeleporterMessengerABI_def)
  then show ?thesis
    using transaction_command_aborts_on_initialization_log [of ?env "[]" example_cli _ "''0x01''" _ "[]" _ "[]"
        "''0x''" "[]"] ref_laws ref_event_ids
    by (fastforce simp: example_env_def example_cli_def example_receipt_def example_log_def
        ICMPrecompileAddressHex_def)
qed

lemma root_command_starts:
  assumes "codec_methods (codec env)" and "is_Ok (ToLevel env (if lvl = [] then ''info'' else lvl))"
  obtains s1 where "ready env s1" and "console s1 = console s" and "topicArgs s1 = topicArgs s"
    and "data s1 = data s" and "\<And>run. run_after (rootPreRunE env lvl) run s = run s1"
proof -
  obtain level where level: "ToLevel env (if lvl = [] then ''info'' else lvl) = Inr level"
    using assms(2) by (auto simp: is_Ok_iff)
  let ?s = "s\<lparr>logger := Some level, teleporterABI := Some TeleporterMessengerABI\<rparr>"
  have "rootPreRunE env lvl s = (Inr (), ?s)"
    using assms level by (simp add: rootPreRunE_def GetAbi_ok Let_def)
  then show ?thesis
    by (intro that [of ?s]) (simp_all add: ready_def run_after_def)
qed

lemma filter_no_panic: "FilterTeleporterEvents c (t # ts) d name \<noteq> Panic p"
  by (auto simp: FilterTeleporterEvents_def UnpackEvent_def split: sum.splits prod.splits go.splits)

text \<open>
  The command \<open>message\<close>, given the hexadecimal text of a packed message, prints that message,
  unchanged in every field, and reports success.
\<close>

theorem message_command_prints_packed_message:
  assumes "codec_roundtrip (codec env)" and "codec_methods (codec env)"
    and "is_Ok (ToLevel env (if lvl = [] then ''info'' else lvl))"
    and "message_ok m" and "TeleporterMessage_Pack (codec env) m = Inr b"
  shows "\<exists>s'. message_command env lvl (hex_encode b) s = (Returned (), s') \<and>
     console s' = console s @ [''TeleporterMessenger Message unpacked '' @ MarshalVal env (message_val m),
       ''Message command ran successfully'']"
proof -
  obtain s1 where s1: "ready env s1" "console s1 = console s"
      "\<And>run. run_after (rootPreRunE env lvl) run s = run s1"
    using root_command_starts [OF assms(2,3)] by metis
  have "TeleporterMessage_Unpack (codec env) b = Inr m"
    using teleporter_message.Unpack_Pack [OF assms(1,4,5)] .
  moreover obtain l where "logger s1 = Some l"
    using s1(1) by (auto simp: ready_def)
  ultimately show ?thesis
    using s1(2) by (auto simp: message_command_def s1(3) messageRun_def hex_text.parse_print)
qed

theorem message_command_prints_packed_message_witness:
  "\<exists>b s'. TeleporterMessage_Pack ref_codec example_message = Inr b \<and>
     message_command (example_env (\<lambda>_. Inl [])) ''debug'' (hex_encode b) example_cli = (Returned (), s') \<and>
     last (console s') = ''Message command ran successfully''"
proof -
  obtain b where b: "TeleporterMessage_Pack ref_codec example_message = Inr b"
    using teleporter_message.Pack_ok [OF ref_roundtrip example_ok(1)] by blast
  then have "TeleporterMessage_Pack (codec (example_env (\<lambda>_. Inl []))) example_message = Inr b"
    by (simp add: example_env_def)
  from message_command_prints_packed_message [OF _ _ _ example_ok(1) this, of "''debug''" example_cli] b
  show ?thesis
    using ref_laws by (auto simp: example_env_def)
qed

text \<open>
  The command \<open>event\<close> prints the event that the given topics and data encode; it panics (index
  out of range) exactly if it was given an empty list of topics, and otherwise ends with a message.
\<close>

theorem event_command_prints_or_panics:
  assumes "codec_methods (codec env)" and "codec_events (codec env)"
    and "event_ids (codec env) TeleporterMessengerABI"
    and "is_Ok (ToLevel env (if lvl = [] then ''info'' else lvl))"
  shows "((\<exists>p s'. event_command env lvl s = (Panicked p, s')) \<longleftrightarrow> topicArgs s = []) \<and>
     (e \<in> set known_events \<longrightarrow> matches_args (event_args (declared e)) args \<longrightarrow>
      pack_event (codec env) TeleporterMessengerABI (Event_String e) args =
        Inr (map (HexToHash env) (topicArgs s), data s) \<longrightarrow>
      (\<exists>out s'. event_command env lvl s = (Returned (), s') \<and>
         console s' = console s @
           [''Parsed Teleporter event '' @ Event_String e @ '' '' @
              event_String_method (MarshalVal env) e out,
            ''Event command ran successfully for '' @ Event_String e] \<and>
         (\<forall>k < length (declared e).
            go_field (export_name (fst (declared e ! k))) out = Some (args ! k))))"
proof -
  obtain s1 where s1: "ready env s1" "console s1 = console s" "topicArgs s1 = topicArgs s"
      "data s1 = data s" "\<And>run. run_after (rootPreRunE env lvl) run s = run s1"
    by (rule root_command_starts [OF assms(1,4), of s]) metis
  then obtain l where l: "logger s1 = Some l" and abi: "teleporterABI s1 = Some TeleporterMessengerABI"
    by (auto simp: ready_def)
  let ?ts = "map (HexToHash env) (topicArgs s)"
  have "(\<exists>p s'. event_command env lvl s = (Panicked p, s')) \<longleftrightarrow> topicArgs s = []"
  proof (cases "topicArgs s")
    case Nil
    then show ?thesis
      by (simp add: event_command_def s1 eventRun_def first_topic_def)
  next
    case (Cons t ts)
    then show ?thesis
      by (auto simp: event_command_def s1 eventRun_def first_topic_def abi l bnd_def filter_no_panic
          check_def check_go_def split: sum.splits go.splits prod.splits)
  qed
  moreover have "\<exists>out s'. event_command env lvl s = (Returned (), s') \<and>
         console s' = console s @
           [''Parsed Teleporter event '' @ Event_String e @ '' '' @
              event_String_method (MarshalVal env) e out,
            ''Event command ran successfully for '' @ Event_String e] \<and>
         (\<forall>k < length (declared e).
            go_field (export_name (fst (declared e ! k))) out = Some (args ! k))"
    if e: "e \<in> set known_events" and args: "matches_args (event_args (declared e)) args"
      and pack: "pack_event (codec env) TeleporterMessengerABI (Event_String e) args = Inr (?ts, data s)"
  proof -
    obtain out where filter: "FilterTeleporterEvents (codec env) ?ts (data s) (Event_String e) =
          Done (Inr (''TeleporterMessenger'' @ Event_String e, out))"
        and out: "\<forall>k < length (declared e).
          go_field (export_name (fst (declared e ! k))) out = Some (args ! k)"
      using decode_event_log [OF assms(1,2) e refl args] pack by auto
    then obtain t ts where ts: "?ts = t # ts"
      by (cases ?ts) (auto simp: FilterTeleporterEvents_def UnpackEvent_def
          split: sum.splits prod.splits go.splits)
    then have "event_by_id (codec env) TeleporterMessengerABI t = Inr (Event_String e)"
      using assms(3) pack unfolding event_ids_def by metis
    moreover have "ToEvent (Event_String e) = Inr e"
      using e by (simp add: ToEvent_Inr_iff)
    ultimately show ?thesis
      using filter out ts
      by (intro exI [of _ out])
        (simp add: event_command_def s1 eventRun_def first_topic_def abi l event_text_def)
  qed
  ultimately show ?thesis
    by blast
qed

theorem event_command_prints_or_panics_witness:
  "\<exists>p s'. event_command (example_env (\<lambda>_. Inl [])) [] example_cli = (Panicked p, s')"
  using event_command_prints_or_panics [of "example_env (\<lambda>_. Inl [])" "[]" example_cli] ref_laws ref_event_ids
  by (simp add: example_env_def example_cli_def)

end
