(* ===== verification/Binding.thy ===== *)
theory Binding
  imports AbiEvents Effects
begin

text \<open>
  What every generated contract binding of \<open>abi-bindings/go\<close> shares: calls and transactions through a
  \<open>bind.BoundContract\<close>, the parsers of logs, the iterators over filtered logs and the watch loops.
  The bindings of single contracts instantiate these definitions.

  \<open>bind.BoundContract\<close> (package \<open>subnet-evm/accounts/abi/bind\<close>) is the parameter \<open>bound_contract\<close>; its
  operations are commands on the state \<open>'w\<close> of the chain. A log channel and its producer are explicit:
  \<open>pending\<close> are the logs the subscription still has to send, \<open>chan\<close> those in the channel, and the
  subscription's error channel is ready once nothing is pending. The choice a \<open>select\<close> makes between
  two ready channels is an argument.
\<close>

section \<open>Bound contracts\<close>

record 'w bound_contract =
  contract_call :: "CallOpts \<Rightarrow> string \<Rightarrow> go_val list \<Rightarrow> ('w, goerr + go_val list) prog"
  contract_transact :: "TransactOpts \<Rightarrow> string \<Rightarrow> go_val list \<Rightarrow> ('w, goerr + hash) prog"
  contract_raw_transact :: "TransactOpts \<Rightarrow> bytes \<Rightarrow> ('w, goerr + hash) prog"
  FilterLogs :: "FilterOpts \<Rightarrow> string \<Rightarrow> go_val list list \<Rightarrow> ('w, goerr + evm_log list) prog"
  WatchLogs :: "string \<Rightarrow> go_val list list \<Rightarrow> ('w, goerr + unit) prog"
  UnpackLog :: "event_fields \<Rightarrow> string \<Rightarrow> evm_log \<Rightarrow> goerr + event_fields"

text \<open>
  A read-only method: the outputs are converted one by one (\<open>abi.ConvertType\<close>); a missing output or
  one of another type panics.
\<close>

definition call_method ::
  "'w bound_contract \<Rightarrow> CallOpts \<Rightarrow> string \<Rightarrow> go_val list \<Rightarrow> (go_val list \<Rightarrow> 'a option) \<Rightarrow>
   ('w, goerr + 'a) prog" where
  "call_method c opts method params conv =
     bnd (contract_call c opts method params) (\<lambda>r.
     case r of
       Inl e \<Rightarrow> ret (Inl e)
     | Inr out \<Rightarrow>
         (case conv out of
            None \<Rightarrow> panicked ''interface conversion or index out of range''
          | Some x \<Rightarrow> ret (Inr x)))"

definition out_at :: "nat \<Rightarrow> (go_val \<Rightarrow> 'a option) \<Rightarrow> go_val list \<Rightarrow> 'a option" where
  "out_at i f out = (if i < length out then f (out ! i) else None)"

definition out1 :: "(go_val \<Rightarrow> 'a option) \<Rightarrow> go_val list \<Rightarrow> 'a option" where
  "out1 f out = out_at 0 f out"

definition out2 ::
  "(go_val \<Rightarrow> 'a option) \<Rightarrow> (go_val \<Rightarrow> 'b option) \<Rightarrow> go_val list \<Rightarrow> ('a \<times> 'b) option" where
  "out2 f g out =
     (case (out_at 0 f out, out_at 1 g out) of
        (Some x, Some y) \<Rightarrow> Some (x, y)
      | _ \<Rightarrow> None)"

definition out3 ::
  "(go_val \<Rightarrow> 'a option) \<Rightarrow> (go_val \<Rightarrow> 'b option) \<Rightarrow> (go_val \<Rightarrow> 'c option) \<Rightarrow> go_val list \<Rightarrow>
   ('a \<times> 'b \<times> 'c) option" where
  "out3 f g h out =
     (case (out_at 0 f out, out_at 1 g out, out_at 2 h out) of
        (Some x, Some y, Some z) \<Rightarrow> Some (x, y, z)
      | _ \<Rightarrow> None)"

definition out0 :: "go_val list \<Rightarrow> unit option" where
  "out0 out = Some ()"

text \<open>A session is a bound contract with preset options.\<close>

record 'w session =
  SessionContract :: "'w bound_contract"
  SessionCallOpts :: CallOpts
  SessionTransactOpts :: TransactOpts

text \<open>
  The untyped aliases of a binding, the same in each: a call or transaction of the method with the
  given name, and a plain transfer, which carries no call data.
\<close>

definition Raw_Call ::
  "'w bound_contract \<Rightarrow> CallOpts \<Rightarrow> string \<Rightarrow> go_val list \<Rightarrow> ('w, goerr + go_val list) prog" where
  "Raw_Call c opts method params = contract_call c opts method params"

definition Raw_Transfer :: "'w bound_contract \<Rightarrow> TransactOpts \<Rightarrow> ('w, goerr + hash) prog" where
  "Raw_Transfer c opts = contract_raw_transact c opts []"

definition Raw_Transact ::
  "'w bound_contract \<Rightarrow> TransactOpts \<Rightarrow> string \<Rightarrow> go_val list \<Rightarrow> ('w, goerr + hash) prog" where
  "Raw_Transact c opts method params = contract_transact c opts method params"

text \<open>
  Binding to a deployed contract: \<open>MetaData.GetAbi\<close>, then \<open>bind.NewBoundContract\<close>; and deploying with
  \<open>bind.DeployContract\<close>.
\<close>

record 'w bind_lib =
  lib_codec :: abi_codec
  NewBoundContract :: "contract_abi \<Rightarrow> address \<Rightarrow> 'w bound_contract"
  DeployContract ::
    "TransactOpts \<Rightarrow> contract_abi \<Rightarrow> string \<Rightarrow> go_val list \<Rightarrow> ('w, goerr + address \<times> hash) prog"

definition bind_contract ::
  "'w bind_lib \<Rightarrow> contract_abi \<Rightarrow> address \<Rightarrow> goerr + 'w bound_contract" where
  "bind_contract lib meta addr =
     rbind (GetAbi (lib_codec lib) meta) (\<lambda>abi. Inr (NewBoundContract lib abi addr))"

definition deploy_contract ::
  "'w bind_lib \<Rightarrow> TransactOpts \<Rightarrow> contract_abi \<Rightarrow> string \<Rightarrow> go_val list \<Rightarrow>
   ('w, goerr + address \<times> hash \<times> 'w bound_contract) prog" where
  "deploy_contract lib opts meta bin params =
     (case GetAbi (lib_codec lib) meta of
        Inl e \<Rightarrow> ret (Inl e)
      | Inr abi \<Rightarrow>
          bnd (DeployContract lib opts abi bin params) (\<lambda>r.
          case r of
            Inl e \<Rightarrow> ret (Inl e)
          | Inr (addr, tx) \<Rightarrow> ret (Inr (addr, tx, NewBoundContract lib abi addr))))"

section \<open>Logs\<close>

text \<open>\<open>new(T)\<close>, \<open>UnpackLog\<close> into it, and \<open>event.Raw = log\<close>.\<close>

definition parse_log ::
  "'w bound_contract \<Rightarrow> string \<Rightarrow> event_fields \<Rightarrow> evm_log \<Rightarrow> goerr + event_fields" where
  "parse_log c event zero log =
     (case UnpackLog c zero event log of
        Inl e \<Rightarrow> Inl e
      | Inr fs \<Rightarrow> Inr (set_field ''Raw'' (log_val log) fs))"

section \<open>Iterators\<close>

record iterator =
  Event :: "event_fields option"
  chan :: "evm_log list"
  pending :: "evm_log list"
  sub_err :: "goerr option"
  unsubscribed :: bool
  it_done :: bool
  fail :: "goerr option"

definition new_iterator :: "evm_log list \<Rightarrow> iterator" where
  "new_iterator ls =
     \<lparr>Event = None, chan = [], pending = ls, sub_err = None, unsubscribed = False, it_done = False,
      fail = None\<rparr>"

definition err_ready :: "iterator \<Rightarrow> bool" where
  "err_ready it \<longleftrightarrow> pending it = [] \<or> unsubscribed it"

text \<open>
  The subscription sends its next log if the channel, of capacity \<open>cap\<close>, has room; it ends, and its
  error channel is ready, when nothing is pending or it was cancelled by \<open>Close\<close>.
\<close>

inductive sends :: "nat \<Rightarrow> iterator \<Rightarrow> iterator \<Rightarrow> bool" for cap where
  "pending it = l # ls \<Longrightarrow> \<not> unsubscribed it \<Longrightarrow> length (chan it) < cap \<Longrightarrow>
   sends cap it (it\<lparr>pending := ls, chan := chan it @ [l]\<rparr>)"

text \<open>
  Receiving a log: the event is parsed, and a parse error stops the iterator. \<open>Event\<close> is a new struct
  by then; where the parser fails after setting some fields, Go leaves these in it, and here it is the
  zero struct. \<open>Error\<close> and the events delivered so far are the same.
\<close>

definition receive_log ::
  "(evm_log \<Rightarrow> goerr + event_fields) \<Rightarrow> event_fields \<Rightarrow> evm_log \<Rightarrow> evm_log list \<Rightarrow> iterator \<Rightarrow>
   bool \<times> iterator" where
  "receive_log parse zero log rest it =
     (case parse log of
        Inl e \<Rightarrow> (False, it\<lparr>chan := rest, Event := Some zero, fail := Some e\<rparr>)
      | Inr ev \<Rightarrow> (True, it\<lparr>chan := rest, Event := Some ev\<rparr>))"

text \<open>\<open>Next\<close> once the subscription has completed: whatever is in the channel.\<close>

definition next_done ::
  "(evm_log \<Rightarrow> goerr + event_fields) \<Rightarrow> event_fields \<Rightarrow> iterator \<Rightarrow> bool \<times> iterator" where
  "next_done parse zero it =
     (if fail it \<noteq> None then (False, it)
      else case chan it of [] \<Rightarrow> (False, it) | l # ls \<Rightarrow> receive_log parse zero l ls it)"

text \<open>
  \<open>Next\<close>: \<open>None\<close> when it blocks. With both channels ready, \<open>pick_log\<close> says which one \<open>select\<close> takes.
\<close>

definition iterator_Next ::
  "(evm_log \<Rightarrow> goerr + event_fields) \<Rightarrow> event_fields \<Rightarrow> bool \<Rightarrow> iterator \<Rightarrow> (bool \<times> iterator) option" where
  "iterator_Next parse zero pick_log it =
     (if fail it \<noteq> None then Some (False, it)
      else if it_done it then Some (next_done parse zero it)
      else
        (case chan it of
           l # ls \<Rightarrow>
             if pick_log \<or> \<not> err_ready it then Some (receive_log parse zero l ls it)
             else Some (next_done parse zero (it\<lparr>it_done := True, fail := sub_err it\<rparr>))
         | [] \<Rightarrow>
             if err_ready it then Some (next_done parse zero (it\<lparr>it_done := True, fail := sub_err it\<rparr>))
             else None))"

definition iterator_Error :: "iterator \<Rightarrow> goerr option" where
  "iterator_Error it = fail it"

definition iterator_Close :: "iterator \<Rightarrow> goerr option \<times> iterator" where
  "iterator_Close it = (None, it\<lparr>unsubscribed := True\<rparr>)"

definition filter_events ::
  "'w bound_contract \<Rightarrow> FilterOpts \<Rightarrow> string \<Rightarrow> go_val list list \<Rightarrow> ('w, goerr + iterator) prog" where
  "filter_events c opts event rules =
     bnd (FilterLogs c opts event rules) (\<lambda>r.
     case r of Inl e \<Rightarrow> ret (Inl e) | Inr logs \<Rightarrow> ret (Inr (new_iterator logs)))"

section \<open>Watch loops\<close>

text \<open>
  The loop of a watch: it waits for a log, parses it and forwards the event to the sink. What its
  \<open>select\<close> statements take, in order, is a list of inputs: \<open>SinkReady\<close> is a receiver of the sink. An
  input that the current \<open>select\<close> does not wait for gives \<open>None\<close>.
\<close>

datatype watch_input = WLog evm_log | WErr "goerr option" | WQuit | SinkReady

datatype watch_state = Waiting | Sending event_fields | Stopped "goerr option"

definition watch_step ::
  "(evm_log \<Rightarrow> goerr + event_fields) \<Rightarrow> watch_input \<Rightarrow> watch_state \<Rightarrow>
   (event_fields list \<times> watch_state) option" where
  "watch_step parse i st =
     (case st of
        Stopped e \<Rightarrow> None
      | Waiting \<Rightarrow>
          (case i of
             WLog l \<Rightarrow>
               (case parse l of
                  Inl e \<Rightarrow> Some ([], Stopped (Some e))
                | Inr ev \<Rightarrow> Some ([], Sending ev))
           | WErr e \<Rightarrow> Some ([], Stopped e)
           | WQuit \<Rightarrow> Some ([], Stopped None)
           | SinkReady \<Rightarrow> None)
      | Sending ev \<Rightarrow>
          (case i of
             SinkReady \<Rightarrow> Some ([ev], Waiting)
           | WErr e \<Rightarrow> Some ([], Stopped e)
           | WQuit \<Rightarrow> Some ([], Stopped None)
           | WLog l \<Rightarrow> None))"

fun watch_run ::
  "(evm_log \<Rightarrow> goerr + event_fields) \<Rightarrow> watch_input list \<Rightarrow> watch_state \<Rightarrow>
   (event_fields list \<times> watch_state) option" where
  "watch_run parse [] st = Some ([], st)"
| "watch_run parse (i # is) st =
     (case watch_step parse i st of
        None \<Rightarrow> None
      | Some (evs, st1) \<Rightarrow>
          map_option (\<lambda>(evs', st2). (evs @ evs', st2)) (watch_run parse is st1))"

text \<open>Opening a watch gives the parser its loop runs with.\<close>

definition watch_events ::
  "'w bound_contract \<Rightarrow> string \<Rightarrow> event_fields \<Rightarrow> go_val list list \<Rightarrow>
   ('w, goerr + (evm_log \<Rightarrow> goerr + event_fields)) prog" where
  "watch_events c event zero rules =
     bnd (WatchLogs c event rules) (\<lambda>r.
     case r of Inl e \<Rightarrow> ret (Inl e) | Inr _ \<Rightarrow> ret (Inr (parse_log c event zero)))"

section \<open>Runs of an iterator\<close>

text \<open>
  A run interleaves the subscription's sends with calls of \<open>Next\<close> that return true; its output are
  the events the caller saw, in order.
\<close>

inductive iter_step ::
  "nat \<Rightarrow> (evm_log \<Rightarrow> goerr + event_fields) \<Rightarrow> event_fields \<Rightarrow> iterator \<Rightarrow> event_fields list \<Rightarrow>
   iterator \<Rightarrow> bool" for cap parse zero where
  Send: "sends cap it it' \<Longrightarrow> iter_step cap parse zero it [] it'"
| Next: "iterator_Next parse zero pick it = Some (True, it') \<Longrightarrow> Event it' = Some ev \<Longrightarrow>
    iter_step cap parse zero it [ev] it'"


inductive iter_run ::
  "nat \<Rightarrow> (evm_log \<Rightarrow> goerr + event_fields) \<Rightarrow> event_fields \<Rightarrow> iterator \<Rightarrow> event_fields list \<Rightarrow>
   iterator \<Rightarrow> bool" for cap parse zero where
  Refl: "iter_run cap parse zero it [] it"
| Step: "iter_run cap parse zero it evs it1 \<Longrightarrow> iter_step cap parse zero it1 evs' it2 \<Longrightarrow>
    iter_run cap parse zero it (evs @ evs') it2"

text \<open>The logs the iterator has consumed, with the events they parse to.\<close>

definition iter_inv ::
  "(evm_log \<Rightarrow> goerr + event_fields) \<Rightarrow> evm_log list \<Rightarrow> event_fields list \<Rightarrow> iterator \<Rightarrow> bool" where
  "iter_inv parse ls evs it \<longleftrightarrow>
     fail it = None \<and> sub_err it = None \<and> \<not> unsubscribed it \<and> (it_done it \<longrightarrow> pending it = []) \<and>
     (\<exists>used. ls = used @ chan it @ pending it \<and> map parse used = map Inr evs)"

lemma iter_inv_start: "iter_inv parse ls [] (new_iterator ls)"
  by (simp add: iter_inv_def new_iterator_def)

lemma receive_log_True:
  "receive_log parse zero l ls it = (True, it') \<longleftrightarrow>
   (\<exists>ev. parse l = Inr ev \<and> it' = it\<lparr>chan := ls, Event := Some ev\<rparr>)"
  by (auto simp: receive_log_def split: sum.splits)

lemma receive_log_False:
  "receive_log parse zero l ls it = (False, it') \<longleftrightarrow>
   (\<exists>e. parse l = Inl e \<and> it' = it\<lparr>chan := ls, Event := Some zero, fail := Some e\<rparr>)"
  by (auto simp: receive_log_def split: sum.splits)

text \<open>What a call of \<open>Next\<close> does in a state that satisfies the invariant.\<close>

lemma Next_True:
  assumes "iter_inv parse ls evs it" and "iterator_Next parse zero pick it = Some (True, it')"
  shows "\<exists>l rest ev. chan it = l # rest \<and> parse l = Inr ev \<and>
    (it' = it\<lparr>chan := rest, Event := Some ev\<rparr> \<or>
     pending it = [] \<and> it' = it\<lparr>it_done := True, fail := None, chan := rest, Event := Some ev\<rparr>)"
  using assms
  by (auto simp: iter_inv_def iterator_Next_def next_done_def err_ready_def receive_log_True
      split: list.splits if_splits)

lemma Next_False:
  assumes "iter_inv parse ls evs it" and "iterator_Next parse zero pick it = Some (False, it')"
  shows "chan it = [] \<and> pending it = [] \<and> fail it' = None \<or>
    (\<exists>l rest e. chan it = l # rest \<and> parse l = Inl e \<and> fail it' = Some e)"
  using assms
  by (auto simp: iter_inv_def iterator_Next_def next_done_def err_ready_def receive_log_False
      split: list.splits if_splits)

lemma iter_inv_step:
  assumes "iter_inv parse ls evs it" and "iter_step cap parse zero it evs' it'"
  shows "iter_inv parse ls (evs @ evs') it'"
  using assms(2)
proof cases
  case Send
  then show ?thesis
    using assms(1) by (auto simp: iter_inv_def elim!: sends.cases)
next
  case (Next pick ev)
  obtain l rest ev' where n: "chan it = l # rest" "parse l = Inr ev'"
      "it' = it\<lparr>chan := rest, Event := Some ev'\<rparr> \<or>
       pending it = [] \<and> it' = it\<lparr>it_done := True, fail := None, chan := rest, Event := Some ev'\<rparr>"
    using Next_True [OF assms(1) Next(2)] by blast
  obtain used where "ls = used @ chan it @ pending it" "map parse used = map Inr evs"
    using assms(1) by (auto simp: iter_inv_def)
  then have "ls = (used @ [l]) @ rest @ pending it" "map parse (used @ [l]) = map Inr (evs @ evs')"
    using n Next by auto
  then have "\<exists>used. ls = used @ chan it' @ pending it' \<and> map parse used = map Inr (evs @ evs')"
    using n(3) by (intro exI [of _ "used @ [l]"]) auto
  then show ?thesis
    using n(3) assms(1) unfolding iter_inv_def by auto
qed

lemma iter_inv_run:
  "iter_run cap parse zero it evs it' \<Longrightarrow> iter_inv parse ls pre it \<Longrightarrow> iter_inv parse ls (pre @ evs) it'"
proof (induction rule: iter_run.induct)
  case (Refl it)
  then show ?case by simp
next
  case (Step it evs it1 evs' it2)
  then show ?case
    using iter_inv_step [of parse ls "pre @ evs" it1 cap zero evs' it2] by simp
qed

text \<open>Every run is finite: a step moves a log from the subscription to the channel or out of it.\<close>

definition iter_measure :: "iterator \<Rightarrow> nat" where
  "iter_measure it = 2 * length (pending it) + length (chan it)"

lemma iter_step_measure:
  assumes "iter_inv parse ls evs it" and "iter_step cap parse zero it evs' it'"
  shows "iter_measure it' < iter_measure it"
  using assms(2)
proof cases
  case Send
  then show ?thesis
    by (auto simp: iter_measure_def elim!: sends.cases)
next
  case (Next pick ev)
  then show ?thesis
    using Next_True [OF assms(1) Next(2)] by (auto simp: iter_measure_def)
qed

text \<open>An iterator is never stuck: a send is possible or \<open>Next\<close> returns.\<close>

lemma iter_progress:
  assumes "0 < cap"
  shows "(\<exists>it'. sends cap it it') \<or> (\<exists>r. iterator_Next parse zero pick it = Some r)"
proof (cases "pending it")
  case Nil
  then have "\<exists>r. iterator_Next parse zero pick it = Some r"
    by (auto simp: iterator_Next_def err_ready_def split: list.splits)
  then show ?thesis ..
next
  case (Cons l ls)
  show ?thesis
  proof (cases "chan it")
    case Nil
    show ?thesis
    proof (cases "unsubscribed it")
      case True
      with Nil have "\<exists>r. iterator_Next parse zero pick it = Some r"
        by (auto simp: iterator_Next_def err_ready_def)
      then show ?thesis ..
    next
      case False
      with Nil Cons assms have "\<exists>it'. sends cap it it'"
        using sends.intros [of it l ls cap] by auto
      then show ?thesis ..
    qed
  next
    case (Cons l ls)
    then have "\<exists>r. iterator_Next parse zero pick it = Some r"
      by (auto simp: iterator_Next_def)
    then show ?thesis ..
  qed
qed

section \<open>What a bound contract does\<close>

text \<open>
  The documented behaviour of \<open>bind.BoundContract\<close> over a backend that answers calls and accepts
  transactions: it packs the method and its arguments with the contract's ABI, unpacks outputs with
  it, and unpacks a log only if its first topic is the event's identifier.
\<close>

record 'w backend =
  call_data :: "CallOpts \<Rightarrow> bytes \<Rightarrow> ('w, goerr + bytes) prog"
  send_data :: "TransactOpts \<Rightarrow> bytes \<Rightarrow> ('w, goerr + hash) prog"

definition bound_spec :: "abi_codec \<Rightarrow> contract_abi \<Rightarrow> 'w backend \<Rightarrow> 'w bound_contract \<Rightarrow> bool" where
  "bound_spec k abi be c \<longleftrightarrow>
     (\<forall>opts m vals. contract_transact c opts m vals =
        (case pack_method k abi m vals of Inl e \<Rightarrow> ret (Inl e) | Inr d \<Rightarrow> send_data be opts d)) \<and>
     (\<forall>opts d. contract_raw_transact c opts d = send_data be opts d) \<and>
     (\<forall>opts m vals. contract_call c opts m vals =
        (case pack_method k abi m vals of
           Inl e \<Rightarrow> ret (Inl e)
         | Inr d \<Rightarrow> bnd (call_data be opts d) (\<lambda>r. ret (rbind r (unpack_output k abi m))))) \<and>
     UnpackLog c = unpack_log k abi"

text \<open>Every codec and backend have a bound contract that behaves so.\<close>

definition spec_contract :: "abi_codec \<Rightarrow> contract_abi \<Rightarrow> 'w backend \<Rightarrow> 'w bound_contract" where
  "spec_contract k abi be = \<lparr>
     contract_call = (\<lambda>opts m vals.
        case pack_method k abi m vals of
           Inl e \<Rightarrow> ret (Inl e)
         | Inr d \<Rightarrow> bnd (call_data be opts d) (\<lambda>r. ret (rbind r (unpack_output k abi m)))),
     contract_transact = (\<lambda>opts m vals.
        case pack_method k abi m vals of Inl e \<Rightarrow> ret (Inl e) | Inr d \<Rightarrow> send_data be opts d),
     contract_raw_transact = send_data be,
     FilterLogs = (\<lambda>opts ev rules. ret (Inr [])),
     WatchLogs = (\<lambda>ev rules. ret (Inr ())),
     UnpackLog = unpack_log k abi\<rparr>"

definition example_backend :: "bytes \<Rightarrow> unit backend" where
  "example_backend out = \<lparr>call_data = (\<lambda>opts d. ret (Inr out)), send_data = (\<lambda>opts d. ret (Inr 7))\<rparr>"

lemma spec_contract_ok: "bound_spec k abi be (spec_contract k abi be)"
  by (simp add: bound_spec_def spec_contract_def)

text \<open>
  A transaction that carries call data the contract decodes to the given values; and a call that,
  when the backend answers with the packed outputs, returns the values of these outputs.
\<close>

definition sends_call ::
  "abi_codec \<Rightarrow> contract_abi \<Rightarrow> 'w backend \<Rightarrow> TransactOpts \<Rightarrow> string \<Rightarrow> go_val list \<Rightarrow>
   ('w, goerr + hash) prog \<Rightarrow> bool" where
  "sends_call k abi be opts m vals p \<longleftrightarrow>
     (\<exists>data. call_of k abi m vals (Inr data) \<and> p = send_data be opts data)"

definition reads_call ::
  "abi_codec \<Rightarrow> contract_abi \<Rightarrow> 'w backend \<Rightarrow> CallOpts \<Rightarrow> string \<Rightarrow> go_val list \<Rightarrow> go_val list \<Rightarrow>
   'a \<Rightarrow> ('w, goerr + 'a) prog \<Rightarrow> bool" where
  "reads_call k abi be opts m vals outvals x p \<longleftrightarrow>
     (\<exists>data out. call_of k abi m vals (Inr data) \<and> pack_output k abi m outvals = Inr out \<and>
        (\<forall>s s'. call_data be opts data s = (Returned (Inr out), s') \<longrightarrow>
           p s = (Returned (Inr x), s')))"

lemma bound_UnpackLog: "bound_spec k abi be c \<Longrightarrow> UnpackLog c = unpack_log k abi"
  by (simp add: bound_spec_def)

text \<open>
  A parser that reads the logs of one event back: every argument is in the field of its name and
  \<open>Raw\<close> is the log; any other log is refused.
\<close>

definition parser_decodes ::
  "abi_codec \<Rightarrow> contract_abi \<Rightarrow> string \<Rightarrow> (evm_log \<Rightarrow> goerr + event_fields) \<Rightarrow> bool" where
  "parser_decodes k abi ev parse \<longleftrightarrow>
     (\<exists>ins. map_of (Events abi) ev = Some ins \<and>
       (\<forall>args log. matches_args (event_args ins) args \<longrightarrow>
          pack_event k abi ev args = Inr (LogTopics log, LogData log) \<longrightarrow>
          (\<exists>fs. parse log = Inr fs \<and>
             (\<forall>i < length ins. map_of fs (export_name (fst (ins ! i))) = Some (args ! i)) \<and>
             map_of fs ''Raw'' = Some (log_val log)))) \<and>
     (\<forall>log. LogTopics log = [] \<or> event_by_id k abi (hd (LogTopics log)) \<noteq> Inr ev \<longrightarrow>
        \<not> is_Ok (parse log))"

lemma parser_decodesD:
  assumes "parser_decodes k abi ev parse" and "map_of (Events abi) ev = Some ins"
  shows "matches_args (event_args ins) args \<Longrightarrow>
      pack_event k abi ev args = Inr (LogTopics log, LogData log) \<Longrightarrow>
      \<exists>fs. parse log = Inr fs \<and>
        (\<forall>i < length ins. map_of fs (export_name (fst (ins ! i))) = Some (args ! i)) \<and>
        map_of fs ''Raw'' = Some (log_val log)"
    and "LogTopics log = [] \<or> event_by_id k abi (hd (LogTopics log)) \<noteq> Inr ev \<Longrightarrow> \<not> is_Ok (parse log)"
  using assms unfolding parser_decodes_def by auto

lemma stored_log:
  assumes "decodable ins zero" and "matches_args (event_args ins) args"
  shows "let fs = set_field ''Raw'' r (set_args True ins args (set_args False ins args zero)) in
    (\<forall>i < length ins. map_of fs (export_name (fst (ins ! i))) = Some (args ! i)) \<and>
    map_of fs ''Raw'' = Some r"
proof -
  let ?fs = "set_args True ins args (set_args False ins args zero)"
  have raw: "''Raw'' \<in> fst ` set ?fs"
    using assms(1) by (simp add: decodable_def) (metis map_of_eq_None_iff option.distinct(1))
  have "map_of (set_field ''Raw'' r ?fs) (export_name (fst (ins ! i))) = Some (args ! i)"
    if "i < length ins" for i
  proof -
    have "ins ! i \<in> set ins"
      using that by simp
    then have "export_name (fst (ins ! i)) \<noteq> ''Raw''"
      using assms(1) by (metis (no_types, lifting) decodable_def image_eqI)
    then show ?thesis
      using stored_args [of ins zero args i] assms(1) that length_matches_args [OF assms(2)]
      by (simp add: map_of_set_field [OF raw] decodable_def fits_def)
  qed
  then show ?thesis
    by (simp add: Let_def map_of_set_field [OF raw])
qed

lemma parse_log_decodes:
  assumes "codec_events k" and "event_ids k abi" and "bound_spec k abi be c"
    and "map_of (Events abi) ev = Some ins" and "decodable ins zero"
  shows "parser_decodes k abi ev (parse_log c ev zero)"
proof -
  have parse: "parse_log c ev zero log =
      (case unpack_log k abi zero ev log of
         Inl err \<Rightarrow> Inl err | Inr fs \<Rightarrow> Inr (set_field ''Raw'' (log_val log) fs))" for log
    using bound_UnpackLog [OF assms(3)] by (simp add: parse_log_def)
  have "\<not> is_Ok (parse_log c ev zero log)"
    if "LogTopics log = [] \<or> event_by_id k abi (hd (LogTopics log)) \<noteq> Inr ev" for log
    using unpack_log_refuses [OF that] by (auto simp: parse is_Ok_iff split: sum.splits)
  moreover have "\<exists>fs. parse_log c ev zero log = Inr fs \<and>
      (\<forall>i < length ins. map_of fs (export_name (fst (ins ! i))) = Some (args ! i)) \<and>
      map_of fs ''Raw'' = Some (log_val log)"
    if "matches_args (event_args ins) args"
      and "pack_event k abi ev args = Inr (LogTopics log, LogData log)" for args log
    using unpack_log_stored [OF assms(1,2,4,5) that] stored_log [OF assms(5) that(1)]
    by (simp add: parse Let_def)
  ultimately show ?thesis
    using assms(4) unfolding parser_decodes_def by blast
qed

lemma transact_sends:
  assumes "codec_methods k" and "codec_roundtrip k" and "bound_spec k abi be c"
    and "map_of (Methods abi) m = Some (ins, outs)" and "matches_args ins vals"
  shows "sends_call k abi be opts m vals (contract_transact c opts m vals)"
proof -
  obtain b where "pack_method k abi m vals = Inr b"
    using call_of_pack_method [OF assms(1,2,4,5)] by (auto simp: call_of_def)
  then show ?thesis
    using call_of_pack_method [OF assms(1,2,4,5)] assms(3)
    by (auto simp: sends_call_def bound_spec_def)
qed

lemma call_reads:
  assumes "codec_methods k" and "codec_roundtrip k" and "bound_spec k abi be c"
    and "map_of (Methods abi) m = Some (ins, outs)" and "matches_args ins vals"
    and "matches_args outs outvals" and "conv outvals = Some x"
  shows "reads_call k abi be opts m vals outvals x (call_method c opts m vals conv)"
proof -
  obtain data where data: "pack_method k abi m vals = Inr data"
    using call_of_pack_method [OF assms(1,2,4,5)] by (auto simp: call_of_def)
  obtain out where out: "pack_args k outs outvals = Inr out" "unpack_args k outs out = Inr outvals"
    using assms(2,6) unfolding codec_roundtrip_def by blast
  have "pack_output k abi m outvals = Inr out" "unpack_output k abi m out = Inr outvals"
    using assms(1,4) out by (simp_all add: codec_methods_def)
  then show ?thesis
    using call_of_pack_method [OF assms(1,2,4,5)] data assms(3,7) unfolding reads_call_def
    by (intro exI [of _ data] exI [of _ out]) (auto simp: bound_spec_def call_method_def bnd_def)
qed

lemma out_simps [simp]:
  "out0 vs = Some ()" "out1 f (v # vs) = f v"
  "f v = Some x \<Longrightarrow> g w = Some y \<Longrightarrow> out2 f g (v # w # vs) = Some (x, y)"
  "f v = Some x \<Longrightarrow> g w = Some y \<Longrightarrow> h u = Some z \<Longrightarrow>
   out3 f g h (v # w # u # vs) = Some (x, y, z)"
  by (simp_all add: out0_def out1_def out2_def out3_def out_at_def)

section \<open>Properties\<close>

lemma map_Inr_takeWhile:
  "map f used = map Inr evs \<Longrightarrow>
   takeWhile (\<lambda>l. is_Ok (f l)) (used @ rest) = used @ takeWhile (\<lambda>l. is_Ok (f l)) rest"
proof (induction used arbitrary: evs)
  case (Cons u used)
  then show ?case
    by (cases evs) auto
qed simp

text \<open>
  C1. An iterator started on the logs \<open>ls\<close> of a filter loses, repeats and reorders nothing: however the
  sends of the subscription interleave with the calls of \<open>Next\<close>, and whatever ready channel \<open>select\<close>
  picks, when \<open>Next\<close> returns false the caller has seen exactly the events of the logs before the
  first one that does not parse, in order, and \<open>Error\<close> is nil if all of them parsed and that log's
  error otherwise. It never deadlocks, and every run is finite.
\<close>

theorem iterator_delivers_every_log:
  assumes "iter_run cap parse zero (new_iterator ls) evs it"
  shows "(iterator_Next parse zero pick it = Some (False, it') \<longrightarrow>
      (let good = takeWhile (\<lambda>l. is_Ok (parse l)) ls in
       map parse good = map Inr evs \<and>
       (if good = ls then iterator_Error it' = None
        else \<exists>e. parse (ls ! length good) = Inl e \<and> iterator_Error it' = Some e))) \<and>
    (0 < cap \<longrightarrow> (\<exists>it'. sends cap it it') \<or> (\<exists>r. iterator_Next parse zero pick it = Some r)) \<and>
    (iter_step cap parse zero it evs' it1 \<longrightarrow> iter_measure it1 < iter_measure it)"
proof (intro conjI impI)
  have inv: "iter_inv parse ls evs it"
    using iter_inv_run [OF assms iter_inv_start] by simp
  then obtain used where used: "ls = used @ chan it @ pending it" "map parse used = map Inr evs"
    by (auto simp: iter_inv_def)
  have good: "takeWhile (\<lambda>l. is_Ok (parse l)) ls =
      used @ takeWhile (\<lambda>l. is_Ok (parse l)) (chan it @ pending it)"
    unfolding used(1) by (rule map_Inr_takeWhile [OF used(2)])
  show "iter_step cap parse zero it evs' it1 \<Longrightarrow> iter_measure it1 < iter_measure it"
    by (rule iter_step_measure [OF inv])
  show "0 < cap \<Longrightarrow> (\<exists>it'. sends cap it it') \<or> (\<exists>r. iterator_Next parse zero pick it = Some r)"
    by (rule iter_progress)
  assume "iterator_Next parse zero pick it = Some (False, it')"
  from Next_False [OF inv this] show "let good = takeWhile (\<lambda>l. is_Ok (parse l)) ls in
       map parse good = map Inr evs \<and>
       (if good = ls then iterator_Error it' = None
        else \<exists>e. parse (ls ! length good) = Inl e \<and> iterator_Error it' = Some e)"
  proof (elim disjE exE conjE)
    assume *: "chan it = []" "pending it = []" "fail it' = None"
    then have g: "takeWhile (\<lambda>l. is_Ok (parse l)) ls = ls"
      using good used(1) by (simp only: takeWhile.simps append_Nil append_Nil2)
    show ?thesis
      unfolding Let_def g using * used by (simp add: iterator_Error_def)
  next
    fix l rest e
    assume *: "chan it = l # rest" "parse l = Inl e" "fail it' = Some e"
    then have g: "takeWhile (\<lambda>l. is_Ok (parse l)) ls = used"
      using good by simp
    show ?thesis
      unfolding Let_def g using * used by (simp add: iterator_Error_def)
  qed
qed

theorem iterator_delivers_every_log_witness:
  "\<exists>it. iter_run 1 (\<lambda>l. Inr []) [] (new_iterator [example_log]) [[]] it \<and>
     iterator_Next (\<lambda>l. Inr []) [] True it \<noteq> None"
proof -
  let ?it0 = "new_iterator [example_log]"
  let ?it1 = "?it0\<lparr>pending := [], chan := [example_log]\<rparr>"
  let ?it2 = "?it1\<lparr>chan := [], Event := Some []\<rparr>"
  have "sends 1 ?it0 (?it0\<lparr>pending := [], chan := chan ?it0 @ [example_log]\<rparr>)"
    by (rule sends.intros) (simp_all add: new_iterator_def)
  then have "iter_run 1 (\<lambda>l. Inr []) [] ?it0 ([] @ []) ?it1"
    by (intro iter_run.Step [OF iter_run.Refl] iter_step.Send) (simp add: new_iterator_def)
  moreover have "iter_step 1 (\<lambda>l. Inr []) [] ?it1 [[]] ?it2"
    by (rule iter_step.Next [of _ _ True]) (simp_all add: iterator_Next_def new_iterator_def receive_log_def)
  ultimately have run: "iter_run 1 (\<lambda>l. Inr []) [] ?it0 [[]] ?it2"
    using iter_run.Step [of 1 "\<lambda>l. Inr []" "[]" ?it0 "[] @ []" ?it1 "[[]]" ?it2] by simp
  have "(\<exists>it'. sends 1 ?it2 it') \<or> (\<exists>r. iterator_Next (\<lambda>l. Inr []) [] True ?it2 = Some r)"
    using iterator_delivers_every_log [OF run, of True, THEN conjunct2, THEN conjunct1]
    by (rule mp) simp
  moreover have "\<not> (\<exists>it'. sends 1 ?it2 it')"
    by (auto simp: new_iterator_def elim!: sends.cases)
  ultimately show ?thesis
    using run by (intro exI [of _ ?it2]) auto
qed

text \<open>The logs a watch loop read, in order.\<close>

definition input_logs :: "watch_input list \<Rightarrow> evm_log list" where
  "input_logs is = concat (map (\<lambda>i. case i of WLog l \<Rightarrow> [l] | _ \<Rightarrow> []) is)"

text \<open>How far a watch loop is: what it has sent, and the log it holds.\<close>

fun watch_inv ::
  "(evm_log \<Rightarrow> goerr + event_fields) \<Rightarrow> evm_log list \<Rightarrow> event_fields list \<Rightarrow> watch_state \<Rightarrow> bool" where
  "watch_inv parse ls evs Waiting \<longleftrightarrow> map parse ls = map Inr evs"
| "watch_inv parse ls evs (Sending ev) \<longleftrightarrow> map parse ls = map Inr (evs @ [ev])"
| "watch_inv parse ls evs (Stopped e) \<longleftrightarrow>
     map parse (take (length evs) ls) = map Inr evs \<and> length ls \<le> Suc (length evs)"

lemma map_Inr_length: "map f ls = map Inr evs \<Longrightarrow> length ls = length evs"
  by (metis length_map)

lemma map_Inr_snoc:
  "map f ls = map Inr evs @ [x] \<Longrightarrow> map f (take (length evs) ls) = map Inr evs \<and> length ls = Suc (length evs)"
  by (metis append_eq_conv_conj length_append_singleton length_map take_map)

lemma watch_inv_step:
  assumes "watch_inv parse ls evs st" and "watch_step parse i st = Some (evs', st')"
  shows "watch_inv parse (ls @ input_logs [i]) (evs @ evs') st'"
proof (cases st)
  case Waiting
  then have m: "map parse ls = map Inr evs"
    using assms(1) by simp
  then have "length ls = length evs"
    by (rule map_Inr_length)
  with m Waiting show ?thesis
    using assms(2) by (cases i) (auto simp: watch_step_def input_logs_def split: sum.splits)
next
  case (Sending ev)
  then have m: "map parse ls = map Inr evs @ [Inr ev]"
    using assms(1) by simp
  from map_Inr_snoc [OF this] m Sending show ?thesis
    using assms(2) by (cases i) (auto simp: watch_step_def input_logs_def)
next
  case (Stopped e)
  then show ?thesis
    using assms(2) by (simp add: watch_step_def)
qed

lemma watch_inv_run:
  "watch_inv parse ls evs st \<Longrightarrow> watch_run parse is st = Some (evs', st') \<Longrightarrow>
   watch_inv parse (ls @ input_logs is) (evs @ evs') st'"
proof (induction "is" arbitrary: ls evs st evs')
  case Nil
  then show ?case
    by (simp add: input_logs_def)
next
  case (Cons i "is")
  then obtain es1 st1 es2 where "watch_step parse i st = Some (es1, st1)"
      and "watch_run parse is st1 = Some (es2, st')" and "evs' = es1 @ es2"
    by (auto split: option.splits)
  moreover have "input_logs (i # is) = input_logs [i] @ input_logs is"
    by (simp add: input_logs_def)
  ultimately show ?case
    using Cons.IH watch_inv_step [OF Cons.prems(1)] by fastforce
qed

text \<open>
  C38. A watch forwards events in the order of the logs and none twice: at any moment what it has sent
  to the sink are the parsed events of the logs it read, except the last one when it is still
  waiting for the receiver or when the loop stopped on it.
\<close>

theorem watch_forwards_in_order:
  assumes "watch_run parse is Waiting = Some (evs, st)"
  shows "map parse (take (length evs) (input_logs is)) = map Inr evs \<and>
     length evs \<le> length (input_logs is) \<and> length (input_logs is) \<le> Suc (length evs) \<and>
     (st = Waiting \<longrightarrow> length (input_logs is) = length evs)"
proof -
  have "watch_inv parse (input_logs is) evs st"
    using watch_inv_run [OF _ assms, of "[]" "[]"] by simp
  moreover have "length evs \<le> length (input_logs is)"
    if "map parse (take (length evs) (input_logs is)) = map Inr evs"
    using arg_cong [OF that, of length] by simp
  ultimately show ?thesis
    using map_Inr_length [of parse "input_logs is" evs] map_Inr_snoc [of parse "input_logs is" evs]
    by (cases st) auto
qed

theorem watch_forwards_in_order_witness:
  "watch_run (\<lambda>l. Inr []) [WLog example_log, SinkReady] Waiting = Some ([[]], Waiting) \<and>
   length (input_logs [WLog example_log, SinkReady]) = 1"
proof -
  have "watch_run (\<lambda>l. Inr []) [WLog example_log, SinkReady] Waiting = Some ([[]], Waiting)"
    by (simp add: watch_step_def)
  with watch_forwards_in_order [OF this] show ?thesis
    by simp
qed

end
