(* ===== verification/IteratorLoop.thy ===== *)
theory IteratorLoop
  imports Binding
begin

text \<open>
  More on the iterators of the generated bindings: a step function over every operation a caller or
  the subscription can perform, \<open>Close\<close> included, with the invariant all of them keep; the abstract
  cursor over a list of logs that the iterator refines, operation by operation; and the loop \<open>for it.Next()\<close> of a caller,
  which ends and has then seen what the cursor yields.
\<close>

section \<open>Operations\<close>

datatype iter_op = SubSend | CallNext bool | CallClose

text \<open>One operation: \<open>None\<close> if it is not possible (the sender's channel is full, or \<open>Next\<close> blocks).\<close>

fun iter_do ::
  "nat \<Rightarrow> (evm_log \<Rightarrow> goerr + event_fields) \<Rightarrow> event_fields \<Rightarrow> iter_op \<Rightarrow> iterator \<Rightarrow>
   (event_fields list \<times> iterator) option" where
  "iter_do cap parse zero SubSend it =
     (case pending it of
        [] \<Rightarrow> None
      | l # ls \<Rightarrow>
          if unsubscribed it \<or> cap \<le> length (chan it) then None
          else Some ([], it\<lparr>pending := ls, chan := chan it @ [l]\<rparr>))"
| "iter_do cap parse zero (CallNext pick) it =
     (case iterator_Next parse zero pick it of
        None \<Rightarrow> None
      | Some (True, it') \<Rightarrow> Some ([the (Event it')], it')
      | Some (False, it') \<Rightarrow> Some ([], it'))"
| "iter_do cap parse zero CallClose it = Some ([], snd (iterator_Close it))"

fun iter_ops ::
  "nat \<Rightarrow> (evm_log \<Rightarrow> goerr + event_fields) \<Rightarrow> event_fields \<Rightarrow> iter_op list \<Rightarrow> iterator \<Rightarrow>
   (event_fields list \<times> iterator) option" where
  "iter_ops cap parse zero [] it = Some ([], it)"
| "iter_ops cap parse zero (a # as) it =
     (case iter_do cap parse zero a it of
        None \<Rightarrow> None
      | Some (evs, it1) \<Rightarrow>
          map_option (\<lambda>(evs', it2). (evs @ evs', it2)) (iter_ops cap parse zero as it1))"

text \<open>A send is the step of the relation \<open>sends\<close>.\<close>

lemma iter_do_sends: "(\<exists>evs. iter_do cap parse zero SubSend it = Some (evs, it')) \<longleftrightarrow> sends cap it it'"
  by (auto simp: sends.simps split: list.splits)

section \<open>The invariant\<close>

text \<open>
  Where the logs of the filter are: the first of them became the events \<open>evs\<close>, then comes the one that
  failed to parse, if the iterator has failed, then those in the channel and those not yet sent.
\<close>

definition log_inv ::
  "nat \<Rightarrow> (evm_log \<Rightarrow> goerr + event_fields) \<Rightarrow> evm_log list \<Rightarrow> event_fields list \<Rightarrow> iterator \<Rightarrow> bool" where
  "log_inv cap parse ls evs it \<longleftrightarrow>
     length (chan it) \<le> cap \<and> sub_err it = None \<and>
     (it_done it \<longrightarrow> pending it = [] \<or> unsubscribed it) \<and>
     (\<exists>used bad. ls = used @ bad @ chan it @ pending it \<and> map parse used = map Inr evs \<and>
        (case fail it of None \<Rightarrow> bad = [] | Some e \<Rightarrow> \<exists>l. bad = [l] \<and> parse l = Inl e))"

lemma log_inv_start: "log_inv cap parse ls [] (new_iterator ls)"
  by (simp add: log_inv_def new_iterator_def)

lemma receive_log_inv:
  assumes "ls = used @ (l # rest) @ pending it" and "map parse used = map Inr evs"
    and "fail it = None" and "length rest < cap" and "sub_err it = None"
    and "it_done it \<longrightarrow> pending it = [] \<or> unsubscribed it"
    and "receive_log parse zero l rest it = (b, it')"
  shows "log_inv cap parse ls (evs @ (if b then [the (Event it')] else [])) it'"
proof (cases "parse l")
  case (Inl e)
  then have "b = False" and it': "it' = it\<lparr>chan := rest, Event := Some zero, fail := Some e\<rparr>"
    using assms(7) by (simp_all add: receive_log_def)
  moreover have "ls = used @ [l] @ rest @ pending it"
    using assms(1) by simp
  ultimately show ?thesis
    using assms(2-6) Inl unfolding log_inv_def it' by fastforce
next
  case (Inr ev)
  then have "b = True" and it': "it' = it\<lparr>chan := rest, Event := Some ev\<rparr>"
    using assms(7) by (simp_all add: receive_log_def)
  moreover have "ls = (used @ [l]) @ [] @ rest @ pending it" and "map parse (used @ [l]) = map Inr (evs @ [ev])"
    using assms(1,2) Inr by simp_all
  ultimately show ?thesis
    using assms(3-6) unfolding log_inv_def it' by fastforce
qed

lemma next_done_inv:
  assumes "log_inv cap parse ls evs it" and "it_done it" and "next_done parse zero it = (b, it')"
  shows "log_inv cap parse ls (evs @ (if b then [the (Event it')] else [])) it'"
proof (cases "fail it \<noteq> None \<or> chan it = []")
  case True
  then show ?thesis
    using assms by (auto simp: next_done_def split: list.splits)
next
  case False
  then obtain l rest where chan: "chan it = l # rest" and "fail it = None"
    by (cases "chan it") auto
  moreover from this obtain used where "ls = used @ (l # rest) @ pending it" and "map parse used = map Inr evs"
    using assms(1) by (auto simp: log_inv_def)
  ultimately show ?thesis
    using assms by (intro receive_log_inv [of ls used l rest it])
      (auto simp: next_done_def log_inv_def)
qed

lemma Next_inv:
  assumes "log_inv cap parse ls evs it" and "iterator_Next parse zero pick it = Some (b, it')"
  shows "log_inv cap parse ls (evs @ (if b then [the (Event it')] else [])) it'"
proof -
  consider "fail it \<noteq> None" | "fail it = None" "it_done it"
    | (take) l rest where "fail it = None" "\<not> it_done it" "chan it = l # rest"
        "receive_log parse zero l rest it = (b, it')"
    | (finish) "fail it = None" "\<not> it_done it" "err_ready it"
        "next_done parse zero (it\<lparr>it_done := True, fail := sub_err it\<rparr>) = (b, it')"
    using assms(2) by (auto simp: iterator_Next_def split: if_splits list.splits)
  then show ?thesis
  proof cases
    case 1
    then show ?thesis
      using assms by (auto simp: iterator_Next_def)
  next
    case 2
    then show ?thesis
      using assms next_done_inv by (simp add: iterator_Next_def)
  next
    case take
    then obtain used where "ls = used @ (l # rest) @ pending it" and "map parse used = map Inr evs"
      using assms(1) by (auto simp: log_inv_def)
    then show ?thesis
      using take assms(1) by (intro receive_log_inv [of ls used l rest it]) (auto simp: log_inv_def)
  next
    case finish
    then have "log_inv cap parse ls evs (it\<lparr>it_done := True, fail := sub_err it\<rparr>)"
      using assms(1) by (simp add: log_inv_def err_ready_def)
    then show ?thesis
      using next_done_inv finish by simp
  qed
qed

lemma iter_do_inv:
  assumes "log_inv cap parse ls evs it" and "iter_do cap parse zero a it = Some (evs', it')"
  shows "log_inv cap parse ls (evs @ evs') it'"
proof (cases a)
  case SubSend
  then obtain l rest where "pending it = l # rest" and "\<not> unsubscribed it" and "length (chan it) < cap"
      and it': "evs' = []" "it' = it\<lparr>pending := rest, chan := chan it @ [l]\<rparr>"
    using assms(2) by (auto split: list.splits if_splits)
  moreover from this obtain used bad where "ls = used @ bad @ (chan it @ [l]) @ rest"
      and "map parse used = map Inr evs"
      and "case fail it of None \<Rightarrow> bad = [] | Some e \<Rightarrow> \<exists>l. bad = [l] \<and> parse l = Inl e"
    using assms(1) by (auto simp: log_inv_def)
  ultimately show ?thesis
    using assms(1) unfolding log_inv_def it' by fastforce
next
  case (CallNext pick)
  then obtain b where "iterator_Next parse zero pick it = Some (b, it')"
      and "evs' = (if b then [the (Event it')] else [])"
    using assms(2) by (auto split: option.splits bool.splits prod.splits)
  then show ?thesis
    using Next_inv [OF assms(1)] by simp
next
  case CallClose
  then have it': "evs' = []" "it' = it\<lparr>unsubscribed := True\<rparr>"
    using assms(2) by (simp_all add: iterator_Close_def)
  show ?thesis
    using assms(1) unfolding log_inv_def it' by simp
qed

lemma iter_ops_inv:
  "log_inv cap parse ls evs it \<Longrightarrow> iter_ops cap parse zero as it = Some (evs', it') \<Longrightarrow>
   log_inv cap parse ls (evs @ evs') it'"
proof (induction as arbitrary: evs it evs')
  case Nil
  then show ?case by simp
next
  case (Cons a as)
  then obtain evs1 it1 evs2 where "iter_do cap parse zero a it = Some (evs1, it1)"
      and "iter_ops cap parse zero as it1 = Some (evs2, it')" and "evs' = evs1 @ evs2"
    by (auto split: option.splits prod.splits)
  then show ?case
    using Cons.IH [of "evs @ evs1" it1 evs2] iter_do_inv [OF Cons.prems(1)] by simp
qed

text \<open>
  C2. Whatever a caller and the subscription do, in any order and with \<open>Close\<close> at any point, the logs
  of the filter stay accounted for: the events the caller saw are those of the first \<open>k\<close> logs, in
  order; the remaining logs are in the channel or unsent, except the one whose parse error \<open>Error\<close>
  reports; the channel never exceeds its capacity; and after an error \<open>Next\<close> returns false for ever.
\<close>

theorem iterator_invariant:
  assumes "iter_ops cap parse zero ops (new_iterator ls) = Some (evs, it)"
  shows "length (chan it) \<le> cap \<and>
    (\<exists>k. k \<le> length ls \<and> map parse (take k ls) = map Inr evs \<and>
      (case iterator_Error it of
         None \<Rightarrow> drop k ls = chan it @ pending it
       | Some e \<Rightarrow> k < length ls \<and> parse (ls ! k) = Inl e \<and> drop (Suc k) ls = chan it @ pending it \<and>
           (\<forall>pick. iterator_Next parse zero pick it = Some (False, it))))"
proof
  have inv: "log_inv cap parse ls evs it"
    using iter_ops_inv [OF log_inv_start assms] by simp
  then show "length (chan it) \<le> cap"
    by (simp add: log_inv_def)
  from inv obtain used bad where ls: "ls = used @ bad @ chan it @ pending it"
      and used: "map parse used = map Inr evs"
      and bad: "case fail it of None \<Rightarrow> bad = [] | Some e \<Rightarrow> \<exists>l. bad = [l] \<and> parse l = Inl e"
    by (auto simp: log_inv_def)
  have k: "length used \<le> length ls" "map parse (take (length used) ls) = map Inr evs"
    using used by (simp_all add: ls)
  show "\<exists>k. k \<le> length ls \<and> map parse (take k ls) = map Inr evs \<and>
      (case iterator_Error it of
         None \<Rightarrow> drop k ls = chan it @ pending it
       | Some e \<Rightarrow> k < length ls \<and> parse (ls ! k) = Inl e \<and> drop (Suc k) ls = chan it @ pending it \<and>
           (\<forall>pick. iterator_Next parse zero pick it = Some (False, it)))"
  proof (cases "fail it")
    case None
    with bad have "drop (length used) ls = chan it @ pending it"
      by (simp add: ls)
    with k None show ?thesis
      by (intro exI [of _ "length used"]) (simp add: iterator_Error_def)
  next
    case (Some e)
    with bad obtain l where l: "bad = [l]" "parse l = Inl e"
      by auto
    with k Some show ?thesis
      by (intro exI [of _ "length used"])
        (simp add: iterator_Error_def iterator_Next_def ls)
  qed
qed

theorem iterator_invariant_witness:
  "\<exists>it. iter_ops 1 (\<lambda>l. Inr []) [] [SubSend, CallClose, CallNext True] (new_iterator [example_log, example_log]) =
     Some ([[]], it) \<and> pending it = [example_log]"
proof -
  have run: "\<exists>it. iter_ops 1 (\<lambda>l. Inr []) [] [SubSend, CallClose, CallNext True]
      (new_iterator [example_log, example_log]) = Some ([[]], it) \<and> chan it = [] \<and> fail it = None"
    by (simp add: new_iterator_def iterator_Close_def iterator_Next_def err_ready_def receive_log_def)
  then obtain it where it: "iter_ops 1 (\<lambda>l. Inr []) [] [SubSend, CallClose, CallNext True]
      (new_iterator [example_log, example_log]) = Some ([[]], it)" "chan it = []" "fail it = None"
    by blast
  from iterator_invariant [OF it(1), THEN conjunct2] obtain k
    where used: "map (\<lambda>l. Inr []) (take k [example_log, example_log]) = (map Inr [[]] :: (goerr + event_fields) list)"
      and "drop k [example_log, example_log] = pending it"
    using it(2,3) by (auto simp: iterator_Error_def simp del: list.map)
  moreover have "length (take k [example_log, example_log]) = 1"
    using arg_cong [OF used, of length] by simp
  moreover from this have "k = 1"
    by (simp add: min_def split: if_splits)
  ultimately show ?thesis
    using it(1) by auto
qed

section \<open>Refinement\<close>

text \<open>The abstract cursor: the next event and the rest, or the end with the error that caused it.\<close>

definition cursor_next ::
  "(evm_log \<Rightarrow> goerr + event_fields) \<Rightarrow> evm_log list \<Rightarrow> goerr option + event_fields \<times> evm_log list" where
  "cursor_next parse rem =
     (case rem of
        [] \<Rightarrow> Inl None
      | l # ls \<Rightarrow> (case parse l of Inl e \<Rightarrow> Inl (Some e) | Inr ev \<Rightarrow> Inr (ev, ls)))"

text \<open>An iterator that has neither failed nor been closed stands before the logs \<open>rem\<close>.\<close>

definition open_at :: "iterator \<Rightarrow> evm_log list \<Rightarrow> bool" where
  "open_at it rem \<longleftrightarrow> fail it = None \<and> sub_err it = None \<and> \<not> unsubscribed it \<and>
     (it_done it \<longrightarrow> pending it = []) \<and> rem = chan it @ pending it"

lemma open_at_new: "open_at (new_iterator ls) ls"
  by (simp add: open_at_def new_iterator_def)

lemma open_at_sends: "open_at it rem \<Longrightarrow> sends cap it it' \<Longrightarrow> open_at it' rem"
  by (auto simp: open_at_def elim!: sends.cases)

lemma open_at_inv: "open_at it rem \<Longrightarrow> iter_inv parse rem [] it"
  by (auto simp: open_at_def iter_inv_def)

lemma open_Next_True:
  assumes "open_at it rem" and "iterator_Next parse zero pick it = Some (True, it')"
  shows "\<exists>ev rem'. cursor_next parse rem = Inr (ev, rem') \<and> Event it' = Some ev \<and> open_at it' rem' \<and>
    iter_measure it' < iter_measure it"
  using Next_True [OF open_at_inv [OF assms(1)] assms(2)] assms(1)
  by (auto simp: open_at_def cursor_next_def iter_measure_def)

lemma open_Next_False:
  assumes "open_at it rem" and "iterator_Next parse zero pick it = Some (False, it')"
  shows "cursor_next parse rem = Inl (iterator_Error it')"
  using Next_False [OF open_at_inv [OF assms(1)] assms(2)] assms(1)
  by (auto simp: open_at_def cursor_next_def iterator_Error_def)

subsection \<open>All operations\<close>

text \<open>
  The abstract machine for a caller: what is left of the logs, the error that ended it, and whether it was
  closed. It has no channel, no sender and no done flag.
\<close>

record cursor =
  Remaining :: "evm_log list"
  CursorError :: "goerr option"
  Cancelled :: bool

definition cursor_at :: "evm_log list \<Rightarrow> cursor" where
  "cursor_at ls = \<lparr>Remaining = ls, CursorError = None, Cancelled = False\<rparr>"

text \<open>
  A send changes nothing. \<open>Next\<close> yields the event of the next log, or ends with its parse error; at an error
  and after the last log it yields nothing, and a closed cursor may yield nothing at any time.
\<close>

fun cursor_step ::
  "(evm_log \<Rightarrow> goerr + event_fields) \<Rightarrow> cursor \<Rightarrow> iter_op \<Rightarrow> event_fields list \<Rightarrow> cursor \<Rightarrow> bool" where
  "cursor_step parse c SubSend evs c' \<longleftrightarrow> \<not> Cancelled c \<and> evs = [] \<and> c' = c"
| "cursor_step parse c CallClose evs c' \<longleftrightarrow> evs = [] \<and> c' = c\<lparr>Cancelled := True\<rparr>"
| "cursor_step parse c (CallNext pick) evs c' \<longleftrightarrow>
     (if CursorError c \<noteq> None \<or> Remaining c = [] then evs = [] \<and> c' = c
      else (case parse (hd (Remaining c)) of
              Inr ev \<Rightarrow> evs = [ev] \<and> c' = c\<lparr>Remaining := tl (Remaining c)\<rparr>
            | Inl e \<Rightarrow> evs = [] \<and> c' = c\<lparr>Remaining := tl (Remaining c), CursorError := Some e\<rparr>) \<or>
        Cancelled c \<and> evs = [] \<and> c' = c)"

inductive cursor_trace ::
  "(evm_log \<Rightarrow> goerr + event_fields) \<Rightarrow> cursor \<Rightarrow> iter_op list \<Rightarrow> event_fields list \<Rightarrow> cursor \<Rightarrow> bool" for parse where
  Stop: "cursor_trace parse c [] [] c"
| Step: "cursor_step parse c a evs c1 \<Longrightarrow> cursor_trace parse c1 as evs' c2 \<Longrightarrow>
    cursor_trace parse c (a # as) (evs @ evs') c2"

text \<open>The refinement mapping: the logs in the channel and those not yet sent are what is left.\<close>

definition cursor_of :: "iterator \<Rightarrow> cursor" where
  "cursor_of it = \<lparr>Remaining = chan it @ pending it, CursorError = fail it, Cancelled = unsubscribed it\<rparr>"

lemma cursor_of_simps [simp]:
  "Remaining (cursor_of it) = chan it @ pending it" "CursorError (cursor_of it) = fail it"
  "Cancelled (cursor_of it) = unsubscribed it" "cursor_of (new_iterator ls) = cursor_at ls"
  by (simp_all add: cursor_of_def cursor_at_def new_iterator_def)

lemma cursor_of_receive:
  assumes "chan it = l # rest" and "fail it = None" and "receive_log parse zero l rest it = (b, it')"
  shows "cursor_step parse (cursor_of it) (CallNext pick) (if b then [the (Event it')] else []) (cursor_of it')"
  using assms by (cases "parse l") (auto simp: receive_log_def cursor_of_def)

lemma cursor_of_done:
  assumes "fail it = None" and "pending it = [] \<or> unsubscribed it" and "next_done parse zero it = (b, it')"
  shows "cursor_step parse (cursor_of it) (CallNext pick) (if b then [the (Event it')] else []) (cursor_of it')"
proof (cases "chan it")
  case Nil
  then show ?thesis
    using assms by (auto simp: next_done_def)
next
  case (Cons l rest)
  then show ?thesis
    using assms by (intro cursor_of_receive) (auto simp: next_done_def)
qed

lemma cursor_of_Next:
  assumes "log_inv cap parse ls evs it" and "iterator_Next parse zero pick it = Some (b, it')"
  shows "cursor_step parse (cursor_of it) (CallNext pick) (if b then [the (Event it')] else []) (cursor_of it')"
proof -
  let ?it = "it\<lparr>it_done := True, fail := sub_err it\<rparr>"
  have inv: "sub_err it = None" "it_done it \<longrightarrow> pending it = [] \<or> unsubscribed it"
    using assms(1) by (simp_all add: log_inv_def)
  consider (failed) "fail it \<noteq> None" "it' = it" "\<not> b"
    | (drain) "fail it = None" "it_done it" "next_done parse zero it = (b, it')"
    | (take) l rest where "fail it = None" "chan it = l # rest" "receive_log parse zero l rest it = (b, it')"
    | (finish) "fail it = None" "err_ready it" "next_done parse zero ?it = (b, it')"
    using assms(2) by (auto simp: iterator_Next_def split: if_splits list.splits)
  then show ?thesis
  proof cases
    case failed
    then show ?thesis
      by simp
  next
    case drain
    with inv show ?thesis
      by (intro cursor_of_done) auto
  next
    case take
    then show ?thesis
      by (intro cursor_of_receive)
  next
    case finish
    have "cursor_of ?it = cursor_of it"
      using finish(1) inv(1) by (simp add: cursor_of_def)
    moreover have "cursor_step parse (cursor_of ?it) (CallNext pick) (if b then [the (Event it')] else []) (cursor_of it')"
      using finish inv(1) by (intro cursor_of_done) (simp_all add: err_ready_def)
    ultimately show ?thesis
      by simp
  qed
qed

lemma cursor_of_do:
  assumes "log_inv cap parse ls evs0 it" and "iter_do cap parse zero a it = Some (evs, it')"
  shows "cursor_step parse (cursor_of it) a evs (cursor_of it')"
proof (cases a)
  case SubSend
  then show ?thesis
    using assms(2) by (auto simp: cursor_of_def split: list.splits if_splits)
next
  case (CallNext pick)
  then obtain b where "iterator_Next parse zero pick it = Some (b, it')" and "evs = (if b then [the (Event it')] else [])"
    using assms(2) by (auto split: option.splits bool.splits prod.splits)
  then show ?thesis
    unfolding CallNext using cursor_of_Next [OF assms(1)] by (simp only:)
next
  case CallClose
  then show ?thesis
    using assms(2) by (auto simp: cursor_of_def iterator_Close_def)
qed

lemma cursor_of_ops:
  assumes "log_inv cap parse ls evs0 it" and "iter_ops cap parse zero as it = Some (evs, it')"
  shows "cursor_trace parse (cursor_of it) as evs (cursor_of it')"
  using assms
proof (induction as arbitrary: it evs0 evs)
  case (Cons a as)
  then obtain evs1 it1 evs2 where 1: "iter_do cap parse zero a it = Some (evs1, it1)"
      and 2: "iter_ops cap parse zero as it1 = Some (evs2, it')" and "evs = evs1 @ evs2"
    by (auto split: option.splits prod.splits)
  moreover have "cursor_trace parse (cursor_of it1) as evs2 (cursor_of it')"
    by (rule Cons.IH [OF iter_do_inv [OF Cons.prems(1) 1] 2])
  ultimately show ?case
    using cursor_of_do [OF Cons.prems(1) 1] by (auto intro: cursor_trace.Step)
qed (simp add: cursor_trace.Stop)

text \<open>After \<open>Close\<close> nothing is sent, so every event comes from the channel.\<close>

lemma closed_do:
  assumes "unsubscribed it" and "iter_do cap parse zero a it = Some (evs, it')"
  shows "unsubscribed it' \<and> length evs + length (chan it') \<le> length (chan it)"
proof (cases a)
  case (CallNext pick)
  then show ?thesis
    using assms
    by (auto simp: iterator_Next_def next_done_def receive_log_def
        split: if_splits list.splits sum.splits option.splits bool.splits prod.splits)
qed (use assms in \<open>auto simp: iterator_Close_def split: list.splits if_splits\<close>)

lemma closed_ops:
  "unsubscribed it \<Longrightarrow> iter_ops cap parse zero as it = Some (evs, it') \<Longrightarrow> length evs \<le> length (chan it)"
proof (induction as arbitrary: it evs)
  case (Cons a as)
  then obtain evs1 it1 evs2 where "iter_do cap parse zero a it = Some (evs1, it1)"
      and "iter_ops cap parse zero as it1 = Some (evs2, it')" and "evs = evs1 @ evs2"
    by (auto split: option.splits prod.splits)
  then show ?case
    using closed_do [OF Cons.prems(1)] Cons.IH [of it1 evs2] by fastforce
qed simp

text \<open>
  C6. An iterator with its subscription refines a cursor over the filtered logs, for every sequence of
  sends, calls of \<open>Next\<close> and \<open>Close\<close>: operation by operation, with the same events, the cursor goes
  from all the logs to what the iterator stands for (the logs in its channel and those not yet sent,
  its error, whether it was closed). \<open>Next\<close> blocks only before the end of an open cursor, when a send
  is possible; and once it is closed the iterator yields no more events than its channel holds.
\<close>

theorem iterator_refines_cursor:
  assumes "iter_ops cap parse zero ops (new_iterator ls) = Some (evs, it)"
  shows "cursor_trace parse (cursor_at ls) ops evs (cursor_of it) \<and>
     (iterator_Next parse zero pick it = None \<longrightarrow>
        \<not> Cancelled (cursor_of it) \<and> CursorError (cursor_of it) = None \<and> Remaining (cursor_of it) \<noteq> [] \<and>
        (0 < cap \<longrightarrow> iter_do cap parse zero SubSend it \<noteq> None)) \<and>
     (Cancelled (cursor_of it) \<longrightarrow> iter_ops cap parse zero ops' it = Some (evs', it') \<longrightarrow>
        length evs' \<le> length (chan it) \<and> length (chan it) \<le> cap)"
proof (intro conjI impI)
  show "cursor_trace parse (cursor_at ls) ops evs (cursor_of it)"
    using cursor_of_ops [OF log_inv_start assms] by simp
next
  assume blocked: "iterator_Next parse zero pick it = None"
  then show "\<not> Cancelled (cursor_of it)" and "CursorError (cursor_of it) = None" and "Remaining (cursor_of it) \<noteq> []"
    by (auto simp: iterator_Next_def err_ready_def split: if_splits list.splits)
  assume "0 < cap"
  with blocked obtain it1 where "sends cap it it1"
    using iter_progress [of cap it parse zero pick] by auto
  then show "iter_do cap parse zero SubSend it \<noteq> None"
    using iter_do_sends [of cap parse zero it it1] by (simp del: iter_do.simps) blast
next
  assume "Cancelled (cursor_of it)" and "iter_ops cap parse zero ops' it = Some (evs', it')"
  then show "length evs' \<le> length (chan it)"
    by (intro closed_ops) simp_all
  show "length (chan it) \<le> cap"
    using iter_ops_inv [OF log_inv_start assms] by (simp add: log_inv_def)
qed

text \<open>Three logs, the second with an index the parser refuses; the subscription is closed after the first event.\<close>

definition sample_log :: "nat \<Rightarrow> evm_log" where
  "sample_log n = example_log\<lparr>LogIndex := n\<rparr>"

definition sample_parse :: "evm_log \<Rightarrow> goerr + event_fields" where
  "sample_parse l = (if LogIndex l = 9 then Inl [''bad log''] else Inr [(''Index'', GBig (int (LogIndex l)))])"

theorem iterator_refines_cursor_witness:
  "\<exists>it. iter_ops 2 sample_parse [] [SubSend, SubSend, CallNext True, CallClose, CallNext True, CallNext True]
       (new_iterator [sample_log 4, sample_log 9, sample_log 5]) = Some ([[(''Index'', GBig 4)]], it) \<and>
     cursor_trace sample_parse (cursor_at [sample_log 4, sample_log 9, sample_log 5])
       [SubSend, SubSend, CallNext True, CallClose, CallNext True, CallNext True] [[(''Index'', GBig 4)]]
       \<lparr>Remaining = [sample_log 5], CursorError = Some [''bad log''], Cancelled = True\<rparr> \<and>
     iter_ops 2 sample_parse [] [SubSend] it = None \<and>
     (\<forall>evs it'. iter_ops 2 sample_parse [] [CallNext True, CallNext False] it = Some (evs, it') \<longrightarrow> evs = [])"
proof -
  have "\<exists>it. iter_ops 2 sample_parse [] [SubSend, SubSend, CallNext True, CallClose, CallNext True, CallNext True]
       (new_iterator [sample_log 4, sample_log 9, sample_log 5]) = Some ([[(''Index'', GBig 4)]], it) \<and>
     chan it = [] \<and> cursor_of it = \<lparr>Remaining = [sample_log 5], CursorError = Some [''bad log''], Cancelled = True\<rparr>"
    by (simp add: new_iterator_def iterator_Close_def iterator_Next_def next_done_def err_ready_def receive_log_def
        sample_log_def sample_parse_def example_log_def cursor_of_def)
  then obtain it where run: "iter_ops 2 sample_parse [] [SubSend, SubSend, CallNext True, CallClose, CallNext True, CallNext True]
       (new_iterator [sample_log 4, sample_log 9, sample_log 5]) = Some ([[(''Index'', GBig 4)]], it)"
      and chan: "chan it = []"
      and c: "cursor_of it = \<lparr>Remaining = [sample_log 5], CursorError = Some [''bad log''], Cancelled = True\<rparr>"
    by blast
  have closed: "unsubscribed it"
    using c by (simp add: cursor_of_def)
  then have sends: "iter_ops 2 sample_parse [] [SubSend] it = None"
    by (simp split: list.split)
  have trace: "cursor_trace sample_parse (cursor_at [sample_log 4, sample_log 9, sample_log 5])
      [SubSend, SubSend, CallNext True, CallClose, CallNext True, CallNext True] [[(''Index'', GBig 4)]] (cursor_of it)"
    using iterator_refines_cursor [OF run] by blast
  have "evs = []" if "iter_ops 2 sample_parse [] [CallNext True, CallNext False] it = Some (evs, it')" for evs it'
  proof -
    have "length evs \<le> length (chan it)"
      using iterator_refines_cursor [OF run, of True "[CallNext True, CallNext False]" evs it'] that closed
      by (simp del: iter_ops.simps)
    with chan show ?thesis
      by simp
  qed
  with run sends trace show ?thesis
    unfolding c by blast
qed

section \<open>The caller's loop\<close>

text \<open>
  \<open>for it.Next() { use(it.Event) }\<close> beside a subscription of capacity \<open>cap\<close>: before each call the
  schedule says whether the subscription sends first, if it can, and which channel \<open>select\<close> picks. If
  \<open>Next\<close> blocks, the subscription has to send. \<open>None\<close> is a loop that has not ended within the fuel, or
  a deadlock.
\<close>

primrec caller_loop ::
  "nat \<Rightarrow> (evm_log \<Rightarrow> goerr + event_fields) \<Rightarrow> event_fields \<Rightarrow> (nat \<Rightarrow> bool \<times> bool) \<Rightarrow> nat \<Rightarrow> iterator \<Rightarrow>
   (event_fields list \<times> iterator) option" where
  "caller_loop cap parse zero sched 0 it = None"
| "caller_loop cap parse zero sched (Suc n) it =
     (let send = (case iter_do cap parse zero SubSend it of
          None \<Rightarrow> None | Some (_, it') \<Rightarrow> caller_loop cap parse zero sched n it')
      in if fst (sched n) \<and> iter_do cap parse zero SubSend it \<noteq> None then send
         else
           (case iterator_Next parse zero (snd (sched n)) it of
              None \<Rightarrow> send
            | Some (True, it') \<Rightarrow>
                map_option (\<lambda>(evs, it''). (the (Event it') # evs, it''))
                  (caller_loop cap parse zero sched n it')
            | Some (False, it') \<Rightarrow> Some ([], it')))"

text \<open>Everything the cursor yields, and the error at its end.\<close>

fun cursor_run :: "(evm_log \<Rightarrow> goerr + event_fields) \<Rightarrow> evm_log list \<Rightarrow> event_fields list \<times> goerr option" where
  "cursor_run parse [] = ([], None)"
| "cursor_run parse (l # ls) =
     (case parse l of
        Inl e \<Rightarrow> ([], Some e)
      | Inr ev \<Rightarrow> (case cursor_run parse ls of (evs, e) \<Rightarrow> (ev # evs, e)))"

lemma cursor_run_next:
  "cursor_run parse rem =
     (case cursor_next parse rem of
        Inl e \<Rightarrow> ([], e)
      | Inr (ev, rem') \<Rightarrow> (case cursor_run parse rem' of (evs, e) \<Rightarrow> (ev # evs, e)))"
  by (cases rem) (auto simp: cursor_next_def split: sum.splits)

lemma send_measure: "sends cap it it' \<Longrightarrow> iter_measure it' < iter_measure it"
  by (auto simp: iter_measure_def elim!: sends.cases)

lemma caller_loop_ends:
  assumes "open_at it rem" and "0 < cap" and "iter_measure it < n"
  shows "\<exists>evs it'. caller_loop cap parse zero sched n it = Some (evs, it') \<and>
    cursor_run parse rem = (evs, iterator_Error it')"
  using assms(1,3)
proof (induction n arbitrary: it rem)
  case 0
  then show ?case by simp
next
  case (Suc n)
  let ?send = "iter_do cap parse zero SubSend it"
  have send: "\<exists>evs it''. caller_loop cap parse zero sched n it' = Some (evs, it'') \<and>
      cursor_run parse rem = (evs, iterator_Error it'')" if "?send = Some (es, it')" for es it'
  proof -
    have "sends cap it it'"
      using iter_do_sends that by blast
    then show ?thesis
      using Suc.IH [OF open_at_sends [OF Suc.prems(1)]] send_measure Suc.prems(2)
      by (meson less_trans_Suc not_less_eq order_less_trans)
  qed
  show ?case
  proof (cases "fst (sched n) \<and> ?send \<noteq> None")
    case True
    then obtain es it' where it': "?send = Some (es, it')"
      by auto
    from True send [OF it'] show ?thesis
      unfolding caller_loop.simps Let_def it' by (simp del: iter_do.simps)
  next
    case False
    show ?thesis
    proof (cases "iterator_Next parse zero (snd (sched n)) it")
      case None
      then obtain it' where "sends cap it it'"
        using iter_progress [OF assms(2), of it parse zero "snd (sched n)"] by auto
      then obtain es where it': "?send = Some (es, it')"
        using iter_do_sends by blast
      from False None send [OF it'] show ?thesis
        unfolding caller_loop.simps Let_def it' by (simp del: iter_do.simps)
    next
      case (Some p)
      obtain b it' where p: "p = (b, it')"
        by (cases p)
      show ?thesis
      proof (cases b)
        case True
        then have "iterator_Next parse zero (snd (sched n)) it = Some (True, it')"
          using Some p by simp
        then obtain ev rem' where step: "cursor_next parse rem = Inr (ev, rem')" "Event it' = Some ev"
            "open_at it' rem'" "iter_measure it' < iter_measure it"
          using open_Next_True [OF Suc.prems(1)] by blast
        then obtain evs it'' where "caller_loop cap parse zero sched n it' = Some (evs, it'')"
            and "cursor_run parse rem' = (evs, iterator_Error it'')"
          using Suc.IH [of it' rem'] Suc.prems(2) by auto
        then show ?thesis
          using Some p True step cursor_run_next [of parse rem]
          unfolding caller_loop.simps Let_def if_not_P [OF False] by (simp del: iter_do.simps)
      next
        case b: False
        then have "iterator_Next parse zero (snd (sched n)) it = Some (False, it')"
          using Some p by simp
        then have "cursor_next parse rem = Inl (iterator_Error it')"
          using open_Next_False [OF Suc.prems(1)] by blast
        then show ?thesis
          using Some p b cursor_run_next [of parse rem]
          unfolding caller_loop.simps Let_def if_not_P [OF False] by (simp del: iter_do.simps)
      qed
    qed
  qed
qed

text \<open>
  C8. The loop a caller runs over an iterator ends, under every schedule of the subscription and every
  choice of \<open>select\<close>, after at most twice as many steps as there are logs and one more, for a channel
  of any positive capacity; it has then used the events the cursor yields, and \<open>Error\<close> is the
  cursor's.
\<close>

theorem caller_loop_terminates:
  assumes "0 < cap" and "2 * length ls < n"
  shows "\<exists>evs it. caller_loop cap parse zero sched n (new_iterator ls) = Some (evs, it) \<and>
    cursor_run parse ls = (evs, iterator_Error it)"
  by (rule caller_loop_ends [OF open_at_new assms(1)])
    (use assms(2) in \<open>simp add: iter_measure_def new_iterator_def\<close>)

theorem caller_loop_terminates_witness:
  "\<exists>it. caller_loop 1 (\<lambda>l. Inr []) [] (\<lambda>_. (True, False)) 5 (new_iterator [example_log, example_log]) =
     Some ([[], []], it)"
  using caller_loop_terminates [of 1 "[example_log, example_log]" 5 "\<lambda>l. Inr []" "[]" "\<lambda>_. (True, False)"]
  by auto

end
