(* ===== verification/ValidatorPacking.thy ===== *)
theory ValidatorPacking
  imports Prelude "HOL-Library.Multiset"
begin

text \<open>
  The packing helpers at the end of \<open>tests/utils/validator_manager.go\<close>: validation identifiers of an
  L1 conversion, and the byte image of the conversion data whose SHA-256 hash the P-Chain signs,
  together with the contract code that computes the same image,
  \<open>contracts/validator-manager/ValidatorMessages.sol\<close>.

  The Go functions take an \<open>interface{}\<close> and read it by reflection, because each binding has its own
  struct. A value is a \<open>dyn_val\<close> with its dynamic type; struct fields are unembedded. A \<open>range\<close> over a
  Go map visits its entries in an order that differs from run to run: that order is a parameter.
\<close>

section \<open>Reflection\<close>

datatype dyn_type =
    TyUint8 | TyUint64 | TyBytes32 | TyAddress
  | TySlice dyn_type
  | TyStruct string
  | TyOther string

datatype dyn_val =
    VUint64 u64
  | VBytes bytes
  | VBytes32 hash
  | VAddress address
  | VSlice dyn_type "dyn_val list"
  | VStruct string "(string \<times> dyn_val) list"
  | VOther string

primrec reflect_Type :: "dyn_val \<Rightarrow> dyn_type" where
  "reflect_Type (VUint64 _) = TyUint64"
| "reflect_Type (VBytes _) = TySlice TyUint8"
| "reflect_Type (VBytes32 _) = TyBytes32"
| "reflect_Type (VAddress _) = TyAddress"
| "reflect_Type (VSlice t _) = TySlice t"
| "reflect_Type (VStruct n _) = TyStruct n"
| "reflect_Type (VOther n) = TyOther n"

primrec type_name :: "dyn_type \<Rightarrow> string" where
  "type_name TyUint8 = ''uint8''"
| "type_name TyUint64 = ''uint64''"
| "type_name TyBytes32 = ''[32]uint8''"
| "type_name TyAddress = ''common.Address''"
| "type_name (TySlice t) = ''[]'' @ type_name t"
| "type_name (TyStruct n) = n"
| "type_name (TyOther n) = n"

text \<open>The name of a value's kind, as \<open>%s\<close> prints it; \<open>VOther\<close> stands for every other kind.\<close>

primrec kind_name :: "dyn_val \<Rightarrow> string" where
  "kind_name (VUint64 _) = ''uint64''"
| "kind_name (VBytes _) = ''slice''"
| "kind_name (VBytes32 _) = ''array''"
| "kind_name (VAddress _) = ''array''"
| "kind_name (VSlice _ _) = ''slice''"
| "kind_name (VStruct _ _) = ''struct''"
| "kind_name (VOther n) = n"

definition FieldByName :: "(string \<times> dyn_val) list \<Rightarrow> string \<Rightarrow> dyn_val option" where
  "FieldByName fs name = map_of fs name"

text \<open>The entries of a map literal in the order in which one \<open>range\<close> loop visits them.\<close>

definition range_order :: "'a list \<Rightarrow> 'a list \<Rightarrow> bool" where
  "range_order entries visited \<longleftrightarrow> mset visited = mset entries"

primrec check_all :: "('a \<Rightarrow> goerr + unit) \<Rightarrow> 'a list \<Rightarrow> goerr + unit" where
  "check_all f [] = Inr ()"
| "check_all f (x # xs) = rbind (f x) (\<lambda>_. check_all f xs)"

lemma check_all_Inr_iff: "check_all f xs = Inr () \<longleftrightarrow> (\<forall>x \<in> set xs. f x = Inr ())"
  by (induction xs) (auto simp: rbind_Inr_iff)

lemma check_all_Inl:
  "check_all f xs = Inl e \<Longrightarrow> \<exists>x \<in> set xs. f x = Inl e"
  by (induction xs) (auto simp: rbind_Inl_iff)

lemma check_all_cases:
  obtains "\<forall>x \<in> set xs. f x = Inr ()" and "check_all f xs = Inr ()"
  | x e where "x \<in> set xs" and "f x = Inl e" and "check_all f xs = Inl e"
proof (cases "check_all f xs")
  case (Inl e)
  then show thesis
    using check_all_Inl that(2) by blast
next
  case (Inr u)
  then show thesis
    using check_all_Inr_iff [of f xs] that(1) by simp
qed

text \<open>\<open>copy(b[lo:hi], src)\<close> and the writers of \<open>binary.BigEndian\<close> panic if the slice ends after \<open>b\<close>.\<close>

definition put :: "nat \<Rightarrow> nat \<Rightarrow> bytes \<Rightarrow> bytes \<Rightarrow> bytes go" where
  "put lo hi src b =
     (if length b < hi then Panic ''slice bounds out of range'' else Done (go_copy b lo hi src))"

section \<open>PackInitialValidator\<close>

definition validator_fields :: "(string \<times> dyn_type) list" where
  "validator_fields =
     [(''NodeID'', TySlice TyUint8), (''Weight'', TyUint64), (''BlsPublicKey'', TySlice TyUint8)]"

definition field_is_missing :: "string \<Rightarrow> goerr" where
  "field_is_missing name = [''field '' @ name @ '' is missing'']"

definition field_has_type :: "string \<Rightarrow> dyn_type \<Rightarrow> dyn_type \<Rightarrow> goerr" where
  "field_has_type name expected got =
     [''field '' @ name @ '' has incorrect type: expected '' @ type_name expected @ '', got '' @
      type_name got]"

definition check_validator_field ::
  "(string \<times> dyn_val) list \<Rightarrow> string \<times> dyn_type \<Rightarrow> goerr + unit" where
  "check_validator_field fs req =
     (case FieldByName fs (fst req) of
        None \<Rightarrow> Inl (field_is_missing (fst req))
      | Some field \<Rightarrow>
          if reflect_Type field \<noteq> snd req
          then Inl (field_has_type (fst req) (snd req) (reflect_Type field))
          else Inr ())"

text \<open>The writes into the buffer \<open>b := make([]byte, 60+len(nodeID))\<close>.\<close>

definition write_validator :: "bytes \<Rightarrow> u64 \<Rightarrow> bytes \<Rightarrow> bytes go" where
  "write_validator nodeID weight blsPublicKey =
     (let n = length nodeID in
      go_bind (put 0 4 (PutUint32 (of_nat n)) (go_make (60 + n))) (\<lambda>b.
      go_bind (put 4 (4 + n) nodeID b) (\<lambda>b.
      go_bind (put (4 + n) (4 + n + 8) (PutUint64 weight) b) (\<lambda>b.
      put (4 + n + 8) (4 + n + 8 + 48) blsPublicKey b))))"

definition PackInitialValidator ::
  "(string \<times> dyn_type) list \<Rightarrow> dyn_val \<Rightarrow> (goerr + bytes) go" where
  "PackInitialValidator requiredFields iv =
     (case iv of
        VStruct _ fs \<Rightarrow>
          go_rbind (Done (check_all (check_validator_field fs) requiredFields)) (\<lambda>_.
            case (FieldByName fs ''NodeID'', FieldByName fs ''Weight'', FieldByName fs ''BlsPublicKey'') of
              (Some (VBytes nodeID), Some (VUint64 weight), Some (VBytes blsPublicKey)) \<Rightarrow>
                go_bind (write_validator nodeID weight blsPublicKey) (\<lambda>b. Done (Inr b))
            | _ \<Rightarrow> Panic ''interface conversion'')
      | _ \<Rightarrow> Done (Inl [''expected a struct, got '' @ kind_name iv]))"

section \<open>PackSubnetConversionData\<close>

definition conversion_fields :: "(string \<times> dyn_type) list" where
  "conversion_fields =
     [(''SubnetID'', TyBytes32), (''ValidatorManagerBlockchainID'', TyBytes32),
      (''ValidatorManagerAddress'', TyAddress), (''InitialValidators'', TySlice (TyStruct ''struct {}''))]"

definition slice_of_structs :: "dyn_type \<Rightarrow> bool" where
  "slice_of_structs t = (case t of TySlice (TyStruct _) \<Rightarrow> True | _ \<Rightarrow> False)"

definition check_conversion_field ::
  "(string \<times> dyn_val) list \<Rightarrow> string \<times> dyn_type \<Rightarrow> goerr + unit" where
  "check_conversion_field fs req =
     (case FieldByName fs (fst req) of
        None \<Rightarrow> Inl (field_is_missing (fst req))
      | Some field \<Rightarrow>
          if fst req = ''InitialValidators'' then
            (if \<not> slice_of_structs (reflect_Type field)
             then Inl [''field '' @ fst req @ '' has incorrect type: expected a slice of structs'']
             else Inr ())
          else if reflect_Type field \<noteq> snd req
          then Inl (field_has_type (fst req) (snd req) (reflect_Type field))
          else Inr ())"

text \<open>
  The loop over the validators: each call of \<open>PackInitialValidator\<close> ranges over a map of its own, in
  the order that \<open>orders\<close> gives for the index. The total length is a \<open>uint32\<close>.
\<close>

fun pack_validators ::
  "(nat \<Rightarrow> (string \<times> dyn_type) list) \<Rightarrow> nat \<Rightarrow> dyn_val list \<Rightarrow> (goerr + bytes list \<times> u32) go" where
  "pack_validators orders i [] = Done (Inr ([], 0))"
| "pack_validators orders i (iv # ivs) =
     go_rbind (case PackInitialValidator (orders i) iv of
         Panic p \<Rightarrow> Panic p
       | Done r \<Rightarrow> Done (wrap ''failed to pack InitialValidator'' r)) (\<lambda>ivPacked.
     go_rbind (pack_validators orders (Suc i) ivs) (\<lambda>(packed, len).
     Done (Inr (ivPacked # packed, of_nat (length ivPacked) + len))))"

fun write_validators :: "nat \<Rightarrow> bytes list \<Rightarrow> bytes \<Rightarrow> bytes go" where
  "write_validators offset [] b = Done b"
| "write_validators offset (iv # ivs) b =
     go_bind (put offset (offset + length iv) iv b) (write_validators (offset + length iv) ivs)"

text \<open>\<open>warpMessage.CodecVersion\<close> of avalanchego is a parameter.\<close>

definition write_conversion ::
  "u16 \<Rightarrow> hash \<Rightarrow> hash \<Rightarrow> address \<Rightarrow> bytes list \<Rightarrow> u32 \<Rightarrow> bytes go" where
  "write_conversion CodecVersion subnetID managerBlockchainID managerAddress packed len =
     go_bind (put 0 2 (PutUint16 CodecVersion) (go_make (unat (94 + len)))) (\<lambda>b.
     go_bind (put 2 34 (hash_bytes subnetID) b) (\<lambda>b.
     go_bind (put 34 66 (hash_bytes managerBlockchainID) b) (\<lambda>b.
     go_bind (put 66 70 (PutUint32 20) b) (\<lambda>b.
     go_bind (put 70 90 (address_bytes managerAddress) b) (\<lambda>b.
     go_bind (put 90 94 (PutUint32 (of_nat (length packed))) b) (\<lambda>b.
     write_validators 94 packed b))))))"

definition PackSubnetConversionData ::
  "u16 \<Rightarrow> (string \<times> dyn_type) list \<Rightarrow> (nat \<Rightarrow> (string \<times> dyn_type) list) \<Rightarrow> dyn_val \<Rightarrow>
   (goerr + bytes) go" where
  "PackSubnetConversionData CodecVersion requiredFields orders data =
     (case data of
        VStruct _ fs \<Rightarrow>
          go_rbind (Done (check_all (check_conversion_field fs) requiredFields)) (\<lambda>_.
            case (FieldByName fs ''SubnetID'', FieldByName fs ''ValidatorManagerBlockchainID'',
                FieldByName fs ''ValidatorManagerAddress'', FieldByName fs ''InitialValidators'') of
              (Some (VBytes32 subnetID), Some (VBytes32 managerBlockchainID),
                Some (VAddress managerAddress), Some (VSlice _ initialValidators)) \<Rightarrow>
                go_rbind (pack_validators orders 0 initialValidators) (\<lambda>(packed, len).
                go_bind (write_conversion CodecVersion subnetID managerBlockchainID managerAddress
                  packed len) (\<lambda>b. Done (Inr b)))
            | _ \<Rightarrow> Panic ''interface conversion'')
      | _ \<Rightarrow> Done (Inl [''expected struct, got '' @ kind_name data]))"

section \<open>CalculateL1ConversionValidationId\<close>

definition CalculateL1ConversionValidationId :: "(bytes \<Rightarrow> hash) \<Rightarrow> hash \<Rightarrow> u32 \<Rightarrow> hash" where
  "CalculateL1ConversionValidationId Sum256 subnetID validatorIdx =
     (let preImage = go_copy (go_make 36) 0 32 (hash_bytes subnetID);
          preImage = go_copy preImage 32 36 (PutUint32 validatorIdx)
      in Sum256 preImage)"

section \<open>The structs of the bindings and the contract's packing\<close>

record InitialValidator =
  NodeID :: bytes
  BlsPublicKey :: bytes
  Weight :: u64

record ConversionData =
  SubnetID :: hash
  ValidatorManagerBlockchainID :: hash
  ValidatorManagerAddress :: address
  InitialValidators :: "InitialValidator list"

definition validator_val :: "InitialValidator \<Rightarrow> dyn_val" where
  "validator_val v = VStruct ''InitialValidator''
     [(''NodeID'', VBytes (NodeID v)), (''BlsPublicKey'', VBytes (BlsPublicKey v)),
      (''Weight'', VUint64 (Weight v))]"

definition conversion_val :: "ConversionData \<Rightarrow> dyn_val" where
  "conversion_val d = VStruct ''ConversionData''
     [(''SubnetID'', VBytes32 (SubnetID d)),
      (''ValidatorManagerBlockchainID'', VBytes32 (ValidatorManagerBlockchainID d)),
      (''ValidatorManagerAddress'', VAddress (ValidatorManagerAddress d)),
      (''InitialValidators'',
        VSlice (TyStruct ''InitialValidator'') (map validator_val (InitialValidators d)))]"

text \<open>\<open>abi.encodePacked\<close> of fixed-width values and \<open>bytes\<close> concatenates their bytes.\<close>

definition sol_packValidator :: "InitialValidator \<Rightarrow> bytes" where
  "sol_packValidator v = PutUint32 (of_nat (length (NodeID v))) @ NodeID v @ BlsPublicKey v @
     PutUint64 (Weight v)"

definition sol_CODEC_ID :: u16 where
  "sol_CODEC_ID = 0"

definition sol_packConversionData :: "ConversionData \<Rightarrow> bytes" where
  "sol_packConversionData d =
     foldl (\<lambda>res v. res @ sol_packValidator v)
       (PutUint16 sol_CODEC_ID @ hash_bytes (SubnetID d) @ hash_bytes (ValidatorManagerBlockchainID d) @
        PutUint32 20 @ address_bytes (ValidatorManagerAddress d) @
        PutUint32 (of_nat (length (InitialValidators d))))
       (InitialValidators d)"

section \<open>The layout of the packed bytes\<close>

definition validator_layout :: "InitialValidator \<Rightarrow> bytes" where
  "validator_layout v = PutUint32 (of_nat (length (NodeID v))) @ NodeID v @ PutUint64 (Weight v) @
     take 48 (BlsPublicKey v) @ replicate (48 - length (BlsPublicKey v)) 0"

definition conversion_header :: "u16 \<Rightarrow> ConversionData \<Rightarrow> bytes" where
  "conversion_header ver d = PutUint16 ver @ hash_bytes (SubnetID d) @
     hash_bytes (ValidatorManagerBlockchainID d) @ PutUint32 20 @
     address_bytes (ValidatorManagerAddress d) @ PutUint32 (of_nat (length (InitialValidators d)))"

definition conversion_layout :: "u16 \<Rightarrow> ConversionData \<Rightarrow> bytes" where
  "conversion_layout ver d = conversion_header ver d @ concat (map validator_layout (InitialValidators d))"

lemma length_validator_layout [simp]: "length (validator_layout v) = 60 + length (NodeID v)"
  by (simp add: validator_layout_def codec_lengths)

lemma length_conversion_header [simp]: "length (conversion_header ver d) = 94"
  by (simp add: conversion_header_def codec_lengths)

text \<open>A buffer filled from left to right: the finished prefix grows by every write.\<close>

lemma put_append:
  assumes "length pre = lo" and "hi = lo + length src" and "length src \<le> length rest"
  shows "put lo hi src (pre @ rest) = Done ((pre @ src) @ drop (length src) rest)"
  using assms by (simp add: put_def go_copy_append)

lemma put_first:
  assumes "hi = length src" and "length src \<le> length rest"
  shows "put 0 hi src rest = Done (src @ drop (length src) rest)"
  using put_append [of "[]" 0 hi src rest] assms by simp

lemma put_short:
  assumes "length pre = lo" and "hi = lo + w" and "w \<le> length rest"
  shows "put lo hi src (pre @ rest) = Done ((pre @ take w src) @ drop (min w (length src)) rest)"
  using assms by (simp add: put_def go_copy_short)

lemma write_validator_layout:
  "write_validator (NodeID v) (Weight v) (BlsPublicKey v) = Done (validator_layout v)"
proof -
  let ?n = "length (NodeID v)" and ?len = "PutUint32 (of_nat (length (NodeID v)))"
  have 1: "put 0 4 ?len (go_make (60 + ?n)) = Done (?len @ replicate (56 + ?n) 0)"
    by (subst put_first) (simp_all add: go_make_def codec_lengths)
  have 2: "put 4 (4 + ?n) (NodeID v) (?len @ replicate (56 + ?n) 0) =
      Done ((?len @ NodeID v) @ replicate 56 0)"
    by (subst put_append) (simp_all add: codec_lengths)
  have 3: "put (4 + ?n) (4 + ?n + 8) (PutUint64 (Weight v)) ((?len @ NodeID v) @ replicate 56 0) =
      Done (((?len @ NodeID v) @ PutUint64 (Weight v)) @ replicate 48 0)"
    by (subst put_append) (simp_all add: codec_lengths)
  have 4: "put (4 + ?n + 8) (4 + ?n + 8 + 48) (BlsPublicKey v)
        (((?len @ NodeID v) @ PutUint64 (Weight v)) @ replicate 48 0) =
      Done (((?len @ NodeID v) @ PutUint64 (Weight v)) @ take 48 (BlsPublicKey v) @
        replicate (48 - length (BlsPublicKey v)) 0)"
    by (subst put_short) (auto simp: codec_lengths min_def)
  show ?thesis
    unfolding write_validator_def Let_def 1 go_bind_simps 2 3 4 by (simp add: validator_layout_def)
qed

lemma write_validators_append:
  assumes "length pre = offset" and "length rest = length (concat ivs)"
  shows "write_validators offset ivs (pre @ rest) = Done (pre @ concat ivs)"
  using assms
proof (induction ivs arbitrary: offset pre rest)
  case Nil
  then show ?case by simp
next
  case (Cons iv ivs)
  have "put offset (offset + length iv) iv (pre @ rest) = Done ((pre @ iv) @ drop (length iv) rest)"
    using Cons.prems by (intro put_append) simp_all
  moreover have "write_validators (offset + length iv) ivs ((pre @ iv) @ drop (length iv) rest) =
      Done ((pre @ iv) @ concat ivs)"
    using Cons.prems by (intro Cons.IH) simp_all
  ultimately show ?case
    by simp
qed

lemma write_conversion_layout:
  assumes "unat len = length (concat ivs)" and "94 + unat len < 2 ^ 32"
    and "length ivs = length (InitialValidators d)"
  shows "write_conversion ver (SubnetID d) (ValidatorManagerBlockchainID d)
      (ValidatorManagerAddress d) ivs len = Done (conversion_header ver d @ concat ivs)"
proof -
  let ?m = "unat len"
  have "unat (94 + len) = (94 + ?m) mod 2 ^ 32"
    by (simp add: unat_word_ariths)
  with assms(2) have size: "unat (94 + len) = 94 + ?m"
    by simp
  have 1: "put 0 2 (PutUint16 ver) (go_make (94 + ?m)) = Done (PutUint16 ver @ replicate (92 + ?m) 0)"
    by (subst put_first) (simp_all add: go_make_def codec_lengths)
  have 2: "put 2 34 (hash_bytes (SubnetID d)) (PutUint16 ver @ replicate (92 + ?m) 0) =
      Done ((PutUint16 ver @ hash_bytes (SubnetID d)) @ replicate (60 + ?m) 0)"
    by (subst put_append) (simp_all add: codec_lengths)
  let ?p3 = "(PutUint16 ver @ hash_bytes (SubnetID d)) @ hash_bytes (ValidatorManagerBlockchainID d)"
  have 3: "put 34 66 (hash_bytes (ValidatorManagerBlockchainID d))
        ((PutUint16 ver @ hash_bytes (SubnetID d)) @ replicate (60 + ?m) 0) =
      Done (?p3 @ replicate (28 + ?m) 0)"
    by (subst put_append) (simp_all add: codec_lengths)
  have 4: "put 66 70 (PutUint32 20) (?p3 @ replicate (28 + ?m) 0) =
      Done ((?p3 @ PutUint32 20) @ replicate (24 + ?m) 0)"
    by (subst put_append) (simp_all add: codec_lengths)
  let ?p5 = "(?p3 @ PutUint32 20) @ address_bytes (ValidatorManagerAddress d)"
  have 5: "put 70 90 (address_bytes (ValidatorManagerAddress d))
        ((?p3 @ PutUint32 20) @ replicate (24 + ?m) 0) = Done (?p5 @ replicate (4 + ?m) 0)"
    by (subst put_append) (simp_all add: codec_lengths)
  let ?n = "PutUint32 (of_nat (length ivs))"
  have 6: "put 90 94 ?n (?p5 @ replicate (4 + ?m) 0) = Done ((?p5 @ ?n) @ replicate ?m 0)"
    by (subst put_append) (simp_all add: codec_lengths)
  have 7: "write_validators 94 ivs ((?p5 @ ?n) @ replicate ?m 0) = Done ((?p5 @ ?n) @ concat ivs)"
    by (rule write_validators_append) (simp_all add: codec_lengths assms(1))
  show ?thesis
    unfolding write_conversion_def size 1 go_bind_simps 2 3 4 5 6 7
    by (simp add: conversion_header_def assms(3))
qed

lemma range_order_set: "range_order xs ys \<Longrightarrow> set ys = set xs"
  by (metis range_order_def set_mset_mset)

lemma validator_fields_ok:
  assumes "range_order validator_fields rf"
  shows "PackInitialValidator rf (validator_val v) = Done (Inr (validator_layout v))"
proof -
  have "check_all (check_validator_field [(''NodeID'', VBytes (NodeID v)),
      (''BlsPublicKey'', VBytes (BlsPublicKey v)), (''Weight'', VUint64 (Weight v))]) rf = Inr ()"
    unfolding check_all_Inr_iff range_order_set [OF assms]
    by (simp add: validator_fields_def check_validator_field_def FieldByName_def)
  then show ?thesis
    by (simp add: PackInitialValidator_def validator_val_def FieldByName_def write_validator_layout)
qed

lemma pack_validators_layout:
  assumes "\<forall>i. range_order validator_fields (orders i)"
  shows "pack_validators orders i (map validator_val vs) =
    Done (Inr (map validator_layout vs, of_nat (length (concat (map validator_layout vs)))))"
  by (induction vs arbitrary: i) (simp_all add: validator_fields_ok assms)

lemma PackSubnetConversionData_layout:
  assumes "range_order conversion_fields rf" and "\<forall>i. range_order validator_fields (orders i)"
    and "length (conversion_layout ver d) < 2 ^ 32"
  shows "PackSubnetConversionData ver rf orders (conversion_val d) =
    Done (Inr (conversion_layout ver d))"
proof -
  let ?ivs = "map validator_layout (InitialValidators d)"
  have "check_all (check_conversion_field
      [(''SubnetID'', VBytes32 (SubnetID d)),
       (''ValidatorManagerBlockchainID'', VBytes32 (ValidatorManagerBlockchainID d)),
       (''ValidatorManagerAddress'', VAddress (ValidatorManagerAddress d)),
       (''InitialValidators'',
         VSlice (TyStruct ''InitialValidator'') (map validator_val (InitialValidators d)))]) rf = Inr ()"
    unfolding check_all_Inr_iff range_order_set [OF assms(1)]
    by (simp add: conversion_fields_def check_conversion_field_def FieldByName_def slice_of_structs_def)
  moreover have "unat (of_nat (length (concat ?ivs)) :: u32) = length (concat ?ivs)"
    using assms(3) by (simp add: conversion_layout_def unat_of_nat)
  moreover from this have "write_conversion ver (SubnetID d) (ValidatorManagerBlockchainID d)
      (ValidatorManagerAddress d) ?ivs (of_nat (length (concat ?ivs))) = Done (conversion_layout ver d)"
    using assms(3) unfolding conversion_layout_def
    by (intro write_conversion_layout) simp_all
  ultimately show ?thesis
    by (simp add: PackSubnetConversionData_def conversion_val_def FieldByName_def
        pack_validators_layout [OF assms(2)])
qed

section \<open>The order of the checks\<close>

text \<open>Two runs agree: both succeed with the same bytes, both return an error, or both panic.\<close>

definition same_outcome :: "(goerr + 'a) go \<Rightarrow> (goerr + 'a) go \<Rightarrow> bool" where
  "same_outcome m n =
     (case (m, n) of
        (Done (Inr x), Done (Inr y)) \<Rightarrow> x = y
      | (Done (Inl _), Done (Inl _)) \<Rightarrow> True
      | (Panic p, Panic q) \<Rightarrow> p = q
      | _ \<Rightarrow> False)"

lemma same_outcome_simps [simp]:
  "same_outcome (Done (Inr x)) (Done (Inr y)) \<longleftrightarrow> x = y" "same_outcome (Done (Inl e)) (Done (Inl e'))"
  "same_outcome (Panic p) (Panic q) \<longleftrightarrow> p = q"
  by (simp_all add: same_outcome_def)

lemma same_outcome_refl [simp]: "same_outcome m m"
  by (auto simp: same_outcome_def split: go.splits sum.splits)

lemma same_outcome_cases:
  assumes "same_outcome m n"
  obtains (ok) x where "m = Done (Inr x)" and "n = Done (Inr x)"
  | (err) e e' where "m = Done (Inl e)" and "n = Done (Inl e')"
  | (panic) p where "m = Panic p" and "n = Panic p"
  using assms by (auto simp: same_outcome_def split: go.splits sum.splits)

lemma same_outcome_rbind:
  assumes "same_outcome m n" and "\<And>x. same_outcome (f x) (g x)"
  shows "same_outcome (go_rbind m f) (go_rbind n g)"
  using assms(1) by (cases rule: same_outcome_cases) (simp_all add: assms(2))

lemma same_outcome_check_all:
  assumes "set xs = set ys"
  shows "same_outcome (Done (check_all f xs)) (Done (check_all f ys))"
proof (cases "\<forall>x \<in> set xs. f x = Inr ()")
  case True
  then have "check_all f xs = Inr ()" and "check_all f ys = Inr ()"
    using assms by (simp_all add: check_all_Inr_iff)
  then show ?thesis
    by simp
next
  case False
  then have "check_all f xs \<noteq> Inr ()" and "check_all f ys \<noteq> Inr ()"
    using assms by (simp_all add: check_all_Inr_iff)
  then show ?thesis
    by (cases "check_all f xs"; cases "check_all f ys") simp_all
qed

lemma PackInitialValidator_order:
  assumes "range_order validator_fields rf" and "range_order validator_fields rf'"
  shows "same_outcome (PackInitialValidator rf iv) (PackInitialValidator rf' iv)"
  unfolding PackInitialValidator_def
  by (cases iv) (simp_all add: same_outcome_rbind same_outcome_check_all
      range_order_set [OF assms(1)] range_order_set [OF assms(2)])

lemma pack_validators_order:
  assumes "\<forall>i. range_order validator_fields (orders i)"
    and "\<forall>i. range_order validator_fields (orders' i)"
  shows "same_outcome (pack_validators orders i ivs) (pack_validators orders' i ivs)"
proof (induction ivs arbitrary: i)
  case Nil
  then show ?case by simp
next
  case (Cons iv ivs)
  have "same_outcome (PackInitialValidator (orders i) iv) (PackInitialValidator (orders' i) iv)"
    using assms by (intro PackInitialValidator_order) simp_all
  then show ?case
    using Cons.IH [of "Suc i"]
    by (cases rule: same_outcome_cases) (auto intro!: same_outcome_rbind)
qed

text \<open>
  The Go map that holds the required fields is visited in a different order on every run, and
  that order never decides whether packing succeeds nor what it returns: any two runs on the same
  value return the same bytes, or both an error, or panic alike. On a struct of a binding whose
  packed form fits in 32 bits every run returns the documented layout.
\<close>

theorem packing_ignores_map_order:
  assumes "range_order conversion_fields rf" and "range_order conversion_fields rf'"
    and "\<forall>i. range_order validator_fields (orders i)"
    and "\<forall>i. range_order validator_fields (orders' i)"
  shows "same_outcome (PackSubnetConversionData ver rf orders data)
      (PackSubnetConversionData ver rf' orders' data) \<and>
    (data = conversion_val d \<and> length (conversion_layout ver d) < 2 ^ 32 \<longrightarrow>
      PackSubnetConversionData ver rf orders data = Done (Inr (conversion_layout ver d)))"
proof
  show "same_outcome (PackSubnetConversionData ver rf orders data)
      (PackSubnetConversionData ver rf' orders' data)"
    unfolding PackSubnetConversionData_def
    by (cases data)
      (auto intro!: same_outcome_rbind same_outcome_check_all pack_validators_order [OF assms(3,4)]
        simp: range_order_set [OF assms(1)] range_order_set [OF assms(2)]
        split: option.split dyn_val.split)
  show "data = conversion_val d \<and> length (conversion_layout ver d) < 2 ^ 32 \<longrightarrow>
      PackSubnetConversionData ver rf orders data = Done (Inr (conversion_layout ver d))"
    using PackSubnetConversionData_layout [OF assms(1,3)] by blast
qed

theorem packing_ignores_map_order_witness:
  "same_outcome
     (PackSubnetConversionData 0 conversion_fields (\<lambda>_. validator_fields) (VStruct ''T'' []))
     (PackSubnetConversionData 0 (rev conversion_fields) (\<lambda>_. rev validator_fields) (VStruct ''T'' [])) \<and>
   PackSubnetConversionData 0 conversion_fields (\<lambda>_. validator_fields) (VStruct ''T'' []) \<noteq>
     PackSubnetConversionData 0 (rev conversion_fields) (\<lambda>_. rev validator_fields) (VStruct ''T'' [])"
  using packing_ignores_map_order [of conversion_fields "rev conversion_fields"
      "\<lambda>_. validator_fields" "\<lambda>_. rev validator_fields" 0 "VStruct ''T'' []"]
  by (simp add: range_order_def PackSubnetConversionData_def conversion_fields_def
      check_conversion_field_def FieldByName_def field_is_missing_def)

section \<open>The contract's packing\<close>

lemma foldl_append: "foldl (\<lambda>res v. res @ f v) b vs = b @ concat (map f vs)"
  by (induction vs arbitrary: b) simp_all

lemma sol_packConversionData_layout:
  "sol_packConversionData d =
     conversion_header 0 d @ concat (map sol_packValidator (InitialValidators d))"
  by (simp add: sol_packConversionData_def foldl_append conversion_header_def sol_CODEC_ID_def)

text \<open>A word commutes with a multiple of its length only by being repeated.\<close>

lemma commutes_iff_repeats:
  assumes "length k = m * length w"
  shows "w @ k = k @ w \<longleftrightarrow> k = concat (replicate m w)"
  using assms
proof (induction m arbitrary: k)
  case 0
  then show ?case by simp
next
  case (Suc m)
  let ?k = "drop (length w) k"
  have len: "length ?k = m * length w"
    using Suc.prems by simp
  show ?case
  proof (cases "take (length w) k = w")
    case True
    then have k: "k = w @ ?k"
      by (metis append_take_drop_id)
    have "w @ k = k @ w \<longleftrightarrow> w @ ?k = ?k @ w"
      by (subst (1 2) k) simp
    moreover have "k = concat (replicate (Suc m) w) \<longleftrightarrow> ?k = concat (replicate m w)"
      by (subst k) simp
    ultimately show ?thesis
      using Suc.IH [OF len] by simp
  next
    case False
    have "take (length w) (w @ k) = w" and "take (length w) (k @ w) = take (length w) k"
      and "take (length w) (concat (replicate (Suc m) w)) = w"
      using Suc.prems by simp_all
    with False show ?thesis
      by metis
  qed
qed

lemma concat_map_eq_iff:
  assumes "\<And>x. x \<in> set xs \<Longrightarrow> length (f x) = length (g x)"
  shows "concat (map f xs) = concat (map g xs) \<longleftrightarrow> (\<forall>x \<in> set xs. f x = g x)"
  using assms by (induction xs) auto

lemma validator_layout_eq_sol_iff:
  assumes "length (BlsPublicKey v) = 48"
  shows "validator_layout v = sol_packValidator v \<longleftrightarrow>
    BlsPublicKey v = concat (replicate 6 (PutUint64 (Weight v)))"
  using commutes_iff_repeats [of "BlsPublicKey v" 6 "PutUint64 (Weight v)"] assms
  by (simp add: validator_layout_def sol_packValidator_def codec_lengths)

text \<open>
  C35. The Go packing writes a validator's weight before its BLS key, the contract (and the format
  diagram of \<open>ValidatorMessages.sol\<close>) after it. So for keys of 48 bytes the two byte strings, and the
  conversion identifiers hashed from them, agree only if every key consists of six copies of its
  validator's weight, in particular whenever there is no validator.
\<close>

theorem conversion_packing_differs_from_contract:
  assumes "range_order conversion_fields rf" and "\<forall>i. range_order validator_fields (orders i)"
    and "length (conversion_layout 0 d) < 2 ^ 32"
    and "\<forall>v \<in> set (InitialValidators d). length (BlsPublicKey v) = 48"
  shows "PackSubnetConversionData 0 rf orders (conversion_val d) = Done (Inr (sol_packConversionData d)) \<longleftrightarrow>
    (\<forall>v \<in> set (InitialValidators d). BlsPublicKey v = concat (replicate 6 (PutUint64 (Weight v))))"
proof -
  have "length (sol_packValidator v) = length (validator_layout v)"
    if "v \<in> set (InitialValidators d)" for v
    using assms(4) that by (simp add: sol_packValidator_def codec_lengths)
  then have "conversion_layout 0 d = sol_packConversionData d \<longleftrightarrow>
      (\<forall>v \<in> set (InitialValidators d). validator_layout v = sol_packValidator v)"
    by (simp add: conversion_layout_def sol_packConversionData_layout concat_map_eq_iff)
  then show ?thesis
    using assms(4) validator_layout_eq_sol_iff
    by (simp add: PackSubnetConversionData_layout [OF assms(1-3)])
qed

definition example_conversion :: ConversionData where
  "example_conversion = \<lparr>SubnetID = 1, ValidatorManagerBlockchainID = 2, ValidatorManagerAddress = 3,
     InitialValidators = [\<lparr>NodeID = [7], BlsPublicKey = replicate 48 0, Weight = 1\<rparr>]\<rparr>"

theorem conversion_packing_differs_from_contract_witness:
  "PackSubnetConversionData 0 conversion_fields (\<lambda>_. validator_fields) (conversion_val example_conversion)
   \<noteq> Done (Inr (sol_packConversionData example_conversion))"
proof -
  have six: "concat (replicate 6 w) = w @ concat (replicate 5 w)" for w :: bytes
    by (simp add: eval_nat_numeral)
  have "PutUint64 0 = replicate 8 0"
    by (simp add: PutUint64_def be_bytes_zero)
  then have "take 8 (replicate 48 0) \<noteq> PutUint64 1"
    using u64c.enc_inj [of 0 1] by simp
  moreover have "take 8 (concat (replicate 6 (PutUint64 1))) = PutUint64 1"
    by (simp add: six codec_lengths)
  ultimately have "replicate 48 0 \<noteq> concat (replicate 6 (PutUint64 1))"
    by metis
  then show ?thesis
    by (subst conversion_packing_differs_from_contract)
      (simp_all add: range_order_def conversion_layout_def example_conversion_def)
qed

section \<open>Injectivity of the preimages\<close>

lemma PutUint32_length_inj:
  assumes "m < 2 ^ 32" and "n < 2 ^ 32" and "PutUint32 (of_nat m) = PutUint32 (of_nat n)"
  shows "m = n"
proof -
  have "(of_nat m :: u32) = of_nat n"
    using assms(3) u32c.enc_inj by blast
  then have "unat (of_nat m :: u32) = unat (of_nat n :: u32)"
    by simp
  with assms(1,2) show ?thesis
    by (simp add: unat_of_nat)
qed

lemma validator_layout_append_inj:
  assumes "validator_layout v @ r = validator_layout v' @ r'"
    and "length (BlsPublicKey v) = 48" and "length (BlsPublicKey v') = 48"
    and "length (NodeID v) < 2 ^ 32" and "length (NodeID v') < 2 ^ 32"
  shows "v = v' \<and> r = r'"
proof -
  have "PutUint32 (of_nat (length (NodeID v))) = PutUint32 (of_nat (length (NodeID v')))"
    and rest: "NodeID v @ PutUint64 (Weight v) @ BlsPublicKey v @ r =
      NodeID v' @ PutUint64 (Weight v') @ BlsPublicKey v' @ r'"
    using assms(1-3) by (simp_all add: validator_layout_def u32c.enc_append_inj)
  then have "length (NodeID v) = length (NodeID v')"
    using PutUint32_length_inj assms(4,5) by blast
  with rest have node: "NodeID v = NodeID v'"
    and rest': "PutUint64 (Weight v) @ BlsPublicKey v @ r = PutUint64 (Weight v') @ BlsPublicKey v' @ r'"
    by simp_all
  then have "Weight v = Weight v' \<and> BlsPublicKey v = BlsPublicKey v' \<and> r = r'"
    using assms(2,3) by (simp add: u64c.enc_append_inj)
  with node show ?thesis
    by simp
qed

definition conversion_ok :: "ConversionData \<Rightarrow> bool" where
  "conversion_ok d \<longleftrightarrow> length (InitialValidators d) < 2 ^ 32 \<and>
     (\<forall>v \<in> set (InitialValidators d). length (BlsPublicKey v) = 48 \<and> length (NodeID v) < 2 ^ 32)"

lemma validator_layouts_inj:
  assumes "concat (map validator_layout vs) = concat (map validator_layout vs')"
    and "length vs = length vs'"
    and "\<forall>v \<in> set vs \<union> set vs'. length (BlsPublicKey v) = 48 \<and> length (NodeID v) < 2 ^ 32"
  shows "vs = vs'"
  using assms(2,1,3)
proof (induction vs vs' rule: list_induct2)
  case Nil
  then show ?case by simp
next
  case (Cons v vs v' vs')
  then have "v = v' \<and> concat (map validator_layout vs) = concat (map validator_layout vs')"
    by (intro validator_layout_append_inj) simp_all
  with Cons show ?case
    by simp
qed

lemma conversion_layout_inj:
  assumes "conversion_layout ver d = conversion_layout ver d'" and "conversion_ok d" and "conversion_ok d'"
  shows "d = d'"
proof -
  have header: "conversion_header ver d = conversion_header ver d'"
    and rest: "concat (map validator_layout (InitialValidators d)) =
      concat (map validator_layout (InitialValidators d'))"
    using assms(1) by (simp_all add: conversion_layout_def)
  from header have eqs: "SubnetID d = SubnetID d'"
      "ValidatorManagerBlockchainID d = ValidatorManagerBlockchainID d'"
      "ValidatorManagerAddress d = ValidatorManagerAddress d'"
      and "PutUint32 (of_nat (length (InitialValidators d))) =
        PutUint32 (of_nat (length (InitialValidators d')))"
    by (simp_all add: conversion_header_def u16c.enc_append_inj u32c.enc_append_inj
        hashc.enc_append_inj addrc.enc_append_inj)
  then have "length (InitialValidators d) = length (InitialValidators d')"
    using PutUint32_length_inj assms(2,3) by (simp add: conversion_ok_def)
  with rest assms(2,3) have "InitialValidators d = InitialValidators d'"
    by (intro validator_layouts_inj) (auto simp: conversion_ok_def)
  with eqs show ?thesis
    by simp
qed

lemma conversion_preimage:
  "CalculateL1ConversionValidationId Sum256 subnetID validatorIdx =
     Sum256 (hash_bytes subnetID @ PutUint32 validatorIdx)"
proof -
  have "go_copy (go_make 36) 0 32 (hash_bytes subnetID) = hash_bytes subnetID @ replicate 4 0"
    using go_copy_append [of "[]" 0 32 "hash_bytes subnetID" "go_make 36"]
    by (simp add: codec_lengths go_make_def)
  then show ?thesis
    using go_copy_append [of "hash_bytes subnetID" 32 36 "PutUint32 validatorIdx" "replicate 4 0"]
    by (simp add: CalculateL1ConversionValidationId_def codec_lengths)
qed

text \<open>
  What is hashed determines what was meant: two conversions with 48-byte keys whose packed bytes
  are equal are the same conversion, and equal validation identifiers of two (subnet, index) pairs
  mean equal pairs, or two different 36-byte strings with the same SHA-256 hash.
\<close>

theorem conversion_preimages_injective:
  assumes "conversion_ok d" and "conversion_ok d'"
    and "length (conversion_layout ver d) < 2 ^ 32" and "length (conversion_layout ver d') < 2 ^ 32"
    and "range_order conversion_fields rf" and "\<forall>i. range_order validator_fields (orders i)"
  shows "(PackSubnetConversionData ver rf orders (conversion_val d) =
        PackSubnetConversionData ver rf orders (conversion_val d') \<longrightarrow> d = d') \<and>
    (CalculateL1ConversionValidationId Sum256 s i = CalculateL1ConversionValidationId Sum256 s' i' \<longrightarrow>
      (s = s' \<and> i = i') \<or>
      (\<exists>p q. length p = 36 \<and> length q = 36 \<and> p \<noteq> q \<and> Sum256 p = Sum256 q))"
proof
  show "PackSubnetConversionData ver rf orders (conversion_val d) =
      PackSubnetConversionData ver rf orders (conversion_val d') \<longrightarrow> d = d'"
    using conversion_layout_inj [OF _ assms(1,2), of ver]
    unfolding PackSubnetConversionData_layout [OF assms(5,6,3)]
      PackSubnetConversionData_layout [OF assms(5,6,4)] by simp
  let ?p = "hash_bytes s @ PutUint32 i" and ?q = "hash_bytes s' @ PutUint32 i'"
  have "?p = ?q \<longleftrightarrow> s = s' \<and> i = i'"
    by (simp add: hashc.enc_append_inj u32c.enc_inj)
  moreover have "length ?p = 36" and "length ?q = 36"
    by (simp_all add: codec_lengths)
  ultimately show "CalculateL1ConversionValidationId Sum256 s i =
      CalculateL1ConversionValidationId Sum256 s' i' \<longrightarrow> (s = s' \<and> i = i') \<or>
      (\<exists>p q. length p = 36 \<and> length q = 36 \<and> p \<noteq> q \<and> Sum256 p = Sum256 q)"
    unfolding conversion_preimage by metis
qed

theorem conversion_preimages_injective_witness:
  "PackSubnetConversionData 0 conversion_fields (\<lambda>_. validator_fields) (conversion_val example_conversion) \<noteq>
   PackSubnetConversionData 0 conversion_fields (\<lambda>_. validator_fields)
     (conversion_val (example_conversion\<lparr>SubnetID := 9\<rparr>))"
  using conversion_preimages_injective [of example_conversion "example_conversion\<lparr>SubnetID := 9\<rparr>" 0
      conversion_fields "\<lambda>_. validator_fields" "\<lambda>_. 0" 0 0 0 0]
  by (simp add: conversion_ok_def example_conversion_def conversion_layout_def range_order_def)

end
