(* ===== verification/ManagerStructs.thy ===== *)
theory ManagerStructs
  imports Binding ValidatorPacking
begin

text \<open>
  The structs of the validator manager bindings (\<open>abi-bindings/go/validator-manager\<close>) with their dynamic
  view, tuple types and ranges.
\<close>

section \<open>PChainOwner\<close>

record PChainOwner =
  PChainOwner_Threshold :: u32
  PChainOwner_Addresses :: "address list"

definition PChainOwner_val :: "PChainOwner \<Rightarrow> go_val" where
  "PChainOwner_val x =
     GStruct [(''Threshold'', GUint 32 (unat (PChainOwner_Threshold x))),
       (''Addresses'', GSlice (map GAddr (PChainOwner_Addresses x)))]"

definition PChainOwner_of :: "go_val \<Rightarrow> PChainOwner option" where
  "PChainOwner_of v = do {
     x0 \<leftarrow> go_field ''Threshold'' v \<bind> (go_word 32);
     x1 \<leftarrow> go_field ''Addresses'' v \<bind> (\<lambda>v. go_slice v \<bind> (\<lambda>vs. all_some (map go_addr vs)));
     Some \<lparr>PChainOwner_Threshold = x0, PChainOwner_Addresses = x1\<rparr>
   }"

definition PChainOwner_tuple :: abi_type where
  "PChainOwner_tuple =
     TTuple [(''threshold'', TUint 32),
       (''addresses'', TArray TAddress)]"

definition zero_PChainOwner :: go_val where
  "zero_PChainOwner =
     GStruct [(''Threshold'', GUint 32 0), (''Addresses'', GNil)]"

lemma PChainOwner_of_val [simp]: "PChainOwner_of (PChainOwner_val x) = Some x"
  by (simp add: PChainOwner_val_def PChainOwner_of_def all_some_map del: map_map)

lemma matches_PChainOwner [simp]: "matches PChainOwner_tuple (PChainOwner_val x)"
  by (auto simp: PChainOwner_tuple_def PChainOwner_val_def list_all_iff simp del:
     matches.simps(1))

section \<open>InitialValidator\<close>

definition InitialValidator_val :: "InitialValidator \<Rightarrow> go_val" where
  "InitialValidator_val x =
     GStruct [(''NodeID'', GBytes (NodeID x)),
       (''BlsPublicKey'', GBytes (BlsPublicKey x)),
       (''Weight'', GUint 64 (unat (Weight x)))]"

definition InitialValidator_of :: "go_val \<Rightarrow> InitialValidator option" where
  "InitialValidator_of v = do {
     x0 \<leftarrow> go_field ''NodeID'' v \<bind> go_bytes;
     x1 \<leftarrow> go_field ''BlsPublicKey'' v \<bind> go_bytes;
     x2 \<leftarrow> go_field ''Weight'' v \<bind> (go_word 64);
     Some \<lparr>NodeID = x0, BlsPublicKey = x1, Weight = x2\<rparr>
   }"

definition InitialValidator_tuple :: abi_type where
  "InitialValidator_tuple =
     TTuple [(''nodeID'', TBytes),
       (''blsPublicKey'', TBytes),
       (''weight'', TUint 64)]"

definition zero_InitialValidator :: go_val where
  "zero_InitialValidator =
     GStruct [(''NodeID'', GNil), (''BlsPublicKey'', GNil), (''Weight'', GUint 64 0)]"

lemma InitialValidator_of_val [simp]: "InitialValidator_of (InitialValidator_val x) = Some x"
  by (simp add: InitialValidator_val_def InitialValidator_of_def all_some_map del: map_map)

lemma matches_InitialValidator [simp]: "matches InitialValidator_tuple (InitialValidator_val x)"
  by (auto simp: InitialValidator_tuple_def InitialValidator_val_def list_all_iff simp del:
     matches.simps(1))

section \<open>ConversionData\<close>

definition ConversionData_val :: "ConversionData \<Rightarrow> go_val" where
  "ConversionData_val x =
     GStruct [(''SubnetID'', GArr32 (SubnetID x)),
       (''ValidatorManagerBlockchainID'', GArr32 (ValidatorManagerBlockchainID x)),
       (''ValidatorManagerAddress'', GAddr (ValidatorManagerAddress x)),
       (''InitialValidators'', GSlice (map InitialValidator_val (InitialValidators x)))]"

definition ConversionData_tuple :: abi_type where
  "ConversionData_tuple =
     TTuple [(''subnetID'', TBytes32),
       (''validatorManagerBlockchainID'', TBytes32),
       (''validatorManagerAddress'', TAddress),
       (''initialValidators'', TArray InitialValidator_tuple)]"

definition zero_ConversionData :: go_val where
  "zero_ConversionData =
     GStruct [(''SubnetID'', GArr32 0), (''ValidatorManagerBlockchainID'', GArr32 0),
        (''ValidatorManagerAddress'', GAddr 0), (''InitialValidators'', GNil)]"

lemma matches_ConversionData [simp]: "matches ConversionData_tuple (ConversionData_val x)"
  by (auto simp: ConversionData_tuple_def ConversionData_val_def list_all_iff simp del:
     matches.simps(1))

section \<open>ValidatorRegistrationInput\<close>

record ValidatorRegistrationInput =
  ValidatorRegistrationInput_NodeID :: bytes
  ValidatorRegistrationInput_BlsPublicKey :: bytes
  ValidatorRegistrationInput_RegistrationExpiry :: u64
  ValidatorRegistrationInput_RemainingBalanceOwner :: PChainOwner
  ValidatorRegistrationInput_DisableOwner :: PChainOwner

definition ValidatorRegistrationInput_val :: "ValidatorRegistrationInput \<Rightarrow> go_val" where
  "ValidatorRegistrationInput_val x =
     GStruct [(''NodeID'', GBytes (ValidatorRegistrationInput_NodeID x)),
       (''BlsPublicKey'', GBytes (ValidatorRegistrationInput_BlsPublicKey x)),
       (''RegistrationExpiry'', GUint 64 (unat (ValidatorRegistrationInput_RegistrationExpiry
          x))),
       (''RemainingBalanceOwner'', PChainOwner_val
          (ValidatorRegistrationInput_RemainingBalanceOwner x)),
       (''DisableOwner'', PChainOwner_val (ValidatorRegistrationInput_DisableOwner x))]"

definition ValidatorRegistrationInput_tuple :: abi_type where
  "ValidatorRegistrationInput_tuple =
     TTuple [(''nodeID'', TBytes),
       (''blsPublicKey'', TBytes),
       (''registrationExpiry'', TUint 64),
       (''remainingBalanceOwner'', PChainOwner_tuple),
       (''disableOwner'', PChainOwner_tuple)]"

definition zero_ValidatorRegistrationInput :: go_val where
  "zero_ValidatorRegistrationInput =
     GStruct [(''NodeID'', GNil), (''BlsPublicKey'', GNil), (''RegistrationExpiry'', GUint 64
        0), (''RemainingBalanceOwner'', zero_PChainOwner), (''DisableOwner'',
        zero_PChainOwner)]"

lemma matches_ValidatorRegistrationInput [simp]: "matches ValidatorRegistrationInput_tuple
   (ValidatorRegistrationInput_val x)"
  by (auto simp: ValidatorRegistrationInput_tuple_def ValidatorRegistrationInput_val_def
     list_all_iff simp del: matches.simps(1))

section \<open>ValidatorManagerSettings\<close>

record ValidatorManagerSettings =
  ValidatorManagerSettings_SubnetID :: hash
  ValidatorManagerSettings_ChurnPeriodSeconds :: u64
  ValidatorManagerSettings_MaximumChurnPercentage :: u8

definition ValidatorManagerSettings_val :: "ValidatorManagerSettings \<Rightarrow> go_val" where
  "ValidatorManagerSettings_val x =
     GStruct [(''SubnetID'', GArr32 (ValidatorManagerSettings_SubnetID x)),
       (''ChurnPeriodSeconds'', GUint 64 (unat (ValidatorManagerSettings_ChurnPeriodSeconds
          x))),
       (''MaximumChurnPercentage'', GUint 8 (unat
          (ValidatorManagerSettings_MaximumChurnPercentage x)))]"

definition ValidatorManagerSettings_tuple :: abi_type where
  "ValidatorManagerSettings_tuple =
     TTuple [(''subnetID'', TBytes32),
       (''churnPeriodSeconds'', TUint 64),
       (''maximumChurnPercentage'', TUint 8)]"

definition zero_ValidatorManagerSettings :: go_val where
  "zero_ValidatorManagerSettings =
     GStruct [(''SubnetID'', GArr32 0), (''ChurnPeriodSeconds'', GUint 64 0),
        (''MaximumChurnPercentage'', GUint 8 0)]"

lemma matches_ValidatorManagerSettings [simp]: "matches ValidatorManagerSettings_tuple
   (ValidatorManagerSettings_val x)"
  by (auto simp: ValidatorManagerSettings_tuple_def ValidatorManagerSettings_val_def
     list_all_iff simp del: matches.simps(1))

section \<open>Validator\<close>

record Validator =
  Validator_Status :: u8
  Validator_NodeID :: bytes
  Validator_StartingWeight :: u64
  Validator_MessageNonce :: u64
  Validator_Weight :: u64
  Validator_StartedAt :: u64
  Validator_EndedAt :: u64

definition Validator_val :: "Validator \<Rightarrow> go_val" where
  "Validator_val x =
     GStruct [(''Status'', GUint 8 (unat (Validator_Status x))),
       (''NodeID'', GBytes (Validator_NodeID x)),
       (''StartingWeight'', GUint 64 (unat (Validator_StartingWeight x))),
       (''MessageNonce'', GUint 64 (unat (Validator_MessageNonce x))),
       (''Weight'', GUint 64 (unat (Validator_Weight x))),
       (''StartedAt'', GUint 64 (unat (Validator_StartedAt x))),
       (''EndedAt'', GUint 64 (unat (Validator_EndedAt x)))]"

definition Validator_of :: "go_val \<Rightarrow> Validator option" where
  "Validator_of v = do {
     x0 \<leftarrow> go_field ''Status'' v \<bind> (go_word 8);
     x1 \<leftarrow> go_field ''NodeID'' v \<bind> go_bytes;
     x2 \<leftarrow> go_field ''StartingWeight'' v \<bind> (go_word 64);
     x3 \<leftarrow> go_field ''MessageNonce'' v \<bind> (go_word 64);
     x4 \<leftarrow> go_field ''Weight'' v \<bind> (go_word 64);
     x5 \<leftarrow> go_field ''StartedAt'' v \<bind> (go_word 64);
     x6 \<leftarrow> go_field ''EndedAt'' v \<bind> (go_word 64);
     Some \<lparr>Validator_Status = x0, Validator_NodeID = x1, Validator_StartingWeight = x2,
        Validator_MessageNonce = x3, Validator_Weight = x4, Validator_StartedAt = x5,
        Validator_EndedAt = x6\<rparr>
   }"

definition Validator_tuple :: abi_type where
  "Validator_tuple =
     TTuple [(''status'', TUint 8),
       (''nodeID'', TBytes),
       (''startingWeight'', TUint 64),
       (''messageNonce'', TUint 64),
       (''weight'', TUint 64),
       (''startedAt'', TUint 64),
       (''endedAt'', TUint 64)]"

definition zero_Validator :: go_val where
  "zero_Validator =
     GStruct [(''Status'', GUint 8 0), (''NodeID'', GNil), (''StartingWeight'', GUint 64 0),
        (''MessageNonce'', GUint 64 0), (''Weight'', GUint 64 0), (''StartedAt'', GUint 64 0),
        (''EndedAt'', GUint 64 0)]"

lemma Validator_of_val [simp]: "Validator_of (Validator_val x) = Some x"
  by (simp add: Validator_val_def Validator_of_def all_some_map del: map_map)

lemma matches_Validator [simp]: "matches Validator_tuple (Validator_val x)"
  by (auto simp: Validator_tuple_def Validator_val_def list_all_iff simp del: matches.simps(1))

section \<open>PoSValidatorManagerSettings\<close>

record PoSValidatorManagerSettings =
  PoSValidatorManagerSettings_BaseSettings :: ValidatorManagerSettings
  PoSValidatorManagerSettings_MinimumStakeAmount :: int
  PoSValidatorManagerSettings_MaximumStakeAmount :: int
  PoSValidatorManagerSettings_MinimumStakeDuration :: u64
  PoSValidatorManagerSettings_MinimumDelegationFeeBips :: u16
  PoSValidatorManagerSettings_MaximumStakeMultiplier :: u8
  PoSValidatorManagerSettings_WeightToValueFactor :: int
  PoSValidatorManagerSettings_RewardCalculator :: address
  PoSValidatorManagerSettings_UptimeBlockchainID :: hash

definition PoSValidatorManagerSettings_val :: "PoSValidatorManagerSettings \<Rightarrow> go_val" where
  "PoSValidatorManagerSettings_val x =
     GStruct [(''BaseSettings'', ValidatorManagerSettings_val
        (PoSValidatorManagerSettings_BaseSettings x)),
       (''MinimumStakeAmount'', GBig (PoSValidatorManagerSettings_MinimumStakeAmount x)),
       (''MaximumStakeAmount'', GBig (PoSValidatorManagerSettings_MaximumStakeAmount x)),
       (''MinimumStakeDuration'', GUint 64 (unat
          (PoSValidatorManagerSettings_MinimumStakeDuration x))),
       (''MinimumDelegationFeeBips'', GUint 16 (unat
          (PoSValidatorManagerSettings_MinimumDelegationFeeBips x))),
       (''MaximumStakeMultiplier'', GUint 8 (unat
          (PoSValidatorManagerSettings_MaximumStakeMultiplier x))),
       (''WeightToValueFactor'', GBig (PoSValidatorManagerSettings_WeightToValueFactor x)),
       (''RewardCalculator'', GAddr (PoSValidatorManagerSettings_RewardCalculator x)),
       (''UptimeBlockchainID'', GArr32 (PoSValidatorManagerSettings_UptimeBlockchainID x))]"

definition PoSValidatorManagerSettings_tuple :: abi_type where
  "PoSValidatorManagerSettings_tuple =
     TTuple [(''baseSettings'', ValidatorManagerSettings_tuple),
       (''minimumStakeAmount'', TUint 256),
       (''maximumStakeAmount'', TUint 256),
       (''minimumStakeDuration'', TUint 64),
       (''minimumDelegationFeeBips'', TUint 16),
       (''maximumStakeMultiplier'', TUint 8),
       (''weightToValueFactor'', TUint 256),
       (''rewardCalculator'', TAddress),
       (''uptimeBlockchainID'', TBytes32)]"

definition zero_PoSValidatorManagerSettings :: go_val where
  "zero_PoSValidatorManagerSettings =
     GStruct [(''BaseSettings'', zero_ValidatorManagerSettings), (''MinimumStakeAmount'', GNil),
        (''MaximumStakeAmount'', GNil), (''MinimumStakeDuration'', GUint 64 0),
        (''MinimumDelegationFeeBips'', GUint 16 0), (''MaximumStakeMultiplier'', GUint 8 0),
        (''WeightToValueFactor'', GNil), (''RewardCalculator'', GAddr 0),
        (''UptimeBlockchainID'', GArr32 0)]"

definition PoSValidatorManagerSettings_ok :: "PoSValidatorManagerSettings \<Rightarrow> bool" where
  "PoSValidatorManagerSettings_ok x \<longleftrightarrow> in_uint256 (PoSValidatorManagerSettings_MinimumStakeAmount
     x) \<and> in_uint256 (PoSValidatorManagerSettings_MaximumStakeAmount x) \<and> in_uint256
     (PoSValidatorManagerSettings_WeightToValueFactor x)"

lemma matches_PoSValidatorManagerSettings [simp]: "matches PoSValidatorManagerSettings_tuple
   (PoSValidatorManagerSettings_val x) \<longleftrightarrow> PoSValidatorManagerSettings_ok x"
  by (auto simp: PoSValidatorManagerSettings_tuple_def PoSValidatorManagerSettings_val_def
     PoSValidatorManagerSettings_ok_def list_all_iff simp del: matches.simps(1))

section \<open>ValidatorMessagesValidationPeriod\<close>

record ValidatorMessagesValidationPeriod =
  ValidatorMessagesValidationPeriod_SubnetID :: hash
  ValidatorMessagesValidationPeriod_NodeID :: bytes
  ValidatorMessagesValidationPeriod_BlsPublicKey :: bytes
  ValidatorMessagesValidationPeriod_RegistrationExpiry :: u64
  ValidatorMessagesValidationPeriod_RemainingBalanceOwner :: PChainOwner
  ValidatorMessagesValidationPeriod_DisableOwner :: PChainOwner
  ValidatorMessagesValidationPeriod_Weight :: u64

definition ValidatorMessagesValidationPeriod_val :: "ValidatorMessagesValidationPeriod \<Rightarrow> go_val"
   where
  "ValidatorMessagesValidationPeriod_val x =
     GStruct [(''SubnetID'', GArr32 (ValidatorMessagesValidationPeriod_SubnetID x)),
       (''NodeID'', GBytes (ValidatorMessagesValidationPeriod_NodeID x)),
       (''BlsPublicKey'', GBytes (ValidatorMessagesValidationPeriod_BlsPublicKey x)),
       (''RegistrationExpiry'', GUint 64 (unat
          (ValidatorMessagesValidationPeriod_RegistrationExpiry x))),
       (''RemainingBalanceOwner'', PChainOwner_val
          (ValidatorMessagesValidationPeriod_RemainingBalanceOwner x)),
       (''DisableOwner'', PChainOwner_val (ValidatorMessagesValidationPeriod_DisableOwner x)),
       (''Weight'', GUint 64 (unat (ValidatorMessagesValidationPeriod_Weight x)))]"

definition ValidatorMessagesValidationPeriod_of :: "go_val \<Rightarrow> ValidatorMessagesValidationPeriod
   option" where
  "ValidatorMessagesValidationPeriod_of v = do {
     x0 \<leftarrow> go_field ''SubnetID'' v \<bind> go_arr32;
     x1 \<leftarrow> go_field ''NodeID'' v \<bind> go_bytes;
     x2 \<leftarrow> go_field ''BlsPublicKey'' v \<bind> go_bytes;
     x3 \<leftarrow> go_field ''RegistrationExpiry'' v \<bind> (go_word 64);
     x4 \<leftarrow> go_field ''RemainingBalanceOwner'' v \<bind> PChainOwner_of;
     x5 \<leftarrow> go_field ''DisableOwner'' v \<bind> PChainOwner_of;
     x6 \<leftarrow> go_field ''Weight'' v \<bind> (go_word 64);
     Some \<lparr>ValidatorMessagesValidationPeriod_SubnetID = x0,
        ValidatorMessagesValidationPeriod_NodeID = x1,
        ValidatorMessagesValidationPeriod_BlsPublicKey = x2,
        ValidatorMessagesValidationPeriod_RegistrationExpiry = x3,
        ValidatorMessagesValidationPeriod_RemainingBalanceOwner = x4,
        ValidatorMessagesValidationPeriod_DisableOwner = x5,
        ValidatorMessagesValidationPeriod_Weight = x6\<rparr>
   }"

definition ValidatorMessagesValidationPeriod_tuple :: abi_type where
  "ValidatorMessagesValidationPeriod_tuple =
     TTuple [(''subnetID'', TBytes32),
       (''nodeID'', TBytes),
       (''blsPublicKey'', TBytes),
       (''registrationExpiry'', TUint 64),
       (''remainingBalanceOwner'', PChainOwner_tuple),
       (''disableOwner'', PChainOwner_tuple),
       (''weight'', TUint 64)]"

definition zero_ValidatorMessagesValidationPeriod :: go_val where
  "zero_ValidatorMessagesValidationPeriod =
     GStruct [(''SubnetID'', GArr32 0), (''NodeID'', GNil), (''BlsPublicKey'', GNil),
        (''RegistrationExpiry'', GUint 64 0), (''RemainingBalanceOwner'', zero_PChainOwner),
        (''DisableOwner'', zero_PChainOwner), (''Weight'', GUint 64 0)]"

lemma ValidatorMessagesValidationPeriod_of_val [simp]: "ValidatorMessagesValidationPeriod_of
   (ValidatorMessagesValidationPeriod_val x) = Some x"
  by (simp add: ValidatorMessagesValidationPeriod_val_def
     ValidatorMessagesValidationPeriod_of_def all_some_map del: map_map)

lemma matches_ValidatorMessagesValidationPeriod [simp]: "matches
   ValidatorMessagesValidationPeriod_tuple (ValidatorMessagesValidationPeriod_val x)"
  by (auto simp: ValidatorMessagesValidationPeriod_tuple_def
     ValidatorMessagesValidationPeriod_val_def list_all_iff simp del: matches.simps(1))

end
