(* ===== verification/ValidatorMessagesBinding.thy ===== *)
theory ValidatorMessagesBinding
  imports ManagerStructs
begin

text \<open>
  The generated binding \<open>abi-bindings/go/validator-manager/PoAValidatorManager/PoAValidatorManager.go\<close> over the generic
  definitions of theory \<open>Binding\<close>: its ABI, every method with its session wrappers, every event with
  its iterator, filter, watch and parser. The bytecode is a parameter of deployment; the aliases
  \<open>Raw\<close> of the untyped calls are not modelled.
\<close>

section \<open>The contract's ABI (ValidatorMessagesMetaData)\<close>

definition ValidatorMessagesABI :: contract_abi where
  "ValidatorMessagesABI = \<lparr>
      Methods = [
        (''packConversionData'', [(''conversionData'', ConversionData_tuple)],
           [('''', TBytes)]),
        (''packL1ValidatorRegistrationMessage'', [(''validationID'', TBytes32), (''valid'',
           TBool)],
           [('''', TBytes)]),
        (''packL1ValidatorWeightMessage'', [(''validationID'', TBytes32), (''nonce'', TUint 64),
           (''weight'', TUint 64)],
           [('''', TBytes)]),
        (''packRegisterL1ValidatorMessage'', [(''validationPeriod'',
           ValidatorMessagesValidationPeriod_tuple)],
           [('''', TBytes32), ('''', TBytes)]),
        (''packSubnetToL1ConversionMessage'', [(''conversionID'', TBytes32)],
           [('''', TBytes)]),
        (''packValidationUptimeMessage'', [(''validationID'', TBytes32), (''uptime'', TUint
           64)],
           [('''', TBytes)]),
        (''unpackL1ValidatorRegistrationMessage'', [(''input'', TBytes)],
           [('''', TBytes32), ('''', TBool)]),
        (''unpackL1ValidatorWeightMessage'', [(''input'', TBytes)],
           [('''', TBytes32), ('''', TUint 64), ('''', TUint 64)]),
        (''unpackRegisterL1ValidatorMessage'', [(''input'', TBytes)],
           [('''', ValidatorMessagesValidationPeriod_tuple)]),
        (''unpackSubnetToL1ConversionMessage'', [(''input'', TBytes)],
           [('''', TBytes32)]),
        (''unpackValidationUptimeMessage'', [(''input'', TBytes)],
           [('''', TBytes32), ('''', TUint 64)])],
      Events = []\<rparr>"

section \<open>Binding and deployment\<close>

definition bindValidatorMessages :: "'w bind_lib \<Rightarrow> address \<Rightarrow> goerr + 'w bound_contract" where
  "bindValidatorMessages lib addr = bind_contract lib ValidatorMessagesABI addr"

definition NewValidatorMessages :: "'w bind_lib \<Rightarrow> address \<Rightarrow> goerr + 'w bound_contract" where
  "NewValidatorMessages lib addr = bindValidatorMessages lib addr"

definition DeployValidatorMessages ::
  "'w bind_lib \<Rightarrow> string \<Rightarrow> TransactOpts \<Rightarrow> 
   ('w, goerr + address \<times> hash \<times> 'w bound_contract) prog" where
  "DeployValidatorMessages lib bin auth = deploy_contract lib auth ValidatorMessagesABI bin []"

section \<open>Methods\<close>

definition ValidatorMessagesCaller_PackConversionData ::
  "'w bound_contract \<Rightarrow> CallOpts \<Rightarrow> ConversionData \<Rightarrow> ('w, goerr + bytes) prog" where
  "ValidatorMessagesCaller_PackConversionData c opts conversionData =
     call_method c opts ''packConversionData'' [ConversionData_val conversionData] (out1
        go_bytes)"

definition ValidatorMessagesSession_PackConversionData ::
  "'w session \<Rightarrow> ConversionData \<Rightarrow> ('w, goerr + bytes) prog" where
  "ValidatorMessagesSession_PackConversionData s conversionData =
     ValidatorMessagesCaller_PackConversionData (SessionContract s) (SessionCallOpts s)
     conversionData"

definition ValidatorMessagesCaller_PackL1ValidatorRegistrationMessage ::
  "'w bound_contract \<Rightarrow> CallOpts \<Rightarrow> hash \<Rightarrow> bool \<Rightarrow> ('w, goerr + bytes) prog" where
  "ValidatorMessagesCaller_PackL1ValidatorRegistrationMessage c opts validationID valid =
     call_method c opts ''packL1ValidatorRegistrationMessage'' [GArr32 validationID, GBool
        valid] (out1 go_bytes)"

definition ValidatorMessagesSession_PackL1ValidatorRegistrationMessage ::
  "'w session \<Rightarrow> hash \<Rightarrow> bool \<Rightarrow> ('w, goerr + bytes) prog" where
  "ValidatorMessagesSession_PackL1ValidatorRegistrationMessage s validationID valid =
     ValidatorMessagesCaller_PackL1ValidatorRegistrationMessage (SessionContract s)
     (SessionCallOpts s) validationID valid"

definition ValidatorMessagesCaller_PackL1ValidatorWeightMessage ::
  "'w bound_contract \<Rightarrow> CallOpts \<Rightarrow> hash \<Rightarrow> u64 \<Rightarrow> u64 \<Rightarrow> ('w, goerr + bytes) prog" where
  "ValidatorMessagesCaller_PackL1ValidatorWeightMessage c opts validationID nonce weight =
     call_method c opts ''packL1ValidatorWeightMessage'' [GArr32 validationID, GUint 64 (unat
        nonce), GUint 64 (unat weight)] (out1 go_bytes)"

definition ValidatorMessagesSession_PackL1ValidatorWeightMessage ::
  "'w session \<Rightarrow> hash \<Rightarrow> u64 \<Rightarrow> u64 \<Rightarrow> ('w, goerr + bytes) prog" where
  "ValidatorMessagesSession_PackL1ValidatorWeightMessage s validationID nonce weight =
     ValidatorMessagesCaller_PackL1ValidatorWeightMessage (SessionContract s) (SessionCallOpts
     s) validationID nonce weight"

definition ValidatorMessagesCaller_PackRegisterL1ValidatorMessage ::
  "'w bound_contract \<Rightarrow> CallOpts \<Rightarrow> ValidatorMessagesValidationPeriod \<Rightarrow> ('w, goerr + hash \<times> bytes)
     prog" where
  "ValidatorMessagesCaller_PackRegisterL1ValidatorMessage c opts validationPeriod =
     call_method c opts ''packRegisterL1ValidatorMessage''
        [ValidatorMessagesValidationPeriod_val validationPeriod] (out2 go_arr32 go_bytes)"

definition ValidatorMessagesSession_PackRegisterL1ValidatorMessage ::
  "'w session \<Rightarrow> ValidatorMessagesValidationPeriod \<Rightarrow> ('w, goerr + hash \<times> bytes) prog" where
  "ValidatorMessagesSession_PackRegisterL1ValidatorMessage s validationPeriod =
     ValidatorMessagesCaller_PackRegisterL1ValidatorMessage (SessionContract s) (SessionCallOpts
     s) validationPeriod"

definition ValidatorMessagesCaller_PackSubnetToL1ConversionMessage ::
  "'w bound_contract \<Rightarrow> CallOpts \<Rightarrow> hash \<Rightarrow> ('w, goerr + bytes) prog" where
  "ValidatorMessagesCaller_PackSubnetToL1ConversionMessage c opts conversionID =
     call_method c opts ''packSubnetToL1ConversionMessage'' [GArr32 conversionID] (out1
        go_bytes)"

definition ValidatorMessagesSession_PackSubnetToL1ConversionMessage ::
  "'w session \<Rightarrow> hash \<Rightarrow> ('w, goerr + bytes) prog" where
  "ValidatorMessagesSession_PackSubnetToL1ConversionMessage s conversionID =
     ValidatorMessagesCaller_PackSubnetToL1ConversionMessage (SessionContract s)
     (SessionCallOpts s) conversionID"

definition ValidatorMessagesCaller_PackValidationUptimeMessage ::
  "'w bound_contract \<Rightarrow> CallOpts \<Rightarrow> hash \<Rightarrow> u64 \<Rightarrow> ('w, goerr + bytes) prog" where
  "ValidatorMessagesCaller_PackValidationUptimeMessage c opts validationID uptime =
     call_method c opts ''packValidationUptimeMessage'' [GArr32 validationID, GUint 64 (unat
        uptime)] (out1 go_bytes)"

definition ValidatorMessagesSession_PackValidationUptimeMessage ::
  "'w session \<Rightarrow> hash \<Rightarrow> u64 \<Rightarrow> ('w, goerr + bytes) prog" where
  "ValidatorMessagesSession_PackValidationUptimeMessage s validationID uptime =
     ValidatorMessagesCaller_PackValidationUptimeMessage (SessionContract s) (SessionCallOpts s)
     validationID uptime"

definition ValidatorMessagesCaller_UnpackL1ValidatorRegistrationMessage ::
  "'w bound_contract \<Rightarrow> CallOpts \<Rightarrow> bytes \<Rightarrow> ('w, goerr + hash \<times> bool) prog" where
  "ValidatorMessagesCaller_UnpackL1ValidatorRegistrationMessage c opts input_data =
     call_method c opts ''unpackL1ValidatorRegistrationMessage'' [GBytes input_data] (out2
        go_arr32 go_bool)"

definition ValidatorMessagesSession_UnpackL1ValidatorRegistrationMessage ::
  "'w session \<Rightarrow> bytes \<Rightarrow> ('w, goerr + hash \<times> bool) prog" where
  "ValidatorMessagesSession_UnpackL1ValidatorRegistrationMessage s input_data =
     ValidatorMessagesCaller_UnpackL1ValidatorRegistrationMessage (SessionContract s)
     (SessionCallOpts s) input_data"

definition ValidatorMessagesCaller_UnpackL1ValidatorWeightMessage ::
  "'w bound_contract \<Rightarrow> CallOpts \<Rightarrow> bytes \<Rightarrow> ('w, goerr + hash \<times> u64 \<times> u64) prog" where
  "ValidatorMessagesCaller_UnpackL1ValidatorWeightMessage c opts input_data =
     call_method c opts ''unpackL1ValidatorWeightMessage'' [GBytes input_data] (out3 go_arr32
        (go_word 64) (go_word 64))"

definition ValidatorMessagesSession_UnpackL1ValidatorWeightMessage ::
  "'w session \<Rightarrow> bytes \<Rightarrow> ('w, goerr + hash \<times> u64 \<times> u64) prog" where
  "ValidatorMessagesSession_UnpackL1ValidatorWeightMessage s input_data =
     ValidatorMessagesCaller_UnpackL1ValidatorWeightMessage (SessionContract s) (SessionCallOpts
     s) input_data"

definition ValidatorMessagesCaller_UnpackRegisterL1ValidatorMessage ::
  "'w bound_contract \<Rightarrow> CallOpts \<Rightarrow> bytes \<Rightarrow> ('w, goerr + ValidatorMessagesValidationPeriod) prog"
     where
  "ValidatorMessagesCaller_UnpackRegisterL1ValidatorMessage c opts input_data =
     call_method c opts ''unpackRegisterL1ValidatorMessage'' [GBytes input_data] (out1
        ValidatorMessagesValidationPeriod_of)"

definition ValidatorMessagesSession_UnpackRegisterL1ValidatorMessage ::
  "'w session \<Rightarrow> bytes \<Rightarrow> ('w, goerr + ValidatorMessagesValidationPeriod) prog" where
  "ValidatorMessagesSession_UnpackRegisterL1ValidatorMessage s input_data =
     ValidatorMessagesCaller_UnpackRegisterL1ValidatorMessage (SessionContract s)
     (SessionCallOpts s) input_data"

definition ValidatorMessagesCaller_UnpackSubnetToL1ConversionMessage ::
  "'w bound_contract \<Rightarrow> CallOpts \<Rightarrow> bytes \<Rightarrow> ('w, goerr + hash) prog" where
  "ValidatorMessagesCaller_UnpackSubnetToL1ConversionMessage c opts input_data =
     call_method c opts ''unpackSubnetToL1ConversionMessage'' [GBytes input_data] (out1
        go_arr32)"

definition ValidatorMessagesSession_UnpackSubnetToL1ConversionMessage ::
  "'w session \<Rightarrow> bytes \<Rightarrow> ('w, goerr + hash) prog" where
  "ValidatorMessagesSession_UnpackSubnetToL1ConversionMessage s input_data =
     ValidatorMessagesCaller_UnpackSubnetToL1ConversionMessage (SessionContract s)
     (SessionCallOpts s) input_data"

definition ValidatorMessagesCaller_UnpackValidationUptimeMessage ::
  "'w bound_contract \<Rightarrow> CallOpts \<Rightarrow> bytes \<Rightarrow> ('w, goerr + hash \<times> u64) prog" where
  "ValidatorMessagesCaller_UnpackValidationUptimeMessage c opts input_data =
     call_method c opts ''unpackValidationUptimeMessage'' [GBytes input_data] (out2 go_arr32
        (go_word 64))"

definition ValidatorMessagesSession_UnpackValidationUptimeMessage ::
  "'w session \<Rightarrow> bytes \<Rightarrow> ('w, goerr + hash \<times> u64) prog" where
  "ValidatorMessagesSession_UnpackValidationUptimeMessage s input_data =
     ValidatorMessagesCaller_UnpackValidationUptimeMessage (SessionContract s) (SessionCallOpts
     s) input_data"

section \<open>Correctness\<close>

lemma ValidatorMessages_methods:
  "map_of (Methods ValidatorMessagesABI) ''packConversionData'' =
     Some ([(''conversionData'', ConversionData_tuple)], [([], TBytes)])"
  "map_of (Methods ValidatorMessagesABI) ''packL1ValidatorRegistrationMessage'' =
     Some ([(''validationID'', TBytes32), (''valid'', TBool)], [([], TBytes)])"
  "map_of (Methods ValidatorMessagesABI) ''packL1ValidatorWeightMessage'' =
     Some ([(''validationID'', TBytes32), (''nonce'', TUint 64), (''weight'', TUint 64)], [([],
        TBytes)])"
  "map_of (Methods ValidatorMessagesABI) ''packRegisterL1ValidatorMessage'' =
     Some ([(''validationPeriod'', ValidatorMessagesValidationPeriod_tuple)], [([], TBytes32),
        ([], TBytes)])"
  "map_of (Methods ValidatorMessagesABI) ''packSubnetToL1ConversionMessage'' =
     Some ([(''conversionID'', TBytes32)], [([], TBytes)])"
  "map_of (Methods ValidatorMessagesABI) ''packValidationUptimeMessage'' =
     Some ([(''validationID'', TBytes32), (''uptime'', TUint 64)], [([], TBytes)])"
  "map_of (Methods ValidatorMessagesABI) ''unpackL1ValidatorRegistrationMessage'' =
     Some ([(''input'', TBytes)], [([], TBytes32), ([], TBool)])"
  "map_of (Methods ValidatorMessagesABI) ''unpackL1ValidatorWeightMessage'' =
     Some ([(''input'', TBytes)], [([], TBytes32), ([], TUint 64), ([], TUint 64)])"
  "map_of (Methods ValidatorMessagesABI) ''unpackRegisterL1ValidatorMessage'' =
     Some ([(''input'', TBytes)], [([], ValidatorMessagesValidationPeriod_tuple)])"
  "map_of (Methods ValidatorMessagesABI) ''unpackSubnetToL1ConversionMessage'' =
     Some ([(''input'', TBytes)], [([], TBytes32)])"
  "map_of (Methods ValidatorMessagesABI) ''unpackValidationUptimeMessage'' =
     Some ([(''input'', TBytes)], [([], TBytes32), ([], TUint 64)])"
  unfolding ValidatorMessagesABI_def contract_abi.select_convs
  by (simp_all only: table_lookup)

lemma ValidatorMessages_calls_return_outputs:
  assumes "codec_methods k" and "codec_roundtrip k" and "bound_spec k ValidatorMessagesABI be c"
  shows "(\<forall>conversionData r0. reads_call k ValidatorMessagesABI be opts ''packConversionData''
     [ConversionData_val conversionData]
       [GBytes r0] r0 (ValidatorMessagesCaller_PackConversionData c opts conversionData)) \<and>
     (\<forall>validationID valid r0. reads_call k ValidatorMessagesABI be opts
        ''packL1ValidatorRegistrationMessage'' [GArr32 validationID, GBool valid]
       [GBytes r0] r0 (ValidatorMessagesCaller_PackL1ValidatorRegistrationMessage c opts
          validationID valid)) \<and>
     (\<forall>validationID nonce weight r0. reads_call k ValidatorMessagesABI be opts
        ''packL1ValidatorWeightMessage'' [GArr32 validationID, GUint 64 (unat nonce), GUint 64
        (unat weight)]
       [GBytes r0] r0 (ValidatorMessagesCaller_PackL1ValidatorWeightMessage c opts validationID
          nonce weight)) \<and>
     (\<forall>validationPeriod r0 r1. reads_call k ValidatorMessagesABI be opts
        ''packRegisterL1ValidatorMessage'' [ValidatorMessagesValidationPeriod_val
        validationPeriod]
       [GArr32 r0, GBytes r1] (r0, r1) (ValidatorMessagesCaller_PackRegisterL1ValidatorMessage c
          opts validationPeriod)) \<and>
     (\<forall>conversionID r0. reads_call k ValidatorMessagesABI be opts
        ''packSubnetToL1ConversionMessage'' [GArr32 conversionID]
       [GBytes r0] r0 (ValidatorMessagesCaller_PackSubnetToL1ConversionMessage c opts
          conversionID)) \<and>
     (\<forall>validationID uptime r0. reads_call k ValidatorMessagesABI be opts
        ''packValidationUptimeMessage'' [GArr32 validationID, GUint 64 (unat uptime)]
       [GBytes r0] r0 (ValidatorMessagesCaller_PackValidationUptimeMessage c opts validationID
          uptime)) \<and>
     (\<forall>input_data r0 r1. reads_call k ValidatorMessagesABI be opts
        ''unpackL1ValidatorRegistrationMessage'' [GBytes input_data]
       [GArr32 r0, GBool r1] (r0, r1)
          (ValidatorMessagesCaller_UnpackL1ValidatorRegistrationMessage c opts input_data)) \<and>
     (\<forall>input_data r0 r1 r2. reads_call k ValidatorMessagesABI be opts
        ''unpackL1ValidatorWeightMessage'' [GBytes input_data]
       [GArr32 r0, GUint 64 (unat r1), GUint 64 (unat r2)] (r0, r1, r2)
          (ValidatorMessagesCaller_UnpackL1ValidatorWeightMessage c opts input_data)) \<and>
     (\<forall>input_data r0. reads_call k ValidatorMessagesABI be opts
        ''unpackRegisterL1ValidatorMessage'' [GBytes input_data]
       [ValidatorMessagesValidationPeriod_val r0] r0
          (ValidatorMessagesCaller_UnpackRegisterL1ValidatorMessage c opts input_data)) \<and>
     (\<forall>input_data r0. reads_call k ValidatorMessagesABI be opts
        ''unpackSubnetToL1ConversionMessage'' [GBytes input_data]
       [GArr32 r0] r0 (ValidatorMessagesCaller_UnpackSubnetToL1ConversionMessage c opts
          input_data)) \<and>
     (\<forall>input_data r0 r1. reads_call k ValidatorMessagesABI be opts
        ''unpackValidationUptimeMessage'' [GBytes input_data]
       [GArr32 r0, GUint 64 (unat r1)] (r0, r1)
          (ValidatorMessagesCaller_UnpackValidationUptimeMessage c opts input_data))"
  unfolding ValidatorMessagesCaller_PackConversionData_def
     ValidatorMessagesCaller_PackL1ValidatorRegistrationMessage_def
     ValidatorMessagesCaller_PackL1ValidatorWeightMessage_def
     ValidatorMessagesCaller_PackRegisterL1ValidatorMessage_def
     ValidatorMessagesCaller_PackSubnetToL1ConversionMessage_def
     ValidatorMessagesCaller_PackValidationUptimeMessage_def
     ValidatorMessagesCaller_UnpackL1ValidatorRegistrationMessage_def
     ValidatorMessagesCaller_UnpackL1ValidatorWeightMessage_def
     ValidatorMessagesCaller_UnpackRegisterL1ValidatorMessage_def
     ValidatorMessagesCaller_UnpackSubnetToL1ConversionMessage_def
     ValidatorMessagesCaller_UnpackValidationUptimeMessage_def
  by ((intro conjI allI impI)?; rule call_reads [OF assms], rule ValidatorMessages_methods)
    (simp_all del: matches.simps(1))

end
