(* ===== verification/LinkedDeployment.thy ===== *)
theory LinkedDeployment
  imports ValidatorMessagesBinding GoStrings AbiRef
begin

text \<open>
  Deployment of a contract that calls the external library \<open>ValidatorMessages\<close>, as the bindings
  \<open>PoAValidatorManager.go\<close>, \<open>ERC20TokenStakingManager.go\<close> and \<open>NativeTokenStakingManager.go\<close> do it: the
  library is deployed first, and its address is written over the placeholder in the bytecode. The
  bytecode is a package variable, which the deployment overwrites: it is part of the state here.
\<close>

section \<open>The deployment\<close>

record 'w link_state =
  LinkBin :: string
  LinkChain :: 'w

text \<open>\<open>common.Address.String\<close> of go-ethereum is the parameter \<open>AddressString\<close>.\<close>

record 'w linked_lib =
  LinkLib :: "'w bind_lib"
  MessagesBin :: string
  AddressString :: "address \<Rightarrow> string"

definition on_chain :: "('w, 'a) prog \<Rightarrow> ('w link_state, 'a) prog" where
  "on_chain p s = (case p (LinkChain s) of (r, w) \<Rightarrow> (r, s\<lparr>LinkChain := w\<rparr>))"

definition library_placeholder :: string where
  "library_placeholder = ''__$fd0c147b4031eef6079b0498cbafa865f0$__''"

text \<open>The address that is linked; if the library could not be deployed, the zero address.\<close>

definition library_address :: "goerr + address \<times> hash \<times> 'w bound_contract \<Rightarrow> address" where
  "library_address r = (case r of Inl _ \<Rightarrow> 0 | Inr (addr, _, _) \<Rightarrow> addr)"

definition deploy_code ::
  "'w linked_lib \<Rightarrow> TransactOpts \<Rightarrow> contract_abi \<Rightarrow> go_val list \<Rightarrow> string \<Rightarrow>
   ('w link_state, goerr + address \<times> hash \<times> 'w bound_contract) prog" where
  "deploy_code lib auth abi params bin =
     bnd (on_chain (DeployContract (LinkLib lib) auth abi bin params)) (\<lambda>r.
     case r of
       Inl e \<Rightarrow> ret (Inl e)
     | Inr (addr, tx) \<Rightarrow> ret (Inr (addr, tx, NewBoundContract (LinkLib lib) abi addr)))"

definition deploy_linked ::
  "'w linked_lib \<Rightarrow> TransactOpts \<Rightarrow> contract_abi \<Rightarrow> go_val list \<Rightarrow>
   ('w link_state, goerr + address \<times> hash \<times> 'w bound_contract) prog" where
  "deploy_linked lib auth meta params =
     (case GetAbi (lib_codec (LinkLib lib)) meta of
        Inl e \<Rightarrow> ret (Inl e)
      | Inr abi \<Rightarrow>
          bnd (on_chain (DeployValidatorMessages (LinkLib lib) (MessagesBin lib) auth)) (\<lambda>r.
          andThen (upd (\<lambda>s. s\<lparr>LinkBin := ReplaceAll (LinkBin s) library_placeholder
              (drop 2 (AddressString lib (library_address r)))\<rparr>))
          (bnd (gets LinkBin) (deploy_code lib auth abi params))))"

section \<open>Properties\<close>

text \<open>An address prints as \<open>0x\<close> and 40 hexadecimal digits, of either case.\<close>

definition hex_digits :: string where
  "hex_digits = ''0123456789abcdefABCDEF''"

definition address_strings :: "(address \<Rightarrow> string) \<Rightarrow> bool" where
  "address_strings f \<longleftrightarrow>
     (\<forall>a. take 2 (f a) = ''0x'' \<and> length (f a) = 42 \<and> set (drop 2 (f a)) \<subseteq> set hex_digits)"

lemma linked_bin_has_no_placeholder:
  assumes "address_strings f"
  shows "\<not> occurs library_placeholder (ReplaceAll bin library_placeholder (drop 2 (f a)))"
proof (rule ReplaceAll_leaves_none)
  have len: "length (drop 2 (f a)) = 40" and sub: "set (drop 2 (f a)) \<subseteq> set hex_digits"
    using assms by (simp_all add: address_strings_def)
  have "CHR ''_'' \<notin> set hex_digits"
    by (simp add: hex_digits_def)
  with sub show "hd library_placeholder \<notin> set (drop 2 (f a))"
    and "last library_placeholder \<notin> set (drop 2 (f a))"
    by (auto simp: library_placeholder_def)
  show "length library_placeholder \<le> Suc (length (drop 2 (f a)))"
    using len by (simp add: library_placeholder_def)
qed (simp add: library_placeholder_def)

lemma deploy_linked_no_placeholder:
  assumes "GetAbi (lib_codec (LinkLib lib)) meta = Inr abi"
    and "\<not> occurs library_placeholder (LinkBin s)"
  shows "deploy_linked lib auth meta params s =
    bnd (on_chain (DeployValidatorMessages (LinkLib lib) (MessagesBin lib) auth))
      (\<lambda>_. deploy_code lib auth abi params (LinkBin s)) s"
proof -
  have "library_placeholder \<noteq> []"
    by (simp add: library_placeholder_def)
  then have "ReplaceAll (LinkBin s) library_placeholder new = LinkBin s" for new
    using ReplaceAll_no_occurrence assms(2) by blast
  then show ?thesis
    using assms(1)
    by (auto simp: deploy_linked_def bnd_def andThen_def upd_def gets_def on_chain_def
        split: prod.splits outcome.splits)
qed

lemma deploy_code_bin: "LinkBin (snd (deploy_code lib auth abi params bin s)) = LinkBin s"
  by (auto simp: deploy_code_def bnd_def on_chain_def split: prod.splits outcome.splits sum.splits)

text \<open>
  C15. The bytecode variable remembers the first library. Once a deployment has linked a library, the
  variable has no placeholder left, so every later deployment of the process, on whatever chain,
  deploys a new library and then the very bytecode of the first one, linked to the first library's
  address; and if the first library could not be deployed, they are all linked to the zero address.
\<close>

theorem later_deployments_link_first_library:
  assumes "address_strings (AddressString lib)"
    and "GetAbi (lib_codec (LinkLib lib)) meta = Inr abi"
    and "DeployValidatorMessages (LinkLib lib) (MessagesBin lib) auth (LinkChain s) = (Returned r, w)"
    and "deploy_linked lib auth meta params s = (res, s1)"
  shows "LinkBin s1 = ReplaceAll (LinkBin s) library_placeholder
      (drop 2 (AddressString lib (library_address r))) \<and>
    (\<forall>auth' params' t. LinkBin t = LinkBin s1 \<longrightarrow>
      deploy_linked lib auth' meta params' t =
        bnd (on_chain (DeployValidatorMessages (LinkLib lib) (MessagesBin lib) auth'))
          (\<lambda>_. deploy_code lib auth' abi params' (LinkBin s1)) t \<and>
      LinkBin (snd (deploy_linked lib auth' meta params' t)) = LinkBin s1)"
proof -
  let ?bin = "ReplaceAll (LinkBin s) library_placeholder
      (drop 2 (AddressString lib (library_address r)))"
  have "deploy_linked lib auth meta params s =
      deploy_code lib auth abi params ?bin (s\<lparr>LinkChain := w, LinkBin := ?bin\<rparr>)"
    using assms(2,3) by (simp add: deploy_linked_def bnd_def andThen_def upd_def gets_def on_chain_def)
  then have code: "deploy_code lib auth abi params ?bin (s\<lparr>LinkChain := w, LinkBin := ?bin\<rparr>) = (res, s1)"
    using assms(4) by simp
  have bin: "LinkBin s1 = ?bin"
    using deploy_code_bin [of lib auth abi params ?bin "s\<lparr>LinkChain := w, LinkBin := ?bin\<rparr>"]
    unfolding code by simp
  have later: "deploy_linked lib auth' meta params' t =
      bnd (on_chain (DeployValidatorMessages (LinkLib lib) (MessagesBin lib) auth'))
        (\<lambda>_. deploy_code lib auth' abi params' (LinkBin t)) t"
    if "LinkBin t = LinkBin s1" for auth' params' t
    using deploy_linked_no_placeholder [OF assms(2)] linked_bin_has_no_placeholder [OF assms(1)]
    by (simp add: that bin)
  have "LinkBin (snd (bnd (on_chain p) (\<lambda>_. deploy_code lib auth' abi params' b) t)) = LinkBin t"
    for p :: "('a, goerr + address \<times> hash \<times> 'a bound_contract) prog" and auth' params' b and t :: "'a link_state"
    by (auto simp: bnd_def on_chain_def deploy_code_bin split: prod.splits outcome.splits)
  with later have "LinkBin (snd (deploy_linked lib auth' meta params' t)) = LinkBin s1"
    if "LinkBin t = LinkBin s1" for auth' params' t
    using that by simp
  with bin later show ?thesis
    by simp
qed

text \<open>A chain that counts its contracts: each deployment succeeds at the next address.\<close>

definition counting_lib :: "nat linked_lib" where
  "counting_lib = \<lparr>
     LinkLib = \<lparr>lib_codec = ref_codec,
       NewBoundContract = (\<lambda>abi addr. spec_contract ref_codec abi
         \<lparr>call_data = (\<lambda>opts d. ret (Inr [])), send_data = (\<lambda>opts d. ret (Inr 0))\<rparr>),
       DeployContract = (\<lambda>auth abi bin params n. (Returned (Inr (of_nat n, 0)), Suc n))\<rparr>,
     MessagesBin = ''60'',
     AddressString = (\<lambda>a. ''0x'' @ hex_encode (address_bytes a))\<rparr>"

lemma hex_char_digit:
  assumes "n < 16"
  shows "hex_char n \<in> set hex_digits"
proof -
  have "list_all (\<lambda>n. hex_char n \<in> set hex_digits) [0..<16]"
    by code_simp
  with assms show ?thesis
    by (simp add: list_all_iff)
qed

lemma hex_encode_digits: "set (hex_encode b) \<subseteq> set hex_digits"
proof (induction b rule: hex_encode.induct)
  case (2 x b)
  have "unat x < 2 ^ LENGTH(8)"
    by (rule unsigned_less)
  then have "unat x div 16 < 16" and "unat x mod 16 < 16"
    by (simp_all add: less_mult_imp_div_less)
  with 2 show ?case
    using hex_char_digit by simp
qed simp

lemma counting_addresses: "address_strings (AddressString counting_lib)"
  using hex_encode_digits by (simp add: address_strings_def counting_lib_def codec_lengths)

theorem later_deployments_link_first_library_witness:
  "let s0 = \<lparr>LinkBin = ''6001'' @ library_placeholder, LinkChain = 1\<rparr>;
       s1 = snd (deploy_linked counting_lib example_transact_opts ValidatorMessagesABI [] s0);
       s2 = snd (deploy_linked counting_lib example_transact_opts ValidatorMessagesABI [] s1)
   in LinkBin s1 = ''6001'' @ hex_encode (address_bytes 1) \<and> LinkBin s2 = LinkBin s1"
proof -
  let ?s0 = "\<lparr>LinkBin = ''6001'' @ library_placeholder, LinkChain = 1\<rparr> :: nat link_state"
  let ?bound = "NewBoundContract (LinkLib counting_lib) ValidatorMessagesABI 1"
  obtain res s1 where run: "deploy_linked counting_lib example_transact_opts ValidatorMessagesABI [] ?s0 =
      (res, s1)"
    by (metis surj_pair)
  have lib: "DeployValidatorMessages (LinkLib counting_lib) (MessagesBin counting_lib)
      example_transact_opts (LinkChain ?s0) = (Returned (Inr (1, 0, ?bound)), 2)"
    by (simp add: counting_lib_def DeployValidatorMessages_def deploy_contract_def bnd_def ref_codec_def)
  have abi: "GetAbi (lib_codec (LinkLib counting_lib)) ValidatorMessagesABI = Inr ValidatorMessagesABI"
    by (simp add: counting_lib_def ref_codec_def)
  note later = later_deployments_link_first_library [OF counting_addresses abi lib run]
  have "ReplaceAll (''6001'' @ library_placeholder) library_placeholder new = ''6001'' @ new" for new
    using ReplaceAll_at [of library_placeholder "[]" new]
    by (subst ReplaceAll_skip) (simp_all add: library_placeholder_def)
  moreover have "LinkBin s1 = ReplaceAll (LinkBin ?s0) library_placeholder
      (drop 2 (AddressString counting_lib 1))"
    using later [THEN conjunct1] unfolding library_address_def by simp
  moreover have "drop 2 (AddressString counting_lib 1) = hex_encode (address_bytes 1)"
    by (simp add: counting_lib_def)
  ultimately have bin: "LinkBin s1 = ''6001'' @ hex_encode (address_bytes 1)"
    by simp
  have "LinkBin (snd (deploy_linked counting_lib example_transact_opts ValidatorMessagesABI [] s1)) =
      LinkBin s1"
    using later [THEN conjunct2] by blast
  with bin show ?thesis
    unfolding Let_def run snd_conv by simp
qed

end
