(* ===== verification/TeleporterMessengerBinding.thy ===== *)
theory TeleporterMessengerBinding
  imports Binding Events
begin

text \<open>
  The generated binding \<open>abi-bindings/go/teleporter/TeleporterMessenger/TeleporterMessenger.go\<close>, one
  definition per method, session method, event iterator, filter, watch and parser, over the generic
  definitions of theory \<open>Binding\<close>. The struct and ABI data are in \<open>TeleporterAbi\<close> and \<open>Events\<close>; the
  bytecode is a parameter of deployment. The aliases \<open>Raw\<close> of the untyped calls are not modelled.
\<close>

section \<open>Binding and deployment\<close>

definition bindTeleporterMessenger :: "'w bind_lib \<Rightarrow> address \<Rightarrow> goerr + 'w bound_contract" where
  "bindTeleporterMessenger lib addr = bind_contract lib TeleporterMessengerABI addr"

definition NewTeleporterMessenger :: "'w bind_lib \<Rightarrow> address \<Rightarrow> goerr + 'w bound_contract" where
  "NewTeleporterMessenger lib addr = bindTeleporterMessenger lib addr"

definition DeployTeleporterMessenger ::
  "'w bind_lib \<Rightarrow> string \<Rightarrow> TransactOpts \<Rightarrow> 
   ('w, goerr + address \<times> hash \<times> 'w bound_contract) prog" where
  "DeployTeleporterMessenger lib bin auth = deploy_contract lib auth TeleporterMessengerABI bin
     []"

section \<open>Methods\<close>

definition TeleporterMessengerCaller_WARPMESSENGER ::
  "'w bound_contract \<Rightarrow> CallOpts \<Rightarrow> ('w, goerr + address) prog" where
  "TeleporterMessengerCaller_WARPMESSENGER c opts =
     call_method c opts ''WARP_MESSENGER'' [] (out1 go_addr)"

definition TeleporterMessengerSession_WARPMESSENGER ::
  "'w session \<Rightarrow> ('w, goerr + address) prog" where
  "TeleporterMessengerSession_WARPMESSENGER s = TeleporterMessengerCaller_WARPMESSENGER
     (SessionContract s) (SessionCallOpts s)"

definition TeleporterMessengerTransactor_AddFeeAmount ::
  "'w bound_contract \<Rightarrow> TransactOpts \<Rightarrow> hash \<Rightarrow> address \<Rightarrow> int \<Rightarrow> ('w, goerr + hash) prog" where
  "TeleporterMessengerTransactor_AddFeeAmount c opts messageID feeTokenAddress
     additionalFeeAmount =
     contract_transact c opts ''addFeeAmount'' [GArr32 messageID, GAddr feeTokenAddress, GBig
        additionalFeeAmount]"

definition TeleporterMessengerSession_AddFeeAmount ::
  "'w session \<Rightarrow> hash \<Rightarrow> address \<Rightarrow> int \<Rightarrow> ('w, goerr + hash) prog" where
  "TeleporterMessengerSession_AddFeeAmount s messageID feeTokenAddress additionalFeeAmount =
     TeleporterMessengerTransactor_AddFeeAmount (SessionContract s) (SessionTransactOpts s)
     messageID feeTokenAddress additionalFeeAmount"

definition TeleporterMessengerCaller_BlockchainID ::
  "'w bound_contract \<Rightarrow> CallOpts \<Rightarrow> ('w, goerr + hash) prog" where
  "TeleporterMessengerCaller_BlockchainID c opts =
     call_method c opts ''blockchainID'' [] (out1 go_arr32)"

definition TeleporterMessengerSession_BlockchainID ::
  "'w session \<Rightarrow> ('w, goerr + hash) prog" where
  "TeleporterMessengerSession_BlockchainID s = TeleporterMessengerCaller_BlockchainID
     (SessionContract s) (SessionCallOpts s)"

definition TeleporterMessengerCaller_CalculateMessageID ::
  "'w bound_contract \<Rightarrow> CallOpts \<Rightarrow> hash \<Rightarrow> hash \<Rightarrow> int \<Rightarrow> ('w, goerr + hash) prog" where
  "TeleporterMessengerCaller_CalculateMessageID c opts sourceBlockchainID
     destinationBlockchainID nonce =
     call_method c opts ''calculateMessageID'' [GArr32 sourceBlockchainID, GArr32
        destinationBlockchainID, GBig nonce] (out1 go_arr32)"

definition TeleporterMessengerSession_CalculateMessageID ::
  "'w session \<Rightarrow> hash \<Rightarrow> hash \<Rightarrow> int \<Rightarrow> ('w, goerr + hash) prog" where
  "TeleporterMessengerSession_CalculateMessageID s sourceBlockchainID destinationBlockchainID
     nonce = TeleporterMessengerCaller_CalculateMessageID (SessionContract s) (SessionCallOpts
     s) sourceBlockchainID destinationBlockchainID nonce"

definition TeleporterMessengerCaller_CheckRelayerRewardAmount ::
  "'w bound_contract \<Rightarrow> CallOpts \<Rightarrow> address \<Rightarrow> address \<Rightarrow> ('w, goerr + int) prog" where
  "TeleporterMessengerCaller_CheckRelayerRewardAmount c opts relayer feeAsset =
     call_method c opts ''checkRelayerRewardAmount'' [GAddr relayer, GAddr feeAsset] (out1
        go_big)"

definition TeleporterMessengerSession_CheckRelayerRewardAmount ::
  "'w session \<Rightarrow> address \<Rightarrow> address \<Rightarrow> ('w, goerr + int) prog" where
  "TeleporterMessengerSession_CheckRelayerRewardAmount s relayer feeAsset =
     TeleporterMessengerCaller_CheckRelayerRewardAmount (SessionContract s) (SessionCallOpts s)
     relayer feeAsset"

definition TeleporterMessengerCaller_GetFeeInfo ::
  "'w bound_contract \<Rightarrow> CallOpts \<Rightarrow> hash \<Rightarrow> ('w, goerr + address \<times> int) prog" where
  "TeleporterMessengerCaller_GetFeeInfo c opts messageID =
     call_method c opts ''getFeeInfo'' [GArr32 messageID] (out2 go_addr go_big)"

definition TeleporterMessengerSession_GetFeeInfo ::
  "'w session \<Rightarrow> hash \<Rightarrow> ('w, goerr + address \<times> int) prog" where
  "TeleporterMessengerSession_GetFeeInfo s messageID = TeleporterMessengerCaller_GetFeeInfo
     (SessionContract s) (SessionCallOpts s) messageID"

definition TeleporterMessengerCaller_GetMessageHash ::
  "'w bound_contract \<Rightarrow> CallOpts \<Rightarrow> hash \<Rightarrow> ('w, goerr + hash) prog" where
  "TeleporterMessengerCaller_GetMessageHash c opts messageID =
     call_method c opts ''getMessageHash'' [GArr32 messageID] (out1 go_arr32)"

definition TeleporterMessengerSession_GetMessageHash ::
  "'w session \<Rightarrow> hash \<Rightarrow> ('w, goerr + hash) prog" where
  "TeleporterMessengerSession_GetMessageHash s messageID =
     TeleporterMessengerCaller_GetMessageHash (SessionContract s) (SessionCallOpts s) messageID"

definition TeleporterMessengerCaller_GetNextMessageID ::
  "'w bound_contract \<Rightarrow> CallOpts \<Rightarrow> hash \<Rightarrow> ('w, goerr + hash) prog" where
  "TeleporterMessengerCaller_GetNextMessageID c opts destinationBlockchainID =
     call_method c opts ''getNextMessageID'' [GArr32 destinationBlockchainID] (out1 go_arr32)"

definition TeleporterMessengerSession_GetNextMessageID ::
  "'w session \<Rightarrow> hash \<Rightarrow> ('w, goerr + hash) prog" where
  "TeleporterMessengerSession_GetNextMessageID s destinationBlockchainID =
     TeleporterMessengerCaller_GetNextMessageID (SessionContract s) (SessionCallOpts s)
     destinationBlockchainID"

definition TeleporterMessengerCaller_GetReceiptAtIndex ::
  "'w bound_contract \<Rightarrow> CallOpts \<Rightarrow> hash \<Rightarrow> int \<Rightarrow> ('w, goerr + TeleporterMessageReceipt) prog"
     where
  "TeleporterMessengerCaller_GetReceiptAtIndex c opts sourceBlockchainID index =
     call_method c opts ''getReceiptAtIndex'' [GArr32 sourceBlockchainID, GBig index] (out1
        receipt_of)"

definition TeleporterMessengerSession_GetReceiptAtIndex ::
  "'w session \<Rightarrow> hash \<Rightarrow> int \<Rightarrow> ('w, goerr + TeleporterMessageReceipt) prog" where
  "TeleporterMessengerSession_GetReceiptAtIndex s sourceBlockchainID index =
     TeleporterMessengerCaller_GetReceiptAtIndex (SessionContract s) (SessionCallOpts s)
     sourceBlockchainID index"

definition TeleporterMessengerCaller_GetReceiptQueueSize ::
  "'w bound_contract \<Rightarrow> CallOpts \<Rightarrow> hash \<Rightarrow> ('w, goerr + int) prog" where
  "TeleporterMessengerCaller_GetReceiptQueueSize c opts sourceBlockchainID =
     call_method c opts ''getReceiptQueueSize'' [GArr32 sourceBlockchainID] (out1 go_big)"

definition TeleporterMessengerSession_GetReceiptQueueSize ::
  "'w session \<Rightarrow> hash \<Rightarrow> ('w, goerr + int) prog" where
  "TeleporterMessengerSession_GetReceiptQueueSize s sourceBlockchainID =
     TeleporterMessengerCaller_GetReceiptQueueSize (SessionContract s) (SessionCallOpts s)
     sourceBlockchainID"

definition TeleporterMessengerCaller_GetRelayerRewardAddress ::
  "'w bound_contract \<Rightarrow> CallOpts \<Rightarrow> hash \<Rightarrow> ('w, goerr + address) prog" where
  "TeleporterMessengerCaller_GetRelayerRewardAddress c opts messageID =
     call_method c opts ''getRelayerRewardAddress'' [GArr32 messageID] (out1 go_addr)"

definition TeleporterMessengerSession_GetRelayerRewardAddress ::
  "'w session \<Rightarrow> hash \<Rightarrow> ('w, goerr + address) prog" where
  "TeleporterMessengerSession_GetRelayerRewardAddress s messageID =
     TeleporterMessengerCaller_GetRelayerRewardAddress (SessionContract s) (SessionCallOpts s)
     messageID"

definition TeleporterMessengerTransactor_InitializeBlockchainID ::
  "'w bound_contract \<Rightarrow> TransactOpts \<Rightarrow> ('w, goerr + hash) prog" where
  "TeleporterMessengerTransactor_InitializeBlockchainID c opts =
     contract_transact c opts ''initializeBlockchainID'' []"

definition TeleporterMessengerSession_InitializeBlockchainID ::
  "'w session \<Rightarrow> ('w, goerr + hash) prog" where
  "TeleporterMessengerSession_InitializeBlockchainID s =
     TeleporterMessengerTransactor_InitializeBlockchainID (SessionContract s)
     (SessionTransactOpts s)"

definition TeleporterMessengerCaller_MessageNonce ::
  "'w bound_contract \<Rightarrow> CallOpts \<Rightarrow> ('w, goerr + int) prog" where
  "TeleporterMessengerCaller_MessageNonce c opts =
     call_method c opts ''messageNonce'' [] (out1 go_big)"

definition TeleporterMessengerSession_MessageNonce ::
  "'w session \<Rightarrow> ('w, goerr + int) prog" where
  "TeleporterMessengerSession_MessageNonce s = TeleporterMessengerCaller_MessageNonce
     (SessionContract s) (SessionCallOpts s)"

definition TeleporterMessengerCaller_MessageReceived ::
  "'w bound_contract \<Rightarrow> CallOpts \<Rightarrow> hash \<Rightarrow> ('w, goerr + bool) prog" where
  "TeleporterMessengerCaller_MessageReceived c opts messageID =
     call_method c opts ''messageReceived'' [GArr32 messageID] (out1 go_bool)"

definition TeleporterMessengerSession_MessageReceived ::
  "'w session \<Rightarrow> hash \<Rightarrow> ('w, goerr + bool) prog" where
  "TeleporterMessengerSession_MessageReceived s messageID =
     TeleporterMessengerCaller_MessageReceived (SessionContract s) (SessionCallOpts s)
     messageID"

definition TeleporterMessengerCaller_ReceiptQueues ::
  "'w bound_contract \<Rightarrow> CallOpts \<Rightarrow> hash \<Rightarrow> ('w, goerr + int \<times> int) prog" where
  "TeleporterMessengerCaller_ReceiptQueues c opts sourceBlockchainID =
     call_method c opts ''receiptQueues'' [GArr32 sourceBlockchainID] (out2 go_big go_big)"

definition TeleporterMessengerSession_ReceiptQueues ::
  "'w session \<Rightarrow> hash \<Rightarrow> ('w, goerr + int \<times> int) prog" where
  "TeleporterMessengerSession_ReceiptQueues s sourceBlockchainID =
     TeleporterMessengerCaller_ReceiptQueues (SessionContract s) (SessionCallOpts s)
     sourceBlockchainID"

definition TeleporterMessengerTransactor_ReceiveCrossChainMessage ::
  "'w bound_contract \<Rightarrow> TransactOpts \<Rightarrow> u32 \<Rightarrow> address \<Rightarrow> ('w, goerr + hash) prog" where
  "TeleporterMessengerTransactor_ReceiveCrossChainMessage c opts messageIndex
     relayerRewardAddress =
     contract_transact c opts ''receiveCrossChainMessage'' [GUint 32 (unat messageIndex), GAddr
        relayerRewardAddress]"

definition TeleporterMessengerSession_ReceiveCrossChainMessage ::
  "'w session \<Rightarrow> u32 \<Rightarrow> address \<Rightarrow> ('w, goerr + hash) prog" where
  "TeleporterMessengerSession_ReceiveCrossChainMessage s messageIndex relayerRewardAddress =
     TeleporterMessengerTransactor_ReceiveCrossChainMessage (SessionContract s)
     (SessionTransactOpts s) messageIndex relayerRewardAddress"

definition TeleporterMessengerCaller_ReceivedFailedMessageHashes ::
  "'w bound_contract \<Rightarrow> CallOpts \<Rightarrow> hash \<Rightarrow> ('w, goerr + hash) prog" where
  "TeleporterMessengerCaller_ReceivedFailedMessageHashes c opts messageID =
     call_method c opts ''receivedFailedMessageHashes'' [GArr32 messageID] (out1 go_arr32)"

definition TeleporterMessengerSession_ReceivedFailedMessageHashes ::
  "'w session \<Rightarrow> hash \<Rightarrow> ('w, goerr + hash) prog" where
  "TeleporterMessengerSession_ReceivedFailedMessageHashes s messageID =
     TeleporterMessengerCaller_ReceivedFailedMessageHashes (SessionContract s) (SessionCallOpts
     s) messageID"

definition TeleporterMessengerTransactor_RedeemRelayerRewards ::
  "'w bound_contract \<Rightarrow> TransactOpts \<Rightarrow> address \<Rightarrow> ('w, goerr + hash) prog" where
  "TeleporterMessengerTransactor_RedeemRelayerRewards c opts feeAsset =
     contract_transact c opts ''redeemRelayerRewards'' [GAddr feeAsset]"

definition TeleporterMessengerSession_RedeemRelayerRewards ::
  "'w session \<Rightarrow> address \<Rightarrow> ('w, goerr + hash) prog" where
  "TeleporterMessengerSession_RedeemRelayerRewards s feeAsset =
     TeleporterMessengerTransactor_RedeemRelayerRewards (SessionContract s) (SessionTransactOpts
     s) feeAsset"

definition TeleporterMessengerTransactor_RetryMessageExecution ::
  "'w bound_contract \<Rightarrow> TransactOpts \<Rightarrow> hash \<Rightarrow> TeleporterMessage \<Rightarrow> ('w, goerr + hash) prog" where
  "TeleporterMessengerTransactor_RetryMessageExecution c opts sourceBlockchainID message =
     contract_transact c opts ''retryMessageExecution'' [GArr32 sourceBlockchainID, message_val
        message]"

definition TeleporterMessengerSession_RetryMessageExecution ::
  "'w session \<Rightarrow> hash \<Rightarrow> TeleporterMessage \<Rightarrow> ('w, goerr + hash) prog" where
  "TeleporterMessengerSession_RetryMessageExecution s sourceBlockchainID message =
     TeleporterMessengerTransactor_RetryMessageExecution (SessionContract s)
     (SessionTransactOpts s) sourceBlockchainID message"

definition TeleporterMessengerTransactor_RetrySendCrossChainMessage ::
  "'w bound_contract \<Rightarrow> TransactOpts \<Rightarrow> TeleporterMessage \<Rightarrow> ('w, goerr + hash) prog" where
  "TeleporterMessengerTransactor_RetrySendCrossChainMessage c opts message =
     contract_transact c opts ''retrySendCrossChainMessage'' [message_val message]"

definition TeleporterMessengerSession_RetrySendCrossChainMessage ::
  "'w session \<Rightarrow> TeleporterMessage \<Rightarrow> ('w, goerr + hash) prog" where
  "TeleporterMessengerSession_RetrySendCrossChainMessage s message =
     TeleporterMessengerTransactor_RetrySendCrossChainMessage (SessionContract s)
     (SessionTransactOpts s) message"

definition TeleporterMessengerTransactor_SendCrossChainMessage ::
  "'w bound_contract \<Rightarrow> TransactOpts \<Rightarrow> TeleporterMessageInput \<Rightarrow> ('w, goerr + hash) prog" where
  "TeleporterMessengerTransactor_SendCrossChainMessage c opts messageInput =
     contract_transact c opts ''sendCrossChainMessage'' [input_val messageInput]"

definition TeleporterMessengerSession_SendCrossChainMessage ::
  "'w session \<Rightarrow> TeleporterMessageInput \<Rightarrow> ('w, goerr + hash) prog" where
  "TeleporterMessengerSession_SendCrossChainMessage s messageInput =
     TeleporterMessengerTransactor_SendCrossChainMessage (SessionContract s)
     (SessionTransactOpts s) messageInput"

definition TeleporterMessengerTransactor_SendSpecifiedReceipts ::
  "'w bound_contract \<Rightarrow> TransactOpts \<Rightarrow> hash \<Rightarrow> hash list \<Rightarrow> TeleporterFeeInfo \<Rightarrow> address list \<Rightarrow> ('w,
     goerr + hash) prog" where
  "TeleporterMessengerTransactor_SendSpecifiedReceipts c opts sourceBlockchainID messageIDs
     feeInfo allowedRelayerAddresses =
     contract_transact c opts ''sendSpecifiedReceipts'' [GArr32 sourceBlockchainID, GSlice (map
        GArr32 messageIDs), fee_info_val feeInfo, GSlice (map GAddr allowedRelayerAddresses)]"

definition TeleporterMessengerSession_SendSpecifiedReceipts ::
  "'w session \<Rightarrow> hash \<Rightarrow> hash list \<Rightarrow> TeleporterFeeInfo \<Rightarrow> address list \<Rightarrow> ('w, goerr + hash) prog"
     where
  "TeleporterMessengerSession_SendSpecifiedReceipts s sourceBlockchainID messageIDs feeInfo
     allowedRelayerAddresses = TeleporterMessengerTransactor_SendSpecifiedReceipts
     (SessionContract s) (SessionTransactOpts s) sourceBlockchainID messageIDs feeInfo
     allowedRelayerAddresses"

definition TeleporterMessengerCaller_SentMessageInfo ::
  "'w bound_contract \<Rightarrow> CallOpts \<Rightarrow> hash \<Rightarrow> ('w, goerr + hash \<times> TeleporterFeeInfo) prog" where
  "TeleporterMessengerCaller_SentMessageInfo c opts messageID =
     call_method c opts ''sentMessageInfo'' [GArr32 messageID] (out2 go_arr32 fee_info_of)"

definition TeleporterMessengerSession_SentMessageInfo ::
  "'w session \<Rightarrow> hash \<Rightarrow> ('w, goerr + hash \<times> TeleporterFeeInfo) prog" where
  "TeleporterMessengerSession_SentMessageInfo s messageID =
     TeleporterMessengerCaller_SentMessageInfo (SessionContract s) (SessionCallOpts s)
     messageID"

section \<open>Events\<close>

definition TeleporterMessengerAddFeeAmountIterator_Next ::
  "'w bound_contract \<Rightarrow> bool \<Rightarrow> iterator \<Rightarrow> (bool \<times> iterator) option" where
  "TeleporterMessengerAddFeeAmountIterator_Next c pick it = iterator_Next (parse_log c
     ''AddFeeAmount'' TeleporterMessengerAddFeeAmount) TeleporterMessengerAddFeeAmount pick it"

definition TeleporterMessengerAddFeeAmountIterator_Error :: "iterator \<Rightarrow> goerr option" where
  "TeleporterMessengerAddFeeAmountIterator_Error it = iterator_Error it"

definition TeleporterMessengerAddFeeAmountIterator_Close :: "iterator \<Rightarrow> goerr option \<times> iterator"
   where
  "TeleporterMessengerAddFeeAmountIterator_Close it = iterator_Close it"

definition TeleporterMessengerFilterer_FilterAddFeeAmount ::
  "'w bound_contract \<Rightarrow> FilterOpts \<Rightarrow> hash list \<Rightarrow> ('w, goerr + iterator) prog" where
  "TeleporterMessengerFilterer_FilterAddFeeAmount c opts messageID =
     filter_events c opts ''AddFeeAmount'' [map GArr32 messageID]"

definition TeleporterMessengerFilterer_WatchAddFeeAmount ::
  "'w bound_contract \<Rightarrow> hash list \<Rightarrow> ('w, goerr + (evm_log \<Rightarrow> goerr + event_fields)) prog" where
  "TeleporterMessengerFilterer_WatchAddFeeAmount c messageID =
     watch_events c ''AddFeeAmount'' TeleporterMessengerAddFeeAmount [map GArr32 messageID]"

definition TeleporterMessengerFilterer_ParseAddFeeAmount ::
  "'w bound_contract \<Rightarrow> evm_log \<Rightarrow> goerr + event_fields" where
  "TeleporterMessengerFilterer_ParseAddFeeAmount c log = parse_log c ''AddFeeAmount''
     TeleporterMessengerAddFeeAmount log"

definition TeleporterMessengerBlockchainIDInitialized :: event_fields where
  "TeleporterMessengerBlockchainIDInitialized = [(''BlockchainID'', GArr32 0), (''Raw'',
     zero_Log)]"

definition TeleporterMessengerBlockchainIDInitializedIterator_Next ::
  "'w bound_contract \<Rightarrow> bool \<Rightarrow> iterator \<Rightarrow> (bool \<times> iterator) option" where
  "TeleporterMessengerBlockchainIDInitializedIterator_Next c pick it = iterator_Next (parse_log
     c ''BlockchainIDInitialized'' TeleporterMessengerBlockchainIDInitialized)
     TeleporterMessengerBlockchainIDInitialized pick it"

definition TeleporterMessengerBlockchainIDInitializedIterator_Error :: "iterator \<Rightarrow> goerr option"
   where
  "TeleporterMessengerBlockchainIDInitializedIterator_Error it = iterator_Error it"

definition TeleporterMessengerBlockchainIDInitializedIterator_Close :: "iterator \<Rightarrow> goerr option
   \<times> iterator" where
  "TeleporterMessengerBlockchainIDInitializedIterator_Close it = iterator_Close it"

definition TeleporterMessengerFilterer_FilterBlockchainIDInitialized ::
  "'w bound_contract \<Rightarrow> FilterOpts \<Rightarrow> hash list \<Rightarrow> ('w, goerr + iterator) prog" where
  "TeleporterMessengerFilterer_FilterBlockchainIDInitialized c opts blockchainID =
     filter_events c opts ''BlockchainIDInitialized'' [map GArr32 blockchainID]"

definition TeleporterMessengerFilterer_WatchBlockchainIDInitialized ::
  "'w bound_contract \<Rightarrow> hash list \<Rightarrow> ('w, goerr + (evm_log \<Rightarrow> goerr + event_fields)) prog" where
  "TeleporterMessengerFilterer_WatchBlockchainIDInitialized c blockchainID =
     watch_events c ''BlockchainIDInitialized'' TeleporterMessengerBlockchainIDInitialized [map
        GArr32 blockchainID]"

definition TeleporterMessengerFilterer_ParseBlockchainIDInitialized ::
  "'w bound_contract \<Rightarrow> evm_log \<Rightarrow> goerr + event_fields" where
  "TeleporterMessengerFilterer_ParseBlockchainIDInitialized c log = parse_log c
     ''BlockchainIDInitialized'' TeleporterMessengerBlockchainIDInitialized log"

definition TeleporterMessengerMessageExecutedIterator_Next ::
  "'w bound_contract \<Rightarrow> bool \<Rightarrow> iterator \<Rightarrow> (bool \<times> iterator) option" where
  "TeleporterMessengerMessageExecutedIterator_Next c pick it = iterator_Next (parse_log c
     ''MessageExecuted'' TeleporterMessengerMessageExecuted) TeleporterMessengerMessageExecuted
     pick it"

definition TeleporterMessengerMessageExecutedIterator_Error :: "iterator \<Rightarrow> goerr option" where
  "TeleporterMessengerMessageExecutedIterator_Error it = iterator_Error it"

definition TeleporterMessengerMessageExecutedIterator_Close :: "iterator \<Rightarrow> goerr option \<times>
   iterator" where
  "TeleporterMessengerMessageExecutedIterator_Close it = iterator_Close it"

definition TeleporterMessengerFilterer_FilterMessageExecuted ::
  "'w bound_contract \<Rightarrow> FilterOpts \<Rightarrow> hash list \<Rightarrow> hash list \<Rightarrow> ('w, goerr + iterator) prog" where
  "TeleporterMessengerFilterer_FilterMessageExecuted c opts messageID sourceBlockchainID =
     filter_events c opts ''MessageExecuted'' [map GArr32 messageID, map GArr32
        sourceBlockchainID]"

definition TeleporterMessengerFilterer_WatchMessageExecuted ::
  "'w bound_contract \<Rightarrow> hash list \<Rightarrow> hash list \<Rightarrow> ('w, goerr + (evm_log \<Rightarrow> goerr + event_fields))
     prog" where
  "TeleporterMessengerFilterer_WatchMessageExecuted c messageID sourceBlockchainID =
     watch_events c ''MessageExecuted'' TeleporterMessengerMessageExecuted [map GArr32
        messageID, map GArr32 sourceBlockchainID]"

definition TeleporterMessengerFilterer_ParseMessageExecuted ::
  "'w bound_contract \<Rightarrow> evm_log \<Rightarrow> goerr + event_fields" where
  "TeleporterMessengerFilterer_ParseMessageExecuted c log = parse_log c ''MessageExecuted''
     TeleporterMessengerMessageExecuted log"

definition TeleporterMessengerMessageExecutionFailedIterator_Next ::
  "'w bound_contract \<Rightarrow> bool \<Rightarrow> iterator \<Rightarrow> (bool \<times> iterator) option" where
  "TeleporterMessengerMessageExecutionFailedIterator_Next c pick it = iterator_Next (parse_log c
     ''MessageExecutionFailed'' TeleporterMessengerMessageExecutionFailed)
     TeleporterMessengerMessageExecutionFailed pick it"

definition TeleporterMessengerMessageExecutionFailedIterator_Error :: "iterator \<Rightarrow> goerr option"
   where
  "TeleporterMessengerMessageExecutionFailedIterator_Error it = iterator_Error it"

definition TeleporterMessengerMessageExecutionFailedIterator_Close :: "iterator \<Rightarrow> goerr option \<times>
   iterator" where
  "TeleporterMessengerMessageExecutionFailedIterator_Close it = iterator_Close it"

definition TeleporterMessengerFilterer_FilterMessageExecutionFailed ::
  "'w bound_contract \<Rightarrow> FilterOpts \<Rightarrow> hash list \<Rightarrow> hash list \<Rightarrow> ('w, goerr + iterator) prog" where
  "TeleporterMessengerFilterer_FilterMessageExecutionFailed c opts messageID sourceBlockchainID
     =
     filter_events c opts ''MessageExecutionFailed'' [map GArr32 messageID, map GArr32
        sourceBlockchainID]"

definition TeleporterMessengerFilterer_WatchMessageExecutionFailed ::
  "'w bound_contract \<Rightarrow> hash list \<Rightarrow> hash list \<Rightarrow> ('w, goerr + (evm_log \<Rightarrow> goerr + event_fields))
     prog" where
  "TeleporterMessengerFilterer_WatchMessageExecutionFailed c messageID sourceBlockchainID =
     watch_events c ''MessageExecutionFailed'' TeleporterMessengerMessageExecutionFailed [map
        GArr32 messageID, map GArr32 sourceBlockchainID]"

definition TeleporterMessengerFilterer_ParseMessageExecutionFailed ::
  "'w bound_contract \<Rightarrow> evm_log \<Rightarrow> goerr + event_fields" where
  "TeleporterMessengerFilterer_ParseMessageExecutionFailed c log = parse_log c
     ''MessageExecutionFailed'' TeleporterMessengerMessageExecutionFailed log"

definition TeleporterMessengerReceiptReceivedIterator_Next ::
  "'w bound_contract \<Rightarrow> bool \<Rightarrow> iterator \<Rightarrow> (bool \<times> iterator) option" where
  "TeleporterMessengerReceiptReceivedIterator_Next c pick it = iterator_Next (parse_log c
     ''ReceiptReceived'' TeleporterMessengerReceiptReceived) TeleporterMessengerReceiptReceived
     pick it"

definition TeleporterMessengerReceiptReceivedIterator_Error :: "iterator \<Rightarrow> goerr option" where
  "TeleporterMessengerReceiptReceivedIterator_Error it = iterator_Error it"

definition TeleporterMessengerReceiptReceivedIterator_Close :: "iterator \<Rightarrow> goerr option \<times>
   iterator" where
  "TeleporterMessengerReceiptReceivedIterator_Close it = iterator_Close it"

definition TeleporterMessengerFilterer_FilterReceiptReceived ::
  "'w bound_contract \<Rightarrow> FilterOpts \<Rightarrow> hash list \<Rightarrow> hash list \<Rightarrow> address list \<Rightarrow> ('w, goerr +
     iterator) prog" where
  "TeleporterMessengerFilterer_FilterReceiptReceived c opts messageID destinationBlockchainID
     relayerRewardAddress =
     filter_events c opts ''ReceiptReceived'' [map GArr32 messageID, map GArr32
        destinationBlockchainID, map GAddr relayerRewardAddress]"

definition TeleporterMessengerFilterer_WatchReceiptReceived ::
  "'w bound_contract \<Rightarrow> hash list \<Rightarrow> hash list \<Rightarrow> address list \<Rightarrow> ('w, goerr + (evm_log \<Rightarrow> goerr +
     event_fields)) prog" where
  "TeleporterMessengerFilterer_WatchReceiptReceived c messageID destinationBlockchainID
     relayerRewardAddress =
     watch_events c ''ReceiptReceived'' TeleporterMessengerReceiptReceived [map GArr32
        messageID, map GArr32 destinationBlockchainID, map GAddr relayerRewardAddress]"

definition TeleporterMessengerFilterer_ParseReceiptReceived ::
  "'w bound_contract \<Rightarrow> evm_log \<Rightarrow> goerr + event_fields" where
  "TeleporterMessengerFilterer_ParseReceiptReceived c log = parse_log c ''ReceiptReceived''
     TeleporterMessengerReceiptReceived log"

definition TeleporterMessengerReceiveCrossChainMessageIterator_Next ::
  "'w bound_contract \<Rightarrow> bool \<Rightarrow> iterator \<Rightarrow> (bool \<times> iterator) option" where
  "TeleporterMessengerReceiveCrossChainMessageIterator_Next c pick it = iterator_Next (parse_log
     c ''ReceiveCrossChainMessage'' TeleporterMessengerReceiveCrossChainMessage)
     TeleporterMessengerReceiveCrossChainMessage pick it"

definition TeleporterMessengerReceiveCrossChainMessageIterator_Error :: "iterator \<Rightarrow> goerr
   option" where
  "TeleporterMessengerReceiveCrossChainMessageIterator_Error it = iterator_Error it"

definition TeleporterMessengerReceiveCrossChainMessageIterator_Close :: "iterator \<Rightarrow> goerr option
   \<times> iterator" where
  "TeleporterMessengerReceiveCrossChainMessageIterator_Close it = iterator_Close it"

definition TeleporterMessengerFilterer_FilterReceiveCrossChainMessage ::
  "'w bound_contract \<Rightarrow> FilterOpts \<Rightarrow> hash list \<Rightarrow> hash list \<Rightarrow> address list \<Rightarrow> ('w, goerr +
     iterator) prog" where
  "TeleporterMessengerFilterer_FilterReceiveCrossChainMessage c opts messageID
     sourceBlockchainID deliverer =
     filter_events c opts ''ReceiveCrossChainMessage'' [map GArr32 messageID, map GArr32
        sourceBlockchainID, map GAddr deliverer]"

definition TeleporterMessengerFilterer_WatchReceiveCrossChainMessage ::
  "'w bound_contract \<Rightarrow> hash list \<Rightarrow> hash list \<Rightarrow> address list \<Rightarrow> ('w, goerr + (evm_log \<Rightarrow> goerr +
     event_fields)) prog" where
  "TeleporterMessengerFilterer_WatchReceiveCrossChainMessage c messageID sourceBlockchainID
     deliverer =
     watch_events c ''ReceiveCrossChainMessage'' TeleporterMessengerReceiveCrossChainMessage
        [map GArr32 messageID, map GArr32 sourceBlockchainID, map GAddr deliverer]"

definition TeleporterMessengerFilterer_ParseReceiveCrossChainMessage ::
  "'w bound_contract \<Rightarrow> evm_log \<Rightarrow> goerr + event_fields" where
  "TeleporterMessengerFilterer_ParseReceiveCrossChainMessage c log = parse_log c
     ''ReceiveCrossChainMessage'' TeleporterMessengerReceiveCrossChainMessage log"

definition TeleporterMessengerRelayerRewardsRedeemedIterator_Next ::
  "'w bound_contract \<Rightarrow> bool \<Rightarrow> iterator \<Rightarrow> (bool \<times> iterator) option" where
  "TeleporterMessengerRelayerRewardsRedeemedIterator_Next c pick it = iterator_Next (parse_log c
     ''RelayerRewardsRedeemed'' TeleporterMessengerRelayerRewardsRedeemed)
     TeleporterMessengerRelayerRewardsRedeemed pick it"

definition TeleporterMessengerRelayerRewardsRedeemedIterator_Error :: "iterator \<Rightarrow> goerr option"
   where
  "TeleporterMessengerRelayerRewardsRedeemedIterator_Error it = iterator_Error it"

definition TeleporterMessengerRelayerRewardsRedeemedIterator_Close :: "iterator \<Rightarrow> goerr option \<times>
   iterator" where
  "TeleporterMessengerRelayerRewardsRedeemedIterator_Close it = iterator_Close it"

definition TeleporterMessengerFilterer_FilterRelayerRewardsRedeemed ::
  "'w bound_contract \<Rightarrow> FilterOpts \<Rightarrow> address list \<Rightarrow> address list \<Rightarrow> ('w, goerr + iterator) prog"
     where
  "TeleporterMessengerFilterer_FilterRelayerRewardsRedeemed c opts redeemer asset =
     filter_events c opts ''RelayerRewardsRedeemed'' [map GAddr redeemer, map GAddr asset]"

definition TeleporterMessengerFilterer_WatchRelayerRewardsRedeemed ::
  "'w bound_contract \<Rightarrow> address list \<Rightarrow> address list \<Rightarrow> ('w, goerr + (evm_log \<Rightarrow> goerr +
     event_fields)) prog" where
  "TeleporterMessengerFilterer_WatchRelayerRewardsRedeemed c redeemer asset =
     watch_events c ''RelayerRewardsRedeemed'' TeleporterMessengerRelayerRewardsRedeemed [map
        GAddr redeemer, map GAddr asset]"

definition TeleporterMessengerFilterer_ParseRelayerRewardsRedeemed ::
  "'w bound_contract \<Rightarrow> evm_log \<Rightarrow> goerr + event_fields" where
  "TeleporterMessengerFilterer_ParseRelayerRewardsRedeemed c log = parse_log c
     ''RelayerRewardsRedeemed'' TeleporterMessengerRelayerRewardsRedeemed log"

definition TeleporterMessengerSendCrossChainMessageIterator_Next ::
  "'w bound_contract \<Rightarrow> bool \<Rightarrow> iterator \<Rightarrow> (bool \<times> iterator) option" where
  "TeleporterMessengerSendCrossChainMessageIterator_Next c pick it = iterator_Next (parse_log c
     ''SendCrossChainMessage'' TeleporterMessengerSendCrossChainMessage)
     TeleporterMessengerSendCrossChainMessage pick it"

definition TeleporterMessengerSendCrossChainMessageIterator_Error :: "iterator \<Rightarrow> goerr option"
   where
  "TeleporterMessengerSendCrossChainMessageIterator_Error it = iterator_Error it"

definition TeleporterMessengerSendCrossChainMessageIterator_Close :: "iterator \<Rightarrow> goerr option \<times>
   iterator" where
  "TeleporterMessengerSendCrossChainMessageIterator_Close it = iterator_Close it"

definition TeleporterMessengerFilterer_FilterSendCrossChainMessage ::
  "'w bound_contract \<Rightarrow> FilterOpts \<Rightarrow> hash list \<Rightarrow> hash list \<Rightarrow> ('w, goerr + iterator) prog" where
  "TeleporterMessengerFilterer_FilterSendCrossChainMessage c opts messageID
     destinationBlockchainID =
     filter_events c opts ''SendCrossChainMessage'' [map GArr32 messageID, map GArr32
        destinationBlockchainID]"

definition TeleporterMessengerFilterer_WatchSendCrossChainMessage ::
  "'w bound_contract \<Rightarrow> hash list \<Rightarrow> hash list \<Rightarrow> ('w, goerr + (evm_log \<Rightarrow> goerr + event_fields))
     prog" where
  "TeleporterMessengerFilterer_WatchSendCrossChainMessage c messageID destinationBlockchainID =
     watch_events c ''SendCrossChainMessage'' TeleporterMessengerSendCrossChainMessage [map
        GArr32 messageID, map GArr32 destinationBlockchainID]"

definition TeleporterMessengerFilterer_ParseSendCrossChainMessage ::
  "'w bound_contract \<Rightarrow> evm_log \<Rightarrow> goerr + event_fields" where
  "TeleporterMessengerFilterer_ParseSendCrossChainMessage c log = parse_log c
     ''SendCrossChainMessage'' TeleporterMessengerSendCrossChainMessage log"

section \<open>What the methods declare\<close>

lemma messenger_methods:
  "map_of (Methods TeleporterMessengerABI) ''WARP_MESSENGER'' =
     Some ([], [([], TAddress)])"
  "map_of (Methods TeleporterMessengerABI) ''blockchainID'' =
     Some ([], [([], TBytes32)])"
  "map_of (Methods TeleporterMessengerABI) ''calculateMessageID'' =
     Some ([(''sourceBlockchainID'', TBytes32), (''destinationBlockchainID'', TBytes32),
        (''nonce'', TUint 256)], [([], TBytes32)])"
  "map_of (Methods TeleporterMessengerABI) ''checkRelayerRewardAmount'' =
     Some ([(''relayer'', TAddress), (''feeAsset'', TAddress)], [([], TUint 256)])"
  "map_of (Methods TeleporterMessengerABI) ''getFeeInfo'' =
     Some ([(''messageID'', TBytes32)], [([], TAddress), ([], TUint 256)])"
  "map_of (Methods TeleporterMessengerABI) ''getMessageHash'' =
     Some ([(''messageID'', TBytes32)], [([], TBytes32)])"
  "map_of (Methods TeleporterMessengerABI) ''getNextMessageID'' =
     Some ([(''destinationBlockchainID'', TBytes32)], [([], TBytes32)])"
  "map_of (Methods TeleporterMessengerABI) ''getReceiptAtIndex'' =
     Some ([(''sourceBlockchainID'', TBytes32), (''index'', TUint 256)], [([], receipt_tuple)])"
  "map_of (Methods TeleporterMessengerABI) ''getReceiptQueueSize'' =
     Some ([(''sourceBlockchainID'', TBytes32)], [([], TUint 256)])"
  "map_of (Methods TeleporterMessengerABI) ''getRelayerRewardAddress'' =
     Some ([(''messageID'', TBytes32)], [([], TAddress)])"
  "map_of (Methods TeleporterMessengerABI) ''messageNonce'' =
     Some ([], [([], TUint 256)])"
  "map_of (Methods TeleporterMessengerABI) ''messageReceived'' =
     Some ([(''messageID'', TBytes32)], [([], TBool)])"
  "map_of (Methods TeleporterMessengerABI) ''receiptQueues'' =
     Some ([(''sourceBlockchainID'', TBytes32)], [(''first'', TUint 256), (''last'', TUint
        256)])"
  "map_of (Methods TeleporterMessengerABI) ''receivedFailedMessageHashes'' =
     Some ([(''messageID'', TBytes32)], [(''messageHash'', TBytes32)])"
  "map_of (Methods TeleporterMessengerABI) ''sentMessageInfo'' =
     Some ([(''messageID'', TBytes32)], [(''messageHash'', TBytes32), (''feeInfo'',
        fee_info_tuple)])"
  "map_of (Methods TeleporterMessengerABI) ''addFeeAmount'' =
     Some ([(''messageID'', TBytes32), (''feeTokenAddress'', TAddress),
        (''additionalFeeAmount'', TUint 256)], [])"
  "map_of (Methods TeleporterMessengerABI) ''initializeBlockchainID'' =
     Some ([], [([], TBytes32)])"
  "map_of (Methods TeleporterMessengerABI) ''receiveCrossChainMessage'' =
     Some ([(''messageIndex'', TUint 32), (''relayerRewardAddress'', TAddress)], [])"
  "map_of (Methods TeleporterMessengerABI) ''redeemRelayerRewards'' =
     Some ([(''feeAsset'', TAddress)], [])"
  "map_of (Methods TeleporterMessengerABI) ''retryMessageExecution'' =
     Some ([(''sourceBlockchainID'', TBytes32), (''message'', message_tuple)], [])"
  "map_of (Methods TeleporterMessengerABI) ''retrySendCrossChainMessage'' =
     Some ([(''message'', message_tuple)], [])"
  "map_of (Methods TeleporterMessengerABI) ''sendCrossChainMessage'' =
     Some ([(''messageInput'', input_tuple)], [([], TBytes32)])"
  "map_of (Methods TeleporterMessengerABI) ''sendSpecifiedReceipts'' =
     Some ([(''sourceBlockchainID'', TBytes32), (''messageIDs'', TArray TBytes32), (''feeInfo'',
        fee_info_tuple), (''allowedRelayerAddresses'', TArray TAddress)], [([], TBytes32)])"
  by (simp_all add: TeleporterMessengerABI_def)

section \<open>Properties\<close>

text \<open>
  C30. Every transaction method of the \<open>TeleporterMessenger\<close> binding sends, with the caller's
     options,
  call data of its own contract method that the contract decodes to the arguments it was given.
\<close>

theorem messenger_transactions_decode:
  assumes "codec_methods k" and "codec_roundtrip k" and "bound_spec k TeleporterMessengerABI be
     c"
    and "in_uint256 additionalFeeAmount"
    and "message_ok message"
    and "input_ok messageInput"
    and "fee_info_ok feeInfo"
  shows "sends_call k TeleporterMessengerABI be opts ''addFeeAmount''
       [GArr32 messageID, GAddr feeTokenAddress, GBig additionalFeeAmount]
       (TeleporterMessengerTransactor_AddFeeAmount c opts messageID feeTokenAddress
          additionalFeeAmount) \<and>
     sends_call k TeleporterMessengerABI be opts ''initializeBlockchainID''
       []
       (TeleporterMessengerTransactor_InitializeBlockchainID c opts) \<and>
     sends_call k TeleporterMessengerABI be opts ''receiveCrossChainMessage''
       [GUint 32 (unat messageIndex), GAddr relayerRewardAddress]
       (TeleporterMessengerTransactor_ReceiveCrossChainMessage c opts messageIndex
          relayerRewardAddress) \<and>
     sends_call k TeleporterMessengerABI be opts ''redeemRelayerRewards''
       [GAddr feeAsset]
       (TeleporterMessengerTransactor_RedeemRelayerRewards c opts feeAsset) \<and>
     sends_call k TeleporterMessengerABI be opts ''retryMessageExecution''
       [GArr32 sourceBlockchainID, message_val message]
       (TeleporterMessengerTransactor_RetryMessageExecution c opts sourceBlockchainID message) \<and>
     sends_call k TeleporterMessengerABI be opts ''retrySendCrossChainMessage''
       [message_val message]
       (TeleporterMessengerTransactor_RetrySendCrossChainMessage c opts message) \<and>
     sends_call k TeleporterMessengerABI be opts ''sendCrossChainMessage''
       [input_val messageInput]
       (TeleporterMessengerTransactor_SendCrossChainMessage c opts messageInput) \<and>
     sends_call k TeleporterMessengerABI be opts ''sendSpecifiedReceipts''
       [GArr32 sourceBlockchainID, GSlice (map GArr32 messageIDs), fee_info_val feeInfo, GSlice
          (map GAddr allowedRelayerAddresses)]
       (TeleporterMessengerTransactor_SendSpecifiedReceipts c opts sourceBlockchainID messageIDs
          feeInfo allowedRelayerAddresses)"
proof -
  note sends = transact_sends [OF assms(1-3)]
  have index: "unat messageIndex < 2 ^ 32"
    using unsigned_less [of messageIndex] by simp
  show ?thesis
    unfolding TeleporterMessengerTransactor_AddFeeAmount_def
       TeleporterMessengerTransactor_InitializeBlockchainID_def
       TeleporterMessengerTransactor_ReceiveCrossChainMessage_def
       TeleporterMessengerTransactor_RedeemRelayerRewards_def
       TeleporterMessengerTransactor_RetryMessageExecution_def
       TeleporterMessengerTransactor_RetrySendCrossChainMessage_def
       TeleporterMessengerTransactor_SendCrossChainMessage_def
       TeleporterMessengerTransactor_SendSpecifiedReceipts_def
    by (intro conjI; rule sends, rule messenger_methods)
      (use assms index in \<open>simp_all del: matches.simps(1)\<close>)
qed

text \<open>
  Every read-only method of the \<open>TeleporterMessenger\<close> binding calls its own contract method
     with
  its arguments and, when the node answers with the packed outputs, returns those outputs.
\<close>

theorem messenger_calls_return_outputs:
  assumes "codec_methods k" and "codec_roundtrip k" and "bound_spec k TeleporterMessengerABI be
     c"
    and "in_uint256 nonce"
    and "in_uint256 ri"
    and "in_uint256 index"
    and "in_uint256 (ReceivedMessageNonce rr)"
    and "in_uint256 rj"
    and "fee_info_ok rf"
  shows "reads_call k TeleporterMessengerABI be opts ''WARP_MESSENGER'' []
       [GAddr ra] ra (TeleporterMessengerCaller_WARPMESSENGER c opts) \<and>
     reads_call k TeleporterMessengerABI be opts ''blockchainID'' []
       [GArr32 rh] rh (TeleporterMessengerCaller_BlockchainID c opts) \<and>
     reads_call k TeleporterMessengerABI be opts ''calculateMessageID'' [GArr32
        sourceBlockchainID, GArr32 destinationBlockchainID, GBig nonce]
       [GArr32 rh] rh (TeleporterMessengerCaller_CalculateMessageID c opts sourceBlockchainID
          destinationBlockchainID nonce) \<and>
     reads_call k TeleporterMessengerABI be opts ''checkRelayerRewardAmount'' [GAddr relayer,
        GAddr feeAsset]
       [GBig ri] ri (TeleporterMessengerCaller_CheckRelayerRewardAmount c opts relayer feeAsset)
          \<and>
     reads_call k TeleporterMessengerABI be opts ''getFeeInfo'' [GArr32 messageID]
       [GAddr ra, GBig ri] (ra, ri) (TeleporterMessengerCaller_GetFeeInfo c opts messageID) \<and>
     reads_call k TeleporterMessengerABI be opts ''getMessageHash'' [GArr32 messageID]
       [GArr32 rh] rh (TeleporterMessengerCaller_GetMessageHash c opts messageID) \<and>
     reads_call k TeleporterMessengerABI be opts ''getNextMessageID'' [GArr32
        destinationBlockchainID]
       [GArr32 rh] rh (TeleporterMessengerCaller_GetNextMessageID c opts
          destinationBlockchainID) \<and>
     reads_call k TeleporterMessengerABI be opts ''getReceiptAtIndex'' [GArr32
        sourceBlockchainID, GBig index]
       [receipt_val rr] rr (TeleporterMessengerCaller_GetReceiptAtIndex c opts
          sourceBlockchainID index) \<and>
     reads_call k TeleporterMessengerABI be opts ''getReceiptQueueSize'' [GArr32
        sourceBlockchainID]
       [GBig ri] ri (TeleporterMessengerCaller_GetReceiptQueueSize c opts sourceBlockchainID) \<and>
     reads_call k TeleporterMessengerABI be opts ''getRelayerRewardAddress'' [GArr32 messageID]
       [GAddr ra] ra (TeleporterMessengerCaller_GetRelayerRewardAddress c opts messageID) \<and>
     reads_call k TeleporterMessengerABI be opts ''messageNonce'' []
       [GBig ri] ri (TeleporterMessengerCaller_MessageNonce c opts) \<and>
     reads_call k TeleporterMessengerABI be opts ''messageReceived'' [GArr32 messageID]
       [GBool rb] rb (TeleporterMessengerCaller_MessageReceived c opts messageID) \<and>
     reads_call k TeleporterMessengerABI be opts ''receiptQueues'' [GArr32 sourceBlockchainID]
       [GBig ri, GBig rj] (ri, rj) (TeleporterMessengerCaller_ReceiptQueues c opts
          sourceBlockchainID) \<and>
     reads_call k TeleporterMessengerABI be opts ''receivedFailedMessageHashes'' [GArr32
        messageID]
       [GArr32 rh] rh (TeleporterMessengerCaller_ReceivedFailedMessageHashes c opts messageID) \<and>
     reads_call k TeleporterMessengerABI be opts ''sentMessageInfo'' [GArr32 messageID]
       [GArr32 rh, fee_info_val rf] (rh, rf) (TeleporterMessengerCaller_SentMessageInfo c opts
          messageID)"
proof -
  note reads = call_reads [OF assms(1-3)]
  show ?thesis
    unfolding TeleporterMessengerCaller_WARPMESSENGER_def
       TeleporterMessengerCaller_BlockchainID_def
       TeleporterMessengerCaller_CalculateMessageID_def
       TeleporterMessengerCaller_CheckRelayerRewardAmount_def
       TeleporterMessengerCaller_GetFeeInfo_def TeleporterMessengerCaller_GetMessageHash_def
       TeleporterMessengerCaller_GetNextMessageID_def
       TeleporterMessengerCaller_GetReceiptAtIndex_def
       TeleporterMessengerCaller_GetReceiptQueueSize_def
       TeleporterMessengerCaller_GetRelayerRewardAddress_def
       TeleporterMessengerCaller_MessageNonce_def TeleporterMessengerCaller_MessageReceived_def
       TeleporterMessengerCaller_ReceiptQueues_def
       TeleporterMessengerCaller_ReceivedFailedMessageHashes_def
       TeleporterMessengerCaller_SentMessageInfo_def
    by (intro conjI; rule reads, rule messenger_methods)
      (use assms in \<open>simp_all del: matches.simps(1)\<close>)
qed

theorem messenger_transactions_decode_witness:
  "sends_call ref_codec TeleporterMessengerABI (example_backend []) example_transact_opts
     ''sendCrossChainMessage''
     [input_val example_input]
     (TeleporterMessengerTransactor_SendCrossChainMessage
       (spec_contract ref_codec TeleporterMessengerABI (example_backend []))
          example_transact_opts example_input)"
  using messenger_transactions_decode [OF ref_methods ref_roundtrip spec_contract_ok, where
      additionalFeeAmount = 0 and message = example_message and messageInput = example_input and
      feeInfo = "\<lparr>FeeTokenAddress = 1, Amount = 1\<rparr>" and be = "example_backend []" and opts =
         example_transact_opts]
  by (simp add: in_uint256_def fee_info_ok_def)

theorem messenger_calls_return_outputs_witness:
  "reads_call ref_codec TeleporterMessengerABI (example_backend []) example_call_opts
     ''messageReceived'' [GArr32 9]
     [GBool True] True
     (TeleporterMessengerCaller_MessageReceived
       (spec_contract ref_codec TeleporterMessengerABI (example_backend [])) example_call_opts
          9)"
  using messenger_calls_return_outputs [OF ref_methods ref_roundtrip spec_contract_ok, where
      nonce = 0 and ri = 0 and index = 0 and rr = "\<lparr>ReceivedMessageNonce = 1,
         RelayerRewardAddress = 1\<rparr>"
      and rj = 0 and rf = "\<lparr>FeeTokenAddress = 1, Amount = 1\<rparr>" and be = "example_backend []"
      and opts = example_call_opts and messageID = 9 and rb = True]
  by (simp add: in_uint256_def fee_info_ok_def)

text \<open>The parser of each event the enumeration \<open>Event\<close> knows.\<close>

definition messenger_parse :: "'w bound_contract \<Rightarrow> u8 \<Rightarrow> evm_log \<Rightarrow> goerr + event_fields" where
  "messenger_parse c e log =
     (if e = SendCrossChainMessage then
        TeleporterMessengerFilterer_ParseSendCrossChainMessage c log
      else if e = ReceiveCrossChainMessage then
        TeleporterMessengerFilterer_ParseReceiveCrossChainMessage c log
      else if e = AddFeeAmount then TeleporterMessengerFilterer_ParseAddFeeAmount c log
      else if e = MessageExecutionFailed then
        TeleporterMessengerFilterer_ParseMessageExecutionFailed c log
      else if e = MessageExecuted then TeleporterMessengerFilterer_ParseMessageExecuted c log
      else if e = RelayerRewardsRedeemed then
        TeleporterMessengerFilterer_ParseRelayerRewardsRedeemed c log
      else TeleporterMessengerFilterer_ParseReceiptReceived c log)"

lemma messenger_parse_simps:
  "messenger_parse c SendCrossChainMessage =
     TeleporterMessengerFilterer_ParseSendCrossChainMessage c"
  "messenger_parse c ReceiveCrossChainMessage =
     TeleporterMessengerFilterer_ParseReceiveCrossChainMessage c"
  "messenger_parse c AddFeeAmount = TeleporterMessengerFilterer_ParseAddFeeAmount c"
  "messenger_parse c MessageExecutionFailed =
     TeleporterMessengerFilterer_ParseMessageExecutionFailed c"
  "messenger_parse c MessageExecuted = TeleporterMessengerFilterer_ParseMessageExecuted c"
  "messenger_parse c RelayerRewardsRedeemed =
     TeleporterMessengerFilterer_ParseRelayerRewardsRedeemed c"
  "messenger_parse c ReceiptReceived = TeleporterMessengerFilterer_ParseReceiptReceived c"
  by (simp_all add: fun_eq_iff messenger_parse_def event_constants)

lemma messenger_parse_eq:
  assumes "e \<in> set known_events" and "new_event e = Inr (dyn, zero)"
  shows "messenger_parse c e log = parse_log c (Event_String e) zero log"
proof -
  have "e = SendCrossChainMessage \<or> e = ReceiveCrossChainMessage \<or> e = AddFeeAmount \<or>
      e = MessageExecutionFailed \<or> e = MessageExecuted \<or> e = RelayerRewardsRedeemed \<or>
      e = ReceiptReceived"
    using assms(1) by (simp add: known_events_def)
  then show ?thesis
    using assms(2)
    by (elim disjE; hypsubst)
      (simp_all add: new_event_simps messenger_parse_simps Event_String_simps event_names
        TeleporterMessengerFilterer_ParseSendCrossChainMessage_def
        TeleporterMessengerFilterer_ParseReceiveCrossChainMessage_def
        TeleporterMessengerFilterer_ParseAddFeeAmount_def
        TeleporterMessengerFilterer_ParseMessageExecutionFailed_def
        TeleporterMessengerFilterer_ParseMessageExecuted_def
        TeleporterMessengerFilterer_ParseRelayerRewardsRedeemed_def
        TeleporterMessengerFilterer_ParseReceiptReceived_def)
qed

text \<open>
  The parser of a known event reads a log of that event back: every argument the contract
     emitted
  is in the field of its name and \<open>Raw\<close> is the log itself. A log without topics or of another
     event
  is refused with an error, so a caller that tries a parser on every log of a receipt picks only
  logs of that event.
\<close>

theorem messenger_parsers_decode:
  assumes "codec_methods k" and "codec_events k" and "event_ids k TeleporterMessengerABI"
    and "bound_spec k TeleporterMessengerABI be c" and "e \<in> set known_events"
  shows "(matches_args (event_args (declared e)) args \<longrightarrow>
      pack_event k TeleporterMessengerABI (Event_String e) args = Inr (LogTopics log, LogData
         log) \<longrightarrow>
      (\<exists>fs. messenger_parse c e log = Inr fs \<and>
         (\<forall>i < length (declared e). map_of fs (export_name (fst (declared e ! i))) = Some (args
            ! i)) \<and>
         map_of fs ''Raw'' = Some (log_val log))) \<and>
     (LogTopics log = [] \<or>
        event_by_id k TeleporterMessengerABI (hd (LogTopics log)) \<noteq> Inr (Event_String e) \<longrightarrow>
      \<not> is_Ok (messenger_parse c e log))"
proof -
  obtain zero where new: "new_event e = Inr (''TeleporterMessenger'' @ Event_String e, zero)"
      and zero: "decodable (declared e) zero"
    using new_event_known [OF assms(5)] by blast
  have "parser_decodes k TeleporterMessengerABI (Event_String e)
      (parse_log c (Event_String e) zero)"
    by (rule parse_log_decodes [OF assms(2-4) declared_in_abi [OF assms(5)] zero])
  then show ?thesis
    unfolding parser_decodes_def messenger_parse_eq [OF assms(5) new]
      declared_in_abi [OF assms(5)] by auto
qed

theorem messenger_parsers_decode_witness:
  "\<not> is_Ok (messenger_parse (spec_contract ref_codec TeleporterMessengerABI (example_backend
     []))
     AddFeeAmount \<lparr>LogAddress = 1, LogTopics = [], LogData = [], LogBlockNumber = 1, LogTxHash =
        0,
       LogTxIndex = 0, LogBlockHash = 0, LogIndex = 0, LogRemoved = False\<rparr>)"
  using messenger_parsers_decode [OF ref_methods ref_events ref_event_ids spec_contract_ok,
     where e = AddFeeAmount
      and be = "example_backend []" and log = "\<lparr>LogAddress = 1, LogTopics = [], LogData = [],
        LogBlockNumber = 1, LogTxHash = 0, LogTxIndex = 0, LogBlockHash = 0, LogIndex = 0,
        LogRemoved = False\<rparr>"]
  by (simp add: known_events_def)

end
