(* ===== verification/MessengerAgreement.thy ===== *)
theory MessengerAgreement
  imports TeleporterMessengerBinding
begin

text \<open>
  The code of the Teleporter messenger that exists twice, by hand (\<open>packing.go\<close>, \<open>event.go\<close>) and in the
  generated binding (\<open>TeleporterMessenger.go\<close>): both build the same calls and decode logs alike.
\<close>

text \<open>The data of a packer sent by a node client: a packing error is returned, and nothing sent.\<close>

definition send_packed ::
  "'w backend \<Rightarrow> TransactOpts \<Rightarrow> goerr + bytes \<Rightarrow> ('w, goerr + hash) prog" where
  "send_packed be opts packed =
     (case packed of Inl e \<Rightarrow> ret (Inl e) | Inr data \<Rightarrow> send_data be opts data)"

lemma transact_eq_send_packed:
  "bound_spec k abi be c \<Longrightarrow>
   contract_transact c opts m vals = send_packed be opts (pack_method k abi m vals)"
  by (simp add: bound_spec_def send_packed_def)

text \<open>
  The data of a packer as the request of a call: a packing error is returned, and nothing asked; an error of
  the node is returned; and its answer is read with the given unpacker.
\<close>

definition call_packed ::
  "'w backend \<Rightarrow> CallOpts \<Rightarrow> goerr + bytes \<Rightarrow> (bytes \<Rightarrow> goerr + 'a) \<Rightarrow> ('w, goerr + 'a) prog" where
  "call_packed be opts packed unpack =
     (case packed of
        Inl e \<Rightarrow> ret (Inl e)
      | Inr data \<Rightarrow> bnd (call_data be opts data) (\<lambda>r. ret (rbind r unpack)))"

text \<open>\<open>Arguments.Unpack\<close> gives one value of the declared type for one output.\<close>

definition codec_scalars :: "abi_codec \<Rightarrow> bool" where
  "codec_scalars k \<longleftrightarrow>
     (\<forall>n b vs. unpack_args k [(n, TBool)] b = Inr vs \<longrightarrow> (\<exists>x. vs = [GBool x])) \<and>
     (\<forall>n b vs. unpack_args k [(n, TBytes32)] b = Inr vs \<longrightarrow> (\<exists>h. vs = [GArr32 h]))"

lemma ref_scalars: "codec_scalars ref_codec"
  by (auto simp: codec_scalars_def ref_codec_def ref_unpack_def read_word_def split: option.splits bind_splits
      if_splits)

lemma unpack_output_scalar:
  assumes "codec_methods k" and "codec_scalars k"
  shows "unpack_output k TeleporterMessengerABI ''messageReceived'' b = Inr vs \<Longrightarrow> \<exists>x. vs = [GBool x]"
    and "unpack_output k TeleporterMessengerABI ''calculateMessageID'' b = Inr vs \<Longrightarrow> \<exists>h. vs = [GArr32 h]"
  using assms teleporter_methods(4,5) unfolding codec_methods_def codec_scalars_def by auto

lemma call_method_eq_call_packed:
  assumes "bound_spec k abi be c"
    and "\<And>b vs. unpack_output k abi m b = Inr vs \<Longrightarrow> \<exists>v x. vs = [v] \<and> conv v = Some x"
  shows "call_method c opts m vals (out1 conv) =
    call_packed be opts (pack_method k abi m vals) (\<lambda>b. rbind (unpack_output k abi m b) (Copy1 conv))"
proof (rule ext)
  fix s
  have read: "(case unpack_output k abi m b of Inl e \<Rightarrow> ret (Inl e)
      | Inr out \<Rightarrow> (case out1 conv out of None \<Rightarrow> panicked p | Some x \<Rightarrow> ret (Inr x))) s =
      ret (rbind (unpack_output k abi m b) (Copy1 conv)) s" for b p s
  proof (cases "unpack_output k abi m b")
    case (Inr vs)
    with assms(2) obtain v x where "vs = [v]" and "conv v = Some x"
      by blast
    with Inr show ?thesis
      by (simp add: rbind_def out1_def out_at_def)
  qed (simp add: rbind_def)
  have call: "contract_call c opts m vals =
      (case pack_method k abi m vals of
         Inl e \<Rightarrow> ret (Inl e)
       | Inr d \<Rightarrow> bnd (call_data be opts d) (\<lambda>r. ret (rbind r (unpack_output k abi m))))"
    using assms(1) by (simp add: bound_spec_def)
  show "call_method c opts m vals (out1 conv) s =
      call_packed be opts (pack_method k abi m vals) (\<lambda>b. rbind (unpack_output k abi m b) (Copy1 conv)) s"
  proof (cases "pack_method k abi m vals")
    case (Inl e)
    then show ?thesis
      by (simp add: call_method_def call_packed_def call bnd_def ret_def)
  next
    case (Inr d)
    obtain r s1 where answer: "call_data be opts d s = (r, s1)"
      by fastforce
    show ?thesis
    proof (cases r)
      case (Returned a)
      show ?thesis
      proof (cases a)
        case (Inl e)
        with Inr answer Returned \<open>pack_method k abi m vals = Inr d\<close> show ?thesis
          by (simp add: call_method_def call_packed_def call bnd_def ret_def rbind_def)
      next
        case (Inr b)
        with read [of _ b s1] answer Returned \<open>pack_method k abi m vals = Inr d\<close> show ?thesis
          by (simp add: call_method_def call_packed_def call bnd_def ret_def rbind_def)
      qed
    qed (use Inr answer in \<open>simp_all add: call_method_def call_packed_def call bnd_def\<close>)
  qed
qed

text \<open>
  C31. The hand-written packers of \<open>packing.go\<close> and the generated binding speak the same protocol, for
  each of the five contract calls both can make and every input, also out of range. For the three
  messages, the binding's transactor sends exactly the bytes the packer returns, and fails with the
  packer's error when it fails. For \<open>calculateMessageID\<close> and \<open>messageReceived\<close> the binding asks the
  node with exactly the packer's bytes and returns the packer's error and the node's error alike;
  it reads the answer to \<open>messageReceived\<close> as \<open>UnpackMessageReceivedResult\<close> does, errors included, and
  the one to \<open>calculateMessageID\<close> so that what \<open>PackCalculateMessageIDOutput\<close> packs is read back.
\<close>

theorem hand_packers_agree_with_binding:
  assumes "codec_methods k" and "codec_roundtrip k" and "codec_scalars k"
    and "bound_spec k TeleporterMessengerABI be c"
  shows "TeleporterMessengerTransactor_SendCrossChainMessage c opts messageInput =
       send_packed be opts (PackSendCrossChainMessage k messageInput) \<and>
     TeleporterMessengerTransactor_RetryMessageExecution c opts sourceBlockchainID message =
       send_packed be opts (PackRetryMessageExecution k sourceBlockchainID message) \<and>
     TeleporterMessengerTransactor_ReceiveCrossChainMessage c opts index relayer =
       send_packed be opts (PackReceiveCrossChainMessage k index relayer) \<and>
     TeleporterMessengerCaller_MessageReceived c callOpts messageID =
       call_packed be callOpts (PackMessageReceived k messageID) (UnpackMessageReceivedResult k) \<and>
     (\<exists>unpack. (\<forall>h b. PackCalculateMessageIDOutput k h = Inr b \<longrightarrow> unpack b = Inr h) \<and>
       TeleporterMessengerCaller_CalculateMessageID c callOpts src dst nonce =
         call_packed be callOpts (PackCalculateMessageID k src dst nonce) unpack)"
proof -
  note sent = transact_eq_send_packed [OF assms(4)] teleporter_abi_ok [OF assms(1)]
  let ?ID = "\<lambda>b. rbind (unpack_output k TeleporterMessengerABI ''calculateMessageID'' b) (Copy1 go_arr32)"
  have read_back: "?ID b = Inr h" if "PackCalculateMessageIDOutput k h = Inr b" for h b
  proof -
    have "pack_args k [([], TBytes32)] [GArr32 h] = Inr b"
      using that assms(1) teleporter_methods(4)
      by (simp add: PackCalculateMessageIDOutput_def sent codec_methods_def)
    then have "unpack_args k [([], TBytes32)] b = Inr [GArr32 h]"
      using codec_roundtrip1 [OF assms(2), of TBytes32 "GArr32 h" "[]"] by auto
    then show ?thesis
      using assms(1) teleporter_methods(4) by (simp add: codec_methods_def)
  qed
  have "call_method c callOpts ''calculateMessageID'' vals (out1 go_arr32) =
      call_packed be callOpts (pack_method k TeleporterMessengerABI ''calculateMessageID'' vals) ?ID" for vals
    by (rule call_method_eq_call_packed [OF assms(4)])
      (drule unpack_output_scalar(2) [OF assms(1,3)], force)
  then have calculate: "TeleporterMessengerCaller_CalculateMessageID c callOpts src dst nonce =
      call_packed be callOpts (PackCalculateMessageID k src dst nonce) ?ID"
    by (simp add: TeleporterMessengerCaller_CalculateMessageID_def PackCalculateMessageID_def sent)
  have "call_method c callOpts ''messageReceived'' vals (out1 go_bool) =
      call_packed be callOpts (pack_method k TeleporterMessengerABI ''messageReceived'' vals)
        (\<lambda>b. rbind (unpack_output k TeleporterMessengerABI ''messageReceived'' b) (Copy1 go_bool))" for vals
    by (rule call_method_eq_call_packed [OF assms(4)])
      (drule unpack_output_scalar(1) [OF assms(1,3)], force)
  then have received: "TeleporterMessengerCaller_MessageReceived c callOpts messageID =
      call_packed be callOpts (PackMessageReceived k messageID) (UnpackMessageReceivedResult k)"
    by (simp add: TeleporterMessengerCaller_MessageReceived_def PackMessageReceived_def
        UnpackMessageReceivedResult_def [abs_def] sent)
  have sends: "TeleporterMessengerTransactor_SendCrossChainMessage c opts messageInput =
        send_packed be opts (PackSendCrossChainMessage k messageInput)"
      "TeleporterMessengerTransactor_RetryMessageExecution c opts sourceBlockchainID message =
        send_packed be opts (PackRetryMessageExecution k sourceBlockchainID message)"
      "TeleporterMessengerTransactor_ReceiveCrossChainMessage c opts index relayer =
        send_packed be opts (PackReceiveCrossChainMessage k index relayer)"
    by (simp_all add: TeleporterMessengerTransactor_SendCrossChainMessage_def
        TeleporterMessengerTransactor_RetryMessageExecution_def
        TeleporterMessengerTransactor_ReceiveCrossChainMessage_def
        PackSendCrossChainMessage_def PackRetryMessageExecution_def PackReceiveCrossChainMessage_def sent)
  show ?thesis
    by (intro conjI exI [of _ ?ID] allI impI; (fact sends | fact received | fact calculate | rule read_back, assumption))
qed

theorem hand_packers_agree_with_binding_witness:
  "\<exists>out. TeleporterMessengerTransactor_SendCrossChainMessage
       (spec_contract ref_codec TeleporterMessengerABI (example_backend out))
       example_transact_opts example_input =
     send_packed (example_backend out) example_transact_opts (PackSendCrossChainMessage ref_codec example_input) \<and>
     TeleporterMessengerCaller_MessageReceived
       (spec_contract ref_codec TeleporterMessengerABI (example_backend out))
       example_call_opts 9 () = (Returned (Inr True), ()) \<and>
     TeleporterMessengerCaller_MessageReceived
       (spec_contract ref_codec TeleporterMessengerABI
         ((example_backend out)\<lparr>call_data := \<lambda>opts d. ret (Inl [''connection refused''])\<rparr>))
       example_call_opts 9 () = (Returned (Inl [''connection refused'']), ()) \<and>
     TeleporterMessengerCaller_CalculateMessageID
       (spec_contract ref_codec TeleporterMessengerABI (example_backend out))
       example_call_opts 5 6 (-1) () = (Returned (Inl [''abi: type mismatch'']), ())"
proof -
  obtain out where out: "UnpackMessageReceivedResult ref_codec out = Inr True"
    using message_received_result_roundtrip [OF ref_methods ref_roundtrip] by blast
  have "call_of ref_codec TeleporterMessengerABI ''messageReceived'' [GArr32 9]
      (PackMessageReceived ref_codec 9)"
    using call_of_pack_method [OF ref_methods ref_roundtrip teleporter_methods(5)]
    by (simp add: PackMessageReceived_def teleporter_abi_ok [OF ref_methods])
  then obtain data where data: "PackMessageReceived ref_codec 9 = Inr data"
    by (auto simp: call_of_def)
  have negative: "PackCalculateMessageID ref_codec 5 6 (-1) = Inl [''abi: type mismatch'']"
    using teleporter_methods(4)
    by (simp add: PackCalculateMessageID_def teleporter_abi_ok [OF ref_methods])
      (simp add: rbind_def ref_codec_def ref_pack_def in_uint256_def)
  note agree = hand_packers_agree_with_binding [OF ref_methods ref_roundtrip ref_scalars spec_contract_ok]
  show ?thesis
  proof (intro exI conjI)
    show "TeleporterMessengerCaller_MessageReceived (spec_contract ref_codec TeleporterMessengerABI (example_backend out))
        example_call_opts 9 () = (Returned (Inr True), ())"
      using agree [of "example_backend out"] data out
      by (simp add: call_packed_def example_backend_def bnd_def ret_def rbind_def)
    let ?down = "(example_backend out)\<lparr>call_data := \<lambda>opts d. ret (Inl [''connection refused''])\<rparr>"
    show "TeleporterMessengerCaller_MessageReceived (spec_contract ref_codec TeleporterMessengerABI ?down)
        example_call_opts 9 () = (Returned (Inl [''connection refused'']), ())"
      using agree [of ?down] data by (simp add: call_packed_def bnd_def ret_def rbind_def)
    show "TeleporterMessengerCaller_CalculateMessageID (spec_contract ref_codec TeleporterMessengerABI (example_backend out))
        example_call_opts 5 6 (-1) () = (Returned (Inl [''abi: type mismatch'']), ())"
      using agree [where be = "example_backend out" and src = 5 and dst = 6 and nonce = "-1"] negative
      by (auto simp: call_packed_def ret_def)
  qed (use agree [of "example_backend out"] in blast)
qed

text \<open>
  C19. The two decoders of Teleporter logs agree on every log, well formed or not, whose first topic is
  the identifier of a known event: \<open>FilterTeleporterEvents\<close> (the command line tool) produces the
  event's struct exactly when the parser of the generated binding succeeds, and the two structs differ
  only in \<open>Raw\<close>, which the binding sets to the log.
\<close>

theorem event_decoders_agree:
  assumes "codec_methods k" and "bound_spec k TeleporterMessengerABI be c"
    and "e \<in> set known_events" and "ToLower name = ToLower (Event_String e)"
    and "LogTopics log = topic # topics"
    and "event_by_id k TeleporterMessengerABI topic = Inr (Event_String e)"
  shows "messenger_parse c e log = Inr fs \<longleftrightarrow>
     (\<exists>gs. FilterTeleporterEvents k (LogTopics log) (LogData log) name =
        Done (Inr (''TeleporterMessenger'' @ Event_String e, GStruct gs)) \<and>
        fs = set_field ''Raw'' (log_val log) gs)"
proof -
  obtain zero where new: "new_event e = Inr (''TeleporterMessenger'' @ Event_String e, zero)"
    using new_event_known [OF assms(3)] by blast
  have "ToEvent name = Inr e"
    using assms(3,4) by (simp add: ToEvent_Inr_iff)
  then show ?thesis
    unfolding messenger_parse_eq [OF assms(3) new]
    using bound_UnpackLog [OF assms(2)] assms(5,6)
    by (auto simp: parse_log_def unpack_log_def FilterTeleporterEvents_def new UnpackEvent_def
        teleporter_abi_ok [OF assms(1)] rbind_def event_inputs_def
        split: sum.splits go_val.splits option.splits if_splits)
qed

theorem event_decoders_agree_witness:
  "\<exists>log fs gs. messenger_parse (spec_contract ref_codec TeleporterMessengerABI (example_backend []))
       MessageExecuted log = Inr fs \<and>
     FilterTeleporterEvents ref_codec (LogTopics log) (LogData log) ''messageexecuted'' =
       Done (Inr (''TeleporterMessengerMessageExecuted'', GStruct gs)) \<and>
     map_of gs ''MessageID'' = Some (GArr32 9) \<and> fs = set_field ''Raw'' (log_val log) gs"
proof -
  let ?e = "MessageExecuted"
  let ?args = "[GArr32 9, GArr32 5]"
  have known: "?e \<in> set known_events"
    by (simp add: known_events_def)
  have name: "ToLower ''messageexecuted'' = ToLower (Event_String ?e)"
    by (simp add: Event_String_simps event_names ToLower_def)
  have args: "matches_args (event_args (declared ?e)) ?args"
    by (simp add: declared_simps event_args_Cons)
  obtain fs where "decodable (declared ?e) fs"
    using new_event_known [OF known] by blast
  then obtain topic topics data where
      pack: "pack_event ref_codec TeleporterMessengerABI (Event_String ?e) ?args =
        Inr (topic # topics, data)"
    using UnpackEvent_stored [OF ref_methods ref_events known _ args] by metis
  then obtain out where
      out: "FilterTeleporterEvents ref_codec (topic # topics) data ''messageexecuted'' =
        Done (Inr (''TeleporterMessenger'' @ Event_String ?e, out))"
      and fields: "\<forall>k < length (declared ?e).
        go_field (export_name (fst (declared ?e ! k))) out = Some (?args ! k)"
    using decode_event_log [OF ref_methods ref_events known name args] by auto
  have "go_field ''MessageID'' out = Some (GArr32 9)"
    using fields [rule_format, of 0] by (simp add: declared_simps)
  then obtain gs where gs: "out = GStruct gs" and id: "map_of gs ''MessageID'' = Some (GArr32 9)"
    by (cases out) simp_all
  have topic: "event_by_id ref_codec TeleporterMessengerABI topic = Inr (Event_String ?e)"
    using ref_event_ids pack unfolding event_ids_def by blast
  let ?log = "example_log\<lparr>LogTopics := topic # topics, LogData := data\<rparr>"
  have log: "LogTopics ?log = topic # topics" "LogData ?log = data"
    by (simp_all add: example_log_def)
  have "messenger_parse (spec_contract ref_codec TeleporterMessengerABI (example_backend [])) ?e ?log =
      Inr (set_field ''Raw'' (log_val ?log) gs)"
    by (rule event_decoders_agree [OF ref_methods spec_contract_ok known name log(1) topic,
          THEN iffD2]) (simp only: log out gs, blast)
  moreover have "FilterTeleporterEvents ref_codec (LogTopics ?log) (LogData ?log) ''messageexecuted'' =
      Done (Inr (''TeleporterMessengerMessageExecuted'', GStruct gs))"
    using out by (simp only: log gs Event_String_simps event_names append.simps)
  ultimately show ?thesis
    using id by blast
qed

end
