(* ===== verification/TeleporterRegistryBinding.thy ===== *)
theory TeleporterRegistryBinding
  imports Binding Events RegistryPacking
begin

text \<open>
  The generated binding \<open>abi-bindings/go/teleporter/registry/TeleporterRegistry/TeleporterRegistry.go\<close>
  over the generic definitions of theory \<open>Binding\<close>; struct and ABI data are in \<open>RegistryPacking\<close>.
\<close>

section \<open>Binding and deployment\<close>

definition bindTeleporterRegistry :: "'w bind_lib \<Rightarrow> address \<Rightarrow> goerr + 'w bound_contract" where
  "bindTeleporterRegistry lib addr = bind_contract lib TeleporterRegistryABI addr"

definition NewTeleporterRegistry :: "'w bind_lib \<Rightarrow> address \<Rightarrow> goerr + 'w bound_contract" where
  "NewTeleporterRegistry lib addr = bindTeleporterRegistry lib addr"

definition DeployTeleporterRegistry ::
  "'w bind_lib \<Rightarrow> string \<Rightarrow> TransactOpts \<Rightarrow> ProtocolRegistryEntry list \<Rightarrow> 
   ('w, goerr + address \<times> hash \<times> 'w bound_contract) prog" where
  "DeployTeleporterRegistry lib bin auth initialEntries = deploy_contract lib auth
     TeleporterRegistryABI bin [GSlice (map registry_entry_val initialEntries)]"

section \<open>Methods\<close>

definition TeleporterRegistryCaller_MAXVERSIONINCREMENT ::
  "'w bound_contract \<Rightarrow> CallOpts \<Rightarrow> ('w, goerr + int) prog" where
  "TeleporterRegistryCaller_MAXVERSIONINCREMENT c opts =
     call_method c opts ''MAX_VERSION_INCREMENT'' [] (out1 go_big)"

definition TeleporterRegistrySession_MAXVERSIONINCREMENT ::
  "'w session \<Rightarrow> ('w, goerr + int) prog" where
  "TeleporterRegistrySession_MAXVERSIONINCREMENT s =
     TeleporterRegistryCaller_MAXVERSIONINCREMENT (SessionContract s) (SessionCallOpts s)"

definition TeleporterRegistryCaller_VALIDATORSSOURCEADDRESS ::
  "'w bound_contract \<Rightarrow> CallOpts \<Rightarrow> ('w, goerr + address) prog" where
  "TeleporterRegistryCaller_VALIDATORSSOURCEADDRESS c opts =
     call_method c opts ''VALIDATORS_SOURCE_ADDRESS'' [] (out1 go_addr)"

definition TeleporterRegistrySession_VALIDATORSSOURCEADDRESS ::
  "'w session \<Rightarrow> ('w, goerr + address) prog" where
  "TeleporterRegistrySession_VALIDATORSSOURCEADDRESS s =
     TeleporterRegistryCaller_VALIDATORSSOURCEADDRESS (SessionContract s) (SessionCallOpts s)"

definition TeleporterRegistryCaller_WARPMESSENGER ::
  "'w bound_contract \<Rightarrow> CallOpts \<Rightarrow> ('w, goerr + address) prog" where
  "TeleporterRegistryCaller_WARPMESSENGER c opts =
     call_method c opts ''WARP_MESSENGER'' [] (out1 go_addr)"

definition TeleporterRegistrySession_WARPMESSENGER ::
  "'w session \<Rightarrow> ('w, goerr + address) prog" where
  "TeleporterRegistrySession_WARPMESSENGER s = TeleporterRegistryCaller_WARPMESSENGER
     (SessionContract s) (SessionCallOpts s)"

definition TeleporterRegistryTransactor_AddProtocolVersion ::
  "'w bound_contract \<Rightarrow> TransactOpts \<Rightarrow> u32 \<Rightarrow> ('w, goerr + hash) prog" where
  "TeleporterRegistryTransactor_AddProtocolVersion c opts messageIndex =
     contract_transact c opts ''addProtocolVersion'' [GUint 32 (unat messageIndex)]"

definition TeleporterRegistrySession_AddProtocolVersion ::
  "'w session \<Rightarrow> u32 \<Rightarrow> ('w, goerr + hash) prog" where
  "TeleporterRegistrySession_AddProtocolVersion s messageIndex =
     TeleporterRegistryTransactor_AddProtocolVersion (SessionContract s) (SessionTransactOpts s)
     messageIndex"

definition TeleporterRegistryCaller_BlockchainID ::
  "'w bound_contract \<Rightarrow> CallOpts \<Rightarrow> ('w, goerr + hash) prog" where
  "TeleporterRegistryCaller_BlockchainID c opts =
     call_method c opts ''blockchainID'' [] (out1 go_arr32)"

definition TeleporterRegistrySession_BlockchainID ::
  "'w session \<Rightarrow> ('w, goerr + hash) prog" where
  "TeleporterRegistrySession_BlockchainID s = TeleporterRegistryCaller_BlockchainID
     (SessionContract s) (SessionCallOpts s)"

definition TeleporterRegistryCaller_GetAddressFromVersion ::
  "'w bound_contract \<Rightarrow> CallOpts \<Rightarrow> int \<Rightarrow> ('w, goerr + address) prog" where
  "TeleporterRegistryCaller_GetAddressFromVersion c opts version =
     call_method c opts ''getAddressFromVersion'' [GBig version] (out1 go_addr)"

definition TeleporterRegistrySession_GetAddressFromVersion ::
  "'w session \<Rightarrow> int \<Rightarrow> ('w, goerr + address) prog" where
  "TeleporterRegistrySession_GetAddressFromVersion s version =
     TeleporterRegistryCaller_GetAddressFromVersion (SessionContract s) (SessionCallOpts s)
     version"

definition TeleporterRegistryCaller_GetLatestTeleporter ::
  "'w bound_contract \<Rightarrow> CallOpts \<Rightarrow> ('w, goerr + address) prog" where
  "TeleporterRegistryCaller_GetLatestTeleporter c opts =
     call_method c opts ''getLatestTeleporter'' [] (out1 go_addr)"

definition TeleporterRegistrySession_GetLatestTeleporter ::
  "'w session \<Rightarrow> ('w, goerr + address) prog" where
  "TeleporterRegistrySession_GetLatestTeleporter s =
     TeleporterRegistryCaller_GetLatestTeleporter (SessionContract s) (SessionCallOpts s)"

definition TeleporterRegistryCaller_GetTeleporterFromVersion ::
  "'w bound_contract \<Rightarrow> CallOpts \<Rightarrow> int \<Rightarrow> ('w, goerr + address) prog" where
  "TeleporterRegistryCaller_GetTeleporterFromVersion c opts version =
     call_method c opts ''getTeleporterFromVersion'' [GBig version] (out1 go_addr)"

definition TeleporterRegistrySession_GetTeleporterFromVersion ::
  "'w session \<Rightarrow> int \<Rightarrow> ('w, goerr + address) prog" where
  "TeleporterRegistrySession_GetTeleporterFromVersion s version =
     TeleporterRegistryCaller_GetTeleporterFromVersion (SessionContract s) (SessionCallOpts s)
     version"

definition TeleporterRegistryCaller_GetVersionFromAddress ::
  "'w bound_contract \<Rightarrow> CallOpts \<Rightarrow> address \<Rightarrow> ('w, goerr + int) prog" where
  "TeleporterRegistryCaller_GetVersionFromAddress c opts protocolAddress =
     call_method c opts ''getVersionFromAddress'' [GAddr protocolAddress] (out1 go_big)"

definition TeleporterRegistrySession_GetVersionFromAddress ::
  "'w session \<Rightarrow> address \<Rightarrow> ('w, goerr + int) prog" where
  "TeleporterRegistrySession_GetVersionFromAddress s protocolAddress =
     TeleporterRegistryCaller_GetVersionFromAddress (SessionContract s) (SessionCallOpts s)
     protocolAddress"

definition TeleporterRegistryCaller_LatestVersion ::
  "'w bound_contract \<Rightarrow> CallOpts \<Rightarrow> ('w, goerr + int) prog" where
  "TeleporterRegistryCaller_LatestVersion c opts =
     call_method c opts ''latestVersion'' [] (out1 go_big)"

definition TeleporterRegistrySession_LatestVersion ::
  "'w session \<Rightarrow> ('w, goerr + int) prog" where
  "TeleporterRegistrySession_LatestVersion s = TeleporterRegistryCaller_LatestVersion
     (SessionContract s) (SessionCallOpts s)"

section \<open>Events\<close>

definition TeleporterRegistryAddProtocolVersion :: event_fields where
  "TeleporterRegistryAddProtocolVersion = [(''Version'', GNil), (''ProtocolAddress'', GAddr 0),
     (''Raw'', zero_Log)]"

definition TeleporterRegistryAddProtocolVersionIterator_Next ::
  "'w bound_contract \<Rightarrow> bool \<Rightarrow> iterator \<Rightarrow> (bool \<times> iterator) option" where
  "TeleporterRegistryAddProtocolVersionIterator_Next c pick it = iterator_Next (parse_log c
     ''AddProtocolVersion'' TeleporterRegistryAddProtocolVersion)
     TeleporterRegistryAddProtocolVersion pick it"

definition TeleporterRegistryAddProtocolVersionIterator_Error :: "iterator \<Rightarrow> goerr option" where
  "TeleporterRegistryAddProtocolVersionIterator_Error it = iterator_Error it"

definition TeleporterRegistryAddProtocolVersionIterator_Close :: "iterator \<Rightarrow> goerr option \<times>
   iterator" where
  "TeleporterRegistryAddProtocolVersionIterator_Close it = iterator_Close it"

definition TeleporterRegistryFilterer_FilterAddProtocolVersion ::
  "'w bound_contract \<Rightarrow> FilterOpts \<Rightarrow> int list \<Rightarrow> address list \<Rightarrow> ('w, goerr + iterator) prog" where
  "TeleporterRegistryFilterer_FilterAddProtocolVersion c opts version protocolAddress =
     filter_events c opts ''AddProtocolVersion'' [map GBig version, map GAddr protocolAddress]"

definition TeleporterRegistryFilterer_WatchAddProtocolVersion ::
  "'w bound_contract \<Rightarrow> int list \<Rightarrow> address list \<Rightarrow> ('w, goerr + (evm_log \<Rightarrow> goerr + event_fields))
     prog" where
  "TeleporterRegistryFilterer_WatchAddProtocolVersion c version protocolAddress =
     watch_events c ''AddProtocolVersion'' TeleporterRegistryAddProtocolVersion [map GBig
        version, map GAddr protocolAddress]"

definition TeleporterRegistryFilterer_ParseAddProtocolVersion ::
  "'w bound_contract \<Rightarrow> evm_log \<Rightarrow> goerr + event_fields" where
  "TeleporterRegistryFilterer_ParseAddProtocolVersion c log = parse_log c ''AddProtocolVersion''
     TeleporterRegistryAddProtocolVersion log"

definition TeleporterRegistryLatestVersionUpdated :: event_fields where
  "TeleporterRegistryLatestVersionUpdated = [(''OldVersion'', GNil), (''NewVersion'', GNil),
     (''Raw'', zero_Log)]"

definition TeleporterRegistryLatestVersionUpdatedIterator_Next ::
  "'w bound_contract \<Rightarrow> bool \<Rightarrow> iterator \<Rightarrow> (bool \<times> iterator) option" where
  "TeleporterRegistryLatestVersionUpdatedIterator_Next c pick it = iterator_Next (parse_log c
     ''LatestVersionUpdated'' TeleporterRegistryLatestVersionUpdated)
     TeleporterRegistryLatestVersionUpdated pick it"

definition TeleporterRegistryLatestVersionUpdatedIterator_Error :: "iterator \<Rightarrow> goerr option"
   where
  "TeleporterRegistryLatestVersionUpdatedIterator_Error it = iterator_Error it"

definition TeleporterRegistryLatestVersionUpdatedIterator_Close :: "iterator \<Rightarrow> goerr option \<times>
   iterator" where
  "TeleporterRegistryLatestVersionUpdatedIterator_Close it = iterator_Close it"

definition TeleporterRegistryFilterer_FilterLatestVersionUpdated ::
  "'w bound_contract \<Rightarrow> FilterOpts \<Rightarrow> int list \<Rightarrow> int list \<Rightarrow> ('w, goerr + iterator) prog" where
  "TeleporterRegistryFilterer_FilterLatestVersionUpdated c opts oldVersion newVersion =
     filter_events c opts ''LatestVersionUpdated'' [map GBig oldVersion, map GBig newVersion]"

definition TeleporterRegistryFilterer_WatchLatestVersionUpdated ::
  "'w bound_contract \<Rightarrow> int list \<Rightarrow> int list \<Rightarrow> ('w, goerr + (evm_log \<Rightarrow> goerr + event_fields))
     prog" where
  "TeleporterRegistryFilterer_WatchLatestVersionUpdated c oldVersion newVersion =
     watch_events c ''LatestVersionUpdated'' TeleporterRegistryLatestVersionUpdated [map GBig
        oldVersion, map GBig newVersion]"

definition TeleporterRegistryFilterer_ParseLatestVersionUpdated ::
  "'w bound_contract \<Rightarrow> evm_log \<Rightarrow> goerr + event_fields" where
  "TeleporterRegistryFilterer_ParseLatestVersionUpdated c log = parse_log c
     ''LatestVersionUpdated'' TeleporterRegistryLatestVersionUpdated log"


end
