(* ===== verification/ValidatorSetSigBinding.thy ===== *)
theory ValidatorSetSigBinding
  imports Binding Events GovernancePacking
begin

text \<open>
  The generated binding \<open>abi-bindings/go/governance/ValidatorSetSig/ValidatorSetSig.go\<close> over the
  generic definitions of theory \<open>Binding\<close>; struct and ABI data are in \<open>GovernancePacking\<close>.
\<close>

section \<open>Binding and deployment\<close>

definition bindValidatorSetSig :: "'w bind_lib \<Rightarrow> address \<Rightarrow> goerr + 'w bound_contract" where
  "bindValidatorSetSig lib addr = bind_contract lib ValidatorSetSigABI addr"

definition NewValidatorSetSig :: "'w bind_lib \<Rightarrow> address \<Rightarrow> goerr + 'w bound_contract" where
  "NewValidatorSetSig lib addr = bindValidatorSetSig lib addr"

definition DeployValidatorSetSig ::
  "'w bind_lib \<Rightarrow> string \<Rightarrow> TransactOpts \<Rightarrow> hash \<Rightarrow> 
   ('w, goerr + address \<times> hash \<times> 'w bound_contract) prog" where
  "DeployValidatorSetSig lib bin auth validatorBlockchainID = deploy_contract lib auth
     ValidatorSetSigABI bin [GArr32 validatorBlockchainID]"

section \<open>Methods\<close>

definition ValidatorSetSigCaller_VALIDATORSSOURCEADDRESS ::
  "'w bound_contract \<Rightarrow> CallOpts \<Rightarrow> ('w, goerr + address) prog" where
  "ValidatorSetSigCaller_VALIDATORSSOURCEADDRESS c opts =
     call_method c opts ''VALIDATORS_SOURCE_ADDRESS'' [] (out1 go_addr)"

definition ValidatorSetSigSession_VALIDATORSSOURCEADDRESS ::
  "'w session \<Rightarrow> ('w, goerr + address) prog" where
  "ValidatorSetSigSession_VALIDATORSSOURCEADDRESS s =
     ValidatorSetSigCaller_VALIDATORSSOURCEADDRESS (SessionContract s) (SessionCallOpts s)"

definition ValidatorSetSigCaller_WARPMESSENGER ::
  "'w bound_contract \<Rightarrow> CallOpts \<Rightarrow> ('w, goerr + address) prog" where
  "ValidatorSetSigCaller_WARPMESSENGER c opts =
     call_method c opts ''WARP_MESSENGER'' [] (out1 go_addr)"

definition ValidatorSetSigSession_WARPMESSENGER ::
  "'w session \<Rightarrow> ('w, goerr + address) prog" where
  "ValidatorSetSigSession_WARPMESSENGER s = ValidatorSetSigCaller_WARPMESSENGER (SessionContract
     s) (SessionCallOpts s)"

definition ValidatorSetSigCaller_BlockchainID ::
  "'w bound_contract \<Rightarrow> CallOpts \<Rightarrow> ('w, goerr + hash) prog" where
  "ValidatorSetSigCaller_BlockchainID c opts =
     call_method c opts ''blockchainID'' [] (out1 go_arr32)"

definition ValidatorSetSigSession_BlockchainID ::
  "'w session \<Rightarrow> ('w, goerr + hash) prog" where
  "ValidatorSetSigSession_BlockchainID s = ValidatorSetSigCaller_BlockchainID (SessionContract
     s) (SessionCallOpts s)"

definition ValidatorSetSigTransactor_ExecuteCall ::
  "'w bound_contract \<Rightarrow> TransactOpts \<Rightarrow> u32 \<Rightarrow> ('w, goerr + hash) prog" where
  "ValidatorSetSigTransactor_ExecuteCall c opts messageIndex =
     contract_transact c opts ''executeCall'' [GUint 32 (unat messageIndex)]"

definition ValidatorSetSigSession_ExecuteCall ::
  "'w session \<Rightarrow> u32 \<Rightarrow> ('w, goerr + hash) prog" where
  "ValidatorSetSigSession_ExecuteCall s messageIndex = ValidatorSetSigTransactor_ExecuteCall
     (SessionContract s) (SessionTransactOpts s) messageIndex"

definition ValidatorSetSigCaller_Nonces ::
  "'w bound_contract \<Rightarrow> CallOpts \<Rightarrow> address \<Rightarrow> ('w, goerr + int) prog" where
  "ValidatorSetSigCaller_Nonces c opts targetContractAddress =
     call_method c opts ''nonces'' [GAddr targetContractAddress] (out1 go_big)"

definition ValidatorSetSigSession_Nonces ::
  "'w session \<Rightarrow> address \<Rightarrow> ('w, goerr + int) prog" where
  "ValidatorSetSigSession_Nonces s targetContractAddress = ValidatorSetSigCaller_Nonces
     (SessionContract s) (SessionCallOpts s) targetContractAddress"

definition ValidatorSetSigCaller_ValidateMessage ::
  "'w bound_contract \<Rightarrow> CallOpts \<Rightarrow> ValidatorSetSigMessage \<Rightarrow> ('w, goerr + unit) prog" where
  "ValidatorSetSigCaller_ValidateMessage c opts message =
     call_method c opts ''validateMessage'' [set_sig_val message] out0"

definition ValidatorSetSigSession_ValidateMessage ::
  "'w session \<Rightarrow> ValidatorSetSigMessage \<Rightarrow> ('w, goerr + unit) prog" where
  "ValidatorSetSigSession_ValidateMessage s message = ValidatorSetSigCaller_ValidateMessage
     (SessionContract s) (SessionCallOpts s) message"

definition ValidatorSetSigCaller_ValidatorBlockchainID ::
  "'w bound_contract \<Rightarrow> CallOpts \<Rightarrow> ('w, goerr + hash) prog" where
  "ValidatorSetSigCaller_ValidatorBlockchainID c opts =
     call_method c opts ''validatorBlockchainID'' [] (out1 go_arr32)"

definition ValidatorSetSigSession_ValidatorBlockchainID ::
  "'w session \<Rightarrow> ('w, goerr + hash) prog" where
  "ValidatorSetSigSession_ValidatorBlockchainID s = ValidatorSetSigCaller_ValidatorBlockchainID
     (SessionContract s) (SessionCallOpts s)"

definition ValidatorSetSigTransactor_Receive :: "'w bound_contract \<Rightarrow> TransactOpts \<Rightarrow> ('w, goerr +
   hash) prog" where
  "ValidatorSetSigTransactor_Receive c opts = contract_raw_transact c opts []"

section \<open>Events\<close>

definition ValidatorSetSigDelivered :: event_fields where
  "ValidatorSetSigDelivered = [(''TargetContractAddress'', GAddr 0), (''Nonce'', GNil),
     (''Raw'', zero_Log)]"

definition ValidatorSetSigDeliveredIterator_Next ::
  "'w bound_contract \<Rightarrow> bool \<Rightarrow> iterator \<Rightarrow> (bool \<times> iterator) option" where
  "ValidatorSetSigDeliveredIterator_Next c pick it = iterator_Next (parse_log c ''Delivered''
     ValidatorSetSigDelivered) ValidatorSetSigDelivered pick it"

definition ValidatorSetSigDeliveredIterator_Error :: "iterator \<Rightarrow> goerr option" where
  "ValidatorSetSigDeliveredIterator_Error it = iterator_Error it"

definition ValidatorSetSigDeliveredIterator_Close :: "iterator \<Rightarrow> goerr option \<times> iterator" where
  "ValidatorSetSigDeliveredIterator_Close it = iterator_Close it"

definition ValidatorSetSigFilterer_FilterDelivered ::
  "'w bound_contract \<Rightarrow> FilterOpts \<Rightarrow> address list \<Rightarrow> int list \<Rightarrow> ('w, goerr + iterator) prog" where
  "ValidatorSetSigFilterer_FilterDelivered c opts targetContractAddress nonce =
     filter_events c opts ''Delivered'' [map GAddr targetContractAddress, map GBig nonce]"

definition ValidatorSetSigFilterer_WatchDelivered ::
  "'w bound_contract \<Rightarrow> address list \<Rightarrow> int list \<Rightarrow> ('w, goerr + (evm_log \<Rightarrow> goerr + event_fields))
     prog" where
  "ValidatorSetSigFilterer_WatchDelivered c targetContractAddress nonce =
     watch_events c ''Delivered'' ValidatorSetSigDelivered [map GAddr targetContractAddress, map
        GBig nonce]"

definition ValidatorSetSigFilterer_ParseDelivered ::
  "'w bound_contract \<Rightarrow> evm_log \<Rightarrow> goerr + event_fields" where
  "ValidatorSetSigFilterer_ParseDelivered c log = parse_log c ''Delivered''
     ValidatorSetSigDelivered log"


end
