(* ===== verification/TokenScaling.thy ===== *)
theory TokenScaling
  imports Effects
begin

text \<open>
  \<open>tests/utils/token_scaling.go\<close>: the scaling of token amounts between a home token and a remote
  with other decimals, \<open>GetTokenMultiplier\<close> of \<open>tests/utils/ictt.go\<close>, and the code of the contracts
  they mirror: \<open>contracts/utilities/TokenScalingUtils.sol\<close> and the collateral computation of
  \<open>_registerRemote\<close> and \<open>_addCollateral\<close> in \<open>contracts/ictt/TokenHome/TokenHome.sol\<close>.

  A \<open>*big.Int\<close> is an \<open>int\<close>; \<open>Div\<close> and \<open>Mod\<close> are Euclidean and panic on a zero divisor. A \<open>uint256\<close> of
  a contract is an \<open>int\<close> with the range checks of Solidity 0.8: an operation whose result leaves the
  range reverts (\<open>Inl\<close>).
\<close>

section \<open>Go: big.Int\<close>

definition big_Div :: "int \<Rightarrow> int \<Rightarrow> int go" where
  "big_Div a b =
     (if b = 0 then Panic ''division by zero''
      else if 0 < b then Done (a div b) else Done (- (a div (- b))))"

definition big_Mod :: "int \<Rightarrow> int \<Rightarrow> int go" where
  "big_Mod a b = (if b = 0 then Panic ''division by zero'' else Done (a mod \<bar>b\<bar>))"

text \<open>The Euclidean law: the remainder is never negative.\<close>

lemma big_Div_Mod:
  assumes "b \<noteq> 0"
  shows "\<exists>q r. big_Div a b = Done q \<and> big_Mod a b = Done r \<and> a = q * b + r \<and> 0 \<le> r \<and> r < \<bar>b\<bar>"
proof (cases "0 < b")
  case True
  then show ?thesis
    by (simp add: big_Div_def big_Mod_def)
next
  case False
  with assms have "b < 0"
    by simp
  then show ?thesis
    using div_mult_mod_eq [of a "- b"] by (simp add: big_Div_def big_Mod_def)
qed

section \<open>token_scaling.go\<close>

definition scaleTokens :: "int \<Rightarrow> bool \<Rightarrow> int \<Rightarrow> bool \<Rightarrow> int go" where
  "scaleTokens tokenMultiplier multiplyOnRemote amount isSendToRemote =
     (if multiplyOnRemote = isSendToRemote then Done (amount * tokenMultiplier)
      else big_Div amount tokenMultiplier)"

definition ApplyTokenScaling :: "int \<Rightarrow> bool \<Rightarrow> int \<Rightarrow> int go" where
  "ApplyTokenScaling tokenMultiplier multiplyOnRemote homeTokenAmount =
     scaleTokens tokenMultiplier multiplyOnRemote homeTokenAmount True"

definition RemoveTokenScaling :: "int \<Rightarrow> bool \<Rightarrow> int \<Rightarrow> int go" where
  "RemoveTokenScaling tokenMultiplier multiplyOnRemote remoteTokenAmount =
     scaleTokens tokenMultiplier multiplyOnRemote remoteTokenAmount False"

definition calculateCollateralNeeded :: "int \<Rightarrow> int \<Rightarrow> bool \<Rightarrow> int go" where
  "calculateCollateralNeeded initialReserveImbalance tokenMultiplier multiplyOnRemote =
     go_bind (RemoveTokenScaling tokenMultiplier multiplyOnRemote initialReserveImbalance)
       (\<lambda>collateralNeeded.
     go_bind (big_Mod collateralNeeded tokenMultiplier) (\<lambda>remainder.
     if multiplyOnRemote \<and> remainder \<noteq> 0 then Done (collateralNeeded + 1)
     else Done collateralNeeded))"

text \<open>The settings a home contract keeps of a remote, and the two readers of scaled amounts.\<close>

record RemoteTokenTransferrerSettings =
  Registered :: bool
  CollateralNeeded :: int
  TokenMultiplier :: int
  MultiplyOnRemote :: bool

definition lift_go :: "'a go \<Rightarrow> ('w, 'a) prog" where
  "lift_go m = (case m of Done x \<Rightarrow> ret x | Panic p \<Rightarrow> panicked p)"

definition GetScaledAmountFromERC20TokenHome ::
  "(hash \<Rightarrow> address \<Rightarrow> ('w, goerr + RemoteTokenTransferrerSettings) prog) \<Rightarrow> hash \<Rightarrow> address \<Rightarrow> int \<Rightarrow>
   ('w, int) prog" where
  "GetScaledAmountFromERC20TokenHome getSettings remoteBlockchainID remoteAddress homeTokenAmount =
     bnd (getSettings remoteBlockchainID remoteAddress) (\<lambda>r.
     bnd (check r) (\<lambda>remoteSettings.
     lift_go (ApplyTokenScaling (TokenMultiplier remoteSettings) (MultiplyOnRemote remoteSettings)
       homeTokenAmount)))"

definition GetScaledAmountFromNativeTokenHome ::
  "(hash \<Rightarrow> address \<Rightarrow> ('w, goerr + RemoteTokenTransferrerSettings) prog) \<Rightarrow> hash \<Rightarrow> address \<Rightarrow> int \<Rightarrow>
   ('w, int) prog" where
  "GetScaledAmountFromNativeTokenHome getSettings remoteBlockchainID remoteAddress amount =
     bnd (getSettings remoteBlockchainID remoteAddress) (\<lambda>r.
     bnd (check r) (\<lambda>remoteSettings.
     lift_go (ApplyTokenScaling (TokenMultiplier remoteSettings) (MultiplyOnRemote remoteSettings)
       amount)))"

text \<open>
  \<open>big.NewInt(int64(math.Pow10(n)))\<close>: the powers up to 10^18 are exact \<open>int64\<close> values; the conversion
  of a larger float is implementation-specific, the parameter \<open>conv\<close>.
\<close>

definition GetTokenMultiplier :: "(u8 \<Rightarrow> int) \<Rightarrow> u8 \<Rightarrow> int" where
  "GetTokenMultiplier conv decimalsShift =
     (if unat decimalsShift \<le> 18 then 10 ^ unat decimalsShift else conv decimalsShift)"

section \<open>The contracts\<close>

definition sol_mul :: "int \<Rightarrow> int \<Rightarrow> goerr + int" where
  "sol_mul a b = (if a * b < 2 ^ 256 then Inr (a * b) else Inl [''Panic(0x11)''])"

definition sol_add :: "int \<Rightarrow> int \<Rightarrow> goerr + int" where
  "sol_add a b = (if a + b < 2 ^ 256 then Inr (a + b) else Inl [''Panic(0x11)''])"

definition sol_div :: "int \<Rightarrow> int \<Rightarrow> goerr + int" where
  "sol_div a b = (if b = 0 then Inl [''Panic(0x12)''] else Inr (a div b))"

definition sol_scaleTokens :: "int \<Rightarrow> bool \<Rightarrow> int \<Rightarrow> bool \<Rightarrow> goerr + int" where
  "sol_scaleTokens tokenMultiplier multiplyOnRemote amount isSendToRemote =
     (if multiplyOnRemote = isSendToRemote then sol_mul amount tokenMultiplier
      else sol_div amount tokenMultiplier)"

definition sol_applyTokenScale :: "int \<Rightarrow> bool \<Rightarrow> int \<Rightarrow> goerr + int" where
  "sol_applyTokenScale tokenMultiplier multiplyOnRemote homeTokenAmount =
     sol_scaleTokens tokenMultiplier multiplyOnRemote homeTokenAmount True"

definition sol_removeTokenScale :: "int \<Rightarrow> bool \<Rightarrow> int \<Rightarrow> goerr + int" where
  "sol_removeTokenScale tokenMultiplier multiplyOnRemote remoteTokenAmount =
     sol_scaleTokens tokenMultiplier multiplyOnRemote remoteTokenAmount False"

definition sol_deriveTokenMultiplierValues :: "u8 \<Rightarrow> u8 \<Rightarrow> int \<times> bool" where
  "sol_deriveTokenMultiplierValues homeTokenDecimals remoteTokenDecimals =
     (let multiplyOnRemote = remoteTokenDecimals > homeTokenDecimals;
          tokenMultiplier = 10 ^ (if multiplyOnRemote
            then unat (remoteTokenDecimals - homeTokenDecimals)
            else unat (homeTokenDecimals - remoteTokenDecimals))
      in (tokenMultiplier, multiplyOnRemote))"

text \<open>The collateral a new remote needs (\<open>_registerRemote\<close>).\<close>

definition sol_collateralNeeded :: "int \<Rightarrow> int \<Rightarrow> bool \<Rightarrow> goerr + int" where
  "sol_collateralNeeded initialReserveImbalance tokenMultiplier multiplyOnRemote =
     rbind (sol_removeTokenScale tokenMultiplier multiplyOnRemote initialReserveImbalance)
       (\<lambda>collateralNeeded.
     if multiplyOnRemote \<and> initialReserveImbalance mod tokenMultiplier \<noteq> 0
     then sol_add collateralNeeded 1 else Inr collateralNeeded)"

section \<open>Properties\<close>

text \<open>
  C39. The Go helpers compute what the contracts compute: for a positive multiplier and amounts in
  the \<open>uint256\<close> range, scaling to and from the remote gives the contract's result whenever the
  contract does not revert, and the contract reverts only when the product leaves the range.
\<close>

theorem scaling_matches_contract:
  assumes "0 < m" and "0 \<le> a"
  shows "(if mul \<and> \<not> a * m < 2 ^ 256 then \<not> is_Ok (sol_applyTokenScale m mul a)
      else \<exists>x. sol_applyTokenScale m mul a = Inr x \<and> ApplyTokenScaling m mul a = Done x) \<and>
     (if \<not> mul \<and> \<not> a * m < 2 ^ 256 then \<not> is_Ok (sol_removeTokenScale m mul a)
      else \<exists>x. sol_removeTokenScale m mul a = Inr x \<and> RemoveTokenScaling m mul a = Done x)"
  using assms
  by (cases mul) (auto simp: sol_applyTokenScale_def sol_removeTokenScale_def sol_scaleTokens_def
      ApplyTokenScaling_def RemoveTokenScaling_def scaleTokens_def sol_mul_def sol_div_def big_Div_def)

theorem scaling_matches_contract_witness:
  "sol_applyTokenScale 1000 False 1234567 = Inr 1234 \<and> ApplyTokenScaling 1000 False 1234567 = Done 1234"
  using scaling_matches_contract [of 1000 1234567 False]
  by (simp add: ApplyTokenScaling_def scaleTokens_def big_Div_def)

text \<open>
  Scaling never creates tokens: scaling an amount to the remote and back gives the amount when
  the remote multiplies, and otherwise the amount rounded down to a multiple of the multiplier, so
  what is lost on a round trip is less than one unit of the coarser token.
\<close>

theorem scaling_round_trip:
  assumes "0 < m" and "0 \<le> a"
  shows "\<exists>r b. ApplyTokenScaling m mul a = Done r \<and> RemoveTokenScaling m mul r = Done b \<and>
     b = (if mul then a else a - a mod m) \<and> 0 \<le> a - b \<and> a - b < m"
  using assms
  by (cases mul) (auto simp: ApplyTokenScaling_def RemoveTokenScaling_def scaleTokens_def big_Div_def
      minus_mod_eq_div_mult [symmetric])

theorem scaling_round_trip_witness:
  "\<exists>r. ApplyTokenScaling 1000 False 1234567 = Done r \<and> RemoveTokenScaling 1000 False r = Done 1234000"
  using scaling_round_trip [of 1000 1234567 False] by simp

text \<open>
  \<open>calculateCollateralNeeded\<close> tests the remainder of the already divided collateral instead of the
  reserve imbalance, so it agrees with the contract exactly if the remote does not multiply or the
  two remainders are zero together; otherwise it is off by one, in either direction.
\<close>

theorem collateral_differs_from_contract:
  assumes "0 < m" and "0 \<le> imbalance" and "sol_collateralNeeded imbalance m mul = Inr x"
  shows "\<exists>y. calculateCollateralNeeded imbalance m mul = Done y \<and>
     (y = x \<longleftrightarrow> \<not> mul \<or> (imbalance mod m = 0 \<longleftrightarrow> imbalance div m mod m = 0)) \<and>
     \<bar>y - x\<bar> \<le> 1"
  using assms
  by (cases mul)
    (auto simp: sol_collateralNeeded_def sol_removeTokenScale_def sol_scaleTokens_def sol_mul_def
      sol_div_def sol_add_def calculateCollateralNeeded_def RemoveTokenScaling_def scaleTokens_def
      big_Div_def big_Mod_def split: if_splits)

theorem collateral_differs_from_contract_witness:
  "sol_collateralNeeded 20 10 True = Inr 2 \<and> calculateCollateralNeeded 20 10 True = Done 3"
proof -
  have sol: "sol_collateralNeeded 20 10 True = Inr 2"
    by (simp add: sol_collateralNeeded_def sol_removeTokenScale_def sol_scaleTokens_def sol_div_def)
  obtain y where "calculateCollateralNeeded 20 10 True = Done y" and "y \<noteq> 2"
    using collateral_differs_from_contract [OF _ _ sol] by auto
  then show ?thesis
    using sol by (simp add: calculateCollateralNeeded_def RemoveTokenScaling_def scaleTokens_def
        big_Div_def big_Mod_def)
qed

lemma token_multiplier_matches_contract:
  assumes "home \<le> 18" and "remote \<le> 18"
  shows "sol_deriveTokenMultiplierValues home remote =
    (GetTokenMultiplier conv (if remote > home then remote - home else home - remote), remote > home)"
proof -
  have "unat (x - y) \<le> 18" if "y \<le> x" "x \<le> 18" for x y :: u8
  proof -
    have "x - y \<le> x"
      using that(1) word_sub_le by blast
    with that(2) show ?thesis
      by (simp add: word_le_nat_alt)
  qed
  then show ?thesis
    using assms by (auto simp: sol_deriveTokenMultiplierValues_def GetTokenMultiplier_def Let_def)
qed

end
