(* ===== verification/IcttStructs.thy ===== *)
theory IcttStructs
  imports Binding TeleporterAbi TokenScaling
begin

text \<open>
  The structs of the token transferrer bindings (\<open>abi-bindings/go/ictt\<close>) with their dynamic view, the
  tuple types their ABIs declare for them, and the values Solidity can carry. Every binding package
  declares its own copy of these structs; they are modelled once.
\<close>

section \<open>SendTokensInput\<close>

record SendTokensInput =
  SendTokensInput_DestinationBlockchainID :: hash
  SendTokensInput_DestinationTokenTransferrerAddress :: address
  SendTokensInput_Recipient :: address
  SendTokensInput_PrimaryFeeTokenAddress :: address
  SendTokensInput_PrimaryFee :: int
  SendTokensInput_SecondaryFee :: int
  SendTokensInput_RequiredGasLimit :: int
  SendTokensInput_MultiHopFallback :: address

definition SendTokensInput_val :: "SendTokensInput \<Rightarrow> go_val" where
  "SendTokensInput_val x =
     GStruct [(''DestinationBlockchainID'', GArr32 (SendTokensInput_DestinationBlockchainID x)),
       (''DestinationTokenTransferrerAddress'', GAddr
          (SendTokensInput_DestinationTokenTransferrerAddress x)),
       (''Recipient'', GAddr (SendTokensInput_Recipient x)),
       (''PrimaryFeeTokenAddress'', GAddr (SendTokensInput_PrimaryFeeTokenAddress x)),
       (''PrimaryFee'', GBig (SendTokensInput_PrimaryFee x)),
       (''SecondaryFee'', GBig (SendTokensInput_SecondaryFee x)),
       (''RequiredGasLimit'', GBig (SendTokensInput_RequiredGasLimit x)),
       (''MultiHopFallback'', GAddr (SendTokensInput_MultiHopFallback x))]"

definition SendTokensInput_tuple :: abi_type where
  "SendTokensInput_tuple =
     TTuple [(''destinationBlockchainID'', TBytes32),
       (''destinationTokenTransferrerAddress'', TAddress),
       (''recipient'', TAddress),
       (''primaryFeeTokenAddress'', TAddress),
       (''primaryFee'', TUint 256),
       (''secondaryFee'', TUint 256),
       (''requiredGasLimit'', TUint 256),
       (''multiHopFallback'', TAddress)]"

definition zero_SendTokensInput :: go_val where
  "zero_SendTokensInput =
     GStruct [(''DestinationBlockchainID'', GArr32 0), (''DestinationTokenTransferrerAddress'',
        GAddr 0), (''Recipient'', GAddr 0), (''PrimaryFeeTokenAddress'', GAddr 0),
        (''PrimaryFee'', GNil), (''SecondaryFee'', GNil), (''RequiredGasLimit'', GNil),
        (''MultiHopFallback'', GAddr 0)]"

definition SendTokensInput_ok :: "SendTokensInput \<Rightarrow> bool" where
  "SendTokensInput_ok x \<longleftrightarrow> in_uint256 (SendTokensInput_PrimaryFee x) \<and> in_uint256
     (SendTokensInput_SecondaryFee x) \<and> in_uint256 (SendTokensInput_RequiredGasLimit x)"

lemma matches_SendTokensInput [simp]: "matches SendTokensInput_tuple (SendTokensInput_val x) \<longleftrightarrow>
   SendTokensInput_ok x"
  by (auto simp: SendTokensInput_tuple_def SendTokensInput_val_def SendTokensInput_ok_def
     list_all_iff simp del: matches.simps(1))

section \<open>SendAndCallInput\<close>

record SendAndCallInput =
  SendAndCallInput_DestinationBlockchainID :: hash
  SendAndCallInput_DestinationTokenTransferrerAddress :: address
  SendAndCallInput_RecipientContract :: address
  SendAndCallInput_RecipientPayload :: bytes
  SendAndCallInput_RequiredGasLimit :: int
  SendAndCallInput_RecipientGasLimit :: int
  SendAndCallInput_MultiHopFallback :: address
  SendAndCallInput_FallbackRecipient :: address
  SendAndCallInput_PrimaryFeeTokenAddress :: address
  SendAndCallInput_PrimaryFee :: int
  SendAndCallInput_SecondaryFee :: int

definition SendAndCallInput_val :: "SendAndCallInput \<Rightarrow> go_val" where
  "SendAndCallInput_val x =
     GStruct [(''DestinationBlockchainID'', GArr32 (SendAndCallInput_DestinationBlockchainID
        x)),
       (''DestinationTokenTransferrerAddress'', GAddr
          (SendAndCallInput_DestinationTokenTransferrerAddress x)),
       (''RecipientContract'', GAddr (SendAndCallInput_RecipientContract x)),
       (''RecipientPayload'', GBytes (SendAndCallInput_RecipientPayload x)),
       (''RequiredGasLimit'', GBig (SendAndCallInput_RequiredGasLimit x)),
       (''RecipientGasLimit'', GBig (SendAndCallInput_RecipientGasLimit x)),
       (''MultiHopFallback'', GAddr (SendAndCallInput_MultiHopFallback x)),
       (''FallbackRecipient'', GAddr (SendAndCallInput_FallbackRecipient x)),
       (''PrimaryFeeTokenAddress'', GAddr (SendAndCallInput_PrimaryFeeTokenAddress x)),
       (''PrimaryFee'', GBig (SendAndCallInput_PrimaryFee x)),
       (''SecondaryFee'', GBig (SendAndCallInput_SecondaryFee x))]"

definition SendAndCallInput_tuple :: abi_type where
  "SendAndCallInput_tuple =
     TTuple [(''destinationBlockchainID'', TBytes32),
       (''destinationTokenTransferrerAddress'', TAddress),
       (''recipientContract'', TAddress),
       (''recipientPayload'', TBytes),
       (''requiredGasLimit'', TUint 256),
       (''recipientGasLimit'', TUint 256),
       (''multiHopFallback'', TAddress),
       (''fallbackRecipient'', TAddress),
       (''primaryFeeTokenAddress'', TAddress),
       (''primaryFee'', TUint 256),
       (''secondaryFee'', TUint 256)]"

definition zero_SendAndCallInput :: go_val where
  "zero_SendAndCallInput =
     GStruct [(''DestinationBlockchainID'', GArr32 0), (''DestinationTokenTransferrerAddress'',
        GAddr 0), (''RecipientContract'', GAddr 0), (''RecipientPayload'', GNil),
        (''RequiredGasLimit'', GNil), (''RecipientGasLimit'', GNil), (''MultiHopFallback'',
        GAddr 0), (''FallbackRecipient'', GAddr 0), (''PrimaryFeeTokenAddress'', GAddr 0),
        (''PrimaryFee'', GNil), (''SecondaryFee'', GNil)]"

definition SendAndCallInput_ok :: "SendAndCallInput \<Rightarrow> bool" where
  "SendAndCallInput_ok x \<longleftrightarrow> in_uint256 (SendAndCallInput_RequiredGasLimit x) \<and> in_uint256
     (SendAndCallInput_RecipientGasLimit x) \<and> in_uint256 (SendAndCallInput_PrimaryFee x) \<and>
     in_uint256 (SendAndCallInput_SecondaryFee x)"

lemma matches_SendAndCallInput [simp]: "matches SendAndCallInput_tuple (SendAndCallInput_val x)
   \<longleftrightarrow> SendAndCallInput_ok x"
  by (auto simp: SendAndCallInput_tuple_def SendAndCallInput_val_def SendAndCallInput_ok_def
     list_all_iff simp del: matches.simps(1))

section \<open>RemoteTokenTransferrerSettings\<close>

definition RemoteTokenTransferrerSettings_val :: "RemoteTokenTransferrerSettings \<Rightarrow> go_val" where
  "RemoteTokenTransferrerSettings_val x =
     GStruct [(''Registered'', GBool (Registered x)),
       (''CollateralNeeded'', GBig (CollateralNeeded x)),
       (''TokenMultiplier'', GBig (TokenMultiplier x)),
       (''MultiplyOnRemote'', GBool (MultiplyOnRemote x))]"

definition RemoteTokenTransferrerSettings_of :: "go_val \<Rightarrow> RemoteTokenTransferrerSettings option"
   where
  "RemoteTokenTransferrerSettings_of v = do {
     x0 \<leftarrow> go_field ''Registered'' v \<bind> go_bool;
     x1 \<leftarrow> go_field ''CollateralNeeded'' v \<bind> go_big;
     x2 \<leftarrow> go_field ''TokenMultiplier'' v \<bind> go_big;
     x3 \<leftarrow> go_field ''MultiplyOnRemote'' v \<bind> go_bool;
     Some \<lparr>Registered = x0, CollateralNeeded = x1, TokenMultiplier = x2, MultiplyOnRemote = x3\<rparr>
   }"

definition RemoteTokenTransferrerSettings_tuple :: abi_type where
  "RemoteTokenTransferrerSettings_tuple =
     TTuple [(''registered'', TBool),
       (''collateralNeeded'', TUint 256),
       (''tokenMultiplier'', TUint 256),
       (''multiplyOnRemote'', TBool)]"

definition zero_RemoteTokenTransferrerSettings :: go_val where
  "zero_RemoteTokenTransferrerSettings =
     GStruct [(''Registered'', GBool False), (''CollateralNeeded'', GNil), (''TokenMultiplier'',
        GNil), (''MultiplyOnRemote'', GBool False)]"

definition RemoteTokenTransferrerSettings_ok :: "RemoteTokenTransferrerSettings \<Rightarrow> bool" where
  "RemoteTokenTransferrerSettings_ok x \<longleftrightarrow> in_uint256 (CollateralNeeded x) \<and> in_uint256
     (TokenMultiplier x)"

lemma RemoteTokenTransferrerSettings_of_val [simp]: "RemoteTokenTransferrerSettings_of
   (RemoteTokenTransferrerSettings_val x) = Some x"
  by (simp add: RemoteTokenTransferrerSettings_val_def RemoteTokenTransferrerSettings_of_def
     all_some_map del: map_map)

lemma matches_RemoteTokenTransferrerSettings [simp]: "matches
   RemoteTokenTransferrerSettings_tuple (RemoteTokenTransferrerSettings_val x) \<longleftrightarrow>
   RemoteTokenTransferrerSettings_ok x"
  by (auto simp: RemoteTokenTransferrerSettings_tuple_def RemoteTokenTransferrerSettings_val_def
     RemoteTokenTransferrerSettings_ok_def list_all_iff simp del: matches.simps(1))

section \<open>TokenRemoteSettings\<close>

record TokenRemoteSettings =
  TokenRemoteSettings_TeleporterRegistryAddress :: address
  TokenRemoteSettings_TeleporterManager :: address
  TokenRemoteSettings_MinTeleporterVersion :: int
  TokenRemoteSettings_TokenHomeBlockchainID :: hash
  TokenRemoteSettings_TokenHomeAddress :: address
  TokenRemoteSettings_TokenHomeDecimals :: u8

definition TokenRemoteSettings_val :: "TokenRemoteSettings \<Rightarrow> go_val" where
  "TokenRemoteSettings_val x =
     GStruct [(''TeleporterRegistryAddress'', GAddr
        (TokenRemoteSettings_TeleporterRegistryAddress x)),
       (''TeleporterManager'', GAddr (TokenRemoteSettings_TeleporterManager x)),
       (''MinTeleporterVersion'', GBig (TokenRemoteSettings_MinTeleporterVersion x)),
       (''TokenHomeBlockchainID'', GArr32 (TokenRemoteSettings_TokenHomeBlockchainID x)),
       (''TokenHomeAddress'', GAddr (TokenRemoteSettings_TokenHomeAddress x)),
       (''TokenHomeDecimals'', GUint 8 (unat (TokenRemoteSettings_TokenHomeDecimals x)))]"

definition TokenRemoteSettings_tuple :: abi_type where
  "TokenRemoteSettings_tuple =
     TTuple [(''teleporterRegistryAddress'', TAddress),
       (''teleporterManager'', TAddress),
       (''minTeleporterVersion'', TUint 256),
       (''tokenHomeBlockchainID'', TBytes32),
       (''tokenHomeAddress'', TAddress),
       (''tokenHomeDecimals'', TUint 8)]"

definition zero_TokenRemoteSettings :: go_val where
  "zero_TokenRemoteSettings =
     GStruct [(''TeleporterRegistryAddress'', GAddr 0), (''TeleporterManager'', GAddr 0),
        (''MinTeleporterVersion'', GNil), (''TokenHomeBlockchainID'', GArr32 0),
        (''TokenHomeAddress'', GAddr 0), (''TokenHomeDecimals'', GUint 8 0)]"

definition TokenRemoteSettings_ok :: "TokenRemoteSettings \<Rightarrow> bool" where
  "TokenRemoteSettings_ok x \<longleftrightarrow> in_uint256 (TokenRemoteSettings_MinTeleporterVersion x)"

lemma matches_TokenRemoteSettings [simp]: "matches TokenRemoteSettings_tuple
   (TokenRemoteSettings_val x) \<longleftrightarrow> TokenRemoteSettings_ok x"
  by (auto simp: TokenRemoteSettings_tuple_def TokenRemoteSettings_val_def
     TokenRemoteSettings_ok_def list_all_iff simp del: matches.simps(1))

end
