(* ===== verification/ERC20TokenHomeBinding.thy ===== *)
theory ERC20TokenHomeBinding
  imports IcttStructs AbiRef
begin

text \<open>
  The generated binding \<open>abi-bindings/go/ictt/TokenHome/ERC20TokenHome/ERC20TokenHome.go\<close> over the generic
  definitions of theory \<open>Binding\<close>: its ABI, every method with its session wrappers, every event with
  its iterator, filter, watch and parser. The bytecode is a parameter of deployment; the aliases
  \<open>Raw\<close> of the untyped calls are not modelled.
\<close>

section \<open>The contract's ABI (ERC20TokenHomeMetaData)\<close>

definition ERC20TokenHomeABI :: contract_abi where
  "ERC20TokenHomeABI = \<lparr>
      Methods = [
        (''ERC20_TOKEN_HOME_STORAGE_LOCATION'', [],
           [('''', TBytes32)]),
        (''TELEPORTER_REGISTRY_APP_STORAGE_LOCATION'', [],
           [('''', TBytes32)]),
        (''TOKEN_HOME_STORAGE_LOCATION'', [],
           [('''', TBytes32)]),
        (''addCollateral'', [(''remoteBlockchainID'', TBytes32),
           (''remoteTokenTransferrerAddress'', TAddress), (''amount'', TUint 256)],
           []),
        (''getBlockchainID'', [],
           [('''', TBytes32)]),
        (''getMinTeleporterVersion'', [],
           [('''', TUint 256)]),
        (''getRemoteTokenTransferrerSettings'', [(''remoteBlockchainID'', TBytes32),
           (''remoteTokenTransferrerAddress'', TAddress)],
           [('''', RemoteTokenTransferrerSettings_tuple)]),
        (''getTokenAddress'', [],
           [('''', TAddress)]),
        (''getTransferredBalance'', [(''remoteBlockchainID'', TBytes32),
           (''remoteTokenTransferrerAddress'', TAddress)],
           [('''', TUint 256)]),
        (''initialize'', [(''teleporterRegistryAddress'', TAddress), (''teleporterManager'',
           TAddress), (''minTeleporterVersion'', TUint 256), (''tokenAddress'', TAddress),
           (''tokenDecimals'', TUint 8)],
           []),
        (''isTeleporterAddressPaused'', [(''teleporterAddress'', TAddress)],
           [('''', TBool)]),
        (''owner'', [],
           [('''', TAddress)]),
        (''pauseTeleporterAddress'', [(''teleporterAddress'', TAddress)],
           []),
        (''receiveTeleporterMessage'', [(''sourceBlockchainID'', TBytes32),
           (''originSenderAddress'', TAddress), (''message'', TBytes)],
           []),
        (''renounceOwnership'', [],
           []),
        (''send'', [(''input'', SendTokensInput_tuple), (''amount'', TUint 256)],
           []),
        (''sendAndCall'', [(''input'', SendAndCallInput_tuple), (''amount'', TUint 256)],
           []),
        (''transferOwnership'', [(''newOwner'', TAddress)],
           []),
        (''unpauseTeleporterAddress'', [(''teleporterAddress'', TAddress)],
           []),
        (''updateMinTeleporterVersion'', [(''version'', TUint 256)],
           [])],
      Events = [
        (''CallFailed'', [(''recipientContract'', TAddress, True), (''amount'', TUint 256,
           False)]),
        (''CallSucceeded'', [(''recipientContract'', TAddress, True), (''amount'', TUint 256,
           False)]),
        (''CollateralAdded'', [(''remoteBlockchainID'', TBytes32, True),
           (''remoteTokenTransferrerAddress'', TAddress, True), (''amount'', TUint 256, False),
           (''remaining'', TUint 256, False)]),
        (''Initialized'', [(''version'', TUint 64, False)]),
        (''MinTeleporterVersionUpdated'', [(''oldMinTeleporterVersion'', TUint 256, True),
           (''newMinTeleporterVersion'', TUint 256, True)]),
        (''OwnershipTransferred'', [(''previousOwner'', TAddress, True), (''newOwner'',
           TAddress, True)]),
        (''RemoteRegistered'', [(''remoteBlockchainID'', TBytes32, True),
           (''remoteTokenTransferrerAddress'', TAddress, True), (''initialCollateralNeeded'',
           TUint 256, False), (''tokenDecimals'', TUint 8, False)]),
        (''TeleporterAddressPaused'', [(''teleporterAddress'', TAddress, True)]),
        (''TeleporterAddressUnpaused'', [(''teleporterAddress'', TAddress, True)]),
        (''TokensAndCallRouted'', [(''teleporterMessageID'', TBytes32, True), (''input'',
           SendAndCallInput_tuple, False), (''amount'', TUint 256, False)]),
        (''TokensAndCallSent'', [(''teleporterMessageID'', TBytes32, True), (''sender'',
           TAddress, True), (''input'', SendAndCallInput_tuple, False), (''amount'', TUint 256,
           False)]),
        (''TokensRouted'', [(''teleporterMessageID'', TBytes32, True), (''input'',
           SendTokensInput_tuple, False), (''amount'', TUint 256, False)]),
        (''TokensSent'', [(''teleporterMessageID'', TBytes32, True), (''sender'', TAddress,
           True), (''input'', SendTokensInput_tuple, False), (''amount'', TUint 256, False)]),
        (''TokensWithdrawn'', [(''recipient'', TAddress, True), (''amount'', TUint 256,
           False)])]\<rparr>"

section \<open>Binding and deployment\<close>

definition bindERC20TokenHome :: "'w bind_lib \<Rightarrow> address \<Rightarrow> goerr + 'w bound_contract" where
  "bindERC20TokenHome lib addr = bind_contract lib ERC20TokenHomeABI addr"

definition NewERC20TokenHome :: "'w bind_lib \<Rightarrow> address \<Rightarrow> goerr + 'w bound_contract" where
  "NewERC20TokenHome lib addr = bindERC20TokenHome lib addr"

definition DeployERC20TokenHome ::
  "'w bind_lib \<Rightarrow> string \<Rightarrow> TransactOpts \<Rightarrow> address \<Rightarrow> address \<Rightarrow> int \<Rightarrow> address \<Rightarrow> u8 \<Rightarrow> 
   ('w, goerr + address \<times> hash \<times> 'w bound_contract) prog" where
  "DeployERC20TokenHome lib bin auth teleporterRegistryAddress teleporterManager
     minTeleporterVersion tokenAddress tokenDecimals = deploy_contract lib auth
     ERC20TokenHomeABI bin [GAddr teleporterRegistryAddress, GAddr teleporterManager, GBig
     minTeleporterVersion, GAddr tokenAddress, GUint 8 (unat tokenDecimals)]"

section \<open>Methods\<close>

definition ERC20TokenHomeCaller_ERC20TOKENHOMESTORAGELOCATION ::
  "'w bound_contract \<Rightarrow> CallOpts \<Rightarrow> ('w, goerr + hash) prog" where
  "ERC20TokenHomeCaller_ERC20TOKENHOMESTORAGELOCATION c opts =
     call_method c opts ''ERC20_TOKEN_HOME_STORAGE_LOCATION'' [] (out1 go_arr32)"

definition ERC20TokenHomeSession_ERC20TOKENHOMESTORAGELOCATION ::
  "'w session \<Rightarrow> ('w, goerr + hash) prog" where
  "ERC20TokenHomeSession_ERC20TOKENHOMESTORAGELOCATION s =
     ERC20TokenHomeCaller_ERC20TOKENHOMESTORAGELOCATION (SessionContract s) (SessionCallOpts s)"

definition ERC20TokenHomeCaller_TELEPORTERREGISTRYAPPSTORAGELOCATION ::
  "'w bound_contract \<Rightarrow> CallOpts \<Rightarrow> ('w, goerr + hash) prog" where
  "ERC20TokenHomeCaller_TELEPORTERREGISTRYAPPSTORAGELOCATION c opts =
     call_method c opts ''TELEPORTER_REGISTRY_APP_STORAGE_LOCATION'' [] (out1 go_arr32)"

definition ERC20TokenHomeSession_TELEPORTERREGISTRYAPPSTORAGELOCATION ::
  "'w session \<Rightarrow> ('w, goerr + hash) prog" where
  "ERC20TokenHomeSession_TELEPORTERREGISTRYAPPSTORAGELOCATION s =
     ERC20TokenHomeCaller_TELEPORTERREGISTRYAPPSTORAGELOCATION (SessionContract s)
     (SessionCallOpts s)"

definition ERC20TokenHomeCaller_TOKENHOMESTORAGELOCATION ::
  "'w bound_contract \<Rightarrow> CallOpts \<Rightarrow> ('w, goerr + hash) prog" where
  "ERC20TokenHomeCaller_TOKENHOMESTORAGELOCATION c opts =
     call_method c opts ''TOKEN_HOME_STORAGE_LOCATION'' [] (out1 go_arr32)"

definition ERC20TokenHomeSession_TOKENHOMESTORAGELOCATION ::
  "'w session \<Rightarrow> ('w, goerr + hash) prog" where
  "ERC20TokenHomeSession_TOKENHOMESTORAGELOCATION s =
     ERC20TokenHomeCaller_TOKENHOMESTORAGELOCATION (SessionContract s) (SessionCallOpts s)"

definition ERC20TokenHomeTransactor_AddCollateral ::
  "'w bound_contract \<Rightarrow> TransactOpts \<Rightarrow> hash \<Rightarrow> address \<Rightarrow> int \<Rightarrow> ('w, goerr + hash) prog" where
  "ERC20TokenHomeTransactor_AddCollateral c opts remoteBlockchainID
     remoteTokenTransferrerAddress amount =
     contract_transact c opts ''addCollateral'' [GArr32 remoteBlockchainID, GAddr
        remoteTokenTransferrerAddress, GBig amount]"

definition ERC20TokenHomeSession_AddCollateral ::
  "'w session \<Rightarrow> hash \<Rightarrow> address \<Rightarrow> int \<Rightarrow> ('w, goerr + hash) prog" where
  "ERC20TokenHomeSession_AddCollateral s remoteBlockchainID remoteTokenTransferrerAddress amount
     = ERC20TokenHomeTransactor_AddCollateral (SessionContract s) (SessionTransactOpts s)
     remoteBlockchainID remoteTokenTransferrerAddress amount"

definition ERC20TokenHomeCaller_GetBlockchainID ::
  "'w bound_contract \<Rightarrow> CallOpts \<Rightarrow> ('w, goerr + hash) prog" where
  "ERC20TokenHomeCaller_GetBlockchainID c opts =
     call_method c opts ''getBlockchainID'' [] (out1 go_arr32)"

definition ERC20TokenHomeSession_GetBlockchainID ::
  "'w session \<Rightarrow> ('w, goerr + hash) prog" where
  "ERC20TokenHomeSession_GetBlockchainID s = ERC20TokenHomeCaller_GetBlockchainID
     (SessionContract s) (SessionCallOpts s)"

definition ERC20TokenHomeCaller_GetMinTeleporterVersion ::
  "'w bound_contract \<Rightarrow> CallOpts \<Rightarrow> ('w, goerr + int) prog" where
  "ERC20TokenHomeCaller_GetMinTeleporterVersion c opts =
     call_method c opts ''getMinTeleporterVersion'' [] (out1 go_big)"

definition ERC20TokenHomeSession_GetMinTeleporterVersion ::
  "'w session \<Rightarrow> ('w, goerr + int) prog" where
  "ERC20TokenHomeSession_GetMinTeleporterVersion s =
     ERC20TokenHomeCaller_GetMinTeleporterVersion (SessionContract s) (SessionCallOpts s)"

definition ERC20TokenHomeCaller_GetRemoteTokenTransferrerSettings ::
  "'w bound_contract \<Rightarrow> CallOpts \<Rightarrow> hash \<Rightarrow> address \<Rightarrow> ('w, goerr + RemoteTokenTransferrerSettings)
     prog" where
  "ERC20TokenHomeCaller_GetRemoteTokenTransferrerSettings c opts remoteBlockchainID
     remoteTokenTransferrerAddress =
     call_method c opts ''getRemoteTokenTransferrerSettings'' [GArr32 remoteBlockchainID, GAddr
        remoteTokenTransferrerAddress] (out1 RemoteTokenTransferrerSettings_of)"

definition ERC20TokenHomeSession_GetRemoteTokenTransferrerSettings ::
  "'w session \<Rightarrow> hash \<Rightarrow> address \<Rightarrow> ('w, goerr + RemoteTokenTransferrerSettings) prog" where
  "ERC20TokenHomeSession_GetRemoteTokenTransferrerSettings s remoteBlockchainID
     remoteTokenTransferrerAddress = ERC20TokenHomeCaller_GetRemoteTokenTransferrerSettings
     (SessionContract s) (SessionCallOpts s) remoteBlockchainID remoteTokenTransferrerAddress"

definition ERC20TokenHomeCaller_GetTokenAddress ::
  "'w bound_contract \<Rightarrow> CallOpts \<Rightarrow> ('w, goerr + address) prog" where
  "ERC20TokenHomeCaller_GetTokenAddress c opts =
     call_method c opts ''getTokenAddress'' [] (out1 go_addr)"

definition ERC20TokenHomeSession_GetTokenAddress ::
  "'w session \<Rightarrow> ('w, goerr + address) prog" where
  "ERC20TokenHomeSession_GetTokenAddress s = ERC20TokenHomeCaller_GetTokenAddress
     (SessionContract s) (SessionCallOpts s)"

definition ERC20TokenHomeCaller_GetTransferredBalance ::
  "'w bound_contract \<Rightarrow> CallOpts \<Rightarrow> hash \<Rightarrow> address \<Rightarrow> ('w, goerr + int) prog" where
  "ERC20TokenHomeCaller_GetTransferredBalance c opts remoteBlockchainID
     remoteTokenTransferrerAddress =
     call_method c opts ''getTransferredBalance'' [GArr32 remoteBlockchainID, GAddr
        remoteTokenTransferrerAddress] (out1 go_big)"

definition ERC20TokenHomeSession_GetTransferredBalance ::
  "'w session \<Rightarrow> hash \<Rightarrow> address \<Rightarrow> ('w, goerr + int) prog" where
  "ERC20TokenHomeSession_GetTransferredBalance s remoteBlockchainID
     remoteTokenTransferrerAddress = ERC20TokenHomeCaller_GetTransferredBalance (SessionContract
     s) (SessionCallOpts s) remoteBlockchainID remoteTokenTransferrerAddress"

definition ERC20TokenHomeTransactor_Initialize ::
  "'w bound_contract \<Rightarrow> TransactOpts \<Rightarrow> address \<Rightarrow> address \<Rightarrow> int \<Rightarrow> address \<Rightarrow> u8 \<Rightarrow> ('w, goerr +
     hash) prog" where
  "ERC20TokenHomeTransactor_Initialize c opts teleporterRegistryAddress teleporterManager
     minTeleporterVersion tokenAddress tokenDecimals =
     contract_transact c opts ''initialize'' [GAddr teleporterRegistryAddress, GAddr
        teleporterManager, GBig minTeleporterVersion, GAddr tokenAddress, GUint 8 (unat
        tokenDecimals)]"

definition ERC20TokenHomeSession_Initialize ::
  "'w session \<Rightarrow> address \<Rightarrow> address \<Rightarrow> int \<Rightarrow> address \<Rightarrow> u8 \<Rightarrow> ('w, goerr + hash) prog" where
  "ERC20TokenHomeSession_Initialize s teleporterRegistryAddress teleporterManager
     minTeleporterVersion tokenAddress tokenDecimals = ERC20TokenHomeTransactor_Initialize
     (SessionContract s) (SessionTransactOpts s) teleporterRegistryAddress teleporterManager
     minTeleporterVersion tokenAddress tokenDecimals"

definition ERC20TokenHomeCaller_IsTeleporterAddressPaused ::
  "'w bound_contract \<Rightarrow> CallOpts \<Rightarrow> address \<Rightarrow> ('w, goerr + bool) prog" where
  "ERC20TokenHomeCaller_IsTeleporterAddressPaused c opts teleporterAddress =
     call_method c opts ''isTeleporterAddressPaused'' [GAddr teleporterAddress] (out1 go_bool)"

definition ERC20TokenHomeSession_IsTeleporterAddressPaused ::
  "'w session \<Rightarrow> address \<Rightarrow> ('w, goerr + bool) prog" where
  "ERC20TokenHomeSession_IsTeleporterAddressPaused s teleporterAddress =
     ERC20TokenHomeCaller_IsTeleporterAddressPaused (SessionContract s) (SessionCallOpts s)
     teleporterAddress"

definition ERC20TokenHomeCaller_Owner ::
  "'w bound_contract \<Rightarrow> CallOpts \<Rightarrow> ('w, goerr + address) prog" where
  "ERC20TokenHomeCaller_Owner c opts =
     call_method c opts ''owner'' [] (out1 go_addr)"

definition ERC20TokenHomeSession_Owner ::
  "'w session \<Rightarrow> ('w, goerr + address) prog" where
  "ERC20TokenHomeSession_Owner s = ERC20TokenHomeCaller_Owner (SessionContract s)
     (SessionCallOpts s)"

definition ERC20TokenHomeTransactor_PauseTeleporterAddress ::
  "'w bound_contract \<Rightarrow> TransactOpts \<Rightarrow> address \<Rightarrow> ('w, goerr + hash) prog" where
  "ERC20TokenHomeTransactor_PauseTeleporterAddress c opts teleporterAddress =
     contract_transact c opts ''pauseTeleporterAddress'' [GAddr teleporterAddress]"

definition ERC20TokenHomeSession_PauseTeleporterAddress ::
  "'w session \<Rightarrow> address \<Rightarrow> ('w, goerr + hash) prog" where
  "ERC20TokenHomeSession_PauseTeleporterAddress s teleporterAddress =
     ERC20TokenHomeTransactor_PauseTeleporterAddress (SessionContract s) (SessionTransactOpts s)
     teleporterAddress"

definition ERC20TokenHomeTransactor_ReceiveTeleporterMessage ::
  "'w bound_contract \<Rightarrow> TransactOpts \<Rightarrow> hash \<Rightarrow> address \<Rightarrow> bytes \<Rightarrow> ('w, goerr + hash) prog" where
  "ERC20TokenHomeTransactor_ReceiveTeleporterMessage c opts sourceBlockchainID
     originSenderAddress message =
     contract_transact c opts ''receiveTeleporterMessage'' [GArr32 sourceBlockchainID, GAddr
        originSenderAddress, GBytes message]"

definition ERC20TokenHomeSession_ReceiveTeleporterMessage ::
  "'w session \<Rightarrow> hash \<Rightarrow> address \<Rightarrow> bytes \<Rightarrow> ('w, goerr + hash) prog" where
  "ERC20TokenHomeSession_ReceiveTeleporterMessage s sourceBlockchainID originSenderAddress
     message = ERC20TokenHomeTransactor_ReceiveTeleporterMessage (SessionContract s)
     (SessionTransactOpts s) sourceBlockchainID originSenderAddress message"

definition ERC20TokenHomeTransactor_RenounceOwnership ::
  "'w bound_contract \<Rightarrow> TransactOpts \<Rightarrow> ('w, goerr + hash) prog" where
  "ERC20TokenHomeTransactor_RenounceOwnership c opts =
     contract_transact c opts ''renounceOwnership'' []"

definition ERC20TokenHomeSession_RenounceOwnership ::
  "'w session \<Rightarrow> ('w, goerr + hash) prog" where
  "ERC20TokenHomeSession_RenounceOwnership s = ERC20TokenHomeTransactor_RenounceOwnership
     (SessionContract s) (SessionTransactOpts s)"

definition ERC20TokenHomeTransactor_Send ::
  "'w bound_contract \<Rightarrow> TransactOpts \<Rightarrow> SendTokensInput \<Rightarrow> int \<Rightarrow> ('w, goerr + hash) prog" where
  "ERC20TokenHomeTransactor_Send c opts input_data amount =
     contract_transact c opts ''send'' [SendTokensInput_val input_data, GBig amount]"

definition ERC20TokenHomeSession_Send ::
  "'w session \<Rightarrow> SendTokensInput \<Rightarrow> int \<Rightarrow> ('w, goerr + hash) prog" where
  "ERC20TokenHomeSession_Send s input_data amount = ERC20TokenHomeTransactor_Send
     (SessionContract s) (SessionTransactOpts s) input_data amount"

definition ERC20TokenHomeTransactor_SendAndCall ::
  "'w bound_contract \<Rightarrow> TransactOpts \<Rightarrow> SendAndCallInput \<Rightarrow> int \<Rightarrow> ('w, goerr + hash) prog" where
  "ERC20TokenHomeTransactor_SendAndCall c opts input_data amount =
     contract_transact c opts ''sendAndCall'' [SendAndCallInput_val input_data, GBig amount]"

definition ERC20TokenHomeSession_SendAndCall ::
  "'w session \<Rightarrow> SendAndCallInput \<Rightarrow> int \<Rightarrow> ('w, goerr + hash) prog" where
  "ERC20TokenHomeSession_SendAndCall s input_data amount = ERC20TokenHomeTransactor_SendAndCall
     (SessionContract s) (SessionTransactOpts s) input_data amount"

definition ERC20TokenHomeTransactor_TransferOwnership ::
  "'w bound_contract \<Rightarrow> TransactOpts \<Rightarrow> address \<Rightarrow> ('w, goerr + hash) prog" where
  "ERC20TokenHomeTransactor_TransferOwnership c opts newOwner =
     contract_transact c opts ''transferOwnership'' [GAddr newOwner]"

definition ERC20TokenHomeSession_TransferOwnership ::
  "'w session \<Rightarrow> address \<Rightarrow> ('w, goerr + hash) prog" where
  "ERC20TokenHomeSession_TransferOwnership s newOwner =
     ERC20TokenHomeTransactor_TransferOwnership (SessionContract s) (SessionTransactOpts s)
     newOwner"

definition ERC20TokenHomeTransactor_UnpauseTeleporterAddress ::
  "'w bound_contract \<Rightarrow> TransactOpts \<Rightarrow> address \<Rightarrow> ('w, goerr + hash) prog" where
  "ERC20TokenHomeTransactor_UnpauseTeleporterAddress c opts teleporterAddress =
     contract_transact c opts ''unpauseTeleporterAddress'' [GAddr teleporterAddress]"

definition ERC20TokenHomeSession_UnpauseTeleporterAddress ::
  "'w session \<Rightarrow> address \<Rightarrow> ('w, goerr + hash) prog" where
  "ERC20TokenHomeSession_UnpauseTeleporterAddress s teleporterAddress =
     ERC20TokenHomeTransactor_UnpauseTeleporterAddress (SessionContract s) (SessionTransactOpts
     s) teleporterAddress"

definition ERC20TokenHomeTransactor_UpdateMinTeleporterVersion ::
  "'w bound_contract \<Rightarrow> TransactOpts \<Rightarrow> int \<Rightarrow> ('w, goerr + hash) prog" where
  "ERC20TokenHomeTransactor_UpdateMinTeleporterVersion c opts version_number =
     contract_transact c opts ''updateMinTeleporterVersion'' [GBig version_number]"

definition ERC20TokenHomeSession_UpdateMinTeleporterVersion ::
  "'w session \<Rightarrow> int \<Rightarrow> ('w, goerr + hash) prog" where
  "ERC20TokenHomeSession_UpdateMinTeleporterVersion s version_number =
     ERC20TokenHomeTransactor_UpdateMinTeleporterVersion (SessionContract s)
     (SessionTransactOpts s) version_number"

section \<open>Events\<close>

definition ERC20TokenHomeCallFailed :: event_fields where
  "ERC20TokenHomeCallFailed = [(''RecipientContract'', GAddr 0), (''Amount'', GNil), (''Raw'',
     zero_Log)]"

definition ERC20TokenHomeCallFailedIterator_Next ::
  "'w bound_contract \<Rightarrow> bool \<Rightarrow> iterator \<Rightarrow> (bool \<times> iterator) option" where
  "ERC20TokenHomeCallFailedIterator_Next c pick it = iterator_Next (parse_log c ''CallFailed''
     ERC20TokenHomeCallFailed) ERC20TokenHomeCallFailed pick it"

definition ERC20TokenHomeCallFailedIterator_Error :: "iterator \<Rightarrow> goerr option" where
  "ERC20TokenHomeCallFailedIterator_Error it = iterator_Error it"

definition ERC20TokenHomeCallFailedIterator_Close :: "iterator \<Rightarrow> goerr option \<times> iterator" where
  "ERC20TokenHomeCallFailedIterator_Close it = iterator_Close it"

definition ERC20TokenHomeFilterer_FilterCallFailed ::
  "'w bound_contract \<Rightarrow> FilterOpts \<Rightarrow> address list \<Rightarrow> ('w, goerr + iterator) prog" where
  "ERC20TokenHomeFilterer_FilterCallFailed c opts recipientContract =
     filter_events c opts ''CallFailed'' [map GAddr recipientContract]"

definition ERC20TokenHomeFilterer_WatchCallFailed ::
  "'w bound_contract \<Rightarrow> address list \<Rightarrow> ('w, goerr + (evm_log \<Rightarrow> goerr + event_fields)) prog" where
  "ERC20TokenHomeFilterer_WatchCallFailed c recipientContract =
     watch_events c ''CallFailed'' ERC20TokenHomeCallFailed [map GAddr recipientContract]"

definition ERC20TokenHomeFilterer_ParseCallFailed ::
  "'w bound_contract \<Rightarrow> evm_log \<Rightarrow> goerr + event_fields" where
  "ERC20TokenHomeFilterer_ParseCallFailed c = parse_log c ''CallFailed''
     ERC20TokenHomeCallFailed"

definition ERC20TokenHomeCallSucceeded :: event_fields where
  "ERC20TokenHomeCallSucceeded = [(''RecipientContract'', GAddr 0), (''Amount'', GNil),
     (''Raw'', zero_Log)]"

definition ERC20TokenHomeCallSucceededIterator_Next ::
  "'w bound_contract \<Rightarrow> bool \<Rightarrow> iterator \<Rightarrow> (bool \<times> iterator) option" where
  "ERC20TokenHomeCallSucceededIterator_Next c pick it = iterator_Next (parse_log c
     ''CallSucceeded'' ERC20TokenHomeCallSucceeded) ERC20TokenHomeCallSucceeded pick it"

definition ERC20TokenHomeCallSucceededIterator_Error :: "iterator \<Rightarrow> goerr option" where
  "ERC20TokenHomeCallSucceededIterator_Error it = iterator_Error it"

definition ERC20TokenHomeCallSucceededIterator_Close :: "iterator \<Rightarrow> goerr option \<times> iterator"
   where
  "ERC20TokenHomeCallSucceededIterator_Close it = iterator_Close it"

definition ERC20TokenHomeFilterer_FilterCallSucceeded ::
  "'w bound_contract \<Rightarrow> FilterOpts \<Rightarrow> address list \<Rightarrow> ('w, goerr + iterator) prog" where
  "ERC20TokenHomeFilterer_FilterCallSucceeded c opts recipientContract =
     filter_events c opts ''CallSucceeded'' [map GAddr recipientContract]"

definition ERC20TokenHomeFilterer_WatchCallSucceeded ::
  "'w bound_contract \<Rightarrow> address list \<Rightarrow> ('w, goerr + (evm_log \<Rightarrow> goerr + event_fields)) prog" where
  "ERC20TokenHomeFilterer_WatchCallSucceeded c recipientContract =
     watch_events c ''CallSucceeded'' ERC20TokenHomeCallSucceeded [map GAddr recipientContract]"

definition ERC20TokenHomeFilterer_ParseCallSucceeded ::
  "'w bound_contract \<Rightarrow> evm_log \<Rightarrow> goerr + event_fields" where
  "ERC20TokenHomeFilterer_ParseCallSucceeded c = parse_log c ''CallSucceeded''
     ERC20TokenHomeCallSucceeded"

definition ERC20TokenHomeCollateralAdded :: event_fields where
  "ERC20TokenHomeCollateralAdded = [(''RemoteBlockchainID'', GArr32 0),
     (''RemoteTokenTransferrerAddress'', GAddr 0), (''Amount'', GNil), (''Remaining'', GNil),
     (''Raw'', zero_Log)]"

definition ERC20TokenHomeCollateralAddedIterator_Next ::
  "'w bound_contract \<Rightarrow> bool \<Rightarrow> iterator \<Rightarrow> (bool \<times> iterator) option" where
  "ERC20TokenHomeCollateralAddedIterator_Next c pick it = iterator_Next (parse_log c
     ''CollateralAdded'' ERC20TokenHomeCollateralAdded) ERC20TokenHomeCollateralAdded pick it"

definition ERC20TokenHomeCollateralAddedIterator_Error :: "iterator \<Rightarrow> goerr option" where
  "ERC20TokenHomeCollateralAddedIterator_Error it = iterator_Error it"

definition ERC20TokenHomeCollateralAddedIterator_Close :: "iterator \<Rightarrow> goerr option \<times> iterator"
   where
  "ERC20TokenHomeCollateralAddedIterator_Close it = iterator_Close it"

definition ERC20TokenHomeFilterer_FilterCollateralAdded ::
  "'w bound_contract \<Rightarrow> FilterOpts \<Rightarrow> hash list \<Rightarrow> address list \<Rightarrow> ('w, goerr + iterator) prog"
     where
  "ERC20TokenHomeFilterer_FilterCollateralAdded c opts remoteBlockchainID
     remoteTokenTransferrerAddress =
     filter_events c opts ''CollateralAdded'' [map GArr32 remoteBlockchainID, map GAddr
        remoteTokenTransferrerAddress]"

definition ERC20TokenHomeFilterer_WatchCollateralAdded ::
  "'w bound_contract \<Rightarrow> hash list \<Rightarrow> address list \<Rightarrow> ('w, goerr + (evm_log \<Rightarrow> goerr + event_fields))
     prog" where
  "ERC20TokenHomeFilterer_WatchCollateralAdded c remoteBlockchainID
     remoteTokenTransferrerAddress =
     watch_events c ''CollateralAdded'' ERC20TokenHomeCollateralAdded [map GArr32
        remoteBlockchainID, map GAddr remoteTokenTransferrerAddress]"

definition ERC20TokenHomeFilterer_ParseCollateralAdded ::
  "'w bound_contract \<Rightarrow> evm_log \<Rightarrow> goerr + event_fields" where
  "ERC20TokenHomeFilterer_ParseCollateralAdded c = parse_log c ''CollateralAdded''
     ERC20TokenHomeCollateralAdded"

definition ERC20TokenHomeInitialized :: event_fields where
  "ERC20TokenHomeInitialized = [(''Version'', GUint 64 0), (''Raw'', zero_Log)]"

definition ERC20TokenHomeInitializedIterator_Next ::
  "'w bound_contract \<Rightarrow> bool \<Rightarrow> iterator \<Rightarrow> (bool \<times> iterator) option" where
  "ERC20TokenHomeInitializedIterator_Next c pick it = iterator_Next (parse_log c ''Initialized''
     ERC20TokenHomeInitialized) ERC20TokenHomeInitialized pick it"

definition ERC20TokenHomeInitializedIterator_Error :: "iterator \<Rightarrow> goerr option" where
  "ERC20TokenHomeInitializedIterator_Error it = iterator_Error it"

definition ERC20TokenHomeInitializedIterator_Close :: "iterator \<Rightarrow> goerr option \<times> iterator" where
  "ERC20TokenHomeInitializedIterator_Close it = iterator_Close it"

definition ERC20TokenHomeFilterer_FilterInitialized ::
  "'w bound_contract \<Rightarrow> FilterOpts \<Rightarrow> ('w, goerr + iterator) prog" where
  "ERC20TokenHomeFilterer_FilterInitialized c opts =
     filter_events c opts ''Initialized'' []"

definition ERC20TokenHomeFilterer_WatchInitialized ::
  "'w bound_contract \<Rightarrow> ('w, goerr + (evm_log \<Rightarrow> goerr + event_fields)) prog" where
  "ERC20TokenHomeFilterer_WatchInitialized c =
     watch_events c ''Initialized'' ERC20TokenHomeInitialized []"

definition ERC20TokenHomeFilterer_ParseInitialized ::
  "'w bound_contract \<Rightarrow> evm_log \<Rightarrow> goerr + event_fields" where
  "ERC20TokenHomeFilterer_ParseInitialized c = parse_log c ''Initialized''
     ERC20TokenHomeInitialized"

definition ERC20TokenHomeMinTeleporterVersionUpdated :: event_fields where
  "ERC20TokenHomeMinTeleporterVersionUpdated = [(''OldMinTeleporterVersion'', GNil),
     (''NewMinTeleporterVersion'', GNil), (''Raw'', zero_Log)]"

definition ERC20TokenHomeMinTeleporterVersionUpdatedIterator_Next ::
  "'w bound_contract \<Rightarrow> bool \<Rightarrow> iterator \<Rightarrow> (bool \<times> iterator) option" where
  "ERC20TokenHomeMinTeleporterVersionUpdatedIterator_Next c pick it = iterator_Next (parse_log c
     ''MinTeleporterVersionUpdated'' ERC20TokenHomeMinTeleporterVersionUpdated)
     ERC20TokenHomeMinTeleporterVersionUpdated pick it"

definition ERC20TokenHomeMinTeleporterVersionUpdatedIterator_Error :: "iterator \<Rightarrow> goerr option"
   where
  "ERC20TokenHomeMinTeleporterVersionUpdatedIterator_Error it = iterator_Error it"

definition ERC20TokenHomeMinTeleporterVersionUpdatedIterator_Close :: "iterator \<Rightarrow> goerr option \<times>
   iterator" where
  "ERC20TokenHomeMinTeleporterVersionUpdatedIterator_Close it = iterator_Close it"

definition ERC20TokenHomeFilterer_FilterMinTeleporterVersionUpdated ::
  "'w bound_contract \<Rightarrow> FilterOpts \<Rightarrow> int list \<Rightarrow> int list \<Rightarrow> ('w, goerr + iterator) prog" where
  "ERC20TokenHomeFilterer_FilterMinTeleporterVersionUpdated c opts oldMinTeleporterVersion
     newMinTeleporterVersion =
     filter_events c opts ''MinTeleporterVersionUpdated'' [map GBig oldMinTeleporterVersion, map
        GBig newMinTeleporterVersion]"

definition ERC20TokenHomeFilterer_WatchMinTeleporterVersionUpdated ::
  "'w bound_contract \<Rightarrow> int list \<Rightarrow> int list \<Rightarrow> ('w, goerr + (evm_log \<Rightarrow> goerr + event_fields))
     prog" where
  "ERC20TokenHomeFilterer_WatchMinTeleporterVersionUpdated c oldMinTeleporterVersion
     newMinTeleporterVersion =
     watch_events c ''MinTeleporterVersionUpdated'' ERC20TokenHomeMinTeleporterVersionUpdated
        [map GBig oldMinTeleporterVersion, map GBig newMinTeleporterVersion]"

definition ERC20TokenHomeFilterer_ParseMinTeleporterVersionUpdated ::
  "'w bound_contract \<Rightarrow> evm_log \<Rightarrow> goerr + event_fields" where
  "ERC20TokenHomeFilterer_ParseMinTeleporterVersionUpdated c = parse_log c
     ''MinTeleporterVersionUpdated'' ERC20TokenHomeMinTeleporterVersionUpdated"

definition ERC20TokenHomeOwnershipTransferred :: event_fields where
  "ERC20TokenHomeOwnershipTransferred = [(''PreviousOwner'', GAddr 0), (''NewOwner'', GAddr 0),
     (''Raw'', zero_Log)]"

definition ERC20TokenHomeOwnershipTransferredIterator_Next ::
  "'w bound_contract \<Rightarrow> bool \<Rightarrow> iterator \<Rightarrow> (bool \<times> iterator) option" where
  "ERC20TokenHomeOwnershipTransferredIterator_Next c pick it = iterator_Next (parse_log c
     ''OwnershipTransferred'' ERC20TokenHomeOwnershipTransferred)
     ERC20TokenHomeOwnershipTransferred pick it"

definition ERC20TokenHomeOwnershipTransferredIterator_Error :: "iterator \<Rightarrow> goerr option" where
  "ERC20TokenHomeOwnershipTransferredIterator_Error it = iterator_Error it"

definition ERC20TokenHomeOwnershipTransferredIterator_Close :: "iterator \<Rightarrow> goerr option \<times>
   iterator" where
  "ERC20TokenHomeOwnershipTransferredIterator_Close it = iterator_Close it"

definition ERC20TokenHomeFilterer_FilterOwnershipTransferred ::
  "'w bound_contract \<Rightarrow> FilterOpts \<Rightarrow> address list \<Rightarrow> address list \<Rightarrow> ('w, goerr + iterator) prog"
     where
  "ERC20TokenHomeFilterer_FilterOwnershipTransferred c opts previousOwner newOwner =
     filter_events c opts ''OwnershipTransferred'' [map GAddr previousOwner, map GAddr
        newOwner]"

definition ERC20TokenHomeFilterer_WatchOwnershipTransferred ::
  "'w bound_contract \<Rightarrow> address list \<Rightarrow> address list \<Rightarrow> ('w, goerr + (evm_log \<Rightarrow> goerr +
     event_fields)) prog" where
  "ERC20TokenHomeFilterer_WatchOwnershipTransferred c previousOwner newOwner =
     watch_events c ''OwnershipTransferred'' ERC20TokenHomeOwnershipTransferred [map GAddr
        previousOwner, map GAddr newOwner]"

definition ERC20TokenHomeFilterer_ParseOwnershipTransferred ::
  "'w bound_contract \<Rightarrow> evm_log \<Rightarrow> goerr + event_fields" where
  "ERC20TokenHomeFilterer_ParseOwnershipTransferred c = parse_log c ''OwnershipTransferred''
     ERC20TokenHomeOwnershipTransferred"

definition ERC20TokenHomeRemoteRegistered :: event_fields where
  "ERC20TokenHomeRemoteRegistered = [(''RemoteBlockchainID'', GArr32 0),
     (''RemoteTokenTransferrerAddress'', GAddr 0), (''InitialCollateralNeeded'', GNil),
     (''TokenDecimals'', GUint 8 0), (''Raw'', zero_Log)]"

definition ERC20TokenHomeRemoteRegisteredIterator_Next ::
  "'w bound_contract \<Rightarrow> bool \<Rightarrow> iterator \<Rightarrow> (bool \<times> iterator) option" where
  "ERC20TokenHomeRemoteRegisteredIterator_Next c pick it = iterator_Next (parse_log c
     ''RemoteRegistered'' ERC20TokenHomeRemoteRegistered) ERC20TokenHomeRemoteRegistered pick
     it"

definition ERC20TokenHomeRemoteRegisteredIterator_Error :: "iterator \<Rightarrow> goerr option" where
  "ERC20TokenHomeRemoteRegisteredIterator_Error it = iterator_Error it"

definition ERC20TokenHomeRemoteRegisteredIterator_Close :: "iterator \<Rightarrow> goerr option \<times> iterator"
   where
  "ERC20TokenHomeRemoteRegisteredIterator_Close it = iterator_Close it"

definition ERC20TokenHomeFilterer_FilterRemoteRegistered ::
  "'w bound_contract \<Rightarrow> FilterOpts \<Rightarrow> hash list \<Rightarrow> address list \<Rightarrow> ('w, goerr + iterator) prog"
     where
  "ERC20TokenHomeFilterer_FilterRemoteRegistered c opts remoteBlockchainID
     remoteTokenTransferrerAddress =
     filter_events c opts ''RemoteRegistered'' [map GArr32 remoteBlockchainID, map GAddr
        remoteTokenTransferrerAddress]"

definition ERC20TokenHomeFilterer_WatchRemoteRegistered ::
  "'w bound_contract \<Rightarrow> hash list \<Rightarrow> address list \<Rightarrow> ('w, goerr + (evm_log \<Rightarrow> goerr + event_fields))
     prog" where
  "ERC20TokenHomeFilterer_WatchRemoteRegistered c remoteBlockchainID
     remoteTokenTransferrerAddress =
     watch_events c ''RemoteRegistered'' ERC20TokenHomeRemoteRegistered [map GArr32
        remoteBlockchainID, map GAddr remoteTokenTransferrerAddress]"

definition ERC20TokenHomeFilterer_ParseRemoteRegistered ::
  "'w bound_contract \<Rightarrow> evm_log \<Rightarrow> goerr + event_fields" where
  "ERC20TokenHomeFilterer_ParseRemoteRegistered c = parse_log c ''RemoteRegistered''
     ERC20TokenHomeRemoteRegistered"

definition ERC20TokenHomeTeleporterAddressPaused :: event_fields where
  "ERC20TokenHomeTeleporterAddressPaused = [(''TeleporterAddress'', GAddr 0), (''Raw'',
     zero_Log)]"

definition ERC20TokenHomeTeleporterAddressPausedIterator_Next ::
  "'w bound_contract \<Rightarrow> bool \<Rightarrow> iterator \<Rightarrow> (bool \<times> iterator) option" where
  "ERC20TokenHomeTeleporterAddressPausedIterator_Next c pick it = iterator_Next (parse_log c
     ''TeleporterAddressPaused'' ERC20TokenHomeTeleporterAddressPaused)
     ERC20TokenHomeTeleporterAddressPaused pick it"

definition ERC20TokenHomeTeleporterAddressPausedIterator_Error :: "iterator \<Rightarrow> goerr option"
   where
  "ERC20TokenHomeTeleporterAddressPausedIterator_Error it = iterator_Error it"

definition ERC20TokenHomeTeleporterAddressPausedIterator_Close :: "iterator \<Rightarrow> goerr option \<times>
   iterator" where
  "ERC20TokenHomeTeleporterAddressPausedIterator_Close it = iterator_Close it"

definition ERC20TokenHomeFilterer_FilterTeleporterAddressPaused ::
  "'w bound_contract \<Rightarrow> FilterOpts \<Rightarrow> address list \<Rightarrow> ('w, goerr + iterator) prog" where
  "ERC20TokenHomeFilterer_FilterTeleporterAddressPaused c opts teleporterAddress =
     filter_events c opts ''TeleporterAddressPaused'' [map GAddr teleporterAddress]"

definition ERC20TokenHomeFilterer_WatchTeleporterAddressPaused ::
  "'w bound_contract \<Rightarrow> address list \<Rightarrow> ('w, goerr + (evm_log \<Rightarrow> goerr + event_fields)) prog" where
  "ERC20TokenHomeFilterer_WatchTeleporterAddressPaused c teleporterAddress =
     watch_events c ''TeleporterAddressPaused'' ERC20TokenHomeTeleporterAddressPaused [map GAddr
        teleporterAddress]"

definition ERC20TokenHomeFilterer_ParseTeleporterAddressPaused ::
  "'w bound_contract \<Rightarrow> evm_log \<Rightarrow> goerr + event_fields" where
  "ERC20TokenHomeFilterer_ParseTeleporterAddressPaused c = parse_log c
     ''TeleporterAddressPaused'' ERC20TokenHomeTeleporterAddressPaused"

definition ERC20TokenHomeTeleporterAddressUnpaused :: event_fields where
  "ERC20TokenHomeTeleporterAddressUnpaused = [(''TeleporterAddress'', GAddr 0), (''Raw'',
     zero_Log)]"

definition ERC20TokenHomeTeleporterAddressUnpausedIterator_Next ::
  "'w bound_contract \<Rightarrow> bool \<Rightarrow> iterator \<Rightarrow> (bool \<times> iterator) option" where
  "ERC20TokenHomeTeleporterAddressUnpausedIterator_Next c pick it = iterator_Next (parse_log c
     ''TeleporterAddressUnpaused'' ERC20TokenHomeTeleporterAddressUnpaused)
     ERC20TokenHomeTeleporterAddressUnpaused pick it"

definition ERC20TokenHomeTeleporterAddressUnpausedIterator_Error :: "iterator \<Rightarrow> goerr option"
   where
  "ERC20TokenHomeTeleporterAddressUnpausedIterator_Error it = iterator_Error it"

definition ERC20TokenHomeTeleporterAddressUnpausedIterator_Close :: "iterator \<Rightarrow> goerr option \<times>
   iterator" where
  "ERC20TokenHomeTeleporterAddressUnpausedIterator_Close it = iterator_Close it"

definition ERC20TokenHomeFilterer_FilterTeleporterAddressUnpaused ::
  "'w bound_contract \<Rightarrow> FilterOpts \<Rightarrow> address list \<Rightarrow> ('w, goerr + iterator) prog" where
  "ERC20TokenHomeFilterer_FilterTeleporterAddressUnpaused c opts teleporterAddress =
     filter_events c opts ''TeleporterAddressUnpaused'' [map GAddr teleporterAddress]"

definition ERC20TokenHomeFilterer_WatchTeleporterAddressUnpaused ::
  "'w bound_contract \<Rightarrow> address list \<Rightarrow> ('w, goerr + (evm_log \<Rightarrow> goerr + event_fields)) prog" where
  "ERC20TokenHomeFilterer_WatchTeleporterAddressUnpaused c teleporterAddress =
     watch_events c ''TeleporterAddressUnpaused'' ERC20TokenHomeTeleporterAddressUnpaused [map
        GAddr teleporterAddress]"

definition ERC20TokenHomeFilterer_ParseTeleporterAddressUnpaused ::
  "'w bound_contract \<Rightarrow> evm_log \<Rightarrow> goerr + event_fields" where
  "ERC20TokenHomeFilterer_ParseTeleporterAddressUnpaused c = parse_log c
     ''TeleporterAddressUnpaused'' ERC20TokenHomeTeleporterAddressUnpaused"

definition ERC20TokenHomeTokensAndCallRouted :: event_fields where
  "ERC20TokenHomeTokensAndCallRouted = [(''TeleporterMessageID'', GArr32 0), (''Input'',
     zero_SendAndCallInput), (''Amount'', GNil), (''Raw'', zero_Log)]"

definition ERC20TokenHomeTokensAndCallRoutedIterator_Next ::
  "'w bound_contract \<Rightarrow> bool \<Rightarrow> iterator \<Rightarrow> (bool \<times> iterator) option" where
  "ERC20TokenHomeTokensAndCallRoutedIterator_Next c pick it = iterator_Next (parse_log c
     ''TokensAndCallRouted'' ERC20TokenHomeTokensAndCallRouted)
     ERC20TokenHomeTokensAndCallRouted pick it"

definition ERC20TokenHomeTokensAndCallRoutedIterator_Error :: "iterator \<Rightarrow> goerr option" where
  "ERC20TokenHomeTokensAndCallRoutedIterator_Error it = iterator_Error it"

definition ERC20TokenHomeTokensAndCallRoutedIterator_Close :: "iterator \<Rightarrow> goerr option \<times>
   iterator" where
  "ERC20TokenHomeTokensAndCallRoutedIterator_Close it = iterator_Close it"

definition ERC20TokenHomeFilterer_FilterTokensAndCallRouted ::
  "'w bound_contract \<Rightarrow> FilterOpts \<Rightarrow> hash list \<Rightarrow> ('w, goerr + iterator) prog" where
  "ERC20TokenHomeFilterer_FilterTokensAndCallRouted c opts teleporterMessageID =
     filter_events c opts ''TokensAndCallRouted'' [map GArr32 teleporterMessageID]"

definition ERC20TokenHomeFilterer_WatchTokensAndCallRouted ::
  "'w bound_contract \<Rightarrow> hash list \<Rightarrow> ('w, goerr + (evm_log \<Rightarrow> goerr + event_fields)) prog" where
  "ERC20TokenHomeFilterer_WatchTokensAndCallRouted c teleporterMessageID =
     watch_events c ''TokensAndCallRouted'' ERC20TokenHomeTokensAndCallRouted [map GArr32
        teleporterMessageID]"

definition ERC20TokenHomeFilterer_ParseTokensAndCallRouted ::
  "'w bound_contract \<Rightarrow> evm_log \<Rightarrow> goerr + event_fields" where
  "ERC20TokenHomeFilterer_ParseTokensAndCallRouted c = parse_log c ''TokensAndCallRouted''
     ERC20TokenHomeTokensAndCallRouted"

definition ERC20TokenHomeTokensAndCallSent :: event_fields where
  "ERC20TokenHomeTokensAndCallSent = [(''TeleporterMessageID'', GArr32 0), (''Sender'', GAddr
     0), (''Input'', zero_SendAndCallInput), (''Amount'', GNil), (''Raw'', zero_Log)]"

definition ERC20TokenHomeTokensAndCallSentIterator_Next ::
  "'w bound_contract \<Rightarrow> bool \<Rightarrow> iterator \<Rightarrow> (bool \<times> iterator) option" where
  "ERC20TokenHomeTokensAndCallSentIterator_Next c pick it = iterator_Next (parse_log c
     ''TokensAndCallSent'' ERC20TokenHomeTokensAndCallSent) ERC20TokenHomeTokensAndCallSent pick
     it"

definition ERC20TokenHomeTokensAndCallSentIterator_Error :: "iterator \<Rightarrow> goerr option" where
  "ERC20TokenHomeTokensAndCallSentIterator_Error it = iterator_Error it"

definition ERC20TokenHomeTokensAndCallSentIterator_Close :: "iterator \<Rightarrow> goerr option \<times> iterator"
   where
  "ERC20TokenHomeTokensAndCallSentIterator_Close it = iterator_Close it"

definition ERC20TokenHomeFilterer_FilterTokensAndCallSent ::
  "'w bound_contract \<Rightarrow> FilterOpts \<Rightarrow> hash list \<Rightarrow> address list \<Rightarrow> ('w, goerr + iterator) prog"
     where
  "ERC20TokenHomeFilterer_FilterTokensAndCallSent c opts teleporterMessageID sender =
     filter_events c opts ''TokensAndCallSent'' [map GArr32 teleporterMessageID, map GAddr
        sender]"

definition ERC20TokenHomeFilterer_WatchTokensAndCallSent ::
  "'w bound_contract \<Rightarrow> hash list \<Rightarrow> address list \<Rightarrow> ('w, goerr + (evm_log \<Rightarrow> goerr + event_fields))
     prog" where
  "ERC20TokenHomeFilterer_WatchTokensAndCallSent c teleporterMessageID sender =
     watch_events c ''TokensAndCallSent'' ERC20TokenHomeTokensAndCallSent [map GArr32
        teleporterMessageID, map GAddr sender]"

definition ERC20TokenHomeFilterer_ParseTokensAndCallSent ::
  "'w bound_contract \<Rightarrow> evm_log \<Rightarrow> goerr + event_fields" where
  "ERC20TokenHomeFilterer_ParseTokensAndCallSent c = parse_log c ''TokensAndCallSent''
     ERC20TokenHomeTokensAndCallSent"

definition ERC20TokenHomeTokensRouted :: event_fields where
  "ERC20TokenHomeTokensRouted = [(''TeleporterMessageID'', GArr32 0), (''Input'',
     zero_SendTokensInput), (''Amount'', GNil), (''Raw'', zero_Log)]"

definition ERC20TokenHomeTokensRoutedIterator_Next ::
  "'w bound_contract \<Rightarrow> bool \<Rightarrow> iterator \<Rightarrow> (bool \<times> iterator) option" where
  "ERC20TokenHomeTokensRoutedIterator_Next c pick it = iterator_Next (parse_log c
     ''TokensRouted'' ERC20TokenHomeTokensRouted) ERC20TokenHomeTokensRouted pick it"

definition ERC20TokenHomeTokensRoutedIterator_Error :: "iterator \<Rightarrow> goerr option" where
  "ERC20TokenHomeTokensRoutedIterator_Error it = iterator_Error it"

definition ERC20TokenHomeTokensRoutedIterator_Close :: "iterator \<Rightarrow> goerr option \<times> iterator"
   where
  "ERC20TokenHomeTokensRoutedIterator_Close it = iterator_Close it"

definition ERC20TokenHomeFilterer_FilterTokensRouted ::
  "'w bound_contract \<Rightarrow> FilterOpts \<Rightarrow> hash list \<Rightarrow> ('w, goerr + iterator) prog" where
  "ERC20TokenHomeFilterer_FilterTokensRouted c opts teleporterMessageID =
     filter_events c opts ''TokensRouted'' [map GArr32 teleporterMessageID]"

definition ERC20TokenHomeFilterer_WatchTokensRouted ::
  "'w bound_contract \<Rightarrow> hash list \<Rightarrow> ('w, goerr + (evm_log \<Rightarrow> goerr + event_fields)) prog" where
  "ERC20TokenHomeFilterer_WatchTokensRouted c teleporterMessageID =
     watch_events c ''TokensRouted'' ERC20TokenHomeTokensRouted [map GArr32
        teleporterMessageID]"

definition ERC20TokenHomeFilterer_ParseTokensRouted ::
  "'w bound_contract \<Rightarrow> evm_log \<Rightarrow> goerr + event_fields" where
  "ERC20TokenHomeFilterer_ParseTokensRouted c = parse_log c ''TokensRouted''
     ERC20TokenHomeTokensRouted"

definition ERC20TokenHomeTokensSent :: event_fields where
  "ERC20TokenHomeTokensSent = [(''TeleporterMessageID'', GArr32 0), (''Sender'', GAddr 0),
     (''Input'', zero_SendTokensInput), (''Amount'', GNil), (''Raw'', zero_Log)]"

definition ERC20TokenHomeTokensSentIterator_Next ::
  "'w bound_contract \<Rightarrow> bool \<Rightarrow> iterator \<Rightarrow> (bool \<times> iterator) option" where
  "ERC20TokenHomeTokensSentIterator_Next c pick it = iterator_Next (parse_log c ''TokensSent''
     ERC20TokenHomeTokensSent) ERC20TokenHomeTokensSent pick it"

definition ERC20TokenHomeTokensSentIterator_Error :: "iterator \<Rightarrow> goerr option" where
  "ERC20TokenHomeTokensSentIterator_Error it = iterator_Error it"

definition ERC20TokenHomeTokensSentIterator_Close :: "iterator \<Rightarrow> goerr option \<times> iterator" where
  "ERC20TokenHomeTokensSentIterator_Close it = iterator_Close it"

definition ERC20TokenHomeFilterer_FilterTokensSent ::
  "'w bound_contract \<Rightarrow> FilterOpts \<Rightarrow> hash list \<Rightarrow> address list \<Rightarrow> ('w, goerr + iterator) prog"
     where
  "ERC20TokenHomeFilterer_FilterTokensSent c opts teleporterMessageID sender =
     filter_events c opts ''TokensSent'' [map GArr32 teleporterMessageID, map GAddr sender]"

definition ERC20TokenHomeFilterer_WatchTokensSent ::
  "'w bound_contract \<Rightarrow> hash list \<Rightarrow> address list \<Rightarrow> ('w, goerr + (evm_log \<Rightarrow> goerr + event_fields))
     prog" where
  "ERC20TokenHomeFilterer_WatchTokensSent c teleporterMessageID sender =
     watch_events c ''TokensSent'' ERC20TokenHomeTokensSent [map GArr32 teleporterMessageID, map
        GAddr sender]"

definition ERC20TokenHomeFilterer_ParseTokensSent ::
  "'w bound_contract \<Rightarrow> evm_log \<Rightarrow> goerr + event_fields" where
  "ERC20TokenHomeFilterer_ParseTokensSent c = parse_log c ''TokensSent''
     ERC20TokenHomeTokensSent"

definition ERC20TokenHomeTokensWithdrawn :: event_fields where
  "ERC20TokenHomeTokensWithdrawn = [(''Recipient'', GAddr 0), (''Amount'', GNil), (''Raw'',
     zero_Log)]"

definition ERC20TokenHomeTokensWithdrawnIterator_Next ::
  "'w bound_contract \<Rightarrow> bool \<Rightarrow> iterator \<Rightarrow> (bool \<times> iterator) option" where
  "ERC20TokenHomeTokensWithdrawnIterator_Next c pick it = iterator_Next (parse_log c
     ''TokensWithdrawn'' ERC20TokenHomeTokensWithdrawn) ERC20TokenHomeTokensWithdrawn pick it"

definition ERC20TokenHomeTokensWithdrawnIterator_Error :: "iterator \<Rightarrow> goerr option" where
  "ERC20TokenHomeTokensWithdrawnIterator_Error it = iterator_Error it"

definition ERC20TokenHomeTokensWithdrawnIterator_Close :: "iterator \<Rightarrow> goerr option \<times> iterator"
   where
  "ERC20TokenHomeTokensWithdrawnIterator_Close it = iterator_Close it"

definition ERC20TokenHomeFilterer_FilterTokensWithdrawn ::
  "'w bound_contract \<Rightarrow> FilterOpts \<Rightarrow> address list \<Rightarrow> ('w, goerr + iterator) prog" where
  "ERC20TokenHomeFilterer_FilterTokensWithdrawn c opts recipient =
     filter_events c opts ''TokensWithdrawn'' [map GAddr recipient]"

definition ERC20TokenHomeFilterer_WatchTokensWithdrawn ::
  "'w bound_contract \<Rightarrow> address list \<Rightarrow> ('w, goerr + (evm_log \<Rightarrow> goerr + event_fields)) prog" where
  "ERC20TokenHomeFilterer_WatchTokensWithdrawn c recipient =
     watch_events c ''TokensWithdrawn'' ERC20TokenHomeTokensWithdrawn [map GAddr recipient]"

definition ERC20TokenHomeFilterer_ParseTokensWithdrawn ::
  "'w bound_contract \<Rightarrow> evm_log \<Rightarrow> goerr + event_fields" where
  "ERC20TokenHomeFilterer_ParseTokensWithdrawn c = parse_log c ''TokensWithdrawn''
     ERC20TokenHomeTokensWithdrawn"

section \<open>Correctness\<close>

lemma ERC20TokenHome_methods:
  "map_of (Methods ERC20TokenHomeABI) ''ERC20_TOKEN_HOME_STORAGE_LOCATION'' =
     Some ([], [([], TBytes32)])"
  "map_of (Methods ERC20TokenHomeABI) ''TELEPORTER_REGISTRY_APP_STORAGE_LOCATION'' =
     Some ([], [([], TBytes32)])"
  "map_of (Methods ERC20TokenHomeABI) ''TOKEN_HOME_STORAGE_LOCATION'' =
     Some ([], [([], TBytes32)])"
  "map_of (Methods ERC20TokenHomeABI) ''addCollateral'' =
     Some ([(''remoteBlockchainID'', TBytes32), (''remoteTokenTransferrerAddress'', TAddress),
        (''amount'', TUint 256)], [])"
  "map_of (Methods ERC20TokenHomeABI) ''getBlockchainID'' =
     Some ([], [([], TBytes32)])"
  "map_of (Methods ERC20TokenHomeABI) ''getMinTeleporterVersion'' =
     Some ([], [([], TUint 256)])"
  "map_of (Methods ERC20TokenHomeABI) ''getRemoteTokenTransferrerSettings'' =
     Some ([(''remoteBlockchainID'', TBytes32), (''remoteTokenTransferrerAddress'', TAddress)],
        [([], RemoteTokenTransferrerSettings_tuple)])"
  "map_of (Methods ERC20TokenHomeABI) ''getTokenAddress'' =
     Some ([], [([], TAddress)])"
  "map_of (Methods ERC20TokenHomeABI) ''getTransferredBalance'' =
     Some ([(''remoteBlockchainID'', TBytes32), (''remoteTokenTransferrerAddress'', TAddress)],
        [([], TUint 256)])"
  "map_of (Methods ERC20TokenHomeABI) ''initialize'' =
     Some ([(''teleporterRegistryAddress'', TAddress), (''teleporterManager'', TAddress),
        (''minTeleporterVersion'', TUint 256), (''tokenAddress'', TAddress), (''tokenDecimals'',
        TUint 8)], [])"
  "map_of (Methods ERC20TokenHomeABI) ''isTeleporterAddressPaused'' =
     Some ([(''teleporterAddress'', TAddress)], [([], TBool)])"
  "map_of (Methods ERC20TokenHomeABI) ''owner'' =
     Some ([], [([], TAddress)])"
  "map_of (Methods ERC20TokenHomeABI) ''pauseTeleporterAddress'' =
     Some ([(''teleporterAddress'', TAddress)], [])"
  "map_of (Methods ERC20TokenHomeABI) ''receiveTeleporterMessage'' =
     Some ([(''sourceBlockchainID'', TBytes32), (''originSenderAddress'', TAddress),
        (''message'', TBytes)], [])"
  "map_of (Methods ERC20TokenHomeABI) ''renounceOwnership'' =
     Some ([], [])"
  "map_of (Methods ERC20TokenHomeABI) ''send'' =
     Some ([(''input'', SendTokensInput_tuple), (''amount'', TUint 256)], [])"
  "map_of (Methods ERC20TokenHomeABI) ''sendAndCall'' =
     Some ([(''input'', SendAndCallInput_tuple), (''amount'', TUint 256)], [])"
  "map_of (Methods ERC20TokenHomeABI) ''transferOwnership'' =
     Some ([(''newOwner'', TAddress)], [])"
  "map_of (Methods ERC20TokenHomeABI) ''unpauseTeleporterAddress'' =
     Some ([(''teleporterAddress'', TAddress)], [])"
  "map_of (Methods ERC20TokenHomeABI) ''updateMinTeleporterVersion'' =
     Some ([(''version'', TUint 256)], [])"
  unfolding ERC20TokenHomeABI_def contract_abi.select_convs
  by (simp_all only: table_lookup)

lemma ERC20TokenHome_decodable:
  "decodable [(''recipientContract'', TAddress, True), (''amount'', TUint 256, False)]
     ERC20TokenHomeCallFailed"
  "decodable [(''recipientContract'', TAddress, True), (''amount'', TUint 256, False)]
     ERC20TokenHomeCallSucceeded"
  "decodable [(''remoteBlockchainID'', TBytes32, True), (''remoteTokenTransferrerAddress'',
     TAddress, True), (''amount'', TUint 256, False), (''remaining'', TUint 256, False)]
     ERC20TokenHomeCollateralAdded"
  "decodable [(''version'', TUint 64, False)]
     ERC20TokenHomeInitialized"
  "decodable [(''oldMinTeleporterVersion'', TUint 256, True), (''newMinTeleporterVersion'',
     TUint 256, True)]
     ERC20TokenHomeMinTeleporterVersionUpdated"
  "decodable [(''previousOwner'', TAddress, True), (''newOwner'', TAddress, True)]
     ERC20TokenHomeOwnershipTransferred"
  "decodable [(''remoteBlockchainID'', TBytes32, True), (''remoteTokenTransferrerAddress'',
     TAddress, True), (''initialCollateralNeeded'', TUint 256, False), (''tokenDecimals'', TUint
     8, False)]
     ERC20TokenHomeRemoteRegistered"
  "decodable [(''teleporterAddress'', TAddress, True)]
     ERC20TokenHomeTeleporterAddressPaused"
  "decodable [(''teleporterAddress'', TAddress, True)]
     ERC20TokenHomeTeleporterAddressUnpaused"
  "decodable [(''teleporterMessageID'', TBytes32, True), (''input'', SendAndCallInput_tuple,
     False), (''amount'', TUint 256, False)]
     ERC20TokenHomeTokensAndCallRouted"
  "decodable [(''teleporterMessageID'', TBytes32, True), (''sender'', TAddress, True),
     (''input'', SendAndCallInput_tuple, False), (''amount'', TUint 256, False)]
     ERC20TokenHomeTokensAndCallSent"
  "decodable [(''teleporterMessageID'', TBytes32, True), (''input'', SendTokensInput_tuple,
     False), (''amount'', TUint 256, False)]
     ERC20TokenHomeTokensRouted"
  "decodable [(''teleporterMessageID'', TBytes32, True), (''sender'', TAddress, True),
     (''input'', SendTokensInput_tuple, False), (''amount'', TUint 256, False)]
     ERC20TokenHomeTokensSent"
  "decodable [(''recipient'', TAddress, True), (''amount'', TUint 256, False)]
     ERC20TokenHomeTokensWithdrawn"
  by (simp_all add: decodable_def has_fields_def fits_def ERC20TokenHomeCallFailed_def
     ERC20TokenHomeCallSucceeded_def ERC20TokenHomeCollateralAdded_def
     ERC20TokenHomeInitialized_def ERC20TokenHomeMinTeleporterVersionUpdated_def
     ERC20TokenHomeOwnershipTransferred_def ERC20TokenHomeRemoteRegistered_def
     ERC20TokenHomeTeleporterAddressPaused_def ERC20TokenHomeTeleporterAddressUnpaused_def
     ERC20TokenHomeTokensAndCallRouted_def ERC20TokenHomeTokensAndCallSent_def
     ERC20TokenHomeTokensRouted_def ERC20TokenHomeTokensSent_def
     ERC20TokenHomeTokensWithdrawn_def SendAndCallInput_tuple_def SendTokensInput_tuple_def)

lemma ERC20TokenHome_events:
  "map_of (Events ERC20TokenHomeABI) ''CallFailed'' =
     Some [(''recipientContract'', TAddress, True), (''amount'', TUint 256, False)]"
  "map_of (Events ERC20TokenHomeABI) ''CallSucceeded'' =
     Some [(''recipientContract'', TAddress, True), (''amount'', TUint 256, False)]"
  "map_of (Events ERC20TokenHomeABI) ''CollateralAdded'' =
     Some [(''remoteBlockchainID'', TBytes32, True), (''remoteTokenTransferrerAddress'',
        TAddress, True), (''amount'', TUint 256, False), (''remaining'', TUint 256, False)]"
  "map_of (Events ERC20TokenHomeABI) ''Initialized'' =
     Some [(''version'', TUint 64, False)]"
  "map_of (Events ERC20TokenHomeABI) ''MinTeleporterVersionUpdated'' =
     Some [(''oldMinTeleporterVersion'', TUint 256, True), (''newMinTeleporterVersion'', TUint
        256, True)]"
  "map_of (Events ERC20TokenHomeABI) ''OwnershipTransferred'' =
     Some [(''previousOwner'', TAddress, True), (''newOwner'', TAddress, True)]"
  "map_of (Events ERC20TokenHomeABI) ''RemoteRegistered'' =
     Some [(''remoteBlockchainID'', TBytes32, True), (''remoteTokenTransferrerAddress'',
        TAddress, True), (''initialCollateralNeeded'', TUint 256, False), (''tokenDecimals'',
        TUint 8, False)]"
  "map_of (Events ERC20TokenHomeABI) ''TeleporterAddressPaused'' =
     Some [(''teleporterAddress'', TAddress, True)]"
  "map_of (Events ERC20TokenHomeABI) ''TeleporterAddressUnpaused'' =
     Some [(''teleporterAddress'', TAddress, True)]"
  "map_of (Events ERC20TokenHomeABI) ''TokensAndCallRouted'' =
     Some [(''teleporterMessageID'', TBytes32, True), (''input'', SendAndCallInput_tuple,
        False), (''amount'', TUint 256, False)]"
  "map_of (Events ERC20TokenHomeABI) ''TokensAndCallSent'' =
     Some [(''teleporterMessageID'', TBytes32, True), (''sender'', TAddress, True), (''input'',
        SendAndCallInput_tuple, False), (''amount'', TUint 256, False)]"
  "map_of (Events ERC20TokenHomeABI) ''TokensRouted'' =
     Some [(''teleporterMessageID'', TBytes32, True), (''input'', SendTokensInput_tuple, False),
        (''amount'', TUint 256, False)]"
  "map_of (Events ERC20TokenHomeABI) ''TokensSent'' =
     Some [(''teleporterMessageID'', TBytes32, True), (''sender'', TAddress, True), (''input'',
        SendTokensInput_tuple, False), (''amount'', TUint 256, False)]"
  "map_of (Events ERC20TokenHomeABI) ''TokensWithdrawn'' =
     Some [(''recipient'', TAddress, True), (''amount'', TUint 256, False)]"
  unfolding ERC20TokenHomeABI_def contract_abi.select_convs
  by (simp_all only: table_lookup)

lemma ERC20TokenHome_transactions_decode:
  assumes "codec_methods k" and "codec_roundtrip k" and "bound_spec k ERC20TokenHomeABI be c"
  shows "(\<forall>remoteBlockchainID remoteTokenTransferrerAddress amount. in_uint256 amount \<longrightarrow>
     sends_call k ERC20TokenHomeABI be opts ''addCollateral'' [GArr32 remoteBlockchainID, GAddr
     remoteTokenTransferrerAddress, GBig amount]
       (ERC20TokenHomeTransactor_AddCollateral c opts remoteBlockchainID
          remoteTokenTransferrerAddress amount)) \<and>
     (\<forall>teleporterRegistryAddress teleporterManager minTeleporterVersion tokenAddress
        tokenDecimals. in_uint256 minTeleporterVersion \<longrightarrow> sends_call k ERC20TokenHomeABI be opts
        ''initialize'' [GAddr teleporterRegistryAddress, GAddr teleporterManager, GBig
        minTeleporterVersion, GAddr tokenAddress, GUint 8 (unat tokenDecimals)]
       (ERC20TokenHomeTransactor_Initialize c opts teleporterRegistryAddress teleporterManager
          minTeleporterVersion tokenAddress tokenDecimals)) \<and>
     (\<forall>teleporterAddress. sends_call k ERC20TokenHomeABI be opts ''pauseTeleporterAddress''
        [GAddr teleporterAddress]
       (ERC20TokenHomeTransactor_PauseTeleporterAddress c opts teleporterAddress)) \<and>
     (\<forall>sourceBlockchainID originSenderAddress message. sends_call k ERC20TokenHomeABI be opts
        ''receiveTeleporterMessage'' [GArr32 sourceBlockchainID, GAddr originSenderAddress,
        GBytes message]
       (ERC20TokenHomeTransactor_ReceiveTeleporterMessage c opts sourceBlockchainID
          originSenderAddress message)) \<and>
     sends_call k ERC20TokenHomeABI be opts ''renounceOwnership'' []
       (ERC20TokenHomeTransactor_RenounceOwnership c opts) \<and>
     (\<forall>input_data amount. SendTokensInput_ok input_data \<longrightarrow> in_uint256 amount \<longrightarrow> sends_call k
        ERC20TokenHomeABI be opts ''send'' [SendTokensInput_val input_data, GBig amount]
       (ERC20TokenHomeTransactor_Send c opts input_data amount)) \<and>
     (\<forall>input_data amount. SendAndCallInput_ok input_data \<longrightarrow> in_uint256 amount \<longrightarrow> sends_call k
        ERC20TokenHomeABI be opts ''sendAndCall'' [SendAndCallInput_val input_data, GBig amount]
       (ERC20TokenHomeTransactor_SendAndCall c opts input_data amount)) \<and>
     (\<forall>newOwner. sends_call k ERC20TokenHomeABI be opts ''transferOwnership'' [GAddr newOwner]
       (ERC20TokenHomeTransactor_TransferOwnership c opts newOwner)) \<and>
     (\<forall>teleporterAddress. sends_call k ERC20TokenHomeABI be opts ''unpauseTeleporterAddress''
        [GAddr teleporterAddress]
       (ERC20TokenHomeTransactor_UnpauseTeleporterAddress c opts teleporterAddress)) \<and>
     (\<forall>version_number. in_uint256 version_number \<longrightarrow> sends_call k ERC20TokenHomeABI be opts
        ''updateMinTeleporterVersion'' [GBig version_number]
       (ERC20TokenHomeTransactor_UpdateMinTeleporterVersion c opts version_number))"
  unfolding ERC20TokenHomeTransactor_AddCollateral_def ERC20TokenHomeTransactor_Initialize_def
     ERC20TokenHomeTransactor_PauseTeleporterAddress_def
     ERC20TokenHomeTransactor_ReceiveTeleporterMessage_def
     ERC20TokenHomeTransactor_RenounceOwnership_def ERC20TokenHomeTransactor_Send_def
     ERC20TokenHomeTransactor_SendAndCall_def ERC20TokenHomeTransactor_TransferOwnership_def
     ERC20TokenHomeTransactor_UnpauseTeleporterAddress_def
     ERC20TokenHomeTransactor_UpdateMinTeleporterVersion_def
  by ((intro conjI allI impI)?; rule transact_sends [OF assms], rule ERC20TokenHome_methods)
    (simp_all del: matches.simps(1))

lemma ERC20TokenHome_calls_return_outputs:
  assumes "codec_methods k" and "codec_roundtrip k" and "bound_spec k ERC20TokenHomeABI be c"
  shows "(\<forall>r0. reads_call k ERC20TokenHomeABI be opts ''ERC20_TOKEN_HOME_STORAGE_LOCATION'' []
       [GArr32 r0] r0 (ERC20TokenHomeCaller_ERC20TOKENHOMESTORAGELOCATION c opts)) \<and>
     (\<forall>r0. reads_call k ERC20TokenHomeABI be opts ''TELEPORTER_REGISTRY_APP_STORAGE_LOCATION''
        []
       [GArr32 r0] r0 (ERC20TokenHomeCaller_TELEPORTERREGISTRYAPPSTORAGELOCATION c opts)) \<and>
     (\<forall>r0. reads_call k ERC20TokenHomeABI be opts ''TOKEN_HOME_STORAGE_LOCATION'' []
       [GArr32 r0] r0 (ERC20TokenHomeCaller_TOKENHOMESTORAGELOCATION c opts)) \<and>
     (\<forall>r0. reads_call k ERC20TokenHomeABI be opts ''getBlockchainID'' []
       [GArr32 r0] r0 (ERC20TokenHomeCaller_GetBlockchainID c opts)) \<and>
     (\<forall>r0. in_uint256 r0 \<longrightarrow> reads_call k ERC20TokenHomeABI be opts ''getMinTeleporterVersion'' []
       [GBig r0] r0 (ERC20TokenHomeCaller_GetMinTeleporterVersion c opts)) \<and>
     (\<forall>remoteBlockchainID remoteTokenTransferrerAddress r0. RemoteTokenTransferrerSettings_ok r0
        \<longrightarrow> reads_call k ERC20TokenHomeABI be opts ''getRemoteTokenTransferrerSettings'' [GArr32
        remoteBlockchainID, GAddr remoteTokenTransferrerAddress]
       [RemoteTokenTransferrerSettings_val r0] r0
          (ERC20TokenHomeCaller_GetRemoteTokenTransferrerSettings c opts remoteBlockchainID
          remoteTokenTransferrerAddress)) \<and>
     (\<forall>r0. reads_call k ERC20TokenHomeABI be opts ''getTokenAddress'' []
       [GAddr r0] r0 (ERC20TokenHomeCaller_GetTokenAddress c opts)) \<and>
     (\<forall>remoteBlockchainID remoteTokenTransferrerAddress r0. in_uint256 r0 \<longrightarrow> reads_call k
        ERC20TokenHomeABI be opts ''getTransferredBalance'' [GArr32 remoteBlockchainID, GAddr
        remoteTokenTransferrerAddress]
       [GBig r0] r0 (ERC20TokenHomeCaller_GetTransferredBalance c opts remoteBlockchainID
          remoteTokenTransferrerAddress)) \<and>
     (\<forall>teleporterAddress r0. reads_call k ERC20TokenHomeABI be opts
        ''isTeleporterAddressPaused'' [GAddr teleporterAddress]
       [GBool r0] r0 (ERC20TokenHomeCaller_IsTeleporterAddressPaused c opts teleporterAddress))
          \<and>
     (\<forall>r0. reads_call k ERC20TokenHomeABI be opts ''owner'' []
       [GAddr r0] r0 (ERC20TokenHomeCaller_Owner c opts))"
  unfolding ERC20TokenHomeCaller_ERC20TOKENHOMESTORAGELOCATION_def
     ERC20TokenHomeCaller_TELEPORTERREGISTRYAPPSTORAGELOCATION_def
     ERC20TokenHomeCaller_TOKENHOMESTORAGELOCATION_def ERC20TokenHomeCaller_GetBlockchainID_def
     ERC20TokenHomeCaller_GetMinTeleporterVersion_def
     ERC20TokenHomeCaller_GetRemoteTokenTransferrerSettings_def
     ERC20TokenHomeCaller_GetTokenAddress_def ERC20TokenHomeCaller_GetTransferredBalance_def
     ERC20TokenHomeCaller_IsTeleporterAddressPaused_def ERC20TokenHomeCaller_Owner_def
  by ((intro conjI allI impI)?; rule call_reads [OF assms], rule ERC20TokenHome_methods)
    (simp_all del: matches.simps(1))

text \<open>
  The parser of each of the fourteen events of a token home reads an emitted log back: every
  argument, indexed or not, the structs of sends included, is in the field of its name and \<open>Raw\<close>
     is the
  log itself; a log without topics or of another event is refused.
\<close>

theorem ERC20TokenHome_parsers_decode:
  assumes "codec_events k" and "event_ids k ERC20TokenHomeABI" and "bound_spec k
     ERC20TokenHomeABI be c"
  shows "parser_decodes k ERC20TokenHomeABI ''CallFailed''
     (ERC20TokenHomeFilterer_ParseCallFailed c) \<and>
     parser_decodes k ERC20TokenHomeABI ''CallSucceeded''
        (ERC20TokenHomeFilterer_ParseCallSucceeded c) \<and>
     parser_decodes k ERC20TokenHomeABI ''CollateralAdded''
        (ERC20TokenHomeFilterer_ParseCollateralAdded c) \<and>
     parser_decodes k ERC20TokenHomeABI ''Initialized'' (ERC20TokenHomeFilterer_ParseInitialized
        c) \<and>
     parser_decodes k ERC20TokenHomeABI ''MinTeleporterVersionUpdated''
        (ERC20TokenHomeFilterer_ParseMinTeleporterVersionUpdated c) \<and>
     parser_decodes k ERC20TokenHomeABI ''OwnershipTransferred''
        (ERC20TokenHomeFilterer_ParseOwnershipTransferred c) \<and>
     parser_decodes k ERC20TokenHomeABI ''RemoteRegistered''
        (ERC20TokenHomeFilterer_ParseRemoteRegistered c) \<and>
     parser_decodes k ERC20TokenHomeABI ''TeleporterAddressPaused''
        (ERC20TokenHomeFilterer_ParseTeleporterAddressPaused c) \<and>
     parser_decodes k ERC20TokenHomeABI ''TeleporterAddressUnpaused''
        (ERC20TokenHomeFilterer_ParseTeleporterAddressUnpaused c) \<and>
     parser_decodes k ERC20TokenHomeABI ''TokensAndCallRouted''
        (ERC20TokenHomeFilterer_ParseTokensAndCallRouted c) \<and>
     parser_decodes k ERC20TokenHomeABI ''TokensAndCallSent''
        (ERC20TokenHomeFilterer_ParseTokensAndCallSent c) \<and>
     parser_decodes k ERC20TokenHomeABI ''TokensRouted''
        (ERC20TokenHomeFilterer_ParseTokensRouted c) \<and>
     parser_decodes k ERC20TokenHomeABI ''TokensSent'' (ERC20TokenHomeFilterer_ParseTokensSent
        c) \<and>
     parser_decodes k ERC20TokenHomeABI ''TokensWithdrawn''
        (ERC20TokenHomeFilterer_ParseTokensWithdrawn c)"
proof -
  note parses = parse_log_decodes [OF assms]
  show ?thesis
    unfolding ERC20TokenHomeFilterer_ParseCallFailed_def
       ERC20TokenHomeFilterer_ParseCallSucceeded_def
       ERC20TokenHomeFilterer_ParseCollateralAdded_def
       ERC20TokenHomeFilterer_ParseInitialized_def
       ERC20TokenHomeFilterer_ParseMinTeleporterVersionUpdated_def
       ERC20TokenHomeFilterer_ParseOwnershipTransferred_def
       ERC20TokenHomeFilterer_ParseRemoteRegistered_def
       ERC20TokenHomeFilterer_ParseTeleporterAddressPaused_def
       ERC20TokenHomeFilterer_ParseTeleporterAddressUnpaused_def
       ERC20TokenHomeFilterer_ParseTokensAndCallRouted_def
       ERC20TokenHomeFilterer_ParseTokensAndCallSent_def
       ERC20TokenHomeFilterer_ParseTokensRouted_def ERC20TokenHomeFilterer_ParseTokensSent_def
       ERC20TokenHomeFilterer_ParseTokensWithdrawn_def
    by ((intro conjI)?; rule parses, rule ERC20TokenHome_events, rule ERC20TokenHome_decodable)
qed

theorem ERC20TokenHome_parsers_decode_witness:
  "parser_decodes ref_codec ERC20TokenHomeABI ''TokensSent''
     (ERC20TokenHomeFilterer_ParseTokensSent (spec_contract ref_codec ERC20TokenHomeABI
        (example_backend [])))"
proof -
  have "event_ids ref_codec ERC20TokenHomeABI"
    by (rule ref_event_ids_if) (simp add: ERC20TokenHomeABI_def topic_name_def)
  from ERC20TokenHome_parsers_decode [OF ref_events this spec_contract_ok, of "example_backend
     []"]
  show ?thesis
    by blast
qed


end
