(* ===== verification/NativeTokenHomeBinding.thy ===== *)
theory NativeTokenHomeBinding
  imports IcttStructs AbiRef
begin

text \<open>
  The generated binding \<open>abi-bindings/go/ictt/TokenHome/NativeTokenHome/NativeTokenHome.go\<close> over the generic
  definitions of theory \<open>Binding\<close>: its ABI, every method with its session wrappers, every event with
  its iterator, filter, watch and parser. The bytecode is a parameter of deployment; the aliases
  \<open>Raw\<close> of the untyped calls are not modelled.
\<close>

section \<open>The contract's ABI (NativeTokenHomeMetaData)\<close>

definition NativeTokenHomeABI :: contract_abi where
  "NativeTokenHomeABI = \<lparr>
      Methods = [
        (''NATIVE_TOKEN_HOME_STORAGE_LOCATION'', [],
           [('''', TBytes32)]),
        (''TELEPORTER_REGISTRY_APP_STORAGE_LOCATION'', [],
           [('''', TBytes32)]),
        (''TOKEN_HOME_STORAGE_LOCATION'', [],
           [('''', TBytes32)]),
        (''addCollateral'', [(''remoteBlockchainID'', TBytes32),
           (''remoteTokenTransferrerAddress'', TAddress)],
           []),
        (''getBlockchainID'', [],
           [('''', TBytes32)]),
        (''getMinTeleporterVersion'', [],
           [('''', TUint 256)]),
        (''getRemoteTokenTransferrerSettings'', [(''remoteBlockchainID'', TBytes32),
           (''remoteTokenTransferrerAddress'', TAddress)],
           [('''', RemoteTokenTransferrerSettings_tuple)]),
        (''getTokenAddress'', [],
           [('''', TAddress)]),
        (''getTransferredBalance'', [(''remoteBlockchainID'', TBytes32),
           (''remoteTokenTransferrerAddress'', TAddress)],
           [('''', TUint 256)]),
        (''initialize'', [(''teleporterRegistryAddress'', TAddress), (''teleporterManager'',
           TAddress), (''minTeleporterVersion'', TUint 256), (''wrappedTokenAddress'',
           TAddress)],
           []),
        (''isTeleporterAddressPaused'', [(''teleporterAddress'', TAddress)],
           [('''', TBool)]),
        (''owner'', [],
           [('''', TAddress)]),
        (''pauseTeleporterAddress'', [(''teleporterAddress'', TAddress)],
           []),
        (''receiveTeleporterMessage'', [(''sourceBlockchainID'', TBytes32),
           (''originSenderAddress'', TAddress), (''message'', TBytes)],
           []),
        (''renounceOwnership'', [],
           []),
        (''send'', [(''input'', SendTokensInput_tuple)],
           []),
        (''sendAndCall'', [(''input'', SendAndCallInput_tuple)],
           []),
        (''transferOwnership'', [(''newOwner'', TAddress)],
           []),
        (''unpauseTeleporterAddress'', [(''teleporterAddress'', TAddress)],
           []),
        (''updateMinTeleporterVersion'', [(''version'', TUint 256)],
           [])],
      Events = [
        (''CallFailed'', [(''recipientContract'', TAddress, True), (''amount'', TUint 256,
           False)]),
        (''CallSucceeded'', [(''recipientContract'', TAddress, True), (''amount'', TUint 256,
           False)]),
        (''CollateralAdded'', [(''remoteBlockchainID'', TBytes32, True),
           (''remoteTokenTransferrerAddress'', TAddress, True), (''amount'', TUint 256, False),
           (''remaining'', TUint 256, False)]),
        (''Initialized'', [(''version'', TUint 64, False)]),
        (''MinTeleporterVersionUpdated'', [(''oldMinTeleporterVersion'', TUint 256, True),
           (''newMinTeleporterVersion'', TUint 256, True)]),
        (''OwnershipTransferred'', [(''previousOwner'', TAddress, True), (''newOwner'',
           TAddress, True)]),
        (''RemoteRegistered'', [(''remoteBlockchainID'', TBytes32, True),
           (''remoteTokenTransferrerAddress'', TAddress, True), (''initialCollateralNeeded'',
           TUint 256, False), (''tokenDecimals'', TUint 8, False)]),
        (''TeleporterAddressPaused'', [(''teleporterAddress'', TAddress, True)]),
        (''TeleporterAddressUnpaused'', [(''teleporterAddress'', TAddress, True)]),
        (''TokensAndCallRouted'', [(''teleporterMessageID'', TBytes32, True), (''input'',
           SendAndCallInput_tuple, False), (''amount'', TUint 256, False)]),
        (''TokensAndCallSent'', [(''teleporterMessageID'', TBytes32, True), (''sender'',
           TAddress, True), (''input'', SendAndCallInput_tuple, False), (''amount'', TUint 256,
           False)]),
        (''TokensRouted'', [(''teleporterMessageID'', TBytes32, True), (''input'',
           SendTokensInput_tuple, False), (''amount'', TUint 256, False)]),
        (''TokensSent'', [(''teleporterMessageID'', TBytes32, True), (''sender'', TAddress,
           True), (''input'', SendTokensInput_tuple, False), (''amount'', TUint 256, False)]),
        (''TokensWithdrawn'', [(''recipient'', TAddress, True), (''amount'', TUint 256,
           False)])]\<rparr>"

section \<open>Binding and deployment\<close>

definition bindNativeTokenHome :: "'w bind_lib \<Rightarrow> address \<Rightarrow> goerr + 'w bound_contract" where
  "bindNativeTokenHome lib addr = bind_contract lib NativeTokenHomeABI addr"

definition NewNativeTokenHome :: "'w bind_lib \<Rightarrow> address \<Rightarrow> goerr + 'w bound_contract" where
  "NewNativeTokenHome lib addr = bindNativeTokenHome lib addr"

definition DeployNativeTokenHome ::
  "'w bind_lib \<Rightarrow> string \<Rightarrow> TransactOpts \<Rightarrow> address \<Rightarrow> address \<Rightarrow> int \<Rightarrow> address \<Rightarrow> 
   ('w, goerr + address \<times> hash \<times> 'w bound_contract) prog" where
  "DeployNativeTokenHome lib bin auth teleporterRegistryAddress teleporterManager
     minTeleporterVersion wrappedTokenAddress = deploy_contract lib auth NativeTokenHomeABI bin
     [GAddr teleporterRegistryAddress, GAddr teleporterManager, GBig minTeleporterVersion, GAddr
     wrappedTokenAddress]"

section \<open>Methods\<close>

definition NativeTokenHomeCaller_NATIVETOKENHOMESTORAGELOCATION ::
  "'w bound_contract \<Rightarrow> CallOpts \<Rightarrow> ('w, goerr + hash) prog" where
  "NativeTokenHomeCaller_NATIVETOKENHOMESTORAGELOCATION c opts =
     call_method c opts ''NATIVE_TOKEN_HOME_STORAGE_LOCATION'' [] (out1 go_arr32)"

definition NativeTokenHomeSession_NATIVETOKENHOMESTORAGELOCATION ::
  "'w session \<Rightarrow> ('w, goerr + hash) prog" where
  "NativeTokenHomeSession_NATIVETOKENHOMESTORAGELOCATION s =
     NativeTokenHomeCaller_NATIVETOKENHOMESTORAGELOCATION (SessionContract s) (SessionCallOpts
     s)"

definition NativeTokenHomeCaller_TELEPORTERREGISTRYAPPSTORAGELOCATION ::
  "'w bound_contract \<Rightarrow> CallOpts \<Rightarrow> ('w, goerr + hash) prog" where
  "NativeTokenHomeCaller_TELEPORTERREGISTRYAPPSTORAGELOCATION c opts =
     call_method c opts ''TELEPORTER_REGISTRY_APP_STORAGE_LOCATION'' [] (out1 go_arr32)"

definition NativeTokenHomeSession_TELEPORTERREGISTRYAPPSTORAGELOCATION ::
  "'w session \<Rightarrow> ('w, goerr + hash) prog" where
  "NativeTokenHomeSession_TELEPORTERREGISTRYAPPSTORAGELOCATION s =
     NativeTokenHomeCaller_TELEPORTERREGISTRYAPPSTORAGELOCATION (SessionContract s)
     (SessionCallOpts s)"

definition NativeTokenHomeCaller_TOKENHOMESTORAGELOCATION ::
  "'w bound_contract \<Rightarrow> CallOpts \<Rightarrow> ('w, goerr + hash) prog" where
  "NativeTokenHomeCaller_TOKENHOMESTORAGELOCATION c opts =
     call_method c opts ''TOKEN_HOME_STORAGE_LOCATION'' [] (out1 go_arr32)"

definition NativeTokenHomeSession_TOKENHOMESTORAGELOCATION ::
  "'w session \<Rightarrow> ('w, goerr + hash) prog" where
  "NativeTokenHomeSession_TOKENHOMESTORAGELOCATION s =
     NativeTokenHomeCaller_TOKENHOMESTORAGELOCATION (SessionContract s) (SessionCallOpts s)"

definition NativeTokenHomeTransactor_AddCollateral ::
  "'w bound_contract \<Rightarrow> TransactOpts \<Rightarrow> hash \<Rightarrow> address \<Rightarrow> ('w, goerr + hash) prog" where
  "NativeTokenHomeTransactor_AddCollateral c opts remoteBlockchainID
     remoteTokenTransferrerAddress =
     contract_transact c opts ''addCollateral'' [GArr32 remoteBlockchainID, GAddr
        remoteTokenTransferrerAddress]"

definition NativeTokenHomeSession_AddCollateral ::
  "'w session \<Rightarrow> hash \<Rightarrow> address \<Rightarrow> ('w, goerr + hash) prog" where
  "NativeTokenHomeSession_AddCollateral s remoteBlockchainID remoteTokenTransferrerAddress =
     NativeTokenHomeTransactor_AddCollateral (SessionContract s) (SessionTransactOpts s)
     remoteBlockchainID remoteTokenTransferrerAddress"

definition NativeTokenHomeCaller_GetBlockchainID ::
  "'w bound_contract \<Rightarrow> CallOpts \<Rightarrow> ('w, goerr + hash) prog" where
  "NativeTokenHomeCaller_GetBlockchainID c opts =
     call_method c opts ''getBlockchainID'' [] (out1 go_arr32)"

definition NativeTokenHomeSession_GetBlockchainID ::
  "'w session \<Rightarrow> ('w, goerr + hash) prog" where
  "NativeTokenHomeSession_GetBlockchainID s = NativeTokenHomeCaller_GetBlockchainID
     (SessionContract s) (SessionCallOpts s)"

definition NativeTokenHomeCaller_GetMinTeleporterVersion ::
  "'w bound_contract \<Rightarrow> CallOpts \<Rightarrow> ('w, goerr + int) prog" where
  "NativeTokenHomeCaller_GetMinTeleporterVersion c opts =
     call_method c opts ''getMinTeleporterVersion'' [] (out1 go_big)"

definition NativeTokenHomeSession_GetMinTeleporterVersion ::
  "'w session \<Rightarrow> ('w, goerr + int) prog" where
  "NativeTokenHomeSession_GetMinTeleporterVersion s =
     NativeTokenHomeCaller_GetMinTeleporterVersion (SessionContract s) (SessionCallOpts s)"

definition NativeTokenHomeCaller_GetRemoteTokenTransferrerSettings ::
  "'w bound_contract \<Rightarrow> CallOpts \<Rightarrow> hash \<Rightarrow> address \<Rightarrow> ('w, goerr + RemoteTokenTransferrerSettings)
     prog" where
  "NativeTokenHomeCaller_GetRemoteTokenTransferrerSettings c opts remoteBlockchainID
     remoteTokenTransferrerAddress =
     call_method c opts ''getRemoteTokenTransferrerSettings'' [GArr32 remoteBlockchainID, GAddr
        remoteTokenTransferrerAddress] (out1 RemoteTokenTransferrerSettings_of)"

definition NativeTokenHomeSession_GetRemoteTokenTransferrerSettings ::
  "'w session \<Rightarrow> hash \<Rightarrow> address \<Rightarrow> ('w, goerr + RemoteTokenTransferrerSettings) prog" where
  "NativeTokenHomeSession_GetRemoteTokenTransferrerSettings s remoteBlockchainID
     remoteTokenTransferrerAddress = NativeTokenHomeCaller_GetRemoteTokenTransferrerSettings
     (SessionContract s) (SessionCallOpts s) remoteBlockchainID remoteTokenTransferrerAddress"

definition NativeTokenHomeCaller_GetTokenAddress ::
  "'w bound_contract \<Rightarrow> CallOpts \<Rightarrow> ('w, goerr + address) prog" where
  "NativeTokenHomeCaller_GetTokenAddress c opts =
     call_method c opts ''getTokenAddress'' [] (out1 go_addr)"

definition NativeTokenHomeSession_GetTokenAddress ::
  "'w session \<Rightarrow> ('w, goerr + address) prog" where
  "NativeTokenHomeSession_GetTokenAddress s = NativeTokenHomeCaller_GetTokenAddress
     (SessionContract s) (SessionCallOpts s)"

definition NativeTokenHomeCaller_GetTransferredBalance ::
  "'w bound_contract \<Rightarrow> CallOpts \<Rightarrow> hash \<Rightarrow> address \<Rightarrow> ('w, goerr + int) prog" where
  "NativeTokenHomeCaller_GetTransferredBalance c opts remoteBlockchainID
     remoteTokenTransferrerAddress =
     call_method c opts ''getTransferredBalance'' [GArr32 remoteBlockchainID, GAddr
        remoteTokenTransferrerAddress] (out1 go_big)"

definition NativeTokenHomeSession_GetTransferredBalance ::
  "'w session \<Rightarrow> hash \<Rightarrow> address \<Rightarrow> ('w, goerr + int) prog" where
  "NativeTokenHomeSession_GetTransferredBalance s remoteBlockchainID
     remoteTokenTransferrerAddress = NativeTokenHomeCaller_GetTransferredBalance
     (SessionContract s) (SessionCallOpts s) remoteBlockchainID remoteTokenTransferrerAddress"

definition NativeTokenHomeTransactor_Initialize ::
  "'w bound_contract \<Rightarrow> TransactOpts \<Rightarrow> address \<Rightarrow> address \<Rightarrow> int \<Rightarrow> address \<Rightarrow> ('w, goerr + hash)
     prog" where
  "NativeTokenHomeTransactor_Initialize c opts teleporterRegistryAddress teleporterManager
     minTeleporterVersion wrappedTokenAddress =
     contract_transact c opts ''initialize'' [GAddr teleporterRegistryAddress, GAddr
        teleporterManager, GBig minTeleporterVersion, GAddr wrappedTokenAddress]"

definition NativeTokenHomeSession_Initialize ::
  "'w session \<Rightarrow> address \<Rightarrow> address \<Rightarrow> int \<Rightarrow> address \<Rightarrow> ('w, goerr + hash) prog" where
  "NativeTokenHomeSession_Initialize s teleporterRegistryAddress teleporterManager
     minTeleporterVersion wrappedTokenAddress = NativeTokenHomeTransactor_Initialize
     (SessionContract s) (SessionTransactOpts s) teleporterRegistryAddress teleporterManager
     minTeleporterVersion wrappedTokenAddress"

definition NativeTokenHomeCaller_IsTeleporterAddressPaused ::
  "'w bound_contract \<Rightarrow> CallOpts \<Rightarrow> address \<Rightarrow> ('w, goerr + bool) prog" where
  "NativeTokenHomeCaller_IsTeleporterAddressPaused c opts teleporterAddress =
     call_method c opts ''isTeleporterAddressPaused'' [GAddr teleporterAddress] (out1 go_bool)"

definition NativeTokenHomeSession_IsTeleporterAddressPaused ::
  "'w session \<Rightarrow> address \<Rightarrow> ('w, goerr + bool) prog" where
  "NativeTokenHomeSession_IsTeleporterAddressPaused s teleporterAddress =
     NativeTokenHomeCaller_IsTeleporterAddressPaused (SessionContract s) (SessionCallOpts s)
     teleporterAddress"

definition NativeTokenHomeCaller_Owner ::
  "'w bound_contract \<Rightarrow> CallOpts \<Rightarrow> ('w, goerr + address) prog" where
  "NativeTokenHomeCaller_Owner c opts =
     call_method c opts ''owner'' [] (out1 go_addr)"

definition NativeTokenHomeSession_Owner ::
  "'w session \<Rightarrow> ('w, goerr + address) prog" where
  "NativeTokenHomeSession_Owner s = NativeTokenHomeCaller_Owner (SessionContract s)
     (SessionCallOpts s)"

definition NativeTokenHomeTransactor_PauseTeleporterAddress ::
  "'w bound_contract \<Rightarrow> TransactOpts \<Rightarrow> address \<Rightarrow> ('w, goerr + hash) prog" where
  "NativeTokenHomeTransactor_PauseTeleporterAddress c opts teleporterAddress =
     contract_transact c opts ''pauseTeleporterAddress'' [GAddr teleporterAddress]"

definition NativeTokenHomeSession_PauseTeleporterAddress ::
  "'w session \<Rightarrow> address \<Rightarrow> ('w, goerr + hash) prog" where
  "NativeTokenHomeSession_PauseTeleporterAddress s teleporterAddress =
     NativeTokenHomeTransactor_PauseTeleporterAddress (SessionContract s) (SessionTransactOpts
     s) teleporterAddress"

definition NativeTokenHomeTransactor_ReceiveTeleporterMessage ::
  "'w bound_contract \<Rightarrow> TransactOpts \<Rightarrow> hash \<Rightarrow> address \<Rightarrow> bytes \<Rightarrow> ('w, goerr + hash) prog" where
  "NativeTokenHomeTransactor_ReceiveTeleporterMessage c opts sourceBlockchainID
     originSenderAddress message =
     contract_transact c opts ''receiveTeleporterMessage'' [GArr32 sourceBlockchainID, GAddr
        originSenderAddress, GBytes message]"

definition NativeTokenHomeSession_ReceiveTeleporterMessage ::
  "'w session \<Rightarrow> hash \<Rightarrow> address \<Rightarrow> bytes \<Rightarrow> ('w, goerr + hash) prog" where
  "NativeTokenHomeSession_ReceiveTeleporterMessage s sourceBlockchainID originSenderAddress
     message = NativeTokenHomeTransactor_ReceiveTeleporterMessage (SessionContract s)
     (SessionTransactOpts s) sourceBlockchainID originSenderAddress message"

definition NativeTokenHomeTransactor_RenounceOwnership ::
  "'w bound_contract \<Rightarrow> TransactOpts \<Rightarrow> ('w, goerr + hash) prog" where
  "NativeTokenHomeTransactor_RenounceOwnership c opts =
     contract_transact c opts ''renounceOwnership'' []"

definition NativeTokenHomeSession_RenounceOwnership ::
  "'w session \<Rightarrow> ('w, goerr + hash) prog" where
  "NativeTokenHomeSession_RenounceOwnership s = NativeTokenHomeTransactor_RenounceOwnership
     (SessionContract s) (SessionTransactOpts s)"

definition NativeTokenHomeTransactor_Send ::
  "'w bound_contract \<Rightarrow> TransactOpts \<Rightarrow> SendTokensInput \<Rightarrow> ('w, goerr + hash) prog" where
  "NativeTokenHomeTransactor_Send c opts input_data =
     contract_transact c opts ''send'' [SendTokensInput_val input_data]"

definition NativeTokenHomeSession_Send ::
  "'w session \<Rightarrow> SendTokensInput \<Rightarrow> ('w, goerr + hash) prog" where
  "NativeTokenHomeSession_Send s input_data = NativeTokenHomeTransactor_Send (SessionContract s)
     (SessionTransactOpts s) input_data"

definition NativeTokenHomeTransactor_SendAndCall ::
  "'w bound_contract \<Rightarrow> TransactOpts \<Rightarrow> SendAndCallInput \<Rightarrow> ('w, goerr + hash) prog" where
  "NativeTokenHomeTransactor_SendAndCall c opts input_data =
     contract_transact c opts ''sendAndCall'' [SendAndCallInput_val input_data]"

definition NativeTokenHomeSession_SendAndCall ::
  "'w session \<Rightarrow> SendAndCallInput \<Rightarrow> ('w, goerr + hash) prog" where
  "NativeTokenHomeSession_SendAndCall s input_data = NativeTokenHomeTransactor_SendAndCall
     (SessionContract s) (SessionTransactOpts s) input_data"

definition NativeTokenHomeTransactor_TransferOwnership ::
  "'w bound_contract \<Rightarrow> TransactOpts \<Rightarrow> address \<Rightarrow> ('w, goerr + hash) prog" where
  "NativeTokenHomeTransactor_TransferOwnership c opts newOwner =
     contract_transact c opts ''transferOwnership'' [GAddr newOwner]"

definition NativeTokenHomeSession_TransferOwnership ::
  "'w session \<Rightarrow> address \<Rightarrow> ('w, goerr + hash) prog" where
  "NativeTokenHomeSession_TransferOwnership s newOwner =
     NativeTokenHomeTransactor_TransferOwnership (SessionContract s) (SessionTransactOpts s)
     newOwner"

definition NativeTokenHomeTransactor_UnpauseTeleporterAddress ::
  "'w bound_contract \<Rightarrow> TransactOpts \<Rightarrow> address \<Rightarrow> ('w, goerr + hash) prog" where
  "NativeTokenHomeTransactor_UnpauseTeleporterAddress c opts teleporterAddress =
     contract_transact c opts ''unpauseTeleporterAddress'' [GAddr teleporterAddress]"

definition NativeTokenHomeSession_UnpauseTeleporterAddress ::
  "'w session \<Rightarrow> address \<Rightarrow> ('w, goerr + hash) prog" where
  "NativeTokenHomeSession_UnpauseTeleporterAddress s teleporterAddress =
     NativeTokenHomeTransactor_UnpauseTeleporterAddress (SessionContract s) (SessionTransactOpts
     s) teleporterAddress"

definition NativeTokenHomeTransactor_UpdateMinTeleporterVersion ::
  "'w bound_contract \<Rightarrow> TransactOpts \<Rightarrow> int \<Rightarrow> ('w, goerr + hash) prog" where
  "NativeTokenHomeTransactor_UpdateMinTeleporterVersion c opts version_number =
     contract_transact c opts ''updateMinTeleporterVersion'' [GBig version_number]"

definition NativeTokenHomeSession_UpdateMinTeleporterVersion ::
  "'w session \<Rightarrow> int \<Rightarrow> ('w, goerr + hash) prog" where
  "NativeTokenHomeSession_UpdateMinTeleporterVersion s version_number =
     NativeTokenHomeTransactor_UpdateMinTeleporterVersion (SessionContract s)
     (SessionTransactOpts s) version_number"

definition NativeTokenHomeTransactor_Receive :: "'w bound_contract \<Rightarrow> TransactOpts \<Rightarrow> ('w, goerr +
   hash) prog" where
  "NativeTokenHomeTransactor_Receive c opts = contract_raw_transact c opts []"

definition NativeTokenHomeSession_Receive :: "'w session \<Rightarrow> ('w, goerr + hash) prog" where
  "NativeTokenHomeSession_Receive s = NativeTokenHomeTransactor_Receive (SessionContract s)
     (SessionTransactOpts s)"

section \<open>Events\<close>

definition NativeTokenHomeCallFailed :: event_fields where
  "NativeTokenHomeCallFailed = [(''RecipientContract'', GAddr 0), (''Amount'', GNil), (''Raw'',
     zero_Log)]"

definition NativeTokenHomeCallFailedIterator_Next ::
  "'w bound_contract \<Rightarrow> bool \<Rightarrow> iterator \<Rightarrow> (bool \<times> iterator) option" where
  "NativeTokenHomeCallFailedIterator_Next c pick it = iterator_Next (parse_log c ''CallFailed''
     NativeTokenHomeCallFailed) NativeTokenHomeCallFailed pick it"

definition NativeTokenHomeCallFailedIterator_Error :: "iterator \<Rightarrow> goerr option" where
  "NativeTokenHomeCallFailedIterator_Error it = iterator_Error it"

definition NativeTokenHomeCallFailedIterator_Close :: "iterator \<Rightarrow> goerr option \<times> iterator" where
  "NativeTokenHomeCallFailedIterator_Close it = iterator_Close it"

definition NativeTokenHomeFilterer_FilterCallFailed ::
  "'w bound_contract \<Rightarrow> FilterOpts \<Rightarrow> address list \<Rightarrow> ('w, goerr + iterator) prog" where
  "NativeTokenHomeFilterer_FilterCallFailed c opts recipientContract =
     filter_events c opts ''CallFailed'' [map GAddr recipientContract]"

definition NativeTokenHomeFilterer_WatchCallFailed ::
  "'w bound_contract \<Rightarrow> address list \<Rightarrow> ('w, goerr + (evm_log \<Rightarrow> goerr + event_fields)) prog" where
  "NativeTokenHomeFilterer_WatchCallFailed c recipientContract =
     watch_events c ''CallFailed'' NativeTokenHomeCallFailed [map GAddr recipientContract]"

definition NativeTokenHomeFilterer_ParseCallFailed ::
  "'w bound_contract \<Rightarrow> evm_log \<Rightarrow> goerr + event_fields" where
  "NativeTokenHomeFilterer_ParseCallFailed c = parse_log c ''CallFailed''
     NativeTokenHomeCallFailed"

definition NativeTokenHomeCallSucceeded :: event_fields where
  "NativeTokenHomeCallSucceeded = [(''RecipientContract'', GAddr 0), (''Amount'', GNil),
     (''Raw'', zero_Log)]"

definition NativeTokenHomeCallSucceededIterator_Next ::
  "'w bound_contract \<Rightarrow> bool \<Rightarrow> iterator \<Rightarrow> (bool \<times> iterator) option" where
  "NativeTokenHomeCallSucceededIterator_Next c pick it = iterator_Next (parse_log c
     ''CallSucceeded'' NativeTokenHomeCallSucceeded) NativeTokenHomeCallSucceeded pick it"

definition NativeTokenHomeCallSucceededIterator_Error :: "iterator \<Rightarrow> goerr option" where
  "NativeTokenHomeCallSucceededIterator_Error it = iterator_Error it"

definition NativeTokenHomeCallSucceededIterator_Close :: "iterator \<Rightarrow> goerr option \<times> iterator"
   where
  "NativeTokenHomeCallSucceededIterator_Close it = iterator_Close it"

definition NativeTokenHomeFilterer_FilterCallSucceeded ::
  "'w bound_contract \<Rightarrow> FilterOpts \<Rightarrow> address list \<Rightarrow> ('w, goerr + iterator) prog" where
  "NativeTokenHomeFilterer_FilterCallSucceeded c opts recipientContract =
     filter_events c opts ''CallSucceeded'' [map GAddr recipientContract]"

definition NativeTokenHomeFilterer_WatchCallSucceeded ::
  "'w bound_contract \<Rightarrow> address list \<Rightarrow> ('w, goerr + (evm_log \<Rightarrow> goerr + event_fields)) prog" where
  "NativeTokenHomeFilterer_WatchCallSucceeded c recipientContract =
     watch_events c ''CallSucceeded'' NativeTokenHomeCallSucceeded [map GAddr
        recipientContract]"

definition NativeTokenHomeFilterer_ParseCallSucceeded ::
  "'w bound_contract \<Rightarrow> evm_log \<Rightarrow> goerr + event_fields" where
  "NativeTokenHomeFilterer_ParseCallSucceeded c = parse_log c ''CallSucceeded''
     NativeTokenHomeCallSucceeded"

definition NativeTokenHomeCollateralAdded :: event_fields where
  "NativeTokenHomeCollateralAdded = [(''RemoteBlockchainID'', GArr32 0),
     (''RemoteTokenTransferrerAddress'', GAddr 0), (''Amount'', GNil), (''Remaining'', GNil),
     (''Raw'', zero_Log)]"

definition NativeTokenHomeCollateralAddedIterator_Next ::
  "'w bound_contract \<Rightarrow> bool \<Rightarrow> iterator \<Rightarrow> (bool \<times> iterator) option" where
  "NativeTokenHomeCollateralAddedIterator_Next c pick it = iterator_Next (parse_log c
     ''CollateralAdded'' NativeTokenHomeCollateralAdded) NativeTokenHomeCollateralAdded pick it"

definition NativeTokenHomeCollateralAddedIterator_Error :: "iterator \<Rightarrow> goerr option" where
  "NativeTokenHomeCollateralAddedIterator_Error it = iterator_Error it"

definition NativeTokenHomeCollateralAddedIterator_Close :: "iterator \<Rightarrow> goerr option \<times> iterator"
   where
  "NativeTokenHomeCollateralAddedIterator_Close it = iterator_Close it"

definition NativeTokenHomeFilterer_FilterCollateralAdded ::
  "'w bound_contract \<Rightarrow> FilterOpts \<Rightarrow> hash list \<Rightarrow> address list \<Rightarrow> ('w, goerr + iterator) prog"
     where
  "NativeTokenHomeFilterer_FilterCollateralAdded c opts remoteBlockchainID
     remoteTokenTransferrerAddress =
     filter_events c opts ''CollateralAdded'' [map GArr32 remoteBlockchainID, map GAddr
        remoteTokenTransferrerAddress]"

definition NativeTokenHomeFilterer_WatchCollateralAdded ::
  "'w bound_contract \<Rightarrow> hash list \<Rightarrow> address list \<Rightarrow> ('w, goerr + (evm_log \<Rightarrow> goerr + event_fields))
     prog" where
  "NativeTokenHomeFilterer_WatchCollateralAdded c remoteBlockchainID
     remoteTokenTransferrerAddress =
     watch_events c ''CollateralAdded'' NativeTokenHomeCollateralAdded [map GArr32
        remoteBlockchainID, map GAddr remoteTokenTransferrerAddress]"

definition NativeTokenHomeFilterer_ParseCollateralAdded ::
  "'w bound_contract \<Rightarrow> evm_log \<Rightarrow> goerr + event_fields" where
  "NativeTokenHomeFilterer_ParseCollateralAdded c = parse_log c ''CollateralAdded''
     NativeTokenHomeCollateralAdded"

definition NativeTokenHomeInitialized :: event_fields where
  "NativeTokenHomeInitialized = [(''Version'', GUint 64 0), (''Raw'', zero_Log)]"

definition NativeTokenHomeInitializedIterator_Next ::
  "'w bound_contract \<Rightarrow> bool \<Rightarrow> iterator \<Rightarrow> (bool \<times> iterator) option" where
  "NativeTokenHomeInitializedIterator_Next c pick it = iterator_Next (parse_log c
     ''Initialized'' NativeTokenHomeInitialized) NativeTokenHomeInitialized pick it"

definition NativeTokenHomeInitializedIterator_Error :: "iterator \<Rightarrow> goerr option" where
  "NativeTokenHomeInitializedIterator_Error it = iterator_Error it"

definition NativeTokenHomeInitializedIterator_Close :: "iterator \<Rightarrow> goerr option \<times> iterator"
   where
  "NativeTokenHomeInitializedIterator_Close it = iterator_Close it"

definition NativeTokenHomeFilterer_FilterInitialized ::
  "'w bound_contract \<Rightarrow> FilterOpts \<Rightarrow> ('w, goerr + iterator) prog" where
  "NativeTokenHomeFilterer_FilterInitialized c opts =
     filter_events c opts ''Initialized'' []"

definition NativeTokenHomeFilterer_WatchInitialized ::
  "'w bound_contract \<Rightarrow> ('w, goerr + (evm_log \<Rightarrow> goerr + event_fields)) prog" where
  "NativeTokenHomeFilterer_WatchInitialized c =
     watch_events c ''Initialized'' NativeTokenHomeInitialized []"

definition NativeTokenHomeFilterer_ParseInitialized ::
  "'w bound_contract \<Rightarrow> evm_log \<Rightarrow> goerr + event_fields" where
  "NativeTokenHomeFilterer_ParseInitialized c = parse_log c ''Initialized''
     NativeTokenHomeInitialized"

definition NativeTokenHomeMinTeleporterVersionUpdated :: event_fields where
  "NativeTokenHomeMinTeleporterVersionUpdated = [(''OldMinTeleporterVersion'', GNil),
     (''NewMinTeleporterVersion'', GNil), (''Raw'', zero_Log)]"

definition NativeTokenHomeMinTeleporterVersionUpdatedIterator_Next ::
  "'w bound_contract \<Rightarrow> bool \<Rightarrow> iterator \<Rightarrow> (bool \<times> iterator) option" where
  "NativeTokenHomeMinTeleporterVersionUpdatedIterator_Next c pick it = iterator_Next (parse_log
     c ''MinTeleporterVersionUpdated'' NativeTokenHomeMinTeleporterVersionUpdated)
     NativeTokenHomeMinTeleporterVersionUpdated pick it"

definition NativeTokenHomeMinTeleporterVersionUpdatedIterator_Error :: "iterator \<Rightarrow> goerr option"
   where
  "NativeTokenHomeMinTeleporterVersionUpdatedIterator_Error it = iterator_Error it"

definition NativeTokenHomeMinTeleporterVersionUpdatedIterator_Close :: "iterator \<Rightarrow> goerr option
   \<times> iterator" where
  "NativeTokenHomeMinTeleporterVersionUpdatedIterator_Close it = iterator_Close it"

definition NativeTokenHomeFilterer_FilterMinTeleporterVersionUpdated ::
  "'w bound_contract \<Rightarrow> FilterOpts \<Rightarrow> int list \<Rightarrow> int list \<Rightarrow> ('w, goerr + iterator) prog" where
  "NativeTokenHomeFilterer_FilterMinTeleporterVersionUpdated c opts oldMinTeleporterVersion
     newMinTeleporterVersion =
     filter_events c opts ''MinTeleporterVersionUpdated'' [map GBig oldMinTeleporterVersion, map
        GBig newMinTeleporterVersion]"

definition NativeTokenHomeFilterer_WatchMinTeleporterVersionUpdated ::
  "'w bound_contract \<Rightarrow> int list \<Rightarrow> int list \<Rightarrow> ('w, goerr + (evm_log \<Rightarrow> goerr + event_fields))
     prog" where
  "NativeTokenHomeFilterer_WatchMinTeleporterVersionUpdated c oldMinTeleporterVersion
     newMinTeleporterVersion =
     watch_events c ''MinTeleporterVersionUpdated'' NativeTokenHomeMinTeleporterVersionUpdated
        [map GBig oldMinTeleporterVersion, map GBig newMinTeleporterVersion]"

definition NativeTokenHomeFilterer_ParseMinTeleporterVersionUpdated ::
  "'w bound_contract \<Rightarrow> evm_log \<Rightarrow> goerr + event_fields" where
  "NativeTokenHomeFilterer_ParseMinTeleporterVersionUpdated c = parse_log c
     ''MinTeleporterVersionUpdated'' NativeTokenHomeMinTeleporterVersionUpdated"

definition NativeTokenHomeOwnershipTransferred :: event_fields where
  "NativeTokenHomeOwnershipTransferred = [(''PreviousOwner'', GAddr 0), (''NewOwner'', GAddr 0),
     (''Raw'', zero_Log)]"

definition NativeTokenHomeOwnershipTransferredIterator_Next ::
  "'w bound_contract \<Rightarrow> bool \<Rightarrow> iterator \<Rightarrow> (bool \<times> iterator) option" where
  "NativeTokenHomeOwnershipTransferredIterator_Next c pick it = iterator_Next (parse_log c
     ''OwnershipTransferred'' NativeTokenHomeOwnershipTransferred)
     NativeTokenHomeOwnershipTransferred pick it"

definition NativeTokenHomeOwnershipTransferredIterator_Error :: "iterator \<Rightarrow> goerr option" where
  "NativeTokenHomeOwnershipTransferredIterator_Error it = iterator_Error it"

definition NativeTokenHomeOwnershipTransferredIterator_Close :: "iterator \<Rightarrow> goerr option \<times>
   iterator" where
  "NativeTokenHomeOwnershipTransferredIterator_Close it = iterator_Close it"

definition NativeTokenHomeFilterer_FilterOwnershipTransferred ::
  "'w bound_contract \<Rightarrow> FilterOpts \<Rightarrow> address list \<Rightarrow> address list \<Rightarrow> ('w, goerr + iterator) prog"
     where
  "NativeTokenHomeFilterer_FilterOwnershipTransferred c opts previousOwner newOwner =
     filter_events c opts ''OwnershipTransferred'' [map GAddr previousOwner, map GAddr
        newOwner]"

definition NativeTokenHomeFilterer_WatchOwnershipTransferred ::
  "'w bound_contract \<Rightarrow> address list \<Rightarrow> address list \<Rightarrow> ('w, goerr + (evm_log \<Rightarrow> goerr +
     event_fields)) prog" where
  "NativeTokenHomeFilterer_WatchOwnershipTransferred c previousOwner newOwner =
     watch_events c ''OwnershipTransferred'' NativeTokenHomeOwnershipTransferred [map GAddr
        previousOwner, map GAddr newOwner]"

definition NativeTokenHomeFilterer_ParseOwnershipTransferred ::
  "'w bound_contract \<Rightarrow> evm_log \<Rightarrow> goerr + event_fields" where
  "NativeTokenHomeFilterer_ParseOwnershipTransferred c = parse_log c ''OwnershipTransferred''
     NativeTokenHomeOwnershipTransferred"

definition NativeTokenHomeRemoteRegistered :: event_fields where
  "NativeTokenHomeRemoteRegistered = [(''RemoteBlockchainID'', GArr32 0),
     (''RemoteTokenTransferrerAddress'', GAddr 0), (''InitialCollateralNeeded'', GNil),
     (''TokenDecimals'', GUint 8 0), (''Raw'', zero_Log)]"

definition NativeTokenHomeRemoteRegisteredIterator_Next ::
  "'w bound_contract \<Rightarrow> bool \<Rightarrow> iterator \<Rightarrow> (bool \<times> iterator) option" where
  "NativeTokenHomeRemoteRegisteredIterator_Next c pick it = iterator_Next (parse_log c
     ''RemoteRegistered'' NativeTokenHomeRemoteRegistered) NativeTokenHomeRemoteRegistered pick
     it"

definition NativeTokenHomeRemoteRegisteredIterator_Error :: "iterator \<Rightarrow> goerr option" where
  "NativeTokenHomeRemoteRegisteredIterator_Error it = iterator_Error it"

definition NativeTokenHomeRemoteRegisteredIterator_Close :: "iterator \<Rightarrow> goerr option \<times> iterator"
   where
  "NativeTokenHomeRemoteRegisteredIterator_Close it = iterator_Close it"

definition NativeTokenHomeFilterer_FilterRemoteRegistered ::
  "'w bound_contract \<Rightarrow> FilterOpts \<Rightarrow> hash list \<Rightarrow> address list \<Rightarrow> ('w, goerr + iterator) prog"
     where
  "NativeTokenHomeFilterer_FilterRemoteRegistered c opts remoteBlockchainID
     remoteTokenTransferrerAddress =
     filter_events c opts ''RemoteRegistered'' [map GArr32 remoteBlockchainID, map GAddr
        remoteTokenTransferrerAddress]"

definition NativeTokenHomeFilterer_WatchRemoteRegistered ::
  "'w bound_contract \<Rightarrow> hash list \<Rightarrow> address list \<Rightarrow> ('w, goerr + (evm_log \<Rightarrow> goerr + event_fields))
     prog" where
  "NativeTokenHomeFilterer_WatchRemoteRegistered c remoteBlockchainID
     remoteTokenTransferrerAddress =
     watch_events c ''RemoteRegistered'' NativeTokenHomeRemoteRegistered [map GArr32
        remoteBlockchainID, map GAddr remoteTokenTransferrerAddress]"

definition NativeTokenHomeFilterer_ParseRemoteRegistered ::
  "'w bound_contract \<Rightarrow> evm_log \<Rightarrow> goerr + event_fields" where
  "NativeTokenHomeFilterer_ParseRemoteRegistered c = parse_log c ''RemoteRegistered''
     NativeTokenHomeRemoteRegistered"

definition NativeTokenHomeTeleporterAddressPaused :: event_fields where
  "NativeTokenHomeTeleporterAddressPaused = [(''TeleporterAddress'', GAddr 0), (''Raw'',
     zero_Log)]"

definition NativeTokenHomeTeleporterAddressPausedIterator_Next ::
  "'w bound_contract \<Rightarrow> bool \<Rightarrow> iterator \<Rightarrow> (bool \<times> iterator) option" where
  "NativeTokenHomeTeleporterAddressPausedIterator_Next c pick it = iterator_Next (parse_log c
     ''TeleporterAddressPaused'' NativeTokenHomeTeleporterAddressPaused)
     NativeTokenHomeTeleporterAddressPaused pick it"

definition NativeTokenHomeTeleporterAddressPausedIterator_Error :: "iterator \<Rightarrow> goerr option"
   where
  "NativeTokenHomeTeleporterAddressPausedIterator_Error it = iterator_Error it"

definition NativeTokenHomeTeleporterAddressPausedIterator_Close :: "iterator \<Rightarrow> goerr option \<times>
   iterator" where
  "NativeTokenHomeTeleporterAddressPausedIterator_Close it = iterator_Close it"

definition NativeTokenHomeFilterer_FilterTeleporterAddressPaused ::
  "'w bound_contract \<Rightarrow> FilterOpts \<Rightarrow> address list \<Rightarrow> ('w, goerr + iterator) prog" where
  "NativeTokenHomeFilterer_FilterTeleporterAddressPaused c opts teleporterAddress =
     filter_events c opts ''TeleporterAddressPaused'' [map GAddr teleporterAddress]"

definition NativeTokenHomeFilterer_WatchTeleporterAddressPaused ::
  "'w bound_contract \<Rightarrow> address list \<Rightarrow> ('w, goerr + (evm_log \<Rightarrow> goerr + event_fields)) prog" where
  "NativeTokenHomeFilterer_WatchTeleporterAddressPaused c teleporterAddress =
     watch_events c ''TeleporterAddressPaused'' NativeTokenHomeTeleporterAddressPaused [map
        GAddr teleporterAddress]"

definition NativeTokenHomeFilterer_ParseTeleporterAddressPaused ::
  "'w bound_contract \<Rightarrow> evm_log \<Rightarrow> goerr + event_fields" where
  "NativeTokenHomeFilterer_ParseTeleporterAddressPaused c = parse_log c
     ''TeleporterAddressPaused'' NativeTokenHomeTeleporterAddressPaused"

definition NativeTokenHomeTeleporterAddressUnpaused :: event_fields where
  "NativeTokenHomeTeleporterAddressUnpaused = [(''TeleporterAddress'', GAddr 0), (''Raw'',
     zero_Log)]"

definition NativeTokenHomeTeleporterAddressUnpausedIterator_Next ::
  "'w bound_contract \<Rightarrow> bool \<Rightarrow> iterator \<Rightarrow> (bool \<times> iterator) option" where
  "NativeTokenHomeTeleporterAddressUnpausedIterator_Next c pick it = iterator_Next (parse_log c
     ''TeleporterAddressUnpaused'' NativeTokenHomeTeleporterAddressUnpaused)
     NativeTokenHomeTeleporterAddressUnpaused pick it"

definition NativeTokenHomeTeleporterAddressUnpausedIterator_Error :: "iterator \<Rightarrow> goerr option"
   where
  "NativeTokenHomeTeleporterAddressUnpausedIterator_Error it = iterator_Error it"

definition NativeTokenHomeTeleporterAddressUnpausedIterator_Close :: "iterator \<Rightarrow> goerr option \<times>
   iterator" where
  "NativeTokenHomeTeleporterAddressUnpausedIterator_Close it = iterator_Close it"

definition NativeTokenHomeFilterer_FilterTeleporterAddressUnpaused ::
  "'w bound_contract \<Rightarrow> FilterOpts \<Rightarrow> address list \<Rightarrow> ('w, goerr + iterator) prog" where
  "NativeTokenHomeFilterer_FilterTeleporterAddressUnpaused c opts teleporterAddress =
     filter_events c opts ''TeleporterAddressUnpaused'' [map GAddr teleporterAddress]"

definition NativeTokenHomeFilterer_WatchTeleporterAddressUnpaused ::
  "'w bound_contract \<Rightarrow> address list \<Rightarrow> ('w, goerr + (evm_log \<Rightarrow> goerr + event_fields)) prog" where
  "NativeTokenHomeFilterer_WatchTeleporterAddressUnpaused c teleporterAddress =
     watch_events c ''TeleporterAddressUnpaused'' NativeTokenHomeTeleporterAddressUnpaused [map
        GAddr teleporterAddress]"

definition NativeTokenHomeFilterer_ParseTeleporterAddressUnpaused ::
  "'w bound_contract \<Rightarrow> evm_log \<Rightarrow> goerr + event_fields" where
  "NativeTokenHomeFilterer_ParseTeleporterAddressUnpaused c = parse_log c
     ''TeleporterAddressUnpaused'' NativeTokenHomeTeleporterAddressUnpaused"

definition NativeTokenHomeTokensAndCallRouted :: event_fields where
  "NativeTokenHomeTokensAndCallRouted = [(''TeleporterMessageID'', GArr32 0), (''Input'',
     zero_SendAndCallInput), (''Amount'', GNil), (''Raw'', zero_Log)]"

definition NativeTokenHomeTokensAndCallRoutedIterator_Next ::
  "'w bound_contract \<Rightarrow> bool \<Rightarrow> iterator \<Rightarrow> (bool \<times> iterator) option" where
  "NativeTokenHomeTokensAndCallRoutedIterator_Next c pick it = iterator_Next (parse_log c
     ''TokensAndCallRouted'' NativeTokenHomeTokensAndCallRouted)
     NativeTokenHomeTokensAndCallRouted pick it"

definition NativeTokenHomeTokensAndCallRoutedIterator_Error :: "iterator \<Rightarrow> goerr option" where
  "NativeTokenHomeTokensAndCallRoutedIterator_Error it = iterator_Error it"

definition NativeTokenHomeTokensAndCallRoutedIterator_Close :: "iterator \<Rightarrow> goerr option \<times>
   iterator" where
  "NativeTokenHomeTokensAndCallRoutedIterator_Close it = iterator_Close it"

definition NativeTokenHomeFilterer_FilterTokensAndCallRouted ::
  "'w bound_contract \<Rightarrow> FilterOpts \<Rightarrow> hash list \<Rightarrow> ('w, goerr + iterator) prog" where
  "NativeTokenHomeFilterer_FilterTokensAndCallRouted c opts teleporterMessageID =
     filter_events c opts ''TokensAndCallRouted'' [map GArr32 teleporterMessageID]"

definition NativeTokenHomeFilterer_WatchTokensAndCallRouted ::
  "'w bound_contract \<Rightarrow> hash list \<Rightarrow> ('w, goerr + (evm_log \<Rightarrow> goerr + event_fields)) prog" where
  "NativeTokenHomeFilterer_WatchTokensAndCallRouted c teleporterMessageID =
     watch_events c ''TokensAndCallRouted'' NativeTokenHomeTokensAndCallRouted [map GArr32
        teleporterMessageID]"

definition NativeTokenHomeFilterer_ParseTokensAndCallRouted ::
  "'w bound_contract \<Rightarrow> evm_log \<Rightarrow> goerr + event_fields" where
  "NativeTokenHomeFilterer_ParseTokensAndCallRouted c = parse_log c ''TokensAndCallRouted''
     NativeTokenHomeTokensAndCallRouted"

definition NativeTokenHomeTokensAndCallSent :: event_fields where
  "NativeTokenHomeTokensAndCallSent = [(''TeleporterMessageID'', GArr32 0), (''Sender'', GAddr
     0), (''Input'', zero_SendAndCallInput), (''Amount'', GNil), (''Raw'', zero_Log)]"

definition NativeTokenHomeTokensAndCallSentIterator_Next ::
  "'w bound_contract \<Rightarrow> bool \<Rightarrow> iterator \<Rightarrow> (bool \<times> iterator) option" where
  "NativeTokenHomeTokensAndCallSentIterator_Next c pick it = iterator_Next (parse_log c
     ''TokensAndCallSent'' NativeTokenHomeTokensAndCallSent) NativeTokenHomeTokensAndCallSent
     pick it"

definition NativeTokenHomeTokensAndCallSentIterator_Error :: "iterator \<Rightarrow> goerr option" where
  "NativeTokenHomeTokensAndCallSentIterator_Error it = iterator_Error it"

definition NativeTokenHomeTokensAndCallSentIterator_Close :: "iterator \<Rightarrow> goerr option \<times>
   iterator" where
  "NativeTokenHomeTokensAndCallSentIterator_Close it = iterator_Close it"

definition NativeTokenHomeFilterer_FilterTokensAndCallSent ::
  "'w bound_contract \<Rightarrow> FilterOpts \<Rightarrow> hash list \<Rightarrow> address list \<Rightarrow> ('w, goerr + iterator) prog"
     where
  "NativeTokenHomeFilterer_FilterTokensAndCallSent c opts teleporterMessageID sender =
     filter_events c opts ''TokensAndCallSent'' [map GArr32 teleporterMessageID, map GAddr
        sender]"

definition NativeTokenHomeFilterer_WatchTokensAndCallSent ::
  "'w bound_contract \<Rightarrow> hash list \<Rightarrow> address list \<Rightarrow> ('w, goerr + (evm_log \<Rightarrow> goerr + event_fields))
     prog" where
  "NativeTokenHomeFilterer_WatchTokensAndCallSent c teleporterMessageID sender =
     watch_events c ''TokensAndCallSent'' NativeTokenHomeTokensAndCallSent [map GArr32
        teleporterMessageID, map GAddr sender]"

definition NativeTokenHomeFilterer_ParseTokensAndCallSent ::
  "'w bound_contract \<Rightarrow> evm_log \<Rightarrow> goerr + event_fields" where
  "NativeTokenHomeFilterer_ParseTokensAndCallSent c = parse_log c ''TokensAndCallSent''
     NativeTokenHomeTokensAndCallSent"

definition NativeTokenHomeTokensRouted :: event_fields where
  "NativeTokenHomeTokensRouted = [(''TeleporterMessageID'', GArr32 0), (''Input'',
     zero_SendTokensInput), (''Amount'', GNil), (''Raw'', zero_Log)]"

definition NativeTokenHomeTokensRoutedIterator_Next ::
  "'w bound_contract \<Rightarrow> bool \<Rightarrow> iterator \<Rightarrow> (bool \<times> iterator) option" where
  "NativeTokenHomeTokensRoutedIterator_Next c pick it = iterator_Next (parse_log c
     ''TokensRouted'' NativeTokenHomeTokensRouted) NativeTokenHomeTokensRouted pick it"

definition NativeTokenHomeTokensRoutedIterator_Error :: "iterator \<Rightarrow> goerr option" where
  "NativeTokenHomeTokensRoutedIterator_Error it = iterator_Error it"

definition NativeTokenHomeTokensRoutedIterator_Close :: "iterator \<Rightarrow> goerr option \<times> iterator"
   where
  "NativeTokenHomeTokensRoutedIterator_Close it = iterator_Close it"

definition NativeTokenHomeFilterer_FilterTokensRouted ::
  "'w bound_contract \<Rightarrow> FilterOpts \<Rightarrow> hash list \<Rightarrow> ('w, goerr + iterator) prog" where
  "NativeTokenHomeFilterer_FilterTokensRouted c opts teleporterMessageID =
     filter_events c opts ''TokensRouted'' [map GArr32 teleporterMessageID]"

definition NativeTokenHomeFilterer_WatchTokensRouted ::
  "'w bound_contract \<Rightarrow> hash list \<Rightarrow> ('w, goerr + (evm_log \<Rightarrow> goerr + event_fields)) prog" where
  "NativeTokenHomeFilterer_WatchTokensRouted c teleporterMessageID =
     watch_events c ''TokensRouted'' NativeTokenHomeTokensRouted [map GArr32
        teleporterMessageID]"

definition NativeTokenHomeFilterer_ParseTokensRouted ::
  "'w bound_contract \<Rightarrow> evm_log \<Rightarrow> goerr + event_fields" where
  "NativeTokenHomeFilterer_ParseTokensRouted c = parse_log c ''TokensRouted''
     NativeTokenHomeTokensRouted"

definition NativeTokenHomeTokensSent :: event_fields where
  "NativeTokenHomeTokensSent = [(''TeleporterMessageID'', GArr32 0), (''Sender'', GAddr 0),
     (''Input'', zero_SendTokensInput), (''Amount'', GNil), (''Raw'', zero_Log)]"

definition NativeTokenHomeTokensSentIterator_Next ::
  "'w bound_contract \<Rightarrow> bool \<Rightarrow> iterator \<Rightarrow> (bool \<times> iterator) option" where
  "NativeTokenHomeTokensSentIterator_Next c pick it = iterator_Next (parse_log c ''TokensSent''
     NativeTokenHomeTokensSent) NativeTokenHomeTokensSent pick it"

definition NativeTokenHomeTokensSentIterator_Error :: "iterator \<Rightarrow> goerr option" where
  "NativeTokenHomeTokensSentIterator_Error it = iterator_Error it"

definition NativeTokenHomeTokensSentIterator_Close :: "iterator \<Rightarrow> goerr option \<times> iterator" where
  "NativeTokenHomeTokensSentIterator_Close it = iterator_Close it"

definition NativeTokenHomeFilterer_FilterTokensSent ::
  "'w bound_contract \<Rightarrow> FilterOpts \<Rightarrow> hash list \<Rightarrow> address list \<Rightarrow> ('w, goerr + iterator) prog"
     where
  "NativeTokenHomeFilterer_FilterTokensSent c opts teleporterMessageID sender =
     filter_events c opts ''TokensSent'' [map GArr32 teleporterMessageID, map GAddr sender]"

definition NativeTokenHomeFilterer_WatchTokensSent ::
  "'w bound_contract \<Rightarrow> hash list \<Rightarrow> address list \<Rightarrow> ('w, goerr + (evm_log \<Rightarrow> goerr + event_fields))
     prog" where
  "NativeTokenHomeFilterer_WatchTokensSent c teleporterMessageID sender =
     watch_events c ''TokensSent'' NativeTokenHomeTokensSent [map GArr32 teleporterMessageID,
        map GAddr sender]"

definition NativeTokenHomeFilterer_ParseTokensSent ::
  "'w bound_contract \<Rightarrow> evm_log \<Rightarrow> goerr + event_fields" where
  "NativeTokenHomeFilterer_ParseTokensSent c = parse_log c ''TokensSent''
     NativeTokenHomeTokensSent"

definition NativeTokenHomeTokensWithdrawn :: event_fields where
  "NativeTokenHomeTokensWithdrawn = [(''Recipient'', GAddr 0), (''Amount'', GNil), (''Raw'',
     zero_Log)]"

definition NativeTokenHomeTokensWithdrawnIterator_Next ::
  "'w bound_contract \<Rightarrow> bool \<Rightarrow> iterator \<Rightarrow> (bool \<times> iterator) option" where
  "NativeTokenHomeTokensWithdrawnIterator_Next c pick it = iterator_Next (parse_log c
     ''TokensWithdrawn'' NativeTokenHomeTokensWithdrawn) NativeTokenHomeTokensWithdrawn pick it"

definition NativeTokenHomeTokensWithdrawnIterator_Error :: "iterator \<Rightarrow> goerr option" where
  "NativeTokenHomeTokensWithdrawnIterator_Error it = iterator_Error it"

definition NativeTokenHomeTokensWithdrawnIterator_Close :: "iterator \<Rightarrow> goerr option \<times> iterator"
   where
  "NativeTokenHomeTokensWithdrawnIterator_Close it = iterator_Close it"

definition NativeTokenHomeFilterer_FilterTokensWithdrawn ::
  "'w bound_contract \<Rightarrow> FilterOpts \<Rightarrow> address list \<Rightarrow> ('w, goerr + iterator) prog" where
  "NativeTokenHomeFilterer_FilterTokensWithdrawn c opts recipient =
     filter_events c opts ''TokensWithdrawn'' [map GAddr recipient]"

definition NativeTokenHomeFilterer_WatchTokensWithdrawn ::
  "'w bound_contract \<Rightarrow> address list \<Rightarrow> ('w, goerr + (evm_log \<Rightarrow> goerr + event_fields)) prog" where
  "NativeTokenHomeFilterer_WatchTokensWithdrawn c recipient =
     watch_events c ''TokensWithdrawn'' NativeTokenHomeTokensWithdrawn [map GAddr recipient]"

definition NativeTokenHomeFilterer_ParseTokensWithdrawn ::
  "'w bound_contract \<Rightarrow> evm_log \<Rightarrow> goerr + event_fields" where
  "NativeTokenHomeFilterer_ParseTokensWithdrawn c = parse_log c ''TokensWithdrawn''
     NativeTokenHomeTokensWithdrawn"

section \<open>Correctness\<close>

lemma NativeTokenHome_methods:
  "map_of (Methods NativeTokenHomeABI) ''NATIVE_TOKEN_HOME_STORAGE_LOCATION'' =
     Some ([], [([], TBytes32)])"
  "map_of (Methods NativeTokenHomeABI) ''TELEPORTER_REGISTRY_APP_STORAGE_LOCATION'' =
     Some ([], [([], TBytes32)])"
  "map_of (Methods NativeTokenHomeABI) ''TOKEN_HOME_STORAGE_LOCATION'' =
     Some ([], [([], TBytes32)])"
  "map_of (Methods NativeTokenHomeABI) ''addCollateral'' =
     Some ([(''remoteBlockchainID'', TBytes32), (''remoteTokenTransferrerAddress'', TAddress)],
        [])"
  "map_of (Methods NativeTokenHomeABI) ''getBlockchainID'' =
     Some ([], [([], TBytes32)])"
  "map_of (Methods NativeTokenHomeABI) ''getMinTeleporterVersion'' =
     Some ([], [([], TUint 256)])"
  "map_of (Methods NativeTokenHomeABI) ''getRemoteTokenTransferrerSettings'' =
     Some ([(''remoteBlockchainID'', TBytes32), (''remoteTokenTransferrerAddress'', TAddress)],
        [([], RemoteTokenTransferrerSettings_tuple)])"
  "map_of (Methods NativeTokenHomeABI) ''getTokenAddress'' =
     Some ([], [([], TAddress)])"
  "map_of (Methods NativeTokenHomeABI) ''getTransferredBalance'' =
     Some ([(''remoteBlockchainID'', TBytes32), (''remoteTokenTransferrerAddress'', TAddress)],
        [([], TUint 256)])"
  "map_of (Methods NativeTokenHomeABI) ''initialize'' =
     Some ([(''teleporterRegistryAddress'', TAddress), (''teleporterManager'', TAddress),
        (''minTeleporterVersion'', TUint 256), (''wrappedTokenAddress'', TAddress)], [])"
  "map_of (Methods NativeTokenHomeABI) ''isTeleporterAddressPaused'' =
     Some ([(''teleporterAddress'', TAddress)], [([], TBool)])"
  "map_of (Methods NativeTokenHomeABI) ''owner'' =
     Some ([], [([], TAddress)])"
  "map_of (Methods NativeTokenHomeABI) ''pauseTeleporterAddress'' =
     Some ([(''teleporterAddress'', TAddress)], [])"
  "map_of (Methods NativeTokenHomeABI) ''receiveTeleporterMessage'' =
     Some ([(''sourceBlockchainID'', TBytes32), (''originSenderAddress'', TAddress),
        (''message'', TBytes)], [])"
  "map_of (Methods NativeTokenHomeABI) ''renounceOwnership'' =
     Some ([], [])"
  "map_of (Methods NativeTokenHomeABI) ''send'' =
     Some ([(''input'', SendTokensInput_tuple)], [])"
  "map_of (Methods NativeTokenHomeABI) ''sendAndCall'' =
     Some ([(''input'', SendAndCallInput_tuple)], [])"
  "map_of (Methods NativeTokenHomeABI) ''transferOwnership'' =
     Some ([(''newOwner'', TAddress)], [])"
  "map_of (Methods NativeTokenHomeABI) ''unpauseTeleporterAddress'' =
     Some ([(''teleporterAddress'', TAddress)], [])"
  "map_of (Methods NativeTokenHomeABI) ''updateMinTeleporterVersion'' =
     Some ([(''version'', TUint 256)], [])"
  unfolding NativeTokenHomeABI_def contract_abi.select_convs
  by (simp_all only: table_lookup)

lemma NativeTokenHome_decodable:
  "decodable [(''recipientContract'', TAddress, True), (''amount'', TUint 256, False)]
     NativeTokenHomeCallFailed"
  "decodable [(''recipientContract'', TAddress, True), (''amount'', TUint 256, False)]
     NativeTokenHomeCallSucceeded"
  "decodable [(''remoteBlockchainID'', TBytes32, True), (''remoteTokenTransferrerAddress'',
     TAddress, True), (''amount'', TUint 256, False), (''remaining'', TUint 256, False)]
     NativeTokenHomeCollateralAdded"
  "decodable [(''version'', TUint 64, False)]
     NativeTokenHomeInitialized"
  "decodable [(''oldMinTeleporterVersion'', TUint 256, True), (''newMinTeleporterVersion'',
     TUint 256, True)]
     NativeTokenHomeMinTeleporterVersionUpdated"
  "decodable [(''previousOwner'', TAddress, True), (''newOwner'', TAddress, True)]
     NativeTokenHomeOwnershipTransferred"
  "decodable [(''remoteBlockchainID'', TBytes32, True), (''remoteTokenTransferrerAddress'',
     TAddress, True), (''initialCollateralNeeded'', TUint 256, False), (''tokenDecimals'', TUint
     8, False)]
     NativeTokenHomeRemoteRegistered"
  "decodable [(''teleporterAddress'', TAddress, True)]
     NativeTokenHomeTeleporterAddressPaused"
  "decodable [(''teleporterAddress'', TAddress, True)]
     NativeTokenHomeTeleporterAddressUnpaused"
  "decodable [(''teleporterMessageID'', TBytes32, True), (''input'', SendAndCallInput_tuple,
     False), (''amount'', TUint 256, False)]
     NativeTokenHomeTokensAndCallRouted"
  "decodable [(''teleporterMessageID'', TBytes32, True), (''sender'', TAddress, True),
     (''input'', SendAndCallInput_tuple, False), (''amount'', TUint 256, False)]
     NativeTokenHomeTokensAndCallSent"
  "decodable [(''teleporterMessageID'', TBytes32, True), (''input'', SendTokensInput_tuple,
     False), (''amount'', TUint 256, False)]
     NativeTokenHomeTokensRouted"
  "decodable [(''teleporterMessageID'', TBytes32, True), (''sender'', TAddress, True),
     (''input'', SendTokensInput_tuple, False), (''amount'', TUint 256, False)]
     NativeTokenHomeTokensSent"
  "decodable [(''recipient'', TAddress, True), (''amount'', TUint 256, False)]
     NativeTokenHomeTokensWithdrawn"
  by (simp_all add: decodable_def has_fields_def fits_def NativeTokenHomeCallFailed_def
     NativeTokenHomeCallSucceeded_def NativeTokenHomeCollateralAdded_def
     NativeTokenHomeInitialized_def NativeTokenHomeMinTeleporterVersionUpdated_def
     NativeTokenHomeOwnershipTransferred_def NativeTokenHomeRemoteRegistered_def
     NativeTokenHomeTeleporterAddressPaused_def NativeTokenHomeTeleporterAddressUnpaused_def
     NativeTokenHomeTokensAndCallRouted_def NativeTokenHomeTokensAndCallSent_def
     NativeTokenHomeTokensRouted_def NativeTokenHomeTokensSent_def
     NativeTokenHomeTokensWithdrawn_def SendAndCallInput_tuple_def SendTokensInput_tuple_def)

lemma NativeTokenHome_events:
  "map_of (Events NativeTokenHomeABI) ''CallFailed'' =
     Some [(''recipientContract'', TAddress, True), (''amount'', TUint 256, False)]"
  "map_of (Events NativeTokenHomeABI) ''CallSucceeded'' =
     Some [(''recipientContract'', TAddress, True), (''amount'', TUint 256, False)]"
  "map_of (Events NativeTokenHomeABI) ''CollateralAdded'' =
     Some [(''remoteBlockchainID'', TBytes32, True), (''remoteTokenTransferrerAddress'',
        TAddress, True), (''amount'', TUint 256, False), (''remaining'', TUint 256, False)]"
  "map_of (Events NativeTokenHomeABI) ''Initialized'' =
     Some [(''version'', TUint 64, False)]"
  "map_of (Events NativeTokenHomeABI) ''MinTeleporterVersionUpdated'' =
     Some [(''oldMinTeleporterVersion'', TUint 256, True), (''newMinTeleporterVersion'', TUint
        256, True)]"
  "map_of (Events NativeTokenHomeABI) ''OwnershipTransferred'' =
     Some [(''previousOwner'', TAddress, True), (''newOwner'', TAddress, True)]"
  "map_of (Events NativeTokenHomeABI) ''RemoteRegistered'' =
     Some [(''remoteBlockchainID'', TBytes32, True), (''remoteTokenTransferrerAddress'',
        TAddress, True), (''initialCollateralNeeded'', TUint 256, False), (''tokenDecimals'',
        TUint 8, False)]"
  "map_of (Events NativeTokenHomeABI) ''TeleporterAddressPaused'' =
     Some [(''teleporterAddress'', TAddress, True)]"
  "map_of (Events NativeTokenHomeABI) ''TeleporterAddressUnpaused'' =
     Some [(''teleporterAddress'', TAddress, True)]"
  "map_of (Events NativeTokenHomeABI) ''TokensAndCallRouted'' =
     Some [(''teleporterMessageID'', TBytes32, True), (''input'', SendAndCallInput_tuple,
        False), (''amount'', TUint 256, False)]"
  "map_of (Events NativeTokenHomeABI) ''TokensAndCallSent'' =
     Some [(''teleporterMessageID'', TBytes32, True), (''sender'', TAddress, True), (''input'',
        SendAndCallInput_tuple, False), (''amount'', TUint 256, False)]"
  "map_of (Events NativeTokenHomeABI) ''TokensRouted'' =
     Some [(''teleporterMessageID'', TBytes32, True), (''input'', SendTokensInput_tuple, False),
        (''amount'', TUint 256, False)]"
  "map_of (Events NativeTokenHomeABI) ''TokensSent'' =
     Some [(''teleporterMessageID'', TBytes32, True), (''sender'', TAddress, True), (''input'',
        SendTokensInput_tuple, False), (''amount'', TUint 256, False)]"
  "map_of (Events NativeTokenHomeABI) ''TokensWithdrawn'' =
     Some [(''recipient'', TAddress, True), (''amount'', TUint 256, False)]"
  unfolding NativeTokenHomeABI_def contract_abi.select_convs
  by (simp_all only: table_lookup)

lemma NativeTokenHome_transactions_decode:
  assumes "codec_methods k" and "codec_roundtrip k" and "bound_spec k NativeTokenHomeABI be c"
  shows "(\<forall>remoteBlockchainID remoteTokenTransferrerAddress. sends_call k NativeTokenHomeABI be
     opts ''addCollateral'' [GArr32 remoteBlockchainID, GAddr remoteTokenTransferrerAddress]
       (NativeTokenHomeTransactor_AddCollateral c opts remoteBlockchainID
          remoteTokenTransferrerAddress)) \<and>
     (\<forall>teleporterRegistryAddress teleporterManager minTeleporterVersion wrappedTokenAddress.
        in_uint256 minTeleporterVersion \<longrightarrow> sends_call k NativeTokenHomeABI be opts ''initialize''
        [GAddr teleporterRegistryAddress, GAddr teleporterManager, GBig minTeleporterVersion,
        GAddr wrappedTokenAddress]
       (NativeTokenHomeTransactor_Initialize c opts teleporterRegistryAddress teleporterManager
          minTeleporterVersion wrappedTokenAddress)) \<and>
     (\<forall>teleporterAddress. sends_call k NativeTokenHomeABI be opts ''pauseTeleporterAddress''
        [GAddr teleporterAddress]
       (NativeTokenHomeTransactor_PauseTeleporterAddress c opts teleporterAddress)) \<and>
     (\<forall>sourceBlockchainID originSenderAddress message. sends_call k NativeTokenHomeABI be opts
        ''receiveTeleporterMessage'' [GArr32 sourceBlockchainID, GAddr originSenderAddress,
        GBytes message]
       (NativeTokenHomeTransactor_ReceiveTeleporterMessage c opts sourceBlockchainID
          originSenderAddress message)) \<and>
     sends_call k NativeTokenHomeABI be opts ''renounceOwnership'' []
       (NativeTokenHomeTransactor_RenounceOwnership c opts) \<and>
     (\<forall>input_data. SendTokensInput_ok input_data \<longrightarrow> sends_call k NativeTokenHomeABI be opts
        ''send'' [SendTokensInput_val input_data]
       (NativeTokenHomeTransactor_Send c opts input_data)) \<and>
     (\<forall>input_data. SendAndCallInput_ok input_data \<longrightarrow> sends_call k NativeTokenHomeABI be opts
        ''sendAndCall'' [SendAndCallInput_val input_data]
       (NativeTokenHomeTransactor_SendAndCall c opts input_data)) \<and>
     (\<forall>newOwner. sends_call k NativeTokenHomeABI be opts ''transferOwnership'' [GAddr newOwner]
       (NativeTokenHomeTransactor_TransferOwnership c opts newOwner)) \<and>
     (\<forall>teleporterAddress. sends_call k NativeTokenHomeABI be opts ''unpauseTeleporterAddress''
        [GAddr teleporterAddress]
       (NativeTokenHomeTransactor_UnpauseTeleporterAddress c opts teleporterAddress)) \<and>
     (\<forall>version_number. in_uint256 version_number \<longrightarrow> sends_call k NativeTokenHomeABI be opts
        ''updateMinTeleporterVersion'' [GBig version_number]
       (NativeTokenHomeTransactor_UpdateMinTeleporterVersion c opts version_number))"
  unfolding NativeTokenHomeTransactor_AddCollateral_def NativeTokenHomeTransactor_Initialize_def
     NativeTokenHomeTransactor_PauseTeleporterAddress_def
     NativeTokenHomeTransactor_ReceiveTeleporterMessage_def
     NativeTokenHomeTransactor_RenounceOwnership_def NativeTokenHomeTransactor_Send_def
     NativeTokenHomeTransactor_SendAndCall_def NativeTokenHomeTransactor_TransferOwnership_def
     NativeTokenHomeTransactor_UnpauseTeleporterAddress_def
     NativeTokenHomeTransactor_UpdateMinTeleporterVersion_def
  by ((intro conjI allI impI)?; rule transact_sends [OF assms], rule NativeTokenHome_methods)
    (simp_all del: matches.simps(1))

lemma NativeTokenHome_calls_return_outputs:
  assumes "codec_methods k" and "codec_roundtrip k" and "bound_spec k NativeTokenHomeABI be c"
  shows "(\<forall>r0. reads_call k NativeTokenHomeABI be opts ''NATIVE_TOKEN_HOME_STORAGE_LOCATION'' []
       [GArr32 r0] r0 (NativeTokenHomeCaller_NATIVETOKENHOMESTORAGELOCATION c opts)) \<and>
     (\<forall>r0. reads_call k NativeTokenHomeABI be opts ''TELEPORTER_REGISTRY_APP_STORAGE_LOCATION''
        []
       [GArr32 r0] r0 (NativeTokenHomeCaller_TELEPORTERREGISTRYAPPSTORAGELOCATION c opts)) \<and>
     (\<forall>r0. reads_call k NativeTokenHomeABI be opts ''TOKEN_HOME_STORAGE_LOCATION'' []
       [GArr32 r0] r0 (NativeTokenHomeCaller_TOKENHOMESTORAGELOCATION c opts)) \<and>
     (\<forall>r0. reads_call k NativeTokenHomeABI be opts ''getBlockchainID'' []
       [GArr32 r0] r0 (NativeTokenHomeCaller_GetBlockchainID c opts)) \<and>
     (\<forall>r0. in_uint256 r0 \<longrightarrow> reads_call k NativeTokenHomeABI be opts ''getMinTeleporterVersion''
        []
       [GBig r0] r0 (NativeTokenHomeCaller_GetMinTeleporterVersion c opts)) \<and>
     (\<forall>remoteBlockchainID remoteTokenTransferrerAddress r0. RemoteTokenTransferrerSettings_ok r0
        \<longrightarrow> reads_call k NativeTokenHomeABI be opts ''getRemoteTokenTransferrerSettings'' [GArr32
        remoteBlockchainID, GAddr remoteTokenTransferrerAddress]
       [RemoteTokenTransferrerSettings_val r0] r0
          (NativeTokenHomeCaller_GetRemoteTokenTransferrerSettings c opts remoteBlockchainID
          remoteTokenTransferrerAddress)) \<and>
     (\<forall>r0. reads_call k NativeTokenHomeABI be opts ''getTokenAddress'' []
       [GAddr r0] r0 (NativeTokenHomeCaller_GetTokenAddress c opts)) \<and>
     (\<forall>remoteBlockchainID remoteTokenTransferrerAddress r0. in_uint256 r0 \<longrightarrow> reads_call k
        NativeTokenHomeABI be opts ''getTransferredBalance'' [GArr32 remoteBlockchainID, GAddr
        remoteTokenTransferrerAddress]
       [GBig r0] r0 (NativeTokenHomeCaller_GetTransferredBalance c opts remoteBlockchainID
          remoteTokenTransferrerAddress)) \<and>
     (\<forall>teleporterAddress r0. reads_call k NativeTokenHomeABI be opts
        ''isTeleporterAddressPaused'' [GAddr teleporterAddress]
       [GBool r0] r0 (NativeTokenHomeCaller_IsTeleporterAddressPaused c opts teleporterAddress))
          \<and>
     (\<forall>r0. reads_call k NativeTokenHomeABI be opts ''owner'' []
       [GAddr r0] r0 (NativeTokenHomeCaller_Owner c opts))"
  unfolding NativeTokenHomeCaller_NATIVETOKENHOMESTORAGELOCATION_def
     NativeTokenHomeCaller_TELEPORTERREGISTRYAPPSTORAGELOCATION_def
     NativeTokenHomeCaller_TOKENHOMESTORAGELOCATION_def
     NativeTokenHomeCaller_GetBlockchainID_def NativeTokenHomeCaller_GetMinTeleporterVersion_def
     NativeTokenHomeCaller_GetRemoteTokenTransferrerSettings_def
     NativeTokenHomeCaller_GetTokenAddress_def NativeTokenHomeCaller_GetTransferredBalance_def
     NativeTokenHomeCaller_IsTeleporterAddressPaused_def NativeTokenHomeCaller_Owner_def
  by ((intro conjI allI impI)?; rule call_reads [OF assms], rule NativeTokenHome_methods)
    (simp_all del: matches.simps(1))

lemma NativeTokenHome_parsers_decode:
  assumes "codec_events k" and "event_ids k NativeTokenHomeABI" and "bound_spec k
     NativeTokenHomeABI be c"
  shows "parser_decodes k NativeTokenHomeABI ''CallFailed''
     (NativeTokenHomeFilterer_ParseCallFailed c) \<and>
     parser_decodes k NativeTokenHomeABI ''CallSucceeded''
        (NativeTokenHomeFilterer_ParseCallSucceeded c) \<and>
     parser_decodes k NativeTokenHomeABI ''CollateralAdded''
        (NativeTokenHomeFilterer_ParseCollateralAdded c) \<and>
     parser_decodes k NativeTokenHomeABI ''Initialized''
        (NativeTokenHomeFilterer_ParseInitialized c) \<and>
     parser_decodes k NativeTokenHomeABI ''MinTeleporterVersionUpdated''
        (NativeTokenHomeFilterer_ParseMinTeleporterVersionUpdated c) \<and>
     parser_decodes k NativeTokenHomeABI ''OwnershipTransferred''
        (NativeTokenHomeFilterer_ParseOwnershipTransferred c) \<and>
     parser_decodes k NativeTokenHomeABI ''RemoteRegistered''
        (NativeTokenHomeFilterer_ParseRemoteRegistered c) \<and>
     parser_decodes k NativeTokenHomeABI ''TeleporterAddressPaused''
        (NativeTokenHomeFilterer_ParseTeleporterAddressPaused c) \<and>
     parser_decodes k NativeTokenHomeABI ''TeleporterAddressUnpaused''
        (NativeTokenHomeFilterer_ParseTeleporterAddressUnpaused c) \<and>
     parser_decodes k NativeTokenHomeABI ''TokensAndCallRouted''
        (NativeTokenHomeFilterer_ParseTokensAndCallRouted c) \<and>
     parser_decodes k NativeTokenHomeABI ''TokensAndCallSent''
        (NativeTokenHomeFilterer_ParseTokensAndCallSent c) \<and>
     parser_decodes k NativeTokenHomeABI ''TokensRouted''
        (NativeTokenHomeFilterer_ParseTokensRouted c) \<and>
     parser_decodes k NativeTokenHomeABI ''TokensSent'' (NativeTokenHomeFilterer_ParseTokensSent
        c) \<and>
     parser_decodes k NativeTokenHomeABI ''TokensWithdrawn''
        (NativeTokenHomeFilterer_ParseTokensWithdrawn c)"
proof -
  note parses = parse_log_decodes [OF assms]
  show ?thesis
    unfolding NativeTokenHomeFilterer_ParseCallFailed_def
       NativeTokenHomeFilterer_ParseCallSucceeded_def
       NativeTokenHomeFilterer_ParseCollateralAdded_def
       NativeTokenHomeFilterer_ParseInitialized_def
       NativeTokenHomeFilterer_ParseMinTeleporterVersionUpdated_def
       NativeTokenHomeFilterer_ParseOwnershipTransferred_def
       NativeTokenHomeFilterer_ParseRemoteRegistered_def
       NativeTokenHomeFilterer_ParseTeleporterAddressPaused_def
       NativeTokenHomeFilterer_ParseTeleporterAddressUnpaused_def
       NativeTokenHomeFilterer_ParseTokensAndCallRouted_def
       NativeTokenHomeFilterer_ParseTokensAndCallSent_def
       NativeTokenHomeFilterer_ParseTokensRouted_def NativeTokenHomeFilterer_ParseTokensSent_def
       NativeTokenHomeFilterer_ParseTokensWithdrawn_def
    by ((intro conjI)?; rule parses, rule NativeTokenHome_events, rule
       NativeTokenHome_decodable)
qed

end
