(* ===== verification/TokenHomeBinding.thy ===== *)
theory TokenHomeBinding
  imports IcttStructs AbiRef
begin

text \<open>
  The generated binding \<open>abi-bindings/go/ictt/TokenHome/TokenHome/TokenHome.go\<close> over the generic
  definitions of theory \<open>Binding\<close>: its ABI, every method with its session wrappers, every event with
  its iterator, filter, watch and parser. The bytecode is a parameter of deployment; the aliases
  \<open>Raw\<close> of the untyped calls are not modelled.
\<close>

section \<open>The contract's ABI (TokenHomeMetaData)\<close>

definition TokenHomeABI :: contract_abi where
  "TokenHomeABI = \<lparr>
      Methods = [
        (''TELEPORTER_REGISTRY_APP_STORAGE_LOCATION'', [],
           [('''', TBytes32)]),
        (''TOKEN_HOME_STORAGE_LOCATION'', [],
           [('''', TBytes32)]),
        (''getBlockchainID'', [],
           [('''', TBytes32)]),
        (''getMinTeleporterVersion'', [],
           [('''', TUint 256)]),
        (''getRemoteTokenTransferrerSettings'', [(''remoteBlockchainID'', TBytes32),
           (''remoteTokenTransferrerAddress'', TAddress)],
           [('''', RemoteTokenTransferrerSettings_tuple)]),
        (''getTokenAddress'', [],
           [('''', TAddress)]),
        (''getTransferredBalance'', [(''remoteBlockchainID'', TBytes32),
           (''remoteTokenTransferrerAddress'', TAddress)],
           [('''', TUint 256)]),
        (''isTeleporterAddressPaused'', [(''teleporterAddress'', TAddress)],
           [('''', TBool)]),
        (''owner'', [],
           [('''', TAddress)]),
        (''pauseTeleporterAddress'', [(''teleporterAddress'', TAddress)],
           []),
        (''receiveTeleporterMessage'', [(''sourceBlockchainID'', TBytes32),
           (''originSenderAddress'', TAddress), (''message'', TBytes)],
           []),
        (''renounceOwnership'', [],
           []),
        (''transferOwnership'', [(''newOwner'', TAddress)],
           []),
        (''unpauseTeleporterAddress'', [(''teleporterAddress'', TAddress)],
           []),
        (''updateMinTeleporterVersion'', [(''version'', TUint 256)],
           [])],
      Events = [
        (''CallFailed'', [(''recipientContract'', TAddress, True), (''amount'', TUint 256,
           False)]),
        (''CallSucceeded'', [(''recipientContract'', TAddress, True), (''amount'', TUint 256,
           False)]),
        (''CollateralAdded'', [(''remoteBlockchainID'', TBytes32, True),
           (''remoteTokenTransferrerAddress'', TAddress, True), (''amount'', TUint 256, False),
           (''remaining'', TUint 256, False)]),
        (''Initialized'', [(''version'', TUint 64, False)]),
        (''MinTeleporterVersionUpdated'', [(''oldMinTeleporterVersion'', TUint 256, True),
           (''newMinTeleporterVersion'', TUint 256, True)]),
        (''OwnershipTransferred'', [(''previousOwner'', TAddress, True), (''newOwner'',
           TAddress, True)]),
        (''RemoteRegistered'', [(''remoteBlockchainID'', TBytes32, True),
           (''remoteTokenTransferrerAddress'', TAddress, True), (''initialCollateralNeeded'',
           TUint 256, False), (''tokenDecimals'', TUint 8, False)]),
        (''TeleporterAddressPaused'', [(''teleporterAddress'', TAddress, True)]),
        (''TeleporterAddressUnpaused'', [(''teleporterAddress'', TAddress, True)]),
        (''TokensAndCallRouted'', [(''teleporterMessageID'', TBytes32, True), (''input'',
           SendAndCallInput_tuple, False), (''amount'', TUint 256, False)]),
        (''TokensAndCallSent'', [(''teleporterMessageID'', TBytes32, True), (''sender'',
           TAddress, True), (''input'', SendAndCallInput_tuple, False), (''amount'', TUint 256,
           False)]),
        (''TokensRouted'', [(''teleporterMessageID'', TBytes32, True), (''input'',
           SendTokensInput_tuple, False), (''amount'', TUint 256, False)]),
        (''TokensSent'', [(''teleporterMessageID'', TBytes32, True), (''sender'', TAddress,
           True), (''input'', SendTokensInput_tuple, False), (''amount'', TUint 256, False)]),
        (''TokensWithdrawn'', [(''recipient'', TAddress, True), (''amount'', TUint 256,
           False)])]\<rparr>"

section \<open>Binding and deployment\<close>

definition bindTokenHome :: "'w bind_lib \<Rightarrow> address \<Rightarrow> goerr + 'w bound_contract" where
  "bindTokenHome lib addr = bind_contract lib TokenHomeABI addr"

definition NewTokenHome :: "'w bind_lib \<Rightarrow> address \<Rightarrow> goerr + 'w bound_contract" where
  "NewTokenHome lib addr = bindTokenHome lib addr"

section \<open>Methods\<close>

definition TokenHomeCaller_TELEPORTERREGISTRYAPPSTORAGELOCATION ::
  "'w bound_contract \<Rightarrow> CallOpts \<Rightarrow> ('w, goerr + hash) prog" where
  "TokenHomeCaller_TELEPORTERREGISTRYAPPSTORAGELOCATION c opts =
     call_method c opts ''TELEPORTER_REGISTRY_APP_STORAGE_LOCATION'' [] (out1 go_arr32)"

definition TokenHomeSession_TELEPORTERREGISTRYAPPSTORAGELOCATION ::
  "'w session \<Rightarrow> ('w, goerr + hash) prog" where
  "TokenHomeSession_TELEPORTERREGISTRYAPPSTORAGELOCATION s =
     TokenHomeCaller_TELEPORTERREGISTRYAPPSTORAGELOCATION (SessionContract s) (SessionCallOpts
     s)"

definition TokenHomeCaller_TOKENHOMESTORAGELOCATION ::
  "'w bound_contract \<Rightarrow> CallOpts \<Rightarrow> ('w, goerr + hash) prog" where
  "TokenHomeCaller_TOKENHOMESTORAGELOCATION c opts =
     call_method c opts ''TOKEN_HOME_STORAGE_LOCATION'' [] (out1 go_arr32)"

definition TokenHomeSession_TOKENHOMESTORAGELOCATION ::
  "'w session \<Rightarrow> ('w, goerr + hash) prog" where
  "TokenHomeSession_TOKENHOMESTORAGELOCATION s = TokenHomeCaller_TOKENHOMESTORAGELOCATION
     (SessionContract s) (SessionCallOpts s)"

definition TokenHomeCaller_GetBlockchainID ::
  "'w bound_contract \<Rightarrow> CallOpts \<Rightarrow> ('w, goerr + hash) prog" where
  "TokenHomeCaller_GetBlockchainID c opts =
     call_method c opts ''getBlockchainID'' [] (out1 go_arr32)"

definition TokenHomeSession_GetBlockchainID ::
  "'w session \<Rightarrow> ('w, goerr + hash) prog" where
  "TokenHomeSession_GetBlockchainID s = TokenHomeCaller_GetBlockchainID (SessionContract s)
     (SessionCallOpts s)"

definition TokenHomeCaller_GetMinTeleporterVersion ::
  "'w bound_contract \<Rightarrow> CallOpts \<Rightarrow> ('w, goerr + int) prog" where
  "TokenHomeCaller_GetMinTeleporterVersion c opts =
     call_method c opts ''getMinTeleporterVersion'' [] (out1 go_big)"

definition TokenHomeSession_GetMinTeleporterVersion ::
  "'w session \<Rightarrow> ('w, goerr + int) prog" where
  "TokenHomeSession_GetMinTeleporterVersion s = TokenHomeCaller_GetMinTeleporterVersion
     (SessionContract s) (SessionCallOpts s)"

definition TokenHomeCaller_GetRemoteTokenTransferrerSettings ::
  "'w bound_contract \<Rightarrow> CallOpts \<Rightarrow> hash \<Rightarrow> address \<Rightarrow> ('w, goerr + RemoteTokenTransferrerSettings)
     prog" where
  "TokenHomeCaller_GetRemoteTokenTransferrerSettings c opts remoteBlockchainID
     remoteTokenTransferrerAddress =
     call_method c opts ''getRemoteTokenTransferrerSettings'' [GArr32 remoteBlockchainID, GAddr
        remoteTokenTransferrerAddress] (out1 RemoteTokenTransferrerSettings_of)"

definition TokenHomeSession_GetRemoteTokenTransferrerSettings ::
  "'w session \<Rightarrow> hash \<Rightarrow> address \<Rightarrow> ('w, goerr + RemoteTokenTransferrerSettings) prog" where
  "TokenHomeSession_GetRemoteTokenTransferrerSettings s remoteBlockchainID
     remoteTokenTransferrerAddress = TokenHomeCaller_GetRemoteTokenTransferrerSettings
     (SessionContract s) (SessionCallOpts s) remoteBlockchainID remoteTokenTransferrerAddress"

definition TokenHomeCaller_GetTokenAddress ::
  "'w bound_contract \<Rightarrow> CallOpts \<Rightarrow> ('w, goerr + address) prog" where
  "TokenHomeCaller_GetTokenAddress c opts =
     call_method c opts ''getTokenAddress'' [] (out1 go_addr)"

definition TokenHomeSession_GetTokenAddress ::
  "'w session \<Rightarrow> ('w, goerr + address) prog" where
  "TokenHomeSession_GetTokenAddress s = TokenHomeCaller_GetTokenAddress (SessionContract s)
     (SessionCallOpts s)"

definition TokenHomeCaller_GetTransferredBalance ::
  "'w bound_contract \<Rightarrow> CallOpts \<Rightarrow> hash \<Rightarrow> address \<Rightarrow> ('w, goerr + int) prog" where
  "TokenHomeCaller_GetTransferredBalance c opts remoteBlockchainID remoteTokenTransferrerAddress
     =
     call_method c opts ''getTransferredBalance'' [GArr32 remoteBlockchainID, GAddr
        remoteTokenTransferrerAddress] (out1 go_big)"

definition TokenHomeSession_GetTransferredBalance ::
  "'w session \<Rightarrow> hash \<Rightarrow> address \<Rightarrow> ('w, goerr + int) prog" where
  "TokenHomeSession_GetTransferredBalance s remoteBlockchainID remoteTokenTransferrerAddress =
     TokenHomeCaller_GetTransferredBalance (SessionContract s) (SessionCallOpts s)
     remoteBlockchainID remoteTokenTransferrerAddress"

definition TokenHomeCaller_IsTeleporterAddressPaused ::
  "'w bound_contract \<Rightarrow> CallOpts \<Rightarrow> address \<Rightarrow> ('w, goerr + bool) prog" where
  "TokenHomeCaller_IsTeleporterAddressPaused c opts teleporterAddress =
     call_method c opts ''isTeleporterAddressPaused'' [GAddr teleporterAddress] (out1 go_bool)"

definition TokenHomeSession_IsTeleporterAddressPaused ::
  "'w session \<Rightarrow> address \<Rightarrow> ('w, goerr + bool) prog" where
  "TokenHomeSession_IsTeleporterAddressPaused s teleporterAddress =
     TokenHomeCaller_IsTeleporterAddressPaused (SessionContract s) (SessionCallOpts s)
     teleporterAddress"

definition TokenHomeCaller_Owner ::
  "'w bound_contract \<Rightarrow> CallOpts \<Rightarrow> ('w, goerr + address) prog" where
  "TokenHomeCaller_Owner c opts =
     call_method c opts ''owner'' [] (out1 go_addr)"

definition TokenHomeSession_Owner ::
  "'w session \<Rightarrow> ('w, goerr + address) prog" where
  "TokenHomeSession_Owner s = TokenHomeCaller_Owner (SessionContract s) (SessionCallOpts s)"

definition TokenHomeTransactor_PauseTeleporterAddress ::
  "'w bound_contract \<Rightarrow> TransactOpts \<Rightarrow> address \<Rightarrow> ('w, goerr + hash) prog" where
  "TokenHomeTransactor_PauseTeleporterAddress c opts teleporterAddress =
     contract_transact c opts ''pauseTeleporterAddress'' [GAddr teleporterAddress]"

definition TokenHomeSession_PauseTeleporterAddress ::
  "'w session \<Rightarrow> address \<Rightarrow> ('w, goerr + hash) prog" where
  "TokenHomeSession_PauseTeleporterAddress s teleporterAddress =
     TokenHomeTransactor_PauseTeleporterAddress (SessionContract s) (SessionTransactOpts s)
     teleporterAddress"

definition TokenHomeTransactor_ReceiveTeleporterMessage ::
  "'w bound_contract \<Rightarrow> TransactOpts \<Rightarrow> hash \<Rightarrow> address \<Rightarrow> bytes \<Rightarrow> ('w, goerr + hash) prog" where
  "TokenHomeTransactor_ReceiveTeleporterMessage c opts sourceBlockchainID originSenderAddress
     message =
     contract_transact c opts ''receiveTeleporterMessage'' [GArr32 sourceBlockchainID, GAddr
        originSenderAddress, GBytes message]"

definition TokenHomeSession_ReceiveTeleporterMessage ::
  "'w session \<Rightarrow> hash \<Rightarrow> address \<Rightarrow> bytes \<Rightarrow> ('w, goerr + hash) prog" where
  "TokenHomeSession_ReceiveTeleporterMessage s sourceBlockchainID originSenderAddress message =
     TokenHomeTransactor_ReceiveTeleporterMessage (SessionContract s) (SessionTransactOpts s)
     sourceBlockchainID originSenderAddress message"

definition TokenHomeTransactor_RenounceOwnership ::
  "'w bound_contract \<Rightarrow> TransactOpts \<Rightarrow> ('w, goerr + hash) prog" where
  "TokenHomeTransactor_RenounceOwnership c opts =
     contract_transact c opts ''renounceOwnership'' []"

definition TokenHomeSession_RenounceOwnership ::
  "'w session \<Rightarrow> ('w, goerr + hash) prog" where
  "TokenHomeSession_RenounceOwnership s = TokenHomeTransactor_RenounceOwnership (SessionContract
     s) (SessionTransactOpts s)"

definition TokenHomeTransactor_TransferOwnership ::
  "'w bound_contract \<Rightarrow> TransactOpts \<Rightarrow> address \<Rightarrow> ('w, goerr + hash) prog" where
  "TokenHomeTransactor_TransferOwnership c opts newOwner =
     contract_transact c opts ''transferOwnership'' [GAddr newOwner]"

definition TokenHomeSession_TransferOwnership ::
  "'w session \<Rightarrow> address \<Rightarrow> ('w, goerr + hash) prog" where
  "TokenHomeSession_TransferOwnership s newOwner = TokenHomeTransactor_TransferOwnership
     (SessionContract s) (SessionTransactOpts s) newOwner"

definition TokenHomeTransactor_UnpauseTeleporterAddress ::
  "'w bound_contract \<Rightarrow> TransactOpts \<Rightarrow> address \<Rightarrow> ('w, goerr + hash) prog" where
  "TokenHomeTransactor_UnpauseTeleporterAddress c opts teleporterAddress =
     contract_transact c opts ''unpauseTeleporterAddress'' [GAddr teleporterAddress]"

definition TokenHomeSession_UnpauseTeleporterAddress ::
  "'w session \<Rightarrow> address \<Rightarrow> ('w, goerr + hash) prog" where
  "TokenHomeSession_UnpauseTeleporterAddress s teleporterAddress =
     TokenHomeTransactor_UnpauseTeleporterAddress (SessionContract s) (SessionTransactOpts s)
     teleporterAddress"

definition TokenHomeTransactor_UpdateMinTeleporterVersion ::
  "'w bound_contract \<Rightarrow> TransactOpts \<Rightarrow> int \<Rightarrow> ('w, goerr + hash) prog" where
  "TokenHomeTransactor_UpdateMinTeleporterVersion c opts version_number =
     contract_transact c opts ''updateMinTeleporterVersion'' [GBig version_number]"

definition TokenHomeSession_UpdateMinTeleporterVersion ::
  "'w session \<Rightarrow> int \<Rightarrow> ('w, goerr + hash) prog" where
  "TokenHomeSession_UpdateMinTeleporterVersion s version_number =
     TokenHomeTransactor_UpdateMinTeleporterVersion (SessionContract s) (SessionTransactOpts s)
     version_number"

section \<open>Events\<close>

definition TokenHomeCallFailed :: event_fields where
  "TokenHomeCallFailed = [(''RecipientContract'', GAddr 0), (''Amount'', GNil), (''Raw'',
     zero_Log)]"

definition TokenHomeCallFailedIterator_Next ::
  "'w bound_contract \<Rightarrow> bool \<Rightarrow> iterator \<Rightarrow> (bool \<times> iterator) option" where
  "TokenHomeCallFailedIterator_Next c pick it = iterator_Next (parse_log c ''CallFailed''
     TokenHomeCallFailed) TokenHomeCallFailed pick it"

definition TokenHomeCallFailedIterator_Error :: "iterator \<Rightarrow> goerr option" where
  "TokenHomeCallFailedIterator_Error it = iterator_Error it"

definition TokenHomeCallFailedIterator_Close :: "iterator \<Rightarrow> goerr option \<times> iterator" where
  "TokenHomeCallFailedIterator_Close it = iterator_Close it"

definition TokenHomeFilterer_FilterCallFailed ::
  "'w bound_contract \<Rightarrow> FilterOpts \<Rightarrow> address list \<Rightarrow> ('w, goerr + iterator) prog" where
  "TokenHomeFilterer_FilterCallFailed c opts recipientContract =
     filter_events c opts ''CallFailed'' [map GAddr recipientContract]"

definition TokenHomeFilterer_WatchCallFailed ::
  "'w bound_contract \<Rightarrow> address list \<Rightarrow> ('w, goerr + (evm_log \<Rightarrow> goerr + event_fields)) prog" where
  "TokenHomeFilterer_WatchCallFailed c recipientContract =
     watch_events c ''CallFailed'' TokenHomeCallFailed [map GAddr recipientContract]"

definition TokenHomeFilterer_ParseCallFailed ::
  "'w bound_contract \<Rightarrow> evm_log \<Rightarrow> goerr + event_fields" where
  "TokenHomeFilterer_ParseCallFailed c = parse_log c ''CallFailed'' TokenHomeCallFailed"

definition TokenHomeCallSucceeded :: event_fields where
  "TokenHomeCallSucceeded = [(''RecipientContract'', GAddr 0), (''Amount'', GNil), (''Raw'',
     zero_Log)]"

definition TokenHomeCallSucceededIterator_Next ::
  "'w bound_contract \<Rightarrow> bool \<Rightarrow> iterator \<Rightarrow> (bool \<times> iterator) option" where
  "TokenHomeCallSucceededIterator_Next c pick it = iterator_Next (parse_log c ''CallSucceeded''
     TokenHomeCallSucceeded) TokenHomeCallSucceeded pick it"

definition TokenHomeCallSucceededIterator_Error :: "iterator \<Rightarrow> goerr option" where
  "TokenHomeCallSucceededIterator_Error it = iterator_Error it"

definition TokenHomeCallSucceededIterator_Close :: "iterator \<Rightarrow> goerr option \<times> iterator" where
  "TokenHomeCallSucceededIterator_Close it = iterator_Close it"

definition TokenHomeFilterer_FilterCallSucceeded ::
  "'w bound_contract \<Rightarrow> FilterOpts \<Rightarrow> address list \<Rightarrow> ('w, goerr + iterator) prog" where
  "TokenHomeFilterer_FilterCallSucceeded c opts recipientContract =
     filter_events c opts ''CallSucceeded'' [map GAddr recipientContract]"

definition TokenHomeFilterer_WatchCallSucceeded ::
  "'w bound_contract \<Rightarrow> address list \<Rightarrow> ('w, goerr + (evm_log \<Rightarrow> goerr + event_fields)) prog" where
  "TokenHomeFilterer_WatchCallSucceeded c recipientContract =
     watch_events c ''CallSucceeded'' TokenHomeCallSucceeded [map GAddr recipientContract]"

definition TokenHomeFilterer_ParseCallSucceeded ::
  "'w bound_contract \<Rightarrow> evm_log \<Rightarrow> goerr + event_fields" where
  "TokenHomeFilterer_ParseCallSucceeded c = parse_log c ''CallSucceeded''
     TokenHomeCallSucceeded"

definition TokenHomeCollateralAdded :: event_fields where
  "TokenHomeCollateralAdded = [(''RemoteBlockchainID'', GArr32 0),
     (''RemoteTokenTransferrerAddress'', GAddr 0), (''Amount'', GNil), (''Remaining'', GNil),
     (''Raw'', zero_Log)]"

definition TokenHomeCollateralAddedIterator_Next ::
  "'w bound_contract \<Rightarrow> bool \<Rightarrow> iterator \<Rightarrow> (bool \<times> iterator) option" where
  "TokenHomeCollateralAddedIterator_Next c pick it = iterator_Next (parse_log c
     ''CollateralAdded'' TokenHomeCollateralAdded) TokenHomeCollateralAdded pick it"

definition TokenHomeCollateralAddedIterator_Error :: "iterator \<Rightarrow> goerr option" where
  "TokenHomeCollateralAddedIterator_Error it = iterator_Error it"

definition TokenHomeCollateralAddedIterator_Close :: "iterator \<Rightarrow> goerr option \<times> iterator" where
  "TokenHomeCollateralAddedIterator_Close it = iterator_Close it"

definition TokenHomeFilterer_FilterCollateralAdded ::
  "'w bound_contract \<Rightarrow> FilterOpts \<Rightarrow> hash list \<Rightarrow> address list \<Rightarrow> ('w, goerr + iterator) prog"
     where
  "TokenHomeFilterer_FilterCollateralAdded c opts remoteBlockchainID
     remoteTokenTransferrerAddress =
     filter_events c opts ''CollateralAdded'' [map GArr32 remoteBlockchainID, map GAddr
        remoteTokenTransferrerAddress]"

definition TokenHomeFilterer_WatchCollateralAdded ::
  "'w bound_contract \<Rightarrow> hash list \<Rightarrow> address list \<Rightarrow> ('w, goerr + (evm_log \<Rightarrow> goerr + event_fields))
     prog" where
  "TokenHomeFilterer_WatchCollateralAdded c remoteBlockchainID remoteTokenTransferrerAddress =
     watch_events c ''CollateralAdded'' TokenHomeCollateralAdded [map GArr32 remoteBlockchainID,
        map GAddr remoteTokenTransferrerAddress]"

definition TokenHomeFilterer_ParseCollateralAdded ::
  "'w bound_contract \<Rightarrow> evm_log \<Rightarrow> goerr + event_fields" where
  "TokenHomeFilterer_ParseCollateralAdded c = parse_log c ''CollateralAdded''
     TokenHomeCollateralAdded"

definition TokenHomeInitialized :: event_fields where
  "TokenHomeInitialized = [(''Version'', GUint 64 0), (''Raw'', zero_Log)]"

definition TokenHomeInitializedIterator_Next ::
  "'w bound_contract \<Rightarrow> bool \<Rightarrow> iterator \<Rightarrow> (bool \<times> iterator) option" where
  "TokenHomeInitializedIterator_Next c pick it = iterator_Next (parse_log c ''Initialized''
     TokenHomeInitialized) TokenHomeInitialized pick it"

definition TokenHomeInitializedIterator_Error :: "iterator \<Rightarrow> goerr option" where
  "TokenHomeInitializedIterator_Error it = iterator_Error it"

definition TokenHomeInitializedIterator_Close :: "iterator \<Rightarrow> goerr option \<times> iterator" where
  "TokenHomeInitializedIterator_Close it = iterator_Close it"

definition TokenHomeFilterer_FilterInitialized ::
  "'w bound_contract \<Rightarrow> FilterOpts \<Rightarrow> ('w, goerr + iterator) prog" where
  "TokenHomeFilterer_FilterInitialized c opts =
     filter_events c opts ''Initialized'' []"

definition TokenHomeFilterer_WatchInitialized ::
  "'w bound_contract \<Rightarrow> ('w, goerr + (evm_log \<Rightarrow> goerr + event_fields)) prog" where
  "TokenHomeFilterer_WatchInitialized c =
     watch_events c ''Initialized'' TokenHomeInitialized []"

definition TokenHomeFilterer_ParseInitialized ::
  "'w bound_contract \<Rightarrow> evm_log \<Rightarrow> goerr + event_fields" where
  "TokenHomeFilterer_ParseInitialized c = parse_log c ''Initialized'' TokenHomeInitialized"

definition TokenHomeMinTeleporterVersionUpdated :: event_fields where
  "TokenHomeMinTeleporterVersionUpdated = [(''OldMinTeleporterVersion'', GNil),
     (''NewMinTeleporterVersion'', GNil), (''Raw'', zero_Log)]"

definition TokenHomeMinTeleporterVersionUpdatedIterator_Next ::
  "'w bound_contract \<Rightarrow> bool \<Rightarrow> iterator \<Rightarrow> (bool \<times> iterator) option" where
  "TokenHomeMinTeleporterVersionUpdatedIterator_Next c pick it = iterator_Next (parse_log c
     ''MinTeleporterVersionUpdated'' TokenHomeMinTeleporterVersionUpdated)
     TokenHomeMinTeleporterVersionUpdated pick it"

definition TokenHomeMinTeleporterVersionUpdatedIterator_Error :: "iterator \<Rightarrow> goerr option" where
  "TokenHomeMinTeleporterVersionUpdatedIterator_Error it = iterator_Error it"

definition TokenHomeMinTeleporterVersionUpdatedIterator_Close :: "iterator \<Rightarrow> goerr option \<times>
   iterator" where
  "TokenHomeMinTeleporterVersionUpdatedIterator_Close it = iterator_Close it"

definition TokenHomeFilterer_FilterMinTeleporterVersionUpdated ::
  "'w bound_contract \<Rightarrow> FilterOpts \<Rightarrow> int list \<Rightarrow> int list \<Rightarrow> ('w, goerr + iterator) prog" where
  "TokenHomeFilterer_FilterMinTeleporterVersionUpdated c opts oldMinTeleporterVersion
     newMinTeleporterVersion =
     filter_events c opts ''MinTeleporterVersionUpdated'' [map GBig oldMinTeleporterVersion, map
        GBig newMinTeleporterVersion]"

definition TokenHomeFilterer_WatchMinTeleporterVersionUpdated ::
  "'w bound_contract \<Rightarrow> int list \<Rightarrow> int list \<Rightarrow> ('w, goerr + (evm_log \<Rightarrow> goerr + event_fields))
     prog" where
  "TokenHomeFilterer_WatchMinTeleporterVersionUpdated c oldMinTeleporterVersion
     newMinTeleporterVersion =
     watch_events c ''MinTeleporterVersionUpdated'' TokenHomeMinTeleporterVersionUpdated [map
        GBig oldMinTeleporterVersion, map GBig newMinTeleporterVersion]"

definition TokenHomeFilterer_ParseMinTeleporterVersionUpdated ::
  "'w bound_contract \<Rightarrow> evm_log \<Rightarrow> goerr + event_fields" where
  "TokenHomeFilterer_ParseMinTeleporterVersionUpdated c = parse_log c
     ''MinTeleporterVersionUpdated'' TokenHomeMinTeleporterVersionUpdated"

definition TokenHomeOwnershipTransferred :: event_fields where
  "TokenHomeOwnershipTransferred = [(''PreviousOwner'', GAddr 0), (''NewOwner'', GAddr 0),
     (''Raw'', zero_Log)]"

definition TokenHomeOwnershipTransferredIterator_Next ::
  "'w bound_contract \<Rightarrow> bool \<Rightarrow> iterator \<Rightarrow> (bool \<times> iterator) option" where
  "TokenHomeOwnershipTransferredIterator_Next c pick it = iterator_Next (parse_log c
     ''OwnershipTransferred'' TokenHomeOwnershipTransferred) TokenHomeOwnershipTransferred pick
     it"

definition TokenHomeOwnershipTransferredIterator_Error :: "iterator \<Rightarrow> goerr option" where
  "TokenHomeOwnershipTransferredIterator_Error it = iterator_Error it"

definition TokenHomeOwnershipTransferredIterator_Close :: "iterator \<Rightarrow> goerr option \<times> iterator"
   where
  "TokenHomeOwnershipTransferredIterator_Close it = iterator_Close it"

definition TokenHomeFilterer_FilterOwnershipTransferred ::
  "'w bound_contract \<Rightarrow> FilterOpts \<Rightarrow> address list \<Rightarrow> address list \<Rightarrow> ('w, goerr + iterator) prog"
     where
  "TokenHomeFilterer_FilterOwnershipTransferred c opts previousOwner newOwner =
     filter_events c opts ''OwnershipTransferred'' [map GAddr previousOwner, map GAddr
        newOwner]"

definition TokenHomeFilterer_WatchOwnershipTransferred ::
  "'w bound_contract \<Rightarrow> address list \<Rightarrow> address list \<Rightarrow> ('w, goerr + (evm_log \<Rightarrow> goerr +
     event_fields)) prog" where
  "TokenHomeFilterer_WatchOwnershipTransferred c previousOwner newOwner =
     watch_events c ''OwnershipTransferred'' TokenHomeOwnershipTransferred [map GAddr
        previousOwner, map GAddr newOwner]"

definition TokenHomeFilterer_ParseOwnershipTransferred ::
  "'w bound_contract \<Rightarrow> evm_log \<Rightarrow> goerr + event_fields" where
  "TokenHomeFilterer_ParseOwnershipTransferred c = parse_log c ''OwnershipTransferred''
     TokenHomeOwnershipTransferred"

definition TokenHomeRemoteRegistered :: event_fields where
  "TokenHomeRemoteRegistered = [(''RemoteBlockchainID'', GArr32 0),
     (''RemoteTokenTransferrerAddress'', GAddr 0), (''InitialCollateralNeeded'', GNil),
     (''TokenDecimals'', GUint 8 0), (''Raw'', zero_Log)]"

definition TokenHomeRemoteRegisteredIterator_Next ::
  "'w bound_contract \<Rightarrow> bool \<Rightarrow> iterator \<Rightarrow> (bool \<times> iterator) option" where
  "TokenHomeRemoteRegisteredIterator_Next c pick it = iterator_Next (parse_log c
     ''RemoteRegistered'' TokenHomeRemoteRegistered) TokenHomeRemoteRegistered pick it"

definition TokenHomeRemoteRegisteredIterator_Error :: "iterator \<Rightarrow> goerr option" where
  "TokenHomeRemoteRegisteredIterator_Error it = iterator_Error it"

definition TokenHomeRemoteRegisteredIterator_Close :: "iterator \<Rightarrow> goerr option \<times> iterator" where
  "TokenHomeRemoteRegisteredIterator_Close it = iterator_Close it"

definition TokenHomeFilterer_FilterRemoteRegistered ::
  "'w bound_contract \<Rightarrow> FilterOpts \<Rightarrow> hash list \<Rightarrow> address list \<Rightarrow> ('w, goerr + iterator) prog"
     where
  "TokenHomeFilterer_FilterRemoteRegistered c opts remoteBlockchainID
     remoteTokenTransferrerAddress =
     filter_events c opts ''RemoteRegistered'' [map GArr32 remoteBlockchainID, map GAddr
        remoteTokenTransferrerAddress]"

definition TokenHomeFilterer_WatchRemoteRegistered ::
  "'w bound_contract \<Rightarrow> hash list \<Rightarrow> address list \<Rightarrow> ('w, goerr + (evm_log \<Rightarrow> goerr + event_fields))
     prog" where
  "TokenHomeFilterer_WatchRemoteRegistered c remoteBlockchainID remoteTokenTransferrerAddress =
     watch_events c ''RemoteRegistered'' TokenHomeRemoteRegistered [map GArr32
        remoteBlockchainID, map GAddr remoteTokenTransferrerAddress]"

definition TokenHomeFilterer_ParseRemoteRegistered ::
  "'w bound_contract \<Rightarrow> evm_log \<Rightarrow> goerr + event_fields" where
  "TokenHomeFilterer_ParseRemoteRegistered c = parse_log c ''RemoteRegistered''
     TokenHomeRemoteRegistered"

definition TokenHomeTeleporterAddressPaused :: event_fields where
  "TokenHomeTeleporterAddressPaused = [(''TeleporterAddress'', GAddr 0), (''Raw'', zero_Log)]"

definition TokenHomeTeleporterAddressPausedIterator_Next ::
  "'w bound_contract \<Rightarrow> bool \<Rightarrow> iterator \<Rightarrow> (bool \<times> iterator) option" where
  "TokenHomeTeleporterAddressPausedIterator_Next c pick it = iterator_Next (parse_log c
     ''TeleporterAddressPaused'' TokenHomeTeleporterAddressPaused)
     TokenHomeTeleporterAddressPaused pick it"

definition TokenHomeTeleporterAddressPausedIterator_Error :: "iterator \<Rightarrow> goerr option" where
  "TokenHomeTeleporterAddressPausedIterator_Error it = iterator_Error it"

definition TokenHomeTeleporterAddressPausedIterator_Close :: "iterator \<Rightarrow> goerr option \<times>
   iterator" where
  "TokenHomeTeleporterAddressPausedIterator_Close it = iterator_Close it"

definition TokenHomeFilterer_FilterTeleporterAddressPaused ::
  "'w bound_contract \<Rightarrow> FilterOpts \<Rightarrow> address list \<Rightarrow> ('w, goerr + iterator) prog" where
  "TokenHomeFilterer_FilterTeleporterAddressPaused c opts teleporterAddress =
     filter_events c opts ''TeleporterAddressPaused'' [map GAddr teleporterAddress]"

definition TokenHomeFilterer_WatchTeleporterAddressPaused ::
  "'w bound_contract \<Rightarrow> address list \<Rightarrow> ('w, goerr + (evm_log \<Rightarrow> goerr + event_fields)) prog" where
  "TokenHomeFilterer_WatchTeleporterAddressPaused c teleporterAddress =
     watch_events c ''TeleporterAddressPaused'' TokenHomeTeleporterAddressPaused [map GAddr
        teleporterAddress]"

definition TokenHomeFilterer_ParseTeleporterAddressPaused ::
  "'w bound_contract \<Rightarrow> evm_log \<Rightarrow> goerr + event_fields" where
  "TokenHomeFilterer_ParseTeleporterAddressPaused c = parse_log c ''TeleporterAddressPaused''
     TokenHomeTeleporterAddressPaused"

definition TokenHomeTeleporterAddressUnpaused :: event_fields where
  "TokenHomeTeleporterAddressUnpaused = [(''TeleporterAddress'', GAddr 0), (''Raw'', zero_Log)]"

definition TokenHomeTeleporterAddressUnpausedIterator_Next ::
  "'w bound_contract \<Rightarrow> bool \<Rightarrow> iterator \<Rightarrow> (bool \<times> iterator) option" where
  "TokenHomeTeleporterAddressUnpausedIterator_Next c pick it = iterator_Next (parse_log c
     ''TeleporterAddressUnpaused'' TokenHomeTeleporterAddressUnpaused)
     TokenHomeTeleporterAddressUnpaused pick it"

definition TokenHomeTeleporterAddressUnpausedIterator_Error :: "iterator \<Rightarrow> goerr option" where
  "TokenHomeTeleporterAddressUnpausedIterator_Error it = iterator_Error it"

definition TokenHomeTeleporterAddressUnpausedIterator_Close :: "iterator \<Rightarrow> goerr option \<times>
   iterator" where
  "TokenHomeTeleporterAddressUnpausedIterator_Close it = iterator_Close it"

definition TokenHomeFilterer_FilterTeleporterAddressUnpaused ::
  "'w bound_contract \<Rightarrow> FilterOpts \<Rightarrow> address list \<Rightarrow> ('w, goerr + iterator) prog" where
  "TokenHomeFilterer_FilterTeleporterAddressUnpaused c opts teleporterAddress =
     filter_events c opts ''TeleporterAddressUnpaused'' [map GAddr teleporterAddress]"

definition TokenHomeFilterer_WatchTeleporterAddressUnpaused ::
  "'w bound_contract \<Rightarrow> address list \<Rightarrow> ('w, goerr + (evm_log \<Rightarrow> goerr + event_fields)) prog" where
  "TokenHomeFilterer_WatchTeleporterAddressUnpaused c teleporterAddress =
     watch_events c ''TeleporterAddressUnpaused'' TokenHomeTeleporterAddressUnpaused [map GAddr
        teleporterAddress]"

definition TokenHomeFilterer_ParseTeleporterAddressUnpaused ::
  "'w bound_contract \<Rightarrow> evm_log \<Rightarrow> goerr + event_fields" where
  "TokenHomeFilterer_ParseTeleporterAddressUnpaused c = parse_log c
     ''TeleporterAddressUnpaused'' TokenHomeTeleporterAddressUnpaused"

definition TokenHomeTokensAndCallRouted :: event_fields where
  "TokenHomeTokensAndCallRouted = [(''TeleporterMessageID'', GArr32 0), (''Input'',
     zero_SendAndCallInput), (''Amount'', GNil), (''Raw'', zero_Log)]"

definition TokenHomeTokensAndCallRoutedIterator_Next ::
  "'w bound_contract \<Rightarrow> bool \<Rightarrow> iterator \<Rightarrow> (bool \<times> iterator) option" where
  "TokenHomeTokensAndCallRoutedIterator_Next c pick it = iterator_Next (parse_log c
     ''TokensAndCallRouted'' TokenHomeTokensAndCallRouted) TokenHomeTokensAndCallRouted pick it"

definition TokenHomeTokensAndCallRoutedIterator_Error :: "iterator \<Rightarrow> goerr option" where
  "TokenHomeTokensAndCallRoutedIterator_Error it = iterator_Error it"

definition TokenHomeTokensAndCallRoutedIterator_Close :: "iterator \<Rightarrow> goerr option \<times> iterator"
   where
  "TokenHomeTokensAndCallRoutedIterator_Close it = iterator_Close it"

definition TokenHomeFilterer_FilterTokensAndCallRouted ::
  "'w bound_contract \<Rightarrow> FilterOpts \<Rightarrow> hash list \<Rightarrow> ('w, goerr + iterator) prog" where
  "TokenHomeFilterer_FilterTokensAndCallRouted c opts teleporterMessageID =
     filter_events c opts ''TokensAndCallRouted'' [map GArr32 teleporterMessageID]"

definition TokenHomeFilterer_WatchTokensAndCallRouted ::
  "'w bound_contract \<Rightarrow> hash list \<Rightarrow> ('w, goerr + (evm_log \<Rightarrow> goerr + event_fields)) prog" where
  "TokenHomeFilterer_WatchTokensAndCallRouted c teleporterMessageID =
     watch_events c ''TokensAndCallRouted'' TokenHomeTokensAndCallRouted [map GArr32
        teleporterMessageID]"

definition TokenHomeFilterer_ParseTokensAndCallRouted ::
  "'w bound_contract \<Rightarrow> evm_log \<Rightarrow> goerr + event_fields" where
  "TokenHomeFilterer_ParseTokensAndCallRouted c = parse_log c ''TokensAndCallRouted''
     TokenHomeTokensAndCallRouted"

definition TokenHomeTokensAndCallSent :: event_fields where
  "TokenHomeTokensAndCallSent = [(''TeleporterMessageID'', GArr32 0), (''Sender'', GAddr 0),
     (''Input'', zero_SendAndCallInput), (''Amount'', GNil), (''Raw'', zero_Log)]"

definition TokenHomeTokensAndCallSentIterator_Next ::
  "'w bound_contract \<Rightarrow> bool \<Rightarrow> iterator \<Rightarrow> (bool \<times> iterator) option" where
  "TokenHomeTokensAndCallSentIterator_Next c pick it = iterator_Next (parse_log c
     ''TokensAndCallSent'' TokenHomeTokensAndCallSent) TokenHomeTokensAndCallSent pick it"

definition TokenHomeTokensAndCallSentIterator_Error :: "iterator \<Rightarrow> goerr option" where
  "TokenHomeTokensAndCallSentIterator_Error it = iterator_Error it"

definition TokenHomeTokensAndCallSentIterator_Close :: "iterator \<Rightarrow> goerr option \<times> iterator"
   where
  "TokenHomeTokensAndCallSentIterator_Close it = iterator_Close it"

definition TokenHomeFilterer_FilterTokensAndCallSent ::
  "'w bound_contract \<Rightarrow> FilterOpts \<Rightarrow> hash list \<Rightarrow> address list \<Rightarrow> ('w, goerr + iterator) prog"
     where
  "TokenHomeFilterer_FilterTokensAndCallSent c opts teleporterMessageID sender =
     filter_events c opts ''TokensAndCallSent'' [map GArr32 teleporterMessageID, map GAddr
        sender]"

definition TokenHomeFilterer_WatchTokensAndCallSent ::
  "'w bound_contract \<Rightarrow> hash list \<Rightarrow> address list \<Rightarrow> ('w, goerr + (evm_log \<Rightarrow> goerr + event_fields))
     prog" where
  "TokenHomeFilterer_WatchTokensAndCallSent c teleporterMessageID sender =
     watch_events c ''TokensAndCallSent'' TokenHomeTokensAndCallSent [map GArr32
        teleporterMessageID, map GAddr sender]"

definition TokenHomeFilterer_ParseTokensAndCallSent ::
  "'w bound_contract \<Rightarrow> evm_log \<Rightarrow> goerr + event_fields" where
  "TokenHomeFilterer_ParseTokensAndCallSent c = parse_log c ''TokensAndCallSent''
     TokenHomeTokensAndCallSent"

definition TokenHomeTokensRouted :: event_fields where
  "TokenHomeTokensRouted = [(''TeleporterMessageID'', GArr32 0), (''Input'',
     zero_SendTokensInput), (''Amount'', GNil), (''Raw'', zero_Log)]"

definition TokenHomeTokensRoutedIterator_Next ::
  "'w bound_contract \<Rightarrow> bool \<Rightarrow> iterator \<Rightarrow> (bool \<times> iterator) option" where
  "TokenHomeTokensRoutedIterator_Next c pick it = iterator_Next (parse_log c ''TokensRouted''
     TokenHomeTokensRouted) TokenHomeTokensRouted pick it"

definition TokenHomeTokensRoutedIterator_Error :: "iterator \<Rightarrow> goerr option" where
  "TokenHomeTokensRoutedIterator_Error it = iterator_Error it"

definition TokenHomeTokensRoutedIterator_Close :: "iterator \<Rightarrow> goerr option \<times> iterator" where
  "TokenHomeTokensRoutedIterator_Close it = iterator_Close it"

definition TokenHomeFilterer_FilterTokensRouted ::
  "'w bound_contract \<Rightarrow> FilterOpts \<Rightarrow> hash list \<Rightarrow> ('w, goerr + iterator) prog" where
  "TokenHomeFilterer_FilterTokensRouted c opts teleporterMessageID =
     filter_events c opts ''TokensRouted'' [map GArr32 teleporterMessageID]"

definition TokenHomeFilterer_WatchTokensRouted ::
  "'w bound_contract \<Rightarrow> hash list \<Rightarrow> ('w, goerr + (evm_log \<Rightarrow> goerr + event_fields)) prog" where
  "TokenHomeFilterer_WatchTokensRouted c teleporterMessageID =
     watch_events c ''TokensRouted'' TokenHomeTokensRouted [map GArr32 teleporterMessageID]"

definition TokenHomeFilterer_ParseTokensRouted ::
  "'w bound_contract \<Rightarrow> evm_log \<Rightarrow> goerr + event_fields" where
  "TokenHomeFilterer_ParseTokensRouted c = parse_log c ''TokensRouted'' TokenHomeTokensRouted"

definition TokenHomeTokensSent :: event_fields where
  "TokenHomeTokensSent = [(''TeleporterMessageID'', GArr32 0), (''Sender'', GAddr 0),
     (''Input'', zero_SendTokensInput), (''Amount'', GNil), (''Raw'', zero_Log)]"

definition TokenHomeTokensSentIterator_Next ::
  "'w bound_contract \<Rightarrow> bool \<Rightarrow> iterator \<Rightarrow> (bool \<times> iterator) option" where
  "TokenHomeTokensSentIterator_Next c pick it = iterator_Next (parse_log c ''TokensSent''
     TokenHomeTokensSent) TokenHomeTokensSent pick it"

definition TokenHomeTokensSentIterator_Error :: "iterator \<Rightarrow> goerr option" where
  "TokenHomeTokensSentIterator_Error it = iterator_Error it"

definition TokenHomeTokensSentIterator_Close :: "iterator \<Rightarrow> goerr option \<times> iterator" where
  "TokenHomeTokensSentIterator_Close it = iterator_Close it"

definition TokenHomeFilterer_FilterTokensSent ::
  "'w bound_contract \<Rightarrow> FilterOpts \<Rightarrow> hash list \<Rightarrow> address list \<Rightarrow> ('w, goerr + iterator) prog"
     where
  "TokenHomeFilterer_FilterTokensSent c opts teleporterMessageID sender =
     filter_events c opts ''TokensSent'' [map GArr32 teleporterMessageID, map GAddr sender]"

definition TokenHomeFilterer_WatchTokensSent ::
  "'w bound_contract \<Rightarrow> hash list \<Rightarrow> address list \<Rightarrow> ('w, goerr + (evm_log \<Rightarrow> goerr + event_fields))
     prog" where
  "TokenHomeFilterer_WatchTokensSent c teleporterMessageID sender =
     watch_events c ''TokensSent'' TokenHomeTokensSent [map GArr32 teleporterMessageID, map
        GAddr sender]"

definition TokenHomeFilterer_ParseTokensSent ::
  "'w bound_contract \<Rightarrow> evm_log \<Rightarrow> goerr + event_fields" where
  "TokenHomeFilterer_ParseTokensSent c = parse_log c ''TokensSent'' TokenHomeTokensSent"

definition TokenHomeTokensWithdrawn :: event_fields where
  "TokenHomeTokensWithdrawn = [(''Recipient'', GAddr 0), (''Amount'', GNil), (''Raw'',
     zero_Log)]"

definition TokenHomeTokensWithdrawnIterator_Next ::
  "'w bound_contract \<Rightarrow> bool \<Rightarrow> iterator \<Rightarrow> (bool \<times> iterator) option" where
  "TokenHomeTokensWithdrawnIterator_Next c pick it = iterator_Next (parse_log c
     ''TokensWithdrawn'' TokenHomeTokensWithdrawn) TokenHomeTokensWithdrawn pick it"

definition TokenHomeTokensWithdrawnIterator_Error :: "iterator \<Rightarrow> goerr option" where
  "TokenHomeTokensWithdrawnIterator_Error it = iterator_Error it"

definition TokenHomeTokensWithdrawnIterator_Close :: "iterator \<Rightarrow> goerr option \<times> iterator" where
  "TokenHomeTokensWithdrawnIterator_Close it = iterator_Close it"

definition TokenHomeFilterer_FilterTokensWithdrawn ::
  "'w bound_contract \<Rightarrow> FilterOpts \<Rightarrow> address list \<Rightarrow> ('w, goerr + iterator) prog" where
  "TokenHomeFilterer_FilterTokensWithdrawn c opts recipient =
     filter_events c opts ''TokensWithdrawn'' [map GAddr recipient]"

definition TokenHomeFilterer_WatchTokensWithdrawn ::
  "'w bound_contract \<Rightarrow> address list \<Rightarrow> ('w, goerr + (evm_log \<Rightarrow> goerr + event_fields)) prog" where
  "TokenHomeFilterer_WatchTokensWithdrawn c recipient =
     watch_events c ''TokensWithdrawn'' TokenHomeTokensWithdrawn [map GAddr recipient]"

definition TokenHomeFilterer_ParseTokensWithdrawn ::
  "'w bound_contract \<Rightarrow> evm_log \<Rightarrow> goerr + event_fields" where
  "TokenHomeFilterer_ParseTokensWithdrawn c = parse_log c ''TokensWithdrawn''
     TokenHomeTokensWithdrawn"

section \<open>Correctness\<close>

lemma TokenHome_methods:
  "map_of (Methods TokenHomeABI) ''TELEPORTER_REGISTRY_APP_STORAGE_LOCATION'' =
     Some ([], [([], TBytes32)])"
  "map_of (Methods TokenHomeABI) ''TOKEN_HOME_STORAGE_LOCATION'' =
     Some ([], [([], TBytes32)])"
  "map_of (Methods TokenHomeABI) ''getBlockchainID'' =
     Some ([], [([], TBytes32)])"
  "map_of (Methods TokenHomeABI) ''getMinTeleporterVersion'' =
     Some ([], [([], TUint 256)])"
  "map_of (Methods TokenHomeABI) ''getRemoteTokenTransferrerSettings'' =
     Some ([(''remoteBlockchainID'', TBytes32), (''remoteTokenTransferrerAddress'', TAddress)],
        [([], RemoteTokenTransferrerSettings_tuple)])"
  "map_of (Methods TokenHomeABI) ''getTokenAddress'' =
     Some ([], [([], TAddress)])"
  "map_of (Methods TokenHomeABI) ''getTransferredBalance'' =
     Some ([(''remoteBlockchainID'', TBytes32), (''remoteTokenTransferrerAddress'', TAddress)],
        [([], TUint 256)])"
  "map_of (Methods TokenHomeABI) ''isTeleporterAddressPaused'' =
     Some ([(''teleporterAddress'', TAddress)], [([], TBool)])"
  "map_of (Methods TokenHomeABI) ''owner'' =
     Some ([], [([], TAddress)])"
  "map_of (Methods TokenHomeABI) ''pauseTeleporterAddress'' =
     Some ([(''teleporterAddress'', TAddress)], [])"
  "map_of (Methods TokenHomeABI) ''receiveTeleporterMessage'' =
     Some ([(''sourceBlockchainID'', TBytes32), (''originSenderAddress'', TAddress),
        (''message'', TBytes)], [])"
  "map_of (Methods TokenHomeABI) ''renounceOwnership'' =
     Some ([], [])"
  "map_of (Methods TokenHomeABI) ''transferOwnership'' =
     Some ([(''newOwner'', TAddress)], [])"
  "map_of (Methods TokenHomeABI) ''unpauseTeleporterAddress'' =
     Some ([(''teleporterAddress'', TAddress)], [])"
  "map_of (Methods TokenHomeABI) ''updateMinTeleporterVersion'' =
     Some ([(''version'', TUint 256)], [])"
  unfolding TokenHomeABI_def contract_abi.select_convs
  by (simp_all only: table_lookup)

lemma TokenHome_decodable:
  "decodable [(''recipientContract'', TAddress, True), (''amount'', TUint 256, False)]
     TokenHomeCallFailed"
  "decodable [(''recipientContract'', TAddress, True), (''amount'', TUint 256, False)]
     TokenHomeCallSucceeded"
  "decodable [(''remoteBlockchainID'', TBytes32, True), (''remoteTokenTransferrerAddress'',
     TAddress, True), (''amount'', TUint 256, False), (''remaining'', TUint 256, False)]
     TokenHomeCollateralAdded"
  "decodable [(''version'', TUint 64, False)]
     TokenHomeInitialized"
  "decodable [(''oldMinTeleporterVersion'', TUint 256, True), (''newMinTeleporterVersion'',
     TUint 256, True)]
     TokenHomeMinTeleporterVersionUpdated"
  "decodable [(''previousOwner'', TAddress, True), (''newOwner'', TAddress, True)]
     TokenHomeOwnershipTransferred"
  "decodable [(''remoteBlockchainID'', TBytes32, True), (''remoteTokenTransferrerAddress'',
     TAddress, True), (''initialCollateralNeeded'', TUint 256, False), (''tokenDecimals'', TUint
     8, False)]
     TokenHomeRemoteRegistered"
  "decodable [(''teleporterAddress'', TAddress, True)]
     TokenHomeTeleporterAddressPaused"
  "decodable [(''teleporterAddress'', TAddress, True)]
     TokenHomeTeleporterAddressUnpaused"
  "decodable [(''teleporterMessageID'', TBytes32, True), (''input'', SendAndCallInput_tuple,
     False), (''amount'', TUint 256, False)]
     TokenHomeTokensAndCallRouted"
  "decodable [(''teleporterMessageID'', TBytes32, True), (''sender'', TAddress, True),
     (''input'', SendAndCallInput_tuple, False), (''amount'', TUint 256, False)]
     TokenHomeTokensAndCallSent"
  "decodable [(''teleporterMessageID'', TBytes32, True), (''input'', SendTokensInput_tuple,
     False), (''amount'', TUint 256, False)]
     TokenHomeTokensRouted"
  "decodable [(''teleporterMessageID'', TBytes32, True), (''sender'', TAddress, True),
     (''input'', SendTokensInput_tuple, False), (''amount'', TUint 256, False)]
     TokenHomeTokensSent"
  "decodable [(''recipient'', TAddress, True), (''amount'', TUint 256, False)]
     TokenHomeTokensWithdrawn"
  by (simp_all add: decodable_def has_fields_def fits_def TokenHomeCallFailed_def
     TokenHomeCallSucceeded_def TokenHomeCollateralAdded_def TokenHomeInitialized_def
     TokenHomeMinTeleporterVersionUpdated_def TokenHomeOwnershipTransferred_def
     TokenHomeRemoteRegistered_def TokenHomeTeleporterAddressPaused_def
     TokenHomeTeleporterAddressUnpaused_def TokenHomeTokensAndCallRouted_def
     TokenHomeTokensAndCallSent_def TokenHomeTokensRouted_def TokenHomeTokensSent_def
     TokenHomeTokensWithdrawn_def SendAndCallInput_tuple_def SendTokensInput_tuple_def)

lemma TokenHome_events:
  "map_of (Events TokenHomeABI) ''CallFailed'' =
     Some [(''recipientContract'', TAddress, True), (''amount'', TUint 256, False)]"
  "map_of (Events TokenHomeABI) ''CallSucceeded'' =
     Some [(''recipientContract'', TAddress, True), (''amount'', TUint 256, False)]"
  "map_of (Events TokenHomeABI) ''CollateralAdded'' =
     Some [(''remoteBlockchainID'', TBytes32, True), (''remoteTokenTransferrerAddress'',
        TAddress, True), (''amount'', TUint 256, False), (''remaining'', TUint 256, False)]"
  "map_of (Events TokenHomeABI) ''Initialized'' =
     Some [(''version'', TUint 64, False)]"
  "map_of (Events TokenHomeABI) ''MinTeleporterVersionUpdated'' =
     Some [(''oldMinTeleporterVersion'', TUint 256, True), (''newMinTeleporterVersion'', TUint
        256, True)]"
  "map_of (Events TokenHomeABI) ''OwnershipTransferred'' =
     Some [(''previousOwner'', TAddress, True), (''newOwner'', TAddress, True)]"
  "map_of (Events TokenHomeABI) ''RemoteRegistered'' =
     Some [(''remoteBlockchainID'', TBytes32, True), (''remoteTokenTransferrerAddress'',
        TAddress, True), (''initialCollateralNeeded'', TUint 256, False), (''tokenDecimals'',
        TUint 8, False)]"
  "map_of (Events TokenHomeABI) ''TeleporterAddressPaused'' =
     Some [(''teleporterAddress'', TAddress, True)]"
  "map_of (Events TokenHomeABI) ''TeleporterAddressUnpaused'' =
     Some [(''teleporterAddress'', TAddress, True)]"
  "map_of (Events TokenHomeABI) ''TokensAndCallRouted'' =
     Some [(''teleporterMessageID'', TBytes32, True), (''input'', SendAndCallInput_tuple,
        False), (''amount'', TUint 256, False)]"
  "map_of (Events TokenHomeABI) ''TokensAndCallSent'' =
     Some [(''teleporterMessageID'', TBytes32, True), (''sender'', TAddress, True), (''input'',
        SendAndCallInput_tuple, False), (''amount'', TUint 256, False)]"
  "map_of (Events TokenHomeABI) ''TokensRouted'' =
     Some [(''teleporterMessageID'', TBytes32, True), (''input'', SendTokensInput_tuple, False),
        (''amount'', TUint 256, False)]"
  "map_of (Events TokenHomeABI) ''TokensSent'' =
     Some [(''teleporterMessageID'', TBytes32, True), (''sender'', TAddress, True), (''input'',
        SendTokensInput_tuple, False), (''amount'', TUint 256, False)]"
  "map_of (Events TokenHomeABI) ''TokensWithdrawn'' =
     Some [(''recipient'', TAddress, True), (''amount'', TUint 256, False)]"
  unfolding TokenHomeABI_def contract_abi.select_convs
  by (simp_all only: table_lookup)

lemma TokenHome_transactions_decode:
  assumes "codec_methods k" and "codec_roundtrip k" and "bound_spec k TokenHomeABI be c"
  shows "(\<forall>teleporterAddress. sends_call k TokenHomeABI be opts ''pauseTeleporterAddress''
     [GAddr teleporterAddress]
       (TokenHomeTransactor_PauseTeleporterAddress c opts teleporterAddress)) \<and>
     (\<forall>sourceBlockchainID originSenderAddress message. sends_call k TokenHomeABI be opts
        ''receiveTeleporterMessage'' [GArr32 sourceBlockchainID, GAddr originSenderAddress,
        GBytes message]
       (TokenHomeTransactor_ReceiveTeleporterMessage c opts sourceBlockchainID
          originSenderAddress message)) \<and>
     sends_call k TokenHomeABI be opts ''renounceOwnership'' []
       (TokenHomeTransactor_RenounceOwnership c opts) \<and>
     (\<forall>newOwner. sends_call k TokenHomeABI be opts ''transferOwnership'' [GAddr newOwner]
       (TokenHomeTransactor_TransferOwnership c opts newOwner)) \<and>
     (\<forall>teleporterAddress. sends_call k TokenHomeABI be opts ''unpauseTeleporterAddress'' [GAddr
        teleporterAddress]
       (TokenHomeTransactor_UnpauseTeleporterAddress c opts teleporterAddress)) \<and>
     (\<forall>version_number. in_uint256 version_number \<longrightarrow> sends_call k TokenHomeABI be opts
        ''updateMinTeleporterVersion'' [GBig version_number]
       (TokenHomeTransactor_UpdateMinTeleporterVersion c opts version_number))"
  unfolding TokenHomeTransactor_PauseTeleporterAddress_def
     TokenHomeTransactor_ReceiveTeleporterMessage_def TokenHomeTransactor_RenounceOwnership_def
     TokenHomeTransactor_TransferOwnership_def TokenHomeTransactor_UnpauseTeleporterAddress_def
     TokenHomeTransactor_UpdateMinTeleporterVersion_def
  by ((intro conjI allI impI)?; rule transact_sends [OF assms], rule TokenHome_methods)
    (simp_all del: matches.simps(1))

lemma TokenHome_calls_return_outputs:
  assumes "codec_methods k" and "codec_roundtrip k" and "bound_spec k TokenHomeABI be c"
  shows "(\<forall>r0. reads_call k TokenHomeABI be opts ''TELEPORTER_REGISTRY_APP_STORAGE_LOCATION'' []
       [GArr32 r0] r0 (TokenHomeCaller_TELEPORTERREGISTRYAPPSTORAGELOCATION c opts)) \<and>
     (\<forall>r0. reads_call k TokenHomeABI be opts ''TOKEN_HOME_STORAGE_LOCATION'' []
       [GArr32 r0] r0 (TokenHomeCaller_TOKENHOMESTORAGELOCATION c opts)) \<and>
     (\<forall>r0. reads_call k TokenHomeABI be opts ''getBlockchainID'' []
       [GArr32 r0] r0 (TokenHomeCaller_GetBlockchainID c opts)) \<and>
     (\<forall>r0. in_uint256 r0 \<longrightarrow> reads_call k TokenHomeABI be opts ''getMinTeleporterVersion'' []
       [GBig r0] r0 (TokenHomeCaller_GetMinTeleporterVersion c opts)) \<and>
     (\<forall>remoteBlockchainID remoteTokenTransferrerAddress r0. RemoteTokenTransferrerSettings_ok r0
        \<longrightarrow> reads_call k TokenHomeABI be opts ''getRemoteTokenTransferrerSettings'' [GArr32
        remoteBlockchainID, GAddr remoteTokenTransferrerAddress]
       [RemoteTokenTransferrerSettings_val r0] r0
          (TokenHomeCaller_GetRemoteTokenTransferrerSettings c opts remoteBlockchainID
          remoteTokenTransferrerAddress)) \<and>
     (\<forall>r0. reads_call k TokenHomeABI be opts ''getTokenAddress'' []
       [GAddr r0] r0 (TokenHomeCaller_GetTokenAddress c opts)) \<and>
     (\<forall>remoteBlockchainID remoteTokenTransferrerAddress r0. in_uint256 r0 \<longrightarrow> reads_call k
        TokenHomeABI be opts ''getTransferredBalance'' [GArr32 remoteBlockchainID, GAddr
        remoteTokenTransferrerAddress]
       [GBig r0] r0 (TokenHomeCaller_GetTransferredBalance c opts remoteBlockchainID
          remoteTokenTransferrerAddress)) \<and>
     (\<forall>teleporterAddress r0. reads_call k TokenHomeABI be opts ''isTeleporterAddressPaused''
        [GAddr teleporterAddress]
       [GBool r0] r0 (TokenHomeCaller_IsTeleporterAddressPaused c opts teleporterAddress)) \<and>
     (\<forall>r0. reads_call k TokenHomeABI be opts ''owner'' []
       [GAddr r0] r0 (TokenHomeCaller_Owner c opts))"
  unfolding TokenHomeCaller_TELEPORTERREGISTRYAPPSTORAGELOCATION_def
     TokenHomeCaller_TOKENHOMESTORAGELOCATION_def TokenHomeCaller_GetBlockchainID_def
     TokenHomeCaller_GetMinTeleporterVersion_def
     TokenHomeCaller_GetRemoteTokenTransferrerSettings_def TokenHomeCaller_GetTokenAddress_def
     TokenHomeCaller_GetTransferredBalance_def TokenHomeCaller_IsTeleporterAddressPaused_def
     TokenHomeCaller_Owner_def
  by ((intro conjI allI impI)?; rule call_reads [OF assms], rule TokenHome_methods)
    (simp_all del: matches.simps(1))

lemma TokenHome_parsers_decode:
  assumes "codec_events k" and "event_ids k TokenHomeABI" and "bound_spec k TokenHomeABI be c"
  shows "parser_decodes k TokenHomeABI ''CallFailed'' (TokenHomeFilterer_ParseCallFailed c) \<and>
     parser_decodes k TokenHomeABI ''CallSucceeded'' (TokenHomeFilterer_ParseCallSucceeded c) \<and>
     parser_decodes k TokenHomeABI ''CollateralAdded'' (TokenHomeFilterer_ParseCollateralAdded
        c) \<and>
     parser_decodes k TokenHomeABI ''Initialized'' (TokenHomeFilterer_ParseInitialized c) \<and>
     parser_decodes k TokenHomeABI ''MinTeleporterVersionUpdated''
        (TokenHomeFilterer_ParseMinTeleporterVersionUpdated c) \<and>
     parser_decodes k TokenHomeABI ''OwnershipTransferred''
        (TokenHomeFilterer_ParseOwnershipTransferred c) \<and>
     parser_decodes k TokenHomeABI ''RemoteRegistered'' (TokenHomeFilterer_ParseRemoteRegistered
        c) \<and>
     parser_decodes k TokenHomeABI ''TeleporterAddressPaused''
        (TokenHomeFilterer_ParseTeleporterAddressPaused c) \<and>
     parser_decodes k TokenHomeABI ''TeleporterAddressUnpaused''
        (TokenHomeFilterer_ParseTeleporterAddressUnpaused c) \<and>
     parser_decodes k TokenHomeABI ''TokensAndCallRouted''
        (TokenHomeFilterer_ParseTokensAndCallRouted c) \<and>
     parser_decodes k TokenHomeABI ''TokensAndCallSent''
        (TokenHomeFilterer_ParseTokensAndCallSent c) \<and>
     parser_decodes k TokenHomeABI ''TokensRouted'' (TokenHomeFilterer_ParseTokensRouted c) \<and>
     parser_decodes k TokenHomeABI ''TokensSent'' (TokenHomeFilterer_ParseTokensSent c) \<and>
     parser_decodes k TokenHomeABI ''TokensWithdrawn'' (TokenHomeFilterer_ParseTokensWithdrawn
        c)"
proof -
  note parses = parse_log_decodes [OF assms]
  show ?thesis
    unfolding TokenHomeFilterer_ParseCallFailed_def TokenHomeFilterer_ParseCallSucceeded_def
       TokenHomeFilterer_ParseCollateralAdded_def TokenHomeFilterer_ParseInitialized_def
       TokenHomeFilterer_ParseMinTeleporterVersionUpdated_def
       TokenHomeFilterer_ParseOwnershipTransferred_def
       TokenHomeFilterer_ParseRemoteRegistered_def
       TokenHomeFilterer_ParseTeleporterAddressPaused_def
       TokenHomeFilterer_ParseTeleporterAddressUnpaused_def
       TokenHomeFilterer_ParseTokensAndCallRouted_def
       TokenHomeFilterer_ParseTokensAndCallSent_def TokenHomeFilterer_ParseTokensRouted_def
       TokenHomeFilterer_ParseTokensSent_def TokenHomeFilterer_ParseTokensWithdrawn_def
    by ((intro conjI)?; rule parses, rule TokenHome_events, rule TokenHome_decodable)
qed

end
