(* ===== verification/ERC20TokenHomeUpgradeableBinding.thy ===== *)
theory ERC20TokenHomeUpgradeableBinding
  imports IcttStructs AbiRef
begin

text \<open>
  The generated binding \<open>abi-bindings/go/ictt/TokenHome/ERC20TokenHomeUpgradeable/ERC20TokenHomeUpgradeable.go\<close> over the generic
  definitions of theory \<open>Binding\<close>: its ABI, every method with its session wrappers, every event with
  its iterator, filter, watch and parser. The bytecode is a parameter of deployment; the aliases
  \<open>Raw\<close> of the untyped calls are not modelled.
\<close>

section \<open>The contract's ABI (ERC20TokenHomeUpgradeableMetaData)\<close>

definition ERC20TokenHomeUpgradeableABI :: contract_abi where
  "ERC20TokenHomeUpgradeableABI = \<lparr>
      Methods = [
        (''ERC20_TOKEN_HOME_STORAGE_LOCATION'', [],
           [('''', TBytes32)]),
        (''TELEPORTER_REGISTRY_APP_STORAGE_LOCATION'', [],
           [('''', TBytes32)]),
        (''TOKEN_HOME_STORAGE_LOCATION'', [],
           [('''', TBytes32)]),
        (''addCollateral'', [(''remoteBlockchainID'', TBytes32),
           (''remoteTokenTransferrerAddress'', TAddress), (''amount'', TUint 256)],
           []),
        (''getBlockchainID'', [],
           [('''', TBytes32)]),
        (''getMinTeleporterVersion'', [],
           [('''', TUint 256)]),
        (''getRemoteTokenTransferrerSettings'', [(''remoteBlockchainID'', TBytes32),
           (''remoteTokenTransferrerAddress'', TAddress)],
           [('''', RemoteTokenTransferrerSettings_tuple)]),
        (''getTokenAddress'', [],
           [('''', TAddress)]),
        (''getTransferredBalance'', [(''remoteBlockchainID'', TBytes32),
           (''remoteTokenTransferrerAddress'', TAddress)],
           [('''', TUint 256)]),
        (''initialize'', [(''teleporterRegistryAddress'', TAddress), (''teleporterManager'',
           TAddress), (''minTeleporterVersion'', TUint 256), (''tokenAddress'', TAddress),
           (''tokenDecimals'', TUint 8)],
           []),
        (''isTeleporterAddressPaused'', [(''teleporterAddress'', TAddress)],
           [('''', TBool)]),
        (''owner'', [],
           [('''', TAddress)]),
        (''pauseTeleporterAddress'', [(''teleporterAddress'', TAddress)],
           []),
        (''receiveTeleporterMessage'', [(''sourceBlockchainID'', TBytes32),
           (''originSenderAddress'', TAddress), (''message'', TBytes)],
           []),
        (''renounceOwnership'', [],
           []),
        (''send'', [(''input'', SendTokensInput_tuple), (''amount'', TUint 256)],
           []),
        (''sendAndCall'', [(''input'', SendAndCallInput_tuple), (''amount'', TUint 256)],
           []),
        (''transferOwnership'', [(''newOwner'', TAddress)],
           []),
        (''unpauseTeleporterAddress'', [(''teleporterAddress'', TAddress)],
           []),
        (''updateMinTeleporterVersion'', [(''version'', TUint 256)],
           [])],
      Events = [
        (''CallFailed'', [(''recipientContract'', TAddress, True), (''amount'', TUint 256,
           False)]),
        (''CallSucceeded'', [(''recipientContract'', TAddress, True), (''amount'', TUint 256,
           False)]),
        (''CollateralAdded'', [(''remoteBlockchainID'', TBytes32, True),
           (''remoteTokenTransferrerAddress'', TAddress, True), (''amount'', TUint 256, False),
           (''remaining'', TUint 256, False)]),
        (''Initialized'', [(''version'', TUint 64, False)]),
        (''MinTeleporterVersionUpdated'', [(''oldMinTeleporterVersion'', TUint 256, True),
           (''newMinTeleporterVersion'', TUint 256, True)]),
        (''OwnershipTransferred'', [(''previousOwner'', TAddress, True), (''newOwner'',
           TAddress, True)]),
        (''RemoteRegistered'', [(''remoteBlockchainID'', TBytes32, True),
           (''remoteTokenTransferrerAddress'', TAddress, True), (''initialCollateralNeeded'',
           TUint 256, False), (''tokenDecimals'', TUint 8, False)]),
        (''TeleporterAddressPaused'', [(''teleporterAddress'', TAddress, True)]),
        (''TeleporterAddressUnpaused'', [(''teleporterAddress'', TAddress, True)]),
        (''TokensAndCallRouted'', [(''teleporterMessageID'', TBytes32, True), (''input'',
           SendAndCallInput_tuple, False), (''amount'', TUint 256, False)]),
        (''TokensAndCallSent'', [(''teleporterMessageID'', TBytes32, True), (''sender'',
           TAddress, True), (''input'', SendAndCallInput_tuple, False), (''amount'', TUint 256,
           False)]),
        (''TokensRouted'', [(''teleporterMessageID'', TBytes32, True), (''input'',
           SendTokensInput_tuple, False), (''amount'', TUint 256, False)]),
        (''TokensSent'', [(''teleporterMessageID'', TBytes32, True), (''sender'', TAddress,
           True), (''input'', SendTokensInput_tuple, False), (''amount'', TUint 256, False)]),
        (''TokensWithdrawn'', [(''recipient'', TAddress, True), (''amount'', TUint 256,
           False)])]\<rparr>"

section \<open>Binding and deployment\<close>

definition bindERC20TokenHomeUpgradeable :: "'w bind_lib \<Rightarrow> address \<Rightarrow> goerr + 'w bound_contract"
   where
  "bindERC20TokenHomeUpgradeable lib addr = bind_contract lib ERC20TokenHomeUpgradeableABI addr"

definition NewERC20TokenHomeUpgradeable :: "'w bind_lib \<Rightarrow> address \<Rightarrow> goerr + 'w bound_contract"
   where
  "NewERC20TokenHomeUpgradeable lib addr = bindERC20TokenHomeUpgradeable lib addr"

definition DeployERC20TokenHomeUpgradeable ::
  "'w bind_lib \<Rightarrow> string \<Rightarrow> TransactOpts \<Rightarrow> u8 \<Rightarrow> 
   ('w, goerr + address \<times> hash \<times> 'w bound_contract) prog" where
  "DeployERC20TokenHomeUpgradeable lib bin auth init_mode = deploy_contract lib auth
     ERC20TokenHomeUpgradeableABI bin [GUint 8 (unat init_mode)]"

section \<open>Methods\<close>

definition ERC20TokenHomeUpgradeableCaller_ERC20TOKENHOMESTORAGELOCATION ::
  "'w bound_contract \<Rightarrow> CallOpts \<Rightarrow> ('w, goerr + hash) prog" where
  "ERC20TokenHomeUpgradeableCaller_ERC20TOKENHOMESTORAGELOCATION c opts =
     call_method c opts ''ERC20_TOKEN_HOME_STORAGE_LOCATION'' [] (out1 go_arr32)"

definition ERC20TokenHomeUpgradeableSession_ERC20TOKENHOMESTORAGELOCATION ::
  "'w session \<Rightarrow> ('w, goerr + hash) prog" where
  "ERC20TokenHomeUpgradeableSession_ERC20TOKENHOMESTORAGELOCATION s =
     ERC20TokenHomeUpgradeableCaller_ERC20TOKENHOMESTORAGELOCATION (SessionContract s)
     (SessionCallOpts s)"

definition ERC20TokenHomeUpgradeableCaller_TELEPORTERREGISTRYAPPSTORAGELOCATION ::
  "'w bound_contract \<Rightarrow> CallOpts \<Rightarrow> ('w, goerr + hash) prog" where
  "ERC20TokenHomeUpgradeableCaller_TELEPORTERREGISTRYAPPSTORAGELOCATION c opts =
     call_method c opts ''TELEPORTER_REGISTRY_APP_STORAGE_LOCATION'' [] (out1 go_arr32)"

definition ERC20TokenHomeUpgradeableSession_TELEPORTERREGISTRYAPPSTORAGELOCATION ::
  "'w session \<Rightarrow> ('w, goerr + hash) prog" where
  "ERC20TokenHomeUpgradeableSession_TELEPORTERREGISTRYAPPSTORAGELOCATION s =
     ERC20TokenHomeUpgradeableCaller_TELEPORTERREGISTRYAPPSTORAGELOCATION (SessionContract s)
     (SessionCallOpts s)"

definition ERC20TokenHomeUpgradeableCaller_TOKENHOMESTORAGELOCATION ::
  "'w bound_contract \<Rightarrow> CallOpts \<Rightarrow> ('w, goerr + hash) prog" where
  "ERC20TokenHomeUpgradeableCaller_TOKENHOMESTORAGELOCATION c opts =
     call_method c opts ''TOKEN_HOME_STORAGE_LOCATION'' [] (out1 go_arr32)"

definition ERC20TokenHomeUpgradeableSession_TOKENHOMESTORAGELOCATION ::
  "'w session \<Rightarrow> ('w, goerr + hash) prog" where
  "ERC20TokenHomeUpgradeableSession_TOKENHOMESTORAGELOCATION s =
     ERC20TokenHomeUpgradeableCaller_TOKENHOMESTORAGELOCATION (SessionContract s)
     (SessionCallOpts s)"

definition ERC20TokenHomeUpgradeableTransactor_AddCollateral ::
  "'w bound_contract \<Rightarrow> TransactOpts \<Rightarrow> hash \<Rightarrow> address \<Rightarrow> int \<Rightarrow> ('w, goerr + hash) prog" where
  "ERC20TokenHomeUpgradeableTransactor_AddCollateral c opts remoteBlockchainID
     remoteTokenTransferrerAddress amount =
     contract_transact c opts ''addCollateral'' [GArr32 remoteBlockchainID, GAddr
        remoteTokenTransferrerAddress, GBig amount]"

definition ERC20TokenHomeUpgradeableSession_AddCollateral ::
  "'w session \<Rightarrow> hash \<Rightarrow> address \<Rightarrow> int \<Rightarrow> ('w, goerr + hash) prog" where
  "ERC20TokenHomeUpgradeableSession_AddCollateral s remoteBlockchainID
     remoteTokenTransferrerAddress amount = ERC20TokenHomeUpgradeableTransactor_AddCollateral
     (SessionContract s) (SessionTransactOpts s) remoteBlockchainID
     remoteTokenTransferrerAddress amount"

definition ERC20TokenHomeUpgradeableCaller_GetBlockchainID ::
  "'w bound_contract \<Rightarrow> CallOpts \<Rightarrow> ('w, goerr + hash) prog" where
  "ERC20TokenHomeUpgradeableCaller_GetBlockchainID c opts =
     call_method c opts ''getBlockchainID'' [] (out1 go_arr32)"

definition ERC20TokenHomeUpgradeableSession_GetBlockchainID ::
  "'w session \<Rightarrow> ('w, goerr + hash) prog" where
  "ERC20TokenHomeUpgradeableSession_GetBlockchainID s =
     ERC20TokenHomeUpgradeableCaller_GetBlockchainID (SessionContract s) (SessionCallOpts s)"

definition ERC20TokenHomeUpgradeableCaller_GetMinTeleporterVersion ::
  "'w bound_contract \<Rightarrow> CallOpts \<Rightarrow> ('w, goerr + int) prog" where
  "ERC20TokenHomeUpgradeableCaller_GetMinTeleporterVersion c opts =
     call_method c opts ''getMinTeleporterVersion'' [] (out1 go_big)"

definition ERC20TokenHomeUpgradeableSession_GetMinTeleporterVersion ::
  "'w session \<Rightarrow> ('w, goerr + int) prog" where
  "ERC20TokenHomeUpgradeableSession_GetMinTeleporterVersion s =
     ERC20TokenHomeUpgradeableCaller_GetMinTeleporterVersion (SessionContract s)
     (SessionCallOpts s)"

definition ERC20TokenHomeUpgradeableCaller_GetRemoteTokenTransferrerSettings ::
  "'w bound_contract \<Rightarrow> CallOpts \<Rightarrow> hash \<Rightarrow> address \<Rightarrow> ('w, goerr + RemoteTokenTransferrerSettings)
     prog" where
  "ERC20TokenHomeUpgradeableCaller_GetRemoteTokenTransferrerSettings c opts remoteBlockchainID
     remoteTokenTransferrerAddress =
     call_method c opts ''getRemoteTokenTransferrerSettings'' [GArr32 remoteBlockchainID, GAddr
        remoteTokenTransferrerAddress] (out1 RemoteTokenTransferrerSettings_of)"

definition ERC20TokenHomeUpgradeableSession_GetRemoteTokenTransferrerSettings ::
  "'w session \<Rightarrow> hash \<Rightarrow> address \<Rightarrow> ('w, goerr + RemoteTokenTransferrerSettings) prog" where
  "ERC20TokenHomeUpgradeableSession_GetRemoteTokenTransferrerSettings s remoteBlockchainID
     remoteTokenTransferrerAddress =
     ERC20TokenHomeUpgradeableCaller_GetRemoteTokenTransferrerSettings (SessionContract s)
     (SessionCallOpts s) remoteBlockchainID remoteTokenTransferrerAddress"

definition ERC20TokenHomeUpgradeableCaller_GetTokenAddress ::
  "'w bound_contract \<Rightarrow> CallOpts \<Rightarrow> ('w, goerr + address) prog" where
  "ERC20TokenHomeUpgradeableCaller_GetTokenAddress c opts =
     call_method c opts ''getTokenAddress'' [] (out1 go_addr)"

definition ERC20TokenHomeUpgradeableSession_GetTokenAddress ::
  "'w session \<Rightarrow> ('w, goerr + address) prog" where
  "ERC20TokenHomeUpgradeableSession_GetTokenAddress s =
     ERC20TokenHomeUpgradeableCaller_GetTokenAddress (SessionContract s) (SessionCallOpts s)"

definition ERC20TokenHomeUpgradeableCaller_GetTransferredBalance ::
  "'w bound_contract \<Rightarrow> CallOpts \<Rightarrow> hash \<Rightarrow> address \<Rightarrow> ('w, goerr + int) prog" where
  "ERC20TokenHomeUpgradeableCaller_GetTransferredBalance c opts remoteBlockchainID
     remoteTokenTransferrerAddress =
     call_method c opts ''getTransferredBalance'' [GArr32 remoteBlockchainID, GAddr
        remoteTokenTransferrerAddress] (out1 go_big)"

definition ERC20TokenHomeUpgradeableSession_GetTransferredBalance ::
  "'w session \<Rightarrow> hash \<Rightarrow> address \<Rightarrow> ('w, goerr + int) prog" where
  "ERC20TokenHomeUpgradeableSession_GetTransferredBalance s remoteBlockchainID
     remoteTokenTransferrerAddress = ERC20TokenHomeUpgradeableCaller_GetTransferredBalance
     (SessionContract s) (SessionCallOpts s) remoteBlockchainID remoteTokenTransferrerAddress"

definition ERC20TokenHomeUpgradeableTransactor_Initialize ::
  "'w bound_contract \<Rightarrow> TransactOpts \<Rightarrow> address \<Rightarrow> address \<Rightarrow> int \<Rightarrow> address \<Rightarrow> u8 \<Rightarrow> ('w, goerr +
     hash) prog" where
  "ERC20TokenHomeUpgradeableTransactor_Initialize c opts teleporterRegistryAddress
     teleporterManager minTeleporterVersion tokenAddress tokenDecimals =
     contract_transact c opts ''initialize'' [GAddr teleporterRegistryAddress, GAddr
        teleporterManager, GBig minTeleporterVersion, GAddr tokenAddress, GUint 8 (unat
        tokenDecimals)]"

definition ERC20TokenHomeUpgradeableSession_Initialize ::
  "'w session \<Rightarrow> address \<Rightarrow> address \<Rightarrow> int \<Rightarrow> address \<Rightarrow> u8 \<Rightarrow> ('w, goerr + hash) prog" where
  "ERC20TokenHomeUpgradeableSession_Initialize s teleporterRegistryAddress teleporterManager
     minTeleporterVersion tokenAddress tokenDecimals =
     ERC20TokenHomeUpgradeableTransactor_Initialize (SessionContract s) (SessionTransactOpts s)
     teleporterRegistryAddress teleporterManager minTeleporterVersion tokenAddress
     tokenDecimals"

definition ERC20TokenHomeUpgradeableCaller_IsTeleporterAddressPaused ::
  "'w bound_contract \<Rightarrow> CallOpts \<Rightarrow> address \<Rightarrow> ('w, goerr + bool) prog" where
  "ERC20TokenHomeUpgradeableCaller_IsTeleporterAddressPaused c opts teleporterAddress =
     call_method c opts ''isTeleporterAddressPaused'' [GAddr teleporterAddress] (out1 go_bool)"

definition ERC20TokenHomeUpgradeableSession_IsTeleporterAddressPaused ::
  "'w session \<Rightarrow> address \<Rightarrow> ('w, goerr + bool) prog" where
  "ERC20TokenHomeUpgradeableSession_IsTeleporterAddressPaused s teleporterAddress =
     ERC20TokenHomeUpgradeableCaller_IsTeleporterAddressPaused (SessionContract s)
     (SessionCallOpts s) teleporterAddress"

definition ERC20TokenHomeUpgradeableCaller_Owner ::
  "'w bound_contract \<Rightarrow> CallOpts \<Rightarrow> ('w, goerr + address) prog" where
  "ERC20TokenHomeUpgradeableCaller_Owner c opts =
     call_method c opts ''owner'' [] (out1 go_addr)"

definition ERC20TokenHomeUpgradeableSession_Owner ::
  "'w session \<Rightarrow> ('w, goerr + address) prog" where
  "ERC20TokenHomeUpgradeableSession_Owner s = ERC20TokenHomeUpgradeableCaller_Owner
     (SessionContract s) (SessionCallOpts s)"

definition ERC20TokenHomeUpgradeableTransactor_PauseTeleporterAddress ::
  "'w bound_contract \<Rightarrow> TransactOpts \<Rightarrow> address \<Rightarrow> ('w, goerr + hash) prog" where
  "ERC20TokenHomeUpgradeableTransactor_PauseTeleporterAddress c opts teleporterAddress =
     contract_transact c opts ''pauseTeleporterAddress'' [GAddr teleporterAddress]"

definition ERC20TokenHomeUpgradeableSession_PauseTeleporterAddress ::
  "'w session \<Rightarrow> address \<Rightarrow> ('w, goerr + hash) prog" where
  "ERC20TokenHomeUpgradeableSession_PauseTeleporterAddress s teleporterAddress =
     ERC20TokenHomeUpgradeableTransactor_PauseTeleporterAddress (SessionContract s)
     (SessionTransactOpts s) teleporterAddress"

definition ERC20TokenHomeUpgradeableTransactor_ReceiveTeleporterMessage ::
  "'w bound_contract \<Rightarrow> TransactOpts \<Rightarrow> hash \<Rightarrow> address \<Rightarrow> bytes \<Rightarrow> ('w, goerr + hash) prog" where
  "ERC20TokenHomeUpgradeableTransactor_ReceiveTeleporterMessage c opts sourceBlockchainID
     originSenderAddress message =
     contract_transact c opts ''receiveTeleporterMessage'' [GArr32 sourceBlockchainID, GAddr
        originSenderAddress, GBytes message]"

definition ERC20TokenHomeUpgradeableSession_ReceiveTeleporterMessage ::
  "'w session \<Rightarrow> hash \<Rightarrow> address \<Rightarrow> bytes \<Rightarrow> ('w, goerr + hash) prog" where
  "ERC20TokenHomeUpgradeableSession_ReceiveTeleporterMessage s sourceBlockchainID
     originSenderAddress message = ERC20TokenHomeUpgradeableTransactor_ReceiveTeleporterMessage
     (SessionContract s) (SessionTransactOpts s) sourceBlockchainID originSenderAddress message"

definition ERC20TokenHomeUpgradeableTransactor_RenounceOwnership ::
  "'w bound_contract \<Rightarrow> TransactOpts \<Rightarrow> ('w, goerr + hash) prog" where
  "ERC20TokenHomeUpgradeableTransactor_RenounceOwnership c opts =
     contract_transact c opts ''renounceOwnership'' []"

definition ERC20TokenHomeUpgradeableSession_RenounceOwnership ::
  "'w session \<Rightarrow> ('w, goerr + hash) prog" where
  "ERC20TokenHomeUpgradeableSession_RenounceOwnership s =
     ERC20TokenHomeUpgradeableTransactor_RenounceOwnership (SessionContract s)
     (SessionTransactOpts s)"

definition ERC20TokenHomeUpgradeableTransactor_Send ::
  "'w bound_contract \<Rightarrow> TransactOpts \<Rightarrow> SendTokensInput \<Rightarrow> int \<Rightarrow> ('w, goerr + hash) prog" where
  "ERC20TokenHomeUpgradeableTransactor_Send c opts input_data amount =
     contract_transact c opts ''send'' [SendTokensInput_val input_data, GBig amount]"

definition ERC20TokenHomeUpgradeableSession_Send ::
  "'w session \<Rightarrow> SendTokensInput \<Rightarrow> int \<Rightarrow> ('w, goerr + hash) prog" where
  "ERC20TokenHomeUpgradeableSession_Send s input_data amount =
     ERC20TokenHomeUpgradeableTransactor_Send (SessionContract s) (SessionTransactOpts s)
     input_data amount"

definition ERC20TokenHomeUpgradeableTransactor_SendAndCall ::
  "'w bound_contract \<Rightarrow> TransactOpts \<Rightarrow> SendAndCallInput \<Rightarrow> int \<Rightarrow> ('w, goerr + hash) prog" where
  "ERC20TokenHomeUpgradeableTransactor_SendAndCall c opts input_data amount =
     contract_transact c opts ''sendAndCall'' [SendAndCallInput_val input_data, GBig amount]"

definition ERC20TokenHomeUpgradeableSession_SendAndCall ::
  "'w session \<Rightarrow> SendAndCallInput \<Rightarrow> int \<Rightarrow> ('w, goerr + hash) prog" where
  "ERC20TokenHomeUpgradeableSession_SendAndCall s input_data amount =
     ERC20TokenHomeUpgradeableTransactor_SendAndCall (SessionContract s) (SessionTransactOpts s)
     input_data amount"

definition ERC20TokenHomeUpgradeableTransactor_TransferOwnership ::
  "'w bound_contract \<Rightarrow> TransactOpts \<Rightarrow> address \<Rightarrow> ('w, goerr + hash) prog" where
  "ERC20TokenHomeUpgradeableTransactor_TransferOwnership c opts newOwner =
     contract_transact c opts ''transferOwnership'' [GAddr newOwner]"

definition ERC20TokenHomeUpgradeableSession_TransferOwnership ::
  "'w session \<Rightarrow> address \<Rightarrow> ('w, goerr + hash) prog" where
  "ERC20TokenHomeUpgradeableSession_TransferOwnership s newOwner =
     ERC20TokenHomeUpgradeableTransactor_TransferOwnership (SessionContract s)
     (SessionTransactOpts s) newOwner"

definition ERC20TokenHomeUpgradeableTransactor_UnpauseTeleporterAddress ::
  "'w bound_contract \<Rightarrow> TransactOpts \<Rightarrow> address \<Rightarrow> ('w, goerr + hash) prog" where
  "ERC20TokenHomeUpgradeableTransactor_UnpauseTeleporterAddress c opts teleporterAddress =
     contract_transact c opts ''unpauseTeleporterAddress'' [GAddr teleporterAddress]"

definition ERC20TokenHomeUpgradeableSession_UnpauseTeleporterAddress ::
  "'w session \<Rightarrow> address \<Rightarrow> ('w, goerr + hash) prog" where
  "ERC20TokenHomeUpgradeableSession_UnpauseTeleporterAddress s teleporterAddress =
     ERC20TokenHomeUpgradeableTransactor_UnpauseTeleporterAddress (SessionContract s)
     (SessionTransactOpts s) teleporterAddress"

definition ERC20TokenHomeUpgradeableTransactor_UpdateMinTeleporterVersion ::
  "'w bound_contract \<Rightarrow> TransactOpts \<Rightarrow> int \<Rightarrow> ('w, goerr + hash) prog" where
  "ERC20TokenHomeUpgradeableTransactor_UpdateMinTeleporterVersion c opts version_number =
     contract_transact c opts ''updateMinTeleporterVersion'' [GBig version_number]"

definition ERC20TokenHomeUpgradeableSession_UpdateMinTeleporterVersion ::
  "'w session \<Rightarrow> int \<Rightarrow> ('w, goerr + hash) prog" where
  "ERC20TokenHomeUpgradeableSession_UpdateMinTeleporterVersion s version_number =
     ERC20TokenHomeUpgradeableTransactor_UpdateMinTeleporterVersion (SessionContract s)
     (SessionTransactOpts s) version_number"

section \<open>Events\<close>

definition ERC20TokenHomeUpgradeableCallFailed :: event_fields where
  "ERC20TokenHomeUpgradeableCallFailed = [(''RecipientContract'', GAddr 0), (''Amount'', GNil),
     (''Raw'', zero_Log)]"

definition ERC20TokenHomeUpgradeableCallFailedIterator_Next ::
  "'w bound_contract \<Rightarrow> bool \<Rightarrow> iterator \<Rightarrow> (bool \<times> iterator) option" where
  "ERC20TokenHomeUpgradeableCallFailedIterator_Next c pick it = iterator_Next (parse_log c
     ''CallFailed'' ERC20TokenHomeUpgradeableCallFailed) ERC20TokenHomeUpgradeableCallFailed
     pick it"

definition ERC20TokenHomeUpgradeableCallFailedIterator_Error :: "iterator \<Rightarrow> goerr option" where
  "ERC20TokenHomeUpgradeableCallFailedIterator_Error it = iterator_Error it"

definition ERC20TokenHomeUpgradeableCallFailedIterator_Close :: "iterator \<Rightarrow> goerr option \<times>
   iterator" where
  "ERC20TokenHomeUpgradeableCallFailedIterator_Close it = iterator_Close it"

definition ERC20TokenHomeUpgradeableFilterer_FilterCallFailed ::
  "'w bound_contract \<Rightarrow> FilterOpts \<Rightarrow> address list \<Rightarrow> ('w, goerr + iterator) prog" where
  "ERC20TokenHomeUpgradeableFilterer_FilterCallFailed c opts recipientContract =
     filter_events c opts ''CallFailed'' [map GAddr recipientContract]"

definition ERC20TokenHomeUpgradeableFilterer_WatchCallFailed ::
  "'w bound_contract \<Rightarrow> address list \<Rightarrow> ('w, goerr + (evm_log \<Rightarrow> goerr + event_fields)) prog" where
  "ERC20TokenHomeUpgradeableFilterer_WatchCallFailed c recipientContract =
     watch_events c ''CallFailed'' ERC20TokenHomeUpgradeableCallFailed [map GAddr
        recipientContract]"

definition ERC20TokenHomeUpgradeableFilterer_ParseCallFailed ::
  "'w bound_contract \<Rightarrow> evm_log \<Rightarrow> goerr + event_fields" where
  "ERC20TokenHomeUpgradeableFilterer_ParseCallFailed c = parse_log c ''CallFailed''
     ERC20TokenHomeUpgradeableCallFailed"

definition ERC20TokenHomeUpgradeableCallSucceeded :: event_fields where
  "ERC20TokenHomeUpgradeableCallSucceeded = [(''RecipientContract'', GAddr 0), (''Amount'',
     GNil), (''Raw'', zero_Log)]"

definition ERC20TokenHomeUpgradeableCallSucceededIterator_Next ::
  "'w bound_contract \<Rightarrow> bool \<Rightarrow> iterator \<Rightarrow> (bool \<times> iterator) option" where
  "ERC20TokenHomeUpgradeableCallSucceededIterator_Next c pick it = iterator_Next (parse_log c
     ''CallSucceeded'' ERC20TokenHomeUpgradeableCallSucceeded)
     ERC20TokenHomeUpgradeableCallSucceeded pick it"

definition ERC20TokenHomeUpgradeableCallSucceededIterator_Error :: "iterator \<Rightarrow> goerr option"
   where
  "ERC20TokenHomeUpgradeableCallSucceededIterator_Error it = iterator_Error it"

definition ERC20TokenHomeUpgradeableCallSucceededIterator_Close :: "iterator \<Rightarrow> goerr option \<times>
   iterator" where
  "ERC20TokenHomeUpgradeableCallSucceededIterator_Close it = iterator_Close it"

definition ERC20TokenHomeUpgradeableFilterer_FilterCallSucceeded ::
  "'w bound_contract \<Rightarrow> FilterOpts \<Rightarrow> address list \<Rightarrow> ('w, goerr + iterator) prog" where
  "ERC20TokenHomeUpgradeableFilterer_FilterCallSucceeded c opts recipientContract =
     filter_events c opts ''CallSucceeded'' [map GAddr recipientContract]"

definition ERC20TokenHomeUpgradeableFilterer_WatchCallSucceeded ::
  "'w bound_contract \<Rightarrow> address list \<Rightarrow> ('w, goerr + (evm_log \<Rightarrow> goerr + event_fields)) prog" where
  "ERC20TokenHomeUpgradeableFilterer_WatchCallSucceeded c recipientContract =
     watch_events c ''CallSucceeded'' ERC20TokenHomeUpgradeableCallSucceeded [map GAddr
        recipientContract]"

definition ERC20TokenHomeUpgradeableFilterer_ParseCallSucceeded ::
  "'w bound_contract \<Rightarrow> evm_log \<Rightarrow> goerr + event_fields" where
  "ERC20TokenHomeUpgradeableFilterer_ParseCallSucceeded c = parse_log c ''CallSucceeded''
     ERC20TokenHomeUpgradeableCallSucceeded"

definition ERC20TokenHomeUpgradeableCollateralAdded :: event_fields where
  "ERC20TokenHomeUpgradeableCollateralAdded = [(''RemoteBlockchainID'', GArr32 0),
     (''RemoteTokenTransferrerAddress'', GAddr 0), (''Amount'', GNil), (''Remaining'', GNil),
     (''Raw'', zero_Log)]"

definition ERC20TokenHomeUpgradeableCollateralAddedIterator_Next ::
  "'w bound_contract \<Rightarrow> bool \<Rightarrow> iterator \<Rightarrow> (bool \<times> iterator) option" where
  "ERC20TokenHomeUpgradeableCollateralAddedIterator_Next c pick it = iterator_Next (parse_log c
     ''CollateralAdded'' ERC20TokenHomeUpgradeableCollateralAdded)
     ERC20TokenHomeUpgradeableCollateralAdded pick it"

definition ERC20TokenHomeUpgradeableCollateralAddedIterator_Error :: "iterator \<Rightarrow> goerr option"
   where
  "ERC20TokenHomeUpgradeableCollateralAddedIterator_Error it = iterator_Error it"

definition ERC20TokenHomeUpgradeableCollateralAddedIterator_Close :: "iterator \<Rightarrow> goerr option \<times>
   iterator" where
  "ERC20TokenHomeUpgradeableCollateralAddedIterator_Close it = iterator_Close it"

definition ERC20TokenHomeUpgradeableFilterer_FilterCollateralAdded ::
  "'w bound_contract \<Rightarrow> FilterOpts \<Rightarrow> hash list \<Rightarrow> address list \<Rightarrow> ('w, goerr + iterator) prog"
     where
  "ERC20TokenHomeUpgradeableFilterer_FilterCollateralAdded c opts remoteBlockchainID
     remoteTokenTransferrerAddress =
     filter_events c opts ''CollateralAdded'' [map GArr32 remoteBlockchainID, map GAddr
        remoteTokenTransferrerAddress]"

definition ERC20TokenHomeUpgradeableFilterer_WatchCollateralAdded ::
  "'w bound_contract \<Rightarrow> hash list \<Rightarrow> address list \<Rightarrow> ('w, goerr + (evm_log \<Rightarrow> goerr + event_fields))
     prog" where
  "ERC20TokenHomeUpgradeableFilterer_WatchCollateralAdded c remoteBlockchainID
     remoteTokenTransferrerAddress =
     watch_events c ''CollateralAdded'' ERC20TokenHomeUpgradeableCollateralAdded [map GArr32
        remoteBlockchainID, map GAddr remoteTokenTransferrerAddress]"

definition ERC20TokenHomeUpgradeableFilterer_ParseCollateralAdded ::
  "'w bound_contract \<Rightarrow> evm_log \<Rightarrow> goerr + event_fields" where
  "ERC20TokenHomeUpgradeableFilterer_ParseCollateralAdded c = parse_log c ''CollateralAdded''
     ERC20TokenHomeUpgradeableCollateralAdded"

definition ERC20TokenHomeUpgradeableInitialized :: event_fields where
  "ERC20TokenHomeUpgradeableInitialized = [(''Version'', GUint 64 0), (''Raw'', zero_Log)]"

definition ERC20TokenHomeUpgradeableInitializedIterator_Next ::
  "'w bound_contract \<Rightarrow> bool \<Rightarrow> iterator \<Rightarrow> (bool \<times> iterator) option" where
  "ERC20TokenHomeUpgradeableInitializedIterator_Next c pick it = iterator_Next (parse_log c
     ''Initialized'' ERC20TokenHomeUpgradeableInitialized) ERC20TokenHomeUpgradeableInitialized
     pick it"

definition ERC20TokenHomeUpgradeableInitializedIterator_Error :: "iterator \<Rightarrow> goerr option" where
  "ERC20TokenHomeUpgradeableInitializedIterator_Error it = iterator_Error it"

definition ERC20TokenHomeUpgradeableInitializedIterator_Close :: "iterator \<Rightarrow> goerr option \<times>
   iterator" where
  "ERC20TokenHomeUpgradeableInitializedIterator_Close it = iterator_Close it"

definition ERC20TokenHomeUpgradeableFilterer_FilterInitialized ::
  "'w bound_contract \<Rightarrow> FilterOpts \<Rightarrow> ('w, goerr + iterator) prog" where
  "ERC20TokenHomeUpgradeableFilterer_FilterInitialized c opts =
     filter_events c opts ''Initialized'' []"

definition ERC20TokenHomeUpgradeableFilterer_WatchInitialized ::
  "'w bound_contract \<Rightarrow> ('w, goerr + (evm_log \<Rightarrow> goerr + event_fields)) prog" where
  "ERC20TokenHomeUpgradeableFilterer_WatchInitialized c =
     watch_events c ''Initialized'' ERC20TokenHomeUpgradeableInitialized []"

definition ERC20TokenHomeUpgradeableFilterer_ParseInitialized ::
  "'w bound_contract \<Rightarrow> evm_log \<Rightarrow> goerr + event_fields" where
  "ERC20TokenHomeUpgradeableFilterer_ParseInitialized c = parse_log c ''Initialized''
     ERC20TokenHomeUpgradeableInitialized"

definition ERC20TokenHomeUpgradeableMinTeleporterVersionUpdated :: event_fields where
  "ERC20TokenHomeUpgradeableMinTeleporterVersionUpdated = [(''OldMinTeleporterVersion'', GNil),
     (''NewMinTeleporterVersion'', GNil), (''Raw'', zero_Log)]"

definition ERC20TokenHomeUpgradeableMinTeleporterVersionUpdatedIterator_Next ::
  "'w bound_contract \<Rightarrow> bool \<Rightarrow> iterator \<Rightarrow> (bool \<times> iterator) option" where
  "ERC20TokenHomeUpgradeableMinTeleporterVersionUpdatedIterator_Next c pick it = iterator_Next
     (parse_log c ''MinTeleporterVersionUpdated''
     ERC20TokenHomeUpgradeableMinTeleporterVersionUpdated)
     ERC20TokenHomeUpgradeableMinTeleporterVersionUpdated pick it"

definition ERC20TokenHomeUpgradeableMinTeleporterVersionUpdatedIterator_Error :: "iterator \<Rightarrow>
   goerr option" where
  "ERC20TokenHomeUpgradeableMinTeleporterVersionUpdatedIterator_Error it = iterator_Error it"

definition ERC20TokenHomeUpgradeableMinTeleporterVersionUpdatedIterator_Close :: "iterator \<Rightarrow>
   goerr option \<times> iterator" where
  "ERC20TokenHomeUpgradeableMinTeleporterVersionUpdatedIterator_Close it = iterator_Close it"

definition ERC20TokenHomeUpgradeableFilterer_FilterMinTeleporterVersionUpdated ::
  "'w bound_contract \<Rightarrow> FilterOpts \<Rightarrow> int list \<Rightarrow> int list \<Rightarrow> ('w, goerr + iterator) prog" where
  "ERC20TokenHomeUpgradeableFilterer_FilterMinTeleporterVersionUpdated c opts
     oldMinTeleporterVersion newMinTeleporterVersion =
     filter_events c opts ''MinTeleporterVersionUpdated'' [map GBig oldMinTeleporterVersion, map
        GBig newMinTeleporterVersion]"

definition ERC20TokenHomeUpgradeableFilterer_WatchMinTeleporterVersionUpdated ::
  "'w bound_contract \<Rightarrow> int list \<Rightarrow> int list \<Rightarrow> ('w, goerr + (evm_log \<Rightarrow> goerr + event_fields))
     prog" where
  "ERC20TokenHomeUpgradeableFilterer_WatchMinTeleporterVersionUpdated c oldMinTeleporterVersion
     newMinTeleporterVersion =
     watch_events c ''MinTeleporterVersionUpdated''
        ERC20TokenHomeUpgradeableMinTeleporterVersionUpdated [map GBig oldMinTeleporterVersion,
        map GBig newMinTeleporterVersion]"

definition ERC20TokenHomeUpgradeableFilterer_ParseMinTeleporterVersionUpdated ::
  "'w bound_contract \<Rightarrow> evm_log \<Rightarrow> goerr + event_fields" where
  "ERC20TokenHomeUpgradeableFilterer_ParseMinTeleporterVersionUpdated c = parse_log c
     ''MinTeleporterVersionUpdated'' ERC20TokenHomeUpgradeableMinTeleporterVersionUpdated"

definition ERC20TokenHomeUpgradeableOwnershipTransferred :: event_fields where
  "ERC20TokenHomeUpgradeableOwnershipTransferred = [(''PreviousOwner'', GAddr 0), (''NewOwner'',
     GAddr 0), (''Raw'', zero_Log)]"

definition ERC20TokenHomeUpgradeableOwnershipTransferredIterator_Next ::
  "'w bound_contract \<Rightarrow> bool \<Rightarrow> iterator \<Rightarrow> (bool \<times> iterator) option" where
  "ERC20TokenHomeUpgradeableOwnershipTransferredIterator_Next c pick it = iterator_Next
     (parse_log c ''OwnershipTransferred'' ERC20TokenHomeUpgradeableOwnershipTransferred)
     ERC20TokenHomeUpgradeableOwnershipTransferred pick it"

definition ERC20TokenHomeUpgradeableOwnershipTransferredIterator_Error :: "iterator \<Rightarrow> goerr
   option" where
  "ERC20TokenHomeUpgradeableOwnershipTransferredIterator_Error it = iterator_Error it"

definition ERC20TokenHomeUpgradeableOwnershipTransferredIterator_Close :: "iterator \<Rightarrow> goerr
   option \<times> iterator" where
  "ERC20TokenHomeUpgradeableOwnershipTransferredIterator_Close it = iterator_Close it"

definition ERC20TokenHomeUpgradeableFilterer_FilterOwnershipTransferred ::
  "'w bound_contract \<Rightarrow> FilterOpts \<Rightarrow> address list \<Rightarrow> address list \<Rightarrow> ('w, goerr + iterator) prog"
     where
  "ERC20TokenHomeUpgradeableFilterer_FilterOwnershipTransferred c opts previousOwner newOwner =
     filter_events c opts ''OwnershipTransferred'' [map GAddr previousOwner, map GAddr
        newOwner]"

definition ERC20TokenHomeUpgradeableFilterer_WatchOwnershipTransferred ::
  "'w bound_contract \<Rightarrow> address list \<Rightarrow> address list \<Rightarrow> ('w, goerr + (evm_log \<Rightarrow> goerr +
     event_fields)) prog" where
  "ERC20TokenHomeUpgradeableFilterer_WatchOwnershipTransferred c previousOwner newOwner =
     watch_events c ''OwnershipTransferred'' ERC20TokenHomeUpgradeableOwnershipTransferred [map
        GAddr previousOwner, map GAddr newOwner]"

definition ERC20TokenHomeUpgradeableFilterer_ParseOwnershipTransferred ::
  "'w bound_contract \<Rightarrow> evm_log \<Rightarrow> goerr + event_fields" where
  "ERC20TokenHomeUpgradeableFilterer_ParseOwnershipTransferred c = parse_log c
     ''OwnershipTransferred'' ERC20TokenHomeUpgradeableOwnershipTransferred"

definition ERC20TokenHomeUpgradeableRemoteRegistered :: event_fields where
  "ERC20TokenHomeUpgradeableRemoteRegistered = [(''RemoteBlockchainID'', GArr32 0),
     (''RemoteTokenTransferrerAddress'', GAddr 0), (''InitialCollateralNeeded'', GNil),
     (''TokenDecimals'', GUint 8 0), (''Raw'', zero_Log)]"

definition ERC20TokenHomeUpgradeableRemoteRegisteredIterator_Next ::
  "'w bound_contract \<Rightarrow> bool \<Rightarrow> iterator \<Rightarrow> (bool \<times> iterator) option" where
  "ERC20TokenHomeUpgradeableRemoteRegisteredIterator_Next c pick it = iterator_Next (parse_log c
     ''RemoteRegistered'' ERC20TokenHomeUpgradeableRemoteRegistered)
     ERC20TokenHomeUpgradeableRemoteRegistered pick it"

definition ERC20TokenHomeUpgradeableRemoteRegisteredIterator_Error :: "iterator \<Rightarrow> goerr option"
   where
  "ERC20TokenHomeUpgradeableRemoteRegisteredIterator_Error it = iterator_Error it"

definition ERC20TokenHomeUpgradeableRemoteRegisteredIterator_Close :: "iterator \<Rightarrow> goerr option \<times>
   iterator" where
  "ERC20TokenHomeUpgradeableRemoteRegisteredIterator_Close it = iterator_Close it"

definition ERC20TokenHomeUpgradeableFilterer_FilterRemoteRegistered ::
  "'w bound_contract \<Rightarrow> FilterOpts \<Rightarrow> hash list \<Rightarrow> address list \<Rightarrow> ('w, goerr + iterator) prog"
     where
  "ERC20TokenHomeUpgradeableFilterer_FilterRemoteRegistered c opts remoteBlockchainID
     remoteTokenTransferrerAddress =
     filter_events c opts ''RemoteRegistered'' [map GArr32 remoteBlockchainID, map GAddr
        remoteTokenTransferrerAddress]"

definition ERC20TokenHomeUpgradeableFilterer_WatchRemoteRegistered ::
  "'w bound_contract \<Rightarrow> hash list \<Rightarrow> address list \<Rightarrow> ('w, goerr + (evm_log \<Rightarrow> goerr + event_fields))
     prog" where
  "ERC20TokenHomeUpgradeableFilterer_WatchRemoteRegistered c remoteBlockchainID
     remoteTokenTransferrerAddress =
     watch_events c ''RemoteRegistered'' ERC20TokenHomeUpgradeableRemoteRegistered [map GArr32
        remoteBlockchainID, map GAddr remoteTokenTransferrerAddress]"

definition ERC20TokenHomeUpgradeableFilterer_ParseRemoteRegistered ::
  "'w bound_contract \<Rightarrow> evm_log \<Rightarrow> goerr + event_fields" where
  "ERC20TokenHomeUpgradeableFilterer_ParseRemoteRegistered c = parse_log c ''RemoteRegistered''
     ERC20TokenHomeUpgradeableRemoteRegistered"

definition ERC20TokenHomeUpgradeableTeleporterAddressPaused :: event_fields where
  "ERC20TokenHomeUpgradeableTeleporterAddressPaused = [(''TeleporterAddress'', GAddr 0),
     (''Raw'', zero_Log)]"

definition ERC20TokenHomeUpgradeableTeleporterAddressPausedIterator_Next ::
  "'w bound_contract \<Rightarrow> bool \<Rightarrow> iterator \<Rightarrow> (bool \<times> iterator) option" where
  "ERC20TokenHomeUpgradeableTeleporterAddressPausedIterator_Next c pick it = iterator_Next
     (parse_log c ''TeleporterAddressPaused'' ERC20TokenHomeUpgradeableTeleporterAddressPaused)
     ERC20TokenHomeUpgradeableTeleporterAddressPaused pick it"

definition ERC20TokenHomeUpgradeableTeleporterAddressPausedIterator_Error :: "iterator \<Rightarrow> goerr
   option" where
  "ERC20TokenHomeUpgradeableTeleporterAddressPausedIterator_Error it = iterator_Error it"

definition ERC20TokenHomeUpgradeableTeleporterAddressPausedIterator_Close :: "iterator \<Rightarrow> goerr
   option \<times> iterator" where
  "ERC20TokenHomeUpgradeableTeleporterAddressPausedIterator_Close it = iterator_Close it"

definition ERC20TokenHomeUpgradeableFilterer_FilterTeleporterAddressPaused ::
  "'w bound_contract \<Rightarrow> FilterOpts \<Rightarrow> address list \<Rightarrow> ('w, goerr + iterator) prog" where
  "ERC20TokenHomeUpgradeableFilterer_FilterTeleporterAddressPaused c opts teleporterAddress =
     filter_events c opts ''TeleporterAddressPaused'' [map GAddr teleporterAddress]"

definition ERC20TokenHomeUpgradeableFilterer_WatchTeleporterAddressPaused ::
  "'w bound_contract \<Rightarrow> address list \<Rightarrow> ('w, goerr + (evm_log \<Rightarrow> goerr + event_fields)) prog" where
  "ERC20TokenHomeUpgradeableFilterer_WatchTeleporterAddressPaused c teleporterAddress =
     watch_events c ''TeleporterAddressPaused'' ERC20TokenHomeUpgradeableTeleporterAddressPaused
        [map GAddr teleporterAddress]"

definition ERC20TokenHomeUpgradeableFilterer_ParseTeleporterAddressPaused ::
  "'w bound_contract \<Rightarrow> evm_log \<Rightarrow> goerr + event_fields" where
  "ERC20TokenHomeUpgradeableFilterer_ParseTeleporterAddressPaused c = parse_log c
     ''TeleporterAddressPaused'' ERC20TokenHomeUpgradeableTeleporterAddressPaused"

definition ERC20TokenHomeUpgradeableTeleporterAddressUnpaused :: event_fields where
  "ERC20TokenHomeUpgradeableTeleporterAddressUnpaused = [(''TeleporterAddress'', GAddr 0),
     (''Raw'', zero_Log)]"

definition ERC20TokenHomeUpgradeableTeleporterAddressUnpausedIterator_Next ::
  "'w bound_contract \<Rightarrow> bool \<Rightarrow> iterator \<Rightarrow> (bool \<times> iterator) option" where
  "ERC20TokenHomeUpgradeableTeleporterAddressUnpausedIterator_Next c pick it = iterator_Next
     (parse_log c ''TeleporterAddressUnpaused''
     ERC20TokenHomeUpgradeableTeleporterAddressUnpaused)
     ERC20TokenHomeUpgradeableTeleporterAddressUnpaused pick it"

definition ERC20TokenHomeUpgradeableTeleporterAddressUnpausedIterator_Error :: "iterator \<Rightarrow> goerr
   option" where
  "ERC20TokenHomeUpgradeableTeleporterAddressUnpausedIterator_Error it = iterator_Error it"

definition ERC20TokenHomeUpgradeableTeleporterAddressUnpausedIterator_Close :: "iterator \<Rightarrow> goerr
   option \<times> iterator" where
  "ERC20TokenHomeUpgradeableTeleporterAddressUnpausedIterator_Close it = iterator_Close it"

definition ERC20TokenHomeUpgradeableFilterer_FilterTeleporterAddressUnpaused ::
  "'w bound_contract \<Rightarrow> FilterOpts \<Rightarrow> address list \<Rightarrow> ('w, goerr + iterator) prog" where
  "ERC20TokenHomeUpgradeableFilterer_FilterTeleporterAddressUnpaused c opts teleporterAddress =
     filter_events c opts ''TeleporterAddressUnpaused'' [map GAddr teleporterAddress]"

definition ERC20TokenHomeUpgradeableFilterer_WatchTeleporterAddressUnpaused ::
  "'w bound_contract \<Rightarrow> address list \<Rightarrow> ('w, goerr + (evm_log \<Rightarrow> goerr + event_fields)) prog" where
  "ERC20TokenHomeUpgradeableFilterer_WatchTeleporterAddressUnpaused c teleporterAddress =
     watch_events c ''TeleporterAddressUnpaused''
        ERC20TokenHomeUpgradeableTeleporterAddressUnpaused [map GAddr teleporterAddress]"

definition ERC20TokenHomeUpgradeableFilterer_ParseTeleporterAddressUnpaused ::
  "'w bound_contract \<Rightarrow> evm_log \<Rightarrow> goerr + event_fields" where
  "ERC20TokenHomeUpgradeableFilterer_ParseTeleporterAddressUnpaused c = parse_log c
     ''TeleporterAddressUnpaused'' ERC20TokenHomeUpgradeableTeleporterAddressUnpaused"

definition ERC20TokenHomeUpgradeableTokensAndCallRouted :: event_fields where
  "ERC20TokenHomeUpgradeableTokensAndCallRouted = [(''TeleporterMessageID'', GArr32 0),
     (''Input'', zero_SendAndCallInput), (''Amount'', GNil), (''Raw'', zero_Log)]"

definition ERC20TokenHomeUpgradeableTokensAndCallRoutedIterator_Next ::
  "'w bound_contract \<Rightarrow> bool \<Rightarrow> iterator \<Rightarrow> (bool \<times> iterator) option" where
  "ERC20TokenHomeUpgradeableTokensAndCallRoutedIterator_Next c pick it = iterator_Next
     (parse_log c ''TokensAndCallRouted'' ERC20TokenHomeUpgradeableTokensAndCallRouted)
     ERC20TokenHomeUpgradeableTokensAndCallRouted pick it"

definition ERC20TokenHomeUpgradeableTokensAndCallRoutedIterator_Error :: "iterator \<Rightarrow> goerr
   option" where
  "ERC20TokenHomeUpgradeableTokensAndCallRoutedIterator_Error it = iterator_Error it"

definition ERC20TokenHomeUpgradeableTokensAndCallRoutedIterator_Close :: "iterator \<Rightarrow> goerr
   option \<times> iterator" where
  "ERC20TokenHomeUpgradeableTokensAndCallRoutedIterator_Close it = iterator_Close it"

definition ERC20TokenHomeUpgradeableFilterer_FilterTokensAndCallRouted ::
  "'w bound_contract \<Rightarrow> FilterOpts \<Rightarrow> hash list \<Rightarrow> ('w, goerr + iterator) prog" where
  "ERC20TokenHomeUpgradeableFilterer_FilterTokensAndCallRouted c opts teleporterMessageID =
     filter_events c opts ''TokensAndCallRouted'' [map GArr32 teleporterMessageID]"

definition ERC20TokenHomeUpgradeableFilterer_WatchTokensAndCallRouted ::
  "'w bound_contract \<Rightarrow> hash list \<Rightarrow> ('w, goerr + (evm_log \<Rightarrow> goerr + event_fields)) prog" where
  "ERC20TokenHomeUpgradeableFilterer_WatchTokensAndCallRouted c teleporterMessageID =
     watch_events c ''TokensAndCallRouted'' ERC20TokenHomeUpgradeableTokensAndCallRouted [map
        GArr32 teleporterMessageID]"

definition ERC20TokenHomeUpgradeableFilterer_ParseTokensAndCallRouted ::
  "'w bound_contract \<Rightarrow> evm_log \<Rightarrow> goerr + event_fields" where
  "ERC20TokenHomeUpgradeableFilterer_ParseTokensAndCallRouted c = parse_log c
     ''TokensAndCallRouted'' ERC20TokenHomeUpgradeableTokensAndCallRouted"

definition ERC20TokenHomeUpgradeableTokensAndCallSent :: event_fields where
  "ERC20TokenHomeUpgradeableTokensAndCallSent = [(''TeleporterMessageID'', GArr32 0),
     (''Sender'', GAddr 0), (''Input'', zero_SendAndCallInput), (''Amount'', GNil), (''Raw'',
     zero_Log)]"

definition ERC20TokenHomeUpgradeableTokensAndCallSentIterator_Next ::
  "'w bound_contract \<Rightarrow> bool \<Rightarrow> iterator \<Rightarrow> (bool \<times> iterator) option" where
  "ERC20TokenHomeUpgradeableTokensAndCallSentIterator_Next c pick it = iterator_Next (parse_log
     c ''TokensAndCallSent'' ERC20TokenHomeUpgradeableTokensAndCallSent)
     ERC20TokenHomeUpgradeableTokensAndCallSent pick it"

definition ERC20TokenHomeUpgradeableTokensAndCallSentIterator_Error :: "iterator \<Rightarrow> goerr option"
   where
  "ERC20TokenHomeUpgradeableTokensAndCallSentIterator_Error it = iterator_Error it"

definition ERC20TokenHomeUpgradeableTokensAndCallSentIterator_Close :: "iterator \<Rightarrow> goerr option
   \<times> iterator" where
  "ERC20TokenHomeUpgradeableTokensAndCallSentIterator_Close it = iterator_Close it"

definition ERC20TokenHomeUpgradeableFilterer_FilterTokensAndCallSent ::
  "'w bound_contract \<Rightarrow> FilterOpts \<Rightarrow> hash list \<Rightarrow> address list \<Rightarrow> ('w, goerr + iterator) prog"
     where
  "ERC20TokenHomeUpgradeableFilterer_FilterTokensAndCallSent c opts teleporterMessageID sender =
     filter_events c opts ''TokensAndCallSent'' [map GArr32 teleporterMessageID, map GAddr
        sender]"

definition ERC20TokenHomeUpgradeableFilterer_WatchTokensAndCallSent ::
  "'w bound_contract \<Rightarrow> hash list \<Rightarrow> address list \<Rightarrow> ('w, goerr + (evm_log \<Rightarrow> goerr + event_fields))
     prog" where
  "ERC20TokenHomeUpgradeableFilterer_WatchTokensAndCallSent c teleporterMessageID sender =
     watch_events c ''TokensAndCallSent'' ERC20TokenHomeUpgradeableTokensAndCallSent [map GArr32
        teleporterMessageID, map GAddr sender]"

definition ERC20TokenHomeUpgradeableFilterer_ParseTokensAndCallSent ::
  "'w bound_contract \<Rightarrow> evm_log \<Rightarrow> goerr + event_fields" where
  "ERC20TokenHomeUpgradeableFilterer_ParseTokensAndCallSent c = parse_log c
     ''TokensAndCallSent'' ERC20TokenHomeUpgradeableTokensAndCallSent"

definition ERC20TokenHomeUpgradeableTokensRouted :: event_fields where
  "ERC20TokenHomeUpgradeableTokensRouted = [(''TeleporterMessageID'', GArr32 0), (''Input'',
     zero_SendTokensInput), (''Amount'', GNil), (''Raw'', zero_Log)]"

definition ERC20TokenHomeUpgradeableTokensRoutedIterator_Next ::
  "'w bound_contract \<Rightarrow> bool \<Rightarrow> iterator \<Rightarrow> (bool \<times> iterator) option" where
  "ERC20TokenHomeUpgradeableTokensRoutedIterator_Next c pick it = iterator_Next (parse_log c
     ''TokensRouted'' ERC20TokenHomeUpgradeableTokensRouted)
     ERC20TokenHomeUpgradeableTokensRouted pick it"

definition ERC20TokenHomeUpgradeableTokensRoutedIterator_Error :: "iterator \<Rightarrow> goerr option"
   where
  "ERC20TokenHomeUpgradeableTokensRoutedIterator_Error it = iterator_Error it"

definition ERC20TokenHomeUpgradeableTokensRoutedIterator_Close :: "iterator \<Rightarrow> goerr option \<times>
   iterator" where
  "ERC20TokenHomeUpgradeableTokensRoutedIterator_Close it = iterator_Close it"

definition ERC20TokenHomeUpgradeableFilterer_FilterTokensRouted ::
  "'w bound_contract \<Rightarrow> FilterOpts \<Rightarrow> hash list \<Rightarrow> ('w, goerr + iterator) prog" where
  "ERC20TokenHomeUpgradeableFilterer_FilterTokensRouted c opts teleporterMessageID =
     filter_events c opts ''TokensRouted'' [map GArr32 teleporterMessageID]"

definition ERC20TokenHomeUpgradeableFilterer_WatchTokensRouted ::
  "'w bound_contract \<Rightarrow> hash list \<Rightarrow> ('w, goerr + (evm_log \<Rightarrow> goerr + event_fields)) prog" where
  "ERC20TokenHomeUpgradeableFilterer_WatchTokensRouted c teleporterMessageID =
     watch_events c ''TokensRouted'' ERC20TokenHomeUpgradeableTokensRouted [map GArr32
        teleporterMessageID]"

definition ERC20TokenHomeUpgradeableFilterer_ParseTokensRouted ::
  "'w bound_contract \<Rightarrow> evm_log \<Rightarrow> goerr + event_fields" where
  "ERC20TokenHomeUpgradeableFilterer_ParseTokensRouted c = parse_log c ''TokensRouted''
     ERC20TokenHomeUpgradeableTokensRouted"

definition ERC20TokenHomeUpgradeableTokensSent :: event_fields where
  "ERC20TokenHomeUpgradeableTokensSent = [(''TeleporterMessageID'', GArr32 0), (''Sender'',
     GAddr 0), (''Input'', zero_SendTokensInput), (''Amount'', GNil), (''Raw'', zero_Log)]"

definition ERC20TokenHomeUpgradeableTokensSentIterator_Next ::
  "'w bound_contract \<Rightarrow> bool \<Rightarrow> iterator \<Rightarrow> (bool \<times> iterator) option" where
  "ERC20TokenHomeUpgradeableTokensSentIterator_Next c pick it = iterator_Next (parse_log c
     ''TokensSent'' ERC20TokenHomeUpgradeableTokensSent) ERC20TokenHomeUpgradeableTokensSent
     pick it"

definition ERC20TokenHomeUpgradeableTokensSentIterator_Error :: "iterator \<Rightarrow> goerr option" where
  "ERC20TokenHomeUpgradeableTokensSentIterator_Error it = iterator_Error it"

definition ERC20TokenHomeUpgradeableTokensSentIterator_Close :: "iterator \<Rightarrow> goerr option \<times>
   iterator" where
  "ERC20TokenHomeUpgradeableTokensSentIterator_Close it = iterator_Close it"

definition ERC20TokenHomeUpgradeableFilterer_FilterTokensSent ::
  "'w bound_contract \<Rightarrow> FilterOpts \<Rightarrow> hash list \<Rightarrow> address list \<Rightarrow> ('w, goerr + iterator) prog"
     where
  "ERC20TokenHomeUpgradeableFilterer_FilterTokensSent c opts teleporterMessageID sender =
     filter_events c opts ''TokensSent'' [map GArr32 teleporterMessageID, map GAddr sender]"

definition ERC20TokenHomeUpgradeableFilterer_WatchTokensSent ::
  "'w bound_contract \<Rightarrow> hash list \<Rightarrow> address list \<Rightarrow> ('w, goerr + (evm_log \<Rightarrow> goerr + event_fields))
     prog" where
  "ERC20TokenHomeUpgradeableFilterer_WatchTokensSent c teleporterMessageID sender =
     watch_events c ''TokensSent'' ERC20TokenHomeUpgradeableTokensSent [map GArr32
        teleporterMessageID, map GAddr sender]"

definition ERC20TokenHomeUpgradeableFilterer_ParseTokensSent ::
  "'w bound_contract \<Rightarrow> evm_log \<Rightarrow> goerr + event_fields" where
  "ERC20TokenHomeUpgradeableFilterer_ParseTokensSent c = parse_log c ''TokensSent''
     ERC20TokenHomeUpgradeableTokensSent"

definition ERC20TokenHomeUpgradeableTokensWithdrawn :: event_fields where
  "ERC20TokenHomeUpgradeableTokensWithdrawn = [(''Recipient'', GAddr 0), (''Amount'', GNil),
     (''Raw'', zero_Log)]"

definition ERC20TokenHomeUpgradeableTokensWithdrawnIterator_Next ::
  "'w bound_contract \<Rightarrow> bool \<Rightarrow> iterator \<Rightarrow> (bool \<times> iterator) option" where
  "ERC20TokenHomeUpgradeableTokensWithdrawnIterator_Next c pick it = iterator_Next (parse_log c
     ''TokensWithdrawn'' ERC20TokenHomeUpgradeableTokensWithdrawn)
     ERC20TokenHomeUpgradeableTokensWithdrawn pick it"

definition ERC20TokenHomeUpgradeableTokensWithdrawnIterator_Error :: "iterator \<Rightarrow> goerr option"
   where
  "ERC20TokenHomeUpgradeableTokensWithdrawnIterator_Error it = iterator_Error it"

definition ERC20TokenHomeUpgradeableTokensWithdrawnIterator_Close :: "iterator \<Rightarrow> goerr option \<times>
   iterator" where
  "ERC20TokenHomeUpgradeableTokensWithdrawnIterator_Close it = iterator_Close it"

definition ERC20TokenHomeUpgradeableFilterer_FilterTokensWithdrawn ::
  "'w bound_contract \<Rightarrow> FilterOpts \<Rightarrow> address list \<Rightarrow> ('w, goerr + iterator) prog" where
  "ERC20TokenHomeUpgradeableFilterer_FilterTokensWithdrawn c opts recipient =
     filter_events c opts ''TokensWithdrawn'' [map GAddr recipient]"

definition ERC20TokenHomeUpgradeableFilterer_WatchTokensWithdrawn ::
  "'w bound_contract \<Rightarrow> address list \<Rightarrow> ('w, goerr + (evm_log \<Rightarrow> goerr + event_fields)) prog" where
  "ERC20TokenHomeUpgradeableFilterer_WatchTokensWithdrawn c recipient =
     watch_events c ''TokensWithdrawn'' ERC20TokenHomeUpgradeableTokensWithdrawn [map GAddr
        recipient]"

definition ERC20TokenHomeUpgradeableFilterer_ParseTokensWithdrawn ::
  "'w bound_contract \<Rightarrow> evm_log \<Rightarrow> goerr + event_fields" where
  "ERC20TokenHomeUpgradeableFilterer_ParseTokensWithdrawn c = parse_log c ''TokensWithdrawn''
     ERC20TokenHomeUpgradeableTokensWithdrawn"

section \<open>Correctness\<close>

lemma ERC20TokenHomeUpgradeable_methods:
  "map_of (Methods ERC20TokenHomeUpgradeableABI) ''ERC20_TOKEN_HOME_STORAGE_LOCATION'' =
     Some ([], [([], TBytes32)])"
  "map_of (Methods ERC20TokenHomeUpgradeableABI) ''TELEPORTER_REGISTRY_APP_STORAGE_LOCATION'' =
     Some ([], [([], TBytes32)])"
  "map_of (Methods ERC20TokenHomeUpgradeableABI) ''TOKEN_HOME_STORAGE_LOCATION'' =
     Some ([], [([], TBytes32)])"
  "map_of (Methods ERC20TokenHomeUpgradeableABI) ''addCollateral'' =
     Some ([(''remoteBlockchainID'', TBytes32), (''remoteTokenTransferrerAddress'', TAddress),
        (''amount'', TUint 256)], [])"
  "map_of (Methods ERC20TokenHomeUpgradeableABI) ''getBlockchainID'' =
     Some ([], [([], TBytes32)])"
  "map_of (Methods ERC20TokenHomeUpgradeableABI) ''getMinTeleporterVersion'' =
     Some ([], [([], TUint 256)])"
  "map_of (Methods ERC20TokenHomeUpgradeableABI) ''getRemoteTokenTransferrerSettings'' =
     Some ([(''remoteBlockchainID'', TBytes32), (''remoteTokenTransferrerAddress'', TAddress)],
        [([], RemoteTokenTransferrerSettings_tuple)])"
  "map_of (Methods ERC20TokenHomeUpgradeableABI) ''getTokenAddress'' =
     Some ([], [([], TAddress)])"
  "map_of (Methods ERC20TokenHomeUpgradeableABI) ''getTransferredBalance'' =
     Some ([(''remoteBlockchainID'', TBytes32), (''remoteTokenTransferrerAddress'', TAddress)],
        [([], TUint 256)])"
  "map_of (Methods ERC20TokenHomeUpgradeableABI) ''initialize'' =
     Some ([(''teleporterRegistryAddress'', TAddress), (''teleporterManager'', TAddress),
        (''minTeleporterVersion'', TUint 256), (''tokenAddress'', TAddress), (''tokenDecimals'',
        TUint 8)], [])"
  "map_of (Methods ERC20TokenHomeUpgradeableABI) ''isTeleporterAddressPaused'' =
     Some ([(''teleporterAddress'', TAddress)], [([], TBool)])"
  "map_of (Methods ERC20TokenHomeUpgradeableABI) ''owner'' =
     Some ([], [([], TAddress)])"
  "map_of (Methods ERC20TokenHomeUpgradeableABI) ''pauseTeleporterAddress'' =
     Some ([(''teleporterAddress'', TAddress)], [])"
  "map_of (Methods ERC20TokenHomeUpgradeableABI) ''receiveTeleporterMessage'' =
     Some ([(''sourceBlockchainID'', TBytes32), (''originSenderAddress'', TAddress),
        (''message'', TBytes)], [])"
  "map_of (Methods ERC20TokenHomeUpgradeableABI) ''renounceOwnership'' =
     Some ([], [])"
  "map_of (Methods ERC20TokenHomeUpgradeableABI) ''send'' =
     Some ([(''input'', SendTokensInput_tuple), (''amount'', TUint 256)], [])"
  "map_of (Methods ERC20TokenHomeUpgradeableABI) ''sendAndCall'' =
     Some ([(''input'', SendAndCallInput_tuple), (''amount'', TUint 256)], [])"
  "map_of (Methods ERC20TokenHomeUpgradeableABI) ''transferOwnership'' =
     Some ([(''newOwner'', TAddress)], [])"
  "map_of (Methods ERC20TokenHomeUpgradeableABI) ''unpauseTeleporterAddress'' =
     Some ([(''teleporterAddress'', TAddress)], [])"
  "map_of (Methods ERC20TokenHomeUpgradeableABI) ''updateMinTeleporterVersion'' =
     Some ([(''version'', TUint 256)], [])"
  unfolding ERC20TokenHomeUpgradeableABI_def contract_abi.select_convs
  by (simp_all only: table_lookup)

lemma ERC20TokenHomeUpgradeable_decodable:
  "decodable [(''recipientContract'', TAddress, True), (''amount'', TUint 256, False)]
     ERC20TokenHomeUpgradeableCallFailed"
  "decodable [(''recipientContract'', TAddress, True), (''amount'', TUint 256, False)]
     ERC20TokenHomeUpgradeableCallSucceeded"
  "decodable [(''remoteBlockchainID'', TBytes32, True), (''remoteTokenTransferrerAddress'',
     TAddress, True), (''amount'', TUint 256, False), (''remaining'', TUint 256, False)]
     ERC20TokenHomeUpgradeableCollateralAdded"
  "decodable [(''version'', TUint 64, False)]
     ERC20TokenHomeUpgradeableInitialized"
  "decodable [(''oldMinTeleporterVersion'', TUint 256, True), (''newMinTeleporterVersion'',
     TUint 256, True)]
     ERC20TokenHomeUpgradeableMinTeleporterVersionUpdated"
  "decodable [(''previousOwner'', TAddress, True), (''newOwner'', TAddress, True)]
     ERC20TokenHomeUpgradeableOwnershipTransferred"
  "decodable [(''remoteBlockchainID'', TBytes32, True), (''remoteTokenTransferrerAddress'',
     TAddress, True), (''initialCollateralNeeded'', TUint 256, False), (''tokenDecimals'', TUint
     8, False)]
     ERC20TokenHomeUpgradeableRemoteRegistered"
  "decodable [(''teleporterAddress'', TAddress, True)]
     ERC20TokenHomeUpgradeableTeleporterAddressPaused"
  "decodable [(''teleporterAddress'', TAddress, True)]
     ERC20TokenHomeUpgradeableTeleporterAddressUnpaused"
  "decodable [(''teleporterMessageID'', TBytes32, True), (''input'', SendAndCallInput_tuple,
     False), (''amount'', TUint 256, False)]
     ERC20TokenHomeUpgradeableTokensAndCallRouted"
  "decodable [(''teleporterMessageID'', TBytes32, True), (''sender'', TAddress, True),
     (''input'', SendAndCallInput_tuple, False), (''amount'', TUint 256, False)]
     ERC20TokenHomeUpgradeableTokensAndCallSent"
  "decodable [(''teleporterMessageID'', TBytes32, True), (''input'', SendTokensInput_tuple,
     False), (''amount'', TUint 256, False)]
     ERC20TokenHomeUpgradeableTokensRouted"
  "decodable [(''teleporterMessageID'', TBytes32, True), (''sender'', TAddress, True),
     (''input'', SendTokensInput_tuple, False), (''amount'', TUint 256, False)]
     ERC20TokenHomeUpgradeableTokensSent"
  "decodable [(''recipient'', TAddress, True), (''amount'', TUint 256, False)]
     ERC20TokenHomeUpgradeableTokensWithdrawn"
  by (simp_all add: decodable_def has_fields_def fits_def
     ERC20TokenHomeUpgradeableCallFailed_def ERC20TokenHomeUpgradeableCallSucceeded_def
     ERC20TokenHomeUpgradeableCollateralAdded_def ERC20TokenHomeUpgradeableInitialized_def
     ERC20TokenHomeUpgradeableMinTeleporterVersionUpdated_def
     ERC20TokenHomeUpgradeableOwnershipTransferred_def
     ERC20TokenHomeUpgradeableRemoteRegistered_def
     ERC20TokenHomeUpgradeableTeleporterAddressPaused_def
     ERC20TokenHomeUpgradeableTeleporterAddressUnpaused_def
     ERC20TokenHomeUpgradeableTokensAndCallRouted_def
     ERC20TokenHomeUpgradeableTokensAndCallSent_def ERC20TokenHomeUpgradeableTokensRouted_def
     ERC20TokenHomeUpgradeableTokensSent_def ERC20TokenHomeUpgradeableTokensWithdrawn_def
     SendAndCallInput_tuple_def SendTokensInput_tuple_def)

lemma ERC20TokenHomeUpgradeable_events:
  "map_of (Events ERC20TokenHomeUpgradeableABI) ''CallFailed'' =
     Some [(''recipientContract'', TAddress, True), (''amount'', TUint 256, False)]"
  "map_of (Events ERC20TokenHomeUpgradeableABI) ''CallSucceeded'' =
     Some [(''recipientContract'', TAddress, True), (''amount'', TUint 256, False)]"
  "map_of (Events ERC20TokenHomeUpgradeableABI) ''CollateralAdded'' =
     Some [(''remoteBlockchainID'', TBytes32, True), (''remoteTokenTransferrerAddress'',
        TAddress, True), (''amount'', TUint 256, False), (''remaining'', TUint 256, False)]"
  "map_of (Events ERC20TokenHomeUpgradeableABI) ''Initialized'' =
     Some [(''version'', TUint 64, False)]"
  "map_of (Events ERC20TokenHomeUpgradeableABI) ''MinTeleporterVersionUpdated'' =
     Some [(''oldMinTeleporterVersion'', TUint 256, True), (''newMinTeleporterVersion'', TUint
        256, True)]"
  "map_of (Events ERC20TokenHomeUpgradeableABI) ''OwnershipTransferred'' =
     Some [(''previousOwner'', TAddress, True), (''newOwner'', TAddress, True)]"
  "map_of (Events ERC20TokenHomeUpgradeableABI) ''RemoteRegistered'' =
     Some [(''remoteBlockchainID'', TBytes32, True), (''remoteTokenTransferrerAddress'',
        TAddress, True), (''initialCollateralNeeded'', TUint 256, False), (''tokenDecimals'',
        TUint 8, False)]"
  "map_of (Events ERC20TokenHomeUpgradeableABI) ''TeleporterAddressPaused'' =
     Some [(''teleporterAddress'', TAddress, True)]"
  "map_of (Events ERC20TokenHomeUpgradeableABI) ''TeleporterAddressUnpaused'' =
     Some [(''teleporterAddress'', TAddress, True)]"
  "map_of (Events ERC20TokenHomeUpgradeableABI) ''TokensAndCallRouted'' =
     Some [(''teleporterMessageID'', TBytes32, True), (''input'', SendAndCallInput_tuple,
        False), (''amount'', TUint 256, False)]"
  "map_of (Events ERC20TokenHomeUpgradeableABI) ''TokensAndCallSent'' =
     Some [(''teleporterMessageID'', TBytes32, True), (''sender'', TAddress, True), (''input'',
        SendAndCallInput_tuple, False), (''amount'', TUint 256, False)]"
  "map_of (Events ERC20TokenHomeUpgradeableABI) ''TokensRouted'' =
     Some [(''teleporterMessageID'', TBytes32, True), (''input'', SendTokensInput_tuple, False),
        (''amount'', TUint 256, False)]"
  "map_of (Events ERC20TokenHomeUpgradeableABI) ''TokensSent'' =
     Some [(''teleporterMessageID'', TBytes32, True), (''sender'', TAddress, True), (''input'',
        SendTokensInput_tuple, False), (''amount'', TUint 256, False)]"
  "map_of (Events ERC20TokenHomeUpgradeableABI) ''TokensWithdrawn'' =
     Some [(''recipient'', TAddress, True), (''amount'', TUint 256, False)]"
  unfolding ERC20TokenHomeUpgradeableABI_def contract_abi.select_convs
  by (simp_all only: table_lookup)

lemma ERC20TokenHomeUpgradeable_transactions_decode:
  assumes "codec_methods k" and "codec_roundtrip k" and "bound_spec k
     ERC20TokenHomeUpgradeableABI be c"
  shows "(\<forall>remoteBlockchainID remoteTokenTransferrerAddress amount. in_uint256 amount \<longrightarrow>
     sends_call k ERC20TokenHomeUpgradeableABI be opts ''addCollateral'' [GArr32
     remoteBlockchainID, GAddr remoteTokenTransferrerAddress, GBig amount]
       (ERC20TokenHomeUpgradeableTransactor_AddCollateral c opts remoteBlockchainID
          remoteTokenTransferrerAddress amount)) \<and>
     (\<forall>teleporterRegistryAddress teleporterManager minTeleporterVersion tokenAddress
        tokenDecimals. in_uint256 minTeleporterVersion \<longrightarrow> sends_call k
        ERC20TokenHomeUpgradeableABI be opts ''initialize'' [GAddr teleporterRegistryAddress,
        GAddr teleporterManager, GBig minTeleporterVersion, GAddr tokenAddress, GUint 8 (unat
        tokenDecimals)]
       (ERC20TokenHomeUpgradeableTransactor_Initialize c opts teleporterRegistryAddress
          teleporterManager minTeleporterVersion tokenAddress tokenDecimals)) \<and>
     (\<forall>teleporterAddress. sends_call k ERC20TokenHomeUpgradeableABI be opts
        ''pauseTeleporterAddress'' [GAddr teleporterAddress]
       (ERC20TokenHomeUpgradeableTransactor_PauseTeleporterAddress c opts teleporterAddress)) \<and>
     (\<forall>sourceBlockchainID originSenderAddress message. sends_call k ERC20TokenHomeUpgradeableABI
        be opts ''receiveTeleporterMessage'' [GArr32 sourceBlockchainID, GAddr
        originSenderAddress, GBytes message]
       (ERC20TokenHomeUpgradeableTransactor_ReceiveTeleporterMessage c opts sourceBlockchainID
          originSenderAddress message)) \<and>
     sends_call k ERC20TokenHomeUpgradeableABI be opts ''renounceOwnership'' []
       (ERC20TokenHomeUpgradeableTransactor_RenounceOwnership c opts) \<and>
     (\<forall>input_data amount. SendTokensInput_ok input_data \<longrightarrow> in_uint256 amount \<longrightarrow> sends_call k
        ERC20TokenHomeUpgradeableABI be opts ''send'' [SendTokensInput_val input_data, GBig
        amount]
       (ERC20TokenHomeUpgradeableTransactor_Send c opts input_data amount)) \<and>
     (\<forall>input_data amount. SendAndCallInput_ok input_data \<longrightarrow> in_uint256 amount \<longrightarrow> sends_call k
        ERC20TokenHomeUpgradeableABI be opts ''sendAndCall'' [SendAndCallInput_val input_data,
        GBig amount]
       (ERC20TokenHomeUpgradeableTransactor_SendAndCall c opts input_data amount)) \<and>
     (\<forall>newOwner. sends_call k ERC20TokenHomeUpgradeableABI be opts ''transferOwnership'' [GAddr
        newOwner]
       (ERC20TokenHomeUpgradeableTransactor_TransferOwnership c opts newOwner)) \<and>
     (\<forall>teleporterAddress. sends_call k ERC20TokenHomeUpgradeableABI be opts
        ''unpauseTeleporterAddress'' [GAddr teleporterAddress]
       (ERC20TokenHomeUpgradeableTransactor_UnpauseTeleporterAddress c opts teleporterAddress))
          \<and>
     (\<forall>version_number. in_uint256 version_number \<longrightarrow> sends_call k ERC20TokenHomeUpgradeableABI be
        opts ''updateMinTeleporterVersion'' [GBig version_number]
       (ERC20TokenHomeUpgradeableTransactor_UpdateMinTeleporterVersion c opts version_number))"
  unfolding ERC20TokenHomeUpgradeableTransactor_AddCollateral_def
     ERC20TokenHomeUpgradeableTransactor_Initialize_def
     ERC20TokenHomeUpgradeableTransactor_PauseTeleporterAddress_def
     ERC20TokenHomeUpgradeableTransactor_ReceiveTeleporterMessage_def
     ERC20TokenHomeUpgradeableTransactor_RenounceOwnership_def
     ERC20TokenHomeUpgradeableTransactor_Send_def
     ERC20TokenHomeUpgradeableTransactor_SendAndCall_def
     ERC20TokenHomeUpgradeableTransactor_TransferOwnership_def
     ERC20TokenHomeUpgradeableTransactor_UnpauseTeleporterAddress_def
     ERC20TokenHomeUpgradeableTransactor_UpdateMinTeleporterVersion_def
  by ((intro conjI allI impI)?; rule transact_sends [OF assms], rule
     ERC20TokenHomeUpgradeable_methods)
    (simp_all del: matches.simps(1))

lemma ERC20TokenHomeUpgradeable_calls_return_outputs:
  assumes "codec_methods k" and "codec_roundtrip k" and "bound_spec k
     ERC20TokenHomeUpgradeableABI be c"
  shows "(\<forall>r0. reads_call k ERC20TokenHomeUpgradeableABI be opts
     ''ERC20_TOKEN_HOME_STORAGE_LOCATION'' []
       [GArr32 r0] r0 (ERC20TokenHomeUpgradeableCaller_ERC20TOKENHOMESTORAGELOCATION c opts)) \<and>
     (\<forall>r0. reads_call k ERC20TokenHomeUpgradeableABI be opts
        ''TELEPORTER_REGISTRY_APP_STORAGE_LOCATION'' []
       [GArr32 r0] r0 (ERC20TokenHomeUpgradeableCaller_TELEPORTERREGISTRYAPPSTORAGELOCATION c
          opts)) \<and>
     (\<forall>r0. reads_call k ERC20TokenHomeUpgradeableABI be opts ''TOKEN_HOME_STORAGE_LOCATION'' []
       [GArr32 r0] r0 (ERC20TokenHomeUpgradeableCaller_TOKENHOMESTORAGELOCATION c opts)) \<and>
     (\<forall>r0. reads_call k ERC20TokenHomeUpgradeableABI be opts ''getBlockchainID'' []
       [GArr32 r0] r0 (ERC20TokenHomeUpgradeableCaller_GetBlockchainID c opts)) \<and>
     (\<forall>r0. in_uint256 r0 \<longrightarrow> reads_call k ERC20TokenHomeUpgradeableABI be opts
        ''getMinTeleporterVersion'' []
       [GBig r0] r0 (ERC20TokenHomeUpgradeableCaller_GetMinTeleporterVersion c opts)) \<and>
     (\<forall>remoteBlockchainID remoteTokenTransferrerAddress r0. RemoteTokenTransferrerSettings_ok r0
        \<longrightarrow> reads_call k ERC20TokenHomeUpgradeableABI be opts
        ''getRemoteTokenTransferrerSettings'' [GArr32 remoteBlockchainID, GAddr
        remoteTokenTransferrerAddress]
       [RemoteTokenTransferrerSettings_val r0] r0
          (ERC20TokenHomeUpgradeableCaller_GetRemoteTokenTransferrerSettings c opts
          remoteBlockchainID remoteTokenTransferrerAddress)) \<and>
     (\<forall>r0. reads_call k ERC20TokenHomeUpgradeableABI be opts ''getTokenAddress'' []
       [GAddr r0] r0 (ERC20TokenHomeUpgradeableCaller_GetTokenAddress c opts)) \<and>
     (\<forall>remoteBlockchainID remoteTokenTransferrerAddress r0. in_uint256 r0 \<longrightarrow> reads_call k
        ERC20TokenHomeUpgradeableABI be opts ''getTransferredBalance'' [GArr32
        remoteBlockchainID, GAddr remoteTokenTransferrerAddress]
       [GBig r0] r0 (ERC20TokenHomeUpgradeableCaller_GetTransferredBalance c opts
          remoteBlockchainID remoteTokenTransferrerAddress)) \<and>
     (\<forall>teleporterAddress r0. reads_call k ERC20TokenHomeUpgradeableABI be opts
        ''isTeleporterAddressPaused'' [GAddr teleporterAddress]
       [GBool r0] r0 (ERC20TokenHomeUpgradeableCaller_IsTeleporterAddressPaused c opts
          teleporterAddress)) \<and>
     (\<forall>r0. reads_call k ERC20TokenHomeUpgradeableABI be opts ''owner'' []
       [GAddr r0] r0 (ERC20TokenHomeUpgradeableCaller_Owner c opts))"
  unfolding ERC20TokenHomeUpgradeableCaller_ERC20TOKENHOMESTORAGELOCATION_def
     ERC20TokenHomeUpgradeableCaller_TELEPORTERREGISTRYAPPSTORAGELOCATION_def
     ERC20TokenHomeUpgradeableCaller_TOKENHOMESTORAGELOCATION_def
     ERC20TokenHomeUpgradeableCaller_GetBlockchainID_def
     ERC20TokenHomeUpgradeableCaller_GetMinTeleporterVersion_def
     ERC20TokenHomeUpgradeableCaller_GetRemoteTokenTransferrerSettings_def
     ERC20TokenHomeUpgradeableCaller_GetTokenAddress_def
     ERC20TokenHomeUpgradeableCaller_GetTransferredBalance_def
     ERC20TokenHomeUpgradeableCaller_IsTeleporterAddressPaused_def
     ERC20TokenHomeUpgradeableCaller_Owner_def
  by ((intro conjI allI impI)?; rule call_reads [OF assms], rule
     ERC20TokenHomeUpgradeable_methods)
    (simp_all del: matches.simps(1))

lemma ERC20TokenHomeUpgradeable_parsers_decode:
  assumes "codec_events k" and "event_ids k ERC20TokenHomeUpgradeableABI" and "bound_spec k
     ERC20TokenHomeUpgradeableABI be c"
  shows "parser_decodes k ERC20TokenHomeUpgradeableABI ''CallFailed''
     (ERC20TokenHomeUpgradeableFilterer_ParseCallFailed c) \<and>
     parser_decodes k ERC20TokenHomeUpgradeableABI ''CallSucceeded''
        (ERC20TokenHomeUpgradeableFilterer_ParseCallSucceeded c) \<and>
     parser_decodes k ERC20TokenHomeUpgradeableABI ''CollateralAdded''
        (ERC20TokenHomeUpgradeableFilterer_ParseCollateralAdded c) \<and>
     parser_decodes k ERC20TokenHomeUpgradeableABI ''Initialized''
        (ERC20TokenHomeUpgradeableFilterer_ParseInitialized c) \<and>
     parser_decodes k ERC20TokenHomeUpgradeableABI ''MinTeleporterVersionUpdated''
        (ERC20TokenHomeUpgradeableFilterer_ParseMinTeleporterVersionUpdated c) \<and>
     parser_decodes k ERC20TokenHomeUpgradeableABI ''OwnershipTransferred''
        (ERC20TokenHomeUpgradeableFilterer_ParseOwnershipTransferred c) \<and>
     parser_decodes k ERC20TokenHomeUpgradeableABI ''RemoteRegistered''
        (ERC20TokenHomeUpgradeableFilterer_ParseRemoteRegistered c) \<and>
     parser_decodes k ERC20TokenHomeUpgradeableABI ''TeleporterAddressPaused''
        (ERC20TokenHomeUpgradeableFilterer_ParseTeleporterAddressPaused c) \<and>
     parser_decodes k ERC20TokenHomeUpgradeableABI ''TeleporterAddressUnpaused''
        (ERC20TokenHomeUpgradeableFilterer_ParseTeleporterAddressUnpaused c) \<and>
     parser_decodes k ERC20TokenHomeUpgradeableABI ''TokensAndCallRouted''
        (ERC20TokenHomeUpgradeableFilterer_ParseTokensAndCallRouted c) \<and>
     parser_decodes k ERC20TokenHomeUpgradeableABI ''TokensAndCallSent''
        (ERC20TokenHomeUpgradeableFilterer_ParseTokensAndCallSent c) \<and>
     parser_decodes k ERC20TokenHomeUpgradeableABI ''TokensRouted''
        (ERC20TokenHomeUpgradeableFilterer_ParseTokensRouted c) \<and>
     parser_decodes k ERC20TokenHomeUpgradeableABI ''TokensSent''
        (ERC20TokenHomeUpgradeableFilterer_ParseTokensSent c) \<and>
     parser_decodes k ERC20TokenHomeUpgradeableABI ''TokensWithdrawn''
        (ERC20TokenHomeUpgradeableFilterer_ParseTokensWithdrawn c)"
proof -
  note parses = parse_log_decodes [OF assms]
  show ?thesis
    unfolding ERC20TokenHomeUpgradeableFilterer_ParseCallFailed_def
       ERC20TokenHomeUpgradeableFilterer_ParseCallSucceeded_def
       ERC20TokenHomeUpgradeableFilterer_ParseCollateralAdded_def
       ERC20TokenHomeUpgradeableFilterer_ParseInitialized_def
       ERC20TokenHomeUpgradeableFilterer_ParseMinTeleporterVersionUpdated_def
       ERC20TokenHomeUpgradeableFilterer_ParseOwnershipTransferred_def
       ERC20TokenHomeUpgradeableFilterer_ParseRemoteRegistered_def
       ERC20TokenHomeUpgradeableFilterer_ParseTeleporterAddressPaused_def
       ERC20TokenHomeUpgradeableFilterer_ParseTeleporterAddressUnpaused_def
       ERC20TokenHomeUpgradeableFilterer_ParseTokensAndCallRouted_def
       ERC20TokenHomeUpgradeableFilterer_ParseTokensAndCallSent_def
       ERC20TokenHomeUpgradeableFilterer_ParseTokensRouted_def
       ERC20TokenHomeUpgradeableFilterer_ParseTokensSent_def
       ERC20TokenHomeUpgradeableFilterer_ParseTokensWithdrawn_def
    by ((intro conjI)?; rule parses, rule ERC20TokenHomeUpgradeable_events, rule
       ERC20TokenHomeUpgradeable_decodable)
qed

end
