(* ===== verification/NativeTokenHomeUpgradeableBinding.thy ===== *)
theory NativeTokenHomeUpgradeableBinding
  imports IcttStructs AbiRef
begin

text \<open>
  The generated binding \<open>abi-bindings/go/ictt/TokenHome/NativeTokenHomeUpgradeable/NativeTokenHomeUpgradeable.go\<close> over the generic
  definitions of theory \<open>Binding\<close>: its ABI, every method with its session wrappers, every event with
  its iterator, filter, watch and parser. The bytecode is a parameter of deployment; the aliases
  \<open>Raw\<close> of the untyped calls are not modelled.
\<close>

section \<open>The contract's ABI (NativeTokenHomeUpgradeableMetaData)\<close>

definition NativeTokenHomeUpgradeableABI :: contract_abi where
  "NativeTokenHomeUpgradeableABI = \<lparr>
      Methods = [
        (''NATIVE_TOKEN_HOME_STORAGE_LOCATION'', [],
           [('''', TBytes32)]),
        (''TELEPORTER_REGISTRY_APP_STORAGE_LOCATION'', [],
           [('''', TBytes32)]),
        (''TOKEN_HOME_STORAGE_LOCATION'', [],
           [('''', TBytes32)]),
        (''addCollateral'', [(''remoteBlockchainID'', TBytes32),
           (''remoteTokenTransferrerAddress'', TAddress)],
           []),
        (''getBlockchainID'', [],
           [('''', TBytes32)]),
        (''getMinTeleporterVersion'', [],
           [('''', TUint 256)]),
        (''getRemoteTokenTransferrerSettings'', [(''remoteBlockchainID'', TBytes32),
           (''remoteTokenTransferrerAddress'', TAddress)],
           [('''', RemoteTokenTransferrerSettings_tuple)]),
        (''getTokenAddress'', [],
           [('''', TAddress)]),
        (''getTransferredBalance'', [(''remoteBlockchainID'', TBytes32),
           (''remoteTokenTransferrerAddress'', TAddress)],
           [('''', TUint 256)]),
        (''initialize'', [(''teleporterRegistryAddress'', TAddress), (''teleporterManager'',
           TAddress), (''minTeleporterVersion'', TUint 256), (''wrappedTokenAddress'',
           TAddress)],
           []),
        (''isTeleporterAddressPaused'', [(''teleporterAddress'', TAddress)],
           [('''', TBool)]),
        (''owner'', [],
           [('''', TAddress)]),
        (''pauseTeleporterAddress'', [(''teleporterAddress'', TAddress)],
           []),
        (''receiveTeleporterMessage'', [(''sourceBlockchainID'', TBytes32),
           (''originSenderAddress'', TAddress), (''message'', TBytes)],
           []),
        (''renounceOwnership'', [],
           []),
        (''send'', [(''input'', SendTokensInput_tuple)],
           []),
        (''sendAndCall'', [(''input'', SendAndCallInput_tuple)],
           []),
        (''transferOwnership'', [(''newOwner'', TAddress)],
           []),
        (''unpauseTeleporterAddress'', [(''teleporterAddress'', TAddress)],
           []),
        (''updateMinTeleporterVersion'', [(''version'', TUint 256)],
           [])],
      Events = [
        (''CallFailed'', [(''recipientContract'', TAddress, True), (''amount'', TUint 256,
           False)]),
        (''CallSucceeded'', [(''recipientContract'', TAddress, True), (''amount'', TUint 256,
           False)]),
        (''CollateralAdded'', [(''remoteBlockchainID'', TBytes32, True),
           (''remoteTokenTransferrerAddress'', TAddress, True), (''amount'', TUint 256, False),
           (''remaining'', TUint 256, False)]),
        (''Initialized'', [(''version'', TUint 64, False)]),
        (''MinTeleporterVersionUpdated'', [(''oldMinTeleporterVersion'', TUint 256, True),
           (''newMinTeleporterVersion'', TUint 256, True)]),
        (''OwnershipTransferred'', [(''previousOwner'', TAddress, True), (''newOwner'',
           TAddress, True)]),
        (''RemoteRegistered'', [(''remoteBlockchainID'', TBytes32, True),
           (''remoteTokenTransferrerAddress'', TAddress, True), (''initialCollateralNeeded'',
           TUint 256, False), (''tokenDecimals'', TUint 8, False)]),
        (''TeleporterAddressPaused'', [(''teleporterAddress'', TAddress, True)]),
        (''TeleporterAddressUnpaused'', [(''teleporterAddress'', TAddress, True)]),
        (''TokensAndCallRouted'', [(''teleporterMessageID'', TBytes32, True), (''input'',
           SendAndCallInput_tuple, False), (''amount'', TUint 256, False)]),
        (''TokensAndCallSent'', [(''teleporterMessageID'', TBytes32, True), (''sender'',
           TAddress, True), (''input'', SendAndCallInput_tuple, False), (''amount'', TUint 256,
           False)]),
        (''TokensRouted'', [(''teleporterMessageID'', TBytes32, True), (''input'',
           SendTokensInput_tuple, False), (''amount'', TUint 256, False)]),
        (''TokensSent'', [(''teleporterMessageID'', TBytes32, True), (''sender'', TAddress,
           True), (''input'', SendTokensInput_tuple, False), (''amount'', TUint 256, False)]),
        (''TokensWithdrawn'', [(''recipient'', TAddress, True), (''amount'', TUint 256,
           False)])]\<rparr>"

section \<open>Binding and deployment\<close>

definition bindNativeTokenHomeUpgradeable :: "'w bind_lib \<Rightarrow> address \<Rightarrow> goerr + 'w bound_contract"
   where
  "bindNativeTokenHomeUpgradeable lib addr = bind_contract lib NativeTokenHomeUpgradeableABI
     addr"

definition NewNativeTokenHomeUpgradeable :: "'w bind_lib \<Rightarrow> address \<Rightarrow> goerr + 'w bound_contract"
   where
  "NewNativeTokenHomeUpgradeable lib addr = bindNativeTokenHomeUpgradeable lib addr"

definition DeployNativeTokenHomeUpgradeable ::
  "'w bind_lib \<Rightarrow> string \<Rightarrow> TransactOpts \<Rightarrow> u8 \<Rightarrow> 
   ('w, goerr + address \<times> hash \<times> 'w bound_contract) prog" where
  "DeployNativeTokenHomeUpgradeable lib bin auth init_mode = deploy_contract lib auth
     NativeTokenHomeUpgradeableABI bin [GUint 8 (unat init_mode)]"

section \<open>Methods\<close>

definition NativeTokenHomeUpgradeableCaller_NATIVETOKENHOMESTORAGELOCATION ::
  "'w bound_contract \<Rightarrow> CallOpts \<Rightarrow> ('w, goerr + hash) prog" where
  "NativeTokenHomeUpgradeableCaller_NATIVETOKENHOMESTORAGELOCATION c opts =
     call_method c opts ''NATIVE_TOKEN_HOME_STORAGE_LOCATION'' [] (out1 go_arr32)"

definition NativeTokenHomeUpgradeableSession_NATIVETOKENHOMESTORAGELOCATION ::
  "'w session \<Rightarrow> ('w, goerr + hash) prog" where
  "NativeTokenHomeUpgradeableSession_NATIVETOKENHOMESTORAGELOCATION s =
     NativeTokenHomeUpgradeableCaller_NATIVETOKENHOMESTORAGELOCATION (SessionContract s)
     (SessionCallOpts s)"

definition NativeTokenHomeUpgradeableCaller_TELEPORTERREGISTRYAPPSTORAGELOCATION ::
  "'w bound_contract \<Rightarrow> CallOpts \<Rightarrow> ('w, goerr + hash) prog" where
  "NativeTokenHomeUpgradeableCaller_TELEPORTERREGISTRYAPPSTORAGELOCATION c opts =
     call_method c opts ''TELEPORTER_REGISTRY_APP_STORAGE_LOCATION'' [] (out1 go_arr32)"

definition NativeTokenHomeUpgradeableSession_TELEPORTERREGISTRYAPPSTORAGELOCATION ::
  "'w session \<Rightarrow> ('w, goerr + hash) prog" where
  "NativeTokenHomeUpgradeableSession_TELEPORTERREGISTRYAPPSTORAGELOCATION s =
     NativeTokenHomeUpgradeableCaller_TELEPORTERREGISTRYAPPSTORAGELOCATION (SessionContract s)
     (SessionCallOpts s)"

definition NativeTokenHomeUpgradeableCaller_TOKENHOMESTORAGELOCATION ::
  "'w bound_contract \<Rightarrow> CallOpts \<Rightarrow> ('w, goerr + hash) prog" where
  "NativeTokenHomeUpgradeableCaller_TOKENHOMESTORAGELOCATION c opts =
     call_method c opts ''TOKEN_HOME_STORAGE_LOCATION'' [] (out1 go_arr32)"

definition NativeTokenHomeUpgradeableSession_TOKENHOMESTORAGELOCATION ::
  "'w session \<Rightarrow> ('w, goerr + hash) prog" where
  "NativeTokenHomeUpgradeableSession_TOKENHOMESTORAGELOCATION s =
     NativeTokenHomeUpgradeableCaller_TOKENHOMESTORAGELOCATION (SessionContract s)
     (SessionCallOpts s)"

definition NativeTokenHomeUpgradeableTransactor_AddCollateral ::
  "'w bound_contract \<Rightarrow> TransactOpts \<Rightarrow> hash \<Rightarrow> address \<Rightarrow> ('w, goerr + hash) prog" where
  "NativeTokenHomeUpgradeableTransactor_AddCollateral c opts remoteBlockchainID
     remoteTokenTransferrerAddress =
     contract_transact c opts ''addCollateral'' [GArr32 remoteBlockchainID, GAddr
        remoteTokenTransferrerAddress]"

definition NativeTokenHomeUpgradeableSession_AddCollateral ::
  "'w session \<Rightarrow> hash \<Rightarrow> address \<Rightarrow> ('w, goerr + hash) prog" where
  "NativeTokenHomeUpgradeableSession_AddCollateral s remoteBlockchainID
     remoteTokenTransferrerAddress = NativeTokenHomeUpgradeableTransactor_AddCollateral
     (SessionContract s) (SessionTransactOpts s) remoteBlockchainID
     remoteTokenTransferrerAddress"

definition NativeTokenHomeUpgradeableCaller_GetBlockchainID ::
  "'w bound_contract \<Rightarrow> CallOpts \<Rightarrow> ('w, goerr + hash) prog" where
  "NativeTokenHomeUpgradeableCaller_GetBlockchainID c opts =
     call_method c opts ''getBlockchainID'' [] (out1 go_arr32)"

definition NativeTokenHomeUpgradeableSession_GetBlockchainID ::
  "'w session \<Rightarrow> ('w, goerr + hash) prog" where
  "NativeTokenHomeUpgradeableSession_GetBlockchainID s =
     NativeTokenHomeUpgradeableCaller_GetBlockchainID (SessionContract s) (SessionCallOpts s)"

definition NativeTokenHomeUpgradeableCaller_GetMinTeleporterVersion ::
  "'w bound_contract \<Rightarrow> CallOpts \<Rightarrow> ('w, goerr + int) prog" where
  "NativeTokenHomeUpgradeableCaller_GetMinTeleporterVersion c opts =
     call_method c opts ''getMinTeleporterVersion'' [] (out1 go_big)"

definition NativeTokenHomeUpgradeableSession_GetMinTeleporterVersion ::
  "'w session \<Rightarrow> ('w, goerr + int) prog" where
  "NativeTokenHomeUpgradeableSession_GetMinTeleporterVersion s =
     NativeTokenHomeUpgradeableCaller_GetMinTeleporterVersion (SessionContract s)
     (SessionCallOpts s)"

definition NativeTokenHomeUpgradeableCaller_GetRemoteTokenTransferrerSettings ::
  "'w bound_contract \<Rightarrow> CallOpts \<Rightarrow> hash \<Rightarrow> address \<Rightarrow> ('w, goerr + RemoteTokenTransferrerSettings)
     prog" where
  "NativeTokenHomeUpgradeableCaller_GetRemoteTokenTransferrerSettings c opts remoteBlockchainID
     remoteTokenTransferrerAddress =
     call_method c opts ''getRemoteTokenTransferrerSettings'' [GArr32 remoteBlockchainID, GAddr
        remoteTokenTransferrerAddress] (out1 RemoteTokenTransferrerSettings_of)"

definition NativeTokenHomeUpgradeableSession_GetRemoteTokenTransferrerSettings ::
  "'w session \<Rightarrow> hash \<Rightarrow> address \<Rightarrow> ('w, goerr + RemoteTokenTransferrerSettings) prog" where
  "NativeTokenHomeUpgradeableSession_GetRemoteTokenTransferrerSettings s remoteBlockchainID
     remoteTokenTransferrerAddress =
     NativeTokenHomeUpgradeableCaller_GetRemoteTokenTransferrerSettings (SessionContract s)
     (SessionCallOpts s) remoteBlockchainID remoteTokenTransferrerAddress"

definition NativeTokenHomeUpgradeableCaller_GetTokenAddress ::
  "'w bound_contract \<Rightarrow> CallOpts \<Rightarrow> ('w, goerr + address) prog" where
  "NativeTokenHomeUpgradeableCaller_GetTokenAddress c opts =
     call_method c opts ''getTokenAddress'' [] (out1 go_addr)"

definition NativeTokenHomeUpgradeableSession_GetTokenAddress ::
  "'w session \<Rightarrow> ('w, goerr + address) prog" where
  "NativeTokenHomeUpgradeableSession_GetTokenAddress s =
     NativeTokenHomeUpgradeableCaller_GetTokenAddress (SessionContract s) (SessionCallOpts s)"

definition NativeTokenHomeUpgradeableCaller_GetTransferredBalance ::
  "'w bound_contract \<Rightarrow> CallOpts \<Rightarrow> hash \<Rightarrow> address \<Rightarrow> ('w, goerr + int) prog" where
  "NativeTokenHomeUpgradeableCaller_GetTransferredBalance c opts remoteBlockchainID
     remoteTokenTransferrerAddress =
     call_method c opts ''getTransferredBalance'' [GArr32 remoteBlockchainID, GAddr
        remoteTokenTransferrerAddress] (out1 go_big)"

definition NativeTokenHomeUpgradeableSession_GetTransferredBalance ::
  "'w session \<Rightarrow> hash \<Rightarrow> address \<Rightarrow> ('w, goerr + int) prog" where
  "NativeTokenHomeUpgradeableSession_GetTransferredBalance s remoteBlockchainID
     remoteTokenTransferrerAddress = NativeTokenHomeUpgradeableCaller_GetTransferredBalance
     (SessionContract s) (SessionCallOpts s) remoteBlockchainID remoteTokenTransferrerAddress"

definition NativeTokenHomeUpgradeableTransactor_Initialize ::
  "'w bound_contract \<Rightarrow> TransactOpts \<Rightarrow> address \<Rightarrow> address \<Rightarrow> int \<Rightarrow> address \<Rightarrow> ('w, goerr + hash)
     prog" where
  "NativeTokenHomeUpgradeableTransactor_Initialize c opts teleporterRegistryAddress
     teleporterManager minTeleporterVersion wrappedTokenAddress =
     contract_transact c opts ''initialize'' [GAddr teleporterRegistryAddress, GAddr
        teleporterManager, GBig minTeleporterVersion, GAddr wrappedTokenAddress]"

definition NativeTokenHomeUpgradeableSession_Initialize ::
  "'w session \<Rightarrow> address \<Rightarrow> address \<Rightarrow> int \<Rightarrow> address \<Rightarrow> ('w, goerr + hash) prog" where
  "NativeTokenHomeUpgradeableSession_Initialize s teleporterRegistryAddress teleporterManager
     minTeleporterVersion wrappedTokenAddress = NativeTokenHomeUpgradeableTransactor_Initialize
     (SessionContract s) (SessionTransactOpts s) teleporterRegistryAddress teleporterManager
     minTeleporterVersion wrappedTokenAddress"

definition NativeTokenHomeUpgradeableCaller_IsTeleporterAddressPaused ::
  "'w bound_contract \<Rightarrow> CallOpts \<Rightarrow> address \<Rightarrow> ('w, goerr + bool) prog" where
  "NativeTokenHomeUpgradeableCaller_IsTeleporterAddressPaused c opts teleporterAddress =
     call_method c opts ''isTeleporterAddressPaused'' [GAddr teleporterAddress] (out1 go_bool)"

definition NativeTokenHomeUpgradeableSession_IsTeleporterAddressPaused ::
  "'w session \<Rightarrow> address \<Rightarrow> ('w, goerr + bool) prog" where
  "NativeTokenHomeUpgradeableSession_IsTeleporterAddressPaused s teleporterAddress =
     NativeTokenHomeUpgradeableCaller_IsTeleporterAddressPaused (SessionContract s)
     (SessionCallOpts s) teleporterAddress"

definition NativeTokenHomeUpgradeableCaller_Owner ::
  "'w bound_contract \<Rightarrow> CallOpts \<Rightarrow> ('w, goerr + address) prog" where
  "NativeTokenHomeUpgradeableCaller_Owner c opts =
     call_method c opts ''owner'' [] (out1 go_addr)"

definition NativeTokenHomeUpgradeableSession_Owner ::
  "'w session \<Rightarrow> ('w, goerr + address) prog" where
  "NativeTokenHomeUpgradeableSession_Owner s = NativeTokenHomeUpgradeableCaller_Owner
     (SessionContract s) (SessionCallOpts s)"

definition NativeTokenHomeUpgradeableTransactor_PauseTeleporterAddress ::
  "'w bound_contract \<Rightarrow> TransactOpts \<Rightarrow> address \<Rightarrow> ('w, goerr + hash) prog" where
  "NativeTokenHomeUpgradeableTransactor_PauseTeleporterAddress c opts teleporterAddress =
     contract_transact c opts ''pauseTeleporterAddress'' [GAddr teleporterAddress]"

definition NativeTokenHomeUpgradeableSession_PauseTeleporterAddress ::
  "'w session \<Rightarrow> address \<Rightarrow> ('w, goerr + hash) prog" where
  "NativeTokenHomeUpgradeableSession_PauseTeleporterAddress s teleporterAddress =
     NativeTokenHomeUpgradeableTransactor_PauseTeleporterAddress (SessionContract s)
     (SessionTransactOpts s) teleporterAddress"

definition NativeTokenHomeUpgradeableTransactor_ReceiveTeleporterMessage ::
  "'w bound_contract \<Rightarrow> TransactOpts \<Rightarrow> hash \<Rightarrow> address \<Rightarrow> bytes \<Rightarrow> ('w, goerr + hash) prog" where
  "NativeTokenHomeUpgradeableTransactor_ReceiveTeleporterMessage c opts sourceBlockchainID
     originSenderAddress message =
     contract_transact c opts ''receiveTeleporterMessage'' [GArr32 sourceBlockchainID, GAddr
        originSenderAddress, GBytes message]"

definition NativeTokenHomeUpgradeableSession_ReceiveTeleporterMessage ::
  "'w session \<Rightarrow> hash \<Rightarrow> address \<Rightarrow> bytes \<Rightarrow> ('w, goerr + hash) prog" where
  "NativeTokenHomeUpgradeableSession_ReceiveTeleporterMessage s sourceBlockchainID
     originSenderAddress message = NativeTokenHomeUpgradeableTransactor_ReceiveTeleporterMessage
     (SessionContract s) (SessionTransactOpts s) sourceBlockchainID originSenderAddress message"

definition NativeTokenHomeUpgradeableTransactor_RenounceOwnership ::
  "'w bound_contract \<Rightarrow> TransactOpts \<Rightarrow> ('w, goerr + hash) prog" where
  "NativeTokenHomeUpgradeableTransactor_RenounceOwnership c opts =
     contract_transact c opts ''renounceOwnership'' []"

definition NativeTokenHomeUpgradeableSession_RenounceOwnership ::
  "'w session \<Rightarrow> ('w, goerr + hash) prog" where
  "NativeTokenHomeUpgradeableSession_RenounceOwnership s =
     NativeTokenHomeUpgradeableTransactor_RenounceOwnership (SessionContract s)
     (SessionTransactOpts s)"

definition NativeTokenHomeUpgradeableTransactor_Send ::
  "'w bound_contract \<Rightarrow> TransactOpts \<Rightarrow> SendTokensInput \<Rightarrow> ('w, goerr + hash) prog" where
  "NativeTokenHomeUpgradeableTransactor_Send c opts input_data =
     contract_transact c opts ''send'' [SendTokensInput_val input_data]"

definition NativeTokenHomeUpgradeableSession_Send ::
  "'w session \<Rightarrow> SendTokensInput \<Rightarrow> ('w, goerr + hash) prog" where
  "NativeTokenHomeUpgradeableSession_Send s input_data =
     NativeTokenHomeUpgradeableTransactor_Send (SessionContract s) (SessionTransactOpts s)
     input_data"

definition NativeTokenHomeUpgradeableTransactor_SendAndCall ::
  "'w bound_contract \<Rightarrow> TransactOpts \<Rightarrow> SendAndCallInput \<Rightarrow> ('w, goerr + hash) prog" where
  "NativeTokenHomeUpgradeableTransactor_SendAndCall c opts input_data =
     contract_transact c opts ''sendAndCall'' [SendAndCallInput_val input_data]"

definition NativeTokenHomeUpgradeableSession_SendAndCall ::
  "'w session \<Rightarrow> SendAndCallInput \<Rightarrow> ('w, goerr + hash) prog" where
  "NativeTokenHomeUpgradeableSession_SendAndCall s input_data =
     NativeTokenHomeUpgradeableTransactor_SendAndCall (SessionContract s) (SessionTransactOpts
     s) input_data"

definition NativeTokenHomeUpgradeableTransactor_TransferOwnership ::
  "'w bound_contract \<Rightarrow> TransactOpts \<Rightarrow> address \<Rightarrow> ('w, goerr + hash) prog" where
  "NativeTokenHomeUpgradeableTransactor_TransferOwnership c opts newOwner =
     contract_transact c opts ''transferOwnership'' [GAddr newOwner]"

definition NativeTokenHomeUpgradeableSession_TransferOwnership ::
  "'w session \<Rightarrow> address \<Rightarrow> ('w, goerr + hash) prog" where
  "NativeTokenHomeUpgradeableSession_TransferOwnership s newOwner =
     NativeTokenHomeUpgradeableTransactor_TransferOwnership (SessionContract s)
     (SessionTransactOpts s) newOwner"

definition NativeTokenHomeUpgradeableTransactor_UnpauseTeleporterAddress ::
  "'w bound_contract \<Rightarrow> TransactOpts \<Rightarrow> address \<Rightarrow> ('w, goerr + hash) prog" where
  "NativeTokenHomeUpgradeableTransactor_UnpauseTeleporterAddress c opts teleporterAddress =
     contract_transact c opts ''unpauseTeleporterAddress'' [GAddr teleporterAddress]"

definition NativeTokenHomeUpgradeableSession_UnpauseTeleporterAddress ::
  "'w session \<Rightarrow> address \<Rightarrow> ('w, goerr + hash) prog" where
  "NativeTokenHomeUpgradeableSession_UnpauseTeleporterAddress s teleporterAddress =
     NativeTokenHomeUpgradeableTransactor_UnpauseTeleporterAddress (SessionContract s)
     (SessionTransactOpts s) teleporterAddress"

definition NativeTokenHomeUpgradeableTransactor_UpdateMinTeleporterVersion ::
  "'w bound_contract \<Rightarrow> TransactOpts \<Rightarrow> int \<Rightarrow> ('w, goerr + hash) prog" where
  "NativeTokenHomeUpgradeableTransactor_UpdateMinTeleporterVersion c opts version_number =
     contract_transact c opts ''updateMinTeleporterVersion'' [GBig version_number]"

definition NativeTokenHomeUpgradeableSession_UpdateMinTeleporterVersion ::
  "'w session \<Rightarrow> int \<Rightarrow> ('w, goerr + hash) prog" where
  "NativeTokenHomeUpgradeableSession_UpdateMinTeleporterVersion s version_number =
     NativeTokenHomeUpgradeableTransactor_UpdateMinTeleporterVersion (SessionContract s)
     (SessionTransactOpts s) version_number"

definition NativeTokenHomeUpgradeableTransactor_Receive :: "'w bound_contract \<Rightarrow> TransactOpts \<Rightarrow>
   ('w, goerr + hash) prog" where
  "NativeTokenHomeUpgradeableTransactor_Receive c opts = contract_raw_transact c opts []"

definition NativeTokenHomeUpgradeableSession_Receive :: "'w session \<Rightarrow> ('w, goerr + hash) prog"
   where
  "NativeTokenHomeUpgradeableSession_Receive s = NativeTokenHomeUpgradeableTransactor_Receive
     (SessionContract s) (SessionTransactOpts s)"

section \<open>Events\<close>

definition NativeTokenHomeUpgradeableCallFailed :: event_fields where
  "NativeTokenHomeUpgradeableCallFailed = [(''RecipientContract'', GAddr 0), (''Amount'', GNil),
     (''Raw'', zero_Log)]"

definition NativeTokenHomeUpgradeableCallFailedIterator_Next ::
  "'w bound_contract \<Rightarrow> bool \<Rightarrow> iterator \<Rightarrow> (bool \<times> iterator) option" where
  "NativeTokenHomeUpgradeableCallFailedIterator_Next c pick it = iterator_Next (parse_log c
     ''CallFailed'' NativeTokenHomeUpgradeableCallFailed) NativeTokenHomeUpgradeableCallFailed
     pick it"

definition NativeTokenHomeUpgradeableCallFailedIterator_Error :: "iterator \<Rightarrow> goerr option" where
  "NativeTokenHomeUpgradeableCallFailedIterator_Error it = iterator_Error it"

definition NativeTokenHomeUpgradeableCallFailedIterator_Close :: "iterator \<Rightarrow> goerr option \<times>
   iterator" where
  "NativeTokenHomeUpgradeableCallFailedIterator_Close it = iterator_Close it"

definition NativeTokenHomeUpgradeableFilterer_FilterCallFailed ::
  "'w bound_contract \<Rightarrow> FilterOpts \<Rightarrow> address list \<Rightarrow> ('w, goerr + iterator) prog" where
  "NativeTokenHomeUpgradeableFilterer_FilterCallFailed c opts recipientContract =
     filter_events c opts ''CallFailed'' [map GAddr recipientContract]"

definition NativeTokenHomeUpgradeableFilterer_WatchCallFailed ::
  "'w bound_contract \<Rightarrow> address list \<Rightarrow> ('w, goerr + (evm_log \<Rightarrow> goerr + event_fields)) prog" where
  "NativeTokenHomeUpgradeableFilterer_WatchCallFailed c recipientContract =
     watch_events c ''CallFailed'' NativeTokenHomeUpgradeableCallFailed [map GAddr
        recipientContract]"

definition NativeTokenHomeUpgradeableFilterer_ParseCallFailed ::
  "'w bound_contract \<Rightarrow> evm_log \<Rightarrow> goerr + event_fields" where
  "NativeTokenHomeUpgradeableFilterer_ParseCallFailed c = parse_log c ''CallFailed''
     NativeTokenHomeUpgradeableCallFailed"

definition NativeTokenHomeUpgradeableCallSucceeded :: event_fields where
  "NativeTokenHomeUpgradeableCallSucceeded = [(''RecipientContract'', GAddr 0), (''Amount'',
     GNil), (''Raw'', zero_Log)]"

definition NativeTokenHomeUpgradeableCallSucceededIterator_Next ::
  "'w bound_contract \<Rightarrow> bool \<Rightarrow> iterator \<Rightarrow> (bool \<times> iterator) option" where
  "NativeTokenHomeUpgradeableCallSucceededIterator_Next c pick it = iterator_Next (parse_log c
     ''CallSucceeded'' NativeTokenHomeUpgradeableCallSucceeded)
     NativeTokenHomeUpgradeableCallSucceeded pick it"

definition NativeTokenHomeUpgradeableCallSucceededIterator_Error :: "iterator \<Rightarrow> goerr option"
   where
  "NativeTokenHomeUpgradeableCallSucceededIterator_Error it = iterator_Error it"

definition NativeTokenHomeUpgradeableCallSucceededIterator_Close :: "iterator \<Rightarrow> goerr option \<times>
   iterator" where
  "NativeTokenHomeUpgradeableCallSucceededIterator_Close it = iterator_Close it"

definition NativeTokenHomeUpgradeableFilterer_FilterCallSucceeded ::
  "'w bound_contract \<Rightarrow> FilterOpts \<Rightarrow> address list \<Rightarrow> ('w, goerr + iterator) prog" where
  "NativeTokenHomeUpgradeableFilterer_FilterCallSucceeded c opts recipientContract =
     filter_events c opts ''CallSucceeded'' [map GAddr recipientContract]"

definition NativeTokenHomeUpgradeableFilterer_WatchCallSucceeded ::
  "'w bound_contract \<Rightarrow> address list \<Rightarrow> ('w, goerr + (evm_log \<Rightarrow> goerr + event_fields)) prog" where
  "NativeTokenHomeUpgradeableFilterer_WatchCallSucceeded c recipientContract =
     watch_events c ''CallSucceeded'' NativeTokenHomeUpgradeableCallSucceeded [map GAddr
        recipientContract]"

definition NativeTokenHomeUpgradeableFilterer_ParseCallSucceeded ::
  "'w bound_contract \<Rightarrow> evm_log \<Rightarrow> goerr + event_fields" where
  "NativeTokenHomeUpgradeableFilterer_ParseCallSucceeded c = parse_log c ''CallSucceeded''
     NativeTokenHomeUpgradeableCallSucceeded"

definition NativeTokenHomeUpgradeableCollateralAdded :: event_fields where
  "NativeTokenHomeUpgradeableCollateralAdded = [(''RemoteBlockchainID'', GArr32 0),
     (''RemoteTokenTransferrerAddress'', GAddr 0), (''Amount'', GNil), (''Remaining'', GNil),
     (''Raw'', zero_Log)]"

definition NativeTokenHomeUpgradeableCollateralAddedIterator_Next ::
  "'w bound_contract \<Rightarrow> bool \<Rightarrow> iterator \<Rightarrow> (bool \<times> iterator) option" where
  "NativeTokenHomeUpgradeableCollateralAddedIterator_Next c pick it = iterator_Next (parse_log c
     ''CollateralAdded'' NativeTokenHomeUpgradeableCollateralAdded)
     NativeTokenHomeUpgradeableCollateralAdded pick it"

definition NativeTokenHomeUpgradeableCollateralAddedIterator_Error :: "iterator \<Rightarrow> goerr option"
   where
  "NativeTokenHomeUpgradeableCollateralAddedIterator_Error it = iterator_Error it"

definition NativeTokenHomeUpgradeableCollateralAddedIterator_Close :: "iterator \<Rightarrow> goerr option \<times>
   iterator" where
  "NativeTokenHomeUpgradeableCollateralAddedIterator_Close it = iterator_Close it"

definition NativeTokenHomeUpgradeableFilterer_FilterCollateralAdded ::
  "'w bound_contract \<Rightarrow> FilterOpts \<Rightarrow> hash list \<Rightarrow> address list \<Rightarrow> ('w, goerr + iterator) prog"
     where
  "NativeTokenHomeUpgradeableFilterer_FilterCollateralAdded c opts remoteBlockchainID
     remoteTokenTransferrerAddress =
     filter_events c opts ''CollateralAdded'' [map GArr32 remoteBlockchainID, map GAddr
        remoteTokenTransferrerAddress]"

definition NativeTokenHomeUpgradeableFilterer_WatchCollateralAdded ::
  "'w bound_contract \<Rightarrow> hash list \<Rightarrow> address list \<Rightarrow> ('w, goerr + (evm_log \<Rightarrow> goerr + event_fields))
     prog" where
  "NativeTokenHomeUpgradeableFilterer_WatchCollateralAdded c remoteBlockchainID
     remoteTokenTransferrerAddress =
     watch_events c ''CollateralAdded'' NativeTokenHomeUpgradeableCollateralAdded [map GArr32
        remoteBlockchainID, map GAddr remoteTokenTransferrerAddress]"

definition NativeTokenHomeUpgradeableFilterer_ParseCollateralAdded ::
  "'w bound_contract \<Rightarrow> evm_log \<Rightarrow> goerr + event_fields" where
  "NativeTokenHomeUpgradeableFilterer_ParseCollateralAdded c = parse_log c ''CollateralAdded''
     NativeTokenHomeUpgradeableCollateralAdded"

definition NativeTokenHomeUpgradeableInitialized :: event_fields where
  "NativeTokenHomeUpgradeableInitialized = [(''Version'', GUint 64 0), (''Raw'', zero_Log)]"

definition NativeTokenHomeUpgradeableInitializedIterator_Next ::
  "'w bound_contract \<Rightarrow> bool \<Rightarrow> iterator \<Rightarrow> (bool \<times> iterator) option" where
  "NativeTokenHomeUpgradeableInitializedIterator_Next c pick it = iterator_Next (parse_log c
     ''Initialized'' NativeTokenHomeUpgradeableInitialized)
     NativeTokenHomeUpgradeableInitialized pick it"

definition NativeTokenHomeUpgradeableInitializedIterator_Error :: "iterator \<Rightarrow> goerr option"
   where
  "NativeTokenHomeUpgradeableInitializedIterator_Error it = iterator_Error it"

definition NativeTokenHomeUpgradeableInitializedIterator_Close :: "iterator \<Rightarrow> goerr option \<times>
   iterator" where
  "NativeTokenHomeUpgradeableInitializedIterator_Close it = iterator_Close it"

definition NativeTokenHomeUpgradeableFilterer_FilterInitialized ::
  "'w bound_contract \<Rightarrow> FilterOpts \<Rightarrow> ('w, goerr + iterator) prog" where
  "NativeTokenHomeUpgradeableFilterer_FilterInitialized c opts =
     filter_events c opts ''Initialized'' []"

definition NativeTokenHomeUpgradeableFilterer_WatchInitialized ::
  "'w bound_contract \<Rightarrow> ('w, goerr + (evm_log \<Rightarrow> goerr + event_fields)) prog" where
  "NativeTokenHomeUpgradeableFilterer_WatchInitialized c =
     watch_events c ''Initialized'' NativeTokenHomeUpgradeableInitialized []"

definition NativeTokenHomeUpgradeableFilterer_ParseInitialized ::
  "'w bound_contract \<Rightarrow> evm_log \<Rightarrow> goerr + event_fields" where
  "NativeTokenHomeUpgradeableFilterer_ParseInitialized c = parse_log c ''Initialized''
     NativeTokenHomeUpgradeableInitialized"

definition NativeTokenHomeUpgradeableMinTeleporterVersionUpdated :: event_fields where
  "NativeTokenHomeUpgradeableMinTeleporterVersionUpdated = [(''OldMinTeleporterVersion'', GNil),
     (''NewMinTeleporterVersion'', GNil), (''Raw'', zero_Log)]"

definition NativeTokenHomeUpgradeableMinTeleporterVersionUpdatedIterator_Next ::
  "'w bound_contract \<Rightarrow> bool \<Rightarrow> iterator \<Rightarrow> (bool \<times> iterator) option" where
  "NativeTokenHomeUpgradeableMinTeleporterVersionUpdatedIterator_Next c pick it = iterator_Next
     (parse_log c ''MinTeleporterVersionUpdated''
     NativeTokenHomeUpgradeableMinTeleporterVersionUpdated)
     NativeTokenHomeUpgradeableMinTeleporterVersionUpdated pick it"

definition NativeTokenHomeUpgradeableMinTeleporterVersionUpdatedIterator_Error :: "iterator \<Rightarrow>
   goerr option" where
  "NativeTokenHomeUpgradeableMinTeleporterVersionUpdatedIterator_Error it = iterator_Error it"

definition NativeTokenHomeUpgradeableMinTeleporterVersionUpdatedIterator_Close :: "iterator \<Rightarrow>
   goerr option \<times> iterator" where
  "NativeTokenHomeUpgradeableMinTeleporterVersionUpdatedIterator_Close it = iterator_Close it"

definition NativeTokenHomeUpgradeableFilterer_FilterMinTeleporterVersionUpdated ::
  "'w bound_contract \<Rightarrow> FilterOpts \<Rightarrow> int list \<Rightarrow> int list \<Rightarrow> ('w, goerr + iterator) prog" where
  "NativeTokenHomeUpgradeableFilterer_FilterMinTeleporterVersionUpdated c opts
     oldMinTeleporterVersion newMinTeleporterVersion =
     filter_events c opts ''MinTeleporterVersionUpdated'' [map GBig oldMinTeleporterVersion, map
        GBig newMinTeleporterVersion]"

definition NativeTokenHomeUpgradeableFilterer_WatchMinTeleporterVersionUpdated ::
  "'w bound_contract \<Rightarrow> int list \<Rightarrow> int list \<Rightarrow> ('w, goerr + (evm_log \<Rightarrow> goerr + event_fields))
     prog" where
  "NativeTokenHomeUpgradeableFilterer_WatchMinTeleporterVersionUpdated c oldMinTeleporterVersion
     newMinTeleporterVersion =
     watch_events c ''MinTeleporterVersionUpdated''
        NativeTokenHomeUpgradeableMinTeleporterVersionUpdated [map GBig oldMinTeleporterVersion,
        map GBig newMinTeleporterVersion]"

definition NativeTokenHomeUpgradeableFilterer_ParseMinTeleporterVersionUpdated ::
  "'w bound_contract \<Rightarrow> evm_log \<Rightarrow> goerr + event_fields" where
  "NativeTokenHomeUpgradeableFilterer_ParseMinTeleporterVersionUpdated c = parse_log c
     ''MinTeleporterVersionUpdated'' NativeTokenHomeUpgradeableMinTeleporterVersionUpdated"

definition NativeTokenHomeUpgradeableOwnershipTransferred :: event_fields where
  "NativeTokenHomeUpgradeableOwnershipTransferred = [(''PreviousOwner'', GAddr 0),
     (''NewOwner'', GAddr 0), (''Raw'', zero_Log)]"

definition NativeTokenHomeUpgradeableOwnershipTransferredIterator_Next ::
  "'w bound_contract \<Rightarrow> bool \<Rightarrow> iterator \<Rightarrow> (bool \<times> iterator) option" where
  "NativeTokenHomeUpgradeableOwnershipTransferredIterator_Next c pick it = iterator_Next
     (parse_log c ''OwnershipTransferred'' NativeTokenHomeUpgradeableOwnershipTransferred)
     NativeTokenHomeUpgradeableOwnershipTransferred pick it"

definition NativeTokenHomeUpgradeableOwnershipTransferredIterator_Error :: "iterator \<Rightarrow> goerr
   option" where
  "NativeTokenHomeUpgradeableOwnershipTransferredIterator_Error it = iterator_Error it"

definition NativeTokenHomeUpgradeableOwnershipTransferredIterator_Close :: "iterator \<Rightarrow> goerr
   option \<times> iterator" where
  "NativeTokenHomeUpgradeableOwnershipTransferredIterator_Close it = iterator_Close it"

definition NativeTokenHomeUpgradeableFilterer_FilterOwnershipTransferred ::
  "'w bound_contract \<Rightarrow> FilterOpts \<Rightarrow> address list \<Rightarrow> address list \<Rightarrow> ('w, goerr + iterator) prog"
     where
  "NativeTokenHomeUpgradeableFilterer_FilterOwnershipTransferred c opts previousOwner newOwner =
     filter_events c opts ''OwnershipTransferred'' [map GAddr previousOwner, map GAddr
        newOwner]"

definition NativeTokenHomeUpgradeableFilterer_WatchOwnershipTransferred ::
  "'w bound_contract \<Rightarrow> address list \<Rightarrow> address list \<Rightarrow> ('w, goerr + (evm_log \<Rightarrow> goerr +
     event_fields)) prog" where
  "NativeTokenHomeUpgradeableFilterer_WatchOwnershipTransferred c previousOwner newOwner =
     watch_events c ''OwnershipTransferred'' NativeTokenHomeUpgradeableOwnershipTransferred [map
        GAddr previousOwner, map GAddr newOwner]"

definition NativeTokenHomeUpgradeableFilterer_ParseOwnershipTransferred ::
  "'w bound_contract \<Rightarrow> evm_log \<Rightarrow> goerr + event_fields" where
  "NativeTokenHomeUpgradeableFilterer_ParseOwnershipTransferred c = parse_log c
     ''OwnershipTransferred'' NativeTokenHomeUpgradeableOwnershipTransferred"

definition NativeTokenHomeUpgradeableRemoteRegistered :: event_fields where
  "NativeTokenHomeUpgradeableRemoteRegistered = [(''RemoteBlockchainID'', GArr32 0),
     (''RemoteTokenTransferrerAddress'', GAddr 0), (''InitialCollateralNeeded'', GNil),
     (''TokenDecimals'', GUint 8 0), (''Raw'', zero_Log)]"

definition NativeTokenHomeUpgradeableRemoteRegisteredIterator_Next ::
  "'w bound_contract \<Rightarrow> bool \<Rightarrow> iterator \<Rightarrow> (bool \<times> iterator) option" where
  "NativeTokenHomeUpgradeableRemoteRegisteredIterator_Next c pick it = iterator_Next (parse_log
     c ''RemoteRegistered'' NativeTokenHomeUpgradeableRemoteRegistered)
     NativeTokenHomeUpgradeableRemoteRegistered pick it"

definition NativeTokenHomeUpgradeableRemoteRegisteredIterator_Error :: "iterator \<Rightarrow> goerr option"
   where
  "NativeTokenHomeUpgradeableRemoteRegisteredIterator_Error it = iterator_Error it"

definition NativeTokenHomeUpgradeableRemoteRegisteredIterator_Close :: "iterator \<Rightarrow> goerr option
   \<times> iterator" where
  "NativeTokenHomeUpgradeableRemoteRegisteredIterator_Close it = iterator_Close it"

definition NativeTokenHomeUpgradeableFilterer_FilterRemoteRegistered ::
  "'w bound_contract \<Rightarrow> FilterOpts \<Rightarrow> hash list \<Rightarrow> address list \<Rightarrow> ('w, goerr + iterator) prog"
     where
  "NativeTokenHomeUpgradeableFilterer_FilterRemoteRegistered c opts remoteBlockchainID
     remoteTokenTransferrerAddress =
     filter_events c opts ''RemoteRegistered'' [map GArr32 remoteBlockchainID, map GAddr
        remoteTokenTransferrerAddress]"

definition NativeTokenHomeUpgradeableFilterer_WatchRemoteRegistered ::
  "'w bound_contract \<Rightarrow> hash list \<Rightarrow> address list \<Rightarrow> ('w, goerr + (evm_log \<Rightarrow> goerr + event_fields))
     prog" where
  "NativeTokenHomeUpgradeableFilterer_WatchRemoteRegistered c remoteBlockchainID
     remoteTokenTransferrerAddress =
     watch_events c ''RemoteRegistered'' NativeTokenHomeUpgradeableRemoteRegistered [map GArr32
        remoteBlockchainID, map GAddr remoteTokenTransferrerAddress]"

definition NativeTokenHomeUpgradeableFilterer_ParseRemoteRegistered ::
  "'w bound_contract \<Rightarrow> evm_log \<Rightarrow> goerr + event_fields" where
  "NativeTokenHomeUpgradeableFilterer_ParseRemoteRegistered c = parse_log c ''RemoteRegistered''
     NativeTokenHomeUpgradeableRemoteRegistered"

definition NativeTokenHomeUpgradeableTeleporterAddressPaused :: event_fields where
  "NativeTokenHomeUpgradeableTeleporterAddressPaused = [(''TeleporterAddress'', GAddr 0),
     (''Raw'', zero_Log)]"

definition NativeTokenHomeUpgradeableTeleporterAddressPausedIterator_Next ::
  "'w bound_contract \<Rightarrow> bool \<Rightarrow> iterator \<Rightarrow> (bool \<times> iterator) option" where
  "NativeTokenHomeUpgradeableTeleporterAddressPausedIterator_Next c pick it = iterator_Next
     (parse_log c ''TeleporterAddressPaused'' NativeTokenHomeUpgradeableTeleporterAddressPaused)
     NativeTokenHomeUpgradeableTeleporterAddressPaused pick it"

definition NativeTokenHomeUpgradeableTeleporterAddressPausedIterator_Error :: "iterator \<Rightarrow> goerr
   option" where
  "NativeTokenHomeUpgradeableTeleporterAddressPausedIterator_Error it = iterator_Error it"

definition NativeTokenHomeUpgradeableTeleporterAddressPausedIterator_Close :: "iterator \<Rightarrow> goerr
   option \<times> iterator" where
  "NativeTokenHomeUpgradeableTeleporterAddressPausedIterator_Close it = iterator_Close it"

definition NativeTokenHomeUpgradeableFilterer_FilterTeleporterAddressPaused ::
  "'w bound_contract \<Rightarrow> FilterOpts \<Rightarrow> address list \<Rightarrow> ('w, goerr + iterator) prog" where
  "NativeTokenHomeUpgradeableFilterer_FilterTeleporterAddressPaused c opts teleporterAddress =
     filter_events c opts ''TeleporterAddressPaused'' [map GAddr teleporterAddress]"

definition NativeTokenHomeUpgradeableFilterer_WatchTeleporterAddressPaused ::
  "'w bound_contract \<Rightarrow> address list \<Rightarrow> ('w, goerr + (evm_log \<Rightarrow> goerr + event_fields)) prog" where
  "NativeTokenHomeUpgradeableFilterer_WatchTeleporterAddressPaused c teleporterAddress =
     watch_events c ''TeleporterAddressPaused''
        NativeTokenHomeUpgradeableTeleporterAddressPaused [map GAddr teleporterAddress]"

definition NativeTokenHomeUpgradeableFilterer_ParseTeleporterAddressPaused ::
  "'w bound_contract \<Rightarrow> evm_log \<Rightarrow> goerr + event_fields" where
  "NativeTokenHomeUpgradeableFilterer_ParseTeleporterAddressPaused c = parse_log c
     ''TeleporterAddressPaused'' NativeTokenHomeUpgradeableTeleporterAddressPaused"

definition NativeTokenHomeUpgradeableTeleporterAddressUnpaused :: event_fields where
  "NativeTokenHomeUpgradeableTeleporterAddressUnpaused = [(''TeleporterAddress'', GAddr 0),
     (''Raw'', zero_Log)]"

definition NativeTokenHomeUpgradeableTeleporterAddressUnpausedIterator_Next ::
  "'w bound_contract \<Rightarrow> bool \<Rightarrow> iterator \<Rightarrow> (bool \<times> iterator) option" where
  "NativeTokenHomeUpgradeableTeleporterAddressUnpausedIterator_Next c pick it = iterator_Next
     (parse_log c ''TeleporterAddressUnpaused''
     NativeTokenHomeUpgradeableTeleporterAddressUnpaused)
     NativeTokenHomeUpgradeableTeleporterAddressUnpaused pick it"

definition NativeTokenHomeUpgradeableTeleporterAddressUnpausedIterator_Error :: "iterator \<Rightarrow>
   goerr option" where
  "NativeTokenHomeUpgradeableTeleporterAddressUnpausedIterator_Error it = iterator_Error it"

definition NativeTokenHomeUpgradeableTeleporterAddressUnpausedIterator_Close :: "iterator \<Rightarrow>
   goerr option \<times> iterator" where
  "NativeTokenHomeUpgradeableTeleporterAddressUnpausedIterator_Close it = iterator_Close it"

definition NativeTokenHomeUpgradeableFilterer_FilterTeleporterAddressUnpaused ::
  "'w bound_contract \<Rightarrow> FilterOpts \<Rightarrow> address list \<Rightarrow> ('w, goerr + iterator) prog" where
  "NativeTokenHomeUpgradeableFilterer_FilterTeleporterAddressUnpaused c opts teleporterAddress =
     filter_events c opts ''TeleporterAddressUnpaused'' [map GAddr teleporterAddress]"

definition NativeTokenHomeUpgradeableFilterer_WatchTeleporterAddressUnpaused ::
  "'w bound_contract \<Rightarrow> address list \<Rightarrow> ('w, goerr + (evm_log \<Rightarrow> goerr + event_fields)) prog" where
  "NativeTokenHomeUpgradeableFilterer_WatchTeleporterAddressUnpaused c teleporterAddress =
     watch_events c ''TeleporterAddressUnpaused''
        NativeTokenHomeUpgradeableTeleporterAddressUnpaused [map GAddr teleporterAddress]"

definition NativeTokenHomeUpgradeableFilterer_ParseTeleporterAddressUnpaused ::
  "'w bound_contract \<Rightarrow> evm_log \<Rightarrow> goerr + event_fields" where
  "NativeTokenHomeUpgradeableFilterer_ParseTeleporterAddressUnpaused c = parse_log c
     ''TeleporterAddressUnpaused'' NativeTokenHomeUpgradeableTeleporterAddressUnpaused"

definition NativeTokenHomeUpgradeableTokensAndCallRouted :: event_fields where
  "NativeTokenHomeUpgradeableTokensAndCallRouted = [(''TeleporterMessageID'', GArr32 0),
     (''Input'', zero_SendAndCallInput), (''Amount'', GNil), (''Raw'', zero_Log)]"

definition NativeTokenHomeUpgradeableTokensAndCallRoutedIterator_Next ::
  "'w bound_contract \<Rightarrow> bool \<Rightarrow> iterator \<Rightarrow> (bool \<times> iterator) option" where
  "NativeTokenHomeUpgradeableTokensAndCallRoutedIterator_Next c pick it = iterator_Next
     (parse_log c ''TokensAndCallRouted'' NativeTokenHomeUpgradeableTokensAndCallRouted)
     NativeTokenHomeUpgradeableTokensAndCallRouted pick it"

definition NativeTokenHomeUpgradeableTokensAndCallRoutedIterator_Error :: "iterator \<Rightarrow> goerr
   option" where
  "NativeTokenHomeUpgradeableTokensAndCallRoutedIterator_Error it = iterator_Error it"

definition NativeTokenHomeUpgradeableTokensAndCallRoutedIterator_Close :: "iterator \<Rightarrow> goerr
   option \<times> iterator" where
  "NativeTokenHomeUpgradeableTokensAndCallRoutedIterator_Close it = iterator_Close it"

definition NativeTokenHomeUpgradeableFilterer_FilterTokensAndCallRouted ::
  "'w bound_contract \<Rightarrow> FilterOpts \<Rightarrow> hash list \<Rightarrow> ('w, goerr + iterator) prog" where
  "NativeTokenHomeUpgradeableFilterer_FilterTokensAndCallRouted c opts teleporterMessageID =
     filter_events c opts ''TokensAndCallRouted'' [map GArr32 teleporterMessageID]"

definition NativeTokenHomeUpgradeableFilterer_WatchTokensAndCallRouted ::
  "'w bound_contract \<Rightarrow> hash list \<Rightarrow> ('w, goerr + (evm_log \<Rightarrow> goerr + event_fields)) prog" where
  "NativeTokenHomeUpgradeableFilterer_WatchTokensAndCallRouted c teleporterMessageID =
     watch_events c ''TokensAndCallRouted'' NativeTokenHomeUpgradeableTokensAndCallRouted [map
        GArr32 teleporterMessageID]"

definition NativeTokenHomeUpgradeableFilterer_ParseTokensAndCallRouted ::
  "'w bound_contract \<Rightarrow> evm_log \<Rightarrow> goerr + event_fields" where
  "NativeTokenHomeUpgradeableFilterer_ParseTokensAndCallRouted c = parse_log c
     ''TokensAndCallRouted'' NativeTokenHomeUpgradeableTokensAndCallRouted"

definition NativeTokenHomeUpgradeableTokensAndCallSent :: event_fields where
  "NativeTokenHomeUpgradeableTokensAndCallSent = [(''TeleporterMessageID'', GArr32 0),
     (''Sender'', GAddr 0), (''Input'', zero_SendAndCallInput), (''Amount'', GNil), (''Raw'',
     zero_Log)]"

definition NativeTokenHomeUpgradeableTokensAndCallSentIterator_Next ::
  "'w bound_contract \<Rightarrow> bool \<Rightarrow> iterator \<Rightarrow> (bool \<times> iterator) option" where
  "NativeTokenHomeUpgradeableTokensAndCallSentIterator_Next c pick it = iterator_Next (parse_log
     c ''TokensAndCallSent'' NativeTokenHomeUpgradeableTokensAndCallSent)
     NativeTokenHomeUpgradeableTokensAndCallSent pick it"

definition NativeTokenHomeUpgradeableTokensAndCallSentIterator_Error :: "iterator \<Rightarrow> goerr
   option" where
  "NativeTokenHomeUpgradeableTokensAndCallSentIterator_Error it = iterator_Error it"

definition NativeTokenHomeUpgradeableTokensAndCallSentIterator_Close :: "iterator \<Rightarrow> goerr option
   \<times> iterator" where
  "NativeTokenHomeUpgradeableTokensAndCallSentIterator_Close it = iterator_Close it"

definition NativeTokenHomeUpgradeableFilterer_FilterTokensAndCallSent ::
  "'w bound_contract \<Rightarrow> FilterOpts \<Rightarrow> hash list \<Rightarrow> address list \<Rightarrow> ('w, goerr + iterator) prog"
     where
  "NativeTokenHomeUpgradeableFilterer_FilterTokensAndCallSent c opts teleporterMessageID sender
     =
     filter_events c opts ''TokensAndCallSent'' [map GArr32 teleporterMessageID, map GAddr
        sender]"

definition NativeTokenHomeUpgradeableFilterer_WatchTokensAndCallSent ::
  "'w bound_contract \<Rightarrow> hash list \<Rightarrow> address list \<Rightarrow> ('w, goerr + (evm_log \<Rightarrow> goerr + event_fields))
     prog" where
  "NativeTokenHomeUpgradeableFilterer_WatchTokensAndCallSent c teleporterMessageID sender =
     watch_events c ''TokensAndCallSent'' NativeTokenHomeUpgradeableTokensAndCallSent [map
        GArr32 teleporterMessageID, map GAddr sender]"

definition NativeTokenHomeUpgradeableFilterer_ParseTokensAndCallSent ::
  "'w bound_contract \<Rightarrow> evm_log \<Rightarrow> goerr + event_fields" where
  "NativeTokenHomeUpgradeableFilterer_ParseTokensAndCallSent c = parse_log c
     ''TokensAndCallSent'' NativeTokenHomeUpgradeableTokensAndCallSent"

definition NativeTokenHomeUpgradeableTokensRouted :: event_fields where
  "NativeTokenHomeUpgradeableTokensRouted = [(''TeleporterMessageID'', GArr32 0), (''Input'',
     zero_SendTokensInput), (''Amount'', GNil), (''Raw'', zero_Log)]"

definition NativeTokenHomeUpgradeableTokensRoutedIterator_Next ::
  "'w bound_contract \<Rightarrow> bool \<Rightarrow> iterator \<Rightarrow> (bool \<times> iterator) option" where
  "NativeTokenHomeUpgradeableTokensRoutedIterator_Next c pick it = iterator_Next (parse_log c
     ''TokensRouted'' NativeTokenHomeUpgradeableTokensRouted)
     NativeTokenHomeUpgradeableTokensRouted pick it"

definition NativeTokenHomeUpgradeableTokensRoutedIterator_Error :: "iterator \<Rightarrow> goerr option"
   where
  "NativeTokenHomeUpgradeableTokensRoutedIterator_Error it = iterator_Error it"

definition NativeTokenHomeUpgradeableTokensRoutedIterator_Close :: "iterator \<Rightarrow> goerr option \<times>
   iterator" where
  "NativeTokenHomeUpgradeableTokensRoutedIterator_Close it = iterator_Close it"

definition NativeTokenHomeUpgradeableFilterer_FilterTokensRouted ::
  "'w bound_contract \<Rightarrow> FilterOpts \<Rightarrow> hash list \<Rightarrow> ('w, goerr + iterator) prog" where
  "NativeTokenHomeUpgradeableFilterer_FilterTokensRouted c opts teleporterMessageID =
     filter_events c opts ''TokensRouted'' [map GArr32 teleporterMessageID]"

definition NativeTokenHomeUpgradeableFilterer_WatchTokensRouted ::
  "'w bound_contract \<Rightarrow> hash list \<Rightarrow> ('w, goerr + (evm_log \<Rightarrow> goerr + event_fields)) prog" where
  "NativeTokenHomeUpgradeableFilterer_WatchTokensRouted c teleporterMessageID =
     watch_events c ''TokensRouted'' NativeTokenHomeUpgradeableTokensRouted [map GArr32
        teleporterMessageID]"

definition NativeTokenHomeUpgradeableFilterer_ParseTokensRouted ::
  "'w bound_contract \<Rightarrow> evm_log \<Rightarrow> goerr + event_fields" where
  "NativeTokenHomeUpgradeableFilterer_ParseTokensRouted c = parse_log c ''TokensRouted''
     NativeTokenHomeUpgradeableTokensRouted"

definition NativeTokenHomeUpgradeableTokensSent :: event_fields where
  "NativeTokenHomeUpgradeableTokensSent = [(''TeleporterMessageID'', GArr32 0), (''Sender'',
     GAddr 0), (''Input'', zero_SendTokensInput), (''Amount'', GNil), (''Raw'', zero_Log)]"

definition NativeTokenHomeUpgradeableTokensSentIterator_Next ::
  "'w bound_contract \<Rightarrow> bool \<Rightarrow> iterator \<Rightarrow> (bool \<times> iterator) option" where
  "NativeTokenHomeUpgradeableTokensSentIterator_Next c pick it = iterator_Next (parse_log c
     ''TokensSent'' NativeTokenHomeUpgradeableTokensSent) NativeTokenHomeUpgradeableTokensSent
     pick it"

definition NativeTokenHomeUpgradeableTokensSentIterator_Error :: "iterator \<Rightarrow> goerr option" where
  "NativeTokenHomeUpgradeableTokensSentIterator_Error it = iterator_Error it"

definition NativeTokenHomeUpgradeableTokensSentIterator_Close :: "iterator \<Rightarrow> goerr option \<times>
   iterator" where
  "NativeTokenHomeUpgradeableTokensSentIterator_Close it = iterator_Close it"

definition NativeTokenHomeUpgradeableFilterer_FilterTokensSent ::
  "'w bound_contract \<Rightarrow> FilterOpts \<Rightarrow> hash list \<Rightarrow> address list \<Rightarrow> ('w, goerr + iterator) prog"
     where
  "NativeTokenHomeUpgradeableFilterer_FilterTokensSent c opts teleporterMessageID sender =
     filter_events c opts ''TokensSent'' [map GArr32 teleporterMessageID, map GAddr sender]"

definition NativeTokenHomeUpgradeableFilterer_WatchTokensSent ::
  "'w bound_contract \<Rightarrow> hash list \<Rightarrow> address list \<Rightarrow> ('w, goerr + (evm_log \<Rightarrow> goerr + event_fields))
     prog" where
  "NativeTokenHomeUpgradeableFilterer_WatchTokensSent c teleporterMessageID sender =
     watch_events c ''TokensSent'' NativeTokenHomeUpgradeableTokensSent [map GArr32
        teleporterMessageID, map GAddr sender]"

definition NativeTokenHomeUpgradeableFilterer_ParseTokensSent ::
  "'w bound_contract \<Rightarrow> evm_log \<Rightarrow> goerr + event_fields" where
  "NativeTokenHomeUpgradeableFilterer_ParseTokensSent c = parse_log c ''TokensSent''
     NativeTokenHomeUpgradeableTokensSent"

definition NativeTokenHomeUpgradeableTokensWithdrawn :: event_fields where
  "NativeTokenHomeUpgradeableTokensWithdrawn = [(''Recipient'', GAddr 0), (''Amount'', GNil),
     (''Raw'', zero_Log)]"

definition NativeTokenHomeUpgradeableTokensWithdrawnIterator_Next ::
  "'w bound_contract \<Rightarrow> bool \<Rightarrow> iterator \<Rightarrow> (bool \<times> iterator) option" where
  "NativeTokenHomeUpgradeableTokensWithdrawnIterator_Next c pick it = iterator_Next (parse_log c
     ''TokensWithdrawn'' NativeTokenHomeUpgradeableTokensWithdrawn)
     NativeTokenHomeUpgradeableTokensWithdrawn pick it"

definition NativeTokenHomeUpgradeableTokensWithdrawnIterator_Error :: "iterator \<Rightarrow> goerr option"
   where
  "NativeTokenHomeUpgradeableTokensWithdrawnIterator_Error it = iterator_Error it"

definition NativeTokenHomeUpgradeableTokensWithdrawnIterator_Close :: "iterator \<Rightarrow> goerr option \<times>
   iterator" where
  "NativeTokenHomeUpgradeableTokensWithdrawnIterator_Close it = iterator_Close it"

definition NativeTokenHomeUpgradeableFilterer_FilterTokensWithdrawn ::
  "'w bound_contract \<Rightarrow> FilterOpts \<Rightarrow> address list \<Rightarrow> ('w, goerr + iterator) prog" where
  "NativeTokenHomeUpgradeableFilterer_FilterTokensWithdrawn c opts recipient =
     filter_events c opts ''TokensWithdrawn'' [map GAddr recipient]"

definition NativeTokenHomeUpgradeableFilterer_WatchTokensWithdrawn ::
  "'w bound_contract \<Rightarrow> address list \<Rightarrow> ('w, goerr + (evm_log \<Rightarrow> goerr + event_fields)) prog" where
  "NativeTokenHomeUpgradeableFilterer_WatchTokensWithdrawn c recipient =
     watch_events c ''TokensWithdrawn'' NativeTokenHomeUpgradeableTokensWithdrawn [map GAddr
        recipient]"

definition NativeTokenHomeUpgradeableFilterer_ParseTokensWithdrawn ::
  "'w bound_contract \<Rightarrow> evm_log \<Rightarrow> goerr + event_fields" where
  "NativeTokenHomeUpgradeableFilterer_ParseTokensWithdrawn c = parse_log c ''TokensWithdrawn''
     NativeTokenHomeUpgradeableTokensWithdrawn"

section \<open>Correctness\<close>

lemma NativeTokenHomeUpgradeable_methods:
  "map_of (Methods NativeTokenHomeUpgradeableABI) ''NATIVE_TOKEN_HOME_STORAGE_LOCATION'' =
     Some ([], [([], TBytes32)])"
  "map_of (Methods NativeTokenHomeUpgradeableABI) ''TELEPORTER_REGISTRY_APP_STORAGE_LOCATION'' =
     Some ([], [([], TBytes32)])"
  "map_of (Methods NativeTokenHomeUpgradeableABI) ''TOKEN_HOME_STORAGE_LOCATION'' =
     Some ([], [([], TBytes32)])"
  "map_of (Methods NativeTokenHomeUpgradeableABI) ''addCollateral'' =
     Some ([(''remoteBlockchainID'', TBytes32), (''remoteTokenTransferrerAddress'', TAddress)],
        [])"
  "map_of (Methods NativeTokenHomeUpgradeableABI) ''getBlockchainID'' =
     Some ([], [([], TBytes32)])"
  "map_of (Methods NativeTokenHomeUpgradeableABI) ''getMinTeleporterVersion'' =
     Some ([], [([], TUint 256)])"
  "map_of (Methods NativeTokenHomeUpgradeableABI) ''getRemoteTokenTransferrerSettings'' =
     Some ([(''remoteBlockchainID'', TBytes32), (''remoteTokenTransferrerAddress'', TAddress)],
        [([], RemoteTokenTransferrerSettings_tuple)])"
  "map_of (Methods NativeTokenHomeUpgradeableABI) ''getTokenAddress'' =
     Some ([], [([], TAddress)])"
  "map_of (Methods NativeTokenHomeUpgradeableABI) ''getTransferredBalance'' =
     Some ([(''remoteBlockchainID'', TBytes32), (''remoteTokenTransferrerAddress'', TAddress)],
        [([], TUint 256)])"
  "map_of (Methods NativeTokenHomeUpgradeableABI) ''initialize'' =
     Some ([(''teleporterRegistryAddress'', TAddress), (''teleporterManager'', TAddress),
        (''minTeleporterVersion'', TUint 256), (''wrappedTokenAddress'', TAddress)], [])"
  "map_of (Methods NativeTokenHomeUpgradeableABI) ''isTeleporterAddressPaused'' =
     Some ([(''teleporterAddress'', TAddress)], [([], TBool)])"
  "map_of (Methods NativeTokenHomeUpgradeableABI) ''owner'' =
     Some ([], [([], TAddress)])"
  "map_of (Methods NativeTokenHomeUpgradeableABI) ''pauseTeleporterAddress'' =
     Some ([(''teleporterAddress'', TAddress)], [])"
  "map_of (Methods NativeTokenHomeUpgradeableABI) ''receiveTeleporterMessage'' =
     Some ([(''sourceBlockchainID'', TBytes32), (''originSenderAddress'', TAddress),
        (''message'', TBytes)], [])"
  "map_of (Methods NativeTokenHomeUpgradeableABI) ''renounceOwnership'' =
     Some ([], [])"
  "map_of (Methods NativeTokenHomeUpgradeableABI) ''send'' =
     Some ([(''input'', SendTokensInput_tuple)], [])"
  "map_of (Methods NativeTokenHomeUpgradeableABI) ''sendAndCall'' =
     Some ([(''input'', SendAndCallInput_tuple)], [])"
  "map_of (Methods NativeTokenHomeUpgradeableABI) ''transferOwnership'' =
     Some ([(''newOwner'', TAddress)], [])"
  "map_of (Methods NativeTokenHomeUpgradeableABI) ''unpauseTeleporterAddress'' =
     Some ([(''teleporterAddress'', TAddress)], [])"
  "map_of (Methods NativeTokenHomeUpgradeableABI) ''updateMinTeleporterVersion'' =
     Some ([(''version'', TUint 256)], [])"
  unfolding NativeTokenHomeUpgradeableABI_def contract_abi.select_convs
  by (simp_all only: table_lookup)

lemma NativeTokenHomeUpgradeable_decodable:
  "decodable [(''recipientContract'', TAddress, True), (''amount'', TUint 256, False)]
     NativeTokenHomeUpgradeableCallFailed"
  "decodable [(''recipientContract'', TAddress, True), (''amount'', TUint 256, False)]
     NativeTokenHomeUpgradeableCallSucceeded"
  "decodable [(''remoteBlockchainID'', TBytes32, True), (''remoteTokenTransferrerAddress'',
     TAddress, True), (''amount'', TUint 256, False), (''remaining'', TUint 256, False)]
     NativeTokenHomeUpgradeableCollateralAdded"
  "decodable [(''version'', TUint 64, False)]
     NativeTokenHomeUpgradeableInitialized"
  "decodable [(''oldMinTeleporterVersion'', TUint 256, True), (''newMinTeleporterVersion'',
     TUint 256, True)]
     NativeTokenHomeUpgradeableMinTeleporterVersionUpdated"
  "decodable [(''previousOwner'', TAddress, True), (''newOwner'', TAddress, True)]
     NativeTokenHomeUpgradeableOwnershipTransferred"
  "decodable [(''remoteBlockchainID'', TBytes32, True), (''remoteTokenTransferrerAddress'',
     TAddress, True), (''initialCollateralNeeded'', TUint 256, False), (''tokenDecimals'', TUint
     8, False)]
     NativeTokenHomeUpgradeableRemoteRegistered"
  "decodable [(''teleporterAddress'', TAddress, True)]
     NativeTokenHomeUpgradeableTeleporterAddressPaused"
  "decodable [(''teleporterAddress'', TAddress, True)]
     NativeTokenHomeUpgradeableTeleporterAddressUnpaused"
  "decodable [(''teleporterMessageID'', TBytes32, True), (''input'', SendAndCallInput_tuple,
     False), (''amount'', TUint 256, False)]
     NativeTokenHomeUpgradeableTokensAndCallRouted"
  "decodable [(''teleporterMessageID'', TBytes32, True), (''sender'', TAddress, True),
     (''input'', SendAndCallInput_tuple, False), (''amount'', TUint 256, False)]
     NativeTokenHomeUpgradeableTokensAndCallSent"
  "decodable [(''teleporterMessageID'', TBytes32, True), (''input'', SendTokensInput_tuple,
     False), (''amount'', TUint 256, False)]
     NativeTokenHomeUpgradeableTokensRouted"
  "decodable [(''teleporterMessageID'', TBytes32, True), (''sender'', TAddress, True),
     (''input'', SendTokensInput_tuple, False), (''amount'', TUint 256, False)]
     NativeTokenHomeUpgradeableTokensSent"
  "decodable [(''recipient'', TAddress, True), (''amount'', TUint 256, False)]
     NativeTokenHomeUpgradeableTokensWithdrawn"
  by (simp_all add: decodable_def has_fields_def fits_def
     NativeTokenHomeUpgradeableCallFailed_def NativeTokenHomeUpgradeableCallSucceeded_def
     NativeTokenHomeUpgradeableCollateralAdded_def NativeTokenHomeUpgradeableInitialized_def
     NativeTokenHomeUpgradeableMinTeleporterVersionUpdated_def
     NativeTokenHomeUpgradeableOwnershipTransferred_def
     NativeTokenHomeUpgradeableRemoteRegistered_def
     NativeTokenHomeUpgradeableTeleporterAddressPaused_def
     NativeTokenHomeUpgradeableTeleporterAddressUnpaused_def
     NativeTokenHomeUpgradeableTokensAndCallRouted_def
     NativeTokenHomeUpgradeableTokensAndCallSent_def NativeTokenHomeUpgradeableTokensRouted_def
     NativeTokenHomeUpgradeableTokensSent_def NativeTokenHomeUpgradeableTokensWithdrawn_def
     SendAndCallInput_tuple_def SendTokensInput_tuple_def)

lemma NativeTokenHomeUpgradeable_events:
  "map_of (Events NativeTokenHomeUpgradeableABI) ''CallFailed'' =
     Some [(''recipientContract'', TAddress, True), (''amount'', TUint 256, False)]"
  "map_of (Events NativeTokenHomeUpgradeableABI) ''CallSucceeded'' =
     Some [(''recipientContract'', TAddress, True), (''amount'', TUint 256, False)]"
  "map_of (Events NativeTokenHomeUpgradeableABI) ''CollateralAdded'' =
     Some [(''remoteBlockchainID'', TBytes32, True), (''remoteTokenTransferrerAddress'',
        TAddress, True), (''amount'', TUint 256, False), (''remaining'', TUint 256, False)]"
  "map_of (Events NativeTokenHomeUpgradeableABI) ''Initialized'' =
     Some [(''version'', TUint 64, False)]"
  "map_of (Events NativeTokenHomeUpgradeableABI) ''MinTeleporterVersionUpdated'' =
     Some [(''oldMinTeleporterVersion'', TUint 256, True), (''newMinTeleporterVersion'', TUint
        256, True)]"
  "map_of (Events NativeTokenHomeUpgradeableABI) ''OwnershipTransferred'' =
     Some [(''previousOwner'', TAddress, True), (''newOwner'', TAddress, True)]"
  "map_of (Events NativeTokenHomeUpgradeableABI) ''RemoteRegistered'' =
     Some [(''remoteBlockchainID'', TBytes32, True), (''remoteTokenTransferrerAddress'',
        TAddress, True), (''initialCollateralNeeded'', TUint 256, False), (''tokenDecimals'',
        TUint 8, False)]"
  "map_of (Events NativeTokenHomeUpgradeableABI) ''TeleporterAddressPaused'' =
     Some [(''teleporterAddress'', TAddress, True)]"
  "map_of (Events NativeTokenHomeUpgradeableABI) ''TeleporterAddressUnpaused'' =
     Some [(''teleporterAddress'', TAddress, True)]"
  "map_of (Events NativeTokenHomeUpgradeableABI) ''TokensAndCallRouted'' =
     Some [(''teleporterMessageID'', TBytes32, True), (''input'', SendAndCallInput_tuple,
        False), (''amount'', TUint 256, False)]"
  "map_of (Events NativeTokenHomeUpgradeableABI) ''TokensAndCallSent'' =
     Some [(''teleporterMessageID'', TBytes32, True), (''sender'', TAddress, True), (''input'',
        SendAndCallInput_tuple, False), (''amount'', TUint 256, False)]"
  "map_of (Events NativeTokenHomeUpgradeableABI) ''TokensRouted'' =
     Some [(''teleporterMessageID'', TBytes32, True), (''input'', SendTokensInput_tuple, False),
        (''amount'', TUint 256, False)]"
  "map_of (Events NativeTokenHomeUpgradeableABI) ''TokensSent'' =
     Some [(''teleporterMessageID'', TBytes32, True), (''sender'', TAddress, True), (''input'',
        SendTokensInput_tuple, False), (''amount'', TUint 256, False)]"
  "map_of (Events NativeTokenHomeUpgradeableABI) ''TokensWithdrawn'' =
     Some [(''recipient'', TAddress, True), (''amount'', TUint 256, False)]"
  unfolding NativeTokenHomeUpgradeableABI_def contract_abi.select_convs
  by (simp_all only: table_lookup)

lemma NativeTokenHomeUpgradeable_transactions_decode:
  assumes "codec_methods k" and "codec_roundtrip k" and "bound_spec k
     NativeTokenHomeUpgradeableABI be c"
  shows "(\<forall>remoteBlockchainID remoteTokenTransferrerAddress. sends_call k
     NativeTokenHomeUpgradeableABI be opts ''addCollateral'' [GArr32 remoteBlockchainID, GAddr
     remoteTokenTransferrerAddress]
       (NativeTokenHomeUpgradeableTransactor_AddCollateral c opts remoteBlockchainID
          remoteTokenTransferrerAddress)) \<and>
     (\<forall>teleporterRegistryAddress teleporterManager minTeleporterVersion wrappedTokenAddress.
        in_uint256 minTeleporterVersion \<longrightarrow> sends_call k NativeTokenHomeUpgradeableABI be opts
        ''initialize'' [GAddr teleporterRegistryAddress, GAddr teleporterManager, GBig
        minTeleporterVersion, GAddr wrappedTokenAddress]
       (NativeTokenHomeUpgradeableTransactor_Initialize c opts teleporterRegistryAddress
          teleporterManager minTeleporterVersion wrappedTokenAddress)) \<and>
     (\<forall>teleporterAddress. sends_call k NativeTokenHomeUpgradeableABI be opts
        ''pauseTeleporterAddress'' [GAddr teleporterAddress]
       (NativeTokenHomeUpgradeableTransactor_PauseTeleporterAddress c opts teleporterAddress)) \<and>
     (\<forall>sourceBlockchainID originSenderAddress message. sends_call k
        NativeTokenHomeUpgradeableABI be opts ''receiveTeleporterMessage'' [GArr32
        sourceBlockchainID, GAddr originSenderAddress, GBytes message]
       (NativeTokenHomeUpgradeableTransactor_ReceiveTeleporterMessage c opts sourceBlockchainID
          originSenderAddress message)) \<and>
     sends_call k NativeTokenHomeUpgradeableABI be opts ''renounceOwnership'' []
       (NativeTokenHomeUpgradeableTransactor_RenounceOwnership c opts) \<and>
     (\<forall>input_data. SendTokensInput_ok input_data \<longrightarrow> sends_call k NativeTokenHomeUpgradeableABI be
        opts ''send'' [SendTokensInput_val input_data]
       (NativeTokenHomeUpgradeableTransactor_Send c opts input_data)) \<and>
     (\<forall>input_data. SendAndCallInput_ok input_data \<longrightarrow> sends_call k NativeTokenHomeUpgradeableABI
        be opts ''sendAndCall'' [SendAndCallInput_val input_data]
       (NativeTokenHomeUpgradeableTransactor_SendAndCall c opts input_data)) \<and>
     (\<forall>newOwner. sends_call k NativeTokenHomeUpgradeableABI be opts ''transferOwnership'' [GAddr
        newOwner]
       (NativeTokenHomeUpgradeableTransactor_TransferOwnership c opts newOwner)) \<and>
     (\<forall>teleporterAddress. sends_call k NativeTokenHomeUpgradeableABI be opts
        ''unpauseTeleporterAddress'' [GAddr teleporterAddress]
       (NativeTokenHomeUpgradeableTransactor_UnpauseTeleporterAddress c opts teleporterAddress))
          \<and>
     (\<forall>version_number. in_uint256 version_number \<longrightarrow> sends_call k NativeTokenHomeUpgradeableABI be
        opts ''updateMinTeleporterVersion'' [GBig version_number]
       (NativeTokenHomeUpgradeableTransactor_UpdateMinTeleporterVersion c opts version_number))"
  unfolding NativeTokenHomeUpgradeableTransactor_AddCollateral_def
     NativeTokenHomeUpgradeableTransactor_Initialize_def
     NativeTokenHomeUpgradeableTransactor_PauseTeleporterAddress_def
     NativeTokenHomeUpgradeableTransactor_ReceiveTeleporterMessage_def
     NativeTokenHomeUpgradeableTransactor_RenounceOwnership_def
     NativeTokenHomeUpgradeableTransactor_Send_def
     NativeTokenHomeUpgradeableTransactor_SendAndCall_def
     NativeTokenHomeUpgradeableTransactor_TransferOwnership_def
     NativeTokenHomeUpgradeableTransactor_UnpauseTeleporterAddress_def
     NativeTokenHomeUpgradeableTransactor_UpdateMinTeleporterVersion_def
  by ((intro conjI allI impI)?; rule transact_sends [OF assms], rule
     NativeTokenHomeUpgradeable_methods)
    (simp_all del: matches.simps(1))

lemma NativeTokenHomeUpgradeable_calls_return_outputs:
  assumes "codec_methods k" and "codec_roundtrip k" and "bound_spec k
     NativeTokenHomeUpgradeableABI be c"
  shows "(\<forall>r0. reads_call k NativeTokenHomeUpgradeableABI be opts
     ''NATIVE_TOKEN_HOME_STORAGE_LOCATION'' []
       [GArr32 r0] r0 (NativeTokenHomeUpgradeableCaller_NATIVETOKENHOMESTORAGELOCATION c opts))
          \<and>
     (\<forall>r0. reads_call k NativeTokenHomeUpgradeableABI be opts
        ''TELEPORTER_REGISTRY_APP_STORAGE_LOCATION'' []
       [GArr32 r0] r0 (NativeTokenHomeUpgradeableCaller_TELEPORTERREGISTRYAPPSTORAGELOCATION c
          opts)) \<and>
     (\<forall>r0. reads_call k NativeTokenHomeUpgradeableABI be opts ''TOKEN_HOME_STORAGE_LOCATION'' []
       [GArr32 r0] r0 (NativeTokenHomeUpgradeableCaller_TOKENHOMESTORAGELOCATION c opts)) \<and>
     (\<forall>r0. reads_call k NativeTokenHomeUpgradeableABI be opts ''getBlockchainID'' []
       [GArr32 r0] r0 (NativeTokenHomeUpgradeableCaller_GetBlockchainID c opts)) \<and>
     (\<forall>r0. in_uint256 r0 \<longrightarrow> reads_call k NativeTokenHomeUpgradeableABI be opts
        ''getMinTeleporterVersion'' []
       [GBig r0] r0 (NativeTokenHomeUpgradeableCaller_GetMinTeleporterVersion c opts)) \<and>
     (\<forall>remoteBlockchainID remoteTokenTransferrerAddress r0. RemoteTokenTransferrerSettings_ok r0
        \<longrightarrow> reads_call k NativeTokenHomeUpgradeableABI be opts
        ''getRemoteTokenTransferrerSettings'' [GArr32 remoteBlockchainID, GAddr
        remoteTokenTransferrerAddress]
       [RemoteTokenTransferrerSettings_val r0] r0
          (NativeTokenHomeUpgradeableCaller_GetRemoteTokenTransferrerSettings c opts
          remoteBlockchainID remoteTokenTransferrerAddress)) \<and>
     (\<forall>r0. reads_call k NativeTokenHomeUpgradeableABI be opts ''getTokenAddress'' []
       [GAddr r0] r0 (NativeTokenHomeUpgradeableCaller_GetTokenAddress c opts)) \<and>
     (\<forall>remoteBlockchainID remoteTokenTransferrerAddress r0. in_uint256 r0 \<longrightarrow> reads_call k
        NativeTokenHomeUpgradeableABI be opts ''getTransferredBalance'' [GArr32
        remoteBlockchainID, GAddr remoteTokenTransferrerAddress]
       [GBig r0] r0 (NativeTokenHomeUpgradeableCaller_GetTransferredBalance c opts
          remoteBlockchainID remoteTokenTransferrerAddress)) \<and>
     (\<forall>teleporterAddress r0. reads_call k NativeTokenHomeUpgradeableABI be opts
        ''isTeleporterAddressPaused'' [GAddr teleporterAddress]
       [GBool r0] r0 (NativeTokenHomeUpgradeableCaller_IsTeleporterAddressPaused c opts
          teleporterAddress)) \<and>
     (\<forall>r0. reads_call k NativeTokenHomeUpgradeableABI be opts ''owner'' []
       [GAddr r0] r0 (NativeTokenHomeUpgradeableCaller_Owner c opts))"
  unfolding NativeTokenHomeUpgradeableCaller_NATIVETOKENHOMESTORAGELOCATION_def
     NativeTokenHomeUpgradeableCaller_TELEPORTERREGISTRYAPPSTORAGELOCATION_def
     NativeTokenHomeUpgradeableCaller_TOKENHOMESTORAGELOCATION_def
     NativeTokenHomeUpgradeableCaller_GetBlockchainID_def
     NativeTokenHomeUpgradeableCaller_GetMinTeleporterVersion_def
     NativeTokenHomeUpgradeableCaller_GetRemoteTokenTransferrerSettings_def
     NativeTokenHomeUpgradeableCaller_GetTokenAddress_def
     NativeTokenHomeUpgradeableCaller_GetTransferredBalance_def
     NativeTokenHomeUpgradeableCaller_IsTeleporterAddressPaused_def
     NativeTokenHomeUpgradeableCaller_Owner_def
  by ((intro conjI allI impI)?; rule call_reads [OF assms], rule
     NativeTokenHomeUpgradeable_methods)
    (simp_all del: matches.simps(1))

lemma NativeTokenHomeUpgradeable_parsers_decode:
  assumes "codec_events k" and "event_ids k NativeTokenHomeUpgradeableABI" and "bound_spec k
     NativeTokenHomeUpgradeableABI be c"
  shows "parser_decodes k NativeTokenHomeUpgradeableABI ''CallFailed''
     (NativeTokenHomeUpgradeableFilterer_ParseCallFailed c) \<and>
     parser_decodes k NativeTokenHomeUpgradeableABI ''CallSucceeded''
        (NativeTokenHomeUpgradeableFilterer_ParseCallSucceeded c) \<and>
     parser_decodes k NativeTokenHomeUpgradeableABI ''CollateralAdded''
        (NativeTokenHomeUpgradeableFilterer_ParseCollateralAdded c) \<and>
     parser_decodes k NativeTokenHomeUpgradeableABI ''Initialized''
        (NativeTokenHomeUpgradeableFilterer_ParseInitialized c) \<and>
     parser_decodes k NativeTokenHomeUpgradeableABI ''MinTeleporterVersionUpdated''
        (NativeTokenHomeUpgradeableFilterer_ParseMinTeleporterVersionUpdated c) \<and>
     parser_decodes k NativeTokenHomeUpgradeableABI ''OwnershipTransferred''
        (NativeTokenHomeUpgradeableFilterer_ParseOwnershipTransferred c) \<and>
     parser_decodes k NativeTokenHomeUpgradeableABI ''RemoteRegistered''
        (NativeTokenHomeUpgradeableFilterer_ParseRemoteRegistered c) \<and>
     parser_decodes k NativeTokenHomeUpgradeableABI ''TeleporterAddressPaused''
        (NativeTokenHomeUpgradeableFilterer_ParseTeleporterAddressPaused c) \<and>
     parser_decodes k NativeTokenHomeUpgradeableABI ''TeleporterAddressUnpaused''
        (NativeTokenHomeUpgradeableFilterer_ParseTeleporterAddressUnpaused c) \<and>
     parser_decodes k NativeTokenHomeUpgradeableABI ''TokensAndCallRouted''
        (NativeTokenHomeUpgradeableFilterer_ParseTokensAndCallRouted c) \<and>
     parser_decodes k NativeTokenHomeUpgradeableABI ''TokensAndCallSent''
        (NativeTokenHomeUpgradeableFilterer_ParseTokensAndCallSent c) \<and>
     parser_decodes k NativeTokenHomeUpgradeableABI ''TokensRouted''
        (NativeTokenHomeUpgradeableFilterer_ParseTokensRouted c) \<and>
     parser_decodes k NativeTokenHomeUpgradeableABI ''TokensSent''
        (NativeTokenHomeUpgradeableFilterer_ParseTokensSent c) \<and>
     parser_decodes k NativeTokenHomeUpgradeableABI ''TokensWithdrawn''
        (NativeTokenHomeUpgradeableFilterer_ParseTokensWithdrawn c)"
proof -
  note parses = parse_log_decodes [OF assms]
  show ?thesis
    unfolding NativeTokenHomeUpgradeableFilterer_ParseCallFailed_def
       NativeTokenHomeUpgradeableFilterer_ParseCallSucceeded_def
       NativeTokenHomeUpgradeableFilterer_ParseCollateralAdded_def
       NativeTokenHomeUpgradeableFilterer_ParseInitialized_def
       NativeTokenHomeUpgradeableFilterer_ParseMinTeleporterVersionUpdated_def
       NativeTokenHomeUpgradeableFilterer_ParseOwnershipTransferred_def
       NativeTokenHomeUpgradeableFilterer_ParseRemoteRegistered_def
       NativeTokenHomeUpgradeableFilterer_ParseTeleporterAddressPaused_def
       NativeTokenHomeUpgradeableFilterer_ParseTeleporterAddressUnpaused_def
       NativeTokenHomeUpgradeableFilterer_ParseTokensAndCallRouted_def
       NativeTokenHomeUpgradeableFilterer_ParseTokensAndCallSent_def
       NativeTokenHomeUpgradeableFilterer_ParseTokensRouted_def
       NativeTokenHomeUpgradeableFilterer_ParseTokensSent_def
       NativeTokenHomeUpgradeableFilterer_ParseTokensWithdrawn_def
    by ((intro conjI)?; rule parses, rule NativeTokenHomeUpgradeable_events, rule
       NativeTokenHomeUpgradeable_decodable)
qed

end
