(* ===== verification/ERC20TokenRemoteBinding.thy ===== *)
theory ERC20TokenRemoteBinding
  imports IcttStructs AbiRef
begin

text \<open>
  The generated binding \<open>abi-bindings/go/ictt/TokenRemote/ERC20TokenRemote/ERC20TokenRemote.go\<close> over the generic
  definitions of theory \<open>Binding\<close>: its ABI, every method with its session wrappers, every event with
  its iterator, filter, watch and parser. The bytecode is a parameter of deployment; the aliases
  \<open>Raw\<close> of the untyped calls are not modelled.
\<close>

section \<open>The contract's ABI (ERC20TokenRemoteMetaData)\<close>

definition ERC20TokenRemoteABI :: contract_abi where
  "ERC20TokenRemoteABI = \<lparr>
      Methods = [
        (''ERC20_TOKEN_REMOTE_STORAGE_LOCATION'', [],
           [('''', TBytes32)]),
        (''MULTI_HOP_CALL_GAS_PER_WORD'', [],
           [('''', TUint 256)]),
        (''MULTI_HOP_CALL_REQUIRED_GAS'', [],
           [('''', TUint 256)]),
        (''MULTI_HOP_SEND_REQUIRED_GAS'', [],
           [('''', TUint 256)]),
        (''REGISTER_REMOTE_REQUIRED_GAS'', [],
           [('''', TUint 256)]),
        (''TELEPORTER_REGISTRY_APP_STORAGE_LOCATION'', [],
           [('''', TBytes32)]),
        (''TOKEN_REMOTE_STORAGE_LOCATION'', [],
           [('''', TBytes32)]),
        (''allowance'', [(''owner'', TAddress), (''spender'', TAddress)],
           [('''', TUint 256)]),
        (''approve'', [(''spender'', TAddress), (''value'', TUint 256)],
           [('''', TBool)]),
        (''balanceOf'', [(''account'', TAddress)],
           [('''', TUint 256)]),
        (''calculateNumWords'', [(''payloadSize'', TUint 256)],
           [('''', TUint 256)]),
        (''decimals'', [],
           [('''', TUint 8)]),
        (''getBlockchainID'', [],
           [('''', TBytes32)]),
        (''getInitialReserveImbalance'', [],
           [('''', TUint 256)]),
        (''getIsCollateralized'', [],
           [('''', TBool)]),
        (''getMinTeleporterVersion'', [],
           [('''', TUint 256)]),
        (''getMultiplyOnRemote'', [],
           [('''', TBool)]),
        (''getTokenHomeAddress'', [],
           [('''', TAddress)]),
        (''getTokenHomeBlockchainID'', [],
           [('''', TBytes32)]),
        (''getTokenMultiplier'', [],
           [('''', TUint 256)]),
        (''initialize'', [(''settings'', TokenRemoteSettings_tuple), (''tokenName'', TString),
           (''tokenSymbol'', TString), (''tokenDecimals'', TUint 8)],
           []),
        (''isTeleporterAddressPaused'', [(''teleporterAddress'', TAddress)],
           [('''', TBool)]),
        (''name'', [],
           [('''', TString)]),
        (''owner'', [],
           [('''', TAddress)]),
        (''pauseTeleporterAddress'', [(''teleporterAddress'', TAddress)],
           []),
        (''receiveTeleporterMessage'', [(''sourceBlockchainID'', TBytes32),
           (''originSenderAddress'', TAddress), (''message'', TBytes)],
           []),
        (''registerWithHome'', [(''feeInfo'', fee_info_tuple)],
           []),
        (''renounceOwnership'', [],
           []),
        (''send'', [(''input'', SendTokensInput_tuple), (''amount'', TUint 256)],
           []),
        (''sendAndCall'', [(''input'', SendAndCallInput_tuple), (''amount'', TUint 256)],
           []),
        (''symbol'', [],
           [('''', TString)]),
        (''totalSupply'', [],
           [('''', TUint 256)]),
        (''transfer'', [(''to'', TAddress), (''value'', TUint 256)],
           [('''', TBool)]),
        (''transferFrom'', [(''from'', TAddress), (''to'', TAddress), (''value'', TUint 256)],
           [('''', TBool)]),
        (''transferOwnership'', [(''newOwner'', TAddress)],
           []),
        (''unpauseTeleporterAddress'', [(''teleporterAddress'', TAddress)],
           []),
        (''updateMinTeleporterVersion'', [(''version'', TUint 256)],
           [])],
      Events = [
        (''Approval'', [(''owner'', TAddress, True), (''spender'', TAddress, True), (''value'',
           TUint 256, False)]),
        (''CallFailed'', [(''recipientContract'', TAddress, True), (''amount'', TUint 256,
           False)]),
        (''CallSucceeded'', [(''recipientContract'', TAddress, True), (''amount'', TUint 256,
           False)]),
        (''Initialized'', [(''version'', TUint 64, False)]),
        (''MinTeleporterVersionUpdated'', [(''oldMinTeleporterVersion'', TUint 256, True),
           (''newMinTeleporterVersion'', TUint 256, True)]),
        (''OwnershipTransferred'', [(''previousOwner'', TAddress, True), (''newOwner'',
           TAddress, True)]),
        (''TeleporterAddressPaused'', [(''teleporterAddress'', TAddress, True)]),
        (''TeleporterAddressUnpaused'', [(''teleporterAddress'', TAddress, True)]),
        (''TokensAndCallSent'', [(''teleporterMessageID'', TBytes32, True), (''sender'',
           TAddress, True), (''input'', SendAndCallInput_tuple, False), (''amount'', TUint 256,
           False)]),
        (''TokensSent'', [(''teleporterMessageID'', TBytes32, True), (''sender'', TAddress,
           True), (''input'', SendTokensInput_tuple, False), (''amount'', TUint 256, False)]),
        (''TokensWithdrawn'', [(''recipient'', TAddress, True), (''amount'', TUint 256,
           False)]),
        (''Transfer'', [(''from'', TAddress, True), (''to'', TAddress, True), (''value'', TUint
           256, False)])]\<rparr>"

section \<open>Binding and deployment\<close>

definition bindERC20TokenRemote :: "'w bind_lib \<Rightarrow> address \<Rightarrow> goerr + 'w bound_contract" where
  "bindERC20TokenRemote lib addr = bind_contract lib ERC20TokenRemoteABI addr"

definition NewERC20TokenRemote :: "'w bind_lib \<Rightarrow> address \<Rightarrow> goerr + 'w bound_contract" where
  "NewERC20TokenRemote lib addr = bindERC20TokenRemote lib addr"

definition DeployERC20TokenRemote ::
  "'w bind_lib \<Rightarrow> string \<Rightarrow> TransactOpts \<Rightarrow> TokenRemoteSettings \<Rightarrow> string \<Rightarrow> string \<Rightarrow> u8 \<Rightarrow> 
   ('w, goerr + address \<times> hash \<times> 'w bound_contract) prog" where
  "DeployERC20TokenRemote lib bin auth settings tokenName tokenSymbol tokenDecimals =
     deploy_contract lib auth ERC20TokenRemoteABI bin [TokenRemoteSettings_val settings, GStr
     tokenName, GStr tokenSymbol, GUint 8 (unat tokenDecimals)]"

section \<open>Methods\<close>

definition ERC20TokenRemoteCaller_ERC20TOKENREMOTESTORAGELOCATION ::
  "'w bound_contract \<Rightarrow> CallOpts \<Rightarrow> ('w, goerr + hash) prog" where
  "ERC20TokenRemoteCaller_ERC20TOKENREMOTESTORAGELOCATION c opts =
     call_method c opts ''ERC20_TOKEN_REMOTE_STORAGE_LOCATION'' [] (out1 go_arr32)"

definition ERC20TokenRemoteSession_ERC20TOKENREMOTESTORAGELOCATION ::
  "'w session \<Rightarrow> ('w, goerr + hash) prog" where
  "ERC20TokenRemoteSession_ERC20TOKENREMOTESTORAGELOCATION s =
     ERC20TokenRemoteCaller_ERC20TOKENREMOTESTORAGELOCATION (SessionContract s) (SessionCallOpts
     s)"

definition ERC20TokenRemoteCaller_MULTIHOPCALLGASPERWORD ::
  "'w bound_contract \<Rightarrow> CallOpts \<Rightarrow> ('w, goerr + int) prog" where
  "ERC20TokenRemoteCaller_MULTIHOPCALLGASPERWORD c opts =
     call_method c opts ''MULTI_HOP_CALL_GAS_PER_WORD'' [] (out1 go_big)"

definition ERC20TokenRemoteSession_MULTIHOPCALLGASPERWORD ::
  "'w session \<Rightarrow> ('w, goerr + int) prog" where
  "ERC20TokenRemoteSession_MULTIHOPCALLGASPERWORD s =
     ERC20TokenRemoteCaller_MULTIHOPCALLGASPERWORD (SessionContract s) (SessionCallOpts s)"

definition ERC20TokenRemoteCaller_MULTIHOPCALLREQUIREDGAS ::
  "'w bound_contract \<Rightarrow> CallOpts \<Rightarrow> ('w, goerr + int) prog" where
  "ERC20TokenRemoteCaller_MULTIHOPCALLREQUIREDGAS c opts =
     call_method c opts ''MULTI_HOP_CALL_REQUIRED_GAS'' [] (out1 go_big)"

definition ERC20TokenRemoteSession_MULTIHOPCALLREQUIREDGAS ::
  "'w session \<Rightarrow> ('w, goerr + int) prog" where
  "ERC20TokenRemoteSession_MULTIHOPCALLREQUIREDGAS s =
     ERC20TokenRemoteCaller_MULTIHOPCALLREQUIREDGAS (SessionContract s) (SessionCallOpts s)"

definition ERC20TokenRemoteCaller_MULTIHOPSENDREQUIREDGAS ::
  "'w bound_contract \<Rightarrow> CallOpts \<Rightarrow> ('w, goerr + int) prog" where
  "ERC20TokenRemoteCaller_MULTIHOPSENDREQUIREDGAS c opts =
     call_method c opts ''MULTI_HOP_SEND_REQUIRED_GAS'' [] (out1 go_big)"

definition ERC20TokenRemoteSession_MULTIHOPSENDREQUIREDGAS ::
  "'w session \<Rightarrow> ('w, goerr + int) prog" where
  "ERC20TokenRemoteSession_MULTIHOPSENDREQUIREDGAS s =
     ERC20TokenRemoteCaller_MULTIHOPSENDREQUIREDGAS (SessionContract s) (SessionCallOpts s)"

definition ERC20TokenRemoteCaller_REGISTERREMOTEREQUIREDGAS ::
  "'w bound_contract \<Rightarrow> CallOpts \<Rightarrow> ('w, goerr + int) prog" where
  "ERC20TokenRemoteCaller_REGISTERREMOTEREQUIREDGAS c opts =
     call_method c opts ''REGISTER_REMOTE_REQUIRED_GAS'' [] (out1 go_big)"

definition ERC20TokenRemoteSession_REGISTERREMOTEREQUIREDGAS ::
  "'w session \<Rightarrow> ('w, goerr + int) prog" where
  "ERC20TokenRemoteSession_REGISTERREMOTEREQUIREDGAS s =
     ERC20TokenRemoteCaller_REGISTERREMOTEREQUIREDGAS (SessionContract s) (SessionCallOpts s)"

definition ERC20TokenRemoteCaller_TELEPORTERREGISTRYAPPSTORAGELOCATION ::
  "'w bound_contract \<Rightarrow> CallOpts \<Rightarrow> ('w, goerr + hash) prog" where
  "ERC20TokenRemoteCaller_TELEPORTERREGISTRYAPPSTORAGELOCATION c opts =
     call_method c opts ''TELEPORTER_REGISTRY_APP_STORAGE_LOCATION'' [] (out1 go_arr32)"

definition ERC20TokenRemoteSession_TELEPORTERREGISTRYAPPSTORAGELOCATION ::
  "'w session \<Rightarrow> ('w, goerr + hash) prog" where
  "ERC20TokenRemoteSession_TELEPORTERREGISTRYAPPSTORAGELOCATION s =
     ERC20TokenRemoteCaller_TELEPORTERREGISTRYAPPSTORAGELOCATION (SessionContract s)
     (SessionCallOpts s)"

definition ERC20TokenRemoteCaller_TOKENREMOTESTORAGELOCATION ::
  "'w bound_contract \<Rightarrow> CallOpts \<Rightarrow> ('w, goerr + hash) prog" where
  "ERC20TokenRemoteCaller_TOKENREMOTESTORAGELOCATION c opts =
     call_method c opts ''TOKEN_REMOTE_STORAGE_LOCATION'' [] (out1 go_arr32)"

definition ERC20TokenRemoteSession_TOKENREMOTESTORAGELOCATION ::
  "'w session \<Rightarrow> ('w, goerr + hash) prog" where
  "ERC20TokenRemoteSession_TOKENREMOTESTORAGELOCATION s =
     ERC20TokenRemoteCaller_TOKENREMOTESTORAGELOCATION (SessionContract s) (SessionCallOpts s)"

definition ERC20TokenRemoteCaller_Allowance ::
  "'w bound_contract \<Rightarrow> CallOpts \<Rightarrow> address \<Rightarrow> address \<Rightarrow> ('w, goerr + int) prog" where
  "ERC20TokenRemoteCaller_Allowance c opts owner spender =
     call_method c opts ''allowance'' [GAddr owner, GAddr spender] (out1 go_big)"

definition ERC20TokenRemoteSession_Allowance ::
  "'w session \<Rightarrow> address \<Rightarrow> address \<Rightarrow> ('w, goerr + int) prog" where
  "ERC20TokenRemoteSession_Allowance s owner spender = ERC20TokenRemoteCaller_Allowance
     (SessionContract s) (SessionCallOpts s) owner spender"

definition ERC20TokenRemoteTransactor_Approve ::
  "'w bound_contract \<Rightarrow> TransactOpts \<Rightarrow> address \<Rightarrow> int \<Rightarrow> ('w, goerr + hash) prog" where
  "ERC20TokenRemoteTransactor_Approve c opts spender amount_value =
     contract_transact c opts ''approve'' [GAddr spender, GBig amount_value]"

definition ERC20TokenRemoteSession_Approve ::
  "'w session \<Rightarrow> address \<Rightarrow> int \<Rightarrow> ('w, goerr + hash) prog" where
  "ERC20TokenRemoteSession_Approve s spender amount_value = ERC20TokenRemoteTransactor_Approve
     (SessionContract s) (SessionTransactOpts s) spender amount_value"

definition ERC20TokenRemoteCaller_BalanceOf ::
  "'w bound_contract \<Rightarrow> CallOpts \<Rightarrow> address \<Rightarrow> ('w, goerr + int) prog" where
  "ERC20TokenRemoteCaller_BalanceOf c opts account =
     call_method c opts ''balanceOf'' [GAddr account] (out1 go_big)"

definition ERC20TokenRemoteSession_BalanceOf ::
  "'w session \<Rightarrow> address \<Rightarrow> ('w, goerr + int) prog" where
  "ERC20TokenRemoteSession_BalanceOf s account = ERC20TokenRemoteCaller_BalanceOf
     (SessionContract s) (SessionCallOpts s) account"

definition ERC20TokenRemoteCaller_CalculateNumWords ::
  "'w bound_contract \<Rightarrow> CallOpts \<Rightarrow> int \<Rightarrow> ('w, goerr + int) prog" where
  "ERC20TokenRemoteCaller_CalculateNumWords c opts payloadSize =
     call_method c opts ''calculateNumWords'' [GBig payloadSize] (out1 go_big)"

definition ERC20TokenRemoteSession_CalculateNumWords ::
  "'w session \<Rightarrow> int \<Rightarrow> ('w, goerr + int) prog" where
  "ERC20TokenRemoteSession_CalculateNumWords s payloadSize =
     ERC20TokenRemoteCaller_CalculateNumWords (SessionContract s) (SessionCallOpts s)
     payloadSize"

definition ERC20TokenRemoteCaller_Decimals ::
  "'w bound_contract \<Rightarrow> CallOpts \<Rightarrow> ('w, goerr + u8) prog" where
  "ERC20TokenRemoteCaller_Decimals c opts =
     call_method c opts ''decimals'' [] (out1 (go_word 8))"

definition ERC20TokenRemoteSession_Decimals ::
  "'w session \<Rightarrow> ('w, goerr + u8) prog" where
  "ERC20TokenRemoteSession_Decimals s = ERC20TokenRemoteCaller_Decimals (SessionContract s)
     (SessionCallOpts s)"

definition ERC20TokenRemoteCaller_GetBlockchainID ::
  "'w bound_contract \<Rightarrow> CallOpts \<Rightarrow> ('w, goerr + hash) prog" where
  "ERC20TokenRemoteCaller_GetBlockchainID c opts =
     call_method c opts ''getBlockchainID'' [] (out1 go_arr32)"

definition ERC20TokenRemoteSession_GetBlockchainID ::
  "'w session \<Rightarrow> ('w, goerr + hash) prog" where
  "ERC20TokenRemoteSession_GetBlockchainID s = ERC20TokenRemoteCaller_GetBlockchainID
     (SessionContract s) (SessionCallOpts s)"

definition ERC20TokenRemoteCaller_GetInitialReserveImbalance ::
  "'w bound_contract \<Rightarrow> CallOpts \<Rightarrow> ('w, goerr + int) prog" where
  "ERC20TokenRemoteCaller_GetInitialReserveImbalance c opts =
     call_method c opts ''getInitialReserveImbalance'' [] (out1 go_big)"

definition ERC20TokenRemoteSession_GetInitialReserveImbalance ::
  "'w session \<Rightarrow> ('w, goerr + int) prog" where
  "ERC20TokenRemoteSession_GetInitialReserveImbalance s =
     ERC20TokenRemoteCaller_GetInitialReserveImbalance (SessionContract s) (SessionCallOpts s)"

definition ERC20TokenRemoteCaller_GetIsCollateralized ::
  "'w bound_contract \<Rightarrow> CallOpts \<Rightarrow> ('w, goerr + bool) prog" where
  "ERC20TokenRemoteCaller_GetIsCollateralized c opts =
     call_method c opts ''getIsCollateralized'' [] (out1 go_bool)"

definition ERC20TokenRemoteSession_GetIsCollateralized ::
  "'w session \<Rightarrow> ('w, goerr + bool) prog" where
  "ERC20TokenRemoteSession_GetIsCollateralized s = ERC20TokenRemoteCaller_GetIsCollateralized
     (SessionContract s) (SessionCallOpts s)"

definition ERC20TokenRemoteCaller_GetMinTeleporterVersion ::
  "'w bound_contract \<Rightarrow> CallOpts \<Rightarrow> ('w, goerr + int) prog" where
  "ERC20TokenRemoteCaller_GetMinTeleporterVersion c opts =
     call_method c opts ''getMinTeleporterVersion'' [] (out1 go_big)"

definition ERC20TokenRemoteSession_GetMinTeleporterVersion ::
  "'w session \<Rightarrow> ('w, goerr + int) prog" where
  "ERC20TokenRemoteSession_GetMinTeleporterVersion s =
     ERC20TokenRemoteCaller_GetMinTeleporterVersion (SessionContract s) (SessionCallOpts s)"

definition ERC20TokenRemoteCaller_GetMultiplyOnRemote ::
  "'w bound_contract \<Rightarrow> CallOpts \<Rightarrow> ('w, goerr + bool) prog" where
  "ERC20TokenRemoteCaller_GetMultiplyOnRemote c opts =
     call_method c opts ''getMultiplyOnRemote'' [] (out1 go_bool)"

definition ERC20TokenRemoteSession_GetMultiplyOnRemote ::
  "'w session \<Rightarrow> ('w, goerr + bool) prog" where
  "ERC20TokenRemoteSession_GetMultiplyOnRemote s = ERC20TokenRemoteCaller_GetMultiplyOnRemote
     (SessionContract s) (SessionCallOpts s)"

definition ERC20TokenRemoteCaller_GetTokenHomeAddress ::
  "'w bound_contract \<Rightarrow> CallOpts \<Rightarrow> ('w, goerr + address) prog" where
  "ERC20TokenRemoteCaller_GetTokenHomeAddress c opts =
     call_method c opts ''getTokenHomeAddress'' [] (out1 go_addr)"

definition ERC20TokenRemoteSession_GetTokenHomeAddress ::
  "'w session \<Rightarrow> ('w, goerr + address) prog" where
  "ERC20TokenRemoteSession_GetTokenHomeAddress s = ERC20TokenRemoteCaller_GetTokenHomeAddress
     (SessionContract s) (SessionCallOpts s)"

definition ERC20TokenRemoteCaller_GetTokenHomeBlockchainID ::
  "'w bound_contract \<Rightarrow> CallOpts \<Rightarrow> ('w, goerr + hash) prog" where
  "ERC20TokenRemoteCaller_GetTokenHomeBlockchainID c opts =
     call_method c opts ''getTokenHomeBlockchainID'' [] (out1 go_arr32)"

definition ERC20TokenRemoteSession_GetTokenHomeBlockchainID ::
  "'w session \<Rightarrow> ('w, goerr + hash) prog" where
  "ERC20TokenRemoteSession_GetTokenHomeBlockchainID s =
     ERC20TokenRemoteCaller_GetTokenHomeBlockchainID (SessionContract s) (SessionCallOpts s)"

definition ERC20TokenRemoteCaller_GetTokenMultiplier ::
  "'w bound_contract \<Rightarrow> CallOpts \<Rightarrow> ('w, goerr + int) prog" where
  "ERC20TokenRemoteCaller_GetTokenMultiplier c opts =
     call_method c opts ''getTokenMultiplier'' [] (out1 go_big)"

definition ERC20TokenRemoteSession_GetTokenMultiplier ::
  "'w session \<Rightarrow> ('w, goerr + int) prog" where
  "ERC20TokenRemoteSession_GetTokenMultiplier s = ERC20TokenRemoteCaller_GetTokenMultiplier
     (SessionContract s) (SessionCallOpts s)"

definition ERC20TokenRemoteTransactor_Initialize ::
  "'w bound_contract \<Rightarrow> TransactOpts \<Rightarrow> TokenRemoteSettings \<Rightarrow> string \<Rightarrow> string \<Rightarrow> u8 \<Rightarrow> ('w, goerr +
     hash) prog" where
  "ERC20TokenRemoteTransactor_Initialize c opts settings tokenName tokenSymbol tokenDecimals =
     contract_transact c opts ''initialize'' [TokenRemoteSettings_val settings, GStr tokenName,
        GStr tokenSymbol, GUint 8 (unat tokenDecimals)]"

definition ERC20TokenRemoteSession_Initialize ::
  "'w session \<Rightarrow> TokenRemoteSettings \<Rightarrow> string \<Rightarrow> string \<Rightarrow> u8 \<Rightarrow> ('w, goerr + hash) prog" where
  "ERC20TokenRemoteSession_Initialize s settings tokenName tokenSymbol tokenDecimals =
     ERC20TokenRemoteTransactor_Initialize (SessionContract s) (SessionTransactOpts s) settings
     tokenName tokenSymbol tokenDecimals"

definition ERC20TokenRemoteCaller_IsTeleporterAddressPaused ::
  "'w bound_contract \<Rightarrow> CallOpts \<Rightarrow> address \<Rightarrow> ('w, goerr + bool) prog" where
  "ERC20TokenRemoteCaller_IsTeleporterAddressPaused c opts teleporterAddress =
     call_method c opts ''isTeleporterAddressPaused'' [GAddr teleporterAddress] (out1 go_bool)"

definition ERC20TokenRemoteSession_IsTeleporterAddressPaused ::
  "'w session \<Rightarrow> address \<Rightarrow> ('w, goerr + bool) prog" where
  "ERC20TokenRemoteSession_IsTeleporterAddressPaused s teleporterAddress =
     ERC20TokenRemoteCaller_IsTeleporterAddressPaused (SessionContract s) (SessionCallOpts s)
     teleporterAddress"

definition ERC20TokenRemoteCaller_Name ::
  "'w bound_contract \<Rightarrow> CallOpts \<Rightarrow> ('w, goerr + string) prog" where
  "ERC20TokenRemoteCaller_Name c opts =
     call_method c opts ''name'' [] (out1 go_str)"

definition ERC20TokenRemoteSession_Name ::
  "'w session \<Rightarrow> ('w, goerr + string) prog" where
  "ERC20TokenRemoteSession_Name s = ERC20TokenRemoteCaller_Name (SessionContract s)
     (SessionCallOpts s)"

definition ERC20TokenRemoteCaller_Owner ::
  "'w bound_contract \<Rightarrow> CallOpts \<Rightarrow> ('w, goerr + address) prog" where
  "ERC20TokenRemoteCaller_Owner c opts =
     call_method c opts ''owner'' [] (out1 go_addr)"

definition ERC20TokenRemoteSession_Owner ::
  "'w session \<Rightarrow> ('w, goerr + address) prog" where
  "ERC20TokenRemoteSession_Owner s = ERC20TokenRemoteCaller_Owner (SessionContract s)
     (SessionCallOpts s)"

definition ERC20TokenRemoteTransactor_PauseTeleporterAddress ::
  "'w bound_contract \<Rightarrow> TransactOpts \<Rightarrow> address \<Rightarrow> ('w, goerr + hash) prog" where
  "ERC20TokenRemoteTransactor_PauseTeleporterAddress c opts teleporterAddress =
     contract_transact c opts ''pauseTeleporterAddress'' [GAddr teleporterAddress]"

definition ERC20TokenRemoteSession_PauseTeleporterAddress ::
  "'w session \<Rightarrow> address \<Rightarrow> ('w, goerr + hash) prog" where
  "ERC20TokenRemoteSession_PauseTeleporterAddress s teleporterAddress =
     ERC20TokenRemoteTransactor_PauseTeleporterAddress (SessionContract s) (SessionTransactOpts
     s) teleporterAddress"

definition ERC20TokenRemoteTransactor_ReceiveTeleporterMessage ::
  "'w bound_contract \<Rightarrow> TransactOpts \<Rightarrow> hash \<Rightarrow> address \<Rightarrow> bytes \<Rightarrow> ('w, goerr + hash) prog" where
  "ERC20TokenRemoteTransactor_ReceiveTeleporterMessage c opts sourceBlockchainID
     originSenderAddress message =
     contract_transact c opts ''receiveTeleporterMessage'' [GArr32 sourceBlockchainID, GAddr
        originSenderAddress, GBytes message]"

definition ERC20TokenRemoteSession_ReceiveTeleporterMessage ::
  "'w session \<Rightarrow> hash \<Rightarrow> address \<Rightarrow> bytes \<Rightarrow> ('w, goerr + hash) prog" where
  "ERC20TokenRemoteSession_ReceiveTeleporterMessage s sourceBlockchainID originSenderAddress
     message = ERC20TokenRemoteTransactor_ReceiveTeleporterMessage (SessionContract s)
     (SessionTransactOpts s) sourceBlockchainID originSenderAddress message"

definition ERC20TokenRemoteTransactor_RegisterWithHome ::
  "'w bound_contract \<Rightarrow> TransactOpts \<Rightarrow> TeleporterFeeInfo \<Rightarrow> ('w, goerr + hash) prog" where
  "ERC20TokenRemoteTransactor_RegisterWithHome c opts feeInfo =
     contract_transact c opts ''registerWithHome'' [fee_info_val feeInfo]"

definition ERC20TokenRemoteSession_RegisterWithHome ::
  "'w session \<Rightarrow> TeleporterFeeInfo \<Rightarrow> ('w, goerr + hash) prog" where
  "ERC20TokenRemoteSession_RegisterWithHome s feeInfo =
     ERC20TokenRemoteTransactor_RegisterWithHome (SessionContract s) (SessionTransactOpts s)
     feeInfo"

definition ERC20TokenRemoteTransactor_RenounceOwnership ::
  "'w bound_contract \<Rightarrow> TransactOpts \<Rightarrow> ('w, goerr + hash) prog" where
  "ERC20TokenRemoteTransactor_RenounceOwnership c opts =
     contract_transact c opts ''renounceOwnership'' []"

definition ERC20TokenRemoteSession_RenounceOwnership ::
  "'w session \<Rightarrow> ('w, goerr + hash) prog" where
  "ERC20TokenRemoteSession_RenounceOwnership s = ERC20TokenRemoteTransactor_RenounceOwnership
     (SessionContract s) (SessionTransactOpts s)"

definition ERC20TokenRemoteTransactor_Send ::
  "'w bound_contract \<Rightarrow> TransactOpts \<Rightarrow> SendTokensInput \<Rightarrow> int \<Rightarrow> ('w, goerr + hash) prog" where
  "ERC20TokenRemoteTransactor_Send c opts input_data amount =
     contract_transact c opts ''send'' [SendTokensInput_val input_data, GBig amount]"

definition ERC20TokenRemoteSession_Send ::
  "'w session \<Rightarrow> SendTokensInput \<Rightarrow> int \<Rightarrow> ('w, goerr + hash) prog" where
  "ERC20TokenRemoteSession_Send s input_data amount = ERC20TokenRemoteTransactor_Send
     (SessionContract s) (SessionTransactOpts s) input_data amount"

definition ERC20TokenRemoteTransactor_SendAndCall ::
  "'w bound_contract \<Rightarrow> TransactOpts \<Rightarrow> SendAndCallInput \<Rightarrow> int \<Rightarrow> ('w, goerr + hash) prog" where
  "ERC20TokenRemoteTransactor_SendAndCall c opts input_data amount =
     contract_transact c opts ''sendAndCall'' [SendAndCallInput_val input_data, GBig amount]"

definition ERC20TokenRemoteSession_SendAndCall ::
  "'w session \<Rightarrow> SendAndCallInput \<Rightarrow> int \<Rightarrow> ('w, goerr + hash) prog" where
  "ERC20TokenRemoteSession_SendAndCall s input_data amount =
     ERC20TokenRemoteTransactor_SendAndCall (SessionContract s) (SessionTransactOpts s)
     input_data amount"

definition ERC20TokenRemoteCaller_Symbol ::
  "'w bound_contract \<Rightarrow> CallOpts \<Rightarrow> ('w, goerr + string) prog" where
  "ERC20TokenRemoteCaller_Symbol c opts =
     call_method c opts ''symbol'' [] (out1 go_str)"

definition ERC20TokenRemoteSession_Symbol ::
  "'w session \<Rightarrow> ('w, goerr + string) prog" where
  "ERC20TokenRemoteSession_Symbol s = ERC20TokenRemoteCaller_Symbol (SessionContract s)
     (SessionCallOpts s)"

definition ERC20TokenRemoteCaller_TotalSupply ::
  "'w bound_contract \<Rightarrow> CallOpts \<Rightarrow> ('w, goerr + int) prog" where
  "ERC20TokenRemoteCaller_TotalSupply c opts =
     call_method c opts ''totalSupply'' [] (out1 go_big)"

definition ERC20TokenRemoteSession_TotalSupply ::
  "'w session \<Rightarrow> ('w, goerr + int) prog" where
  "ERC20TokenRemoteSession_TotalSupply s = ERC20TokenRemoteCaller_TotalSupply (SessionContract
     s) (SessionCallOpts s)"

definition ERC20TokenRemoteTransactor_Transfer ::
  "'w bound_contract \<Rightarrow> TransactOpts \<Rightarrow> address \<Rightarrow> int \<Rightarrow> ('w, goerr + hash) prog" where
  "ERC20TokenRemoteTransactor_Transfer c opts to_addr amount_value =
     contract_transact c opts ''transfer'' [GAddr to_addr, GBig amount_value]"

definition ERC20TokenRemoteSession_Transfer ::
  "'w session \<Rightarrow> address \<Rightarrow> int \<Rightarrow> ('w, goerr + hash) prog" where
  "ERC20TokenRemoteSession_Transfer s to_addr amount_value = ERC20TokenRemoteTransactor_Transfer
     (SessionContract s) (SessionTransactOpts s) to_addr amount_value"

definition ERC20TokenRemoteTransactor_TransferFrom ::
  "'w bound_contract \<Rightarrow> TransactOpts \<Rightarrow> address \<Rightarrow> address \<Rightarrow> int \<Rightarrow> ('w, goerr + hash) prog" where
  "ERC20TokenRemoteTransactor_TransferFrom c opts from_addr to_addr amount_value =
     contract_transact c opts ''transferFrom'' [GAddr from_addr, GAddr to_addr, GBig
        amount_value]"

definition ERC20TokenRemoteSession_TransferFrom ::
  "'w session \<Rightarrow> address \<Rightarrow> address \<Rightarrow> int \<Rightarrow> ('w, goerr + hash) prog" where
  "ERC20TokenRemoteSession_TransferFrom s from_addr to_addr amount_value =
     ERC20TokenRemoteTransactor_TransferFrom (SessionContract s) (SessionTransactOpts s)
     from_addr to_addr amount_value"

definition ERC20TokenRemoteTransactor_TransferOwnership ::
  "'w bound_contract \<Rightarrow> TransactOpts \<Rightarrow> address \<Rightarrow> ('w, goerr + hash) prog" where
  "ERC20TokenRemoteTransactor_TransferOwnership c opts newOwner =
     contract_transact c opts ''transferOwnership'' [GAddr newOwner]"

definition ERC20TokenRemoteSession_TransferOwnership ::
  "'w session \<Rightarrow> address \<Rightarrow> ('w, goerr + hash) prog" where
  "ERC20TokenRemoteSession_TransferOwnership s newOwner =
     ERC20TokenRemoteTransactor_TransferOwnership (SessionContract s) (SessionTransactOpts s)
     newOwner"

definition ERC20TokenRemoteTransactor_UnpauseTeleporterAddress ::
  "'w bound_contract \<Rightarrow> TransactOpts \<Rightarrow> address \<Rightarrow> ('w, goerr + hash) prog" where
  "ERC20TokenRemoteTransactor_UnpauseTeleporterAddress c opts teleporterAddress =
     contract_transact c opts ''unpauseTeleporterAddress'' [GAddr teleporterAddress]"

definition ERC20TokenRemoteSession_UnpauseTeleporterAddress ::
  "'w session \<Rightarrow> address \<Rightarrow> ('w, goerr + hash) prog" where
  "ERC20TokenRemoteSession_UnpauseTeleporterAddress s teleporterAddress =
     ERC20TokenRemoteTransactor_UnpauseTeleporterAddress (SessionContract s)
     (SessionTransactOpts s) teleporterAddress"

definition ERC20TokenRemoteTransactor_UpdateMinTeleporterVersion ::
  "'w bound_contract \<Rightarrow> TransactOpts \<Rightarrow> int \<Rightarrow> ('w, goerr + hash) prog" where
  "ERC20TokenRemoteTransactor_UpdateMinTeleporterVersion c opts version_number =
     contract_transact c opts ''updateMinTeleporterVersion'' [GBig version_number]"

definition ERC20TokenRemoteSession_UpdateMinTeleporterVersion ::
  "'w session \<Rightarrow> int \<Rightarrow> ('w, goerr + hash) prog" where
  "ERC20TokenRemoteSession_UpdateMinTeleporterVersion s version_number =
     ERC20TokenRemoteTransactor_UpdateMinTeleporterVersion (SessionContract s)
     (SessionTransactOpts s) version_number"

section \<open>Events\<close>

definition ERC20TokenRemoteApproval :: event_fields where
  "ERC20TokenRemoteApproval = [(''Owner'', GAddr 0), (''Spender'', GAddr 0), (''Value'', GNil),
     (''Raw'', zero_Log)]"

definition ERC20TokenRemoteApprovalIterator_Next ::
  "'w bound_contract \<Rightarrow> bool \<Rightarrow> iterator \<Rightarrow> (bool \<times> iterator) option" where
  "ERC20TokenRemoteApprovalIterator_Next c pick it = iterator_Next (parse_log c ''Approval''
     ERC20TokenRemoteApproval) ERC20TokenRemoteApproval pick it"

definition ERC20TokenRemoteApprovalIterator_Error :: "iterator \<Rightarrow> goerr option" where
  "ERC20TokenRemoteApprovalIterator_Error it = iterator_Error it"

definition ERC20TokenRemoteApprovalIterator_Close :: "iterator \<Rightarrow> goerr option \<times> iterator" where
  "ERC20TokenRemoteApprovalIterator_Close it = iterator_Close it"

definition ERC20TokenRemoteFilterer_FilterApproval ::
  "'w bound_contract \<Rightarrow> FilterOpts \<Rightarrow> address list \<Rightarrow> address list \<Rightarrow> ('w, goerr + iterator) prog"
     where
  "ERC20TokenRemoteFilterer_FilterApproval c opts owner spender =
     filter_events c opts ''Approval'' [map GAddr owner, map GAddr spender]"

definition ERC20TokenRemoteFilterer_WatchApproval ::
  "'w bound_contract \<Rightarrow> address list \<Rightarrow> address list \<Rightarrow> ('w, goerr + (evm_log \<Rightarrow> goerr +
     event_fields)) prog" where
  "ERC20TokenRemoteFilterer_WatchApproval c owner spender =
     watch_events c ''Approval'' ERC20TokenRemoteApproval [map GAddr owner, map GAddr spender]"

definition ERC20TokenRemoteFilterer_ParseApproval ::
  "'w bound_contract \<Rightarrow> evm_log \<Rightarrow> goerr + event_fields" where
  "ERC20TokenRemoteFilterer_ParseApproval c = parse_log c ''Approval'' ERC20TokenRemoteApproval"

definition ERC20TokenRemoteCallFailed :: event_fields where
  "ERC20TokenRemoteCallFailed = [(''RecipientContract'', GAddr 0), (''Amount'', GNil), (''Raw'',
     zero_Log)]"

definition ERC20TokenRemoteCallFailedIterator_Next ::
  "'w bound_contract \<Rightarrow> bool \<Rightarrow> iterator \<Rightarrow> (bool \<times> iterator) option" where
  "ERC20TokenRemoteCallFailedIterator_Next c pick it = iterator_Next (parse_log c ''CallFailed''
     ERC20TokenRemoteCallFailed) ERC20TokenRemoteCallFailed pick it"

definition ERC20TokenRemoteCallFailedIterator_Error :: "iterator \<Rightarrow> goerr option" where
  "ERC20TokenRemoteCallFailedIterator_Error it = iterator_Error it"

definition ERC20TokenRemoteCallFailedIterator_Close :: "iterator \<Rightarrow> goerr option \<times> iterator"
   where
  "ERC20TokenRemoteCallFailedIterator_Close it = iterator_Close it"

definition ERC20TokenRemoteFilterer_FilterCallFailed ::
  "'w bound_contract \<Rightarrow> FilterOpts \<Rightarrow> address list \<Rightarrow> ('w, goerr + iterator) prog" where
  "ERC20TokenRemoteFilterer_FilterCallFailed c opts recipientContract =
     filter_events c opts ''CallFailed'' [map GAddr recipientContract]"

definition ERC20TokenRemoteFilterer_WatchCallFailed ::
  "'w bound_contract \<Rightarrow> address list \<Rightarrow> ('w, goerr + (evm_log \<Rightarrow> goerr + event_fields)) prog" where
  "ERC20TokenRemoteFilterer_WatchCallFailed c recipientContract =
     watch_events c ''CallFailed'' ERC20TokenRemoteCallFailed [map GAddr recipientContract]"

definition ERC20TokenRemoteFilterer_ParseCallFailed ::
  "'w bound_contract \<Rightarrow> evm_log \<Rightarrow> goerr + event_fields" where
  "ERC20TokenRemoteFilterer_ParseCallFailed c = parse_log c ''CallFailed''
     ERC20TokenRemoteCallFailed"

definition ERC20TokenRemoteCallSucceeded :: event_fields where
  "ERC20TokenRemoteCallSucceeded = [(''RecipientContract'', GAddr 0), (''Amount'', GNil),
     (''Raw'', zero_Log)]"

definition ERC20TokenRemoteCallSucceededIterator_Next ::
  "'w bound_contract \<Rightarrow> bool \<Rightarrow> iterator \<Rightarrow> (bool \<times> iterator) option" where
  "ERC20TokenRemoteCallSucceededIterator_Next c pick it = iterator_Next (parse_log c
     ''CallSucceeded'' ERC20TokenRemoteCallSucceeded) ERC20TokenRemoteCallSucceeded pick it"

definition ERC20TokenRemoteCallSucceededIterator_Error :: "iterator \<Rightarrow> goerr option" where
  "ERC20TokenRemoteCallSucceededIterator_Error it = iterator_Error it"

definition ERC20TokenRemoteCallSucceededIterator_Close :: "iterator \<Rightarrow> goerr option \<times> iterator"
   where
  "ERC20TokenRemoteCallSucceededIterator_Close it = iterator_Close it"

definition ERC20TokenRemoteFilterer_FilterCallSucceeded ::
  "'w bound_contract \<Rightarrow> FilterOpts \<Rightarrow> address list \<Rightarrow> ('w, goerr + iterator) prog" where
  "ERC20TokenRemoteFilterer_FilterCallSucceeded c opts recipientContract =
     filter_events c opts ''CallSucceeded'' [map GAddr recipientContract]"

definition ERC20TokenRemoteFilterer_WatchCallSucceeded ::
  "'w bound_contract \<Rightarrow> address list \<Rightarrow> ('w, goerr + (evm_log \<Rightarrow> goerr + event_fields)) prog" where
  "ERC20TokenRemoteFilterer_WatchCallSucceeded c recipientContract =
     watch_events c ''CallSucceeded'' ERC20TokenRemoteCallSucceeded [map GAddr
        recipientContract]"

definition ERC20TokenRemoteFilterer_ParseCallSucceeded ::
  "'w bound_contract \<Rightarrow> evm_log \<Rightarrow> goerr + event_fields" where
  "ERC20TokenRemoteFilterer_ParseCallSucceeded c = parse_log c ''CallSucceeded''
     ERC20TokenRemoteCallSucceeded"

definition ERC20TokenRemoteInitialized :: event_fields where
  "ERC20TokenRemoteInitialized = [(''Version'', GUint 64 0), (''Raw'', zero_Log)]"

definition ERC20TokenRemoteInitializedIterator_Next ::
  "'w bound_contract \<Rightarrow> bool \<Rightarrow> iterator \<Rightarrow> (bool \<times> iterator) option" where
  "ERC20TokenRemoteInitializedIterator_Next c pick it = iterator_Next (parse_log c
     ''Initialized'' ERC20TokenRemoteInitialized) ERC20TokenRemoteInitialized pick it"

definition ERC20TokenRemoteInitializedIterator_Error :: "iterator \<Rightarrow> goerr option" where
  "ERC20TokenRemoteInitializedIterator_Error it = iterator_Error it"

definition ERC20TokenRemoteInitializedIterator_Close :: "iterator \<Rightarrow> goerr option \<times> iterator"
   where
  "ERC20TokenRemoteInitializedIterator_Close it = iterator_Close it"

definition ERC20TokenRemoteFilterer_FilterInitialized ::
  "'w bound_contract \<Rightarrow> FilterOpts \<Rightarrow> ('w, goerr + iterator) prog" where
  "ERC20TokenRemoteFilterer_FilterInitialized c opts =
     filter_events c opts ''Initialized'' []"

definition ERC20TokenRemoteFilterer_WatchInitialized ::
  "'w bound_contract \<Rightarrow> ('w, goerr + (evm_log \<Rightarrow> goerr + event_fields)) prog" where
  "ERC20TokenRemoteFilterer_WatchInitialized c =
     watch_events c ''Initialized'' ERC20TokenRemoteInitialized []"

definition ERC20TokenRemoteFilterer_ParseInitialized ::
  "'w bound_contract \<Rightarrow> evm_log \<Rightarrow> goerr + event_fields" where
  "ERC20TokenRemoteFilterer_ParseInitialized c = parse_log c ''Initialized''
     ERC20TokenRemoteInitialized"

definition ERC20TokenRemoteMinTeleporterVersionUpdated :: event_fields where
  "ERC20TokenRemoteMinTeleporterVersionUpdated = [(''OldMinTeleporterVersion'', GNil),
     (''NewMinTeleporterVersion'', GNil), (''Raw'', zero_Log)]"

definition ERC20TokenRemoteMinTeleporterVersionUpdatedIterator_Next ::
  "'w bound_contract \<Rightarrow> bool \<Rightarrow> iterator \<Rightarrow> (bool \<times> iterator) option" where
  "ERC20TokenRemoteMinTeleporterVersionUpdatedIterator_Next c pick it = iterator_Next (parse_log
     c ''MinTeleporterVersionUpdated'' ERC20TokenRemoteMinTeleporterVersionUpdated)
     ERC20TokenRemoteMinTeleporterVersionUpdated pick it"

definition ERC20TokenRemoteMinTeleporterVersionUpdatedIterator_Error :: "iterator \<Rightarrow> goerr
   option" where
  "ERC20TokenRemoteMinTeleporterVersionUpdatedIterator_Error it = iterator_Error it"

definition ERC20TokenRemoteMinTeleporterVersionUpdatedIterator_Close :: "iterator \<Rightarrow> goerr option
   \<times> iterator" where
  "ERC20TokenRemoteMinTeleporterVersionUpdatedIterator_Close it = iterator_Close it"

definition ERC20TokenRemoteFilterer_FilterMinTeleporterVersionUpdated ::
  "'w bound_contract \<Rightarrow> FilterOpts \<Rightarrow> int list \<Rightarrow> int list \<Rightarrow> ('w, goerr + iterator) prog" where
  "ERC20TokenRemoteFilterer_FilterMinTeleporterVersionUpdated c opts oldMinTeleporterVersion
     newMinTeleporterVersion =
     filter_events c opts ''MinTeleporterVersionUpdated'' [map GBig oldMinTeleporterVersion, map
        GBig newMinTeleporterVersion]"

definition ERC20TokenRemoteFilterer_WatchMinTeleporterVersionUpdated ::
  "'w bound_contract \<Rightarrow> int list \<Rightarrow> int list \<Rightarrow> ('w, goerr + (evm_log \<Rightarrow> goerr + event_fields))
     prog" where
  "ERC20TokenRemoteFilterer_WatchMinTeleporterVersionUpdated c oldMinTeleporterVersion
     newMinTeleporterVersion =
     watch_events c ''MinTeleporterVersionUpdated'' ERC20TokenRemoteMinTeleporterVersionUpdated
        [map GBig oldMinTeleporterVersion, map GBig newMinTeleporterVersion]"

definition ERC20TokenRemoteFilterer_ParseMinTeleporterVersionUpdated ::
  "'w bound_contract \<Rightarrow> evm_log \<Rightarrow> goerr + event_fields" where
  "ERC20TokenRemoteFilterer_ParseMinTeleporterVersionUpdated c = parse_log c
     ''MinTeleporterVersionUpdated'' ERC20TokenRemoteMinTeleporterVersionUpdated"

definition ERC20TokenRemoteOwnershipTransferred :: event_fields where
  "ERC20TokenRemoteOwnershipTransferred = [(''PreviousOwner'', GAddr 0), (''NewOwner'', GAddr
     0), (''Raw'', zero_Log)]"

definition ERC20TokenRemoteOwnershipTransferredIterator_Next ::
  "'w bound_contract \<Rightarrow> bool \<Rightarrow> iterator \<Rightarrow> (bool \<times> iterator) option" where
  "ERC20TokenRemoteOwnershipTransferredIterator_Next c pick it = iterator_Next (parse_log c
     ''OwnershipTransferred'' ERC20TokenRemoteOwnershipTransferred)
     ERC20TokenRemoteOwnershipTransferred pick it"

definition ERC20TokenRemoteOwnershipTransferredIterator_Error :: "iterator \<Rightarrow> goerr option" where
  "ERC20TokenRemoteOwnershipTransferredIterator_Error it = iterator_Error it"

definition ERC20TokenRemoteOwnershipTransferredIterator_Close :: "iterator \<Rightarrow> goerr option \<times>
   iterator" where
  "ERC20TokenRemoteOwnershipTransferredIterator_Close it = iterator_Close it"

definition ERC20TokenRemoteFilterer_FilterOwnershipTransferred ::
  "'w bound_contract \<Rightarrow> FilterOpts \<Rightarrow> address list \<Rightarrow> address list \<Rightarrow> ('w, goerr + iterator) prog"
     where
  "ERC20TokenRemoteFilterer_FilterOwnershipTransferred c opts previousOwner newOwner =
     filter_events c opts ''OwnershipTransferred'' [map GAddr previousOwner, map GAddr
        newOwner]"

definition ERC20TokenRemoteFilterer_WatchOwnershipTransferred ::
  "'w bound_contract \<Rightarrow> address list \<Rightarrow> address list \<Rightarrow> ('w, goerr + (evm_log \<Rightarrow> goerr +
     event_fields)) prog" where
  "ERC20TokenRemoteFilterer_WatchOwnershipTransferred c previousOwner newOwner =
     watch_events c ''OwnershipTransferred'' ERC20TokenRemoteOwnershipTransferred [map GAddr
        previousOwner, map GAddr newOwner]"

definition ERC20TokenRemoteFilterer_ParseOwnershipTransferred ::
  "'w bound_contract \<Rightarrow> evm_log \<Rightarrow> goerr + event_fields" where
  "ERC20TokenRemoteFilterer_ParseOwnershipTransferred c = parse_log c ''OwnershipTransferred''
     ERC20TokenRemoteOwnershipTransferred"

definition ERC20TokenRemoteTeleporterAddressPaused :: event_fields where
  "ERC20TokenRemoteTeleporterAddressPaused = [(''TeleporterAddress'', GAddr 0), (''Raw'',
     zero_Log)]"

definition ERC20TokenRemoteTeleporterAddressPausedIterator_Next ::
  "'w bound_contract \<Rightarrow> bool \<Rightarrow> iterator \<Rightarrow> (bool \<times> iterator) option" where
  "ERC20TokenRemoteTeleporterAddressPausedIterator_Next c pick it = iterator_Next (parse_log c
     ''TeleporterAddressPaused'' ERC20TokenRemoteTeleporterAddressPaused)
     ERC20TokenRemoteTeleporterAddressPaused pick it"

definition ERC20TokenRemoteTeleporterAddressPausedIterator_Error :: "iterator \<Rightarrow> goerr option"
   where
  "ERC20TokenRemoteTeleporterAddressPausedIterator_Error it = iterator_Error it"

definition ERC20TokenRemoteTeleporterAddressPausedIterator_Close :: "iterator \<Rightarrow> goerr option \<times>
   iterator" where
  "ERC20TokenRemoteTeleporterAddressPausedIterator_Close it = iterator_Close it"

definition ERC20TokenRemoteFilterer_FilterTeleporterAddressPaused ::
  "'w bound_contract \<Rightarrow> FilterOpts \<Rightarrow> address list \<Rightarrow> ('w, goerr + iterator) prog" where
  "ERC20TokenRemoteFilterer_FilterTeleporterAddressPaused c opts teleporterAddress =
     filter_events c opts ''TeleporterAddressPaused'' [map GAddr teleporterAddress]"

definition ERC20TokenRemoteFilterer_WatchTeleporterAddressPaused ::
  "'w bound_contract \<Rightarrow> address list \<Rightarrow> ('w, goerr + (evm_log \<Rightarrow> goerr + event_fields)) prog" where
  "ERC20TokenRemoteFilterer_WatchTeleporterAddressPaused c teleporterAddress =
     watch_events c ''TeleporterAddressPaused'' ERC20TokenRemoteTeleporterAddressPaused [map
        GAddr teleporterAddress]"

definition ERC20TokenRemoteFilterer_ParseTeleporterAddressPaused ::
  "'w bound_contract \<Rightarrow> evm_log \<Rightarrow> goerr + event_fields" where
  "ERC20TokenRemoteFilterer_ParseTeleporterAddressPaused c = parse_log c
     ''TeleporterAddressPaused'' ERC20TokenRemoteTeleporterAddressPaused"

definition ERC20TokenRemoteTeleporterAddressUnpaused :: event_fields where
  "ERC20TokenRemoteTeleporterAddressUnpaused = [(''TeleporterAddress'', GAddr 0), (''Raw'',
     zero_Log)]"

definition ERC20TokenRemoteTeleporterAddressUnpausedIterator_Next ::
  "'w bound_contract \<Rightarrow> bool \<Rightarrow> iterator \<Rightarrow> (bool \<times> iterator) option" where
  "ERC20TokenRemoteTeleporterAddressUnpausedIterator_Next c pick it = iterator_Next (parse_log c
     ''TeleporterAddressUnpaused'' ERC20TokenRemoteTeleporterAddressUnpaused)
     ERC20TokenRemoteTeleporterAddressUnpaused pick it"

definition ERC20TokenRemoteTeleporterAddressUnpausedIterator_Error :: "iterator \<Rightarrow> goerr option"
   where
  "ERC20TokenRemoteTeleporterAddressUnpausedIterator_Error it = iterator_Error it"

definition ERC20TokenRemoteTeleporterAddressUnpausedIterator_Close :: "iterator \<Rightarrow> goerr option \<times>
   iterator" where
  "ERC20TokenRemoteTeleporterAddressUnpausedIterator_Close it = iterator_Close it"

definition ERC20TokenRemoteFilterer_FilterTeleporterAddressUnpaused ::
  "'w bound_contract \<Rightarrow> FilterOpts \<Rightarrow> address list \<Rightarrow> ('w, goerr + iterator) prog" where
  "ERC20TokenRemoteFilterer_FilterTeleporterAddressUnpaused c opts teleporterAddress =
     filter_events c opts ''TeleporterAddressUnpaused'' [map GAddr teleporterAddress]"

definition ERC20TokenRemoteFilterer_WatchTeleporterAddressUnpaused ::
  "'w bound_contract \<Rightarrow> address list \<Rightarrow> ('w, goerr + (evm_log \<Rightarrow> goerr + event_fields)) prog" where
  "ERC20TokenRemoteFilterer_WatchTeleporterAddressUnpaused c teleporterAddress =
     watch_events c ''TeleporterAddressUnpaused'' ERC20TokenRemoteTeleporterAddressUnpaused [map
        GAddr teleporterAddress]"

definition ERC20TokenRemoteFilterer_ParseTeleporterAddressUnpaused ::
  "'w bound_contract \<Rightarrow> evm_log \<Rightarrow> goerr + event_fields" where
  "ERC20TokenRemoteFilterer_ParseTeleporterAddressUnpaused c = parse_log c
     ''TeleporterAddressUnpaused'' ERC20TokenRemoteTeleporterAddressUnpaused"

definition ERC20TokenRemoteTokensAndCallSent :: event_fields where
  "ERC20TokenRemoteTokensAndCallSent = [(''TeleporterMessageID'', GArr32 0), (''Sender'', GAddr
     0), (''Input'', zero_SendAndCallInput), (''Amount'', GNil), (''Raw'', zero_Log)]"

definition ERC20TokenRemoteTokensAndCallSentIterator_Next ::
  "'w bound_contract \<Rightarrow> bool \<Rightarrow> iterator \<Rightarrow> (bool \<times> iterator) option" where
  "ERC20TokenRemoteTokensAndCallSentIterator_Next c pick it = iterator_Next (parse_log c
     ''TokensAndCallSent'' ERC20TokenRemoteTokensAndCallSent) ERC20TokenRemoteTokensAndCallSent
     pick it"

definition ERC20TokenRemoteTokensAndCallSentIterator_Error :: "iterator \<Rightarrow> goerr option" where
  "ERC20TokenRemoteTokensAndCallSentIterator_Error it = iterator_Error it"

definition ERC20TokenRemoteTokensAndCallSentIterator_Close :: "iterator \<Rightarrow> goerr option \<times>
   iterator" where
  "ERC20TokenRemoteTokensAndCallSentIterator_Close it = iterator_Close it"

definition ERC20TokenRemoteFilterer_FilterTokensAndCallSent ::
  "'w bound_contract \<Rightarrow> FilterOpts \<Rightarrow> hash list \<Rightarrow> address list \<Rightarrow> ('w, goerr + iterator) prog"
     where
  "ERC20TokenRemoteFilterer_FilterTokensAndCallSent c opts teleporterMessageID sender =
     filter_events c opts ''TokensAndCallSent'' [map GArr32 teleporterMessageID, map GAddr
        sender]"

definition ERC20TokenRemoteFilterer_WatchTokensAndCallSent ::
  "'w bound_contract \<Rightarrow> hash list \<Rightarrow> address list \<Rightarrow> ('w, goerr + (evm_log \<Rightarrow> goerr + event_fields))
     prog" where
  "ERC20TokenRemoteFilterer_WatchTokensAndCallSent c teleporterMessageID sender =
     watch_events c ''TokensAndCallSent'' ERC20TokenRemoteTokensAndCallSent [map GArr32
        teleporterMessageID, map GAddr sender]"

definition ERC20TokenRemoteFilterer_ParseTokensAndCallSent ::
  "'w bound_contract \<Rightarrow> evm_log \<Rightarrow> goerr + event_fields" where
  "ERC20TokenRemoteFilterer_ParseTokensAndCallSent c = parse_log c ''TokensAndCallSent''
     ERC20TokenRemoteTokensAndCallSent"

definition ERC20TokenRemoteTokensSent :: event_fields where
  "ERC20TokenRemoteTokensSent = [(''TeleporterMessageID'', GArr32 0), (''Sender'', GAddr 0),
     (''Input'', zero_SendTokensInput), (''Amount'', GNil), (''Raw'', zero_Log)]"

definition ERC20TokenRemoteTokensSentIterator_Next ::
  "'w bound_contract \<Rightarrow> bool \<Rightarrow> iterator \<Rightarrow> (bool \<times> iterator) option" where
  "ERC20TokenRemoteTokensSentIterator_Next c pick it = iterator_Next (parse_log c ''TokensSent''
     ERC20TokenRemoteTokensSent) ERC20TokenRemoteTokensSent pick it"

definition ERC20TokenRemoteTokensSentIterator_Error :: "iterator \<Rightarrow> goerr option" where
  "ERC20TokenRemoteTokensSentIterator_Error it = iterator_Error it"

definition ERC20TokenRemoteTokensSentIterator_Close :: "iterator \<Rightarrow> goerr option \<times> iterator"
   where
  "ERC20TokenRemoteTokensSentIterator_Close it = iterator_Close it"

definition ERC20TokenRemoteFilterer_FilterTokensSent ::
  "'w bound_contract \<Rightarrow> FilterOpts \<Rightarrow> hash list \<Rightarrow> address list \<Rightarrow> ('w, goerr + iterator) prog"
     where
  "ERC20TokenRemoteFilterer_FilterTokensSent c opts teleporterMessageID sender =
     filter_events c opts ''TokensSent'' [map GArr32 teleporterMessageID, map GAddr sender]"

definition ERC20TokenRemoteFilterer_WatchTokensSent ::
  "'w bound_contract \<Rightarrow> hash list \<Rightarrow> address list \<Rightarrow> ('w, goerr + (evm_log \<Rightarrow> goerr + event_fields))
     prog" where
  "ERC20TokenRemoteFilterer_WatchTokensSent c teleporterMessageID sender =
     watch_events c ''TokensSent'' ERC20TokenRemoteTokensSent [map GArr32 teleporterMessageID,
        map GAddr sender]"

definition ERC20TokenRemoteFilterer_ParseTokensSent ::
  "'w bound_contract \<Rightarrow> evm_log \<Rightarrow> goerr + event_fields" where
  "ERC20TokenRemoteFilterer_ParseTokensSent c = parse_log c ''TokensSent''
     ERC20TokenRemoteTokensSent"

definition ERC20TokenRemoteTokensWithdrawn :: event_fields where
  "ERC20TokenRemoteTokensWithdrawn = [(''Recipient'', GAddr 0), (''Amount'', GNil), (''Raw'',
     zero_Log)]"

definition ERC20TokenRemoteTokensWithdrawnIterator_Next ::
  "'w bound_contract \<Rightarrow> bool \<Rightarrow> iterator \<Rightarrow> (bool \<times> iterator) option" where
  "ERC20TokenRemoteTokensWithdrawnIterator_Next c pick it = iterator_Next (parse_log c
     ''TokensWithdrawn'' ERC20TokenRemoteTokensWithdrawn) ERC20TokenRemoteTokensWithdrawn pick
     it"

definition ERC20TokenRemoteTokensWithdrawnIterator_Error :: "iterator \<Rightarrow> goerr option" where
  "ERC20TokenRemoteTokensWithdrawnIterator_Error it = iterator_Error it"

definition ERC20TokenRemoteTokensWithdrawnIterator_Close :: "iterator \<Rightarrow> goerr option \<times> iterator"
   where
  "ERC20TokenRemoteTokensWithdrawnIterator_Close it = iterator_Close it"

definition ERC20TokenRemoteFilterer_FilterTokensWithdrawn ::
  "'w bound_contract \<Rightarrow> FilterOpts \<Rightarrow> address list \<Rightarrow> ('w, goerr + iterator) prog" where
  "ERC20TokenRemoteFilterer_FilterTokensWithdrawn c opts recipient =
     filter_events c opts ''TokensWithdrawn'' [map GAddr recipient]"

definition ERC20TokenRemoteFilterer_WatchTokensWithdrawn ::
  "'w bound_contract \<Rightarrow> address list \<Rightarrow> ('w, goerr + (evm_log \<Rightarrow> goerr + event_fields)) prog" where
  "ERC20TokenRemoteFilterer_WatchTokensWithdrawn c recipient =
     watch_events c ''TokensWithdrawn'' ERC20TokenRemoteTokensWithdrawn [map GAddr recipient]"

definition ERC20TokenRemoteFilterer_ParseTokensWithdrawn ::
  "'w bound_contract \<Rightarrow> evm_log \<Rightarrow> goerr + event_fields" where
  "ERC20TokenRemoteFilterer_ParseTokensWithdrawn c = parse_log c ''TokensWithdrawn''
     ERC20TokenRemoteTokensWithdrawn"

definition ERC20TokenRemoteTransfer :: event_fields where
  "ERC20TokenRemoteTransfer = [(''From'', GAddr 0), (''To'', GAddr 0), (''Value'', GNil),
     (''Raw'', zero_Log)]"

definition ERC20TokenRemoteTransferIterator_Next ::
  "'w bound_contract \<Rightarrow> bool \<Rightarrow> iterator \<Rightarrow> (bool \<times> iterator) option" where
  "ERC20TokenRemoteTransferIterator_Next c pick it = iterator_Next (parse_log c ''Transfer''
     ERC20TokenRemoteTransfer) ERC20TokenRemoteTransfer pick it"

definition ERC20TokenRemoteTransferIterator_Error :: "iterator \<Rightarrow> goerr option" where
  "ERC20TokenRemoteTransferIterator_Error it = iterator_Error it"

definition ERC20TokenRemoteTransferIterator_Close :: "iterator \<Rightarrow> goerr option \<times> iterator" where
  "ERC20TokenRemoteTransferIterator_Close it = iterator_Close it"

definition ERC20TokenRemoteFilterer_FilterTransfer ::
  "'w bound_contract \<Rightarrow> FilterOpts \<Rightarrow> address list \<Rightarrow> address list \<Rightarrow> ('w, goerr + iterator) prog"
     where
  "ERC20TokenRemoteFilterer_FilterTransfer c opts from_addr to_addr =
     filter_events c opts ''Transfer'' [map GAddr from_addr, map GAddr to_addr]"

definition ERC20TokenRemoteFilterer_WatchTransfer ::
  "'w bound_contract \<Rightarrow> address list \<Rightarrow> address list \<Rightarrow> ('w, goerr + (evm_log \<Rightarrow> goerr +
     event_fields)) prog" where
  "ERC20TokenRemoteFilterer_WatchTransfer c from_addr to_addr =
     watch_events c ''Transfer'' ERC20TokenRemoteTransfer [map GAddr from_addr, map GAddr
        to_addr]"

definition ERC20TokenRemoteFilterer_ParseTransfer ::
  "'w bound_contract \<Rightarrow> evm_log \<Rightarrow> goerr + event_fields" where
  "ERC20TokenRemoteFilterer_ParseTransfer c = parse_log c ''Transfer'' ERC20TokenRemoteTransfer"

section \<open>Correctness\<close>

lemma ERC20TokenRemote_methods:
  "map_of (Methods ERC20TokenRemoteABI) ''ERC20_TOKEN_REMOTE_STORAGE_LOCATION'' =
     Some ([], [([], TBytes32)])"
  "map_of (Methods ERC20TokenRemoteABI) ''MULTI_HOP_CALL_GAS_PER_WORD'' =
     Some ([], [([], TUint 256)])"
  "map_of (Methods ERC20TokenRemoteABI) ''MULTI_HOP_CALL_REQUIRED_GAS'' =
     Some ([], [([], TUint 256)])"
  "map_of (Methods ERC20TokenRemoteABI) ''MULTI_HOP_SEND_REQUIRED_GAS'' =
     Some ([], [([], TUint 256)])"
  "map_of (Methods ERC20TokenRemoteABI) ''REGISTER_REMOTE_REQUIRED_GAS'' =
     Some ([], [([], TUint 256)])"
  "map_of (Methods ERC20TokenRemoteABI) ''TELEPORTER_REGISTRY_APP_STORAGE_LOCATION'' =
     Some ([], [([], TBytes32)])"
  "map_of (Methods ERC20TokenRemoteABI) ''TOKEN_REMOTE_STORAGE_LOCATION'' =
     Some ([], [([], TBytes32)])"
  "map_of (Methods ERC20TokenRemoteABI) ''allowance'' =
     Some ([(''owner'', TAddress), (''spender'', TAddress)], [([], TUint 256)])"
  "map_of (Methods ERC20TokenRemoteABI) ''approve'' =
     Some ([(''spender'', TAddress), (''value'', TUint 256)], [([], TBool)])"
  "map_of (Methods ERC20TokenRemoteABI) ''balanceOf'' =
     Some ([(''account'', TAddress)], [([], TUint 256)])"
  "map_of (Methods ERC20TokenRemoteABI) ''calculateNumWords'' =
     Some ([(''payloadSize'', TUint 256)], [([], TUint 256)])"
  "map_of (Methods ERC20TokenRemoteABI) ''decimals'' =
     Some ([], [([], TUint 8)])"
  "map_of (Methods ERC20TokenRemoteABI) ''getBlockchainID'' =
     Some ([], [([], TBytes32)])"
  "map_of (Methods ERC20TokenRemoteABI) ''getInitialReserveImbalance'' =
     Some ([], [([], TUint 256)])"
  "map_of (Methods ERC20TokenRemoteABI) ''getIsCollateralized'' =
     Some ([], [([], TBool)])"
  "map_of (Methods ERC20TokenRemoteABI) ''getMinTeleporterVersion'' =
     Some ([], [([], TUint 256)])"
  "map_of (Methods ERC20TokenRemoteABI) ''getMultiplyOnRemote'' =
     Some ([], [([], TBool)])"
  "map_of (Methods ERC20TokenRemoteABI) ''getTokenHomeAddress'' =
     Some ([], [([], TAddress)])"
  "map_of (Methods ERC20TokenRemoteABI) ''getTokenHomeBlockchainID'' =
     Some ([], [([], TBytes32)])"
  "map_of (Methods ERC20TokenRemoteABI) ''getTokenMultiplier'' =
     Some ([], [([], TUint 256)])"
  "map_of (Methods ERC20TokenRemoteABI) ''initialize'' =
     Some ([(''settings'', TokenRemoteSettings_tuple), (''tokenName'', TString),
        (''tokenSymbol'', TString), (''tokenDecimals'', TUint 8)], [])"
  "map_of (Methods ERC20TokenRemoteABI) ''isTeleporterAddressPaused'' =
     Some ([(''teleporterAddress'', TAddress)], [([], TBool)])"
  "map_of (Methods ERC20TokenRemoteABI) ''name'' =
     Some ([], [([], TString)])"
  "map_of (Methods ERC20TokenRemoteABI) ''owner'' =
     Some ([], [([], TAddress)])"
  "map_of (Methods ERC20TokenRemoteABI) ''pauseTeleporterAddress'' =
     Some ([(''teleporterAddress'', TAddress)], [])"
  "map_of (Methods ERC20TokenRemoteABI) ''receiveTeleporterMessage'' =
     Some ([(''sourceBlockchainID'', TBytes32), (''originSenderAddress'', TAddress),
        (''message'', TBytes)], [])"
  "map_of (Methods ERC20TokenRemoteABI) ''registerWithHome'' =
     Some ([(''feeInfo'', fee_info_tuple)], [])"
  "map_of (Methods ERC20TokenRemoteABI) ''renounceOwnership'' =
     Some ([], [])"
  "map_of (Methods ERC20TokenRemoteABI) ''send'' =
     Some ([(''input'', SendTokensInput_tuple), (''amount'', TUint 256)], [])"
  "map_of (Methods ERC20TokenRemoteABI) ''sendAndCall'' =
     Some ([(''input'', SendAndCallInput_tuple), (''amount'', TUint 256)], [])"
  "map_of (Methods ERC20TokenRemoteABI) ''symbol'' =
     Some ([], [([], TString)])"
  "map_of (Methods ERC20TokenRemoteABI) ''totalSupply'' =
     Some ([], [([], TUint 256)])"
  "map_of (Methods ERC20TokenRemoteABI) ''transfer'' =
     Some ([(''to'', TAddress), (''value'', TUint 256)], [([], TBool)])"
  "map_of (Methods ERC20TokenRemoteABI) ''transferFrom'' =
     Some ([(''from'', TAddress), (''to'', TAddress), (''value'', TUint 256)], [([], TBool)])"
  "map_of (Methods ERC20TokenRemoteABI) ''transferOwnership'' =
     Some ([(''newOwner'', TAddress)], [])"
  "map_of (Methods ERC20TokenRemoteABI) ''unpauseTeleporterAddress'' =
     Some ([(''teleporterAddress'', TAddress)], [])"
  "map_of (Methods ERC20TokenRemoteABI) ''updateMinTeleporterVersion'' =
     Some ([(''version'', TUint 256)], [])"
  unfolding ERC20TokenRemoteABI_def contract_abi.select_convs
  by (simp_all only: table_lookup)

lemma ERC20TokenRemote_decodable:
  "decodable [(''owner'', TAddress, True), (''spender'', TAddress, True), (''value'', TUint 256,
     False)]
     ERC20TokenRemoteApproval"
  "decodable [(''recipientContract'', TAddress, True), (''amount'', TUint 256, False)]
     ERC20TokenRemoteCallFailed"
  "decodable [(''recipientContract'', TAddress, True), (''amount'', TUint 256, False)]
     ERC20TokenRemoteCallSucceeded"
  "decodable [(''version'', TUint 64, False)]
     ERC20TokenRemoteInitialized"
  "decodable [(''oldMinTeleporterVersion'', TUint 256, True), (''newMinTeleporterVersion'',
     TUint 256, True)]
     ERC20TokenRemoteMinTeleporterVersionUpdated"
  "decodable [(''previousOwner'', TAddress, True), (''newOwner'', TAddress, True)]
     ERC20TokenRemoteOwnershipTransferred"
  "decodable [(''teleporterAddress'', TAddress, True)]
     ERC20TokenRemoteTeleporterAddressPaused"
  "decodable [(''teleporterAddress'', TAddress, True)]
     ERC20TokenRemoteTeleporterAddressUnpaused"
  "decodable [(''teleporterMessageID'', TBytes32, True), (''sender'', TAddress, True),
     (''input'', SendAndCallInput_tuple, False), (''amount'', TUint 256, False)]
     ERC20TokenRemoteTokensAndCallSent"
  "decodable [(''teleporterMessageID'', TBytes32, True), (''sender'', TAddress, True),
     (''input'', SendTokensInput_tuple, False), (''amount'', TUint 256, False)]
     ERC20TokenRemoteTokensSent"
  "decodable [(''recipient'', TAddress, True), (''amount'', TUint 256, False)]
     ERC20TokenRemoteTokensWithdrawn"
  "decodable [(''from'', TAddress, True), (''to'', TAddress, True), (''value'', TUint 256,
     False)]
     ERC20TokenRemoteTransfer"
  by (simp_all add: decodable_def has_fields_def fits_def ERC20TokenRemoteApproval_def
     ERC20TokenRemoteCallFailed_def ERC20TokenRemoteCallSucceeded_def
     ERC20TokenRemoteInitialized_def ERC20TokenRemoteMinTeleporterVersionUpdated_def
     ERC20TokenRemoteOwnershipTransferred_def ERC20TokenRemoteTeleporterAddressPaused_def
     ERC20TokenRemoteTeleporterAddressUnpaused_def ERC20TokenRemoteTokensAndCallSent_def
     ERC20TokenRemoteTokensSent_def ERC20TokenRemoteTokensWithdrawn_def
     ERC20TokenRemoteTransfer_def SendAndCallInput_tuple_def SendTokensInput_tuple_def)

lemma ERC20TokenRemote_events:
  "map_of (Events ERC20TokenRemoteABI) ''Approval'' =
     Some [(''owner'', TAddress, True), (''spender'', TAddress, True), (''value'', TUint 256,
        False)]"
  "map_of (Events ERC20TokenRemoteABI) ''CallFailed'' =
     Some [(''recipientContract'', TAddress, True), (''amount'', TUint 256, False)]"
  "map_of (Events ERC20TokenRemoteABI) ''CallSucceeded'' =
     Some [(''recipientContract'', TAddress, True), (''amount'', TUint 256, False)]"
  "map_of (Events ERC20TokenRemoteABI) ''Initialized'' =
     Some [(''version'', TUint 64, False)]"
  "map_of (Events ERC20TokenRemoteABI) ''MinTeleporterVersionUpdated'' =
     Some [(''oldMinTeleporterVersion'', TUint 256, True), (''newMinTeleporterVersion'', TUint
        256, True)]"
  "map_of (Events ERC20TokenRemoteABI) ''OwnershipTransferred'' =
     Some [(''previousOwner'', TAddress, True), (''newOwner'', TAddress, True)]"
  "map_of (Events ERC20TokenRemoteABI) ''TeleporterAddressPaused'' =
     Some [(''teleporterAddress'', TAddress, True)]"
  "map_of (Events ERC20TokenRemoteABI) ''TeleporterAddressUnpaused'' =
     Some [(''teleporterAddress'', TAddress, True)]"
  "map_of (Events ERC20TokenRemoteABI) ''TokensAndCallSent'' =
     Some [(''teleporterMessageID'', TBytes32, True), (''sender'', TAddress, True), (''input'',
        SendAndCallInput_tuple, False), (''amount'', TUint 256, False)]"
  "map_of (Events ERC20TokenRemoteABI) ''TokensSent'' =
     Some [(''teleporterMessageID'', TBytes32, True), (''sender'', TAddress, True), (''input'',
        SendTokensInput_tuple, False), (''amount'', TUint 256, False)]"
  "map_of (Events ERC20TokenRemoteABI) ''TokensWithdrawn'' =
     Some [(''recipient'', TAddress, True), (''amount'', TUint 256, False)]"
  "map_of (Events ERC20TokenRemoteABI) ''Transfer'' =
     Some [(''from'', TAddress, True), (''to'', TAddress, True), (''value'', TUint 256, False)]"
  unfolding ERC20TokenRemoteABI_def contract_abi.select_convs
  by (simp_all only: table_lookup)

lemma ERC20TokenRemote_transactions_decode:
  assumes "codec_methods k" and "codec_roundtrip k" and "bound_spec k ERC20TokenRemoteABI be c"
  shows "(\<forall>spender amount_value. in_uint256 amount_value \<longrightarrow> sends_call k ERC20TokenRemoteABI be
     opts ''approve'' [GAddr spender, GBig amount_value]
       (ERC20TokenRemoteTransactor_Approve c opts spender amount_value)) \<and>
     (\<forall>settings tokenName tokenSymbol tokenDecimals. TokenRemoteSettings_ok settings \<longrightarrow>
        sends_call k ERC20TokenRemoteABI be opts ''initialize'' [TokenRemoteSettings_val
        settings, GStr tokenName, GStr tokenSymbol, GUint 8 (unat tokenDecimals)]
       (ERC20TokenRemoteTransactor_Initialize c opts settings tokenName tokenSymbol
          tokenDecimals)) \<and>
     (\<forall>teleporterAddress. sends_call k ERC20TokenRemoteABI be opts ''pauseTeleporterAddress''
        [GAddr teleporterAddress]
       (ERC20TokenRemoteTransactor_PauseTeleporterAddress c opts teleporterAddress)) \<and>
     (\<forall>sourceBlockchainID originSenderAddress message. sends_call k ERC20TokenRemoteABI be opts
        ''receiveTeleporterMessage'' [GArr32 sourceBlockchainID, GAddr originSenderAddress,
        GBytes message]
       (ERC20TokenRemoteTransactor_ReceiveTeleporterMessage c opts sourceBlockchainID
          originSenderAddress message)) \<and>
     (\<forall>feeInfo. fee_info_ok feeInfo \<longrightarrow> sends_call k ERC20TokenRemoteABI be opts
        ''registerWithHome'' [fee_info_val feeInfo]
       (ERC20TokenRemoteTransactor_RegisterWithHome c opts feeInfo)) \<and>
     sends_call k ERC20TokenRemoteABI be opts ''renounceOwnership'' []
       (ERC20TokenRemoteTransactor_RenounceOwnership c opts) \<and>
     (\<forall>input_data amount. SendTokensInput_ok input_data \<longrightarrow> in_uint256 amount \<longrightarrow> sends_call k
        ERC20TokenRemoteABI be opts ''send'' [SendTokensInput_val input_data, GBig amount]
       (ERC20TokenRemoteTransactor_Send c opts input_data amount)) \<and>
     (\<forall>input_data amount. SendAndCallInput_ok input_data \<longrightarrow> in_uint256 amount \<longrightarrow> sends_call k
        ERC20TokenRemoteABI be opts ''sendAndCall'' [SendAndCallInput_val input_data, GBig
        amount]
       (ERC20TokenRemoteTransactor_SendAndCall c opts input_data amount)) \<and>
     (\<forall>to_addr amount_value. in_uint256 amount_value \<longrightarrow> sends_call k ERC20TokenRemoteABI be opts
        ''transfer'' [GAddr to_addr, GBig amount_value]
       (ERC20TokenRemoteTransactor_Transfer c opts to_addr amount_value)) \<and>
     (\<forall>from_addr to_addr amount_value. in_uint256 amount_value \<longrightarrow> sends_call k
        ERC20TokenRemoteABI be opts ''transferFrom'' [GAddr from_addr, GAddr to_addr, GBig
        amount_value]
       (ERC20TokenRemoteTransactor_TransferFrom c opts from_addr to_addr amount_value)) \<and>
     (\<forall>newOwner. sends_call k ERC20TokenRemoteABI be opts ''transferOwnership'' [GAddr newOwner]
       (ERC20TokenRemoteTransactor_TransferOwnership c opts newOwner)) \<and>
     (\<forall>teleporterAddress. sends_call k ERC20TokenRemoteABI be opts ''unpauseTeleporterAddress''
        [GAddr teleporterAddress]
       (ERC20TokenRemoteTransactor_UnpauseTeleporterAddress c opts teleporterAddress)) \<and>
     (\<forall>version_number. in_uint256 version_number \<longrightarrow> sends_call k ERC20TokenRemoteABI be opts
        ''updateMinTeleporterVersion'' [GBig version_number]
       (ERC20TokenRemoteTransactor_UpdateMinTeleporterVersion c opts version_number))"
  unfolding ERC20TokenRemoteTransactor_Approve_def ERC20TokenRemoteTransactor_Initialize_def
     ERC20TokenRemoteTransactor_PauseTeleporterAddress_def
     ERC20TokenRemoteTransactor_ReceiveTeleporterMessage_def
     ERC20TokenRemoteTransactor_RegisterWithHome_def
     ERC20TokenRemoteTransactor_RenounceOwnership_def ERC20TokenRemoteTransactor_Send_def
     ERC20TokenRemoteTransactor_SendAndCall_def ERC20TokenRemoteTransactor_Transfer_def
     ERC20TokenRemoteTransactor_TransferFrom_def
     ERC20TokenRemoteTransactor_TransferOwnership_def
     ERC20TokenRemoteTransactor_UnpauseTeleporterAddress_def
     ERC20TokenRemoteTransactor_UpdateMinTeleporterVersion_def
  by ((intro conjI allI impI)?; rule transact_sends [OF assms], rule ERC20TokenRemote_methods)
    (simp_all del: matches.simps(1))

lemma ERC20TokenRemote_calls_return_outputs:
  assumes "codec_methods k" and "codec_roundtrip k" and "bound_spec k ERC20TokenRemoteABI be c"
  shows "(\<forall>r0. reads_call k ERC20TokenRemoteABI be opts ''ERC20_TOKEN_REMOTE_STORAGE_LOCATION''
     []
       [GArr32 r0] r0 (ERC20TokenRemoteCaller_ERC20TOKENREMOTESTORAGELOCATION c opts)) \<and>
     (\<forall>r0. in_uint256 r0 \<longrightarrow> reads_call k ERC20TokenRemoteABI be opts
        ''MULTI_HOP_CALL_GAS_PER_WORD'' []
       [GBig r0] r0 (ERC20TokenRemoteCaller_MULTIHOPCALLGASPERWORD c opts)) \<and>
     (\<forall>r0. in_uint256 r0 \<longrightarrow> reads_call k ERC20TokenRemoteABI be opts
        ''MULTI_HOP_CALL_REQUIRED_GAS'' []
       [GBig r0] r0 (ERC20TokenRemoteCaller_MULTIHOPCALLREQUIREDGAS c opts)) \<and>
     (\<forall>r0. in_uint256 r0 \<longrightarrow> reads_call k ERC20TokenRemoteABI be opts
        ''MULTI_HOP_SEND_REQUIRED_GAS'' []
       [GBig r0] r0 (ERC20TokenRemoteCaller_MULTIHOPSENDREQUIREDGAS c opts)) \<and>
     (\<forall>r0. in_uint256 r0 \<longrightarrow> reads_call k ERC20TokenRemoteABI be opts
        ''REGISTER_REMOTE_REQUIRED_GAS'' []
       [GBig r0] r0 (ERC20TokenRemoteCaller_REGISTERREMOTEREQUIREDGAS c opts)) \<and>
     (\<forall>r0. reads_call k ERC20TokenRemoteABI be opts ''TELEPORTER_REGISTRY_APP_STORAGE_LOCATION''
        []
       [GArr32 r0] r0 (ERC20TokenRemoteCaller_TELEPORTERREGISTRYAPPSTORAGELOCATION c opts)) \<and>
     (\<forall>r0. reads_call k ERC20TokenRemoteABI be opts ''TOKEN_REMOTE_STORAGE_LOCATION'' []
       [GArr32 r0] r0 (ERC20TokenRemoteCaller_TOKENREMOTESTORAGELOCATION c opts)) \<and>
     (\<forall>owner spender r0. in_uint256 r0 \<longrightarrow> reads_call k ERC20TokenRemoteABI be opts ''allowance''
        [GAddr owner, GAddr spender]
       [GBig r0] r0 (ERC20TokenRemoteCaller_Allowance c opts owner spender)) \<and>
     (\<forall>account r0. in_uint256 r0 \<longrightarrow> reads_call k ERC20TokenRemoteABI be opts ''balanceOf'' [GAddr
        account]
       [GBig r0] r0 (ERC20TokenRemoteCaller_BalanceOf c opts account)) \<and>
     (\<forall>payloadSize r0. in_uint256 payloadSize \<longrightarrow> in_uint256 r0 \<longrightarrow> reads_call k ERC20TokenRemoteABI
        be opts ''calculateNumWords'' [GBig payloadSize]
       [GBig r0] r0 (ERC20TokenRemoteCaller_CalculateNumWords c opts payloadSize)) \<and>
     (\<forall>r0. reads_call k ERC20TokenRemoteABI be opts ''decimals'' []
       [GUint 8 (unat r0)] r0 (ERC20TokenRemoteCaller_Decimals c opts)) \<and>
     (\<forall>r0. reads_call k ERC20TokenRemoteABI be opts ''getBlockchainID'' []
       [GArr32 r0] r0 (ERC20TokenRemoteCaller_GetBlockchainID c opts)) \<and>
     (\<forall>r0. in_uint256 r0 \<longrightarrow> reads_call k ERC20TokenRemoteABI be opts
        ''getInitialReserveImbalance'' []
       [GBig r0] r0 (ERC20TokenRemoteCaller_GetInitialReserveImbalance c opts)) \<and>
     (\<forall>r0. reads_call k ERC20TokenRemoteABI be opts ''getIsCollateralized'' []
       [GBool r0] r0 (ERC20TokenRemoteCaller_GetIsCollateralized c opts)) \<and>
     (\<forall>r0. in_uint256 r0 \<longrightarrow> reads_call k ERC20TokenRemoteABI be opts ''getMinTeleporterVersion''
        []
       [GBig r0] r0 (ERC20TokenRemoteCaller_GetMinTeleporterVersion c opts)) \<and>
     (\<forall>r0. reads_call k ERC20TokenRemoteABI be opts ''getMultiplyOnRemote'' []
       [GBool r0] r0 (ERC20TokenRemoteCaller_GetMultiplyOnRemote c opts)) \<and>
     (\<forall>r0. reads_call k ERC20TokenRemoteABI be opts ''getTokenHomeAddress'' []
       [GAddr r0] r0 (ERC20TokenRemoteCaller_GetTokenHomeAddress c opts)) \<and>
     (\<forall>r0. reads_call k ERC20TokenRemoteABI be opts ''getTokenHomeBlockchainID'' []
       [GArr32 r0] r0 (ERC20TokenRemoteCaller_GetTokenHomeBlockchainID c opts)) \<and>
     (\<forall>r0. in_uint256 r0 \<longrightarrow> reads_call k ERC20TokenRemoteABI be opts ''getTokenMultiplier'' []
       [GBig r0] r0 (ERC20TokenRemoteCaller_GetTokenMultiplier c opts)) \<and>
     (\<forall>teleporterAddress r0. reads_call k ERC20TokenRemoteABI be opts
        ''isTeleporterAddressPaused'' [GAddr teleporterAddress]
       [GBool r0] r0 (ERC20TokenRemoteCaller_IsTeleporterAddressPaused c opts
          teleporterAddress)) \<and>
     (\<forall>r0. reads_call k ERC20TokenRemoteABI be opts ''name'' []
       [GStr r0] r0 (ERC20TokenRemoteCaller_Name c opts)) \<and>
     (\<forall>r0. reads_call k ERC20TokenRemoteABI be opts ''owner'' []
       [GAddr r0] r0 (ERC20TokenRemoteCaller_Owner c opts)) \<and>
     (\<forall>r0. reads_call k ERC20TokenRemoteABI be opts ''symbol'' []
       [GStr r0] r0 (ERC20TokenRemoteCaller_Symbol c opts)) \<and>
     (\<forall>r0. in_uint256 r0 \<longrightarrow> reads_call k ERC20TokenRemoteABI be opts ''totalSupply'' []
       [GBig r0] r0 (ERC20TokenRemoteCaller_TotalSupply c opts))"
  unfolding ERC20TokenRemoteCaller_ERC20TOKENREMOTESTORAGELOCATION_def
     ERC20TokenRemoteCaller_MULTIHOPCALLGASPERWORD_def
     ERC20TokenRemoteCaller_MULTIHOPCALLREQUIREDGAS_def
     ERC20TokenRemoteCaller_MULTIHOPSENDREQUIREDGAS_def
     ERC20TokenRemoteCaller_REGISTERREMOTEREQUIREDGAS_def
     ERC20TokenRemoteCaller_TELEPORTERREGISTRYAPPSTORAGELOCATION_def
     ERC20TokenRemoteCaller_TOKENREMOTESTORAGELOCATION_def ERC20TokenRemoteCaller_Allowance_def
     ERC20TokenRemoteCaller_BalanceOf_def ERC20TokenRemoteCaller_CalculateNumWords_def
     ERC20TokenRemoteCaller_Decimals_def ERC20TokenRemoteCaller_GetBlockchainID_def
     ERC20TokenRemoteCaller_GetInitialReserveImbalance_def
     ERC20TokenRemoteCaller_GetIsCollateralized_def
     ERC20TokenRemoteCaller_GetMinTeleporterVersion_def
     ERC20TokenRemoteCaller_GetMultiplyOnRemote_def
     ERC20TokenRemoteCaller_GetTokenHomeAddress_def
     ERC20TokenRemoteCaller_GetTokenHomeBlockchainID_def
     ERC20TokenRemoteCaller_GetTokenMultiplier_def
     ERC20TokenRemoteCaller_IsTeleporterAddressPaused_def ERC20TokenRemoteCaller_Name_def
     ERC20TokenRemoteCaller_Owner_def ERC20TokenRemoteCaller_Symbol_def
     ERC20TokenRemoteCaller_TotalSupply_def
  by ((intro conjI allI impI)?; rule call_reads [OF assms], rule ERC20TokenRemote_methods)
    (simp_all del: matches.simps(1))

lemma ERC20TokenRemote_parsers_decode:
  assumes "codec_events k" and "event_ids k ERC20TokenRemoteABI" and "bound_spec k
     ERC20TokenRemoteABI be c"
  shows "parser_decodes k ERC20TokenRemoteABI ''Approval''
     (ERC20TokenRemoteFilterer_ParseApproval c) \<and>
     parser_decodes k ERC20TokenRemoteABI ''CallFailed''
        (ERC20TokenRemoteFilterer_ParseCallFailed c) \<and>
     parser_decodes k ERC20TokenRemoteABI ''CallSucceeded''
        (ERC20TokenRemoteFilterer_ParseCallSucceeded c) \<and>
     parser_decodes k ERC20TokenRemoteABI ''Initialized''
        (ERC20TokenRemoteFilterer_ParseInitialized c) \<and>
     parser_decodes k ERC20TokenRemoteABI ''MinTeleporterVersionUpdated''
        (ERC20TokenRemoteFilterer_ParseMinTeleporterVersionUpdated c) \<and>
     parser_decodes k ERC20TokenRemoteABI ''OwnershipTransferred''
        (ERC20TokenRemoteFilterer_ParseOwnershipTransferred c) \<and>
     parser_decodes k ERC20TokenRemoteABI ''TeleporterAddressPaused''
        (ERC20TokenRemoteFilterer_ParseTeleporterAddressPaused c) \<and>
     parser_decodes k ERC20TokenRemoteABI ''TeleporterAddressUnpaused''
        (ERC20TokenRemoteFilterer_ParseTeleporterAddressUnpaused c) \<and>
     parser_decodes k ERC20TokenRemoteABI ''TokensAndCallSent''
        (ERC20TokenRemoteFilterer_ParseTokensAndCallSent c) \<and>
     parser_decodes k ERC20TokenRemoteABI ''TokensSent''
        (ERC20TokenRemoteFilterer_ParseTokensSent c) \<and>
     parser_decodes k ERC20TokenRemoteABI ''TokensWithdrawn''
        (ERC20TokenRemoteFilterer_ParseTokensWithdrawn c) \<and>
     parser_decodes k ERC20TokenRemoteABI ''Transfer'' (ERC20TokenRemoteFilterer_ParseTransfer
        c)"
proof -
  note parses = parse_log_decodes [OF assms]
  show ?thesis
    unfolding ERC20TokenRemoteFilterer_ParseApproval_def
       ERC20TokenRemoteFilterer_ParseCallFailed_def
       ERC20TokenRemoteFilterer_ParseCallSucceeded_def
       ERC20TokenRemoteFilterer_ParseInitialized_def
       ERC20TokenRemoteFilterer_ParseMinTeleporterVersionUpdated_def
       ERC20TokenRemoteFilterer_ParseOwnershipTransferred_def
       ERC20TokenRemoteFilterer_ParseTeleporterAddressPaused_def
       ERC20TokenRemoteFilterer_ParseTeleporterAddressUnpaused_def
       ERC20TokenRemoteFilterer_ParseTokensAndCallSent_def
       ERC20TokenRemoteFilterer_ParseTokensSent_def
       ERC20TokenRemoteFilterer_ParseTokensWithdrawn_def
       ERC20TokenRemoteFilterer_ParseTransfer_def
    by ((intro conjI)?; rule parses, rule ERC20TokenRemote_events, rule
       ERC20TokenRemote_decodable)
qed

end
