(* ===== verification/NativeTokenRemoteBinding.thy ===== *)
theory NativeTokenRemoteBinding
  imports IcttStructs AbiRef
begin

text \<open>
  The generated binding \<open>abi-bindings/go/ictt/TokenRemote/NativeTokenRemote/NativeTokenRemote.go\<close> over the generic
  definitions of theory \<open>Binding\<close>: its ABI, every method with its session wrappers, every event with
  its iterator, filter, watch and parser. The bytecode is a parameter of deployment; the aliases
  \<open>Raw\<close> of the untyped calls are not modelled.
\<close>

section \<open>The contract's ABI (NativeTokenRemoteMetaData)\<close>

definition NativeTokenRemoteABI :: contract_abi where
  "NativeTokenRemoteABI = \<lparr>
      Methods = [
        (''BURNED_FOR_TRANSFER_ADDRESS'', [],
           [('''', TAddress)]),
        (''BURNED_TX_FEES_ADDRESS'', [],
           [('''', TAddress)]),
        (''HOME_CHAIN_BURN_ADDRESS'', [],
           [('''', TAddress)]),
        (''MULTI_HOP_CALL_GAS_PER_WORD'', [],
           [('''', TUint 256)]),
        (''MULTI_HOP_CALL_REQUIRED_GAS'', [],
           [('''', TUint 256)]),
        (''MULTI_HOP_SEND_REQUIRED_GAS'', [],
           [('''', TUint 256)]),
        (''NATIVE_MINTER'', [],
           [('''', TAddress)]),
        (''NATIVE_TOKEN_REMOTE_STORAGE_LOCATION'', [],
           [('''', TBytes32)]),
        (''REGISTER_REMOTE_REQUIRED_GAS'', [],
           [('''', TUint 256)]),
        (''TELEPORTER_REGISTRY_APP_STORAGE_LOCATION'', [],
           [('''', TBytes32)]),
        (''TOKEN_REMOTE_STORAGE_LOCATION'', [],
           [('''', TBytes32)]),
        (''allowance'', [(''owner'', TAddress), (''spender'', TAddress)],
           [('''', TUint 256)]),
        (''approve'', [(''spender'', TAddress), (''value'', TUint 256)],
           [('''', TBool)]),
        (''balanceOf'', [(''account'', TAddress)],
           [('''', TUint 256)]),
        (''calculateNumWords'', [(''payloadSize'', TUint 256)],
           [('''', TUint 256)]),
        (''decimals'', [],
           [('''', TUint 8)]),
        (''deposit'', [],
           []),
        (''getBlockchainID'', [],
           [('''', TBytes32)]),
        (''getInitialReserveImbalance'', [],
           [('''', TUint 256)]),
        (''getIsCollateralized'', [],
           [('''', TBool)]),
        (''getMinTeleporterVersion'', [],
           [('''', TUint 256)]),
        (''getMultiplyOnRemote'', [],
           [('''', TBool)]),
        (''getTokenHomeAddress'', [],
           [('''', TAddress)]),
        (''getTokenHomeBlockchainID'', [],
           [('''', TBytes32)]),
        (''getTokenMultiplier'', [],
           [('''', TUint 256)]),
        (''getTotalMinted'', [],
           [('''', TUint 256)]),
        (''initialize'', [(''settings'', TokenRemoteSettings_tuple), (''nativeAssetSymbol'',
           TString), (''initialReserveImbalance'', TUint 256),
           (''burnedFeesReportingRewardPercentage'', TUint 256)],
           []),
        (''isTeleporterAddressPaused'', [(''teleporterAddress'', TAddress)],
           [('''', TBool)]),
        (''name'', [],
           [('''', TString)]),
        (''owner'', [],
           [('''', TAddress)]),
        (''pauseTeleporterAddress'', [(''teleporterAddress'', TAddress)],
           []),
        (''receiveTeleporterMessage'', [(''sourceBlockchainID'', TBytes32),
           (''originSenderAddress'', TAddress), (''message'', TBytes)],
           []),
        (''registerWithHome'', [(''feeInfo'', fee_info_tuple)],
           []),
        (''renounceOwnership'', [],
           []),
        (''reportBurnedTxFees'', [(''requiredGasLimit'', TUint 256)],
           []),
        (''send'', [(''input'', SendTokensInput_tuple)],
           []),
        (''sendAndCall'', [(''input'', SendAndCallInput_tuple)],
           []),
        (''symbol'', [],
           [('''', TString)]),
        (''totalNativeAssetSupply'', [],
           [('''', TUint 256)]),
        (''totalSupply'', [],
           [('''', TUint 256)]),
        (''transfer'', [(''to'', TAddress), (''value'', TUint 256)],
           [('''', TBool)]),
        (''transferFrom'', [(''from'', TAddress), (''to'', TAddress), (''value'', TUint 256)],
           [('''', TBool)]),
        (''transferOwnership'', [(''newOwner'', TAddress)],
           []),
        (''unpauseTeleporterAddress'', [(''teleporterAddress'', TAddress)],
           []),
        (''updateMinTeleporterVersion'', [(''version'', TUint 256)],
           []),
        (''withdraw'', [(''amount'', TUint 256)],
           [])],
      Events = [
        (''Approval'', [(''owner'', TAddress, True), (''spender'', TAddress, True), (''value'',
           TUint 256, False)]),
        (''CallFailed'', [(''recipientContract'', TAddress, True), (''amount'', TUint 256,
           False)]),
        (''CallSucceeded'', [(''recipientContract'', TAddress, True), (''amount'', TUint 256,
           False)]),
        (''Deposit'', [(''sender'', TAddress, True), (''amount'', TUint 256, False)]),
        (''Initialized'', [(''version'', TUint 64, False)]),
        (''MinTeleporterVersionUpdated'', [(''oldMinTeleporterVersion'', TUint 256, True),
           (''newMinTeleporterVersion'', TUint 256, True)]),
        (''OwnershipTransferred'', [(''previousOwner'', TAddress, True), (''newOwner'',
           TAddress, True)]),
        (''ReportBurnedTxFees'', [(''teleporterMessageID'', TBytes32, True), (''feesBurned'',
           TUint 256, False)]),
        (''TeleporterAddressPaused'', [(''teleporterAddress'', TAddress, True)]),
        (''TeleporterAddressUnpaused'', [(''teleporterAddress'', TAddress, True)]),
        (''TokensAndCallSent'', [(''teleporterMessageID'', TBytes32, True), (''sender'',
           TAddress, True), (''input'', SendAndCallInput_tuple, False), (''amount'', TUint 256,
           False)]),
        (''TokensSent'', [(''teleporterMessageID'', TBytes32, True), (''sender'', TAddress,
           True), (''input'', SendTokensInput_tuple, False), (''amount'', TUint 256, False)]),
        (''TokensWithdrawn'', [(''recipient'', TAddress, True), (''amount'', TUint 256,
           False)]),
        (''Transfer'', [(''from'', TAddress, True), (''to'', TAddress, True), (''value'', TUint
           256, False)]),
        (''Withdrawal'', [(''sender'', TAddress, True), (''amount'', TUint 256, False)])]\<rparr>"

section \<open>Binding and deployment\<close>

definition bindNativeTokenRemote :: "'w bind_lib \<Rightarrow> address \<Rightarrow> goerr + 'w bound_contract" where
  "bindNativeTokenRemote lib addr = bind_contract lib NativeTokenRemoteABI addr"

definition NewNativeTokenRemote :: "'w bind_lib \<Rightarrow> address \<Rightarrow> goerr + 'w bound_contract" where
  "NewNativeTokenRemote lib addr = bindNativeTokenRemote lib addr"

definition DeployNativeTokenRemote ::
  "'w bind_lib \<Rightarrow> string \<Rightarrow> TransactOpts \<Rightarrow> TokenRemoteSettings \<Rightarrow> string \<Rightarrow> int \<Rightarrow> int \<Rightarrow> 
   ('w, goerr + address \<times> hash \<times> 'w bound_contract) prog" where
  "DeployNativeTokenRemote lib bin auth settings nativeAssetSymbol initialReserveImbalance
     burnedFeesReportingRewardPercentage = deploy_contract lib auth NativeTokenRemoteABI bin
     [TokenRemoteSettings_val settings, GStr nativeAssetSymbol, GBig initialReserveImbalance,
     GBig burnedFeesReportingRewardPercentage]"

section \<open>Methods\<close>

definition NativeTokenRemoteCaller_BURNEDFORTRANSFERADDRESS ::
  "'w bound_contract \<Rightarrow> CallOpts \<Rightarrow> ('w, goerr + address) prog" where
  "NativeTokenRemoteCaller_BURNEDFORTRANSFERADDRESS c opts =
     call_method c opts ''BURNED_FOR_TRANSFER_ADDRESS'' [] (out1 go_addr)"

definition NativeTokenRemoteSession_BURNEDFORTRANSFERADDRESS ::
  "'w session \<Rightarrow> ('w, goerr + address) prog" where
  "NativeTokenRemoteSession_BURNEDFORTRANSFERADDRESS s =
     NativeTokenRemoteCaller_BURNEDFORTRANSFERADDRESS (SessionContract s) (SessionCallOpts s)"

definition NativeTokenRemoteCaller_BURNEDTXFEESADDRESS ::
  "'w bound_contract \<Rightarrow> CallOpts \<Rightarrow> ('w, goerr + address) prog" where
  "NativeTokenRemoteCaller_BURNEDTXFEESADDRESS c opts =
     call_method c opts ''BURNED_TX_FEES_ADDRESS'' [] (out1 go_addr)"

definition NativeTokenRemoteSession_BURNEDTXFEESADDRESS ::
  "'w session \<Rightarrow> ('w, goerr + address) prog" where
  "NativeTokenRemoteSession_BURNEDTXFEESADDRESS s = NativeTokenRemoteCaller_BURNEDTXFEESADDRESS
     (SessionContract s) (SessionCallOpts s)"

definition NativeTokenRemoteCaller_HOMECHAINBURNADDRESS ::
  "'w bound_contract \<Rightarrow> CallOpts \<Rightarrow> ('w, goerr + address) prog" where
  "NativeTokenRemoteCaller_HOMECHAINBURNADDRESS c opts =
     call_method c opts ''HOME_CHAIN_BURN_ADDRESS'' [] (out1 go_addr)"

definition NativeTokenRemoteSession_HOMECHAINBURNADDRESS ::
  "'w session \<Rightarrow> ('w, goerr + address) prog" where
  "NativeTokenRemoteSession_HOMECHAINBURNADDRESS s =
     NativeTokenRemoteCaller_HOMECHAINBURNADDRESS (SessionContract s) (SessionCallOpts s)"

definition NativeTokenRemoteCaller_MULTIHOPCALLGASPERWORD ::
  "'w bound_contract \<Rightarrow> CallOpts \<Rightarrow> ('w, goerr + int) prog" where
  "NativeTokenRemoteCaller_MULTIHOPCALLGASPERWORD c opts =
     call_method c opts ''MULTI_HOP_CALL_GAS_PER_WORD'' [] (out1 go_big)"

definition NativeTokenRemoteSession_MULTIHOPCALLGASPERWORD ::
  "'w session \<Rightarrow> ('w, goerr + int) prog" where
  "NativeTokenRemoteSession_MULTIHOPCALLGASPERWORD s =
     NativeTokenRemoteCaller_MULTIHOPCALLGASPERWORD (SessionContract s) (SessionCallOpts s)"

definition NativeTokenRemoteCaller_MULTIHOPCALLREQUIREDGAS ::
  "'w bound_contract \<Rightarrow> CallOpts \<Rightarrow> ('w, goerr + int) prog" where
  "NativeTokenRemoteCaller_MULTIHOPCALLREQUIREDGAS c opts =
     call_method c opts ''MULTI_HOP_CALL_REQUIRED_GAS'' [] (out1 go_big)"

definition NativeTokenRemoteSession_MULTIHOPCALLREQUIREDGAS ::
  "'w session \<Rightarrow> ('w, goerr + int) prog" where
  "NativeTokenRemoteSession_MULTIHOPCALLREQUIREDGAS s =
     NativeTokenRemoteCaller_MULTIHOPCALLREQUIREDGAS (SessionContract s) (SessionCallOpts s)"

definition NativeTokenRemoteCaller_MULTIHOPSENDREQUIREDGAS ::
  "'w bound_contract \<Rightarrow> CallOpts \<Rightarrow> ('w, goerr + int) prog" where
  "NativeTokenRemoteCaller_MULTIHOPSENDREQUIREDGAS c opts =
     call_method c opts ''MULTI_HOP_SEND_REQUIRED_GAS'' [] (out1 go_big)"

definition NativeTokenRemoteSession_MULTIHOPSENDREQUIREDGAS ::
  "'w session \<Rightarrow> ('w, goerr + int) prog" where
  "NativeTokenRemoteSession_MULTIHOPSENDREQUIREDGAS s =
     NativeTokenRemoteCaller_MULTIHOPSENDREQUIREDGAS (SessionContract s) (SessionCallOpts s)"

definition NativeTokenRemoteCaller_NATIVEMINTER ::
  "'w bound_contract \<Rightarrow> CallOpts \<Rightarrow> ('w, goerr + address) prog" where
  "NativeTokenRemoteCaller_NATIVEMINTER c opts =
     call_method c opts ''NATIVE_MINTER'' [] (out1 go_addr)"

definition NativeTokenRemoteSession_NATIVEMINTER ::
  "'w session \<Rightarrow> ('w, goerr + address) prog" where
  "NativeTokenRemoteSession_NATIVEMINTER s = NativeTokenRemoteCaller_NATIVEMINTER
     (SessionContract s) (SessionCallOpts s)"

definition NativeTokenRemoteCaller_NATIVETOKENREMOTESTORAGELOCATION ::
  "'w bound_contract \<Rightarrow> CallOpts \<Rightarrow> ('w, goerr + hash) prog" where
  "NativeTokenRemoteCaller_NATIVETOKENREMOTESTORAGELOCATION c opts =
     call_method c opts ''NATIVE_TOKEN_REMOTE_STORAGE_LOCATION'' [] (out1 go_arr32)"

definition NativeTokenRemoteSession_NATIVETOKENREMOTESTORAGELOCATION ::
  "'w session \<Rightarrow> ('w, goerr + hash) prog" where
  "NativeTokenRemoteSession_NATIVETOKENREMOTESTORAGELOCATION s =
     NativeTokenRemoteCaller_NATIVETOKENREMOTESTORAGELOCATION (SessionContract s)
     (SessionCallOpts s)"

definition NativeTokenRemoteCaller_REGISTERREMOTEREQUIREDGAS ::
  "'w bound_contract \<Rightarrow> CallOpts \<Rightarrow> ('w, goerr + int) prog" where
  "NativeTokenRemoteCaller_REGISTERREMOTEREQUIREDGAS c opts =
     call_method c opts ''REGISTER_REMOTE_REQUIRED_GAS'' [] (out1 go_big)"

definition NativeTokenRemoteSession_REGISTERREMOTEREQUIREDGAS ::
  "'w session \<Rightarrow> ('w, goerr + int) prog" where
  "NativeTokenRemoteSession_REGISTERREMOTEREQUIREDGAS s =
     NativeTokenRemoteCaller_REGISTERREMOTEREQUIREDGAS (SessionContract s) (SessionCallOpts s)"

definition NativeTokenRemoteCaller_TELEPORTERREGISTRYAPPSTORAGELOCATION ::
  "'w bound_contract \<Rightarrow> CallOpts \<Rightarrow> ('w, goerr + hash) prog" where
  "NativeTokenRemoteCaller_TELEPORTERREGISTRYAPPSTORAGELOCATION c opts =
     call_method c opts ''TELEPORTER_REGISTRY_APP_STORAGE_LOCATION'' [] (out1 go_arr32)"

definition NativeTokenRemoteSession_TELEPORTERREGISTRYAPPSTORAGELOCATION ::
  "'w session \<Rightarrow> ('w, goerr + hash) prog" where
  "NativeTokenRemoteSession_TELEPORTERREGISTRYAPPSTORAGELOCATION s =
     NativeTokenRemoteCaller_TELEPORTERREGISTRYAPPSTORAGELOCATION (SessionContract s)
     (SessionCallOpts s)"

definition NativeTokenRemoteCaller_TOKENREMOTESTORAGELOCATION ::
  "'w bound_contract \<Rightarrow> CallOpts \<Rightarrow> ('w, goerr + hash) prog" where
  "NativeTokenRemoteCaller_TOKENREMOTESTORAGELOCATION c opts =
     call_method c opts ''TOKEN_REMOTE_STORAGE_LOCATION'' [] (out1 go_arr32)"

definition NativeTokenRemoteSession_TOKENREMOTESTORAGELOCATION ::
  "'w session \<Rightarrow> ('w, goerr + hash) prog" where
  "NativeTokenRemoteSession_TOKENREMOTESTORAGELOCATION s =
     NativeTokenRemoteCaller_TOKENREMOTESTORAGELOCATION (SessionContract s) (SessionCallOpts s)"

definition NativeTokenRemoteCaller_Allowance ::
  "'w bound_contract \<Rightarrow> CallOpts \<Rightarrow> address \<Rightarrow> address \<Rightarrow> ('w, goerr + int) prog" where
  "NativeTokenRemoteCaller_Allowance c opts owner spender =
     call_method c opts ''allowance'' [GAddr owner, GAddr spender] (out1 go_big)"

definition NativeTokenRemoteSession_Allowance ::
  "'w session \<Rightarrow> address \<Rightarrow> address \<Rightarrow> ('w, goerr + int) prog" where
  "NativeTokenRemoteSession_Allowance s owner spender = NativeTokenRemoteCaller_Allowance
     (SessionContract s) (SessionCallOpts s) owner spender"

definition NativeTokenRemoteTransactor_Approve ::
  "'w bound_contract \<Rightarrow> TransactOpts \<Rightarrow> address \<Rightarrow> int \<Rightarrow> ('w, goerr + hash) prog" where
  "NativeTokenRemoteTransactor_Approve c opts spender amount_value =
     contract_transact c opts ''approve'' [GAddr spender, GBig amount_value]"

definition NativeTokenRemoteSession_Approve ::
  "'w session \<Rightarrow> address \<Rightarrow> int \<Rightarrow> ('w, goerr + hash) prog" where
  "NativeTokenRemoteSession_Approve s spender amount_value = NativeTokenRemoteTransactor_Approve
     (SessionContract s) (SessionTransactOpts s) spender amount_value"

definition NativeTokenRemoteCaller_BalanceOf ::
  "'w bound_contract \<Rightarrow> CallOpts \<Rightarrow> address \<Rightarrow> ('w, goerr + int) prog" where
  "NativeTokenRemoteCaller_BalanceOf c opts account =
     call_method c opts ''balanceOf'' [GAddr account] (out1 go_big)"

definition NativeTokenRemoteSession_BalanceOf ::
  "'w session \<Rightarrow> address \<Rightarrow> ('w, goerr + int) prog" where
  "NativeTokenRemoteSession_BalanceOf s account = NativeTokenRemoteCaller_BalanceOf
     (SessionContract s) (SessionCallOpts s) account"

definition NativeTokenRemoteCaller_CalculateNumWords ::
  "'w bound_contract \<Rightarrow> CallOpts \<Rightarrow> int \<Rightarrow> ('w, goerr + int) prog" where
  "NativeTokenRemoteCaller_CalculateNumWords c opts payloadSize =
     call_method c opts ''calculateNumWords'' [GBig payloadSize] (out1 go_big)"

definition NativeTokenRemoteSession_CalculateNumWords ::
  "'w session \<Rightarrow> int \<Rightarrow> ('w, goerr + int) prog" where
  "NativeTokenRemoteSession_CalculateNumWords s payloadSize =
     NativeTokenRemoteCaller_CalculateNumWords (SessionContract s) (SessionCallOpts s)
     payloadSize"

definition NativeTokenRemoteCaller_Decimals ::
  "'w bound_contract \<Rightarrow> CallOpts \<Rightarrow> ('w, goerr + u8) prog" where
  "NativeTokenRemoteCaller_Decimals c opts =
     call_method c opts ''decimals'' [] (out1 (go_word 8))"

definition NativeTokenRemoteSession_Decimals ::
  "'w session \<Rightarrow> ('w, goerr + u8) prog" where
  "NativeTokenRemoteSession_Decimals s = NativeTokenRemoteCaller_Decimals (SessionContract s)
     (SessionCallOpts s)"

definition NativeTokenRemoteTransactor_Deposit ::
  "'w bound_contract \<Rightarrow> TransactOpts \<Rightarrow> ('w, goerr + hash) prog" where
  "NativeTokenRemoteTransactor_Deposit c opts =
     contract_transact c opts ''deposit'' []"

definition NativeTokenRemoteSession_Deposit ::
  "'w session \<Rightarrow> ('w, goerr + hash) prog" where
  "NativeTokenRemoteSession_Deposit s = NativeTokenRemoteTransactor_Deposit (SessionContract s)
     (SessionTransactOpts s)"

definition NativeTokenRemoteCaller_GetBlockchainID ::
  "'w bound_contract \<Rightarrow> CallOpts \<Rightarrow> ('w, goerr + hash) prog" where
  "NativeTokenRemoteCaller_GetBlockchainID c opts =
     call_method c opts ''getBlockchainID'' [] (out1 go_arr32)"

definition NativeTokenRemoteSession_GetBlockchainID ::
  "'w session \<Rightarrow> ('w, goerr + hash) prog" where
  "NativeTokenRemoteSession_GetBlockchainID s = NativeTokenRemoteCaller_GetBlockchainID
     (SessionContract s) (SessionCallOpts s)"

definition NativeTokenRemoteCaller_GetInitialReserveImbalance ::
  "'w bound_contract \<Rightarrow> CallOpts \<Rightarrow> ('w, goerr + int) prog" where
  "NativeTokenRemoteCaller_GetInitialReserveImbalance c opts =
     call_method c opts ''getInitialReserveImbalance'' [] (out1 go_big)"

definition NativeTokenRemoteSession_GetInitialReserveImbalance ::
  "'w session \<Rightarrow> ('w, goerr + int) prog" where
  "NativeTokenRemoteSession_GetInitialReserveImbalance s =
     NativeTokenRemoteCaller_GetInitialReserveImbalance (SessionContract s) (SessionCallOpts s)"

definition NativeTokenRemoteCaller_GetIsCollateralized ::
  "'w bound_contract \<Rightarrow> CallOpts \<Rightarrow> ('w, goerr + bool) prog" where
  "NativeTokenRemoteCaller_GetIsCollateralized c opts =
     call_method c opts ''getIsCollateralized'' [] (out1 go_bool)"

definition NativeTokenRemoteSession_GetIsCollateralized ::
  "'w session \<Rightarrow> ('w, goerr + bool) prog" where
  "NativeTokenRemoteSession_GetIsCollateralized s = NativeTokenRemoteCaller_GetIsCollateralized
     (SessionContract s) (SessionCallOpts s)"

definition NativeTokenRemoteCaller_GetMinTeleporterVersion ::
  "'w bound_contract \<Rightarrow> CallOpts \<Rightarrow> ('w, goerr + int) prog" where
  "NativeTokenRemoteCaller_GetMinTeleporterVersion c opts =
     call_method c opts ''getMinTeleporterVersion'' [] (out1 go_big)"

definition NativeTokenRemoteSession_GetMinTeleporterVersion ::
  "'w session \<Rightarrow> ('w, goerr + int) prog" where
  "NativeTokenRemoteSession_GetMinTeleporterVersion s =
     NativeTokenRemoteCaller_GetMinTeleporterVersion (SessionContract s) (SessionCallOpts s)"

definition NativeTokenRemoteCaller_GetMultiplyOnRemote ::
  "'w bound_contract \<Rightarrow> CallOpts \<Rightarrow> ('w, goerr + bool) prog" where
  "NativeTokenRemoteCaller_GetMultiplyOnRemote c opts =
     call_method c opts ''getMultiplyOnRemote'' [] (out1 go_bool)"

definition NativeTokenRemoteSession_GetMultiplyOnRemote ::
  "'w session \<Rightarrow> ('w, goerr + bool) prog" where
  "NativeTokenRemoteSession_GetMultiplyOnRemote s = NativeTokenRemoteCaller_GetMultiplyOnRemote
     (SessionContract s) (SessionCallOpts s)"

definition NativeTokenRemoteCaller_GetTokenHomeAddress ::
  "'w bound_contract \<Rightarrow> CallOpts \<Rightarrow> ('w, goerr + address) prog" where
  "NativeTokenRemoteCaller_GetTokenHomeAddress c opts =
     call_method c opts ''getTokenHomeAddress'' [] (out1 go_addr)"

definition NativeTokenRemoteSession_GetTokenHomeAddress ::
  "'w session \<Rightarrow> ('w, goerr + address) prog" where
  "NativeTokenRemoteSession_GetTokenHomeAddress s = NativeTokenRemoteCaller_GetTokenHomeAddress
     (SessionContract s) (SessionCallOpts s)"

definition NativeTokenRemoteCaller_GetTokenHomeBlockchainID ::
  "'w bound_contract \<Rightarrow> CallOpts \<Rightarrow> ('w, goerr + hash) prog" where
  "NativeTokenRemoteCaller_GetTokenHomeBlockchainID c opts =
     call_method c opts ''getTokenHomeBlockchainID'' [] (out1 go_arr32)"

definition NativeTokenRemoteSession_GetTokenHomeBlockchainID ::
  "'w session \<Rightarrow> ('w, goerr + hash) prog" where
  "NativeTokenRemoteSession_GetTokenHomeBlockchainID s =
     NativeTokenRemoteCaller_GetTokenHomeBlockchainID (SessionContract s) (SessionCallOpts s)"

definition NativeTokenRemoteCaller_GetTokenMultiplier ::
  "'w bound_contract \<Rightarrow> CallOpts \<Rightarrow> ('w, goerr + int) prog" where
  "NativeTokenRemoteCaller_GetTokenMultiplier c opts =
     call_method c opts ''getTokenMultiplier'' [] (out1 go_big)"

definition NativeTokenRemoteSession_GetTokenMultiplier ::
  "'w session \<Rightarrow> ('w, goerr + int) prog" where
  "NativeTokenRemoteSession_GetTokenMultiplier s = NativeTokenRemoteCaller_GetTokenMultiplier
     (SessionContract s) (SessionCallOpts s)"

definition NativeTokenRemoteCaller_GetTotalMinted ::
  "'w bound_contract \<Rightarrow> CallOpts \<Rightarrow> ('w, goerr + int) prog" where
  "NativeTokenRemoteCaller_GetTotalMinted c opts =
     call_method c opts ''getTotalMinted'' [] (out1 go_big)"

definition NativeTokenRemoteSession_GetTotalMinted ::
  "'w session \<Rightarrow> ('w, goerr + int) prog" where
  "NativeTokenRemoteSession_GetTotalMinted s = NativeTokenRemoteCaller_GetTotalMinted
     (SessionContract s) (SessionCallOpts s)"

definition NativeTokenRemoteTransactor_Initialize ::
  "'w bound_contract \<Rightarrow> TransactOpts \<Rightarrow> TokenRemoteSettings \<Rightarrow> string \<Rightarrow> int \<Rightarrow> int \<Rightarrow> ('w, goerr +
     hash) prog" where
  "NativeTokenRemoteTransactor_Initialize c opts settings nativeAssetSymbol
     initialReserveImbalance burnedFeesReportingRewardPercentage =
     contract_transact c opts ''initialize'' [TokenRemoteSettings_val settings, GStr
        nativeAssetSymbol, GBig initialReserveImbalance, GBig
        burnedFeesReportingRewardPercentage]"

definition NativeTokenRemoteSession_Initialize ::
  "'w session \<Rightarrow> TokenRemoteSettings \<Rightarrow> string \<Rightarrow> int \<Rightarrow> int \<Rightarrow> ('w, goerr + hash) prog" where
  "NativeTokenRemoteSession_Initialize s settings nativeAssetSymbol initialReserveImbalance
     burnedFeesReportingRewardPercentage = NativeTokenRemoteTransactor_Initialize
     (SessionContract s) (SessionTransactOpts s) settings nativeAssetSymbol
     initialReserveImbalance burnedFeesReportingRewardPercentage"

definition NativeTokenRemoteCaller_IsTeleporterAddressPaused ::
  "'w bound_contract \<Rightarrow> CallOpts \<Rightarrow> address \<Rightarrow> ('w, goerr + bool) prog" where
  "NativeTokenRemoteCaller_IsTeleporterAddressPaused c opts teleporterAddress =
     call_method c opts ''isTeleporterAddressPaused'' [GAddr teleporterAddress] (out1 go_bool)"

definition NativeTokenRemoteSession_IsTeleporterAddressPaused ::
  "'w session \<Rightarrow> address \<Rightarrow> ('w, goerr + bool) prog" where
  "NativeTokenRemoteSession_IsTeleporterAddressPaused s teleporterAddress =
     NativeTokenRemoteCaller_IsTeleporterAddressPaused (SessionContract s) (SessionCallOpts s)
     teleporterAddress"

definition NativeTokenRemoteCaller_Name ::
  "'w bound_contract \<Rightarrow> CallOpts \<Rightarrow> ('w, goerr + string) prog" where
  "NativeTokenRemoteCaller_Name c opts =
     call_method c opts ''name'' [] (out1 go_str)"

definition NativeTokenRemoteSession_Name ::
  "'w session \<Rightarrow> ('w, goerr + string) prog" where
  "NativeTokenRemoteSession_Name s = NativeTokenRemoteCaller_Name (SessionContract s)
     (SessionCallOpts s)"

definition NativeTokenRemoteCaller_Owner ::
  "'w bound_contract \<Rightarrow> CallOpts \<Rightarrow> ('w, goerr + address) prog" where
  "NativeTokenRemoteCaller_Owner c opts =
     call_method c opts ''owner'' [] (out1 go_addr)"

definition NativeTokenRemoteSession_Owner ::
  "'w session \<Rightarrow> ('w, goerr + address) prog" where
  "NativeTokenRemoteSession_Owner s = NativeTokenRemoteCaller_Owner (SessionContract s)
     (SessionCallOpts s)"

definition NativeTokenRemoteTransactor_PauseTeleporterAddress ::
  "'w bound_contract \<Rightarrow> TransactOpts \<Rightarrow> address \<Rightarrow> ('w, goerr + hash) prog" where
  "NativeTokenRemoteTransactor_PauseTeleporterAddress c opts teleporterAddress =
     contract_transact c opts ''pauseTeleporterAddress'' [GAddr teleporterAddress]"

definition NativeTokenRemoteSession_PauseTeleporterAddress ::
  "'w session \<Rightarrow> address \<Rightarrow> ('w, goerr + hash) prog" where
  "NativeTokenRemoteSession_PauseTeleporterAddress s teleporterAddress =
     NativeTokenRemoteTransactor_PauseTeleporterAddress (SessionContract s) (SessionTransactOpts
     s) teleporterAddress"

definition NativeTokenRemoteTransactor_ReceiveTeleporterMessage ::
  "'w bound_contract \<Rightarrow> TransactOpts \<Rightarrow> hash \<Rightarrow> address \<Rightarrow> bytes \<Rightarrow> ('w, goerr + hash) prog" where
  "NativeTokenRemoteTransactor_ReceiveTeleporterMessage c opts sourceBlockchainID
     originSenderAddress message =
     contract_transact c opts ''receiveTeleporterMessage'' [GArr32 sourceBlockchainID, GAddr
        originSenderAddress, GBytes message]"

definition NativeTokenRemoteSession_ReceiveTeleporterMessage ::
  "'w session \<Rightarrow> hash \<Rightarrow> address \<Rightarrow> bytes \<Rightarrow> ('w, goerr + hash) prog" where
  "NativeTokenRemoteSession_ReceiveTeleporterMessage s sourceBlockchainID originSenderAddress
     message = NativeTokenRemoteTransactor_ReceiveTeleporterMessage (SessionContract s)
     (SessionTransactOpts s) sourceBlockchainID originSenderAddress message"

definition NativeTokenRemoteTransactor_RegisterWithHome ::
  "'w bound_contract \<Rightarrow> TransactOpts \<Rightarrow> TeleporterFeeInfo \<Rightarrow> ('w, goerr + hash) prog" where
  "NativeTokenRemoteTransactor_RegisterWithHome c opts feeInfo =
     contract_transact c opts ''registerWithHome'' [fee_info_val feeInfo]"

definition NativeTokenRemoteSession_RegisterWithHome ::
  "'w session \<Rightarrow> TeleporterFeeInfo \<Rightarrow> ('w, goerr + hash) prog" where
  "NativeTokenRemoteSession_RegisterWithHome s feeInfo =
     NativeTokenRemoteTransactor_RegisterWithHome (SessionContract s) (SessionTransactOpts s)
     feeInfo"

definition NativeTokenRemoteTransactor_RenounceOwnership ::
  "'w bound_contract \<Rightarrow> TransactOpts \<Rightarrow> ('w, goerr + hash) prog" where
  "NativeTokenRemoteTransactor_RenounceOwnership c opts =
     contract_transact c opts ''renounceOwnership'' []"

definition NativeTokenRemoteSession_RenounceOwnership ::
  "'w session \<Rightarrow> ('w, goerr + hash) prog" where
  "NativeTokenRemoteSession_RenounceOwnership s = NativeTokenRemoteTransactor_RenounceOwnership
     (SessionContract s) (SessionTransactOpts s)"

definition NativeTokenRemoteTransactor_ReportBurnedTxFees ::
  "'w bound_contract \<Rightarrow> TransactOpts \<Rightarrow> int \<Rightarrow> ('w, goerr + hash) prog" where
  "NativeTokenRemoteTransactor_ReportBurnedTxFees c opts requiredGasLimit =
     contract_transact c opts ''reportBurnedTxFees'' [GBig requiredGasLimit]"

definition NativeTokenRemoteSession_ReportBurnedTxFees ::
  "'w session \<Rightarrow> int \<Rightarrow> ('w, goerr + hash) prog" where
  "NativeTokenRemoteSession_ReportBurnedTxFees s requiredGasLimit =
     NativeTokenRemoteTransactor_ReportBurnedTxFees (SessionContract s) (SessionTransactOpts s)
     requiredGasLimit"

definition NativeTokenRemoteTransactor_Send ::
  "'w bound_contract \<Rightarrow> TransactOpts \<Rightarrow> SendTokensInput \<Rightarrow> ('w, goerr + hash) prog" where
  "NativeTokenRemoteTransactor_Send c opts input_data =
     contract_transact c opts ''send'' [SendTokensInput_val input_data]"

definition NativeTokenRemoteSession_Send ::
  "'w session \<Rightarrow> SendTokensInput \<Rightarrow> ('w, goerr + hash) prog" where
  "NativeTokenRemoteSession_Send s input_data = NativeTokenRemoteTransactor_Send
     (SessionContract s) (SessionTransactOpts s) input_data"

definition NativeTokenRemoteTransactor_SendAndCall ::
  "'w bound_contract \<Rightarrow> TransactOpts \<Rightarrow> SendAndCallInput \<Rightarrow> ('w, goerr + hash) prog" where
  "NativeTokenRemoteTransactor_SendAndCall c opts input_data =
     contract_transact c opts ''sendAndCall'' [SendAndCallInput_val input_data]"

definition NativeTokenRemoteSession_SendAndCall ::
  "'w session \<Rightarrow> SendAndCallInput \<Rightarrow> ('w, goerr + hash) prog" where
  "NativeTokenRemoteSession_SendAndCall s input_data = NativeTokenRemoteTransactor_SendAndCall
     (SessionContract s) (SessionTransactOpts s) input_data"

definition NativeTokenRemoteCaller_Symbol ::
  "'w bound_contract \<Rightarrow> CallOpts \<Rightarrow> ('w, goerr + string) prog" where
  "NativeTokenRemoteCaller_Symbol c opts =
     call_method c opts ''symbol'' [] (out1 go_str)"

definition NativeTokenRemoteSession_Symbol ::
  "'w session \<Rightarrow> ('w, goerr + string) prog" where
  "NativeTokenRemoteSession_Symbol s = NativeTokenRemoteCaller_Symbol (SessionContract s)
     (SessionCallOpts s)"

definition NativeTokenRemoteCaller_TotalNativeAssetSupply ::
  "'w bound_contract \<Rightarrow> CallOpts \<Rightarrow> ('w, goerr + int) prog" where
  "NativeTokenRemoteCaller_TotalNativeAssetSupply c opts =
     call_method c opts ''totalNativeAssetSupply'' [] (out1 go_big)"

definition NativeTokenRemoteSession_TotalNativeAssetSupply ::
  "'w session \<Rightarrow> ('w, goerr + int) prog" where
  "NativeTokenRemoteSession_TotalNativeAssetSupply s =
     NativeTokenRemoteCaller_TotalNativeAssetSupply (SessionContract s) (SessionCallOpts s)"

definition NativeTokenRemoteCaller_TotalSupply ::
  "'w bound_contract \<Rightarrow> CallOpts \<Rightarrow> ('w, goerr + int) prog" where
  "NativeTokenRemoteCaller_TotalSupply c opts =
     call_method c opts ''totalSupply'' [] (out1 go_big)"

definition NativeTokenRemoteSession_TotalSupply ::
  "'w session \<Rightarrow> ('w, goerr + int) prog" where
  "NativeTokenRemoteSession_TotalSupply s = NativeTokenRemoteCaller_TotalSupply (SessionContract
     s) (SessionCallOpts s)"

definition NativeTokenRemoteTransactor_Transfer ::
  "'w bound_contract \<Rightarrow> TransactOpts \<Rightarrow> address \<Rightarrow> int \<Rightarrow> ('w, goerr + hash) prog" where
  "NativeTokenRemoteTransactor_Transfer c opts to_addr amount_value =
     contract_transact c opts ''transfer'' [GAddr to_addr, GBig amount_value]"

definition NativeTokenRemoteSession_Transfer ::
  "'w session \<Rightarrow> address \<Rightarrow> int \<Rightarrow> ('w, goerr + hash) prog" where
  "NativeTokenRemoteSession_Transfer s to_addr amount_value =
     NativeTokenRemoteTransactor_Transfer (SessionContract s) (SessionTransactOpts s) to_addr
     amount_value"

definition NativeTokenRemoteTransactor_TransferFrom ::
  "'w bound_contract \<Rightarrow> TransactOpts \<Rightarrow> address \<Rightarrow> address \<Rightarrow> int \<Rightarrow> ('w, goerr + hash) prog" where
  "NativeTokenRemoteTransactor_TransferFrom c opts from_addr to_addr amount_value =
     contract_transact c opts ''transferFrom'' [GAddr from_addr, GAddr to_addr, GBig
        amount_value]"

definition NativeTokenRemoteSession_TransferFrom ::
  "'w session \<Rightarrow> address \<Rightarrow> address \<Rightarrow> int \<Rightarrow> ('w, goerr + hash) prog" where
  "NativeTokenRemoteSession_TransferFrom s from_addr to_addr amount_value =
     NativeTokenRemoteTransactor_TransferFrom (SessionContract s) (SessionTransactOpts s)
     from_addr to_addr amount_value"

definition NativeTokenRemoteTransactor_TransferOwnership ::
  "'w bound_contract \<Rightarrow> TransactOpts \<Rightarrow> address \<Rightarrow> ('w, goerr + hash) prog" where
  "NativeTokenRemoteTransactor_TransferOwnership c opts newOwner =
     contract_transact c opts ''transferOwnership'' [GAddr newOwner]"

definition NativeTokenRemoteSession_TransferOwnership ::
  "'w session \<Rightarrow> address \<Rightarrow> ('w, goerr + hash) prog" where
  "NativeTokenRemoteSession_TransferOwnership s newOwner =
     NativeTokenRemoteTransactor_TransferOwnership (SessionContract s) (SessionTransactOpts s)
     newOwner"

definition NativeTokenRemoteTransactor_UnpauseTeleporterAddress ::
  "'w bound_contract \<Rightarrow> TransactOpts \<Rightarrow> address \<Rightarrow> ('w, goerr + hash) prog" where
  "NativeTokenRemoteTransactor_UnpauseTeleporterAddress c opts teleporterAddress =
     contract_transact c opts ''unpauseTeleporterAddress'' [GAddr teleporterAddress]"

definition NativeTokenRemoteSession_UnpauseTeleporterAddress ::
  "'w session \<Rightarrow> address \<Rightarrow> ('w, goerr + hash) prog" where
  "NativeTokenRemoteSession_UnpauseTeleporterAddress s teleporterAddress =
     NativeTokenRemoteTransactor_UnpauseTeleporterAddress (SessionContract s)
     (SessionTransactOpts s) teleporterAddress"

definition NativeTokenRemoteTransactor_UpdateMinTeleporterVersion ::
  "'w bound_contract \<Rightarrow> TransactOpts \<Rightarrow> int \<Rightarrow> ('w, goerr + hash) prog" where
  "NativeTokenRemoteTransactor_UpdateMinTeleporterVersion c opts version_number =
     contract_transact c opts ''updateMinTeleporterVersion'' [GBig version_number]"

definition NativeTokenRemoteSession_UpdateMinTeleporterVersion ::
  "'w session \<Rightarrow> int \<Rightarrow> ('w, goerr + hash) prog" where
  "NativeTokenRemoteSession_UpdateMinTeleporterVersion s version_number =
     NativeTokenRemoteTransactor_UpdateMinTeleporterVersion (SessionContract s)
     (SessionTransactOpts s) version_number"

definition NativeTokenRemoteTransactor_Withdraw ::
  "'w bound_contract \<Rightarrow> TransactOpts \<Rightarrow> int \<Rightarrow> ('w, goerr + hash) prog" where
  "NativeTokenRemoteTransactor_Withdraw c opts amount =
     contract_transact c opts ''withdraw'' [GBig amount]"

definition NativeTokenRemoteSession_Withdraw ::
  "'w session \<Rightarrow> int \<Rightarrow> ('w, goerr + hash) prog" where
  "NativeTokenRemoteSession_Withdraw s amount = NativeTokenRemoteTransactor_Withdraw
     (SessionContract s) (SessionTransactOpts s) amount"

definition NativeTokenRemoteTransactor_Fallback :: "'w bound_contract \<Rightarrow> TransactOpts \<Rightarrow> bytes \<Rightarrow>
   ('w, goerr + hash) prog" where
  "NativeTokenRemoteTransactor_Fallback c opts calldata = contract_raw_transact c opts calldata"

definition NativeTokenRemoteSession_Fallback :: "'w session \<Rightarrow> bytes \<Rightarrow> ('w, goerr + hash) prog"
   where
  "NativeTokenRemoteSession_Fallback s calldata = NativeTokenRemoteTransactor_Fallback
     (SessionContract s) (SessionTransactOpts s) calldata"

definition NativeTokenRemoteTransactor_Receive :: "'w bound_contract \<Rightarrow> TransactOpts \<Rightarrow> ('w, goerr
   + hash) prog" where
  "NativeTokenRemoteTransactor_Receive c opts = contract_raw_transact c opts []"

definition NativeTokenRemoteSession_Receive :: "'w session \<Rightarrow> ('w, goerr + hash) prog" where
  "NativeTokenRemoteSession_Receive s = NativeTokenRemoteTransactor_Receive (SessionContract s)
     (SessionTransactOpts s)"

section \<open>Events\<close>

definition NativeTokenRemoteApproval :: event_fields where
  "NativeTokenRemoteApproval = [(''Owner'', GAddr 0), (''Spender'', GAddr 0), (''Value'', GNil),
     (''Raw'', zero_Log)]"

definition NativeTokenRemoteApprovalIterator_Next ::
  "'w bound_contract \<Rightarrow> bool \<Rightarrow> iterator \<Rightarrow> (bool \<times> iterator) option" where
  "NativeTokenRemoteApprovalIterator_Next c pick it = iterator_Next (parse_log c ''Approval''
     NativeTokenRemoteApproval) NativeTokenRemoteApproval pick it"

definition NativeTokenRemoteApprovalIterator_Error :: "iterator \<Rightarrow> goerr option" where
  "NativeTokenRemoteApprovalIterator_Error it = iterator_Error it"

definition NativeTokenRemoteApprovalIterator_Close :: "iterator \<Rightarrow> goerr option \<times> iterator" where
  "NativeTokenRemoteApprovalIterator_Close it = iterator_Close it"

definition NativeTokenRemoteFilterer_FilterApproval ::
  "'w bound_contract \<Rightarrow> FilterOpts \<Rightarrow> address list \<Rightarrow> address list \<Rightarrow> ('w, goerr + iterator) prog"
     where
  "NativeTokenRemoteFilterer_FilterApproval c opts owner spender =
     filter_events c opts ''Approval'' [map GAddr owner, map GAddr spender]"

definition NativeTokenRemoteFilterer_WatchApproval ::
  "'w bound_contract \<Rightarrow> address list \<Rightarrow> address list \<Rightarrow> ('w, goerr + (evm_log \<Rightarrow> goerr +
     event_fields)) prog" where
  "NativeTokenRemoteFilterer_WatchApproval c owner spender =
     watch_events c ''Approval'' NativeTokenRemoteApproval [map GAddr owner, map GAddr spender]"

definition NativeTokenRemoteFilterer_ParseApproval ::
  "'w bound_contract \<Rightarrow> evm_log \<Rightarrow> goerr + event_fields" where
  "NativeTokenRemoteFilterer_ParseApproval c = parse_log c ''Approval''
     NativeTokenRemoteApproval"

definition NativeTokenRemoteCallFailed :: event_fields where
  "NativeTokenRemoteCallFailed = [(''RecipientContract'', GAddr 0), (''Amount'', GNil),
     (''Raw'', zero_Log)]"

definition NativeTokenRemoteCallFailedIterator_Next ::
  "'w bound_contract \<Rightarrow> bool \<Rightarrow> iterator \<Rightarrow> (bool \<times> iterator) option" where
  "NativeTokenRemoteCallFailedIterator_Next c pick it = iterator_Next (parse_log c
     ''CallFailed'' NativeTokenRemoteCallFailed) NativeTokenRemoteCallFailed pick it"

definition NativeTokenRemoteCallFailedIterator_Error :: "iterator \<Rightarrow> goerr option" where
  "NativeTokenRemoteCallFailedIterator_Error it = iterator_Error it"

definition NativeTokenRemoteCallFailedIterator_Close :: "iterator \<Rightarrow> goerr option \<times> iterator"
   where
  "NativeTokenRemoteCallFailedIterator_Close it = iterator_Close it"

definition NativeTokenRemoteFilterer_FilterCallFailed ::
  "'w bound_contract \<Rightarrow> FilterOpts \<Rightarrow> address list \<Rightarrow> ('w, goerr + iterator) prog" where
  "NativeTokenRemoteFilterer_FilterCallFailed c opts recipientContract =
     filter_events c opts ''CallFailed'' [map GAddr recipientContract]"

definition NativeTokenRemoteFilterer_WatchCallFailed ::
  "'w bound_contract \<Rightarrow> address list \<Rightarrow> ('w, goerr + (evm_log \<Rightarrow> goerr + event_fields)) prog" where
  "NativeTokenRemoteFilterer_WatchCallFailed c recipientContract =
     watch_events c ''CallFailed'' NativeTokenRemoteCallFailed [map GAddr recipientContract]"

definition NativeTokenRemoteFilterer_ParseCallFailed ::
  "'w bound_contract \<Rightarrow> evm_log \<Rightarrow> goerr + event_fields" where
  "NativeTokenRemoteFilterer_ParseCallFailed c = parse_log c ''CallFailed''
     NativeTokenRemoteCallFailed"

definition NativeTokenRemoteCallSucceeded :: event_fields where
  "NativeTokenRemoteCallSucceeded = [(''RecipientContract'', GAddr 0), (''Amount'', GNil),
     (''Raw'', zero_Log)]"

definition NativeTokenRemoteCallSucceededIterator_Next ::
  "'w bound_contract \<Rightarrow> bool \<Rightarrow> iterator \<Rightarrow> (bool \<times> iterator) option" where
  "NativeTokenRemoteCallSucceededIterator_Next c pick it = iterator_Next (parse_log c
     ''CallSucceeded'' NativeTokenRemoteCallSucceeded) NativeTokenRemoteCallSucceeded pick it"

definition NativeTokenRemoteCallSucceededIterator_Error :: "iterator \<Rightarrow> goerr option" where
  "NativeTokenRemoteCallSucceededIterator_Error it = iterator_Error it"

definition NativeTokenRemoteCallSucceededIterator_Close :: "iterator \<Rightarrow> goerr option \<times> iterator"
   where
  "NativeTokenRemoteCallSucceededIterator_Close it = iterator_Close it"

definition NativeTokenRemoteFilterer_FilterCallSucceeded ::
  "'w bound_contract \<Rightarrow> FilterOpts \<Rightarrow> address list \<Rightarrow> ('w, goerr + iterator) prog" where
  "NativeTokenRemoteFilterer_FilterCallSucceeded c opts recipientContract =
     filter_events c opts ''CallSucceeded'' [map GAddr recipientContract]"

definition NativeTokenRemoteFilterer_WatchCallSucceeded ::
  "'w bound_contract \<Rightarrow> address list \<Rightarrow> ('w, goerr + (evm_log \<Rightarrow> goerr + event_fields)) prog" where
  "NativeTokenRemoteFilterer_WatchCallSucceeded c recipientContract =
     watch_events c ''CallSucceeded'' NativeTokenRemoteCallSucceeded [map GAddr
        recipientContract]"

definition NativeTokenRemoteFilterer_ParseCallSucceeded ::
  "'w bound_contract \<Rightarrow> evm_log \<Rightarrow> goerr + event_fields" where
  "NativeTokenRemoteFilterer_ParseCallSucceeded c = parse_log c ''CallSucceeded''
     NativeTokenRemoteCallSucceeded"

definition NativeTokenRemoteDeposit :: event_fields where
  "NativeTokenRemoteDeposit = [(''Sender'', GAddr 0), (''Amount'', GNil), (''Raw'', zero_Log)]"

definition NativeTokenRemoteDepositIterator_Next ::
  "'w bound_contract \<Rightarrow> bool \<Rightarrow> iterator \<Rightarrow> (bool \<times> iterator) option" where
  "NativeTokenRemoteDepositIterator_Next c pick it = iterator_Next (parse_log c ''Deposit''
     NativeTokenRemoteDeposit) NativeTokenRemoteDeposit pick it"

definition NativeTokenRemoteDepositIterator_Error :: "iterator \<Rightarrow> goerr option" where
  "NativeTokenRemoteDepositIterator_Error it = iterator_Error it"

definition NativeTokenRemoteDepositIterator_Close :: "iterator \<Rightarrow> goerr option \<times> iterator" where
  "NativeTokenRemoteDepositIterator_Close it = iterator_Close it"

definition NativeTokenRemoteFilterer_FilterDeposit ::
  "'w bound_contract \<Rightarrow> FilterOpts \<Rightarrow> address list \<Rightarrow> ('w, goerr + iterator) prog" where
  "NativeTokenRemoteFilterer_FilterDeposit c opts sender =
     filter_events c opts ''Deposit'' [map GAddr sender]"

definition NativeTokenRemoteFilterer_WatchDeposit ::
  "'w bound_contract \<Rightarrow> address list \<Rightarrow> ('w, goerr + (evm_log \<Rightarrow> goerr + event_fields)) prog" where
  "NativeTokenRemoteFilterer_WatchDeposit c sender =
     watch_events c ''Deposit'' NativeTokenRemoteDeposit [map GAddr sender]"

definition NativeTokenRemoteFilterer_ParseDeposit ::
  "'w bound_contract \<Rightarrow> evm_log \<Rightarrow> goerr + event_fields" where
  "NativeTokenRemoteFilterer_ParseDeposit c = parse_log c ''Deposit'' NativeTokenRemoteDeposit"

definition NativeTokenRemoteInitialized :: event_fields where
  "NativeTokenRemoteInitialized = [(''Version'', GUint 64 0), (''Raw'', zero_Log)]"

definition NativeTokenRemoteInitializedIterator_Next ::
  "'w bound_contract \<Rightarrow> bool \<Rightarrow> iterator \<Rightarrow> (bool \<times> iterator) option" where
  "NativeTokenRemoteInitializedIterator_Next c pick it = iterator_Next (parse_log c
     ''Initialized'' NativeTokenRemoteInitialized) NativeTokenRemoteInitialized pick it"

definition NativeTokenRemoteInitializedIterator_Error :: "iterator \<Rightarrow> goerr option" where
  "NativeTokenRemoteInitializedIterator_Error it = iterator_Error it"

definition NativeTokenRemoteInitializedIterator_Close :: "iterator \<Rightarrow> goerr option \<times> iterator"
   where
  "NativeTokenRemoteInitializedIterator_Close it = iterator_Close it"

definition NativeTokenRemoteFilterer_FilterInitialized ::
  "'w bound_contract \<Rightarrow> FilterOpts \<Rightarrow> ('w, goerr + iterator) prog" where
  "NativeTokenRemoteFilterer_FilterInitialized c opts =
     filter_events c opts ''Initialized'' []"

definition NativeTokenRemoteFilterer_WatchInitialized ::
  "'w bound_contract \<Rightarrow> ('w, goerr + (evm_log \<Rightarrow> goerr + event_fields)) prog" where
  "NativeTokenRemoteFilterer_WatchInitialized c =
     watch_events c ''Initialized'' NativeTokenRemoteInitialized []"

definition NativeTokenRemoteFilterer_ParseInitialized ::
  "'w bound_contract \<Rightarrow> evm_log \<Rightarrow> goerr + event_fields" where
  "NativeTokenRemoteFilterer_ParseInitialized c = parse_log c ''Initialized''
     NativeTokenRemoteInitialized"

definition NativeTokenRemoteMinTeleporterVersionUpdated :: event_fields where
  "NativeTokenRemoteMinTeleporterVersionUpdated = [(''OldMinTeleporterVersion'', GNil),
     (''NewMinTeleporterVersion'', GNil), (''Raw'', zero_Log)]"

definition NativeTokenRemoteMinTeleporterVersionUpdatedIterator_Next ::
  "'w bound_contract \<Rightarrow> bool \<Rightarrow> iterator \<Rightarrow> (bool \<times> iterator) option" where
  "NativeTokenRemoteMinTeleporterVersionUpdatedIterator_Next c pick it = iterator_Next
     (parse_log c ''MinTeleporterVersionUpdated'' NativeTokenRemoteMinTeleporterVersionUpdated)
     NativeTokenRemoteMinTeleporterVersionUpdated pick it"

definition NativeTokenRemoteMinTeleporterVersionUpdatedIterator_Error :: "iterator \<Rightarrow> goerr
   option" where
  "NativeTokenRemoteMinTeleporterVersionUpdatedIterator_Error it = iterator_Error it"

definition NativeTokenRemoteMinTeleporterVersionUpdatedIterator_Close :: "iterator \<Rightarrow> goerr
   option \<times> iterator" where
  "NativeTokenRemoteMinTeleporterVersionUpdatedIterator_Close it = iterator_Close it"

definition NativeTokenRemoteFilterer_FilterMinTeleporterVersionUpdated ::
  "'w bound_contract \<Rightarrow> FilterOpts \<Rightarrow> int list \<Rightarrow> int list \<Rightarrow> ('w, goerr + iterator) prog" where
  "NativeTokenRemoteFilterer_FilterMinTeleporterVersionUpdated c opts oldMinTeleporterVersion
     newMinTeleporterVersion =
     filter_events c opts ''MinTeleporterVersionUpdated'' [map GBig oldMinTeleporterVersion, map
        GBig newMinTeleporterVersion]"

definition NativeTokenRemoteFilterer_WatchMinTeleporterVersionUpdated ::
  "'w bound_contract \<Rightarrow> int list \<Rightarrow> int list \<Rightarrow> ('w, goerr + (evm_log \<Rightarrow> goerr + event_fields))
     prog" where
  "NativeTokenRemoteFilterer_WatchMinTeleporterVersionUpdated c oldMinTeleporterVersion
     newMinTeleporterVersion =
     watch_events c ''MinTeleporterVersionUpdated'' NativeTokenRemoteMinTeleporterVersionUpdated
        [map GBig oldMinTeleporterVersion, map GBig newMinTeleporterVersion]"

definition NativeTokenRemoteFilterer_ParseMinTeleporterVersionUpdated ::
  "'w bound_contract \<Rightarrow> evm_log \<Rightarrow> goerr + event_fields" where
  "NativeTokenRemoteFilterer_ParseMinTeleporterVersionUpdated c = parse_log c
     ''MinTeleporterVersionUpdated'' NativeTokenRemoteMinTeleporterVersionUpdated"

definition NativeTokenRemoteOwnershipTransferred :: event_fields where
  "NativeTokenRemoteOwnershipTransferred = [(''PreviousOwner'', GAddr 0), (''NewOwner'', GAddr
     0), (''Raw'', zero_Log)]"

definition NativeTokenRemoteOwnershipTransferredIterator_Next ::
  "'w bound_contract \<Rightarrow> bool \<Rightarrow> iterator \<Rightarrow> (bool \<times> iterator) option" where
  "NativeTokenRemoteOwnershipTransferredIterator_Next c pick it = iterator_Next (parse_log c
     ''OwnershipTransferred'' NativeTokenRemoteOwnershipTransferred)
     NativeTokenRemoteOwnershipTransferred pick it"

definition NativeTokenRemoteOwnershipTransferredIterator_Error :: "iterator \<Rightarrow> goerr option"
   where
  "NativeTokenRemoteOwnershipTransferredIterator_Error it = iterator_Error it"

definition NativeTokenRemoteOwnershipTransferredIterator_Close :: "iterator \<Rightarrow> goerr option \<times>
   iterator" where
  "NativeTokenRemoteOwnershipTransferredIterator_Close it = iterator_Close it"

definition NativeTokenRemoteFilterer_FilterOwnershipTransferred ::
  "'w bound_contract \<Rightarrow> FilterOpts \<Rightarrow> address list \<Rightarrow> address list \<Rightarrow> ('w, goerr + iterator) prog"
     where
  "NativeTokenRemoteFilterer_FilterOwnershipTransferred c opts previousOwner newOwner =
     filter_events c opts ''OwnershipTransferred'' [map GAddr previousOwner, map GAddr
        newOwner]"

definition NativeTokenRemoteFilterer_WatchOwnershipTransferred ::
  "'w bound_contract \<Rightarrow> address list \<Rightarrow> address list \<Rightarrow> ('w, goerr + (evm_log \<Rightarrow> goerr +
     event_fields)) prog" where
  "NativeTokenRemoteFilterer_WatchOwnershipTransferred c previousOwner newOwner =
     watch_events c ''OwnershipTransferred'' NativeTokenRemoteOwnershipTransferred [map GAddr
        previousOwner, map GAddr newOwner]"

definition NativeTokenRemoteFilterer_ParseOwnershipTransferred ::
  "'w bound_contract \<Rightarrow> evm_log \<Rightarrow> goerr + event_fields" where
  "NativeTokenRemoteFilterer_ParseOwnershipTransferred c = parse_log c ''OwnershipTransferred''
     NativeTokenRemoteOwnershipTransferred"

definition NativeTokenRemoteReportBurnedTxFees :: event_fields where
  "NativeTokenRemoteReportBurnedTxFees = [(''TeleporterMessageID'', GArr32 0), (''FeesBurned'',
     GNil), (''Raw'', zero_Log)]"

definition NativeTokenRemoteReportBurnedTxFeesIterator_Next ::
  "'w bound_contract \<Rightarrow> bool \<Rightarrow> iterator \<Rightarrow> (bool \<times> iterator) option" where
  "NativeTokenRemoteReportBurnedTxFeesIterator_Next c pick it = iterator_Next (parse_log c
     ''ReportBurnedTxFees'' NativeTokenRemoteReportBurnedTxFees)
     NativeTokenRemoteReportBurnedTxFees pick it"

definition NativeTokenRemoteReportBurnedTxFeesIterator_Error :: "iterator \<Rightarrow> goerr option" where
  "NativeTokenRemoteReportBurnedTxFeesIterator_Error it = iterator_Error it"

definition NativeTokenRemoteReportBurnedTxFeesIterator_Close :: "iterator \<Rightarrow> goerr option \<times>
   iterator" where
  "NativeTokenRemoteReportBurnedTxFeesIterator_Close it = iterator_Close it"

definition NativeTokenRemoteFilterer_FilterReportBurnedTxFees ::
  "'w bound_contract \<Rightarrow> FilterOpts \<Rightarrow> hash list \<Rightarrow> ('w, goerr + iterator) prog" where
  "NativeTokenRemoteFilterer_FilterReportBurnedTxFees c opts teleporterMessageID =
     filter_events c opts ''ReportBurnedTxFees'' [map GArr32 teleporterMessageID]"

definition NativeTokenRemoteFilterer_WatchReportBurnedTxFees ::
  "'w bound_contract \<Rightarrow> hash list \<Rightarrow> ('w, goerr + (evm_log \<Rightarrow> goerr + event_fields)) prog" where
  "NativeTokenRemoteFilterer_WatchReportBurnedTxFees c teleporterMessageID =
     watch_events c ''ReportBurnedTxFees'' NativeTokenRemoteReportBurnedTxFees [map GArr32
        teleporterMessageID]"

definition NativeTokenRemoteFilterer_ParseReportBurnedTxFees ::
  "'w bound_contract \<Rightarrow> evm_log \<Rightarrow> goerr + event_fields" where
  "NativeTokenRemoteFilterer_ParseReportBurnedTxFees c = parse_log c ''ReportBurnedTxFees''
     NativeTokenRemoteReportBurnedTxFees"

definition NativeTokenRemoteTeleporterAddressPaused :: event_fields where
  "NativeTokenRemoteTeleporterAddressPaused = [(''TeleporterAddress'', GAddr 0), (''Raw'',
     zero_Log)]"

definition NativeTokenRemoteTeleporterAddressPausedIterator_Next ::
  "'w bound_contract \<Rightarrow> bool \<Rightarrow> iterator \<Rightarrow> (bool \<times> iterator) option" where
  "NativeTokenRemoteTeleporterAddressPausedIterator_Next c pick it = iterator_Next (parse_log c
     ''TeleporterAddressPaused'' NativeTokenRemoteTeleporterAddressPaused)
     NativeTokenRemoteTeleporterAddressPaused pick it"

definition NativeTokenRemoteTeleporterAddressPausedIterator_Error :: "iterator \<Rightarrow> goerr option"
   where
  "NativeTokenRemoteTeleporterAddressPausedIterator_Error it = iterator_Error it"

definition NativeTokenRemoteTeleporterAddressPausedIterator_Close :: "iterator \<Rightarrow> goerr option \<times>
   iterator" where
  "NativeTokenRemoteTeleporterAddressPausedIterator_Close it = iterator_Close it"

definition NativeTokenRemoteFilterer_FilterTeleporterAddressPaused ::
  "'w bound_contract \<Rightarrow> FilterOpts \<Rightarrow> address list \<Rightarrow> ('w, goerr + iterator) prog" where
  "NativeTokenRemoteFilterer_FilterTeleporterAddressPaused c opts teleporterAddress =
     filter_events c opts ''TeleporterAddressPaused'' [map GAddr teleporterAddress]"

definition NativeTokenRemoteFilterer_WatchTeleporterAddressPaused ::
  "'w bound_contract \<Rightarrow> address list \<Rightarrow> ('w, goerr + (evm_log \<Rightarrow> goerr + event_fields)) prog" where
  "NativeTokenRemoteFilterer_WatchTeleporterAddressPaused c teleporterAddress =
     watch_events c ''TeleporterAddressPaused'' NativeTokenRemoteTeleporterAddressPaused [map
        GAddr teleporterAddress]"

definition NativeTokenRemoteFilterer_ParseTeleporterAddressPaused ::
  "'w bound_contract \<Rightarrow> evm_log \<Rightarrow> goerr + event_fields" where
  "NativeTokenRemoteFilterer_ParseTeleporterAddressPaused c = parse_log c
     ''TeleporterAddressPaused'' NativeTokenRemoteTeleporterAddressPaused"

definition NativeTokenRemoteTeleporterAddressUnpaused :: event_fields where
  "NativeTokenRemoteTeleporterAddressUnpaused = [(''TeleporterAddress'', GAddr 0), (''Raw'',
     zero_Log)]"

definition NativeTokenRemoteTeleporterAddressUnpausedIterator_Next ::
  "'w bound_contract \<Rightarrow> bool \<Rightarrow> iterator \<Rightarrow> (bool \<times> iterator) option" where
  "NativeTokenRemoteTeleporterAddressUnpausedIterator_Next c pick it = iterator_Next (parse_log
     c ''TeleporterAddressUnpaused'' NativeTokenRemoteTeleporterAddressUnpaused)
     NativeTokenRemoteTeleporterAddressUnpaused pick it"

definition NativeTokenRemoteTeleporterAddressUnpausedIterator_Error :: "iterator \<Rightarrow> goerr option"
   where
  "NativeTokenRemoteTeleporterAddressUnpausedIterator_Error it = iterator_Error it"

definition NativeTokenRemoteTeleporterAddressUnpausedIterator_Close :: "iterator \<Rightarrow> goerr option
   \<times> iterator" where
  "NativeTokenRemoteTeleporterAddressUnpausedIterator_Close it = iterator_Close it"

definition NativeTokenRemoteFilterer_FilterTeleporterAddressUnpaused ::
  "'w bound_contract \<Rightarrow> FilterOpts \<Rightarrow> address list \<Rightarrow> ('w, goerr + iterator) prog" where
  "NativeTokenRemoteFilterer_FilterTeleporterAddressUnpaused c opts teleporterAddress =
     filter_events c opts ''TeleporterAddressUnpaused'' [map GAddr teleporterAddress]"

definition NativeTokenRemoteFilterer_WatchTeleporterAddressUnpaused ::
  "'w bound_contract \<Rightarrow> address list \<Rightarrow> ('w, goerr + (evm_log \<Rightarrow> goerr + event_fields)) prog" where
  "NativeTokenRemoteFilterer_WatchTeleporterAddressUnpaused c teleporterAddress =
     watch_events c ''TeleporterAddressUnpaused'' NativeTokenRemoteTeleporterAddressUnpaused
        [map GAddr teleporterAddress]"

definition NativeTokenRemoteFilterer_ParseTeleporterAddressUnpaused ::
  "'w bound_contract \<Rightarrow> evm_log \<Rightarrow> goerr + event_fields" where
  "NativeTokenRemoteFilterer_ParseTeleporterAddressUnpaused c = parse_log c
     ''TeleporterAddressUnpaused'' NativeTokenRemoteTeleporterAddressUnpaused"

definition NativeTokenRemoteTokensAndCallSent :: event_fields where
  "NativeTokenRemoteTokensAndCallSent = [(''TeleporterMessageID'', GArr32 0), (''Sender'', GAddr
     0), (''Input'', zero_SendAndCallInput), (''Amount'', GNil), (''Raw'', zero_Log)]"

definition NativeTokenRemoteTokensAndCallSentIterator_Next ::
  "'w bound_contract \<Rightarrow> bool \<Rightarrow> iterator \<Rightarrow> (bool \<times> iterator) option" where
  "NativeTokenRemoteTokensAndCallSentIterator_Next c pick it = iterator_Next (parse_log c
     ''TokensAndCallSent'' NativeTokenRemoteTokensAndCallSent)
     NativeTokenRemoteTokensAndCallSent pick it"

definition NativeTokenRemoteTokensAndCallSentIterator_Error :: "iterator \<Rightarrow> goerr option" where
  "NativeTokenRemoteTokensAndCallSentIterator_Error it = iterator_Error it"

definition NativeTokenRemoteTokensAndCallSentIterator_Close :: "iterator \<Rightarrow> goerr option \<times>
   iterator" where
  "NativeTokenRemoteTokensAndCallSentIterator_Close it = iterator_Close it"

definition NativeTokenRemoteFilterer_FilterTokensAndCallSent ::
  "'w bound_contract \<Rightarrow> FilterOpts \<Rightarrow> hash list \<Rightarrow> address list \<Rightarrow> ('w, goerr + iterator) prog"
     where
  "NativeTokenRemoteFilterer_FilterTokensAndCallSent c opts teleporterMessageID sender =
     filter_events c opts ''TokensAndCallSent'' [map GArr32 teleporterMessageID, map GAddr
        sender]"

definition NativeTokenRemoteFilterer_WatchTokensAndCallSent ::
  "'w bound_contract \<Rightarrow> hash list \<Rightarrow> address list \<Rightarrow> ('w, goerr + (evm_log \<Rightarrow> goerr + event_fields))
     prog" where
  "NativeTokenRemoteFilterer_WatchTokensAndCallSent c teleporterMessageID sender =
     watch_events c ''TokensAndCallSent'' NativeTokenRemoteTokensAndCallSent [map GArr32
        teleporterMessageID, map GAddr sender]"

definition NativeTokenRemoteFilterer_ParseTokensAndCallSent ::
  "'w bound_contract \<Rightarrow> evm_log \<Rightarrow> goerr + event_fields" where
  "NativeTokenRemoteFilterer_ParseTokensAndCallSent c = parse_log c ''TokensAndCallSent''
     NativeTokenRemoteTokensAndCallSent"

definition NativeTokenRemoteTokensSent :: event_fields where
  "NativeTokenRemoteTokensSent = [(''TeleporterMessageID'', GArr32 0), (''Sender'', GAddr 0),
     (''Input'', zero_SendTokensInput), (''Amount'', GNil), (''Raw'', zero_Log)]"

definition NativeTokenRemoteTokensSentIterator_Next ::
  "'w bound_contract \<Rightarrow> bool \<Rightarrow> iterator \<Rightarrow> (bool \<times> iterator) option" where
  "NativeTokenRemoteTokensSentIterator_Next c pick it = iterator_Next (parse_log c
     ''TokensSent'' NativeTokenRemoteTokensSent) NativeTokenRemoteTokensSent pick it"

definition NativeTokenRemoteTokensSentIterator_Error :: "iterator \<Rightarrow> goerr option" where
  "NativeTokenRemoteTokensSentIterator_Error it = iterator_Error it"

definition NativeTokenRemoteTokensSentIterator_Close :: "iterator \<Rightarrow> goerr option \<times> iterator"
   where
  "NativeTokenRemoteTokensSentIterator_Close it = iterator_Close it"

definition NativeTokenRemoteFilterer_FilterTokensSent ::
  "'w bound_contract \<Rightarrow> FilterOpts \<Rightarrow> hash list \<Rightarrow> address list \<Rightarrow> ('w, goerr + iterator) prog"
     where
  "NativeTokenRemoteFilterer_FilterTokensSent c opts teleporterMessageID sender =
     filter_events c opts ''TokensSent'' [map GArr32 teleporterMessageID, map GAddr sender]"

definition NativeTokenRemoteFilterer_WatchTokensSent ::
  "'w bound_contract \<Rightarrow> hash list \<Rightarrow> address list \<Rightarrow> ('w, goerr + (evm_log \<Rightarrow> goerr + event_fields))
     prog" where
  "NativeTokenRemoteFilterer_WatchTokensSent c teleporterMessageID sender =
     watch_events c ''TokensSent'' NativeTokenRemoteTokensSent [map GArr32 teleporterMessageID,
        map GAddr sender]"

definition NativeTokenRemoteFilterer_ParseTokensSent ::
  "'w bound_contract \<Rightarrow> evm_log \<Rightarrow> goerr + event_fields" where
  "NativeTokenRemoteFilterer_ParseTokensSent c = parse_log c ''TokensSent''
     NativeTokenRemoteTokensSent"

definition NativeTokenRemoteTokensWithdrawn :: event_fields where
  "NativeTokenRemoteTokensWithdrawn = [(''Recipient'', GAddr 0), (''Amount'', GNil), (''Raw'',
     zero_Log)]"

definition NativeTokenRemoteTokensWithdrawnIterator_Next ::
  "'w bound_contract \<Rightarrow> bool \<Rightarrow> iterator \<Rightarrow> (bool \<times> iterator) option" where
  "NativeTokenRemoteTokensWithdrawnIterator_Next c pick it = iterator_Next (parse_log c
     ''TokensWithdrawn'' NativeTokenRemoteTokensWithdrawn) NativeTokenRemoteTokensWithdrawn pick
     it"

definition NativeTokenRemoteTokensWithdrawnIterator_Error :: "iterator \<Rightarrow> goerr option" where
  "NativeTokenRemoteTokensWithdrawnIterator_Error it = iterator_Error it"

definition NativeTokenRemoteTokensWithdrawnIterator_Close :: "iterator \<Rightarrow> goerr option \<times>
   iterator" where
  "NativeTokenRemoteTokensWithdrawnIterator_Close it = iterator_Close it"

definition NativeTokenRemoteFilterer_FilterTokensWithdrawn ::
  "'w bound_contract \<Rightarrow> FilterOpts \<Rightarrow> address list \<Rightarrow> ('w, goerr + iterator) prog" where
  "NativeTokenRemoteFilterer_FilterTokensWithdrawn c opts recipient =
     filter_events c opts ''TokensWithdrawn'' [map GAddr recipient]"

definition NativeTokenRemoteFilterer_WatchTokensWithdrawn ::
  "'w bound_contract \<Rightarrow> address list \<Rightarrow> ('w, goerr + (evm_log \<Rightarrow> goerr + event_fields)) prog" where
  "NativeTokenRemoteFilterer_WatchTokensWithdrawn c recipient =
     watch_events c ''TokensWithdrawn'' NativeTokenRemoteTokensWithdrawn [map GAddr recipient]"

definition NativeTokenRemoteFilterer_ParseTokensWithdrawn ::
  "'w bound_contract \<Rightarrow> evm_log \<Rightarrow> goerr + event_fields" where
  "NativeTokenRemoteFilterer_ParseTokensWithdrawn c = parse_log c ''TokensWithdrawn''
     NativeTokenRemoteTokensWithdrawn"

definition NativeTokenRemoteTransfer :: event_fields where
  "NativeTokenRemoteTransfer = [(''From'', GAddr 0), (''To'', GAddr 0), (''Value'', GNil),
     (''Raw'', zero_Log)]"

definition NativeTokenRemoteTransferIterator_Next ::
  "'w bound_contract \<Rightarrow> bool \<Rightarrow> iterator \<Rightarrow> (bool \<times> iterator) option" where
  "NativeTokenRemoteTransferIterator_Next c pick it = iterator_Next (parse_log c ''Transfer''
     NativeTokenRemoteTransfer) NativeTokenRemoteTransfer pick it"

definition NativeTokenRemoteTransferIterator_Error :: "iterator \<Rightarrow> goerr option" where
  "NativeTokenRemoteTransferIterator_Error it = iterator_Error it"

definition NativeTokenRemoteTransferIterator_Close :: "iterator \<Rightarrow> goerr option \<times> iterator" where
  "NativeTokenRemoteTransferIterator_Close it = iterator_Close it"

definition NativeTokenRemoteFilterer_FilterTransfer ::
  "'w bound_contract \<Rightarrow> FilterOpts \<Rightarrow> address list \<Rightarrow> address list \<Rightarrow> ('w, goerr + iterator) prog"
     where
  "NativeTokenRemoteFilterer_FilterTransfer c opts from_addr to_addr =
     filter_events c opts ''Transfer'' [map GAddr from_addr, map GAddr to_addr]"

definition NativeTokenRemoteFilterer_WatchTransfer ::
  "'w bound_contract \<Rightarrow> address list \<Rightarrow> address list \<Rightarrow> ('w, goerr + (evm_log \<Rightarrow> goerr +
     event_fields)) prog" where
  "NativeTokenRemoteFilterer_WatchTransfer c from_addr to_addr =
     watch_events c ''Transfer'' NativeTokenRemoteTransfer [map GAddr from_addr, map GAddr
        to_addr]"

definition NativeTokenRemoteFilterer_ParseTransfer ::
  "'w bound_contract \<Rightarrow> evm_log \<Rightarrow> goerr + event_fields" where
  "NativeTokenRemoteFilterer_ParseTransfer c = parse_log c ''Transfer''
     NativeTokenRemoteTransfer"

definition NativeTokenRemoteWithdrawal :: event_fields where
  "NativeTokenRemoteWithdrawal = [(''Sender'', GAddr 0), (''Amount'', GNil), (''Raw'',
     zero_Log)]"

definition NativeTokenRemoteWithdrawalIterator_Next ::
  "'w bound_contract \<Rightarrow> bool \<Rightarrow> iterator \<Rightarrow> (bool \<times> iterator) option" where
  "NativeTokenRemoteWithdrawalIterator_Next c pick it = iterator_Next (parse_log c
     ''Withdrawal'' NativeTokenRemoteWithdrawal) NativeTokenRemoteWithdrawal pick it"

definition NativeTokenRemoteWithdrawalIterator_Error :: "iterator \<Rightarrow> goerr option" where
  "NativeTokenRemoteWithdrawalIterator_Error it = iterator_Error it"

definition NativeTokenRemoteWithdrawalIterator_Close :: "iterator \<Rightarrow> goerr option \<times> iterator"
   where
  "NativeTokenRemoteWithdrawalIterator_Close it = iterator_Close it"

definition NativeTokenRemoteFilterer_FilterWithdrawal ::
  "'w bound_contract \<Rightarrow> FilterOpts \<Rightarrow> address list \<Rightarrow> ('w, goerr + iterator) prog" where
  "NativeTokenRemoteFilterer_FilterWithdrawal c opts sender =
     filter_events c opts ''Withdrawal'' [map GAddr sender]"

definition NativeTokenRemoteFilterer_WatchWithdrawal ::
  "'w bound_contract \<Rightarrow> address list \<Rightarrow> ('w, goerr + (evm_log \<Rightarrow> goerr + event_fields)) prog" where
  "NativeTokenRemoteFilterer_WatchWithdrawal c sender =
     watch_events c ''Withdrawal'' NativeTokenRemoteWithdrawal [map GAddr sender]"

definition NativeTokenRemoteFilterer_ParseWithdrawal ::
  "'w bound_contract \<Rightarrow> evm_log \<Rightarrow> goerr + event_fields" where
  "NativeTokenRemoteFilterer_ParseWithdrawal c = parse_log c ''Withdrawal''
     NativeTokenRemoteWithdrawal"

section \<open>Correctness\<close>

lemma NativeTokenRemote_methods:
  "map_of (Methods NativeTokenRemoteABI) ''BURNED_FOR_TRANSFER_ADDRESS'' =
     Some ([], [([], TAddress)])"
  "map_of (Methods NativeTokenRemoteABI) ''BURNED_TX_FEES_ADDRESS'' =
     Some ([], [([], TAddress)])"
  "map_of (Methods NativeTokenRemoteABI) ''HOME_CHAIN_BURN_ADDRESS'' =
     Some ([], [([], TAddress)])"
  "map_of (Methods NativeTokenRemoteABI) ''MULTI_HOP_CALL_GAS_PER_WORD'' =
     Some ([], [([], TUint 256)])"
  "map_of (Methods NativeTokenRemoteABI) ''MULTI_HOP_CALL_REQUIRED_GAS'' =
     Some ([], [([], TUint 256)])"
  "map_of (Methods NativeTokenRemoteABI) ''MULTI_HOP_SEND_REQUIRED_GAS'' =
     Some ([], [([], TUint 256)])"
  "map_of (Methods NativeTokenRemoteABI) ''NATIVE_MINTER'' =
     Some ([], [([], TAddress)])"
  "map_of (Methods NativeTokenRemoteABI) ''NATIVE_TOKEN_REMOTE_STORAGE_LOCATION'' =
     Some ([], [([], TBytes32)])"
  "map_of (Methods NativeTokenRemoteABI) ''REGISTER_REMOTE_REQUIRED_GAS'' =
     Some ([], [([], TUint 256)])"
  "map_of (Methods NativeTokenRemoteABI) ''TELEPORTER_REGISTRY_APP_STORAGE_LOCATION'' =
     Some ([], [([], TBytes32)])"
  "map_of (Methods NativeTokenRemoteABI) ''TOKEN_REMOTE_STORAGE_LOCATION'' =
     Some ([], [([], TBytes32)])"
  "map_of (Methods NativeTokenRemoteABI) ''allowance'' =
     Some ([(''owner'', TAddress), (''spender'', TAddress)], [([], TUint 256)])"
  "map_of (Methods NativeTokenRemoteABI) ''approve'' =
     Some ([(''spender'', TAddress), (''value'', TUint 256)], [([], TBool)])"
  "map_of (Methods NativeTokenRemoteABI) ''balanceOf'' =
     Some ([(''account'', TAddress)], [([], TUint 256)])"
  "map_of (Methods NativeTokenRemoteABI) ''calculateNumWords'' =
     Some ([(''payloadSize'', TUint 256)], [([], TUint 256)])"
  "map_of (Methods NativeTokenRemoteABI) ''decimals'' =
     Some ([], [([], TUint 8)])"
  "map_of (Methods NativeTokenRemoteABI) ''deposit'' =
     Some ([], [])"
  "map_of (Methods NativeTokenRemoteABI) ''getBlockchainID'' =
     Some ([], [([], TBytes32)])"
  "map_of (Methods NativeTokenRemoteABI) ''getInitialReserveImbalance'' =
     Some ([], [([], TUint 256)])"
  "map_of (Methods NativeTokenRemoteABI) ''getIsCollateralized'' =
     Some ([], [([], TBool)])"
  "map_of (Methods NativeTokenRemoteABI) ''getMinTeleporterVersion'' =
     Some ([], [([], TUint 256)])"
  "map_of (Methods NativeTokenRemoteABI) ''getMultiplyOnRemote'' =
     Some ([], [([], TBool)])"
  "map_of (Methods NativeTokenRemoteABI) ''getTokenHomeAddress'' =
     Some ([], [([], TAddress)])"
  "map_of (Methods NativeTokenRemoteABI) ''getTokenHomeBlockchainID'' =
     Some ([], [([], TBytes32)])"
  "map_of (Methods NativeTokenRemoteABI) ''getTokenMultiplier'' =
     Some ([], [([], TUint 256)])"
  "map_of (Methods NativeTokenRemoteABI) ''getTotalMinted'' =
     Some ([], [([], TUint 256)])"
  "map_of (Methods NativeTokenRemoteABI) ''initialize'' =
     Some ([(''settings'', TokenRemoteSettings_tuple), (''nativeAssetSymbol'', TString),
        (''initialReserveImbalance'', TUint 256), (''burnedFeesReportingRewardPercentage'',
        TUint 256)], [])"
  "map_of (Methods NativeTokenRemoteABI) ''isTeleporterAddressPaused'' =
     Some ([(''teleporterAddress'', TAddress)], [([], TBool)])"
  "map_of (Methods NativeTokenRemoteABI) ''name'' =
     Some ([], [([], TString)])"
  "map_of (Methods NativeTokenRemoteABI) ''owner'' =
     Some ([], [([], TAddress)])"
  "map_of (Methods NativeTokenRemoteABI) ''pauseTeleporterAddress'' =
     Some ([(''teleporterAddress'', TAddress)], [])"
  "map_of (Methods NativeTokenRemoteABI) ''receiveTeleporterMessage'' =
     Some ([(''sourceBlockchainID'', TBytes32), (''originSenderAddress'', TAddress),
        (''message'', TBytes)], [])"
  "map_of (Methods NativeTokenRemoteABI) ''registerWithHome'' =
     Some ([(''feeInfo'', fee_info_tuple)], [])"
  "map_of (Methods NativeTokenRemoteABI) ''renounceOwnership'' =
     Some ([], [])"
  "map_of (Methods NativeTokenRemoteABI) ''reportBurnedTxFees'' =
     Some ([(''requiredGasLimit'', TUint 256)], [])"
  "map_of (Methods NativeTokenRemoteABI) ''send'' =
     Some ([(''input'', SendTokensInput_tuple)], [])"
  "map_of (Methods NativeTokenRemoteABI) ''sendAndCall'' =
     Some ([(''input'', SendAndCallInput_tuple)], [])"
  "map_of (Methods NativeTokenRemoteABI) ''symbol'' =
     Some ([], [([], TString)])"
  "map_of (Methods NativeTokenRemoteABI) ''totalNativeAssetSupply'' =
     Some ([], [([], TUint 256)])"
  "map_of (Methods NativeTokenRemoteABI) ''totalSupply'' =
     Some ([], [([], TUint 256)])"
  "map_of (Methods NativeTokenRemoteABI) ''transfer'' =
     Some ([(''to'', TAddress), (''value'', TUint 256)], [([], TBool)])"
  "map_of (Methods NativeTokenRemoteABI) ''transferFrom'' =
     Some ([(''from'', TAddress), (''to'', TAddress), (''value'', TUint 256)], [([], TBool)])"
  "map_of (Methods NativeTokenRemoteABI) ''transferOwnership'' =
     Some ([(''newOwner'', TAddress)], [])"
  "map_of (Methods NativeTokenRemoteABI) ''unpauseTeleporterAddress'' =
     Some ([(''teleporterAddress'', TAddress)], [])"
  "map_of (Methods NativeTokenRemoteABI) ''updateMinTeleporterVersion'' =
     Some ([(''version'', TUint 256)], [])"
  "map_of (Methods NativeTokenRemoteABI) ''withdraw'' =
     Some ([(''amount'', TUint 256)], [])"
  unfolding NativeTokenRemoteABI_def contract_abi.select_convs
  by (simp_all only: table_lookup)

lemma NativeTokenRemote_decodable:
  "decodable [(''owner'', TAddress, True), (''spender'', TAddress, True), (''value'', TUint 256,
     False)]
     NativeTokenRemoteApproval"
  "decodable [(''recipientContract'', TAddress, True), (''amount'', TUint 256, False)]
     NativeTokenRemoteCallFailed"
  "decodable [(''recipientContract'', TAddress, True), (''amount'', TUint 256, False)]
     NativeTokenRemoteCallSucceeded"
  "decodable [(''sender'', TAddress, True), (''amount'', TUint 256, False)]
     NativeTokenRemoteDeposit"
  "decodable [(''version'', TUint 64, False)]
     NativeTokenRemoteInitialized"
  "decodable [(''oldMinTeleporterVersion'', TUint 256, True), (''newMinTeleporterVersion'',
     TUint 256, True)]
     NativeTokenRemoteMinTeleporterVersionUpdated"
  "decodable [(''previousOwner'', TAddress, True), (''newOwner'', TAddress, True)]
     NativeTokenRemoteOwnershipTransferred"
  "decodable [(''teleporterMessageID'', TBytes32, True), (''feesBurned'', TUint 256, False)]
     NativeTokenRemoteReportBurnedTxFees"
  "decodable [(''teleporterAddress'', TAddress, True)]
     NativeTokenRemoteTeleporterAddressPaused"
  "decodable [(''teleporterAddress'', TAddress, True)]
     NativeTokenRemoteTeleporterAddressUnpaused"
  "decodable [(''teleporterMessageID'', TBytes32, True), (''sender'', TAddress, True),
     (''input'', SendAndCallInput_tuple, False), (''amount'', TUint 256, False)]
     NativeTokenRemoteTokensAndCallSent"
  "decodable [(''teleporterMessageID'', TBytes32, True), (''sender'', TAddress, True),
     (''input'', SendTokensInput_tuple, False), (''amount'', TUint 256, False)]
     NativeTokenRemoteTokensSent"
  "decodable [(''recipient'', TAddress, True), (''amount'', TUint 256, False)]
     NativeTokenRemoteTokensWithdrawn"
  "decodable [(''from'', TAddress, True), (''to'', TAddress, True), (''value'', TUint 256,
     False)]
     NativeTokenRemoteTransfer"
  "decodable [(''sender'', TAddress, True), (''amount'', TUint 256, False)]
     NativeTokenRemoteWithdrawal"
  by (simp_all add: decodable_def has_fields_def fits_def NativeTokenRemoteApproval_def
     NativeTokenRemoteCallFailed_def NativeTokenRemoteCallSucceeded_def
     NativeTokenRemoteDeposit_def NativeTokenRemoteInitialized_def
     NativeTokenRemoteMinTeleporterVersionUpdated_def NativeTokenRemoteOwnershipTransferred_def
     NativeTokenRemoteReportBurnedTxFees_def NativeTokenRemoteTeleporterAddressPaused_def
     NativeTokenRemoteTeleporterAddressUnpaused_def NativeTokenRemoteTokensAndCallSent_def
     NativeTokenRemoteTokensSent_def NativeTokenRemoteTokensWithdrawn_def
     NativeTokenRemoteTransfer_def NativeTokenRemoteWithdrawal_def SendAndCallInput_tuple_def
     SendTokensInput_tuple_def)

lemma NativeTokenRemote_events:
  "map_of (Events NativeTokenRemoteABI) ''Approval'' =
     Some [(''owner'', TAddress, True), (''spender'', TAddress, True), (''value'', TUint 256,
        False)]"
  "map_of (Events NativeTokenRemoteABI) ''CallFailed'' =
     Some [(''recipientContract'', TAddress, True), (''amount'', TUint 256, False)]"
  "map_of (Events NativeTokenRemoteABI) ''CallSucceeded'' =
     Some [(''recipientContract'', TAddress, True), (''amount'', TUint 256, False)]"
  "map_of (Events NativeTokenRemoteABI) ''Deposit'' =
     Some [(''sender'', TAddress, True), (''amount'', TUint 256, False)]"
  "map_of (Events NativeTokenRemoteABI) ''Initialized'' =
     Some [(''version'', TUint 64, False)]"
  "map_of (Events NativeTokenRemoteABI) ''MinTeleporterVersionUpdated'' =
     Some [(''oldMinTeleporterVersion'', TUint 256, True), (''newMinTeleporterVersion'', TUint
        256, True)]"
  "map_of (Events NativeTokenRemoteABI) ''OwnershipTransferred'' =
     Some [(''previousOwner'', TAddress, True), (''newOwner'', TAddress, True)]"
  "map_of (Events NativeTokenRemoteABI) ''ReportBurnedTxFees'' =
     Some [(''teleporterMessageID'', TBytes32, True), (''feesBurned'', TUint 256, False)]"
  "map_of (Events NativeTokenRemoteABI) ''TeleporterAddressPaused'' =
     Some [(''teleporterAddress'', TAddress, True)]"
  "map_of (Events NativeTokenRemoteABI) ''TeleporterAddressUnpaused'' =
     Some [(''teleporterAddress'', TAddress, True)]"
  "map_of (Events NativeTokenRemoteABI) ''TokensAndCallSent'' =
     Some [(''teleporterMessageID'', TBytes32, True), (''sender'', TAddress, True), (''input'',
        SendAndCallInput_tuple, False), (''amount'', TUint 256, False)]"
  "map_of (Events NativeTokenRemoteABI) ''TokensSent'' =
     Some [(''teleporterMessageID'', TBytes32, True), (''sender'', TAddress, True), (''input'',
        SendTokensInput_tuple, False), (''amount'', TUint 256, False)]"
  "map_of (Events NativeTokenRemoteABI) ''TokensWithdrawn'' =
     Some [(''recipient'', TAddress, True), (''amount'', TUint 256, False)]"
  "map_of (Events NativeTokenRemoteABI) ''Transfer'' =
     Some [(''from'', TAddress, True), (''to'', TAddress, True), (''value'', TUint 256, False)]"
  "map_of (Events NativeTokenRemoteABI) ''Withdrawal'' =
     Some [(''sender'', TAddress, True), (''amount'', TUint 256, False)]"
  unfolding NativeTokenRemoteABI_def contract_abi.select_convs
  by (simp_all only: table_lookup)

lemma NativeTokenRemote_transactions_decode:
  assumes "codec_methods k" and "codec_roundtrip k" and "bound_spec k NativeTokenRemoteABI be c"
  shows "(\<forall>spender amount_value. in_uint256 amount_value \<longrightarrow> sends_call k NativeTokenRemoteABI be
     opts ''approve'' [GAddr spender, GBig amount_value]
       (NativeTokenRemoteTransactor_Approve c opts spender amount_value)) \<and>
     sends_call k NativeTokenRemoteABI be opts ''deposit'' []
       (NativeTokenRemoteTransactor_Deposit c opts) \<and>
     (\<forall>settings nativeAssetSymbol initialReserveImbalance burnedFeesReportingRewardPercentage.
        TokenRemoteSettings_ok settings \<longrightarrow> in_uint256 initialReserveImbalance \<longrightarrow> in_uint256
        burnedFeesReportingRewardPercentage \<longrightarrow> sends_call k NativeTokenRemoteABI be opts
        ''initialize'' [TokenRemoteSettings_val settings, GStr nativeAssetSymbol, GBig
        initialReserveImbalance, GBig burnedFeesReportingRewardPercentage]
       (NativeTokenRemoteTransactor_Initialize c opts settings nativeAssetSymbol
          initialReserveImbalance burnedFeesReportingRewardPercentage)) \<and>
     (\<forall>teleporterAddress. sends_call k NativeTokenRemoteABI be opts ''pauseTeleporterAddress''
        [GAddr teleporterAddress]
       (NativeTokenRemoteTransactor_PauseTeleporterAddress c opts teleporterAddress)) \<and>
     (\<forall>sourceBlockchainID originSenderAddress message. sends_call k NativeTokenRemoteABI be opts
        ''receiveTeleporterMessage'' [GArr32 sourceBlockchainID, GAddr originSenderAddress,
        GBytes message]
       (NativeTokenRemoteTransactor_ReceiveTeleporterMessage c opts sourceBlockchainID
          originSenderAddress message)) \<and>
     (\<forall>feeInfo. fee_info_ok feeInfo \<longrightarrow> sends_call k NativeTokenRemoteABI be opts
        ''registerWithHome'' [fee_info_val feeInfo]
       (NativeTokenRemoteTransactor_RegisterWithHome c opts feeInfo)) \<and>
     sends_call k NativeTokenRemoteABI be opts ''renounceOwnership'' []
       (NativeTokenRemoteTransactor_RenounceOwnership c opts) \<and>
     (\<forall>requiredGasLimit. in_uint256 requiredGasLimit \<longrightarrow> sends_call k NativeTokenRemoteABI be opts
        ''reportBurnedTxFees'' [GBig requiredGasLimit]
       (NativeTokenRemoteTransactor_ReportBurnedTxFees c opts requiredGasLimit)) \<and>
     (\<forall>input_data. SendTokensInput_ok input_data \<longrightarrow> sends_call k NativeTokenRemoteABI be opts
        ''send'' [SendTokensInput_val input_data]
       (NativeTokenRemoteTransactor_Send c opts input_data)) \<and>
     (\<forall>input_data. SendAndCallInput_ok input_data \<longrightarrow> sends_call k NativeTokenRemoteABI be opts
        ''sendAndCall'' [SendAndCallInput_val input_data]
       (NativeTokenRemoteTransactor_SendAndCall c opts input_data)) \<and>
     (\<forall>to_addr amount_value. in_uint256 amount_value \<longrightarrow> sends_call k NativeTokenRemoteABI be opts
        ''transfer'' [GAddr to_addr, GBig amount_value]
       (NativeTokenRemoteTransactor_Transfer c opts to_addr amount_value)) \<and>
     (\<forall>from_addr to_addr amount_value. in_uint256 amount_value \<longrightarrow> sends_call k
        NativeTokenRemoteABI be opts ''transferFrom'' [GAddr from_addr, GAddr to_addr, GBig
        amount_value]
       (NativeTokenRemoteTransactor_TransferFrom c opts from_addr to_addr amount_value)) \<and>
     (\<forall>newOwner. sends_call k NativeTokenRemoteABI be opts ''transferOwnership'' [GAddr
        newOwner]
       (NativeTokenRemoteTransactor_TransferOwnership c opts newOwner)) \<and>
     (\<forall>teleporterAddress. sends_call k NativeTokenRemoteABI be opts ''unpauseTeleporterAddress''
        [GAddr teleporterAddress]
       (NativeTokenRemoteTransactor_UnpauseTeleporterAddress c opts teleporterAddress)) \<and>
     (\<forall>version_number. in_uint256 version_number \<longrightarrow> sends_call k NativeTokenRemoteABI be opts
        ''updateMinTeleporterVersion'' [GBig version_number]
       (NativeTokenRemoteTransactor_UpdateMinTeleporterVersion c opts version_number)) \<and>
     (\<forall>amount. in_uint256 amount \<longrightarrow> sends_call k NativeTokenRemoteABI be opts ''withdraw'' [GBig
        amount]
       (NativeTokenRemoteTransactor_Withdraw c opts amount))"
  unfolding NativeTokenRemoteTransactor_Approve_def NativeTokenRemoteTransactor_Deposit_def
     NativeTokenRemoteTransactor_Initialize_def
     NativeTokenRemoteTransactor_PauseTeleporterAddress_def
     NativeTokenRemoteTransactor_ReceiveTeleporterMessage_def
     NativeTokenRemoteTransactor_RegisterWithHome_def
     NativeTokenRemoteTransactor_RenounceOwnership_def
     NativeTokenRemoteTransactor_ReportBurnedTxFees_def NativeTokenRemoteTransactor_Send_def
     NativeTokenRemoteTransactor_SendAndCall_def NativeTokenRemoteTransactor_Transfer_def
     NativeTokenRemoteTransactor_TransferFrom_def
     NativeTokenRemoteTransactor_TransferOwnership_def
     NativeTokenRemoteTransactor_UnpauseTeleporterAddress_def
     NativeTokenRemoteTransactor_UpdateMinTeleporterVersion_def
     NativeTokenRemoteTransactor_Withdraw_def
  by ((intro conjI allI impI)?; rule transact_sends [OF assms], rule NativeTokenRemote_methods)
    (simp_all del: matches.simps(1))

lemma NativeTokenRemote_calls_return_outputs:
  assumes "codec_methods k" and "codec_roundtrip k" and "bound_spec k NativeTokenRemoteABI be c"
  shows "(\<forall>r0. reads_call k NativeTokenRemoteABI be opts ''BURNED_FOR_TRANSFER_ADDRESS'' []
       [GAddr r0] r0 (NativeTokenRemoteCaller_BURNEDFORTRANSFERADDRESS c opts)) \<and>
     (\<forall>r0. reads_call k NativeTokenRemoteABI be opts ''BURNED_TX_FEES_ADDRESS'' []
       [GAddr r0] r0 (NativeTokenRemoteCaller_BURNEDTXFEESADDRESS c opts)) \<and>
     (\<forall>r0. reads_call k NativeTokenRemoteABI be opts ''HOME_CHAIN_BURN_ADDRESS'' []
       [GAddr r0] r0 (NativeTokenRemoteCaller_HOMECHAINBURNADDRESS c opts)) \<and>
     (\<forall>r0. in_uint256 r0 \<longrightarrow> reads_call k NativeTokenRemoteABI be opts
        ''MULTI_HOP_CALL_GAS_PER_WORD'' []
       [GBig r0] r0 (NativeTokenRemoteCaller_MULTIHOPCALLGASPERWORD c opts)) \<and>
     (\<forall>r0. in_uint256 r0 \<longrightarrow> reads_call k NativeTokenRemoteABI be opts
        ''MULTI_HOP_CALL_REQUIRED_GAS'' []
       [GBig r0] r0 (NativeTokenRemoteCaller_MULTIHOPCALLREQUIREDGAS c opts)) \<and>
     (\<forall>r0. in_uint256 r0 \<longrightarrow> reads_call k NativeTokenRemoteABI be opts
        ''MULTI_HOP_SEND_REQUIRED_GAS'' []
       [GBig r0] r0 (NativeTokenRemoteCaller_MULTIHOPSENDREQUIREDGAS c opts)) \<and>
     (\<forall>r0. reads_call k NativeTokenRemoteABI be opts ''NATIVE_MINTER'' []
       [GAddr r0] r0 (NativeTokenRemoteCaller_NATIVEMINTER c opts)) \<and>
     (\<forall>r0. reads_call k NativeTokenRemoteABI be opts ''NATIVE_TOKEN_REMOTE_STORAGE_LOCATION'' []
       [GArr32 r0] r0 (NativeTokenRemoteCaller_NATIVETOKENREMOTESTORAGELOCATION c opts)) \<and>
     (\<forall>r0. in_uint256 r0 \<longrightarrow> reads_call k NativeTokenRemoteABI be opts
        ''REGISTER_REMOTE_REQUIRED_GAS'' []
       [GBig r0] r0 (NativeTokenRemoteCaller_REGISTERREMOTEREQUIREDGAS c opts)) \<and>
     (\<forall>r0. reads_call k NativeTokenRemoteABI be opts
        ''TELEPORTER_REGISTRY_APP_STORAGE_LOCATION'' []
       [GArr32 r0] r0 (NativeTokenRemoteCaller_TELEPORTERREGISTRYAPPSTORAGELOCATION c opts)) \<and>
     (\<forall>r0. reads_call k NativeTokenRemoteABI be opts ''TOKEN_REMOTE_STORAGE_LOCATION'' []
       [GArr32 r0] r0 (NativeTokenRemoteCaller_TOKENREMOTESTORAGELOCATION c opts)) \<and>
     (\<forall>owner spender r0. in_uint256 r0 \<longrightarrow> reads_call k NativeTokenRemoteABI be opts ''allowance''
        [GAddr owner, GAddr spender]
       [GBig r0] r0 (NativeTokenRemoteCaller_Allowance c opts owner spender)) \<and>
     (\<forall>account r0. in_uint256 r0 \<longrightarrow> reads_call k NativeTokenRemoteABI be opts ''balanceOf''
        [GAddr account]
       [GBig r0] r0 (NativeTokenRemoteCaller_BalanceOf c opts account)) \<and>
     (\<forall>payloadSize r0. in_uint256 payloadSize \<longrightarrow> in_uint256 r0 \<longrightarrow> reads_call k
        NativeTokenRemoteABI be opts ''calculateNumWords'' [GBig payloadSize]
       [GBig r0] r0 (NativeTokenRemoteCaller_CalculateNumWords c opts payloadSize)) \<and>
     (\<forall>r0. reads_call k NativeTokenRemoteABI be opts ''decimals'' []
       [GUint 8 (unat r0)] r0 (NativeTokenRemoteCaller_Decimals c opts)) \<and>
     (\<forall>r0. reads_call k NativeTokenRemoteABI be opts ''getBlockchainID'' []
       [GArr32 r0] r0 (NativeTokenRemoteCaller_GetBlockchainID c opts)) \<and>
     (\<forall>r0. in_uint256 r0 \<longrightarrow> reads_call k NativeTokenRemoteABI be opts
        ''getInitialReserveImbalance'' []
       [GBig r0] r0 (NativeTokenRemoteCaller_GetInitialReserveImbalance c opts)) \<and>
     (\<forall>r0. reads_call k NativeTokenRemoteABI be opts ''getIsCollateralized'' []
       [GBool r0] r0 (NativeTokenRemoteCaller_GetIsCollateralized c opts)) \<and>
     (\<forall>r0. in_uint256 r0 \<longrightarrow> reads_call k NativeTokenRemoteABI be opts ''getMinTeleporterVersion''
        []
       [GBig r0] r0 (NativeTokenRemoteCaller_GetMinTeleporterVersion c opts)) \<and>
     (\<forall>r0. reads_call k NativeTokenRemoteABI be opts ''getMultiplyOnRemote'' []
       [GBool r0] r0 (NativeTokenRemoteCaller_GetMultiplyOnRemote c opts)) \<and>
     (\<forall>r0. reads_call k NativeTokenRemoteABI be opts ''getTokenHomeAddress'' []
       [GAddr r0] r0 (NativeTokenRemoteCaller_GetTokenHomeAddress c opts)) \<and>
     (\<forall>r0. reads_call k NativeTokenRemoteABI be opts ''getTokenHomeBlockchainID'' []
       [GArr32 r0] r0 (NativeTokenRemoteCaller_GetTokenHomeBlockchainID c opts)) \<and>
     (\<forall>r0. in_uint256 r0 \<longrightarrow> reads_call k NativeTokenRemoteABI be opts ''getTokenMultiplier'' []
       [GBig r0] r0 (NativeTokenRemoteCaller_GetTokenMultiplier c opts)) \<and>
     (\<forall>r0. in_uint256 r0 \<longrightarrow> reads_call k NativeTokenRemoteABI be opts ''getTotalMinted'' []
       [GBig r0] r0 (NativeTokenRemoteCaller_GetTotalMinted c opts)) \<and>
     (\<forall>teleporterAddress r0. reads_call k NativeTokenRemoteABI be opts
        ''isTeleporterAddressPaused'' [GAddr teleporterAddress]
       [GBool r0] r0 (NativeTokenRemoteCaller_IsTeleporterAddressPaused c opts
          teleporterAddress)) \<and>
     (\<forall>r0. reads_call k NativeTokenRemoteABI be opts ''name'' []
       [GStr r0] r0 (NativeTokenRemoteCaller_Name c opts)) \<and>
     (\<forall>r0. reads_call k NativeTokenRemoteABI be opts ''owner'' []
       [GAddr r0] r0 (NativeTokenRemoteCaller_Owner c opts)) \<and>
     (\<forall>r0. reads_call k NativeTokenRemoteABI be opts ''symbol'' []
       [GStr r0] r0 (NativeTokenRemoteCaller_Symbol c opts)) \<and>
     (\<forall>r0. in_uint256 r0 \<longrightarrow> reads_call k NativeTokenRemoteABI be opts ''totalNativeAssetSupply''
        []
       [GBig r0] r0 (NativeTokenRemoteCaller_TotalNativeAssetSupply c opts)) \<and>
     (\<forall>r0. in_uint256 r0 \<longrightarrow> reads_call k NativeTokenRemoteABI be opts ''totalSupply'' []
       [GBig r0] r0 (NativeTokenRemoteCaller_TotalSupply c opts))"
  unfolding NativeTokenRemoteCaller_BURNEDFORTRANSFERADDRESS_def
     NativeTokenRemoteCaller_BURNEDTXFEESADDRESS_def
     NativeTokenRemoteCaller_HOMECHAINBURNADDRESS_def
     NativeTokenRemoteCaller_MULTIHOPCALLGASPERWORD_def
     NativeTokenRemoteCaller_MULTIHOPCALLREQUIREDGAS_def
     NativeTokenRemoteCaller_MULTIHOPSENDREQUIREDGAS_def
     NativeTokenRemoteCaller_NATIVEMINTER_def
     NativeTokenRemoteCaller_NATIVETOKENREMOTESTORAGELOCATION_def
     NativeTokenRemoteCaller_REGISTERREMOTEREQUIREDGAS_def
     NativeTokenRemoteCaller_TELEPORTERREGISTRYAPPSTORAGELOCATION_def
     NativeTokenRemoteCaller_TOKENREMOTESTORAGELOCATION_def
     NativeTokenRemoteCaller_Allowance_def NativeTokenRemoteCaller_BalanceOf_def
     NativeTokenRemoteCaller_CalculateNumWords_def NativeTokenRemoteCaller_Decimals_def
     NativeTokenRemoteCaller_GetBlockchainID_def
     NativeTokenRemoteCaller_GetInitialReserveImbalance_def
     NativeTokenRemoteCaller_GetIsCollateralized_def
     NativeTokenRemoteCaller_GetMinTeleporterVersion_def
     NativeTokenRemoteCaller_GetMultiplyOnRemote_def
     NativeTokenRemoteCaller_GetTokenHomeAddress_def
     NativeTokenRemoteCaller_GetTokenHomeBlockchainID_def
     NativeTokenRemoteCaller_GetTokenMultiplier_def NativeTokenRemoteCaller_GetTotalMinted_def
     NativeTokenRemoteCaller_IsTeleporterAddressPaused_def NativeTokenRemoteCaller_Name_def
     NativeTokenRemoteCaller_Owner_def NativeTokenRemoteCaller_Symbol_def
     NativeTokenRemoteCaller_TotalNativeAssetSupply_def NativeTokenRemoteCaller_TotalSupply_def
  by ((intro conjI allI impI)?; rule call_reads [OF assms], rule NativeTokenRemote_methods)
    (simp_all del: matches.simps(1))

lemma NativeTokenRemote_parsers_decode:
  assumes "codec_events k" and "event_ids k NativeTokenRemoteABI" and "bound_spec k
     NativeTokenRemoteABI be c"
  shows "parser_decodes k NativeTokenRemoteABI ''Approval''
     (NativeTokenRemoteFilterer_ParseApproval c) \<and>
     parser_decodes k NativeTokenRemoteABI ''CallFailed''
        (NativeTokenRemoteFilterer_ParseCallFailed c) \<and>
     parser_decodes k NativeTokenRemoteABI ''CallSucceeded''
        (NativeTokenRemoteFilterer_ParseCallSucceeded c) \<and>
     parser_decodes k NativeTokenRemoteABI ''Deposit'' (NativeTokenRemoteFilterer_ParseDeposit
        c) \<and>
     parser_decodes k NativeTokenRemoteABI ''Initialized''
        (NativeTokenRemoteFilterer_ParseInitialized c) \<and>
     parser_decodes k NativeTokenRemoteABI ''MinTeleporterVersionUpdated''
        (NativeTokenRemoteFilterer_ParseMinTeleporterVersionUpdated c) \<and>
     parser_decodes k NativeTokenRemoteABI ''OwnershipTransferred''
        (NativeTokenRemoteFilterer_ParseOwnershipTransferred c) \<and>
     parser_decodes k NativeTokenRemoteABI ''ReportBurnedTxFees''
        (NativeTokenRemoteFilterer_ParseReportBurnedTxFees c) \<and>
     parser_decodes k NativeTokenRemoteABI ''TeleporterAddressPaused''
        (NativeTokenRemoteFilterer_ParseTeleporterAddressPaused c) \<and>
     parser_decodes k NativeTokenRemoteABI ''TeleporterAddressUnpaused''
        (NativeTokenRemoteFilterer_ParseTeleporterAddressUnpaused c) \<and>
     parser_decodes k NativeTokenRemoteABI ''TokensAndCallSent''
        (NativeTokenRemoteFilterer_ParseTokensAndCallSent c) \<and>
     parser_decodes k NativeTokenRemoteABI ''TokensSent''
        (NativeTokenRemoteFilterer_ParseTokensSent c) \<and>
     parser_decodes k NativeTokenRemoteABI ''TokensWithdrawn''
        (NativeTokenRemoteFilterer_ParseTokensWithdrawn c) \<and>
     parser_decodes k NativeTokenRemoteABI ''Transfer'' (NativeTokenRemoteFilterer_ParseTransfer
        c) \<and>
     parser_decodes k NativeTokenRemoteABI ''Withdrawal''
        (NativeTokenRemoteFilterer_ParseWithdrawal c)"
proof -
  note parses = parse_log_decodes [OF assms]
  show ?thesis
    unfolding NativeTokenRemoteFilterer_ParseApproval_def
       NativeTokenRemoteFilterer_ParseCallFailed_def
       NativeTokenRemoteFilterer_ParseCallSucceeded_def
       NativeTokenRemoteFilterer_ParseDeposit_def NativeTokenRemoteFilterer_ParseInitialized_def
       NativeTokenRemoteFilterer_ParseMinTeleporterVersionUpdated_def
       NativeTokenRemoteFilterer_ParseOwnershipTransferred_def
       NativeTokenRemoteFilterer_ParseReportBurnedTxFees_def
       NativeTokenRemoteFilterer_ParseTeleporterAddressPaused_def
       NativeTokenRemoteFilterer_ParseTeleporterAddressUnpaused_def
       NativeTokenRemoteFilterer_ParseTokensAndCallSent_def
       NativeTokenRemoteFilterer_ParseTokensSent_def
       NativeTokenRemoteFilterer_ParseTokensWithdrawn_def
       NativeTokenRemoteFilterer_ParseTransfer_def NativeTokenRemoteFilterer_ParseWithdrawal_def
    by ((intro conjI)?; rule parses, rule NativeTokenRemote_events, rule
       NativeTokenRemote_decodable)
qed

end
