(* ===== verification/TokenRemoteBinding.thy ===== *)
theory TokenRemoteBinding
  imports IcttStructs AbiRef
begin

text \<open>
  The generated binding \<open>abi-bindings/go/ictt/TokenRemote/TokenRemote/TokenRemote.go\<close> over the generic
  definitions of theory \<open>Binding\<close>: its ABI, every method with its session wrappers, every event with
  its iterator, filter, watch and parser. The bytecode is a parameter of deployment; the aliases
  \<open>Raw\<close> of the untyped calls are not modelled.
\<close>

section \<open>The contract's ABI (TokenRemoteMetaData)\<close>

definition TokenRemoteABI :: contract_abi where
  "TokenRemoteABI = \<lparr>
      Methods = [
        (''MULTI_HOP_CALL_GAS_PER_WORD'', [],
           [('''', TUint 256)]),
        (''MULTI_HOP_CALL_REQUIRED_GAS'', [],
           [('''', TUint 256)]),
        (''MULTI_HOP_SEND_REQUIRED_GAS'', [],
           [('''', TUint 256)]),
        (''REGISTER_REMOTE_REQUIRED_GAS'', [],
           [('''', TUint 256)]),
        (''TELEPORTER_REGISTRY_APP_STORAGE_LOCATION'', [],
           [('''', TBytes32)]),
        (''TOKEN_REMOTE_STORAGE_LOCATION'', [],
           [('''', TBytes32)]),
        (''calculateNumWords'', [(''payloadSize'', TUint 256)],
           [('''', TUint 256)]),
        (''getBlockchainID'', [],
           [('''', TBytes32)]),
        (''getInitialReserveImbalance'', [],
           [('''', TUint 256)]),
        (''getIsCollateralized'', [],
           [('''', TBool)]),
        (''getMinTeleporterVersion'', [],
           [('''', TUint 256)]),
        (''getMultiplyOnRemote'', [],
           [('''', TBool)]),
        (''getTokenHomeAddress'', [],
           [('''', TAddress)]),
        (''getTokenHomeBlockchainID'', [],
           [('''', TBytes32)]),
        (''getTokenMultiplier'', [],
           [('''', TUint 256)]),
        (''isTeleporterAddressPaused'', [(''teleporterAddress'', TAddress)],
           [('''', TBool)]),
        (''owner'', [],
           [('''', TAddress)]),
        (''pauseTeleporterAddress'', [(''teleporterAddress'', TAddress)],
           []),
        (''receiveTeleporterMessage'', [(''sourceBlockchainID'', TBytes32),
           (''originSenderAddress'', TAddress), (''message'', TBytes)],
           []),
        (''registerWithHome'', [(''feeInfo'', fee_info_tuple)],
           []),
        (''renounceOwnership'', [],
           []),
        (''transferOwnership'', [(''newOwner'', TAddress)],
           []),
        (''unpauseTeleporterAddress'', [(''teleporterAddress'', TAddress)],
           []),
        (''updateMinTeleporterVersion'', [(''version'', TUint 256)],
           [])],
      Events = [
        (''CallFailed'', [(''recipientContract'', TAddress, True), (''amount'', TUint 256,
           False)]),
        (''CallSucceeded'', [(''recipientContract'', TAddress, True), (''amount'', TUint 256,
           False)]),
        (''Initialized'', [(''version'', TUint 64, False)]),
        (''MinTeleporterVersionUpdated'', [(''oldMinTeleporterVersion'', TUint 256, True),
           (''newMinTeleporterVersion'', TUint 256, True)]),
        (''OwnershipTransferred'', [(''previousOwner'', TAddress, True), (''newOwner'',
           TAddress, True)]),
        (''TeleporterAddressPaused'', [(''teleporterAddress'', TAddress, True)]),
        (''TeleporterAddressUnpaused'', [(''teleporterAddress'', TAddress, True)]),
        (''TokensAndCallSent'', [(''teleporterMessageID'', TBytes32, True), (''sender'',
           TAddress, True), (''input'', SendAndCallInput_tuple, False), (''amount'', TUint 256,
           False)]),
        (''TokensSent'', [(''teleporterMessageID'', TBytes32, True), (''sender'', TAddress,
           True), (''input'', SendTokensInput_tuple, False), (''amount'', TUint 256, False)]),
        (''TokensWithdrawn'', [(''recipient'', TAddress, True), (''amount'', TUint 256,
           False)])]\<rparr>"

section \<open>Binding and deployment\<close>

definition bindTokenRemote :: "'w bind_lib \<Rightarrow> address \<Rightarrow> goerr + 'w bound_contract" where
  "bindTokenRemote lib addr = bind_contract lib TokenRemoteABI addr"

definition NewTokenRemote :: "'w bind_lib \<Rightarrow> address \<Rightarrow> goerr + 'w bound_contract" where
  "NewTokenRemote lib addr = bindTokenRemote lib addr"

section \<open>Methods\<close>

definition TokenRemoteCaller_MULTIHOPCALLGASPERWORD ::
  "'w bound_contract \<Rightarrow> CallOpts \<Rightarrow> ('w, goerr + int) prog" where
  "TokenRemoteCaller_MULTIHOPCALLGASPERWORD c opts =
     call_method c opts ''MULTI_HOP_CALL_GAS_PER_WORD'' [] (out1 go_big)"

definition TokenRemoteSession_MULTIHOPCALLGASPERWORD ::
  "'w session \<Rightarrow> ('w, goerr + int) prog" where
  "TokenRemoteSession_MULTIHOPCALLGASPERWORD s = TokenRemoteCaller_MULTIHOPCALLGASPERWORD
     (SessionContract s) (SessionCallOpts s)"

definition TokenRemoteCaller_MULTIHOPCALLREQUIREDGAS ::
  "'w bound_contract \<Rightarrow> CallOpts \<Rightarrow> ('w, goerr + int) prog" where
  "TokenRemoteCaller_MULTIHOPCALLREQUIREDGAS c opts =
     call_method c opts ''MULTI_HOP_CALL_REQUIRED_GAS'' [] (out1 go_big)"

definition TokenRemoteSession_MULTIHOPCALLREQUIREDGAS ::
  "'w session \<Rightarrow> ('w, goerr + int) prog" where
  "TokenRemoteSession_MULTIHOPCALLREQUIREDGAS s = TokenRemoteCaller_MULTIHOPCALLREQUIREDGAS
     (SessionContract s) (SessionCallOpts s)"

definition TokenRemoteCaller_MULTIHOPSENDREQUIREDGAS ::
  "'w bound_contract \<Rightarrow> CallOpts \<Rightarrow> ('w, goerr + int) prog" where
  "TokenRemoteCaller_MULTIHOPSENDREQUIREDGAS c opts =
     call_method c opts ''MULTI_HOP_SEND_REQUIRED_GAS'' [] (out1 go_big)"

definition TokenRemoteSession_MULTIHOPSENDREQUIREDGAS ::
  "'w session \<Rightarrow> ('w, goerr + int) prog" where
  "TokenRemoteSession_MULTIHOPSENDREQUIREDGAS s = TokenRemoteCaller_MULTIHOPSENDREQUIREDGAS
     (SessionContract s) (SessionCallOpts s)"

definition TokenRemoteCaller_REGISTERREMOTEREQUIREDGAS ::
  "'w bound_contract \<Rightarrow> CallOpts \<Rightarrow> ('w, goerr + int) prog" where
  "TokenRemoteCaller_REGISTERREMOTEREQUIREDGAS c opts =
     call_method c opts ''REGISTER_REMOTE_REQUIRED_GAS'' [] (out1 go_big)"

definition TokenRemoteSession_REGISTERREMOTEREQUIREDGAS ::
  "'w session \<Rightarrow> ('w, goerr + int) prog" where
  "TokenRemoteSession_REGISTERREMOTEREQUIREDGAS s = TokenRemoteCaller_REGISTERREMOTEREQUIREDGAS
     (SessionContract s) (SessionCallOpts s)"

definition TokenRemoteCaller_TELEPORTERREGISTRYAPPSTORAGELOCATION ::
  "'w bound_contract \<Rightarrow> CallOpts \<Rightarrow> ('w, goerr + hash) prog" where
  "TokenRemoteCaller_TELEPORTERREGISTRYAPPSTORAGELOCATION c opts =
     call_method c opts ''TELEPORTER_REGISTRY_APP_STORAGE_LOCATION'' [] (out1 go_arr32)"

definition TokenRemoteSession_TELEPORTERREGISTRYAPPSTORAGELOCATION ::
  "'w session \<Rightarrow> ('w, goerr + hash) prog" where
  "TokenRemoteSession_TELEPORTERREGISTRYAPPSTORAGELOCATION s =
     TokenRemoteCaller_TELEPORTERREGISTRYAPPSTORAGELOCATION (SessionContract s) (SessionCallOpts
     s)"

definition TokenRemoteCaller_TOKENREMOTESTORAGELOCATION ::
  "'w bound_contract \<Rightarrow> CallOpts \<Rightarrow> ('w, goerr + hash) prog" where
  "TokenRemoteCaller_TOKENREMOTESTORAGELOCATION c opts =
     call_method c opts ''TOKEN_REMOTE_STORAGE_LOCATION'' [] (out1 go_arr32)"

definition TokenRemoteSession_TOKENREMOTESTORAGELOCATION ::
  "'w session \<Rightarrow> ('w, goerr + hash) prog" where
  "TokenRemoteSession_TOKENREMOTESTORAGELOCATION s =
     TokenRemoteCaller_TOKENREMOTESTORAGELOCATION (SessionContract s) (SessionCallOpts s)"

definition TokenRemoteCaller_CalculateNumWords ::
  "'w bound_contract \<Rightarrow> CallOpts \<Rightarrow> int \<Rightarrow> ('w, goerr + int) prog" where
  "TokenRemoteCaller_CalculateNumWords c opts payloadSize =
     call_method c opts ''calculateNumWords'' [GBig payloadSize] (out1 go_big)"

definition TokenRemoteSession_CalculateNumWords ::
  "'w session \<Rightarrow> int \<Rightarrow> ('w, goerr + int) prog" where
  "TokenRemoteSession_CalculateNumWords s payloadSize = TokenRemoteCaller_CalculateNumWords
     (SessionContract s) (SessionCallOpts s) payloadSize"

definition TokenRemoteCaller_GetBlockchainID ::
  "'w bound_contract \<Rightarrow> CallOpts \<Rightarrow> ('w, goerr + hash) prog" where
  "TokenRemoteCaller_GetBlockchainID c opts =
     call_method c opts ''getBlockchainID'' [] (out1 go_arr32)"

definition TokenRemoteSession_GetBlockchainID ::
  "'w session \<Rightarrow> ('w, goerr + hash) prog" where
  "TokenRemoteSession_GetBlockchainID s = TokenRemoteCaller_GetBlockchainID (SessionContract s)
     (SessionCallOpts s)"

definition TokenRemoteCaller_GetInitialReserveImbalance ::
  "'w bound_contract \<Rightarrow> CallOpts \<Rightarrow> ('w, goerr + int) prog" where
  "TokenRemoteCaller_GetInitialReserveImbalance c opts =
     call_method c opts ''getInitialReserveImbalance'' [] (out1 go_big)"

definition TokenRemoteSession_GetInitialReserveImbalance ::
  "'w session \<Rightarrow> ('w, goerr + int) prog" where
  "TokenRemoteSession_GetInitialReserveImbalance s =
     TokenRemoteCaller_GetInitialReserveImbalance (SessionContract s) (SessionCallOpts s)"

definition TokenRemoteCaller_GetIsCollateralized ::
  "'w bound_contract \<Rightarrow> CallOpts \<Rightarrow> ('w, goerr + bool) prog" where
  "TokenRemoteCaller_GetIsCollateralized c opts =
     call_method c opts ''getIsCollateralized'' [] (out1 go_bool)"

definition TokenRemoteSession_GetIsCollateralized ::
  "'w session \<Rightarrow> ('w, goerr + bool) prog" where
  "TokenRemoteSession_GetIsCollateralized s = TokenRemoteCaller_GetIsCollateralized
     (SessionContract s) (SessionCallOpts s)"

definition TokenRemoteCaller_GetMinTeleporterVersion ::
  "'w bound_contract \<Rightarrow> CallOpts \<Rightarrow> ('w, goerr + int) prog" where
  "TokenRemoteCaller_GetMinTeleporterVersion c opts =
     call_method c opts ''getMinTeleporterVersion'' [] (out1 go_big)"

definition TokenRemoteSession_GetMinTeleporterVersion ::
  "'w session \<Rightarrow> ('w, goerr + int) prog" where
  "TokenRemoteSession_GetMinTeleporterVersion s = TokenRemoteCaller_GetMinTeleporterVersion
     (SessionContract s) (SessionCallOpts s)"

definition TokenRemoteCaller_GetMultiplyOnRemote ::
  "'w bound_contract \<Rightarrow> CallOpts \<Rightarrow> ('w, goerr + bool) prog" where
  "TokenRemoteCaller_GetMultiplyOnRemote c opts =
     call_method c opts ''getMultiplyOnRemote'' [] (out1 go_bool)"

definition TokenRemoteSession_GetMultiplyOnRemote ::
  "'w session \<Rightarrow> ('w, goerr + bool) prog" where
  "TokenRemoteSession_GetMultiplyOnRemote s = TokenRemoteCaller_GetMultiplyOnRemote
     (SessionContract s) (SessionCallOpts s)"

definition TokenRemoteCaller_GetTokenHomeAddress ::
  "'w bound_contract \<Rightarrow> CallOpts \<Rightarrow> ('w, goerr + address) prog" where
  "TokenRemoteCaller_GetTokenHomeAddress c opts =
     call_method c opts ''getTokenHomeAddress'' [] (out1 go_addr)"

definition TokenRemoteSession_GetTokenHomeAddress ::
  "'w session \<Rightarrow> ('w, goerr + address) prog" where
  "TokenRemoteSession_GetTokenHomeAddress s = TokenRemoteCaller_GetTokenHomeAddress
     (SessionContract s) (SessionCallOpts s)"

definition TokenRemoteCaller_GetTokenHomeBlockchainID ::
  "'w bound_contract \<Rightarrow> CallOpts \<Rightarrow> ('w, goerr + hash) prog" where
  "TokenRemoteCaller_GetTokenHomeBlockchainID c opts =
     call_method c opts ''getTokenHomeBlockchainID'' [] (out1 go_arr32)"

definition TokenRemoteSession_GetTokenHomeBlockchainID ::
  "'w session \<Rightarrow> ('w, goerr + hash) prog" where
  "TokenRemoteSession_GetTokenHomeBlockchainID s = TokenRemoteCaller_GetTokenHomeBlockchainID
     (SessionContract s) (SessionCallOpts s)"

definition TokenRemoteCaller_GetTokenMultiplier ::
  "'w bound_contract \<Rightarrow> CallOpts \<Rightarrow> ('w, goerr + int) prog" where
  "TokenRemoteCaller_GetTokenMultiplier c opts =
     call_method c opts ''getTokenMultiplier'' [] (out1 go_big)"

definition TokenRemoteSession_GetTokenMultiplier ::
  "'w session \<Rightarrow> ('w, goerr + int) prog" where
  "TokenRemoteSession_GetTokenMultiplier s = TokenRemoteCaller_GetTokenMultiplier
     (SessionContract s) (SessionCallOpts s)"

definition TokenRemoteCaller_IsTeleporterAddressPaused ::
  "'w bound_contract \<Rightarrow> CallOpts \<Rightarrow> address \<Rightarrow> ('w, goerr + bool) prog" where
  "TokenRemoteCaller_IsTeleporterAddressPaused c opts teleporterAddress =
     call_method c opts ''isTeleporterAddressPaused'' [GAddr teleporterAddress] (out1 go_bool)"

definition TokenRemoteSession_IsTeleporterAddressPaused ::
  "'w session \<Rightarrow> address \<Rightarrow> ('w, goerr + bool) prog" where
  "TokenRemoteSession_IsTeleporterAddressPaused s teleporterAddress =
     TokenRemoteCaller_IsTeleporterAddressPaused (SessionContract s) (SessionCallOpts s)
     teleporterAddress"

definition TokenRemoteCaller_Owner ::
  "'w bound_contract \<Rightarrow> CallOpts \<Rightarrow> ('w, goerr + address) prog" where
  "TokenRemoteCaller_Owner c opts =
     call_method c opts ''owner'' [] (out1 go_addr)"

definition TokenRemoteSession_Owner ::
  "'w session \<Rightarrow> ('w, goerr + address) prog" where
  "TokenRemoteSession_Owner s = TokenRemoteCaller_Owner (SessionContract s) (SessionCallOpts s)"

definition TokenRemoteTransactor_PauseTeleporterAddress ::
  "'w bound_contract \<Rightarrow> TransactOpts \<Rightarrow> address \<Rightarrow> ('w, goerr + hash) prog" where
  "TokenRemoteTransactor_PauseTeleporterAddress c opts teleporterAddress =
     contract_transact c opts ''pauseTeleporterAddress'' [GAddr teleporterAddress]"

definition TokenRemoteSession_PauseTeleporterAddress ::
  "'w session \<Rightarrow> address \<Rightarrow> ('w, goerr + hash) prog" where
  "TokenRemoteSession_PauseTeleporterAddress s teleporterAddress =
     TokenRemoteTransactor_PauseTeleporterAddress (SessionContract s) (SessionTransactOpts s)
     teleporterAddress"

definition TokenRemoteTransactor_ReceiveTeleporterMessage ::
  "'w bound_contract \<Rightarrow> TransactOpts \<Rightarrow> hash \<Rightarrow> address \<Rightarrow> bytes \<Rightarrow> ('w, goerr + hash) prog" where
  "TokenRemoteTransactor_ReceiveTeleporterMessage c opts sourceBlockchainID originSenderAddress
     message =
     contract_transact c opts ''receiveTeleporterMessage'' [GArr32 sourceBlockchainID, GAddr
        originSenderAddress, GBytes message]"

definition TokenRemoteSession_ReceiveTeleporterMessage ::
  "'w session \<Rightarrow> hash \<Rightarrow> address \<Rightarrow> bytes \<Rightarrow> ('w, goerr + hash) prog" where
  "TokenRemoteSession_ReceiveTeleporterMessage s sourceBlockchainID originSenderAddress message
     = TokenRemoteTransactor_ReceiveTeleporterMessage (SessionContract s) (SessionTransactOpts
     s) sourceBlockchainID originSenderAddress message"

definition TokenRemoteTransactor_RegisterWithHome ::
  "'w bound_contract \<Rightarrow> TransactOpts \<Rightarrow> TeleporterFeeInfo \<Rightarrow> ('w, goerr + hash) prog" where
  "TokenRemoteTransactor_RegisterWithHome c opts feeInfo =
     contract_transact c opts ''registerWithHome'' [fee_info_val feeInfo]"

definition TokenRemoteSession_RegisterWithHome ::
  "'w session \<Rightarrow> TeleporterFeeInfo \<Rightarrow> ('w, goerr + hash) prog" where
  "TokenRemoteSession_RegisterWithHome s feeInfo = TokenRemoteTransactor_RegisterWithHome
     (SessionContract s) (SessionTransactOpts s) feeInfo"

definition TokenRemoteTransactor_RenounceOwnership ::
  "'w bound_contract \<Rightarrow> TransactOpts \<Rightarrow> ('w, goerr + hash) prog" where
  "TokenRemoteTransactor_RenounceOwnership c opts =
     contract_transact c opts ''renounceOwnership'' []"

definition TokenRemoteSession_RenounceOwnership ::
  "'w session \<Rightarrow> ('w, goerr + hash) prog" where
  "TokenRemoteSession_RenounceOwnership s = TokenRemoteTransactor_RenounceOwnership
     (SessionContract s) (SessionTransactOpts s)"

definition TokenRemoteTransactor_TransferOwnership ::
  "'w bound_contract \<Rightarrow> TransactOpts \<Rightarrow> address \<Rightarrow> ('w, goerr + hash) prog" where
  "TokenRemoteTransactor_TransferOwnership c opts newOwner =
     contract_transact c opts ''transferOwnership'' [GAddr newOwner]"

definition TokenRemoteSession_TransferOwnership ::
  "'w session \<Rightarrow> address \<Rightarrow> ('w, goerr + hash) prog" where
  "TokenRemoteSession_TransferOwnership s newOwner = TokenRemoteTransactor_TransferOwnership
     (SessionContract s) (SessionTransactOpts s) newOwner"

definition TokenRemoteTransactor_UnpauseTeleporterAddress ::
  "'w bound_contract \<Rightarrow> TransactOpts \<Rightarrow> address \<Rightarrow> ('w, goerr + hash) prog" where
  "TokenRemoteTransactor_UnpauseTeleporterAddress c opts teleporterAddress =
     contract_transact c opts ''unpauseTeleporterAddress'' [GAddr teleporterAddress]"

definition TokenRemoteSession_UnpauseTeleporterAddress ::
  "'w session \<Rightarrow> address \<Rightarrow> ('w, goerr + hash) prog" where
  "TokenRemoteSession_UnpauseTeleporterAddress s teleporterAddress =
     TokenRemoteTransactor_UnpauseTeleporterAddress (SessionContract s) (SessionTransactOpts s)
     teleporterAddress"

definition TokenRemoteTransactor_UpdateMinTeleporterVersion ::
  "'w bound_contract \<Rightarrow> TransactOpts \<Rightarrow> int \<Rightarrow> ('w, goerr + hash) prog" where
  "TokenRemoteTransactor_UpdateMinTeleporterVersion c opts version_number =
     contract_transact c opts ''updateMinTeleporterVersion'' [GBig version_number]"

definition TokenRemoteSession_UpdateMinTeleporterVersion ::
  "'w session \<Rightarrow> int \<Rightarrow> ('w, goerr + hash) prog" where
  "TokenRemoteSession_UpdateMinTeleporterVersion s version_number =
     TokenRemoteTransactor_UpdateMinTeleporterVersion (SessionContract s) (SessionTransactOpts
     s) version_number"

section \<open>Events\<close>

definition TokenRemoteCallFailed :: event_fields where
  "TokenRemoteCallFailed = [(''RecipientContract'', GAddr 0), (''Amount'', GNil), (''Raw'',
     zero_Log)]"

definition TokenRemoteCallFailedIterator_Next ::
  "'w bound_contract \<Rightarrow> bool \<Rightarrow> iterator \<Rightarrow> (bool \<times> iterator) option" where
  "TokenRemoteCallFailedIterator_Next c pick it = iterator_Next (parse_log c ''CallFailed''
     TokenRemoteCallFailed) TokenRemoteCallFailed pick it"

definition TokenRemoteCallFailedIterator_Error :: "iterator \<Rightarrow> goerr option" where
  "TokenRemoteCallFailedIterator_Error it = iterator_Error it"

definition TokenRemoteCallFailedIterator_Close :: "iterator \<Rightarrow> goerr option \<times> iterator" where
  "TokenRemoteCallFailedIterator_Close it = iterator_Close it"

definition TokenRemoteFilterer_FilterCallFailed ::
  "'w bound_contract \<Rightarrow> FilterOpts \<Rightarrow> address list \<Rightarrow> ('w, goerr + iterator) prog" where
  "TokenRemoteFilterer_FilterCallFailed c opts recipientContract =
     filter_events c opts ''CallFailed'' [map GAddr recipientContract]"

definition TokenRemoteFilterer_WatchCallFailed ::
  "'w bound_contract \<Rightarrow> address list \<Rightarrow> ('w, goerr + (evm_log \<Rightarrow> goerr + event_fields)) prog" where
  "TokenRemoteFilterer_WatchCallFailed c recipientContract =
     watch_events c ''CallFailed'' TokenRemoteCallFailed [map GAddr recipientContract]"

definition TokenRemoteFilterer_ParseCallFailed ::
  "'w bound_contract \<Rightarrow> evm_log \<Rightarrow> goerr + event_fields" where
  "TokenRemoteFilterer_ParseCallFailed c = parse_log c ''CallFailed'' TokenRemoteCallFailed"

definition TokenRemoteCallSucceeded :: event_fields where
  "TokenRemoteCallSucceeded = [(''RecipientContract'', GAddr 0), (''Amount'', GNil), (''Raw'',
     zero_Log)]"

definition TokenRemoteCallSucceededIterator_Next ::
  "'w bound_contract \<Rightarrow> bool \<Rightarrow> iterator \<Rightarrow> (bool \<times> iterator) option" where
  "TokenRemoteCallSucceededIterator_Next c pick it = iterator_Next (parse_log c
     ''CallSucceeded'' TokenRemoteCallSucceeded) TokenRemoteCallSucceeded pick it"

definition TokenRemoteCallSucceededIterator_Error :: "iterator \<Rightarrow> goerr option" where
  "TokenRemoteCallSucceededIterator_Error it = iterator_Error it"

definition TokenRemoteCallSucceededIterator_Close :: "iterator \<Rightarrow> goerr option \<times> iterator" where
  "TokenRemoteCallSucceededIterator_Close it = iterator_Close it"

definition TokenRemoteFilterer_FilterCallSucceeded ::
  "'w bound_contract \<Rightarrow> FilterOpts \<Rightarrow> address list \<Rightarrow> ('w, goerr + iterator) prog" where
  "TokenRemoteFilterer_FilterCallSucceeded c opts recipientContract =
     filter_events c opts ''CallSucceeded'' [map GAddr recipientContract]"

definition TokenRemoteFilterer_WatchCallSucceeded ::
  "'w bound_contract \<Rightarrow> address list \<Rightarrow> ('w, goerr + (evm_log \<Rightarrow> goerr + event_fields)) prog" where
  "TokenRemoteFilterer_WatchCallSucceeded c recipientContract =
     watch_events c ''CallSucceeded'' TokenRemoteCallSucceeded [map GAddr recipientContract]"

definition TokenRemoteFilterer_ParseCallSucceeded ::
  "'w bound_contract \<Rightarrow> evm_log \<Rightarrow> goerr + event_fields" where
  "TokenRemoteFilterer_ParseCallSucceeded c = parse_log c ''CallSucceeded''
     TokenRemoteCallSucceeded"

definition TokenRemoteInitialized :: event_fields where
  "TokenRemoteInitialized = [(''Version'', GUint 64 0), (''Raw'', zero_Log)]"

definition TokenRemoteInitializedIterator_Next ::
  "'w bound_contract \<Rightarrow> bool \<Rightarrow> iterator \<Rightarrow> (bool \<times> iterator) option" where
  "TokenRemoteInitializedIterator_Next c pick it = iterator_Next (parse_log c ''Initialized''
     TokenRemoteInitialized) TokenRemoteInitialized pick it"

definition TokenRemoteInitializedIterator_Error :: "iterator \<Rightarrow> goerr option" where
  "TokenRemoteInitializedIterator_Error it = iterator_Error it"

definition TokenRemoteInitializedIterator_Close :: "iterator \<Rightarrow> goerr option \<times> iterator" where
  "TokenRemoteInitializedIterator_Close it = iterator_Close it"

definition TokenRemoteFilterer_FilterInitialized ::
  "'w bound_contract \<Rightarrow> FilterOpts \<Rightarrow> ('w, goerr + iterator) prog" where
  "TokenRemoteFilterer_FilterInitialized c opts =
     filter_events c opts ''Initialized'' []"

definition TokenRemoteFilterer_WatchInitialized ::
  "'w bound_contract \<Rightarrow> ('w, goerr + (evm_log \<Rightarrow> goerr + event_fields)) prog" where
  "TokenRemoteFilterer_WatchInitialized c =
     watch_events c ''Initialized'' TokenRemoteInitialized []"

definition TokenRemoteFilterer_ParseInitialized ::
  "'w bound_contract \<Rightarrow> evm_log \<Rightarrow> goerr + event_fields" where
  "TokenRemoteFilterer_ParseInitialized c = parse_log c ''Initialized'' TokenRemoteInitialized"

definition TokenRemoteMinTeleporterVersionUpdated :: event_fields where
  "TokenRemoteMinTeleporterVersionUpdated = [(''OldMinTeleporterVersion'', GNil),
     (''NewMinTeleporterVersion'', GNil), (''Raw'', zero_Log)]"

definition TokenRemoteMinTeleporterVersionUpdatedIterator_Next ::
  "'w bound_contract \<Rightarrow> bool \<Rightarrow> iterator \<Rightarrow> (bool \<times> iterator) option" where
  "TokenRemoteMinTeleporterVersionUpdatedIterator_Next c pick it = iterator_Next (parse_log c
     ''MinTeleporterVersionUpdated'' TokenRemoteMinTeleporterVersionUpdated)
     TokenRemoteMinTeleporterVersionUpdated pick it"

definition TokenRemoteMinTeleporterVersionUpdatedIterator_Error :: "iterator \<Rightarrow> goerr option"
   where
  "TokenRemoteMinTeleporterVersionUpdatedIterator_Error it = iterator_Error it"

definition TokenRemoteMinTeleporterVersionUpdatedIterator_Close :: "iterator \<Rightarrow> goerr option \<times>
   iterator" where
  "TokenRemoteMinTeleporterVersionUpdatedIterator_Close it = iterator_Close it"

definition TokenRemoteFilterer_FilterMinTeleporterVersionUpdated ::
  "'w bound_contract \<Rightarrow> FilterOpts \<Rightarrow> int list \<Rightarrow> int list \<Rightarrow> ('w, goerr + iterator) prog" where
  "TokenRemoteFilterer_FilterMinTeleporterVersionUpdated c opts oldMinTeleporterVersion
     newMinTeleporterVersion =
     filter_events c opts ''MinTeleporterVersionUpdated'' [map GBig oldMinTeleporterVersion, map
        GBig newMinTeleporterVersion]"

definition TokenRemoteFilterer_WatchMinTeleporterVersionUpdated ::
  "'w bound_contract \<Rightarrow> int list \<Rightarrow> int list \<Rightarrow> ('w, goerr + (evm_log \<Rightarrow> goerr + event_fields))
     prog" where
  "TokenRemoteFilterer_WatchMinTeleporterVersionUpdated c oldMinTeleporterVersion
     newMinTeleporterVersion =
     watch_events c ''MinTeleporterVersionUpdated'' TokenRemoteMinTeleporterVersionUpdated [map
        GBig oldMinTeleporterVersion, map GBig newMinTeleporterVersion]"

definition TokenRemoteFilterer_ParseMinTeleporterVersionUpdated ::
  "'w bound_contract \<Rightarrow> evm_log \<Rightarrow> goerr + event_fields" where
  "TokenRemoteFilterer_ParseMinTeleporterVersionUpdated c = parse_log c
     ''MinTeleporterVersionUpdated'' TokenRemoteMinTeleporterVersionUpdated"

definition TokenRemoteOwnershipTransferred :: event_fields where
  "TokenRemoteOwnershipTransferred = [(''PreviousOwner'', GAddr 0), (''NewOwner'', GAddr 0),
     (''Raw'', zero_Log)]"

definition TokenRemoteOwnershipTransferredIterator_Next ::
  "'w bound_contract \<Rightarrow> bool \<Rightarrow> iterator \<Rightarrow> (bool \<times> iterator) option" where
  "TokenRemoteOwnershipTransferredIterator_Next c pick it = iterator_Next (parse_log c
     ''OwnershipTransferred'' TokenRemoteOwnershipTransferred) TokenRemoteOwnershipTransferred
     pick it"

definition TokenRemoteOwnershipTransferredIterator_Error :: "iterator \<Rightarrow> goerr option" where
  "TokenRemoteOwnershipTransferredIterator_Error it = iterator_Error it"

definition TokenRemoteOwnershipTransferredIterator_Close :: "iterator \<Rightarrow> goerr option \<times> iterator"
   where
  "TokenRemoteOwnershipTransferredIterator_Close it = iterator_Close it"

definition TokenRemoteFilterer_FilterOwnershipTransferred ::
  "'w bound_contract \<Rightarrow> FilterOpts \<Rightarrow> address list \<Rightarrow> address list \<Rightarrow> ('w, goerr + iterator) prog"
     where
  "TokenRemoteFilterer_FilterOwnershipTransferred c opts previousOwner newOwner =
     filter_events c opts ''OwnershipTransferred'' [map GAddr previousOwner, map GAddr
        newOwner]"

definition TokenRemoteFilterer_WatchOwnershipTransferred ::
  "'w bound_contract \<Rightarrow> address list \<Rightarrow> address list \<Rightarrow> ('w, goerr + (evm_log \<Rightarrow> goerr +
     event_fields)) prog" where
  "TokenRemoteFilterer_WatchOwnershipTransferred c previousOwner newOwner =
     watch_events c ''OwnershipTransferred'' TokenRemoteOwnershipTransferred [map GAddr
        previousOwner, map GAddr newOwner]"

definition TokenRemoteFilterer_ParseOwnershipTransferred ::
  "'w bound_contract \<Rightarrow> evm_log \<Rightarrow> goerr + event_fields" where
  "TokenRemoteFilterer_ParseOwnershipTransferred c = parse_log c ''OwnershipTransferred''
     TokenRemoteOwnershipTransferred"

definition TokenRemoteTeleporterAddressPaused :: event_fields where
  "TokenRemoteTeleporterAddressPaused = [(''TeleporterAddress'', GAddr 0), (''Raw'', zero_Log)]"

definition TokenRemoteTeleporterAddressPausedIterator_Next ::
  "'w bound_contract \<Rightarrow> bool \<Rightarrow> iterator \<Rightarrow> (bool \<times> iterator) option" where
  "TokenRemoteTeleporterAddressPausedIterator_Next c pick it = iterator_Next (parse_log c
     ''TeleporterAddressPaused'' TokenRemoteTeleporterAddressPaused)
     TokenRemoteTeleporterAddressPaused pick it"

definition TokenRemoteTeleporterAddressPausedIterator_Error :: "iterator \<Rightarrow> goerr option" where
  "TokenRemoteTeleporterAddressPausedIterator_Error it = iterator_Error it"

definition TokenRemoteTeleporterAddressPausedIterator_Close :: "iterator \<Rightarrow> goerr option \<times>
   iterator" where
  "TokenRemoteTeleporterAddressPausedIterator_Close it = iterator_Close it"

definition TokenRemoteFilterer_FilterTeleporterAddressPaused ::
  "'w bound_contract \<Rightarrow> FilterOpts \<Rightarrow> address list \<Rightarrow> ('w, goerr + iterator) prog" where
  "TokenRemoteFilterer_FilterTeleporterAddressPaused c opts teleporterAddress =
     filter_events c opts ''TeleporterAddressPaused'' [map GAddr teleporterAddress]"

definition TokenRemoteFilterer_WatchTeleporterAddressPaused ::
  "'w bound_contract \<Rightarrow> address list \<Rightarrow> ('w, goerr + (evm_log \<Rightarrow> goerr + event_fields)) prog" where
  "TokenRemoteFilterer_WatchTeleporterAddressPaused c teleporterAddress =
     watch_events c ''TeleporterAddressPaused'' TokenRemoteTeleporterAddressPaused [map GAddr
        teleporterAddress]"

definition TokenRemoteFilterer_ParseTeleporterAddressPaused ::
  "'w bound_contract \<Rightarrow> evm_log \<Rightarrow> goerr + event_fields" where
  "TokenRemoteFilterer_ParseTeleporterAddressPaused c = parse_log c ''TeleporterAddressPaused''
     TokenRemoteTeleporterAddressPaused"

definition TokenRemoteTeleporterAddressUnpaused :: event_fields where
  "TokenRemoteTeleporterAddressUnpaused = [(''TeleporterAddress'', GAddr 0), (''Raw'',
     zero_Log)]"

definition TokenRemoteTeleporterAddressUnpausedIterator_Next ::
  "'w bound_contract \<Rightarrow> bool \<Rightarrow> iterator \<Rightarrow> (bool \<times> iterator) option" where
  "TokenRemoteTeleporterAddressUnpausedIterator_Next c pick it = iterator_Next (parse_log c
     ''TeleporterAddressUnpaused'' TokenRemoteTeleporterAddressUnpaused)
     TokenRemoteTeleporterAddressUnpaused pick it"

definition TokenRemoteTeleporterAddressUnpausedIterator_Error :: "iterator \<Rightarrow> goerr option" where
  "TokenRemoteTeleporterAddressUnpausedIterator_Error it = iterator_Error it"

definition TokenRemoteTeleporterAddressUnpausedIterator_Close :: "iterator \<Rightarrow> goerr option \<times>
   iterator" where
  "TokenRemoteTeleporterAddressUnpausedIterator_Close it = iterator_Close it"

definition TokenRemoteFilterer_FilterTeleporterAddressUnpaused ::
  "'w bound_contract \<Rightarrow> FilterOpts \<Rightarrow> address list \<Rightarrow> ('w, goerr + iterator) prog" where
  "TokenRemoteFilterer_FilterTeleporterAddressUnpaused c opts teleporterAddress =
     filter_events c opts ''TeleporterAddressUnpaused'' [map GAddr teleporterAddress]"

definition TokenRemoteFilterer_WatchTeleporterAddressUnpaused ::
  "'w bound_contract \<Rightarrow> address list \<Rightarrow> ('w, goerr + (evm_log \<Rightarrow> goerr + event_fields)) prog" where
  "TokenRemoteFilterer_WatchTeleporterAddressUnpaused c teleporterAddress =
     watch_events c ''TeleporterAddressUnpaused'' TokenRemoteTeleporterAddressUnpaused [map
        GAddr teleporterAddress]"

definition TokenRemoteFilterer_ParseTeleporterAddressUnpaused ::
  "'w bound_contract \<Rightarrow> evm_log \<Rightarrow> goerr + event_fields" where
  "TokenRemoteFilterer_ParseTeleporterAddressUnpaused c = parse_log c
     ''TeleporterAddressUnpaused'' TokenRemoteTeleporterAddressUnpaused"

definition TokenRemoteTokensAndCallSent :: event_fields where
  "TokenRemoteTokensAndCallSent = [(''TeleporterMessageID'', GArr32 0), (''Sender'', GAddr 0),
     (''Input'', zero_SendAndCallInput), (''Amount'', GNil), (''Raw'', zero_Log)]"

definition TokenRemoteTokensAndCallSentIterator_Next ::
  "'w bound_contract \<Rightarrow> bool \<Rightarrow> iterator \<Rightarrow> (bool \<times> iterator) option" where
  "TokenRemoteTokensAndCallSentIterator_Next c pick it = iterator_Next (parse_log c
     ''TokensAndCallSent'' TokenRemoteTokensAndCallSent) TokenRemoteTokensAndCallSent pick it"

definition TokenRemoteTokensAndCallSentIterator_Error :: "iterator \<Rightarrow> goerr option" where
  "TokenRemoteTokensAndCallSentIterator_Error it = iterator_Error it"

definition TokenRemoteTokensAndCallSentIterator_Close :: "iterator \<Rightarrow> goerr option \<times> iterator"
   where
  "TokenRemoteTokensAndCallSentIterator_Close it = iterator_Close it"

definition TokenRemoteFilterer_FilterTokensAndCallSent ::
  "'w bound_contract \<Rightarrow> FilterOpts \<Rightarrow> hash list \<Rightarrow> address list \<Rightarrow> ('w, goerr + iterator) prog"
     where
  "TokenRemoteFilterer_FilterTokensAndCallSent c opts teleporterMessageID sender =
     filter_events c opts ''TokensAndCallSent'' [map GArr32 teleporterMessageID, map GAddr
        sender]"

definition TokenRemoteFilterer_WatchTokensAndCallSent ::
  "'w bound_contract \<Rightarrow> hash list \<Rightarrow> address list \<Rightarrow> ('w, goerr + (evm_log \<Rightarrow> goerr + event_fields))
     prog" where
  "TokenRemoteFilterer_WatchTokensAndCallSent c teleporterMessageID sender =
     watch_events c ''TokensAndCallSent'' TokenRemoteTokensAndCallSent [map GArr32
        teleporterMessageID, map GAddr sender]"

definition TokenRemoteFilterer_ParseTokensAndCallSent ::
  "'w bound_contract \<Rightarrow> evm_log \<Rightarrow> goerr + event_fields" where
  "TokenRemoteFilterer_ParseTokensAndCallSent c = parse_log c ''TokensAndCallSent''
     TokenRemoteTokensAndCallSent"

definition TokenRemoteTokensSent :: event_fields where
  "TokenRemoteTokensSent = [(''TeleporterMessageID'', GArr32 0), (''Sender'', GAddr 0),
     (''Input'', zero_SendTokensInput), (''Amount'', GNil), (''Raw'', zero_Log)]"

definition TokenRemoteTokensSentIterator_Next ::
  "'w bound_contract \<Rightarrow> bool \<Rightarrow> iterator \<Rightarrow> (bool \<times> iterator) option" where
  "TokenRemoteTokensSentIterator_Next c pick it = iterator_Next (parse_log c ''TokensSent''
     TokenRemoteTokensSent) TokenRemoteTokensSent pick it"

definition TokenRemoteTokensSentIterator_Error :: "iterator \<Rightarrow> goerr option" where
  "TokenRemoteTokensSentIterator_Error it = iterator_Error it"

definition TokenRemoteTokensSentIterator_Close :: "iterator \<Rightarrow> goerr option \<times> iterator" where
  "TokenRemoteTokensSentIterator_Close it = iterator_Close it"

definition TokenRemoteFilterer_FilterTokensSent ::
  "'w bound_contract \<Rightarrow> FilterOpts \<Rightarrow> hash list \<Rightarrow> address list \<Rightarrow> ('w, goerr + iterator) prog"
     where
  "TokenRemoteFilterer_FilterTokensSent c opts teleporterMessageID sender =
     filter_events c opts ''TokensSent'' [map GArr32 teleporterMessageID, map GAddr sender]"

definition TokenRemoteFilterer_WatchTokensSent ::
  "'w bound_contract \<Rightarrow> hash list \<Rightarrow> address list \<Rightarrow> ('w, goerr + (evm_log \<Rightarrow> goerr + event_fields))
     prog" where
  "TokenRemoteFilterer_WatchTokensSent c teleporterMessageID sender =
     watch_events c ''TokensSent'' TokenRemoteTokensSent [map GArr32 teleporterMessageID, map
        GAddr sender]"

definition TokenRemoteFilterer_ParseTokensSent ::
  "'w bound_contract \<Rightarrow> evm_log \<Rightarrow> goerr + event_fields" where
  "TokenRemoteFilterer_ParseTokensSent c = parse_log c ''TokensSent'' TokenRemoteTokensSent"

definition TokenRemoteTokensWithdrawn :: event_fields where
  "TokenRemoteTokensWithdrawn = [(''Recipient'', GAddr 0), (''Amount'', GNil), (''Raw'',
     zero_Log)]"

definition TokenRemoteTokensWithdrawnIterator_Next ::
  "'w bound_contract \<Rightarrow> bool \<Rightarrow> iterator \<Rightarrow> (bool \<times> iterator) option" where
  "TokenRemoteTokensWithdrawnIterator_Next c pick it = iterator_Next (parse_log c
     ''TokensWithdrawn'' TokenRemoteTokensWithdrawn) TokenRemoteTokensWithdrawn pick it"

definition TokenRemoteTokensWithdrawnIterator_Error :: "iterator \<Rightarrow> goerr option" where
  "TokenRemoteTokensWithdrawnIterator_Error it = iterator_Error it"

definition TokenRemoteTokensWithdrawnIterator_Close :: "iterator \<Rightarrow> goerr option \<times> iterator"
   where
  "TokenRemoteTokensWithdrawnIterator_Close it = iterator_Close it"

definition TokenRemoteFilterer_FilterTokensWithdrawn ::
  "'w bound_contract \<Rightarrow> FilterOpts \<Rightarrow> address list \<Rightarrow> ('w, goerr + iterator) prog" where
  "TokenRemoteFilterer_FilterTokensWithdrawn c opts recipient =
     filter_events c opts ''TokensWithdrawn'' [map GAddr recipient]"

definition TokenRemoteFilterer_WatchTokensWithdrawn ::
  "'w bound_contract \<Rightarrow> address list \<Rightarrow> ('w, goerr + (evm_log \<Rightarrow> goerr + event_fields)) prog" where
  "TokenRemoteFilterer_WatchTokensWithdrawn c recipient =
     watch_events c ''TokensWithdrawn'' TokenRemoteTokensWithdrawn [map GAddr recipient]"

definition TokenRemoteFilterer_ParseTokensWithdrawn ::
  "'w bound_contract \<Rightarrow> evm_log \<Rightarrow> goerr + event_fields" where
  "TokenRemoteFilterer_ParseTokensWithdrawn c = parse_log c ''TokensWithdrawn''
     TokenRemoteTokensWithdrawn"

section \<open>Correctness\<close>

lemma TokenRemote_methods:
  "map_of (Methods TokenRemoteABI) ''MULTI_HOP_CALL_GAS_PER_WORD'' =
     Some ([], [([], TUint 256)])"
  "map_of (Methods TokenRemoteABI) ''MULTI_HOP_CALL_REQUIRED_GAS'' =
     Some ([], [([], TUint 256)])"
  "map_of (Methods TokenRemoteABI) ''MULTI_HOP_SEND_REQUIRED_GAS'' =
     Some ([], [([], TUint 256)])"
  "map_of (Methods TokenRemoteABI) ''REGISTER_REMOTE_REQUIRED_GAS'' =
     Some ([], [([], TUint 256)])"
  "map_of (Methods TokenRemoteABI) ''TELEPORTER_REGISTRY_APP_STORAGE_LOCATION'' =
     Some ([], [([], TBytes32)])"
  "map_of (Methods TokenRemoteABI) ''TOKEN_REMOTE_STORAGE_LOCATION'' =
     Some ([], [([], TBytes32)])"
  "map_of (Methods TokenRemoteABI) ''calculateNumWords'' =
     Some ([(''payloadSize'', TUint 256)], [([], TUint 256)])"
  "map_of (Methods TokenRemoteABI) ''getBlockchainID'' =
     Some ([], [([], TBytes32)])"
  "map_of (Methods TokenRemoteABI) ''getInitialReserveImbalance'' =
     Some ([], [([], TUint 256)])"
  "map_of (Methods TokenRemoteABI) ''getIsCollateralized'' =
     Some ([], [([], TBool)])"
  "map_of (Methods TokenRemoteABI) ''getMinTeleporterVersion'' =
     Some ([], [([], TUint 256)])"
  "map_of (Methods TokenRemoteABI) ''getMultiplyOnRemote'' =
     Some ([], [([], TBool)])"
  "map_of (Methods TokenRemoteABI) ''getTokenHomeAddress'' =
     Some ([], [([], TAddress)])"
  "map_of (Methods TokenRemoteABI) ''getTokenHomeBlockchainID'' =
     Some ([], [([], TBytes32)])"
  "map_of (Methods TokenRemoteABI) ''getTokenMultiplier'' =
     Some ([], [([], TUint 256)])"
  "map_of (Methods TokenRemoteABI) ''isTeleporterAddressPaused'' =
     Some ([(''teleporterAddress'', TAddress)], [([], TBool)])"
  "map_of (Methods TokenRemoteABI) ''owner'' =
     Some ([], [([], TAddress)])"
  "map_of (Methods TokenRemoteABI) ''pauseTeleporterAddress'' =
     Some ([(''teleporterAddress'', TAddress)], [])"
  "map_of (Methods TokenRemoteABI) ''receiveTeleporterMessage'' =
     Some ([(''sourceBlockchainID'', TBytes32), (''originSenderAddress'', TAddress),
        (''message'', TBytes)], [])"
  "map_of (Methods TokenRemoteABI) ''registerWithHome'' =
     Some ([(''feeInfo'', fee_info_tuple)], [])"
  "map_of (Methods TokenRemoteABI) ''renounceOwnership'' =
     Some ([], [])"
  "map_of (Methods TokenRemoteABI) ''transferOwnership'' =
     Some ([(''newOwner'', TAddress)], [])"
  "map_of (Methods TokenRemoteABI) ''unpauseTeleporterAddress'' =
     Some ([(''teleporterAddress'', TAddress)], [])"
  "map_of (Methods TokenRemoteABI) ''updateMinTeleporterVersion'' =
     Some ([(''version'', TUint 256)], [])"
  unfolding TokenRemoteABI_def contract_abi.select_convs
  by (simp_all only: table_lookup)

lemma TokenRemote_decodable:
  "decodable [(''recipientContract'', TAddress, True), (''amount'', TUint 256, False)]
     TokenRemoteCallFailed"
  "decodable [(''recipientContract'', TAddress, True), (''amount'', TUint 256, False)]
     TokenRemoteCallSucceeded"
  "decodable [(''version'', TUint 64, False)]
     TokenRemoteInitialized"
  "decodable [(''oldMinTeleporterVersion'', TUint 256, True), (''newMinTeleporterVersion'',
     TUint 256, True)]
     TokenRemoteMinTeleporterVersionUpdated"
  "decodable [(''previousOwner'', TAddress, True), (''newOwner'', TAddress, True)]
     TokenRemoteOwnershipTransferred"
  "decodable [(''teleporterAddress'', TAddress, True)]
     TokenRemoteTeleporterAddressPaused"
  "decodable [(''teleporterAddress'', TAddress, True)]
     TokenRemoteTeleporterAddressUnpaused"
  "decodable [(''teleporterMessageID'', TBytes32, True), (''sender'', TAddress, True),
     (''input'', SendAndCallInput_tuple, False), (''amount'', TUint 256, False)]
     TokenRemoteTokensAndCallSent"
  "decodable [(''teleporterMessageID'', TBytes32, True), (''sender'', TAddress, True),
     (''input'', SendTokensInput_tuple, False), (''amount'', TUint 256, False)]
     TokenRemoteTokensSent"
  "decodable [(''recipient'', TAddress, True), (''amount'', TUint 256, False)]
     TokenRemoteTokensWithdrawn"
  by (simp_all add: decodable_def has_fields_def fits_def TokenRemoteCallFailed_def
     TokenRemoteCallSucceeded_def TokenRemoteInitialized_def
     TokenRemoteMinTeleporterVersionUpdated_def TokenRemoteOwnershipTransferred_def
     TokenRemoteTeleporterAddressPaused_def TokenRemoteTeleporterAddressUnpaused_def
     TokenRemoteTokensAndCallSent_def TokenRemoteTokensSent_def TokenRemoteTokensWithdrawn_def
     SendAndCallInput_tuple_def SendTokensInput_tuple_def)

lemma TokenRemote_events:
  "map_of (Events TokenRemoteABI) ''CallFailed'' =
     Some [(''recipientContract'', TAddress, True), (''amount'', TUint 256, False)]"
  "map_of (Events TokenRemoteABI) ''CallSucceeded'' =
     Some [(''recipientContract'', TAddress, True), (''amount'', TUint 256, False)]"
  "map_of (Events TokenRemoteABI) ''Initialized'' =
     Some [(''version'', TUint 64, False)]"
  "map_of (Events TokenRemoteABI) ''MinTeleporterVersionUpdated'' =
     Some [(''oldMinTeleporterVersion'', TUint 256, True), (''newMinTeleporterVersion'', TUint
        256, True)]"
  "map_of (Events TokenRemoteABI) ''OwnershipTransferred'' =
     Some [(''previousOwner'', TAddress, True), (''newOwner'', TAddress, True)]"
  "map_of (Events TokenRemoteABI) ''TeleporterAddressPaused'' =
     Some [(''teleporterAddress'', TAddress, True)]"
  "map_of (Events TokenRemoteABI) ''TeleporterAddressUnpaused'' =
     Some [(''teleporterAddress'', TAddress, True)]"
  "map_of (Events TokenRemoteABI) ''TokensAndCallSent'' =
     Some [(''teleporterMessageID'', TBytes32, True), (''sender'', TAddress, True), (''input'',
        SendAndCallInput_tuple, False), (''amount'', TUint 256, False)]"
  "map_of (Events TokenRemoteABI) ''TokensSent'' =
     Some [(''teleporterMessageID'', TBytes32, True), (''sender'', TAddress, True), (''input'',
        SendTokensInput_tuple, False), (''amount'', TUint 256, False)]"
  "map_of (Events TokenRemoteABI) ''TokensWithdrawn'' =
     Some [(''recipient'', TAddress, True), (''amount'', TUint 256, False)]"
  unfolding TokenRemoteABI_def contract_abi.select_convs
  by (simp_all only: table_lookup)

lemma TokenRemote_transactions_decode:
  assumes "codec_methods k" and "codec_roundtrip k" and "bound_spec k TokenRemoteABI be c"
  shows "(\<forall>teleporterAddress. sends_call k TokenRemoteABI be opts ''pauseTeleporterAddress''
     [GAddr teleporterAddress]
       (TokenRemoteTransactor_PauseTeleporterAddress c opts teleporterAddress)) \<and>
     (\<forall>sourceBlockchainID originSenderAddress message. sends_call k TokenRemoteABI be opts
        ''receiveTeleporterMessage'' [GArr32 sourceBlockchainID, GAddr originSenderAddress,
        GBytes message]
       (TokenRemoteTransactor_ReceiveTeleporterMessage c opts sourceBlockchainID
          originSenderAddress message)) \<and>
     (\<forall>feeInfo. fee_info_ok feeInfo \<longrightarrow> sends_call k TokenRemoteABI be opts ''registerWithHome''
        [fee_info_val feeInfo]
       (TokenRemoteTransactor_RegisterWithHome c opts feeInfo)) \<and>
     sends_call k TokenRemoteABI be opts ''renounceOwnership'' []
       (TokenRemoteTransactor_RenounceOwnership c opts) \<and>
     (\<forall>newOwner. sends_call k TokenRemoteABI be opts ''transferOwnership'' [GAddr newOwner]
       (TokenRemoteTransactor_TransferOwnership c opts newOwner)) \<and>
     (\<forall>teleporterAddress. sends_call k TokenRemoteABI be opts ''unpauseTeleporterAddress''
        [GAddr teleporterAddress]
       (TokenRemoteTransactor_UnpauseTeleporterAddress c opts teleporterAddress)) \<and>
     (\<forall>version_number. in_uint256 version_number \<longrightarrow> sends_call k TokenRemoteABI be opts
        ''updateMinTeleporterVersion'' [GBig version_number]
       (TokenRemoteTransactor_UpdateMinTeleporterVersion c opts version_number))"
  unfolding TokenRemoteTransactor_PauseTeleporterAddress_def
     TokenRemoteTransactor_ReceiveTeleporterMessage_def
     TokenRemoteTransactor_RegisterWithHome_def TokenRemoteTransactor_RenounceOwnership_def
     TokenRemoteTransactor_TransferOwnership_def
     TokenRemoteTransactor_UnpauseTeleporterAddress_def
     TokenRemoteTransactor_UpdateMinTeleporterVersion_def
  by ((intro conjI allI impI)?; rule transact_sends [OF assms], rule TokenRemote_methods)
    (simp_all del: matches.simps(1))

lemma TokenRemote_calls_return_outputs:
  assumes "codec_methods k" and "codec_roundtrip k" and "bound_spec k TokenRemoteABI be c"
  shows "(\<forall>r0. in_uint256 r0 \<longrightarrow> reads_call k TokenRemoteABI be opts
     ''MULTI_HOP_CALL_GAS_PER_WORD'' []
       [GBig r0] r0 (TokenRemoteCaller_MULTIHOPCALLGASPERWORD c opts)) \<and>
     (\<forall>r0. in_uint256 r0 \<longrightarrow> reads_call k TokenRemoteABI be opts ''MULTI_HOP_CALL_REQUIRED_GAS''
        []
       [GBig r0] r0 (TokenRemoteCaller_MULTIHOPCALLREQUIREDGAS c opts)) \<and>
     (\<forall>r0. in_uint256 r0 \<longrightarrow> reads_call k TokenRemoteABI be opts ''MULTI_HOP_SEND_REQUIRED_GAS''
        []
       [GBig r0] r0 (TokenRemoteCaller_MULTIHOPSENDREQUIREDGAS c opts)) \<and>
     (\<forall>r0. in_uint256 r0 \<longrightarrow> reads_call k TokenRemoteABI be opts ''REGISTER_REMOTE_REQUIRED_GAS''
        []
       [GBig r0] r0 (TokenRemoteCaller_REGISTERREMOTEREQUIREDGAS c opts)) \<and>
     (\<forall>r0. reads_call k TokenRemoteABI be opts ''TELEPORTER_REGISTRY_APP_STORAGE_LOCATION'' []
       [GArr32 r0] r0 (TokenRemoteCaller_TELEPORTERREGISTRYAPPSTORAGELOCATION c opts)) \<and>
     (\<forall>r0. reads_call k TokenRemoteABI be opts ''TOKEN_REMOTE_STORAGE_LOCATION'' []
       [GArr32 r0] r0 (TokenRemoteCaller_TOKENREMOTESTORAGELOCATION c opts)) \<and>
     (\<forall>payloadSize r0. in_uint256 payloadSize \<longrightarrow> in_uint256 r0 \<longrightarrow> reads_call k TokenRemoteABI be
        opts ''calculateNumWords'' [GBig payloadSize]
       [GBig r0] r0 (TokenRemoteCaller_CalculateNumWords c opts payloadSize)) \<and>
     (\<forall>r0. reads_call k TokenRemoteABI be opts ''getBlockchainID'' []
       [GArr32 r0] r0 (TokenRemoteCaller_GetBlockchainID c opts)) \<and>
     (\<forall>r0. in_uint256 r0 \<longrightarrow> reads_call k TokenRemoteABI be opts ''getInitialReserveImbalance'' []
       [GBig r0] r0 (TokenRemoteCaller_GetInitialReserveImbalance c opts)) \<and>
     (\<forall>r0. reads_call k TokenRemoteABI be opts ''getIsCollateralized'' []
       [GBool r0] r0 (TokenRemoteCaller_GetIsCollateralized c opts)) \<and>
     (\<forall>r0. in_uint256 r0 \<longrightarrow> reads_call k TokenRemoteABI be opts ''getMinTeleporterVersion'' []
       [GBig r0] r0 (TokenRemoteCaller_GetMinTeleporterVersion c opts)) \<and>
     (\<forall>r0. reads_call k TokenRemoteABI be opts ''getMultiplyOnRemote'' []
       [GBool r0] r0 (TokenRemoteCaller_GetMultiplyOnRemote c opts)) \<and>
     (\<forall>r0. reads_call k TokenRemoteABI be opts ''getTokenHomeAddress'' []
       [GAddr r0] r0 (TokenRemoteCaller_GetTokenHomeAddress c opts)) \<and>
     (\<forall>r0. reads_call k TokenRemoteABI be opts ''getTokenHomeBlockchainID'' []
       [GArr32 r0] r0 (TokenRemoteCaller_GetTokenHomeBlockchainID c opts)) \<and>
     (\<forall>r0. in_uint256 r0 \<longrightarrow> reads_call k TokenRemoteABI be opts ''getTokenMultiplier'' []
       [GBig r0] r0 (TokenRemoteCaller_GetTokenMultiplier c opts)) \<and>
     (\<forall>teleporterAddress r0. reads_call k TokenRemoteABI be opts ''isTeleporterAddressPaused''
        [GAddr teleporterAddress]
       [GBool r0] r0 (TokenRemoteCaller_IsTeleporterAddressPaused c opts teleporterAddress)) \<and>
     (\<forall>r0. reads_call k TokenRemoteABI be opts ''owner'' []
       [GAddr r0] r0 (TokenRemoteCaller_Owner c opts))"
  unfolding TokenRemoteCaller_MULTIHOPCALLGASPERWORD_def
     TokenRemoteCaller_MULTIHOPCALLREQUIREDGAS_def TokenRemoteCaller_MULTIHOPSENDREQUIREDGAS_def
     TokenRemoteCaller_REGISTERREMOTEREQUIREDGAS_def
     TokenRemoteCaller_TELEPORTERREGISTRYAPPSTORAGELOCATION_def
     TokenRemoteCaller_TOKENREMOTESTORAGELOCATION_def TokenRemoteCaller_CalculateNumWords_def
     TokenRemoteCaller_GetBlockchainID_def TokenRemoteCaller_GetInitialReserveImbalance_def
     TokenRemoteCaller_GetIsCollateralized_def TokenRemoteCaller_GetMinTeleporterVersion_def
     TokenRemoteCaller_GetMultiplyOnRemote_def TokenRemoteCaller_GetTokenHomeAddress_def
     TokenRemoteCaller_GetTokenHomeBlockchainID_def TokenRemoteCaller_GetTokenMultiplier_def
     TokenRemoteCaller_IsTeleporterAddressPaused_def TokenRemoteCaller_Owner_def
  by ((intro conjI allI impI)?; rule call_reads [OF assms], rule TokenRemote_methods)
    (simp_all del: matches.simps(1))

lemma TokenRemote_parsers_decode:
  assumes "codec_events k" and "event_ids k TokenRemoteABI" and "bound_spec k TokenRemoteABI be
     c"
  shows "parser_decodes k TokenRemoteABI ''CallFailed'' (TokenRemoteFilterer_ParseCallFailed c)
     \<and>
     parser_decodes k TokenRemoteABI ''CallSucceeded'' (TokenRemoteFilterer_ParseCallSucceeded
        c) \<and>
     parser_decodes k TokenRemoteABI ''Initialized'' (TokenRemoteFilterer_ParseInitialized c) \<and>
     parser_decodes k TokenRemoteABI ''MinTeleporterVersionUpdated''
        (TokenRemoteFilterer_ParseMinTeleporterVersionUpdated c) \<and>
     parser_decodes k TokenRemoteABI ''OwnershipTransferred''
        (TokenRemoteFilterer_ParseOwnershipTransferred c) \<and>
     parser_decodes k TokenRemoteABI ''TeleporterAddressPaused''
        (TokenRemoteFilterer_ParseTeleporterAddressPaused c) \<and>
     parser_decodes k TokenRemoteABI ''TeleporterAddressUnpaused''
        (TokenRemoteFilterer_ParseTeleporterAddressUnpaused c) \<and>
     parser_decodes k TokenRemoteABI ''TokensAndCallSent''
        (TokenRemoteFilterer_ParseTokensAndCallSent c) \<and>
     parser_decodes k TokenRemoteABI ''TokensSent'' (TokenRemoteFilterer_ParseTokensSent c) \<and>
     parser_decodes k TokenRemoteABI ''TokensWithdrawn''
        (TokenRemoteFilterer_ParseTokensWithdrawn c)"
proof -
  note parses = parse_log_decodes [OF assms]
  show ?thesis
    unfolding TokenRemoteFilterer_ParseCallFailed_def TokenRemoteFilterer_ParseCallSucceeded_def
       TokenRemoteFilterer_ParseInitialized_def
       TokenRemoteFilterer_ParseMinTeleporterVersionUpdated_def
       TokenRemoteFilterer_ParseOwnershipTransferred_def
       TokenRemoteFilterer_ParseTeleporterAddressPaused_def
       TokenRemoteFilterer_ParseTeleporterAddressUnpaused_def
       TokenRemoteFilterer_ParseTokensAndCallSent_def TokenRemoteFilterer_ParseTokensSent_def
       TokenRemoteFilterer_ParseTokensWithdrawn_def
    by ((intro conjI)?; rule parses, rule TokenRemote_events, rule TokenRemote_decodable)
qed

end
