(* ===== verification/ERC20TokenRemoteUpgradeableBinding.thy ===== *)
theory ERC20TokenRemoteUpgradeableBinding
  imports IcttStructs AbiRef
begin

text \<open>
  The generated binding \<open>abi-bindings/go/ictt/TokenRemote/ERC20TokenRemoteUpgradeable/ERC20TokenRemoteUpgradeable.go\<close> over the generic
  definitions of theory \<open>Binding\<close>: its ABI, every method with its session wrappers, every event with
  its iterator, filter, watch and parser. The bytecode is a parameter of deployment; the aliases
  \<open>Raw\<close> of the untyped calls are not modelled.
\<close>

section \<open>The contract's ABI (ERC20TokenRemoteUpgradeableMetaData)\<close>

definition ERC20TokenRemoteUpgradeableABI :: contract_abi where
  "ERC20TokenRemoteUpgradeableABI = \<lparr>
      Methods = [
        (''ERC20_TOKEN_REMOTE_STORAGE_LOCATION'', [],
           [('''', TBytes32)]),
        (''MULTI_HOP_CALL_GAS_PER_WORD'', [],
           [('''', TUint 256)]),
        (''MULTI_HOP_CALL_REQUIRED_GAS'', [],
           [('''', TUint 256)]),
        (''MULTI_HOP_SEND_REQUIRED_GAS'', [],
           [('''', TUint 256)]),
        (''REGISTER_REMOTE_REQUIRED_GAS'', [],
           [('''', TUint 256)]),
        (''TELEPORTER_REGISTRY_APP_STORAGE_LOCATION'', [],
           [('''', TBytes32)]),
        (''TOKEN_REMOTE_STORAGE_LOCATION'', [],
           [('''', TBytes32)]),
        (''allowance'', [(''owner'', TAddress), (''spender'', TAddress)],
           [('''', TUint 256)]),
        (''approve'', [(''spender'', TAddress), (''value'', TUint 256)],
           [('''', TBool)]),
        (''balanceOf'', [(''account'', TAddress)],
           [('''', TUint 256)]),
        (''calculateNumWords'', [(''payloadSize'', TUint 256)],
           [('''', TUint 256)]),
        (''decimals'', [],
           [('''', TUint 8)]),
        (''getBlockchainID'', [],
           [('''', TBytes32)]),
        (''getInitialReserveImbalance'', [],
           [('''', TUint 256)]),
        (''getIsCollateralized'', [],
           [('''', TBool)]),
        (''getMinTeleporterVersion'', [],
           [('''', TUint 256)]),
        (''getMultiplyOnRemote'', [],
           [('''', TBool)]),
        (''getTokenHomeAddress'', [],
           [('''', TAddress)]),
        (''getTokenHomeBlockchainID'', [],
           [('''', TBytes32)]),
        (''getTokenMultiplier'', [],
           [('''', TUint 256)]),
        (''initialize'', [(''settings'', TokenRemoteSettings_tuple), (''tokenName'', TString),
           (''tokenSymbol'', TString), (''tokenDecimals'', TUint 8)],
           []),
        (''isTeleporterAddressPaused'', [(''teleporterAddress'', TAddress)],
           [('''', TBool)]),
        (''name'', [],
           [('''', TString)]),
        (''owner'', [],
           [('''', TAddress)]),
        (''pauseTeleporterAddress'', [(''teleporterAddress'', TAddress)],
           []),
        (''receiveTeleporterMessage'', [(''sourceBlockchainID'', TBytes32),
           (''originSenderAddress'', TAddress), (''message'', TBytes)],
           []),
        (''registerWithHome'', [(''feeInfo'', fee_info_tuple)],
           []),
        (''renounceOwnership'', [],
           []),
        (''send'', [(''input'', SendTokensInput_tuple), (''amount'', TUint 256)],
           []),
        (''sendAndCall'', [(''input'', SendAndCallInput_tuple), (''amount'', TUint 256)],
           []),
        (''symbol'', [],
           [('''', TString)]),
        (''totalSupply'', [],
           [('''', TUint 256)]),
        (''transfer'', [(''to'', TAddress), (''value'', TUint 256)],
           [('''', TBool)]),
        (''transferFrom'', [(''from'', TAddress), (''to'', TAddress), (''value'', TUint 256)],
           [('''', TBool)]),
        (''transferOwnership'', [(''newOwner'', TAddress)],
           []),
        (''unpauseTeleporterAddress'', [(''teleporterAddress'', TAddress)],
           []),
        (''updateMinTeleporterVersion'', [(''version'', TUint 256)],
           [])],
      Events = [
        (''Approval'', [(''owner'', TAddress, True), (''spender'', TAddress, True), (''value'',
           TUint 256, False)]),
        (''CallFailed'', [(''recipientContract'', TAddress, True), (''amount'', TUint 256,
           False)]),
        (''CallSucceeded'', [(''recipientContract'', TAddress, True), (''amount'', TUint 256,
           False)]),
        (''Initialized'', [(''version'', TUint 64, False)]),
        (''MinTeleporterVersionUpdated'', [(''oldMinTeleporterVersion'', TUint 256, True),
           (''newMinTeleporterVersion'', TUint 256, True)]),
        (''OwnershipTransferred'', [(''previousOwner'', TAddress, True), (''newOwner'',
           TAddress, True)]),
        (''TeleporterAddressPaused'', [(''teleporterAddress'', TAddress, True)]),
        (''TeleporterAddressUnpaused'', [(''teleporterAddress'', TAddress, True)]),
        (''TokensAndCallSent'', [(''teleporterMessageID'', TBytes32, True), (''sender'',
           TAddress, True), (''input'', SendAndCallInput_tuple, False), (''amount'', TUint 256,
           False)]),
        (''TokensSent'', [(''teleporterMessageID'', TBytes32, True), (''sender'', TAddress,
           True), (''input'', SendTokensInput_tuple, False), (''amount'', TUint 256, False)]),
        (''TokensWithdrawn'', [(''recipient'', TAddress, True), (''amount'', TUint 256,
           False)]),
        (''Transfer'', [(''from'', TAddress, True), (''to'', TAddress, True), (''value'', TUint
           256, False)])]\<rparr>"

section \<open>Binding and deployment\<close>

definition bindERC20TokenRemoteUpgradeable :: "'w bind_lib \<Rightarrow> address \<Rightarrow> goerr + 'w
   bound_contract" where
  "bindERC20TokenRemoteUpgradeable lib addr = bind_contract lib ERC20TokenRemoteUpgradeableABI
     addr"

definition NewERC20TokenRemoteUpgradeable :: "'w bind_lib \<Rightarrow> address \<Rightarrow> goerr + 'w bound_contract"
   where
  "NewERC20TokenRemoteUpgradeable lib addr = bindERC20TokenRemoteUpgradeable lib addr"

definition DeployERC20TokenRemoteUpgradeable ::
  "'w bind_lib \<Rightarrow> string \<Rightarrow> TransactOpts \<Rightarrow> u8 \<Rightarrow> 
   ('w, goerr + address \<times> hash \<times> 'w bound_contract) prog" where
  "DeployERC20TokenRemoteUpgradeable lib bin auth init_mode = deploy_contract lib auth
     ERC20TokenRemoteUpgradeableABI bin [GUint 8 (unat init_mode)]"

section \<open>Methods\<close>

definition ERC20TokenRemoteUpgradeableCaller_ERC20TOKENREMOTESTORAGELOCATION ::
  "'w bound_contract \<Rightarrow> CallOpts \<Rightarrow> ('w, goerr + hash) prog" where
  "ERC20TokenRemoteUpgradeableCaller_ERC20TOKENREMOTESTORAGELOCATION c opts =
     call_method c opts ''ERC20_TOKEN_REMOTE_STORAGE_LOCATION'' [] (out1 go_arr32)"

definition ERC20TokenRemoteUpgradeableSession_ERC20TOKENREMOTESTORAGELOCATION ::
  "'w session \<Rightarrow> ('w, goerr + hash) prog" where
  "ERC20TokenRemoteUpgradeableSession_ERC20TOKENREMOTESTORAGELOCATION s =
     ERC20TokenRemoteUpgradeableCaller_ERC20TOKENREMOTESTORAGELOCATION (SessionContract s)
     (SessionCallOpts s)"

definition ERC20TokenRemoteUpgradeableCaller_MULTIHOPCALLGASPERWORD ::
  "'w bound_contract \<Rightarrow> CallOpts \<Rightarrow> ('w, goerr + int) prog" where
  "ERC20TokenRemoteUpgradeableCaller_MULTIHOPCALLGASPERWORD c opts =
     call_method c opts ''MULTI_HOP_CALL_GAS_PER_WORD'' [] (out1 go_big)"

definition ERC20TokenRemoteUpgradeableSession_MULTIHOPCALLGASPERWORD ::
  "'w session \<Rightarrow> ('w, goerr + int) prog" where
  "ERC20TokenRemoteUpgradeableSession_MULTIHOPCALLGASPERWORD s =
     ERC20TokenRemoteUpgradeableCaller_MULTIHOPCALLGASPERWORD (SessionContract s)
     (SessionCallOpts s)"

definition ERC20TokenRemoteUpgradeableCaller_MULTIHOPCALLREQUIREDGAS ::
  "'w bound_contract \<Rightarrow> CallOpts \<Rightarrow> ('w, goerr + int) prog" where
  "ERC20TokenRemoteUpgradeableCaller_MULTIHOPCALLREQUIREDGAS c opts =
     call_method c opts ''MULTI_HOP_CALL_REQUIRED_GAS'' [] (out1 go_big)"

definition ERC20TokenRemoteUpgradeableSession_MULTIHOPCALLREQUIREDGAS ::
  "'w session \<Rightarrow> ('w, goerr + int) prog" where
  "ERC20TokenRemoteUpgradeableSession_MULTIHOPCALLREQUIREDGAS s =
     ERC20TokenRemoteUpgradeableCaller_MULTIHOPCALLREQUIREDGAS (SessionContract s)
     (SessionCallOpts s)"

definition ERC20TokenRemoteUpgradeableCaller_MULTIHOPSENDREQUIREDGAS ::
  "'w bound_contract \<Rightarrow> CallOpts \<Rightarrow> ('w, goerr + int) prog" where
  "ERC20TokenRemoteUpgradeableCaller_MULTIHOPSENDREQUIREDGAS c opts =
     call_method c opts ''MULTI_HOP_SEND_REQUIRED_GAS'' [] (out1 go_big)"

definition ERC20TokenRemoteUpgradeableSession_MULTIHOPSENDREQUIREDGAS ::
  "'w session \<Rightarrow> ('w, goerr + int) prog" where
  "ERC20TokenRemoteUpgradeableSession_MULTIHOPSENDREQUIREDGAS s =
     ERC20TokenRemoteUpgradeableCaller_MULTIHOPSENDREQUIREDGAS (SessionContract s)
     (SessionCallOpts s)"

definition ERC20TokenRemoteUpgradeableCaller_REGISTERREMOTEREQUIREDGAS ::
  "'w bound_contract \<Rightarrow> CallOpts \<Rightarrow> ('w, goerr + int) prog" where
  "ERC20TokenRemoteUpgradeableCaller_REGISTERREMOTEREQUIREDGAS c opts =
     call_method c opts ''REGISTER_REMOTE_REQUIRED_GAS'' [] (out1 go_big)"

definition ERC20TokenRemoteUpgradeableSession_REGISTERREMOTEREQUIREDGAS ::
  "'w session \<Rightarrow> ('w, goerr + int) prog" where
  "ERC20TokenRemoteUpgradeableSession_REGISTERREMOTEREQUIREDGAS s =
     ERC20TokenRemoteUpgradeableCaller_REGISTERREMOTEREQUIREDGAS (SessionContract s)
     (SessionCallOpts s)"

definition ERC20TokenRemoteUpgradeableCaller_TELEPORTERREGISTRYAPPSTORAGELOCATION ::
  "'w bound_contract \<Rightarrow> CallOpts \<Rightarrow> ('w, goerr + hash) prog" where
  "ERC20TokenRemoteUpgradeableCaller_TELEPORTERREGISTRYAPPSTORAGELOCATION c opts =
     call_method c opts ''TELEPORTER_REGISTRY_APP_STORAGE_LOCATION'' [] (out1 go_arr32)"

definition ERC20TokenRemoteUpgradeableSession_TELEPORTERREGISTRYAPPSTORAGELOCATION ::
  "'w session \<Rightarrow> ('w, goerr + hash) prog" where
  "ERC20TokenRemoteUpgradeableSession_TELEPORTERREGISTRYAPPSTORAGELOCATION s =
     ERC20TokenRemoteUpgradeableCaller_TELEPORTERREGISTRYAPPSTORAGELOCATION (SessionContract s)
     (SessionCallOpts s)"

definition ERC20TokenRemoteUpgradeableCaller_TOKENREMOTESTORAGELOCATION ::
  "'w bound_contract \<Rightarrow> CallOpts \<Rightarrow> ('w, goerr + hash) prog" where
  "ERC20TokenRemoteUpgradeableCaller_TOKENREMOTESTORAGELOCATION c opts =
     call_method c opts ''TOKEN_REMOTE_STORAGE_LOCATION'' [] (out1 go_arr32)"

definition ERC20TokenRemoteUpgradeableSession_TOKENREMOTESTORAGELOCATION ::
  "'w session \<Rightarrow> ('w, goerr + hash) prog" where
  "ERC20TokenRemoteUpgradeableSession_TOKENREMOTESTORAGELOCATION s =
     ERC20TokenRemoteUpgradeableCaller_TOKENREMOTESTORAGELOCATION (SessionContract s)
     (SessionCallOpts s)"

definition ERC20TokenRemoteUpgradeableCaller_Allowance ::
  "'w bound_contract \<Rightarrow> CallOpts \<Rightarrow> address \<Rightarrow> address \<Rightarrow> ('w, goerr + int) prog" where
  "ERC20TokenRemoteUpgradeableCaller_Allowance c opts owner spender =
     call_method c opts ''allowance'' [GAddr owner, GAddr spender] (out1 go_big)"

definition ERC20TokenRemoteUpgradeableSession_Allowance ::
  "'w session \<Rightarrow> address \<Rightarrow> address \<Rightarrow> ('w, goerr + int) prog" where
  "ERC20TokenRemoteUpgradeableSession_Allowance s owner spender =
     ERC20TokenRemoteUpgradeableCaller_Allowance (SessionContract s) (SessionCallOpts s) owner
     spender"

definition ERC20TokenRemoteUpgradeableTransactor_Approve ::
  "'w bound_contract \<Rightarrow> TransactOpts \<Rightarrow> address \<Rightarrow> int \<Rightarrow> ('w, goerr + hash) prog" where
  "ERC20TokenRemoteUpgradeableTransactor_Approve c opts spender amount_value =
     contract_transact c opts ''approve'' [GAddr spender, GBig amount_value]"

definition ERC20TokenRemoteUpgradeableSession_Approve ::
  "'w session \<Rightarrow> address \<Rightarrow> int \<Rightarrow> ('w, goerr + hash) prog" where
  "ERC20TokenRemoteUpgradeableSession_Approve s spender amount_value =
     ERC20TokenRemoteUpgradeableTransactor_Approve (SessionContract s) (SessionTransactOpts s)
     spender amount_value"

definition ERC20TokenRemoteUpgradeableCaller_BalanceOf ::
  "'w bound_contract \<Rightarrow> CallOpts \<Rightarrow> address \<Rightarrow> ('w, goerr + int) prog" where
  "ERC20TokenRemoteUpgradeableCaller_BalanceOf c opts account =
     call_method c opts ''balanceOf'' [GAddr account] (out1 go_big)"

definition ERC20TokenRemoteUpgradeableSession_BalanceOf ::
  "'w session \<Rightarrow> address \<Rightarrow> ('w, goerr + int) prog" where
  "ERC20TokenRemoteUpgradeableSession_BalanceOf s account =
     ERC20TokenRemoteUpgradeableCaller_BalanceOf (SessionContract s) (SessionCallOpts s)
     account"

definition ERC20TokenRemoteUpgradeableCaller_CalculateNumWords ::
  "'w bound_contract \<Rightarrow> CallOpts \<Rightarrow> int \<Rightarrow> ('w, goerr + int) prog" where
  "ERC20TokenRemoteUpgradeableCaller_CalculateNumWords c opts payloadSize =
     call_method c opts ''calculateNumWords'' [GBig payloadSize] (out1 go_big)"

definition ERC20TokenRemoteUpgradeableSession_CalculateNumWords ::
  "'w session \<Rightarrow> int \<Rightarrow> ('w, goerr + int) prog" where
  "ERC20TokenRemoteUpgradeableSession_CalculateNumWords s payloadSize =
     ERC20TokenRemoteUpgradeableCaller_CalculateNumWords (SessionContract s) (SessionCallOpts s)
     payloadSize"

definition ERC20TokenRemoteUpgradeableCaller_Decimals ::
  "'w bound_contract \<Rightarrow> CallOpts \<Rightarrow> ('w, goerr + u8) prog" where
  "ERC20TokenRemoteUpgradeableCaller_Decimals c opts =
     call_method c opts ''decimals'' [] (out1 (go_word 8))"

definition ERC20TokenRemoteUpgradeableSession_Decimals ::
  "'w session \<Rightarrow> ('w, goerr + u8) prog" where
  "ERC20TokenRemoteUpgradeableSession_Decimals s = ERC20TokenRemoteUpgradeableCaller_Decimals
     (SessionContract s) (SessionCallOpts s)"

definition ERC20TokenRemoteUpgradeableCaller_GetBlockchainID ::
  "'w bound_contract \<Rightarrow> CallOpts \<Rightarrow> ('w, goerr + hash) prog" where
  "ERC20TokenRemoteUpgradeableCaller_GetBlockchainID c opts =
     call_method c opts ''getBlockchainID'' [] (out1 go_arr32)"

definition ERC20TokenRemoteUpgradeableSession_GetBlockchainID ::
  "'w session \<Rightarrow> ('w, goerr + hash) prog" where
  "ERC20TokenRemoteUpgradeableSession_GetBlockchainID s =
     ERC20TokenRemoteUpgradeableCaller_GetBlockchainID (SessionContract s) (SessionCallOpts s)"

definition ERC20TokenRemoteUpgradeableCaller_GetInitialReserveImbalance ::
  "'w bound_contract \<Rightarrow> CallOpts \<Rightarrow> ('w, goerr + int) prog" where
  "ERC20TokenRemoteUpgradeableCaller_GetInitialReserveImbalance c opts =
     call_method c opts ''getInitialReserveImbalance'' [] (out1 go_big)"

definition ERC20TokenRemoteUpgradeableSession_GetInitialReserveImbalance ::
  "'w session \<Rightarrow> ('w, goerr + int) prog" where
  "ERC20TokenRemoteUpgradeableSession_GetInitialReserveImbalance s =
     ERC20TokenRemoteUpgradeableCaller_GetInitialReserveImbalance (SessionContract s)
     (SessionCallOpts s)"

definition ERC20TokenRemoteUpgradeableCaller_GetIsCollateralized ::
  "'w bound_contract \<Rightarrow> CallOpts \<Rightarrow> ('w, goerr + bool) prog" where
  "ERC20TokenRemoteUpgradeableCaller_GetIsCollateralized c opts =
     call_method c opts ''getIsCollateralized'' [] (out1 go_bool)"

definition ERC20TokenRemoteUpgradeableSession_GetIsCollateralized ::
  "'w session \<Rightarrow> ('w, goerr + bool) prog" where
  "ERC20TokenRemoteUpgradeableSession_GetIsCollateralized s =
     ERC20TokenRemoteUpgradeableCaller_GetIsCollateralized (SessionContract s) (SessionCallOpts
     s)"

definition ERC20TokenRemoteUpgradeableCaller_GetMinTeleporterVersion ::
  "'w bound_contract \<Rightarrow> CallOpts \<Rightarrow> ('w, goerr + int) prog" where
  "ERC20TokenRemoteUpgradeableCaller_GetMinTeleporterVersion c opts =
     call_method c opts ''getMinTeleporterVersion'' [] (out1 go_big)"

definition ERC20TokenRemoteUpgradeableSession_GetMinTeleporterVersion ::
  "'w session \<Rightarrow> ('w, goerr + int) prog" where
  "ERC20TokenRemoteUpgradeableSession_GetMinTeleporterVersion s =
     ERC20TokenRemoteUpgradeableCaller_GetMinTeleporterVersion (SessionContract s)
     (SessionCallOpts s)"

definition ERC20TokenRemoteUpgradeableCaller_GetMultiplyOnRemote ::
  "'w bound_contract \<Rightarrow> CallOpts \<Rightarrow> ('w, goerr + bool) prog" where
  "ERC20TokenRemoteUpgradeableCaller_GetMultiplyOnRemote c opts =
     call_method c opts ''getMultiplyOnRemote'' [] (out1 go_bool)"

definition ERC20TokenRemoteUpgradeableSession_GetMultiplyOnRemote ::
  "'w session \<Rightarrow> ('w, goerr + bool) prog" where
  "ERC20TokenRemoteUpgradeableSession_GetMultiplyOnRemote s =
     ERC20TokenRemoteUpgradeableCaller_GetMultiplyOnRemote (SessionContract s) (SessionCallOpts
     s)"

definition ERC20TokenRemoteUpgradeableCaller_GetTokenHomeAddress ::
  "'w bound_contract \<Rightarrow> CallOpts \<Rightarrow> ('w, goerr + address) prog" where
  "ERC20TokenRemoteUpgradeableCaller_GetTokenHomeAddress c opts =
     call_method c opts ''getTokenHomeAddress'' [] (out1 go_addr)"

definition ERC20TokenRemoteUpgradeableSession_GetTokenHomeAddress ::
  "'w session \<Rightarrow> ('w, goerr + address) prog" where
  "ERC20TokenRemoteUpgradeableSession_GetTokenHomeAddress s =
     ERC20TokenRemoteUpgradeableCaller_GetTokenHomeAddress (SessionContract s) (SessionCallOpts
     s)"

definition ERC20TokenRemoteUpgradeableCaller_GetTokenHomeBlockchainID ::
  "'w bound_contract \<Rightarrow> CallOpts \<Rightarrow> ('w, goerr + hash) prog" where
  "ERC20TokenRemoteUpgradeableCaller_GetTokenHomeBlockchainID c opts =
     call_method c opts ''getTokenHomeBlockchainID'' [] (out1 go_arr32)"

definition ERC20TokenRemoteUpgradeableSession_GetTokenHomeBlockchainID ::
  "'w session \<Rightarrow> ('w, goerr + hash) prog" where
  "ERC20TokenRemoteUpgradeableSession_GetTokenHomeBlockchainID s =
     ERC20TokenRemoteUpgradeableCaller_GetTokenHomeBlockchainID (SessionContract s)
     (SessionCallOpts s)"

definition ERC20TokenRemoteUpgradeableCaller_GetTokenMultiplier ::
  "'w bound_contract \<Rightarrow> CallOpts \<Rightarrow> ('w, goerr + int) prog" where
  "ERC20TokenRemoteUpgradeableCaller_GetTokenMultiplier c opts =
     call_method c opts ''getTokenMultiplier'' [] (out1 go_big)"

definition ERC20TokenRemoteUpgradeableSession_GetTokenMultiplier ::
  "'w session \<Rightarrow> ('w, goerr + int) prog" where
  "ERC20TokenRemoteUpgradeableSession_GetTokenMultiplier s =
     ERC20TokenRemoteUpgradeableCaller_GetTokenMultiplier (SessionContract s) (SessionCallOpts
     s)"

definition ERC20TokenRemoteUpgradeableTransactor_Initialize ::
  "'w bound_contract \<Rightarrow> TransactOpts \<Rightarrow> TokenRemoteSettings \<Rightarrow> string \<Rightarrow> string \<Rightarrow> u8 \<Rightarrow> ('w, goerr +
     hash) prog" where
  "ERC20TokenRemoteUpgradeableTransactor_Initialize c opts settings tokenName tokenSymbol
     tokenDecimals =
     contract_transact c opts ''initialize'' [TokenRemoteSettings_val settings, GStr tokenName,
        GStr tokenSymbol, GUint 8 (unat tokenDecimals)]"

definition ERC20TokenRemoteUpgradeableSession_Initialize ::
  "'w session \<Rightarrow> TokenRemoteSettings \<Rightarrow> string \<Rightarrow> string \<Rightarrow> u8 \<Rightarrow> ('w, goerr + hash) prog" where
  "ERC20TokenRemoteUpgradeableSession_Initialize s settings tokenName tokenSymbol tokenDecimals
     = ERC20TokenRemoteUpgradeableTransactor_Initialize (SessionContract s) (SessionTransactOpts
     s) settings tokenName tokenSymbol tokenDecimals"

definition ERC20TokenRemoteUpgradeableCaller_IsTeleporterAddressPaused ::
  "'w bound_contract \<Rightarrow> CallOpts \<Rightarrow> address \<Rightarrow> ('w, goerr + bool) prog" where
  "ERC20TokenRemoteUpgradeableCaller_IsTeleporterAddressPaused c opts teleporterAddress =
     call_method c opts ''isTeleporterAddressPaused'' [GAddr teleporterAddress] (out1 go_bool)"

definition ERC20TokenRemoteUpgradeableSession_IsTeleporterAddressPaused ::
  "'w session \<Rightarrow> address \<Rightarrow> ('w, goerr + bool) prog" where
  "ERC20TokenRemoteUpgradeableSession_IsTeleporterAddressPaused s teleporterAddress =
     ERC20TokenRemoteUpgradeableCaller_IsTeleporterAddressPaused (SessionContract s)
     (SessionCallOpts s) teleporterAddress"

definition ERC20TokenRemoteUpgradeableCaller_Name ::
  "'w bound_contract \<Rightarrow> CallOpts \<Rightarrow> ('w, goerr + string) prog" where
  "ERC20TokenRemoteUpgradeableCaller_Name c opts =
     call_method c opts ''name'' [] (out1 go_str)"

definition ERC20TokenRemoteUpgradeableSession_Name ::
  "'w session \<Rightarrow> ('w, goerr + string) prog" where
  "ERC20TokenRemoteUpgradeableSession_Name s = ERC20TokenRemoteUpgradeableCaller_Name
     (SessionContract s) (SessionCallOpts s)"

definition ERC20TokenRemoteUpgradeableCaller_Owner ::
  "'w bound_contract \<Rightarrow> CallOpts \<Rightarrow> ('w, goerr + address) prog" where
  "ERC20TokenRemoteUpgradeableCaller_Owner c opts =
     call_method c opts ''owner'' [] (out1 go_addr)"

definition ERC20TokenRemoteUpgradeableSession_Owner ::
  "'w session \<Rightarrow> ('w, goerr + address) prog" where
  "ERC20TokenRemoteUpgradeableSession_Owner s = ERC20TokenRemoteUpgradeableCaller_Owner
     (SessionContract s) (SessionCallOpts s)"

definition ERC20TokenRemoteUpgradeableTransactor_PauseTeleporterAddress ::
  "'w bound_contract \<Rightarrow> TransactOpts \<Rightarrow> address \<Rightarrow> ('w, goerr + hash) prog" where
  "ERC20TokenRemoteUpgradeableTransactor_PauseTeleporterAddress c opts teleporterAddress =
     contract_transact c opts ''pauseTeleporterAddress'' [GAddr teleporterAddress]"

definition ERC20TokenRemoteUpgradeableSession_PauseTeleporterAddress ::
  "'w session \<Rightarrow> address \<Rightarrow> ('w, goerr + hash) prog" where
  "ERC20TokenRemoteUpgradeableSession_PauseTeleporterAddress s teleporterAddress =
     ERC20TokenRemoteUpgradeableTransactor_PauseTeleporterAddress (SessionContract s)
     (SessionTransactOpts s) teleporterAddress"

definition ERC20TokenRemoteUpgradeableTransactor_ReceiveTeleporterMessage ::
  "'w bound_contract \<Rightarrow> TransactOpts \<Rightarrow> hash \<Rightarrow> address \<Rightarrow> bytes \<Rightarrow> ('w, goerr + hash) prog" where
  "ERC20TokenRemoteUpgradeableTransactor_ReceiveTeleporterMessage c opts sourceBlockchainID
     originSenderAddress message =
     contract_transact c opts ''receiveTeleporterMessage'' [GArr32 sourceBlockchainID, GAddr
        originSenderAddress, GBytes message]"

definition ERC20TokenRemoteUpgradeableSession_ReceiveTeleporterMessage ::
  "'w session \<Rightarrow> hash \<Rightarrow> address \<Rightarrow> bytes \<Rightarrow> ('w, goerr + hash) prog" where
  "ERC20TokenRemoteUpgradeableSession_ReceiveTeleporterMessage s sourceBlockchainID
     originSenderAddress message =
     ERC20TokenRemoteUpgradeableTransactor_ReceiveTeleporterMessage (SessionContract s)
     (SessionTransactOpts s) sourceBlockchainID originSenderAddress message"

definition ERC20TokenRemoteUpgradeableTransactor_RegisterWithHome ::
  "'w bound_contract \<Rightarrow> TransactOpts \<Rightarrow> TeleporterFeeInfo \<Rightarrow> ('w, goerr + hash) prog" where
  "ERC20TokenRemoteUpgradeableTransactor_RegisterWithHome c opts feeInfo =
     contract_transact c opts ''registerWithHome'' [fee_info_val feeInfo]"

definition ERC20TokenRemoteUpgradeableSession_RegisterWithHome ::
  "'w session \<Rightarrow> TeleporterFeeInfo \<Rightarrow> ('w, goerr + hash) prog" where
  "ERC20TokenRemoteUpgradeableSession_RegisterWithHome s feeInfo =
     ERC20TokenRemoteUpgradeableTransactor_RegisterWithHome (SessionContract s)
     (SessionTransactOpts s) feeInfo"

definition ERC20TokenRemoteUpgradeableTransactor_RenounceOwnership ::
  "'w bound_contract \<Rightarrow> TransactOpts \<Rightarrow> ('w, goerr + hash) prog" where
  "ERC20TokenRemoteUpgradeableTransactor_RenounceOwnership c opts =
     contract_transact c opts ''renounceOwnership'' []"

definition ERC20TokenRemoteUpgradeableSession_RenounceOwnership ::
  "'w session \<Rightarrow> ('w, goerr + hash) prog" where
  "ERC20TokenRemoteUpgradeableSession_RenounceOwnership s =
     ERC20TokenRemoteUpgradeableTransactor_RenounceOwnership (SessionContract s)
     (SessionTransactOpts s)"

definition ERC20TokenRemoteUpgradeableTransactor_Send ::
  "'w bound_contract \<Rightarrow> TransactOpts \<Rightarrow> SendTokensInput \<Rightarrow> int \<Rightarrow> ('w, goerr + hash) prog" where
  "ERC20TokenRemoteUpgradeableTransactor_Send c opts input_data amount =
     contract_transact c opts ''send'' [SendTokensInput_val input_data, GBig amount]"

definition ERC20TokenRemoteUpgradeableSession_Send ::
  "'w session \<Rightarrow> SendTokensInput \<Rightarrow> int \<Rightarrow> ('w, goerr + hash) prog" where
  "ERC20TokenRemoteUpgradeableSession_Send s input_data amount =
     ERC20TokenRemoteUpgradeableTransactor_Send (SessionContract s) (SessionTransactOpts s)
     input_data amount"

definition ERC20TokenRemoteUpgradeableTransactor_SendAndCall ::
  "'w bound_contract \<Rightarrow> TransactOpts \<Rightarrow> SendAndCallInput \<Rightarrow> int \<Rightarrow> ('w, goerr + hash) prog" where
  "ERC20TokenRemoteUpgradeableTransactor_SendAndCall c opts input_data amount =
     contract_transact c opts ''sendAndCall'' [SendAndCallInput_val input_data, GBig amount]"

definition ERC20TokenRemoteUpgradeableSession_SendAndCall ::
  "'w session \<Rightarrow> SendAndCallInput \<Rightarrow> int \<Rightarrow> ('w, goerr + hash) prog" where
  "ERC20TokenRemoteUpgradeableSession_SendAndCall s input_data amount =
     ERC20TokenRemoteUpgradeableTransactor_SendAndCall (SessionContract s) (SessionTransactOpts
     s) input_data amount"

definition ERC20TokenRemoteUpgradeableCaller_Symbol ::
  "'w bound_contract \<Rightarrow> CallOpts \<Rightarrow> ('w, goerr + string) prog" where
  "ERC20TokenRemoteUpgradeableCaller_Symbol c opts =
     call_method c opts ''symbol'' [] (out1 go_str)"

definition ERC20TokenRemoteUpgradeableSession_Symbol ::
  "'w session \<Rightarrow> ('w, goerr + string) prog" where
  "ERC20TokenRemoteUpgradeableSession_Symbol s = ERC20TokenRemoteUpgradeableCaller_Symbol
     (SessionContract s) (SessionCallOpts s)"

definition ERC20TokenRemoteUpgradeableCaller_TotalSupply ::
  "'w bound_contract \<Rightarrow> CallOpts \<Rightarrow> ('w, goerr + int) prog" where
  "ERC20TokenRemoteUpgradeableCaller_TotalSupply c opts =
     call_method c opts ''totalSupply'' [] (out1 go_big)"

definition ERC20TokenRemoteUpgradeableSession_TotalSupply ::
  "'w session \<Rightarrow> ('w, goerr + int) prog" where
  "ERC20TokenRemoteUpgradeableSession_TotalSupply s =
     ERC20TokenRemoteUpgradeableCaller_TotalSupply (SessionContract s) (SessionCallOpts s)"

definition ERC20TokenRemoteUpgradeableTransactor_Transfer ::
  "'w bound_contract \<Rightarrow> TransactOpts \<Rightarrow> address \<Rightarrow> int \<Rightarrow> ('w, goerr + hash) prog" where
  "ERC20TokenRemoteUpgradeableTransactor_Transfer c opts to_addr amount_value =
     contract_transact c opts ''transfer'' [GAddr to_addr, GBig amount_value]"

definition ERC20TokenRemoteUpgradeableSession_Transfer ::
  "'w session \<Rightarrow> address \<Rightarrow> int \<Rightarrow> ('w, goerr + hash) prog" where
  "ERC20TokenRemoteUpgradeableSession_Transfer s to_addr amount_value =
     ERC20TokenRemoteUpgradeableTransactor_Transfer (SessionContract s) (SessionTransactOpts s)
     to_addr amount_value"

definition ERC20TokenRemoteUpgradeableTransactor_TransferFrom ::
  "'w bound_contract \<Rightarrow> TransactOpts \<Rightarrow> address \<Rightarrow> address \<Rightarrow> int \<Rightarrow> ('w, goerr + hash) prog" where
  "ERC20TokenRemoteUpgradeableTransactor_TransferFrom c opts from_addr to_addr amount_value =
     contract_transact c opts ''transferFrom'' [GAddr from_addr, GAddr to_addr, GBig
        amount_value]"

definition ERC20TokenRemoteUpgradeableSession_TransferFrom ::
  "'w session \<Rightarrow> address \<Rightarrow> address \<Rightarrow> int \<Rightarrow> ('w, goerr + hash) prog" where
  "ERC20TokenRemoteUpgradeableSession_TransferFrom s from_addr to_addr amount_value =
     ERC20TokenRemoteUpgradeableTransactor_TransferFrom (SessionContract s) (SessionTransactOpts
     s) from_addr to_addr amount_value"

definition ERC20TokenRemoteUpgradeableTransactor_TransferOwnership ::
  "'w bound_contract \<Rightarrow> TransactOpts \<Rightarrow> address \<Rightarrow> ('w, goerr + hash) prog" where
  "ERC20TokenRemoteUpgradeableTransactor_TransferOwnership c opts newOwner =
     contract_transact c opts ''transferOwnership'' [GAddr newOwner]"

definition ERC20TokenRemoteUpgradeableSession_TransferOwnership ::
  "'w session \<Rightarrow> address \<Rightarrow> ('w, goerr + hash) prog" where
  "ERC20TokenRemoteUpgradeableSession_TransferOwnership s newOwner =
     ERC20TokenRemoteUpgradeableTransactor_TransferOwnership (SessionContract s)
     (SessionTransactOpts s) newOwner"

definition ERC20TokenRemoteUpgradeableTransactor_UnpauseTeleporterAddress ::
  "'w bound_contract \<Rightarrow> TransactOpts \<Rightarrow> address \<Rightarrow> ('w, goerr + hash) prog" where
  "ERC20TokenRemoteUpgradeableTransactor_UnpauseTeleporterAddress c opts teleporterAddress =
     contract_transact c opts ''unpauseTeleporterAddress'' [GAddr teleporterAddress]"

definition ERC20TokenRemoteUpgradeableSession_UnpauseTeleporterAddress ::
  "'w session \<Rightarrow> address \<Rightarrow> ('w, goerr + hash) prog" where
  "ERC20TokenRemoteUpgradeableSession_UnpauseTeleporterAddress s teleporterAddress =
     ERC20TokenRemoteUpgradeableTransactor_UnpauseTeleporterAddress (SessionContract s)
     (SessionTransactOpts s) teleporterAddress"

definition ERC20TokenRemoteUpgradeableTransactor_UpdateMinTeleporterVersion ::
  "'w bound_contract \<Rightarrow> TransactOpts \<Rightarrow> int \<Rightarrow> ('w, goerr + hash) prog" where
  "ERC20TokenRemoteUpgradeableTransactor_UpdateMinTeleporterVersion c opts version_number =
     contract_transact c opts ''updateMinTeleporterVersion'' [GBig version_number]"

definition ERC20TokenRemoteUpgradeableSession_UpdateMinTeleporterVersion ::
  "'w session \<Rightarrow> int \<Rightarrow> ('w, goerr + hash) prog" where
  "ERC20TokenRemoteUpgradeableSession_UpdateMinTeleporterVersion s version_number =
     ERC20TokenRemoteUpgradeableTransactor_UpdateMinTeleporterVersion (SessionContract s)
     (SessionTransactOpts s) version_number"

section \<open>Events\<close>

definition ERC20TokenRemoteUpgradeableApproval :: event_fields where
  "ERC20TokenRemoteUpgradeableApproval = [(''Owner'', GAddr 0), (''Spender'', GAddr 0),
     (''Value'', GNil), (''Raw'', zero_Log)]"

definition ERC20TokenRemoteUpgradeableApprovalIterator_Next ::
  "'w bound_contract \<Rightarrow> bool \<Rightarrow> iterator \<Rightarrow> (bool \<times> iterator) option" where
  "ERC20TokenRemoteUpgradeableApprovalIterator_Next c pick it = iterator_Next (parse_log c
     ''Approval'' ERC20TokenRemoteUpgradeableApproval) ERC20TokenRemoteUpgradeableApproval pick
     it"

definition ERC20TokenRemoteUpgradeableApprovalIterator_Error :: "iterator \<Rightarrow> goerr option" where
  "ERC20TokenRemoteUpgradeableApprovalIterator_Error it = iterator_Error it"

definition ERC20TokenRemoteUpgradeableApprovalIterator_Close :: "iterator \<Rightarrow> goerr option \<times>
   iterator" where
  "ERC20TokenRemoteUpgradeableApprovalIterator_Close it = iterator_Close it"

definition ERC20TokenRemoteUpgradeableFilterer_FilterApproval ::
  "'w bound_contract \<Rightarrow> FilterOpts \<Rightarrow> address list \<Rightarrow> address list \<Rightarrow> ('w, goerr + iterator) prog"
     where
  "ERC20TokenRemoteUpgradeableFilterer_FilterApproval c opts owner spender =
     filter_events c opts ''Approval'' [map GAddr owner, map GAddr spender]"

definition ERC20TokenRemoteUpgradeableFilterer_WatchApproval ::
  "'w bound_contract \<Rightarrow> address list \<Rightarrow> address list \<Rightarrow> ('w, goerr + (evm_log \<Rightarrow> goerr +
     event_fields)) prog" where
  "ERC20TokenRemoteUpgradeableFilterer_WatchApproval c owner spender =
     watch_events c ''Approval'' ERC20TokenRemoteUpgradeableApproval [map GAddr owner, map GAddr
        spender]"

definition ERC20TokenRemoteUpgradeableFilterer_ParseApproval ::
  "'w bound_contract \<Rightarrow> evm_log \<Rightarrow> goerr + event_fields" where
  "ERC20TokenRemoteUpgradeableFilterer_ParseApproval c = parse_log c ''Approval''
     ERC20TokenRemoteUpgradeableApproval"

definition ERC20TokenRemoteUpgradeableCallFailed :: event_fields where
  "ERC20TokenRemoteUpgradeableCallFailed = [(''RecipientContract'', GAddr 0), (''Amount'',
     GNil), (''Raw'', zero_Log)]"

definition ERC20TokenRemoteUpgradeableCallFailedIterator_Next ::
  "'w bound_contract \<Rightarrow> bool \<Rightarrow> iterator \<Rightarrow> (bool \<times> iterator) option" where
  "ERC20TokenRemoteUpgradeableCallFailedIterator_Next c pick it = iterator_Next (parse_log c
     ''CallFailed'' ERC20TokenRemoteUpgradeableCallFailed) ERC20TokenRemoteUpgradeableCallFailed
     pick it"

definition ERC20TokenRemoteUpgradeableCallFailedIterator_Error :: "iterator \<Rightarrow> goerr option"
   where
  "ERC20TokenRemoteUpgradeableCallFailedIterator_Error it = iterator_Error it"

definition ERC20TokenRemoteUpgradeableCallFailedIterator_Close :: "iterator \<Rightarrow> goerr option \<times>
   iterator" where
  "ERC20TokenRemoteUpgradeableCallFailedIterator_Close it = iterator_Close it"

definition ERC20TokenRemoteUpgradeableFilterer_FilterCallFailed ::
  "'w bound_contract \<Rightarrow> FilterOpts \<Rightarrow> address list \<Rightarrow> ('w, goerr + iterator) prog" where
  "ERC20TokenRemoteUpgradeableFilterer_FilterCallFailed c opts recipientContract =
     filter_events c opts ''CallFailed'' [map GAddr recipientContract]"

definition ERC20TokenRemoteUpgradeableFilterer_WatchCallFailed ::
  "'w bound_contract \<Rightarrow> address list \<Rightarrow> ('w, goerr + (evm_log \<Rightarrow> goerr + event_fields)) prog" where
  "ERC20TokenRemoteUpgradeableFilterer_WatchCallFailed c recipientContract =
     watch_events c ''CallFailed'' ERC20TokenRemoteUpgradeableCallFailed [map GAddr
        recipientContract]"

definition ERC20TokenRemoteUpgradeableFilterer_ParseCallFailed ::
  "'w bound_contract \<Rightarrow> evm_log \<Rightarrow> goerr + event_fields" where
  "ERC20TokenRemoteUpgradeableFilterer_ParseCallFailed c = parse_log c ''CallFailed''
     ERC20TokenRemoteUpgradeableCallFailed"

definition ERC20TokenRemoteUpgradeableCallSucceeded :: event_fields where
  "ERC20TokenRemoteUpgradeableCallSucceeded = [(''RecipientContract'', GAddr 0), (''Amount'',
     GNil), (''Raw'', zero_Log)]"

definition ERC20TokenRemoteUpgradeableCallSucceededIterator_Next ::
  "'w bound_contract \<Rightarrow> bool \<Rightarrow> iterator \<Rightarrow> (bool \<times> iterator) option" where
  "ERC20TokenRemoteUpgradeableCallSucceededIterator_Next c pick it = iterator_Next (parse_log c
     ''CallSucceeded'' ERC20TokenRemoteUpgradeableCallSucceeded)
     ERC20TokenRemoteUpgradeableCallSucceeded pick it"

definition ERC20TokenRemoteUpgradeableCallSucceededIterator_Error :: "iterator \<Rightarrow> goerr option"
   where
  "ERC20TokenRemoteUpgradeableCallSucceededIterator_Error it = iterator_Error it"

definition ERC20TokenRemoteUpgradeableCallSucceededIterator_Close :: "iterator \<Rightarrow> goerr option \<times>
   iterator" where
  "ERC20TokenRemoteUpgradeableCallSucceededIterator_Close it = iterator_Close it"

definition ERC20TokenRemoteUpgradeableFilterer_FilterCallSucceeded ::
  "'w bound_contract \<Rightarrow> FilterOpts \<Rightarrow> address list \<Rightarrow> ('w, goerr + iterator) prog" where
  "ERC20TokenRemoteUpgradeableFilterer_FilterCallSucceeded c opts recipientContract =
     filter_events c opts ''CallSucceeded'' [map GAddr recipientContract]"

definition ERC20TokenRemoteUpgradeableFilterer_WatchCallSucceeded ::
  "'w bound_contract \<Rightarrow> address list \<Rightarrow> ('w, goerr + (evm_log \<Rightarrow> goerr + event_fields)) prog" where
  "ERC20TokenRemoteUpgradeableFilterer_WatchCallSucceeded c recipientContract =
     watch_events c ''CallSucceeded'' ERC20TokenRemoteUpgradeableCallSucceeded [map GAddr
        recipientContract]"

definition ERC20TokenRemoteUpgradeableFilterer_ParseCallSucceeded ::
  "'w bound_contract \<Rightarrow> evm_log \<Rightarrow> goerr + event_fields" where
  "ERC20TokenRemoteUpgradeableFilterer_ParseCallSucceeded c = parse_log c ''CallSucceeded''
     ERC20TokenRemoteUpgradeableCallSucceeded"

definition ERC20TokenRemoteUpgradeableInitialized :: event_fields where
  "ERC20TokenRemoteUpgradeableInitialized = [(''Version'', GUint 64 0), (''Raw'', zero_Log)]"

definition ERC20TokenRemoteUpgradeableInitializedIterator_Next ::
  "'w bound_contract \<Rightarrow> bool \<Rightarrow> iterator \<Rightarrow> (bool \<times> iterator) option" where
  "ERC20TokenRemoteUpgradeableInitializedIterator_Next c pick it = iterator_Next (parse_log c
     ''Initialized'' ERC20TokenRemoteUpgradeableInitialized)
     ERC20TokenRemoteUpgradeableInitialized pick it"

definition ERC20TokenRemoteUpgradeableInitializedIterator_Error :: "iterator \<Rightarrow> goerr option"
   where
  "ERC20TokenRemoteUpgradeableInitializedIterator_Error it = iterator_Error it"

definition ERC20TokenRemoteUpgradeableInitializedIterator_Close :: "iterator \<Rightarrow> goerr option \<times>
   iterator" where
  "ERC20TokenRemoteUpgradeableInitializedIterator_Close it = iterator_Close it"

definition ERC20TokenRemoteUpgradeableFilterer_FilterInitialized ::
  "'w bound_contract \<Rightarrow> FilterOpts \<Rightarrow> ('w, goerr + iterator) prog" where
  "ERC20TokenRemoteUpgradeableFilterer_FilterInitialized c opts =
     filter_events c opts ''Initialized'' []"

definition ERC20TokenRemoteUpgradeableFilterer_WatchInitialized ::
  "'w bound_contract \<Rightarrow> ('w, goerr + (evm_log \<Rightarrow> goerr + event_fields)) prog" where
  "ERC20TokenRemoteUpgradeableFilterer_WatchInitialized c =
     watch_events c ''Initialized'' ERC20TokenRemoteUpgradeableInitialized []"

definition ERC20TokenRemoteUpgradeableFilterer_ParseInitialized ::
  "'w bound_contract \<Rightarrow> evm_log \<Rightarrow> goerr + event_fields" where
  "ERC20TokenRemoteUpgradeableFilterer_ParseInitialized c = parse_log c ''Initialized''
     ERC20TokenRemoteUpgradeableInitialized"

definition ERC20TokenRemoteUpgradeableMinTeleporterVersionUpdated :: event_fields where
  "ERC20TokenRemoteUpgradeableMinTeleporterVersionUpdated = [(''OldMinTeleporterVersion'',
     GNil), (''NewMinTeleporterVersion'', GNil), (''Raw'', zero_Log)]"

definition ERC20TokenRemoteUpgradeableMinTeleporterVersionUpdatedIterator_Next ::
  "'w bound_contract \<Rightarrow> bool \<Rightarrow> iterator \<Rightarrow> (bool \<times> iterator) option" where
  "ERC20TokenRemoteUpgradeableMinTeleporterVersionUpdatedIterator_Next c pick it = iterator_Next
     (parse_log c ''MinTeleporterVersionUpdated''
     ERC20TokenRemoteUpgradeableMinTeleporterVersionUpdated)
     ERC20TokenRemoteUpgradeableMinTeleporterVersionUpdated pick it"

definition ERC20TokenRemoteUpgradeableMinTeleporterVersionUpdatedIterator_Error :: "iterator \<Rightarrow>
   goerr option" where
  "ERC20TokenRemoteUpgradeableMinTeleporterVersionUpdatedIterator_Error it = iterator_Error it"

definition ERC20TokenRemoteUpgradeableMinTeleporterVersionUpdatedIterator_Close :: "iterator \<Rightarrow>
   goerr option \<times> iterator" where
  "ERC20TokenRemoteUpgradeableMinTeleporterVersionUpdatedIterator_Close it = iterator_Close it"

definition ERC20TokenRemoteUpgradeableFilterer_FilterMinTeleporterVersionUpdated ::
  "'w bound_contract \<Rightarrow> FilterOpts \<Rightarrow> int list \<Rightarrow> int list \<Rightarrow> ('w, goerr + iterator) prog" where
  "ERC20TokenRemoteUpgradeableFilterer_FilterMinTeleporterVersionUpdated c opts
     oldMinTeleporterVersion newMinTeleporterVersion =
     filter_events c opts ''MinTeleporterVersionUpdated'' [map GBig oldMinTeleporterVersion, map
        GBig newMinTeleporterVersion]"

definition ERC20TokenRemoteUpgradeableFilterer_WatchMinTeleporterVersionUpdated ::
  "'w bound_contract \<Rightarrow> int list \<Rightarrow> int list \<Rightarrow> ('w, goerr + (evm_log \<Rightarrow> goerr + event_fields))
     prog" where
  "ERC20TokenRemoteUpgradeableFilterer_WatchMinTeleporterVersionUpdated c
     oldMinTeleporterVersion newMinTeleporterVersion =
     watch_events c ''MinTeleporterVersionUpdated''
        ERC20TokenRemoteUpgradeableMinTeleporterVersionUpdated [map GBig
        oldMinTeleporterVersion, map GBig newMinTeleporterVersion]"

definition ERC20TokenRemoteUpgradeableFilterer_ParseMinTeleporterVersionUpdated ::
  "'w bound_contract \<Rightarrow> evm_log \<Rightarrow> goerr + event_fields" where
  "ERC20TokenRemoteUpgradeableFilterer_ParseMinTeleporterVersionUpdated c = parse_log c
     ''MinTeleporterVersionUpdated'' ERC20TokenRemoteUpgradeableMinTeleporterVersionUpdated"

definition ERC20TokenRemoteUpgradeableOwnershipTransferred :: event_fields where
  "ERC20TokenRemoteUpgradeableOwnershipTransferred = [(''PreviousOwner'', GAddr 0),
     (''NewOwner'', GAddr 0), (''Raw'', zero_Log)]"

definition ERC20TokenRemoteUpgradeableOwnershipTransferredIterator_Next ::
  "'w bound_contract \<Rightarrow> bool \<Rightarrow> iterator \<Rightarrow> (bool \<times> iterator) option" where
  "ERC20TokenRemoteUpgradeableOwnershipTransferredIterator_Next c pick it = iterator_Next
     (parse_log c ''OwnershipTransferred'' ERC20TokenRemoteUpgradeableOwnershipTransferred)
     ERC20TokenRemoteUpgradeableOwnershipTransferred pick it"

definition ERC20TokenRemoteUpgradeableOwnershipTransferredIterator_Error :: "iterator \<Rightarrow> goerr
   option" where
  "ERC20TokenRemoteUpgradeableOwnershipTransferredIterator_Error it = iterator_Error it"

definition ERC20TokenRemoteUpgradeableOwnershipTransferredIterator_Close :: "iterator \<Rightarrow> goerr
   option \<times> iterator" where
  "ERC20TokenRemoteUpgradeableOwnershipTransferredIterator_Close it = iterator_Close it"

definition ERC20TokenRemoteUpgradeableFilterer_FilterOwnershipTransferred ::
  "'w bound_contract \<Rightarrow> FilterOpts \<Rightarrow> address list \<Rightarrow> address list \<Rightarrow> ('w, goerr + iterator) prog"
     where
  "ERC20TokenRemoteUpgradeableFilterer_FilterOwnershipTransferred c opts previousOwner newOwner
     =
     filter_events c opts ''OwnershipTransferred'' [map GAddr previousOwner, map GAddr
        newOwner]"

definition ERC20TokenRemoteUpgradeableFilterer_WatchOwnershipTransferred ::
  "'w bound_contract \<Rightarrow> address list \<Rightarrow> address list \<Rightarrow> ('w, goerr + (evm_log \<Rightarrow> goerr +
     event_fields)) prog" where
  "ERC20TokenRemoteUpgradeableFilterer_WatchOwnershipTransferred c previousOwner newOwner =
     watch_events c ''OwnershipTransferred'' ERC20TokenRemoteUpgradeableOwnershipTransferred
        [map GAddr previousOwner, map GAddr newOwner]"

definition ERC20TokenRemoteUpgradeableFilterer_ParseOwnershipTransferred ::
  "'w bound_contract \<Rightarrow> evm_log \<Rightarrow> goerr + event_fields" where
  "ERC20TokenRemoteUpgradeableFilterer_ParseOwnershipTransferred c = parse_log c
     ''OwnershipTransferred'' ERC20TokenRemoteUpgradeableOwnershipTransferred"

definition ERC20TokenRemoteUpgradeableTeleporterAddressPaused :: event_fields where
  "ERC20TokenRemoteUpgradeableTeleporterAddressPaused = [(''TeleporterAddress'', GAddr 0),
     (''Raw'', zero_Log)]"

definition ERC20TokenRemoteUpgradeableTeleporterAddressPausedIterator_Next ::
  "'w bound_contract \<Rightarrow> bool \<Rightarrow> iterator \<Rightarrow> (bool \<times> iterator) option" where
  "ERC20TokenRemoteUpgradeableTeleporterAddressPausedIterator_Next c pick it = iterator_Next
     (parse_log c ''TeleporterAddressPaused''
     ERC20TokenRemoteUpgradeableTeleporterAddressPaused)
     ERC20TokenRemoteUpgradeableTeleporterAddressPaused pick it"

definition ERC20TokenRemoteUpgradeableTeleporterAddressPausedIterator_Error :: "iterator \<Rightarrow> goerr
   option" where
  "ERC20TokenRemoteUpgradeableTeleporterAddressPausedIterator_Error it = iterator_Error it"

definition ERC20TokenRemoteUpgradeableTeleporterAddressPausedIterator_Close :: "iterator \<Rightarrow> goerr
   option \<times> iterator" where
  "ERC20TokenRemoteUpgradeableTeleporterAddressPausedIterator_Close it = iterator_Close it"

definition ERC20TokenRemoteUpgradeableFilterer_FilterTeleporterAddressPaused ::
  "'w bound_contract \<Rightarrow> FilterOpts \<Rightarrow> address list \<Rightarrow> ('w, goerr + iterator) prog" where
  "ERC20TokenRemoteUpgradeableFilterer_FilterTeleporterAddressPaused c opts teleporterAddress =
     filter_events c opts ''TeleporterAddressPaused'' [map GAddr teleporterAddress]"

definition ERC20TokenRemoteUpgradeableFilterer_WatchTeleporterAddressPaused ::
  "'w bound_contract \<Rightarrow> address list \<Rightarrow> ('w, goerr + (evm_log \<Rightarrow> goerr + event_fields)) prog" where
  "ERC20TokenRemoteUpgradeableFilterer_WatchTeleporterAddressPaused c teleporterAddress =
     watch_events c ''TeleporterAddressPaused''
        ERC20TokenRemoteUpgradeableTeleporterAddressPaused [map GAddr teleporterAddress]"

definition ERC20TokenRemoteUpgradeableFilterer_ParseTeleporterAddressPaused ::
  "'w bound_contract \<Rightarrow> evm_log \<Rightarrow> goerr + event_fields" where
  "ERC20TokenRemoteUpgradeableFilterer_ParseTeleporterAddressPaused c = parse_log c
     ''TeleporterAddressPaused'' ERC20TokenRemoteUpgradeableTeleporterAddressPaused"

definition ERC20TokenRemoteUpgradeableTeleporterAddressUnpaused :: event_fields where
  "ERC20TokenRemoteUpgradeableTeleporterAddressUnpaused = [(''TeleporterAddress'', GAddr 0),
     (''Raw'', zero_Log)]"

definition ERC20TokenRemoteUpgradeableTeleporterAddressUnpausedIterator_Next ::
  "'w bound_contract \<Rightarrow> bool \<Rightarrow> iterator \<Rightarrow> (bool \<times> iterator) option" where
  "ERC20TokenRemoteUpgradeableTeleporterAddressUnpausedIterator_Next c pick it = iterator_Next
     (parse_log c ''TeleporterAddressUnpaused''
     ERC20TokenRemoteUpgradeableTeleporterAddressUnpaused)
     ERC20TokenRemoteUpgradeableTeleporterAddressUnpaused pick it"

definition ERC20TokenRemoteUpgradeableTeleporterAddressUnpausedIterator_Error :: "iterator \<Rightarrow>
   goerr option" where
  "ERC20TokenRemoteUpgradeableTeleporterAddressUnpausedIterator_Error it = iterator_Error it"

definition ERC20TokenRemoteUpgradeableTeleporterAddressUnpausedIterator_Close :: "iterator \<Rightarrow>
   goerr option \<times> iterator" where
  "ERC20TokenRemoteUpgradeableTeleporterAddressUnpausedIterator_Close it = iterator_Close it"

definition ERC20TokenRemoteUpgradeableFilterer_FilterTeleporterAddressUnpaused ::
  "'w bound_contract \<Rightarrow> FilterOpts \<Rightarrow> address list \<Rightarrow> ('w, goerr + iterator) prog" where
  "ERC20TokenRemoteUpgradeableFilterer_FilterTeleporterAddressUnpaused c opts teleporterAddress
     =
     filter_events c opts ''TeleporterAddressUnpaused'' [map GAddr teleporterAddress]"

definition ERC20TokenRemoteUpgradeableFilterer_WatchTeleporterAddressUnpaused ::
  "'w bound_contract \<Rightarrow> address list \<Rightarrow> ('w, goerr + (evm_log \<Rightarrow> goerr + event_fields)) prog" where
  "ERC20TokenRemoteUpgradeableFilterer_WatchTeleporterAddressUnpaused c teleporterAddress =
     watch_events c ''TeleporterAddressUnpaused''
        ERC20TokenRemoteUpgradeableTeleporterAddressUnpaused [map GAddr teleporterAddress]"

definition ERC20TokenRemoteUpgradeableFilterer_ParseTeleporterAddressUnpaused ::
  "'w bound_contract \<Rightarrow> evm_log \<Rightarrow> goerr + event_fields" where
  "ERC20TokenRemoteUpgradeableFilterer_ParseTeleporterAddressUnpaused c = parse_log c
     ''TeleporterAddressUnpaused'' ERC20TokenRemoteUpgradeableTeleporterAddressUnpaused"

definition ERC20TokenRemoteUpgradeableTokensAndCallSent :: event_fields where
  "ERC20TokenRemoteUpgradeableTokensAndCallSent = [(''TeleporterMessageID'', GArr32 0),
     (''Sender'', GAddr 0), (''Input'', zero_SendAndCallInput), (''Amount'', GNil), (''Raw'',
     zero_Log)]"

definition ERC20TokenRemoteUpgradeableTokensAndCallSentIterator_Next ::
  "'w bound_contract \<Rightarrow> bool \<Rightarrow> iterator \<Rightarrow> (bool \<times> iterator) option" where
  "ERC20TokenRemoteUpgradeableTokensAndCallSentIterator_Next c pick it = iterator_Next
     (parse_log c ''TokensAndCallSent'' ERC20TokenRemoteUpgradeableTokensAndCallSent)
     ERC20TokenRemoteUpgradeableTokensAndCallSent pick it"

definition ERC20TokenRemoteUpgradeableTokensAndCallSentIterator_Error :: "iterator \<Rightarrow> goerr
   option" where
  "ERC20TokenRemoteUpgradeableTokensAndCallSentIterator_Error it = iterator_Error it"

definition ERC20TokenRemoteUpgradeableTokensAndCallSentIterator_Close :: "iterator \<Rightarrow> goerr
   option \<times> iterator" where
  "ERC20TokenRemoteUpgradeableTokensAndCallSentIterator_Close it = iterator_Close it"

definition ERC20TokenRemoteUpgradeableFilterer_FilterTokensAndCallSent ::
  "'w bound_contract \<Rightarrow> FilterOpts \<Rightarrow> hash list \<Rightarrow> address list \<Rightarrow> ('w, goerr + iterator) prog"
     where
  "ERC20TokenRemoteUpgradeableFilterer_FilterTokensAndCallSent c opts teleporterMessageID sender
     =
     filter_events c opts ''TokensAndCallSent'' [map GArr32 teleporterMessageID, map GAddr
        sender]"

definition ERC20TokenRemoteUpgradeableFilterer_WatchTokensAndCallSent ::
  "'w bound_contract \<Rightarrow> hash list \<Rightarrow> address list \<Rightarrow> ('w, goerr + (evm_log \<Rightarrow> goerr + event_fields))
     prog" where
  "ERC20TokenRemoteUpgradeableFilterer_WatchTokensAndCallSent c teleporterMessageID sender =
     watch_events c ''TokensAndCallSent'' ERC20TokenRemoteUpgradeableTokensAndCallSent [map
        GArr32 teleporterMessageID, map GAddr sender]"

definition ERC20TokenRemoteUpgradeableFilterer_ParseTokensAndCallSent ::
  "'w bound_contract \<Rightarrow> evm_log \<Rightarrow> goerr + event_fields" where
  "ERC20TokenRemoteUpgradeableFilterer_ParseTokensAndCallSent c = parse_log c
     ''TokensAndCallSent'' ERC20TokenRemoteUpgradeableTokensAndCallSent"

definition ERC20TokenRemoteUpgradeableTokensSent :: event_fields where
  "ERC20TokenRemoteUpgradeableTokensSent = [(''TeleporterMessageID'', GArr32 0), (''Sender'',
     GAddr 0), (''Input'', zero_SendTokensInput), (''Amount'', GNil), (''Raw'', zero_Log)]"

definition ERC20TokenRemoteUpgradeableTokensSentIterator_Next ::
  "'w bound_contract \<Rightarrow> bool \<Rightarrow> iterator \<Rightarrow> (bool \<times> iterator) option" where
  "ERC20TokenRemoteUpgradeableTokensSentIterator_Next c pick it = iterator_Next (parse_log c
     ''TokensSent'' ERC20TokenRemoteUpgradeableTokensSent) ERC20TokenRemoteUpgradeableTokensSent
     pick it"

definition ERC20TokenRemoteUpgradeableTokensSentIterator_Error :: "iterator \<Rightarrow> goerr option"
   where
  "ERC20TokenRemoteUpgradeableTokensSentIterator_Error it = iterator_Error it"

definition ERC20TokenRemoteUpgradeableTokensSentIterator_Close :: "iterator \<Rightarrow> goerr option \<times>
   iterator" where
  "ERC20TokenRemoteUpgradeableTokensSentIterator_Close it = iterator_Close it"

definition ERC20TokenRemoteUpgradeableFilterer_FilterTokensSent ::
  "'w bound_contract \<Rightarrow> FilterOpts \<Rightarrow> hash list \<Rightarrow> address list \<Rightarrow> ('w, goerr + iterator) prog"
     where
  "ERC20TokenRemoteUpgradeableFilterer_FilterTokensSent c opts teleporterMessageID sender =
     filter_events c opts ''TokensSent'' [map GArr32 teleporterMessageID, map GAddr sender]"

definition ERC20TokenRemoteUpgradeableFilterer_WatchTokensSent ::
  "'w bound_contract \<Rightarrow> hash list \<Rightarrow> address list \<Rightarrow> ('w, goerr + (evm_log \<Rightarrow> goerr + event_fields))
     prog" where
  "ERC20TokenRemoteUpgradeableFilterer_WatchTokensSent c teleporterMessageID sender =
     watch_events c ''TokensSent'' ERC20TokenRemoteUpgradeableTokensSent [map GArr32
        teleporterMessageID, map GAddr sender]"

definition ERC20TokenRemoteUpgradeableFilterer_ParseTokensSent ::
  "'w bound_contract \<Rightarrow> evm_log \<Rightarrow> goerr + event_fields" where
  "ERC20TokenRemoteUpgradeableFilterer_ParseTokensSent c = parse_log c ''TokensSent''
     ERC20TokenRemoteUpgradeableTokensSent"

definition ERC20TokenRemoteUpgradeableTokensWithdrawn :: event_fields where
  "ERC20TokenRemoteUpgradeableTokensWithdrawn = [(''Recipient'', GAddr 0), (''Amount'', GNil),
     (''Raw'', zero_Log)]"

definition ERC20TokenRemoteUpgradeableTokensWithdrawnIterator_Next ::
  "'w bound_contract \<Rightarrow> bool \<Rightarrow> iterator \<Rightarrow> (bool \<times> iterator) option" where
  "ERC20TokenRemoteUpgradeableTokensWithdrawnIterator_Next c pick it = iterator_Next (parse_log
     c ''TokensWithdrawn'' ERC20TokenRemoteUpgradeableTokensWithdrawn)
     ERC20TokenRemoteUpgradeableTokensWithdrawn pick it"

definition ERC20TokenRemoteUpgradeableTokensWithdrawnIterator_Error :: "iterator \<Rightarrow> goerr option"
   where
  "ERC20TokenRemoteUpgradeableTokensWithdrawnIterator_Error it = iterator_Error it"

definition ERC20TokenRemoteUpgradeableTokensWithdrawnIterator_Close :: "iterator \<Rightarrow> goerr option
   \<times> iterator" where
  "ERC20TokenRemoteUpgradeableTokensWithdrawnIterator_Close it = iterator_Close it"

definition ERC20TokenRemoteUpgradeableFilterer_FilterTokensWithdrawn ::
  "'w bound_contract \<Rightarrow> FilterOpts \<Rightarrow> address list \<Rightarrow> ('w, goerr + iterator) prog" where
  "ERC20TokenRemoteUpgradeableFilterer_FilterTokensWithdrawn c opts recipient =
     filter_events c opts ''TokensWithdrawn'' [map GAddr recipient]"

definition ERC20TokenRemoteUpgradeableFilterer_WatchTokensWithdrawn ::
  "'w bound_contract \<Rightarrow> address list \<Rightarrow> ('w, goerr + (evm_log \<Rightarrow> goerr + event_fields)) prog" where
  "ERC20TokenRemoteUpgradeableFilterer_WatchTokensWithdrawn c recipient =
     watch_events c ''TokensWithdrawn'' ERC20TokenRemoteUpgradeableTokensWithdrawn [map GAddr
        recipient]"

definition ERC20TokenRemoteUpgradeableFilterer_ParseTokensWithdrawn ::
  "'w bound_contract \<Rightarrow> evm_log \<Rightarrow> goerr + event_fields" where
  "ERC20TokenRemoteUpgradeableFilterer_ParseTokensWithdrawn c = parse_log c ''TokensWithdrawn''
     ERC20TokenRemoteUpgradeableTokensWithdrawn"

definition ERC20TokenRemoteUpgradeableTransfer :: event_fields where
  "ERC20TokenRemoteUpgradeableTransfer = [(''From'', GAddr 0), (''To'', GAddr 0), (''Value'',
     GNil), (''Raw'', zero_Log)]"

definition ERC20TokenRemoteUpgradeableTransferIterator_Next ::
  "'w bound_contract \<Rightarrow> bool \<Rightarrow> iterator \<Rightarrow> (bool \<times> iterator) option" where
  "ERC20TokenRemoteUpgradeableTransferIterator_Next c pick it = iterator_Next (parse_log c
     ''Transfer'' ERC20TokenRemoteUpgradeableTransfer) ERC20TokenRemoteUpgradeableTransfer pick
     it"

definition ERC20TokenRemoteUpgradeableTransferIterator_Error :: "iterator \<Rightarrow> goerr option" where
  "ERC20TokenRemoteUpgradeableTransferIterator_Error it = iterator_Error it"

definition ERC20TokenRemoteUpgradeableTransferIterator_Close :: "iterator \<Rightarrow> goerr option \<times>
   iterator" where
  "ERC20TokenRemoteUpgradeableTransferIterator_Close it = iterator_Close it"

definition ERC20TokenRemoteUpgradeableFilterer_FilterTransfer ::
  "'w bound_contract \<Rightarrow> FilterOpts \<Rightarrow> address list \<Rightarrow> address list \<Rightarrow> ('w, goerr + iterator) prog"
     where
  "ERC20TokenRemoteUpgradeableFilterer_FilterTransfer c opts from_addr to_addr =
     filter_events c opts ''Transfer'' [map GAddr from_addr, map GAddr to_addr]"

definition ERC20TokenRemoteUpgradeableFilterer_WatchTransfer ::
  "'w bound_contract \<Rightarrow> address list \<Rightarrow> address list \<Rightarrow> ('w, goerr + (evm_log \<Rightarrow> goerr +
     event_fields)) prog" where
  "ERC20TokenRemoteUpgradeableFilterer_WatchTransfer c from_addr to_addr =
     watch_events c ''Transfer'' ERC20TokenRemoteUpgradeableTransfer [map GAddr from_addr, map
        GAddr to_addr]"

definition ERC20TokenRemoteUpgradeableFilterer_ParseTransfer ::
  "'w bound_contract \<Rightarrow> evm_log \<Rightarrow> goerr + event_fields" where
  "ERC20TokenRemoteUpgradeableFilterer_ParseTransfer c = parse_log c ''Transfer''
     ERC20TokenRemoteUpgradeableTransfer"

section \<open>Correctness\<close>

lemma ERC20TokenRemoteUpgradeable_methods:
  "map_of (Methods ERC20TokenRemoteUpgradeableABI) ''ERC20_TOKEN_REMOTE_STORAGE_LOCATION'' =
     Some ([], [([], TBytes32)])"
  "map_of (Methods ERC20TokenRemoteUpgradeableABI) ''MULTI_HOP_CALL_GAS_PER_WORD'' =
     Some ([], [([], TUint 256)])"
  "map_of (Methods ERC20TokenRemoteUpgradeableABI) ''MULTI_HOP_CALL_REQUIRED_GAS'' =
     Some ([], [([], TUint 256)])"
  "map_of (Methods ERC20TokenRemoteUpgradeableABI) ''MULTI_HOP_SEND_REQUIRED_GAS'' =
     Some ([], [([], TUint 256)])"
  "map_of (Methods ERC20TokenRemoteUpgradeableABI) ''REGISTER_REMOTE_REQUIRED_GAS'' =
     Some ([], [([], TUint 256)])"
  "map_of (Methods ERC20TokenRemoteUpgradeableABI) ''TELEPORTER_REGISTRY_APP_STORAGE_LOCATION''
     =
     Some ([], [([], TBytes32)])"
  "map_of (Methods ERC20TokenRemoteUpgradeableABI) ''TOKEN_REMOTE_STORAGE_LOCATION'' =
     Some ([], [([], TBytes32)])"
  "map_of (Methods ERC20TokenRemoteUpgradeableABI) ''allowance'' =
     Some ([(''owner'', TAddress), (''spender'', TAddress)], [([], TUint 256)])"
  "map_of (Methods ERC20TokenRemoteUpgradeableABI) ''approve'' =
     Some ([(''spender'', TAddress), (''value'', TUint 256)], [([], TBool)])"
  "map_of (Methods ERC20TokenRemoteUpgradeableABI) ''balanceOf'' =
     Some ([(''account'', TAddress)], [([], TUint 256)])"
  "map_of (Methods ERC20TokenRemoteUpgradeableABI) ''calculateNumWords'' =
     Some ([(''payloadSize'', TUint 256)], [([], TUint 256)])"
  "map_of (Methods ERC20TokenRemoteUpgradeableABI) ''decimals'' =
     Some ([], [([], TUint 8)])"
  "map_of (Methods ERC20TokenRemoteUpgradeableABI) ''getBlockchainID'' =
     Some ([], [([], TBytes32)])"
  "map_of (Methods ERC20TokenRemoteUpgradeableABI) ''getInitialReserveImbalance'' =
     Some ([], [([], TUint 256)])"
  "map_of (Methods ERC20TokenRemoteUpgradeableABI) ''getIsCollateralized'' =
     Some ([], [([], TBool)])"
  "map_of (Methods ERC20TokenRemoteUpgradeableABI) ''getMinTeleporterVersion'' =
     Some ([], [([], TUint 256)])"
  "map_of (Methods ERC20TokenRemoteUpgradeableABI) ''getMultiplyOnRemote'' =
     Some ([], [([], TBool)])"
  "map_of (Methods ERC20TokenRemoteUpgradeableABI) ''getTokenHomeAddress'' =
     Some ([], [([], TAddress)])"
  "map_of (Methods ERC20TokenRemoteUpgradeableABI) ''getTokenHomeBlockchainID'' =
     Some ([], [([], TBytes32)])"
  "map_of (Methods ERC20TokenRemoteUpgradeableABI) ''getTokenMultiplier'' =
     Some ([], [([], TUint 256)])"
  "map_of (Methods ERC20TokenRemoteUpgradeableABI) ''initialize'' =
     Some ([(''settings'', TokenRemoteSettings_tuple), (''tokenName'', TString),
        (''tokenSymbol'', TString), (''tokenDecimals'', TUint 8)], [])"
  "map_of (Methods ERC20TokenRemoteUpgradeableABI) ''isTeleporterAddressPaused'' =
     Some ([(''teleporterAddress'', TAddress)], [([], TBool)])"
  "map_of (Methods ERC20TokenRemoteUpgradeableABI) ''name'' =
     Some ([], [([], TString)])"
  "map_of (Methods ERC20TokenRemoteUpgradeableABI) ''owner'' =
     Some ([], [([], TAddress)])"
  "map_of (Methods ERC20TokenRemoteUpgradeableABI) ''pauseTeleporterAddress'' =
     Some ([(''teleporterAddress'', TAddress)], [])"
  "map_of (Methods ERC20TokenRemoteUpgradeableABI) ''receiveTeleporterMessage'' =
     Some ([(''sourceBlockchainID'', TBytes32), (''originSenderAddress'', TAddress),
        (''message'', TBytes)], [])"
  "map_of (Methods ERC20TokenRemoteUpgradeableABI) ''registerWithHome'' =
     Some ([(''feeInfo'', fee_info_tuple)], [])"
  "map_of (Methods ERC20TokenRemoteUpgradeableABI) ''renounceOwnership'' =
     Some ([], [])"
  "map_of (Methods ERC20TokenRemoteUpgradeableABI) ''send'' =
     Some ([(''input'', SendTokensInput_tuple), (''amount'', TUint 256)], [])"
  "map_of (Methods ERC20TokenRemoteUpgradeableABI) ''sendAndCall'' =
     Some ([(''input'', SendAndCallInput_tuple), (''amount'', TUint 256)], [])"
  "map_of (Methods ERC20TokenRemoteUpgradeableABI) ''symbol'' =
     Some ([], [([], TString)])"
  "map_of (Methods ERC20TokenRemoteUpgradeableABI) ''totalSupply'' =
     Some ([], [([], TUint 256)])"
  "map_of (Methods ERC20TokenRemoteUpgradeableABI) ''transfer'' =
     Some ([(''to'', TAddress), (''value'', TUint 256)], [([], TBool)])"
  "map_of (Methods ERC20TokenRemoteUpgradeableABI) ''transferFrom'' =
     Some ([(''from'', TAddress), (''to'', TAddress), (''value'', TUint 256)], [([], TBool)])"
  "map_of (Methods ERC20TokenRemoteUpgradeableABI) ''transferOwnership'' =
     Some ([(''newOwner'', TAddress)], [])"
  "map_of (Methods ERC20TokenRemoteUpgradeableABI) ''unpauseTeleporterAddress'' =
     Some ([(''teleporterAddress'', TAddress)], [])"
  "map_of (Methods ERC20TokenRemoteUpgradeableABI) ''updateMinTeleporterVersion'' =
     Some ([(''version'', TUint 256)], [])"
  unfolding ERC20TokenRemoteUpgradeableABI_def contract_abi.select_convs
  by (simp_all only: table_lookup)

lemma ERC20TokenRemoteUpgradeable_decodable:
  "decodable [(''owner'', TAddress, True), (''spender'', TAddress, True), (''value'', TUint 256,
     False)]
     ERC20TokenRemoteUpgradeableApproval"
  "decodable [(''recipientContract'', TAddress, True), (''amount'', TUint 256, False)]
     ERC20TokenRemoteUpgradeableCallFailed"
  "decodable [(''recipientContract'', TAddress, True), (''amount'', TUint 256, False)]
     ERC20TokenRemoteUpgradeableCallSucceeded"
  "decodable [(''version'', TUint 64, False)]
     ERC20TokenRemoteUpgradeableInitialized"
  "decodable [(''oldMinTeleporterVersion'', TUint 256, True), (''newMinTeleporterVersion'',
     TUint 256, True)]
     ERC20TokenRemoteUpgradeableMinTeleporterVersionUpdated"
  "decodable [(''previousOwner'', TAddress, True), (''newOwner'', TAddress, True)]
     ERC20TokenRemoteUpgradeableOwnershipTransferred"
  "decodable [(''teleporterAddress'', TAddress, True)]
     ERC20TokenRemoteUpgradeableTeleporterAddressPaused"
  "decodable [(''teleporterAddress'', TAddress, True)]
     ERC20TokenRemoteUpgradeableTeleporterAddressUnpaused"
  "decodable [(''teleporterMessageID'', TBytes32, True), (''sender'', TAddress, True),
     (''input'', SendAndCallInput_tuple, False), (''amount'', TUint 256, False)]
     ERC20TokenRemoteUpgradeableTokensAndCallSent"
  "decodable [(''teleporterMessageID'', TBytes32, True), (''sender'', TAddress, True),
     (''input'', SendTokensInput_tuple, False), (''amount'', TUint 256, False)]
     ERC20TokenRemoteUpgradeableTokensSent"
  "decodable [(''recipient'', TAddress, True), (''amount'', TUint 256, False)]
     ERC20TokenRemoteUpgradeableTokensWithdrawn"
  "decodable [(''from'', TAddress, True), (''to'', TAddress, True), (''value'', TUint 256,
     False)]
     ERC20TokenRemoteUpgradeableTransfer"
  by (simp_all add: decodable_def has_fields_def fits_def
     ERC20TokenRemoteUpgradeableApproval_def ERC20TokenRemoteUpgradeableCallFailed_def
     ERC20TokenRemoteUpgradeableCallSucceeded_def ERC20TokenRemoteUpgradeableInitialized_def
     ERC20TokenRemoteUpgradeableMinTeleporterVersionUpdated_def
     ERC20TokenRemoteUpgradeableOwnershipTransferred_def
     ERC20TokenRemoteUpgradeableTeleporterAddressPaused_def
     ERC20TokenRemoteUpgradeableTeleporterAddressUnpaused_def
     ERC20TokenRemoteUpgradeableTokensAndCallSent_def ERC20TokenRemoteUpgradeableTokensSent_def
     ERC20TokenRemoteUpgradeableTokensWithdrawn_def ERC20TokenRemoteUpgradeableTransfer_def
     SendAndCallInput_tuple_def SendTokensInput_tuple_def)

lemma ERC20TokenRemoteUpgradeable_events:
  "map_of (Events ERC20TokenRemoteUpgradeableABI) ''Approval'' =
     Some [(''owner'', TAddress, True), (''spender'', TAddress, True), (''value'', TUint 256,
        False)]"
  "map_of (Events ERC20TokenRemoteUpgradeableABI) ''CallFailed'' =
     Some [(''recipientContract'', TAddress, True), (''amount'', TUint 256, False)]"
  "map_of (Events ERC20TokenRemoteUpgradeableABI) ''CallSucceeded'' =
     Some [(''recipientContract'', TAddress, True), (''amount'', TUint 256, False)]"
  "map_of (Events ERC20TokenRemoteUpgradeableABI) ''Initialized'' =
     Some [(''version'', TUint 64, False)]"
  "map_of (Events ERC20TokenRemoteUpgradeableABI) ''MinTeleporterVersionUpdated'' =
     Some [(''oldMinTeleporterVersion'', TUint 256, True), (''newMinTeleporterVersion'', TUint
        256, True)]"
  "map_of (Events ERC20TokenRemoteUpgradeableABI) ''OwnershipTransferred'' =
     Some [(''previousOwner'', TAddress, True), (''newOwner'', TAddress, True)]"
  "map_of (Events ERC20TokenRemoteUpgradeableABI) ''TeleporterAddressPaused'' =
     Some [(''teleporterAddress'', TAddress, True)]"
  "map_of (Events ERC20TokenRemoteUpgradeableABI) ''TeleporterAddressUnpaused'' =
     Some [(''teleporterAddress'', TAddress, True)]"
  "map_of (Events ERC20TokenRemoteUpgradeableABI) ''TokensAndCallSent'' =
     Some [(''teleporterMessageID'', TBytes32, True), (''sender'', TAddress, True), (''input'',
        SendAndCallInput_tuple, False), (''amount'', TUint 256, False)]"
  "map_of (Events ERC20TokenRemoteUpgradeableABI) ''TokensSent'' =
     Some [(''teleporterMessageID'', TBytes32, True), (''sender'', TAddress, True), (''input'',
        SendTokensInput_tuple, False), (''amount'', TUint 256, False)]"
  "map_of (Events ERC20TokenRemoteUpgradeableABI) ''TokensWithdrawn'' =
     Some [(''recipient'', TAddress, True), (''amount'', TUint 256, False)]"
  "map_of (Events ERC20TokenRemoteUpgradeableABI) ''Transfer'' =
     Some [(''from'', TAddress, True), (''to'', TAddress, True), (''value'', TUint 256, False)]"
  unfolding ERC20TokenRemoteUpgradeableABI_def contract_abi.select_convs
  by (simp_all only: table_lookup)

lemma ERC20TokenRemoteUpgradeable_transactions_decode:
  assumes "codec_methods k" and "codec_roundtrip k" and "bound_spec k
     ERC20TokenRemoteUpgradeableABI be c"
  shows "(\<forall>spender amount_value. in_uint256 amount_value \<longrightarrow> sends_call k
     ERC20TokenRemoteUpgradeableABI be opts ''approve'' [GAddr spender, GBig amount_value]
       (ERC20TokenRemoteUpgradeableTransactor_Approve c opts spender amount_value)) \<and>
     (\<forall>settings tokenName tokenSymbol tokenDecimals. TokenRemoteSettings_ok settings \<longrightarrow>
        sends_call k ERC20TokenRemoteUpgradeableABI be opts ''initialize''
        [TokenRemoteSettings_val settings, GStr tokenName, GStr tokenSymbol, GUint 8 (unat
        tokenDecimals)]
       (ERC20TokenRemoteUpgradeableTransactor_Initialize c opts settings tokenName tokenSymbol
          tokenDecimals)) \<and>
     (\<forall>teleporterAddress. sends_call k ERC20TokenRemoteUpgradeableABI be opts
        ''pauseTeleporterAddress'' [GAddr teleporterAddress]
       (ERC20TokenRemoteUpgradeableTransactor_PauseTeleporterAddress c opts teleporterAddress))
          \<and>
     (\<forall>sourceBlockchainID originSenderAddress message. sends_call k
        ERC20TokenRemoteUpgradeableABI be opts ''receiveTeleporterMessage'' [GArr32
        sourceBlockchainID, GAddr originSenderAddress, GBytes message]
       (ERC20TokenRemoteUpgradeableTransactor_ReceiveTeleporterMessage c opts sourceBlockchainID
          originSenderAddress message)) \<and>
     (\<forall>feeInfo. fee_info_ok feeInfo \<longrightarrow> sends_call k ERC20TokenRemoteUpgradeableABI be opts
        ''registerWithHome'' [fee_info_val feeInfo]
       (ERC20TokenRemoteUpgradeableTransactor_RegisterWithHome c opts feeInfo)) \<and>
     sends_call k ERC20TokenRemoteUpgradeableABI be opts ''renounceOwnership'' []
       (ERC20TokenRemoteUpgradeableTransactor_RenounceOwnership c opts) \<and>
     (\<forall>input_data amount. SendTokensInput_ok input_data \<longrightarrow> in_uint256 amount \<longrightarrow> sends_call k
        ERC20TokenRemoteUpgradeableABI be opts ''send'' [SendTokensInput_val input_data, GBig
        amount]
       (ERC20TokenRemoteUpgradeableTransactor_Send c opts input_data amount)) \<and>
     (\<forall>input_data amount. SendAndCallInput_ok input_data \<longrightarrow> in_uint256 amount \<longrightarrow> sends_call k
        ERC20TokenRemoteUpgradeableABI be opts ''sendAndCall'' [SendAndCallInput_val input_data,
        GBig amount]
       (ERC20TokenRemoteUpgradeableTransactor_SendAndCall c opts input_data amount)) \<and>
     (\<forall>to_addr amount_value. in_uint256 amount_value \<longrightarrow> sends_call k
        ERC20TokenRemoteUpgradeableABI be opts ''transfer'' [GAddr to_addr, GBig amount_value]
       (ERC20TokenRemoteUpgradeableTransactor_Transfer c opts to_addr amount_value)) \<and>
     (\<forall>from_addr to_addr amount_value. in_uint256 amount_value \<longrightarrow> sends_call k
        ERC20TokenRemoteUpgradeableABI be opts ''transferFrom'' [GAddr from_addr, GAddr to_addr,
        GBig amount_value]
       (ERC20TokenRemoteUpgradeableTransactor_TransferFrom c opts from_addr to_addr
          amount_value)) \<and>
     (\<forall>newOwner. sends_call k ERC20TokenRemoteUpgradeableABI be opts ''transferOwnership''
        [GAddr newOwner]
       (ERC20TokenRemoteUpgradeableTransactor_TransferOwnership c opts newOwner)) \<and>
     (\<forall>teleporterAddress. sends_call k ERC20TokenRemoteUpgradeableABI be opts
        ''unpauseTeleporterAddress'' [GAddr teleporterAddress]
       (ERC20TokenRemoteUpgradeableTransactor_UnpauseTeleporterAddress c opts
          teleporterAddress)) \<and>
     (\<forall>version_number. in_uint256 version_number \<longrightarrow> sends_call k ERC20TokenRemoteUpgradeableABI
        be opts ''updateMinTeleporterVersion'' [GBig version_number]
       (ERC20TokenRemoteUpgradeableTransactor_UpdateMinTeleporterVersion c opts
          version_number))"
  unfolding ERC20TokenRemoteUpgradeableTransactor_Approve_def
     ERC20TokenRemoteUpgradeableTransactor_Initialize_def
     ERC20TokenRemoteUpgradeableTransactor_PauseTeleporterAddress_def
     ERC20TokenRemoteUpgradeableTransactor_ReceiveTeleporterMessage_def
     ERC20TokenRemoteUpgradeableTransactor_RegisterWithHome_def
     ERC20TokenRemoteUpgradeableTransactor_RenounceOwnership_def
     ERC20TokenRemoteUpgradeableTransactor_Send_def
     ERC20TokenRemoteUpgradeableTransactor_SendAndCall_def
     ERC20TokenRemoteUpgradeableTransactor_Transfer_def
     ERC20TokenRemoteUpgradeableTransactor_TransferFrom_def
     ERC20TokenRemoteUpgradeableTransactor_TransferOwnership_def
     ERC20TokenRemoteUpgradeableTransactor_UnpauseTeleporterAddress_def
     ERC20TokenRemoteUpgradeableTransactor_UpdateMinTeleporterVersion_def
  by ((intro conjI allI impI)?; rule transact_sends [OF assms], rule
     ERC20TokenRemoteUpgradeable_methods)
    (simp_all del: matches.simps(1))

lemma ERC20TokenRemoteUpgradeable_calls_return_outputs:
  assumes "codec_methods k" and "codec_roundtrip k" and "bound_spec k
     ERC20TokenRemoteUpgradeableABI be c"
  shows "(\<forall>r0. reads_call k ERC20TokenRemoteUpgradeableABI be opts
     ''ERC20_TOKEN_REMOTE_STORAGE_LOCATION'' []
       [GArr32 r0] r0 (ERC20TokenRemoteUpgradeableCaller_ERC20TOKENREMOTESTORAGELOCATION c
          opts)) \<and>
     (\<forall>r0. in_uint256 r0 \<longrightarrow> reads_call k ERC20TokenRemoteUpgradeableABI be opts
        ''MULTI_HOP_CALL_GAS_PER_WORD'' []
       [GBig r0] r0 (ERC20TokenRemoteUpgradeableCaller_MULTIHOPCALLGASPERWORD c opts)) \<and>
     (\<forall>r0. in_uint256 r0 \<longrightarrow> reads_call k ERC20TokenRemoteUpgradeableABI be opts
        ''MULTI_HOP_CALL_REQUIRED_GAS'' []
       [GBig r0] r0 (ERC20TokenRemoteUpgradeableCaller_MULTIHOPCALLREQUIREDGAS c opts)) \<and>
     (\<forall>r0. in_uint256 r0 \<longrightarrow> reads_call k ERC20TokenRemoteUpgradeableABI be opts
        ''MULTI_HOP_SEND_REQUIRED_GAS'' []
       [GBig r0] r0 (ERC20TokenRemoteUpgradeableCaller_MULTIHOPSENDREQUIREDGAS c opts)) \<and>
     (\<forall>r0. in_uint256 r0 \<longrightarrow> reads_call k ERC20TokenRemoteUpgradeableABI be opts
        ''REGISTER_REMOTE_REQUIRED_GAS'' []
       [GBig r0] r0 (ERC20TokenRemoteUpgradeableCaller_REGISTERREMOTEREQUIREDGAS c opts)) \<and>
     (\<forall>r0. reads_call k ERC20TokenRemoteUpgradeableABI be opts
        ''TELEPORTER_REGISTRY_APP_STORAGE_LOCATION'' []
       [GArr32 r0] r0 (ERC20TokenRemoteUpgradeableCaller_TELEPORTERREGISTRYAPPSTORAGELOCATION c
          opts)) \<and>
     (\<forall>r0. reads_call k ERC20TokenRemoteUpgradeableABI be opts ''TOKEN_REMOTE_STORAGE_LOCATION''
        []
       [GArr32 r0] r0 (ERC20TokenRemoteUpgradeableCaller_TOKENREMOTESTORAGELOCATION c opts)) \<and>
     (\<forall>owner spender r0. in_uint256 r0 \<longrightarrow> reads_call k ERC20TokenRemoteUpgradeableABI be opts
        ''allowance'' [GAddr owner, GAddr spender]
       [GBig r0] r0 (ERC20TokenRemoteUpgradeableCaller_Allowance c opts owner spender)) \<and>
     (\<forall>account r0. in_uint256 r0 \<longrightarrow> reads_call k ERC20TokenRemoteUpgradeableABI be opts
        ''balanceOf'' [GAddr account]
       [GBig r0] r0 (ERC20TokenRemoteUpgradeableCaller_BalanceOf c opts account)) \<and>
     (\<forall>payloadSize r0. in_uint256 payloadSize \<longrightarrow> in_uint256 r0 \<longrightarrow> reads_call k
        ERC20TokenRemoteUpgradeableABI be opts ''calculateNumWords'' [GBig payloadSize]
       [GBig r0] r0 (ERC20TokenRemoteUpgradeableCaller_CalculateNumWords c opts payloadSize)) \<and>
     (\<forall>r0. reads_call k ERC20TokenRemoteUpgradeableABI be opts ''decimals'' []
       [GUint 8 (unat r0)] r0 (ERC20TokenRemoteUpgradeableCaller_Decimals c opts)) \<and>
     (\<forall>r0. reads_call k ERC20TokenRemoteUpgradeableABI be opts ''getBlockchainID'' []
       [GArr32 r0] r0 (ERC20TokenRemoteUpgradeableCaller_GetBlockchainID c opts)) \<and>
     (\<forall>r0. in_uint256 r0 \<longrightarrow> reads_call k ERC20TokenRemoteUpgradeableABI be opts
        ''getInitialReserveImbalance'' []
       [GBig r0] r0 (ERC20TokenRemoteUpgradeableCaller_GetInitialReserveImbalance c opts)) \<and>
     (\<forall>r0. reads_call k ERC20TokenRemoteUpgradeableABI be opts ''getIsCollateralized'' []
       [GBool r0] r0 (ERC20TokenRemoteUpgradeableCaller_GetIsCollateralized c opts)) \<and>
     (\<forall>r0. in_uint256 r0 \<longrightarrow> reads_call k ERC20TokenRemoteUpgradeableABI be opts
        ''getMinTeleporterVersion'' []
       [GBig r0] r0 (ERC20TokenRemoteUpgradeableCaller_GetMinTeleporterVersion c opts)) \<and>
     (\<forall>r0. reads_call k ERC20TokenRemoteUpgradeableABI be opts ''getMultiplyOnRemote'' []
       [GBool r0] r0 (ERC20TokenRemoteUpgradeableCaller_GetMultiplyOnRemote c opts)) \<and>
     (\<forall>r0. reads_call k ERC20TokenRemoteUpgradeableABI be opts ''getTokenHomeAddress'' []
       [GAddr r0] r0 (ERC20TokenRemoteUpgradeableCaller_GetTokenHomeAddress c opts)) \<and>
     (\<forall>r0. reads_call k ERC20TokenRemoteUpgradeableABI be opts ''getTokenHomeBlockchainID'' []
       [GArr32 r0] r0 (ERC20TokenRemoteUpgradeableCaller_GetTokenHomeBlockchainID c opts)) \<and>
     (\<forall>r0. in_uint256 r0 \<longrightarrow> reads_call k ERC20TokenRemoteUpgradeableABI be opts
        ''getTokenMultiplier'' []
       [GBig r0] r0 (ERC20TokenRemoteUpgradeableCaller_GetTokenMultiplier c opts)) \<and>
     (\<forall>teleporterAddress r0. reads_call k ERC20TokenRemoteUpgradeableABI be opts
        ''isTeleporterAddressPaused'' [GAddr teleporterAddress]
       [GBool r0] r0 (ERC20TokenRemoteUpgradeableCaller_IsTeleporterAddressPaused c opts
          teleporterAddress)) \<and>
     (\<forall>r0. reads_call k ERC20TokenRemoteUpgradeableABI be opts ''name'' []
       [GStr r0] r0 (ERC20TokenRemoteUpgradeableCaller_Name c opts)) \<and>
     (\<forall>r0. reads_call k ERC20TokenRemoteUpgradeableABI be opts ''owner'' []
       [GAddr r0] r0 (ERC20TokenRemoteUpgradeableCaller_Owner c opts)) \<and>
     (\<forall>r0. reads_call k ERC20TokenRemoteUpgradeableABI be opts ''symbol'' []
       [GStr r0] r0 (ERC20TokenRemoteUpgradeableCaller_Symbol c opts)) \<and>
     (\<forall>r0. in_uint256 r0 \<longrightarrow> reads_call k ERC20TokenRemoteUpgradeableABI be opts ''totalSupply''
        []
       [GBig r0] r0 (ERC20TokenRemoteUpgradeableCaller_TotalSupply c opts))"
  unfolding ERC20TokenRemoteUpgradeableCaller_ERC20TOKENREMOTESTORAGELOCATION_def
     ERC20TokenRemoteUpgradeableCaller_MULTIHOPCALLGASPERWORD_def
     ERC20TokenRemoteUpgradeableCaller_MULTIHOPCALLREQUIREDGAS_def
     ERC20TokenRemoteUpgradeableCaller_MULTIHOPSENDREQUIREDGAS_def
     ERC20TokenRemoteUpgradeableCaller_REGISTERREMOTEREQUIREDGAS_def
     ERC20TokenRemoteUpgradeableCaller_TELEPORTERREGISTRYAPPSTORAGELOCATION_def
     ERC20TokenRemoteUpgradeableCaller_TOKENREMOTESTORAGELOCATION_def
     ERC20TokenRemoteUpgradeableCaller_Allowance_def
     ERC20TokenRemoteUpgradeableCaller_BalanceOf_def
     ERC20TokenRemoteUpgradeableCaller_CalculateNumWords_def
     ERC20TokenRemoteUpgradeableCaller_Decimals_def
     ERC20TokenRemoteUpgradeableCaller_GetBlockchainID_def
     ERC20TokenRemoteUpgradeableCaller_GetInitialReserveImbalance_def
     ERC20TokenRemoteUpgradeableCaller_GetIsCollateralized_def
     ERC20TokenRemoteUpgradeableCaller_GetMinTeleporterVersion_def
     ERC20TokenRemoteUpgradeableCaller_GetMultiplyOnRemote_def
     ERC20TokenRemoteUpgradeableCaller_GetTokenHomeAddress_def
     ERC20TokenRemoteUpgradeableCaller_GetTokenHomeBlockchainID_def
     ERC20TokenRemoteUpgradeableCaller_GetTokenMultiplier_def
     ERC20TokenRemoteUpgradeableCaller_IsTeleporterAddressPaused_def
     ERC20TokenRemoteUpgradeableCaller_Name_def ERC20TokenRemoteUpgradeableCaller_Owner_def
     ERC20TokenRemoteUpgradeableCaller_Symbol_def
     ERC20TokenRemoteUpgradeableCaller_TotalSupply_def
  by ((intro conjI allI impI)?; rule call_reads [OF assms], rule
     ERC20TokenRemoteUpgradeable_methods)
    (simp_all del: matches.simps(1))

lemma ERC20TokenRemoteUpgradeable_parsers_decode:
  assumes "codec_events k" and "event_ids k ERC20TokenRemoteUpgradeableABI" and "bound_spec k
     ERC20TokenRemoteUpgradeableABI be c"
  shows "parser_decodes k ERC20TokenRemoteUpgradeableABI ''Approval''
     (ERC20TokenRemoteUpgradeableFilterer_ParseApproval c) \<and>
     parser_decodes k ERC20TokenRemoteUpgradeableABI ''CallFailed''
        (ERC20TokenRemoteUpgradeableFilterer_ParseCallFailed c) \<and>
     parser_decodes k ERC20TokenRemoteUpgradeableABI ''CallSucceeded''
        (ERC20TokenRemoteUpgradeableFilterer_ParseCallSucceeded c) \<and>
     parser_decodes k ERC20TokenRemoteUpgradeableABI ''Initialized''
        (ERC20TokenRemoteUpgradeableFilterer_ParseInitialized c) \<and>
     parser_decodes k ERC20TokenRemoteUpgradeableABI ''MinTeleporterVersionUpdated''
        (ERC20TokenRemoteUpgradeableFilterer_ParseMinTeleporterVersionUpdated c) \<and>
     parser_decodes k ERC20TokenRemoteUpgradeableABI ''OwnershipTransferred''
        (ERC20TokenRemoteUpgradeableFilterer_ParseOwnershipTransferred c) \<and>
     parser_decodes k ERC20TokenRemoteUpgradeableABI ''TeleporterAddressPaused''
        (ERC20TokenRemoteUpgradeableFilterer_ParseTeleporterAddressPaused c) \<and>
     parser_decodes k ERC20TokenRemoteUpgradeableABI ''TeleporterAddressUnpaused''
        (ERC20TokenRemoteUpgradeableFilterer_ParseTeleporterAddressUnpaused c) \<and>
     parser_decodes k ERC20TokenRemoteUpgradeableABI ''TokensAndCallSent''
        (ERC20TokenRemoteUpgradeableFilterer_ParseTokensAndCallSent c) \<and>
     parser_decodes k ERC20TokenRemoteUpgradeableABI ''TokensSent''
        (ERC20TokenRemoteUpgradeableFilterer_ParseTokensSent c) \<and>
     parser_decodes k ERC20TokenRemoteUpgradeableABI ''TokensWithdrawn''
        (ERC20TokenRemoteUpgradeableFilterer_ParseTokensWithdrawn c) \<and>
     parser_decodes k ERC20TokenRemoteUpgradeableABI ''Transfer''
        (ERC20TokenRemoteUpgradeableFilterer_ParseTransfer c)"
proof -
  note parses = parse_log_decodes [OF assms]
  show ?thesis
    unfolding ERC20TokenRemoteUpgradeableFilterer_ParseApproval_def
       ERC20TokenRemoteUpgradeableFilterer_ParseCallFailed_def
       ERC20TokenRemoteUpgradeableFilterer_ParseCallSucceeded_def
       ERC20TokenRemoteUpgradeableFilterer_ParseInitialized_def
       ERC20TokenRemoteUpgradeableFilterer_ParseMinTeleporterVersionUpdated_def
       ERC20TokenRemoteUpgradeableFilterer_ParseOwnershipTransferred_def
       ERC20TokenRemoteUpgradeableFilterer_ParseTeleporterAddressPaused_def
       ERC20TokenRemoteUpgradeableFilterer_ParseTeleporterAddressUnpaused_def
       ERC20TokenRemoteUpgradeableFilterer_ParseTokensAndCallSent_def
       ERC20TokenRemoteUpgradeableFilterer_ParseTokensSent_def
       ERC20TokenRemoteUpgradeableFilterer_ParseTokensWithdrawn_def
       ERC20TokenRemoteUpgradeableFilterer_ParseTransfer_def
    by ((intro conjI)?; rule parses, rule ERC20TokenRemoteUpgradeable_events, rule
       ERC20TokenRemoteUpgradeable_decodable)
qed

end
