(* ===== verification/NativeTokenRemoteUpgradeableBinding.thy ===== *)
theory NativeTokenRemoteUpgradeableBinding
  imports IcttStructs AbiRef
begin

text \<open>
  The generated binding \<open>abi-bindings/go/ictt/TokenRemote/NativeTokenRemoteUpgradeable/NativeTokenRemoteUpgradeable.go\<close> over the generic
  definitions of theory \<open>Binding\<close>: its ABI, every method with its session wrappers, every event with
  its iterator, filter, watch and parser. The bytecode is a parameter of deployment; the aliases
  \<open>Raw\<close> of the untyped calls are not modelled.
\<close>

section \<open>The contract's ABI (NativeTokenRemoteUpgradeableMetaData)\<close>

definition NativeTokenRemoteUpgradeableABI :: contract_abi where
  "NativeTokenRemoteUpgradeableABI = \<lparr>
      Methods = [
        (''BURNED_FOR_TRANSFER_ADDRESS'', [],
           [('''', TAddress)]),
        (''BURNED_TX_FEES_ADDRESS'', [],
           [('''', TAddress)]),
        (''HOME_CHAIN_BURN_ADDRESS'', [],
           [('''', TAddress)]),
        (''MULTI_HOP_CALL_GAS_PER_WORD'', [],
           [('''', TUint 256)]),
        (''MULTI_HOP_CALL_REQUIRED_GAS'', [],
           [('''', TUint 256)]),
        (''MULTI_HOP_SEND_REQUIRED_GAS'', [],
           [('''', TUint 256)]),
        (''NATIVE_MINTER'', [],
           [('''', TAddress)]),
        (''NATIVE_TOKEN_REMOTE_STORAGE_LOCATION'', [],
           [('''', TBytes32)]),
        (''REGISTER_REMOTE_REQUIRED_GAS'', [],
           [('''', TUint 256)]),
        (''TELEPORTER_REGISTRY_APP_STORAGE_LOCATION'', [],
           [('''', TBytes32)]),
        (''TOKEN_REMOTE_STORAGE_LOCATION'', [],
           [('''', TBytes32)]),
        (''allowance'', [(''owner'', TAddress), (''spender'', TAddress)],
           [('''', TUint 256)]),
        (''approve'', [(''spender'', TAddress), (''value'', TUint 256)],
           [('''', TBool)]),
        (''balanceOf'', [(''account'', TAddress)],
           [('''', TUint 256)]),
        (''calculateNumWords'', [(''payloadSize'', TUint 256)],
           [('''', TUint 256)]),
        (''decimals'', [],
           [('''', TUint 8)]),
        (''deposit'', [],
           []),
        (''getBlockchainID'', [],
           [('''', TBytes32)]),
        (''getInitialReserveImbalance'', [],
           [('''', TUint 256)]),
        (''getIsCollateralized'', [],
           [('''', TBool)]),
        (''getMinTeleporterVersion'', [],
           [('''', TUint 256)]),
        (''getMultiplyOnRemote'', [],
           [('''', TBool)]),
        (''getTokenHomeAddress'', [],
           [('''', TAddress)]),
        (''getTokenHomeBlockchainID'', [],
           [('''', TBytes32)]),
        (''getTokenMultiplier'', [],
           [('''', TUint 256)]),
        (''getTotalMinted'', [],
           [('''', TUint 256)]),
        (''initialize'', [(''settings'', TokenRemoteSettings_tuple), (''nativeAssetSymbol'',
           TString), (''initialReserveImbalance'', TUint 256),
           (''burnedFeesReportingRewardPercentage'', TUint 256)],
           []),
        (''isTeleporterAddressPaused'', [(''teleporterAddress'', TAddress)],
           [('''', TBool)]),
        (''name'', [],
           [('''', TString)]),
        (''owner'', [],
           [('''', TAddress)]),
        (''pauseTeleporterAddress'', [(''teleporterAddress'', TAddress)],
           []),
        (''receiveTeleporterMessage'', [(''sourceBlockchainID'', TBytes32),
           (''originSenderAddress'', TAddress), (''message'', TBytes)],
           []),
        (''registerWithHome'', [(''feeInfo'', fee_info_tuple)],
           []),
        (''renounceOwnership'', [],
           []),
        (''reportBurnedTxFees'', [(''requiredGasLimit'', TUint 256)],
           []),
        (''send'', [(''input'', SendTokensInput_tuple)],
           []),
        (''sendAndCall'', [(''input'', SendAndCallInput_tuple)],
           []),
        (''symbol'', [],
           [('''', TString)]),
        (''totalNativeAssetSupply'', [],
           [('''', TUint 256)]),
        (''totalSupply'', [],
           [('''', TUint 256)]),
        (''transfer'', [(''to'', TAddress), (''value'', TUint 256)],
           [('''', TBool)]),
        (''transferFrom'', [(''from'', TAddress), (''to'', TAddress), (''value'', TUint 256)],
           [('''', TBool)]),
        (''transferOwnership'', [(''newOwner'', TAddress)],
           []),
        (''unpauseTeleporterAddress'', [(''teleporterAddress'', TAddress)],
           []),
        (''updateMinTeleporterVersion'', [(''version'', TUint 256)],
           []),
        (''withdraw'', [(''amount'', TUint 256)],
           [])],
      Events = [
        (''Approval'', [(''owner'', TAddress, True), (''spender'', TAddress, True), (''value'',
           TUint 256, False)]),
        (''CallFailed'', [(''recipientContract'', TAddress, True), (''amount'', TUint 256,
           False)]),
        (''CallSucceeded'', [(''recipientContract'', TAddress, True), (''amount'', TUint 256,
           False)]),
        (''Deposit'', [(''sender'', TAddress, True), (''amount'', TUint 256, False)]),
        (''Initialized'', [(''version'', TUint 64, False)]),
        (''MinTeleporterVersionUpdated'', [(''oldMinTeleporterVersion'', TUint 256, True),
           (''newMinTeleporterVersion'', TUint 256, True)]),
        (''OwnershipTransferred'', [(''previousOwner'', TAddress, True), (''newOwner'',
           TAddress, True)]),
        (''ReportBurnedTxFees'', [(''teleporterMessageID'', TBytes32, True), (''feesBurned'',
           TUint 256, False)]),
        (''TeleporterAddressPaused'', [(''teleporterAddress'', TAddress, True)]),
        (''TeleporterAddressUnpaused'', [(''teleporterAddress'', TAddress, True)]),
        (''TokensAndCallSent'', [(''teleporterMessageID'', TBytes32, True), (''sender'',
           TAddress, True), (''input'', SendAndCallInput_tuple, False), (''amount'', TUint 256,
           False)]),
        (''TokensSent'', [(''teleporterMessageID'', TBytes32, True), (''sender'', TAddress,
           True), (''input'', SendTokensInput_tuple, False), (''amount'', TUint 256, False)]),
        (''TokensWithdrawn'', [(''recipient'', TAddress, True), (''amount'', TUint 256,
           False)]),
        (''Transfer'', [(''from'', TAddress, True), (''to'', TAddress, True), (''value'', TUint
           256, False)]),
        (''Withdrawal'', [(''sender'', TAddress, True), (''amount'', TUint 256, False)])]\<rparr>"

section \<open>Binding and deployment\<close>

definition bindNativeTokenRemoteUpgradeable :: "'w bind_lib \<Rightarrow> address \<Rightarrow> goerr + 'w
   bound_contract" where
  "bindNativeTokenRemoteUpgradeable lib addr = bind_contract lib NativeTokenRemoteUpgradeableABI
     addr"

definition NewNativeTokenRemoteUpgradeable :: "'w bind_lib \<Rightarrow> address \<Rightarrow> goerr + 'w
   bound_contract" where
  "NewNativeTokenRemoteUpgradeable lib addr = bindNativeTokenRemoteUpgradeable lib addr"

definition DeployNativeTokenRemoteUpgradeable ::
  "'w bind_lib \<Rightarrow> string \<Rightarrow> TransactOpts \<Rightarrow> u8 \<Rightarrow> 
   ('w, goerr + address \<times> hash \<times> 'w bound_contract) prog" where
  "DeployNativeTokenRemoteUpgradeable lib bin auth init_mode = deploy_contract lib auth
     NativeTokenRemoteUpgradeableABI bin [GUint 8 (unat init_mode)]"

section \<open>Methods\<close>

definition NativeTokenRemoteUpgradeableCaller_BURNEDFORTRANSFERADDRESS ::
  "'w bound_contract \<Rightarrow> CallOpts \<Rightarrow> ('w, goerr + address) prog" where
  "NativeTokenRemoteUpgradeableCaller_BURNEDFORTRANSFERADDRESS c opts =
     call_method c opts ''BURNED_FOR_TRANSFER_ADDRESS'' [] (out1 go_addr)"

definition NativeTokenRemoteUpgradeableSession_BURNEDFORTRANSFERADDRESS ::
  "'w session \<Rightarrow> ('w, goerr + address) prog" where
  "NativeTokenRemoteUpgradeableSession_BURNEDFORTRANSFERADDRESS s =
     NativeTokenRemoteUpgradeableCaller_BURNEDFORTRANSFERADDRESS (SessionContract s)
     (SessionCallOpts s)"

definition NativeTokenRemoteUpgradeableCaller_BURNEDTXFEESADDRESS ::
  "'w bound_contract \<Rightarrow> CallOpts \<Rightarrow> ('w, goerr + address) prog" where
  "NativeTokenRemoteUpgradeableCaller_BURNEDTXFEESADDRESS c opts =
     call_method c opts ''BURNED_TX_FEES_ADDRESS'' [] (out1 go_addr)"

definition NativeTokenRemoteUpgradeableSession_BURNEDTXFEESADDRESS ::
  "'w session \<Rightarrow> ('w, goerr + address) prog" where
  "NativeTokenRemoteUpgradeableSession_BURNEDTXFEESADDRESS s =
     NativeTokenRemoteUpgradeableCaller_BURNEDTXFEESADDRESS (SessionContract s) (SessionCallOpts
     s)"

definition NativeTokenRemoteUpgradeableCaller_HOMECHAINBURNADDRESS ::
  "'w bound_contract \<Rightarrow> CallOpts \<Rightarrow> ('w, goerr + address) prog" where
  "NativeTokenRemoteUpgradeableCaller_HOMECHAINBURNADDRESS c opts =
     call_method c opts ''HOME_CHAIN_BURN_ADDRESS'' [] (out1 go_addr)"

definition NativeTokenRemoteUpgradeableSession_HOMECHAINBURNADDRESS ::
  "'w session \<Rightarrow> ('w, goerr + address) prog" where
  "NativeTokenRemoteUpgradeableSession_HOMECHAINBURNADDRESS s =
     NativeTokenRemoteUpgradeableCaller_HOMECHAINBURNADDRESS (SessionContract s)
     (SessionCallOpts s)"

definition NativeTokenRemoteUpgradeableCaller_MULTIHOPCALLGASPERWORD ::
  "'w bound_contract \<Rightarrow> CallOpts \<Rightarrow> ('w, goerr + int) prog" where
  "NativeTokenRemoteUpgradeableCaller_MULTIHOPCALLGASPERWORD c opts =
     call_method c opts ''MULTI_HOP_CALL_GAS_PER_WORD'' [] (out1 go_big)"

definition NativeTokenRemoteUpgradeableSession_MULTIHOPCALLGASPERWORD ::
  "'w session \<Rightarrow> ('w, goerr + int) prog" where
  "NativeTokenRemoteUpgradeableSession_MULTIHOPCALLGASPERWORD s =
     NativeTokenRemoteUpgradeableCaller_MULTIHOPCALLGASPERWORD (SessionContract s)
     (SessionCallOpts s)"

definition NativeTokenRemoteUpgradeableCaller_MULTIHOPCALLREQUIREDGAS ::
  "'w bound_contract \<Rightarrow> CallOpts \<Rightarrow> ('w, goerr + int) prog" where
  "NativeTokenRemoteUpgradeableCaller_MULTIHOPCALLREQUIREDGAS c opts =
     call_method c opts ''MULTI_HOP_CALL_REQUIRED_GAS'' [] (out1 go_big)"

definition NativeTokenRemoteUpgradeableSession_MULTIHOPCALLREQUIREDGAS ::
  "'w session \<Rightarrow> ('w, goerr + int) prog" where
  "NativeTokenRemoteUpgradeableSession_MULTIHOPCALLREQUIREDGAS s =
     NativeTokenRemoteUpgradeableCaller_MULTIHOPCALLREQUIREDGAS (SessionContract s)
     (SessionCallOpts s)"

definition NativeTokenRemoteUpgradeableCaller_MULTIHOPSENDREQUIREDGAS ::
  "'w bound_contract \<Rightarrow> CallOpts \<Rightarrow> ('w, goerr + int) prog" where
  "NativeTokenRemoteUpgradeableCaller_MULTIHOPSENDREQUIREDGAS c opts =
     call_method c opts ''MULTI_HOP_SEND_REQUIRED_GAS'' [] (out1 go_big)"

definition NativeTokenRemoteUpgradeableSession_MULTIHOPSENDREQUIREDGAS ::
  "'w session \<Rightarrow> ('w, goerr + int) prog" where
  "NativeTokenRemoteUpgradeableSession_MULTIHOPSENDREQUIREDGAS s =
     NativeTokenRemoteUpgradeableCaller_MULTIHOPSENDREQUIREDGAS (SessionContract s)
     (SessionCallOpts s)"

definition NativeTokenRemoteUpgradeableCaller_NATIVEMINTER ::
  "'w bound_contract \<Rightarrow> CallOpts \<Rightarrow> ('w, goerr + address) prog" where
  "NativeTokenRemoteUpgradeableCaller_NATIVEMINTER c opts =
     call_method c opts ''NATIVE_MINTER'' [] (out1 go_addr)"

definition NativeTokenRemoteUpgradeableSession_NATIVEMINTER ::
  "'w session \<Rightarrow> ('w, goerr + address) prog" where
  "NativeTokenRemoteUpgradeableSession_NATIVEMINTER s =
     NativeTokenRemoteUpgradeableCaller_NATIVEMINTER (SessionContract s) (SessionCallOpts s)"

definition NativeTokenRemoteUpgradeableCaller_NATIVETOKENREMOTESTORAGELOCATION ::
  "'w bound_contract \<Rightarrow> CallOpts \<Rightarrow> ('w, goerr + hash) prog" where
  "NativeTokenRemoteUpgradeableCaller_NATIVETOKENREMOTESTORAGELOCATION c opts =
     call_method c opts ''NATIVE_TOKEN_REMOTE_STORAGE_LOCATION'' [] (out1 go_arr32)"

definition NativeTokenRemoteUpgradeableSession_NATIVETOKENREMOTESTORAGELOCATION ::
  "'w session \<Rightarrow> ('w, goerr + hash) prog" where
  "NativeTokenRemoteUpgradeableSession_NATIVETOKENREMOTESTORAGELOCATION s =
     NativeTokenRemoteUpgradeableCaller_NATIVETOKENREMOTESTORAGELOCATION (SessionContract s)
     (SessionCallOpts s)"

definition NativeTokenRemoteUpgradeableCaller_REGISTERREMOTEREQUIREDGAS ::
  "'w bound_contract \<Rightarrow> CallOpts \<Rightarrow> ('w, goerr + int) prog" where
  "NativeTokenRemoteUpgradeableCaller_REGISTERREMOTEREQUIREDGAS c opts =
     call_method c opts ''REGISTER_REMOTE_REQUIRED_GAS'' [] (out1 go_big)"

definition NativeTokenRemoteUpgradeableSession_REGISTERREMOTEREQUIREDGAS ::
  "'w session \<Rightarrow> ('w, goerr + int) prog" where
  "NativeTokenRemoteUpgradeableSession_REGISTERREMOTEREQUIREDGAS s =
     NativeTokenRemoteUpgradeableCaller_REGISTERREMOTEREQUIREDGAS (SessionContract s)
     (SessionCallOpts s)"

definition NativeTokenRemoteUpgradeableCaller_TELEPORTERREGISTRYAPPSTORAGELOCATION ::
  "'w bound_contract \<Rightarrow> CallOpts \<Rightarrow> ('w, goerr + hash) prog" where
  "NativeTokenRemoteUpgradeableCaller_TELEPORTERREGISTRYAPPSTORAGELOCATION c opts =
     call_method c opts ''TELEPORTER_REGISTRY_APP_STORAGE_LOCATION'' [] (out1 go_arr32)"

definition NativeTokenRemoteUpgradeableSession_TELEPORTERREGISTRYAPPSTORAGELOCATION ::
  "'w session \<Rightarrow> ('w, goerr + hash) prog" where
  "NativeTokenRemoteUpgradeableSession_TELEPORTERREGISTRYAPPSTORAGELOCATION s =
     NativeTokenRemoteUpgradeableCaller_TELEPORTERREGISTRYAPPSTORAGELOCATION (SessionContract s)
     (SessionCallOpts s)"

definition NativeTokenRemoteUpgradeableCaller_TOKENREMOTESTORAGELOCATION ::
  "'w bound_contract \<Rightarrow> CallOpts \<Rightarrow> ('w, goerr + hash) prog" where
  "NativeTokenRemoteUpgradeableCaller_TOKENREMOTESTORAGELOCATION c opts =
     call_method c opts ''TOKEN_REMOTE_STORAGE_LOCATION'' [] (out1 go_arr32)"

definition NativeTokenRemoteUpgradeableSession_TOKENREMOTESTORAGELOCATION ::
  "'w session \<Rightarrow> ('w, goerr + hash) prog" where
  "NativeTokenRemoteUpgradeableSession_TOKENREMOTESTORAGELOCATION s =
     NativeTokenRemoteUpgradeableCaller_TOKENREMOTESTORAGELOCATION (SessionContract s)
     (SessionCallOpts s)"

definition NativeTokenRemoteUpgradeableCaller_Allowance ::
  "'w bound_contract \<Rightarrow> CallOpts \<Rightarrow> address \<Rightarrow> address \<Rightarrow> ('w, goerr + int) prog" where
  "NativeTokenRemoteUpgradeableCaller_Allowance c opts owner spender =
     call_method c opts ''allowance'' [GAddr owner, GAddr spender] (out1 go_big)"

definition NativeTokenRemoteUpgradeableSession_Allowance ::
  "'w session \<Rightarrow> address \<Rightarrow> address \<Rightarrow> ('w, goerr + int) prog" where
  "NativeTokenRemoteUpgradeableSession_Allowance s owner spender =
     NativeTokenRemoteUpgradeableCaller_Allowance (SessionContract s) (SessionCallOpts s) owner
     spender"

definition NativeTokenRemoteUpgradeableTransactor_Approve ::
  "'w bound_contract \<Rightarrow> TransactOpts \<Rightarrow> address \<Rightarrow> int \<Rightarrow> ('w, goerr + hash) prog" where
  "NativeTokenRemoteUpgradeableTransactor_Approve c opts spender amount_value =
     contract_transact c opts ''approve'' [GAddr spender, GBig amount_value]"

definition NativeTokenRemoteUpgradeableSession_Approve ::
  "'w session \<Rightarrow> address \<Rightarrow> int \<Rightarrow> ('w, goerr + hash) prog" where
  "NativeTokenRemoteUpgradeableSession_Approve s spender amount_value =
     NativeTokenRemoteUpgradeableTransactor_Approve (SessionContract s) (SessionTransactOpts s)
     spender amount_value"

definition NativeTokenRemoteUpgradeableCaller_BalanceOf ::
  "'w bound_contract \<Rightarrow> CallOpts \<Rightarrow> address \<Rightarrow> ('w, goerr + int) prog" where
  "NativeTokenRemoteUpgradeableCaller_BalanceOf c opts account =
     call_method c opts ''balanceOf'' [GAddr account] (out1 go_big)"

definition NativeTokenRemoteUpgradeableSession_BalanceOf ::
  "'w session \<Rightarrow> address \<Rightarrow> ('w, goerr + int) prog" where
  "NativeTokenRemoteUpgradeableSession_BalanceOf s account =
     NativeTokenRemoteUpgradeableCaller_BalanceOf (SessionContract s) (SessionCallOpts s)
     account"

definition NativeTokenRemoteUpgradeableCaller_CalculateNumWords ::
  "'w bound_contract \<Rightarrow> CallOpts \<Rightarrow> int \<Rightarrow> ('w, goerr + int) prog" where
  "NativeTokenRemoteUpgradeableCaller_CalculateNumWords c opts payloadSize =
     call_method c opts ''calculateNumWords'' [GBig payloadSize] (out1 go_big)"

definition NativeTokenRemoteUpgradeableSession_CalculateNumWords ::
  "'w session \<Rightarrow> int \<Rightarrow> ('w, goerr + int) prog" where
  "NativeTokenRemoteUpgradeableSession_CalculateNumWords s payloadSize =
     NativeTokenRemoteUpgradeableCaller_CalculateNumWords (SessionContract s) (SessionCallOpts
     s) payloadSize"

definition NativeTokenRemoteUpgradeableCaller_Decimals ::
  "'w bound_contract \<Rightarrow> CallOpts \<Rightarrow> ('w, goerr + u8) prog" where
  "NativeTokenRemoteUpgradeableCaller_Decimals c opts =
     call_method c opts ''decimals'' [] (out1 (go_word 8))"

definition NativeTokenRemoteUpgradeableSession_Decimals ::
  "'w session \<Rightarrow> ('w, goerr + u8) prog" where
  "NativeTokenRemoteUpgradeableSession_Decimals s = NativeTokenRemoteUpgradeableCaller_Decimals
     (SessionContract s) (SessionCallOpts s)"

definition NativeTokenRemoteUpgradeableTransactor_Deposit ::
  "'w bound_contract \<Rightarrow> TransactOpts \<Rightarrow> ('w, goerr + hash) prog" where
  "NativeTokenRemoteUpgradeableTransactor_Deposit c opts =
     contract_transact c opts ''deposit'' []"

definition NativeTokenRemoteUpgradeableSession_Deposit ::
  "'w session \<Rightarrow> ('w, goerr + hash) prog" where
  "NativeTokenRemoteUpgradeableSession_Deposit s =
     NativeTokenRemoteUpgradeableTransactor_Deposit (SessionContract s) (SessionTransactOpts s)"

definition NativeTokenRemoteUpgradeableCaller_GetBlockchainID ::
  "'w bound_contract \<Rightarrow> CallOpts \<Rightarrow> ('w, goerr + hash) prog" where
  "NativeTokenRemoteUpgradeableCaller_GetBlockchainID c opts =
     call_method c opts ''getBlockchainID'' [] (out1 go_arr32)"

definition NativeTokenRemoteUpgradeableSession_GetBlockchainID ::
  "'w session \<Rightarrow> ('w, goerr + hash) prog" where
  "NativeTokenRemoteUpgradeableSession_GetBlockchainID s =
     NativeTokenRemoteUpgradeableCaller_GetBlockchainID (SessionContract s) (SessionCallOpts s)"

definition NativeTokenRemoteUpgradeableCaller_GetInitialReserveImbalance ::
  "'w bound_contract \<Rightarrow> CallOpts \<Rightarrow> ('w, goerr + int) prog" where
  "NativeTokenRemoteUpgradeableCaller_GetInitialReserveImbalance c opts =
     call_method c opts ''getInitialReserveImbalance'' [] (out1 go_big)"

definition NativeTokenRemoteUpgradeableSession_GetInitialReserveImbalance ::
  "'w session \<Rightarrow> ('w, goerr + int) prog" where
  "NativeTokenRemoteUpgradeableSession_GetInitialReserveImbalance s =
     NativeTokenRemoteUpgradeableCaller_GetInitialReserveImbalance (SessionContract s)
     (SessionCallOpts s)"

definition NativeTokenRemoteUpgradeableCaller_GetIsCollateralized ::
  "'w bound_contract \<Rightarrow> CallOpts \<Rightarrow> ('w, goerr + bool) prog" where
  "NativeTokenRemoteUpgradeableCaller_GetIsCollateralized c opts =
     call_method c opts ''getIsCollateralized'' [] (out1 go_bool)"

definition NativeTokenRemoteUpgradeableSession_GetIsCollateralized ::
  "'w session \<Rightarrow> ('w, goerr + bool) prog" where
  "NativeTokenRemoteUpgradeableSession_GetIsCollateralized s =
     NativeTokenRemoteUpgradeableCaller_GetIsCollateralized (SessionContract s) (SessionCallOpts
     s)"

definition NativeTokenRemoteUpgradeableCaller_GetMinTeleporterVersion ::
  "'w bound_contract \<Rightarrow> CallOpts \<Rightarrow> ('w, goerr + int) prog" where
  "NativeTokenRemoteUpgradeableCaller_GetMinTeleporterVersion c opts =
     call_method c opts ''getMinTeleporterVersion'' [] (out1 go_big)"

definition NativeTokenRemoteUpgradeableSession_GetMinTeleporterVersion ::
  "'w session \<Rightarrow> ('w, goerr + int) prog" where
  "NativeTokenRemoteUpgradeableSession_GetMinTeleporterVersion s =
     NativeTokenRemoteUpgradeableCaller_GetMinTeleporterVersion (SessionContract s)
     (SessionCallOpts s)"

definition NativeTokenRemoteUpgradeableCaller_GetMultiplyOnRemote ::
  "'w bound_contract \<Rightarrow> CallOpts \<Rightarrow> ('w, goerr + bool) prog" where
  "NativeTokenRemoteUpgradeableCaller_GetMultiplyOnRemote c opts =
     call_method c opts ''getMultiplyOnRemote'' [] (out1 go_bool)"

definition NativeTokenRemoteUpgradeableSession_GetMultiplyOnRemote ::
  "'w session \<Rightarrow> ('w, goerr + bool) prog" where
  "NativeTokenRemoteUpgradeableSession_GetMultiplyOnRemote s =
     NativeTokenRemoteUpgradeableCaller_GetMultiplyOnRemote (SessionContract s) (SessionCallOpts
     s)"

definition NativeTokenRemoteUpgradeableCaller_GetTokenHomeAddress ::
  "'w bound_contract \<Rightarrow> CallOpts \<Rightarrow> ('w, goerr + address) prog" where
  "NativeTokenRemoteUpgradeableCaller_GetTokenHomeAddress c opts =
     call_method c opts ''getTokenHomeAddress'' [] (out1 go_addr)"

definition NativeTokenRemoteUpgradeableSession_GetTokenHomeAddress ::
  "'w session \<Rightarrow> ('w, goerr + address) prog" where
  "NativeTokenRemoteUpgradeableSession_GetTokenHomeAddress s =
     NativeTokenRemoteUpgradeableCaller_GetTokenHomeAddress (SessionContract s) (SessionCallOpts
     s)"

definition NativeTokenRemoteUpgradeableCaller_GetTokenHomeBlockchainID ::
  "'w bound_contract \<Rightarrow> CallOpts \<Rightarrow> ('w, goerr + hash) prog" where
  "NativeTokenRemoteUpgradeableCaller_GetTokenHomeBlockchainID c opts =
     call_method c opts ''getTokenHomeBlockchainID'' [] (out1 go_arr32)"

definition NativeTokenRemoteUpgradeableSession_GetTokenHomeBlockchainID ::
  "'w session \<Rightarrow> ('w, goerr + hash) prog" where
  "NativeTokenRemoteUpgradeableSession_GetTokenHomeBlockchainID s =
     NativeTokenRemoteUpgradeableCaller_GetTokenHomeBlockchainID (SessionContract s)
     (SessionCallOpts s)"

definition NativeTokenRemoteUpgradeableCaller_GetTokenMultiplier ::
  "'w bound_contract \<Rightarrow> CallOpts \<Rightarrow> ('w, goerr + int) prog" where
  "NativeTokenRemoteUpgradeableCaller_GetTokenMultiplier c opts =
     call_method c opts ''getTokenMultiplier'' [] (out1 go_big)"

definition NativeTokenRemoteUpgradeableSession_GetTokenMultiplier ::
  "'w session \<Rightarrow> ('w, goerr + int) prog" where
  "NativeTokenRemoteUpgradeableSession_GetTokenMultiplier s =
     NativeTokenRemoteUpgradeableCaller_GetTokenMultiplier (SessionContract s) (SessionCallOpts
     s)"

definition NativeTokenRemoteUpgradeableCaller_GetTotalMinted ::
  "'w bound_contract \<Rightarrow> CallOpts \<Rightarrow> ('w, goerr + int) prog" where
  "NativeTokenRemoteUpgradeableCaller_GetTotalMinted c opts =
     call_method c opts ''getTotalMinted'' [] (out1 go_big)"

definition NativeTokenRemoteUpgradeableSession_GetTotalMinted ::
  "'w session \<Rightarrow> ('w, goerr + int) prog" where
  "NativeTokenRemoteUpgradeableSession_GetTotalMinted s =
     NativeTokenRemoteUpgradeableCaller_GetTotalMinted (SessionContract s) (SessionCallOpts s)"

definition NativeTokenRemoteUpgradeableTransactor_Initialize ::
  "'w bound_contract \<Rightarrow> TransactOpts \<Rightarrow> TokenRemoteSettings \<Rightarrow> string \<Rightarrow> int \<Rightarrow> int \<Rightarrow> ('w, goerr +
     hash) prog" where
  "NativeTokenRemoteUpgradeableTransactor_Initialize c opts settings nativeAssetSymbol
     initialReserveImbalance burnedFeesReportingRewardPercentage =
     contract_transact c opts ''initialize'' [TokenRemoteSettings_val settings, GStr
        nativeAssetSymbol, GBig initialReserveImbalance, GBig
        burnedFeesReportingRewardPercentage]"

definition NativeTokenRemoteUpgradeableSession_Initialize ::
  "'w session \<Rightarrow> TokenRemoteSettings \<Rightarrow> string \<Rightarrow> int \<Rightarrow> int \<Rightarrow> ('w, goerr + hash) prog" where
  "NativeTokenRemoteUpgradeableSession_Initialize s settings nativeAssetSymbol
     initialReserveImbalance burnedFeesReportingRewardPercentage =
     NativeTokenRemoteUpgradeableTransactor_Initialize (SessionContract s) (SessionTransactOpts
     s) settings nativeAssetSymbol initialReserveImbalance burnedFeesReportingRewardPercentage"

definition NativeTokenRemoteUpgradeableCaller_IsTeleporterAddressPaused ::
  "'w bound_contract \<Rightarrow> CallOpts \<Rightarrow> address \<Rightarrow> ('w, goerr + bool) prog" where
  "NativeTokenRemoteUpgradeableCaller_IsTeleporterAddressPaused c opts teleporterAddress =
     call_method c opts ''isTeleporterAddressPaused'' [GAddr teleporterAddress] (out1 go_bool)"

definition NativeTokenRemoteUpgradeableSession_IsTeleporterAddressPaused ::
  "'w session \<Rightarrow> address \<Rightarrow> ('w, goerr + bool) prog" where
  "NativeTokenRemoteUpgradeableSession_IsTeleporterAddressPaused s teleporterAddress =
     NativeTokenRemoteUpgradeableCaller_IsTeleporterAddressPaused (SessionContract s)
     (SessionCallOpts s) teleporterAddress"

definition NativeTokenRemoteUpgradeableCaller_Name ::
  "'w bound_contract \<Rightarrow> CallOpts \<Rightarrow> ('w, goerr + string) prog" where
  "NativeTokenRemoteUpgradeableCaller_Name c opts =
     call_method c opts ''name'' [] (out1 go_str)"

definition NativeTokenRemoteUpgradeableSession_Name ::
  "'w session \<Rightarrow> ('w, goerr + string) prog" where
  "NativeTokenRemoteUpgradeableSession_Name s = NativeTokenRemoteUpgradeableCaller_Name
     (SessionContract s) (SessionCallOpts s)"

definition NativeTokenRemoteUpgradeableCaller_Owner ::
  "'w bound_contract \<Rightarrow> CallOpts \<Rightarrow> ('w, goerr + address) prog" where
  "NativeTokenRemoteUpgradeableCaller_Owner c opts =
     call_method c opts ''owner'' [] (out1 go_addr)"

definition NativeTokenRemoteUpgradeableSession_Owner ::
  "'w session \<Rightarrow> ('w, goerr + address) prog" where
  "NativeTokenRemoteUpgradeableSession_Owner s = NativeTokenRemoteUpgradeableCaller_Owner
     (SessionContract s) (SessionCallOpts s)"

definition NativeTokenRemoteUpgradeableTransactor_PauseTeleporterAddress ::
  "'w bound_contract \<Rightarrow> TransactOpts \<Rightarrow> address \<Rightarrow> ('w, goerr + hash) prog" where
  "NativeTokenRemoteUpgradeableTransactor_PauseTeleporterAddress c opts teleporterAddress =
     contract_transact c opts ''pauseTeleporterAddress'' [GAddr teleporterAddress]"

definition NativeTokenRemoteUpgradeableSession_PauseTeleporterAddress ::
  "'w session \<Rightarrow> address \<Rightarrow> ('w, goerr + hash) prog" where
  "NativeTokenRemoteUpgradeableSession_PauseTeleporterAddress s teleporterAddress =
     NativeTokenRemoteUpgradeableTransactor_PauseTeleporterAddress (SessionContract s)
     (SessionTransactOpts s) teleporterAddress"

definition NativeTokenRemoteUpgradeableTransactor_ReceiveTeleporterMessage ::
  "'w bound_contract \<Rightarrow> TransactOpts \<Rightarrow> hash \<Rightarrow> address \<Rightarrow> bytes \<Rightarrow> ('w, goerr + hash) prog" where
  "NativeTokenRemoteUpgradeableTransactor_ReceiveTeleporterMessage c opts sourceBlockchainID
     originSenderAddress message =
     contract_transact c opts ''receiveTeleporterMessage'' [GArr32 sourceBlockchainID, GAddr
        originSenderAddress, GBytes message]"

definition NativeTokenRemoteUpgradeableSession_ReceiveTeleporterMessage ::
  "'w session \<Rightarrow> hash \<Rightarrow> address \<Rightarrow> bytes \<Rightarrow> ('w, goerr + hash) prog" where
  "NativeTokenRemoteUpgradeableSession_ReceiveTeleporterMessage s sourceBlockchainID
     originSenderAddress message =
     NativeTokenRemoteUpgradeableTransactor_ReceiveTeleporterMessage (SessionContract s)
     (SessionTransactOpts s) sourceBlockchainID originSenderAddress message"

definition NativeTokenRemoteUpgradeableTransactor_RegisterWithHome ::
  "'w bound_contract \<Rightarrow> TransactOpts \<Rightarrow> TeleporterFeeInfo \<Rightarrow> ('w, goerr + hash) prog" where
  "NativeTokenRemoteUpgradeableTransactor_RegisterWithHome c opts feeInfo =
     contract_transact c opts ''registerWithHome'' [fee_info_val feeInfo]"

definition NativeTokenRemoteUpgradeableSession_RegisterWithHome ::
  "'w session \<Rightarrow> TeleporterFeeInfo \<Rightarrow> ('w, goerr + hash) prog" where
  "NativeTokenRemoteUpgradeableSession_RegisterWithHome s feeInfo =
     NativeTokenRemoteUpgradeableTransactor_RegisterWithHome (SessionContract s)
     (SessionTransactOpts s) feeInfo"

definition NativeTokenRemoteUpgradeableTransactor_RenounceOwnership ::
  "'w bound_contract \<Rightarrow> TransactOpts \<Rightarrow> ('w, goerr + hash) prog" where
  "NativeTokenRemoteUpgradeableTransactor_RenounceOwnership c opts =
     contract_transact c opts ''renounceOwnership'' []"

definition NativeTokenRemoteUpgradeableSession_RenounceOwnership ::
  "'w session \<Rightarrow> ('w, goerr + hash) prog" where
  "NativeTokenRemoteUpgradeableSession_RenounceOwnership s =
     NativeTokenRemoteUpgradeableTransactor_RenounceOwnership (SessionContract s)
     (SessionTransactOpts s)"

definition NativeTokenRemoteUpgradeableTransactor_ReportBurnedTxFees ::
  "'w bound_contract \<Rightarrow> TransactOpts \<Rightarrow> int \<Rightarrow> ('w, goerr + hash) prog" where
  "NativeTokenRemoteUpgradeableTransactor_ReportBurnedTxFees c opts requiredGasLimit =
     contract_transact c opts ''reportBurnedTxFees'' [GBig requiredGasLimit]"

definition NativeTokenRemoteUpgradeableSession_ReportBurnedTxFees ::
  "'w session \<Rightarrow> int \<Rightarrow> ('w, goerr + hash) prog" where
  "NativeTokenRemoteUpgradeableSession_ReportBurnedTxFees s requiredGasLimit =
     NativeTokenRemoteUpgradeableTransactor_ReportBurnedTxFees (SessionContract s)
     (SessionTransactOpts s) requiredGasLimit"

definition NativeTokenRemoteUpgradeableTransactor_Send ::
  "'w bound_contract \<Rightarrow> TransactOpts \<Rightarrow> SendTokensInput \<Rightarrow> ('w, goerr + hash) prog" where
  "NativeTokenRemoteUpgradeableTransactor_Send c opts input_data =
     contract_transact c opts ''send'' [SendTokensInput_val input_data]"

definition NativeTokenRemoteUpgradeableSession_Send ::
  "'w session \<Rightarrow> SendTokensInput \<Rightarrow> ('w, goerr + hash) prog" where
  "NativeTokenRemoteUpgradeableSession_Send s input_data =
     NativeTokenRemoteUpgradeableTransactor_Send (SessionContract s) (SessionTransactOpts s)
     input_data"

definition NativeTokenRemoteUpgradeableTransactor_SendAndCall ::
  "'w bound_contract \<Rightarrow> TransactOpts \<Rightarrow> SendAndCallInput \<Rightarrow> ('w, goerr + hash) prog" where
  "NativeTokenRemoteUpgradeableTransactor_SendAndCall c opts input_data =
     contract_transact c opts ''sendAndCall'' [SendAndCallInput_val input_data]"

definition NativeTokenRemoteUpgradeableSession_SendAndCall ::
  "'w session \<Rightarrow> SendAndCallInput \<Rightarrow> ('w, goerr + hash) prog" where
  "NativeTokenRemoteUpgradeableSession_SendAndCall s input_data =
     NativeTokenRemoteUpgradeableTransactor_SendAndCall (SessionContract s) (SessionTransactOpts
     s) input_data"

definition NativeTokenRemoteUpgradeableCaller_Symbol ::
  "'w bound_contract \<Rightarrow> CallOpts \<Rightarrow> ('w, goerr + string) prog" where
  "NativeTokenRemoteUpgradeableCaller_Symbol c opts =
     call_method c opts ''symbol'' [] (out1 go_str)"

definition NativeTokenRemoteUpgradeableSession_Symbol ::
  "'w session \<Rightarrow> ('w, goerr + string) prog" where
  "NativeTokenRemoteUpgradeableSession_Symbol s = NativeTokenRemoteUpgradeableCaller_Symbol
     (SessionContract s) (SessionCallOpts s)"

definition NativeTokenRemoteUpgradeableCaller_TotalNativeAssetSupply ::
  "'w bound_contract \<Rightarrow> CallOpts \<Rightarrow> ('w, goerr + int) prog" where
  "NativeTokenRemoteUpgradeableCaller_TotalNativeAssetSupply c opts =
     call_method c opts ''totalNativeAssetSupply'' [] (out1 go_big)"

definition NativeTokenRemoteUpgradeableSession_TotalNativeAssetSupply ::
  "'w session \<Rightarrow> ('w, goerr + int) prog" where
  "NativeTokenRemoteUpgradeableSession_TotalNativeAssetSupply s =
     NativeTokenRemoteUpgradeableCaller_TotalNativeAssetSupply (SessionContract s)
     (SessionCallOpts s)"

definition NativeTokenRemoteUpgradeableCaller_TotalSupply ::
  "'w bound_contract \<Rightarrow> CallOpts \<Rightarrow> ('w, goerr + int) prog" where
  "NativeTokenRemoteUpgradeableCaller_TotalSupply c opts =
     call_method c opts ''totalSupply'' [] (out1 go_big)"

definition NativeTokenRemoteUpgradeableSession_TotalSupply ::
  "'w session \<Rightarrow> ('w, goerr + int) prog" where
  "NativeTokenRemoteUpgradeableSession_TotalSupply s =
     NativeTokenRemoteUpgradeableCaller_TotalSupply (SessionContract s) (SessionCallOpts s)"

definition NativeTokenRemoteUpgradeableTransactor_Transfer ::
  "'w bound_contract \<Rightarrow> TransactOpts \<Rightarrow> address \<Rightarrow> int \<Rightarrow> ('w, goerr + hash) prog" where
  "NativeTokenRemoteUpgradeableTransactor_Transfer c opts to_addr amount_value =
     contract_transact c opts ''transfer'' [GAddr to_addr, GBig amount_value]"

definition NativeTokenRemoteUpgradeableSession_Transfer ::
  "'w session \<Rightarrow> address \<Rightarrow> int \<Rightarrow> ('w, goerr + hash) prog" where
  "NativeTokenRemoteUpgradeableSession_Transfer s to_addr amount_value =
     NativeTokenRemoteUpgradeableTransactor_Transfer (SessionContract s) (SessionTransactOpts s)
     to_addr amount_value"

definition NativeTokenRemoteUpgradeableTransactor_TransferFrom ::
  "'w bound_contract \<Rightarrow> TransactOpts \<Rightarrow> address \<Rightarrow> address \<Rightarrow> int \<Rightarrow> ('w, goerr + hash) prog" where
  "NativeTokenRemoteUpgradeableTransactor_TransferFrom c opts from_addr to_addr amount_value =
     contract_transact c opts ''transferFrom'' [GAddr from_addr, GAddr to_addr, GBig
        amount_value]"

definition NativeTokenRemoteUpgradeableSession_TransferFrom ::
  "'w session \<Rightarrow> address \<Rightarrow> address \<Rightarrow> int \<Rightarrow> ('w, goerr + hash) prog" where
  "NativeTokenRemoteUpgradeableSession_TransferFrom s from_addr to_addr amount_value =
     NativeTokenRemoteUpgradeableTransactor_TransferFrom (SessionContract s)
     (SessionTransactOpts s) from_addr to_addr amount_value"

definition NativeTokenRemoteUpgradeableTransactor_TransferOwnership ::
  "'w bound_contract \<Rightarrow> TransactOpts \<Rightarrow> address \<Rightarrow> ('w, goerr + hash) prog" where
  "NativeTokenRemoteUpgradeableTransactor_TransferOwnership c opts newOwner =
     contract_transact c opts ''transferOwnership'' [GAddr newOwner]"

definition NativeTokenRemoteUpgradeableSession_TransferOwnership ::
  "'w session \<Rightarrow> address \<Rightarrow> ('w, goerr + hash) prog" where
  "NativeTokenRemoteUpgradeableSession_TransferOwnership s newOwner =
     NativeTokenRemoteUpgradeableTransactor_TransferOwnership (SessionContract s)
     (SessionTransactOpts s) newOwner"

definition NativeTokenRemoteUpgradeableTransactor_UnpauseTeleporterAddress ::
  "'w bound_contract \<Rightarrow> TransactOpts \<Rightarrow> address \<Rightarrow> ('w, goerr + hash) prog" where
  "NativeTokenRemoteUpgradeableTransactor_UnpauseTeleporterAddress c opts teleporterAddress =
     contract_transact c opts ''unpauseTeleporterAddress'' [GAddr teleporterAddress]"

definition NativeTokenRemoteUpgradeableSession_UnpauseTeleporterAddress ::
  "'w session \<Rightarrow> address \<Rightarrow> ('w, goerr + hash) prog" where
  "NativeTokenRemoteUpgradeableSession_UnpauseTeleporterAddress s teleporterAddress =
     NativeTokenRemoteUpgradeableTransactor_UnpauseTeleporterAddress (SessionContract s)
     (SessionTransactOpts s) teleporterAddress"

definition NativeTokenRemoteUpgradeableTransactor_UpdateMinTeleporterVersion ::
  "'w bound_contract \<Rightarrow> TransactOpts \<Rightarrow> int \<Rightarrow> ('w, goerr + hash) prog" where
  "NativeTokenRemoteUpgradeableTransactor_UpdateMinTeleporterVersion c opts version_number =
     contract_transact c opts ''updateMinTeleporterVersion'' [GBig version_number]"

definition NativeTokenRemoteUpgradeableSession_UpdateMinTeleporterVersion ::
  "'w session \<Rightarrow> int \<Rightarrow> ('w, goerr + hash) prog" where
  "NativeTokenRemoteUpgradeableSession_UpdateMinTeleporterVersion s version_number =
     NativeTokenRemoteUpgradeableTransactor_UpdateMinTeleporterVersion (SessionContract s)
     (SessionTransactOpts s) version_number"

definition NativeTokenRemoteUpgradeableTransactor_Withdraw ::
  "'w bound_contract \<Rightarrow> TransactOpts \<Rightarrow> int \<Rightarrow> ('w, goerr + hash) prog" where
  "NativeTokenRemoteUpgradeableTransactor_Withdraw c opts amount =
     contract_transact c opts ''withdraw'' [GBig amount]"

definition NativeTokenRemoteUpgradeableSession_Withdraw ::
  "'w session \<Rightarrow> int \<Rightarrow> ('w, goerr + hash) prog" where
  "NativeTokenRemoteUpgradeableSession_Withdraw s amount =
     NativeTokenRemoteUpgradeableTransactor_Withdraw (SessionContract s) (SessionTransactOpts s)
     amount"

definition NativeTokenRemoteUpgradeableTransactor_Fallback :: "'w bound_contract \<Rightarrow> TransactOpts
   \<Rightarrow> bytes \<Rightarrow> ('w, goerr + hash) prog" where
  "NativeTokenRemoteUpgradeableTransactor_Fallback c opts calldata = contract_raw_transact c
     opts calldata"

definition NativeTokenRemoteUpgradeableSession_Fallback :: "'w session \<Rightarrow> bytes \<Rightarrow> ('w, goerr +
   hash) prog" where
  "NativeTokenRemoteUpgradeableSession_Fallback s calldata =
     NativeTokenRemoteUpgradeableTransactor_Fallback (SessionContract s) (SessionTransactOpts s)
     calldata"

definition NativeTokenRemoteUpgradeableTransactor_Receive :: "'w bound_contract \<Rightarrow> TransactOpts \<Rightarrow>
   ('w, goerr + hash) prog" where
  "NativeTokenRemoteUpgradeableTransactor_Receive c opts = contract_raw_transact c opts []"

definition NativeTokenRemoteUpgradeableSession_Receive :: "'w session \<Rightarrow> ('w, goerr + hash) prog"
   where
  "NativeTokenRemoteUpgradeableSession_Receive s =
     NativeTokenRemoteUpgradeableTransactor_Receive (SessionContract s) (SessionTransactOpts s)"

section \<open>Events\<close>

definition NativeTokenRemoteUpgradeableApproval :: event_fields where
  "NativeTokenRemoteUpgradeableApproval = [(''Owner'', GAddr 0), (''Spender'', GAddr 0),
     (''Value'', GNil), (''Raw'', zero_Log)]"

definition NativeTokenRemoteUpgradeableApprovalIterator_Next ::
  "'w bound_contract \<Rightarrow> bool \<Rightarrow> iterator \<Rightarrow> (bool \<times> iterator) option" where
  "NativeTokenRemoteUpgradeableApprovalIterator_Next c pick it = iterator_Next (parse_log c
     ''Approval'' NativeTokenRemoteUpgradeableApproval) NativeTokenRemoteUpgradeableApproval
     pick it"

definition NativeTokenRemoteUpgradeableApprovalIterator_Error :: "iterator \<Rightarrow> goerr option" where
  "NativeTokenRemoteUpgradeableApprovalIterator_Error it = iterator_Error it"

definition NativeTokenRemoteUpgradeableApprovalIterator_Close :: "iterator \<Rightarrow> goerr option \<times>
   iterator" where
  "NativeTokenRemoteUpgradeableApprovalIterator_Close it = iterator_Close it"

definition NativeTokenRemoteUpgradeableFilterer_FilterApproval ::
  "'w bound_contract \<Rightarrow> FilterOpts \<Rightarrow> address list \<Rightarrow> address list \<Rightarrow> ('w, goerr + iterator) prog"
     where
  "NativeTokenRemoteUpgradeableFilterer_FilterApproval c opts owner spender =
     filter_events c opts ''Approval'' [map GAddr owner, map GAddr spender]"

definition NativeTokenRemoteUpgradeableFilterer_WatchApproval ::
  "'w bound_contract \<Rightarrow> address list \<Rightarrow> address list \<Rightarrow> ('w, goerr + (evm_log \<Rightarrow> goerr +
     event_fields)) prog" where
  "NativeTokenRemoteUpgradeableFilterer_WatchApproval c owner spender =
     watch_events c ''Approval'' NativeTokenRemoteUpgradeableApproval [map GAddr owner, map
        GAddr spender]"

definition NativeTokenRemoteUpgradeableFilterer_ParseApproval ::
  "'w bound_contract \<Rightarrow> evm_log \<Rightarrow> goerr + event_fields" where
  "NativeTokenRemoteUpgradeableFilterer_ParseApproval c = parse_log c ''Approval''
     NativeTokenRemoteUpgradeableApproval"

definition NativeTokenRemoteUpgradeableCallFailed :: event_fields where
  "NativeTokenRemoteUpgradeableCallFailed = [(''RecipientContract'', GAddr 0), (''Amount'',
     GNil), (''Raw'', zero_Log)]"

definition NativeTokenRemoteUpgradeableCallFailedIterator_Next ::
  "'w bound_contract \<Rightarrow> bool \<Rightarrow> iterator \<Rightarrow> (bool \<times> iterator) option" where
  "NativeTokenRemoteUpgradeableCallFailedIterator_Next c pick it = iterator_Next (parse_log c
     ''CallFailed'' NativeTokenRemoteUpgradeableCallFailed)
     NativeTokenRemoteUpgradeableCallFailed pick it"

definition NativeTokenRemoteUpgradeableCallFailedIterator_Error :: "iterator \<Rightarrow> goerr option"
   where
  "NativeTokenRemoteUpgradeableCallFailedIterator_Error it = iterator_Error it"

definition NativeTokenRemoteUpgradeableCallFailedIterator_Close :: "iterator \<Rightarrow> goerr option \<times>
   iterator" where
  "NativeTokenRemoteUpgradeableCallFailedIterator_Close it = iterator_Close it"

definition NativeTokenRemoteUpgradeableFilterer_FilterCallFailed ::
  "'w bound_contract \<Rightarrow> FilterOpts \<Rightarrow> address list \<Rightarrow> ('w, goerr + iterator) prog" where
  "NativeTokenRemoteUpgradeableFilterer_FilterCallFailed c opts recipientContract =
     filter_events c opts ''CallFailed'' [map GAddr recipientContract]"

definition NativeTokenRemoteUpgradeableFilterer_WatchCallFailed ::
  "'w bound_contract \<Rightarrow> address list \<Rightarrow> ('w, goerr + (evm_log \<Rightarrow> goerr + event_fields)) prog" where
  "NativeTokenRemoteUpgradeableFilterer_WatchCallFailed c recipientContract =
     watch_events c ''CallFailed'' NativeTokenRemoteUpgradeableCallFailed [map GAddr
        recipientContract]"

definition NativeTokenRemoteUpgradeableFilterer_ParseCallFailed ::
  "'w bound_contract \<Rightarrow> evm_log \<Rightarrow> goerr + event_fields" where
  "NativeTokenRemoteUpgradeableFilterer_ParseCallFailed c = parse_log c ''CallFailed''
     NativeTokenRemoteUpgradeableCallFailed"

definition NativeTokenRemoteUpgradeableCallSucceeded :: event_fields where
  "NativeTokenRemoteUpgradeableCallSucceeded = [(''RecipientContract'', GAddr 0), (''Amount'',
     GNil), (''Raw'', zero_Log)]"

definition NativeTokenRemoteUpgradeableCallSucceededIterator_Next ::
  "'w bound_contract \<Rightarrow> bool \<Rightarrow> iterator \<Rightarrow> (bool \<times> iterator) option" where
  "NativeTokenRemoteUpgradeableCallSucceededIterator_Next c pick it = iterator_Next (parse_log c
     ''CallSucceeded'' NativeTokenRemoteUpgradeableCallSucceeded)
     NativeTokenRemoteUpgradeableCallSucceeded pick it"

definition NativeTokenRemoteUpgradeableCallSucceededIterator_Error :: "iterator \<Rightarrow> goerr option"
   where
  "NativeTokenRemoteUpgradeableCallSucceededIterator_Error it = iterator_Error it"

definition NativeTokenRemoteUpgradeableCallSucceededIterator_Close :: "iterator \<Rightarrow> goerr option \<times>
   iterator" where
  "NativeTokenRemoteUpgradeableCallSucceededIterator_Close it = iterator_Close it"

definition NativeTokenRemoteUpgradeableFilterer_FilterCallSucceeded ::
  "'w bound_contract \<Rightarrow> FilterOpts \<Rightarrow> address list \<Rightarrow> ('w, goerr + iterator) prog" where
  "NativeTokenRemoteUpgradeableFilterer_FilterCallSucceeded c opts recipientContract =
     filter_events c opts ''CallSucceeded'' [map GAddr recipientContract]"

definition NativeTokenRemoteUpgradeableFilterer_WatchCallSucceeded ::
  "'w bound_contract \<Rightarrow> address list \<Rightarrow> ('w, goerr + (evm_log \<Rightarrow> goerr + event_fields)) prog" where
  "NativeTokenRemoteUpgradeableFilterer_WatchCallSucceeded c recipientContract =
     watch_events c ''CallSucceeded'' NativeTokenRemoteUpgradeableCallSucceeded [map GAddr
        recipientContract]"

definition NativeTokenRemoteUpgradeableFilterer_ParseCallSucceeded ::
  "'w bound_contract \<Rightarrow> evm_log \<Rightarrow> goerr + event_fields" where
  "NativeTokenRemoteUpgradeableFilterer_ParseCallSucceeded c = parse_log c ''CallSucceeded''
     NativeTokenRemoteUpgradeableCallSucceeded"

definition NativeTokenRemoteUpgradeableDeposit :: event_fields where
  "NativeTokenRemoteUpgradeableDeposit = [(''Sender'', GAddr 0), (''Amount'', GNil), (''Raw'',
     zero_Log)]"

definition NativeTokenRemoteUpgradeableDepositIterator_Next ::
  "'w bound_contract \<Rightarrow> bool \<Rightarrow> iterator \<Rightarrow> (bool \<times> iterator) option" where
  "NativeTokenRemoteUpgradeableDepositIterator_Next c pick it = iterator_Next (parse_log c
     ''Deposit'' NativeTokenRemoteUpgradeableDeposit) NativeTokenRemoteUpgradeableDeposit pick
     it"

definition NativeTokenRemoteUpgradeableDepositIterator_Error :: "iterator \<Rightarrow> goerr option" where
  "NativeTokenRemoteUpgradeableDepositIterator_Error it = iterator_Error it"

definition NativeTokenRemoteUpgradeableDepositIterator_Close :: "iterator \<Rightarrow> goerr option \<times>
   iterator" where
  "NativeTokenRemoteUpgradeableDepositIterator_Close it = iterator_Close it"

definition NativeTokenRemoteUpgradeableFilterer_FilterDeposit ::
  "'w bound_contract \<Rightarrow> FilterOpts \<Rightarrow> address list \<Rightarrow> ('w, goerr + iterator) prog" where
  "NativeTokenRemoteUpgradeableFilterer_FilterDeposit c opts sender =
     filter_events c opts ''Deposit'' [map GAddr sender]"

definition NativeTokenRemoteUpgradeableFilterer_WatchDeposit ::
  "'w bound_contract \<Rightarrow> address list \<Rightarrow> ('w, goerr + (evm_log \<Rightarrow> goerr + event_fields)) prog" where
  "NativeTokenRemoteUpgradeableFilterer_WatchDeposit c sender =
     watch_events c ''Deposit'' NativeTokenRemoteUpgradeableDeposit [map GAddr sender]"

definition NativeTokenRemoteUpgradeableFilterer_ParseDeposit ::
  "'w bound_contract \<Rightarrow> evm_log \<Rightarrow> goerr + event_fields" where
  "NativeTokenRemoteUpgradeableFilterer_ParseDeposit c = parse_log c ''Deposit''
     NativeTokenRemoteUpgradeableDeposit"

definition NativeTokenRemoteUpgradeableInitialized :: event_fields where
  "NativeTokenRemoteUpgradeableInitialized = [(''Version'', GUint 64 0), (''Raw'', zero_Log)]"

definition NativeTokenRemoteUpgradeableInitializedIterator_Next ::
  "'w bound_contract \<Rightarrow> bool \<Rightarrow> iterator \<Rightarrow> (bool \<times> iterator) option" where
  "NativeTokenRemoteUpgradeableInitializedIterator_Next c pick it = iterator_Next (parse_log c
     ''Initialized'' NativeTokenRemoteUpgradeableInitialized)
     NativeTokenRemoteUpgradeableInitialized pick it"

definition NativeTokenRemoteUpgradeableInitializedIterator_Error :: "iterator \<Rightarrow> goerr option"
   where
  "NativeTokenRemoteUpgradeableInitializedIterator_Error it = iterator_Error it"

definition NativeTokenRemoteUpgradeableInitializedIterator_Close :: "iterator \<Rightarrow> goerr option \<times>
   iterator" where
  "NativeTokenRemoteUpgradeableInitializedIterator_Close it = iterator_Close it"

definition NativeTokenRemoteUpgradeableFilterer_FilterInitialized ::
  "'w bound_contract \<Rightarrow> FilterOpts \<Rightarrow> ('w, goerr + iterator) prog" where
  "NativeTokenRemoteUpgradeableFilterer_FilterInitialized c opts =
     filter_events c opts ''Initialized'' []"

definition NativeTokenRemoteUpgradeableFilterer_WatchInitialized ::
  "'w bound_contract \<Rightarrow> ('w, goerr + (evm_log \<Rightarrow> goerr + event_fields)) prog" where
  "NativeTokenRemoteUpgradeableFilterer_WatchInitialized c =
     watch_events c ''Initialized'' NativeTokenRemoteUpgradeableInitialized []"

definition NativeTokenRemoteUpgradeableFilterer_ParseInitialized ::
  "'w bound_contract \<Rightarrow> evm_log \<Rightarrow> goerr + event_fields" where
  "NativeTokenRemoteUpgradeableFilterer_ParseInitialized c = parse_log c ''Initialized''
     NativeTokenRemoteUpgradeableInitialized"

definition NativeTokenRemoteUpgradeableMinTeleporterVersionUpdated :: event_fields where
  "NativeTokenRemoteUpgradeableMinTeleporterVersionUpdated = [(''OldMinTeleporterVersion'',
     GNil), (''NewMinTeleporterVersion'', GNil), (''Raw'', zero_Log)]"

definition NativeTokenRemoteUpgradeableMinTeleporterVersionUpdatedIterator_Next ::
  "'w bound_contract \<Rightarrow> bool \<Rightarrow> iterator \<Rightarrow> (bool \<times> iterator) option" where
  "NativeTokenRemoteUpgradeableMinTeleporterVersionUpdatedIterator_Next c pick it =
     iterator_Next (parse_log c ''MinTeleporterVersionUpdated''
     NativeTokenRemoteUpgradeableMinTeleporterVersionUpdated)
     NativeTokenRemoteUpgradeableMinTeleporterVersionUpdated pick it"

definition NativeTokenRemoteUpgradeableMinTeleporterVersionUpdatedIterator_Error :: "iterator \<Rightarrow>
   goerr option" where
  "NativeTokenRemoteUpgradeableMinTeleporterVersionUpdatedIterator_Error it = iterator_Error it"

definition NativeTokenRemoteUpgradeableMinTeleporterVersionUpdatedIterator_Close :: "iterator \<Rightarrow>
   goerr option \<times> iterator" where
  "NativeTokenRemoteUpgradeableMinTeleporterVersionUpdatedIterator_Close it = iterator_Close it"

definition NativeTokenRemoteUpgradeableFilterer_FilterMinTeleporterVersionUpdated ::
  "'w bound_contract \<Rightarrow> FilterOpts \<Rightarrow> int list \<Rightarrow> int list \<Rightarrow> ('w, goerr + iterator) prog" where
  "NativeTokenRemoteUpgradeableFilterer_FilterMinTeleporterVersionUpdated c opts
     oldMinTeleporterVersion newMinTeleporterVersion =
     filter_events c opts ''MinTeleporterVersionUpdated'' [map GBig oldMinTeleporterVersion, map
        GBig newMinTeleporterVersion]"

definition NativeTokenRemoteUpgradeableFilterer_WatchMinTeleporterVersionUpdated ::
  "'w bound_contract \<Rightarrow> int list \<Rightarrow> int list \<Rightarrow> ('w, goerr + (evm_log \<Rightarrow> goerr + event_fields))
     prog" where
  "NativeTokenRemoteUpgradeableFilterer_WatchMinTeleporterVersionUpdated c
     oldMinTeleporterVersion newMinTeleporterVersion =
     watch_events c ''MinTeleporterVersionUpdated''
        NativeTokenRemoteUpgradeableMinTeleporterVersionUpdated [map GBig
        oldMinTeleporterVersion, map GBig newMinTeleporterVersion]"

definition NativeTokenRemoteUpgradeableFilterer_ParseMinTeleporterVersionUpdated ::
  "'w bound_contract \<Rightarrow> evm_log \<Rightarrow> goerr + event_fields" where
  "NativeTokenRemoteUpgradeableFilterer_ParseMinTeleporterVersionUpdated c = parse_log c
     ''MinTeleporterVersionUpdated'' NativeTokenRemoteUpgradeableMinTeleporterVersionUpdated"

definition NativeTokenRemoteUpgradeableOwnershipTransferred :: event_fields where
  "NativeTokenRemoteUpgradeableOwnershipTransferred = [(''PreviousOwner'', GAddr 0),
     (''NewOwner'', GAddr 0), (''Raw'', zero_Log)]"

definition NativeTokenRemoteUpgradeableOwnershipTransferredIterator_Next ::
  "'w bound_contract \<Rightarrow> bool \<Rightarrow> iterator \<Rightarrow> (bool \<times> iterator) option" where
  "NativeTokenRemoteUpgradeableOwnershipTransferredIterator_Next c pick it = iterator_Next
     (parse_log c ''OwnershipTransferred'' NativeTokenRemoteUpgradeableOwnershipTransferred)
     NativeTokenRemoteUpgradeableOwnershipTransferred pick it"

definition NativeTokenRemoteUpgradeableOwnershipTransferredIterator_Error :: "iterator \<Rightarrow> goerr
   option" where
  "NativeTokenRemoteUpgradeableOwnershipTransferredIterator_Error it = iterator_Error it"

definition NativeTokenRemoteUpgradeableOwnershipTransferredIterator_Close :: "iterator \<Rightarrow> goerr
   option \<times> iterator" where
  "NativeTokenRemoteUpgradeableOwnershipTransferredIterator_Close it = iterator_Close it"

definition NativeTokenRemoteUpgradeableFilterer_FilterOwnershipTransferred ::
  "'w bound_contract \<Rightarrow> FilterOpts \<Rightarrow> address list \<Rightarrow> address list \<Rightarrow> ('w, goerr + iterator) prog"
     where
  "NativeTokenRemoteUpgradeableFilterer_FilterOwnershipTransferred c opts previousOwner newOwner
     =
     filter_events c opts ''OwnershipTransferred'' [map GAddr previousOwner, map GAddr
        newOwner]"

definition NativeTokenRemoteUpgradeableFilterer_WatchOwnershipTransferred ::
  "'w bound_contract \<Rightarrow> address list \<Rightarrow> address list \<Rightarrow> ('w, goerr + (evm_log \<Rightarrow> goerr +
     event_fields)) prog" where
  "NativeTokenRemoteUpgradeableFilterer_WatchOwnershipTransferred c previousOwner newOwner =
     watch_events c ''OwnershipTransferred'' NativeTokenRemoteUpgradeableOwnershipTransferred
        [map GAddr previousOwner, map GAddr newOwner]"

definition NativeTokenRemoteUpgradeableFilterer_ParseOwnershipTransferred ::
  "'w bound_contract \<Rightarrow> evm_log \<Rightarrow> goerr + event_fields" where
  "NativeTokenRemoteUpgradeableFilterer_ParseOwnershipTransferred c = parse_log c
     ''OwnershipTransferred'' NativeTokenRemoteUpgradeableOwnershipTransferred"

definition NativeTokenRemoteUpgradeableReportBurnedTxFees :: event_fields where
  "NativeTokenRemoteUpgradeableReportBurnedTxFees = [(''TeleporterMessageID'', GArr32 0),
     (''FeesBurned'', GNil), (''Raw'', zero_Log)]"

definition NativeTokenRemoteUpgradeableReportBurnedTxFeesIterator_Next ::
  "'w bound_contract \<Rightarrow> bool \<Rightarrow> iterator \<Rightarrow> (bool \<times> iterator) option" where
  "NativeTokenRemoteUpgradeableReportBurnedTxFeesIterator_Next c pick it = iterator_Next
     (parse_log c ''ReportBurnedTxFees'' NativeTokenRemoteUpgradeableReportBurnedTxFees)
     NativeTokenRemoteUpgradeableReportBurnedTxFees pick it"

definition NativeTokenRemoteUpgradeableReportBurnedTxFeesIterator_Error :: "iterator \<Rightarrow> goerr
   option" where
  "NativeTokenRemoteUpgradeableReportBurnedTxFeesIterator_Error it = iterator_Error it"

definition NativeTokenRemoteUpgradeableReportBurnedTxFeesIterator_Close :: "iterator \<Rightarrow> goerr
   option \<times> iterator" where
  "NativeTokenRemoteUpgradeableReportBurnedTxFeesIterator_Close it = iterator_Close it"

definition NativeTokenRemoteUpgradeableFilterer_FilterReportBurnedTxFees ::
  "'w bound_contract \<Rightarrow> FilterOpts \<Rightarrow> hash list \<Rightarrow> ('w, goerr + iterator) prog" where
  "NativeTokenRemoteUpgradeableFilterer_FilterReportBurnedTxFees c opts teleporterMessageID =
     filter_events c opts ''ReportBurnedTxFees'' [map GArr32 teleporterMessageID]"

definition NativeTokenRemoteUpgradeableFilterer_WatchReportBurnedTxFees ::
  "'w bound_contract \<Rightarrow> hash list \<Rightarrow> ('w, goerr + (evm_log \<Rightarrow> goerr + event_fields)) prog" where
  "NativeTokenRemoteUpgradeableFilterer_WatchReportBurnedTxFees c teleporterMessageID =
     watch_events c ''ReportBurnedTxFees'' NativeTokenRemoteUpgradeableReportBurnedTxFees [map
        GArr32 teleporterMessageID]"

definition NativeTokenRemoteUpgradeableFilterer_ParseReportBurnedTxFees ::
  "'w bound_contract \<Rightarrow> evm_log \<Rightarrow> goerr + event_fields" where
  "NativeTokenRemoteUpgradeableFilterer_ParseReportBurnedTxFees c = parse_log c
     ''ReportBurnedTxFees'' NativeTokenRemoteUpgradeableReportBurnedTxFees"

definition NativeTokenRemoteUpgradeableTeleporterAddressPaused :: event_fields where
  "NativeTokenRemoteUpgradeableTeleporterAddressPaused = [(''TeleporterAddress'', GAddr 0),
     (''Raw'', zero_Log)]"

definition NativeTokenRemoteUpgradeableTeleporterAddressPausedIterator_Next ::
  "'w bound_contract \<Rightarrow> bool \<Rightarrow> iterator \<Rightarrow> (bool \<times> iterator) option" where
  "NativeTokenRemoteUpgradeableTeleporterAddressPausedIterator_Next c pick it = iterator_Next
     (parse_log c ''TeleporterAddressPaused''
     NativeTokenRemoteUpgradeableTeleporterAddressPaused)
     NativeTokenRemoteUpgradeableTeleporterAddressPaused pick it"

definition NativeTokenRemoteUpgradeableTeleporterAddressPausedIterator_Error :: "iterator \<Rightarrow>
   goerr option" where
  "NativeTokenRemoteUpgradeableTeleporterAddressPausedIterator_Error it = iterator_Error it"

definition NativeTokenRemoteUpgradeableTeleporterAddressPausedIterator_Close :: "iterator \<Rightarrow>
   goerr option \<times> iterator" where
  "NativeTokenRemoteUpgradeableTeleporterAddressPausedIterator_Close it = iterator_Close it"

definition NativeTokenRemoteUpgradeableFilterer_FilterTeleporterAddressPaused ::
  "'w bound_contract \<Rightarrow> FilterOpts \<Rightarrow> address list \<Rightarrow> ('w, goerr + iterator) prog" where
  "NativeTokenRemoteUpgradeableFilterer_FilterTeleporterAddressPaused c opts teleporterAddress =
     filter_events c opts ''TeleporterAddressPaused'' [map GAddr teleporterAddress]"

definition NativeTokenRemoteUpgradeableFilterer_WatchTeleporterAddressPaused ::
  "'w bound_contract \<Rightarrow> address list \<Rightarrow> ('w, goerr + (evm_log \<Rightarrow> goerr + event_fields)) prog" where
  "NativeTokenRemoteUpgradeableFilterer_WatchTeleporterAddressPaused c teleporterAddress =
     watch_events c ''TeleporterAddressPaused''
        NativeTokenRemoteUpgradeableTeleporterAddressPaused [map GAddr teleporterAddress]"

definition NativeTokenRemoteUpgradeableFilterer_ParseTeleporterAddressPaused ::
  "'w bound_contract \<Rightarrow> evm_log \<Rightarrow> goerr + event_fields" where
  "NativeTokenRemoteUpgradeableFilterer_ParseTeleporterAddressPaused c = parse_log c
     ''TeleporterAddressPaused'' NativeTokenRemoteUpgradeableTeleporterAddressPaused"

definition NativeTokenRemoteUpgradeableTeleporterAddressUnpaused :: event_fields where
  "NativeTokenRemoteUpgradeableTeleporterAddressUnpaused = [(''TeleporterAddress'', GAddr 0),
     (''Raw'', zero_Log)]"

definition NativeTokenRemoteUpgradeableTeleporterAddressUnpausedIterator_Next ::
  "'w bound_contract \<Rightarrow> bool \<Rightarrow> iterator \<Rightarrow> (bool \<times> iterator) option" where
  "NativeTokenRemoteUpgradeableTeleporterAddressUnpausedIterator_Next c pick it = iterator_Next
     (parse_log c ''TeleporterAddressUnpaused''
     NativeTokenRemoteUpgradeableTeleporterAddressUnpaused)
     NativeTokenRemoteUpgradeableTeleporterAddressUnpaused pick it"

definition NativeTokenRemoteUpgradeableTeleporterAddressUnpausedIterator_Error :: "iterator \<Rightarrow>
   goerr option" where
  "NativeTokenRemoteUpgradeableTeleporterAddressUnpausedIterator_Error it = iterator_Error it"

definition NativeTokenRemoteUpgradeableTeleporterAddressUnpausedIterator_Close :: "iterator \<Rightarrow>
   goerr option \<times> iterator" where
  "NativeTokenRemoteUpgradeableTeleporterAddressUnpausedIterator_Close it = iterator_Close it"

definition NativeTokenRemoteUpgradeableFilterer_FilterTeleporterAddressUnpaused ::
  "'w bound_contract \<Rightarrow> FilterOpts \<Rightarrow> address list \<Rightarrow> ('w, goerr + iterator) prog" where
  "NativeTokenRemoteUpgradeableFilterer_FilterTeleporterAddressUnpaused c opts teleporterAddress
     =
     filter_events c opts ''TeleporterAddressUnpaused'' [map GAddr teleporterAddress]"

definition NativeTokenRemoteUpgradeableFilterer_WatchTeleporterAddressUnpaused ::
  "'w bound_contract \<Rightarrow> address list \<Rightarrow> ('w, goerr + (evm_log \<Rightarrow> goerr + event_fields)) prog" where
  "NativeTokenRemoteUpgradeableFilterer_WatchTeleporterAddressUnpaused c teleporterAddress =
     watch_events c ''TeleporterAddressUnpaused''
        NativeTokenRemoteUpgradeableTeleporterAddressUnpaused [map GAddr teleporterAddress]"

definition NativeTokenRemoteUpgradeableFilterer_ParseTeleporterAddressUnpaused ::
  "'w bound_contract \<Rightarrow> evm_log \<Rightarrow> goerr + event_fields" where
  "NativeTokenRemoteUpgradeableFilterer_ParseTeleporterAddressUnpaused c = parse_log c
     ''TeleporterAddressUnpaused'' NativeTokenRemoteUpgradeableTeleporterAddressUnpaused"

definition NativeTokenRemoteUpgradeableTokensAndCallSent :: event_fields where
  "NativeTokenRemoteUpgradeableTokensAndCallSent = [(''TeleporterMessageID'', GArr32 0),
     (''Sender'', GAddr 0), (''Input'', zero_SendAndCallInput), (''Amount'', GNil), (''Raw'',
     zero_Log)]"

definition NativeTokenRemoteUpgradeableTokensAndCallSentIterator_Next ::
  "'w bound_contract \<Rightarrow> bool \<Rightarrow> iterator \<Rightarrow> (bool \<times> iterator) option" where
  "NativeTokenRemoteUpgradeableTokensAndCallSentIterator_Next c pick it = iterator_Next
     (parse_log c ''TokensAndCallSent'' NativeTokenRemoteUpgradeableTokensAndCallSent)
     NativeTokenRemoteUpgradeableTokensAndCallSent pick it"

definition NativeTokenRemoteUpgradeableTokensAndCallSentIterator_Error :: "iterator \<Rightarrow> goerr
   option" where
  "NativeTokenRemoteUpgradeableTokensAndCallSentIterator_Error it = iterator_Error it"

definition NativeTokenRemoteUpgradeableTokensAndCallSentIterator_Close :: "iterator \<Rightarrow> goerr
   option \<times> iterator" where
  "NativeTokenRemoteUpgradeableTokensAndCallSentIterator_Close it = iterator_Close it"

definition NativeTokenRemoteUpgradeableFilterer_FilterTokensAndCallSent ::
  "'w bound_contract \<Rightarrow> FilterOpts \<Rightarrow> hash list \<Rightarrow> address list \<Rightarrow> ('w, goerr + iterator) prog"
     where
  "NativeTokenRemoteUpgradeableFilterer_FilterTokensAndCallSent c opts teleporterMessageID
     sender =
     filter_events c opts ''TokensAndCallSent'' [map GArr32 teleporterMessageID, map GAddr
        sender]"

definition NativeTokenRemoteUpgradeableFilterer_WatchTokensAndCallSent ::
  "'w bound_contract \<Rightarrow> hash list \<Rightarrow> address list \<Rightarrow> ('w, goerr + (evm_log \<Rightarrow> goerr + event_fields))
     prog" where
  "NativeTokenRemoteUpgradeableFilterer_WatchTokensAndCallSent c teleporterMessageID sender =
     watch_events c ''TokensAndCallSent'' NativeTokenRemoteUpgradeableTokensAndCallSent [map
        GArr32 teleporterMessageID, map GAddr sender]"

definition NativeTokenRemoteUpgradeableFilterer_ParseTokensAndCallSent ::
  "'w bound_contract \<Rightarrow> evm_log \<Rightarrow> goerr + event_fields" where
  "NativeTokenRemoteUpgradeableFilterer_ParseTokensAndCallSent c = parse_log c
     ''TokensAndCallSent'' NativeTokenRemoteUpgradeableTokensAndCallSent"

definition NativeTokenRemoteUpgradeableTokensSent :: event_fields where
  "NativeTokenRemoteUpgradeableTokensSent = [(''TeleporterMessageID'', GArr32 0), (''Sender'',
     GAddr 0), (''Input'', zero_SendTokensInput), (''Amount'', GNil), (''Raw'', zero_Log)]"

definition NativeTokenRemoteUpgradeableTokensSentIterator_Next ::
  "'w bound_contract \<Rightarrow> bool \<Rightarrow> iterator \<Rightarrow> (bool \<times> iterator) option" where
  "NativeTokenRemoteUpgradeableTokensSentIterator_Next c pick it = iterator_Next (parse_log c
     ''TokensSent'' NativeTokenRemoteUpgradeableTokensSent)
     NativeTokenRemoteUpgradeableTokensSent pick it"

definition NativeTokenRemoteUpgradeableTokensSentIterator_Error :: "iterator \<Rightarrow> goerr option"
   where
  "NativeTokenRemoteUpgradeableTokensSentIterator_Error it = iterator_Error it"

definition NativeTokenRemoteUpgradeableTokensSentIterator_Close :: "iterator \<Rightarrow> goerr option \<times>
   iterator" where
  "NativeTokenRemoteUpgradeableTokensSentIterator_Close it = iterator_Close it"

definition NativeTokenRemoteUpgradeableFilterer_FilterTokensSent ::
  "'w bound_contract \<Rightarrow> FilterOpts \<Rightarrow> hash list \<Rightarrow> address list \<Rightarrow> ('w, goerr + iterator) prog"
     where
  "NativeTokenRemoteUpgradeableFilterer_FilterTokensSent c opts teleporterMessageID sender =
     filter_events c opts ''TokensSent'' [map GArr32 teleporterMessageID, map GAddr sender]"

definition NativeTokenRemoteUpgradeableFilterer_WatchTokensSent ::
  "'w bound_contract \<Rightarrow> hash list \<Rightarrow> address list \<Rightarrow> ('w, goerr + (evm_log \<Rightarrow> goerr + event_fields))
     prog" where
  "NativeTokenRemoteUpgradeableFilterer_WatchTokensSent c teleporterMessageID sender =
     watch_events c ''TokensSent'' NativeTokenRemoteUpgradeableTokensSent [map GArr32
        teleporterMessageID, map GAddr sender]"

definition NativeTokenRemoteUpgradeableFilterer_ParseTokensSent ::
  "'w bound_contract \<Rightarrow> evm_log \<Rightarrow> goerr + event_fields" where
  "NativeTokenRemoteUpgradeableFilterer_ParseTokensSent c = parse_log c ''TokensSent''
     NativeTokenRemoteUpgradeableTokensSent"

definition NativeTokenRemoteUpgradeableTokensWithdrawn :: event_fields where
  "NativeTokenRemoteUpgradeableTokensWithdrawn = [(''Recipient'', GAddr 0), (''Amount'', GNil),
     (''Raw'', zero_Log)]"

definition NativeTokenRemoteUpgradeableTokensWithdrawnIterator_Next ::
  "'w bound_contract \<Rightarrow> bool \<Rightarrow> iterator \<Rightarrow> (bool \<times> iterator) option" where
  "NativeTokenRemoteUpgradeableTokensWithdrawnIterator_Next c pick it = iterator_Next (parse_log
     c ''TokensWithdrawn'' NativeTokenRemoteUpgradeableTokensWithdrawn)
     NativeTokenRemoteUpgradeableTokensWithdrawn pick it"

definition NativeTokenRemoteUpgradeableTokensWithdrawnIterator_Error :: "iterator \<Rightarrow> goerr
   option" where
  "NativeTokenRemoteUpgradeableTokensWithdrawnIterator_Error it = iterator_Error it"

definition NativeTokenRemoteUpgradeableTokensWithdrawnIterator_Close :: "iterator \<Rightarrow> goerr option
   \<times> iterator" where
  "NativeTokenRemoteUpgradeableTokensWithdrawnIterator_Close it = iterator_Close it"

definition NativeTokenRemoteUpgradeableFilterer_FilterTokensWithdrawn ::
  "'w bound_contract \<Rightarrow> FilterOpts \<Rightarrow> address list \<Rightarrow> ('w, goerr + iterator) prog" where
  "NativeTokenRemoteUpgradeableFilterer_FilterTokensWithdrawn c opts recipient =
     filter_events c opts ''TokensWithdrawn'' [map GAddr recipient]"

definition NativeTokenRemoteUpgradeableFilterer_WatchTokensWithdrawn ::
  "'w bound_contract \<Rightarrow> address list \<Rightarrow> ('w, goerr + (evm_log \<Rightarrow> goerr + event_fields)) prog" where
  "NativeTokenRemoteUpgradeableFilterer_WatchTokensWithdrawn c recipient =
     watch_events c ''TokensWithdrawn'' NativeTokenRemoteUpgradeableTokensWithdrawn [map GAddr
        recipient]"

definition NativeTokenRemoteUpgradeableFilterer_ParseTokensWithdrawn ::
  "'w bound_contract \<Rightarrow> evm_log \<Rightarrow> goerr + event_fields" where
  "NativeTokenRemoteUpgradeableFilterer_ParseTokensWithdrawn c = parse_log c ''TokensWithdrawn''
     NativeTokenRemoteUpgradeableTokensWithdrawn"

definition NativeTokenRemoteUpgradeableTransfer :: event_fields where
  "NativeTokenRemoteUpgradeableTransfer = [(''From'', GAddr 0), (''To'', GAddr 0), (''Value'',
     GNil), (''Raw'', zero_Log)]"

definition NativeTokenRemoteUpgradeableTransferIterator_Next ::
  "'w bound_contract \<Rightarrow> bool \<Rightarrow> iterator \<Rightarrow> (bool \<times> iterator) option" where
  "NativeTokenRemoteUpgradeableTransferIterator_Next c pick it = iterator_Next (parse_log c
     ''Transfer'' NativeTokenRemoteUpgradeableTransfer) NativeTokenRemoteUpgradeableTransfer
     pick it"

definition NativeTokenRemoteUpgradeableTransferIterator_Error :: "iterator \<Rightarrow> goerr option" where
  "NativeTokenRemoteUpgradeableTransferIterator_Error it = iterator_Error it"

definition NativeTokenRemoteUpgradeableTransferIterator_Close :: "iterator \<Rightarrow> goerr option \<times>
   iterator" where
  "NativeTokenRemoteUpgradeableTransferIterator_Close it = iterator_Close it"

definition NativeTokenRemoteUpgradeableFilterer_FilterTransfer ::
  "'w bound_contract \<Rightarrow> FilterOpts \<Rightarrow> address list \<Rightarrow> address list \<Rightarrow> ('w, goerr + iterator) prog"
     where
  "NativeTokenRemoteUpgradeableFilterer_FilterTransfer c opts from_addr to_addr =
     filter_events c opts ''Transfer'' [map GAddr from_addr, map GAddr to_addr]"

definition NativeTokenRemoteUpgradeableFilterer_WatchTransfer ::
  "'w bound_contract \<Rightarrow> address list \<Rightarrow> address list \<Rightarrow> ('w, goerr + (evm_log \<Rightarrow> goerr +
     event_fields)) prog" where
  "NativeTokenRemoteUpgradeableFilterer_WatchTransfer c from_addr to_addr =
     watch_events c ''Transfer'' NativeTokenRemoteUpgradeableTransfer [map GAddr from_addr, map
        GAddr to_addr]"

definition NativeTokenRemoteUpgradeableFilterer_ParseTransfer ::
  "'w bound_contract \<Rightarrow> evm_log \<Rightarrow> goerr + event_fields" where
  "NativeTokenRemoteUpgradeableFilterer_ParseTransfer c = parse_log c ''Transfer''
     NativeTokenRemoteUpgradeableTransfer"

definition NativeTokenRemoteUpgradeableWithdrawal :: event_fields where
  "NativeTokenRemoteUpgradeableWithdrawal = [(''Sender'', GAddr 0), (''Amount'', GNil),
     (''Raw'', zero_Log)]"

definition NativeTokenRemoteUpgradeableWithdrawalIterator_Next ::
  "'w bound_contract \<Rightarrow> bool \<Rightarrow> iterator \<Rightarrow> (bool \<times> iterator) option" where
  "NativeTokenRemoteUpgradeableWithdrawalIterator_Next c pick it = iterator_Next (parse_log c
     ''Withdrawal'' NativeTokenRemoteUpgradeableWithdrawal)
     NativeTokenRemoteUpgradeableWithdrawal pick it"

definition NativeTokenRemoteUpgradeableWithdrawalIterator_Error :: "iterator \<Rightarrow> goerr option"
   where
  "NativeTokenRemoteUpgradeableWithdrawalIterator_Error it = iterator_Error it"

definition NativeTokenRemoteUpgradeableWithdrawalIterator_Close :: "iterator \<Rightarrow> goerr option \<times>
   iterator" where
  "NativeTokenRemoteUpgradeableWithdrawalIterator_Close it = iterator_Close it"

definition NativeTokenRemoteUpgradeableFilterer_FilterWithdrawal ::
  "'w bound_contract \<Rightarrow> FilterOpts \<Rightarrow> address list \<Rightarrow> ('w, goerr + iterator) prog" where
  "NativeTokenRemoteUpgradeableFilterer_FilterWithdrawal c opts sender =
     filter_events c opts ''Withdrawal'' [map GAddr sender]"

definition NativeTokenRemoteUpgradeableFilterer_WatchWithdrawal ::
  "'w bound_contract \<Rightarrow> address list \<Rightarrow> ('w, goerr + (evm_log \<Rightarrow> goerr + event_fields)) prog" where
  "NativeTokenRemoteUpgradeableFilterer_WatchWithdrawal c sender =
     watch_events c ''Withdrawal'' NativeTokenRemoteUpgradeableWithdrawal [map GAddr sender]"

definition NativeTokenRemoteUpgradeableFilterer_ParseWithdrawal ::
  "'w bound_contract \<Rightarrow> evm_log \<Rightarrow> goerr + event_fields" where
  "NativeTokenRemoteUpgradeableFilterer_ParseWithdrawal c = parse_log c ''Withdrawal''
     NativeTokenRemoteUpgradeableWithdrawal"

section \<open>Correctness\<close>

lemma NativeTokenRemoteUpgradeable_methods:
  "map_of (Methods NativeTokenRemoteUpgradeableABI) ''BURNED_FOR_TRANSFER_ADDRESS'' =
     Some ([], [([], TAddress)])"
  "map_of (Methods NativeTokenRemoteUpgradeableABI) ''BURNED_TX_FEES_ADDRESS'' =
     Some ([], [([], TAddress)])"
  "map_of (Methods NativeTokenRemoteUpgradeableABI) ''HOME_CHAIN_BURN_ADDRESS'' =
     Some ([], [([], TAddress)])"
  "map_of (Methods NativeTokenRemoteUpgradeableABI) ''MULTI_HOP_CALL_GAS_PER_WORD'' =
     Some ([], [([], TUint 256)])"
  "map_of (Methods NativeTokenRemoteUpgradeableABI) ''MULTI_HOP_CALL_REQUIRED_GAS'' =
     Some ([], [([], TUint 256)])"
  "map_of (Methods NativeTokenRemoteUpgradeableABI) ''MULTI_HOP_SEND_REQUIRED_GAS'' =
     Some ([], [([], TUint 256)])"
  "map_of (Methods NativeTokenRemoteUpgradeableABI) ''NATIVE_MINTER'' =
     Some ([], [([], TAddress)])"
  "map_of (Methods NativeTokenRemoteUpgradeableABI) ''NATIVE_TOKEN_REMOTE_STORAGE_LOCATION'' =
     Some ([], [([], TBytes32)])"
  "map_of (Methods NativeTokenRemoteUpgradeableABI) ''REGISTER_REMOTE_REQUIRED_GAS'' =
     Some ([], [([], TUint 256)])"
  "map_of (Methods NativeTokenRemoteUpgradeableABI) ''TELEPORTER_REGISTRY_APP_STORAGE_LOCATION''
     =
     Some ([], [([], TBytes32)])"
  "map_of (Methods NativeTokenRemoteUpgradeableABI) ''TOKEN_REMOTE_STORAGE_LOCATION'' =
     Some ([], [([], TBytes32)])"
  "map_of (Methods NativeTokenRemoteUpgradeableABI) ''allowance'' =
     Some ([(''owner'', TAddress), (''spender'', TAddress)], [([], TUint 256)])"
  "map_of (Methods NativeTokenRemoteUpgradeableABI) ''approve'' =
     Some ([(''spender'', TAddress), (''value'', TUint 256)], [([], TBool)])"
  "map_of (Methods NativeTokenRemoteUpgradeableABI) ''balanceOf'' =
     Some ([(''account'', TAddress)], [([], TUint 256)])"
  "map_of (Methods NativeTokenRemoteUpgradeableABI) ''calculateNumWords'' =
     Some ([(''payloadSize'', TUint 256)], [([], TUint 256)])"
  "map_of (Methods NativeTokenRemoteUpgradeableABI) ''decimals'' =
     Some ([], [([], TUint 8)])"
  "map_of (Methods NativeTokenRemoteUpgradeableABI) ''deposit'' =
     Some ([], [])"
  "map_of (Methods NativeTokenRemoteUpgradeableABI) ''getBlockchainID'' =
     Some ([], [([], TBytes32)])"
  "map_of (Methods NativeTokenRemoteUpgradeableABI) ''getInitialReserveImbalance'' =
     Some ([], [([], TUint 256)])"
  "map_of (Methods NativeTokenRemoteUpgradeableABI) ''getIsCollateralized'' =
     Some ([], [([], TBool)])"
  "map_of (Methods NativeTokenRemoteUpgradeableABI) ''getMinTeleporterVersion'' =
     Some ([], [([], TUint 256)])"
  "map_of (Methods NativeTokenRemoteUpgradeableABI) ''getMultiplyOnRemote'' =
     Some ([], [([], TBool)])"
  "map_of (Methods NativeTokenRemoteUpgradeableABI) ''getTokenHomeAddress'' =
     Some ([], [([], TAddress)])"
  "map_of (Methods NativeTokenRemoteUpgradeableABI) ''getTokenHomeBlockchainID'' =
     Some ([], [([], TBytes32)])"
  "map_of (Methods NativeTokenRemoteUpgradeableABI) ''getTokenMultiplier'' =
     Some ([], [([], TUint 256)])"
  "map_of (Methods NativeTokenRemoteUpgradeableABI) ''getTotalMinted'' =
     Some ([], [([], TUint 256)])"
  "map_of (Methods NativeTokenRemoteUpgradeableABI) ''initialize'' =
     Some ([(''settings'', TokenRemoteSettings_tuple), (''nativeAssetSymbol'', TString),
        (''initialReserveImbalance'', TUint 256), (''burnedFeesReportingRewardPercentage'',
        TUint 256)], [])"
  "map_of (Methods NativeTokenRemoteUpgradeableABI) ''isTeleporterAddressPaused'' =
     Some ([(''teleporterAddress'', TAddress)], [([], TBool)])"
  "map_of (Methods NativeTokenRemoteUpgradeableABI) ''name'' =
     Some ([], [([], TString)])"
  "map_of (Methods NativeTokenRemoteUpgradeableABI) ''owner'' =
     Some ([], [([], TAddress)])"
  "map_of (Methods NativeTokenRemoteUpgradeableABI) ''pauseTeleporterAddress'' =
     Some ([(''teleporterAddress'', TAddress)], [])"
  "map_of (Methods NativeTokenRemoteUpgradeableABI) ''receiveTeleporterMessage'' =
     Some ([(''sourceBlockchainID'', TBytes32), (''originSenderAddress'', TAddress),
        (''message'', TBytes)], [])"
  "map_of (Methods NativeTokenRemoteUpgradeableABI) ''registerWithHome'' =
     Some ([(''feeInfo'', fee_info_tuple)], [])"
  "map_of (Methods NativeTokenRemoteUpgradeableABI) ''renounceOwnership'' =
     Some ([], [])"
  "map_of (Methods NativeTokenRemoteUpgradeableABI) ''reportBurnedTxFees'' =
     Some ([(''requiredGasLimit'', TUint 256)], [])"
  "map_of (Methods NativeTokenRemoteUpgradeableABI) ''send'' =
     Some ([(''input'', SendTokensInput_tuple)], [])"
  "map_of (Methods NativeTokenRemoteUpgradeableABI) ''sendAndCall'' =
     Some ([(''input'', SendAndCallInput_tuple)], [])"
  "map_of (Methods NativeTokenRemoteUpgradeableABI) ''symbol'' =
     Some ([], [([], TString)])"
  "map_of (Methods NativeTokenRemoteUpgradeableABI) ''totalNativeAssetSupply'' =
     Some ([], [([], TUint 256)])"
  "map_of (Methods NativeTokenRemoteUpgradeableABI) ''totalSupply'' =
     Some ([], [([], TUint 256)])"
  "map_of (Methods NativeTokenRemoteUpgradeableABI) ''transfer'' =
     Some ([(''to'', TAddress), (''value'', TUint 256)], [([], TBool)])"
  "map_of (Methods NativeTokenRemoteUpgradeableABI) ''transferFrom'' =
     Some ([(''from'', TAddress), (''to'', TAddress), (''value'', TUint 256)], [([], TBool)])"
  "map_of (Methods NativeTokenRemoteUpgradeableABI) ''transferOwnership'' =
     Some ([(''newOwner'', TAddress)], [])"
  "map_of (Methods NativeTokenRemoteUpgradeableABI) ''unpauseTeleporterAddress'' =
     Some ([(''teleporterAddress'', TAddress)], [])"
  "map_of (Methods NativeTokenRemoteUpgradeableABI) ''updateMinTeleporterVersion'' =
     Some ([(''version'', TUint 256)], [])"
  "map_of (Methods NativeTokenRemoteUpgradeableABI) ''withdraw'' =
     Some ([(''amount'', TUint 256)], [])"
  unfolding NativeTokenRemoteUpgradeableABI_def contract_abi.select_convs
  by (simp_all only: table_lookup)

lemma NativeTokenRemoteUpgradeable_decodable:
  "decodable [(''owner'', TAddress, True), (''spender'', TAddress, True), (''value'', TUint 256,
     False)]
     NativeTokenRemoteUpgradeableApproval"
  "decodable [(''recipientContract'', TAddress, True), (''amount'', TUint 256, False)]
     NativeTokenRemoteUpgradeableCallFailed"
  "decodable [(''recipientContract'', TAddress, True), (''amount'', TUint 256, False)]
     NativeTokenRemoteUpgradeableCallSucceeded"
  "decodable [(''sender'', TAddress, True), (''amount'', TUint 256, False)]
     NativeTokenRemoteUpgradeableDeposit"
  "decodable [(''version'', TUint 64, False)]
     NativeTokenRemoteUpgradeableInitialized"
  "decodable [(''oldMinTeleporterVersion'', TUint 256, True), (''newMinTeleporterVersion'',
     TUint 256, True)]
     NativeTokenRemoteUpgradeableMinTeleporterVersionUpdated"
  "decodable [(''previousOwner'', TAddress, True), (''newOwner'', TAddress, True)]
     NativeTokenRemoteUpgradeableOwnershipTransferred"
  "decodable [(''teleporterMessageID'', TBytes32, True), (''feesBurned'', TUint 256, False)]
     NativeTokenRemoteUpgradeableReportBurnedTxFees"
  "decodable [(''teleporterAddress'', TAddress, True)]
     NativeTokenRemoteUpgradeableTeleporterAddressPaused"
  "decodable [(''teleporterAddress'', TAddress, True)]
     NativeTokenRemoteUpgradeableTeleporterAddressUnpaused"
  "decodable [(''teleporterMessageID'', TBytes32, True), (''sender'', TAddress, True),
     (''input'', SendAndCallInput_tuple, False), (''amount'', TUint 256, False)]
     NativeTokenRemoteUpgradeableTokensAndCallSent"
  "decodable [(''teleporterMessageID'', TBytes32, True), (''sender'', TAddress, True),
     (''input'', SendTokensInput_tuple, False), (''amount'', TUint 256, False)]
     NativeTokenRemoteUpgradeableTokensSent"
  "decodable [(''recipient'', TAddress, True), (''amount'', TUint 256, False)]
     NativeTokenRemoteUpgradeableTokensWithdrawn"
  "decodable [(''from'', TAddress, True), (''to'', TAddress, True), (''value'', TUint 256,
     False)]
     NativeTokenRemoteUpgradeableTransfer"
  "decodable [(''sender'', TAddress, True), (''amount'', TUint 256, False)]
     NativeTokenRemoteUpgradeableWithdrawal"
  by (simp_all add: decodable_def has_fields_def fits_def
     NativeTokenRemoteUpgradeableApproval_def NativeTokenRemoteUpgradeableCallFailed_def
     NativeTokenRemoteUpgradeableCallSucceeded_def NativeTokenRemoteUpgradeableDeposit_def
     NativeTokenRemoteUpgradeableInitialized_def
     NativeTokenRemoteUpgradeableMinTeleporterVersionUpdated_def
     NativeTokenRemoteUpgradeableOwnershipTransferred_def
     NativeTokenRemoteUpgradeableReportBurnedTxFees_def
     NativeTokenRemoteUpgradeableTeleporterAddressPaused_def
     NativeTokenRemoteUpgradeableTeleporterAddressUnpaused_def
     NativeTokenRemoteUpgradeableTokensAndCallSent_def
     NativeTokenRemoteUpgradeableTokensSent_def NativeTokenRemoteUpgradeableTokensWithdrawn_def
     NativeTokenRemoteUpgradeableTransfer_def NativeTokenRemoteUpgradeableWithdrawal_def
     SendAndCallInput_tuple_def SendTokensInput_tuple_def)

lemma NativeTokenRemoteUpgradeable_events:
  "map_of (Events NativeTokenRemoteUpgradeableABI) ''Approval'' =
     Some [(''owner'', TAddress, True), (''spender'', TAddress, True), (''value'', TUint 256,
        False)]"
  "map_of (Events NativeTokenRemoteUpgradeableABI) ''CallFailed'' =
     Some [(''recipientContract'', TAddress, True), (''amount'', TUint 256, False)]"
  "map_of (Events NativeTokenRemoteUpgradeableABI) ''CallSucceeded'' =
     Some [(''recipientContract'', TAddress, True), (''amount'', TUint 256, False)]"
  "map_of (Events NativeTokenRemoteUpgradeableABI) ''Deposit'' =
     Some [(''sender'', TAddress, True), (''amount'', TUint 256, False)]"
  "map_of (Events NativeTokenRemoteUpgradeableABI) ''Initialized'' =
     Some [(''version'', TUint 64, False)]"
  "map_of (Events NativeTokenRemoteUpgradeableABI) ''MinTeleporterVersionUpdated'' =
     Some [(''oldMinTeleporterVersion'', TUint 256, True), (''newMinTeleporterVersion'', TUint
        256, True)]"
  "map_of (Events NativeTokenRemoteUpgradeableABI) ''OwnershipTransferred'' =
     Some [(''previousOwner'', TAddress, True), (''newOwner'', TAddress, True)]"
  "map_of (Events NativeTokenRemoteUpgradeableABI) ''ReportBurnedTxFees'' =
     Some [(''teleporterMessageID'', TBytes32, True), (''feesBurned'', TUint 256, False)]"
  "map_of (Events NativeTokenRemoteUpgradeableABI) ''TeleporterAddressPaused'' =
     Some [(''teleporterAddress'', TAddress, True)]"
  "map_of (Events NativeTokenRemoteUpgradeableABI) ''TeleporterAddressUnpaused'' =
     Some [(''teleporterAddress'', TAddress, True)]"
  "map_of (Events NativeTokenRemoteUpgradeableABI) ''TokensAndCallSent'' =
     Some [(''teleporterMessageID'', TBytes32, True), (''sender'', TAddress, True), (''input'',
        SendAndCallInput_tuple, False), (''amount'', TUint 256, False)]"
  "map_of (Events NativeTokenRemoteUpgradeableABI) ''TokensSent'' =
     Some [(''teleporterMessageID'', TBytes32, True), (''sender'', TAddress, True), (''input'',
        SendTokensInput_tuple, False), (''amount'', TUint 256, False)]"
  "map_of (Events NativeTokenRemoteUpgradeableABI) ''TokensWithdrawn'' =
     Some [(''recipient'', TAddress, True), (''amount'', TUint 256, False)]"
  "map_of (Events NativeTokenRemoteUpgradeableABI) ''Transfer'' =
     Some [(''from'', TAddress, True), (''to'', TAddress, True), (''value'', TUint 256, False)]"
  "map_of (Events NativeTokenRemoteUpgradeableABI) ''Withdrawal'' =
     Some [(''sender'', TAddress, True), (''amount'', TUint 256, False)]"
  unfolding NativeTokenRemoteUpgradeableABI_def contract_abi.select_convs
  by (simp_all only: table_lookup)

lemma NativeTokenRemoteUpgradeable_transactions_decode:
  assumes "codec_methods k" and "codec_roundtrip k" and "bound_spec k
     NativeTokenRemoteUpgradeableABI be c"
  shows "(\<forall>spender amount_value. in_uint256 amount_value \<longrightarrow> sends_call k
     NativeTokenRemoteUpgradeableABI be opts ''approve'' [GAddr spender, GBig amount_value]
       (NativeTokenRemoteUpgradeableTransactor_Approve c opts spender amount_value)) \<and>
     sends_call k NativeTokenRemoteUpgradeableABI be opts ''deposit'' []
       (NativeTokenRemoteUpgradeableTransactor_Deposit c opts) \<and>
     (\<forall>settings nativeAssetSymbol initialReserveImbalance burnedFeesReportingRewardPercentage.
        TokenRemoteSettings_ok settings \<longrightarrow> in_uint256 initialReserveImbalance \<longrightarrow> in_uint256
        burnedFeesReportingRewardPercentage \<longrightarrow> sends_call k NativeTokenRemoteUpgradeableABI be
        opts ''initialize'' [TokenRemoteSettings_val settings, GStr nativeAssetSymbol, GBig
        initialReserveImbalance, GBig burnedFeesReportingRewardPercentage]
       (NativeTokenRemoteUpgradeableTransactor_Initialize c opts settings nativeAssetSymbol
          initialReserveImbalance burnedFeesReportingRewardPercentage)) \<and>
     (\<forall>teleporterAddress. sends_call k NativeTokenRemoteUpgradeableABI be opts
        ''pauseTeleporterAddress'' [GAddr teleporterAddress]
       (NativeTokenRemoteUpgradeableTransactor_PauseTeleporterAddress c opts teleporterAddress))
          \<and>
     (\<forall>sourceBlockchainID originSenderAddress message. sends_call k
        NativeTokenRemoteUpgradeableABI be opts ''receiveTeleporterMessage'' [GArr32
        sourceBlockchainID, GAddr originSenderAddress, GBytes message]
       (NativeTokenRemoteUpgradeableTransactor_ReceiveTeleporterMessage c opts
          sourceBlockchainID originSenderAddress message)) \<and>
     (\<forall>feeInfo. fee_info_ok feeInfo \<longrightarrow> sends_call k NativeTokenRemoteUpgradeableABI be opts
        ''registerWithHome'' [fee_info_val feeInfo]
       (NativeTokenRemoteUpgradeableTransactor_RegisterWithHome c opts feeInfo)) \<and>
     sends_call k NativeTokenRemoteUpgradeableABI be opts ''renounceOwnership'' []
       (NativeTokenRemoteUpgradeableTransactor_RenounceOwnership c opts) \<and>
     (\<forall>requiredGasLimit. in_uint256 requiredGasLimit \<longrightarrow> sends_call k
        NativeTokenRemoteUpgradeableABI be opts ''reportBurnedTxFees'' [GBig requiredGasLimit]
       (NativeTokenRemoteUpgradeableTransactor_ReportBurnedTxFees c opts requiredGasLimit)) \<and>
     (\<forall>input_data. SendTokensInput_ok input_data \<longrightarrow> sends_call k NativeTokenRemoteUpgradeableABI
        be opts ''send'' [SendTokensInput_val input_data]
       (NativeTokenRemoteUpgradeableTransactor_Send c opts input_data)) \<and>
     (\<forall>input_data. SendAndCallInput_ok input_data \<longrightarrow> sends_call k NativeTokenRemoteUpgradeableABI
        be opts ''sendAndCall'' [SendAndCallInput_val input_data]
       (NativeTokenRemoteUpgradeableTransactor_SendAndCall c opts input_data)) \<and>
     (\<forall>to_addr amount_value. in_uint256 amount_value \<longrightarrow> sends_call k
        NativeTokenRemoteUpgradeableABI be opts ''transfer'' [GAddr to_addr, GBig amount_value]
       (NativeTokenRemoteUpgradeableTransactor_Transfer c opts to_addr amount_value)) \<and>
     (\<forall>from_addr to_addr amount_value. in_uint256 amount_value \<longrightarrow> sends_call k
        NativeTokenRemoteUpgradeableABI be opts ''transferFrom'' [GAddr from_addr, GAddr
        to_addr, GBig amount_value]
       (NativeTokenRemoteUpgradeableTransactor_TransferFrom c opts from_addr to_addr
          amount_value)) \<and>
     (\<forall>newOwner. sends_call k NativeTokenRemoteUpgradeableABI be opts ''transferOwnership''
        [GAddr newOwner]
       (NativeTokenRemoteUpgradeableTransactor_TransferOwnership c opts newOwner)) \<and>
     (\<forall>teleporterAddress. sends_call k NativeTokenRemoteUpgradeableABI be opts
        ''unpauseTeleporterAddress'' [GAddr teleporterAddress]
       (NativeTokenRemoteUpgradeableTransactor_UnpauseTeleporterAddress c opts
          teleporterAddress)) \<and>
     (\<forall>version_number. in_uint256 version_number \<longrightarrow> sends_call k NativeTokenRemoteUpgradeableABI
        be opts ''updateMinTeleporterVersion'' [GBig version_number]
       (NativeTokenRemoteUpgradeableTransactor_UpdateMinTeleporterVersion c opts
          version_number)) \<and>
     (\<forall>amount. in_uint256 amount \<longrightarrow> sends_call k NativeTokenRemoteUpgradeableABI be opts
        ''withdraw'' [GBig amount]
       (NativeTokenRemoteUpgradeableTransactor_Withdraw c opts amount))"
  unfolding NativeTokenRemoteUpgradeableTransactor_Approve_def
     NativeTokenRemoteUpgradeableTransactor_Deposit_def
     NativeTokenRemoteUpgradeableTransactor_Initialize_def
     NativeTokenRemoteUpgradeableTransactor_PauseTeleporterAddress_def
     NativeTokenRemoteUpgradeableTransactor_ReceiveTeleporterMessage_def
     NativeTokenRemoteUpgradeableTransactor_RegisterWithHome_def
     NativeTokenRemoteUpgradeableTransactor_RenounceOwnership_def
     NativeTokenRemoteUpgradeableTransactor_ReportBurnedTxFees_def
     NativeTokenRemoteUpgradeableTransactor_Send_def
     NativeTokenRemoteUpgradeableTransactor_SendAndCall_def
     NativeTokenRemoteUpgradeableTransactor_Transfer_def
     NativeTokenRemoteUpgradeableTransactor_TransferFrom_def
     NativeTokenRemoteUpgradeableTransactor_TransferOwnership_def
     NativeTokenRemoteUpgradeableTransactor_UnpauseTeleporterAddress_def
     NativeTokenRemoteUpgradeableTransactor_UpdateMinTeleporterVersion_def
     NativeTokenRemoteUpgradeableTransactor_Withdraw_def
  by ((intro conjI allI impI)?; rule transact_sends [OF assms], rule
     NativeTokenRemoteUpgradeable_methods)
    (simp_all del: matches.simps(1))

lemma NativeTokenRemoteUpgradeable_calls_return_outputs:
  assumes "codec_methods k" and "codec_roundtrip k" and "bound_spec k
     NativeTokenRemoteUpgradeableABI be c"
  shows "(\<forall>r0. reads_call k NativeTokenRemoteUpgradeableABI be opts
     ''BURNED_FOR_TRANSFER_ADDRESS'' []
       [GAddr r0] r0 (NativeTokenRemoteUpgradeableCaller_BURNEDFORTRANSFERADDRESS c opts)) \<and>
     (\<forall>r0. reads_call k NativeTokenRemoteUpgradeableABI be opts ''BURNED_TX_FEES_ADDRESS'' []
       [GAddr r0] r0 (NativeTokenRemoteUpgradeableCaller_BURNEDTXFEESADDRESS c opts)) \<and>
     (\<forall>r0. reads_call k NativeTokenRemoteUpgradeableABI be opts ''HOME_CHAIN_BURN_ADDRESS'' []
       [GAddr r0] r0 (NativeTokenRemoteUpgradeableCaller_HOMECHAINBURNADDRESS c opts)) \<and>
     (\<forall>r0. in_uint256 r0 \<longrightarrow> reads_call k NativeTokenRemoteUpgradeableABI be opts
        ''MULTI_HOP_CALL_GAS_PER_WORD'' []
       [GBig r0] r0 (NativeTokenRemoteUpgradeableCaller_MULTIHOPCALLGASPERWORD c opts)) \<and>
     (\<forall>r0. in_uint256 r0 \<longrightarrow> reads_call k NativeTokenRemoteUpgradeableABI be opts
        ''MULTI_HOP_CALL_REQUIRED_GAS'' []
       [GBig r0] r0 (NativeTokenRemoteUpgradeableCaller_MULTIHOPCALLREQUIREDGAS c opts)) \<and>
     (\<forall>r0. in_uint256 r0 \<longrightarrow> reads_call k NativeTokenRemoteUpgradeableABI be opts
        ''MULTI_HOP_SEND_REQUIRED_GAS'' []
       [GBig r0] r0 (NativeTokenRemoteUpgradeableCaller_MULTIHOPSENDREQUIREDGAS c opts)) \<and>
     (\<forall>r0. reads_call k NativeTokenRemoteUpgradeableABI be opts ''NATIVE_MINTER'' []
       [GAddr r0] r0 (NativeTokenRemoteUpgradeableCaller_NATIVEMINTER c opts)) \<and>
     (\<forall>r0. reads_call k NativeTokenRemoteUpgradeableABI be opts
        ''NATIVE_TOKEN_REMOTE_STORAGE_LOCATION'' []
       [GArr32 r0] r0 (NativeTokenRemoteUpgradeableCaller_NATIVETOKENREMOTESTORAGELOCATION c
          opts)) \<and>
     (\<forall>r0. in_uint256 r0 \<longrightarrow> reads_call k NativeTokenRemoteUpgradeableABI be opts
        ''REGISTER_REMOTE_REQUIRED_GAS'' []
       [GBig r0] r0 (NativeTokenRemoteUpgradeableCaller_REGISTERREMOTEREQUIREDGAS c opts)) \<and>
     (\<forall>r0. reads_call k NativeTokenRemoteUpgradeableABI be opts
        ''TELEPORTER_REGISTRY_APP_STORAGE_LOCATION'' []
       [GArr32 r0] r0 (NativeTokenRemoteUpgradeableCaller_TELEPORTERREGISTRYAPPSTORAGELOCATION c
          opts)) \<and>
     (\<forall>r0. reads_call k NativeTokenRemoteUpgradeableABI be opts
        ''TOKEN_REMOTE_STORAGE_LOCATION'' []
       [GArr32 r0] r0 (NativeTokenRemoteUpgradeableCaller_TOKENREMOTESTORAGELOCATION c opts)) \<and>
     (\<forall>owner spender r0. in_uint256 r0 \<longrightarrow> reads_call k NativeTokenRemoteUpgradeableABI be opts
        ''allowance'' [GAddr owner, GAddr spender]
       [GBig r0] r0 (NativeTokenRemoteUpgradeableCaller_Allowance c opts owner spender)) \<and>
     (\<forall>account r0. in_uint256 r0 \<longrightarrow> reads_call k NativeTokenRemoteUpgradeableABI be opts
        ''balanceOf'' [GAddr account]
       [GBig r0] r0 (NativeTokenRemoteUpgradeableCaller_BalanceOf c opts account)) \<and>
     (\<forall>payloadSize r0. in_uint256 payloadSize \<longrightarrow> in_uint256 r0 \<longrightarrow> reads_call k
        NativeTokenRemoteUpgradeableABI be opts ''calculateNumWords'' [GBig payloadSize]
       [GBig r0] r0 (NativeTokenRemoteUpgradeableCaller_CalculateNumWords c opts payloadSize)) \<and>
     (\<forall>r0. reads_call k NativeTokenRemoteUpgradeableABI be opts ''decimals'' []
       [GUint 8 (unat r0)] r0 (NativeTokenRemoteUpgradeableCaller_Decimals c opts)) \<and>
     (\<forall>r0. reads_call k NativeTokenRemoteUpgradeableABI be opts ''getBlockchainID'' []
       [GArr32 r0] r0 (NativeTokenRemoteUpgradeableCaller_GetBlockchainID c opts)) \<and>
     (\<forall>r0. in_uint256 r0 \<longrightarrow> reads_call k NativeTokenRemoteUpgradeableABI be opts
        ''getInitialReserveImbalance'' []
       [GBig r0] r0 (NativeTokenRemoteUpgradeableCaller_GetInitialReserveImbalance c opts)) \<and>
     (\<forall>r0. reads_call k NativeTokenRemoteUpgradeableABI be opts ''getIsCollateralized'' []
       [GBool r0] r0 (NativeTokenRemoteUpgradeableCaller_GetIsCollateralized c opts)) \<and>
     (\<forall>r0. in_uint256 r0 \<longrightarrow> reads_call k NativeTokenRemoteUpgradeableABI be opts
        ''getMinTeleporterVersion'' []
       [GBig r0] r0 (NativeTokenRemoteUpgradeableCaller_GetMinTeleporterVersion c opts)) \<and>
     (\<forall>r0. reads_call k NativeTokenRemoteUpgradeableABI be opts ''getMultiplyOnRemote'' []
       [GBool r0] r0 (NativeTokenRemoteUpgradeableCaller_GetMultiplyOnRemote c opts)) \<and>
     (\<forall>r0. reads_call k NativeTokenRemoteUpgradeableABI be opts ''getTokenHomeAddress'' []
       [GAddr r0] r0 (NativeTokenRemoteUpgradeableCaller_GetTokenHomeAddress c opts)) \<and>
     (\<forall>r0. reads_call k NativeTokenRemoteUpgradeableABI be opts ''getTokenHomeBlockchainID'' []
       [GArr32 r0] r0 (NativeTokenRemoteUpgradeableCaller_GetTokenHomeBlockchainID c opts)) \<and>
     (\<forall>r0. in_uint256 r0 \<longrightarrow> reads_call k NativeTokenRemoteUpgradeableABI be opts
        ''getTokenMultiplier'' []
       [GBig r0] r0 (NativeTokenRemoteUpgradeableCaller_GetTokenMultiplier c opts)) \<and>
     (\<forall>r0. in_uint256 r0 \<longrightarrow> reads_call k NativeTokenRemoteUpgradeableABI be opts
        ''getTotalMinted'' []
       [GBig r0] r0 (NativeTokenRemoteUpgradeableCaller_GetTotalMinted c opts)) \<and>
     (\<forall>teleporterAddress r0. reads_call k NativeTokenRemoteUpgradeableABI be opts
        ''isTeleporterAddressPaused'' [GAddr teleporterAddress]
       [GBool r0] r0 (NativeTokenRemoteUpgradeableCaller_IsTeleporterAddressPaused c opts
          teleporterAddress)) \<and>
     (\<forall>r0. reads_call k NativeTokenRemoteUpgradeableABI be opts ''name'' []
       [GStr r0] r0 (NativeTokenRemoteUpgradeableCaller_Name c opts)) \<and>
     (\<forall>r0. reads_call k NativeTokenRemoteUpgradeableABI be opts ''owner'' []
       [GAddr r0] r0 (NativeTokenRemoteUpgradeableCaller_Owner c opts)) \<and>
     (\<forall>r0. reads_call k NativeTokenRemoteUpgradeableABI be opts ''symbol'' []
       [GStr r0] r0 (NativeTokenRemoteUpgradeableCaller_Symbol c opts)) \<and>
     (\<forall>r0. in_uint256 r0 \<longrightarrow> reads_call k NativeTokenRemoteUpgradeableABI be opts
        ''totalNativeAssetSupply'' []
       [GBig r0] r0 (NativeTokenRemoteUpgradeableCaller_TotalNativeAssetSupply c opts)) \<and>
     (\<forall>r0. in_uint256 r0 \<longrightarrow> reads_call k NativeTokenRemoteUpgradeableABI be opts ''totalSupply''
        []
       [GBig r0] r0 (NativeTokenRemoteUpgradeableCaller_TotalSupply c opts))"
  unfolding NativeTokenRemoteUpgradeableCaller_BURNEDFORTRANSFERADDRESS_def
     NativeTokenRemoteUpgradeableCaller_BURNEDTXFEESADDRESS_def
     NativeTokenRemoteUpgradeableCaller_HOMECHAINBURNADDRESS_def
     NativeTokenRemoteUpgradeableCaller_MULTIHOPCALLGASPERWORD_def
     NativeTokenRemoteUpgradeableCaller_MULTIHOPCALLREQUIREDGAS_def
     NativeTokenRemoteUpgradeableCaller_MULTIHOPSENDREQUIREDGAS_def
     NativeTokenRemoteUpgradeableCaller_NATIVEMINTER_def
     NativeTokenRemoteUpgradeableCaller_NATIVETOKENREMOTESTORAGELOCATION_def
     NativeTokenRemoteUpgradeableCaller_REGISTERREMOTEREQUIREDGAS_def
     NativeTokenRemoteUpgradeableCaller_TELEPORTERREGISTRYAPPSTORAGELOCATION_def
     NativeTokenRemoteUpgradeableCaller_TOKENREMOTESTORAGELOCATION_def
     NativeTokenRemoteUpgradeableCaller_Allowance_def
     NativeTokenRemoteUpgradeableCaller_BalanceOf_def
     NativeTokenRemoteUpgradeableCaller_CalculateNumWords_def
     NativeTokenRemoteUpgradeableCaller_Decimals_def
     NativeTokenRemoteUpgradeableCaller_GetBlockchainID_def
     NativeTokenRemoteUpgradeableCaller_GetInitialReserveImbalance_def
     NativeTokenRemoteUpgradeableCaller_GetIsCollateralized_def
     NativeTokenRemoteUpgradeableCaller_GetMinTeleporterVersion_def
     NativeTokenRemoteUpgradeableCaller_GetMultiplyOnRemote_def
     NativeTokenRemoteUpgradeableCaller_GetTokenHomeAddress_def
     NativeTokenRemoteUpgradeableCaller_GetTokenHomeBlockchainID_def
     NativeTokenRemoteUpgradeableCaller_GetTokenMultiplier_def
     NativeTokenRemoteUpgradeableCaller_GetTotalMinted_def
     NativeTokenRemoteUpgradeableCaller_IsTeleporterAddressPaused_def
     NativeTokenRemoteUpgradeableCaller_Name_def NativeTokenRemoteUpgradeableCaller_Owner_def
     NativeTokenRemoteUpgradeableCaller_Symbol_def
     NativeTokenRemoteUpgradeableCaller_TotalNativeAssetSupply_def
     NativeTokenRemoteUpgradeableCaller_TotalSupply_def
  by ((intro conjI allI impI)?; rule call_reads [OF assms], rule
     NativeTokenRemoteUpgradeable_methods)
    (simp_all del: matches.simps(1))

lemma NativeTokenRemoteUpgradeable_parsers_decode:
  assumes "codec_events k" and "event_ids k NativeTokenRemoteUpgradeableABI" and "bound_spec k
     NativeTokenRemoteUpgradeableABI be c"
  shows "parser_decodes k NativeTokenRemoteUpgradeableABI ''Approval''
     (NativeTokenRemoteUpgradeableFilterer_ParseApproval c) \<and>
     parser_decodes k NativeTokenRemoteUpgradeableABI ''CallFailed''
        (NativeTokenRemoteUpgradeableFilterer_ParseCallFailed c) \<and>
     parser_decodes k NativeTokenRemoteUpgradeableABI ''CallSucceeded''
        (NativeTokenRemoteUpgradeableFilterer_ParseCallSucceeded c) \<and>
     parser_decodes k NativeTokenRemoteUpgradeableABI ''Deposit''
        (NativeTokenRemoteUpgradeableFilterer_ParseDeposit c) \<and>
     parser_decodes k NativeTokenRemoteUpgradeableABI ''Initialized''
        (NativeTokenRemoteUpgradeableFilterer_ParseInitialized c) \<and>
     parser_decodes k NativeTokenRemoteUpgradeableABI ''MinTeleporterVersionUpdated''
        (NativeTokenRemoteUpgradeableFilterer_ParseMinTeleporterVersionUpdated c) \<and>
     parser_decodes k NativeTokenRemoteUpgradeableABI ''OwnershipTransferred''
        (NativeTokenRemoteUpgradeableFilterer_ParseOwnershipTransferred c) \<and>
     parser_decodes k NativeTokenRemoteUpgradeableABI ''ReportBurnedTxFees''
        (NativeTokenRemoteUpgradeableFilterer_ParseReportBurnedTxFees c) \<and>
     parser_decodes k NativeTokenRemoteUpgradeableABI ''TeleporterAddressPaused''
        (NativeTokenRemoteUpgradeableFilterer_ParseTeleporterAddressPaused c) \<and>
     parser_decodes k NativeTokenRemoteUpgradeableABI ''TeleporterAddressUnpaused''
        (NativeTokenRemoteUpgradeableFilterer_ParseTeleporterAddressUnpaused c) \<and>
     parser_decodes k NativeTokenRemoteUpgradeableABI ''TokensAndCallSent''
        (NativeTokenRemoteUpgradeableFilterer_ParseTokensAndCallSent c) \<and>
     parser_decodes k NativeTokenRemoteUpgradeableABI ''TokensSent''
        (NativeTokenRemoteUpgradeableFilterer_ParseTokensSent c) \<and>
     parser_decodes k NativeTokenRemoteUpgradeableABI ''TokensWithdrawn''
        (NativeTokenRemoteUpgradeableFilterer_ParseTokensWithdrawn c) \<and>
     parser_decodes k NativeTokenRemoteUpgradeableABI ''Transfer''
        (NativeTokenRemoteUpgradeableFilterer_ParseTransfer c) \<and>
     parser_decodes k NativeTokenRemoteUpgradeableABI ''Withdrawal''
        (NativeTokenRemoteUpgradeableFilterer_ParseWithdrawal c)"
proof -
  note parses = parse_log_decodes [OF assms]
  show ?thesis
    unfolding NativeTokenRemoteUpgradeableFilterer_ParseApproval_def
       NativeTokenRemoteUpgradeableFilterer_ParseCallFailed_def
       NativeTokenRemoteUpgradeableFilterer_ParseCallSucceeded_def
       NativeTokenRemoteUpgradeableFilterer_ParseDeposit_def
       NativeTokenRemoteUpgradeableFilterer_ParseInitialized_def
       NativeTokenRemoteUpgradeableFilterer_ParseMinTeleporterVersionUpdated_def
       NativeTokenRemoteUpgradeableFilterer_ParseOwnershipTransferred_def
       NativeTokenRemoteUpgradeableFilterer_ParseReportBurnedTxFees_def
       NativeTokenRemoteUpgradeableFilterer_ParseTeleporterAddressPaused_def
       NativeTokenRemoteUpgradeableFilterer_ParseTeleporterAddressUnpaused_def
       NativeTokenRemoteUpgradeableFilterer_ParseTokensAndCallSent_def
       NativeTokenRemoteUpgradeableFilterer_ParseTokensSent_def
       NativeTokenRemoteUpgradeableFilterer_ParseTokensWithdrawn_def
       NativeTokenRemoteUpgradeableFilterer_ParseTransfer_def
       NativeTokenRemoteUpgradeableFilterer_ParseWithdrawal_def
    by ((intro conjI)?; rule parses, rule NativeTokenRemoteUpgradeable_events, rule
       NativeTokenRemoteUpgradeable_decodable)
qed

end
