(* ===== verification/PoAValidatorManagerBinding.thy ===== *)
theory PoAValidatorManagerBinding
  imports ManagerStructs LinkedDeployment AbiRef
begin

text \<open>
  The generated binding \<open>abi-bindings/go/validator-manager/PoAValidatorManager/PoAValidatorManager.go\<close> over the generic
  definitions of theory \<open>Binding\<close>: its ABI, every method with its session wrappers, every event with
  its iterator, filter, watch and parser. The bytecode is a parameter of deployment; the aliases
  \<open>Raw\<close> of the untyped calls are not modelled.
\<close>

section \<open>The contract's ABI (PoAValidatorManagerMetaData)\<close>

definition PoAValidatorManagerABI :: contract_abi where
  "PoAValidatorManagerABI = \<lparr>
      Methods = [
        (''ADDRESS_LENGTH'', [],
           [('''', TUint 32)]),
        (''BLS_PUBLIC_KEY_LENGTH'', [],
           [('''', TUint 8)]),
        (''MAXIMUM_CHURN_PERCENTAGE_LIMIT'', [],
           [('''', TUint 8)]),
        (''MAXIMUM_REGISTRATION_EXPIRY_LENGTH'', [],
           [('''', TUint 64)]),
        (''P_CHAIN_BLOCKCHAIN_ID'', [],
           [('''', TBytes32)]),
        (''VALIDATOR_MANAGER_STORAGE_LOCATION'', [],
           [('''', TBytes32)]),
        (''WARP_MESSENGER'', [],
           [('''', TAddress)]),
        (''completeEndValidation'', [(''messageIndex'', TUint 32)],
           []),
        (''completeValidatorRegistration'', [(''messageIndex'', TUint 32)],
           []),
        (''getValidator'', [(''validationID'', TBytes32)],
           [('''', Validator_tuple)]),
        (''initialize'', [(''settings'', ValidatorManagerSettings_tuple), (''initialOwner'',
           TAddress)],
           []),
        (''initializeEndValidation'', [(''validationID'', TBytes32)],
           []),
        (''initializeValidatorRegistration'', [(''registrationInput'',
           ValidatorRegistrationInput_tuple), (''weight'', TUint 64)],
           [(''validationID'', TBytes32)]),
        (''initializeValidatorSet'', [(''conversionData'', ConversionData_tuple),
           (''messageIndex'', TUint 32)],
           []),
        (''owner'', [],
           [('''', TAddress)]),
        (''registeredValidators'', [(''nodeID'', TBytes)],
           [('''', TBytes32)]),
        (''renounceOwnership'', [],
           []),
        (''resendEndValidatorMessage'', [(''validationID'', TBytes32)],
           []),
        (''resendRegisterValidatorMessage'', [(''validationID'', TBytes32)],
           []),
        (''transferOwnership'', [(''newOwner'', TAddress)],
           [])],
      Events = [
        (''InitialValidatorCreated'', [(''validationID'', TBytes32, True), (''weight'', TUint
           64, False), (''nodeID'', TBytes, False)]),
        (''Initialized'', [(''version'', TUint 64, False)]),
        (''OwnershipTransferred'', [(''previousOwner'', TAddress, True), (''newOwner'',
           TAddress, True)]),
        (''ValidationPeriodCreated'', [(''validationID'', TBytes32, True),
           (''registerValidationMessageID'', TBytes32, True), (''weight'', TUint 64, False),
           (''nodeID'', TBytes, False), (''registrationExpiry'', TUint 64, False)]),
        (''ValidationPeriodEnded'', [(''validationID'', TBytes32, True), (''status'', TUint 8,
           True)]),
        (''ValidationPeriodRegistered'', [(''validationID'', TBytes32, True), (''weight'', TUint
           64, False), (''timestamp'', TUint 256, False)]),
        (''ValidatorRemovalInitialized'', [(''validationID'', TBytes32, True),
           (''setWeightMessageID'', TBytes32, True), (''weight'', TUint 64, False),
           (''endTime'', TUint 256, False)]),
        (''ValidatorWeightUpdate'', [(''validationID'', TBytes32, True), (''nonce'', TUint 64,
           True), (''weight'', TUint 64, False), (''setWeightMessageID'', TBytes32, False)])]\<rparr>"

section \<open>Binding and deployment\<close>

definition bindPoAValidatorManager :: "'w bind_lib \<Rightarrow> address \<Rightarrow> goerr + 'w bound_contract" where
  "bindPoAValidatorManager lib addr = bind_contract lib PoAValidatorManagerABI addr"

definition NewPoAValidatorManager :: "'w bind_lib \<Rightarrow> address \<Rightarrow> goerr + 'w bound_contract" where
  "NewPoAValidatorManager lib addr = bindPoAValidatorManager lib addr"

definition DeployPoAValidatorManager ::
  "'w linked_lib \<Rightarrow> TransactOpts \<Rightarrow> u8 \<Rightarrow> ('w link_state, goerr + address \<times> hash \<times> 'w
     bound_contract) prog" where
  "DeployPoAValidatorManager lib auth init_mode = deploy_linked lib auth PoAValidatorManagerABI
     [GUint 8 (unat init_mode)]"

section \<open>Methods\<close>

definition PoAValidatorManagerCaller_ADDRESSLENGTH ::
  "'w bound_contract \<Rightarrow> CallOpts \<Rightarrow> ('w, goerr + u32) prog" where
  "PoAValidatorManagerCaller_ADDRESSLENGTH c opts =
     call_method c opts ''ADDRESS_LENGTH'' [] (out1 (go_word 32))"

definition PoAValidatorManagerSession_ADDRESSLENGTH ::
  "'w session \<Rightarrow> ('w, goerr + u32) prog" where
  "PoAValidatorManagerSession_ADDRESSLENGTH s = PoAValidatorManagerCaller_ADDRESSLENGTH
     (SessionContract s) (SessionCallOpts s)"

definition PoAValidatorManagerCaller_BLSPUBLICKEYLENGTH ::
  "'w bound_contract \<Rightarrow> CallOpts \<Rightarrow> ('w, goerr + u8) prog" where
  "PoAValidatorManagerCaller_BLSPUBLICKEYLENGTH c opts =
     call_method c opts ''BLS_PUBLIC_KEY_LENGTH'' [] (out1 (go_word 8))"

definition PoAValidatorManagerSession_BLSPUBLICKEYLENGTH ::
  "'w session \<Rightarrow> ('w, goerr + u8) prog" where
  "PoAValidatorManagerSession_BLSPUBLICKEYLENGTH s =
     PoAValidatorManagerCaller_BLSPUBLICKEYLENGTH (SessionContract s) (SessionCallOpts s)"

definition PoAValidatorManagerCaller_MAXIMUMCHURNPERCENTAGELIMIT ::
  "'w bound_contract \<Rightarrow> CallOpts \<Rightarrow> ('w, goerr + u8) prog" where
  "PoAValidatorManagerCaller_MAXIMUMCHURNPERCENTAGELIMIT c opts =
     call_method c opts ''MAXIMUM_CHURN_PERCENTAGE_LIMIT'' [] (out1 (go_word 8))"

definition PoAValidatorManagerSession_MAXIMUMCHURNPERCENTAGELIMIT ::
  "'w session \<Rightarrow> ('w, goerr + u8) prog" where
  "PoAValidatorManagerSession_MAXIMUMCHURNPERCENTAGELIMIT s =
     PoAValidatorManagerCaller_MAXIMUMCHURNPERCENTAGELIMIT (SessionContract s) (SessionCallOpts
     s)"

definition PoAValidatorManagerCaller_MAXIMUMREGISTRATIONEXPIRYLENGTH ::
  "'w bound_contract \<Rightarrow> CallOpts \<Rightarrow> ('w, goerr + u64) prog" where
  "PoAValidatorManagerCaller_MAXIMUMREGISTRATIONEXPIRYLENGTH c opts =
     call_method c opts ''MAXIMUM_REGISTRATION_EXPIRY_LENGTH'' [] (out1 (go_word 64))"

definition PoAValidatorManagerSession_MAXIMUMREGISTRATIONEXPIRYLENGTH ::
  "'w session \<Rightarrow> ('w, goerr + u64) prog" where
  "PoAValidatorManagerSession_MAXIMUMREGISTRATIONEXPIRYLENGTH s =
     PoAValidatorManagerCaller_MAXIMUMREGISTRATIONEXPIRYLENGTH (SessionContract s)
     (SessionCallOpts s)"

definition PoAValidatorManagerCaller_PCHAINBLOCKCHAINID ::
  "'w bound_contract \<Rightarrow> CallOpts \<Rightarrow> ('w, goerr + hash) prog" where
  "PoAValidatorManagerCaller_PCHAINBLOCKCHAINID c opts =
     call_method c opts ''P_CHAIN_BLOCKCHAIN_ID'' [] (out1 go_arr32)"

definition PoAValidatorManagerSession_PCHAINBLOCKCHAINID ::
  "'w session \<Rightarrow> ('w, goerr + hash) prog" where
  "PoAValidatorManagerSession_PCHAINBLOCKCHAINID s =
     PoAValidatorManagerCaller_PCHAINBLOCKCHAINID (SessionContract s) (SessionCallOpts s)"

definition PoAValidatorManagerCaller_VALIDATORMANAGERSTORAGELOCATION ::
  "'w bound_contract \<Rightarrow> CallOpts \<Rightarrow> ('w, goerr + hash) prog" where
  "PoAValidatorManagerCaller_VALIDATORMANAGERSTORAGELOCATION c opts =
     call_method c opts ''VALIDATOR_MANAGER_STORAGE_LOCATION'' [] (out1 go_arr32)"

definition PoAValidatorManagerSession_VALIDATORMANAGERSTORAGELOCATION ::
  "'w session \<Rightarrow> ('w, goerr + hash) prog" where
  "PoAValidatorManagerSession_VALIDATORMANAGERSTORAGELOCATION s =
     PoAValidatorManagerCaller_VALIDATORMANAGERSTORAGELOCATION (SessionContract s)
     (SessionCallOpts s)"

definition PoAValidatorManagerCaller_WARPMESSENGER ::
  "'w bound_contract \<Rightarrow> CallOpts \<Rightarrow> ('w, goerr + address) prog" where
  "PoAValidatorManagerCaller_WARPMESSENGER c opts =
     call_method c opts ''WARP_MESSENGER'' [] (out1 go_addr)"

definition PoAValidatorManagerSession_WARPMESSENGER ::
  "'w session \<Rightarrow> ('w, goerr + address) prog" where
  "PoAValidatorManagerSession_WARPMESSENGER s = PoAValidatorManagerCaller_WARPMESSENGER
     (SessionContract s) (SessionCallOpts s)"

definition PoAValidatorManagerTransactor_CompleteEndValidation ::
  "'w bound_contract \<Rightarrow> TransactOpts \<Rightarrow> u32 \<Rightarrow> ('w, goerr + hash) prog" where
  "PoAValidatorManagerTransactor_CompleteEndValidation c opts messageIndex =
     contract_transact c opts ''completeEndValidation'' [GUint 32 (unat messageIndex)]"

definition PoAValidatorManagerSession_CompleteEndValidation ::
  "'w session \<Rightarrow> u32 \<Rightarrow> ('w, goerr + hash) prog" where
  "PoAValidatorManagerSession_CompleteEndValidation s messageIndex =
     PoAValidatorManagerTransactor_CompleteEndValidation (SessionContract s)
     (SessionTransactOpts s) messageIndex"

definition PoAValidatorManagerTransactor_CompleteValidatorRegistration ::
  "'w bound_contract \<Rightarrow> TransactOpts \<Rightarrow> u32 \<Rightarrow> ('w, goerr + hash) prog" where
  "PoAValidatorManagerTransactor_CompleteValidatorRegistration c opts messageIndex =
     contract_transact c opts ''completeValidatorRegistration'' [GUint 32 (unat messageIndex)]"

definition PoAValidatorManagerSession_CompleteValidatorRegistration ::
  "'w session \<Rightarrow> u32 \<Rightarrow> ('w, goerr + hash) prog" where
  "PoAValidatorManagerSession_CompleteValidatorRegistration s messageIndex =
     PoAValidatorManagerTransactor_CompleteValidatorRegistration (SessionContract s)
     (SessionTransactOpts s) messageIndex"

definition PoAValidatorManagerCaller_GetValidator ::
  "'w bound_contract \<Rightarrow> CallOpts \<Rightarrow> hash \<Rightarrow> ('w, goerr + Validator) prog" where
  "PoAValidatorManagerCaller_GetValidator c opts validationID =
     call_method c opts ''getValidator'' [GArr32 validationID] (out1 Validator_of)"

definition PoAValidatorManagerSession_GetValidator ::
  "'w session \<Rightarrow> hash \<Rightarrow> ('w, goerr + Validator) prog" where
  "PoAValidatorManagerSession_GetValidator s validationID =
     PoAValidatorManagerCaller_GetValidator (SessionContract s) (SessionCallOpts s)
     validationID"

definition PoAValidatorManagerTransactor_Initialize ::
  "'w bound_contract \<Rightarrow> TransactOpts \<Rightarrow> ValidatorManagerSettings \<Rightarrow> address \<Rightarrow> ('w, goerr + hash)
     prog" where
  "PoAValidatorManagerTransactor_Initialize c opts settings initialOwner =
     contract_transact c opts ''initialize'' [ValidatorManagerSettings_val settings, GAddr
        initialOwner]"

definition PoAValidatorManagerSession_Initialize ::
  "'w session \<Rightarrow> ValidatorManagerSettings \<Rightarrow> address \<Rightarrow> ('w, goerr + hash) prog" where
  "PoAValidatorManagerSession_Initialize s settings initialOwner =
     PoAValidatorManagerTransactor_Initialize (SessionContract s) (SessionTransactOpts s)
     settings initialOwner"

definition PoAValidatorManagerTransactor_InitializeEndValidation ::
  "'w bound_contract \<Rightarrow> TransactOpts \<Rightarrow> hash \<Rightarrow> ('w, goerr + hash) prog" where
  "PoAValidatorManagerTransactor_InitializeEndValidation c opts validationID =
     contract_transact c opts ''initializeEndValidation'' [GArr32 validationID]"

definition PoAValidatorManagerSession_InitializeEndValidation ::
  "'w session \<Rightarrow> hash \<Rightarrow> ('w, goerr + hash) prog" where
  "PoAValidatorManagerSession_InitializeEndValidation s validationID =
     PoAValidatorManagerTransactor_InitializeEndValidation (SessionContract s)
     (SessionTransactOpts s) validationID"

definition PoAValidatorManagerTransactor_InitializeValidatorRegistration ::
  "'w bound_contract \<Rightarrow> TransactOpts \<Rightarrow> ValidatorRegistrationInput \<Rightarrow> u64 \<Rightarrow> ('w, goerr + hash)
     prog" where
  "PoAValidatorManagerTransactor_InitializeValidatorRegistration c opts registrationInput weight
     =
     contract_transact c opts ''initializeValidatorRegistration''
        [ValidatorRegistrationInput_val registrationInput, GUint 64 (unat weight)]"

definition PoAValidatorManagerSession_InitializeValidatorRegistration ::
  "'w session \<Rightarrow> ValidatorRegistrationInput \<Rightarrow> u64 \<Rightarrow> ('w, goerr + hash) prog" where
  "PoAValidatorManagerSession_InitializeValidatorRegistration s registrationInput weight =
     PoAValidatorManagerTransactor_InitializeValidatorRegistration (SessionContract s)
     (SessionTransactOpts s) registrationInput weight"

definition PoAValidatorManagerTransactor_InitializeValidatorSet ::
  "'w bound_contract \<Rightarrow> TransactOpts \<Rightarrow> ConversionData \<Rightarrow> u32 \<Rightarrow> ('w, goerr + hash) prog" where
  "PoAValidatorManagerTransactor_InitializeValidatorSet c opts conversionData messageIndex =
     contract_transact c opts ''initializeValidatorSet'' [ConversionData_val conversionData,
        GUint 32 (unat messageIndex)]"

definition PoAValidatorManagerSession_InitializeValidatorSet ::
  "'w session \<Rightarrow> ConversionData \<Rightarrow> u32 \<Rightarrow> ('w, goerr + hash) prog" where
  "PoAValidatorManagerSession_InitializeValidatorSet s conversionData messageIndex =
     PoAValidatorManagerTransactor_InitializeValidatorSet (SessionContract s)
     (SessionTransactOpts s) conversionData messageIndex"

definition PoAValidatorManagerCaller_Owner ::
  "'w bound_contract \<Rightarrow> CallOpts \<Rightarrow> ('w, goerr + address) prog" where
  "PoAValidatorManagerCaller_Owner c opts =
     call_method c opts ''owner'' [] (out1 go_addr)"

definition PoAValidatorManagerSession_Owner ::
  "'w session \<Rightarrow> ('w, goerr + address) prog" where
  "PoAValidatorManagerSession_Owner s = PoAValidatorManagerCaller_Owner (SessionContract s)
     (SessionCallOpts s)"

definition PoAValidatorManagerCaller_RegisteredValidators ::
  "'w bound_contract \<Rightarrow> CallOpts \<Rightarrow> bytes \<Rightarrow> ('w, goerr + hash) prog" where
  "PoAValidatorManagerCaller_RegisteredValidators c opts nodeID =
     call_method c opts ''registeredValidators'' [GBytes nodeID] (out1 go_arr32)"

definition PoAValidatorManagerSession_RegisteredValidators ::
  "'w session \<Rightarrow> bytes \<Rightarrow> ('w, goerr + hash) prog" where
  "PoAValidatorManagerSession_RegisteredValidators s nodeID =
     PoAValidatorManagerCaller_RegisteredValidators (SessionContract s) (SessionCallOpts s)
     nodeID"

definition PoAValidatorManagerTransactor_RenounceOwnership ::
  "'w bound_contract \<Rightarrow> TransactOpts \<Rightarrow> ('w, goerr + hash) prog" where
  "PoAValidatorManagerTransactor_RenounceOwnership c opts =
     contract_transact c opts ''renounceOwnership'' []"

definition PoAValidatorManagerSession_RenounceOwnership ::
  "'w session \<Rightarrow> ('w, goerr + hash) prog" where
  "PoAValidatorManagerSession_RenounceOwnership s =
     PoAValidatorManagerTransactor_RenounceOwnership (SessionContract s) (SessionTransactOpts
     s)"

definition PoAValidatorManagerTransactor_ResendEndValidatorMessage ::
  "'w bound_contract \<Rightarrow> TransactOpts \<Rightarrow> hash \<Rightarrow> ('w, goerr + hash) prog" where
  "PoAValidatorManagerTransactor_ResendEndValidatorMessage c opts validationID =
     contract_transact c opts ''resendEndValidatorMessage'' [GArr32 validationID]"

definition PoAValidatorManagerSession_ResendEndValidatorMessage ::
  "'w session \<Rightarrow> hash \<Rightarrow> ('w, goerr + hash) prog" where
  "PoAValidatorManagerSession_ResendEndValidatorMessage s validationID =
     PoAValidatorManagerTransactor_ResendEndValidatorMessage (SessionContract s)
     (SessionTransactOpts s) validationID"

definition PoAValidatorManagerTransactor_ResendRegisterValidatorMessage ::
  "'w bound_contract \<Rightarrow> TransactOpts \<Rightarrow> hash \<Rightarrow> ('w, goerr + hash) prog" where
  "PoAValidatorManagerTransactor_ResendRegisterValidatorMessage c opts validationID =
     contract_transact c opts ''resendRegisterValidatorMessage'' [GArr32 validationID]"

definition PoAValidatorManagerSession_ResendRegisterValidatorMessage ::
  "'w session \<Rightarrow> hash \<Rightarrow> ('w, goerr + hash) prog" where
  "PoAValidatorManagerSession_ResendRegisterValidatorMessage s validationID =
     PoAValidatorManagerTransactor_ResendRegisterValidatorMessage (SessionContract s)
     (SessionTransactOpts s) validationID"

definition PoAValidatorManagerTransactor_TransferOwnership ::
  "'w bound_contract \<Rightarrow> TransactOpts \<Rightarrow> address \<Rightarrow> ('w, goerr + hash) prog" where
  "PoAValidatorManagerTransactor_TransferOwnership c opts newOwner =
     contract_transact c opts ''transferOwnership'' [GAddr newOwner]"

definition PoAValidatorManagerSession_TransferOwnership ::
  "'w session \<Rightarrow> address \<Rightarrow> ('w, goerr + hash) prog" where
  "PoAValidatorManagerSession_TransferOwnership s newOwner =
     PoAValidatorManagerTransactor_TransferOwnership (SessionContract s) (SessionTransactOpts s)
     newOwner"

section \<open>Events\<close>

definition PoAValidatorManagerInitialValidatorCreated :: event_fields where
  "PoAValidatorManagerInitialValidatorCreated = [(''ValidationID'', GArr32 0), (''Weight'',
     GUint 64 0), (''NodeID'', GNil), (''Raw'', zero_Log)]"

definition PoAValidatorManagerInitialValidatorCreatedIterator_Next ::
  "'w bound_contract \<Rightarrow> bool \<Rightarrow> iterator \<Rightarrow> (bool \<times> iterator) option" where
  "PoAValidatorManagerInitialValidatorCreatedIterator_Next c pick it = iterator_Next (parse_log
     c ''InitialValidatorCreated'' PoAValidatorManagerInitialValidatorCreated)
     PoAValidatorManagerInitialValidatorCreated pick it"

definition PoAValidatorManagerInitialValidatorCreatedIterator_Error :: "iterator \<Rightarrow> goerr option"
   where
  "PoAValidatorManagerInitialValidatorCreatedIterator_Error it = iterator_Error it"

definition PoAValidatorManagerInitialValidatorCreatedIterator_Close :: "iterator \<Rightarrow> goerr option
   \<times> iterator" where
  "PoAValidatorManagerInitialValidatorCreatedIterator_Close it = iterator_Close it"

definition PoAValidatorManagerFilterer_FilterInitialValidatorCreated ::
  "'w bound_contract \<Rightarrow> FilterOpts \<Rightarrow> hash list \<Rightarrow> ('w, goerr + iterator) prog" where
  "PoAValidatorManagerFilterer_FilterInitialValidatorCreated c opts validationID =
     filter_events c opts ''InitialValidatorCreated'' [map GArr32 validationID]"

definition PoAValidatorManagerFilterer_WatchInitialValidatorCreated ::
  "'w bound_contract \<Rightarrow> hash list \<Rightarrow> ('w, goerr + (evm_log \<Rightarrow> goerr + event_fields)) prog" where
  "PoAValidatorManagerFilterer_WatchInitialValidatorCreated c validationID =
     watch_events c ''InitialValidatorCreated'' PoAValidatorManagerInitialValidatorCreated [map
        GArr32 validationID]"

definition PoAValidatorManagerFilterer_ParseInitialValidatorCreated ::
  "'w bound_contract \<Rightarrow> evm_log \<Rightarrow> goerr + event_fields" where
  "PoAValidatorManagerFilterer_ParseInitialValidatorCreated c = parse_log c
     ''InitialValidatorCreated'' PoAValidatorManagerInitialValidatorCreated"

definition PoAValidatorManagerInitialized :: event_fields where
  "PoAValidatorManagerInitialized = [(''Version'', GUint 64 0), (''Raw'', zero_Log)]"

definition PoAValidatorManagerInitializedIterator_Next ::
  "'w bound_contract \<Rightarrow> bool \<Rightarrow> iterator \<Rightarrow> (bool \<times> iterator) option" where
  "PoAValidatorManagerInitializedIterator_Next c pick it = iterator_Next (parse_log c
     ''Initialized'' PoAValidatorManagerInitialized) PoAValidatorManagerInitialized pick it"

definition PoAValidatorManagerInitializedIterator_Error :: "iterator \<Rightarrow> goerr option" where
  "PoAValidatorManagerInitializedIterator_Error it = iterator_Error it"

definition PoAValidatorManagerInitializedIterator_Close :: "iterator \<Rightarrow> goerr option \<times> iterator"
   where
  "PoAValidatorManagerInitializedIterator_Close it = iterator_Close it"

definition PoAValidatorManagerFilterer_FilterInitialized ::
  "'w bound_contract \<Rightarrow> FilterOpts \<Rightarrow> ('w, goerr + iterator) prog" where
  "PoAValidatorManagerFilterer_FilterInitialized c opts =
     filter_events c opts ''Initialized'' []"

definition PoAValidatorManagerFilterer_WatchInitialized ::
  "'w bound_contract \<Rightarrow> ('w, goerr + (evm_log \<Rightarrow> goerr + event_fields)) prog" where
  "PoAValidatorManagerFilterer_WatchInitialized c =
     watch_events c ''Initialized'' PoAValidatorManagerInitialized []"

definition PoAValidatorManagerFilterer_ParseInitialized ::
  "'w bound_contract \<Rightarrow> evm_log \<Rightarrow> goerr + event_fields" where
  "PoAValidatorManagerFilterer_ParseInitialized c = parse_log c ''Initialized''
     PoAValidatorManagerInitialized"

definition PoAValidatorManagerOwnershipTransferred :: event_fields where
  "PoAValidatorManagerOwnershipTransferred = [(''PreviousOwner'', GAddr 0), (''NewOwner'', GAddr
     0), (''Raw'', zero_Log)]"

definition PoAValidatorManagerOwnershipTransferredIterator_Next ::
  "'w bound_contract \<Rightarrow> bool \<Rightarrow> iterator \<Rightarrow> (bool \<times> iterator) option" where
  "PoAValidatorManagerOwnershipTransferredIterator_Next c pick it = iterator_Next (parse_log c
     ''OwnershipTransferred'' PoAValidatorManagerOwnershipTransferred)
     PoAValidatorManagerOwnershipTransferred pick it"

definition PoAValidatorManagerOwnershipTransferredIterator_Error :: "iterator \<Rightarrow> goerr option"
   where
  "PoAValidatorManagerOwnershipTransferredIterator_Error it = iterator_Error it"

definition PoAValidatorManagerOwnershipTransferredIterator_Close :: "iterator \<Rightarrow> goerr option \<times>
   iterator" where
  "PoAValidatorManagerOwnershipTransferredIterator_Close it = iterator_Close it"

definition PoAValidatorManagerFilterer_FilterOwnershipTransferred ::
  "'w bound_contract \<Rightarrow> FilterOpts \<Rightarrow> address list \<Rightarrow> address list \<Rightarrow> ('w, goerr + iterator) prog"
     where
  "PoAValidatorManagerFilterer_FilterOwnershipTransferred c opts previousOwner newOwner =
     filter_events c opts ''OwnershipTransferred'' [map GAddr previousOwner, map GAddr
        newOwner]"

definition PoAValidatorManagerFilterer_WatchOwnershipTransferred ::
  "'w bound_contract \<Rightarrow> address list \<Rightarrow> address list \<Rightarrow> ('w, goerr + (evm_log \<Rightarrow> goerr +
     event_fields)) prog" where
  "PoAValidatorManagerFilterer_WatchOwnershipTransferred c previousOwner newOwner =
     watch_events c ''OwnershipTransferred'' PoAValidatorManagerOwnershipTransferred [map GAddr
        previousOwner, map GAddr newOwner]"

definition PoAValidatorManagerFilterer_ParseOwnershipTransferred ::
  "'w bound_contract \<Rightarrow> evm_log \<Rightarrow> goerr + event_fields" where
  "PoAValidatorManagerFilterer_ParseOwnershipTransferred c = parse_log c
     ''OwnershipTransferred'' PoAValidatorManagerOwnershipTransferred"

definition PoAValidatorManagerValidationPeriodCreated :: event_fields where
  "PoAValidatorManagerValidationPeriodCreated = [(''ValidationID'', GArr32 0),
     (''RegisterValidationMessageID'', GArr32 0), (''Weight'', GUint 64 0), (''NodeID'', GNil),
     (''RegistrationExpiry'', GUint 64 0), (''Raw'', zero_Log)]"

definition PoAValidatorManagerValidationPeriodCreatedIterator_Next ::
  "'w bound_contract \<Rightarrow> bool \<Rightarrow> iterator \<Rightarrow> (bool \<times> iterator) option" where
  "PoAValidatorManagerValidationPeriodCreatedIterator_Next c pick it = iterator_Next (parse_log
     c ''ValidationPeriodCreated'' PoAValidatorManagerValidationPeriodCreated)
     PoAValidatorManagerValidationPeriodCreated pick it"

definition PoAValidatorManagerValidationPeriodCreatedIterator_Error :: "iterator \<Rightarrow> goerr option"
   where
  "PoAValidatorManagerValidationPeriodCreatedIterator_Error it = iterator_Error it"

definition PoAValidatorManagerValidationPeriodCreatedIterator_Close :: "iterator \<Rightarrow> goerr option
   \<times> iterator" where
  "PoAValidatorManagerValidationPeriodCreatedIterator_Close it = iterator_Close it"

definition PoAValidatorManagerFilterer_FilterValidationPeriodCreated ::
  "'w bound_contract \<Rightarrow> FilterOpts \<Rightarrow> hash list \<Rightarrow> hash list \<Rightarrow> ('w, goerr + iterator) prog" where
  "PoAValidatorManagerFilterer_FilterValidationPeriodCreated c opts validationID
     registerValidationMessageID =
     filter_events c opts ''ValidationPeriodCreated'' [map GArr32 validationID, map GArr32
        registerValidationMessageID]"

definition PoAValidatorManagerFilterer_WatchValidationPeriodCreated ::
  "'w bound_contract \<Rightarrow> hash list \<Rightarrow> hash list \<Rightarrow> ('w, goerr + (evm_log \<Rightarrow> goerr + event_fields))
     prog" where
  "PoAValidatorManagerFilterer_WatchValidationPeriodCreated c validationID
     registerValidationMessageID =
     watch_events c ''ValidationPeriodCreated'' PoAValidatorManagerValidationPeriodCreated [map
        GArr32 validationID, map GArr32 registerValidationMessageID]"

definition PoAValidatorManagerFilterer_ParseValidationPeriodCreated ::
  "'w bound_contract \<Rightarrow> evm_log \<Rightarrow> goerr + event_fields" where
  "PoAValidatorManagerFilterer_ParseValidationPeriodCreated c = parse_log c
     ''ValidationPeriodCreated'' PoAValidatorManagerValidationPeriodCreated"

definition PoAValidatorManagerValidationPeriodEnded :: event_fields where
  "PoAValidatorManagerValidationPeriodEnded = [(''ValidationID'', GArr32 0), (''Status'', GUint
     8 0), (''Raw'', zero_Log)]"

definition PoAValidatorManagerValidationPeriodEndedIterator_Next ::
  "'w bound_contract \<Rightarrow> bool \<Rightarrow> iterator \<Rightarrow> (bool \<times> iterator) option" where
  "PoAValidatorManagerValidationPeriodEndedIterator_Next c pick it = iterator_Next (parse_log c
     ''ValidationPeriodEnded'' PoAValidatorManagerValidationPeriodEnded)
     PoAValidatorManagerValidationPeriodEnded pick it"

definition PoAValidatorManagerValidationPeriodEndedIterator_Error :: "iterator \<Rightarrow> goerr option"
   where
  "PoAValidatorManagerValidationPeriodEndedIterator_Error it = iterator_Error it"

definition PoAValidatorManagerValidationPeriodEndedIterator_Close :: "iterator \<Rightarrow> goerr option \<times>
   iterator" where
  "PoAValidatorManagerValidationPeriodEndedIterator_Close it = iterator_Close it"

definition PoAValidatorManagerFilterer_FilterValidationPeriodEnded ::
  "'w bound_contract \<Rightarrow> FilterOpts \<Rightarrow> hash list \<Rightarrow> u8 list \<Rightarrow> ('w, goerr + iterator) prog" where
  "PoAValidatorManagerFilterer_FilterValidationPeriodEnded c opts validationID status =
     filter_events c opts ''ValidationPeriodEnded'' [map GArr32 validationID, map (\<lambda>x. GUint 8
        (unat x)) status]"

definition PoAValidatorManagerFilterer_WatchValidationPeriodEnded ::
  "'w bound_contract \<Rightarrow> hash list \<Rightarrow> u8 list \<Rightarrow> ('w, goerr + (evm_log \<Rightarrow> goerr + event_fields))
     prog" where
  "PoAValidatorManagerFilterer_WatchValidationPeriodEnded c validationID status =
     watch_events c ''ValidationPeriodEnded'' PoAValidatorManagerValidationPeriodEnded [map
        GArr32 validationID, map (\<lambda>x. GUint 8 (unat x)) status]"

definition PoAValidatorManagerFilterer_ParseValidationPeriodEnded ::
  "'w bound_contract \<Rightarrow> evm_log \<Rightarrow> goerr + event_fields" where
  "PoAValidatorManagerFilterer_ParseValidationPeriodEnded c = parse_log c
     ''ValidationPeriodEnded'' PoAValidatorManagerValidationPeriodEnded"

definition PoAValidatorManagerValidationPeriodRegistered :: event_fields where
  "PoAValidatorManagerValidationPeriodRegistered = [(''ValidationID'', GArr32 0), (''Weight'',
     GUint 64 0), (''Timestamp'', GNil), (''Raw'', zero_Log)]"

definition PoAValidatorManagerValidationPeriodRegisteredIterator_Next ::
  "'w bound_contract \<Rightarrow> bool \<Rightarrow> iterator \<Rightarrow> (bool \<times> iterator) option" where
  "PoAValidatorManagerValidationPeriodRegisteredIterator_Next c pick it = iterator_Next
     (parse_log c ''ValidationPeriodRegistered'' PoAValidatorManagerValidationPeriodRegistered)
     PoAValidatorManagerValidationPeriodRegistered pick it"

definition PoAValidatorManagerValidationPeriodRegisteredIterator_Error :: "iterator \<Rightarrow> goerr
   option" where
  "PoAValidatorManagerValidationPeriodRegisteredIterator_Error it = iterator_Error it"

definition PoAValidatorManagerValidationPeriodRegisteredIterator_Close :: "iterator \<Rightarrow> goerr
   option \<times> iterator" where
  "PoAValidatorManagerValidationPeriodRegisteredIterator_Close it = iterator_Close it"

definition PoAValidatorManagerFilterer_FilterValidationPeriodRegistered ::
  "'w bound_contract \<Rightarrow> FilterOpts \<Rightarrow> hash list \<Rightarrow> ('w, goerr + iterator) prog" where
  "PoAValidatorManagerFilterer_FilterValidationPeriodRegistered c opts validationID =
     filter_events c opts ''ValidationPeriodRegistered'' [map GArr32 validationID]"

definition PoAValidatorManagerFilterer_WatchValidationPeriodRegistered ::
  "'w bound_contract \<Rightarrow> hash list \<Rightarrow> ('w, goerr + (evm_log \<Rightarrow> goerr + event_fields)) prog" where
  "PoAValidatorManagerFilterer_WatchValidationPeriodRegistered c validationID =
     watch_events c ''ValidationPeriodRegistered'' PoAValidatorManagerValidationPeriodRegistered
        [map GArr32 validationID]"

definition PoAValidatorManagerFilterer_ParseValidationPeriodRegistered ::
  "'w bound_contract \<Rightarrow> evm_log \<Rightarrow> goerr + event_fields" where
  "PoAValidatorManagerFilterer_ParseValidationPeriodRegistered c = parse_log c
     ''ValidationPeriodRegistered'' PoAValidatorManagerValidationPeriodRegistered"

definition PoAValidatorManagerValidatorRemovalInitialized :: event_fields where
  "PoAValidatorManagerValidatorRemovalInitialized = [(''ValidationID'', GArr32 0),
     (''SetWeightMessageID'', GArr32 0), (''Weight'', GUint 64 0), (''EndTime'', GNil),
     (''Raw'', zero_Log)]"

definition PoAValidatorManagerValidatorRemovalInitializedIterator_Next ::
  "'w bound_contract \<Rightarrow> bool \<Rightarrow> iterator \<Rightarrow> (bool \<times> iterator) option" where
  "PoAValidatorManagerValidatorRemovalInitializedIterator_Next c pick it = iterator_Next
     (parse_log c ''ValidatorRemovalInitialized''
     PoAValidatorManagerValidatorRemovalInitialized)
     PoAValidatorManagerValidatorRemovalInitialized pick it"

definition PoAValidatorManagerValidatorRemovalInitializedIterator_Error :: "iterator \<Rightarrow> goerr
   option" where
  "PoAValidatorManagerValidatorRemovalInitializedIterator_Error it = iterator_Error it"

definition PoAValidatorManagerValidatorRemovalInitializedIterator_Close :: "iterator \<Rightarrow> goerr
   option \<times> iterator" where
  "PoAValidatorManagerValidatorRemovalInitializedIterator_Close it = iterator_Close it"

definition PoAValidatorManagerFilterer_FilterValidatorRemovalInitialized ::
  "'w bound_contract \<Rightarrow> FilterOpts \<Rightarrow> hash list \<Rightarrow> hash list \<Rightarrow> ('w, goerr + iterator) prog" where
  "PoAValidatorManagerFilterer_FilterValidatorRemovalInitialized c opts validationID
     setWeightMessageID =
     filter_events c opts ''ValidatorRemovalInitialized'' [map GArr32 validationID, map GArr32
        setWeightMessageID]"

definition PoAValidatorManagerFilterer_WatchValidatorRemovalInitialized ::
  "'w bound_contract \<Rightarrow> hash list \<Rightarrow> hash list \<Rightarrow> ('w, goerr + (evm_log \<Rightarrow> goerr + event_fields))
     prog" where
  "PoAValidatorManagerFilterer_WatchValidatorRemovalInitialized c validationID
     setWeightMessageID =
     watch_events c ''ValidatorRemovalInitialized''
        PoAValidatorManagerValidatorRemovalInitialized [map GArr32 validationID, map GArr32
        setWeightMessageID]"

definition PoAValidatorManagerFilterer_ParseValidatorRemovalInitialized ::
  "'w bound_contract \<Rightarrow> evm_log \<Rightarrow> goerr + event_fields" where
  "PoAValidatorManagerFilterer_ParseValidatorRemovalInitialized c = parse_log c
     ''ValidatorRemovalInitialized'' PoAValidatorManagerValidatorRemovalInitialized"

definition PoAValidatorManagerValidatorWeightUpdate :: event_fields where
  "PoAValidatorManagerValidatorWeightUpdate = [(''ValidationID'', GArr32 0), (''Nonce'', GUint
     64 0), (''Weight'', GUint 64 0), (''SetWeightMessageID'', GArr32 0), (''Raw'', zero_Log)]"

definition PoAValidatorManagerValidatorWeightUpdateIterator_Next ::
  "'w bound_contract \<Rightarrow> bool \<Rightarrow> iterator \<Rightarrow> (bool \<times> iterator) option" where
  "PoAValidatorManagerValidatorWeightUpdateIterator_Next c pick it = iterator_Next (parse_log c
     ''ValidatorWeightUpdate'' PoAValidatorManagerValidatorWeightUpdate)
     PoAValidatorManagerValidatorWeightUpdate pick it"

definition PoAValidatorManagerValidatorWeightUpdateIterator_Error :: "iterator \<Rightarrow> goerr option"
   where
  "PoAValidatorManagerValidatorWeightUpdateIterator_Error it = iterator_Error it"

definition PoAValidatorManagerValidatorWeightUpdateIterator_Close :: "iterator \<Rightarrow> goerr option \<times>
   iterator" where
  "PoAValidatorManagerValidatorWeightUpdateIterator_Close it = iterator_Close it"

definition PoAValidatorManagerFilterer_FilterValidatorWeightUpdate ::
  "'w bound_contract \<Rightarrow> FilterOpts \<Rightarrow> hash list \<Rightarrow> u64 list \<Rightarrow> ('w, goerr + iterator) prog" where
  "PoAValidatorManagerFilterer_FilterValidatorWeightUpdate c opts validationID nonce =
     filter_events c opts ''ValidatorWeightUpdate'' [map GArr32 validationID, map (\<lambda>x. GUint 64
        (unat x)) nonce]"

definition PoAValidatorManagerFilterer_WatchValidatorWeightUpdate ::
  "'w bound_contract \<Rightarrow> hash list \<Rightarrow> u64 list \<Rightarrow> ('w, goerr + (evm_log \<Rightarrow> goerr + event_fields))
     prog" where
  "PoAValidatorManagerFilterer_WatchValidatorWeightUpdate c validationID nonce =
     watch_events c ''ValidatorWeightUpdate'' PoAValidatorManagerValidatorWeightUpdate [map
        GArr32 validationID, map (\<lambda>x. GUint 64 (unat x)) nonce]"

definition PoAValidatorManagerFilterer_ParseValidatorWeightUpdate ::
  "'w bound_contract \<Rightarrow> evm_log \<Rightarrow> goerr + event_fields" where
  "PoAValidatorManagerFilterer_ParseValidatorWeightUpdate c = parse_log c
     ''ValidatorWeightUpdate'' PoAValidatorManagerValidatorWeightUpdate"

section \<open>Correctness\<close>

lemma PoAValidatorManager_methods:
  "map_of (Methods PoAValidatorManagerABI) ''ADDRESS_LENGTH'' =
     Some ([], [([], TUint 32)])"
  "map_of (Methods PoAValidatorManagerABI) ''BLS_PUBLIC_KEY_LENGTH'' =
     Some ([], [([], TUint 8)])"
  "map_of (Methods PoAValidatorManagerABI) ''MAXIMUM_CHURN_PERCENTAGE_LIMIT'' =
     Some ([], [([], TUint 8)])"
  "map_of (Methods PoAValidatorManagerABI) ''MAXIMUM_REGISTRATION_EXPIRY_LENGTH'' =
     Some ([], [([], TUint 64)])"
  "map_of (Methods PoAValidatorManagerABI) ''P_CHAIN_BLOCKCHAIN_ID'' =
     Some ([], [([], TBytes32)])"
  "map_of (Methods PoAValidatorManagerABI) ''VALIDATOR_MANAGER_STORAGE_LOCATION'' =
     Some ([], [([], TBytes32)])"
  "map_of (Methods PoAValidatorManagerABI) ''WARP_MESSENGER'' =
     Some ([], [([], TAddress)])"
  "map_of (Methods PoAValidatorManagerABI) ''completeEndValidation'' =
     Some ([(''messageIndex'', TUint 32)], [])"
  "map_of (Methods PoAValidatorManagerABI) ''completeValidatorRegistration'' =
     Some ([(''messageIndex'', TUint 32)], [])"
  "map_of (Methods PoAValidatorManagerABI) ''getValidator'' =
     Some ([(''validationID'', TBytes32)], [([], Validator_tuple)])"
  "map_of (Methods PoAValidatorManagerABI) ''initialize'' =
     Some ([(''settings'', ValidatorManagerSettings_tuple), (''initialOwner'', TAddress)], [])"
  "map_of (Methods PoAValidatorManagerABI) ''initializeEndValidation'' =
     Some ([(''validationID'', TBytes32)], [])"
  "map_of (Methods PoAValidatorManagerABI) ''initializeValidatorRegistration'' =
     Some ([(''registrationInput'', ValidatorRegistrationInput_tuple), (''weight'', TUint 64)],
        [(''validationID'', TBytes32)])"
  "map_of (Methods PoAValidatorManagerABI) ''initializeValidatorSet'' =
     Some ([(''conversionData'', ConversionData_tuple), (''messageIndex'', TUint 32)], [])"
  "map_of (Methods PoAValidatorManagerABI) ''owner'' =
     Some ([], [([], TAddress)])"
  "map_of (Methods PoAValidatorManagerABI) ''registeredValidators'' =
     Some ([(''nodeID'', TBytes)], [([], TBytes32)])"
  "map_of (Methods PoAValidatorManagerABI) ''renounceOwnership'' =
     Some ([], [])"
  "map_of (Methods PoAValidatorManagerABI) ''resendEndValidatorMessage'' =
     Some ([(''validationID'', TBytes32)], [])"
  "map_of (Methods PoAValidatorManagerABI) ''resendRegisterValidatorMessage'' =
     Some ([(''validationID'', TBytes32)], [])"
  "map_of (Methods PoAValidatorManagerABI) ''transferOwnership'' =
     Some ([(''newOwner'', TAddress)], [])"
  unfolding PoAValidatorManagerABI_def contract_abi.select_convs
  by (simp_all only: table_lookup)

lemma PoAValidatorManager_decodable:
  "decodable [(''validationID'', TBytes32, True), (''weight'', TUint 64, False), (''nodeID'',
     TBytes, False)]
     PoAValidatorManagerInitialValidatorCreated"
  "decodable [(''version'', TUint 64, False)]
     PoAValidatorManagerInitialized"
  "decodable [(''previousOwner'', TAddress, True), (''newOwner'', TAddress, True)]
     PoAValidatorManagerOwnershipTransferred"
  "decodable [(''validationID'', TBytes32, True), (''registerValidationMessageID'', TBytes32,
     True), (''weight'', TUint 64, False), (''nodeID'', TBytes, False), (''registrationExpiry'',
     TUint 64, False)]
     PoAValidatorManagerValidationPeriodCreated"
  "decodable [(''validationID'', TBytes32, True), (''status'', TUint 8, True)]
     PoAValidatorManagerValidationPeriodEnded"
  "decodable [(''validationID'', TBytes32, True), (''weight'', TUint 64, False), (''timestamp'',
     TUint 256, False)]
     PoAValidatorManagerValidationPeriodRegistered"
  "decodable [(''validationID'', TBytes32, True), (''setWeightMessageID'', TBytes32, True),
     (''weight'', TUint 64, False), (''endTime'', TUint 256, False)]
     PoAValidatorManagerValidatorRemovalInitialized"
  "decodable [(''validationID'', TBytes32, True), (''nonce'', TUint 64, True), (''weight'',
     TUint 64, False), (''setWeightMessageID'', TBytes32, False)]
     PoAValidatorManagerValidatorWeightUpdate"
  by (simp_all add: decodable_def has_fields_def fits_def
     PoAValidatorManagerInitialValidatorCreated_def PoAValidatorManagerInitialized_def
     PoAValidatorManagerOwnershipTransferred_def PoAValidatorManagerValidationPeriodCreated_def
     PoAValidatorManagerValidationPeriodEnded_def
     PoAValidatorManagerValidationPeriodRegistered_def
     PoAValidatorManagerValidatorRemovalInitialized_def
     PoAValidatorManagerValidatorWeightUpdate_def )

lemma PoAValidatorManager_events:
  "map_of (Events PoAValidatorManagerABI) ''InitialValidatorCreated'' =
     Some [(''validationID'', TBytes32, True), (''weight'', TUint 64, False), (''nodeID'',
        TBytes, False)]"
  "map_of (Events PoAValidatorManagerABI) ''Initialized'' =
     Some [(''version'', TUint 64, False)]"
  "map_of (Events PoAValidatorManagerABI) ''OwnershipTransferred'' =
     Some [(''previousOwner'', TAddress, True), (''newOwner'', TAddress, True)]"
  "map_of (Events PoAValidatorManagerABI) ''ValidationPeriodCreated'' =
     Some [(''validationID'', TBytes32, True), (''registerValidationMessageID'', TBytes32,
        True), (''weight'', TUint 64, False), (''nodeID'', TBytes, False),
        (''registrationExpiry'', TUint 64, False)]"
  "map_of (Events PoAValidatorManagerABI) ''ValidationPeriodEnded'' =
     Some [(''validationID'', TBytes32, True), (''status'', TUint 8, True)]"
  "map_of (Events PoAValidatorManagerABI) ''ValidationPeriodRegistered'' =
     Some [(''validationID'', TBytes32, True), (''weight'', TUint 64, False), (''timestamp'',
        TUint 256, False)]"
  "map_of (Events PoAValidatorManagerABI) ''ValidatorRemovalInitialized'' =
     Some [(''validationID'', TBytes32, True), (''setWeightMessageID'', TBytes32, True),
        (''weight'', TUint 64, False), (''endTime'', TUint 256, False)]"
  "map_of (Events PoAValidatorManagerABI) ''ValidatorWeightUpdate'' =
     Some [(''validationID'', TBytes32, True), (''nonce'', TUint 64, True), (''weight'', TUint
        64, False), (''setWeightMessageID'', TBytes32, False)]"
  unfolding PoAValidatorManagerABI_def contract_abi.select_convs
  by (simp_all only: table_lookup)

lemma PoAValidatorManager_transactions_decode:
  assumes "codec_methods k" and "codec_roundtrip k" and "bound_spec k PoAValidatorManagerABI be
     c"
  shows "(\<forall>messageIndex. sends_call k PoAValidatorManagerABI be opts ''completeEndValidation''
     [GUint 32 (unat messageIndex)]
       (PoAValidatorManagerTransactor_CompleteEndValidation c opts messageIndex)) \<and>
     (\<forall>messageIndex. sends_call k PoAValidatorManagerABI be opts
        ''completeValidatorRegistration'' [GUint 32 (unat messageIndex)]
       (PoAValidatorManagerTransactor_CompleteValidatorRegistration c opts messageIndex)) \<and>
     (\<forall>settings initialOwner. sends_call k PoAValidatorManagerABI be opts ''initialize''
        [ValidatorManagerSettings_val settings, GAddr initialOwner]
       (PoAValidatorManagerTransactor_Initialize c opts settings initialOwner)) \<and>
     (\<forall>validationID. sends_call k PoAValidatorManagerABI be opts ''initializeEndValidation''
        [GArr32 validationID]
       (PoAValidatorManagerTransactor_InitializeEndValidation c opts validationID)) \<and>
     (\<forall>registrationInput weight. sends_call k PoAValidatorManagerABI be opts
        ''initializeValidatorRegistration'' [ValidatorRegistrationInput_val registrationInput,
        GUint 64 (unat weight)]
       (PoAValidatorManagerTransactor_InitializeValidatorRegistration c opts registrationInput
          weight)) \<and>
     (\<forall>conversionData messageIndex. sends_call k PoAValidatorManagerABI be opts
        ''initializeValidatorSet'' [ConversionData_val conversionData, GUint 32 (unat
        messageIndex)]
       (PoAValidatorManagerTransactor_InitializeValidatorSet c opts conversionData
          messageIndex)) \<and>
     sends_call k PoAValidatorManagerABI be opts ''renounceOwnership'' []
       (PoAValidatorManagerTransactor_RenounceOwnership c opts) \<and>
     (\<forall>validationID. sends_call k PoAValidatorManagerABI be opts ''resendEndValidatorMessage''
        [GArr32 validationID]
       (PoAValidatorManagerTransactor_ResendEndValidatorMessage c opts validationID)) \<and>
     (\<forall>validationID. sends_call k PoAValidatorManagerABI be opts
        ''resendRegisterValidatorMessage'' [GArr32 validationID]
       (PoAValidatorManagerTransactor_ResendRegisterValidatorMessage c opts validationID)) \<and>
     (\<forall>newOwner. sends_call k PoAValidatorManagerABI be opts ''transferOwnership'' [GAddr
        newOwner]
       (PoAValidatorManagerTransactor_TransferOwnership c opts newOwner))"
  unfolding PoAValidatorManagerTransactor_CompleteEndValidation_def
     PoAValidatorManagerTransactor_CompleteValidatorRegistration_def
     PoAValidatorManagerTransactor_Initialize_def
     PoAValidatorManagerTransactor_InitializeEndValidation_def
     PoAValidatorManagerTransactor_InitializeValidatorRegistration_def
     PoAValidatorManagerTransactor_InitializeValidatorSet_def
     PoAValidatorManagerTransactor_RenounceOwnership_def
     PoAValidatorManagerTransactor_ResendEndValidatorMessage_def
     PoAValidatorManagerTransactor_ResendRegisterValidatorMessage_def
     PoAValidatorManagerTransactor_TransferOwnership_def
  by ((intro conjI allI impI)?; rule transact_sends [OF assms], rule
     PoAValidatorManager_methods)
    (simp_all del: matches.simps(1))

lemma PoAValidatorManager_calls_return_outputs:
  assumes "codec_methods k" and "codec_roundtrip k" and "bound_spec k PoAValidatorManagerABI be
     c"
  shows "(\<forall>r0. reads_call k PoAValidatorManagerABI be opts ''ADDRESS_LENGTH'' []
       [GUint 32 (unat r0)] r0 (PoAValidatorManagerCaller_ADDRESSLENGTH c opts)) \<and>
     (\<forall>r0. reads_call k PoAValidatorManagerABI be opts ''BLS_PUBLIC_KEY_LENGTH'' []
       [GUint 8 (unat r0)] r0 (PoAValidatorManagerCaller_BLSPUBLICKEYLENGTH c opts)) \<and>
     (\<forall>r0. reads_call k PoAValidatorManagerABI be opts ''MAXIMUM_CHURN_PERCENTAGE_LIMIT'' []
       [GUint 8 (unat r0)] r0 (PoAValidatorManagerCaller_MAXIMUMCHURNPERCENTAGELIMIT c opts)) \<and>
     (\<forall>r0. reads_call k PoAValidatorManagerABI be opts ''MAXIMUM_REGISTRATION_EXPIRY_LENGTH'' []
       [GUint 64 (unat r0)] r0 (PoAValidatorManagerCaller_MAXIMUMREGISTRATIONEXPIRYLENGTH c
          opts)) \<and>
     (\<forall>r0. reads_call k PoAValidatorManagerABI be opts ''P_CHAIN_BLOCKCHAIN_ID'' []
       [GArr32 r0] r0 (PoAValidatorManagerCaller_PCHAINBLOCKCHAINID c opts)) \<and>
     (\<forall>r0. reads_call k PoAValidatorManagerABI be opts ''VALIDATOR_MANAGER_STORAGE_LOCATION'' []
       [GArr32 r0] r0 (PoAValidatorManagerCaller_VALIDATORMANAGERSTORAGELOCATION c opts)) \<and>
     (\<forall>r0. reads_call k PoAValidatorManagerABI be opts ''WARP_MESSENGER'' []
       [GAddr r0] r0 (PoAValidatorManagerCaller_WARPMESSENGER c opts)) \<and>
     (\<forall>validationID r0. reads_call k PoAValidatorManagerABI be opts ''getValidator'' [GArr32
        validationID]
       [Validator_val r0] r0 (PoAValidatorManagerCaller_GetValidator c opts validationID)) \<and>
     (\<forall>r0. reads_call k PoAValidatorManagerABI be opts ''owner'' []
       [GAddr r0] r0 (PoAValidatorManagerCaller_Owner c opts)) \<and>
     (\<forall>nodeID r0. reads_call k PoAValidatorManagerABI be opts ''registeredValidators'' [GBytes
        nodeID]
       [GArr32 r0] r0 (PoAValidatorManagerCaller_RegisteredValidators c opts nodeID))"
  unfolding PoAValidatorManagerCaller_ADDRESSLENGTH_def
     PoAValidatorManagerCaller_BLSPUBLICKEYLENGTH_def
     PoAValidatorManagerCaller_MAXIMUMCHURNPERCENTAGELIMIT_def
     PoAValidatorManagerCaller_MAXIMUMREGISTRATIONEXPIRYLENGTH_def
     PoAValidatorManagerCaller_PCHAINBLOCKCHAINID_def
     PoAValidatorManagerCaller_VALIDATORMANAGERSTORAGELOCATION_def
     PoAValidatorManagerCaller_WARPMESSENGER_def PoAValidatorManagerCaller_GetValidator_def
     PoAValidatorManagerCaller_Owner_def PoAValidatorManagerCaller_RegisteredValidators_def
  by ((intro conjI allI impI)?; rule call_reads [OF assms], rule PoAValidatorManager_methods)
    (simp_all del: matches.simps(1))

lemma PoAValidatorManager_parsers_decode:
  assumes "codec_events k" and "event_ids k PoAValidatorManagerABI" and "bound_spec k
     PoAValidatorManagerABI be c"
  shows "parser_decodes k PoAValidatorManagerABI ''InitialValidatorCreated''
     (PoAValidatorManagerFilterer_ParseInitialValidatorCreated c) \<and>
     parser_decodes k PoAValidatorManagerABI ''Initialized''
        (PoAValidatorManagerFilterer_ParseInitialized c) \<and>
     parser_decodes k PoAValidatorManagerABI ''OwnershipTransferred''
        (PoAValidatorManagerFilterer_ParseOwnershipTransferred c) \<and>
     parser_decodes k PoAValidatorManagerABI ''ValidationPeriodCreated''
        (PoAValidatorManagerFilterer_ParseValidationPeriodCreated c) \<and>
     parser_decodes k PoAValidatorManagerABI ''ValidationPeriodEnded''
        (PoAValidatorManagerFilterer_ParseValidationPeriodEnded c) \<and>
     parser_decodes k PoAValidatorManagerABI ''ValidationPeriodRegistered''
        (PoAValidatorManagerFilterer_ParseValidationPeriodRegistered c) \<and>
     parser_decodes k PoAValidatorManagerABI ''ValidatorRemovalInitialized''
        (PoAValidatorManagerFilterer_ParseValidatorRemovalInitialized c) \<and>
     parser_decodes k PoAValidatorManagerABI ''ValidatorWeightUpdate''
        (PoAValidatorManagerFilterer_ParseValidatorWeightUpdate c)"
proof -
  note parses = parse_log_decodes [OF assms]
  show ?thesis
    unfolding PoAValidatorManagerFilterer_ParseInitialValidatorCreated_def
       PoAValidatorManagerFilterer_ParseInitialized_def
       PoAValidatorManagerFilterer_ParseOwnershipTransferred_def
       PoAValidatorManagerFilterer_ParseValidationPeriodCreated_def
       PoAValidatorManagerFilterer_ParseValidationPeriodEnded_def
       PoAValidatorManagerFilterer_ParseValidationPeriodRegistered_def
       PoAValidatorManagerFilterer_ParseValidatorRemovalInitialized_def
       PoAValidatorManagerFilterer_ParseValidatorWeightUpdate_def
    by ((intro conjI)?; rule parses, rule PoAValidatorManager_events, rule
       PoAValidatorManager_decodable)
qed

end
