(* ===== verification/ERC20TokenStakingManagerBinding.thy ===== *)
theory ERC20TokenStakingManagerBinding
  imports ManagerStructs LinkedDeployment AbiRef
begin

text \<open>
  The generated binding \<open>abi-bindings/go/validator-manager/ERC20TokenStakingManager/ERC20TokenStakingManager.go\<close> over the generic
  definitions of theory \<open>Binding\<close>: its ABI, every method with its session wrappers, every event with
  its iterator, filter, watch and parser. The bytecode is a parameter of deployment; the aliases
  \<open>Raw\<close> of the untyped calls are not modelled.
\<close>

section \<open>The contract's ABI (ERC20TokenStakingManagerMetaData)\<close>

definition ERC20TokenStakingManagerABI :: contract_abi where
  "ERC20TokenStakingManagerABI = \<lparr>
      Methods = [
        (''ADDRESS_LENGTH'', [],
           [('''', TUint 32)]),
        (''BIPS_CONVERSION_FACTOR'', [],
           [('''', TUint 16)]),
        (''BLS_PUBLIC_KEY_LENGTH'', [],
           [('''', TUint 8)]),
        (''ERC20_STAKING_MANAGER_STORAGE_LOCATION'', [],
           [('''', TBytes32)]),
        (''MAXIMUM_CHURN_PERCENTAGE_LIMIT'', [],
           [('''', TUint 8)]),
        (''MAXIMUM_DELEGATION_FEE_BIPS'', [],
           [('''', TUint 16)]),
        (''MAXIMUM_REGISTRATION_EXPIRY_LENGTH'', [],
           [('''', TUint 64)]),
        (''MAXIMUM_STAKE_MULTIPLIER_LIMIT'', [],
           [('''', TUint 8)]),
        (''POS_VALIDATOR_MANAGER_STORAGE_LOCATION'', [],
           [('''', TBytes32)]),
        (''P_CHAIN_BLOCKCHAIN_ID'', [],
           [('''', TBytes32)]),
        (''VALIDATOR_MANAGER_STORAGE_LOCATION'', [],
           [('''', TBytes32)]),
        (''WARP_MESSENGER'', [],
           [('''', TAddress)]),
        (''changeDelegatorRewardRecipient'', [(''delegationID'', TBytes32),
           (''rewardRecipient'', TAddress)],
           []),
        (''changeValidatorRewardRecipient'', [(''validationID'', TBytes32),
           (''rewardRecipient'', TAddress)],
           []),
        (''claimDelegationFees'', [(''validationID'', TBytes32)],
           []),
        (''completeDelegatorRegistration'', [(''delegationID'', TBytes32), (''messageIndex'',
           TUint 32)],
           []),
        (''completeEndDelegation'', [(''delegationID'', TBytes32), (''messageIndex'', TUint
           32)],
           []),
        (''completeEndValidation'', [(''messageIndex'', TUint 32)],
           []),
        (''completeValidatorRegistration'', [(''messageIndex'', TUint 32)],
           []),
        (''erc20'', [],
           [('''', TAddress)]),
        (''forceInitializeEndDelegation'', [(''delegationID'', TBytes32),
           (''includeUptimeProof'', TBool), (''messageIndex'', TUint 32)],
           []),
        (''forceInitializeEndDelegation0'', [(''delegationID'', TBytes32),
           (''includeUptimeProof'', TBool), (''messageIndex'', TUint 32), (''rewardRecipient'',
           TAddress)],
           []),
        (''forceInitializeEndValidation'', [(''validationID'', TBytes32),
           (''includeUptimeProof'', TBool), (''messageIndex'', TUint 32)],
           []),
        (''forceInitializeEndValidation0'', [(''validationID'', TBytes32),
           (''includeUptimeProof'', TBool), (''messageIndex'', TUint 32), (''rewardRecipient'',
           TAddress)],
           []),
        (''getValidator'', [(''validationID'', TBytes32)],
           [('''', Validator_tuple)]),
        (''initialize'', [(''settings'', PoSValidatorManagerSettings_tuple), (''token'',
           TAddress)],
           []),
        (''initializeDelegatorRegistration'', [(''validationID'', TBytes32),
           (''delegationAmount'', TUint 256)],
           [('''', TBytes32)]),
        (''initializeEndDelegation'', [(''delegationID'', TBytes32), (''includeUptimeProof'',
           TBool), (''messageIndex'', TUint 32)],
           []),
        (''initializeEndDelegation0'', [(''delegationID'', TBytes32), (''includeUptimeProof'',
           TBool), (''messageIndex'', TUint 32), (''rewardRecipient'', TAddress)],
           []),
        (''initializeEndValidation'', [(''validationID'', TBytes32), (''includeUptimeProof'',
           TBool), (''messageIndex'', TUint 32), (''rewardRecipient'', TAddress)],
           []),
        (''initializeEndValidation0'', [(''validationID'', TBytes32), (''includeUptimeProof'',
           TBool), (''messageIndex'', TUint 32)],
           []),
        (''initializeValidatorRegistration'', [(''registrationInput'',
           ValidatorRegistrationInput_tuple), (''delegationFeeBips'', TUint 16),
           (''minStakeDuration'', TUint 64), (''stakeAmount'', TUint 256)],
           [(''validationID'', TBytes32)]),
        (''initializeValidatorSet'', [(''conversionData'', ConversionData_tuple),
           (''messageIndex'', TUint 32)],
           []),
        (''registeredValidators'', [(''nodeID'', TBytes)],
           [('''', TBytes32)]),
        (''resendEndValidatorMessage'', [(''validationID'', TBytes32)],
           []),
        (''resendRegisterValidatorMessage'', [(''validationID'', TBytes32)],
           []),
        (''resendUpdateDelegation'', [(''delegationID'', TBytes32)],
           []),
        (''submitUptimeProof'', [(''validationID'', TBytes32), (''messageIndex'', TUint 32)],
           []),
        (''valueToWeight'', [(''value'', TUint 256)],
           [('''', TUint 64)]),
        (''weightToValue'', [(''weight'', TUint 64)],
           [('''', TUint 256)])],
      Events = [
        (''DelegationEnded'', [(''delegationID'', TBytes32, True), (''validationID'', TBytes32,
           True), (''rewards'', TUint 256, False), (''fees'', TUint 256, False)]),
        (''DelegatorAdded'', [(''delegationID'', TBytes32, True), (''validationID'', TBytes32,
           True), (''delegatorAddress'', TAddress, True), (''nonce'', TUint 64, False),
           (''validatorWeight'', TUint 64, False), (''delegatorWeight'', TUint 64, False),
           (''setWeightMessageID'', TBytes32, False)]),
        (''DelegatorRegistered'', [(''delegationID'', TBytes32, True), (''validationID'',
           TBytes32, True), (''startTime'', TUint 256, False)]),
        (''DelegatorRemovalInitialized'', [(''delegationID'', TBytes32, True),
           (''validationID'', TBytes32, True)]),
        (''InitialValidatorCreated'', [(''validationID'', TBytes32, True), (''weight'', TUint
           64, False), (''nodeID'', TBytes, False)]),
        (''Initialized'', [(''version'', TUint 64, False)]),
        (''UptimeUpdated'', [(''validationID'', TBytes32, True), (''uptime'', TUint 64,
           False)]),
        (''ValidationPeriodCreated'', [(''validationID'', TBytes32, True),
           (''registerValidationMessageID'', TBytes32, True), (''weight'', TUint 64, False),
           (''nodeID'', TBytes, False), (''registrationExpiry'', TUint 64, False)]),
        (''ValidationPeriodEnded'', [(''validationID'', TBytes32, True), (''status'', TUint 8,
           True)]),
        (''ValidationPeriodRegistered'', [(''validationID'', TBytes32, True), (''weight'', TUint
           64, False), (''timestamp'', TUint 256, False)]),
        (''ValidatorRemovalInitialized'', [(''validationID'', TBytes32, True),
           (''setWeightMessageID'', TBytes32, True), (''weight'', TUint 64, False),
           (''endTime'', TUint 256, False)]),
        (''ValidatorWeightUpdate'', [(''validationID'', TBytes32, True), (''nonce'', TUint 64,
           True), (''weight'', TUint 64, False), (''setWeightMessageID'', TBytes32, False)])]\<rparr>"

section \<open>Binding and deployment\<close>

definition bindERC20TokenStakingManager :: "'w bind_lib \<Rightarrow> address \<Rightarrow> goerr + 'w bound_contract"
   where
  "bindERC20TokenStakingManager lib addr = bind_contract lib ERC20TokenStakingManagerABI addr"

definition NewERC20TokenStakingManager :: "'w bind_lib \<Rightarrow> address \<Rightarrow> goerr + 'w bound_contract"
   where
  "NewERC20TokenStakingManager lib addr = bindERC20TokenStakingManager lib addr"

definition DeployERC20TokenStakingManager ::
  "'w linked_lib \<Rightarrow> TransactOpts \<Rightarrow> u8 \<Rightarrow> ('w link_state, goerr + address \<times> hash \<times> 'w
     bound_contract) prog" where
  "DeployERC20TokenStakingManager lib auth init_mode = deploy_linked lib auth
     ERC20TokenStakingManagerABI [GUint 8 (unat init_mode)]"

section \<open>Methods\<close>

definition ERC20TokenStakingManagerCaller_ADDRESSLENGTH ::
  "'w bound_contract \<Rightarrow> CallOpts \<Rightarrow> ('w, goerr + u32) prog" where
  "ERC20TokenStakingManagerCaller_ADDRESSLENGTH c opts =
     call_method c opts ''ADDRESS_LENGTH'' [] (out1 (go_word 32))"

definition ERC20TokenStakingManagerSession_ADDRESSLENGTH ::
  "'w session \<Rightarrow> ('w, goerr + u32) prog" where
  "ERC20TokenStakingManagerSession_ADDRESSLENGTH s =
     ERC20TokenStakingManagerCaller_ADDRESSLENGTH (SessionContract s) (SessionCallOpts s)"

definition ERC20TokenStakingManagerCaller_BIPSCONVERSIONFACTOR ::
  "'w bound_contract \<Rightarrow> CallOpts \<Rightarrow> ('w, goerr + u16) prog" where
  "ERC20TokenStakingManagerCaller_BIPSCONVERSIONFACTOR c opts =
     call_method c opts ''BIPS_CONVERSION_FACTOR'' [] (out1 (go_word 16))"

definition ERC20TokenStakingManagerSession_BIPSCONVERSIONFACTOR ::
  "'w session \<Rightarrow> ('w, goerr + u16) prog" where
  "ERC20TokenStakingManagerSession_BIPSCONVERSIONFACTOR s =
     ERC20TokenStakingManagerCaller_BIPSCONVERSIONFACTOR (SessionContract s) (SessionCallOpts
     s)"

definition ERC20TokenStakingManagerCaller_BLSPUBLICKEYLENGTH ::
  "'w bound_contract \<Rightarrow> CallOpts \<Rightarrow> ('w, goerr + u8) prog" where
  "ERC20TokenStakingManagerCaller_BLSPUBLICKEYLENGTH c opts =
     call_method c opts ''BLS_PUBLIC_KEY_LENGTH'' [] (out1 (go_word 8))"

definition ERC20TokenStakingManagerSession_BLSPUBLICKEYLENGTH ::
  "'w session \<Rightarrow> ('w, goerr + u8) prog" where
  "ERC20TokenStakingManagerSession_BLSPUBLICKEYLENGTH s =
     ERC20TokenStakingManagerCaller_BLSPUBLICKEYLENGTH (SessionContract s) (SessionCallOpts s)"

definition ERC20TokenStakingManagerCaller_ERC20STAKINGMANAGERSTORAGELOCATION ::
  "'w bound_contract \<Rightarrow> CallOpts \<Rightarrow> ('w, goerr + hash) prog" where
  "ERC20TokenStakingManagerCaller_ERC20STAKINGMANAGERSTORAGELOCATION c opts =
     call_method c opts ''ERC20_STAKING_MANAGER_STORAGE_LOCATION'' [] (out1 go_arr32)"

definition ERC20TokenStakingManagerSession_ERC20STAKINGMANAGERSTORAGELOCATION ::
  "'w session \<Rightarrow> ('w, goerr + hash) prog" where
  "ERC20TokenStakingManagerSession_ERC20STAKINGMANAGERSTORAGELOCATION s =
     ERC20TokenStakingManagerCaller_ERC20STAKINGMANAGERSTORAGELOCATION (SessionContract s)
     (SessionCallOpts s)"

definition ERC20TokenStakingManagerCaller_MAXIMUMCHURNPERCENTAGELIMIT ::
  "'w bound_contract \<Rightarrow> CallOpts \<Rightarrow> ('w, goerr + u8) prog" where
  "ERC20TokenStakingManagerCaller_MAXIMUMCHURNPERCENTAGELIMIT c opts =
     call_method c opts ''MAXIMUM_CHURN_PERCENTAGE_LIMIT'' [] (out1 (go_word 8))"

definition ERC20TokenStakingManagerSession_MAXIMUMCHURNPERCENTAGELIMIT ::
  "'w session \<Rightarrow> ('w, goerr + u8) prog" where
  "ERC20TokenStakingManagerSession_MAXIMUMCHURNPERCENTAGELIMIT s =
     ERC20TokenStakingManagerCaller_MAXIMUMCHURNPERCENTAGELIMIT (SessionContract s)
     (SessionCallOpts s)"

definition ERC20TokenStakingManagerCaller_MAXIMUMDELEGATIONFEEBIPS ::
  "'w bound_contract \<Rightarrow> CallOpts \<Rightarrow> ('w, goerr + u16) prog" where
  "ERC20TokenStakingManagerCaller_MAXIMUMDELEGATIONFEEBIPS c opts =
     call_method c opts ''MAXIMUM_DELEGATION_FEE_BIPS'' [] (out1 (go_word 16))"

definition ERC20TokenStakingManagerSession_MAXIMUMDELEGATIONFEEBIPS ::
  "'w session \<Rightarrow> ('w, goerr + u16) prog" where
  "ERC20TokenStakingManagerSession_MAXIMUMDELEGATIONFEEBIPS s =
     ERC20TokenStakingManagerCaller_MAXIMUMDELEGATIONFEEBIPS (SessionContract s)
     (SessionCallOpts s)"

definition ERC20TokenStakingManagerCaller_MAXIMUMREGISTRATIONEXPIRYLENGTH ::
  "'w bound_contract \<Rightarrow> CallOpts \<Rightarrow> ('w, goerr + u64) prog" where
  "ERC20TokenStakingManagerCaller_MAXIMUMREGISTRATIONEXPIRYLENGTH c opts =
     call_method c opts ''MAXIMUM_REGISTRATION_EXPIRY_LENGTH'' [] (out1 (go_word 64))"

definition ERC20TokenStakingManagerSession_MAXIMUMREGISTRATIONEXPIRYLENGTH ::
  "'w session \<Rightarrow> ('w, goerr + u64) prog" where
  "ERC20TokenStakingManagerSession_MAXIMUMREGISTRATIONEXPIRYLENGTH s =
     ERC20TokenStakingManagerCaller_MAXIMUMREGISTRATIONEXPIRYLENGTH (SessionContract s)
     (SessionCallOpts s)"

definition ERC20TokenStakingManagerCaller_MAXIMUMSTAKEMULTIPLIERLIMIT ::
  "'w bound_contract \<Rightarrow> CallOpts \<Rightarrow> ('w, goerr + u8) prog" where
  "ERC20TokenStakingManagerCaller_MAXIMUMSTAKEMULTIPLIERLIMIT c opts =
     call_method c opts ''MAXIMUM_STAKE_MULTIPLIER_LIMIT'' [] (out1 (go_word 8))"

definition ERC20TokenStakingManagerSession_MAXIMUMSTAKEMULTIPLIERLIMIT ::
  "'w session \<Rightarrow> ('w, goerr + u8) prog" where
  "ERC20TokenStakingManagerSession_MAXIMUMSTAKEMULTIPLIERLIMIT s =
     ERC20TokenStakingManagerCaller_MAXIMUMSTAKEMULTIPLIERLIMIT (SessionContract s)
     (SessionCallOpts s)"

definition ERC20TokenStakingManagerCaller_POSVALIDATORMANAGERSTORAGELOCATION ::
  "'w bound_contract \<Rightarrow> CallOpts \<Rightarrow> ('w, goerr + hash) prog" where
  "ERC20TokenStakingManagerCaller_POSVALIDATORMANAGERSTORAGELOCATION c opts =
     call_method c opts ''POS_VALIDATOR_MANAGER_STORAGE_LOCATION'' [] (out1 go_arr32)"

definition ERC20TokenStakingManagerSession_POSVALIDATORMANAGERSTORAGELOCATION ::
  "'w session \<Rightarrow> ('w, goerr + hash) prog" where
  "ERC20TokenStakingManagerSession_POSVALIDATORMANAGERSTORAGELOCATION s =
     ERC20TokenStakingManagerCaller_POSVALIDATORMANAGERSTORAGELOCATION (SessionContract s)
     (SessionCallOpts s)"

definition ERC20TokenStakingManagerCaller_PCHAINBLOCKCHAINID ::
  "'w bound_contract \<Rightarrow> CallOpts \<Rightarrow> ('w, goerr + hash) prog" where
  "ERC20TokenStakingManagerCaller_PCHAINBLOCKCHAINID c opts =
     call_method c opts ''P_CHAIN_BLOCKCHAIN_ID'' [] (out1 go_arr32)"

definition ERC20TokenStakingManagerSession_PCHAINBLOCKCHAINID ::
  "'w session \<Rightarrow> ('w, goerr + hash) prog" where
  "ERC20TokenStakingManagerSession_PCHAINBLOCKCHAINID s =
     ERC20TokenStakingManagerCaller_PCHAINBLOCKCHAINID (SessionContract s) (SessionCallOpts s)"

definition ERC20TokenStakingManagerCaller_VALIDATORMANAGERSTORAGELOCATION ::
  "'w bound_contract \<Rightarrow> CallOpts \<Rightarrow> ('w, goerr + hash) prog" where
  "ERC20TokenStakingManagerCaller_VALIDATORMANAGERSTORAGELOCATION c opts =
     call_method c opts ''VALIDATOR_MANAGER_STORAGE_LOCATION'' [] (out1 go_arr32)"

definition ERC20TokenStakingManagerSession_VALIDATORMANAGERSTORAGELOCATION ::
  "'w session \<Rightarrow> ('w, goerr + hash) prog" where
  "ERC20TokenStakingManagerSession_VALIDATORMANAGERSTORAGELOCATION s =
     ERC20TokenStakingManagerCaller_VALIDATORMANAGERSTORAGELOCATION (SessionContract s)
     (SessionCallOpts s)"

definition ERC20TokenStakingManagerCaller_WARPMESSENGER ::
  "'w bound_contract \<Rightarrow> CallOpts \<Rightarrow> ('w, goerr + address) prog" where
  "ERC20TokenStakingManagerCaller_WARPMESSENGER c opts =
     call_method c opts ''WARP_MESSENGER'' [] (out1 go_addr)"

definition ERC20TokenStakingManagerSession_WARPMESSENGER ::
  "'w session \<Rightarrow> ('w, goerr + address) prog" where
  "ERC20TokenStakingManagerSession_WARPMESSENGER s =
     ERC20TokenStakingManagerCaller_WARPMESSENGER (SessionContract s) (SessionCallOpts s)"

definition ERC20TokenStakingManagerTransactor_ChangeDelegatorRewardRecipient ::
  "'w bound_contract \<Rightarrow> TransactOpts \<Rightarrow> hash \<Rightarrow> address \<Rightarrow> ('w, goerr + hash) prog" where
  "ERC20TokenStakingManagerTransactor_ChangeDelegatorRewardRecipient c opts delegationID
     rewardRecipient =
     contract_transact c opts ''changeDelegatorRewardRecipient'' [GArr32 delegationID, GAddr
        rewardRecipient]"

definition ERC20TokenStakingManagerSession_ChangeDelegatorRewardRecipient ::
  "'w session \<Rightarrow> hash \<Rightarrow> address \<Rightarrow> ('w, goerr + hash) prog" where
  "ERC20TokenStakingManagerSession_ChangeDelegatorRewardRecipient s delegationID rewardRecipient
     = ERC20TokenStakingManagerTransactor_ChangeDelegatorRewardRecipient (SessionContract s)
     (SessionTransactOpts s) delegationID rewardRecipient"

definition ERC20TokenStakingManagerTransactor_ChangeValidatorRewardRecipient ::
  "'w bound_contract \<Rightarrow> TransactOpts \<Rightarrow> hash \<Rightarrow> address \<Rightarrow> ('w, goerr + hash) prog" where
  "ERC20TokenStakingManagerTransactor_ChangeValidatorRewardRecipient c opts validationID
     rewardRecipient =
     contract_transact c opts ''changeValidatorRewardRecipient'' [GArr32 validationID, GAddr
        rewardRecipient]"

definition ERC20TokenStakingManagerSession_ChangeValidatorRewardRecipient ::
  "'w session \<Rightarrow> hash \<Rightarrow> address \<Rightarrow> ('w, goerr + hash) prog" where
  "ERC20TokenStakingManagerSession_ChangeValidatorRewardRecipient s validationID rewardRecipient
     = ERC20TokenStakingManagerTransactor_ChangeValidatorRewardRecipient (SessionContract s)
     (SessionTransactOpts s) validationID rewardRecipient"

definition ERC20TokenStakingManagerTransactor_ClaimDelegationFees ::
  "'w bound_contract \<Rightarrow> TransactOpts \<Rightarrow> hash \<Rightarrow> ('w, goerr + hash) prog" where
  "ERC20TokenStakingManagerTransactor_ClaimDelegationFees c opts validationID =
     contract_transact c opts ''claimDelegationFees'' [GArr32 validationID]"

definition ERC20TokenStakingManagerSession_ClaimDelegationFees ::
  "'w session \<Rightarrow> hash \<Rightarrow> ('w, goerr + hash) prog" where
  "ERC20TokenStakingManagerSession_ClaimDelegationFees s validationID =
     ERC20TokenStakingManagerTransactor_ClaimDelegationFees (SessionContract s)
     (SessionTransactOpts s) validationID"

definition ERC20TokenStakingManagerTransactor_CompleteDelegatorRegistration ::
  "'w bound_contract \<Rightarrow> TransactOpts \<Rightarrow> hash \<Rightarrow> u32 \<Rightarrow> ('w, goerr + hash) prog" where
  "ERC20TokenStakingManagerTransactor_CompleteDelegatorRegistration c opts delegationID
     messageIndex =
     contract_transact c opts ''completeDelegatorRegistration'' [GArr32 delegationID, GUint 32
        (unat messageIndex)]"

definition ERC20TokenStakingManagerSession_CompleteDelegatorRegistration ::
  "'w session \<Rightarrow> hash \<Rightarrow> u32 \<Rightarrow> ('w, goerr + hash) prog" where
  "ERC20TokenStakingManagerSession_CompleteDelegatorRegistration s delegationID messageIndex =
     ERC20TokenStakingManagerTransactor_CompleteDelegatorRegistration (SessionContract s)
     (SessionTransactOpts s) delegationID messageIndex"

definition ERC20TokenStakingManagerTransactor_CompleteEndDelegation ::
  "'w bound_contract \<Rightarrow> TransactOpts \<Rightarrow> hash \<Rightarrow> u32 \<Rightarrow> ('w, goerr + hash) prog" where
  "ERC20TokenStakingManagerTransactor_CompleteEndDelegation c opts delegationID messageIndex =
     contract_transact c opts ''completeEndDelegation'' [GArr32 delegationID, GUint 32 (unat
        messageIndex)]"

definition ERC20TokenStakingManagerSession_CompleteEndDelegation ::
  "'w session \<Rightarrow> hash \<Rightarrow> u32 \<Rightarrow> ('w, goerr + hash) prog" where
  "ERC20TokenStakingManagerSession_CompleteEndDelegation s delegationID messageIndex =
     ERC20TokenStakingManagerTransactor_CompleteEndDelegation (SessionContract s)
     (SessionTransactOpts s) delegationID messageIndex"

definition ERC20TokenStakingManagerTransactor_CompleteEndValidation ::
  "'w bound_contract \<Rightarrow> TransactOpts \<Rightarrow> u32 \<Rightarrow> ('w, goerr + hash) prog" where
  "ERC20TokenStakingManagerTransactor_CompleteEndValidation c opts messageIndex =
     contract_transact c opts ''completeEndValidation'' [GUint 32 (unat messageIndex)]"

definition ERC20TokenStakingManagerSession_CompleteEndValidation ::
  "'w session \<Rightarrow> u32 \<Rightarrow> ('w, goerr + hash) prog" where
  "ERC20TokenStakingManagerSession_CompleteEndValidation s messageIndex =
     ERC20TokenStakingManagerTransactor_CompleteEndValidation (SessionContract s)
     (SessionTransactOpts s) messageIndex"

definition ERC20TokenStakingManagerTransactor_CompleteValidatorRegistration ::
  "'w bound_contract \<Rightarrow> TransactOpts \<Rightarrow> u32 \<Rightarrow> ('w, goerr + hash) prog" where
  "ERC20TokenStakingManagerTransactor_CompleteValidatorRegistration c opts messageIndex =
     contract_transact c opts ''completeValidatorRegistration'' [GUint 32 (unat messageIndex)]"

definition ERC20TokenStakingManagerSession_CompleteValidatorRegistration ::
  "'w session \<Rightarrow> u32 \<Rightarrow> ('w, goerr + hash) prog" where
  "ERC20TokenStakingManagerSession_CompleteValidatorRegistration s messageIndex =
     ERC20TokenStakingManagerTransactor_CompleteValidatorRegistration (SessionContract s)
     (SessionTransactOpts s) messageIndex"

definition ERC20TokenStakingManagerCaller_Erc20 ::
  "'w bound_contract \<Rightarrow> CallOpts \<Rightarrow> ('w, goerr + address) prog" where
  "ERC20TokenStakingManagerCaller_Erc20 c opts =
     call_method c opts ''erc20'' [] (out1 go_addr)"

definition ERC20TokenStakingManagerSession_Erc20 ::
  "'w session \<Rightarrow> ('w, goerr + address) prog" where
  "ERC20TokenStakingManagerSession_Erc20 s = ERC20TokenStakingManagerCaller_Erc20
     (SessionContract s) (SessionCallOpts s)"

definition ERC20TokenStakingManagerTransactor_ForceInitializeEndDelegation ::
  "'w bound_contract \<Rightarrow> TransactOpts \<Rightarrow> hash \<Rightarrow> bool \<Rightarrow> u32 \<Rightarrow> ('w, goerr + hash) prog" where
  "ERC20TokenStakingManagerTransactor_ForceInitializeEndDelegation c opts delegationID
     includeUptimeProof messageIndex =
     contract_transact c opts ''forceInitializeEndDelegation'' [GArr32 delegationID, GBool
        includeUptimeProof, GUint 32 (unat messageIndex)]"

definition ERC20TokenStakingManagerSession_ForceInitializeEndDelegation ::
  "'w session \<Rightarrow> hash \<Rightarrow> bool \<Rightarrow> u32 \<Rightarrow> ('w, goerr + hash) prog" where
  "ERC20TokenStakingManagerSession_ForceInitializeEndDelegation s delegationID
     includeUptimeProof messageIndex =
     ERC20TokenStakingManagerTransactor_ForceInitializeEndDelegation (SessionContract s)
     (SessionTransactOpts s) delegationID includeUptimeProof messageIndex"

definition ERC20TokenStakingManagerTransactor_ForceInitializeEndDelegation0 ::
  "'w bound_contract \<Rightarrow> TransactOpts \<Rightarrow> hash \<Rightarrow> bool \<Rightarrow> u32 \<Rightarrow> address \<Rightarrow> ('w, goerr + hash) prog"
     where
  "ERC20TokenStakingManagerTransactor_ForceInitializeEndDelegation0 c opts delegationID
     includeUptimeProof messageIndex rewardRecipient =
     contract_transact c opts ''forceInitializeEndDelegation0'' [GArr32 delegationID, GBool
        includeUptimeProof, GUint 32 (unat messageIndex), GAddr rewardRecipient]"

definition ERC20TokenStakingManagerSession_ForceInitializeEndDelegation0 ::
  "'w session \<Rightarrow> hash \<Rightarrow> bool \<Rightarrow> u32 \<Rightarrow> address \<Rightarrow> ('w, goerr + hash) prog" where
  "ERC20TokenStakingManagerSession_ForceInitializeEndDelegation0 s delegationID
     includeUptimeProof messageIndex rewardRecipient =
     ERC20TokenStakingManagerTransactor_ForceInitializeEndDelegation0 (SessionContract s)
     (SessionTransactOpts s) delegationID includeUptimeProof messageIndex rewardRecipient"

definition ERC20TokenStakingManagerTransactor_ForceInitializeEndValidation ::
  "'w bound_contract \<Rightarrow> TransactOpts \<Rightarrow> hash \<Rightarrow> bool \<Rightarrow> u32 \<Rightarrow> ('w, goerr + hash) prog" where
  "ERC20TokenStakingManagerTransactor_ForceInitializeEndValidation c opts validationID
     includeUptimeProof messageIndex =
     contract_transact c opts ''forceInitializeEndValidation'' [GArr32 validationID, GBool
        includeUptimeProof, GUint 32 (unat messageIndex)]"

definition ERC20TokenStakingManagerSession_ForceInitializeEndValidation ::
  "'w session \<Rightarrow> hash \<Rightarrow> bool \<Rightarrow> u32 \<Rightarrow> ('w, goerr + hash) prog" where
  "ERC20TokenStakingManagerSession_ForceInitializeEndValidation s validationID
     includeUptimeProof messageIndex =
     ERC20TokenStakingManagerTransactor_ForceInitializeEndValidation (SessionContract s)
     (SessionTransactOpts s) validationID includeUptimeProof messageIndex"

definition ERC20TokenStakingManagerTransactor_ForceInitializeEndValidation0 ::
  "'w bound_contract \<Rightarrow> TransactOpts \<Rightarrow> hash \<Rightarrow> bool \<Rightarrow> u32 \<Rightarrow> address \<Rightarrow> ('w, goerr + hash) prog"
     where
  "ERC20TokenStakingManagerTransactor_ForceInitializeEndValidation0 c opts validationID
     includeUptimeProof messageIndex rewardRecipient =
     contract_transact c opts ''forceInitializeEndValidation0'' [GArr32 validationID, GBool
        includeUptimeProof, GUint 32 (unat messageIndex), GAddr rewardRecipient]"

definition ERC20TokenStakingManagerSession_ForceInitializeEndValidation0 ::
  "'w session \<Rightarrow> hash \<Rightarrow> bool \<Rightarrow> u32 \<Rightarrow> address \<Rightarrow> ('w, goerr + hash) prog" where
  "ERC20TokenStakingManagerSession_ForceInitializeEndValidation0 s validationID
     includeUptimeProof messageIndex rewardRecipient =
     ERC20TokenStakingManagerTransactor_ForceInitializeEndValidation0 (SessionContract s)
     (SessionTransactOpts s) validationID includeUptimeProof messageIndex rewardRecipient"

definition ERC20TokenStakingManagerCaller_GetValidator ::
  "'w bound_contract \<Rightarrow> CallOpts \<Rightarrow> hash \<Rightarrow> ('w, goerr + Validator) prog" where
  "ERC20TokenStakingManagerCaller_GetValidator c opts validationID =
     call_method c opts ''getValidator'' [GArr32 validationID] (out1 Validator_of)"

definition ERC20TokenStakingManagerSession_GetValidator ::
  "'w session \<Rightarrow> hash \<Rightarrow> ('w, goerr + Validator) prog" where
  "ERC20TokenStakingManagerSession_GetValidator s validationID =
     ERC20TokenStakingManagerCaller_GetValidator (SessionContract s) (SessionCallOpts s)
     validationID"

definition ERC20TokenStakingManagerTransactor_Initialize ::
  "'w bound_contract \<Rightarrow> TransactOpts \<Rightarrow> PoSValidatorManagerSettings \<Rightarrow> address \<Rightarrow> ('w, goerr + hash)
     prog" where
  "ERC20TokenStakingManagerTransactor_Initialize c opts settings token =
     contract_transact c opts ''initialize'' [PoSValidatorManagerSettings_val settings, GAddr
        token]"

definition ERC20TokenStakingManagerSession_Initialize ::
  "'w session \<Rightarrow> PoSValidatorManagerSettings \<Rightarrow> address \<Rightarrow> ('w, goerr + hash) prog" where
  "ERC20TokenStakingManagerSession_Initialize s settings token =
     ERC20TokenStakingManagerTransactor_Initialize (SessionContract s) (SessionTransactOpts s)
     settings token"

definition ERC20TokenStakingManagerTransactor_InitializeDelegatorRegistration ::
  "'w bound_contract \<Rightarrow> TransactOpts \<Rightarrow> hash \<Rightarrow> int \<Rightarrow> ('w, goerr + hash) prog" where
  "ERC20TokenStakingManagerTransactor_InitializeDelegatorRegistration c opts validationID
     delegationAmount =
     contract_transact c opts ''initializeDelegatorRegistration'' [GArr32 validationID, GBig
        delegationAmount]"

definition ERC20TokenStakingManagerSession_InitializeDelegatorRegistration ::
  "'w session \<Rightarrow> hash \<Rightarrow> int \<Rightarrow> ('w, goerr + hash) prog" where
  "ERC20TokenStakingManagerSession_InitializeDelegatorRegistration s validationID
     delegationAmount = ERC20TokenStakingManagerTransactor_InitializeDelegatorRegistration
     (SessionContract s) (SessionTransactOpts s) validationID delegationAmount"

definition ERC20TokenStakingManagerTransactor_InitializeEndDelegation ::
  "'w bound_contract \<Rightarrow> TransactOpts \<Rightarrow> hash \<Rightarrow> bool \<Rightarrow> u32 \<Rightarrow> ('w, goerr + hash) prog" where
  "ERC20TokenStakingManagerTransactor_InitializeEndDelegation c opts delegationID
     includeUptimeProof messageIndex =
     contract_transact c opts ''initializeEndDelegation'' [GArr32 delegationID, GBool
        includeUptimeProof, GUint 32 (unat messageIndex)]"

definition ERC20TokenStakingManagerSession_InitializeEndDelegation ::
  "'w session \<Rightarrow> hash \<Rightarrow> bool \<Rightarrow> u32 \<Rightarrow> ('w, goerr + hash) prog" where
  "ERC20TokenStakingManagerSession_InitializeEndDelegation s delegationID includeUptimeProof
     messageIndex = ERC20TokenStakingManagerTransactor_InitializeEndDelegation (SessionContract
     s) (SessionTransactOpts s) delegationID includeUptimeProof messageIndex"

definition ERC20TokenStakingManagerTransactor_InitializeEndDelegation0 ::
  "'w bound_contract \<Rightarrow> TransactOpts \<Rightarrow> hash \<Rightarrow> bool \<Rightarrow> u32 \<Rightarrow> address \<Rightarrow> ('w, goerr + hash) prog"
     where
  "ERC20TokenStakingManagerTransactor_InitializeEndDelegation0 c opts delegationID
     includeUptimeProof messageIndex rewardRecipient =
     contract_transact c opts ''initializeEndDelegation0'' [GArr32 delegationID, GBool
        includeUptimeProof, GUint 32 (unat messageIndex), GAddr rewardRecipient]"

definition ERC20TokenStakingManagerSession_InitializeEndDelegation0 ::
  "'w session \<Rightarrow> hash \<Rightarrow> bool \<Rightarrow> u32 \<Rightarrow> address \<Rightarrow> ('w, goerr + hash) prog" where
  "ERC20TokenStakingManagerSession_InitializeEndDelegation0 s delegationID includeUptimeProof
     messageIndex rewardRecipient = ERC20TokenStakingManagerTransactor_InitializeEndDelegation0
     (SessionContract s) (SessionTransactOpts s) delegationID includeUptimeProof messageIndex
     rewardRecipient"

definition ERC20TokenStakingManagerTransactor_InitializeEndValidation ::
  "'w bound_contract \<Rightarrow> TransactOpts \<Rightarrow> hash \<Rightarrow> bool \<Rightarrow> u32 \<Rightarrow> address \<Rightarrow> ('w, goerr + hash) prog"
     where
  "ERC20TokenStakingManagerTransactor_InitializeEndValidation c opts validationID
     includeUptimeProof messageIndex rewardRecipient =
     contract_transact c opts ''initializeEndValidation'' [GArr32 validationID, GBool
        includeUptimeProof, GUint 32 (unat messageIndex), GAddr rewardRecipient]"

definition ERC20TokenStakingManagerSession_InitializeEndValidation ::
  "'w session \<Rightarrow> hash \<Rightarrow> bool \<Rightarrow> u32 \<Rightarrow> address \<Rightarrow> ('w, goerr + hash) prog" where
  "ERC20TokenStakingManagerSession_InitializeEndValidation s validationID includeUptimeProof
     messageIndex rewardRecipient = ERC20TokenStakingManagerTransactor_InitializeEndValidation
     (SessionContract s) (SessionTransactOpts s) validationID includeUptimeProof messageIndex
     rewardRecipient"

definition ERC20TokenStakingManagerTransactor_InitializeEndValidation0 ::
  "'w bound_contract \<Rightarrow> TransactOpts \<Rightarrow> hash \<Rightarrow> bool \<Rightarrow> u32 \<Rightarrow> ('w, goerr + hash) prog" where
  "ERC20TokenStakingManagerTransactor_InitializeEndValidation0 c opts validationID
     includeUptimeProof messageIndex =
     contract_transact c opts ''initializeEndValidation0'' [GArr32 validationID, GBool
        includeUptimeProof, GUint 32 (unat messageIndex)]"

definition ERC20TokenStakingManagerSession_InitializeEndValidation0 ::
  "'w session \<Rightarrow> hash \<Rightarrow> bool \<Rightarrow> u32 \<Rightarrow> ('w, goerr + hash) prog" where
  "ERC20TokenStakingManagerSession_InitializeEndValidation0 s validationID includeUptimeProof
     messageIndex = ERC20TokenStakingManagerTransactor_InitializeEndValidation0 (SessionContract
     s) (SessionTransactOpts s) validationID includeUptimeProof messageIndex"

definition ERC20TokenStakingManagerTransactor_InitializeValidatorRegistration ::
  "'w bound_contract \<Rightarrow> TransactOpts \<Rightarrow> ValidatorRegistrationInput \<Rightarrow> u16 \<Rightarrow> u64 \<Rightarrow> int \<Rightarrow> ('w, goerr
     + hash) prog" where
  "ERC20TokenStakingManagerTransactor_InitializeValidatorRegistration c opts registrationInput
     delegationFeeBips minStakeDuration stakeAmount =
     contract_transact c opts ''initializeValidatorRegistration''
        [ValidatorRegistrationInput_val registrationInput, GUint 16 (unat delegationFeeBips),
        GUint 64 (unat minStakeDuration), GBig stakeAmount]"

definition ERC20TokenStakingManagerSession_InitializeValidatorRegistration ::
  "'w session \<Rightarrow> ValidatorRegistrationInput \<Rightarrow> u16 \<Rightarrow> u64 \<Rightarrow> int \<Rightarrow> ('w, goerr + hash) prog" where
  "ERC20TokenStakingManagerSession_InitializeValidatorRegistration s registrationInput
     delegationFeeBips minStakeDuration stakeAmount =
     ERC20TokenStakingManagerTransactor_InitializeValidatorRegistration (SessionContract s)
     (SessionTransactOpts s) registrationInput delegationFeeBips minStakeDuration stakeAmount"

definition ERC20TokenStakingManagerTransactor_InitializeValidatorSet ::
  "'w bound_contract \<Rightarrow> TransactOpts \<Rightarrow> ConversionData \<Rightarrow> u32 \<Rightarrow> ('w, goerr + hash) prog" where
  "ERC20TokenStakingManagerTransactor_InitializeValidatorSet c opts conversionData messageIndex
     =
     contract_transact c opts ''initializeValidatorSet'' [ConversionData_val conversionData,
        GUint 32 (unat messageIndex)]"

definition ERC20TokenStakingManagerSession_InitializeValidatorSet ::
  "'w session \<Rightarrow> ConversionData \<Rightarrow> u32 \<Rightarrow> ('w, goerr + hash) prog" where
  "ERC20TokenStakingManagerSession_InitializeValidatorSet s conversionData messageIndex =
     ERC20TokenStakingManagerTransactor_InitializeValidatorSet (SessionContract s)
     (SessionTransactOpts s) conversionData messageIndex"

definition ERC20TokenStakingManagerCaller_RegisteredValidators ::
  "'w bound_contract \<Rightarrow> CallOpts \<Rightarrow> bytes \<Rightarrow> ('w, goerr + hash) prog" where
  "ERC20TokenStakingManagerCaller_RegisteredValidators c opts nodeID =
     call_method c opts ''registeredValidators'' [GBytes nodeID] (out1 go_arr32)"

definition ERC20TokenStakingManagerSession_RegisteredValidators ::
  "'w session \<Rightarrow> bytes \<Rightarrow> ('w, goerr + hash) prog" where
  "ERC20TokenStakingManagerSession_RegisteredValidators s nodeID =
     ERC20TokenStakingManagerCaller_RegisteredValidators (SessionContract s) (SessionCallOpts s)
     nodeID"

definition ERC20TokenStakingManagerTransactor_ResendEndValidatorMessage ::
  "'w bound_contract \<Rightarrow> TransactOpts \<Rightarrow> hash \<Rightarrow> ('w, goerr + hash) prog" where
  "ERC20TokenStakingManagerTransactor_ResendEndValidatorMessage c opts validationID =
     contract_transact c opts ''resendEndValidatorMessage'' [GArr32 validationID]"

definition ERC20TokenStakingManagerSession_ResendEndValidatorMessage ::
  "'w session \<Rightarrow> hash \<Rightarrow> ('w, goerr + hash) prog" where
  "ERC20TokenStakingManagerSession_ResendEndValidatorMessage s validationID =
     ERC20TokenStakingManagerTransactor_ResendEndValidatorMessage (SessionContract s)
     (SessionTransactOpts s) validationID"

definition ERC20TokenStakingManagerTransactor_ResendRegisterValidatorMessage ::
  "'w bound_contract \<Rightarrow> TransactOpts \<Rightarrow> hash \<Rightarrow> ('w, goerr + hash) prog" where
  "ERC20TokenStakingManagerTransactor_ResendRegisterValidatorMessage c opts validationID =
     contract_transact c opts ''resendRegisterValidatorMessage'' [GArr32 validationID]"

definition ERC20TokenStakingManagerSession_ResendRegisterValidatorMessage ::
  "'w session \<Rightarrow> hash \<Rightarrow> ('w, goerr + hash) prog" where
  "ERC20TokenStakingManagerSession_ResendRegisterValidatorMessage s validationID =
     ERC20TokenStakingManagerTransactor_ResendRegisterValidatorMessage (SessionContract s)
     (SessionTransactOpts s) validationID"

definition ERC20TokenStakingManagerTransactor_ResendUpdateDelegation ::
  "'w bound_contract \<Rightarrow> TransactOpts \<Rightarrow> hash \<Rightarrow> ('w, goerr + hash) prog" where
  "ERC20TokenStakingManagerTransactor_ResendUpdateDelegation c opts delegationID =
     contract_transact c opts ''resendUpdateDelegation'' [GArr32 delegationID]"

definition ERC20TokenStakingManagerSession_ResendUpdateDelegation ::
  "'w session \<Rightarrow> hash \<Rightarrow> ('w, goerr + hash) prog" where
  "ERC20TokenStakingManagerSession_ResendUpdateDelegation s delegationID =
     ERC20TokenStakingManagerTransactor_ResendUpdateDelegation (SessionContract s)
     (SessionTransactOpts s) delegationID"

definition ERC20TokenStakingManagerTransactor_SubmitUptimeProof ::
  "'w bound_contract \<Rightarrow> TransactOpts \<Rightarrow> hash \<Rightarrow> u32 \<Rightarrow> ('w, goerr + hash) prog" where
  "ERC20TokenStakingManagerTransactor_SubmitUptimeProof c opts validationID messageIndex =
     contract_transact c opts ''submitUptimeProof'' [GArr32 validationID, GUint 32 (unat
        messageIndex)]"

definition ERC20TokenStakingManagerSession_SubmitUptimeProof ::
  "'w session \<Rightarrow> hash \<Rightarrow> u32 \<Rightarrow> ('w, goerr + hash) prog" where
  "ERC20TokenStakingManagerSession_SubmitUptimeProof s validationID messageIndex =
     ERC20TokenStakingManagerTransactor_SubmitUptimeProof (SessionContract s)
     (SessionTransactOpts s) validationID messageIndex"

definition ERC20TokenStakingManagerCaller_ValueToWeight ::
  "'w bound_contract \<Rightarrow> CallOpts \<Rightarrow> int \<Rightarrow> ('w, goerr + u64) prog" where
  "ERC20TokenStakingManagerCaller_ValueToWeight c opts amount_value =
     call_method c opts ''valueToWeight'' [GBig amount_value] (out1 (go_word 64))"

definition ERC20TokenStakingManagerSession_ValueToWeight ::
  "'w session \<Rightarrow> int \<Rightarrow> ('w, goerr + u64) prog" where
  "ERC20TokenStakingManagerSession_ValueToWeight s amount_value =
     ERC20TokenStakingManagerCaller_ValueToWeight (SessionContract s) (SessionCallOpts s)
     amount_value"

definition ERC20TokenStakingManagerCaller_WeightToValue ::
  "'w bound_contract \<Rightarrow> CallOpts \<Rightarrow> u64 \<Rightarrow> ('w, goerr + int) prog" where
  "ERC20TokenStakingManagerCaller_WeightToValue c opts weight =
     call_method c opts ''weightToValue'' [GUint 64 (unat weight)] (out1 go_big)"

definition ERC20TokenStakingManagerSession_WeightToValue ::
  "'w session \<Rightarrow> u64 \<Rightarrow> ('w, goerr + int) prog" where
  "ERC20TokenStakingManagerSession_WeightToValue s weight =
     ERC20TokenStakingManagerCaller_WeightToValue (SessionContract s) (SessionCallOpts s)
     weight"

section \<open>Events\<close>

definition ERC20TokenStakingManagerDelegationEnded :: event_fields where
  "ERC20TokenStakingManagerDelegationEnded = [(''DelegationID'', GArr32 0), (''ValidationID'',
     GArr32 0), (''Rewards'', GNil), (''Fees'', GNil), (''Raw'', zero_Log)]"

definition ERC20TokenStakingManagerDelegationEndedIterator_Next ::
  "'w bound_contract \<Rightarrow> bool \<Rightarrow> iterator \<Rightarrow> (bool \<times> iterator) option" where
  "ERC20TokenStakingManagerDelegationEndedIterator_Next c pick it = iterator_Next (parse_log c
     ''DelegationEnded'' ERC20TokenStakingManagerDelegationEnded)
     ERC20TokenStakingManagerDelegationEnded pick it"

definition ERC20TokenStakingManagerDelegationEndedIterator_Error :: "iterator \<Rightarrow> goerr option"
   where
  "ERC20TokenStakingManagerDelegationEndedIterator_Error it = iterator_Error it"

definition ERC20TokenStakingManagerDelegationEndedIterator_Close :: "iterator \<Rightarrow> goerr option \<times>
   iterator" where
  "ERC20TokenStakingManagerDelegationEndedIterator_Close it = iterator_Close it"

definition ERC20TokenStakingManagerFilterer_FilterDelegationEnded ::
  "'w bound_contract \<Rightarrow> FilterOpts \<Rightarrow> hash list \<Rightarrow> hash list \<Rightarrow> ('w, goerr + iterator) prog" where
  "ERC20TokenStakingManagerFilterer_FilterDelegationEnded c opts delegationID validationID =
     filter_events c opts ''DelegationEnded'' [map GArr32 delegationID, map GArr32
        validationID]"

definition ERC20TokenStakingManagerFilterer_WatchDelegationEnded ::
  "'w bound_contract \<Rightarrow> hash list \<Rightarrow> hash list \<Rightarrow> ('w, goerr + (evm_log \<Rightarrow> goerr + event_fields))
     prog" where
  "ERC20TokenStakingManagerFilterer_WatchDelegationEnded c delegationID validationID =
     watch_events c ''DelegationEnded'' ERC20TokenStakingManagerDelegationEnded [map GArr32
        delegationID, map GArr32 validationID]"

definition ERC20TokenStakingManagerFilterer_ParseDelegationEnded ::
  "'w bound_contract \<Rightarrow> evm_log \<Rightarrow> goerr + event_fields" where
  "ERC20TokenStakingManagerFilterer_ParseDelegationEnded c = parse_log c ''DelegationEnded''
     ERC20TokenStakingManagerDelegationEnded"

definition ERC20TokenStakingManagerDelegatorAdded :: event_fields where
  "ERC20TokenStakingManagerDelegatorAdded = [(''DelegationID'', GArr32 0), (''ValidationID'',
     GArr32 0), (''DelegatorAddress'', GAddr 0), (''Nonce'', GUint 64 0), (''ValidatorWeight'',
     GUint 64 0), (''DelegatorWeight'', GUint 64 0), (''SetWeightMessageID'', GArr32 0),
     (''Raw'', zero_Log)]"

definition ERC20TokenStakingManagerDelegatorAddedIterator_Next ::
  "'w bound_contract \<Rightarrow> bool \<Rightarrow> iterator \<Rightarrow> (bool \<times> iterator) option" where
  "ERC20TokenStakingManagerDelegatorAddedIterator_Next c pick it = iterator_Next (parse_log c
     ''DelegatorAdded'' ERC20TokenStakingManagerDelegatorAdded)
     ERC20TokenStakingManagerDelegatorAdded pick it"

definition ERC20TokenStakingManagerDelegatorAddedIterator_Error :: "iterator \<Rightarrow> goerr option"
   where
  "ERC20TokenStakingManagerDelegatorAddedIterator_Error it = iterator_Error it"

definition ERC20TokenStakingManagerDelegatorAddedIterator_Close :: "iterator \<Rightarrow> goerr option \<times>
   iterator" where
  "ERC20TokenStakingManagerDelegatorAddedIterator_Close it = iterator_Close it"

definition ERC20TokenStakingManagerFilterer_FilterDelegatorAdded ::
  "'w bound_contract \<Rightarrow> FilterOpts \<Rightarrow> hash list \<Rightarrow> hash list \<Rightarrow> address list \<Rightarrow> ('w, goerr +
     iterator) prog" where
  "ERC20TokenStakingManagerFilterer_FilterDelegatorAdded c opts delegationID validationID
     delegatorAddress =
     filter_events c opts ''DelegatorAdded'' [map GArr32 delegationID, map GArr32 validationID,
        map GAddr delegatorAddress]"

definition ERC20TokenStakingManagerFilterer_WatchDelegatorAdded ::
  "'w bound_contract \<Rightarrow> hash list \<Rightarrow> hash list \<Rightarrow> address list \<Rightarrow> ('w, goerr + (evm_log \<Rightarrow> goerr +
     event_fields)) prog" where
  "ERC20TokenStakingManagerFilterer_WatchDelegatorAdded c delegationID validationID
     delegatorAddress =
     watch_events c ''DelegatorAdded'' ERC20TokenStakingManagerDelegatorAdded [map GArr32
        delegationID, map GArr32 validationID, map GAddr delegatorAddress]"

definition ERC20TokenStakingManagerFilterer_ParseDelegatorAdded ::
  "'w bound_contract \<Rightarrow> evm_log \<Rightarrow> goerr + event_fields" where
  "ERC20TokenStakingManagerFilterer_ParseDelegatorAdded c = parse_log c ''DelegatorAdded''
     ERC20TokenStakingManagerDelegatorAdded"

definition ERC20TokenStakingManagerDelegatorRegistered :: event_fields where
  "ERC20TokenStakingManagerDelegatorRegistered = [(''DelegationID'', GArr32 0),
     (''ValidationID'', GArr32 0), (''StartTime'', GNil), (''Raw'', zero_Log)]"

definition ERC20TokenStakingManagerDelegatorRegisteredIterator_Next ::
  "'w bound_contract \<Rightarrow> bool \<Rightarrow> iterator \<Rightarrow> (bool \<times> iterator) option" where
  "ERC20TokenStakingManagerDelegatorRegisteredIterator_Next c pick it = iterator_Next (parse_log
     c ''DelegatorRegistered'' ERC20TokenStakingManagerDelegatorRegistered)
     ERC20TokenStakingManagerDelegatorRegistered pick it"

definition ERC20TokenStakingManagerDelegatorRegisteredIterator_Error :: "iterator \<Rightarrow> goerr
   option" where
  "ERC20TokenStakingManagerDelegatorRegisteredIterator_Error it = iterator_Error it"

definition ERC20TokenStakingManagerDelegatorRegisteredIterator_Close :: "iterator \<Rightarrow> goerr option
   \<times> iterator" where
  "ERC20TokenStakingManagerDelegatorRegisteredIterator_Close it = iterator_Close it"

definition ERC20TokenStakingManagerFilterer_FilterDelegatorRegistered ::
  "'w bound_contract \<Rightarrow> FilterOpts \<Rightarrow> hash list \<Rightarrow> hash list \<Rightarrow> ('w, goerr + iterator) prog" where
  "ERC20TokenStakingManagerFilterer_FilterDelegatorRegistered c opts delegationID validationID =
     filter_events c opts ''DelegatorRegistered'' [map GArr32 delegationID, map GArr32
        validationID]"

definition ERC20TokenStakingManagerFilterer_WatchDelegatorRegistered ::
  "'w bound_contract \<Rightarrow> hash list \<Rightarrow> hash list \<Rightarrow> ('w, goerr + (evm_log \<Rightarrow> goerr + event_fields))
     prog" where
  "ERC20TokenStakingManagerFilterer_WatchDelegatorRegistered c delegationID validationID =
     watch_events c ''DelegatorRegistered'' ERC20TokenStakingManagerDelegatorRegistered [map
        GArr32 delegationID, map GArr32 validationID]"

definition ERC20TokenStakingManagerFilterer_ParseDelegatorRegistered ::
  "'w bound_contract \<Rightarrow> evm_log \<Rightarrow> goerr + event_fields" where
  "ERC20TokenStakingManagerFilterer_ParseDelegatorRegistered c = parse_log c
     ''DelegatorRegistered'' ERC20TokenStakingManagerDelegatorRegistered"

definition ERC20TokenStakingManagerDelegatorRemovalInitialized :: event_fields where
  "ERC20TokenStakingManagerDelegatorRemovalInitialized = [(''DelegationID'', GArr32 0),
     (''ValidationID'', GArr32 0), (''Raw'', zero_Log)]"

definition ERC20TokenStakingManagerDelegatorRemovalInitializedIterator_Next ::
  "'w bound_contract \<Rightarrow> bool \<Rightarrow> iterator \<Rightarrow> (bool \<times> iterator) option" where
  "ERC20TokenStakingManagerDelegatorRemovalInitializedIterator_Next c pick it = iterator_Next
     (parse_log c ''DelegatorRemovalInitialized''
     ERC20TokenStakingManagerDelegatorRemovalInitialized)
     ERC20TokenStakingManagerDelegatorRemovalInitialized pick it"

definition ERC20TokenStakingManagerDelegatorRemovalInitializedIterator_Error :: "iterator \<Rightarrow>
   goerr option" where
  "ERC20TokenStakingManagerDelegatorRemovalInitializedIterator_Error it = iterator_Error it"

definition ERC20TokenStakingManagerDelegatorRemovalInitializedIterator_Close :: "iterator \<Rightarrow>
   goerr option \<times> iterator" where
  "ERC20TokenStakingManagerDelegatorRemovalInitializedIterator_Close it = iterator_Close it"

definition ERC20TokenStakingManagerFilterer_FilterDelegatorRemovalInitialized ::
  "'w bound_contract \<Rightarrow> FilterOpts \<Rightarrow> hash list \<Rightarrow> hash list \<Rightarrow> ('w, goerr + iterator) prog" where
  "ERC20TokenStakingManagerFilterer_FilterDelegatorRemovalInitialized c opts delegationID
     validationID =
     filter_events c opts ''DelegatorRemovalInitialized'' [map GArr32 delegationID, map GArr32
        validationID]"

definition ERC20TokenStakingManagerFilterer_WatchDelegatorRemovalInitialized ::
  "'w bound_contract \<Rightarrow> hash list \<Rightarrow> hash list \<Rightarrow> ('w, goerr + (evm_log \<Rightarrow> goerr + event_fields))
     prog" where
  "ERC20TokenStakingManagerFilterer_WatchDelegatorRemovalInitialized c delegationID validationID
     =
     watch_events c ''DelegatorRemovalInitialized''
        ERC20TokenStakingManagerDelegatorRemovalInitialized [map GArr32 delegationID, map GArr32
        validationID]"

definition ERC20TokenStakingManagerFilterer_ParseDelegatorRemovalInitialized ::
  "'w bound_contract \<Rightarrow> evm_log \<Rightarrow> goerr + event_fields" where
  "ERC20TokenStakingManagerFilterer_ParseDelegatorRemovalInitialized c = parse_log c
     ''DelegatorRemovalInitialized'' ERC20TokenStakingManagerDelegatorRemovalInitialized"

definition ERC20TokenStakingManagerInitialValidatorCreated :: event_fields where
  "ERC20TokenStakingManagerInitialValidatorCreated = [(''ValidationID'', GArr32 0), (''Weight'',
     GUint 64 0), (''NodeID'', GNil), (''Raw'', zero_Log)]"

definition ERC20TokenStakingManagerInitialValidatorCreatedIterator_Next ::
  "'w bound_contract \<Rightarrow> bool \<Rightarrow> iterator \<Rightarrow> (bool \<times> iterator) option" where
  "ERC20TokenStakingManagerInitialValidatorCreatedIterator_Next c pick it = iterator_Next
     (parse_log c ''InitialValidatorCreated'' ERC20TokenStakingManagerInitialValidatorCreated)
     ERC20TokenStakingManagerInitialValidatorCreated pick it"

definition ERC20TokenStakingManagerInitialValidatorCreatedIterator_Error :: "iterator \<Rightarrow> goerr
   option" where
  "ERC20TokenStakingManagerInitialValidatorCreatedIterator_Error it = iterator_Error it"

definition ERC20TokenStakingManagerInitialValidatorCreatedIterator_Close :: "iterator \<Rightarrow> goerr
   option \<times> iterator" where
  "ERC20TokenStakingManagerInitialValidatorCreatedIterator_Close it = iterator_Close it"

definition ERC20TokenStakingManagerFilterer_FilterInitialValidatorCreated ::
  "'w bound_contract \<Rightarrow> FilterOpts \<Rightarrow> hash list \<Rightarrow> ('w, goerr + iterator) prog" where
  "ERC20TokenStakingManagerFilterer_FilterInitialValidatorCreated c opts validationID =
     filter_events c opts ''InitialValidatorCreated'' [map GArr32 validationID]"

definition ERC20TokenStakingManagerFilterer_WatchInitialValidatorCreated ::
  "'w bound_contract \<Rightarrow> hash list \<Rightarrow> ('w, goerr + (evm_log \<Rightarrow> goerr + event_fields)) prog" where
  "ERC20TokenStakingManagerFilterer_WatchInitialValidatorCreated c validationID =
     watch_events c ''InitialValidatorCreated'' ERC20TokenStakingManagerInitialValidatorCreated
        [map GArr32 validationID]"

definition ERC20TokenStakingManagerFilterer_ParseInitialValidatorCreated ::
  "'w bound_contract \<Rightarrow> evm_log \<Rightarrow> goerr + event_fields" where
  "ERC20TokenStakingManagerFilterer_ParseInitialValidatorCreated c = parse_log c
     ''InitialValidatorCreated'' ERC20TokenStakingManagerInitialValidatorCreated"

definition ERC20TokenStakingManagerInitialized :: event_fields where
  "ERC20TokenStakingManagerInitialized = [(''Version'', GUint 64 0), (''Raw'', zero_Log)]"

definition ERC20TokenStakingManagerInitializedIterator_Next ::
  "'w bound_contract \<Rightarrow> bool \<Rightarrow> iterator \<Rightarrow> (bool \<times> iterator) option" where
  "ERC20TokenStakingManagerInitializedIterator_Next c pick it = iterator_Next (parse_log c
     ''Initialized'' ERC20TokenStakingManagerInitialized) ERC20TokenStakingManagerInitialized
     pick it"

definition ERC20TokenStakingManagerInitializedIterator_Error :: "iterator \<Rightarrow> goerr option" where
  "ERC20TokenStakingManagerInitializedIterator_Error it = iterator_Error it"

definition ERC20TokenStakingManagerInitializedIterator_Close :: "iterator \<Rightarrow> goerr option \<times>
   iterator" where
  "ERC20TokenStakingManagerInitializedIterator_Close it = iterator_Close it"

definition ERC20TokenStakingManagerFilterer_FilterInitialized ::
  "'w bound_contract \<Rightarrow> FilterOpts \<Rightarrow> ('w, goerr + iterator) prog" where
  "ERC20TokenStakingManagerFilterer_FilterInitialized c opts =
     filter_events c opts ''Initialized'' []"

definition ERC20TokenStakingManagerFilterer_WatchInitialized ::
  "'w bound_contract \<Rightarrow> ('w, goerr + (evm_log \<Rightarrow> goerr + event_fields)) prog" where
  "ERC20TokenStakingManagerFilterer_WatchInitialized c =
     watch_events c ''Initialized'' ERC20TokenStakingManagerInitialized []"

definition ERC20TokenStakingManagerFilterer_ParseInitialized ::
  "'w bound_contract \<Rightarrow> evm_log \<Rightarrow> goerr + event_fields" where
  "ERC20TokenStakingManagerFilterer_ParseInitialized c = parse_log c ''Initialized''
     ERC20TokenStakingManagerInitialized"

definition ERC20TokenStakingManagerUptimeUpdated :: event_fields where
  "ERC20TokenStakingManagerUptimeUpdated = [(''ValidationID'', GArr32 0), (''Uptime'', GUint 64
     0), (''Raw'', zero_Log)]"

definition ERC20TokenStakingManagerUptimeUpdatedIterator_Next ::
  "'w bound_contract \<Rightarrow> bool \<Rightarrow> iterator \<Rightarrow> (bool \<times> iterator) option" where
  "ERC20TokenStakingManagerUptimeUpdatedIterator_Next c pick it = iterator_Next (parse_log c
     ''UptimeUpdated'' ERC20TokenStakingManagerUptimeUpdated)
     ERC20TokenStakingManagerUptimeUpdated pick it"

definition ERC20TokenStakingManagerUptimeUpdatedIterator_Error :: "iterator \<Rightarrow> goerr option"
   where
  "ERC20TokenStakingManagerUptimeUpdatedIterator_Error it = iterator_Error it"

definition ERC20TokenStakingManagerUptimeUpdatedIterator_Close :: "iterator \<Rightarrow> goerr option \<times>
   iterator" where
  "ERC20TokenStakingManagerUptimeUpdatedIterator_Close it = iterator_Close it"

definition ERC20TokenStakingManagerFilterer_FilterUptimeUpdated ::
  "'w bound_contract \<Rightarrow> FilterOpts \<Rightarrow> hash list \<Rightarrow> ('w, goerr + iterator) prog" where
  "ERC20TokenStakingManagerFilterer_FilterUptimeUpdated c opts validationID =
     filter_events c opts ''UptimeUpdated'' [map GArr32 validationID]"

definition ERC20TokenStakingManagerFilterer_WatchUptimeUpdated ::
  "'w bound_contract \<Rightarrow> hash list \<Rightarrow> ('w, goerr + (evm_log \<Rightarrow> goerr + event_fields)) prog" where
  "ERC20TokenStakingManagerFilterer_WatchUptimeUpdated c validationID =
     watch_events c ''UptimeUpdated'' ERC20TokenStakingManagerUptimeUpdated [map GArr32
        validationID]"

definition ERC20TokenStakingManagerFilterer_ParseUptimeUpdated ::
  "'w bound_contract \<Rightarrow> evm_log \<Rightarrow> goerr + event_fields" where
  "ERC20TokenStakingManagerFilterer_ParseUptimeUpdated c = parse_log c ''UptimeUpdated''
     ERC20TokenStakingManagerUptimeUpdated"

definition ERC20TokenStakingManagerValidationPeriodCreated :: event_fields where
  "ERC20TokenStakingManagerValidationPeriodCreated = [(''ValidationID'', GArr32 0),
     (''RegisterValidationMessageID'', GArr32 0), (''Weight'', GUint 64 0), (''NodeID'', GNil),
     (''RegistrationExpiry'', GUint 64 0), (''Raw'', zero_Log)]"

definition ERC20TokenStakingManagerValidationPeriodCreatedIterator_Next ::
  "'w bound_contract \<Rightarrow> bool \<Rightarrow> iterator \<Rightarrow> (bool \<times> iterator) option" where
  "ERC20TokenStakingManagerValidationPeriodCreatedIterator_Next c pick it = iterator_Next
     (parse_log c ''ValidationPeriodCreated'' ERC20TokenStakingManagerValidationPeriodCreated)
     ERC20TokenStakingManagerValidationPeriodCreated pick it"

definition ERC20TokenStakingManagerValidationPeriodCreatedIterator_Error :: "iterator \<Rightarrow> goerr
   option" where
  "ERC20TokenStakingManagerValidationPeriodCreatedIterator_Error it = iterator_Error it"

definition ERC20TokenStakingManagerValidationPeriodCreatedIterator_Close :: "iterator \<Rightarrow> goerr
   option \<times> iterator" where
  "ERC20TokenStakingManagerValidationPeriodCreatedIterator_Close it = iterator_Close it"

definition ERC20TokenStakingManagerFilterer_FilterValidationPeriodCreated ::
  "'w bound_contract \<Rightarrow> FilterOpts \<Rightarrow> hash list \<Rightarrow> hash list \<Rightarrow> ('w, goerr + iterator) prog" where
  "ERC20TokenStakingManagerFilterer_FilterValidationPeriodCreated c opts validationID
     registerValidationMessageID =
     filter_events c opts ''ValidationPeriodCreated'' [map GArr32 validationID, map GArr32
        registerValidationMessageID]"

definition ERC20TokenStakingManagerFilterer_WatchValidationPeriodCreated ::
  "'w bound_contract \<Rightarrow> hash list \<Rightarrow> hash list \<Rightarrow> ('w, goerr + (evm_log \<Rightarrow> goerr + event_fields))
     prog" where
  "ERC20TokenStakingManagerFilterer_WatchValidationPeriodCreated c validationID
     registerValidationMessageID =
     watch_events c ''ValidationPeriodCreated'' ERC20TokenStakingManagerValidationPeriodCreated
        [map GArr32 validationID, map GArr32 registerValidationMessageID]"

definition ERC20TokenStakingManagerFilterer_ParseValidationPeriodCreated ::
  "'w bound_contract \<Rightarrow> evm_log \<Rightarrow> goerr + event_fields" where
  "ERC20TokenStakingManagerFilterer_ParseValidationPeriodCreated c = parse_log c
     ''ValidationPeriodCreated'' ERC20TokenStakingManagerValidationPeriodCreated"

definition ERC20TokenStakingManagerValidationPeriodEnded :: event_fields where
  "ERC20TokenStakingManagerValidationPeriodEnded = [(''ValidationID'', GArr32 0), (''Status'',
     GUint 8 0), (''Raw'', zero_Log)]"

definition ERC20TokenStakingManagerValidationPeriodEndedIterator_Next ::
  "'w bound_contract \<Rightarrow> bool \<Rightarrow> iterator \<Rightarrow> (bool \<times> iterator) option" where
  "ERC20TokenStakingManagerValidationPeriodEndedIterator_Next c pick it = iterator_Next
     (parse_log c ''ValidationPeriodEnded'' ERC20TokenStakingManagerValidationPeriodEnded)
     ERC20TokenStakingManagerValidationPeriodEnded pick it"

definition ERC20TokenStakingManagerValidationPeriodEndedIterator_Error :: "iterator \<Rightarrow> goerr
   option" where
  "ERC20TokenStakingManagerValidationPeriodEndedIterator_Error it = iterator_Error it"

definition ERC20TokenStakingManagerValidationPeriodEndedIterator_Close :: "iterator \<Rightarrow> goerr
   option \<times> iterator" where
  "ERC20TokenStakingManagerValidationPeriodEndedIterator_Close it = iterator_Close it"

definition ERC20TokenStakingManagerFilterer_FilterValidationPeriodEnded ::
  "'w bound_contract \<Rightarrow> FilterOpts \<Rightarrow> hash list \<Rightarrow> u8 list \<Rightarrow> ('w, goerr + iterator) prog" where
  "ERC20TokenStakingManagerFilterer_FilterValidationPeriodEnded c opts validationID status =
     filter_events c opts ''ValidationPeriodEnded'' [map GArr32 validationID, map (\<lambda>x. GUint 8
        (unat x)) status]"

definition ERC20TokenStakingManagerFilterer_WatchValidationPeriodEnded ::
  "'w bound_contract \<Rightarrow> hash list \<Rightarrow> u8 list \<Rightarrow> ('w, goerr + (evm_log \<Rightarrow> goerr + event_fields))
     prog" where
  "ERC20TokenStakingManagerFilterer_WatchValidationPeriodEnded c validationID status =
     watch_events c ''ValidationPeriodEnded'' ERC20TokenStakingManagerValidationPeriodEnded [map
        GArr32 validationID, map (\<lambda>x. GUint 8 (unat x)) status]"

definition ERC20TokenStakingManagerFilterer_ParseValidationPeriodEnded ::
  "'w bound_contract \<Rightarrow> evm_log \<Rightarrow> goerr + event_fields" where
  "ERC20TokenStakingManagerFilterer_ParseValidationPeriodEnded c = parse_log c
     ''ValidationPeriodEnded'' ERC20TokenStakingManagerValidationPeriodEnded"

definition ERC20TokenStakingManagerValidationPeriodRegistered :: event_fields where
  "ERC20TokenStakingManagerValidationPeriodRegistered = [(''ValidationID'', GArr32 0),
     (''Weight'', GUint 64 0), (''Timestamp'', GNil), (''Raw'', zero_Log)]"

definition ERC20TokenStakingManagerValidationPeriodRegisteredIterator_Next ::
  "'w bound_contract \<Rightarrow> bool \<Rightarrow> iterator \<Rightarrow> (bool \<times> iterator) option" where
  "ERC20TokenStakingManagerValidationPeriodRegisteredIterator_Next c pick it = iterator_Next
     (parse_log c ''ValidationPeriodRegistered''
     ERC20TokenStakingManagerValidationPeriodRegistered)
     ERC20TokenStakingManagerValidationPeriodRegistered pick it"

definition ERC20TokenStakingManagerValidationPeriodRegisteredIterator_Error :: "iterator \<Rightarrow> goerr
   option" where
  "ERC20TokenStakingManagerValidationPeriodRegisteredIterator_Error it = iterator_Error it"

definition ERC20TokenStakingManagerValidationPeriodRegisteredIterator_Close :: "iterator \<Rightarrow> goerr
   option \<times> iterator" where
  "ERC20TokenStakingManagerValidationPeriodRegisteredIterator_Close it = iterator_Close it"

definition ERC20TokenStakingManagerFilterer_FilterValidationPeriodRegistered ::
  "'w bound_contract \<Rightarrow> FilterOpts \<Rightarrow> hash list \<Rightarrow> ('w, goerr + iterator) prog" where
  "ERC20TokenStakingManagerFilterer_FilterValidationPeriodRegistered c opts validationID =
     filter_events c opts ''ValidationPeriodRegistered'' [map GArr32 validationID]"

definition ERC20TokenStakingManagerFilterer_WatchValidationPeriodRegistered ::
  "'w bound_contract \<Rightarrow> hash list \<Rightarrow> ('w, goerr + (evm_log \<Rightarrow> goerr + event_fields)) prog" where
  "ERC20TokenStakingManagerFilterer_WatchValidationPeriodRegistered c validationID =
     watch_events c ''ValidationPeriodRegistered''
        ERC20TokenStakingManagerValidationPeriodRegistered [map GArr32 validationID]"

definition ERC20TokenStakingManagerFilterer_ParseValidationPeriodRegistered ::
  "'w bound_contract \<Rightarrow> evm_log \<Rightarrow> goerr + event_fields" where
  "ERC20TokenStakingManagerFilterer_ParseValidationPeriodRegistered c = parse_log c
     ''ValidationPeriodRegistered'' ERC20TokenStakingManagerValidationPeriodRegistered"

definition ERC20TokenStakingManagerValidatorRemovalInitialized :: event_fields where
  "ERC20TokenStakingManagerValidatorRemovalInitialized = [(''ValidationID'', GArr32 0),
     (''SetWeightMessageID'', GArr32 0), (''Weight'', GUint 64 0), (''EndTime'', GNil),
     (''Raw'', zero_Log)]"

definition ERC20TokenStakingManagerValidatorRemovalInitializedIterator_Next ::
  "'w bound_contract \<Rightarrow> bool \<Rightarrow> iterator \<Rightarrow> (bool \<times> iterator) option" where
  "ERC20TokenStakingManagerValidatorRemovalInitializedIterator_Next c pick it = iterator_Next
     (parse_log c ''ValidatorRemovalInitialized''
     ERC20TokenStakingManagerValidatorRemovalInitialized)
     ERC20TokenStakingManagerValidatorRemovalInitialized pick it"

definition ERC20TokenStakingManagerValidatorRemovalInitializedIterator_Error :: "iterator \<Rightarrow>
   goerr option" where
  "ERC20TokenStakingManagerValidatorRemovalInitializedIterator_Error it = iterator_Error it"

definition ERC20TokenStakingManagerValidatorRemovalInitializedIterator_Close :: "iterator \<Rightarrow>
   goerr option \<times> iterator" where
  "ERC20TokenStakingManagerValidatorRemovalInitializedIterator_Close it = iterator_Close it"

definition ERC20TokenStakingManagerFilterer_FilterValidatorRemovalInitialized ::
  "'w bound_contract \<Rightarrow> FilterOpts \<Rightarrow> hash list \<Rightarrow> hash list \<Rightarrow> ('w, goerr + iterator) prog" where
  "ERC20TokenStakingManagerFilterer_FilterValidatorRemovalInitialized c opts validationID
     setWeightMessageID =
     filter_events c opts ''ValidatorRemovalInitialized'' [map GArr32 validationID, map GArr32
        setWeightMessageID]"

definition ERC20TokenStakingManagerFilterer_WatchValidatorRemovalInitialized ::
  "'w bound_contract \<Rightarrow> hash list \<Rightarrow> hash list \<Rightarrow> ('w, goerr + (evm_log \<Rightarrow> goerr + event_fields))
     prog" where
  "ERC20TokenStakingManagerFilterer_WatchValidatorRemovalInitialized c validationID
     setWeightMessageID =
     watch_events c ''ValidatorRemovalInitialized''
        ERC20TokenStakingManagerValidatorRemovalInitialized [map GArr32 validationID, map GArr32
        setWeightMessageID]"

definition ERC20TokenStakingManagerFilterer_ParseValidatorRemovalInitialized ::
  "'w bound_contract \<Rightarrow> evm_log \<Rightarrow> goerr + event_fields" where
  "ERC20TokenStakingManagerFilterer_ParseValidatorRemovalInitialized c = parse_log c
     ''ValidatorRemovalInitialized'' ERC20TokenStakingManagerValidatorRemovalInitialized"

definition ERC20TokenStakingManagerValidatorWeightUpdate :: event_fields where
  "ERC20TokenStakingManagerValidatorWeightUpdate = [(''ValidationID'', GArr32 0), (''Nonce'',
     GUint 64 0), (''Weight'', GUint 64 0), (''SetWeightMessageID'', GArr32 0), (''Raw'',
     zero_Log)]"

definition ERC20TokenStakingManagerValidatorWeightUpdateIterator_Next ::
  "'w bound_contract \<Rightarrow> bool \<Rightarrow> iterator \<Rightarrow> (bool \<times> iterator) option" where
  "ERC20TokenStakingManagerValidatorWeightUpdateIterator_Next c pick it = iterator_Next
     (parse_log c ''ValidatorWeightUpdate'' ERC20TokenStakingManagerValidatorWeightUpdate)
     ERC20TokenStakingManagerValidatorWeightUpdate pick it"

definition ERC20TokenStakingManagerValidatorWeightUpdateIterator_Error :: "iterator \<Rightarrow> goerr
   option" where
  "ERC20TokenStakingManagerValidatorWeightUpdateIterator_Error it = iterator_Error it"

definition ERC20TokenStakingManagerValidatorWeightUpdateIterator_Close :: "iterator \<Rightarrow> goerr
   option \<times> iterator" where
  "ERC20TokenStakingManagerValidatorWeightUpdateIterator_Close it = iterator_Close it"

definition ERC20TokenStakingManagerFilterer_FilterValidatorWeightUpdate ::
  "'w bound_contract \<Rightarrow> FilterOpts \<Rightarrow> hash list \<Rightarrow> u64 list \<Rightarrow> ('w, goerr + iterator) prog" where
  "ERC20TokenStakingManagerFilterer_FilterValidatorWeightUpdate c opts validationID nonce =
     filter_events c opts ''ValidatorWeightUpdate'' [map GArr32 validationID, map (\<lambda>x. GUint 64
        (unat x)) nonce]"

definition ERC20TokenStakingManagerFilterer_WatchValidatorWeightUpdate ::
  "'w bound_contract \<Rightarrow> hash list \<Rightarrow> u64 list \<Rightarrow> ('w, goerr + (evm_log \<Rightarrow> goerr + event_fields))
     prog" where
  "ERC20TokenStakingManagerFilterer_WatchValidatorWeightUpdate c validationID nonce =
     watch_events c ''ValidatorWeightUpdate'' ERC20TokenStakingManagerValidatorWeightUpdate [map
        GArr32 validationID, map (\<lambda>x. GUint 64 (unat x)) nonce]"

definition ERC20TokenStakingManagerFilterer_ParseValidatorWeightUpdate ::
  "'w bound_contract \<Rightarrow> evm_log \<Rightarrow> goerr + event_fields" where
  "ERC20TokenStakingManagerFilterer_ParseValidatorWeightUpdate c = parse_log c
     ''ValidatorWeightUpdate'' ERC20TokenStakingManagerValidatorWeightUpdate"

section \<open>Correctness\<close>

lemma ERC20TokenStakingManager_methods:
  "map_of (Methods ERC20TokenStakingManagerABI) ''ADDRESS_LENGTH'' =
     Some ([], [([], TUint 32)])"
  "map_of (Methods ERC20TokenStakingManagerABI) ''BIPS_CONVERSION_FACTOR'' =
     Some ([], [([], TUint 16)])"
  "map_of (Methods ERC20TokenStakingManagerABI) ''BLS_PUBLIC_KEY_LENGTH'' =
     Some ([], [([], TUint 8)])"
  "map_of (Methods ERC20TokenStakingManagerABI) ''ERC20_STAKING_MANAGER_STORAGE_LOCATION'' =
     Some ([], [([], TBytes32)])"
  "map_of (Methods ERC20TokenStakingManagerABI) ''MAXIMUM_CHURN_PERCENTAGE_LIMIT'' =
     Some ([], [([], TUint 8)])"
  "map_of (Methods ERC20TokenStakingManagerABI) ''MAXIMUM_DELEGATION_FEE_BIPS'' =
     Some ([], [([], TUint 16)])"
  "map_of (Methods ERC20TokenStakingManagerABI) ''MAXIMUM_REGISTRATION_EXPIRY_LENGTH'' =
     Some ([], [([], TUint 64)])"
  "map_of (Methods ERC20TokenStakingManagerABI) ''MAXIMUM_STAKE_MULTIPLIER_LIMIT'' =
     Some ([], [([], TUint 8)])"
  "map_of (Methods ERC20TokenStakingManagerABI) ''POS_VALIDATOR_MANAGER_STORAGE_LOCATION'' =
     Some ([], [([], TBytes32)])"
  "map_of (Methods ERC20TokenStakingManagerABI) ''P_CHAIN_BLOCKCHAIN_ID'' =
     Some ([], [([], TBytes32)])"
  "map_of (Methods ERC20TokenStakingManagerABI) ''VALIDATOR_MANAGER_STORAGE_LOCATION'' =
     Some ([], [([], TBytes32)])"
  "map_of (Methods ERC20TokenStakingManagerABI) ''WARP_MESSENGER'' =
     Some ([], [([], TAddress)])"
  "map_of (Methods ERC20TokenStakingManagerABI) ''changeDelegatorRewardRecipient'' =
     Some ([(''delegationID'', TBytes32), (''rewardRecipient'', TAddress)], [])"
  "map_of (Methods ERC20TokenStakingManagerABI) ''changeValidatorRewardRecipient'' =
     Some ([(''validationID'', TBytes32), (''rewardRecipient'', TAddress)], [])"
  "map_of (Methods ERC20TokenStakingManagerABI) ''claimDelegationFees'' =
     Some ([(''validationID'', TBytes32)], [])"
  "map_of (Methods ERC20TokenStakingManagerABI) ''completeDelegatorRegistration'' =
     Some ([(''delegationID'', TBytes32), (''messageIndex'', TUint 32)], [])"
  "map_of (Methods ERC20TokenStakingManagerABI) ''completeEndDelegation'' =
     Some ([(''delegationID'', TBytes32), (''messageIndex'', TUint 32)], [])"
  "map_of (Methods ERC20TokenStakingManagerABI) ''completeEndValidation'' =
     Some ([(''messageIndex'', TUint 32)], [])"
  "map_of (Methods ERC20TokenStakingManagerABI) ''completeValidatorRegistration'' =
     Some ([(''messageIndex'', TUint 32)], [])"
  "map_of (Methods ERC20TokenStakingManagerABI) ''erc20'' =
     Some ([], [([], TAddress)])"
  "map_of (Methods ERC20TokenStakingManagerABI) ''forceInitializeEndDelegation'' =
     Some ([(''delegationID'', TBytes32), (''includeUptimeProof'', TBool), (''messageIndex'',
        TUint 32)], [])"
  "map_of (Methods ERC20TokenStakingManagerABI) ''forceInitializeEndDelegation0'' =
     Some ([(''delegationID'', TBytes32), (''includeUptimeProof'', TBool), (''messageIndex'',
        TUint 32), (''rewardRecipient'', TAddress)], [])"
  "map_of (Methods ERC20TokenStakingManagerABI) ''forceInitializeEndValidation'' =
     Some ([(''validationID'', TBytes32), (''includeUptimeProof'', TBool), (''messageIndex'',
        TUint 32)], [])"
  "map_of (Methods ERC20TokenStakingManagerABI) ''forceInitializeEndValidation0'' =
     Some ([(''validationID'', TBytes32), (''includeUptimeProof'', TBool), (''messageIndex'',
        TUint 32), (''rewardRecipient'', TAddress)], [])"
  "map_of (Methods ERC20TokenStakingManagerABI) ''getValidator'' =
     Some ([(''validationID'', TBytes32)], [([], Validator_tuple)])"
  "map_of (Methods ERC20TokenStakingManagerABI) ''initialize'' =
     Some ([(''settings'', PoSValidatorManagerSettings_tuple), (''token'', TAddress)], [])"
  "map_of (Methods ERC20TokenStakingManagerABI) ''initializeDelegatorRegistration'' =
     Some ([(''validationID'', TBytes32), (''delegationAmount'', TUint 256)], [([], TBytes32)])"
  "map_of (Methods ERC20TokenStakingManagerABI) ''initializeEndDelegation'' =
     Some ([(''delegationID'', TBytes32), (''includeUptimeProof'', TBool), (''messageIndex'',
        TUint 32)], [])"
  "map_of (Methods ERC20TokenStakingManagerABI) ''initializeEndDelegation0'' =
     Some ([(''delegationID'', TBytes32), (''includeUptimeProof'', TBool), (''messageIndex'',
        TUint 32), (''rewardRecipient'', TAddress)], [])"
  "map_of (Methods ERC20TokenStakingManagerABI) ''initializeEndValidation'' =
     Some ([(''validationID'', TBytes32), (''includeUptimeProof'', TBool), (''messageIndex'',
        TUint 32), (''rewardRecipient'', TAddress)], [])"
  "map_of (Methods ERC20TokenStakingManagerABI) ''initializeEndValidation0'' =
     Some ([(''validationID'', TBytes32), (''includeUptimeProof'', TBool), (''messageIndex'',
        TUint 32)], [])"
  "map_of (Methods ERC20TokenStakingManagerABI) ''initializeValidatorRegistration'' =
     Some ([(''registrationInput'', ValidatorRegistrationInput_tuple), (''delegationFeeBips'',
        TUint 16), (''minStakeDuration'', TUint 64), (''stakeAmount'', TUint 256)],
        [(''validationID'', TBytes32)])"
  "map_of (Methods ERC20TokenStakingManagerABI) ''initializeValidatorSet'' =
     Some ([(''conversionData'', ConversionData_tuple), (''messageIndex'', TUint 32)], [])"
  "map_of (Methods ERC20TokenStakingManagerABI) ''registeredValidators'' =
     Some ([(''nodeID'', TBytes)], [([], TBytes32)])"
  "map_of (Methods ERC20TokenStakingManagerABI) ''resendEndValidatorMessage'' =
     Some ([(''validationID'', TBytes32)], [])"
  "map_of (Methods ERC20TokenStakingManagerABI) ''resendRegisterValidatorMessage'' =
     Some ([(''validationID'', TBytes32)], [])"
  "map_of (Methods ERC20TokenStakingManagerABI) ''resendUpdateDelegation'' =
     Some ([(''delegationID'', TBytes32)], [])"
  "map_of (Methods ERC20TokenStakingManagerABI) ''submitUptimeProof'' =
     Some ([(''validationID'', TBytes32), (''messageIndex'', TUint 32)], [])"
  "map_of (Methods ERC20TokenStakingManagerABI) ''valueToWeight'' =
     Some ([(''value'', TUint 256)], [([], TUint 64)])"
  "map_of (Methods ERC20TokenStakingManagerABI) ''weightToValue'' =
     Some ([(''weight'', TUint 64)], [([], TUint 256)])"
  unfolding ERC20TokenStakingManagerABI_def contract_abi.select_convs
  by (simp_all only: table_lookup)

lemma ERC20TokenStakingManager_decodable:
  "decodable [(''delegationID'', TBytes32, True), (''validationID'', TBytes32, True),
     (''rewards'', TUint 256, False), (''fees'', TUint 256, False)]
     ERC20TokenStakingManagerDelegationEnded"
  "decodable [(''delegationID'', TBytes32, True), (''validationID'', TBytes32, True),
     (''delegatorAddress'', TAddress, True), (''nonce'', TUint 64, False), (''validatorWeight'',
     TUint 64, False), (''delegatorWeight'', TUint 64, False), (''setWeightMessageID'',
     TBytes32, False)]
     ERC20TokenStakingManagerDelegatorAdded"
  "decodable [(''delegationID'', TBytes32, True), (''validationID'', TBytes32, True),
     (''startTime'', TUint 256, False)]
     ERC20TokenStakingManagerDelegatorRegistered"
  "decodable [(''delegationID'', TBytes32, True), (''validationID'', TBytes32, True)]
     ERC20TokenStakingManagerDelegatorRemovalInitialized"
  "decodable [(''validationID'', TBytes32, True), (''weight'', TUint 64, False), (''nodeID'',
     TBytes, False)]
     ERC20TokenStakingManagerInitialValidatorCreated"
  "decodable [(''version'', TUint 64, False)]
     ERC20TokenStakingManagerInitialized"
  "decodable [(''validationID'', TBytes32, True), (''uptime'', TUint 64, False)]
     ERC20TokenStakingManagerUptimeUpdated"
  "decodable [(''validationID'', TBytes32, True), (''registerValidationMessageID'', TBytes32,
     True), (''weight'', TUint 64, False), (''nodeID'', TBytes, False), (''registrationExpiry'',
     TUint 64, False)]
     ERC20TokenStakingManagerValidationPeriodCreated"
  "decodable [(''validationID'', TBytes32, True), (''status'', TUint 8, True)]
     ERC20TokenStakingManagerValidationPeriodEnded"
  "decodable [(''validationID'', TBytes32, True), (''weight'', TUint 64, False), (''timestamp'',
     TUint 256, False)]
     ERC20TokenStakingManagerValidationPeriodRegistered"
  "decodable [(''validationID'', TBytes32, True), (''setWeightMessageID'', TBytes32, True),
     (''weight'', TUint 64, False), (''endTime'', TUint 256, False)]
     ERC20TokenStakingManagerValidatorRemovalInitialized"
  "decodable [(''validationID'', TBytes32, True), (''nonce'', TUint 64, True), (''weight'',
     TUint 64, False), (''setWeightMessageID'', TBytes32, False)]
     ERC20TokenStakingManagerValidatorWeightUpdate"
  by (simp_all add: decodable_def has_fields_def fits_def
     ERC20TokenStakingManagerDelegationEnded_def ERC20TokenStakingManagerDelegatorAdded_def
     ERC20TokenStakingManagerDelegatorRegistered_def
     ERC20TokenStakingManagerDelegatorRemovalInitialized_def
     ERC20TokenStakingManagerInitialValidatorCreated_def ERC20TokenStakingManagerInitialized_def
     ERC20TokenStakingManagerUptimeUpdated_def
     ERC20TokenStakingManagerValidationPeriodCreated_def
     ERC20TokenStakingManagerValidationPeriodEnded_def
     ERC20TokenStakingManagerValidationPeriodRegistered_def
     ERC20TokenStakingManagerValidatorRemovalInitialized_def
     ERC20TokenStakingManagerValidatorWeightUpdate_def )

lemma ERC20TokenStakingManager_events:
  "map_of (Events ERC20TokenStakingManagerABI) ''DelegationEnded'' =
     Some [(''delegationID'', TBytes32, True), (''validationID'', TBytes32, True), (''rewards'',
        TUint 256, False), (''fees'', TUint 256, False)]"
  "map_of (Events ERC20TokenStakingManagerABI) ''DelegatorAdded'' =
     Some [(''delegationID'', TBytes32, True), (''validationID'', TBytes32, True),
        (''delegatorAddress'', TAddress, True), (''nonce'', TUint 64, False),
        (''validatorWeight'', TUint 64, False), (''delegatorWeight'', TUint 64, False),
        (''setWeightMessageID'', TBytes32, False)]"
  "map_of (Events ERC20TokenStakingManagerABI) ''DelegatorRegistered'' =
     Some [(''delegationID'', TBytes32, True), (''validationID'', TBytes32, True),
        (''startTime'', TUint 256, False)]"
  "map_of (Events ERC20TokenStakingManagerABI) ''DelegatorRemovalInitialized'' =
     Some [(''delegationID'', TBytes32, True), (''validationID'', TBytes32, True)]"
  "map_of (Events ERC20TokenStakingManagerABI) ''InitialValidatorCreated'' =
     Some [(''validationID'', TBytes32, True), (''weight'', TUint 64, False), (''nodeID'',
        TBytes, False)]"
  "map_of (Events ERC20TokenStakingManagerABI) ''Initialized'' =
     Some [(''version'', TUint 64, False)]"
  "map_of (Events ERC20TokenStakingManagerABI) ''UptimeUpdated'' =
     Some [(''validationID'', TBytes32, True), (''uptime'', TUint 64, False)]"
  "map_of (Events ERC20TokenStakingManagerABI) ''ValidationPeriodCreated'' =
     Some [(''validationID'', TBytes32, True), (''registerValidationMessageID'', TBytes32,
        True), (''weight'', TUint 64, False), (''nodeID'', TBytes, False),
        (''registrationExpiry'', TUint 64, False)]"
  "map_of (Events ERC20TokenStakingManagerABI) ''ValidationPeriodEnded'' =
     Some [(''validationID'', TBytes32, True), (''status'', TUint 8, True)]"
  "map_of (Events ERC20TokenStakingManagerABI) ''ValidationPeriodRegistered'' =
     Some [(''validationID'', TBytes32, True), (''weight'', TUint 64, False), (''timestamp'',
        TUint 256, False)]"
  "map_of (Events ERC20TokenStakingManagerABI) ''ValidatorRemovalInitialized'' =
     Some [(''validationID'', TBytes32, True), (''setWeightMessageID'', TBytes32, True),
        (''weight'', TUint 64, False), (''endTime'', TUint 256, False)]"
  "map_of (Events ERC20TokenStakingManagerABI) ''ValidatorWeightUpdate'' =
     Some [(''validationID'', TBytes32, True), (''nonce'', TUint 64, True), (''weight'', TUint
        64, False), (''setWeightMessageID'', TBytes32, False)]"
  unfolding ERC20TokenStakingManagerABI_def contract_abi.select_convs
  by (simp_all only: table_lookup)

text \<open>
  C36. Every transaction method of the staking manager's binding passes its arguments with the
     types its
  contract method declares: the call data carry that method's selector and decode to the
     arguments.
  The overloads of \<open>initializeEndValidation\<close> and its like, which Go tells apart by a digit, each
     reach
  their own method.
\<close>

theorem ERC20TokenStakingManager_transactions_decode:
  assumes "codec_methods k" and "codec_roundtrip k" and "bound_spec k
     ERC20TokenStakingManagerABI be c"
  shows "(\<forall>delegationID rewardRecipient. sends_call k ERC20TokenStakingManagerABI be opts
     ''changeDelegatorRewardRecipient'' [GArr32 delegationID, GAddr rewardRecipient]
       (ERC20TokenStakingManagerTransactor_ChangeDelegatorRewardRecipient c opts delegationID
          rewardRecipient)) \<and>
     (\<forall>validationID rewardRecipient. sends_call k ERC20TokenStakingManagerABI be opts
        ''changeValidatorRewardRecipient'' [GArr32 validationID, GAddr rewardRecipient]
       (ERC20TokenStakingManagerTransactor_ChangeValidatorRewardRecipient c opts validationID
          rewardRecipient)) \<and>
     (\<forall>validationID. sends_call k ERC20TokenStakingManagerABI be opts ''claimDelegationFees''
        [GArr32 validationID]
       (ERC20TokenStakingManagerTransactor_ClaimDelegationFees c opts validationID)) \<and>
     (\<forall>delegationID messageIndex. sends_call k ERC20TokenStakingManagerABI be opts
        ''completeDelegatorRegistration'' [GArr32 delegationID, GUint 32 (unat messageIndex)]
       (ERC20TokenStakingManagerTransactor_CompleteDelegatorRegistration c opts delegationID
          messageIndex)) \<and>
     (\<forall>delegationID messageIndex. sends_call k ERC20TokenStakingManagerABI be opts
        ''completeEndDelegation'' [GArr32 delegationID, GUint 32 (unat messageIndex)]
       (ERC20TokenStakingManagerTransactor_CompleteEndDelegation c opts delegationID
          messageIndex)) \<and>
     (\<forall>messageIndex. sends_call k ERC20TokenStakingManagerABI be opts ''completeEndValidation''
        [GUint 32 (unat messageIndex)]
       (ERC20TokenStakingManagerTransactor_CompleteEndValidation c opts messageIndex)) \<and>
     (\<forall>messageIndex. sends_call k ERC20TokenStakingManagerABI be opts
        ''completeValidatorRegistration'' [GUint 32 (unat messageIndex)]
       (ERC20TokenStakingManagerTransactor_CompleteValidatorRegistration c opts messageIndex)) \<and>
     (\<forall>delegationID includeUptimeProof messageIndex. sends_call k ERC20TokenStakingManagerABI be
        opts ''forceInitializeEndDelegation'' [GArr32 delegationID, GBool includeUptimeProof,
        GUint 32 (unat messageIndex)]
       (ERC20TokenStakingManagerTransactor_ForceInitializeEndDelegation c opts delegationID
          includeUptimeProof messageIndex)) \<and>
     (\<forall>delegationID includeUptimeProof messageIndex rewardRecipient. sends_call k
        ERC20TokenStakingManagerABI be opts ''forceInitializeEndDelegation0'' [GArr32
        delegationID, GBool includeUptimeProof, GUint 32 (unat messageIndex), GAddr
        rewardRecipient]
       (ERC20TokenStakingManagerTransactor_ForceInitializeEndDelegation0 c opts delegationID
          includeUptimeProof messageIndex rewardRecipient)) \<and>
     (\<forall>validationID includeUptimeProof messageIndex. sends_call k ERC20TokenStakingManagerABI be
        opts ''forceInitializeEndValidation'' [GArr32 validationID, GBool includeUptimeProof,
        GUint 32 (unat messageIndex)]
       (ERC20TokenStakingManagerTransactor_ForceInitializeEndValidation c opts validationID
          includeUptimeProof messageIndex)) \<and>
     (\<forall>validationID includeUptimeProof messageIndex rewardRecipient. sends_call k
        ERC20TokenStakingManagerABI be opts ''forceInitializeEndValidation0'' [GArr32
        validationID, GBool includeUptimeProof, GUint 32 (unat messageIndex), GAddr
        rewardRecipient]
       (ERC20TokenStakingManagerTransactor_ForceInitializeEndValidation0 c opts validationID
          includeUptimeProof messageIndex rewardRecipient)) \<and>
     (\<forall>settings token. PoSValidatorManagerSettings_ok settings \<longrightarrow> sends_call k
        ERC20TokenStakingManagerABI be opts ''initialize'' [PoSValidatorManagerSettings_val
        settings, GAddr token]
       (ERC20TokenStakingManagerTransactor_Initialize c opts settings token)) \<and>
     (\<forall>validationID delegationAmount. in_uint256 delegationAmount \<longrightarrow> sends_call k
        ERC20TokenStakingManagerABI be opts ''initializeDelegatorRegistration'' [GArr32
        validationID, GBig delegationAmount]
       (ERC20TokenStakingManagerTransactor_InitializeDelegatorRegistration c opts validationID
          delegationAmount)) \<and>
     (\<forall>delegationID includeUptimeProof messageIndex. sends_call k ERC20TokenStakingManagerABI be
        opts ''initializeEndDelegation'' [GArr32 delegationID, GBool includeUptimeProof, GUint
        32 (unat messageIndex)]
       (ERC20TokenStakingManagerTransactor_InitializeEndDelegation c opts delegationID
          includeUptimeProof messageIndex)) \<and>
     (\<forall>delegationID includeUptimeProof messageIndex rewardRecipient. sends_call k
        ERC20TokenStakingManagerABI be opts ''initializeEndDelegation0'' [GArr32 delegationID,
        GBool includeUptimeProof, GUint 32 (unat messageIndex), GAddr rewardRecipient]
       (ERC20TokenStakingManagerTransactor_InitializeEndDelegation0 c opts delegationID
          includeUptimeProof messageIndex rewardRecipient)) \<and>
     (\<forall>validationID includeUptimeProof messageIndex rewardRecipient. sends_call k
        ERC20TokenStakingManagerABI be opts ''initializeEndValidation'' [GArr32 validationID,
        GBool includeUptimeProof, GUint 32 (unat messageIndex), GAddr rewardRecipient]
       (ERC20TokenStakingManagerTransactor_InitializeEndValidation c opts validationID
          includeUptimeProof messageIndex rewardRecipient)) \<and>
     (\<forall>validationID includeUptimeProof messageIndex. sends_call k ERC20TokenStakingManagerABI be
        opts ''initializeEndValidation0'' [GArr32 validationID, GBool includeUptimeProof, GUint
        32 (unat messageIndex)]
       (ERC20TokenStakingManagerTransactor_InitializeEndValidation0 c opts validationID
          includeUptimeProof messageIndex)) \<and>
     (\<forall>registrationInput delegationFeeBips minStakeDuration stakeAmount. in_uint256 stakeAmount
        \<longrightarrow> sends_call k ERC20TokenStakingManagerABI be opts ''initializeValidatorRegistration''
        [ValidatorRegistrationInput_val registrationInput, GUint 16 (unat delegationFeeBips),
        GUint 64 (unat minStakeDuration), GBig stakeAmount]
       (ERC20TokenStakingManagerTransactor_InitializeValidatorRegistration c opts
          registrationInput delegationFeeBips minStakeDuration stakeAmount)) \<and>
     (\<forall>conversionData messageIndex. sends_call k ERC20TokenStakingManagerABI be opts
        ''initializeValidatorSet'' [ConversionData_val conversionData, GUint 32 (unat
        messageIndex)]
       (ERC20TokenStakingManagerTransactor_InitializeValidatorSet c opts conversionData
          messageIndex)) \<and>
     (\<forall>validationID. sends_call k ERC20TokenStakingManagerABI be opts
        ''resendEndValidatorMessage'' [GArr32 validationID]
       (ERC20TokenStakingManagerTransactor_ResendEndValidatorMessage c opts validationID)) \<and>
     (\<forall>validationID. sends_call k ERC20TokenStakingManagerABI be opts
        ''resendRegisterValidatorMessage'' [GArr32 validationID]
       (ERC20TokenStakingManagerTransactor_ResendRegisterValidatorMessage c opts validationID))
          \<and>
     (\<forall>delegationID. sends_call k ERC20TokenStakingManagerABI be opts ''resendUpdateDelegation''
        [GArr32 delegationID]
       (ERC20TokenStakingManagerTransactor_ResendUpdateDelegation c opts delegationID)) \<and>
     (\<forall>validationID messageIndex. sends_call k ERC20TokenStakingManagerABI be opts
        ''submitUptimeProof'' [GArr32 validationID, GUint 32 (unat messageIndex)]
       (ERC20TokenStakingManagerTransactor_SubmitUptimeProof c opts validationID messageIndex))"
  unfolding ERC20TokenStakingManagerTransactor_ChangeDelegatorRewardRecipient_def
     ERC20TokenStakingManagerTransactor_ChangeValidatorRewardRecipient_def
     ERC20TokenStakingManagerTransactor_ClaimDelegationFees_def
     ERC20TokenStakingManagerTransactor_CompleteDelegatorRegistration_def
     ERC20TokenStakingManagerTransactor_CompleteEndDelegation_def
     ERC20TokenStakingManagerTransactor_CompleteEndValidation_def
     ERC20TokenStakingManagerTransactor_CompleteValidatorRegistration_def
     ERC20TokenStakingManagerTransactor_ForceInitializeEndDelegation_def
     ERC20TokenStakingManagerTransactor_ForceInitializeEndDelegation0_def
     ERC20TokenStakingManagerTransactor_ForceInitializeEndValidation_def
     ERC20TokenStakingManagerTransactor_ForceInitializeEndValidation0_def
     ERC20TokenStakingManagerTransactor_Initialize_def
     ERC20TokenStakingManagerTransactor_InitializeDelegatorRegistration_def
     ERC20TokenStakingManagerTransactor_InitializeEndDelegation_def
     ERC20TokenStakingManagerTransactor_InitializeEndDelegation0_def
     ERC20TokenStakingManagerTransactor_InitializeEndValidation_def
     ERC20TokenStakingManagerTransactor_InitializeEndValidation0_def
     ERC20TokenStakingManagerTransactor_InitializeValidatorRegistration_def
     ERC20TokenStakingManagerTransactor_InitializeValidatorSet_def
     ERC20TokenStakingManagerTransactor_ResendEndValidatorMessage_def
     ERC20TokenStakingManagerTransactor_ResendRegisterValidatorMessage_def
     ERC20TokenStakingManagerTransactor_ResendUpdateDelegation_def
     ERC20TokenStakingManagerTransactor_SubmitUptimeProof_def
  by ((intro conjI allI impI)?; rule transact_sends [OF assms], rule
     ERC20TokenStakingManager_methods)
    (simp_all del: matches.simps(1))

theorem ERC20TokenStakingManager_transactions_decode_witness:
  "sends_call ref_codec ERC20TokenStakingManagerABI (example_backend []) example_transact_opts
     ''initializeEndValidation0'' [GArr32 5, GBool True, GUint 32 2]
     (ERC20TokenStakingManagerTransactor_InitializeEndValidation0
       (spec_contract ref_codec ERC20TokenStakingManagerABI (example_backend []))
          example_transact_opts 5 True 2)"
proof -
  note all = ERC20TokenStakingManager_transactions_decode [OF ref_methods ref_roundtrip
     spec_contract_ok,
      of "example_backend []" example_transact_opts]
  have "\<forall>validationID includeUptimeProof messageIndex.
      sends_call ref_codec ERC20TokenStakingManagerABI (example_backend [])
         example_transact_opts
        ''initializeEndValidation0'' [GArr32 validationID, GBool includeUptimeProof, GUint 32
           (unat messageIndex)]
        (ERC20TokenStakingManagerTransactor_InitializeEndValidation0
          (spec_contract ref_codec ERC20TokenStakingManagerABI (example_backend []))
             example_transact_opts
          validationID includeUptimeProof messageIndex)"
    using all by blast
  then have "sends_call ref_codec ERC20TokenStakingManagerABI (example_backend [])
     example_transact_opts
      ''initializeEndValidation0'' [GArr32 5, GBool True, GUint 32 (unat (2 :: u32))]
      (ERC20TokenStakingManagerTransactor_InitializeEndValidation0
        (spec_contract ref_codec ERC20TokenStakingManagerABI (example_backend []))
           example_transact_opts 5 True 2)"
    by blast
  then show ?thesis
    by simp
qed


lemma ERC20TokenStakingManager_calls_return_outputs:
  assumes "codec_methods k" and "codec_roundtrip k" and "bound_spec k
     ERC20TokenStakingManagerABI be c"
  shows "(\<forall>r0. reads_call k ERC20TokenStakingManagerABI be opts ''ADDRESS_LENGTH'' []
       [GUint 32 (unat r0)] r0 (ERC20TokenStakingManagerCaller_ADDRESSLENGTH c opts)) \<and>
     (\<forall>r0. reads_call k ERC20TokenStakingManagerABI be opts ''BIPS_CONVERSION_FACTOR'' []
       [GUint 16 (unat r0)] r0 (ERC20TokenStakingManagerCaller_BIPSCONVERSIONFACTOR c opts)) \<and>
     (\<forall>r0. reads_call k ERC20TokenStakingManagerABI be opts ''BLS_PUBLIC_KEY_LENGTH'' []
       [GUint 8 (unat r0)] r0 (ERC20TokenStakingManagerCaller_BLSPUBLICKEYLENGTH c opts)) \<and>
     (\<forall>r0. reads_call k ERC20TokenStakingManagerABI be opts
        ''ERC20_STAKING_MANAGER_STORAGE_LOCATION'' []
       [GArr32 r0] r0 (ERC20TokenStakingManagerCaller_ERC20STAKINGMANAGERSTORAGELOCATION c
          opts)) \<and>
     (\<forall>r0. reads_call k ERC20TokenStakingManagerABI be opts ''MAXIMUM_CHURN_PERCENTAGE_LIMIT''
        []
       [GUint 8 (unat r0)] r0 (ERC20TokenStakingManagerCaller_MAXIMUMCHURNPERCENTAGELIMIT c
          opts)) \<and>
     (\<forall>r0. reads_call k ERC20TokenStakingManagerABI be opts ''MAXIMUM_DELEGATION_FEE_BIPS'' []
       [GUint 16 (unat r0)] r0 (ERC20TokenStakingManagerCaller_MAXIMUMDELEGATIONFEEBIPS c opts))
          \<and>
     (\<forall>r0. reads_call k ERC20TokenStakingManagerABI be opts
        ''MAXIMUM_REGISTRATION_EXPIRY_LENGTH'' []
       [GUint 64 (unat r0)] r0 (ERC20TokenStakingManagerCaller_MAXIMUMREGISTRATIONEXPIRYLENGTH c
          opts)) \<and>
     (\<forall>r0. reads_call k ERC20TokenStakingManagerABI be opts ''MAXIMUM_STAKE_MULTIPLIER_LIMIT''
        []
       [GUint 8 (unat r0)] r0 (ERC20TokenStakingManagerCaller_MAXIMUMSTAKEMULTIPLIERLIMIT c
          opts)) \<and>
     (\<forall>r0. reads_call k ERC20TokenStakingManagerABI be opts
        ''POS_VALIDATOR_MANAGER_STORAGE_LOCATION'' []
       [GArr32 r0] r0 (ERC20TokenStakingManagerCaller_POSVALIDATORMANAGERSTORAGELOCATION c
          opts)) \<and>
     (\<forall>r0. reads_call k ERC20TokenStakingManagerABI be opts ''P_CHAIN_BLOCKCHAIN_ID'' []
       [GArr32 r0] r0 (ERC20TokenStakingManagerCaller_PCHAINBLOCKCHAINID c opts)) \<and>
     (\<forall>r0. reads_call k ERC20TokenStakingManagerABI be opts
        ''VALIDATOR_MANAGER_STORAGE_LOCATION'' []
       [GArr32 r0] r0 (ERC20TokenStakingManagerCaller_VALIDATORMANAGERSTORAGELOCATION c opts)) \<and>
     (\<forall>r0. reads_call k ERC20TokenStakingManagerABI be opts ''WARP_MESSENGER'' []
       [GAddr r0] r0 (ERC20TokenStakingManagerCaller_WARPMESSENGER c opts)) \<and>
     (\<forall>r0. reads_call k ERC20TokenStakingManagerABI be opts ''erc20'' []
       [GAddr r0] r0 (ERC20TokenStakingManagerCaller_Erc20 c opts)) \<and>
     (\<forall>validationID r0. reads_call k ERC20TokenStakingManagerABI be opts ''getValidator''
        [GArr32 validationID]
       [Validator_val r0] r0 (ERC20TokenStakingManagerCaller_GetValidator c opts validationID))
          \<and>
     (\<forall>nodeID r0. reads_call k ERC20TokenStakingManagerABI be opts ''registeredValidators''
        [GBytes nodeID]
       [GArr32 r0] r0 (ERC20TokenStakingManagerCaller_RegisteredValidators c opts nodeID)) \<and>
     (\<forall>amount_value r0. in_uint256 amount_value \<longrightarrow> reads_call k ERC20TokenStakingManagerABI be
        opts ''valueToWeight'' [GBig amount_value]
       [GUint 64 (unat r0)] r0 (ERC20TokenStakingManagerCaller_ValueToWeight c opts
          amount_value)) \<and>
     (\<forall>weight r0. in_uint256 r0 \<longrightarrow> reads_call k ERC20TokenStakingManagerABI be opts
        ''weightToValue'' [GUint 64 (unat weight)]
       [GBig r0] r0 (ERC20TokenStakingManagerCaller_WeightToValue c opts weight))"
  unfolding ERC20TokenStakingManagerCaller_ADDRESSLENGTH_def
     ERC20TokenStakingManagerCaller_BIPSCONVERSIONFACTOR_def
     ERC20TokenStakingManagerCaller_BLSPUBLICKEYLENGTH_def
     ERC20TokenStakingManagerCaller_ERC20STAKINGMANAGERSTORAGELOCATION_def
     ERC20TokenStakingManagerCaller_MAXIMUMCHURNPERCENTAGELIMIT_def
     ERC20TokenStakingManagerCaller_MAXIMUMDELEGATIONFEEBIPS_def
     ERC20TokenStakingManagerCaller_MAXIMUMREGISTRATIONEXPIRYLENGTH_def
     ERC20TokenStakingManagerCaller_MAXIMUMSTAKEMULTIPLIERLIMIT_def
     ERC20TokenStakingManagerCaller_POSVALIDATORMANAGERSTORAGELOCATION_def
     ERC20TokenStakingManagerCaller_PCHAINBLOCKCHAINID_def
     ERC20TokenStakingManagerCaller_VALIDATORMANAGERSTORAGELOCATION_def
     ERC20TokenStakingManagerCaller_WARPMESSENGER_def ERC20TokenStakingManagerCaller_Erc20_def
     ERC20TokenStakingManagerCaller_GetValidator_def
     ERC20TokenStakingManagerCaller_RegisteredValidators_def
     ERC20TokenStakingManagerCaller_ValueToWeight_def
     ERC20TokenStakingManagerCaller_WeightToValue_def
  by ((intro conjI allI impI)?; rule call_reads [OF assms], rule
     ERC20TokenStakingManager_methods)
    (simp_all del: matches.simps(1))

text \<open>
  C26. The parser of each of the twelve events of the staking manager reads an emitted log
  back: every argument, indexed or not, is in the field of its name and \<open>Raw\<close> is the log
  itself, whoever emitted it; a log without topics or of another event is refused.
\<close>

theorem ERC20TokenStakingManager_parsers_decode:
  assumes "codec_events k" and "event_ids k ERC20TokenStakingManagerABI" and "bound_spec k
     ERC20TokenStakingManagerABI be c"
  shows "parser_decodes k ERC20TokenStakingManagerABI ''DelegationEnded''
     (ERC20TokenStakingManagerFilterer_ParseDelegationEnded c) \<and>
     parser_decodes k ERC20TokenStakingManagerABI ''DelegatorAdded''
        (ERC20TokenStakingManagerFilterer_ParseDelegatorAdded c) \<and>
     parser_decodes k ERC20TokenStakingManagerABI ''DelegatorRegistered''
        (ERC20TokenStakingManagerFilterer_ParseDelegatorRegistered c) \<and>
     parser_decodes k ERC20TokenStakingManagerABI ''DelegatorRemovalInitialized''
        (ERC20TokenStakingManagerFilterer_ParseDelegatorRemovalInitialized c) \<and>
     parser_decodes k ERC20TokenStakingManagerABI ''InitialValidatorCreated''
        (ERC20TokenStakingManagerFilterer_ParseInitialValidatorCreated c) \<and>
     parser_decodes k ERC20TokenStakingManagerABI ''Initialized''
        (ERC20TokenStakingManagerFilterer_ParseInitialized c) \<and>
     parser_decodes k ERC20TokenStakingManagerABI ''UptimeUpdated''
        (ERC20TokenStakingManagerFilterer_ParseUptimeUpdated c) \<and>
     parser_decodes k ERC20TokenStakingManagerABI ''ValidationPeriodCreated''
        (ERC20TokenStakingManagerFilterer_ParseValidationPeriodCreated c) \<and>
     parser_decodes k ERC20TokenStakingManagerABI ''ValidationPeriodEnded''
        (ERC20TokenStakingManagerFilterer_ParseValidationPeriodEnded c) \<and>
     parser_decodes k ERC20TokenStakingManagerABI ''ValidationPeriodRegistered''
        (ERC20TokenStakingManagerFilterer_ParseValidationPeriodRegistered c) \<and>
     parser_decodes k ERC20TokenStakingManagerABI ''ValidatorRemovalInitialized''
        (ERC20TokenStakingManagerFilterer_ParseValidatorRemovalInitialized c) \<and>
     parser_decodes k ERC20TokenStakingManagerABI ''ValidatorWeightUpdate''
        (ERC20TokenStakingManagerFilterer_ParseValidatorWeightUpdate c)"
proof -
  note parses = parse_log_decodes [OF assms]
  show ?thesis
    unfolding ERC20TokenStakingManagerFilterer_ParseDelegationEnded_def
       ERC20TokenStakingManagerFilterer_ParseDelegatorAdded_def
       ERC20TokenStakingManagerFilterer_ParseDelegatorRegistered_def
       ERC20TokenStakingManagerFilterer_ParseDelegatorRemovalInitialized_def
       ERC20TokenStakingManagerFilterer_ParseInitialValidatorCreated_def
       ERC20TokenStakingManagerFilterer_ParseInitialized_def
       ERC20TokenStakingManagerFilterer_ParseUptimeUpdated_def
       ERC20TokenStakingManagerFilterer_ParseValidationPeriodCreated_def
       ERC20TokenStakingManagerFilterer_ParseValidationPeriodEnded_def
       ERC20TokenStakingManagerFilterer_ParseValidationPeriodRegistered_def
       ERC20TokenStakingManagerFilterer_ParseValidatorRemovalInitialized_def
       ERC20TokenStakingManagerFilterer_ParseValidatorWeightUpdate_def
    by ((intro conjI)?; rule parses, rule ERC20TokenStakingManager_events, rule
       ERC20TokenStakingManager_decodable)
qed

theorem ERC20TokenStakingManager_parsers_decode_witness:
  "\<exists>log fs. pack_event ref_codec ERC20TokenStakingManagerABI ''ValidationPeriodCreated''
       [GArr32 7, GArr32 8, GUint 64 20, GBytes [1, 2], GUint 64 100] = Inr (LogTopics log,
          LogData log) \<and>
     length (LogTopics log) = 3 \<and>
     ERC20TokenStakingManagerFilterer_ParseValidationPeriodCreated
       (spec_contract ref_codec ERC20TokenStakingManagerABI (example_backend [])) log = Inr fs \<and>
     map_of fs ''ValidationID'' = Some (GArr32 7) \<and> map_of fs ''Weight'' = Some (GUint 64 20) \<and>
     map_of fs ''NodeID'' = Some (GBytes [1, 2]) \<and> map_of fs ''RegistrationExpiry'' = Some
        (GUint 64 100) \<and>
     map_of fs ''Raw'' = Some (log_val log) \<and>
     \<not> is_Ok (ERC20TokenStakingManagerFilterer_ParseDelegatorAdded
       (spec_contract ref_codec ERC20TokenStakingManagerABI (example_backend [])) log)"
proof -
  let ?c = "spec_contract ref_codec ERC20TokenStakingManagerABI (example_backend [])"
  let ?args = "[GArr32 7, GArr32 8, GUint 64 20, GBytes [1, 2], GUint 64 100]"
  have ids: "event_ids ref_codec ERC20TokenStakingManagerABI"
    by (rule ref_event_ids_if) (simp add: ERC20TokenStakingManagerABI_def topic_name_def)
  note all = ERC20TokenStakingManager_parsers_decode [OF ref_events ids spec_contract_ok, of
     "example_backend []"]
  have created: "parser_decodes ref_codec ERC20TokenStakingManagerABI
     ''ValidationPeriodCreated''
      (ERC20TokenStakingManagerFilterer_ParseValidationPeriodCreated ?c)"
    using all by (elim conjE)
  have added: "parser_decodes ref_codec ERC20TokenStakingManagerABI ''DelegatorAdded''
      (ERC20TokenStakingManagerFilterer_ParseDelegatorAdded ?c)"
    using all by (elim conjE)
  obtain topics data where pack: "pack_event ref_codec ERC20TokenStakingManagerABI
     ''ValidationPeriodCreated'' ?args =
      Inr (topics, data)" and topics: "length topics = 3"
    using ERC20TokenStakingManager_events(8) by (simp add: ref_codec_def)
  let ?log = "example_log\<lparr>LogTopics := topics, LogData := data\<rparr>"
  obtain fs where fs: "ERC20TokenStakingManagerFilterer_ParseValidationPeriodCreated ?c ?log =
     Inr fs"
      and fields: "\<forall>i < 5. map_of fs (export_name (fst ([(''validationID'', TBytes32, True),
        (''registerValidationMessageID'', TBytes32, True), (''weight'', TUint 64, False),
        (''nodeID'', TBytes, False), (''registrationExpiry'', TUint 64, False)] ! i))) = Some
           (?args ! i)"
      and raw: "map_of fs ''Raw'' = Some (log_val ?log)"
    using parser_decodesD(1) [OF created ERC20TokenStakingManager_events(8), of ?args ?log] pack
    by (auto simp: event_args_Cons)
  have "event_by_id ref_codec ERC20TokenStakingManagerABI (hd topics) = Inr
     ''ValidationPeriodCreated''"
    using ids pack topics unfolding event_ids_def by (cases topics) (simp, metis list.sel(1))
  then have "\<not> is_Ok (ERC20TokenStakingManagerFilterer_ParseDelegatorAdded ?c ?log)"
    using parser_decodesD(2) [OF added ERC20TokenStakingManager_events(2), of ?log] by simp
  moreover have "map_of fs ''ValidationID'' = Some (GArr32 7)" and "map_of fs ''Weight'' = Some
     (GUint 64 20)"
    and "map_of fs ''NodeID'' = Some (GBytes [1, 2])" and "map_of fs ''RegistrationExpiry'' =
       Some (GUint 64 100)"
    using fields by (auto dest: spec [of _ 0] spec [of _ 2] spec [of _ 3] spec [of _ 4])
  ultimately show ?thesis
    using pack topics fs raw by (intro exI [of _ ?log] exI [of _ fs]) simp
qed


end
