(* ===== verification/NativeTokenStakingManagerBinding.thy ===== *)
theory NativeTokenStakingManagerBinding
  imports ManagerStructs LinkedDeployment AbiRef
begin

text \<open>
  The generated binding \<open>abi-bindings/go/validator-manager/NativeTokenStakingManager/NativeTokenStakingManager.go\<close> over the generic
  definitions of theory \<open>Binding\<close>: its ABI, every method with its session wrappers, every event with
  its iterator, filter, watch and parser. The bytecode is a parameter of deployment; the aliases
  \<open>Raw\<close> of the untyped calls are not modelled.
\<close>

section \<open>The contract's ABI (NativeTokenStakingManagerMetaData)\<close>

definition NativeTokenStakingManagerABI :: contract_abi where
  "NativeTokenStakingManagerABI = \<lparr>
      Methods = [
        (''ADDRESS_LENGTH'', [],
           [('''', TUint 32)]),
        (''BIPS_CONVERSION_FACTOR'', [],
           [('''', TUint 16)]),
        (''BLS_PUBLIC_KEY_LENGTH'', [],
           [('''', TUint 8)]),
        (''MAXIMUM_CHURN_PERCENTAGE_LIMIT'', [],
           [('''', TUint 8)]),
        (''MAXIMUM_DELEGATION_FEE_BIPS'', [],
           [('''', TUint 16)]),
        (''MAXIMUM_REGISTRATION_EXPIRY_LENGTH'', [],
           [('''', TUint 64)]),
        (''MAXIMUM_STAKE_MULTIPLIER_LIMIT'', [],
           [('''', TUint 8)]),
        (''NATIVE_MINTER'', [],
           [('''', TAddress)]),
        (''POS_VALIDATOR_MANAGER_STORAGE_LOCATION'', [],
           [('''', TBytes32)]),
        (''P_CHAIN_BLOCKCHAIN_ID'', [],
           [('''', TBytes32)]),
        (''VALIDATOR_MANAGER_STORAGE_LOCATION'', [],
           [('''', TBytes32)]),
        (''WARP_MESSENGER'', [],
           [('''', TAddress)]),
        (''changeDelegatorRewardRecipient'', [(''delegationID'', TBytes32),
           (''rewardRecipient'', TAddress)],
           []),
        (''changeValidatorRewardRecipient'', [(''validationID'', TBytes32),
           (''rewardRecipient'', TAddress)],
           []),
        (''claimDelegationFees'', [(''validationID'', TBytes32)],
           []),
        (''completeDelegatorRegistration'', [(''delegationID'', TBytes32), (''messageIndex'',
           TUint 32)],
           []),
        (''completeEndDelegation'', [(''delegationID'', TBytes32), (''messageIndex'', TUint
           32)],
           []),
        (''completeEndValidation'', [(''messageIndex'', TUint 32)],
           []),
        (''completeValidatorRegistration'', [(''messageIndex'', TUint 32)],
           []),
        (''forceInitializeEndDelegation'', [(''delegationID'', TBytes32),
           (''includeUptimeProof'', TBool), (''messageIndex'', TUint 32)],
           []),
        (''forceInitializeEndDelegation0'', [(''delegationID'', TBytes32),
           (''includeUptimeProof'', TBool), (''messageIndex'', TUint 32), (''rewardRecipient'',
           TAddress)],
           []),
        (''forceInitializeEndValidation'', [(''validationID'', TBytes32),
           (''includeUptimeProof'', TBool), (''messageIndex'', TUint 32)],
           []),
        (''forceInitializeEndValidation0'', [(''validationID'', TBytes32),
           (''includeUptimeProof'', TBool), (''messageIndex'', TUint 32), (''rewardRecipient'',
           TAddress)],
           []),
        (''getValidator'', [(''validationID'', TBytes32)],
           [('''', Validator_tuple)]),
        (''initialize'', [(''settings'', PoSValidatorManagerSettings_tuple)],
           []),
        (''initializeDelegatorRegistration'', [(''validationID'', TBytes32)],
           [('''', TBytes32)]),
        (''initializeEndDelegation'', [(''delegationID'', TBytes32), (''includeUptimeProof'',
           TBool), (''messageIndex'', TUint 32)],
           []),
        (''initializeEndDelegation0'', [(''delegationID'', TBytes32), (''includeUptimeProof'',
           TBool), (''messageIndex'', TUint 32), (''rewardRecipient'', TAddress)],
           []),
        (''initializeEndValidation'', [(''validationID'', TBytes32), (''includeUptimeProof'',
           TBool), (''messageIndex'', TUint 32), (''rewardRecipient'', TAddress)],
           []),
        (''initializeEndValidation0'', [(''validationID'', TBytes32), (''includeUptimeProof'',
           TBool), (''messageIndex'', TUint 32)],
           []),
        (''initializeValidatorRegistration'', [(''registrationInput'',
           ValidatorRegistrationInput_tuple), (''delegationFeeBips'', TUint 16),
           (''minStakeDuration'', TUint 64)],
           [('''', TBytes32)]),
        (''initializeValidatorSet'', [(''conversionData'', ConversionData_tuple),
           (''messageIndex'', TUint 32)],
           []),
        (''registeredValidators'', [(''nodeID'', TBytes)],
           [('''', TBytes32)]),
        (''resendEndValidatorMessage'', [(''validationID'', TBytes32)],
           []),
        (''resendRegisterValidatorMessage'', [(''validationID'', TBytes32)],
           []),
        (''resendUpdateDelegation'', [(''delegationID'', TBytes32)],
           []),
        (''submitUptimeProof'', [(''validationID'', TBytes32), (''messageIndex'', TUint 32)],
           []),
        (''valueToWeight'', [(''value'', TUint 256)],
           [('''', TUint 64)]),
        (''weightToValue'', [(''weight'', TUint 64)],
           [('''', TUint 256)])],
      Events = [
        (''DelegationEnded'', [(''delegationID'', TBytes32, True), (''validationID'', TBytes32,
           True), (''rewards'', TUint 256, False), (''fees'', TUint 256, False)]),
        (''DelegatorAdded'', [(''delegationID'', TBytes32, True), (''validationID'', TBytes32,
           True), (''delegatorAddress'', TAddress, True), (''nonce'', TUint 64, False),
           (''validatorWeight'', TUint 64, False), (''delegatorWeight'', TUint 64, False),
           (''setWeightMessageID'', TBytes32, False)]),
        (''DelegatorRegistered'', [(''delegationID'', TBytes32, True), (''validationID'',
           TBytes32, True), (''startTime'', TUint 256, False)]),
        (''DelegatorRemovalInitialized'', [(''delegationID'', TBytes32, True),
           (''validationID'', TBytes32, True)]),
        (''InitialValidatorCreated'', [(''validationID'', TBytes32, True), (''weight'', TUint
           64, False), (''nodeID'', TBytes, False)]),
        (''Initialized'', [(''version'', TUint 64, False)]),
        (''UptimeUpdated'', [(''validationID'', TBytes32, True), (''uptime'', TUint 64,
           False)]),
        (''ValidationPeriodCreated'', [(''validationID'', TBytes32, True),
           (''registerValidationMessageID'', TBytes32, True), (''weight'', TUint 64, False),
           (''nodeID'', TBytes, False), (''registrationExpiry'', TUint 64, False)]),
        (''ValidationPeriodEnded'', [(''validationID'', TBytes32, True), (''status'', TUint 8,
           True)]),
        (''ValidationPeriodRegistered'', [(''validationID'', TBytes32, True), (''weight'', TUint
           64, False), (''timestamp'', TUint 256, False)]),
        (''ValidatorRemovalInitialized'', [(''validationID'', TBytes32, True),
           (''setWeightMessageID'', TBytes32, True), (''weight'', TUint 64, False),
           (''endTime'', TUint 256, False)]),
        (''ValidatorWeightUpdate'', [(''validationID'', TBytes32, True), (''nonce'', TUint 64,
           True), (''weight'', TUint 64, False), (''setWeightMessageID'', TBytes32, False)])]\<rparr>"

section \<open>Binding and deployment\<close>

definition bindNativeTokenStakingManager :: "'w bind_lib \<Rightarrow> address \<Rightarrow> goerr + 'w bound_contract"
   where
  "bindNativeTokenStakingManager lib addr = bind_contract lib NativeTokenStakingManagerABI addr"

definition NewNativeTokenStakingManager :: "'w bind_lib \<Rightarrow> address \<Rightarrow> goerr + 'w bound_contract"
   where
  "NewNativeTokenStakingManager lib addr = bindNativeTokenStakingManager lib addr"

definition DeployNativeTokenStakingManager ::
  "'w linked_lib \<Rightarrow> TransactOpts \<Rightarrow> u8 \<Rightarrow> ('w link_state, goerr + address \<times> hash \<times> 'w
     bound_contract) prog" where
  "DeployNativeTokenStakingManager lib auth init_mode = deploy_linked lib auth
     NativeTokenStakingManagerABI [GUint 8 (unat init_mode)]"

section \<open>Methods\<close>

definition NativeTokenStakingManagerCaller_ADDRESSLENGTH ::
  "'w bound_contract \<Rightarrow> CallOpts \<Rightarrow> ('w, goerr + u32) prog" where
  "NativeTokenStakingManagerCaller_ADDRESSLENGTH c opts =
     call_method c opts ''ADDRESS_LENGTH'' [] (out1 (go_word 32))"

definition NativeTokenStakingManagerSession_ADDRESSLENGTH ::
  "'w session \<Rightarrow> ('w, goerr + u32) prog" where
  "NativeTokenStakingManagerSession_ADDRESSLENGTH s =
     NativeTokenStakingManagerCaller_ADDRESSLENGTH (SessionContract s) (SessionCallOpts s)"

definition NativeTokenStakingManagerCaller_BIPSCONVERSIONFACTOR ::
  "'w bound_contract \<Rightarrow> CallOpts \<Rightarrow> ('w, goerr + u16) prog" where
  "NativeTokenStakingManagerCaller_BIPSCONVERSIONFACTOR c opts =
     call_method c opts ''BIPS_CONVERSION_FACTOR'' [] (out1 (go_word 16))"

definition NativeTokenStakingManagerSession_BIPSCONVERSIONFACTOR ::
  "'w session \<Rightarrow> ('w, goerr + u16) prog" where
  "NativeTokenStakingManagerSession_BIPSCONVERSIONFACTOR s =
     NativeTokenStakingManagerCaller_BIPSCONVERSIONFACTOR (SessionContract s) (SessionCallOpts
     s)"

definition NativeTokenStakingManagerCaller_BLSPUBLICKEYLENGTH ::
  "'w bound_contract \<Rightarrow> CallOpts \<Rightarrow> ('w, goerr + u8) prog" where
  "NativeTokenStakingManagerCaller_BLSPUBLICKEYLENGTH c opts =
     call_method c opts ''BLS_PUBLIC_KEY_LENGTH'' [] (out1 (go_word 8))"

definition NativeTokenStakingManagerSession_BLSPUBLICKEYLENGTH ::
  "'w session \<Rightarrow> ('w, goerr + u8) prog" where
  "NativeTokenStakingManagerSession_BLSPUBLICKEYLENGTH s =
     NativeTokenStakingManagerCaller_BLSPUBLICKEYLENGTH (SessionContract s) (SessionCallOpts s)"

definition NativeTokenStakingManagerCaller_MAXIMUMCHURNPERCENTAGELIMIT ::
  "'w bound_contract \<Rightarrow> CallOpts \<Rightarrow> ('w, goerr + u8) prog" where
  "NativeTokenStakingManagerCaller_MAXIMUMCHURNPERCENTAGELIMIT c opts =
     call_method c opts ''MAXIMUM_CHURN_PERCENTAGE_LIMIT'' [] (out1 (go_word 8))"

definition NativeTokenStakingManagerSession_MAXIMUMCHURNPERCENTAGELIMIT ::
  "'w session \<Rightarrow> ('w, goerr + u8) prog" where
  "NativeTokenStakingManagerSession_MAXIMUMCHURNPERCENTAGELIMIT s =
     NativeTokenStakingManagerCaller_MAXIMUMCHURNPERCENTAGELIMIT (SessionContract s)
     (SessionCallOpts s)"

definition NativeTokenStakingManagerCaller_MAXIMUMDELEGATIONFEEBIPS ::
  "'w bound_contract \<Rightarrow> CallOpts \<Rightarrow> ('w, goerr + u16) prog" where
  "NativeTokenStakingManagerCaller_MAXIMUMDELEGATIONFEEBIPS c opts =
     call_method c opts ''MAXIMUM_DELEGATION_FEE_BIPS'' [] (out1 (go_word 16))"

definition NativeTokenStakingManagerSession_MAXIMUMDELEGATIONFEEBIPS ::
  "'w session \<Rightarrow> ('w, goerr + u16) prog" where
  "NativeTokenStakingManagerSession_MAXIMUMDELEGATIONFEEBIPS s =
     NativeTokenStakingManagerCaller_MAXIMUMDELEGATIONFEEBIPS (SessionContract s)
     (SessionCallOpts s)"

definition NativeTokenStakingManagerCaller_MAXIMUMREGISTRATIONEXPIRYLENGTH ::
  "'w bound_contract \<Rightarrow> CallOpts \<Rightarrow> ('w, goerr + u64) prog" where
  "NativeTokenStakingManagerCaller_MAXIMUMREGISTRATIONEXPIRYLENGTH c opts =
     call_method c opts ''MAXIMUM_REGISTRATION_EXPIRY_LENGTH'' [] (out1 (go_word 64))"

definition NativeTokenStakingManagerSession_MAXIMUMREGISTRATIONEXPIRYLENGTH ::
  "'w session \<Rightarrow> ('w, goerr + u64) prog" where
  "NativeTokenStakingManagerSession_MAXIMUMREGISTRATIONEXPIRYLENGTH s =
     NativeTokenStakingManagerCaller_MAXIMUMREGISTRATIONEXPIRYLENGTH (SessionContract s)
     (SessionCallOpts s)"

definition NativeTokenStakingManagerCaller_MAXIMUMSTAKEMULTIPLIERLIMIT ::
  "'w bound_contract \<Rightarrow> CallOpts \<Rightarrow> ('w, goerr + u8) prog" where
  "NativeTokenStakingManagerCaller_MAXIMUMSTAKEMULTIPLIERLIMIT c opts =
     call_method c opts ''MAXIMUM_STAKE_MULTIPLIER_LIMIT'' [] (out1 (go_word 8))"

definition NativeTokenStakingManagerSession_MAXIMUMSTAKEMULTIPLIERLIMIT ::
  "'w session \<Rightarrow> ('w, goerr + u8) prog" where
  "NativeTokenStakingManagerSession_MAXIMUMSTAKEMULTIPLIERLIMIT s =
     NativeTokenStakingManagerCaller_MAXIMUMSTAKEMULTIPLIERLIMIT (SessionContract s)
     (SessionCallOpts s)"

definition NativeTokenStakingManagerCaller_NATIVEMINTER ::
  "'w bound_contract \<Rightarrow> CallOpts \<Rightarrow> ('w, goerr + address) prog" where
  "NativeTokenStakingManagerCaller_NATIVEMINTER c opts =
     call_method c opts ''NATIVE_MINTER'' [] (out1 go_addr)"

definition NativeTokenStakingManagerSession_NATIVEMINTER ::
  "'w session \<Rightarrow> ('w, goerr + address) prog" where
  "NativeTokenStakingManagerSession_NATIVEMINTER s =
     NativeTokenStakingManagerCaller_NATIVEMINTER (SessionContract s) (SessionCallOpts s)"

definition NativeTokenStakingManagerCaller_POSVALIDATORMANAGERSTORAGELOCATION ::
  "'w bound_contract \<Rightarrow> CallOpts \<Rightarrow> ('w, goerr + hash) prog" where
  "NativeTokenStakingManagerCaller_POSVALIDATORMANAGERSTORAGELOCATION c opts =
     call_method c opts ''POS_VALIDATOR_MANAGER_STORAGE_LOCATION'' [] (out1 go_arr32)"

definition NativeTokenStakingManagerSession_POSVALIDATORMANAGERSTORAGELOCATION ::
  "'w session \<Rightarrow> ('w, goerr + hash) prog" where
  "NativeTokenStakingManagerSession_POSVALIDATORMANAGERSTORAGELOCATION s =
     NativeTokenStakingManagerCaller_POSVALIDATORMANAGERSTORAGELOCATION (SessionContract s)
     (SessionCallOpts s)"

definition NativeTokenStakingManagerCaller_PCHAINBLOCKCHAINID ::
  "'w bound_contract \<Rightarrow> CallOpts \<Rightarrow> ('w, goerr + hash) prog" where
  "NativeTokenStakingManagerCaller_PCHAINBLOCKCHAINID c opts =
     call_method c opts ''P_CHAIN_BLOCKCHAIN_ID'' [] (out1 go_arr32)"

definition NativeTokenStakingManagerSession_PCHAINBLOCKCHAINID ::
  "'w session \<Rightarrow> ('w, goerr + hash) prog" where
  "NativeTokenStakingManagerSession_PCHAINBLOCKCHAINID s =
     NativeTokenStakingManagerCaller_PCHAINBLOCKCHAINID (SessionContract s) (SessionCallOpts s)"

definition NativeTokenStakingManagerCaller_VALIDATORMANAGERSTORAGELOCATION ::
  "'w bound_contract \<Rightarrow> CallOpts \<Rightarrow> ('w, goerr + hash) prog" where
  "NativeTokenStakingManagerCaller_VALIDATORMANAGERSTORAGELOCATION c opts =
     call_method c opts ''VALIDATOR_MANAGER_STORAGE_LOCATION'' [] (out1 go_arr32)"

definition NativeTokenStakingManagerSession_VALIDATORMANAGERSTORAGELOCATION ::
  "'w session \<Rightarrow> ('w, goerr + hash) prog" where
  "NativeTokenStakingManagerSession_VALIDATORMANAGERSTORAGELOCATION s =
     NativeTokenStakingManagerCaller_VALIDATORMANAGERSTORAGELOCATION (SessionContract s)
     (SessionCallOpts s)"

definition NativeTokenStakingManagerCaller_WARPMESSENGER ::
  "'w bound_contract \<Rightarrow> CallOpts \<Rightarrow> ('w, goerr + address) prog" where
  "NativeTokenStakingManagerCaller_WARPMESSENGER c opts =
     call_method c opts ''WARP_MESSENGER'' [] (out1 go_addr)"

definition NativeTokenStakingManagerSession_WARPMESSENGER ::
  "'w session \<Rightarrow> ('w, goerr + address) prog" where
  "NativeTokenStakingManagerSession_WARPMESSENGER s =
     NativeTokenStakingManagerCaller_WARPMESSENGER (SessionContract s) (SessionCallOpts s)"

definition NativeTokenStakingManagerTransactor_ChangeDelegatorRewardRecipient ::
  "'w bound_contract \<Rightarrow> TransactOpts \<Rightarrow> hash \<Rightarrow> address \<Rightarrow> ('w, goerr + hash) prog" where
  "NativeTokenStakingManagerTransactor_ChangeDelegatorRewardRecipient c opts delegationID
     rewardRecipient =
     contract_transact c opts ''changeDelegatorRewardRecipient'' [GArr32 delegationID, GAddr
        rewardRecipient]"

definition NativeTokenStakingManagerSession_ChangeDelegatorRewardRecipient ::
  "'w session \<Rightarrow> hash \<Rightarrow> address \<Rightarrow> ('w, goerr + hash) prog" where
  "NativeTokenStakingManagerSession_ChangeDelegatorRewardRecipient s delegationID
     rewardRecipient = NativeTokenStakingManagerTransactor_ChangeDelegatorRewardRecipient
     (SessionContract s) (SessionTransactOpts s) delegationID rewardRecipient"

definition NativeTokenStakingManagerTransactor_ChangeValidatorRewardRecipient ::
  "'w bound_contract \<Rightarrow> TransactOpts \<Rightarrow> hash \<Rightarrow> address \<Rightarrow> ('w, goerr + hash) prog" where
  "NativeTokenStakingManagerTransactor_ChangeValidatorRewardRecipient c opts validationID
     rewardRecipient =
     contract_transact c opts ''changeValidatorRewardRecipient'' [GArr32 validationID, GAddr
        rewardRecipient]"

definition NativeTokenStakingManagerSession_ChangeValidatorRewardRecipient ::
  "'w session \<Rightarrow> hash \<Rightarrow> address \<Rightarrow> ('w, goerr + hash) prog" where
  "NativeTokenStakingManagerSession_ChangeValidatorRewardRecipient s validationID
     rewardRecipient = NativeTokenStakingManagerTransactor_ChangeValidatorRewardRecipient
     (SessionContract s) (SessionTransactOpts s) validationID rewardRecipient"

definition NativeTokenStakingManagerTransactor_ClaimDelegationFees ::
  "'w bound_contract \<Rightarrow> TransactOpts \<Rightarrow> hash \<Rightarrow> ('w, goerr + hash) prog" where
  "NativeTokenStakingManagerTransactor_ClaimDelegationFees c opts validationID =
     contract_transact c opts ''claimDelegationFees'' [GArr32 validationID]"

definition NativeTokenStakingManagerSession_ClaimDelegationFees ::
  "'w session \<Rightarrow> hash \<Rightarrow> ('w, goerr + hash) prog" where
  "NativeTokenStakingManagerSession_ClaimDelegationFees s validationID =
     NativeTokenStakingManagerTransactor_ClaimDelegationFees (SessionContract s)
     (SessionTransactOpts s) validationID"

definition NativeTokenStakingManagerTransactor_CompleteDelegatorRegistration ::
  "'w bound_contract \<Rightarrow> TransactOpts \<Rightarrow> hash \<Rightarrow> u32 \<Rightarrow> ('w, goerr + hash) prog" where
  "NativeTokenStakingManagerTransactor_CompleteDelegatorRegistration c opts delegationID
     messageIndex =
     contract_transact c opts ''completeDelegatorRegistration'' [GArr32 delegationID, GUint 32
        (unat messageIndex)]"

definition NativeTokenStakingManagerSession_CompleteDelegatorRegistration ::
  "'w session \<Rightarrow> hash \<Rightarrow> u32 \<Rightarrow> ('w, goerr + hash) prog" where
  "NativeTokenStakingManagerSession_CompleteDelegatorRegistration s delegationID messageIndex =
     NativeTokenStakingManagerTransactor_CompleteDelegatorRegistration (SessionContract s)
     (SessionTransactOpts s) delegationID messageIndex"

definition NativeTokenStakingManagerTransactor_CompleteEndDelegation ::
  "'w bound_contract \<Rightarrow> TransactOpts \<Rightarrow> hash \<Rightarrow> u32 \<Rightarrow> ('w, goerr + hash) prog" where
  "NativeTokenStakingManagerTransactor_CompleteEndDelegation c opts delegationID messageIndex =
     contract_transact c opts ''completeEndDelegation'' [GArr32 delegationID, GUint 32 (unat
        messageIndex)]"

definition NativeTokenStakingManagerSession_CompleteEndDelegation ::
  "'w session \<Rightarrow> hash \<Rightarrow> u32 \<Rightarrow> ('w, goerr + hash) prog" where
  "NativeTokenStakingManagerSession_CompleteEndDelegation s delegationID messageIndex =
     NativeTokenStakingManagerTransactor_CompleteEndDelegation (SessionContract s)
     (SessionTransactOpts s) delegationID messageIndex"

definition NativeTokenStakingManagerTransactor_CompleteEndValidation ::
  "'w bound_contract \<Rightarrow> TransactOpts \<Rightarrow> u32 \<Rightarrow> ('w, goerr + hash) prog" where
  "NativeTokenStakingManagerTransactor_CompleteEndValidation c opts messageIndex =
     contract_transact c opts ''completeEndValidation'' [GUint 32 (unat messageIndex)]"

definition NativeTokenStakingManagerSession_CompleteEndValidation ::
  "'w session \<Rightarrow> u32 \<Rightarrow> ('w, goerr + hash) prog" where
  "NativeTokenStakingManagerSession_CompleteEndValidation s messageIndex =
     NativeTokenStakingManagerTransactor_CompleteEndValidation (SessionContract s)
     (SessionTransactOpts s) messageIndex"

definition NativeTokenStakingManagerTransactor_CompleteValidatorRegistration ::
  "'w bound_contract \<Rightarrow> TransactOpts \<Rightarrow> u32 \<Rightarrow> ('w, goerr + hash) prog" where
  "NativeTokenStakingManagerTransactor_CompleteValidatorRegistration c opts messageIndex =
     contract_transact c opts ''completeValidatorRegistration'' [GUint 32 (unat messageIndex)]"

definition NativeTokenStakingManagerSession_CompleteValidatorRegistration ::
  "'w session \<Rightarrow> u32 \<Rightarrow> ('w, goerr + hash) prog" where
  "NativeTokenStakingManagerSession_CompleteValidatorRegistration s messageIndex =
     NativeTokenStakingManagerTransactor_CompleteValidatorRegistration (SessionContract s)
     (SessionTransactOpts s) messageIndex"

definition NativeTokenStakingManagerTransactor_ForceInitializeEndDelegation ::
  "'w bound_contract \<Rightarrow> TransactOpts \<Rightarrow> hash \<Rightarrow> bool \<Rightarrow> u32 \<Rightarrow> ('w, goerr + hash) prog" where
  "NativeTokenStakingManagerTransactor_ForceInitializeEndDelegation c opts delegationID
     includeUptimeProof messageIndex =
     contract_transact c opts ''forceInitializeEndDelegation'' [GArr32 delegationID, GBool
        includeUptimeProof, GUint 32 (unat messageIndex)]"

definition NativeTokenStakingManagerSession_ForceInitializeEndDelegation ::
  "'w session \<Rightarrow> hash \<Rightarrow> bool \<Rightarrow> u32 \<Rightarrow> ('w, goerr + hash) prog" where
  "NativeTokenStakingManagerSession_ForceInitializeEndDelegation s delegationID
     includeUptimeProof messageIndex =
     NativeTokenStakingManagerTransactor_ForceInitializeEndDelegation (SessionContract s)
     (SessionTransactOpts s) delegationID includeUptimeProof messageIndex"

definition NativeTokenStakingManagerTransactor_ForceInitializeEndDelegation0 ::
  "'w bound_contract \<Rightarrow> TransactOpts \<Rightarrow> hash \<Rightarrow> bool \<Rightarrow> u32 \<Rightarrow> address \<Rightarrow> ('w, goerr + hash) prog"
     where
  "NativeTokenStakingManagerTransactor_ForceInitializeEndDelegation0 c opts delegationID
     includeUptimeProof messageIndex rewardRecipient =
     contract_transact c opts ''forceInitializeEndDelegation0'' [GArr32 delegationID, GBool
        includeUptimeProof, GUint 32 (unat messageIndex), GAddr rewardRecipient]"

definition NativeTokenStakingManagerSession_ForceInitializeEndDelegation0 ::
  "'w session \<Rightarrow> hash \<Rightarrow> bool \<Rightarrow> u32 \<Rightarrow> address \<Rightarrow> ('w, goerr + hash) prog" where
  "NativeTokenStakingManagerSession_ForceInitializeEndDelegation0 s delegationID
     includeUptimeProof messageIndex rewardRecipient =
     NativeTokenStakingManagerTransactor_ForceInitializeEndDelegation0 (SessionContract s)
     (SessionTransactOpts s) delegationID includeUptimeProof messageIndex rewardRecipient"

definition NativeTokenStakingManagerTransactor_ForceInitializeEndValidation ::
  "'w bound_contract \<Rightarrow> TransactOpts \<Rightarrow> hash \<Rightarrow> bool \<Rightarrow> u32 \<Rightarrow> ('w, goerr + hash) prog" where
  "NativeTokenStakingManagerTransactor_ForceInitializeEndValidation c opts validationID
     includeUptimeProof messageIndex =
     contract_transact c opts ''forceInitializeEndValidation'' [GArr32 validationID, GBool
        includeUptimeProof, GUint 32 (unat messageIndex)]"

definition NativeTokenStakingManagerSession_ForceInitializeEndValidation ::
  "'w session \<Rightarrow> hash \<Rightarrow> bool \<Rightarrow> u32 \<Rightarrow> ('w, goerr + hash) prog" where
  "NativeTokenStakingManagerSession_ForceInitializeEndValidation s validationID
     includeUptimeProof messageIndex =
     NativeTokenStakingManagerTransactor_ForceInitializeEndValidation (SessionContract s)
     (SessionTransactOpts s) validationID includeUptimeProof messageIndex"

definition NativeTokenStakingManagerTransactor_ForceInitializeEndValidation0 ::
  "'w bound_contract \<Rightarrow> TransactOpts \<Rightarrow> hash \<Rightarrow> bool \<Rightarrow> u32 \<Rightarrow> address \<Rightarrow> ('w, goerr + hash) prog"
     where
  "NativeTokenStakingManagerTransactor_ForceInitializeEndValidation0 c opts validationID
     includeUptimeProof messageIndex rewardRecipient =
     contract_transact c opts ''forceInitializeEndValidation0'' [GArr32 validationID, GBool
        includeUptimeProof, GUint 32 (unat messageIndex), GAddr rewardRecipient]"

definition NativeTokenStakingManagerSession_ForceInitializeEndValidation0 ::
  "'w session \<Rightarrow> hash \<Rightarrow> bool \<Rightarrow> u32 \<Rightarrow> address \<Rightarrow> ('w, goerr + hash) prog" where
  "NativeTokenStakingManagerSession_ForceInitializeEndValidation0 s validationID
     includeUptimeProof messageIndex rewardRecipient =
     NativeTokenStakingManagerTransactor_ForceInitializeEndValidation0 (SessionContract s)
     (SessionTransactOpts s) validationID includeUptimeProof messageIndex rewardRecipient"

definition NativeTokenStakingManagerCaller_GetValidator ::
  "'w bound_contract \<Rightarrow> CallOpts \<Rightarrow> hash \<Rightarrow> ('w, goerr + Validator) prog" where
  "NativeTokenStakingManagerCaller_GetValidator c opts validationID =
     call_method c opts ''getValidator'' [GArr32 validationID] (out1 Validator_of)"

definition NativeTokenStakingManagerSession_GetValidator ::
  "'w session \<Rightarrow> hash \<Rightarrow> ('w, goerr + Validator) prog" where
  "NativeTokenStakingManagerSession_GetValidator s validationID =
     NativeTokenStakingManagerCaller_GetValidator (SessionContract s) (SessionCallOpts s)
     validationID"

definition NativeTokenStakingManagerTransactor_Initialize ::
  "'w bound_contract \<Rightarrow> TransactOpts \<Rightarrow> PoSValidatorManagerSettings \<Rightarrow> ('w, goerr + hash) prog"
     where
  "NativeTokenStakingManagerTransactor_Initialize c opts settings =
     contract_transact c opts ''initialize'' [PoSValidatorManagerSettings_val settings]"

definition NativeTokenStakingManagerSession_Initialize ::
  "'w session \<Rightarrow> PoSValidatorManagerSettings \<Rightarrow> ('w, goerr + hash) prog" where
  "NativeTokenStakingManagerSession_Initialize s settings =
     NativeTokenStakingManagerTransactor_Initialize (SessionContract s) (SessionTransactOpts s)
     settings"

definition NativeTokenStakingManagerTransactor_InitializeDelegatorRegistration ::
  "'w bound_contract \<Rightarrow> TransactOpts \<Rightarrow> hash \<Rightarrow> ('w, goerr + hash) prog" where
  "NativeTokenStakingManagerTransactor_InitializeDelegatorRegistration c opts validationID =
     contract_transact c opts ''initializeDelegatorRegistration'' [GArr32 validationID]"

definition NativeTokenStakingManagerSession_InitializeDelegatorRegistration ::
  "'w session \<Rightarrow> hash \<Rightarrow> ('w, goerr + hash) prog" where
  "NativeTokenStakingManagerSession_InitializeDelegatorRegistration s validationID =
     NativeTokenStakingManagerTransactor_InitializeDelegatorRegistration (SessionContract s)
     (SessionTransactOpts s) validationID"

definition NativeTokenStakingManagerTransactor_InitializeEndDelegation ::
  "'w bound_contract \<Rightarrow> TransactOpts \<Rightarrow> hash \<Rightarrow> bool \<Rightarrow> u32 \<Rightarrow> ('w, goerr + hash) prog" where
  "NativeTokenStakingManagerTransactor_InitializeEndDelegation c opts delegationID
     includeUptimeProof messageIndex =
     contract_transact c opts ''initializeEndDelegation'' [GArr32 delegationID, GBool
        includeUptimeProof, GUint 32 (unat messageIndex)]"

definition NativeTokenStakingManagerSession_InitializeEndDelegation ::
  "'w session \<Rightarrow> hash \<Rightarrow> bool \<Rightarrow> u32 \<Rightarrow> ('w, goerr + hash) prog" where
  "NativeTokenStakingManagerSession_InitializeEndDelegation s delegationID includeUptimeProof
     messageIndex = NativeTokenStakingManagerTransactor_InitializeEndDelegation (SessionContract
     s) (SessionTransactOpts s) delegationID includeUptimeProof messageIndex"

definition NativeTokenStakingManagerTransactor_InitializeEndDelegation0 ::
  "'w bound_contract \<Rightarrow> TransactOpts \<Rightarrow> hash \<Rightarrow> bool \<Rightarrow> u32 \<Rightarrow> address \<Rightarrow> ('w, goerr + hash) prog"
     where
  "NativeTokenStakingManagerTransactor_InitializeEndDelegation0 c opts delegationID
     includeUptimeProof messageIndex rewardRecipient =
     contract_transact c opts ''initializeEndDelegation0'' [GArr32 delegationID, GBool
        includeUptimeProof, GUint 32 (unat messageIndex), GAddr rewardRecipient]"

definition NativeTokenStakingManagerSession_InitializeEndDelegation0 ::
  "'w session \<Rightarrow> hash \<Rightarrow> bool \<Rightarrow> u32 \<Rightarrow> address \<Rightarrow> ('w, goerr + hash) prog" where
  "NativeTokenStakingManagerSession_InitializeEndDelegation0 s delegationID includeUptimeProof
     messageIndex rewardRecipient = NativeTokenStakingManagerTransactor_InitializeEndDelegation0
     (SessionContract s) (SessionTransactOpts s) delegationID includeUptimeProof messageIndex
     rewardRecipient"

definition NativeTokenStakingManagerTransactor_InitializeEndValidation ::
  "'w bound_contract \<Rightarrow> TransactOpts \<Rightarrow> hash \<Rightarrow> bool \<Rightarrow> u32 \<Rightarrow> address \<Rightarrow> ('w, goerr + hash) prog"
     where
  "NativeTokenStakingManagerTransactor_InitializeEndValidation c opts validationID
     includeUptimeProof messageIndex rewardRecipient =
     contract_transact c opts ''initializeEndValidation'' [GArr32 validationID, GBool
        includeUptimeProof, GUint 32 (unat messageIndex), GAddr rewardRecipient]"

definition NativeTokenStakingManagerSession_InitializeEndValidation ::
  "'w session \<Rightarrow> hash \<Rightarrow> bool \<Rightarrow> u32 \<Rightarrow> address \<Rightarrow> ('w, goerr + hash) prog" where
  "NativeTokenStakingManagerSession_InitializeEndValidation s validationID includeUptimeProof
     messageIndex rewardRecipient = NativeTokenStakingManagerTransactor_InitializeEndValidation
     (SessionContract s) (SessionTransactOpts s) validationID includeUptimeProof messageIndex
     rewardRecipient"

definition NativeTokenStakingManagerTransactor_InitializeEndValidation0 ::
  "'w bound_contract \<Rightarrow> TransactOpts \<Rightarrow> hash \<Rightarrow> bool \<Rightarrow> u32 \<Rightarrow> ('w, goerr + hash) prog" where
  "NativeTokenStakingManagerTransactor_InitializeEndValidation0 c opts validationID
     includeUptimeProof messageIndex =
     contract_transact c opts ''initializeEndValidation0'' [GArr32 validationID, GBool
        includeUptimeProof, GUint 32 (unat messageIndex)]"

definition NativeTokenStakingManagerSession_InitializeEndValidation0 ::
  "'w session \<Rightarrow> hash \<Rightarrow> bool \<Rightarrow> u32 \<Rightarrow> ('w, goerr + hash) prog" where
  "NativeTokenStakingManagerSession_InitializeEndValidation0 s validationID includeUptimeProof
     messageIndex = NativeTokenStakingManagerTransactor_InitializeEndValidation0
     (SessionContract s) (SessionTransactOpts s) validationID includeUptimeProof messageIndex"

definition NativeTokenStakingManagerTransactor_InitializeValidatorRegistration ::
  "'w bound_contract \<Rightarrow> TransactOpts \<Rightarrow> ValidatorRegistrationInput \<Rightarrow> u16 \<Rightarrow> u64 \<Rightarrow> ('w, goerr +
     hash) prog" where
  "NativeTokenStakingManagerTransactor_InitializeValidatorRegistration c opts registrationInput
     delegationFeeBips minStakeDuration =
     contract_transact c opts ''initializeValidatorRegistration''
        [ValidatorRegistrationInput_val registrationInput, GUint 16 (unat delegationFeeBips),
        GUint 64 (unat minStakeDuration)]"

definition NativeTokenStakingManagerSession_InitializeValidatorRegistration ::
  "'w session \<Rightarrow> ValidatorRegistrationInput \<Rightarrow> u16 \<Rightarrow> u64 \<Rightarrow> ('w, goerr + hash) prog" where
  "NativeTokenStakingManagerSession_InitializeValidatorRegistration s registrationInput
     delegationFeeBips minStakeDuration =
     NativeTokenStakingManagerTransactor_InitializeValidatorRegistration (SessionContract s)
     (SessionTransactOpts s) registrationInput delegationFeeBips minStakeDuration"

definition NativeTokenStakingManagerTransactor_InitializeValidatorSet ::
  "'w bound_contract \<Rightarrow> TransactOpts \<Rightarrow> ConversionData \<Rightarrow> u32 \<Rightarrow> ('w, goerr + hash) prog" where
  "NativeTokenStakingManagerTransactor_InitializeValidatorSet c opts conversionData messageIndex
     =
     contract_transact c opts ''initializeValidatorSet'' [ConversionData_val conversionData,
        GUint 32 (unat messageIndex)]"

definition NativeTokenStakingManagerSession_InitializeValidatorSet ::
  "'w session \<Rightarrow> ConversionData \<Rightarrow> u32 \<Rightarrow> ('w, goerr + hash) prog" where
  "NativeTokenStakingManagerSession_InitializeValidatorSet s conversionData messageIndex =
     NativeTokenStakingManagerTransactor_InitializeValidatorSet (SessionContract s)
     (SessionTransactOpts s) conversionData messageIndex"

definition NativeTokenStakingManagerCaller_RegisteredValidators ::
  "'w bound_contract \<Rightarrow> CallOpts \<Rightarrow> bytes \<Rightarrow> ('w, goerr + hash) prog" where
  "NativeTokenStakingManagerCaller_RegisteredValidators c opts nodeID =
     call_method c opts ''registeredValidators'' [GBytes nodeID] (out1 go_arr32)"

definition NativeTokenStakingManagerSession_RegisteredValidators ::
  "'w session \<Rightarrow> bytes \<Rightarrow> ('w, goerr + hash) prog" where
  "NativeTokenStakingManagerSession_RegisteredValidators s nodeID =
     NativeTokenStakingManagerCaller_RegisteredValidators (SessionContract s) (SessionCallOpts
     s) nodeID"

definition NativeTokenStakingManagerTransactor_ResendEndValidatorMessage ::
  "'w bound_contract \<Rightarrow> TransactOpts \<Rightarrow> hash \<Rightarrow> ('w, goerr + hash) prog" where
  "NativeTokenStakingManagerTransactor_ResendEndValidatorMessage c opts validationID =
     contract_transact c opts ''resendEndValidatorMessage'' [GArr32 validationID]"

definition NativeTokenStakingManagerSession_ResendEndValidatorMessage ::
  "'w session \<Rightarrow> hash \<Rightarrow> ('w, goerr + hash) prog" where
  "NativeTokenStakingManagerSession_ResendEndValidatorMessage s validationID =
     NativeTokenStakingManagerTransactor_ResendEndValidatorMessage (SessionContract s)
     (SessionTransactOpts s) validationID"

definition NativeTokenStakingManagerTransactor_ResendRegisterValidatorMessage ::
  "'w bound_contract \<Rightarrow> TransactOpts \<Rightarrow> hash \<Rightarrow> ('w, goerr + hash) prog" where
  "NativeTokenStakingManagerTransactor_ResendRegisterValidatorMessage c opts validationID =
     contract_transact c opts ''resendRegisterValidatorMessage'' [GArr32 validationID]"

definition NativeTokenStakingManagerSession_ResendRegisterValidatorMessage ::
  "'w session \<Rightarrow> hash \<Rightarrow> ('w, goerr + hash) prog" where
  "NativeTokenStakingManagerSession_ResendRegisterValidatorMessage s validationID =
     NativeTokenStakingManagerTransactor_ResendRegisterValidatorMessage (SessionContract s)
     (SessionTransactOpts s) validationID"

definition NativeTokenStakingManagerTransactor_ResendUpdateDelegation ::
  "'w bound_contract \<Rightarrow> TransactOpts \<Rightarrow> hash \<Rightarrow> ('w, goerr + hash) prog" where
  "NativeTokenStakingManagerTransactor_ResendUpdateDelegation c opts delegationID =
     contract_transact c opts ''resendUpdateDelegation'' [GArr32 delegationID]"

definition NativeTokenStakingManagerSession_ResendUpdateDelegation ::
  "'w session \<Rightarrow> hash \<Rightarrow> ('w, goerr + hash) prog" where
  "NativeTokenStakingManagerSession_ResendUpdateDelegation s delegationID =
     NativeTokenStakingManagerTransactor_ResendUpdateDelegation (SessionContract s)
     (SessionTransactOpts s) delegationID"

definition NativeTokenStakingManagerTransactor_SubmitUptimeProof ::
  "'w bound_contract \<Rightarrow> TransactOpts \<Rightarrow> hash \<Rightarrow> u32 \<Rightarrow> ('w, goerr + hash) prog" where
  "NativeTokenStakingManagerTransactor_SubmitUptimeProof c opts validationID messageIndex =
     contract_transact c opts ''submitUptimeProof'' [GArr32 validationID, GUint 32 (unat
        messageIndex)]"

definition NativeTokenStakingManagerSession_SubmitUptimeProof ::
  "'w session \<Rightarrow> hash \<Rightarrow> u32 \<Rightarrow> ('w, goerr + hash) prog" where
  "NativeTokenStakingManagerSession_SubmitUptimeProof s validationID messageIndex =
     NativeTokenStakingManagerTransactor_SubmitUptimeProof (SessionContract s)
     (SessionTransactOpts s) validationID messageIndex"

definition NativeTokenStakingManagerCaller_ValueToWeight ::
  "'w bound_contract \<Rightarrow> CallOpts \<Rightarrow> int \<Rightarrow> ('w, goerr + u64) prog" where
  "NativeTokenStakingManagerCaller_ValueToWeight c opts amount_value =
     call_method c opts ''valueToWeight'' [GBig amount_value] (out1 (go_word 64))"

definition NativeTokenStakingManagerSession_ValueToWeight ::
  "'w session \<Rightarrow> int \<Rightarrow> ('w, goerr + u64) prog" where
  "NativeTokenStakingManagerSession_ValueToWeight s amount_value =
     NativeTokenStakingManagerCaller_ValueToWeight (SessionContract s) (SessionCallOpts s)
     amount_value"

definition NativeTokenStakingManagerCaller_WeightToValue ::
  "'w bound_contract \<Rightarrow> CallOpts \<Rightarrow> u64 \<Rightarrow> ('w, goerr + int) prog" where
  "NativeTokenStakingManagerCaller_WeightToValue c opts weight =
     call_method c opts ''weightToValue'' [GUint 64 (unat weight)] (out1 go_big)"

definition NativeTokenStakingManagerSession_WeightToValue ::
  "'w session \<Rightarrow> u64 \<Rightarrow> ('w, goerr + int) prog" where
  "NativeTokenStakingManagerSession_WeightToValue s weight =
     NativeTokenStakingManagerCaller_WeightToValue (SessionContract s) (SessionCallOpts s)
     weight"

section \<open>Events\<close>

definition NativeTokenStakingManagerDelegationEnded :: event_fields where
  "NativeTokenStakingManagerDelegationEnded = [(''DelegationID'', GArr32 0), (''ValidationID'',
     GArr32 0), (''Rewards'', GNil), (''Fees'', GNil), (''Raw'', zero_Log)]"

definition NativeTokenStakingManagerDelegationEndedIterator_Next ::
  "'w bound_contract \<Rightarrow> bool \<Rightarrow> iterator \<Rightarrow> (bool \<times> iterator) option" where
  "NativeTokenStakingManagerDelegationEndedIterator_Next c pick it = iterator_Next (parse_log c
     ''DelegationEnded'' NativeTokenStakingManagerDelegationEnded)
     NativeTokenStakingManagerDelegationEnded pick it"

definition NativeTokenStakingManagerDelegationEndedIterator_Error :: "iterator \<Rightarrow> goerr option"
   where
  "NativeTokenStakingManagerDelegationEndedIterator_Error it = iterator_Error it"

definition NativeTokenStakingManagerDelegationEndedIterator_Close :: "iterator \<Rightarrow> goerr option \<times>
   iterator" where
  "NativeTokenStakingManagerDelegationEndedIterator_Close it = iterator_Close it"

definition NativeTokenStakingManagerFilterer_FilterDelegationEnded ::
  "'w bound_contract \<Rightarrow> FilterOpts \<Rightarrow> hash list \<Rightarrow> hash list \<Rightarrow> ('w, goerr + iterator) prog" where
  "NativeTokenStakingManagerFilterer_FilterDelegationEnded c opts delegationID validationID =
     filter_events c opts ''DelegationEnded'' [map GArr32 delegationID, map GArr32
        validationID]"

definition NativeTokenStakingManagerFilterer_WatchDelegationEnded ::
  "'w bound_contract \<Rightarrow> hash list \<Rightarrow> hash list \<Rightarrow> ('w, goerr + (evm_log \<Rightarrow> goerr + event_fields))
     prog" where
  "NativeTokenStakingManagerFilterer_WatchDelegationEnded c delegationID validationID =
     watch_events c ''DelegationEnded'' NativeTokenStakingManagerDelegationEnded [map GArr32
        delegationID, map GArr32 validationID]"

definition NativeTokenStakingManagerFilterer_ParseDelegationEnded ::
  "'w bound_contract \<Rightarrow> evm_log \<Rightarrow> goerr + event_fields" where
  "NativeTokenStakingManagerFilterer_ParseDelegationEnded c = parse_log c ''DelegationEnded''
     NativeTokenStakingManagerDelegationEnded"

definition NativeTokenStakingManagerDelegatorAdded :: event_fields where
  "NativeTokenStakingManagerDelegatorAdded = [(''DelegationID'', GArr32 0), (''ValidationID'',
     GArr32 0), (''DelegatorAddress'', GAddr 0), (''Nonce'', GUint 64 0), (''ValidatorWeight'',
     GUint 64 0), (''DelegatorWeight'', GUint 64 0), (''SetWeightMessageID'', GArr32 0),
     (''Raw'', zero_Log)]"

definition NativeTokenStakingManagerDelegatorAddedIterator_Next ::
  "'w bound_contract \<Rightarrow> bool \<Rightarrow> iterator \<Rightarrow> (bool \<times> iterator) option" where
  "NativeTokenStakingManagerDelegatorAddedIterator_Next c pick it = iterator_Next (parse_log c
     ''DelegatorAdded'' NativeTokenStakingManagerDelegatorAdded)
     NativeTokenStakingManagerDelegatorAdded pick it"

definition NativeTokenStakingManagerDelegatorAddedIterator_Error :: "iterator \<Rightarrow> goerr option"
   where
  "NativeTokenStakingManagerDelegatorAddedIterator_Error it = iterator_Error it"

definition NativeTokenStakingManagerDelegatorAddedIterator_Close :: "iterator \<Rightarrow> goerr option \<times>
   iterator" where
  "NativeTokenStakingManagerDelegatorAddedIterator_Close it = iterator_Close it"

definition NativeTokenStakingManagerFilterer_FilterDelegatorAdded ::
  "'w bound_contract \<Rightarrow> FilterOpts \<Rightarrow> hash list \<Rightarrow> hash list \<Rightarrow> address list \<Rightarrow> ('w, goerr +
     iterator) prog" where
  "NativeTokenStakingManagerFilterer_FilterDelegatorAdded c opts delegationID validationID
     delegatorAddress =
     filter_events c opts ''DelegatorAdded'' [map GArr32 delegationID, map GArr32 validationID,
        map GAddr delegatorAddress]"

definition NativeTokenStakingManagerFilterer_WatchDelegatorAdded ::
  "'w bound_contract \<Rightarrow> hash list \<Rightarrow> hash list \<Rightarrow> address list \<Rightarrow> ('w, goerr + (evm_log \<Rightarrow> goerr +
     event_fields)) prog" where
  "NativeTokenStakingManagerFilterer_WatchDelegatorAdded c delegationID validationID
     delegatorAddress =
     watch_events c ''DelegatorAdded'' NativeTokenStakingManagerDelegatorAdded [map GArr32
        delegationID, map GArr32 validationID, map GAddr delegatorAddress]"

definition NativeTokenStakingManagerFilterer_ParseDelegatorAdded ::
  "'w bound_contract \<Rightarrow> evm_log \<Rightarrow> goerr + event_fields" where
  "NativeTokenStakingManagerFilterer_ParseDelegatorAdded c = parse_log c ''DelegatorAdded''
     NativeTokenStakingManagerDelegatorAdded"

definition NativeTokenStakingManagerDelegatorRegistered :: event_fields where
  "NativeTokenStakingManagerDelegatorRegistered = [(''DelegationID'', GArr32 0),
     (''ValidationID'', GArr32 0), (''StartTime'', GNil), (''Raw'', zero_Log)]"

definition NativeTokenStakingManagerDelegatorRegisteredIterator_Next ::
  "'w bound_contract \<Rightarrow> bool \<Rightarrow> iterator \<Rightarrow> (bool \<times> iterator) option" where
  "NativeTokenStakingManagerDelegatorRegisteredIterator_Next c pick it = iterator_Next
     (parse_log c ''DelegatorRegistered'' NativeTokenStakingManagerDelegatorRegistered)
     NativeTokenStakingManagerDelegatorRegistered pick it"

definition NativeTokenStakingManagerDelegatorRegisteredIterator_Error :: "iterator \<Rightarrow> goerr
   option" where
  "NativeTokenStakingManagerDelegatorRegisteredIterator_Error it = iterator_Error it"

definition NativeTokenStakingManagerDelegatorRegisteredIterator_Close :: "iterator \<Rightarrow> goerr
   option \<times> iterator" where
  "NativeTokenStakingManagerDelegatorRegisteredIterator_Close it = iterator_Close it"

definition NativeTokenStakingManagerFilterer_FilterDelegatorRegistered ::
  "'w bound_contract \<Rightarrow> FilterOpts \<Rightarrow> hash list \<Rightarrow> hash list \<Rightarrow> ('w, goerr + iterator) prog" where
  "NativeTokenStakingManagerFilterer_FilterDelegatorRegistered c opts delegationID validationID
     =
     filter_events c opts ''DelegatorRegistered'' [map GArr32 delegationID, map GArr32
        validationID]"

definition NativeTokenStakingManagerFilterer_WatchDelegatorRegistered ::
  "'w bound_contract \<Rightarrow> hash list \<Rightarrow> hash list \<Rightarrow> ('w, goerr + (evm_log \<Rightarrow> goerr + event_fields))
     prog" where
  "NativeTokenStakingManagerFilterer_WatchDelegatorRegistered c delegationID validationID =
     watch_events c ''DelegatorRegistered'' NativeTokenStakingManagerDelegatorRegistered [map
        GArr32 delegationID, map GArr32 validationID]"

definition NativeTokenStakingManagerFilterer_ParseDelegatorRegistered ::
  "'w bound_contract \<Rightarrow> evm_log \<Rightarrow> goerr + event_fields" where
  "NativeTokenStakingManagerFilterer_ParseDelegatorRegistered c = parse_log c
     ''DelegatorRegistered'' NativeTokenStakingManagerDelegatorRegistered"

definition NativeTokenStakingManagerDelegatorRemovalInitialized :: event_fields where
  "NativeTokenStakingManagerDelegatorRemovalInitialized = [(''DelegationID'', GArr32 0),
     (''ValidationID'', GArr32 0), (''Raw'', zero_Log)]"

definition NativeTokenStakingManagerDelegatorRemovalInitializedIterator_Next ::
  "'w bound_contract \<Rightarrow> bool \<Rightarrow> iterator \<Rightarrow> (bool \<times> iterator) option" where
  "NativeTokenStakingManagerDelegatorRemovalInitializedIterator_Next c pick it = iterator_Next
     (parse_log c ''DelegatorRemovalInitialized''
     NativeTokenStakingManagerDelegatorRemovalInitialized)
     NativeTokenStakingManagerDelegatorRemovalInitialized pick it"

definition NativeTokenStakingManagerDelegatorRemovalInitializedIterator_Error :: "iterator \<Rightarrow>
   goerr option" where
  "NativeTokenStakingManagerDelegatorRemovalInitializedIterator_Error it = iterator_Error it"

definition NativeTokenStakingManagerDelegatorRemovalInitializedIterator_Close :: "iterator \<Rightarrow>
   goerr option \<times> iterator" where
  "NativeTokenStakingManagerDelegatorRemovalInitializedIterator_Close it = iterator_Close it"

definition NativeTokenStakingManagerFilterer_FilterDelegatorRemovalInitialized ::
  "'w bound_contract \<Rightarrow> FilterOpts \<Rightarrow> hash list \<Rightarrow> hash list \<Rightarrow> ('w, goerr + iterator) prog" where
  "NativeTokenStakingManagerFilterer_FilterDelegatorRemovalInitialized c opts delegationID
     validationID =
     filter_events c opts ''DelegatorRemovalInitialized'' [map GArr32 delegationID, map GArr32
        validationID]"

definition NativeTokenStakingManagerFilterer_WatchDelegatorRemovalInitialized ::
  "'w bound_contract \<Rightarrow> hash list \<Rightarrow> hash list \<Rightarrow> ('w, goerr + (evm_log \<Rightarrow> goerr + event_fields))
     prog" where
  "NativeTokenStakingManagerFilterer_WatchDelegatorRemovalInitialized c delegationID
     validationID =
     watch_events c ''DelegatorRemovalInitialized''
        NativeTokenStakingManagerDelegatorRemovalInitialized [map GArr32 delegationID, map
        GArr32 validationID]"

definition NativeTokenStakingManagerFilterer_ParseDelegatorRemovalInitialized ::
  "'w bound_contract \<Rightarrow> evm_log \<Rightarrow> goerr + event_fields" where
  "NativeTokenStakingManagerFilterer_ParseDelegatorRemovalInitialized c = parse_log c
     ''DelegatorRemovalInitialized'' NativeTokenStakingManagerDelegatorRemovalInitialized"

definition NativeTokenStakingManagerInitialValidatorCreated :: event_fields where
  "NativeTokenStakingManagerInitialValidatorCreated = [(''ValidationID'', GArr32 0),
     (''Weight'', GUint 64 0), (''NodeID'', GNil), (''Raw'', zero_Log)]"

definition NativeTokenStakingManagerInitialValidatorCreatedIterator_Next ::
  "'w bound_contract \<Rightarrow> bool \<Rightarrow> iterator \<Rightarrow> (bool \<times> iterator) option" where
  "NativeTokenStakingManagerInitialValidatorCreatedIterator_Next c pick it = iterator_Next
     (parse_log c ''InitialValidatorCreated'' NativeTokenStakingManagerInitialValidatorCreated)
     NativeTokenStakingManagerInitialValidatorCreated pick it"

definition NativeTokenStakingManagerInitialValidatorCreatedIterator_Error :: "iterator \<Rightarrow> goerr
   option" where
  "NativeTokenStakingManagerInitialValidatorCreatedIterator_Error it = iterator_Error it"

definition NativeTokenStakingManagerInitialValidatorCreatedIterator_Close :: "iterator \<Rightarrow> goerr
   option \<times> iterator" where
  "NativeTokenStakingManagerInitialValidatorCreatedIterator_Close it = iterator_Close it"

definition NativeTokenStakingManagerFilterer_FilterInitialValidatorCreated ::
  "'w bound_contract \<Rightarrow> FilterOpts \<Rightarrow> hash list \<Rightarrow> ('w, goerr + iterator) prog" where
  "NativeTokenStakingManagerFilterer_FilterInitialValidatorCreated c opts validationID =
     filter_events c opts ''InitialValidatorCreated'' [map GArr32 validationID]"

definition NativeTokenStakingManagerFilterer_WatchInitialValidatorCreated ::
  "'w bound_contract \<Rightarrow> hash list \<Rightarrow> ('w, goerr + (evm_log \<Rightarrow> goerr + event_fields)) prog" where
  "NativeTokenStakingManagerFilterer_WatchInitialValidatorCreated c validationID =
     watch_events c ''InitialValidatorCreated'' NativeTokenStakingManagerInitialValidatorCreated
        [map GArr32 validationID]"

definition NativeTokenStakingManagerFilterer_ParseInitialValidatorCreated ::
  "'w bound_contract \<Rightarrow> evm_log \<Rightarrow> goerr + event_fields" where
  "NativeTokenStakingManagerFilterer_ParseInitialValidatorCreated c = parse_log c
     ''InitialValidatorCreated'' NativeTokenStakingManagerInitialValidatorCreated"

definition NativeTokenStakingManagerInitialized :: event_fields where
  "NativeTokenStakingManagerInitialized = [(''Version'', GUint 64 0), (''Raw'', zero_Log)]"

definition NativeTokenStakingManagerInitializedIterator_Next ::
  "'w bound_contract \<Rightarrow> bool \<Rightarrow> iterator \<Rightarrow> (bool \<times> iterator) option" where
  "NativeTokenStakingManagerInitializedIterator_Next c pick it = iterator_Next (parse_log c
     ''Initialized'' NativeTokenStakingManagerInitialized) NativeTokenStakingManagerInitialized
     pick it"

definition NativeTokenStakingManagerInitializedIterator_Error :: "iterator \<Rightarrow> goerr option" where
  "NativeTokenStakingManagerInitializedIterator_Error it = iterator_Error it"

definition NativeTokenStakingManagerInitializedIterator_Close :: "iterator \<Rightarrow> goerr option \<times>
   iterator" where
  "NativeTokenStakingManagerInitializedIterator_Close it = iterator_Close it"

definition NativeTokenStakingManagerFilterer_FilterInitialized ::
  "'w bound_contract \<Rightarrow> FilterOpts \<Rightarrow> ('w, goerr + iterator) prog" where
  "NativeTokenStakingManagerFilterer_FilterInitialized c opts =
     filter_events c opts ''Initialized'' []"

definition NativeTokenStakingManagerFilterer_WatchInitialized ::
  "'w bound_contract \<Rightarrow> ('w, goerr + (evm_log \<Rightarrow> goerr + event_fields)) prog" where
  "NativeTokenStakingManagerFilterer_WatchInitialized c =
     watch_events c ''Initialized'' NativeTokenStakingManagerInitialized []"

definition NativeTokenStakingManagerFilterer_ParseInitialized ::
  "'w bound_contract \<Rightarrow> evm_log \<Rightarrow> goerr + event_fields" where
  "NativeTokenStakingManagerFilterer_ParseInitialized c = parse_log c ''Initialized''
     NativeTokenStakingManagerInitialized"

definition NativeTokenStakingManagerUptimeUpdated :: event_fields where
  "NativeTokenStakingManagerUptimeUpdated = [(''ValidationID'', GArr32 0), (''Uptime'', GUint 64
     0), (''Raw'', zero_Log)]"

definition NativeTokenStakingManagerUptimeUpdatedIterator_Next ::
  "'w bound_contract \<Rightarrow> bool \<Rightarrow> iterator \<Rightarrow> (bool \<times> iterator) option" where
  "NativeTokenStakingManagerUptimeUpdatedIterator_Next c pick it = iterator_Next (parse_log c
     ''UptimeUpdated'' NativeTokenStakingManagerUptimeUpdated)
     NativeTokenStakingManagerUptimeUpdated pick it"

definition NativeTokenStakingManagerUptimeUpdatedIterator_Error :: "iterator \<Rightarrow> goerr option"
   where
  "NativeTokenStakingManagerUptimeUpdatedIterator_Error it = iterator_Error it"

definition NativeTokenStakingManagerUptimeUpdatedIterator_Close :: "iterator \<Rightarrow> goerr option \<times>
   iterator" where
  "NativeTokenStakingManagerUptimeUpdatedIterator_Close it = iterator_Close it"

definition NativeTokenStakingManagerFilterer_FilterUptimeUpdated ::
  "'w bound_contract \<Rightarrow> FilterOpts \<Rightarrow> hash list \<Rightarrow> ('w, goerr + iterator) prog" where
  "NativeTokenStakingManagerFilterer_FilterUptimeUpdated c opts validationID =
     filter_events c opts ''UptimeUpdated'' [map GArr32 validationID]"

definition NativeTokenStakingManagerFilterer_WatchUptimeUpdated ::
  "'w bound_contract \<Rightarrow> hash list \<Rightarrow> ('w, goerr + (evm_log \<Rightarrow> goerr + event_fields)) prog" where
  "NativeTokenStakingManagerFilterer_WatchUptimeUpdated c validationID =
     watch_events c ''UptimeUpdated'' NativeTokenStakingManagerUptimeUpdated [map GArr32
        validationID]"

definition NativeTokenStakingManagerFilterer_ParseUptimeUpdated ::
  "'w bound_contract \<Rightarrow> evm_log \<Rightarrow> goerr + event_fields" where
  "NativeTokenStakingManagerFilterer_ParseUptimeUpdated c = parse_log c ''UptimeUpdated''
     NativeTokenStakingManagerUptimeUpdated"

definition NativeTokenStakingManagerValidationPeriodCreated :: event_fields where
  "NativeTokenStakingManagerValidationPeriodCreated = [(''ValidationID'', GArr32 0),
     (''RegisterValidationMessageID'', GArr32 0), (''Weight'', GUint 64 0), (''NodeID'', GNil),
     (''RegistrationExpiry'', GUint 64 0), (''Raw'', zero_Log)]"

definition NativeTokenStakingManagerValidationPeriodCreatedIterator_Next ::
  "'w bound_contract \<Rightarrow> bool \<Rightarrow> iterator \<Rightarrow> (bool \<times> iterator) option" where
  "NativeTokenStakingManagerValidationPeriodCreatedIterator_Next c pick it = iterator_Next
     (parse_log c ''ValidationPeriodCreated'' NativeTokenStakingManagerValidationPeriodCreated)
     NativeTokenStakingManagerValidationPeriodCreated pick it"

definition NativeTokenStakingManagerValidationPeriodCreatedIterator_Error :: "iterator \<Rightarrow> goerr
   option" where
  "NativeTokenStakingManagerValidationPeriodCreatedIterator_Error it = iterator_Error it"

definition NativeTokenStakingManagerValidationPeriodCreatedIterator_Close :: "iterator \<Rightarrow> goerr
   option \<times> iterator" where
  "NativeTokenStakingManagerValidationPeriodCreatedIterator_Close it = iterator_Close it"

definition NativeTokenStakingManagerFilterer_FilterValidationPeriodCreated ::
  "'w bound_contract \<Rightarrow> FilterOpts \<Rightarrow> hash list \<Rightarrow> hash list \<Rightarrow> ('w, goerr + iterator) prog" where
  "NativeTokenStakingManagerFilterer_FilterValidationPeriodCreated c opts validationID
     registerValidationMessageID =
     filter_events c opts ''ValidationPeriodCreated'' [map GArr32 validationID, map GArr32
        registerValidationMessageID]"

definition NativeTokenStakingManagerFilterer_WatchValidationPeriodCreated ::
  "'w bound_contract \<Rightarrow> hash list \<Rightarrow> hash list \<Rightarrow> ('w, goerr + (evm_log \<Rightarrow> goerr + event_fields))
     prog" where
  "NativeTokenStakingManagerFilterer_WatchValidationPeriodCreated c validationID
     registerValidationMessageID =
     watch_events c ''ValidationPeriodCreated'' NativeTokenStakingManagerValidationPeriodCreated
        [map GArr32 validationID, map GArr32 registerValidationMessageID]"

definition NativeTokenStakingManagerFilterer_ParseValidationPeriodCreated ::
  "'w bound_contract \<Rightarrow> evm_log \<Rightarrow> goerr + event_fields" where
  "NativeTokenStakingManagerFilterer_ParseValidationPeriodCreated c = parse_log c
     ''ValidationPeriodCreated'' NativeTokenStakingManagerValidationPeriodCreated"

definition NativeTokenStakingManagerValidationPeriodEnded :: event_fields where
  "NativeTokenStakingManagerValidationPeriodEnded = [(''ValidationID'', GArr32 0), (''Status'',
     GUint 8 0), (''Raw'', zero_Log)]"

definition NativeTokenStakingManagerValidationPeriodEndedIterator_Next ::
  "'w bound_contract \<Rightarrow> bool \<Rightarrow> iterator \<Rightarrow> (bool \<times> iterator) option" where
  "NativeTokenStakingManagerValidationPeriodEndedIterator_Next c pick it = iterator_Next
     (parse_log c ''ValidationPeriodEnded'' NativeTokenStakingManagerValidationPeriodEnded)
     NativeTokenStakingManagerValidationPeriodEnded pick it"

definition NativeTokenStakingManagerValidationPeriodEndedIterator_Error :: "iterator \<Rightarrow> goerr
   option" where
  "NativeTokenStakingManagerValidationPeriodEndedIterator_Error it = iterator_Error it"

definition NativeTokenStakingManagerValidationPeriodEndedIterator_Close :: "iterator \<Rightarrow> goerr
   option \<times> iterator" where
  "NativeTokenStakingManagerValidationPeriodEndedIterator_Close it = iterator_Close it"

definition NativeTokenStakingManagerFilterer_FilterValidationPeriodEnded ::
  "'w bound_contract \<Rightarrow> FilterOpts \<Rightarrow> hash list \<Rightarrow> u8 list \<Rightarrow> ('w, goerr + iterator) prog" where
  "NativeTokenStakingManagerFilterer_FilterValidationPeriodEnded c opts validationID status =
     filter_events c opts ''ValidationPeriodEnded'' [map GArr32 validationID, map (\<lambda>x. GUint 8
        (unat x)) status]"

definition NativeTokenStakingManagerFilterer_WatchValidationPeriodEnded ::
  "'w bound_contract \<Rightarrow> hash list \<Rightarrow> u8 list \<Rightarrow> ('w, goerr + (evm_log \<Rightarrow> goerr + event_fields))
     prog" where
  "NativeTokenStakingManagerFilterer_WatchValidationPeriodEnded c validationID status =
     watch_events c ''ValidationPeriodEnded'' NativeTokenStakingManagerValidationPeriodEnded
        [map GArr32 validationID, map (\<lambda>x. GUint 8 (unat x)) status]"

definition NativeTokenStakingManagerFilterer_ParseValidationPeriodEnded ::
  "'w bound_contract \<Rightarrow> evm_log \<Rightarrow> goerr + event_fields" where
  "NativeTokenStakingManagerFilterer_ParseValidationPeriodEnded c = parse_log c
     ''ValidationPeriodEnded'' NativeTokenStakingManagerValidationPeriodEnded"

definition NativeTokenStakingManagerValidationPeriodRegistered :: event_fields where
  "NativeTokenStakingManagerValidationPeriodRegistered = [(''ValidationID'', GArr32 0),
     (''Weight'', GUint 64 0), (''Timestamp'', GNil), (''Raw'', zero_Log)]"

definition NativeTokenStakingManagerValidationPeriodRegisteredIterator_Next ::
  "'w bound_contract \<Rightarrow> bool \<Rightarrow> iterator \<Rightarrow> (bool \<times> iterator) option" where
  "NativeTokenStakingManagerValidationPeriodRegisteredIterator_Next c pick it = iterator_Next
     (parse_log c ''ValidationPeriodRegistered''
     NativeTokenStakingManagerValidationPeriodRegistered)
     NativeTokenStakingManagerValidationPeriodRegistered pick it"

definition NativeTokenStakingManagerValidationPeriodRegisteredIterator_Error :: "iterator \<Rightarrow>
   goerr option" where
  "NativeTokenStakingManagerValidationPeriodRegisteredIterator_Error it = iterator_Error it"

definition NativeTokenStakingManagerValidationPeriodRegisteredIterator_Close :: "iterator \<Rightarrow>
   goerr option \<times> iterator" where
  "NativeTokenStakingManagerValidationPeriodRegisteredIterator_Close it = iterator_Close it"

definition NativeTokenStakingManagerFilterer_FilterValidationPeriodRegistered ::
  "'w bound_contract \<Rightarrow> FilterOpts \<Rightarrow> hash list \<Rightarrow> ('w, goerr + iterator) prog" where
  "NativeTokenStakingManagerFilterer_FilterValidationPeriodRegistered c opts validationID =
     filter_events c opts ''ValidationPeriodRegistered'' [map GArr32 validationID]"

definition NativeTokenStakingManagerFilterer_WatchValidationPeriodRegistered ::
  "'w bound_contract \<Rightarrow> hash list \<Rightarrow> ('w, goerr + (evm_log \<Rightarrow> goerr + event_fields)) prog" where
  "NativeTokenStakingManagerFilterer_WatchValidationPeriodRegistered c validationID =
     watch_events c ''ValidationPeriodRegistered''
        NativeTokenStakingManagerValidationPeriodRegistered [map GArr32 validationID]"

definition NativeTokenStakingManagerFilterer_ParseValidationPeriodRegistered ::
  "'w bound_contract \<Rightarrow> evm_log \<Rightarrow> goerr + event_fields" where
  "NativeTokenStakingManagerFilterer_ParseValidationPeriodRegistered c = parse_log c
     ''ValidationPeriodRegistered'' NativeTokenStakingManagerValidationPeriodRegistered"

definition NativeTokenStakingManagerValidatorRemovalInitialized :: event_fields where
  "NativeTokenStakingManagerValidatorRemovalInitialized = [(''ValidationID'', GArr32 0),
     (''SetWeightMessageID'', GArr32 0), (''Weight'', GUint 64 0), (''EndTime'', GNil),
     (''Raw'', zero_Log)]"

definition NativeTokenStakingManagerValidatorRemovalInitializedIterator_Next ::
  "'w bound_contract \<Rightarrow> bool \<Rightarrow> iterator \<Rightarrow> (bool \<times> iterator) option" where
  "NativeTokenStakingManagerValidatorRemovalInitializedIterator_Next c pick it = iterator_Next
     (parse_log c ''ValidatorRemovalInitialized''
     NativeTokenStakingManagerValidatorRemovalInitialized)
     NativeTokenStakingManagerValidatorRemovalInitialized pick it"

definition NativeTokenStakingManagerValidatorRemovalInitializedIterator_Error :: "iterator \<Rightarrow>
   goerr option" where
  "NativeTokenStakingManagerValidatorRemovalInitializedIterator_Error it = iterator_Error it"

definition NativeTokenStakingManagerValidatorRemovalInitializedIterator_Close :: "iterator \<Rightarrow>
   goerr option \<times> iterator" where
  "NativeTokenStakingManagerValidatorRemovalInitializedIterator_Close it = iterator_Close it"

definition NativeTokenStakingManagerFilterer_FilterValidatorRemovalInitialized ::
  "'w bound_contract \<Rightarrow> FilterOpts \<Rightarrow> hash list \<Rightarrow> hash list \<Rightarrow> ('w, goerr + iterator) prog" where
  "NativeTokenStakingManagerFilterer_FilterValidatorRemovalInitialized c opts validationID
     setWeightMessageID =
     filter_events c opts ''ValidatorRemovalInitialized'' [map GArr32 validationID, map GArr32
        setWeightMessageID]"

definition NativeTokenStakingManagerFilterer_WatchValidatorRemovalInitialized ::
  "'w bound_contract \<Rightarrow> hash list \<Rightarrow> hash list \<Rightarrow> ('w, goerr + (evm_log \<Rightarrow> goerr + event_fields))
     prog" where
  "NativeTokenStakingManagerFilterer_WatchValidatorRemovalInitialized c validationID
     setWeightMessageID =
     watch_events c ''ValidatorRemovalInitialized''
        NativeTokenStakingManagerValidatorRemovalInitialized [map GArr32 validationID, map
        GArr32 setWeightMessageID]"

definition NativeTokenStakingManagerFilterer_ParseValidatorRemovalInitialized ::
  "'w bound_contract \<Rightarrow> evm_log \<Rightarrow> goerr + event_fields" where
  "NativeTokenStakingManagerFilterer_ParseValidatorRemovalInitialized c = parse_log c
     ''ValidatorRemovalInitialized'' NativeTokenStakingManagerValidatorRemovalInitialized"

definition NativeTokenStakingManagerValidatorWeightUpdate :: event_fields where
  "NativeTokenStakingManagerValidatorWeightUpdate = [(''ValidationID'', GArr32 0), (''Nonce'',
     GUint 64 0), (''Weight'', GUint 64 0), (''SetWeightMessageID'', GArr32 0), (''Raw'',
     zero_Log)]"

definition NativeTokenStakingManagerValidatorWeightUpdateIterator_Next ::
  "'w bound_contract \<Rightarrow> bool \<Rightarrow> iterator \<Rightarrow> (bool \<times> iterator) option" where
  "NativeTokenStakingManagerValidatorWeightUpdateIterator_Next c pick it = iterator_Next
     (parse_log c ''ValidatorWeightUpdate'' NativeTokenStakingManagerValidatorWeightUpdate)
     NativeTokenStakingManagerValidatorWeightUpdate pick it"

definition NativeTokenStakingManagerValidatorWeightUpdateIterator_Error :: "iterator \<Rightarrow> goerr
   option" where
  "NativeTokenStakingManagerValidatorWeightUpdateIterator_Error it = iterator_Error it"

definition NativeTokenStakingManagerValidatorWeightUpdateIterator_Close :: "iterator \<Rightarrow> goerr
   option \<times> iterator" where
  "NativeTokenStakingManagerValidatorWeightUpdateIterator_Close it = iterator_Close it"

definition NativeTokenStakingManagerFilterer_FilterValidatorWeightUpdate ::
  "'w bound_contract \<Rightarrow> FilterOpts \<Rightarrow> hash list \<Rightarrow> u64 list \<Rightarrow> ('w, goerr + iterator) prog" where
  "NativeTokenStakingManagerFilterer_FilterValidatorWeightUpdate c opts validationID nonce =
     filter_events c opts ''ValidatorWeightUpdate'' [map GArr32 validationID, map (\<lambda>x. GUint 64
        (unat x)) nonce]"

definition NativeTokenStakingManagerFilterer_WatchValidatorWeightUpdate ::
  "'w bound_contract \<Rightarrow> hash list \<Rightarrow> u64 list \<Rightarrow> ('w, goerr + (evm_log \<Rightarrow> goerr + event_fields))
     prog" where
  "NativeTokenStakingManagerFilterer_WatchValidatorWeightUpdate c validationID nonce =
     watch_events c ''ValidatorWeightUpdate'' NativeTokenStakingManagerValidatorWeightUpdate
        [map GArr32 validationID, map (\<lambda>x. GUint 64 (unat x)) nonce]"

definition NativeTokenStakingManagerFilterer_ParseValidatorWeightUpdate ::
  "'w bound_contract \<Rightarrow> evm_log \<Rightarrow> goerr + event_fields" where
  "NativeTokenStakingManagerFilterer_ParseValidatorWeightUpdate c = parse_log c
     ''ValidatorWeightUpdate'' NativeTokenStakingManagerValidatorWeightUpdate"

section \<open>Correctness\<close>

lemma NativeTokenStakingManager_methods:
  "map_of (Methods NativeTokenStakingManagerABI) ''ADDRESS_LENGTH'' =
     Some ([], [([], TUint 32)])"
  "map_of (Methods NativeTokenStakingManagerABI) ''BIPS_CONVERSION_FACTOR'' =
     Some ([], [([], TUint 16)])"
  "map_of (Methods NativeTokenStakingManagerABI) ''BLS_PUBLIC_KEY_LENGTH'' =
     Some ([], [([], TUint 8)])"
  "map_of (Methods NativeTokenStakingManagerABI) ''MAXIMUM_CHURN_PERCENTAGE_LIMIT'' =
     Some ([], [([], TUint 8)])"
  "map_of (Methods NativeTokenStakingManagerABI) ''MAXIMUM_DELEGATION_FEE_BIPS'' =
     Some ([], [([], TUint 16)])"
  "map_of (Methods NativeTokenStakingManagerABI) ''MAXIMUM_REGISTRATION_EXPIRY_LENGTH'' =
     Some ([], [([], TUint 64)])"
  "map_of (Methods NativeTokenStakingManagerABI) ''MAXIMUM_STAKE_MULTIPLIER_LIMIT'' =
     Some ([], [([], TUint 8)])"
  "map_of (Methods NativeTokenStakingManagerABI) ''NATIVE_MINTER'' =
     Some ([], [([], TAddress)])"
  "map_of (Methods NativeTokenStakingManagerABI) ''POS_VALIDATOR_MANAGER_STORAGE_LOCATION'' =
     Some ([], [([], TBytes32)])"
  "map_of (Methods NativeTokenStakingManagerABI) ''P_CHAIN_BLOCKCHAIN_ID'' =
     Some ([], [([], TBytes32)])"
  "map_of (Methods NativeTokenStakingManagerABI) ''VALIDATOR_MANAGER_STORAGE_LOCATION'' =
     Some ([], [([], TBytes32)])"
  "map_of (Methods NativeTokenStakingManagerABI) ''WARP_MESSENGER'' =
     Some ([], [([], TAddress)])"
  "map_of (Methods NativeTokenStakingManagerABI) ''changeDelegatorRewardRecipient'' =
     Some ([(''delegationID'', TBytes32), (''rewardRecipient'', TAddress)], [])"
  "map_of (Methods NativeTokenStakingManagerABI) ''changeValidatorRewardRecipient'' =
     Some ([(''validationID'', TBytes32), (''rewardRecipient'', TAddress)], [])"
  "map_of (Methods NativeTokenStakingManagerABI) ''claimDelegationFees'' =
     Some ([(''validationID'', TBytes32)], [])"
  "map_of (Methods NativeTokenStakingManagerABI) ''completeDelegatorRegistration'' =
     Some ([(''delegationID'', TBytes32), (''messageIndex'', TUint 32)], [])"
  "map_of (Methods NativeTokenStakingManagerABI) ''completeEndDelegation'' =
     Some ([(''delegationID'', TBytes32), (''messageIndex'', TUint 32)], [])"
  "map_of (Methods NativeTokenStakingManagerABI) ''completeEndValidation'' =
     Some ([(''messageIndex'', TUint 32)], [])"
  "map_of (Methods NativeTokenStakingManagerABI) ''completeValidatorRegistration'' =
     Some ([(''messageIndex'', TUint 32)], [])"
  "map_of (Methods NativeTokenStakingManagerABI) ''forceInitializeEndDelegation'' =
     Some ([(''delegationID'', TBytes32), (''includeUptimeProof'', TBool), (''messageIndex'',
        TUint 32)], [])"
  "map_of (Methods NativeTokenStakingManagerABI) ''forceInitializeEndDelegation0'' =
     Some ([(''delegationID'', TBytes32), (''includeUptimeProof'', TBool), (''messageIndex'',
        TUint 32), (''rewardRecipient'', TAddress)], [])"
  "map_of (Methods NativeTokenStakingManagerABI) ''forceInitializeEndValidation'' =
     Some ([(''validationID'', TBytes32), (''includeUptimeProof'', TBool), (''messageIndex'',
        TUint 32)], [])"
  "map_of (Methods NativeTokenStakingManagerABI) ''forceInitializeEndValidation0'' =
     Some ([(''validationID'', TBytes32), (''includeUptimeProof'', TBool), (''messageIndex'',
        TUint 32), (''rewardRecipient'', TAddress)], [])"
  "map_of (Methods NativeTokenStakingManagerABI) ''getValidator'' =
     Some ([(''validationID'', TBytes32)], [([], Validator_tuple)])"
  "map_of (Methods NativeTokenStakingManagerABI) ''initialize'' =
     Some ([(''settings'', PoSValidatorManagerSettings_tuple)], [])"
  "map_of (Methods NativeTokenStakingManagerABI) ''initializeDelegatorRegistration'' =
     Some ([(''validationID'', TBytes32)], [([], TBytes32)])"
  "map_of (Methods NativeTokenStakingManagerABI) ''initializeEndDelegation'' =
     Some ([(''delegationID'', TBytes32), (''includeUptimeProof'', TBool), (''messageIndex'',
        TUint 32)], [])"
  "map_of (Methods NativeTokenStakingManagerABI) ''initializeEndDelegation0'' =
     Some ([(''delegationID'', TBytes32), (''includeUptimeProof'', TBool), (''messageIndex'',
        TUint 32), (''rewardRecipient'', TAddress)], [])"
  "map_of (Methods NativeTokenStakingManagerABI) ''initializeEndValidation'' =
     Some ([(''validationID'', TBytes32), (''includeUptimeProof'', TBool), (''messageIndex'',
        TUint 32), (''rewardRecipient'', TAddress)], [])"
  "map_of (Methods NativeTokenStakingManagerABI) ''initializeEndValidation0'' =
     Some ([(''validationID'', TBytes32), (''includeUptimeProof'', TBool), (''messageIndex'',
        TUint 32)], [])"
  "map_of (Methods NativeTokenStakingManagerABI) ''initializeValidatorRegistration'' =
     Some ([(''registrationInput'', ValidatorRegistrationInput_tuple), (''delegationFeeBips'',
        TUint 16), (''minStakeDuration'', TUint 64)], [([], TBytes32)])"
  "map_of (Methods NativeTokenStakingManagerABI) ''initializeValidatorSet'' =
     Some ([(''conversionData'', ConversionData_tuple), (''messageIndex'', TUint 32)], [])"
  "map_of (Methods NativeTokenStakingManagerABI) ''registeredValidators'' =
     Some ([(''nodeID'', TBytes)], [([], TBytes32)])"
  "map_of (Methods NativeTokenStakingManagerABI) ''resendEndValidatorMessage'' =
     Some ([(''validationID'', TBytes32)], [])"
  "map_of (Methods NativeTokenStakingManagerABI) ''resendRegisterValidatorMessage'' =
     Some ([(''validationID'', TBytes32)], [])"
  "map_of (Methods NativeTokenStakingManagerABI) ''resendUpdateDelegation'' =
     Some ([(''delegationID'', TBytes32)], [])"
  "map_of (Methods NativeTokenStakingManagerABI) ''submitUptimeProof'' =
     Some ([(''validationID'', TBytes32), (''messageIndex'', TUint 32)], [])"
  "map_of (Methods NativeTokenStakingManagerABI) ''valueToWeight'' =
     Some ([(''value'', TUint 256)], [([], TUint 64)])"
  "map_of (Methods NativeTokenStakingManagerABI) ''weightToValue'' =
     Some ([(''weight'', TUint 64)], [([], TUint 256)])"
  unfolding NativeTokenStakingManagerABI_def contract_abi.select_convs
  by (simp_all only: table_lookup)

lemma NativeTokenStakingManager_decodable:
  "decodable [(''delegationID'', TBytes32, True), (''validationID'', TBytes32, True),
     (''rewards'', TUint 256, False), (''fees'', TUint 256, False)]
     NativeTokenStakingManagerDelegationEnded"
  "decodable [(''delegationID'', TBytes32, True), (''validationID'', TBytes32, True),
     (''delegatorAddress'', TAddress, True), (''nonce'', TUint 64, False), (''validatorWeight'',
     TUint 64, False), (''delegatorWeight'', TUint 64, False), (''setWeightMessageID'',
     TBytes32, False)]
     NativeTokenStakingManagerDelegatorAdded"
  "decodable [(''delegationID'', TBytes32, True), (''validationID'', TBytes32, True),
     (''startTime'', TUint 256, False)]
     NativeTokenStakingManagerDelegatorRegistered"
  "decodable [(''delegationID'', TBytes32, True), (''validationID'', TBytes32, True)]
     NativeTokenStakingManagerDelegatorRemovalInitialized"
  "decodable [(''validationID'', TBytes32, True), (''weight'', TUint 64, False), (''nodeID'',
     TBytes, False)]
     NativeTokenStakingManagerInitialValidatorCreated"
  "decodable [(''version'', TUint 64, False)]
     NativeTokenStakingManagerInitialized"
  "decodable [(''validationID'', TBytes32, True), (''uptime'', TUint 64, False)]
     NativeTokenStakingManagerUptimeUpdated"
  "decodable [(''validationID'', TBytes32, True), (''registerValidationMessageID'', TBytes32,
     True), (''weight'', TUint 64, False), (''nodeID'', TBytes, False), (''registrationExpiry'',
     TUint 64, False)]
     NativeTokenStakingManagerValidationPeriodCreated"
  "decodable [(''validationID'', TBytes32, True), (''status'', TUint 8, True)]
     NativeTokenStakingManagerValidationPeriodEnded"
  "decodable [(''validationID'', TBytes32, True), (''weight'', TUint 64, False), (''timestamp'',
     TUint 256, False)]
     NativeTokenStakingManagerValidationPeriodRegistered"
  "decodable [(''validationID'', TBytes32, True), (''setWeightMessageID'', TBytes32, True),
     (''weight'', TUint 64, False), (''endTime'', TUint 256, False)]
     NativeTokenStakingManagerValidatorRemovalInitialized"
  "decodable [(''validationID'', TBytes32, True), (''nonce'', TUint 64, True), (''weight'',
     TUint 64, False), (''setWeightMessageID'', TBytes32, False)]
     NativeTokenStakingManagerValidatorWeightUpdate"
  by (simp_all add: decodable_def has_fields_def fits_def
     NativeTokenStakingManagerDelegationEnded_def NativeTokenStakingManagerDelegatorAdded_def
     NativeTokenStakingManagerDelegatorRegistered_def
     NativeTokenStakingManagerDelegatorRemovalInitialized_def
     NativeTokenStakingManagerInitialValidatorCreated_def
     NativeTokenStakingManagerInitialized_def NativeTokenStakingManagerUptimeUpdated_def
     NativeTokenStakingManagerValidationPeriodCreated_def
     NativeTokenStakingManagerValidationPeriodEnded_def
     NativeTokenStakingManagerValidationPeriodRegistered_def
     NativeTokenStakingManagerValidatorRemovalInitialized_def
     NativeTokenStakingManagerValidatorWeightUpdate_def )

lemma NativeTokenStakingManager_events:
  "map_of (Events NativeTokenStakingManagerABI) ''DelegationEnded'' =
     Some [(''delegationID'', TBytes32, True), (''validationID'', TBytes32, True), (''rewards'',
        TUint 256, False), (''fees'', TUint 256, False)]"
  "map_of (Events NativeTokenStakingManagerABI) ''DelegatorAdded'' =
     Some [(''delegationID'', TBytes32, True), (''validationID'', TBytes32, True),
        (''delegatorAddress'', TAddress, True), (''nonce'', TUint 64, False),
        (''validatorWeight'', TUint 64, False), (''delegatorWeight'', TUint 64, False),
        (''setWeightMessageID'', TBytes32, False)]"
  "map_of (Events NativeTokenStakingManagerABI) ''DelegatorRegistered'' =
     Some [(''delegationID'', TBytes32, True), (''validationID'', TBytes32, True),
        (''startTime'', TUint 256, False)]"
  "map_of (Events NativeTokenStakingManagerABI) ''DelegatorRemovalInitialized'' =
     Some [(''delegationID'', TBytes32, True), (''validationID'', TBytes32, True)]"
  "map_of (Events NativeTokenStakingManagerABI) ''InitialValidatorCreated'' =
     Some [(''validationID'', TBytes32, True), (''weight'', TUint 64, False), (''nodeID'',
        TBytes, False)]"
  "map_of (Events NativeTokenStakingManagerABI) ''Initialized'' =
     Some [(''version'', TUint 64, False)]"
  "map_of (Events NativeTokenStakingManagerABI) ''UptimeUpdated'' =
     Some [(''validationID'', TBytes32, True), (''uptime'', TUint 64, False)]"
  "map_of (Events NativeTokenStakingManagerABI) ''ValidationPeriodCreated'' =
     Some [(''validationID'', TBytes32, True), (''registerValidationMessageID'', TBytes32,
        True), (''weight'', TUint 64, False), (''nodeID'', TBytes, False),
        (''registrationExpiry'', TUint 64, False)]"
  "map_of (Events NativeTokenStakingManagerABI) ''ValidationPeriodEnded'' =
     Some [(''validationID'', TBytes32, True), (''status'', TUint 8, True)]"
  "map_of (Events NativeTokenStakingManagerABI) ''ValidationPeriodRegistered'' =
     Some [(''validationID'', TBytes32, True), (''weight'', TUint 64, False), (''timestamp'',
        TUint 256, False)]"
  "map_of (Events NativeTokenStakingManagerABI) ''ValidatorRemovalInitialized'' =
     Some [(''validationID'', TBytes32, True), (''setWeightMessageID'', TBytes32, True),
        (''weight'', TUint 64, False), (''endTime'', TUint 256, False)]"
  "map_of (Events NativeTokenStakingManagerABI) ''ValidatorWeightUpdate'' =
     Some [(''validationID'', TBytes32, True), (''nonce'', TUint 64, True), (''weight'', TUint
        64, False), (''setWeightMessageID'', TBytes32, False)]"
  unfolding NativeTokenStakingManagerABI_def contract_abi.select_convs
  by (simp_all only: table_lookup)

lemma NativeTokenStakingManager_transactions_decode:
  assumes "codec_methods k" and "codec_roundtrip k" and "bound_spec k
     NativeTokenStakingManagerABI be c"
  shows "(\<forall>delegationID rewardRecipient. sends_call k NativeTokenStakingManagerABI be opts
     ''changeDelegatorRewardRecipient'' [GArr32 delegationID, GAddr rewardRecipient]
       (NativeTokenStakingManagerTransactor_ChangeDelegatorRewardRecipient c opts delegationID
          rewardRecipient)) \<and>
     (\<forall>validationID rewardRecipient. sends_call k NativeTokenStakingManagerABI be opts
        ''changeValidatorRewardRecipient'' [GArr32 validationID, GAddr rewardRecipient]
       (NativeTokenStakingManagerTransactor_ChangeValidatorRewardRecipient c opts validationID
          rewardRecipient)) \<and>
     (\<forall>validationID. sends_call k NativeTokenStakingManagerABI be opts ''claimDelegationFees''
        [GArr32 validationID]
       (NativeTokenStakingManagerTransactor_ClaimDelegationFees c opts validationID)) \<and>
     (\<forall>delegationID messageIndex. sends_call k NativeTokenStakingManagerABI be opts
        ''completeDelegatorRegistration'' [GArr32 delegationID, GUint 32 (unat messageIndex)]
       (NativeTokenStakingManagerTransactor_CompleteDelegatorRegistration c opts delegationID
          messageIndex)) \<and>
     (\<forall>delegationID messageIndex. sends_call k NativeTokenStakingManagerABI be opts
        ''completeEndDelegation'' [GArr32 delegationID, GUint 32 (unat messageIndex)]
       (NativeTokenStakingManagerTransactor_CompleteEndDelegation c opts delegationID
          messageIndex)) \<and>
     (\<forall>messageIndex. sends_call k NativeTokenStakingManagerABI be opts ''completeEndValidation''
        [GUint 32 (unat messageIndex)]
       (NativeTokenStakingManagerTransactor_CompleteEndValidation c opts messageIndex)) \<and>
     (\<forall>messageIndex. sends_call k NativeTokenStakingManagerABI be opts
        ''completeValidatorRegistration'' [GUint 32 (unat messageIndex)]
       (NativeTokenStakingManagerTransactor_CompleteValidatorRegistration c opts messageIndex))
          \<and>
     (\<forall>delegationID includeUptimeProof messageIndex. sends_call k NativeTokenStakingManagerABI
        be opts ''forceInitializeEndDelegation'' [GArr32 delegationID, GBool includeUptimeProof,
        GUint 32 (unat messageIndex)]
       (NativeTokenStakingManagerTransactor_ForceInitializeEndDelegation c opts delegationID
          includeUptimeProof messageIndex)) \<and>
     (\<forall>delegationID includeUptimeProof messageIndex rewardRecipient. sends_call k
        NativeTokenStakingManagerABI be opts ''forceInitializeEndDelegation0'' [GArr32
        delegationID, GBool includeUptimeProof, GUint 32 (unat messageIndex), GAddr
        rewardRecipient]
       (NativeTokenStakingManagerTransactor_ForceInitializeEndDelegation0 c opts delegationID
          includeUptimeProof messageIndex rewardRecipient)) \<and>
     (\<forall>validationID includeUptimeProof messageIndex. sends_call k NativeTokenStakingManagerABI
        be opts ''forceInitializeEndValidation'' [GArr32 validationID, GBool includeUptimeProof,
        GUint 32 (unat messageIndex)]
       (NativeTokenStakingManagerTransactor_ForceInitializeEndValidation c opts validationID
          includeUptimeProof messageIndex)) \<and>
     (\<forall>validationID includeUptimeProof messageIndex rewardRecipient. sends_call k
        NativeTokenStakingManagerABI be opts ''forceInitializeEndValidation0'' [GArr32
        validationID, GBool includeUptimeProof, GUint 32 (unat messageIndex), GAddr
        rewardRecipient]
       (NativeTokenStakingManagerTransactor_ForceInitializeEndValidation0 c opts validationID
          includeUptimeProof messageIndex rewardRecipient)) \<and>
     (\<forall>settings. PoSValidatorManagerSettings_ok settings \<longrightarrow> sends_call k
        NativeTokenStakingManagerABI be opts ''initialize'' [PoSValidatorManagerSettings_val
        settings]
       (NativeTokenStakingManagerTransactor_Initialize c opts settings)) \<and>
     (\<forall>validationID. sends_call k NativeTokenStakingManagerABI be opts
        ''initializeDelegatorRegistration'' [GArr32 validationID]
       (NativeTokenStakingManagerTransactor_InitializeDelegatorRegistration c opts
          validationID)) \<and>
     (\<forall>delegationID includeUptimeProof messageIndex. sends_call k NativeTokenStakingManagerABI
        be opts ''initializeEndDelegation'' [GArr32 delegationID, GBool includeUptimeProof,
        GUint 32 (unat messageIndex)]
       (NativeTokenStakingManagerTransactor_InitializeEndDelegation c opts delegationID
          includeUptimeProof messageIndex)) \<and>
     (\<forall>delegationID includeUptimeProof messageIndex rewardRecipient. sends_call k
        NativeTokenStakingManagerABI be opts ''initializeEndDelegation0'' [GArr32 delegationID,
        GBool includeUptimeProof, GUint 32 (unat messageIndex), GAddr rewardRecipient]
       (NativeTokenStakingManagerTransactor_InitializeEndDelegation0 c opts delegationID
          includeUptimeProof messageIndex rewardRecipient)) \<and>
     (\<forall>validationID includeUptimeProof messageIndex rewardRecipient. sends_call k
        NativeTokenStakingManagerABI be opts ''initializeEndValidation'' [GArr32 validationID,
        GBool includeUptimeProof, GUint 32 (unat messageIndex), GAddr rewardRecipient]
       (NativeTokenStakingManagerTransactor_InitializeEndValidation c opts validationID
          includeUptimeProof messageIndex rewardRecipient)) \<and>
     (\<forall>validationID includeUptimeProof messageIndex. sends_call k NativeTokenStakingManagerABI
        be opts ''initializeEndValidation0'' [GArr32 validationID, GBool includeUptimeProof,
        GUint 32 (unat messageIndex)]
       (NativeTokenStakingManagerTransactor_InitializeEndValidation0 c opts validationID
          includeUptimeProof messageIndex)) \<and>
     (\<forall>registrationInput delegationFeeBips minStakeDuration. sends_call k
        NativeTokenStakingManagerABI be opts ''initializeValidatorRegistration''
        [ValidatorRegistrationInput_val registrationInput, GUint 16 (unat delegationFeeBips),
        GUint 64 (unat minStakeDuration)]
       (NativeTokenStakingManagerTransactor_InitializeValidatorRegistration c opts
          registrationInput delegationFeeBips minStakeDuration)) \<and>
     (\<forall>conversionData messageIndex. sends_call k NativeTokenStakingManagerABI be opts
        ''initializeValidatorSet'' [ConversionData_val conversionData, GUint 32 (unat
        messageIndex)]
       (NativeTokenStakingManagerTransactor_InitializeValidatorSet c opts conversionData
          messageIndex)) \<and>
     (\<forall>validationID. sends_call k NativeTokenStakingManagerABI be opts
        ''resendEndValidatorMessage'' [GArr32 validationID]
       (NativeTokenStakingManagerTransactor_ResendEndValidatorMessage c opts validationID)) \<and>
     (\<forall>validationID. sends_call k NativeTokenStakingManagerABI be opts
        ''resendRegisterValidatorMessage'' [GArr32 validationID]
       (NativeTokenStakingManagerTransactor_ResendRegisterValidatorMessage c opts validationID))
          \<and>
     (\<forall>delegationID. sends_call k NativeTokenStakingManagerABI be opts
        ''resendUpdateDelegation'' [GArr32 delegationID]
       (NativeTokenStakingManagerTransactor_ResendUpdateDelegation c opts delegationID)) \<and>
     (\<forall>validationID messageIndex. sends_call k NativeTokenStakingManagerABI be opts
        ''submitUptimeProof'' [GArr32 validationID, GUint 32 (unat messageIndex)]
       (NativeTokenStakingManagerTransactor_SubmitUptimeProof c opts validationID
          messageIndex))"
  unfolding NativeTokenStakingManagerTransactor_ChangeDelegatorRewardRecipient_def
     NativeTokenStakingManagerTransactor_ChangeValidatorRewardRecipient_def
     NativeTokenStakingManagerTransactor_ClaimDelegationFees_def
     NativeTokenStakingManagerTransactor_CompleteDelegatorRegistration_def
     NativeTokenStakingManagerTransactor_CompleteEndDelegation_def
     NativeTokenStakingManagerTransactor_CompleteEndValidation_def
     NativeTokenStakingManagerTransactor_CompleteValidatorRegistration_def
     NativeTokenStakingManagerTransactor_ForceInitializeEndDelegation_def
     NativeTokenStakingManagerTransactor_ForceInitializeEndDelegation0_def
     NativeTokenStakingManagerTransactor_ForceInitializeEndValidation_def
     NativeTokenStakingManagerTransactor_ForceInitializeEndValidation0_def
     NativeTokenStakingManagerTransactor_Initialize_def
     NativeTokenStakingManagerTransactor_InitializeDelegatorRegistration_def
     NativeTokenStakingManagerTransactor_InitializeEndDelegation_def
     NativeTokenStakingManagerTransactor_InitializeEndDelegation0_def
     NativeTokenStakingManagerTransactor_InitializeEndValidation_def
     NativeTokenStakingManagerTransactor_InitializeEndValidation0_def
     NativeTokenStakingManagerTransactor_InitializeValidatorRegistration_def
     NativeTokenStakingManagerTransactor_InitializeValidatorSet_def
     NativeTokenStakingManagerTransactor_ResendEndValidatorMessage_def
     NativeTokenStakingManagerTransactor_ResendRegisterValidatorMessage_def
     NativeTokenStakingManagerTransactor_ResendUpdateDelegation_def
     NativeTokenStakingManagerTransactor_SubmitUptimeProof_def
  by ((intro conjI allI impI)?; rule transact_sends [OF assms], rule
     NativeTokenStakingManager_methods)
    (simp_all del: matches.simps(1))

lemma NativeTokenStakingManager_calls_return_outputs:
  assumes "codec_methods k" and "codec_roundtrip k" and "bound_spec k
     NativeTokenStakingManagerABI be c"
  shows "(\<forall>r0. reads_call k NativeTokenStakingManagerABI be opts ''ADDRESS_LENGTH'' []
       [GUint 32 (unat r0)] r0 (NativeTokenStakingManagerCaller_ADDRESSLENGTH c opts)) \<and>
     (\<forall>r0. reads_call k NativeTokenStakingManagerABI be opts ''BIPS_CONVERSION_FACTOR'' []
       [GUint 16 (unat r0)] r0 (NativeTokenStakingManagerCaller_BIPSCONVERSIONFACTOR c opts)) \<and>
     (\<forall>r0. reads_call k NativeTokenStakingManagerABI be opts ''BLS_PUBLIC_KEY_LENGTH'' []
       [GUint 8 (unat r0)] r0 (NativeTokenStakingManagerCaller_BLSPUBLICKEYLENGTH c opts)) \<and>
     (\<forall>r0. reads_call k NativeTokenStakingManagerABI be opts ''MAXIMUM_CHURN_PERCENTAGE_LIMIT''
        []
       [GUint 8 (unat r0)] r0 (NativeTokenStakingManagerCaller_MAXIMUMCHURNPERCENTAGELIMIT c
          opts)) \<and>
     (\<forall>r0. reads_call k NativeTokenStakingManagerABI be opts ''MAXIMUM_DELEGATION_FEE_BIPS'' []
       [GUint 16 (unat r0)] r0 (NativeTokenStakingManagerCaller_MAXIMUMDELEGATIONFEEBIPS c
          opts)) \<and>
     (\<forall>r0. reads_call k NativeTokenStakingManagerABI be opts
        ''MAXIMUM_REGISTRATION_EXPIRY_LENGTH'' []
       [GUint 64 (unat r0)] r0 (NativeTokenStakingManagerCaller_MAXIMUMREGISTRATIONEXPIRYLENGTH
          c opts)) \<and>
     (\<forall>r0. reads_call k NativeTokenStakingManagerABI be opts ''MAXIMUM_STAKE_MULTIPLIER_LIMIT''
        []
       [GUint 8 (unat r0)] r0 (NativeTokenStakingManagerCaller_MAXIMUMSTAKEMULTIPLIERLIMIT c
          opts)) \<and>
     (\<forall>r0. reads_call k NativeTokenStakingManagerABI be opts ''NATIVE_MINTER'' []
       [GAddr r0] r0 (NativeTokenStakingManagerCaller_NATIVEMINTER c opts)) \<and>
     (\<forall>r0. reads_call k NativeTokenStakingManagerABI be opts
        ''POS_VALIDATOR_MANAGER_STORAGE_LOCATION'' []
       [GArr32 r0] r0 (NativeTokenStakingManagerCaller_POSVALIDATORMANAGERSTORAGELOCATION c
          opts)) \<and>
     (\<forall>r0. reads_call k NativeTokenStakingManagerABI be opts ''P_CHAIN_BLOCKCHAIN_ID'' []
       [GArr32 r0] r0 (NativeTokenStakingManagerCaller_PCHAINBLOCKCHAINID c opts)) \<and>
     (\<forall>r0. reads_call k NativeTokenStakingManagerABI be opts
        ''VALIDATOR_MANAGER_STORAGE_LOCATION'' []
       [GArr32 r0] r0 (NativeTokenStakingManagerCaller_VALIDATORMANAGERSTORAGELOCATION c opts))
          \<and>
     (\<forall>r0. reads_call k NativeTokenStakingManagerABI be opts ''WARP_MESSENGER'' []
       [GAddr r0] r0 (NativeTokenStakingManagerCaller_WARPMESSENGER c opts)) \<and>
     (\<forall>validationID r0. reads_call k NativeTokenStakingManagerABI be opts ''getValidator''
        [GArr32 validationID]
       [Validator_val r0] r0 (NativeTokenStakingManagerCaller_GetValidator c opts validationID))
          \<and>
     (\<forall>nodeID r0. reads_call k NativeTokenStakingManagerABI be opts ''registeredValidators''
        [GBytes nodeID]
       [GArr32 r0] r0 (NativeTokenStakingManagerCaller_RegisteredValidators c opts nodeID)) \<and>
     (\<forall>amount_value r0. in_uint256 amount_value \<longrightarrow> reads_call k NativeTokenStakingManagerABI be
        opts ''valueToWeight'' [GBig amount_value]
       [GUint 64 (unat r0)] r0 (NativeTokenStakingManagerCaller_ValueToWeight c opts
          amount_value)) \<and>
     (\<forall>weight r0. in_uint256 r0 \<longrightarrow> reads_call k NativeTokenStakingManagerABI be opts
        ''weightToValue'' [GUint 64 (unat weight)]
       [GBig r0] r0 (NativeTokenStakingManagerCaller_WeightToValue c opts weight))"
  unfolding NativeTokenStakingManagerCaller_ADDRESSLENGTH_def
     NativeTokenStakingManagerCaller_BIPSCONVERSIONFACTOR_def
     NativeTokenStakingManagerCaller_BLSPUBLICKEYLENGTH_def
     NativeTokenStakingManagerCaller_MAXIMUMCHURNPERCENTAGELIMIT_def
     NativeTokenStakingManagerCaller_MAXIMUMDELEGATIONFEEBIPS_def
     NativeTokenStakingManagerCaller_MAXIMUMREGISTRATIONEXPIRYLENGTH_def
     NativeTokenStakingManagerCaller_MAXIMUMSTAKEMULTIPLIERLIMIT_def
     NativeTokenStakingManagerCaller_NATIVEMINTER_def
     NativeTokenStakingManagerCaller_POSVALIDATORMANAGERSTORAGELOCATION_def
     NativeTokenStakingManagerCaller_PCHAINBLOCKCHAINID_def
     NativeTokenStakingManagerCaller_VALIDATORMANAGERSTORAGELOCATION_def
     NativeTokenStakingManagerCaller_WARPMESSENGER_def
     NativeTokenStakingManagerCaller_GetValidator_def
     NativeTokenStakingManagerCaller_RegisteredValidators_def
     NativeTokenStakingManagerCaller_ValueToWeight_def
     NativeTokenStakingManagerCaller_WeightToValue_def
  by ((intro conjI allI impI)?; rule call_reads [OF assms], rule
     NativeTokenStakingManager_methods)
    (simp_all del: matches.simps(1))

lemma NativeTokenStakingManager_parsers_decode:
  assumes "codec_events k" and "event_ids k NativeTokenStakingManagerABI" and "bound_spec k
     NativeTokenStakingManagerABI be c"
  shows "parser_decodes k NativeTokenStakingManagerABI ''DelegationEnded''
     (NativeTokenStakingManagerFilterer_ParseDelegationEnded c) \<and>
     parser_decodes k NativeTokenStakingManagerABI ''DelegatorAdded''
        (NativeTokenStakingManagerFilterer_ParseDelegatorAdded c) \<and>
     parser_decodes k NativeTokenStakingManagerABI ''DelegatorRegistered''
        (NativeTokenStakingManagerFilterer_ParseDelegatorRegistered c) \<and>
     parser_decodes k NativeTokenStakingManagerABI ''DelegatorRemovalInitialized''
        (NativeTokenStakingManagerFilterer_ParseDelegatorRemovalInitialized c) \<and>
     parser_decodes k NativeTokenStakingManagerABI ''InitialValidatorCreated''
        (NativeTokenStakingManagerFilterer_ParseInitialValidatorCreated c) \<and>
     parser_decodes k NativeTokenStakingManagerABI ''Initialized''
        (NativeTokenStakingManagerFilterer_ParseInitialized c) \<and>
     parser_decodes k NativeTokenStakingManagerABI ''UptimeUpdated''
        (NativeTokenStakingManagerFilterer_ParseUptimeUpdated c) \<and>
     parser_decodes k NativeTokenStakingManagerABI ''ValidationPeriodCreated''
        (NativeTokenStakingManagerFilterer_ParseValidationPeriodCreated c) \<and>
     parser_decodes k NativeTokenStakingManagerABI ''ValidationPeriodEnded''
        (NativeTokenStakingManagerFilterer_ParseValidationPeriodEnded c) \<and>
     parser_decodes k NativeTokenStakingManagerABI ''ValidationPeriodRegistered''
        (NativeTokenStakingManagerFilterer_ParseValidationPeriodRegistered c) \<and>
     parser_decodes k NativeTokenStakingManagerABI ''ValidatorRemovalInitialized''
        (NativeTokenStakingManagerFilterer_ParseValidatorRemovalInitialized c) \<and>
     parser_decodes k NativeTokenStakingManagerABI ''ValidatorWeightUpdate''
        (NativeTokenStakingManagerFilterer_ParseValidatorWeightUpdate c)"
proof -
  note parses = parse_log_decodes [OF assms]
  show ?thesis
    unfolding NativeTokenStakingManagerFilterer_ParseDelegationEnded_def
       NativeTokenStakingManagerFilterer_ParseDelegatorAdded_def
       NativeTokenStakingManagerFilterer_ParseDelegatorRegistered_def
       NativeTokenStakingManagerFilterer_ParseDelegatorRemovalInitialized_def
       NativeTokenStakingManagerFilterer_ParseInitialValidatorCreated_def
       NativeTokenStakingManagerFilterer_ParseInitialized_def
       NativeTokenStakingManagerFilterer_ParseUptimeUpdated_def
       NativeTokenStakingManagerFilterer_ParseValidationPeriodCreated_def
       NativeTokenStakingManagerFilterer_ParseValidationPeriodEnded_def
       NativeTokenStakingManagerFilterer_ParseValidationPeriodRegistered_def
       NativeTokenStakingManagerFilterer_ParseValidatorRemovalInitialized_def
       NativeTokenStakingManagerFilterer_ParseValidatorWeightUpdate_def
    by ((intro conjI)?; rule parses, rule NativeTokenStakingManager_events, rule
       NativeTokenStakingManager_decodable)
qed

end
