(* ===== verification/IValidatorManagerBinding.thy ===== *)
theory IValidatorManagerBinding
  imports ManagerStructs
begin

text \<open>
  The generated binding \<open>abi-bindings/go/validator-manager/interfaces/IValidatorManager/IValidatorManager.go\<close> over the generic
  definitions of theory \<open>Binding\<close>: its ABI, every method with its session wrappers, every event with
  its iterator, filter, watch and parser. The bytecode is a parameter of deployment; the aliases
  \<open>Raw\<close> of the untyped calls are not modelled.
\<close>

section \<open>The contract's ABI (IValidatorManagerMetaData)\<close>

definition IValidatorManagerABI :: contract_abi where
  "IValidatorManagerABI = \<lparr>
      Methods = [
        (''completeEndValidation'', [(''messageIndex'', TUint 32)],
           []),
        (''completeValidatorRegistration'', [(''messageIndex'', TUint 32)],
           []),
        (''initializeValidatorSet'', [(''conversionData'', ConversionData_tuple),
           (''messsageIndex'', TUint 32)],
           []),
        (''resendEndValidatorMessage'', [(''validationID'', TBytes32)],
           []),
        (''resendRegisterValidatorMessage'', [(''validationID'', TBytes32)],
           [])],
      Events = [
        (''InitialValidatorCreated'', [(''validationID'', TBytes32, True), (''weight'', TUint
           64, False), (''nodeID'', TBytes, False)]),
        (''ValidationPeriodCreated'', [(''validationID'', TBytes32, True),
           (''registerValidationMessageID'', TBytes32, True), (''weight'', TUint 64, False),
           (''nodeID'', TBytes, False), (''registrationExpiry'', TUint 64, False)]),
        (''ValidationPeriodEnded'', [(''validationID'', TBytes32, True), (''status'', TUint 8,
           True)]),
        (''ValidationPeriodRegistered'', [(''validationID'', TBytes32, True), (''weight'', TUint
           64, False), (''timestamp'', TUint 256, False)]),
        (''ValidatorRemovalInitialized'', [(''validationID'', TBytes32, True),
           (''setWeightMessageID'', TBytes32, True), (''weight'', TUint 64, False),
           (''endTime'', TUint 256, False)]),
        (''ValidatorWeightUpdate'', [(''validationID'', TBytes32, True), (''nonce'', TUint 64,
           True), (''weight'', TUint 64, False), (''setWeightMessageID'', TBytes32, False)])]\<rparr>"

section \<open>Binding and deployment\<close>

definition bindIValidatorManager :: "'w bind_lib \<Rightarrow> address \<Rightarrow> goerr + 'w bound_contract" where
  "bindIValidatorManager lib addr = bind_contract lib IValidatorManagerABI addr"

definition NewIValidatorManager :: "'w bind_lib \<Rightarrow> address \<Rightarrow> goerr + 'w bound_contract" where
  "NewIValidatorManager lib addr = bindIValidatorManager lib addr"

section \<open>Methods\<close>

definition IValidatorManagerTransactor_CompleteEndValidation ::
  "'w bound_contract \<Rightarrow> TransactOpts \<Rightarrow> u32 \<Rightarrow> ('w, goerr + hash) prog" where
  "IValidatorManagerTransactor_CompleteEndValidation c opts messageIndex =
     contract_transact c opts ''completeEndValidation'' [GUint 32 (unat messageIndex)]"

definition IValidatorManagerSession_CompleteEndValidation ::
  "'w session \<Rightarrow> u32 \<Rightarrow> ('w, goerr + hash) prog" where
  "IValidatorManagerSession_CompleteEndValidation s messageIndex =
     IValidatorManagerTransactor_CompleteEndValidation (SessionContract s) (SessionTransactOpts
     s) messageIndex"

definition IValidatorManagerTransactor_CompleteValidatorRegistration ::
  "'w bound_contract \<Rightarrow> TransactOpts \<Rightarrow> u32 \<Rightarrow> ('w, goerr + hash) prog" where
  "IValidatorManagerTransactor_CompleteValidatorRegistration c opts messageIndex =
     contract_transact c opts ''completeValidatorRegistration'' [GUint 32 (unat messageIndex)]"

definition IValidatorManagerSession_CompleteValidatorRegistration ::
  "'w session \<Rightarrow> u32 \<Rightarrow> ('w, goerr + hash) prog" where
  "IValidatorManagerSession_CompleteValidatorRegistration s messageIndex =
     IValidatorManagerTransactor_CompleteValidatorRegistration (SessionContract s)
     (SessionTransactOpts s) messageIndex"

definition IValidatorManagerTransactor_InitializeValidatorSet ::
  "'w bound_contract \<Rightarrow> TransactOpts \<Rightarrow> ConversionData \<Rightarrow> u32 \<Rightarrow> ('w, goerr + hash) prog" where
  "IValidatorManagerTransactor_InitializeValidatorSet c opts conversionData messsageIndex =
     contract_transact c opts ''initializeValidatorSet'' [ConversionData_val conversionData,
        GUint 32 (unat messsageIndex)]"

definition IValidatorManagerSession_InitializeValidatorSet ::
  "'w session \<Rightarrow> ConversionData \<Rightarrow> u32 \<Rightarrow> ('w, goerr + hash) prog" where
  "IValidatorManagerSession_InitializeValidatorSet s conversionData messsageIndex =
     IValidatorManagerTransactor_InitializeValidatorSet (SessionContract s) (SessionTransactOpts
     s) conversionData messsageIndex"

definition IValidatorManagerTransactor_ResendEndValidatorMessage ::
  "'w bound_contract \<Rightarrow> TransactOpts \<Rightarrow> hash \<Rightarrow> ('w, goerr + hash) prog" where
  "IValidatorManagerTransactor_ResendEndValidatorMessage c opts validationID =
     contract_transact c opts ''resendEndValidatorMessage'' [GArr32 validationID]"

definition IValidatorManagerSession_ResendEndValidatorMessage ::
  "'w session \<Rightarrow> hash \<Rightarrow> ('w, goerr + hash) prog" where
  "IValidatorManagerSession_ResendEndValidatorMessage s validationID =
     IValidatorManagerTransactor_ResendEndValidatorMessage (SessionContract s)
     (SessionTransactOpts s) validationID"

definition IValidatorManagerTransactor_ResendRegisterValidatorMessage ::
  "'w bound_contract \<Rightarrow> TransactOpts \<Rightarrow> hash \<Rightarrow> ('w, goerr + hash) prog" where
  "IValidatorManagerTransactor_ResendRegisterValidatorMessage c opts validationID =
     contract_transact c opts ''resendRegisterValidatorMessage'' [GArr32 validationID]"

definition IValidatorManagerSession_ResendRegisterValidatorMessage ::
  "'w session \<Rightarrow> hash \<Rightarrow> ('w, goerr + hash) prog" where
  "IValidatorManagerSession_ResendRegisterValidatorMessage s validationID =
     IValidatorManagerTransactor_ResendRegisterValidatorMessage (SessionContract s)
     (SessionTransactOpts s) validationID"

section \<open>Events\<close>

definition IValidatorManagerInitialValidatorCreated :: event_fields where
  "IValidatorManagerInitialValidatorCreated = [(''ValidationID'', GArr32 0), (''Weight'', GUint
     64 0), (''NodeID'', GNil), (''Raw'', zero_Log)]"

definition IValidatorManagerInitialValidatorCreatedIterator_Next ::
  "'w bound_contract \<Rightarrow> bool \<Rightarrow> iterator \<Rightarrow> (bool \<times> iterator) option" where
  "IValidatorManagerInitialValidatorCreatedIterator_Next c pick it = iterator_Next (parse_log c
     ''InitialValidatorCreated'' IValidatorManagerInitialValidatorCreated)
     IValidatorManagerInitialValidatorCreated pick it"

definition IValidatorManagerInitialValidatorCreatedIterator_Error :: "iterator \<Rightarrow> goerr option"
   where
  "IValidatorManagerInitialValidatorCreatedIterator_Error it = iterator_Error it"

definition IValidatorManagerInitialValidatorCreatedIterator_Close :: "iterator \<Rightarrow> goerr option \<times>
   iterator" where
  "IValidatorManagerInitialValidatorCreatedIterator_Close it = iterator_Close it"

definition IValidatorManagerFilterer_FilterInitialValidatorCreated ::
  "'w bound_contract \<Rightarrow> FilterOpts \<Rightarrow> hash list \<Rightarrow> ('w, goerr + iterator) prog" where
  "IValidatorManagerFilterer_FilterInitialValidatorCreated c opts validationID =
     filter_events c opts ''InitialValidatorCreated'' [map GArr32 validationID]"

definition IValidatorManagerFilterer_WatchInitialValidatorCreated ::
  "'w bound_contract \<Rightarrow> hash list \<Rightarrow> ('w, goerr + (evm_log \<Rightarrow> goerr + event_fields)) prog" where
  "IValidatorManagerFilterer_WatchInitialValidatorCreated c validationID =
     watch_events c ''InitialValidatorCreated'' IValidatorManagerInitialValidatorCreated [map
        GArr32 validationID]"

definition IValidatorManagerFilterer_ParseInitialValidatorCreated ::
  "'w bound_contract \<Rightarrow> evm_log \<Rightarrow> goerr + event_fields" where
  "IValidatorManagerFilterer_ParseInitialValidatorCreated c = parse_log c
     ''InitialValidatorCreated'' IValidatorManagerInitialValidatorCreated"

definition IValidatorManagerValidationPeriodCreated :: event_fields where
  "IValidatorManagerValidationPeriodCreated = [(''ValidationID'', GArr32 0),
     (''RegisterValidationMessageID'', GArr32 0), (''Weight'', GUint 64 0), (''NodeID'', GNil),
     (''RegistrationExpiry'', GUint 64 0), (''Raw'', zero_Log)]"

definition IValidatorManagerValidationPeriodCreatedIterator_Next ::
  "'w bound_contract \<Rightarrow> bool \<Rightarrow> iterator \<Rightarrow> (bool \<times> iterator) option" where
  "IValidatorManagerValidationPeriodCreatedIterator_Next c pick it = iterator_Next (parse_log c
     ''ValidationPeriodCreated'' IValidatorManagerValidationPeriodCreated)
     IValidatorManagerValidationPeriodCreated pick it"

definition IValidatorManagerValidationPeriodCreatedIterator_Error :: "iterator \<Rightarrow> goerr option"
   where
  "IValidatorManagerValidationPeriodCreatedIterator_Error it = iterator_Error it"

definition IValidatorManagerValidationPeriodCreatedIterator_Close :: "iterator \<Rightarrow> goerr option \<times>
   iterator" where
  "IValidatorManagerValidationPeriodCreatedIterator_Close it = iterator_Close it"

definition IValidatorManagerFilterer_FilterValidationPeriodCreated ::
  "'w bound_contract \<Rightarrow> FilterOpts \<Rightarrow> hash list \<Rightarrow> hash list \<Rightarrow> ('w, goerr + iterator) prog" where
  "IValidatorManagerFilterer_FilterValidationPeriodCreated c opts validationID
     registerValidationMessageID =
     filter_events c opts ''ValidationPeriodCreated'' [map GArr32 validationID, map GArr32
        registerValidationMessageID]"

definition IValidatorManagerFilterer_WatchValidationPeriodCreated ::
  "'w bound_contract \<Rightarrow> hash list \<Rightarrow> hash list \<Rightarrow> ('w, goerr + (evm_log \<Rightarrow> goerr + event_fields))
     prog" where
  "IValidatorManagerFilterer_WatchValidationPeriodCreated c validationID
     registerValidationMessageID =
     watch_events c ''ValidationPeriodCreated'' IValidatorManagerValidationPeriodCreated [map
        GArr32 validationID, map GArr32 registerValidationMessageID]"

definition IValidatorManagerFilterer_ParseValidationPeriodCreated ::
  "'w bound_contract \<Rightarrow> evm_log \<Rightarrow> goerr + event_fields" where
  "IValidatorManagerFilterer_ParseValidationPeriodCreated c = parse_log c
     ''ValidationPeriodCreated'' IValidatorManagerValidationPeriodCreated"

definition IValidatorManagerValidationPeriodEnded :: event_fields where
  "IValidatorManagerValidationPeriodEnded = [(''ValidationID'', GArr32 0), (''Status'', GUint 8
     0), (''Raw'', zero_Log)]"

definition IValidatorManagerValidationPeriodEndedIterator_Next ::
  "'w bound_contract \<Rightarrow> bool \<Rightarrow> iterator \<Rightarrow> (bool \<times> iterator) option" where
  "IValidatorManagerValidationPeriodEndedIterator_Next c pick it = iterator_Next (parse_log c
     ''ValidationPeriodEnded'' IValidatorManagerValidationPeriodEnded)
     IValidatorManagerValidationPeriodEnded pick it"

definition IValidatorManagerValidationPeriodEndedIterator_Error :: "iterator \<Rightarrow> goerr option"
   where
  "IValidatorManagerValidationPeriodEndedIterator_Error it = iterator_Error it"

definition IValidatorManagerValidationPeriodEndedIterator_Close :: "iterator \<Rightarrow> goerr option \<times>
   iterator" where
  "IValidatorManagerValidationPeriodEndedIterator_Close it = iterator_Close it"

definition IValidatorManagerFilterer_FilterValidationPeriodEnded ::
  "'w bound_contract \<Rightarrow> FilterOpts \<Rightarrow> hash list \<Rightarrow> u8 list \<Rightarrow> ('w, goerr + iterator) prog" where
  "IValidatorManagerFilterer_FilterValidationPeriodEnded c opts validationID status =
     filter_events c opts ''ValidationPeriodEnded'' [map GArr32 validationID, map (\<lambda>x. GUint 8
        (unat x)) status]"

definition IValidatorManagerFilterer_WatchValidationPeriodEnded ::
  "'w bound_contract \<Rightarrow> hash list \<Rightarrow> u8 list \<Rightarrow> ('w, goerr + (evm_log \<Rightarrow> goerr + event_fields))
     prog" where
  "IValidatorManagerFilterer_WatchValidationPeriodEnded c validationID status =
     watch_events c ''ValidationPeriodEnded'' IValidatorManagerValidationPeriodEnded [map GArr32
        validationID, map (\<lambda>x. GUint 8 (unat x)) status]"

definition IValidatorManagerFilterer_ParseValidationPeriodEnded ::
  "'w bound_contract \<Rightarrow> evm_log \<Rightarrow> goerr + event_fields" where
  "IValidatorManagerFilterer_ParseValidationPeriodEnded c = parse_log c
     ''ValidationPeriodEnded'' IValidatorManagerValidationPeriodEnded"

definition IValidatorManagerValidationPeriodRegistered :: event_fields where
  "IValidatorManagerValidationPeriodRegistered = [(''ValidationID'', GArr32 0), (''Weight'',
     GUint 64 0), (''Timestamp'', GNil), (''Raw'', zero_Log)]"

definition IValidatorManagerValidationPeriodRegisteredIterator_Next ::
  "'w bound_contract \<Rightarrow> bool \<Rightarrow> iterator \<Rightarrow> (bool \<times> iterator) option" where
  "IValidatorManagerValidationPeriodRegisteredIterator_Next c pick it = iterator_Next (parse_log
     c ''ValidationPeriodRegistered'' IValidatorManagerValidationPeriodRegistered)
     IValidatorManagerValidationPeriodRegistered pick it"

definition IValidatorManagerValidationPeriodRegisteredIterator_Error :: "iterator \<Rightarrow> goerr
   option" where
  "IValidatorManagerValidationPeriodRegisteredIterator_Error it = iterator_Error it"

definition IValidatorManagerValidationPeriodRegisteredIterator_Close :: "iterator \<Rightarrow> goerr option
   \<times> iterator" where
  "IValidatorManagerValidationPeriodRegisteredIterator_Close it = iterator_Close it"

definition IValidatorManagerFilterer_FilterValidationPeriodRegistered ::
  "'w bound_contract \<Rightarrow> FilterOpts \<Rightarrow> hash list \<Rightarrow> ('w, goerr + iterator) prog" where
  "IValidatorManagerFilterer_FilterValidationPeriodRegistered c opts validationID =
     filter_events c opts ''ValidationPeriodRegistered'' [map GArr32 validationID]"

definition IValidatorManagerFilterer_WatchValidationPeriodRegistered ::
  "'w bound_contract \<Rightarrow> hash list \<Rightarrow> ('w, goerr + (evm_log \<Rightarrow> goerr + event_fields)) prog" where
  "IValidatorManagerFilterer_WatchValidationPeriodRegistered c validationID =
     watch_events c ''ValidationPeriodRegistered'' IValidatorManagerValidationPeriodRegistered
        [map GArr32 validationID]"

definition IValidatorManagerFilterer_ParseValidationPeriodRegistered ::
  "'w bound_contract \<Rightarrow> evm_log \<Rightarrow> goerr + event_fields" where
  "IValidatorManagerFilterer_ParseValidationPeriodRegistered c = parse_log c
     ''ValidationPeriodRegistered'' IValidatorManagerValidationPeriodRegistered"

definition IValidatorManagerValidatorRemovalInitialized :: event_fields where
  "IValidatorManagerValidatorRemovalInitialized = [(''ValidationID'', GArr32 0),
     (''SetWeightMessageID'', GArr32 0), (''Weight'', GUint 64 0), (''EndTime'', GNil),
     (''Raw'', zero_Log)]"

definition IValidatorManagerValidatorRemovalInitializedIterator_Next ::
  "'w bound_contract \<Rightarrow> bool \<Rightarrow> iterator \<Rightarrow> (bool \<times> iterator) option" where
  "IValidatorManagerValidatorRemovalInitializedIterator_Next c pick it = iterator_Next
     (parse_log c ''ValidatorRemovalInitialized'' IValidatorManagerValidatorRemovalInitialized)
     IValidatorManagerValidatorRemovalInitialized pick it"

definition IValidatorManagerValidatorRemovalInitializedIterator_Error :: "iterator \<Rightarrow> goerr
   option" where
  "IValidatorManagerValidatorRemovalInitializedIterator_Error it = iterator_Error it"

definition IValidatorManagerValidatorRemovalInitializedIterator_Close :: "iterator \<Rightarrow> goerr
   option \<times> iterator" where
  "IValidatorManagerValidatorRemovalInitializedIterator_Close it = iterator_Close it"

definition IValidatorManagerFilterer_FilterValidatorRemovalInitialized ::
  "'w bound_contract \<Rightarrow> FilterOpts \<Rightarrow> hash list \<Rightarrow> hash list \<Rightarrow> ('w, goerr + iterator) prog" where
  "IValidatorManagerFilterer_FilterValidatorRemovalInitialized c opts validationID
     setWeightMessageID =
     filter_events c opts ''ValidatorRemovalInitialized'' [map GArr32 validationID, map GArr32
        setWeightMessageID]"

definition IValidatorManagerFilterer_WatchValidatorRemovalInitialized ::
  "'w bound_contract \<Rightarrow> hash list \<Rightarrow> hash list \<Rightarrow> ('w, goerr + (evm_log \<Rightarrow> goerr + event_fields))
     prog" where
  "IValidatorManagerFilterer_WatchValidatorRemovalInitialized c validationID setWeightMessageID
     =
     watch_events c ''ValidatorRemovalInitialized'' IValidatorManagerValidatorRemovalInitialized
        [map GArr32 validationID, map GArr32 setWeightMessageID]"

definition IValidatorManagerFilterer_ParseValidatorRemovalInitialized ::
  "'w bound_contract \<Rightarrow> evm_log \<Rightarrow> goerr + event_fields" where
  "IValidatorManagerFilterer_ParseValidatorRemovalInitialized c = parse_log c
     ''ValidatorRemovalInitialized'' IValidatorManagerValidatorRemovalInitialized"

definition IValidatorManagerValidatorWeightUpdate :: event_fields where
  "IValidatorManagerValidatorWeightUpdate = [(''ValidationID'', GArr32 0), (''Nonce'', GUint 64
     0), (''Weight'', GUint 64 0), (''SetWeightMessageID'', GArr32 0), (''Raw'', zero_Log)]"

definition IValidatorManagerValidatorWeightUpdateIterator_Next ::
  "'w bound_contract \<Rightarrow> bool \<Rightarrow> iterator \<Rightarrow> (bool \<times> iterator) option" where
  "IValidatorManagerValidatorWeightUpdateIterator_Next c pick it = iterator_Next (parse_log c
     ''ValidatorWeightUpdate'' IValidatorManagerValidatorWeightUpdate)
     IValidatorManagerValidatorWeightUpdate pick it"

definition IValidatorManagerValidatorWeightUpdateIterator_Error :: "iterator \<Rightarrow> goerr option"
   where
  "IValidatorManagerValidatorWeightUpdateIterator_Error it = iterator_Error it"

definition IValidatorManagerValidatorWeightUpdateIterator_Close :: "iterator \<Rightarrow> goerr option \<times>
   iterator" where
  "IValidatorManagerValidatorWeightUpdateIterator_Close it = iterator_Close it"

definition IValidatorManagerFilterer_FilterValidatorWeightUpdate ::
  "'w bound_contract \<Rightarrow> FilterOpts \<Rightarrow> hash list \<Rightarrow> u64 list \<Rightarrow> ('w, goerr + iterator) prog" where
  "IValidatorManagerFilterer_FilterValidatorWeightUpdate c opts validationID nonce =
     filter_events c opts ''ValidatorWeightUpdate'' [map GArr32 validationID, map (\<lambda>x. GUint 64
        (unat x)) nonce]"

definition IValidatorManagerFilterer_WatchValidatorWeightUpdate ::
  "'w bound_contract \<Rightarrow> hash list \<Rightarrow> u64 list \<Rightarrow> ('w, goerr + (evm_log \<Rightarrow> goerr + event_fields))
     prog" where
  "IValidatorManagerFilterer_WatchValidatorWeightUpdate c validationID nonce =
     watch_events c ''ValidatorWeightUpdate'' IValidatorManagerValidatorWeightUpdate [map GArr32
        validationID, map (\<lambda>x. GUint 64 (unat x)) nonce]"

definition IValidatorManagerFilterer_ParseValidatorWeightUpdate ::
  "'w bound_contract \<Rightarrow> evm_log \<Rightarrow> goerr + event_fields" where
  "IValidatorManagerFilterer_ParseValidatorWeightUpdate c = parse_log c
     ''ValidatorWeightUpdate'' IValidatorManagerValidatorWeightUpdate"

section \<open>Correctness\<close>

lemma IValidatorManager_methods:
  "map_of (Methods IValidatorManagerABI) ''completeEndValidation'' =
     Some ([(''messageIndex'', TUint 32)], [])"
  "map_of (Methods IValidatorManagerABI) ''completeValidatorRegistration'' =
     Some ([(''messageIndex'', TUint 32)], [])"
  "map_of (Methods IValidatorManagerABI) ''initializeValidatorSet'' =
     Some ([(''conversionData'', ConversionData_tuple), (''messsageIndex'', TUint 32)], [])"
  "map_of (Methods IValidatorManagerABI) ''resendEndValidatorMessage'' =
     Some ([(''validationID'', TBytes32)], [])"
  "map_of (Methods IValidatorManagerABI) ''resendRegisterValidatorMessage'' =
     Some ([(''validationID'', TBytes32)], [])"
  unfolding IValidatorManagerABI_def contract_abi.select_convs
  by (simp_all only: table_lookup)

lemma IValidatorManager_decodable:
  "decodable [(''validationID'', TBytes32, True), (''weight'', TUint 64, False), (''nodeID'',
     TBytes, False)]
     IValidatorManagerInitialValidatorCreated"
  "decodable [(''validationID'', TBytes32, True), (''registerValidationMessageID'', TBytes32,
     True), (''weight'', TUint 64, False), (''nodeID'', TBytes, False), (''registrationExpiry'',
     TUint 64, False)]
     IValidatorManagerValidationPeriodCreated"
  "decodable [(''validationID'', TBytes32, True), (''status'', TUint 8, True)]
     IValidatorManagerValidationPeriodEnded"
  "decodable [(''validationID'', TBytes32, True), (''weight'', TUint 64, False), (''timestamp'',
     TUint 256, False)]
     IValidatorManagerValidationPeriodRegistered"
  "decodable [(''validationID'', TBytes32, True), (''setWeightMessageID'', TBytes32, True),
     (''weight'', TUint 64, False), (''endTime'', TUint 256, False)]
     IValidatorManagerValidatorRemovalInitialized"
  "decodable [(''validationID'', TBytes32, True), (''nonce'', TUint 64, True), (''weight'',
     TUint 64, False), (''setWeightMessageID'', TBytes32, False)]
     IValidatorManagerValidatorWeightUpdate"
  by (simp_all add: decodable_def has_fields_def fits_def
     IValidatorManagerInitialValidatorCreated_def IValidatorManagerValidationPeriodCreated_def
     IValidatorManagerValidationPeriodEnded_def IValidatorManagerValidationPeriodRegistered_def
     IValidatorManagerValidatorRemovalInitialized_def IValidatorManagerValidatorWeightUpdate_def
     )

lemma IValidatorManager_events:
  "map_of (Events IValidatorManagerABI) ''InitialValidatorCreated'' =
     Some [(''validationID'', TBytes32, True), (''weight'', TUint 64, False), (''nodeID'',
        TBytes, False)]"
  "map_of (Events IValidatorManagerABI) ''ValidationPeriodCreated'' =
     Some [(''validationID'', TBytes32, True), (''registerValidationMessageID'', TBytes32,
        True), (''weight'', TUint 64, False), (''nodeID'', TBytes, False),
        (''registrationExpiry'', TUint 64, False)]"
  "map_of (Events IValidatorManagerABI) ''ValidationPeriodEnded'' =
     Some [(''validationID'', TBytes32, True), (''status'', TUint 8, True)]"
  "map_of (Events IValidatorManagerABI) ''ValidationPeriodRegistered'' =
     Some [(''validationID'', TBytes32, True), (''weight'', TUint 64, False), (''timestamp'',
        TUint 256, False)]"
  "map_of (Events IValidatorManagerABI) ''ValidatorRemovalInitialized'' =
     Some [(''validationID'', TBytes32, True), (''setWeightMessageID'', TBytes32, True),
        (''weight'', TUint 64, False), (''endTime'', TUint 256, False)]"
  "map_of (Events IValidatorManagerABI) ''ValidatorWeightUpdate'' =
     Some [(''validationID'', TBytes32, True), (''nonce'', TUint 64, True), (''weight'', TUint
        64, False), (''setWeightMessageID'', TBytes32, False)]"
  unfolding IValidatorManagerABI_def contract_abi.select_convs
  by (simp_all only: table_lookup)

lemma IValidatorManager_transactions_decode:
  assumes "codec_methods k" and "codec_roundtrip k" and "bound_spec k IValidatorManagerABI be c"
  shows "(\<forall>messageIndex. sends_call k IValidatorManagerABI be opts ''completeEndValidation''
     [GUint 32 (unat messageIndex)]
       (IValidatorManagerTransactor_CompleteEndValidation c opts messageIndex)) \<and>
     (\<forall>messageIndex. sends_call k IValidatorManagerABI be opts ''completeValidatorRegistration''
        [GUint 32 (unat messageIndex)]
       (IValidatorManagerTransactor_CompleteValidatorRegistration c opts messageIndex)) \<and>
     (\<forall>conversionData messsageIndex. sends_call k IValidatorManagerABI be opts
        ''initializeValidatorSet'' [ConversionData_val conversionData, GUint 32 (unat
        messsageIndex)]
       (IValidatorManagerTransactor_InitializeValidatorSet c opts conversionData messsageIndex))
          \<and>
     (\<forall>validationID. sends_call k IValidatorManagerABI be opts ''resendEndValidatorMessage''
        [GArr32 validationID]
       (IValidatorManagerTransactor_ResendEndValidatorMessage c opts validationID)) \<and>
     (\<forall>validationID. sends_call k IValidatorManagerABI be opts
        ''resendRegisterValidatorMessage'' [GArr32 validationID]
       (IValidatorManagerTransactor_ResendRegisterValidatorMessage c opts validationID))"
  unfolding IValidatorManagerTransactor_CompleteEndValidation_def
     IValidatorManagerTransactor_CompleteValidatorRegistration_def
     IValidatorManagerTransactor_InitializeValidatorSet_def
     IValidatorManagerTransactor_ResendEndValidatorMessage_def
     IValidatorManagerTransactor_ResendRegisterValidatorMessage_def
  by ((intro conjI allI impI)?; rule transact_sends [OF assms], rule IValidatorManager_methods)
    (simp_all del: matches.simps(1))

lemma IValidatorManager_parsers_decode:
  assumes "codec_events k" and "event_ids k IValidatorManagerABI" and "bound_spec k
     IValidatorManagerABI be c"
  shows "parser_decodes k IValidatorManagerABI ''InitialValidatorCreated''
     (IValidatorManagerFilterer_ParseInitialValidatorCreated c) \<and>
     parser_decodes k IValidatorManagerABI ''ValidationPeriodCreated''
        (IValidatorManagerFilterer_ParseValidationPeriodCreated c) \<and>
     parser_decodes k IValidatorManagerABI ''ValidationPeriodEnded''
        (IValidatorManagerFilterer_ParseValidationPeriodEnded c) \<and>
     parser_decodes k IValidatorManagerABI ''ValidationPeriodRegistered''
        (IValidatorManagerFilterer_ParseValidationPeriodRegistered c) \<and>
     parser_decodes k IValidatorManagerABI ''ValidatorRemovalInitialized''
        (IValidatorManagerFilterer_ParseValidatorRemovalInitialized c) \<and>
     parser_decodes k IValidatorManagerABI ''ValidatorWeightUpdate''
        (IValidatorManagerFilterer_ParseValidatorWeightUpdate c)"
proof -
  note parses = parse_log_decodes [OF assms]
  show ?thesis
    unfolding IValidatorManagerFilterer_ParseInitialValidatorCreated_def
       IValidatorManagerFilterer_ParseValidationPeriodCreated_def
       IValidatorManagerFilterer_ParseValidationPeriodEnded_def
       IValidatorManagerFilterer_ParseValidationPeriodRegistered_def
       IValidatorManagerFilterer_ParseValidatorRemovalInitialized_def
       IValidatorManagerFilterer_ParseValidatorWeightUpdate_def
    by ((intro conjI)?; rule parses, rule IValidatorManager_events, rule
       IValidatorManager_decodable)
qed

end
