(* ===== verification/IPoSValidatorManagerBinding.thy ===== *)
theory IPoSValidatorManagerBinding
  imports ManagerStructs
begin

text \<open>
  The generated binding \<open>abi-bindings/go/validator-manager/interfaces/IPoSValidatorManager/IPoSValidatorManager.go\<close> over the generic
  definitions of theory \<open>Binding\<close>: its ABI, every method with its session wrappers, every event with
  its iterator, filter, watch and parser. The bytecode is a parameter of deployment; the aliases
  \<open>Raw\<close> of the untyped calls are not modelled.
\<close>

section \<open>The contract's ABI (IPoSValidatorManagerMetaData)\<close>

definition IPoSValidatorManagerABI :: contract_abi where
  "IPoSValidatorManagerABI = \<lparr>
      Methods = [
        (''changeDelegatorRewardRecipient'', [(''delegationID'', TBytes32), (''recipient'',
           TAddress)],
           []),
        (''changeValidatorRewardRecipient'', [(''validationID'', TBytes32), (''recipient'',
           TAddress)],
           []),
        (''claimDelegationFees'', [(''validationID'', TBytes32)],
           []),
        (''completeDelegatorRegistration'', [(''delegationID'', TBytes32), (''messageIndex'',
           TUint 32)],
           []),
        (''completeEndDelegation'', [(''delegationID'', TBytes32), (''messageIndex'', TUint
           32)],
           []),
        (''completeEndValidation'', [(''messageIndex'', TUint 32)],
           []),
        (''completeValidatorRegistration'', [(''messageIndex'', TUint 32)],
           []),
        (''forceInitializeEndDelegation'', [(''delegationID'', TBytes32),
           (''includeUptimeProof'', TBool), (''messageIndex'', TUint 32)],
           []),
        (''forceInitializeEndDelegation0'', [(''delegationID'', TBytes32),
           (''includeUptimeProof'', TBool), (''messageIndex'', TUint 32), (''recipientAddress'',
           TAddress)],
           []),
        (''forceInitializeEndValidation'', [(''validationID'', TBytes32),
           (''includeUptimeProof'', TBool), (''messageIndex'', TUint 32)],
           []),
        (''forceInitializeEndValidation0'', [(''validationID'', TBytes32),
           (''includeUptimeProof'', TBool), (''messageIndex'', TUint 32), (''recipientAddress'',
           TAddress)],
           []),
        (''initializeEndDelegation'', [(''delegationID'', TBytes32), (''includeUptimeProof'',
           TBool), (''messageIndex'', TUint 32)],
           []),
        (''initializeEndDelegation0'', [(''delegationID'', TBytes32), (''includeUptimeProof'',
           TBool), (''messageIndex'', TUint 32), (''recipientAddress'', TAddress)],
           []),
        (''initializeEndValidation'', [(''validationID'', TBytes32), (''includeUptimeProof'',
           TBool), (''messageIndex'', TUint 32), (''recipientAddress'', TAddress)],
           []),
        (''initializeEndValidation0'', [(''validationID'', TBytes32), (''includeUptimeProof'',
           TBool), (''messageIndex'', TUint 32)],
           []),
        (''initializeValidatorSet'', [(''conversionData'', ConversionData_tuple),
           (''messsageIndex'', TUint 32)],
           []),
        (''resendEndValidatorMessage'', [(''validationID'', TBytes32)],
           []),
        (''resendRegisterValidatorMessage'', [(''validationID'', TBytes32)],
           []),
        (''resendUpdateDelegation'', [(''delegationID'', TBytes32)],
           []),
        (''submitUptimeProof'', [(''validationID'', TBytes32), (''messageIndex'', TUint 32)],
           [])],
      Events = [
        (''DelegationEnded'', [(''delegationID'', TBytes32, True), (''validationID'', TBytes32,
           True), (''rewards'', TUint 256, False), (''fees'', TUint 256, False)]),
        (''DelegatorAdded'', [(''delegationID'', TBytes32, True), (''validationID'', TBytes32,
           True), (''delegatorAddress'', TAddress, True), (''nonce'', TUint 64, False),
           (''validatorWeight'', TUint 64, False), (''delegatorWeight'', TUint 64, False),
           (''setWeightMessageID'', TBytes32, False)]),
        (''DelegatorRegistered'', [(''delegationID'', TBytes32, True), (''validationID'',
           TBytes32, True), (''startTime'', TUint 256, False)]),
        (''DelegatorRemovalInitialized'', [(''delegationID'', TBytes32, True),
           (''validationID'', TBytes32, True)]),
        (''InitialValidatorCreated'', [(''validationID'', TBytes32, True), (''weight'', TUint
           64, False), (''nodeID'', TBytes, False)]),
        (''UptimeUpdated'', [(''validationID'', TBytes32, True), (''uptime'', TUint 64,
           False)]),
        (''ValidationPeriodCreated'', [(''validationID'', TBytes32, True),
           (''registerValidationMessageID'', TBytes32, True), (''weight'', TUint 64, False),
           (''nodeID'', TBytes, False), (''registrationExpiry'', TUint 64, False)]),
        (''ValidationPeriodEnded'', [(''validationID'', TBytes32, True), (''status'', TUint 8,
           True)]),
        (''ValidationPeriodRegistered'', [(''validationID'', TBytes32, True), (''weight'', TUint
           64, False), (''timestamp'', TUint 256, False)]),
        (''ValidatorRemovalInitialized'', [(''validationID'', TBytes32, True),
           (''setWeightMessageID'', TBytes32, True), (''weight'', TUint 64, False),
           (''endTime'', TUint 256, False)]),
        (''ValidatorWeightUpdate'', [(''validationID'', TBytes32, True), (''nonce'', TUint 64,
           True), (''weight'', TUint 64, False), (''setWeightMessageID'', TBytes32, False)])]\<rparr>"

section \<open>Binding and deployment\<close>

definition bindIPoSValidatorManager :: "'w bind_lib \<Rightarrow> address \<Rightarrow> goerr + 'w bound_contract" where
  "bindIPoSValidatorManager lib addr = bind_contract lib IPoSValidatorManagerABI addr"

definition NewIPoSValidatorManager :: "'w bind_lib \<Rightarrow> address \<Rightarrow> goerr + 'w bound_contract" where
  "NewIPoSValidatorManager lib addr = bindIPoSValidatorManager lib addr"

section \<open>Methods\<close>

definition IPoSValidatorManagerTransactor_ChangeDelegatorRewardRecipient ::
  "'w bound_contract \<Rightarrow> TransactOpts \<Rightarrow> hash \<Rightarrow> address \<Rightarrow> ('w, goerr + hash) prog" where
  "IPoSValidatorManagerTransactor_ChangeDelegatorRewardRecipient c opts delegationID recipient =
     contract_transact c opts ''changeDelegatorRewardRecipient'' [GArr32 delegationID, GAddr
        recipient]"

definition IPoSValidatorManagerSession_ChangeDelegatorRewardRecipient ::
  "'w session \<Rightarrow> hash \<Rightarrow> address \<Rightarrow> ('w, goerr + hash) prog" where
  "IPoSValidatorManagerSession_ChangeDelegatorRewardRecipient s delegationID recipient =
     IPoSValidatorManagerTransactor_ChangeDelegatorRewardRecipient (SessionContract s)
     (SessionTransactOpts s) delegationID recipient"

definition IPoSValidatorManagerTransactor_ChangeValidatorRewardRecipient ::
  "'w bound_contract \<Rightarrow> TransactOpts \<Rightarrow> hash \<Rightarrow> address \<Rightarrow> ('w, goerr + hash) prog" where
  "IPoSValidatorManagerTransactor_ChangeValidatorRewardRecipient c opts validationID recipient =
     contract_transact c opts ''changeValidatorRewardRecipient'' [GArr32 validationID, GAddr
        recipient]"

definition IPoSValidatorManagerSession_ChangeValidatorRewardRecipient ::
  "'w session \<Rightarrow> hash \<Rightarrow> address \<Rightarrow> ('w, goerr + hash) prog" where
  "IPoSValidatorManagerSession_ChangeValidatorRewardRecipient s validationID recipient =
     IPoSValidatorManagerTransactor_ChangeValidatorRewardRecipient (SessionContract s)
     (SessionTransactOpts s) validationID recipient"

definition IPoSValidatorManagerTransactor_ClaimDelegationFees ::
  "'w bound_contract \<Rightarrow> TransactOpts \<Rightarrow> hash \<Rightarrow> ('w, goerr + hash) prog" where
  "IPoSValidatorManagerTransactor_ClaimDelegationFees c opts validationID =
     contract_transact c opts ''claimDelegationFees'' [GArr32 validationID]"

definition IPoSValidatorManagerSession_ClaimDelegationFees ::
  "'w session \<Rightarrow> hash \<Rightarrow> ('w, goerr + hash) prog" where
  "IPoSValidatorManagerSession_ClaimDelegationFees s validationID =
     IPoSValidatorManagerTransactor_ClaimDelegationFees (SessionContract s) (SessionTransactOpts
     s) validationID"

definition IPoSValidatorManagerTransactor_CompleteDelegatorRegistration ::
  "'w bound_contract \<Rightarrow> TransactOpts \<Rightarrow> hash \<Rightarrow> u32 \<Rightarrow> ('w, goerr + hash) prog" where
  "IPoSValidatorManagerTransactor_CompleteDelegatorRegistration c opts delegationID messageIndex
     =
     contract_transact c opts ''completeDelegatorRegistration'' [GArr32 delegationID, GUint 32
        (unat messageIndex)]"

definition IPoSValidatorManagerSession_CompleteDelegatorRegistration ::
  "'w session \<Rightarrow> hash \<Rightarrow> u32 \<Rightarrow> ('w, goerr + hash) prog" where
  "IPoSValidatorManagerSession_CompleteDelegatorRegistration s delegationID messageIndex =
     IPoSValidatorManagerTransactor_CompleteDelegatorRegistration (SessionContract s)
     (SessionTransactOpts s) delegationID messageIndex"

definition IPoSValidatorManagerTransactor_CompleteEndDelegation ::
  "'w bound_contract \<Rightarrow> TransactOpts \<Rightarrow> hash \<Rightarrow> u32 \<Rightarrow> ('w, goerr + hash) prog" where
  "IPoSValidatorManagerTransactor_CompleteEndDelegation c opts delegationID messageIndex =
     contract_transact c opts ''completeEndDelegation'' [GArr32 delegationID, GUint 32 (unat
        messageIndex)]"

definition IPoSValidatorManagerSession_CompleteEndDelegation ::
  "'w session \<Rightarrow> hash \<Rightarrow> u32 \<Rightarrow> ('w, goerr + hash) prog" where
  "IPoSValidatorManagerSession_CompleteEndDelegation s delegationID messageIndex =
     IPoSValidatorManagerTransactor_CompleteEndDelegation (SessionContract s)
     (SessionTransactOpts s) delegationID messageIndex"

definition IPoSValidatorManagerTransactor_CompleteEndValidation ::
  "'w bound_contract \<Rightarrow> TransactOpts \<Rightarrow> u32 \<Rightarrow> ('w, goerr + hash) prog" where
  "IPoSValidatorManagerTransactor_CompleteEndValidation c opts messageIndex =
     contract_transact c opts ''completeEndValidation'' [GUint 32 (unat messageIndex)]"

definition IPoSValidatorManagerSession_CompleteEndValidation ::
  "'w session \<Rightarrow> u32 \<Rightarrow> ('w, goerr + hash) prog" where
  "IPoSValidatorManagerSession_CompleteEndValidation s messageIndex =
     IPoSValidatorManagerTransactor_CompleteEndValidation (SessionContract s)
     (SessionTransactOpts s) messageIndex"

definition IPoSValidatorManagerTransactor_CompleteValidatorRegistration ::
  "'w bound_contract \<Rightarrow> TransactOpts \<Rightarrow> u32 \<Rightarrow> ('w, goerr + hash) prog" where
  "IPoSValidatorManagerTransactor_CompleteValidatorRegistration c opts messageIndex =
     contract_transact c opts ''completeValidatorRegistration'' [GUint 32 (unat messageIndex)]"

definition IPoSValidatorManagerSession_CompleteValidatorRegistration ::
  "'w session \<Rightarrow> u32 \<Rightarrow> ('w, goerr + hash) prog" where
  "IPoSValidatorManagerSession_CompleteValidatorRegistration s messageIndex =
     IPoSValidatorManagerTransactor_CompleteValidatorRegistration (SessionContract s)
     (SessionTransactOpts s) messageIndex"

definition IPoSValidatorManagerTransactor_ForceInitializeEndDelegation ::
  "'w bound_contract \<Rightarrow> TransactOpts \<Rightarrow> hash \<Rightarrow> bool \<Rightarrow> u32 \<Rightarrow> ('w, goerr + hash) prog" where
  "IPoSValidatorManagerTransactor_ForceInitializeEndDelegation c opts delegationID
     includeUptimeProof messageIndex =
     contract_transact c opts ''forceInitializeEndDelegation'' [GArr32 delegationID, GBool
        includeUptimeProof, GUint 32 (unat messageIndex)]"

definition IPoSValidatorManagerSession_ForceInitializeEndDelegation ::
  "'w session \<Rightarrow> hash \<Rightarrow> bool \<Rightarrow> u32 \<Rightarrow> ('w, goerr + hash) prog" where
  "IPoSValidatorManagerSession_ForceInitializeEndDelegation s delegationID includeUptimeProof
     messageIndex = IPoSValidatorManagerTransactor_ForceInitializeEndDelegation (SessionContract
     s) (SessionTransactOpts s) delegationID includeUptimeProof messageIndex"

definition IPoSValidatorManagerTransactor_ForceInitializeEndDelegation0 ::
  "'w bound_contract \<Rightarrow> TransactOpts \<Rightarrow> hash \<Rightarrow> bool \<Rightarrow> u32 \<Rightarrow> address \<Rightarrow> ('w, goerr + hash) prog"
     where
  "IPoSValidatorManagerTransactor_ForceInitializeEndDelegation0 c opts delegationID
     includeUptimeProof messageIndex recipientAddress =
     contract_transact c opts ''forceInitializeEndDelegation0'' [GArr32 delegationID, GBool
        includeUptimeProof, GUint 32 (unat messageIndex), GAddr recipientAddress]"

definition IPoSValidatorManagerSession_ForceInitializeEndDelegation0 ::
  "'w session \<Rightarrow> hash \<Rightarrow> bool \<Rightarrow> u32 \<Rightarrow> address \<Rightarrow> ('w, goerr + hash) prog" where
  "IPoSValidatorManagerSession_ForceInitializeEndDelegation0 s delegationID includeUptimeProof
     messageIndex recipientAddress =
     IPoSValidatorManagerTransactor_ForceInitializeEndDelegation0 (SessionContract s)
     (SessionTransactOpts s) delegationID includeUptimeProof messageIndex recipientAddress"

definition IPoSValidatorManagerTransactor_ForceInitializeEndValidation ::
  "'w bound_contract \<Rightarrow> TransactOpts \<Rightarrow> hash \<Rightarrow> bool \<Rightarrow> u32 \<Rightarrow> ('w, goerr + hash) prog" where
  "IPoSValidatorManagerTransactor_ForceInitializeEndValidation c opts validationID
     includeUptimeProof messageIndex =
     contract_transact c opts ''forceInitializeEndValidation'' [GArr32 validationID, GBool
        includeUptimeProof, GUint 32 (unat messageIndex)]"

definition IPoSValidatorManagerSession_ForceInitializeEndValidation ::
  "'w session \<Rightarrow> hash \<Rightarrow> bool \<Rightarrow> u32 \<Rightarrow> ('w, goerr + hash) prog" where
  "IPoSValidatorManagerSession_ForceInitializeEndValidation s validationID includeUptimeProof
     messageIndex = IPoSValidatorManagerTransactor_ForceInitializeEndValidation (SessionContract
     s) (SessionTransactOpts s) validationID includeUptimeProof messageIndex"

definition IPoSValidatorManagerTransactor_ForceInitializeEndValidation0 ::
  "'w bound_contract \<Rightarrow> TransactOpts \<Rightarrow> hash \<Rightarrow> bool \<Rightarrow> u32 \<Rightarrow> address \<Rightarrow> ('w, goerr + hash) prog"
     where
  "IPoSValidatorManagerTransactor_ForceInitializeEndValidation0 c opts validationID
     includeUptimeProof messageIndex recipientAddress =
     contract_transact c opts ''forceInitializeEndValidation0'' [GArr32 validationID, GBool
        includeUptimeProof, GUint 32 (unat messageIndex), GAddr recipientAddress]"

definition IPoSValidatorManagerSession_ForceInitializeEndValidation0 ::
  "'w session \<Rightarrow> hash \<Rightarrow> bool \<Rightarrow> u32 \<Rightarrow> address \<Rightarrow> ('w, goerr + hash) prog" where
  "IPoSValidatorManagerSession_ForceInitializeEndValidation0 s validationID includeUptimeProof
     messageIndex recipientAddress =
     IPoSValidatorManagerTransactor_ForceInitializeEndValidation0 (SessionContract s)
     (SessionTransactOpts s) validationID includeUptimeProof messageIndex recipientAddress"

definition IPoSValidatorManagerTransactor_InitializeEndDelegation ::
  "'w bound_contract \<Rightarrow> TransactOpts \<Rightarrow> hash \<Rightarrow> bool \<Rightarrow> u32 \<Rightarrow> ('w, goerr + hash) prog" where
  "IPoSValidatorManagerTransactor_InitializeEndDelegation c opts delegationID includeUptimeProof
     messageIndex =
     contract_transact c opts ''initializeEndDelegation'' [GArr32 delegationID, GBool
        includeUptimeProof, GUint 32 (unat messageIndex)]"

definition IPoSValidatorManagerSession_InitializeEndDelegation ::
  "'w session \<Rightarrow> hash \<Rightarrow> bool \<Rightarrow> u32 \<Rightarrow> ('w, goerr + hash) prog" where
  "IPoSValidatorManagerSession_InitializeEndDelegation s delegationID includeUptimeProof
     messageIndex = IPoSValidatorManagerTransactor_InitializeEndDelegation (SessionContract s)
     (SessionTransactOpts s) delegationID includeUptimeProof messageIndex"

definition IPoSValidatorManagerTransactor_InitializeEndDelegation0 ::
  "'w bound_contract \<Rightarrow> TransactOpts \<Rightarrow> hash \<Rightarrow> bool \<Rightarrow> u32 \<Rightarrow> address \<Rightarrow> ('w, goerr + hash) prog"
     where
  "IPoSValidatorManagerTransactor_InitializeEndDelegation0 c opts delegationID
     includeUptimeProof messageIndex recipientAddress =
     contract_transact c opts ''initializeEndDelegation0'' [GArr32 delegationID, GBool
        includeUptimeProof, GUint 32 (unat messageIndex), GAddr recipientAddress]"

definition IPoSValidatorManagerSession_InitializeEndDelegation0 ::
  "'w session \<Rightarrow> hash \<Rightarrow> bool \<Rightarrow> u32 \<Rightarrow> address \<Rightarrow> ('w, goerr + hash) prog" where
  "IPoSValidatorManagerSession_InitializeEndDelegation0 s delegationID includeUptimeProof
     messageIndex recipientAddress = IPoSValidatorManagerTransactor_InitializeEndDelegation0
     (SessionContract s) (SessionTransactOpts s) delegationID includeUptimeProof messageIndex
     recipientAddress"

definition IPoSValidatorManagerTransactor_InitializeEndValidation ::
  "'w bound_contract \<Rightarrow> TransactOpts \<Rightarrow> hash \<Rightarrow> bool \<Rightarrow> u32 \<Rightarrow> address \<Rightarrow> ('w, goerr + hash) prog"
     where
  "IPoSValidatorManagerTransactor_InitializeEndValidation c opts validationID includeUptimeProof
     messageIndex recipientAddress =
     contract_transact c opts ''initializeEndValidation'' [GArr32 validationID, GBool
        includeUptimeProof, GUint 32 (unat messageIndex), GAddr recipientAddress]"

definition IPoSValidatorManagerSession_InitializeEndValidation ::
  "'w session \<Rightarrow> hash \<Rightarrow> bool \<Rightarrow> u32 \<Rightarrow> address \<Rightarrow> ('w, goerr + hash) prog" where
  "IPoSValidatorManagerSession_InitializeEndValidation s validationID includeUptimeProof
     messageIndex recipientAddress = IPoSValidatorManagerTransactor_InitializeEndValidation
     (SessionContract s) (SessionTransactOpts s) validationID includeUptimeProof messageIndex
     recipientAddress"

definition IPoSValidatorManagerTransactor_InitializeEndValidation0 ::
  "'w bound_contract \<Rightarrow> TransactOpts \<Rightarrow> hash \<Rightarrow> bool \<Rightarrow> u32 \<Rightarrow> ('w, goerr + hash) prog" where
  "IPoSValidatorManagerTransactor_InitializeEndValidation0 c opts validationID
     includeUptimeProof messageIndex =
     contract_transact c opts ''initializeEndValidation0'' [GArr32 validationID, GBool
        includeUptimeProof, GUint 32 (unat messageIndex)]"

definition IPoSValidatorManagerSession_InitializeEndValidation0 ::
  "'w session \<Rightarrow> hash \<Rightarrow> bool \<Rightarrow> u32 \<Rightarrow> ('w, goerr + hash) prog" where
  "IPoSValidatorManagerSession_InitializeEndValidation0 s validationID includeUptimeProof
     messageIndex = IPoSValidatorManagerTransactor_InitializeEndValidation0 (SessionContract s)
     (SessionTransactOpts s) validationID includeUptimeProof messageIndex"

definition IPoSValidatorManagerTransactor_InitializeValidatorSet ::
  "'w bound_contract \<Rightarrow> TransactOpts \<Rightarrow> ConversionData \<Rightarrow> u32 \<Rightarrow> ('w, goerr + hash) prog" where
  "IPoSValidatorManagerTransactor_InitializeValidatorSet c opts conversionData messsageIndex =
     contract_transact c opts ''initializeValidatorSet'' [ConversionData_val conversionData,
        GUint 32 (unat messsageIndex)]"

definition IPoSValidatorManagerSession_InitializeValidatorSet ::
  "'w session \<Rightarrow> ConversionData \<Rightarrow> u32 \<Rightarrow> ('w, goerr + hash) prog" where
  "IPoSValidatorManagerSession_InitializeValidatorSet s conversionData messsageIndex =
     IPoSValidatorManagerTransactor_InitializeValidatorSet (SessionContract s)
     (SessionTransactOpts s) conversionData messsageIndex"

definition IPoSValidatorManagerTransactor_ResendEndValidatorMessage ::
  "'w bound_contract \<Rightarrow> TransactOpts \<Rightarrow> hash \<Rightarrow> ('w, goerr + hash) prog" where
  "IPoSValidatorManagerTransactor_ResendEndValidatorMessage c opts validationID =
     contract_transact c opts ''resendEndValidatorMessage'' [GArr32 validationID]"

definition IPoSValidatorManagerSession_ResendEndValidatorMessage ::
  "'w session \<Rightarrow> hash \<Rightarrow> ('w, goerr + hash) prog" where
  "IPoSValidatorManagerSession_ResendEndValidatorMessage s validationID =
     IPoSValidatorManagerTransactor_ResendEndValidatorMessage (SessionContract s)
     (SessionTransactOpts s) validationID"

definition IPoSValidatorManagerTransactor_ResendRegisterValidatorMessage ::
  "'w bound_contract \<Rightarrow> TransactOpts \<Rightarrow> hash \<Rightarrow> ('w, goerr + hash) prog" where
  "IPoSValidatorManagerTransactor_ResendRegisterValidatorMessage c opts validationID =
     contract_transact c opts ''resendRegisterValidatorMessage'' [GArr32 validationID]"

definition IPoSValidatorManagerSession_ResendRegisterValidatorMessage ::
  "'w session \<Rightarrow> hash \<Rightarrow> ('w, goerr + hash) prog" where
  "IPoSValidatorManagerSession_ResendRegisterValidatorMessage s validationID =
     IPoSValidatorManagerTransactor_ResendRegisterValidatorMessage (SessionContract s)
     (SessionTransactOpts s) validationID"

definition IPoSValidatorManagerTransactor_ResendUpdateDelegation ::
  "'w bound_contract \<Rightarrow> TransactOpts \<Rightarrow> hash \<Rightarrow> ('w, goerr + hash) prog" where
  "IPoSValidatorManagerTransactor_ResendUpdateDelegation c opts delegationID =
     contract_transact c opts ''resendUpdateDelegation'' [GArr32 delegationID]"

definition IPoSValidatorManagerSession_ResendUpdateDelegation ::
  "'w session \<Rightarrow> hash \<Rightarrow> ('w, goerr + hash) prog" where
  "IPoSValidatorManagerSession_ResendUpdateDelegation s delegationID =
     IPoSValidatorManagerTransactor_ResendUpdateDelegation (SessionContract s)
     (SessionTransactOpts s) delegationID"

definition IPoSValidatorManagerTransactor_SubmitUptimeProof ::
  "'w bound_contract \<Rightarrow> TransactOpts \<Rightarrow> hash \<Rightarrow> u32 \<Rightarrow> ('w, goerr + hash) prog" where
  "IPoSValidatorManagerTransactor_SubmitUptimeProof c opts validationID messageIndex =
     contract_transact c opts ''submitUptimeProof'' [GArr32 validationID, GUint 32 (unat
        messageIndex)]"

definition IPoSValidatorManagerSession_SubmitUptimeProof ::
  "'w session \<Rightarrow> hash \<Rightarrow> u32 \<Rightarrow> ('w, goerr + hash) prog" where
  "IPoSValidatorManagerSession_SubmitUptimeProof s validationID messageIndex =
     IPoSValidatorManagerTransactor_SubmitUptimeProof (SessionContract s) (SessionTransactOpts
     s) validationID messageIndex"

section \<open>Events\<close>

definition IPoSValidatorManagerDelegationEnded :: event_fields where
  "IPoSValidatorManagerDelegationEnded = [(''DelegationID'', GArr32 0), (''ValidationID'',
     GArr32 0), (''Rewards'', GNil), (''Fees'', GNil), (''Raw'', zero_Log)]"

definition IPoSValidatorManagerDelegationEndedIterator_Next ::
  "'w bound_contract \<Rightarrow> bool \<Rightarrow> iterator \<Rightarrow> (bool \<times> iterator) option" where
  "IPoSValidatorManagerDelegationEndedIterator_Next c pick it = iterator_Next (parse_log c
     ''DelegationEnded'' IPoSValidatorManagerDelegationEnded)
     IPoSValidatorManagerDelegationEnded pick it"

definition IPoSValidatorManagerDelegationEndedIterator_Error :: "iterator \<Rightarrow> goerr option" where
  "IPoSValidatorManagerDelegationEndedIterator_Error it = iterator_Error it"

definition IPoSValidatorManagerDelegationEndedIterator_Close :: "iterator \<Rightarrow> goerr option \<times>
   iterator" where
  "IPoSValidatorManagerDelegationEndedIterator_Close it = iterator_Close it"

definition IPoSValidatorManagerFilterer_FilterDelegationEnded ::
  "'w bound_contract \<Rightarrow> FilterOpts \<Rightarrow> hash list \<Rightarrow> hash list \<Rightarrow> ('w, goerr + iterator) prog" where
  "IPoSValidatorManagerFilterer_FilterDelegationEnded c opts delegationID validationID =
     filter_events c opts ''DelegationEnded'' [map GArr32 delegationID, map GArr32
        validationID]"

definition IPoSValidatorManagerFilterer_WatchDelegationEnded ::
  "'w bound_contract \<Rightarrow> hash list \<Rightarrow> hash list \<Rightarrow> ('w, goerr + (evm_log \<Rightarrow> goerr + event_fields))
     prog" where
  "IPoSValidatorManagerFilterer_WatchDelegationEnded c delegationID validationID =
     watch_events c ''DelegationEnded'' IPoSValidatorManagerDelegationEnded [map GArr32
        delegationID, map GArr32 validationID]"

definition IPoSValidatorManagerFilterer_ParseDelegationEnded ::
  "'w bound_contract \<Rightarrow> evm_log \<Rightarrow> goerr + event_fields" where
  "IPoSValidatorManagerFilterer_ParseDelegationEnded c = parse_log c ''DelegationEnded''
     IPoSValidatorManagerDelegationEnded"

definition IPoSValidatorManagerDelegatorAdded :: event_fields where
  "IPoSValidatorManagerDelegatorAdded = [(''DelegationID'', GArr32 0), (''ValidationID'', GArr32
     0), (''DelegatorAddress'', GAddr 0), (''Nonce'', GUint 64 0), (''ValidatorWeight'', GUint
     64 0), (''DelegatorWeight'', GUint 64 0), (''SetWeightMessageID'', GArr32 0), (''Raw'',
     zero_Log)]"

definition IPoSValidatorManagerDelegatorAddedIterator_Next ::
  "'w bound_contract \<Rightarrow> bool \<Rightarrow> iterator \<Rightarrow> (bool \<times> iterator) option" where
  "IPoSValidatorManagerDelegatorAddedIterator_Next c pick it = iterator_Next (parse_log c
     ''DelegatorAdded'' IPoSValidatorManagerDelegatorAdded) IPoSValidatorManagerDelegatorAdded
     pick it"

definition IPoSValidatorManagerDelegatorAddedIterator_Error :: "iterator \<Rightarrow> goerr option" where
  "IPoSValidatorManagerDelegatorAddedIterator_Error it = iterator_Error it"

definition IPoSValidatorManagerDelegatorAddedIterator_Close :: "iterator \<Rightarrow> goerr option \<times>
   iterator" where
  "IPoSValidatorManagerDelegatorAddedIterator_Close it = iterator_Close it"

definition IPoSValidatorManagerFilterer_FilterDelegatorAdded ::
  "'w bound_contract \<Rightarrow> FilterOpts \<Rightarrow> hash list \<Rightarrow> hash list \<Rightarrow> address list \<Rightarrow> ('w, goerr +
     iterator) prog" where
  "IPoSValidatorManagerFilterer_FilterDelegatorAdded c opts delegationID validationID
     delegatorAddress =
     filter_events c opts ''DelegatorAdded'' [map GArr32 delegationID, map GArr32 validationID,
        map GAddr delegatorAddress]"

definition IPoSValidatorManagerFilterer_WatchDelegatorAdded ::
  "'w bound_contract \<Rightarrow> hash list \<Rightarrow> hash list \<Rightarrow> address list \<Rightarrow> ('w, goerr + (evm_log \<Rightarrow> goerr +
     event_fields)) prog" where
  "IPoSValidatorManagerFilterer_WatchDelegatorAdded c delegationID validationID delegatorAddress
     =
     watch_events c ''DelegatorAdded'' IPoSValidatorManagerDelegatorAdded [map GArr32
        delegationID, map GArr32 validationID, map GAddr delegatorAddress]"

definition IPoSValidatorManagerFilterer_ParseDelegatorAdded ::
  "'w bound_contract \<Rightarrow> evm_log \<Rightarrow> goerr + event_fields" where
  "IPoSValidatorManagerFilterer_ParseDelegatorAdded c = parse_log c ''DelegatorAdded''
     IPoSValidatorManagerDelegatorAdded"

definition IPoSValidatorManagerDelegatorRegistered :: event_fields where
  "IPoSValidatorManagerDelegatorRegistered = [(''DelegationID'', GArr32 0), (''ValidationID'',
     GArr32 0), (''StartTime'', GNil), (''Raw'', zero_Log)]"

definition IPoSValidatorManagerDelegatorRegisteredIterator_Next ::
  "'w bound_contract \<Rightarrow> bool \<Rightarrow> iterator \<Rightarrow> (bool \<times> iterator) option" where
  "IPoSValidatorManagerDelegatorRegisteredIterator_Next c pick it = iterator_Next (parse_log c
     ''DelegatorRegistered'' IPoSValidatorManagerDelegatorRegistered)
     IPoSValidatorManagerDelegatorRegistered pick it"

definition IPoSValidatorManagerDelegatorRegisteredIterator_Error :: "iterator \<Rightarrow> goerr option"
   where
  "IPoSValidatorManagerDelegatorRegisteredIterator_Error it = iterator_Error it"

definition IPoSValidatorManagerDelegatorRegisteredIterator_Close :: "iterator \<Rightarrow> goerr option \<times>
   iterator" where
  "IPoSValidatorManagerDelegatorRegisteredIterator_Close it = iterator_Close it"

definition IPoSValidatorManagerFilterer_FilterDelegatorRegistered ::
  "'w bound_contract \<Rightarrow> FilterOpts \<Rightarrow> hash list \<Rightarrow> hash list \<Rightarrow> ('w, goerr + iterator) prog" where
  "IPoSValidatorManagerFilterer_FilterDelegatorRegistered c opts delegationID validationID =
     filter_events c opts ''DelegatorRegistered'' [map GArr32 delegationID, map GArr32
        validationID]"

definition IPoSValidatorManagerFilterer_WatchDelegatorRegistered ::
  "'w bound_contract \<Rightarrow> hash list \<Rightarrow> hash list \<Rightarrow> ('w, goerr + (evm_log \<Rightarrow> goerr + event_fields))
     prog" where
  "IPoSValidatorManagerFilterer_WatchDelegatorRegistered c delegationID validationID =
     watch_events c ''DelegatorRegistered'' IPoSValidatorManagerDelegatorRegistered [map GArr32
        delegationID, map GArr32 validationID]"

definition IPoSValidatorManagerFilterer_ParseDelegatorRegistered ::
  "'w bound_contract \<Rightarrow> evm_log \<Rightarrow> goerr + event_fields" where
  "IPoSValidatorManagerFilterer_ParseDelegatorRegistered c = parse_log c ''DelegatorRegistered''
     IPoSValidatorManagerDelegatorRegistered"

definition IPoSValidatorManagerDelegatorRemovalInitialized :: event_fields where
  "IPoSValidatorManagerDelegatorRemovalInitialized = [(''DelegationID'', GArr32 0),
     (''ValidationID'', GArr32 0), (''Raw'', zero_Log)]"

definition IPoSValidatorManagerDelegatorRemovalInitializedIterator_Next ::
  "'w bound_contract \<Rightarrow> bool \<Rightarrow> iterator \<Rightarrow> (bool \<times> iterator) option" where
  "IPoSValidatorManagerDelegatorRemovalInitializedIterator_Next c pick it = iterator_Next
     (parse_log c ''DelegatorRemovalInitialized''
     IPoSValidatorManagerDelegatorRemovalInitialized)
     IPoSValidatorManagerDelegatorRemovalInitialized pick it"

definition IPoSValidatorManagerDelegatorRemovalInitializedIterator_Error :: "iterator \<Rightarrow> goerr
   option" where
  "IPoSValidatorManagerDelegatorRemovalInitializedIterator_Error it = iterator_Error it"

definition IPoSValidatorManagerDelegatorRemovalInitializedIterator_Close :: "iterator \<Rightarrow> goerr
   option \<times> iterator" where
  "IPoSValidatorManagerDelegatorRemovalInitializedIterator_Close it = iterator_Close it"

definition IPoSValidatorManagerFilterer_FilterDelegatorRemovalInitialized ::
  "'w bound_contract \<Rightarrow> FilterOpts \<Rightarrow> hash list \<Rightarrow> hash list \<Rightarrow> ('w, goerr + iterator) prog" where
  "IPoSValidatorManagerFilterer_FilterDelegatorRemovalInitialized c opts delegationID
     validationID =
     filter_events c opts ''DelegatorRemovalInitialized'' [map GArr32 delegationID, map GArr32
        validationID]"

definition IPoSValidatorManagerFilterer_WatchDelegatorRemovalInitialized ::
  "'w bound_contract \<Rightarrow> hash list \<Rightarrow> hash list \<Rightarrow> ('w, goerr + (evm_log \<Rightarrow> goerr + event_fields))
     prog" where
  "IPoSValidatorManagerFilterer_WatchDelegatorRemovalInitialized c delegationID validationID =
     watch_events c ''DelegatorRemovalInitialized''
        IPoSValidatorManagerDelegatorRemovalInitialized [map GArr32 delegationID, map GArr32
        validationID]"

definition IPoSValidatorManagerFilterer_ParseDelegatorRemovalInitialized ::
  "'w bound_contract \<Rightarrow> evm_log \<Rightarrow> goerr + event_fields" where
  "IPoSValidatorManagerFilterer_ParseDelegatorRemovalInitialized c = parse_log c
     ''DelegatorRemovalInitialized'' IPoSValidatorManagerDelegatorRemovalInitialized"

definition IPoSValidatorManagerInitialValidatorCreated :: event_fields where
  "IPoSValidatorManagerInitialValidatorCreated = [(''ValidationID'', GArr32 0), (''Weight'',
     GUint 64 0), (''NodeID'', GNil), (''Raw'', zero_Log)]"

definition IPoSValidatorManagerInitialValidatorCreatedIterator_Next ::
  "'w bound_contract \<Rightarrow> bool \<Rightarrow> iterator \<Rightarrow> (bool \<times> iterator) option" where
  "IPoSValidatorManagerInitialValidatorCreatedIterator_Next c pick it = iterator_Next (parse_log
     c ''InitialValidatorCreated'' IPoSValidatorManagerInitialValidatorCreated)
     IPoSValidatorManagerInitialValidatorCreated pick it"

definition IPoSValidatorManagerInitialValidatorCreatedIterator_Error :: "iterator \<Rightarrow> goerr
   option" where
  "IPoSValidatorManagerInitialValidatorCreatedIterator_Error it = iterator_Error it"

definition IPoSValidatorManagerInitialValidatorCreatedIterator_Close :: "iterator \<Rightarrow> goerr option
   \<times> iterator" where
  "IPoSValidatorManagerInitialValidatorCreatedIterator_Close it = iterator_Close it"

definition IPoSValidatorManagerFilterer_FilterInitialValidatorCreated ::
  "'w bound_contract \<Rightarrow> FilterOpts \<Rightarrow> hash list \<Rightarrow> ('w, goerr + iterator) prog" where
  "IPoSValidatorManagerFilterer_FilterInitialValidatorCreated c opts validationID =
     filter_events c opts ''InitialValidatorCreated'' [map GArr32 validationID]"

definition IPoSValidatorManagerFilterer_WatchInitialValidatorCreated ::
  "'w bound_contract \<Rightarrow> hash list \<Rightarrow> ('w, goerr + (evm_log \<Rightarrow> goerr + event_fields)) prog" where
  "IPoSValidatorManagerFilterer_WatchInitialValidatorCreated c validationID =
     watch_events c ''InitialValidatorCreated'' IPoSValidatorManagerInitialValidatorCreated [map
        GArr32 validationID]"

definition IPoSValidatorManagerFilterer_ParseInitialValidatorCreated ::
  "'w bound_contract \<Rightarrow> evm_log \<Rightarrow> goerr + event_fields" where
  "IPoSValidatorManagerFilterer_ParseInitialValidatorCreated c = parse_log c
     ''InitialValidatorCreated'' IPoSValidatorManagerInitialValidatorCreated"

definition IPoSValidatorManagerUptimeUpdated :: event_fields where
  "IPoSValidatorManagerUptimeUpdated = [(''ValidationID'', GArr32 0), (''Uptime'', GUint 64 0),
     (''Raw'', zero_Log)]"

definition IPoSValidatorManagerUptimeUpdatedIterator_Next ::
  "'w bound_contract \<Rightarrow> bool \<Rightarrow> iterator \<Rightarrow> (bool \<times> iterator) option" where
  "IPoSValidatorManagerUptimeUpdatedIterator_Next c pick it = iterator_Next (parse_log c
     ''UptimeUpdated'' IPoSValidatorManagerUptimeUpdated) IPoSValidatorManagerUptimeUpdated pick
     it"

definition IPoSValidatorManagerUptimeUpdatedIterator_Error :: "iterator \<Rightarrow> goerr option" where
  "IPoSValidatorManagerUptimeUpdatedIterator_Error it = iterator_Error it"

definition IPoSValidatorManagerUptimeUpdatedIterator_Close :: "iterator \<Rightarrow> goerr option \<times>
   iterator" where
  "IPoSValidatorManagerUptimeUpdatedIterator_Close it = iterator_Close it"

definition IPoSValidatorManagerFilterer_FilterUptimeUpdated ::
  "'w bound_contract \<Rightarrow> FilterOpts \<Rightarrow> hash list \<Rightarrow> ('w, goerr + iterator) prog" where
  "IPoSValidatorManagerFilterer_FilterUptimeUpdated c opts validationID =
     filter_events c opts ''UptimeUpdated'' [map GArr32 validationID]"

definition IPoSValidatorManagerFilterer_WatchUptimeUpdated ::
  "'w bound_contract \<Rightarrow> hash list \<Rightarrow> ('w, goerr + (evm_log \<Rightarrow> goerr + event_fields)) prog" where
  "IPoSValidatorManagerFilterer_WatchUptimeUpdated c validationID =
     watch_events c ''UptimeUpdated'' IPoSValidatorManagerUptimeUpdated [map GArr32
        validationID]"

definition IPoSValidatorManagerFilterer_ParseUptimeUpdated ::
  "'w bound_contract \<Rightarrow> evm_log \<Rightarrow> goerr + event_fields" where
  "IPoSValidatorManagerFilterer_ParseUptimeUpdated c = parse_log c ''UptimeUpdated''
     IPoSValidatorManagerUptimeUpdated"

definition IPoSValidatorManagerValidationPeriodCreated :: event_fields where
  "IPoSValidatorManagerValidationPeriodCreated = [(''ValidationID'', GArr32 0),
     (''RegisterValidationMessageID'', GArr32 0), (''Weight'', GUint 64 0), (''NodeID'', GNil),
     (''RegistrationExpiry'', GUint 64 0), (''Raw'', zero_Log)]"

definition IPoSValidatorManagerValidationPeriodCreatedIterator_Next ::
  "'w bound_contract \<Rightarrow> bool \<Rightarrow> iterator \<Rightarrow> (bool \<times> iterator) option" where
  "IPoSValidatorManagerValidationPeriodCreatedIterator_Next c pick it = iterator_Next (parse_log
     c ''ValidationPeriodCreated'' IPoSValidatorManagerValidationPeriodCreated)
     IPoSValidatorManagerValidationPeriodCreated pick it"

definition IPoSValidatorManagerValidationPeriodCreatedIterator_Error :: "iterator \<Rightarrow> goerr
   option" where
  "IPoSValidatorManagerValidationPeriodCreatedIterator_Error it = iterator_Error it"

definition IPoSValidatorManagerValidationPeriodCreatedIterator_Close :: "iterator \<Rightarrow> goerr option
   \<times> iterator" where
  "IPoSValidatorManagerValidationPeriodCreatedIterator_Close it = iterator_Close it"

definition IPoSValidatorManagerFilterer_FilterValidationPeriodCreated ::
  "'w bound_contract \<Rightarrow> FilterOpts \<Rightarrow> hash list \<Rightarrow> hash list \<Rightarrow> ('w, goerr + iterator) prog" where
  "IPoSValidatorManagerFilterer_FilterValidationPeriodCreated c opts validationID
     registerValidationMessageID =
     filter_events c opts ''ValidationPeriodCreated'' [map GArr32 validationID, map GArr32
        registerValidationMessageID]"

definition IPoSValidatorManagerFilterer_WatchValidationPeriodCreated ::
  "'w bound_contract \<Rightarrow> hash list \<Rightarrow> hash list \<Rightarrow> ('w, goerr + (evm_log \<Rightarrow> goerr + event_fields))
     prog" where
  "IPoSValidatorManagerFilterer_WatchValidationPeriodCreated c validationID
     registerValidationMessageID =
     watch_events c ''ValidationPeriodCreated'' IPoSValidatorManagerValidationPeriodCreated [map
        GArr32 validationID, map GArr32 registerValidationMessageID]"

definition IPoSValidatorManagerFilterer_ParseValidationPeriodCreated ::
  "'w bound_contract \<Rightarrow> evm_log \<Rightarrow> goerr + event_fields" where
  "IPoSValidatorManagerFilterer_ParseValidationPeriodCreated c = parse_log c
     ''ValidationPeriodCreated'' IPoSValidatorManagerValidationPeriodCreated"

definition IPoSValidatorManagerValidationPeriodEnded :: event_fields where
  "IPoSValidatorManagerValidationPeriodEnded = [(''ValidationID'', GArr32 0), (''Status'', GUint
     8 0), (''Raw'', zero_Log)]"

definition IPoSValidatorManagerValidationPeriodEndedIterator_Next ::
  "'w bound_contract \<Rightarrow> bool \<Rightarrow> iterator \<Rightarrow> (bool \<times> iterator) option" where
  "IPoSValidatorManagerValidationPeriodEndedIterator_Next c pick it = iterator_Next (parse_log c
     ''ValidationPeriodEnded'' IPoSValidatorManagerValidationPeriodEnded)
     IPoSValidatorManagerValidationPeriodEnded pick it"

definition IPoSValidatorManagerValidationPeriodEndedIterator_Error :: "iterator \<Rightarrow> goerr option"
   where
  "IPoSValidatorManagerValidationPeriodEndedIterator_Error it = iterator_Error it"

definition IPoSValidatorManagerValidationPeriodEndedIterator_Close :: "iterator \<Rightarrow> goerr option \<times>
   iterator" where
  "IPoSValidatorManagerValidationPeriodEndedIterator_Close it = iterator_Close it"

definition IPoSValidatorManagerFilterer_FilterValidationPeriodEnded ::
  "'w bound_contract \<Rightarrow> FilterOpts \<Rightarrow> hash list \<Rightarrow> u8 list \<Rightarrow> ('w, goerr + iterator) prog" where
  "IPoSValidatorManagerFilterer_FilterValidationPeriodEnded c opts validationID status =
     filter_events c opts ''ValidationPeriodEnded'' [map GArr32 validationID, map (\<lambda>x. GUint 8
        (unat x)) status]"

definition IPoSValidatorManagerFilterer_WatchValidationPeriodEnded ::
  "'w bound_contract \<Rightarrow> hash list \<Rightarrow> u8 list \<Rightarrow> ('w, goerr + (evm_log \<Rightarrow> goerr + event_fields))
     prog" where
  "IPoSValidatorManagerFilterer_WatchValidationPeriodEnded c validationID status =
     watch_events c ''ValidationPeriodEnded'' IPoSValidatorManagerValidationPeriodEnded [map
        GArr32 validationID, map (\<lambda>x. GUint 8 (unat x)) status]"

definition IPoSValidatorManagerFilterer_ParseValidationPeriodEnded ::
  "'w bound_contract \<Rightarrow> evm_log \<Rightarrow> goerr + event_fields" where
  "IPoSValidatorManagerFilterer_ParseValidationPeriodEnded c = parse_log c
     ''ValidationPeriodEnded'' IPoSValidatorManagerValidationPeriodEnded"

definition IPoSValidatorManagerValidationPeriodRegistered :: event_fields where
  "IPoSValidatorManagerValidationPeriodRegistered = [(''ValidationID'', GArr32 0), (''Weight'',
     GUint 64 0), (''Timestamp'', GNil), (''Raw'', zero_Log)]"

definition IPoSValidatorManagerValidationPeriodRegisteredIterator_Next ::
  "'w bound_contract \<Rightarrow> bool \<Rightarrow> iterator \<Rightarrow> (bool \<times> iterator) option" where
  "IPoSValidatorManagerValidationPeriodRegisteredIterator_Next c pick it = iterator_Next
     (parse_log c ''ValidationPeriodRegistered'' IPoSValidatorManagerValidationPeriodRegistered)
     IPoSValidatorManagerValidationPeriodRegistered pick it"

definition IPoSValidatorManagerValidationPeriodRegisteredIterator_Error :: "iterator \<Rightarrow> goerr
   option" where
  "IPoSValidatorManagerValidationPeriodRegisteredIterator_Error it = iterator_Error it"

definition IPoSValidatorManagerValidationPeriodRegisteredIterator_Close :: "iterator \<Rightarrow> goerr
   option \<times> iterator" where
  "IPoSValidatorManagerValidationPeriodRegisteredIterator_Close it = iterator_Close it"

definition IPoSValidatorManagerFilterer_FilterValidationPeriodRegistered ::
  "'w bound_contract \<Rightarrow> FilterOpts \<Rightarrow> hash list \<Rightarrow> ('w, goerr + iterator) prog" where
  "IPoSValidatorManagerFilterer_FilterValidationPeriodRegistered c opts validationID =
     filter_events c opts ''ValidationPeriodRegistered'' [map GArr32 validationID]"

definition IPoSValidatorManagerFilterer_WatchValidationPeriodRegistered ::
  "'w bound_contract \<Rightarrow> hash list \<Rightarrow> ('w, goerr + (evm_log \<Rightarrow> goerr + event_fields)) prog" where
  "IPoSValidatorManagerFilterer_WatchValidationPeriodRegistered c validationID =
     watch_events c ''ValidationPeriodRegistered''
        IPoSValidatorManagerValidationPeriodRegistered [map GArr32 validationID]"

definition IPoSValidatorManagerFilterer_ParseValidationPeriodRegistered ::
  "'w bound_contract \<Rightarrow> evm_log \<Rightarrow> goerr + event_fields" where
  "IPoSValidatorManagerFilterer_ParseValidationPeriodRegistered c = parse_log c
     ''ValidationPeriodRegistered'' IPoSValidatorManagerValidationPeriodRegistered"

definition IPoSValidatorManagerValidatorRemovalInitialized :: event_fields where
  "IPoSValidatorManagerValidatorRemovalInitialized = [(''ValidationID'', GArr32 0),
     (''SetWeightMessageID'', GArr32 0), (''Weight'', GUint 64 0), (''EndTime'', GNil),
     (''Raw'', zero_Log)]"

definition IPoSValidatorManagerValidatorRemovalInitializedIterator_Next ::
  "'w bound_contract \<Rightarrow> bool \<Rightarrow> iterator \<Rightarrow> (bool \<times> iterator) option" where
  "IPoSValidatorManagerValidatorRemovalInitializedIterator_Next c pick it = iterator_Next
     (parse_log c ''ValidatorRemovalInitialized''
     IPoSValidatorManagerValidatorRemovalInitialized)
     IPoSValidatorManagerValidatorRemovalInitialized pick it"

definition IPoSValidatorManagerValidatorRemovalInitializedIterator_Error :: "iterator \<Rightarrow> goerr
   option" where
  "IPoSValidatorManagerValidatorRemovalInitializedIterator_Error it = iterator_Error it"

definition IPoSValidatorManagerValidatorRemovalInitializedIterator_Close :: "iterator \<Rightarrow> goerr
   option \<times> iterator" where
  "IPoSValidatorManagerValidatorRemovalInitializedIterator_Close it = iterator_Close it"

definition IPoSValidatorManagerFilterer_FilterValidatorRemovalInitialized ::
  "'w bound_contract \<Rightarrow> FilterOpts \<Rightarrow> hash list \<Rightarrow> hash list \<Rightarrow> ('w, goerr + iterator) prog" where
  "IPoSValidatorManagerFilterer_FilterValidatorRemovalInitialized c opts validationID
     setWeightMessageID =
     filter_events c opts ''ValidatorRemovalInitialized'' [map GArr32 validationID, map GArr32
        setWeightMessageID]"

definition IPoSValidatorManagerFilterer_WatchValidatorRemovalInitialized ::
  "'w bound_contract \<Rightarrow> hash list \<Rightarrow> hash list \<Rightarrow> ('w, goerr + (evm_log \<Rightarrow> goerr + event_fields))
     prog" where
  "IPoSValidatorManagerFilterer_WatchValidatorRemovalInitialized c validationID
     setWeightMessageID =
     watch_events c ''ValidatorRemovalInitialized''
        IPoSValidatorManagerValidatorRemovalInitialized [map GArr32 validationID, map GArr32
        setWeightMessageID]"

definition IPoSValidatorManagerFilterer_ParseValidatorRemovalInitialized ::
  "'w bound_contract \<Rightarrow> evm_log \<Rightarrow> goerr + event_fields" where
  "IPoSValidatorManagerFilterer_ParseValidatorRemovalInitialized c = parse_log c
     ''ValidatorRemovalInitialized'' IPoSValidatorManagerValidatorRemovalInitialized"

definition IPoSValidatorManagerValidatorWeightUpdate :: event_fields where
  "IPoSValidatorManagerValidatorWeightUpdate = [(''ValidationID'', GArr32 0), (''Nonce'', GUint
     64 0), (''Weight'', GUint 64 0), (''SetWeightMessageID'', GArr32 0), (''Raw'', zero_Log)]"

definition IPoSValidatorManagerValidatorWeightUpdateIterator_Next ::
  "'w bound_contract \<Rightarrow> bool \<Rightarrow> iterator \<Rightarrow> (bool \<times> iterator) option" where
  "IPoSValidatorManagerValidatorWeightUpdateIterator_Next c pick it = iterator_Next (parse_log c
     ''ValidatorWeightUpdate'' IPoSValidatorManagerValidatorWeightUpdate)
     IPoSValidatorManagerValidatorWeightUpdate pick it"

definition IPoSValidatorManagerValidatorWeightUpdateIterator_Error :: "iterator \<Rightarrow> goerr option"
   where
  "IPoSValidatorManagerValidatorWeightUpdateIterator_Error it = iterator_Error it"

definition IPoSValidatorManagerValidatorWeightUpdateIterator_Close :: "iterator \<Rightarrow> goerr option \<times>
   iterator" where
  "IPoSValidatorManagerValidatorWeightUpdateIterator_Close it = iterator_Close it"

definition IPoSValidatorManagerFilterer_FilterValidatorWeightUpdate ::
  "'w bound_contract \<Rightarrow> FilterOpts \<Rightarrow> hash list \<Rightarrow> u64 list \<Rightarrow> ('w, goerr + iterator) prog" where
  "IPoSValidatorManagerFilterer_FilterValidatorWeightUpdate c opts validationID nonce =
     filter_events c opts ''ValidatorWeightUpdate'' [map GArr32 validationID, map (\<lambda>x. GUint 64
        (unat x)) nonce]"

definition IPoSValidatorManagerFilterer_WatchValidatorWeightUpdate ::
  "'w bound_contract \<Rightarrow> hash list \<Rightarrow> u64 list \<Rightarrow> ('w, goerr + (evm_log \<Rightarrow> goerr + event_fields))
     prog" where
  "IPoSValidatorManagerFilterer_WatchValidatorWeightUpdate c validationID nonce =
     watch_events c ''ValidatorWeightUpdate'' IPoSValidatorManagerValidatorWeightUpdate [map
        GArr32 validationID, map (\<lambda>x. GUint 64 (unat x)) nonce]"

definition IPoSValidatorManagerFilterer_ParseValidatorWeightUpdate ::
  "'w bound_contract \<Rightarrow> evm_log \<Rightarrow> goerr + event_fields" where
  "IPoSValidatorManagerFilterer_ParseValidatorWeightUpdate c = parse_log c
     ''ValidatorWeightUpdate'' IPoSValidatorManagerValidatorWeightUpdate"

section \<open>Correctness\<close>

lemma IPoSValidatorManager_methods:
  "map_of (Methods IPoSValidatorManagerABI) ''changeDelegatorRewardRecipient'' =
     Some ([(''delegationID'', TBytes32), (''recipient'', TAddress)], [])"
  "map_of (Methods IPoSValidatorManagerABI) ''changeValidatorRewardRecipient'' =
     Some ([(''validationID'', TBytes32), (''recipient'', TAddress)], [])"
  "map_of (Methods IPoSValidatorManagerABI) ''claimDelegationFees'' =
     Some ([(''validationID'', TBytes32)], [])"
  "map_of (Methods IPoSValidatorManagerABI) ''completeDelegatorRegistration'' =
     Some ([(''delegationID'', TBytes32), (''messageIndex'', TUint 32)], [])"
  "map_of (Methods IPoSValidatorManagerABI) ''completeEndDelegation'' =
     Some ([(''delegationID'', TBytes32), (''messageIndex'', TUint 32)], [])"
  "map_of (Methods IPoSValidatorManagerABI) ''completeEndValidation'' =
     Some ([(''messageIndex'', TUint 32)], [])"
  "map_of (Methods IPoSValidatorManagerABI) ''completeValidatorRegistration'' =
     Some ([(''messageIndex'', TUint 32)], [])"
  "map_of (Methods IPoSValidatorManagerABI) ''forceInitializeEndDelegation'' =
     Some ([(''delegationID'', TBytes32), (''includeUptimeProof'', TBool), (''messageIndex'',
        TUint 32)], [])"
  "map_of (Methods IPoSValidatorManagerABI) ''forceInitializeEndDelegation0'' =
     Some ([(''delegationID'', TBytes32), (''includeUptimeProof'', TBool), (''messageIndex'',
        TUint 32), (''recipientAddress'', TAddress)], [])"
  "map_of (Methods IPoSValidatorManagerABI) ''forceInitializeEndValidation'' =
     Some ([(''validationID'', TBytes32), (''includeUptimeProof'', TBool), (''messageIndex'',
        TUint 32)], [])"
  "map_of (Methods IPoSValidatorManagerABI) ''forceInitializeEndValidation0'' =
     Some ([(''validationID'', TBytes32), (''includeUptimeProof'', TBool), (''messageIndex'',
        TUint 32), (''recipientAddress'', TAddress)], [])"
  "map_of (Methods IPoSValidatorManagerABI) ''initializeEndDelegation'' =
     Some ([(''delegationID'', TBytes32), (''includeUptimeProof'', TBool), (''messageIndex'',
        TUint 32)], [])"
  "map_of (Methods IPoSValidatorManagerABI) ''initializeEndDelegation0'' =
     Some ([(''delegationID'', TBytes32), (''includeUptimeProof'', TBool), (''messageIndex'',
        TUint 32), (''recipientAddress'', TAddress)], [])"
  "map_of (Methods IPoSValidatorManagerABI) ''initializeEndValidation'' =
     Some ([(''validationID'', TBytes32), (''includeUptimeProof'', TBool), (''messageIndex'',
        TUint 32), (''recipientAddress'', TAddress)], [])"
  "map_of (Methods IPoSValidatorManagerABI) ''initializeEndValidation0'' =
     Some ([(''validationID'', TBytes32), (''includeUptimeProof'', TBool), (''messageIndex'',
        TUint 32)], [])"
  "map_of (Methods IPoSValidatorManagerABI) ''initializeValidatorSet'' =
     Some ([(''conversionData'', ConversionData_tuple), (''messsageIndex'', TUint 32)], [])"
  "map_of (Methods IPoSValidatorManagerABI) ''resendEndValidatorMessage'' =
     Some ([(''validationID'', TBytes32)], [])"
  "map_of (Methods IPoSValidatorManagerABI) ''resendRegisterValidatorMessage'' =
     Some ([(''validationID'', TBytes32)], [])"
  "map_of (Methods IPoSValidatorManagerABI) ''resendUpdateDelegation'' =
     Some ([(''delegationID'', TBytes32)], [])"
  "map_of (Methods IPoSValidatorManagerABI) ''submitUptimeProof'' =
     Some ([(''validationID'', TBytes32), (''messageIndex'', TUint 32)], [])"
  unfolding IPoSValidatorManagerABI_def contract_abi.select_convs
  by (simp_all only: table_lookup)

lemma IPoSValidatorManager_decodable:
  "decodable [(''delegationID'', TBytes32, True), (''validationID'', TBytes32, True),
     (''rewards'', TUint 256, False), (''fees'', TUint 256, False)]
     IPoSValidatorManagerDelegationEnded"
  "decodable [(''delegationID'', TBytes32, True), (''validationID'', TBytes32, True),
     (''delegatorAddress'', TAddress, True), (''nonce'', TUint 64, False), (''validatorWeight'',
     TUint 64, False), (''delegatorWeight'', TUint 64, False), (''setWeightMessageID'',
     TBytes32, False)]
     IPoSValidatorManagerDelegatorAdded"
  "decodable [(''delegationID'', TBytes32, True), (''validationID'', TBytes32, True),
     (''startTime'', TUint 256, False)]
     IPoSValidatorManagerDelegatorRegistered"
  "decodable [(''delegationID'', TBytes32, True), (''validationID'', TBytes32, True)]
     IPoSValidatorManagerDelegatorRemovalInitialized"
  "decodable [(''validationID'', TBytes32, True), (''weight'', TUint 64, False), (''nodeID'',
     TBytes, False)]
     IPoSValidatorManagerInitialValidatorCreated"
  "decodable [(''validationID'', TBytes32, True), (''uptime'', TUint 64, False)]
     IPoSValidatorManagerUptimeUpdated"
  "decodable [(''validationID'', TBytes32, True), (''registerValidationMessageID'', TBytes32,
     True), (''weight'', TUint 64, False), (''nodeID'', TBytes, False), (''registrationExpiry'',
     TUint 64, False)]
     IPoSValidatorManagerValidationPeriodCreated"
  "decodable [(''validationID'', TBytes32, True), (''status'', TUint 8, True)]
     IPoSValidatorManagerValidationPeriodEnded"
  "decodable [(''validationID'', TBytes32, True), (''weight'', TUint 64, False), (''timestamp'',
     TUint 256, False)]
     IPoSValidatorManagerValidationPeriodRegistered"
  "decodable [(''validationID'', TBytes32, True), (''setWeightMessageID'', TBytes32, True),
     (''weight'', TUint 64, False), (''endTime'', TUint 256, False)]
     IPoSValidatorManagerValidatorRemovalInitialized"
  "decodable [(''validationID'', TBytes32, True), (''nonce'', TUint 64, True), (''weight'',
     TUint 64, False), (''setWeightMessageID'', TBytes32, False)]
     IPoSValidatorManagerValidatorWeightUpdate"
  by (simp_all add: decodable_def has_fields_def fits_def
     IPoSValidatorManagerDelegationEnded_def IPoSValidatorManagerDelegatorAdded_def
     IPoSValidatorManagerDelegatorRegistered_def
     IPoSValidatorManagerDelegatorRemovalInitialized_def
     IPoSValidatorManagerInitialValidatorCreated_def IPoSValidatorManagerUptimeUpdated_def
     IPoSValidatorManagerValidationPeriodCreated_def
     IPoSValidatorManagerValidationPeriodEnded_def
     IPoSValidatorManagerValidationPeriodRegistered_def
     IPoSValidatorManagerValidatorRemovalInitialized_def
     IPoSValidatorManagerValidatorWeightUpdate_def )

lemma IPoSValidatorManager_events:
  "map_of (Events IPoSValidatorManagerABI) ''DelegationEnded'' =
     Some [(''delegationID'', TBytes32, True), (''validationID'', TBytes32, True), (''rewards'',
        TUint 256, False), (''fees'', TUint 256, False)]"
  "map_of (Events IPoSValidatorManagerABI) ''DelegatorAdded'' =
     Some [(''delegationID'', TBytes32, True), (''validationID'', TBytes32, True),
        (''delegatorAddress'', TAddress, True), (''nonce'', TUint 64, False),
        (''validatorWeight'', TUint 64, False), (''delegatorWeight'', TUint 64, False),
        (''setWeightMessageID'', TBytes32, False)]"
  "map_of (Events IPoSValidatorManagerABI) ''DelegatorRegistered'' =
     Some [(''delegationID'', TBytes32, True), (''validationID'', TBytes32, True),
        (''startTime'', TUint 256, False)]"
  "map_of (Events IPoSValidatorManagerABI) ''DelegatorRemovalInitialized'' =
     Some [(''delegationID'', TBytes32, True), (''validationID'', TBytes32, True)]"
  "map_of (Events IPoSValidatorManagerABI) ''InitialValidatorCreated'' =
     Some [(''validationID'', TBytes32, True), (''weight'', TUint 64, False), (''nodeID'',
        TBytes, False)]"
  "map_of (Events IPoSValidatorManagerABI) ''UptimeUpdated'' =
     Some [(''validationID'', TBytes32, True), (''uptime'', TUint 64, False)]"
  "map_of (Events IPoSValidatorManagerABI) ''ValidationPeriodCreated'' =
     Some [(''validationID'', TBytes32, True), (''registerValidationMessageID'', TBytes32,
        True), (''weight'', TUint 64, False), (''nodeID'', TBytes, False),
        (''registrationExpiry'', TUint 64, False)]"
  "map_of (Events IPoSValidatorManagerABI) ''ValidationPeriodEnded'' =
     Some [(''validationID'', TBytes32, True), (''status'', TUint 8, True)]"
  "map_of (Events IPoSValidatorManagerABI) ''ValidationPeriodRegistered'' =
     Some [(''validationID'', TBytes32, True), (''weight'', TUint 64, False), (''timestamp'',
        TUint 256, False)]"
  "map_of (Events IPoSValidatorManagerABI) ''ValidatorRemovalInitialized'' =
     Some [(''validationID'', TBytes32, True), (''setWeightMessageID'', TBytes32, True),
        (''weight'', TUint 64, False), (''endTime'', TUint 256, False)]"
  "map_of (Events IPoSValidatorManagerABI) ''ValidatorWeightUpdate'' =
     Some [(''validationID'', TBytes32, True), (''nonce'', TUint 64, True), (''weight'', TUint
        64, False), (''setWeightMessageID'', TBytes32, False)]"
  unfolding IPoSValidatorManagerABI_def contract_abi.select_convs
  by (simp_all only: table_lookup)

lemma IPoSValidatorManager_transactions_decode:
  assumes "codec_methods k" and "codec_roundtrip k" and "bound_spec k IPoSValidatorManagerABI be
     c"
  shows "(\<forall>delegationID recipient. sends_call k IPoSValidatorManagerABI be opts
     ''changeDelegatorRewardRecipient'' [GArr32 delegationID, GAddr recipient]
       (IPoSValidatorManagerTransactor_ChangeDelegatorRewardRecipient c opts delegationID
          recipient)) \<and>
     (\<forall>validationID recipient. sends_call k IPoSValidatorManagerABI be opts
        ''changeValidatorRewardRecipient'' [GArr32 validationID, GAddr recipient]
       (IPoSValidatorManagerTransactor_ChangeValidatorRewardRecipient c opts validationID
          recipient)) \<and>
     (\<forall>validationID. sends_call k IPoSValidatorManagerABI be opts ''claimDelegationFees''
        [GArr32 validationID]
       (IPoSValidatorManagerTransactor_ClaimDelegationFees c opts validationID)) \<and>
     (\<forall>delegationID messageIndex. sends_call k IPoSValidatorManagerABI be opts
        ''completeDelegatorRegistration'' [GArr32 delegationID, GUint 32 (unat messageIndex)]
       (IPoSValidatorManagerTransactor_CompleteDelegatorRegistration c opts delegationID
          messageIndex)) \<and>
     (\<forall>delegationID messageIndex. sends_call k IPoSValidatorManagerABI be opts
        ''completeEndDelegation'' [GArr32 delegationID, GUint 32 (unat messageIndex)]
       (IPoSValidatorManagerTransactor_CompleteEndDelegation c opts delegationID messageIndex))
          \<and>
     (\<forall>messageIndex. sends_call k IPoSValidatorManagerABI be opts ''completeEndValidation''
        [GUint 32 (unat messageIndex)]
       (IPoSValidatorManagerTransactor_CompleteEndValidation c opts messageIndex)) \<and>
     (\<forall>messageIndex. sends_call k IPoSValidatorManagerABI be opts
        ''completeValidatorRegistration'' [GUint 32 (unat messageIndex)]
       (IPoSValidatorManagerTransactor_CompleteValidatorRegistration c opts messageIndex)) \<and>
     (\<forall>delegationID includeUptimeProof messageIndex. sends_call k IPoSValidatorManagerABI be
        opts ''forceInitializeEndDelegation'' [GArr32 delegationID, GBool includeUptimeProof,
        GUint 32 (unat messageIndex)]
       (IPoSValidatorManagerTransactor_ForceInitializeEndDelegation c opts delegationID
          includeUptimeProof messageIndex)) \<and>
     (\<forall>delegationID includeUptimeProof messageIndex recipientAddress. sends_call k
        IPoSValidatorManagerABI be opts ''forceInitializeEndDelegation0'' [GArr32 delegationID,
        GBool includeUptimeProof, GUint 32 (unat messageIndex), GAddr recipientAddress]
       (IPoSValidatorManagerTransactor_ForceInitializeEndDelegation0 c opts delegationID
          includeUptimeProof messageIndex recipientAddress)) \<and>
     (\<forall>validationID includeUptimeProof messageIndex. sends_call k IPoSValidatorManagerABI be
        opts ''forceInitializeEndValidation'' [GArr32 validationID, GBool includeUptimeProof,
        GUint 32 (unat messageIndex)]
       (IPoSValidatorManagerTransactor_ForceInitializeEndValidation c opts validationID
          includeUptimeProof messageIndex)) \<and>
     (\<forall>validationID includeUptimeProof messageIndex recipientAddress. sends_call k
        IPoSValidatorManagerABI be opts ''forceInitializeEndValidation0'' [GArr32 validationID,
        GBool includeUptimeProof, GUint 32 (unat messageIndex), GAddr recipientAddress]
       (IPoSValidatorManagerTransactor_ForceInitializeEndValidation0 c opts validationID
          includeUptimeProof messageIndex recipientAddress)) \<and>
     (\<forall>delegationID includeUptimeProof messageIndex. sends_call k IPoSValidatorManagerABI be
        opts ''initializeEndDelegation'' [GArr32 delegationID, GBool includeUptimeProof, GUint
        32 (unat messageIndex)]
       (IPoSValidatorManagerTransactor_InitializeEndDelegation c opts delegationID
          includeUptimeProof messageIndex)) \<and>
     (\<forall>delegationID includeUptimeProof messageIndex recipientAddress. sends_call k
        IPoSValidatorManagerABI be opts ''initializeEndDelegation0'' [GArr32 delegationID, GBool
        includeUptimeProof, GUint 32 (unat messageIndex), GAddr recipientAddress]
       (IPoSValidatorManagerTransactor_InitializeEndDelegation0 c opts delegationID
          includeUptimeProof messageIndex recipientAddress)) \<and>
     (\<forall>validationID includeUptimeProof messageIndex recipientAddress. sends_call k
        IPoSValidatorManagerABI be opts ''initializeEndValidation'' [GArr32 validationID, GBool
        includeUptimeProof, GUint 32 (unat messageIndex), GAddr recipientAddress]
       (IPoSValidatorManagerTransactor_InitializeEndValidation c opts validationID
          includeUptimeProof messageIndex recipientAddress)) \<and>
     (\<forall>validationID includeUptimeProof messageIndex. sends_call k IPoSValidatorManagerABI be
        opts ''initializeEndValidation0'' [GArr32 validationID, GBool includeUptimeProof, GUint
        32 (unat messageIndex)]
       (IPoSValidatorManagerTransactor_InitializeEndValidation0 c opts validationID
          includeUptimeProof messageIndex)) \<and>
     (\<forall>conversionData messsageIndex. sends_call k IPoSValidatorManagerABI be opts
        ''initializeValidatorSet'' [ConversionData_val conversionData, GUint 32 (unat
        messsageIndex)]
       (IPoSValidatorManagerTransactor_InitializeValidatorSet c opts conversionData
          messsageIndex)) \<and>
     (\<forall>validationID. sends_call k IPoSValidatorManagerABI be opts ''resendEndValidatorMessage''
        [GArr32 validationID]
       (IPoSValidatorManagerTransactor_ResendEndValidatorMessage c opts validationID)) \<and>
     (\<forall>validationID. sends_call k IPoSValidatorManagerABI be opts
        ''resendRegisterValidatorMessage'' [GArr32 validationID]
       (IPoSValidatorManagerTransactor_ResendRegisterValidatorMessage c opts validationID)) \<and>
     (\<forall>delegationID. sends_call k IPoSValidatorManagerABI be opts ''resendUpdateDelegation''
        [GArr32 delegationID]
       (IPoSValidatorManagerTransactor_ResendUpdateDelegation c opts delegationID)) \<and>
     (\<forall>validationID messageIndex. sends_call k IPoSValidatorManagerABI be opts
        ''submitUptimeProof'' [GArr32 validationID, GUint 32 (unat messageIndex)]
       (IPoSValidatorManagerTransactor_SubmitUptimeProof c opts validationID messageIndex))"
  unfolding IPoSValidatorManagerTransactor_ChangeDelegatorRewardRecipient_def
     IPoSValidatorManagerTransactor_ChangeValidatorRewardRecipient_def
     IPoSValidatorManagerTransactor_ClaimDelegationFees_def
     IPoSValidatorManagerTransactor_CompleteDelegatorRegistration_def
     IPoSValidatorManagerTransactor_CompleteEndDelegation_def
     IPoSValidatorManagerTransactor_CompleteEndValidation_def
     IPoSValidatorManagerTransactor_CompleteValidatorRegistration_def
     IPoSValidatorManagerTransactor_ForceInitializeEndDelegation_def
     IPoSValidatorManagerTransactor_ForceInitializeEndDelegation0_def
     IPoSValidatorManagerTransactor_ForceInitializeEndValidation_def
     IPoSValidatorManagerTransactor_ForceInitializeEndValidation0_def
     IPoSValidatorManagerTransactor_InitializeEndDelegation_def
     IPoSValidatorManagerTransactor_InitializeEndDelegation0_def
     IPoSValidatorManagerTransactor_InitializeEndValidation_def
     IPoSValidatorManagerTransactor_InitializeEndValidation0_def
     IPoSValidatorManagerTransactor_InitializeValidatorSet_def
     IPoSValidatorManagerTransactor_ResendEndValidatorMessage_def
     IPoSValidatorManagerTransactor_ResendRegisterValidatorMessage_def
     IPoSValidatorManagerTransactor_ResendUpdateDelegation_def
     IPoSValidatorManagerTransactor_SubmitUptimeProof_def
  by ((intro conjI allI impI)?; rule transact_sends [OF assms], rule
     IPoSValidatorManager_methods)
    (simp_all del: matches.simps(1))

lemma IPoSValidatorManager_parsers_decode:
  assumes "codec_events k" and "event_ids k IPoSValidatorManagerABI" and "bound_spec k
     IPoSValidatorManagerABI be c"
  shows "parser_decodes k IPoSValidatorManagerABI ''DelegationEnded''
     (IPoSValidatorManagerFilterer_ParseDelegationEnded c) \<and>
     parser_decodes k IPoSValidatorManagerABI ''DelegatorAdded''
        (IPoSValidatorManagerFilterer_ParseDelegatorAdded c) \<and>
     parser_decodes k IPoSValidatorManagerABI ''DelegatorRegistered''
        (IPoSValidatorManagerFilterer_ParseDelegatorRegistered c) \<and>
     parser_decodes k IPoSValidatorManagerABI ''DelegatorRemovalInitialized''
        (IPoSValidatorManagerFilterer_ParseDelegatorRemovalInitialized c) \<and>
     parser_decodes k IPoSValidatorManagerABI ''InitialValidatorCreated''
        (IPoSValidatorManagerFilterer_ParseInitialValidatorCreated c) \<and>
     parser_decodes k IPoSValidatorManagerABI ''UptimeUpdated''
        (IPoSValidatorManagerFilterer_ParseUptimeUpdated c) \<and>
     parser_decodes k IPoSValidatorManagerABI ''ValidationPeriodCreated''
        (IPoSValidatorManagerFilterer_ParseValidationPeriodCreated c) \<and>
     parser_decodes k IPoSValidatorManagerABI ''ValidationPeriodEnded''
        (IPoSValidatorManagerFilterer_ParseValidationPeriodEnded c) \<and>
     parser_decodes k IPoSValidatorManagerABI ''ValidationPeriodRegistered''
        (IPoSValidatorManagerFilterer_ParseValidationPeriodRegistered c) \<and>
     parser_decodes k IPoSValidatorManagerABI ''ValidatorRemovalInitialized''
        (IPoSValidatorManagerFilterer_ParseValidatorRemovalInitialized c) \<and>
     parser_decodes k IPoSValidatorManagerABI ''ValidatorWeightUpdate''
        (IPoSValidatorManagerFilterer_ParseValidatorWeightUpdate c)"
proof -
  note parses = parse_log_decodes [OF assms]
  show ?thesis
    unfolding IPoSValidatorManagerFilterer_ParseDelegationEnded_def
       IPoSValidatorManagerFilterer_ParseDelegatorAdded_def
       IPoSValidatorManagerFilterer_ParseDelegatorRegistered_def
       IPoSValidatorManagerFilterer_ParseDelegatorRemovalInitialized_def
       IPoSValidatorManagerFilterer_ParseInitialValidatorCreated_def
       IPoSValidatorManagerFilterer_ParseUptimeUpdated_def
       IPoSValidatorManagerFilterer_ParseValidationPeriodCreated_def
       IPoSValidatorManagerFilterer_ParseValidationPeriodEnded_def
       IPoSValidatorManagerFilterer_ParseValidationPeriodRegistered_def
       IPoSValidatorManagerFilterer_ParseValidatorRemovalInitialized_def
       IPoSValidatorManagerFilterer_ParseValidatorWeightUpdate_def
    by ((intro conjI)?; rule parses, rule IPoSValidatorManager_events, rule
       IPoSValidatorManager_decodable)
qed

end
