(* ===== verification/ExampleRewardCalculatorBinding.thy ===== *)
theory ExampleRewardCalculatorBinding
  imports Binding
begin

text \<open>
  The generated binding \<open>abi-bindings/go/validator-manager/ExampleRewardCalculator/ExampleRewardCalculator.go\<close> over the generic
  definitions of theory \<open>Binding\<close>: its ABI, every method with its session wrappers, every event with
  its iterator, filter, watch and parser. The bytecode is a parameter of deployment; the aliases
  \<open>Raw\<close> of the untyped calls are not modelled.
\<close>

section \<open>The contract's ABI (ExampleRewardCalculatorMetaData)\<close>

definition ExampleRewardCalculatorABI :: contract_abi where
  "ExampleRewardCalculatorABI = \<lparr>
      Methods = [
        (''BIPS_CONVERSION_FACTOR'', [],
           [('''', TUint 16)]),
        (''SECONDS_IN_YEAR'', [],
           [('''', TUint 256)]),
        (''UPTIME_REWARDS_THRESHOLD_PERCENTAGE'', [],
           [('''', TUint 8)]),
        (''calculateReward'', [(''stakeAmount'', TUint 256), (''validatorStartTime'', TUint 64),
           (''stakingStartTime'', TUint 64), (''stakingEndTime'', TUint 64), (''uptimeSeconds'',
           TUint 64)],
           [('''', TUint 256)]),
        (''rewardBasisPoints'', [],
           [('''', TUint 64)])],
      Events = []\<rparr>"

section \<open>Binding and deployment\<close>

definition bindExampleRewardCalculator :: "'w bind_lib \<Rightarrow> address \<Rightarrow> goerr + 'w bound_contract"
   where
  "bindExampleRewardCalculator lib addr = bind_contract lib ExampleRewardCalculatorABI addr"

definition NewExampleRewardCalculator :: "'w bind_lib \<Rightarrow> address \<Rightarrow> goerr + 'w bound_contract"
   where
  "NewExampleRewardCalculator lib addr = bindExampleRewardCalculator lib addr"

definition DeployExampleRewardCalculator ::
  "'w bind_lib \<Rightarrow> string \<Rightarrow> TransactOpts \<Rightarrow> u64 \<Rightarrow> 
   ('w, goerr + address \<times> hash \<times> 'w bound_contract) prog" where
  "DeployExampleRewardCalculator lib bin auth rewardBasisPoints = deploy_contract lib auth
     ExampleRewardCalculatorABI bin [GUint 64 (unat rewardBasisPoints)]"

section \<open>Methods\<close>

definition ExampleRewardCalculatorCaller_BIPSCONVERSIONFACTOR ::
  "'w bound_contract \<Rightarrow> CallOpts \<Rightarrow> ('w, goerr + u16) prog" where
  "ExampleRewardCalculatorCaller_BIPSCONVERSIONFACTOR c opts =
     call_method c opts ''BIPS_CONVERSION_FACTOR'' [] (out1 (go_word 16))"

definition ExampleRewardCalculatorSession_BIPSCONVERSIONFACTOR ::
  "'w session \<Rightarrow> ('w, goerr + u16) prog" where
  "ExampleRewardCalculatorSession_BIPSCONVERSIONFACTOR s =
     ExampleRewardCalculatorCaller_BIPSCONVERSIONFACTOR (SessionContract s) (SessionCallOpts s)"

definition ExampleRewardCalculatorCaller_SECONDSINYEAR ::
  "'w bound_contract \<Rightarrow> CallOpts \<Rightarrow> ('w, goerr + int) prog" where
  "ExampleRewardCalculatorCaller_SECONDSINYEAR c opts =
     call_method c opts ''SECONDS_IN_YEAR'' [] (out1 go_big)"

definition ExampleRewardCalculatorSession_SECONDSINYEAR ::
  "'w session \<Rightarrow> ('w, goerr + int) prog" where
  "ExampleRewardCalculatorSession_SECONDSINYEAR s = ExampleRewardCalculatorCaller_SECONDSINYEAR
     (SessionContract s) (SessionCallOpts s)"

definition ExampleRewardCalculatorCaller_UPTIMEREWARDSTHRESHOLDPERCENTAGE ::
  "'w bound_contract \<Rightarrow> CallOpts \<Rightarrow> ('w, goerr + u8) prog" where
  "ExampleRewardCalculatorCaller_UPTIMEREWARDSTHRESHOLDPERCENTAGE c opts =
     call_method c opts ''UPTIME_REWARDS_THRESHOLD_PERCENTAGE'' [] (out1 (go_word 8))"

definition ExampleRewardCalculatorSession_UPTIMEREWARDSTHRESHOLDPERCENTAGE ::
  "'w session \<Rightarrow> ('w, goerr + u8) prog" where
  "ExampleRewardCalculatorSession_UPTIMEREWARDSTHRESHOLDPERCENTAGE s =
     ExampleRewardCalculatorCaller_UPTIMEREWARDSTHRESHOLDPERCENTAGE (SessionContract s)
     (SessionCallOpts s)"

definition ExampleRewardCalculatorCaller_CalculateReward ::
  "'w bound_contract \<Rightarrow> CallOpts \<Rightarrow> int \<Rightarrow> u64 \<Rightarrow> u64 \<Rightarrow> u64 \<Rightarrow> u64 \<Rightarrow> ('w, goerr + int) prog" where
  "ExampleRewardCalculatorCaller_CalculateReward c opts stakeAmount validatorStartTime
     stakingStartTime stakingEndTime uptimeSeconds =
     call_method c opts ''calculateReward'' [GBig stakeAmount, GUint 64 (unat
        validatorStartTime), GUint 64 (unat stakingStartTime), GUint 64 (unat stakingEndTime),
        GUint 64 (unat uptimeSeconds)] (out1 go_big)"

definition ExampleRewardCalculatorSession_CalculateReward ::
  "'w session \<Rightarrow> int \<Rightarrow> u64 \<Rightarrow> u64 \<Rightarrow> u64 \<Rightarrow> u64 \<Rightarrow> ('w, goerr + int) prog" where
  "ExampleRewardCalculatorSession_CalculateReward s stakeAmount validatorStartTime
     stakingStartTime stakingEndTime uptimeSeconds =
     ExampleRewardCalculatorCaller_CalculateReward (SessionContract s) (SessionCallOpts s)
     stakeAmount validatorStartTime stakingStartTime stakingEndTime uptimeSeconds"

definition ExampleRewardCalculatorCaller_RewardBasisPoints ::
  "'w bound_contract \<Rightarrow> CallOpts \<Rightarrow> ('w, goerr + u64) prog" where
  "ExampleRewardCalculatorCaller_RewardBasisPoints c opts =
     call_method c opts ''rewardBasisPoints'' [] (out1 (go_word 64))"

definition ExampleRewardCalculatorSession_RewardBasisPoints ::
  "'w session \<Rightarrow> ('w, goerr + u64) prog" where
  "ExampleRewardCalculatorSession_RewardBasisPoints s =
     ExampleRewardCalculatorCaller_RewardBasisPoints (SessionContract s) (SessionCallOpts s)"

section \<open>Correctness\<close>

lemma ExampleRewardCalculator_methods:
  "map_of (Methods ExampleRewardCalculatorABI) ''BIPS_CONVERSION_FACTOR'' =
     Some ([], [([], TUint 16)])"
  "map_of (Methods ExampleRewardCalculatorABI) ''SECONDS_IN_YEAR'' =
     Some ([], [([], TUint 256)])"
  "map_of (Methods ExampleRewardCalculatorABI) ''UPTIME_REWARDS_THRESHOLD_PERCENTAGE'' =
     Some ([], [([], TUint 8)])"
  "map_of (Methods ExampleRewardCalculatorABI) ''calculateReward'' =
     Some ([(''stakeAmount'', TUint 256), (''validatorStartTime'', TUint 64),
        (''stakingStartTime'', TUint 64), (''stakingEndTime'', TUint 64), (''uptimeSeconds'',
        TUint 64)], [([], TUint 256)])"
  "map_of (Methods ExampleRewardCalculatorABI) ''rewardBasisPoints'' =
     Some ([], [([], TUint 64)])"
  unfolding ExampleRewardCalculatorABI_def contract_abi.select_convs
  by (simp_all only: table_lookup)

lemma ExampleRewardCalculator_calls_return_outputs:
  assumes "codec_methods k" and "codec_roundtrip k" and "bound_spec k ExampleRewardCalculatorABI
     be c"
  shows "(\<forall>r0. reads_call k ExampleRewardCalculatorABI be opts ''BIPS_CONVERSION_FACTOR'' []
       [GUint 16 (unat r0)] r0 (ExampleRewardCalculatorCaller_BIPSCONVERSIONFACTOR c opts)) \<and>
     (\<forall>r0. in_uint256 r0 \<longrightarrow> reads_call k ExampleRewardCalculatorABI be opts ''SECONDS_IN_YEAR''
        []
       [GBig r0] r0 (ExampleRewardCalculatorCaller_SECONDSINYEAR c opts)) \<and>
     (\<forall>r0. reads_call k ExampleRewardCalculatorABI be opts
        ''UPTIME_REWARDS_THRESHOLD_PERCENTAGE'' []
       [GUint 8 (unat r0)] r0 (ExampleRewardCalculatorCaller_UPTIMEREWARDSTHRESHOLDPERCENTAGE c
          opts)) \<and>
     (\<forall>stakeAmount validatorStartTime stakingStartTime stakingEndTime uptimeSeconds r0.
        in_uint256 stakeAmount \<longrightarrow> in_uint256 r0 \<longrightarrow> reads_call k ExampleRewardCalculatorABI be opts
        ''calculateReward'' [GBig stakeAmount, GUint 64 (unat validatorStartTime), GUint 64
        (unat stakingStartTime), GUint 64 (unat stakingEndTime), GUint 64 (unat uptimeSeconds)]
       [GBig r0] r0 (ExampleRewardCalculatorCaller_CalculateReward c opts stakeAmount
          validatorStartTime stakingStartTime stakingEndTime uptimeSeconds)) \<and>
     (\<forall>r0. reads_call k ExampleRewardCalculatorABI be opts ''rewardBasisPoints'' []
       [GUint 64 (unat r0)] r0 (ExampleRewardCalculatorCaller_RewardBasisPoints c opts))"
  unfolding ExampleRewardCalculatorCaller_BIPSCONVERSIONFACTOR_def
     ExampleRewardCalculatorCaller_SECONDSINYEAR_def
     ExampleRewardCalculatorCaller_UPTIMEREWARDSTHRESHOLDPERCENTAGE_def
     ExampleRewardCalculatorCaller_CalculateReward_def
     ExampleRewardCalculatorCaller_RewardBasisPoints_def
  by ((intro conjI allI impI)?; rule call_reads [OF assms], rule
     ExampleRewardCalculator_methods)
    (simp_all del: matches.simps(1))

end
