(* ===== verification/TestMessengerBinding.thy ===== *)
theory TestMessengerBinding
  imports Binding
begin

text \<open>
  The generated binding \<open>abi-bindings/go/teleporter/tests/TestMessenger/TestMessenger.go\<close> over the generic
  definitions of theory \<open>Binding\<close>: its ABI, every method with its session wrappers, every event with
  its iterator, filter, watch and parser. The bytecode is a parameter of deployment; the aliases
  \<open>Raw\<close> of the untyped calls are not modelled.
\<close>

section \<open>The contract's ABI (TestMessengerMetaData)\<close>

definition TestMessengerABI :: contract_abi where
  "TestMessengerABI = \<lparr>
      Methods = [
        (''TELEPORTER_REGISTRY_APP_STORAGE_LOCATION'', [],
           [('''', TBytes32)]),
        (''getCurrentMessage'', [(''sourceBlockchainID'', TBytes32)],
           [('''', TAddress), ('''', TString)]),
        (''getMinTeleporterVersion'', [],
           [('''', TUint 256)]),
        (''isTeleporterAddressPaused'', [(''teleporterAddress'', TAddress)],
           [('''', TBool)]),
        (''owner'', [],
           [('''', TAddress)]),
        (''pauseTeleporterAddress'', [(''teleporterAddress'', TAddress)],
           []),
        (''receiveTeleporterMessage'', [(''sourceBlockchainID'', TBytes32),
           (''originSenderAddress'', TAddress), (''message'', TBytes)],
           []),
        (''renounceOwnership'', [],
           []),
        (''sendMessage'', [(''destinationBlockchainID'', TBytes32), (''destinationAddress'',
           TAddress), (''feeTokenAddress'', TAddress), (''feeAmount'', TUint 256),
           (''requiredGasLimit'', TUint 256), (''message'', TString)],
           [('''', TBytes32)]),
        (''transferOwnership'', [(''newOwner'', TAddress)],
           []),
        (''unpauseTeleporterAddress'', [(''teleporterAddress'', TAddress)],
           []),
        (''updateMinTeleporterVersion'', [(''version'', TUint 256)],
           [])],
      Events = [
        (''Initialized'', [(''version'', TUint 64, False)]),
        (''MinTeleporterVersionUpdated'', [(''oldMinTeleporterVersion'', TUint 256, True),
           (''newMinTeleporterVersion'', TUint 256, True)]),
        (''OwnershipTransferred'', [(''previousOwner'', TAddress, True), (''newOwner'',
           TAddress, True)]),
        (''ReceiveMessage'', [(''sourceBlockchainID'', TBytes32, True),
           (''originSenderAddress'', TAddress, True), (''message'', TString, False)]),
        (''SendMessage'', [(''destinationBlockchainID'', TBytes32, True),
           (''destinationAddress'', TAddress, True), (''feeTokenAddress'', TAddress, False),
           (''feeAmount'', TUint 256, False), (''requiredGasLimit'', TUint 256, False),
           (''message'', TString, False)]),
        (''TeleporterAddressPaused'', [(''teleporterAddress'', TAddress, True)]),
        (''TeleporterAddressUnpaused'', [(''teleporterAddress'', TAddress, True)])]\<rparr>"

section \<open>Binding and deployment\<close>

definition bindTestMessenger :: "'w bind_lib \<Rightarrow> address \<Rightarrow> goerr + 'w bound_contract" where
  "bindTestMessenger lib addr = bind_contract lib TestMessengerABI addr"

definition NewTestMessenger :: "'w bind_lib \<Rightarrow> address \<Rightarrow> goerr + 'w bound_contract" where
  "NewTestMessenger lib addr = bindTestMessenger lib addr"

definition DeployTestMessenger ::
  "'w bind_lib \<Rightarrow> string \<Rightarrow> TransactOpts \<Rightarrow> address \<Rightarrow> address \<Rightarrow> int \<Rightarrow> 
   ('w, goerr + address \<times> hash \<times> 'w bound_contract) prog" where
  "DeployTestMessenger lib bin auth teleporterRegistryAddress teleporterManager
     minTeleporterVersion = deploy_contract lib auth TestMessengerABI bin [GAddr
     teleporterRegistryAddress, GAddr teleporterManager, GBig minTeleporterVersion]"

section \<open>Methods\<close>

definition TestMessengerCaller_TELEPORTERREGISTRYAPPSTORAGELOCATION ::
  "'w bound_contract \<Rightarrow> CallOpts \<Rightarrow> ('w, goerr + hash) prog" where
  "TestMessengerCaller_TELEPORTERREGISTRYAPPSTORAGELOCATION c opts =
     call_method c opts ''TELEPORTER_REGISTRY_APP_STORAGE_LOCATION'' [] (out1 go_arr32)"

definition TestMessengerSession_TELEPORTERREGISTRYAPPSTORAGELOCATION ::
  "'w session \<Rightarrow> ('w, goerr + hash) prog" where
  "TestMessengerSession_TELEPORTERREGISTRYAPPSTORAGELOCATION s =
     TestMessengerCaller_TELEPORTERREGISTRYAPPSTORAGELOCATION (SessionContract s)
     (SessionCallOpts s)"

definition TestMessengerCaller_GetCurrentMessage ::
  "'w bound_contract \<Rightarrow> CallOpts \<Rightarrow> hash \<Rightarrow> ('w, goerr + address \<times> string) prog" where
  "TestMessengerCaller_GetCurrentMessage c opts sourceBlockchainID =
     call_method c opts ''getCurrentMessage'' [GArr32 sourceBlockchainID] (out2 go_addr go_str)"

definition TestMessengerSession_GetCurrentMessage ::
  "'w session \<Rightarrow> hash \<Rightarrow> ('w, goerr + address \<times> string) prog" where
  "TestMessengerSession_GetCurrentMessage s sourceBlockchainID =
     TestMessengerCaller_GetCurrentMessage (SessionContract s) (SessionCallOpts s)
     sourceBlockchainID"

definition TestMessengerCaller_GetMinTeleporterVersion ::
  "'w bound_contract \<Rightarrow> CallOpts \<Rightarrow> ('w, goerr + int) prog" where
  "TestMessengerCaller_GetMinTeleporterVersion c opts =
     call_method c opts ''getMinTeleporterVersion'' [] (out1 go_big)"

definition TestMessengerSession_GetMinTeleporterVersion ::
  "'w session \<Rightarrow> ('w, goerr + int) prog" where
  "TestMessengerSession_GetMinTeleporterVersion s = TestMessengerCaller_GetMinTeleporterVersion
     (SessionContract s) (SessionCallOpts s)"

definition TestMessengerCaller_IsTeleporterAddressPaused ::
  "'w bound_contract \<Rightarrow> CallOpts \<Rightarrow> address \<Rightarrow> ('w, goerr + bool) prog" where
  "TestMessengerCaller_IsTeleporterAddressPaused c opts teleporterAddress =
     call_method c opts ''isTeleporterAddressPaused'' [GAddr teleporterAddress] (out1 go_bool)"

definition TestMessengerSession_IsTeleporterAddressPaused ::
  "'w session \<Rightarrow> address \<Rightarrow> ('w, goerr + bool) prog" where
  "TestMessengerSession_IsTeleporterAddressPaused s teleporterAddress =
     TestMessengerCaller_IsTeleporterAddressPaused (SessionContract s) (SessionCallOpts s)
     teleporterAddress"

definition TestMessengerCaller_Owner ::
  "'w bound_contract \<Rightarrow> CallOpts \<Rightarrow> ('w, goerr + address) prog" where
  "TestMessengerCaller_Owner c opts =
     call_method c opts ''owner'' [] (out1 go_addr)"

definition TestMessengerSession_Owner ::
  "'w session \<Rightarrow> ('w, goerr + address) prog" where
  "TestMessengerSession_Owner s = TestMessengerCaller_Owner (SessionContract s) (SessionCallOpts
     s)"

definition TestMessengerTransactor_PauseTeleporterAddress ::
  "'w bound_contract \<Rightarrow> TransactOpts \<Rightarrow> address \<Rightarrow> ('w, goerr + hash) prog" where
  "TestMessengerTransactor_PauseTeleporterAddress c opts teleporterAddress =
     contract_transact c opts ''pauseTeleporterAddress'' [GAddr teleporterAddress]"

definition TestMessengerSession_PauseTeleporterAddress ::
  "'w session \<Rightarrow> address \<Rightarrow> ('w, goerr + hash) prog" where
  "TestMessengerSession_PauseTeleporterAddress s teleporterAddress =
     TestMessengerTransactor_PauseTeleporterAddress (SessionContract s) (SessionTransactOpts s)
     teleporterAddress"

definition TestMessengerTransactor_ReceiveTeleporterMessage ::
  "'w bound_contract \<Rightarrow> TransactOpts \<Rightarrow> hash \<Rightarrow> address \<Rightarrow> bytes \<Rightarrow> ('w, goerr + hash) prog" where
  "TestMessengerTransactor_ReceiveTeleporterMessage c opts sourceBlockchainID
     originSenderAddress message =
     contract_transact c opts ''receiveTeleporterMessage'' [GArr32 sourceBlockchainID, GAddr
        originSenderAddress, GBytes message]"

definition TestMessengerSession_ReceiveTeleporterMessage ::
  "'w session \<Rightarrow> hash \<Rightarrow> address \<Rightarrow> bytes \<Rightarrow> ('w, goerr + hash) prog" where
  "TestMessengerSession_ReceiveTeleporterMessage s sourceBlockchainID originSenderAddress
     message = TestMessengerTransactor_ReceiveTeleporterMessage (SessionContract s)
     (SessionTransactOpts s) sourceBlockchainID originSenderAddress message"

definition TestMessengerTransactor_RenounceOwnership ::
  "'w bound_contract \<Rightarrow> TransactOpts \<Rightarrow> ('w, goerr + hash) prog" where
  "TestMessengerTransactor_RenounceOwnership c opts =
     contract_transact c opts ''renounceOwnership'' []"

definition TestMessengerSession_RenounceOwnership ::
  "'w session \<Rightarrow> ('w, goerr + hash) prog" where
  "TestMessengerSession_RenounceOwnership s = TestMessengerTransactor_RenounceOwnership
     (SessionContract s) (SessionTransactOpts s)"

definition TestMessengerTransactor_SendMessage ::
  "'w bound_contract \<Rightarrow> TransactOpts \<Rightarrow> hash \<Rightarrow> address \<Rightarrow> address \<Rightarrow> int \<Rightarrow> int \<Rightarrow> string \<Rightarrow> ('w, goerr
     + hash) prog" where
  "TestMessengerTransactor_SendMessage c opts destinationBlockchainID destinationAddress
     feeTokenAddress feeAmount requiredGasLimit message =
     contract_transact c opts ''sendMessage'' [GArr32 destinationBlockchainID, GAddr
        destinationAddress, GAddr feeTokenAddress, GBig feeAmount, GBig requiredGasLimit, GStr
        message]"

definition TestMessengerSession_SendMessage ::
  "'w session \<Rightarrow> hash \<Rightarrow> address \<Rightarrow> address \<Rightarrow> int \<Rightarrow> int \<Rightarrow> string \<Rightarrow> ('w, goerr + hash) prog" where
  "TestMessengerSession_SendMessage s destinationBlockchainID destinationAddress feeTokenAddress
     feeAmount requiredGasLimit message = TestMessengerTransactor_SendMessage (SessionContract
     s) (SessionTransactOpts s) destinationBlockchainID destinationAddress feeTokenAddress
     feeAmount requiredGasLimit message"

definition TestMessengerTransactor_TransferOwnership ::
  "'w bound_contract \<Rightarrow> TransactOpts \<Rightarrow> address \<Rightarrow> ('w, goerr + hash) prog" where
  "TestMessengerTransactor_TransferOwnership c opts newOwner =
     contract_transact c opts ''transferOwnership'' [GAddr newOwner]"

definition TestMessengerSession_TransferOwnership ::
  "'w session \<Rightarrow> address \<Rightarrow> ('w, goerr + hash) prog" where
  "TestMessengerSession_TransferOwnership s newOwner = TestMessengerTransactor_TransferOwnership
     (SessionContract s) (SessionTransactOpts s) newOwner"

definition TestMessengerTransactor_UnpauseTeleporterAddress ::
  "'w bound_contract \<Rightarrow> TransactOpts \<Rightarrow> address \<Rightarrow> ('w, goerr + hash) prog" where
  "TestMessengerTransactor_UnpauseTeleporterAddress c opts teleporterAddress =
     contract_transact c opts ''unpauseTeleporterAddress'' [GAddr teleporterAddress]"

definition TestMessengerSession_UnpauseTeleporterAddress ::
  "'w session \<Rightarrow> address \<Rightarrow> ('w, goerr + hash) prog" where
  "TestMessengerSession_UnpauseTeleporterAddress s teleporterAddress =
     TestMessengerTransactor_UnpauseTeleporterAddress (SessionContract s) (SessionTransactOpts
     s) teleporterAddress"

definition TestMessengerTransactor_UpdateMinTeleporterVersion ::
  "'w bound_contract \<Rightarrow> TransactOpts \<Rightarrow> int \<Rightarrow> ('w, goerr + hash) prog" where
  "TestMessengerTransactor_UpdateMinTeleporterVersion c opts version_number =
     contract_transact c opts ''updateMinTeleporterVersion'' [GBig version_number]"

definition TestMessengerSession_UpdateMinTeleporterVersion ::
  "'w session \<Rightarrow> int \<Rightarrow> ('w, goerr + hash) prog" where
  "TestMessengerSession_UpdateMinTeleporterVersion s version_number =
     TestMessengerTransactor_UpdateMinTeleporterVersion (SessionContract s) (SessionTransactOpts
     s) version_number"

section \<open>Events\<close>

definition TestMessengerInitialized :: event_fields where
  "TestMessengerInitialized = [(''Version'', GUint 64 0), (''Raw'', zero_Log)]"

definition TestMessengerInitializedIterator_Next ::
  "'w bound_contract \<Rightarrow> bool \<Rightarrow> iterator \<Rightarrow> (bool \<times> iterator) option" where
  "TestMessengerInitializedIterator_Next c pick it = iterator_Next (parse_log c ''Initialized''
     TestMessengerInitialized) TestMessengerInitialized pick it"

definition TestMessengerInitializedIterator_Error :: "iterator \<Rightarrow> goerr option" where
  "TestMessengerInitializedIterator_Error it = iterator_Error it"

definition TestMessengerInitializedIterator_Close :: "iterator \<Rightarrow> goerr option \<times> iterator" where
  "TestMessengerInitializedIterator_Close it = iterator_Close it"

definition TestMessengerFilterer_FilterInitialized ::
  "'w bound_contract \<Rightarrow> FilterOpts \<Rightarrow> ('w, goerr + iterator) prog" where
  "TestMessengerFilterer_FilterInitialized c opts =
     filter_events c opts ''Initialized'' []"

definition TestMessengerFilterer_WatchInitialized ::
  "'w bound_contract \<Rightarrow> ('w, goerr + (evm_log \<Rightarrow> goerr + event_fields)) prog" where
  "TestMessengerFilterer_WatchInitialized c =
     watch_events c ''Initialized'' TestMessengerInitialized []"

definition TestMessengerFilterer_ParseInitialized ::
  "'w bound_contract \<Rightarrow> evm_log \<Rightarrow> goerr + event_fields" where
  "TestMessengerFilterer_ParseInitialized c = parse_log c ''Initialized''
     TestMessengerInitialized"

definition TestMessengerMinTeleporterVersionUpdated :: event_fields where
  "TestMessengerMinTeleporterVersionUpdated = [(''OldMinTeleporterVersion'', GNil),
     (''NewMinTeleporterVersion'', GNil), (''Raw'', zero_Log)]"

definition TestMessengerMinTeleporterVersionUpdatedIterator_Next ::
  "'w bound_contract \<Rightarrow> bool \<Rightarrow> iterator \<Rightarrow> (bool \<times> iterator) option" where
  "TestMessengerMinTeleporterVersionUpdatedIterator_Next c pick it = iterator_Next (parse_log c
     ''MinTeleporterVersionUpdated'' TestMessengerMinTeleporterVersionUpdated)
     TestMessengerMinTeleporterVersionUpdated pick it"

definition TestMessengerMinTeleporterVersionUpdatedIterator_Error :: "iterator \<Rightarrow> goerr option"
   where
  "TestMessengerMinTeleporterVersionUpdatedIterator_Error it = iterator_Error it"

definition TestMessengerMinTeleporterVersionUpdatedIterator_Close :: "iterator \<Rightarrow> goerr option \<times>
   iterator" where
  "TestMessengerMinTeleporterVersionUpdatedIterator_Close it = iterator_Close it"

definition TestMessengerFilterer_FilterMinTeleporterVersionUpdated ::
  "'w bound_contract \<Rightarrow> FilterOpts \<Rightarrow> int list \<Rightarrow> int list \<Rightarrow> ('w, goerr + iterator) prog" where
  "TestMessengerFilterer_FilterMinTeleporterVersionUpdated c opts oldMinTeleporterVersion
     newMinTeleporterVersion =
     filter_events c opts ''MinTeleporterVersionUpdated'' [map GBig oldMinTeleporterVersion, map
        GBig newMinTeleporterVersion]"

definition TestMessengerFilterer_WatchMinTeleporterVersionUpdated ::
  "'w bound_contract \<Rightarrow> int list \<Rightarrow> int list \<Rightarrow> ('w, goerr + (evm_log \<Rightarrow> goerr + event_fields))
     prog" where
  "TestMessengerFilterer_WatchMinTeleporterVersionUpdated c oldMinTeleporterVersion
     newMinTeleporterVersion =
     watch_events c ''MinTeleporterVersionUpdated'' TestMessengerMinTeleporterVersionUpdated
        [map GBig oldMinTeleporterVersion, map GBig newMinTeleporterVersion]"

definition TestMessengerFilterer_ParseMinTeleporterVersionUpdated ::
  "'w bound_contract \<Rightarrow> evm_log \<Rightarrow> goerr + event_fields" where
  "TestMessengerFilterer_ParseMinTeleporterVersionUpdated c = parse_log c
     ''MinTeleporterVersionUpdated'' TestMessengerMinTeleporterVersionUpdated"

definition TestMessengerOwnershipTransferred :: event_fields where
  "TestMessengerOwnershipTransferred = [(''PreviousOwner'', GAddr 0), (''NewOwner'', GAddr 0),
     (''Raw'', zero_Log)]"

definition TestMessengerOwnershipTransferredIterator_Next ::
  "'w bound_contract \<Rightarrow> bool \<Rightarrow> iterator \<Rightarrow> (bool \<times> iterator) option" where
  "TestMessengerOwnershipTransferredIterator_Next c pick it = iterator_Next (parse_log c
     ''OwnershipTransferred'' TestMessengerOwnershipTransferred)
     TestMessengerOwnershipTransferred pick it"

definition TestMessengerOwnershipTransferredIterator_Error :: "iterator \<Rightarrow> goerr option" where
  "TestMessengerOwnershipTransferredIterator_Error it = iterator_Error it"

definition TestMessengerOwnershipTransferredIterator_Close :: "iterator \<Rightarrow> goerr option \<times>
   iterator" where
  "TestMessengerOwnershipTransferredIterator_Close it = iterator_Close it"

definition TestMessengerFilterer_FilterOwnershipTransferred ::
  "'w bound_contract \<Rightarrow> FilterOpts \<Rightarrow> address list \<Rightarrow> address list \<Rightarrow> ('w, goerr + iterator) prog"
     where
  "TestMessengerFilterer_FilterOwnershipTransferred c opts previousOwner newOwner =
     filter_events c opts ''OwnershipTransferred'' [map GAddr previousOwner, map GAddr
        newOwner]"

definition TestMessengerFilterer_WatchOwnershipTransferred ::
  "'w bound_contract \<Rightarrow> address list \<Rightarrow> address list \<Rightarrow> ('w, goerr + (evm_log \<Rightarrow> goerr +
     event_fields)) prog" where
  "TestMessengerFilterer_WatchOwnershipTransferred c previousOwner newOwner =
     watch_events c ''OwnershipTransferred'' TestMessengerOwnershipTransferred [map GAddr
        previousOwner, map GAddr newOwner]"

definition TestMessengerFilterer_ParseOwnershipTransferred ::
  "'w bound_contract \<Rightarrow> evm_log \<Rightarrow> goerr + event_fields" where
  "TestMessengerFilterer_ParseOwnershipTransferred c = parse_log c ''OwnershipTransferred''
     TestMessengerOwnershipTransferred"

definition TestMessengerReceiveMessage :: event_fields where
  "TestMessengerReceiveMessage = [(''SourceBlockchainID'', GArr32 0), (''OriginSenderAddress'',
     GAddr 0), (''Message'', GStr []), (''Raw'', zero_Log)]"

definition TestMessengerReceiveMessageIterator_Next ::
  "'w bound_contract \<Rightarrow> bool \<Rightarrow> iterator \<Rightarrow> (bool \<times> iterator) option" where
  "TestMessengerReceiveMessageIterator_Next c pick it = iterator_Next (parse_log c
     ''ReceiveMessage'' TestMessengerReceiveMessage) TestMessengerReceiveMessage pick it"

definition TestMessengerReceiveMessageIterator_Error :: "iterator \<Rightarrow> goerr option" where
  "TestMessengerReceiveMessageIterator_Error it = iterator_Error it"

definition TestMessengerReceiveMessageIterator_Close :: "iterator \<Rightarrow> goerr option \<times> iterator"
   where
  "TestMessengerReceiveMessageIterator_Close it = iterator_Close it"

definition TestMessengerFilterer_FilterReceiveMessage ::
  "'w bound_contract \<Rightarrow> FilterOpts \<Rightarrow> hash list \<Rightarrow> address list \<Rightarrow> ('w, goerr + iterator) prog"
     where
  "TestMessengerFilterer_FilterReceiveMessage c opts sourceBlockchainID originSenderAddress =
     filter_events c opts ''ReceiveMessage'' [map GArr32 sourceBlockchainID, map GAddr
        originSenderAddress]"

definition TestMessengerFilterer_WatchReceiveMessage ::
  "'w bound_contract \<Rightarrow> hash list \<Rightarrow> address list \<Rightarrow> ('w, goerr + (evm_log \<Rightarrow> goerr + event_fields))
     prog" where
  "TestMessengerFilterer_WatchReceiveMessage c sourceBlockchainID originSenderAddress =
     watch_events c ''ReceiveMessage'' TestMessengerReceiveMessage [map GArr32
        sourceBlockchainID, map GAddr originSenderAddress]"

definition TestMessengerFilterer_ParseReceiveMessage ::
  "'w bound_contract \<Rightarrow> evm_log \<Rightarrow> goerr + event_fields" where
  "TestMessengerFilterer_ParseReceiveMessage c = parse_log c ''ReceiveMessage''
     TestMessengerReceiveMessage"

definition TestMessengerSendMessage :: event_fields where
  "TestMessengerSendMessage = [(''DestinationBlockchainID'', GArr32 0), (''DestinationAddress'',
     GAddr 0), (''FeeTokenAddress'', GAddr 0), (''FeeAmount'', GNil), (''RequiredGasLimit'',
     GNil), (''Message'', GStr []), (''Raw'', zero_Log)]"

definition TestMessengerSendMessageIterator_Next ::
  "'w bound_contract \<Rightarrow> bool \<Rightarrow> iterator \<Rightarrow> (bool \<times> iterator) option" where
  "TestMessengerSendMessageIterator_Next c pick it = iterator_Next (parse_log c ''SendMessage''
     TestMessengerSendMessage) TestMessengerSendMessage pick it"

definition TestMessengerSendMessageIterator_Error :: "iterator \<Rightarrow> goerr option" where
  "TestMessengerSendMessageIterator_Error it = iterator_Error it"

definition TestMessengerSendMessageIterator_Close :: "iterator \<Rightarrow> goerr option \<times> iterator" where
  "TestMessengerSendMessageIterator_Close it = iterator_Close it"

definition TestMessengerFilterer_FilterSendMessage ::
  "'w bound_contract \<Rightarrow> FilterOpts \<Rightarrow> hash list \<Rightarrow> address list \<Rightarrow> ('w, goerr + iterator) prog"
     where
  "TestMessengerFilterer_FilterSendMessage c opts destinationBlockchainID destinationAddress =
     filter_events c opts ''SendMessage'' [map GArr32 destinationBlockchainID, map GAddr
        destinationAddress]"

definition TestMessengerFilterer_WatchSendMessage ::
  "'w bound_contract \<Rightarrow> hash list \<Rightarrow> address list \<Rightarrow> ('w, goerr + (evm_log \<Rightarrow> goerr + event_fields))
     prog" where
  "TestMessengerFilterer_WatchSendMessage c destinationBlockchainID destinationAddress =
     watch_events c ''SendMessage'' TestMessengerSendMessage [map GArr32
        destinationBlockchainID, map GAddr destinationAddress]"

definition TestMessengerFilterer_ParseSendMessage ::
  "'w bound_contract \<Rightarrow> evm_log \<Rightarrow> goerr + event_fields" where
  "TestMessengerFilterer_ParseSendMessage c = parse_log c ''SendMessage''
     TestMessengerSendMessage"

definition TestMessengerTeleporterAddressPaused :: event_fields where
  "TestMessengerTeleporterAddressPaused = [(''TeleporterAddress'', GAddr 0), (''Raw'',
     zero_Log)]"

definition TestMessengerTeleporterAddressPausedIterator_Next ::
  "'w bound_contract \<Rightarrow> bool \<Rightarrow> iterator \<Rightarrow> (bool \<times> iterator) option" where
  "TestMessengerTeleporterAddressPausedIterator_Next c pick it = iterator_Next (parse_log c
     ''TeleporterAddressPaused'' TestMessengerTeleporterAddressPaused)
     TestMessengerTeleporterAddressPaused pick it"

definition TestMessengerTeleporterAddressPausedIterator_Error :: "iterator \<Rightarrow> goerr option" where
  "TestMessengerTeleporterAddressPausedIterator_Error it = iterator_Error it"

definition TestMessengerTeleporterAddressPausedIterator_Close :: "iterator \<Rightarrow> goerr option \<times>
   iterator" where
  "TestMessengerTeleporterAddressPausedIterator_Close it = iterator_Close it"

definition TestMessengerFilterer_FilterTeleporterAddressPaused ::
  "'w bound_contract \<Rightarrow> FilterOpts \<Rightarrow> address list \<Rightarrow> ('w, goerr + iterator) prog" where
  "TestMessengerFilterer_FilterTeleporterAddressPaused c opts teleporterAddress =
     filter_events c opts ''TeleporterAddressPaused'' [map GAddr teleporterAddress]"

definition TestMessengerFilterer_WatchTeleporterAddressPaused ::
  "'w bound_contract \<Rightarrow> address list \<Rightarrow> ('w, goerr + (evm_log \<Rightarrow> goerr + event_fields)) prog" where
  "TestMessengerFilterer_WatchTeleporterAddressPaused c teleporterAddress =
     watch_events c ''TeleporterAddressPaused'' TestMessengerTeleporterAddressPaused [map GAddr
        teleporterAddress]"

definition TestMessengerFilterer_ParseTeleporterAddressPaused ::
  "'w bound_contract \<Rightarrow> evm_log \<Rightarrow> goerr + event_fields" where
  "TestMessengerFilterer_ParseTeleporterAddressPaused c = parse_log c
     ''TeleporterAddressPaused'' TestMessengerTeleporterAddressPaused"

definition TestMessengerTeleporterAddressUnpaused :: event_fields where
  "TestMessengerTeleporterAddressUnpaused = [(''TeleporterAddress'', GAddr 0), (''Raw'',
     zero_Log)]"

definition TestMessengerTeleporterAddressUnpausedIterator_Next ::
  "'w bound_contract \<Rightarrow> bool \<Rightarrow> iterator \<Rightarrow> (bool \<times> iterator) option" where
  "TestMessengerTeleporterAddressUnpausedIterator_Next c pick it = iterator_Next (parse_log c
     ''TeleporterAddressUnpaused'' TestMessengerTeleporterAddressUnpaused)
     TestMessengerTeleporterAddressUnpaused pick it"

definition TestMessengerTeleporterAddressUnpausedIterator_Error :: "iterator \<Rightarrow> goerr option"
   where
  "TestMessengerTeleporterAddressUnpausedIterator_Error it = iterator_Error it"

definition TestMessengerTeleporterAddressUnpausedIterator_Close :: "iterator \<Rightarrow> goerr option \<times>
   iterator" where
  "TestMessengerTeleporterAddressUnpausedIterator_Close it = iterator_Close it"

definition TestMessengerFilterer_FilterTeleporterAddressUnpaused ::
  "'w bound_contract \<Rightarrow> FilterOpts \<Rightarrow> address list \<Rightarrow> ('w, goerr + iterator) prog" where
  "TestMessengerFilterer_FilterTeleporterAddressUnpaused c opts teleporterAddress =
     filter_events c opts ''TeleporterAddressUnpaused'' [map GAddr teleporterAddress]"

definition TestMessengerFilterer_WatchTeleporterAddressUnpaused ::
  "'w bound_contract \<Rightarrow> address list \<Rightarrow> ('w, goerr + (evm_log \<Rightarrow> goerr + event_fields)) prog" where
  "TestMessengerFilterer_WatchTeleporterAddressUnpaused c teleporterAddress =
     watch_events c ''TeleporterAddressUnpaused'' TestMessengerTeleporterAddressUnpaused [map
        GAddr teleporterAddress]"

definition TestMessengerFilterer_ParseTeleporterAddressUnpaused ::
  "'w bound_contract \<Rightarrow> evm_log \<Rightarrow> goerr + event_fields" where
  "TestMessengerFilterer_ParseTeleporterAddressUnpaused c = parse_log c
     ''TeleporterAddressUnpaused'' TestMessengerTeleporterAddressUnpaused"

section \<open>Correctness\<close>

lemma TestMessenger_methods:
  "map_of (Methods TestMessengerABI) ''TELEPORTER_REGISTRY_APP_STORAGE_LOCATION'' =
     Some ([], [([], TBytes32)])"
  "map_of (Methods TestMessengerABI) ''getCurrentMessage'' =
     Some ([(''sourceBlockchainID'', TBytes32)], [([], TAddress), ([], TString)])"
  "map_of (Methods TestMessengerABI) ''getMinTeleporterVersion'' =
     Some ([], [([], TUint 256)])"
  "map_of (Methods TestMessengerABI) ''isTeleporterAddressPaused'' =
     Some ([(''teleporterAddress'', TAddress)], [([], TBool)])"
  "map_of (Methods TestMessengerABI) ''owner'' =
     Some ([], [([], TAddress)])"
  "map_of (Methods TestMessengerABI) ''pauseTeleporterAddress'' =
     Some ([(''teleporterAddress'', TAddress)], [])"
  "map_of (Methods TestMessengerABI) ''receiveTeleporterMessage'' =
     Some ([(''sourceBlockchainID'', TBytes32), (''originSenderAddress'', TAddress),
        (''message'', TBytes)], [])"
  "map_of (Methods TestMessengerABI) ''renounceOwnership'' =
     Some ([], [])"
  "map_of (Methods TestMessengerABI) ''sendMessage'' =
     Some ([(''destinationBlockchainID'', TBytes32), (''destinationAddress'', TAddress),
        (''feeTokenAddress'', TAddress), (''feeAmount'', TUint 256), (''requiredGasLimit'',
        TUint 256), (''message'', TString)], [([], TBytes32)])"
  "map_of (Methods TestMessengerABI) ''transferOwnership'' =
     Some ([(''newOwner'', TAddress)], [])"
  "map_of (Methods TestMessengerABI) ''unpauseTeleporterAddress'' =
     Some ([(''teleporterAddress'', TAddress)], [])"
  "map_of (Methods TestMessengerABI) ''updateMinTeleporterVersion'' =
     Some ([(''version'', TUint 256)], [])"
  unfolding TestMessengerABI_def contract_abi.select_convs
  by (simp_all only: table_lookup)

lemma TestMessenger_decodable:
  "decodable [(''version'', TUint 64, False)]
     TestMessengerInitialized"
  "decodable [(''oldMinTeleporterVersion'', TUint 256, True), (''newMinTeleporterVersion'',
     TUint 256, True)]
     TestMessengerMinTeleporterVersionUpdated"
  "decodable [(''previousOwner'', TAddress, True), (''newOwner'', TAddress, True)]
     TestMessengerOwnershipTransferred"
  "decodable [(''sourceBlockchainID'', TBytes32, True), (''originSenderAddress'', TAddress,
     True), (''message'', TString, False)]
     TestMessengerReceiveMessage"
  "decodable [(''destinationBlockchainID'', TBytes32, True), (''destinationAddress'', TAddress,
     True), (''feeTokenAddress'', TAddress, False), (''feeAmount'', TUint 256, False),
     (''requiredGasLimit'', TUint 256, False), (''message'', TString, False)]
     TestMessengerSendMessage"
  "decodable [(''teleporterAddress'', TAddress, True)]
     TestMessengerTeleporterAddressPaused"
  "decodable [(''teleporterAddress'', TAddress, True)]
     TestMessengerTeleporterAddressUnpaused"
  by (simp_all add: decodable_def has_fields_def fits_def TestMessengerInitialized_def
     TestMessengerMinTeleporterVersionUpdated_def TestMessengerOwnershipTransferred_def
     TestMessengerReceiveMessage_def TestMessengerSendMessage_def
     TestMessengerTeleporterAddressPaused_def TestMessengerTeleporterAddressUnpaused_def )

lemma TestMessenger_events:
  "map_of (Events TestMessengerABI) ''Initialized'' =
     Some [(''version'', TUint 64, False)]"
  "map_of (Events TestMessengerABI) ''MinTeleporterVersionUpdated'' =
     Some [(''oldMinTeleporterVersion'', TUint 256, True), (''newMinTeleporterVersion'', TUint
        256, True)]"
  "map_of (Events TestMessengerABI) ''OwnershipTransferred'' =
     Some [(''previousOwner'', TAddress, True), (''newOwner'', TAddress, True)]"
  "map_of (Events TestMessengerABI) ''ReceiveMessage'' =
     Some [(''sourceBlockchainID'', TBytes32, True), (''originSenderAddress'', TAddress, True),
        (''message'', TString, False)]"
  "map_of (Events TestMessengerABI) ''SendMessage'' =
     Some [(''destinationBlockchainID'', TBytes32, True), (''destinationAddress'', TAddress,
        True), (''feeTokenAddress'', TAddress, False), (''feeAmount'', TUint 256, False),
        (''requiredGasLimit'', TUint 256, False), (''message'', TString, False)]"
  "map_of (Events TestMessengerABI) ''TeleporterAddressPaused'' =
     Some [(''teleporterAddress'', TAddress, True)]"
  "map_of (Events TestMessengerABI) ''TeleporterAddressUnpaused'' =
     Some [(''teleporterAddress'', TAddress, True)]"
  unfolding TestMessengerABI_def contract_abi.select_convs
  by (simp_all only: table_lookup)

lemma TestMessenger_transactions_decode:
  assumes "codec_methods k" and "codec_roundtrip k" and "bound_spec k TestMessengerABI be c"
  shows "(\<forall>teleporterAddress. sends_call k TestMessengerABI be opts ''pauseTeleporterAddress''
     [GAddr teleporterAddress]
       (TestMessengerTransactor_PauseTeleporterAddress c opts teleporterAddress)) \<and>
     (\<forall>sourceBlockchainID originSenderAddress message. sends_call k TestMessengerABI be opts
        ''receiveTeleporterMessage'' [GArr32 sourceBlockchainID, GAddr originSenderAddress,
        GBytes message]
       (TestMessengerTransactor_ReceiveTeleporterMessage c opts sourceBlockchainID
          originSenderAddress message)) \<and>
     sends_call k TestMessengerABI be opts ''renounceOwnership'' []
       (TestMessengerTransactor_RenounceOwnership c opts) \<and>
     (\<forall>destinationBlockchainID destinationAddress feeTokenAddress feeAmount requiredGasLimit
        message. in_uint256 feeAmount \<longrightarrow> in_uint256 requiredGasLimit \<longrightarrow> sends_call k
        TestMessengerABI be opts ''sendMessage'' [GArr32 destinationBlockchainID, GAddr
        destinationAddress, GAddr feeTokenAddress, GBig feeAmount, GBig requiredGasLimit, GStr
        message]
       (TestMessengerTransactor_SendMessage c opts destinationBlockchainID destinationAddress
          feeTokenAddress feeAmount requiredGasLimit message)) \<and>
     (\<forall>newOwner. sends_call k TestMessengerABI be opts ''transferOwnership'' [GAddr newOwner]
       (TestMessengerTransactor_TransferOwnership c opts newOwner)) \<and>
     (\<forall>teleporterAddress. sends_call k TestMessengerABI be opts ''unpauseTeleporterAddress''
        [GAddr teleporterAddress]
       (TestMessengerTransactor_UnpauseTeleporterAddress c opts teleporterAddress)) \<and>
     (\<forall>version_number. in_uint256 version_number \<longrightarrow> sends_call k TestMessengerABI be opts
        ''updateMinTeleporterVersion'' [GBig version_number]
       (TestMessengerTransactor_UpdateMinTeleporterVersion c opts version_number))"
  unfolding TestMessengerTransactor_PauseTeleporterAddress_def
     TestMessengerTransactor_ReceiveTeleporterMessage_def
     TestMessengerTransactor_RenounceOwnership_def TestMessengerTransactor_SendMessage_def
     TestMessengerTransactor_TransferOwnership_def
     TestMessengerTransactor_UnpauseTeleporterAddress_def
     TestMessengerTransactor_UpdateMinTeleporterVersion_def
  by ((intro conjI allI impI)?; rule transact_sends [OF assms], rule TestMessenger_methods)
    (simp_all del: matches.simps(1))

lemma TestMessenger_calls_return_outputs:
  assumes "codec_methods k" and "codec_roundtrip k" and "bound_spec k TestMessengerABI be c"
  shows "(\<forall>r0. reads_call k TestMessengerABI be opts
     ''TELEPORTER_REGISTRY_APP_STORAGE_LOCATION'' []
       [GArr32 r0] r0 (TestMessengerCaller_TELEPORTERREGISTRYAPPSTORAGELOCATION c opts)) \<and>
     (\<forall>sourceBlockchainID r0 r1. reads_call k TestMessengerABI be opts ''getCurrentMessage''
        [GArr32 sourceBlockchainID]
       [GAddr r0, GStr r1] (r0, r1) (TestMessengerCaller_GetCurrentMessage c opts
          sourceBlockchainID)) \<and>
     (\<forall>r0. in_uint256 r0 \<longrightarrow> reads_call k TestMessengerABI be opts ''getMinTeleporterVersion'' []
       [GBig r0] r0 (TestMessengerCaller_GetMinTeleporterVersion c opts)) \<and>
     (\<forall>teleporterAddress r0. reads_call k TestMessengerABI be opts ''isTeleporterAddressPaused''
        [GAddr teleporterAddress]
       [GBool r0] r0 (TestMessengerCaller_IsTeleporterAddressPaused c opts teleporterAddress)) \<and>
     (\<forall>r0. reads_call k TestMessengerABI be opts ''owner'' []
       [GAddr r0] r0 (TestMessengerCaller_Owner c opts))"
  unfolding TestMessengerCaller_TELEPORTERREGISTRYAPPSTORAGELOCATION_def
     TestMessengerCaller_GetCurrentMessage_def TestMessengerCaller_GetMinTeleporterVersion_def
     TestMessengerCaller_IsTeleporterAddressPaused_def TestMessengerCaller_Owner_def
  by ((intro conjI allI impI)?; rule call_reads [OF assms], rule TestMessenger_methods)
    (simp_all del: matches.simps(1))

lemma TestMessenger_parsers_decode:
  assumes "codec_events k" and "event_ids k TestMessengerABI" and "bound_spec k TestMessengerABI
     be c"
  shows "parser_decodes k TestMessengerABI ''Initialized''
     (TestMessengerFilterer_ParseInitialized c) \<and>
     parser_decodes k TestMessengerABI ''MinTeleporterVersionUpdated''
        (TestMessengerFilterer_ParseMinTeleporterVersionUpdated c) \<and>
     parser_decodes k TestMessengerABI ''OwnershipTransferred''
        (TestMessengerFilterer_ParseOwnershipTransferred c) \<and>
     parser_decodes k TestMessengerABI ''ReceiveMessage''
        (TestMessengerFilterer_ParseReceiveMessage c) \<and>
     parser_decodes k TestMessengerABI ''SendMessage'' (TestMessengerFilterer_ParseSendMessage
        c) \<and>
     parser_decodes k TestMessengerABI ''TeleporterAddressPaused''
        (TestMessengerFilterer_ParseTeleporterAddressPaused c) \<and>
     parser_decodes k TestMessengerABI ''TeleporterAddressUnpaused''
        (TestMessengerFilterer_ParseTeleporterAddressUnpaused c)"
proof -
  note parses = parse_log_decodes [OF assms]
  show ?thesis
    unfolding TestMessengerFilterer_ParseInitialized_def
       TestMessengerFilterer_ParseMinTeleporterVersionUpdated_def
       TestMessengerFilterer_ParseOwnershipTransferred_def
       TestMessengerFilterer_ParseReceiveMessage_def TestMessengerFilterer_ParseSendMessage_def
       TestMessengerFilterer_ParseTeleporterAddressPaused_def
       TestMessengerFilterer_ParseTeleporterAddressUnpaused_def
    by ((intro conjI)?; rule parses, rule TestMessenger_events, rule TestMessenger_decodable)
qed

end
