(* ===== verification/ProxyAdminBinding.thy ===== *)
theory ProxyAdminBinding
  imports Binding
begin

text \<open>
  The generated binding \<open>abi-bindings/go/ProxyAdmin/ProxyAdmin.go\<close> over the generic
  definitions of theory \<open>Binding\<close>: its ABI, every method with its session wrappers, every event with
  its iterator, filter, watch and parser. The bytecode is a parameter of deployment; the aliases
  \<open>Raw\<close> of the untyped calls are not modelled.
\<close>

section \<open>The contract's ABI (ProxyAdminMetaData)\<close>

definition ProxyAdminABI :: contract_abi where
  "ProxyAdminABI = \<lparr>
      Methods = [
        (''UPGRADE_INTERFACE_VERSION'', [],
           [('''', TString)]),
        (''owner'', [],
           [('''', TAddress)]),
        (''renounceOwnership'', [],
           []),
        (''transferOwnership'', [(''newOwner'', TAddress)],
           []),
        (''upgradeAndCall'', [(''proxy'', TAddress), (''implementation'', TAddress), (''data'',
           TBytes)],
           [])],
      Events = [
        (''OwnershipTransferred'', [(''previousOwner'', TAddress, True), (''newOwner'',
           TAddress, True)])]\<rparr>"

section \<open>Binding and deployment\<close>

definition bindProxyAdmin :: "'w bind_lib \<Rightarrow> address \<Rightarrow> goerr + 'w bound_contract" where
  "bindProxyAdmin lib addr = bind_contract lib ProxyAdminABI addr"

definition NewProxyAdmin :: "'w bind_lib \<Rightarrow> address \<Rightarrow> goerr + 'w bound_contract" where
  "NewProxyAdmin lib addr = bindProxyAdmin lib addr"

definition DeployProxyAdmin ::
  "'w bind_lib \<Rightarrow> string \<Rightarrow> TransactOpts \<Rightarrow> address \<Rightarrow> 
   ('w, goerr + address \<times> hash \<times> 'w bound_contract) prog" where
  "DeployProxyAdmin lib bin auth initialOwner = deploy_contract lib auth ProxyAdminABI bin
     [GAddr initialOwner]"

section \<open>Methods\<close>

definition ProxyAdminCaller_UPGRADEINTERFACEVERSION ::
  "'w bound_contract \<Rightarrow> CallOpts \<Rightarrow> ('w, goerr + string) prog" where
  "ProxyAdminCaller_UPGRADEINTERFACEVERSION c opts =
     call_method c opts ''UPGRADE_INTERFACE_VERSION'' [] (out1 go_str)"

definition ProxyAdminSession_UPGRADEINTERFACEVERSION ::
  "'w session \<Rightarrow> ('w, goerr + string) prog" where
  "ProxyAdminSession_UPGRADEINTERFACEVERSION s = ProxyAdminCaller_UPGRADEINTERFACEVERSION
     (SessionContract s) (SessionCallOpts s)"

definition ProxyAdminCaller_Owner ::
  "'w bound_contract \<Rightarrow> CallOpts \<Rightarrow> ('w, goerr + address) prog" where
  "ProxyAdminCaller_Owner c opts =
     call_method c opts ''owner'' [] (out1 go_addr)"

definition ProxyAdminSession_Owner ::
  "'w session \<Rightarrow> ('w, goerr + address) prog" where
  "ProxyAdminSession_Owner s = ProxyAdminCaller_Owner (SessionContract s) (SessionCallOpts s)"

definition ProxyAdminTransactor_RenounceOwnership ::
  "'w bound_contract \<Rightarrow> TransactOpts \<Rightarrow> ('w, goerr + hash) prog" where
  "ProxyAdminTransactor_RenounceOwnership c opts =
     contract_transact c opts ''renounceOwnership'' []"

definition ProxyAdminSession_RenounceOwnership ::
  "'w session \<Rightarrow> ('w, goerr + hash) prog" where
  "ProxyAdminSession_RenounceOwnership s = ProxyAdminTransactor_RenounceOwnership
     (SessionContract s) (SessionTransactOpts s)"

definition ProxyAdminTransactor_TransferOwnership ::
  "'w bound_contract \<Rightarrow> TransactOpts \<Rightarrow> address \<Rightarrow> ('w, goerr + hash) prog" where
  "ProxyAdminTransactor_TransferOwnership c opts newOwner =
     contract_transact c opts ''transferOwnership'' [GAddr newOwner]"

definition ProxyAdminSession_TransferOwnership ::
  "'w session \<Rightarrow> address \<Rightarrow> ('w, goerr + hash) prog" where
  "ProxyAdminSession_TransferOwnership s newOwner = ProxyAdminTransactor_TransferOwnership
     (SessionContract s) (SessionTransactOpts s) newOwner"

definition ProxyAdminTransactor_UpgradeAndCall ::
  "'w bound_contract \<Rightarrow> TransactOpts \<Rightarrow> address \<Rightarrow> address \<Rightarrow> bytes \<Rightarrow> ('w, goerr + hash) prog" where
  "ProxyAdminTransactor_UpgradeAndCall c opts proxy implementation data =
     contract_transact c opts ''upgradeAndCall'' [GAddr proxy, GAddr implementation, GBytes
        data]"

definition ProxyAdminSession_UpgradeAndCall ::
  "'w session \<Rightarrow> address \<Rightarrow> address \<Rightarrow> bytes \<Rightarrow> ('w, goerr + hash) prog" where
  "ProxyAdminSession_UpgradeAndCall s proxy implementation data =
     ProxyAdminTransactor_UpgradeAndCall (SessionContract s) (SessionTransactOpts s) proxy
     implementation data"

section \<open>Events\<close>

definition ProxyAdminOwnershipTransferred :: event_fields where
  "ProxyAdminOwnershipTransferred = [(''PreviousOwner'', GAddr 0), (''NewOwner'', GAddr 0),
     (''Raw'', zero_Log)]"

definition ProxyAdminOwnershipTransferredIterator_Next ::
  "'w bound_contract \<Rightarrow> bool \<Rightarrow> iterator \<Rightarrow> (bool \<times> iterator) option" where
  "ProxyAdminOwnershipTransferredIterator_Next c pick it = iterator_Next (parse_log c
     ''OwnershipTransferred'' ProxyAdminOwnershipTransferred) ProxyAdminOwnershipTransferred
     pick it"

definition ProxyAdminOwnershipTransferredIterator_Error :: "iterator \<Rightarrow> goerr option" where
  "ProxyAdminOwnershipTransferredIterator_Error it = iterator_Error it"

definition ProxyAdminOwnershipTransferredIterator_Close :: "iterator \<Rightarrow> goerr option \<times> iterator"
   where
  "ProxyAdminOwnershipTransferredIterator_Close it = iterator_Close it"

definition ProxyAdminFilterer_FilterOwnershipTransferred ::
  "'w bound_contract \<Rightarrow> FilterOpts \<Rightarrow> address list \<Rightarrow> address list \<Rightarrow> ('w, goerr + iterator) prog"
     where
  "ProxyAdminFilterer_FilterOwnershipTransferred c opts previousOwner newOwner =
     filter_events c opts ''OwnershipTransferred'' [map GAddr previousOwner, map GAddr
        newOwner]"

definition ProxyAdminFilterer_WatchOwnershipTransferred ::
  "'w bound_contract \<Rightarrow> address list \<Rightarrow> address list \<Rightarrow> ('w, goerr + (evm_log \<Rightarrow> goerr +
     event_fields)) prog" where
  "ProxyAdminFilterer_WatchOwnershipTransferred c previousOwner newOwner =
     watch_events c ''OwnershipTransferred'' ProxyAdminOwnershipTransferred [map GAddr
        previousOwner, map GAddr newOwner]"

definition ProxyAdminFilterer_ParseOwnershipTransferred ::
  "'w bound_contract \<Rightarrow> evm_log \<Rightarrow> goerr + event_fields" where
  "ProxyAdminFilterer_ParseOwnershipTransferred c = parse_log c ''OwnershipTransferred''
     ProxyAdminOwnershipTransferred"

section \<open>Correctness\<close>

lemma ProxyAdmin_methods:
  "map_of (Methods ProxyAdminABI) ''UPGRADE_INTERFACE_VERSION'' =
     Some ([], [([], TString)])"
  "map_of (Methods ProxyAdminABI) ''owner'' =
     Some ([], [([], TAddress)])"
  "map_of (Methods ProxyAdminABI) ''renounceOwnership'' =
     Some ([], [])"
  "map_of (Methods ProxyAdminABI) ''transferOwnership'' =
     Some ([(''newOwner'', TAddress)], [])"
  "map_of (Methods ProxyAdminABI) ''upgradeAndCall'' =
     Some ([(''proxy'', TAddress), (''implementation'', TAddress), (''data'', TBytes)], [])"
  unfolding ProxyAdminABI_def contract_abi.select_convs
  by (simp_all only: table_lookup)

lemma ProxyAdmin_decodable:
  "decodable [(''previousOwner'', TAddress, True), (''newOwner'', TAddress, True)]
     ProxyAdminOwnershipTransferred"
  by (simp_all add: decodable_def has_fields_def fits_def ProxyAdminOwnershipTransferred_def )

lemma ProxyAdmin_events:
  "map_of (Events ProxyAdminABI) ''OwnershipTransferred'' =
     Some [(''previousOwner'', TAddress, True), (''newOwner'', TAddress, True)]"
  unfolding ProxyAdminABI_def contract_abi.select_convs
  by (simp_all only: table_lookup)

lemma ProxyAdmin_transactions_decode:
  assumes "codec_methods k" and "codec_roundtrip k" and "bound_spec k ProxyAdminABI be c"
  shows "sends_call k ProxyAdminABI be opts ''renounceOwnership'' []
       (ProxyAdminTransactor_RenounceOwnership c opts) \<and>
     (\<forall>newOwner. sends_call k ProxyAdminABI be opts ''transferOwnership'' [GAddr newOwner]
       (ProxyAdminTransactor_TransferOwnership c opts newOwner)) \<and>
     (\<forall>proxy implementation data. sends_call k ProxyAdminABI be opts ''upgradeAndCall'' [GAddr
        proxy, GAddr implementation, GBytes data]
       (ProxyAdminTransactor_UpgradeAndCall c opts proxy implementation data))"
  unfolding ProxyAdminTransactor_RenounceOwnership_def
     ProxyAdminTransactor_TransferOwnership_def ProxyAdminTransactor_UpgradeAndCall_def
  by ((intro conjI allI impI)?; rule transact_sends [OF assms], rule ProxyAdmin_methods)
    (simp_all del: matches.simps(1))

lemma ProxyAdmin_calls_return_outputs:
  assumes "codec_methods k" and "codec_roundtrip k" and "bound_spec k ProxyAdminABI be c"
  shows "(\<forall>r0. reads_call k ProxyAdminABI be opts ''UPGRADE_INTERFACE_VERSION'' []
       [GStr r0] r0 (ProxyAdminCaller_UPGRADEINTERFACEVERSION c opts)) \<and>
     (\<forall>r0. reads_call k ProxyAdminABI be opts ''owner'' []
       [GAddr r0] r0 (ProxyAdminCaller_Owner c opts))"
  unfolding ProxyAdminCaller_UPGRADEINTERFACEVERSION_def ProxyAdminCaller_Owner_def
  by ((intro conjI allI impI)?; rule call_reads [OF assms], rule ProxyAdmin_methods)
    (simp_all del: matches.simps(1))

lemma ProxyAdmin_parsers_decode:
  assumes "codec_events k" and "event_ids k ProxyAdminABI" and "bound_spec k ProxyAdminABI be c"
  shows "parser_decodes k ProxyAdminABI ''OwnershipTransferred''
     (ProxyAdminFilterer_ParseOwnershipTransferred c)"
proof -
  note parses = parse_log_decodes [OF assms]
  show ?thesis
    unfolding ProxyAdminFilterer_ParseOwnershipTransferred_def
    by ((intro conjI)?; rule parses, rule ProxyAdmin_events, rule ProxyAdmin_decodable)
qed

end
