(* ===== verification/TransparentUpgradeableProxyBinding.thy ===== *)
theory TransparentUpgradeableProxyBinding
  imports Binding
begin

text \<open>
  The generated binding \<open>abi-bindings/go/TransparentUpgradeableProxy/TransparentUpgradeableProxy.go\<close> over the generic
  definitions of theory \<open>Binding\<close>: its ABI, every method with its session wrappers, every event with
  its iterator, filter, watch and parser. The bytecode is a parameter of deployment; the aliases
  \<open>Raw\<close> of the untyped calls are not modelled.
\<close>

section \<open>The contract's ABI (TransparentUpgradeableProxyMetaData)\<close>

definition TransparentUpgradeableProxyABI :: contract_abi where
  "TransparentUpgradeableProxyABI = \<lparr>
      Methods = [],
      Events = [
        (''AdminChanged'', [(''previousAdmin'', TAddress, False), (''newAdmin'', TAddress,
           False)]),
        (''Upgraded'', [(''implementation'', TAddress, True)])]\<rparr>"

section \<open>Binding and deployment\<close>

definition bindTransparentUpgradeableProxy :: "'w bind_lib \<Rightarrow> address \<Rightarrow> goerr + 'w
   bound_contract" where
  "bindTransparentUpgradeableProxy lib addr = bind_contract lib TransparentUpgradeableProxyABI
     addr"

definition NewTransparentUpgradeableProxy :: "'w bind_lib \<Rightarrow> address \<Rightarrow> goerr + 'w bound_contract"
   where
  "NewTransparentUpgradeableProxy lib addr = bindTransparentUpgradeableProxy lib addr"

definition DeployTransparentUpgradeableProxy ::
  "'w bind_lib \<Rightarrow> string \<Rightarrow> TransactOpts \<Rightarrow> address \<Rightarrow> address \<Rightarrow> bytes \<Rightarrow> 
   ('w, goerr + address \<times> hash \<times> 'w bound_contract) prog" where
  "DeployTransparentUpgradeableProxy lib bin auth logic initialOwner data = deploy_contract lib
     auth TransparentUpgradeableProxyABI bin [GAddr logic, GAddr initialOwner, GBytes data]"

section \<open>Methods\<close>

definition TransparentUpgradeableProxyTransactor_Fallback :: "'w bound_contract \<Rightarrow> TransactOpts \<Rightarrow>
   bytes \<Rightarrow> ('w, goerr + hash) prog" where
  "TransparentUpgradeableProxyTransactor_Fallback c opts calldata = contract_raw_transact c opts
     calldata"

definition TransparentUpgradeableProxySession_Fallback :: "'w session \<Rightarrow> bytes \<Rightarrow> ('w, goerr +
   hash) prog" where
  "TransparentUpgradeableProxySession_Fallback s calldata =
     TransparentUpgradeableProxyTransactor_Fallback (SessionContract s) (SessionTransactOpts s)
     calldata"

section \<open>Events\<close>

definition TransparentUpgradeableProxyAdminChanged :: event_fields where
  "TransparentUpgradeableProxyAdminChanged = [(''PreviousAdmin'', GAddr 0), (''NewAdmin'', GAddr
     0), (''Raw'', zero_Log)]"

definition TransparentUpgradeableProxyAdminChangedIterator_Next ::
  "'w bound_contract \<Rightarrow> bool \<Rightarrow> iterator \<Rightarrow> (bool \<times> iterator) option" where
  "TransparentUpgradeableProxyAdminChangedIterator_Next c pick it = iterator_Next (parse_log c
     ''AdminChanged'' TransparentUpgradeableProxyAdminChanged)
     TransparentUpgradeableProxyAdminChanged pick it"

definition TransparentUpgradeableProxyAdminChangedIterator_Error :: "iterator \<Rightarrow> goerr option"
   where
  "TransparentUpgradeableProxyAdminChangedIterator_Error it = iterator_Error it"

definition TransparentUpgradeableProxyAdminChangedIterator_Close :: "iterator \<Rightarrow> goerr option \<times>
   iterator" where
  "TransparentUpgradeableProxyAdminChangedIterator_Close it = iterator_Close it"

definition TransparentUpgradeableProxyFilterer_FilterAdminChanged ::
  "'w bound_contract \<Rightarrow> FilterOpts \<Rightarrow> ('w, goerr + iterator) prog" where
  "TransparentUpgradeableProxyFilterer_FilterAdminChanged c opts =
     filter_events c opts ''AdminChanged'' []"

definition TransparentUpgradeableProxyFilterer_WatchAdminChanged ::
  "'w bound_contract \<Rightarrow> ('w, goerr + (evm_log \<Rightarrow> goerr + event_fields)) prog" where
  "TransparentUpgradeableProxyFilterer_WatchAdminChanged c =
     watch_events c ''AdminChanged'' TransparentUpgradeableProxyAdminChanged []"

definition TransparentUpgradeableProxyFilterer_ParseAdminChanged ::
  "'w bound_contract \<Rightarrow> evm_log \<Rightarrow> goerr + event_fields" where
  "TransparentUpgradeableProxyFilterer_ParseAdminChanged c = parse_log c ''AdminChanged''
     TransparentUpgradeableProxyAdminChanged"

definition TransparentUpgradeableProxyUpgraded :: event_fields where
  "TransparentUpgradeableProxyUpgraded = [(''Implementation'', GAddr 0), (''Raw'', zero_Log)]"

definition TransparentUpgradeableProxyUpgradedIterator_Next ::
  "'w bound_contract \<Rightarrow> bool \<Rightarrow> iterator \<Rightarrow> (bool \<times> iterator) option" where
  "TransparentUpgradeableProxyUpgradedIterator_Next c pick it = iterator_Next (parse_log c
     ''Upgraded'' TransparentUpgradeableProxyUpgraded) TransparentUpgradeableProxyUpgraded pick
     it"

definition TransparentUpgradeableProxyUpgradedIterator_Error :: "iterator \<Rightarrow> goerr option" where
  "TransparentUpgradeableProxyUpgradedIterator_Error it = iterator_Error it"

definition TransparentUpgradeableProxyUpgradedIterator_Close :: "iterator \<Rightarrow> goerr option \<times>
   iterator" where
  "TransparentUpgradeableProxyUpgradedIterator_Close it = iterator_Close it"

definition TransparentUpgradeableProxyFilterer_FilterUpgraded ::
  "'w bound_contract \<Rightarrow> FilterOpts \<Rightarrow> address list \<Rightarrow> ('w, goerr + iterator) prog" where
  "TransparentUpgradeableProxyFilterer_FilterUpgraded c opts implementation =
     filter_events c opts ''Upgraded'' [map GAddr implementation]"

definition TransparentUpgradeableProxyFilterer_WatchUpgraded ::
  "'w bound_contract \<Rightarrow> address list \<Rightarrow> ('w, goerr + (evm_log \<Rightarrow> goerr + event_fields)) prog" where
  "TransparentUpgradeableProxyFilterer_WatchUpgraded c implementation =
     watch_events c ''Upgraded'' TransparentUpgradeableProxyUpgraded [map GAddr implementation]"

definition TransparentUpgradeableProxyFilterer_ParseUpgraded ::
  "'w bound_contract \<Rightarrow> evm_log \<Rightarrow> goerr + event_fields" where
  "TransparentUpgradeableProxyFilterer_ParseUpgraded c = parse_log c ''Upgraded''
     TransparentUpgradeableProxyUpgraded"

section \<open>Correctness\<close>

lemma TransparentUpgradeableProxy_decodable:
  "decodable [(''previousAdmin'', TAddress, False), (''newAdmin'', TAddress, False)]
     TransparentUpgradeableProxyAdminChanged"
  "decodable [(''implementation'', TAddress, True)]
     TransparentUpgradeableProxyUpgraded"
  by (simp_all add: decodable_def has_fields_def fits_def
     TransparentUpgradeableProxyAdminChanged_def TransparentUpgradeableProxyUpgraded_def )

lemma TransparentUpgradeableProxy_events:
  "map_of (Events TransparentUpgradeableProxyABI) ''AdminChanged'' =
     Some [(''previousAdmin'', TAddress, False), (''newAdmin'', TAddress, False)]"
  "map_of (Events TransparentUpgradeableProxyABI) ''Upgraded'' =
     Some [(''implementation'', TAddress, True)]"
  unfolding TransparentUpgradeableProxyABI_def contract_abi.select_convs
  by (simp_all only: table_lookup)

lemma TransparentUpgradeableProxy_parsers_decode:
  assumes "codec_events k" and "event_ids k TransparentUpgradeableProxyABI" and "bound_spec k
     TransparentUpgradeableProxyABI be c"
  shows "parser_decodes k TransparentUpgradeableProxyABI ''AdminChanged''
     (TransparentUpgradeableProxyFilterer_ParseAdminChanged c) \<and>
     parser_decodes k TransparentUpgradeableProxyABI ''Upgraded''
        (TransparentUpgradeableProxyFilterer_ParseUpgraded c)"
proof -
  note parses = parse_log_decodes [OF assms]
  show ?thesis
    unfolding TransparentUpgradeableProxyFilterer_ParseAdminChanged_def
       TransparentUpgradeableProxyFilterer_ParseUpgraded_def
    by ((intro conjI)?; rule parses, rule TransparentUpgradeableProxy_events, rule
       TransparentUpgradeableProxy_decodable)
qed

end
