(* ===== verification/INativeMinterBinding.thy ===== *)
theory INativeMinterBinding
  imports Binding
begin

text \<open>
  The generated binding \<open>abi-bindings/go/INativeMinter/INativeMinter.go\<close> over the generic
  definitions of theory \<open>Binding\<close>: its ABI, every method with its session wrappers, every event with
  its iterator, filter, watch and parser. The bytecode is a parameter of deployment; the aliases
  \<open>Raw\<close> of the untyped calls are not modelled.
\<close>

section \<open>The contract's ABI (INativeMinterMetaData)\<close>

definition INativeMinterABI :: contract_abi where
  "INativeMinterABI = \<lparr>
      Methods = [
        (''mintNativeCoin'', [(''addr'', TAddress), (''amount'', TUint 256)],
           []),
        (''readAllowList'', [(''addr'', TAddress)],
           [(''role'', TUint 256)]),
        (''setAdmin'', [(''addr'', TAddress)],
           []),
        (''setEnabled'', [(''addr'', TAddress)],
           []),
        (''setManager'', [(''addr'', TAddress)],
           []),
        (''setNone'', [(''addr'', TAddress)],
           [])],
      Events = [
        (''NativeCoinMinted'', [(''sender'', TAddress, True), (''recipient'', TAddress, True),
           (''amount'', TUint 256, False)]),
        (''RoleSet'', [(''role'', TUint 256, True), (''account'', TAddress, True), (''sender'',
           TAddress, True), (''oldRole'', TUint 256, False)])]\<rparr>"

section \<open>Binding and deployment\<close>

definition bindINativeMinter :: "'w bind_lib \<Rightarrow> address \<Rightarrow> goerr + 'w bound_contract" where
  "bindINativeMinter lib addr = bind_contract lib INativeMinterABI addr"

definition NewINativeMinter :: "'w bind_lib \<Rightarrow> address \<Rightarrow> goerr + 'w bound_contract" where
  "NewINativeMinter lib addr = bindINativeMinter lib addr"

section \<open>Methods\<close>

definition INativeMinterTransactor_MintNativeCoin ::
  "'w bound_contract \<Rightarrow> TransactOpts \<Rightarrow> address \<Rightarrow> int \<Rightarrow> ('w, goerr + hash) prog" where
  "INativeMinterTransactor_MintNativeCoin c opts addr amount =
     contract_transact c opts ''mintNativeCoin'' [GAddr addr, GBig amount]"

definition INativeMinterSession_MintNativeCoin ::
  "'w session \<Rightarrow> address \<Rightarrow> int \<Rightarrow> ('w, goerr + hash) prog" where
  "INativeMinterSession_MintNativeCoin s addr amount = INativeMinterTransactor_MintNativeCoin
     (SessionContract s) (SessionTransactOpts s) addr amount"

definition INativeMinterCaller_ReadAllowList ::
  "'w bound_contract \<Rightarrow> CallOpts \<Rightarrow> address \<Rightarrow> ('w, goerr + int) prog" where
  "INativeMinterCaller_ReadAllowList c opts addr =
     call_method c opts ''readAllowList'' [GAddr addr] (out1 go_big)"

definition INativeMinterSession_ReadAllowList ::
  "'w session \<Rightarrow> address \<Rightarrow> ('w, goerr + int) prog" where
  "INativeMinterSession_ReadAllowList s addr = INativeMinterCaller_ReadAllowList
     (SessionContract s) (SessionCallOpts s) addr"

definition INativeMinterTransactor_SetAdmin ::
  "'w bound_contract \<Rightarrow> TransactOpts \<Rightarrow> address \<Rightarrow> ('w, goerr + hash) prog" where
  "INativeMinterTransactor_SetAdmin c opts addr =
     contract_transact c opts ''setAdmin'' [GAddr addr]"

definition INativeMinterSession_SetAdmin ::
  "'w session \<Rightarrow> address \<Rightarrow> ('w, goerr + hash) prog" where
  "INativeMinterSession_SetAdmin s addr = INativeMinterTransactor_SetAdmin (SessionContract s)
     (SessionTransactOpts s) addr"

definition INativeMinterTransactor_SetEnabled ::
  "'w bound_contract \<Rightarrow> TransactOpts \<Rightarrow> address \<Rightarrow> ('w, goerr + hash) prog" where
  "INativeMinterTransactor_SetEnabled c opts addr =
     contract_transact c opts ''setEnabled'' [GAddr addr]"

definition INativeMinterSession_SetEnabled ::
  "'w session \<Rightarrow> address \<Rightarrow> ('w, goerr + hash) prog" where
  "INativeMinterSession_SetEnabled s addr = INativeMinterTransactor_SetEnabled (SessionContract
     s) (SessionTransactOpts s) addr"

definition INativeMinterTransactor_SetManager ::
  "'w bound_contract \<Rightarrow> TransactOpts \<Rightarrow> address \<Rightarrow> ('w, goerr + hash) prog" where
  "INativeMinterTransactor_SetManager c opts addr =
     contract_transact c opts ''setManager'' [GAddr addr]"

definition INativeMinterSession_SetManager ::
  "'w session \<Rightarrow> address \<Rightarrow> ('w, goerr + hash) prog" where
  "INativeMinterSession_SetManager s addr = INativeMinterTransactor_SetManager (SessionContract
     s) (SessionTransactOpts s) addr"

definition INativeMinterTransactor_SetNone ::
  "'w bound_contract \<Rightarrow> TransactOpts \<Rightarrow> address \<Rightarrow> ('w, goerr + hash) prog" where
  "INativeMinterTransactor_SetNone c opts addr =
     contract_transact c opts ''setNone'' [GAddr addr]"

definition INativeMinterSession_SetNone ::
  "'w session \<Rightarrow> address \<Rightarrow> ('w, goerr + hash) prog" where
  "INativeMinterSession_SetNone s addr = INativeMinterTransactor_SetNone (SessionContract s)
     (SessionTransactOpts s) addr"

section \<open>Events\<close>

definition INativeMinterNativeCoinMinted :: event_fields where
  "INativeMinterNativeCoinMinted = [(''Sender'', GAddr 0), (''Recipient'', GAddr 0),
     (''Amount'', GNil), (''Raw'', zero_Log)]"

definition INativeMinterNativeCoinMintedIterator_Next ::
  "'w bound_contract \<Rightarrow> bool \<Rightarrow> iterator \<Rightarrow> (bool \<times> iterator) option" where
  "INativeMinterNativeCoinMintedIterator_Next c pick it = iterator_Next (parse_log c
     ''NativeCoinMinted'' INativeMinterNativeCoinMinted) INativeMinterNativeCoinMinted pick it"

definition INativeMinterNativeCoinMintedIterator_Error :: "iterator \<Rightarrow> goerr option" where
  "INativeMinterNativeCoinMintedIterator_Error it = iterator_Error it"

definition INativeMinterNativeCoinMintedIterator_Close :: "iterator \<Rightarrow> goerr option \<times> iterator"
   where
  "INativeMinterNativeCoinMintedIterator_Close it = iterator_Close it"

definition INativeMinterFilterer_FilterNativeCoinMinted ::
  "'w bound_contract \<Rightarrow> FilterOpts \<Rightarrow> address list \<Rightarrow> address list \<Rightarrow> ('w, goerr + iterator) prog"
     where
  "INativeMinterFilterer_FilterNativeCoinMinted c opts sender recipient =
     filter_events c opts ''NativeCoinMinted'' [map GAddr sender, map GAddr recipient]"

definition INativeMinterFilterer_WatchNativeCoinMinted ::
  "'w bound_contract \<Rightarrow> address list \<Rightarrow> address list \<Rightarrow> ('w, goerr + (evm_log \<Rightarrow> goerr +
     event_fields)) prog" where
  "INativeMinterFilterer_WatchNativeCoinMinted c sender recipient =
     watch_events c ''NativeCoinMinted'' INativeMinterNativeCoinMinted [map GAddr sender, map
        GAddr recipient]"

definition INativeMinterFilterer_ParseNativeCoinMinted ::
  "'w bound_contract \<Rightarrow> evm_log \<Rightarrow> goerr + event_fields" where
  "INativeMinterFilterer_ParseNativeCoinMinted c = parse_log c ''NativeCoinMinted''
     INativeMinterNativeCoinMinted"

definition INativeMinterRoleSet :: event_fields where
  "INativeMinterRoleSet = [(''Role'', GNil), (''Account'', GAddr 0), (''Sender'', GAddr 0),
     (''OldRole'', GNil), (''Raw'', zero_Log)]"

definition INativeMinterRoleSetIterator_Next ::
  "'w bound_contract \<Rightarrow> bool \<Rightarrow> iterator \<Rightarrow> (bool \<times> iterator) option" where
  "INativeMinterRoleSetIterator_Next c pick it = iterator_Next (parse_log c ''RoleSet''
     INativeMinterRoleSet) INativeMinterRoleSet pick it"

definition INativeMinterRoleSetIterator_Error :: "iterator \<Rightarrow> goerr option" where
  "INativeMinterRoleSetIterator_Error it = iterator_Error it"

definition INativeMinterRoleSetIterator_Close :: "iterator \<Rightarrow> goerr option \<times> iterator" where
  "INativeMinterRoleSetIterator_Close it = iterator_Close it"

definition INativeMinterFilterer_FilterRoleSet ::
  "'w bound_contract \<Rightarrow> FilterOpts \<Rightarrow> int list \<Rightarrow> address list \<Rightarrow> address list \<Rightarrow> ('w, goerr +
     iterator) prog" where
  "INativeMinterFilterer_FilterRoleSet c opts role account sender =
     filter_events c opts ''RoleSet'' [map GBig role, map GAddr account, map GAddr sender]"

definition INativeMinterFilterer_WatchRoleSet ::
  "'w bound_contract \<Rightarrow> int list \<Rightarrow> address list \<Rightarrow> address list \<Rightarrow> ('w, goerr + (evm_log \<Rightarrow> goerr +
     event_fields)) prog" where
  "INativeMinterFilterer_WatchRoleSet c role account sender =
     watch_events c ''RoleSet'' INativeMinterRoleSet [map GBig role, map GAddr account, map
        GAddr sender]"

definition INativeMinterFilterer_ParseRoleSet ::
  "'w bound_contract \<Rightarrow> evm_log \<Rightarrow> goerr + event_fields" where
  "INativeMinterFilterer_ParseRoleSet c = parse_log c ''RoleSet'' INativeMinterRoleSet"

section \<open>Correctness\<close>

lemma INativeMinter_methods:
  "map_of (Methods INativeMinterABI) ''mintNativeCoin'' =
     Some ([(''addr'', TAddress), (''amount'', TUint 256)], [])"
  "map_of (Methods INativeMinterABI) ''readAllowList'' =
     Some ([(''addr'', TAddress)], [(''role'', TUint 256)])"
  "map_of (Methods INativeMinterABI) ''setAdmin'' =
     Some ([(''addr'', TAddress)], [])"
  "map_of (Methods INativeMinterABI) ''setEnabled'' =
     Some ([(''addr'', TAddress)], [])"
  "map_of (Methods INativeMinterABI) ''setManager'' =
     Some ([(''addr'', TAddress)], [])"
  "map_of (Methods INativeMinterABI) ''setNone'' =
     Some ([(''addr'', TAddress)], [])"
  unfolding INativeMinterABI_def contract_abi.select_convs
  by (simp_all only: table_lookup)

lemma INativeMinter_decodable:
  "decodable [(''sender'', TAddress, True), (''recipient'', TAddress, True), (''amount'', TUint
     256, False)]
     INativeMinterNativeCoinMinted"
  "decodable [(''role'', TUint 256, True), (''account'', TAddress, True), (''sender'', TAddress,
     True), (''oldRole'', TUint 256, False)]
     INativeMinterRoleSet"
  by (simp_all add: decodable_def has_fields_def fits_def INativeMinterNativeCoinMinted_def
     INativeMinterRoleSet_def )

lemma INativeMinter_events:
  "map_of (Events INativeMinterABI) ''NativeCoinMinted'' =
     Some [(''sender'', TAddress, True), (''recipient'', TAddress, True), (''amount'', TUint
        256, False)]"
  "map_of (Events INativeMinterABI) ''RoleSet'' =
     Some [(''role'', TUint 256, True), (''account'', TAddress, True), (''sender'', TAddress,
        True), (''oldRole'', TUint 256, False)]"
  unfolding INativeMinterABI_def contract_abi.select_convs
  by (simp_all only: table_lookup)

lemma INativeMinter_transactions_decode:
  assumes "codec_methods k" and "codec_roundtrip k" and "bound_spec k INativeMinterABI be c"
  shows "(\<forall>addr amount. in_uint256 amount \<longrightarrow> sends_call k INativeMinterABI be opts
     ''mintNativeCoin'' [GAddr addr, GBig amount]
       (INativeMinterTransactor_MintNativeCoin c opts addr amount)) \<and>
     (\<forall>addr. sends_call k INativeMinterABI be opts ''setAdmin'' [GAddr addr]
       (INativeMinterTransactor_SetAdmin c opts addr)) \<and>
     (\<forall>addr. sends_call k INativeMinterABI be opts ''setEnabled'' [GAddr addr]
       (INativeMinterTransactor_SetEnabled c opts addr)) \<and>
     (\<forall>addr. sends_call k INativeMinterABI be opts ''setManager'' [GAddr addr]
       (INativeMinterTransactor_SetManager c opts addr)) \<and>
     (\<forall>addr. sends_call k INativeMinterABI be opts ''setNone'' [GAddr addr]
       (INativeMinterTransactor_SetNone c opts addr))"
  unfolding INativeMinterTransactor_MintNativeCoin_def INativeMinterTransactor_SetAdmin_def
     INativeMinterTransactor_SetEnabled_def INativeMinterTransactor_SetManager_def
     INativeMinterTransactor_SetNone_def
  by ((intro conjI allI impI)?; rule transact_sends [OF assms], rule INativeMinter_methods)
    (simp_all del: matches.simps(1))

lemma INativeMinter_calls_return_outputs:
  assumes "codec_methods k" and "codec_roundtrip k" and "bound_spec k INativeMinterABI be c"
  shows "(\<forall>addr r0. in_uint256 r0 \<longrightarrow> reads_call k INativeMinterABI be opts ''readAllowList''
     [GAddr addr]
       [GBig r0] r0 (INativeMinterCaller_ReadAllowList c opts addr))"
  unfolding INativeMinterCaller_ReadAllowList_def
  by ((intro conjI allI impI)?; rule call_reads [OF assms], rule INativeMinter_methods)
    (simp_all del: matches.simps(1))

lemma INativeMinter_parsers_decode:
  assumes "codec_events k" and "event_ids k INativeMinterABI" and "bound_spec k INativeMinterABI
     be c"
  shows "parser_decodes k INativeMinterABI ''NativeCoinMinted''
     (INativeMinterFilterer_ParseNativeCoinMinted c) \<and>
     parser_decodes k INativeMinterABI ''RoleSet'' (INativeMinterFilterer_ParseRoleSet c)"
proof -
  note parses = parse_log_decodes [OF assms]
  show ?thesis
    unfolding INativeMinterFilterer_ParseNativeCoinMinted_def
       INativeMinterFilterer_ParseRoleSet_def
    by ((intro conjI)?; rule parses, rule INativeMinter_events, rule INativeMinter_decodable)
qed

end
