(* ===== verification/ExampleERC20Binding.thy ===== *)
theory ExampleERC20Binding
  imports Binding
begin

text \<open>
  The generated binding \<open>abi-bindings/go/mocks/ExampleERC20/ExampleERC20.go\<close> over the generic
  definitions of theory \<open>Binding\<close>: its ABI, every method with its session wrappers, every event with
  its iterator, filter, watch and parser. The bytecode is a parameter of deployment; the aliases
  \<open>Raw\<close> of the untyped calls are not modelled.
\<close>

section \<open>The contract's ABI (ExampleERC20MetaData)\<close>

definition ExampleERC20ABI :: contract_abi where
  "ExampleERC20ABI = \<lparr>
      Methods = [
        (''allowance'', [(''owner'', TAddress), (''spender'', TAddress)],
           [('''', TUint 256)]),
        (''approve'', [(''spender'', TAddress), (''value'', TUint 256)],
           [('''', TBool)]),
        (''balanceOf'', [(''account'', TAddress)],
           [('''', TUint 256)]),
        (''burn'', [(''value'', TUint 256)],
           []),
        (''burnFrom'', [(''account'', TAddress), (''value'', TUint 256)],
           []),
        (''decimals'', [],
           [('''', TUint 8)]),
        (''mint'', [(''account'', TAddress), (''amount'', TUint 256)],
           []),
        (''mint0'', [(''amount'', TUint 256)],
           []),
        (''name'', [],
           [('''', TString)]),
        (''symbol'', [],
           [('''', TString)]),
        (''totalSupply'', [],
           [('''', TUint 256)]),
        (''transfer'', [(''to'', TAddress), (''value'', TUint 256)],
           [('''', TBool)]),
        (''transferFrom'', [(''from'', TAddress), (''to'', TAddress), (''value'', TUint 256)],
           [('''', TBool)])],
      Events = [
        (''Approval'', [(''owner'', TAddress, True), (''spender'', TAddress, True), (''value'',
           TUint 256, False)]),
        (''Transfer'', [(''from'', TAddress, True), (''to'', TAddress, True), (''value'', TUint
           256, False)])]\<rparr>"

section \<open>Binding and deployment\<close>

definition bindExampleERC20 :: "'w bind_lib \<Rightarrow> address \<Rightarrow> goerr + 'w bound_contract" where
  "bindExampleERC20 lib addr = bind_contract lib ExampleERC20ABI addr"

definition NewExampleERC20 :: "'w bind_lib \<Rightarrow> address \<Rightarrow> goerr + 'w bound_contract" where
  "NewExampleERC20 lib addr = bindExampleERC20 lib addr"

definition DeployExampleERC20 ::
  "'w bind_lib \<Rightarrow> string \<Rightarrow> TransactOpts \<Rightarrow> 
   ('w, goerr + address \<times> hash \<times> 'w bound_contract) prog" where
  "DeployExampleERC20 lib bin auth = deploy_contract lib auth ExampleERC20ABI bin []"

section \<open>Methods\<close>

definition ExampleERC20Caller_Allowance ::
  "'w bound_contract \<Rightarrow> CallOpts \<Rightarrow> address \<Rightarrow> address \<Rightarrow> ('w, goerr + int) prog" where
  "ExampleERC20Caller_Allowance c opts owner spender =
     call_method c opts ''allowance'' [GAddr owner, GAddr spender] (out1 go_big)"

definition ExampleERC20Session_Allowance ::
  "'w session \<Rightarrow> address \<Rightarrow> address \<Rightarrow> ('w, goerr + int) prog" where
  "ExampleERC20Session_Allowance s owner spender = ExampleERC20Caller_Allowance (SessionContract
     s) (SessionCallOpts s) owner spender"

definition ExampleERC20Transactor_Approve ::
  "'w bound_contract \<Rightarrow> TransactOpts \<Rightarrow> address \<Rightarrow> int \<Rightarrow> ('w, goerr + hash) prog" where
  "ExampleERC20Transactor_Approve c opts spender amount_value =
     contract_transact c opts ''approve'' [GAddr spender, GBig amount_value]"

definition ExampleERC20Session_Approve ::
  "'w session \<Rightarrow> address \<Rightarrow> int \<Rightarrow> ('w, goerr + hash) prog" where
  "ExampleERC20Session_Approve s spender amount_value = ExampleERC20Transactor_Approve
     (SessionContract s) (SessionTransactOpts s) spender amount_value"

definition ExampleERC20Caller_BalanceOf ::
  "'w bound_contract \<Rightarrow> CallOpts \<Rightarrow> address \<Rightarrow> ('w, goerr + int) prog" where
  "ExampleERC20Caller_BalanceOf c opts account =
     call_method c opts ''balanceOf'' [GAddr account] (out1 go_big)"

definition ExampleERC20Session_BalanceOf ::
  "'w session \<Rightarrow> address \<Rightarrow> ('w, goerr + int) prog" where
  "ExampleERC20Session_BalanceOf s account = ExampleERC20Caller_BalanceOf (SessionContract s)
     (SessionCallOpts s) account"

definition ExampleERC20Transactor_Burn ::
  "'w bound_contract \<Rightarrow> TransactOpts \<Rightarrow> int \<Rightarrow> ('w, goerr + hash) prog" where
  "ExampleERC20Transactor_Burn c opts amount_value =
     contract_transact c opts ''burn'' [GBig amount_value]"

definition ExampleERC20Session_Burn ::
  "'w session \<Rightarrow> int \<Rightarrow> ('w, goerr + hash) prog" where
  "ExampleERC20Session_Burn s amount_value = ExampleERC20Transactor_Burn (SessionContract s)
     (SessionTransactOpts s) amount_value"

definition ExampleERC20Transactor_BurnFrom ::
  "'w bound_contract \<Rightarrow> TransactOpts \<Rightarrow> address \<Rightarrow> int \<Rightarrow> ('w, goerr + hash) prog" where
  "ExampleERC20Transactor_BurnFrom c opts account amount_value =
     contract_transact c opts ''burnFrom'' [GAddr account, GBig amount_value]"

definition ExampleERC20Session_BurnFrom ::
  "'w session \<Rightarrow> address \<Rightarrow> int \<Rightarrow> ('w, goerr + hash) prog" where
  "ExampleERC20Session_BurnFrom s account amount_value = ExampleERC20Transactor_BurnFrom
     (SessionContract s) (SessionTransactOpts s) account amount_value"

definition ExampleERC20Caller_Decimals ::
  "'w bound_contract \<Rightarrow> CallOpts \<Rightarrow> ('w, goerr + u8) prog" where
  "ExampleERC20Caller_Decimals c opts =
     call_method c opts ''decimals'' [] (out1 (go_word 8))"

definition ExampleERC20Session_Decimals ::
  "'w session \<Rightarrow> ('w, goerr + u8) prog" where
  "ExampleERC20Session_Decimals s = ExampleERC20Caller_Decimals (SessionContract s)
     (SessionCallOpts s)"

definition ExampleERC20Transactor_Mint ::
  "'w bound_contract \<Rightarrow> TransactOpts \<Rightarrow> address \<Rightarrow> int \<Rightarrow> ('w, goerr + hash) prog" where
  "ExampleERC20Transactor_Mint c opts account amount =
     contract_transact c opts ''mint'' [GAddr account, GBig amount]"

definition ExampleERC20Session_Mint ::
  "'w session \<Rightarrow> address \<Rightarrow> int \<Rightarrow> ('w, goerr + hash) prog" where
  "ExampleERC20Session_Mint s account amount = ExampleERC20Transactor_Mint (SessionContract s)
     (SessionTransactOpts s) account amount"

definition ExampleERC20Transactor_Mint0 ::
  "'w bound_contract \<Rightarrow> TransactOpts \<Rightarrow> int \<Rightarrow> ('w, goerr + hash) prog" where
  "ExampleERC20Transactor_Mint0 c opts amount =
     contract_transact c opts ''mint0'' [GBig amount]"

definition ExampleERC20Session_Mint0 ::
  "'w session \<Rightarrow> int \<Rightarrow> ('w, goerr + hash) prog" where
  "ExampleERC20Session_Mint0 s amount = ExampleERC20Transactor_Mint0 (SessionContract s)
     (SessionTransactOpts s) amount"

definition ExampleERC20Caller_Name ::
  "'w bound_contract \<Rightarrow> CallOpts \<Rightarrow> ('w, goerr + string) prog" where
  "ExampleERC20Caller_Name c opts =
     call_method c opts ''name'' [] (out1 go_str)"

definition ExampleERC20Session_Name ::
  "'w session \<Rightarrow> ('w, goerr + string) prog" where
  "ExampleERC20Session_Name s = ExampleERC20Caller_Name (SessionContract s) (SessionCallOpts s)"

definition ExampleERC20Caller_Symbol ::
  "'w bound_contract \<Rightarrow> CallOpts \<Rightarrow> ('w, goerr + string) prog" where
  "ExampleERC20Caller_Symbol c opts =
     call_method c opts ''symbol'' [] (out1 go_str)"

definition ExampleERC20Session_Symbol ::
  "'w session \<Rightarrow> ('w, goerr + string) prog" where
  "ExampleERC20Session_Symbol s = ExampleERC20Caller_Symbol (SessionContract s) (SessionCallOpts
     s)"

definition ExampleERC20Caller_TotalSupply ::
  "'w bound_contract \<Rightarrow> CallOpts \<Rightarrow> ('w, goerr + int) prog" where
  "ExampleERC20Caller_TotalSupply c opts =
     call_method c opts ''totalSupply'' [] (out1 go_big)"

definition ExampleERC20Session_TotalSupply ::
  "'w session \<Rightarrow> ('w, goerr + int) prog" where
  "ExampleERC20Session_TotalSupply s = ExampleERC20Caller_TotalSupply (SessionContract s)
     (SessionCallOpts s)"

definition ExampleERC20Transactor_Transfer ::
  "'w bound_contract \<Rightarrow> TransactOpts \<Rightarrow> address \<Rightarrow> int \<Rightarrow> ('w, goerr + hash) prog" where
  "ExampleERC20Transactor_Transfer c opts to_addr amount_value =
     contract_transact c opts ''transfer'' [GAddr to_addr, GBig amount_value]"

definition ExampleERC20Session_Transfer ::
  "'w session \<Rightarrow> address \<Rightarrow> int \<Rightarrow> ('w, goerr + hash) prog" where
  "ExampleERC20Session_Transfer s to_addr amount_value = ExampleERC20Transactor_Transfer
     (SessionContract s) (SessionTransactOpts s) to_addr amount_value"

definition ExampleERC20Transactor_TransferFrom ::
  "'w bound_contract \<Rightarrow> TransactOpts \<Rightarrow> address \<Rightarrow> address \<Rightarrow> int \<Rightarrow> ('w, goerr + hash) prog" where
  "ExampleERC20Transactor_TransferFrom c opts from_addr to_addr amount_value =
     contract_transact c opts ''transferFrom'' [GAddr from_addr, GAddr to_addr, GBig
        amount_value]"

definition ExampleERC20Session_TransferFrom ::
  "'w session \<Rightarrow> address \<Rightarrow> address \<Rightarrow> int \<Rightarrow> ('w, goerr + hash) prog" where
  "ExampleERC20Session_TransferFrom s from_addr to_addr amount_value =
     ExampleERC20Transactor_TransferFrom (SessionContract s) (SessionTransactOpts s) from_addr
     to_addr amount_value"

section \<open>Events\<close>

definition ExampleERC20Approval :: event_fields where
  "ExampleERC20Approval = [(''Owner'', GAddr 0), (''Spender'', GAddr 0), (''Value'', GNil),
     (''Raw'', zero_Log)]"

definition ExampleERC20ApprovalIterator_Next ::
  "'w bound_contract \<Rightarrow> bool \<Rightarrow> iterator \<Rightarrow> (bool \<times> iterator) option" where
  "ExampleERC20ApprovalIterator_Next c pick it = iterator_Next (parse_log c ''Approval''
     ExampleERC20Approval) ExampleERC20Approval pick it"

definition ExampleERC20ApprovalIterator_Error :: "iterator \<Rightarrow> goerr option" where
  "ExampleERC20ApprovalIterator_Error it = iterator_Error it"

definition ExampleERC20ApprovalIterator_Close :: "iterator \<Rightarrow> goerr option \<times> iterator" where
  "ExampleERC20ApprovalIterator_Close it = iterator_Close it"

definition ExampleERC20Filterer_FilterApproval ::
  "'w bound_contract \<Rightarrow> FilterOpts \<Rightarrow> address list \<Rightarrow> address list \<Rightarrow> ('w, goerr + iterator) prog"
     where
  "ExampleERC20Filterer_FilterApproval c opts owner spender =
     filter_events c opts ''Approval'' [map GAddr owner, map GAddr spender]"

definition ExampleERC20Filterer_WatchApproval ::
  "'w bound_contract \<Rightarrow> address list \<Rightarrow> address list \<Rightarrow> ('w, goerr + (evm_log \<Rightarrow> goerr +
     event_fields)) prog" where
  "ExampleERC20Filterer_WatchApproval c owner spender =
     watch_events c ''Approval'' ExampleERC20Approval [map GAddr owner, map GAddr spender]"

definition ExampleERC20Filterer_ParseApproval ::
  "'w bound_contract \<Rightarrow> evm_log \<Rightarrow> goerr + event_fields" where
  "ExampleERC20Filterer_ParseApproval c = parse_log c ''Approval'' ExampleERC20Approval"

definition ExampleERC20Transfer :: event_fields where
  "ExampleERC20Transfer = [(''From'', GAddr 0), (''To'', GAddr 0), (''Value'', GNil), (''Raw'',
     zero_Log)]"

definition ExampleERC20TransferIterator_Next ::
  "'w bound_contract \<Rightarrow> bool \<Rightarrow> iterator \<Rightarrow> (bool \<times> iterator) option" where
  "ExampleERC20TransferIterator_Next c pick it = iterator_Next (parse_log c ''Transfer''
     ExampleERC20Transfer) ExampleERC20Transfer pick it"

definition ExampleERC20TransferIterator_Error :: "iterator \<Rightarrow> goerr option" where
  "ExampleERC20TransferIterator_Error it = iterator_Error it"

definition ExampleERC20TransferIterator_Close :: "iterator \<Rightarrow> goerr option \<times> iterator" where
  "ExampleERC20TransferIterator_Close it = iterator_Close it"

definition ExampleERC20Filterer_FilterTransfer ::
  "'w bound_contract \<Rightarrow> FilterOpts \<Rightarrow> address list \<Rightarrow> address list \<Rightarrow> ('w, goerr + iterator) prog"
     where
  "ExampleERC20Filterer_FilterTransfer c opts from_addr to_addr =
     filter_events c opts ''Transfer'' [map GAddr from_addr, map GAddr to_addr]"

definition ExampleERC20Filterer_WatchTransfer ::
  "'w bound_contract \<Rightarrow> address list \<Rightarrow> address list \<Rightarrow> ('w, goerr + (evm_log \<Rightarrow> goerr +
     event_fields)) prog" where
  "ExampleERC20Filterer_WatchTransfer c from_addr to_addr =
     watch_events c ''Transfer'' ExampleERC20Transfer [map GAddr from_addr, map GAddr to_addr]"

definition ExampleERC20Filterer_ParseTransfer ::
  "'w bound_contract \<Rightarrow> evm_log \<Rightarrow> goerr + event_fields" where
  "ExampleERC20Filterer_ParseTransfer c = parse_log c ''Transfer'' ExampleERC20Transfer"

section \<open>Correctness\<close>

lemma ExampleERC20_methods:
  "map_of (Methods ExampleERC20ABI) ''allowance'' =
     Some ([(''owner'', TAddress), (''spender'', TAddress)], [([], TUint 256)])"
  "map_of (Methods ExampleERC20ABI) ''approve'' =
     Some ([(''spender'', TAddress), (''value'', TUint 256)], [([], TBool)])"
  "map_of (Methods ExampleERC20ABI) ''balanceOf'' =
     Some ([(''account'', TAddress)], [([], TUint 256)])"
  "map_of (Methods ExampleERC20ABI) ''burn'' =
     Some ([(''value'', TUint 256)], [])"
  "map_of (Methods ExampleERC20ABI) ''burnFrom'' =
     Some ([(''account'', TAddress), (''value'', TUint 256)], [])"
  "map_of (Methods ExampleERC20ABI) ''decimals'' =
     Some ([], [([], TUint 8)])"
  "map_of (Methods ExampleERC20ABI) ''mint'' =
     Some ([(''account'', TAddress), (''amount'', TUint 256)], [])"
  "map_of (Methods ExampleERC20ABI) ''mint0'' =
     Some ([(''amount'', TUint 256)], [])"
  "map_of (Methods ExampleERC20ABI) ''name'' =
     Some ([], [([], TString)])"
  "map_of (Methods ExampleERC20ABI) ''symbol'' =
     Some ([], [([], TString)])"
  "map_of (Methods ExampleERC20ABI) ''totalSupply'' =
     Some ([], [([], TUint 256)])"
  "map_of (Methods ExampleERC20ABI) ''transfer'' =
     Some ([(''to'', TAddress), (''value'', TUint 256)], [([], TBool)])"
  "map_of (Methods ExampleERC20ABI) ''transferFrom'' =
     Some ([(''from'', TAddress), (''to'', TAddress), (''value'', TUint 256)], [([], TBool)])"
  unfolding ExampleERC20ABI_def contract_abi.select_convs
  by (simp_all only: table_lookup)

lemma ExampleERC20_decodable:
  "decodable [(''owner'', TAddress, True), (''spender'', TAddress, True), (''value'', TUint 256,
     False)]
     ExampleERC20Approval"
  "decodable [(''from'', TAddress, True), (''to'', TAddress, True), (''value'', TUint 256,
     False)]
     ExampleERC20Transfer"
  by (simp_all add: decodable_def has_fields_def fits_def ExampleERC20Approval_def
     ExampleERC20Transfer_def )

lemma ExampleERC20_events:
  "map_of (Events ExampleERC20ABI) ''Approval'' =
     Some [(''owner'', TAddress, True), (''spender'', TAddress, True), (''value'', TUint 256,
        False)]"
  "map_of (Events ExampleERC20ABI) ''Transfer'' =
     Some [(''from'', TAddress, True), (''to'', TAddress, True), (''value'', TUint 256, False)]"
  unfolding ExampleERC20ABI_def contract_abi.select_convs
  by (simp_all only: table_lookup)

lemma ExampleERC20_transactions_decode:
  assumes "codec_methods k" and "codec_roundtrip k" and "bound_spec k ExampleERC20ABI be c"
  shows "(\<forall>spender amount_value. in_uint256 amount_value \<longrightarrow> sends_call k ExampleERC20ABI be opts
     ''approve'' [GAddr spender, GBig amount_value]
       (ExampleERC20Transactor_Approve c opts spender amount_value)) \<and>
     (\<forall>amount_value. in_uint256 amount_value \<longrightarrow> sends_call k ExampleERC20ABI be opts ''burn''
        [GBig amount_value]
       (ExampleERC20Transactor_Burn c opts amount_value)) \<and>
     (\<forall>account amount_value. in_uint256 amount_value \<longrightarrow> sends_call k ExampleERC20ABI be opts
        ''burnFrom'' [GAddr account, GBig amount_value]
       (ExampleERC20Transactor_BurnFrom c opts account amount_value)) \<and>
     (\<forall>account amount. in_uint256 amount \<longrightarrow> sends_call k ExampleERC20ABI be opts ''mint'' [GAddr
        account, GBig amount]
       (ExampleERC20Transactor_Mint c opts account amount)) \<and>
     (\<forall>amount. in_uint256 amount \<longrightarrow> sends_call k ExampleERC20ABI be opts ''mint0'' [GBig amount]
       (ExampleERC20Transactor_Mint0 c opts amount)) \<and>
     (\<forall>to_addr amount_value. in_uint256 amount_value \<longrightarrow> sends_call k ExampleERC20ABI be opts
        ''transfer'' [GAddr to_addr, GBig amount_value]
       (ExampleERC20Transactor_Transfer c opts to_addr amount_value)) \<and>
     (\<forall>from_addr to_addr amount_value. in_uint256 amount_value \<longrightarrow> sends_call k ExampleERC20ABI be
        opts ''transferFrom'' [GAddr from_addr, GAddr to_addr, GBig amount_value]
       (ExampleERC20Transactor_TransferFrom c opts from_addr to_addr amount_value))"
  unfolding ExampleERC20Transactor_Approve_def ExampleERC20Transactor_Burn_def
     ExampleERC20Transactor_BurnFrom_def ExampleERC20Transactor_Mint_def
     ExampleERC20Transactor_Mint0_def ExampleERC20Transactor_Transfer_def
     ExampleERC20Transactor_TransferFrom_def
  by ((intro conjI allI impI)?; rule transact_sends [OF assms], rule ExampleERC20_methods)
    (simp_all del: matches.simps(1))

lemma ExampleERC20_calls_return_outputs:
  assumes "codec_methods k" and "codec_roundtrip k" and "bound_spec k ExampleERC20ABI be c"
  shows "(\<forall>owner spender r0. in_uint256 r0 \<longrightarrow> reads_call k ExampleERC20ABI be opts ''allowance''
     [GAddr owner, GAddr spender]
       [GBig r0] r0 (ExampleERC20Caller_Allowance c opts owner spender)) \<and>
     (\<forall>account r0. in_uint256 r0 \<longrightarrow> reads_call k ExampleERC20ABI be opts ''balanceOf'' [GAddr
        account]
       [GBig r0] r0 (ExampleERC20Caller_BalanceOf c opts account)) \<and>
     (\<forall>r0. reads_call k ExampleERC20ABI be opts ''decimals'' []
       [GUint 8 (unat r0)] r0 (ExampleERC20Caller_Decimals c opts)) \<and>
     (\<forall>r0. reads_call k ExampleERC20ABI be opts ''name'' []
       [GStr r0] r0 (ExampleERC20Caller_Name c opts)) \<and>
     (\<forall>r0. reads_call k ExampleERC20ABI be opts ''symbol'' []
       [GStr r0] r0 (ExampleERC20Caller_Symbol c opts)) \<and>
     (\<forall>r0. in_uint256 r0 \<longrightarrow> reads_call k ExampleERC20ABI be opts ''totalSupply'' []
       [GBig r0] r0 (ExampleERC20Caller_TotalSupply c opts))"
  unfolding ExampleERC20Caller_Allowance_def ExampleERC20Caller_BalanceOf_def
     ExampleERC20Caller_Decimals_def ExampleERC20Caller_Name_def ExampleERC20Caller_Symbol_def
     ExampleERC20Caller_TotalSupply_def
  by ((intro conjI allI impI)?; rule call_reads [OF assms], rule ExampleERC20_methods)
    (simp_all del: matches.simps(1))

lemma ExampleERC20_parsers_decode:
  assumes "codec_events k" and "event_ids k ExampleERC20ABI" and "bound_spec k ExampleERC20ABI
     be c"
  shows "parser_decodes k ExampleERC20ABI ''Approval'' (ExampleERC20Filterer_ParseApproval c) \<and>
     parser_decodes k ExampleERC20ABI ''Transfer'' (ExampleERC20Filterer_ParseTransfer c)"
proof -
  note parses = parse_log_decodes [OF assms]
  show ?thesis
    unfolding ExampleERC20Filterer_ParseApproval_def ExampleERC20Filterer_ParseTransfer_def
    by ((intro conjI)?; rule parses, rule ExampleERC20_events, rule ExampleERC20_decodable)
qed

end
