(* ===== verification/ExampleERC20DecimalsBinding.thy ===== *)
theory ExampleERC20DecimalsBinding
  imports Binding
begin

text \<open>
  The generated binding \<open>abi-bindings/go/ictt/mocks/ExampleERC20Decimals/ExampleERC20Decimals.go\<close> over the generic
  definitions of theory \<open>Binding\<close>: its ABI, every method with its session wrappers, every event with
  its iterator, filter, watch and parser. The bytecode is a parameter of deployment; the aliases
  \<open>Raw\<close> of the untyped calls are not modelled.
\<close>

section \<open>The contract's ABI (ExampleERC20DecimalsMetaData)\<close>

definition ExampleERC20DecimalsABI :: contract_abi where
  "ExampleERC20DecimalsABI = \<lparr>
      Methods = [
        (''allowance'', [(''owner'', TAddress), (''spender'', TAddress)],
           [('''', TUint 256)]),
        (''approve'', [(''spender'', TAddress), (''value'', TUint 256)],
           [('''', TBool)]),
        (''balanceOf'', [(''account'', TAddress)],
           [('''', TUint 256)]),
        (''burn'', [(''value'', TUint 256)],
           []),
        (''burnFrom'', [(''account'', TAddress), (''value'', TUint 256)],
           []),
        (''decimals'', [],
           [('''', TUint 8)]),
        (''mint'', [(''account'', TAddress), (''amount'', TUint 256)],
           []),
        (''mint0'', [(''amount'', TUint 256)],
           []),
        (''name'', [],
           [('''', TString)]),
        (''symbol'', [],
           [('''', TString)]),
        (''tokenDecimals'', [],
           [('''', TUint 8)]),
        (''totalSupply'', [],
           [('''', TUint 256)]),
        (''transfer'', [(''to'', TAddress), (''value'', TUint 256)],
           [('''', TBool)]),
        (''transferFrom'', [(''from'', TAddress), (''to'', TAddress), (''value'', TUint 256)],
           [('''', TBool)])],
      Events = [
        (''Approval'', [(''owner'', TAddress, True), (''spender'', TAddress, True), (''value'',
           TUint 256, False)]),
        (''Transfer'', [(''from'', TAddress, True), (''to'', TAddress, True), (''value'', TUint
           256, False)])]\<rparr>"

section \<open>Binding and deployment\<close>

definition bindExampleERC20Decimals :: "'w bind_lib \<Rightarrow> address \<Rightarrow> goerr + 'w bound_contract" where
  "bindExampleERC20Decimals lib addr = bind_contract lib ExampleERC20DecimalsABI addr"

definition NewExampleERC20Decimals :: "'w bind_lib \<Rightarrow> address \<Rightarrow> goerr + 'w bound_contract" where
  "NewExampleERC20Decimals lib addr = bindExampleERC20Decimals lib addr"

definition DeployExampleERC20Decimals ::
  "'w bind_lib \<Rightarrow> string \<Rightarrow> TransactOpts \<Rightarrow> u8 \<Rightarrow> 
   ('w, goerr + address \<times> hash \<times> 'w bound_contract) prog" where
  "DeployExampleERC20Decimals lib bin auth tokenDecimals = deploy_contract lib auth
     ExampleERC20DecimalsABI bin [GUint 8 (unat tokenDecimals)]"

section \<open>Methods\<close>

definition ExampleERC20DecimalsCaller_Allowance ::
  "'w bound_contract \<Rightarrow> CallOpts \<Rightarrow> address \<Rightarrow> address \<Rightarrow> ('w, goerr + int) prog" where
  "ExampleERC20DecimalsCaller_Allowance c opts owner spender =
     call_method c opts ''allowance'' [GAddr owner, GAddr spender] (out1 go_big)"

definition ExampleERC20DecimalsSession_Allowance ::
  "'w session \<Rightarrow> address \<Rightarrow> address \<Rightarrow> ('w, goerr + int) prog" where
  "ExampleERC20DecimalsSession_Allowance s owner spender = ExampleERC20DecimalsCaller_Allowance
     (SessionContract s) (SessionCallOpts s) owner spender"

definition ExampleERC20DecimalsTransactor_Approve ::
  "'w bound_contract \<Rightarrow> TransactOpts \<Rightarrow> address \<Rightarrow> int \<Rightarrow> ('w, goerr + hash) prog" where
  "ExampleERC20DecimalsTransactor_Approve c opts spender amount_value =
     contract_transact c opts ''approve'' [GAddr spender, GBig amount_value]"

definition ExampleERC20DecimalsSession_Approve ::
  "'w session \<Rightarrow> address \<Rightarrow> int \<Rightarrow> ('w, goerr + hash) prog" where
  "ExampleERC20DecimalsSession_Approve s spender amount_value =
     ExampleERC20DecimalsTransactor_Approve (SessionContract s) (SessionTransactOpts s) spender
     amount_value"

definition ExampleERC20DecimalsCaller_BalanceOf ::
  "'w bound_contract \<Rightarrow> CallOpts \<Rightarrow> address \<Rightarrow> ('w, goerr + int) prog" where
  "ExampleERC20DecimalsCaller_BalanceOf c opts account =
     call_method c opts ''balanceOf'' [GAddr account] (out1 go_big)"

definition ExampleERC20DecimalsSession_BalanceOf ::
  "'w session \<Rightarrow> address \<Rightarrow> ('w, goerr + int) prog" where
  "ExampleERC20DecimalsSession_BalanceOf s account = ExampleERC20DecimalsCaller_BalanceOf
     (SessionContract s) (SessionCallOpts s) account"

definition ExampleERC20DecimalsTransactor_Burn ::
  "'w bound_contract \<Rightarrow> TransactOpts \<Rightarrow> int \<Rightarrow> ('w, goerr + hash) prog" where
  "ExampleERC20DecimalsTransactor_Burn c opts amount_value =
     contract_transact c opts ''burn'' [GBig amount_value]"

definition ExampleERC20DecimalsSession_Burn ::
  "'w session \<Rightarrow> int \<Rightarrow> ('w, goerr + hash) prog" where
  "ExampleERC20DecimalsSession_Burn s amount_value = ExampleERC20DecimalsTransactor_Burn
     (SessionContract s) (SessionTransactOpts s) amount_value"

definition ExampleERC20DecimalsTransactor_BurnFrom ::
  "'w bound_contract \<Rightarrow> TransactOpts \<Rightarrow> address \<Rightarrow> int \<Rightarrow> ('w, goerr + hash) prog" where
  "ExampleERC20DecimalsTransactor_BurnFrom c opts account amount_value =
     contract_transact c opts ''burnFrom'' [GAddr account, GBig amount_value]"

definition ExampleERC20DecimalsSession_BurnFrom ::
  "'w session \<Rightarrow> address \<Rightarrow> int \<Rightarrow> ('w, goerr + hash) prog" where
  "ExampleERC20DecimalsSession_BurnFrom s account amount_value =
     ExampleERC20DecimalsTransactor_BurnFrom (SessionContract s) (SessionTransactOpts s) account
     amount_value"

definition ExampleERC20DecimalsCaller_Decimals ::
  "'w bound_contract \<Rightarrow> CallOpts \<Rightarrow> ('w, goerr + u8) prog" where
  "ExampleERC20DecimalsCaller_Decimals c opts =
     call_method c opts ''decimals'' [] (out1 (go_word 8))"

definition ExampleERC20DecimalsSession_Decimals ::
  "'w session \<Rightarrow> ('w, goerr + u8) prog" where
  "ExampleERC20DecimalsSession_Decimals s = ExampleERC20DecimalsCaller_Decimals (SessionContract
     s) (SessionCallOpts s)"

definition ExampleERC20DecimalsTransactor_Mint ::
  "'w bound_contract \<Rightarrow> TransactOpts \<Rightarrow> address \<Rightarrow> int \<Rightarrow> ('w, goerr + hash) prog" where
  "ExampleERC20DecimalsTransactor_Mint c opts account amount =
     contract_transact c opts ''mint'' [GAddr account, GBig amount]"

definition ExampleERC20DecimalsSession_Mint ::
  "'w session \<Rightarrow> address \<Rightarrow> int \<Rightarrow> ('w, goerr + hash) prog" where
  "ExampleERC20DecimalsSession_Mint s account amount = ExampleERC20DecimalsTransactor_Mint
     (SessionContract s) (SessionTransactOpts s) account amount"

definition ExampleERC20DecimalsTransactor_Mint0 ::
  "'w bound_contract \<Rightarrow> TransactOpts \<Rightarrow> int \<Rightarrow> ('w, goerr + hash) prog" where
  "ExampleERC20DecimalsTransactor_Mint0 c opts amount =
     contract_transact c opts ''mint0'' [GBig amount]"

definition ExampleERC20DecimalsSession_Mint0 ::
  "'w session \<Rightarrow> int \<Rightarrow> ('w, goerr + hash) prog" where
  "ExampleERC20DecimalsSession_Mint0 s amount = ExampleERC20DecimalsTransactor_Mint0
     (SessionContract s) (SessionTransactOpts s) amount"

definition ExampleERC20DecimalsCaller_Name ::
  "'w bound_contract \<Rightarrow> CallOpts \<Rightarrow> ('w, goerr + string) prog" where
  "ExampleERC20DecimalsCaller_Name c opts =
     call_method c opts ''name'' [] (out1 go_str)"

definition ExampleERC20DecimalsSession_Name ::
  "'w session \<Rightarrow> ('w, goerr + string) prog" where
  "ExampleERC20DecimalsSession_Name s = ExampleERC20DecimalsCaller_Name (SessionContract s)
     (SessionCallOpts s)"

definition ExampleERC20DecimalsCaller_Symbol ::
  "'w bound_contract \<Rightarrow> CallOpts \<Rightarrow> ('w, goerr + string) prog" where
  "ExampleERC20DecimalsCaller_Symbol c opts =
     call_method c opts ''symbol'' [] (out1 go_str)"

definition ExampleERC20DecimalsSession_Symbol ::
  "'w session \<Rightarrow> ('w, goerr + string) prog" where
  "ExampleERC20DecimalsSession_Symbol s = ExampleERC20DecimalsCaller_Symbol (SessionContract s)
     (SessionCallOpts s)"

definition ExampleERC20DecimalsCaller_TokenDecimals ::
  "'w bound_contract \<Rightarrow> CallOpts \<Rightarrow> ('w, goerr + u8) prog" where
  "ExampleERC20DecimalsCaller_TokenDecimals c opts =
     call_method c opts ''tokenDecimals'' [] (out1 (go_word 8))"

definition ExampleERC20DecimalsSession_TokenDecimals ::
  "'w session \<Rightarrow> ('w, goerr + u8) prog" where
  "ExampleERC20DecimalsSession_TokenDecimals s = ExampleERC20DecimalsCaller_TokenDecimals
     (SessionContract s) (SessionCallOpts s)"

definition ExampleERC20DecimalsCaller_TotalSupply ::
  "'w bound_contract \<Rightarrow> CallOpts \<Rightarrow> ('w, goerr + int) prog" where
  "ExampleERC20DecimalsCaller_TotalSupply c opts =
     call_method c opts ''totalSupply'' [] (out1 go_big)"

definition ExampleERC20DecimalsSession_TotalSupply ::
  "'w session \<Rightarrow> ('w, goerr + int) prog" where
  "ExampleERC20DecimalsSession_TotalSupply s = ExampleERC20DecimalsCaller_TotalSupply
     (SessionContract s) (SessionCallOpts s)"

definition ExampleERC20DecimalsTransactor_Transfer ::
  "'w bound_contract \<Rightarrow> TransactOpts \<Rightarrow> address \<Rightarrow> int \<Rightarrow> ('w, goerr + hash) prog" where
  "ExampleERC20DecimalsTransactor_Transfer c opts to_addr amount_value =
     contract_transact c opts ''transfer'' [GAddr to_addr, GBig amount_value]"

definition ExampleERC20DecimalsSession_Transfer ::
  "'w session \<Rightarrow> address \<Rightarrow> int \<Rightarrow> ('w, goerr + hash) prog" where
  "ExampleERC20DecimalsSession_Transfer s to_addr amount_value =
     ExampleERC20DecimalsTransactor_Transfer (SessionContract s) (SessionTransactOpts s) to_addr
     amount_value"

definition ExampleERC20DecimalsTransactor_TransferFrom ::
  "'w bound_contract \<Rightarrow> TransactOpts \<Rightarrow> address \<Rightarrow> address \<Rightarrow> int \<Rightarrow> ('w, goerr + hash) prog" where
  "ExampleERC20DecimalsTransactor_TransferFrom c opts from_addr to_addr amount_value =
     contract_transact c opts ''transferFrom'' [GAddr from_addr, GAddr to_addr, GBig
        amount_value]"

definition ExampleERC20DecimalsSession_TransferFrom ::
  "'w session \<Rightarrow> address \<Rightarrow> address \<Rightarrow> int \<Rightarrow> ('w, goerr + hash) prog" where
  "ExampleERC20DecimalsSession_TransferFrom s from_addr to_addr amount_value =
     ExampleERC20DecimalsTransactor_TransferFrom (SessionContract s) (SessionTransactOpts s)
     from_addr to_addr amount_value"

section \<open>Events\<close>

definition ExampleERC20DecimalsApproval :: event_fields where
  "ExampleERC20DecimalsApproval = [(''Owner'', GAddr 0), (''Spender'', GAddr 0), (''Value'',
     GNil), (''Raw'', zero_Log)]"

definition ExampleERC20DecimalsApprovalIterator_Next ::
  "'w bound_contract \<Rightarrow> bool \<Rightarrow> iterator \<Rightarrow> (bool \<times> iterator) option" where
  "ExampleERC20DecimalsApprovalIterator_Next c pick it = iterator_Next (parse_log c ''Approval''
     ExampleERC20DecimalsApproval) ExampleERC20DecimalsApproval pick it"

definition ExampleERC20DecimalsApprovalIterator_Error :: "iterator \<Rightarrow> goerr option" where
  "ExampleERC20DecimalsApprovalIterator_Error it = iterator_Error it"

definition ExampleERC20DecimalsApprovalIterator_Close :: "iterator \<Rightarrow> goerr option \<times> iterator"
   where
  "ExampleERC20DecimalsApprovalIterator_Close it = iterator_Close it"

definition ExampleERC20DecimalsFilterer_FilterApproval ::
  "'w bound_contract \<Rightarrow> FilterOpts \<Rightarrow> address list \<Rightarrow> address list \<Rightarrow> ('w, goerr + iterator) prog"
     where
  "ExampleERC20DecimalsFilterer_FilterApproval c opts owner spender =
     filter_events c opts ''Approval'' [map GAddr owner, map GAddr spender]"

definition ExampleERC20DecimalsFilterer_WatchApproval ::
  "'w bound_contract \<Rightarrow> address list \<Rightarrow> address list \<Rightarrow> ('w, goerr + (evm_log \<Rightarrow> goerr +
     event_fields)) prog" where
  "ExampleERC20DecimalsFilterer_WatchApproval c owner spender =
     watch_events c ''Approval'' ExampleERC20DecimalsApproval [map GAddr owner, map GAddr
        spender]"

definition ExampleERC20DecimalsFilterer_ParseApproval ::
  "'w bound_contract \<Rightarrow> evm_log \<Rightarrow> goerr + event_fields" where
  "ExampleERC20DecimalsFilterer_ParseApproval c = parse_log c ''Approval''
     ExampleERC20DecimalsApproval"

definition ExampleERC20DecimalsTransfer :: event_fields where
  "ExampleERC20DecimalsTransfer = [(''From'', GAddr 0), (''To'', GAddr 0), (''Value'', GNil),
     (''Raw'', zero_Log)]"

definition ExampleERC20DecimalsTransferIterator_Next ::
  "'w bound_contract \<Rightarrow> bool \<Rightarrow> iterator \<Rightarrow> (bool \<times> iterator) option" where
  "ExampleERC20DecimalsTransferIterator_Next c pick it = iterator_Next (parse_log c ''Transfer''
     ExampleERC20DecimalsTransfer) ExampleERC20DecimalsTransfer pick it"

definition ExampleERC20DecimalsTransferIterator_Error :: "iterator \<Rightarrow> goerr option" where
  "ExampleERC20DecimalsTransferIterator_Error it = iterator_Error it"

definition ExampleERC20DecimalsTransferIterator_Close :: "iterator \<Rightarrow> goerr option \<times> iterator"
   where
  "ExampleERC20DecimalsTransferIterator_Close it = iterator_Close it"

definition ExampleERC20DecimalsFilterer_FilterTransfer ::
  "'w bound_contract \<Rightarrow> FilterOpts \<Rightarrow> address list \<Rightarrow> address list \<Rightarrow> ('w, goerr + iterator) prog"
     where
  "ExampleERC20DecimalsFilterer_FilterTransfer c opts from_addr to_addr =
     filter_events c opts ''Transfer'' [map GAddr from_addr, map GAddr to_addr]"

definition ExampleERC20DecimalsFilterer_WatchTransfer ::
  "'w bound_contract \<Rightarrow> address list \<Rightarrow> address list \<Rightarrow> ('w, goerr + (evm_log \<Rightarrow> goerr +
     event_fields)) prog" where
  "ExampleERC20DecimalsFilterer_WatchTransfer c from_addr to_addr =
     watch_events c ''Transfer'' ExampleERC20DecimalsTransfer [map GAddr from_addr, map GAddr
        to_addr]"

definition ExampleERC20DecimalsFilterer_ParseTransfer ::
  "'w bound_contract \<Rightarrow> evm_log \<Rightarrow> goerr + event_fields" where
  "ExampleERC20DecimalsFilterer_ParseTransfer c = parse_log c ''Transfer''
     ExampleERC20DecimalsTransfer"

section \<open>Correctness\<close>

lemma ExampleERC20Decimals_methods:
  "map_of (Methods ExampleERC20DecimalsABI) ''allowance'' =
     Some ([(''owner'', TAddress), (''spender'', TAddress)], [([], TUint 256)])"
  "map_of (Methods ExampleERC20DecimalsABI) ''approve'' =
     Some ([(''spender'', TAddress), (''value'', TUint 256)], [([], TBool)])"
  "map_of (Methods ExampleERC20DecimalsABI) ''balanceOf'' =
     Some ([(''account'', TAddress)], [([], TUint 256)])"
  "map_of (Methods ExampleERC20DecimalsABI) ''burn'' =
     Some ([(''value'', TUint 256)], [])"
  "map_of (Methods ExampleERC20DecimalsABI) ''burnFrom'' =
     Some ([(''account'', TAddress), (''value'', TUint 256)], [])"
  "map_of (Methods ExampleERC20DecimalsABI) ''decimals'' =
     Some ([], [([], TUint 8)])"
  "map_of (Methods ExampleERC20DecimalsABI) ''mint'' =
     Some ([(''account'', TAddress), (''amount'', TUint 256)], [])"
  "map_of (Methods ExampleERC20DecimalsABI) ''mint0'' =
     Some ([(''amount'', TUint 256)], [])"
  "map_of (Methods ExampleERC20DecimalsABI) ''name'' =
     Some ([], [([], TString)])"
  "map_of (Methods ExampleERC20DecimalsABI) ''symbol'' =
     Some ([], [([], TString)])"
  "map_of (Methods ExampleERC20DecimalsABI) ''tokenDecimals'' =
     Some ([], [([], TUint 8)])"
  "map_of (Methods ExampleERC20DecimalsABI) ''totalSupply'' =
     Some ([], [([], TUint 256)])"
  "map_of (Methods ExampleERC20DecimalsABI) ''transfer'' =
     Some ([(''to'', TAddress), (''value'', TUint 256)], [([], TBool)])"
  "map_of (Methods ExampleERC20DecimalsABI) ''transferFrom'' =
     Some ([(''from'', TAddress), (''to'', TAddress), (''value'', TUint 256)], [([], TBool)])"
  unfolding ExampleERC20DecimalsABI_def contract_abi.select_convs
  by (simp_all only: table_lookup)

lemma ExampleERC20Decimals_decodable:
  "decodable [(''owner'', TAddress, True), (''spender'', TAddress, True), (''value'', TUint 256,
     False)]
     ExampleERC20DecimalsApproval"
  "decodable [(''from'', TAddress, True), (''to'', TAddress, True), (''value'', TUint 256,
     False)]
     ExampleERC20DecimalsTransfer"
  by (simp_all add: decodable_def has_fields_def fits_def ExampleERC20DecimalsApproval_def
     ExampleERC20DecimalsTransfer_def )

lemma ExampleERC20Decimals_events:
  "map_of (Events ExampleERC20DecimalsABI) ''Approval'' =
     Some [(''owner'', TAddress, True), (''spender'', TAddress, True), (''value'', TUint 256,
        False)]"
  "map_of (Events ExampleERC20DecimalsABI) ''Transfer'' =
     Some [(''from'', TAddress, True), (''to'', TAddress, True), (''value'', TUint 256, False)]"
  unfolding ExampleERC20DecimalsABI_def contract_abi.select_convs
  by (simp_all only: table_lookup)

lemma ExampleERC20Decimals_transactions_decode:
  assumes "codec_methods k" and "codec_roundtrip k" and "bound_spec k ExampleERC20DecimalsABI be
     c"
  shows "(\<forall>spender amount_value. in_uint256 amount_value \<longrightarrow> sends_call k ExampleERC20DecimalsABI
     be opts ''approve'' [GAddr spender, GBig amount_value]
       (ExampleERC20DecimalsTransactor_Approve c opts spender amount_value)) \<and>
     (\<forall>amount_value. in_uint256 amount_value \<longrightarrow> sends_call k ExampleERC20DecimalsABI be opts
        ''burn'' [GBig amount_value]
       (ExampleERC20DecimalsTransactor_Burn c opts amount_value)) \<and>
     (\<forall>account amount_value. in_uint256 amount_value \<longrightarrow> sends_call k ExampleERC20DecimalsABI be
        opts ''burnFrom'' [GAddr account, GBig amount_value]
       (ExampleERC20DecimalsTransactor_BurnFrom c opts account amount_value)) \<and>
     (\<forall>account amount. in_uint256 amount \<longrightarrow> sends_call k ExampleERC20DecimalsABI be opts ''mint''
        [GAddr account, GBig amount]
       (ExampleERC20DecimalsTransactor_Mint c opts account amount)) \<and>
     (\<forall>amount. in_uint256 amount \<longrightarrow> sends_call k ExampleERC20DecimalsABI be opts ''mint0'' [GBig
        amount]
       (ExampleERC20DecimalsTransactor_Mint0 c opts amount)) \<and>
     (\<forall>to_addr amount_value. in_uint256 amount_value \<longrightarrow> sends_call k ExampleERC20DecimalsABI be
        opts ''transfer'' [GAddr to_addr, GBig amount_value]
       (ExampleERC20DecimalsTransactor_Transfer c opts to_addr amount_value)) \<and>
     (\<forall>from_addr to_addr amount_value. in_uint256 amount_value \<longrightarrow> sends_call k
        ExampleERC20DecimalsABI be opts ''transferFrom'' [GAddr from_addr, GAddr to_addr, GBig
        amount_value]
       (ExampleERC20DecimalsTransactor_TransferFrom c opts from_addr to_addr amount_value))"
  unfolding ExampleERC20DecimalsTransactor_Approve_def ExampleERC20DecimalsTransactor_Burn_def
     ExampleERC20DecimalsTransactor_BurnFrom_def ExampleERC20DecimalsTransactor_Mint_def
     ExampleERC20DecimalsTransactor_Mint0_def ExampleERC20DecimalsTransactor_Transfer_def
     ExampleERC20DecimalsTransactor_TransferFrom_def
  by ((intro conjI allI impI)?; rule transact_sends [OF assms], rule
     ExampleERC20Decimals_methods)
    (simp_all del: matches.simps(1))

lemma ExampleERC20Decimals_calls_return_outputs:
  assumes "codec_methods k" and "codec_roundtrip k" and "bound_spec k ExampleERC20DecimalsABI be
     c"
  shows "(\<forall>owner spender r0. in_uint256 r0 \<longrightarrow> reads_call k ExampleERC20DecimalsABI be opts
     ''allowance'' [GAddr owner, GAddr spender]
       [GBig r0] r0 (ExampleERC20DecimalsCaller_Allowance c opts owner spender)) \<and>
     (\<forall>account r0. in_uint256 r0 \<longrightarrow> reads_call k ExampleERC20DecimalsABI be opts ''balanceOf''
        [GAddr account]
       [GBig r0] r0 (ExampleERC20DecimalsCaller_BalanceOf c opts account)) \<and>
     (\<forall>r0. reads_call k ExampleERC20DecimalsABI be opts ''decimals'' []
       [GUint 8 (unat r0)] r0 (ExampleERC20DecimalsCaller_Decimals c opts)) \<and>
     (\<forall>r0. reads_call k ExampleERC20DecimalsABI be opts ''name'' []
       [GStr r0] r0 (ExampleERC20DecimalsCaller_Name c opts)) \<and>
     (\<forall>r0. reads_call k ExampleERC20DecimalsABI be opts ''symbol'' []
       [GStr r0] r0 (ExampleERC20DecimalsCaller_Symbol c opts)) \<and>
     (\<forall>r0. reads_call k ExampleERC20DecimalsABI be opts ''tokenDecimals'' []
       [GUint 8 (unat r0)] r0 (ExampleERC20DecimalsCaller_TokenDecimals c opts)) \<and>
     (\<forall>r0. in_uint256 r0 \<longrightarrow> reads_call k ExampleERC20DecimalsABI be opts ''totalSupply'' []
       [GBig r0] r0 (ExampleERC20DecimalsCaller_TotalSupply c opts))"
  unfolding ExampleERC20DecimalsCaller_Allowance_def ExampleERC20DecimalsCaller_BalanceOf_def
     ExampleERC20DecimalsCaller_Decimals_def ExampleERC20DecimalsCaller_Name_def
     ExampleERC20DecimalsCaller_Symbol_def ExampleERC20DecimalsCaller_TokenDecimals_def
     ExampleERC20DecimalsCaller_TotalSupply_def
  by ((intro conjI allI impI)?; rule call_reads [OF assms], rule ExampleERC20Decimals_methods)
    (simp_all del: matches.simps(1))

lemma ExampleERC20Decimals_parsers_decode:
  assumes "codec_events k" and "event_ids k ExampleERC20DecimalsABI" and "bound_spec k
     ExampleERC20DecimalsABI be c"
  shows "parser_decodes k ExampleERC20DecimalsABI ''Approval''
     (ExampleERC20DecimalsFilterer_ParseApproval c) \<and>
     parser_decodes k ExampleERC20DecimalsABI ''Transfer''
        (ExampleERC20DecimalsFilterer_ParseTransfer c)"
proof -
  note parses = parse_log_decodes [OF assms]
  show ?thesis
    unfolding ExampleERC20DecimalsFilterer_ParseApproval_def
       ExampleERC20DecimalsFilterer_ParseTransfer_def
    by ((intro conjI)?; rule parses, rule ExampleERC20Decimals_events, rule
       ExampleERC20Decimals_decodable)
qed

end
