(* ===== verification/WrappedNativeTokenBinding.thy ===== *)
theory WrappedNativeTokenBinding
  imports Binding
begin

text \<open>
  The generated binding \<open>abi-bindings/go/ictt/WrappedNativeToken/WrappedNativeToken.go\<close> over the generic
  definitions of theory \<open>Binding\<close>: its ABI, every method with its session wrappers, every event with
  its iterator, filter, watch and parser. The bytecode is a parameter of deployment; the aliases
  \<open>Raw\<close> of the untyped calls are not modelled.
\<close>

section \<open>The contract's ABI (WrappedNativeTokenMetaData)\<close>

definition WrappedNativeTokenABI :: contract_abi where
  "WrappedNativeTokenABI = \<lparr>
      Methods = [
        (''allowance'', [(''owner'', TAddress), (''spender'', TAddress)],
           [('''', TUint 256)]),
        (''approve'', [(''spender'', TAddress), (''value'', TUint 256)],
           [('''', TBool)]),
        (''balanceOf'', [(''account'', TAddress)],
           [('''', TUint 256)]),
        (''decimals'', [],
           [('''', TUint 8)]),
        (''deposit'', [],
           []),
        (''name'', [],
           [('''', TString)]),
        (''symbol'', [],
           [('''', TString)]),
        (''totalSupply'', [],
           [('''', TUint 256)]),
        (''transfer'', [(''to'', TAddress), (''value'', TUint 256)],
           [('''', TBool)]),
        (''transferFrom'', [(''from'', TAddress), (''to'', TAddress), (''value'', TUint 256)],
           [('''', TBool)]),
        (''withdraw'', [(''amount'', TUint 256)],
           [])],
      Events = [
        (''Approval'', [(''owner'', TAddress, True), (''spender'', TAddress, True), (''value'',
           TUint 256, False)]),
        (''Deposit'', [(''sender'', TAddress, True), (''amount'', TUint 256, False)]),
        (''Transfer'', [(''from'', TAddress, True), (''to'', TAddress, True), (''value'', TUint
           256, False)]),
        (''Withdrawal'', [(''sender'', TAddress, True), (''amount'', TUint 256, False)])]\<rparr>"

section \<open>Binding and deployment\<close>

definition bindWrappedNativeToken :: "'w bind_lib \<Rightarrow> address \<Rightarrow> goerr + 'w bound_contract" where
  "bindWrappedNativeToken lib addr = bind_contract lib WrappedNativeTokenABI addr"

definition NewWrappedNativeToken :: "'w bind_lib \<Rightarrow> address \<Rightarrow> goerr + 'w bound_contract" where
  "NewWrappedNativeToken lib addr = bindWrappedNativeToken lib addr"

definition DeployWrappedNativeToken ::
  "'w bind_lib \<Rightarrow> string \<Rightarrow> TransactOpts \<Rightarrow> string \<Rightarrow> 
   ('w, goerr + address \<times> hash \<times> 'w bound_contract) prog" where
  "DeployWrappedNativeToken lib bin auth symbol = deploy_contract lib auth WrappedNativeTokenABI
     bin [GStr symbol]"

section \<open>Methods\<close>

definition WrappedNativeTokenCaller_Allowance ::
  "'w bound_contract \<Rightarrow> CallOpts \<Rightarrow> address \<Rightarrow> address \<Rightarrow> ('w, goerr + int) prog" where
  "WrappedNativeTokenCaller_Allowance c opts owner spender =
     call_method c opts ''allowance'' [GAddr owner, GAddr spender] (out1 go_big)"

definition WrappedNativeTokenSession_Allowance ::
  "'w session \<Rightarrow> address \<Rightarrow> address \<Rightarrow> ('w, goerr + int) prog" where
  "WrappedNativeTokenSession_Allowance s owner spender = WrappedNativeTokenCaller_Allowance
     (SessionContract s) (SessionCallOpts s) owner spender"

definition WrappedNativeTokenTransactor_Approve ::
  "'w bound_contract \<Rightarrow> TransactOpts \<Rightarrow> address \<Rightarrow> int \<Rightarrow> ('w, goerr + hash) prog" where
  "WrappedNativeTokenTransactor_Approve c opts spender amount_value =
     contract_transact c opts ''approve'' [GAddr spender, GBig amount_value]"

definition WrappedNativeTokenSession_Approve ::
  "'w session \<Rightarrow> address \<Rightarrow> int \<Rightarrow> ('w, goerr + hash) prog" where
  "WrappedNativeTokenSession_Approve s spender amount_value =
     WrappedNativeTokenTransactor_Approve (SessionContract s) (SessionTransactOpts s) spender
     amount_value"

definition WrappedNativeTokenCaller_BalanceOf ::
  "'w bound_contract \<Rightarrow> CallOpts \<Rightarrow> address \<Rightarrow> ('w, goerr + int) prog" where
  "WrappedNativeTokenCaller_BalanceOf c opts account =
     call_method c opts ''balanceOf'' [GAddr account] (out1 go_big)"

definition WrappedNativeTokenSession_BalanceOf ::
  "'w session \<Rightarrow> address \<Rightarrow> ('w, goerr + int) prog" where
  "WrappedNativeTokenSession_BalanceOf s account = WrappedNativeTokenCaller_BalanceOf
     (SessionContract s) (SessionCallOpts s) account"

definition WrappedNativeTokenCaller_Decimals ::
  "'w bound_contract \<Rightarrow> CallOpts \<Rightarrow> ('w, goerr + u8) prog" where
  "WrappedNativeTokenCaller_Decimals c opts =
     call_method c opts ''decimals'' [] (out1 (go_word 8))"

definition WrappedNativeTokenSession_Decimals ::
  "'w session \<Rightarrow> ('w, goerr + u8) prog" where
  "WrappedNativeTokenSession_Decimals s = WrappedNativeTokenCaller_Decimals (SessionContract s)
     (SessionCallOpts s)"

definition WrappedNativeTokenTransactor_Deposit ::
  "'w bound_contract \<Rightarrow> TransactOpts \<Rightarrow> ('w, goerr + hash) prog" where
  "WrappedNativeTokenTransactor_Deposit c opts =
     contract_transact c opts ''deposit'' []"

definition WrappedNativeTokenSession_Deposit ::
  "'w session \<Rightarrow> ('w, goerr + hash) prog" where
  "WrappedNativeTokenSession_Deposit s = WrappedNativeTokenTransactor_Deposit (SessionContract
     s) (SessionTransactOpts s)"

definition WrappedNativeTokenCaller_Name ::
  "'w bound_contract \<Rightarrow> CallOpts \<Rightarrow> ('w, goerr + string) prog" where
  "WrappedNativeTokenCaller_Name c opts =
     call_method c opts ''name'' [] (out1 go_str)"

definition WrappedNativeTokenSession_Name ::
  "'w session \<Rightarrow> ('w, goerr + string) prog" where
  "WrappedNativeTokenSession_Name s = WrappedNativeTokenCaller_Name (SessionContract s)
     (SessionCallOpts s)"

definition WrappedNativeTokenCaller_Symbol ::
  "'w bound_contract \<Rightarrow> CallOpts \<Rightarrow> ('w, goerr + string) prog" where
  "WrappedNativeTokenCaller_Symbol c opts =
     call_method c opts ''symbol'' [] (out1 go_str)"

definition WrappedNativeTokenSession_Symbol ::
  "'w session \<Rightarrow> ('w, goerr + string) prog" where
  "WrappedNativeTokenSession_Symbol s = WrappedNativeTokenCaller_Symbol (SessionContract s)
     (SessionCallOpts s)"

definition WrappedNativeTokenCaller_TotalSupply ::
  "'w bound_contract \<Rightarrow> CallOpts \<Rightarrow> ('w, goerr + int) prog" where
  "WrappedNativeTokenCaller_TotalSupply c opts =
     call_method c opts ''totalSupply'' [] (out1 go_big)"

definition WrappedNativeTokenSession_TotalSupply ::
  "'w session \<Rightarrow> ('w, goerr + int) prog" where
  "WrappedNativeTokenSession_TotalSupply s = WrappedNativeTokenCaller_TotalSupply
     (SessionContract s) (SessionCallOpts s)"

definition WrappedNativeTokenTransactor_Transfer ::
  "'w bound_contract \<Rightarrow> TransactOpts \<Rightarrow> address \<Rightarrow> int \<Rightarrow> ('w, goerr + hash) prog" where
  "WrappedNativeTokenTransactor_Transfer c opts to_addr amount_value =
     contract_transact c opts ''transfer'' [GAddr to_addr, GBig amount_value]"

definition WrappedNativeTokenSession_Transfer ::
  "'w session \<Rightarrow> address \<Rightarrow> int \<Rightarrow> ('w, goerr + hash) prog" where
  "WrappedNativeTokenSession_Transfer s to_addr amount_value =
     WrappedNativeTokenTransactor_Transfer (SessionContract s) (SessionTransactOpts s) to_addr
     amount_value"

definition WrappedNativeTokenTransactor_TransferFrom ::
  "'w bound_contract \<Rightarrow> TransactOpts \<Rightarrow> address \<Rightarrow> address \<Rightarrow> int \<Rightarrow> ('w, goerr + hash) prog" where
  "WrappedNativeTokenTransactor_TransferFrom c opts from_addr to_addr amount_value =
     contract_transact c opts ''transferFrom'' [GAddr from_addr, GAddr to_addr, GBig
        amount_value]"

definition WrappedNativeTokenSession_TransferFrom ::
  "'w session \<Rightarrow> address \<Rightarrow> address \<Rightarrow> int \<Rightarrow> ('w, goerr + hash) prog" where
  "WrappedNativeTokenSession_TransferFrom s from_addr to_addr amount_value =
     WrappedNativeTokenTransactor_TransferFrom (SessionContract s) (SessionTransactOpts s)
     from_addr to_addr amount_value"

definition WrappedNativeTokenTransactor_Withdraw ::
  "'w bound_contract \<Rightarrow> TransactOpts \<Rightarrow> int \<Rightarrow> ('w, goerr + hash) prog" where
  "WrappedNativeTokenTransactor_Withdraw c opts amount =
     contract_transact c opts ''withdraw'' [GBig amount]"

definition WrappedNativeTokenSession_Withdraw ::
  "'w session \<Rightarrow> int \<Rightarrow> ('w, goerr + hash) prog" where
  "WrappedNativeTokenSession_Withdraw s amount = WrappedNativeTokenTransactor_Withdraw
     (SessionContract s) (SessionTransactOpts s) amount"

definition WrappedNativeTokenTransactor_Fallback :: "'w bound_contract \<Rightarrow> TransactOpts \<Rightarrow> bytes \<Rightarrow>
   ('w, goerr + hash) prog" where
  "WrappedNativeTokenTransactor_Fallback c opts calldata = contract_raw_transact c opts
     calldata"

definition WrappedNativeTokenSession_Fallback :: "'w session \<Rightarrow> bytes \<Rightarrow> ('w, goerr + hash) prog"
   where
  "WrappedNativeTokenSession_Fallback s calldata = WrappedNativeTokenTransactor_Fallback
     (SessionContract s) (SessionTransactOpts s) calldata"

definition WrappedNativeTokenTransactor_Receive :: "'w bound_contract \<Rightarrow> TransactOpts \<Rightarrow> ('w,
   goerr + hash) prog" where
  "WrappedNativeTokenTransactor_Receive c opts = contract_raw_transact c opts []"

definition WrappedNativeTokenSession_Receive :: "'w session \<Rightarrow> ('w, goerr + hash) prog" where
  "WrappedNativeTokenSession_Receive s = WrappedNativeTokenTransactor_Receive (SessionContract
     s) (SessionTransactOpts s)"

section \<open>Events\<close>

definition WrappedNativeTokenApproval :: event_fields where
  "WrappedNativeTokenApproval = [(''Owner'', GAddr 0), (''Spender'', GAddr 0), (''Value'',
     GNil), (''Raw'', zero_Log)]"

definition WrappedNativeTokenApprovalIterator_Next ::
  "'w bound_contract \<Rightarrow> bool \<Rightarrow> iterator \<Rightarrow> (bool \<times> iterator) option" where
  "WrappedNativeTokenApprovalIterator_Next c pick it = iterator_Next (parse_log c ''Approval''
     WrappedNativeTokenApproval) WrappedNativeTokenApproval pick it"

definition WrappedNativeTokenApprovalIterator_Error :: "iterator \<Rightarrow> goerr option" where
  "WrappedNativeTokenApprovalIterator_Error it = iterator_Error it"

definition WrappedNativeTokenApprovalIterator_Close :: "iterator \<Rightarrow> goerr option \<times> iterator"
   where
  "WrappedNativeTokenApprovalIterator_Close it = iterator_Close it"

definition WrappedNativeTokenFilterer_FilterApproval ::
  "'w bound_contract \<Rightarrow> FilterOpts \<Rightarrow> address list \<Rightarrow> address list \<Rightarrow> ('w, goerr + iterator) prog"
     where
  "WrappedNativeTokenFilterer_FilterApproval c opts owner spender =
     filter_events c opts ''Approval'' [map GAddr owner, map GAddr spender]"

definition WrappedNativeTokenFilterer_WatchApproval ::
  "'w bound_contract \<Rightarrow> address list \<Rightarrow> address list \<Rightarrow> ('w, goerr + (evm_log \<Rightarrow> goerr +
     event_fields)) prog" where
  "WrappedNativeTokenFilterer_WatchApproval c owner spender =
     watch_events c ''Approval'' WrappedNativeTokenApproval [map GAddr owner, map GAddr
        spender]"

definition WrappedNativeTokenFilterer_ParseApproval ::
  "'w bound_contract \<Rightarrow> evm_log \<Rightarrow> goerr + event_fields" where
  "WrappedNativeTokenFilterer_ParseApproval c = parse_log c ''Approval''
     WrappedNativeTokenApproval"

definition WrappedNativeTokenDeposit :: event_fields where
  "WrappedNativeTokenDeposit = [(''Sender'', GAddr 0), (''Amount'', GNil), (''Raw'', zero_Log)]"

definition WrappedNativeTokenDepositIterator_Next ::
  "'w bound_contract \<Rightarrow> bool \<Rightarrow> iterator \<Rightarrow> (bool \<times> iterator) option" where
  "WrappedNativeTokenDepositIterator_Next c pick it = iterator_Next (parse_log c ''Deposit''
     WrappedNativeTokenDeposit) WrappedNativeTokenDeposit pick it"

definition WrappedNativeTokenDepositIterator_Error :: "iterator \<Rightarrow> goerr option" where
  "WrappedNativeTokenDepositIterator_Error it = iterator_Error it"

definition WrappedNativeTokenDepositIterator_Close :: "iterator \<Rightarrow> goerr option \<times> iterator" where
  "WrappedNativeTokenDepositIterator_Close it = iterator_Close it"

definition WrappedNativeTokenFilterer_FilterDeposit ::
  "'w bound_contract \<Rightarrow> FilterOpts \<Rightarrow> address list \<Rightarrow> ('w, goerr + iterator) prog" where
  "WrappedNativeTokenFilterer_FilterDeposit c opts sender =
     filter_events c opts ''Deposit'' [map GAddr sender]"

definition WrappedNativeTokenFilterer_WatchDeposit ::
  "'w bound_contract \<Rightarrow> address list \<Rightarrow> ('w, goerr + (evm_log \<Rightarrow> goerr + event_fields)) prog" where
  "WrappedNativeTokenFilterer_WatchDeposit c sender =
     watch_events c ''Deposit'' WrappedNativeTokenDeposit [map GAddr sender]"

definition WrappedNativeTokenFilterer_ParseDeposit ::
  "'w bound_contract \<Rightarrow> evm_log \<Rightarrow> goerr + event_fields" where
  "WrappedNativeTokenFilterer_ParseDeposit c = parse_log c ''Deposit''
     WrappedNativeTokenDeposit"

definition WrappedNativeTokenTransfer :: event_fields where
  "WrappedNativeTokenTransfer = [(''From'', GAddr 0), (''To'', GAddr 0), (''Value'', GNil),
     (''Raw'', zero_Log)]"

definition WrappedNativeTokenTransferIterator_Next ::
  "'w bound_contract \<Rightarrow> bool \<Rightarrow> iterator \<Rightarrow> (bool \<times> iterator) option" where
  "WrappedNativeTokenTransferIterator_Next c pick it = iterator_Next (parse_log c ''Transfer''
     WrappedNativeTokenTransfer) WrappedNativeTokenTransfer pick it"

definition WrappedNativeTokenTransferIterator_Error :: "iterator \<Rightarrow> goerr option" where
  "WrappedNativeTokenTransferIterator_Error it = iterator_Error it"

definition WrappedNativeTokenTransferIterator_Close :: "iterator \<Rightarrow> goerr option \<times> iterator"
   where
  "WrappedNativeTokenTransferIterator_Close it = iterator_Close it"

definition WrappedNativeTokenFilterer_FilterTransfer ::
  "'w bound_contract \<Rightarrow> FilterOpts \<Rightarrow> address list \<Rightarrow> address list \<Rightarrow> ('w, goerr + iterator) prog"
     where
  "WrappedNativeTokenFilterer_FilterTransfer c opts from_addr to_addr =
     filter_events c opts ''Transfer'' [map GAddr from_addr, map GAddr to_addr]"

definition WrappedNativeTokenFilterer_WatchTransfer ::
  "'w bound_contract \<Rightarrow> address list \<Rightarrow> address list \<Rightarrow> ('w, goerr + (evm_log \<Rightarrow> goerr +
     event_fields)) prog" where
  "WrappedNativeTokenFilterer_WatchTransfer c from_addr to_addr =
     watch_events c ''Transfer'' WrappedNativeTokenTransfer [map GAddr from_addr, map GAddr
        to_addr]"

definition WrappedNativeTokenFilterer_ParseTransfer ::
  "'w bound_contract \<Rightarrow> evm_log \<Rightarrow> goerr + event_fields" where
  "WrappedNativeTokenFilterer_ParseTransfer c = parse_log c ''Transfer''
     WrappedNativeTokenTransfer"

definition WrappedNativeTokenWithdrawal :: event_fields where
  "WrappedNativeTokenWithdrawal = [(''Sender'', GAddr 0), (''Amount'', GNil), (''Raw'',
     zero_Log)]"

definition WrappedNativeTokenWithdrawalIterator_Next ::
  "'w bound_contract \<Rightarrow> bool \<Rightarrow> iterator \<Rightarrow> (bool \<times> iterator) option" where
  "WrappedNativeTokenWithdrawalIterator_Next c pick it = iterator_Next (parse_log c
     ''Withdrawal'' WrappedNativeTokenWithdrawal) WrappedNativeTokenWithdrawal pick it"

definition WrappedNativeTokenWithdrawalIterator_Error :: "iterator \<Rightarrow> goerr option" where
  "WrappedNativeTokenWithdrawalIterator_Error it = iterator_Error it"

definition WrappedNativeTokenWithdrawalIterator_Close :: "iterator \<Rightarrow> goerr option \<times> iterator"
   where
  "WrappedNativeTokenWithdrawalIterator_Close it = iterator_Close it"

definition WrappedNativeTokenFilterer_FilterWithdrawal ::
  "'w bound_contract \<Rightarrow> FilterOpts \<Rightarrow> address list \<Rightarrow> ('w, goerr + iterator) prog" where
  "WrappedNativeTokenFilterer_FilterWithdrawal c opts sender =
     filter_events c opts ''Withdrawal'' [map GAddr sender]"

definition WrappedNativeTokenFilterer_WatchWithdrawal ::
  "'w bound_contract \<Rightarrow> address list \<Rightarrow> ('w, goerr + (evm_log \<Rightarrow> goerr + event_fields)) prog" where
  "WrappedNativeTokenFilterer_WatchWithdrawal c sender =
     watch_events c ''Withdrawal'' WrappedNativeTokenWithdrawal [map GAddr sender]"

definition WrappedNativeTokenFilterer_ParseWithdrawal ::
  "'w bound_contract \<Rightarrow> evm_log \<Rightarrow> goerr + event_fields" where
  "WrappedNativeTokenFilterer_ParseWithdrawal c = parse_log c ''Withdrawal''
     WrappedNativeTokenWithdrawal"

section \<open>Correctness\<close>

lemma WrappedNativeToken_methods:
  "map_of (Methods WrappedNativeTokenABI) ''allowance'' =
     Some ([(''owner'', TAddress), (''spender'', TAddress)], [([], TUint 256)])"
  "map_of (Methods WrappedNativeTokenABI) ''approve'' =
     Some ([(''spender'', TAddress), (''value'', TUint 256)], [([], TBool)])"
  "map_of (Methods WrappedNativeTokenABI) ''balanceOf'' =
     Some ([(''account'', TAddress)], [([], TUint 256)])"
  "map_of (Methods WrappedNativeTokenABI) ''decimals'' =
     Some ([], [([], TUint 8)])"
  "map_of (Methods WrappedNativeTokenABI) ''deposit'' =
     Some ([], [])"
  "map_of (Methods WrappedNativeTokenABI) ''name'' =
     Some ([], [([], TString)])"
  "map_of (Methods WrappedNativeTokenABI) ''symbol'' =
     Some ([], [([], TString)])"
  "map_of (Methods WrappedNativeTokenABI) ''totalSupply'' =
     Some ([], [([], TUint 256)])"
  "map_of (Methods WrappedNativeTokenABI) ''transfer'' =
     Some ([(''to'', TAddress), (''value'', TUint 256)], [([], TBool)])"
  "map_of (Methods WrappedNativeTokenABI) ''transferFrom'' =
     Some ([(''from'', TAddress), (''to'', TAddress), (''value'', TUint 256)], [([], TBool)])"
  "map_of (Methods WrappedNativeTokenABI) ''withdraw'' =
     Some ([(''amount'', TUint 256)], [])"
  unfolding WrappedNativeTokenABI_def contract_abi.select_convs
  by (simp_all only: table_lookup)

lemma WrappedNativeToken_decodable:
  "decodable [(''owner'', TAddress, True), (''spender'', TAddress, True), (''value'', TUint 256,
     False)]
     WrappedNativeTokenApproval"
  "decodable [(''sender'', TAddress, True), (''amount'', TUint 256, False)]
     WrappedNativeTokenDeposit"
  "decodable [(''from'', TAddress, True), (''to'', TAddress, True), (''value'', TUint 256,
     False)]
     WrappedNativeTokenTransfer"
  "decodable [(''sender'', TAddress, True), (''amount'', TUint 256, False)]
     WrappedNativeTokenWithdrawal"
  by (simp_all add: decodable_def has_fields_def fits_def WrappedNativeTokenApproval_def
     WrappedNativeTokenDeposit_def WrappedNativeTokenTransfer_def
     WrappedNativeTokenWithdrawal_def )

lemma WrappedNativeToken_events:
  "map_of (Events WrappedNativeTokenABI) ''Approval'' =
     Some [(''owner'', TAddress, True), (''spender'', TAddress, True), (''value'', TUint 256,
        False)]"
  "map_of (Events WrappedNativeTokenABI) ''Deposit'' =
     Some [(''sender'', TAddress, True), (''amount'', TUint 256, False)]"
  "map_of (Events WrappedNativeTokenABI) ''Transfer'' =
     Some [(''from'', TAddress, True), (''to'', TAddress, True), (''value'', TUint 256, False)]"
  "map_of (Events WrappedNativeTokenABI) ''Withdrawal'' =
     Some [(''sender'', TAddress, True), (''amount'', TUint 256, False)]"
  unfolding WrappedNativeTokenABI_def contract_abi.select_convs
  by (simp_all only: table_lookup)

lemma WrappedNativeToken_transactions_decode:
  assumes "codec_methods k" and "codec_roundtrip k" and "bound_spec k WrappedNativeTokenABI be
     c"
  shows "(\<forall>spender amount_value. in_uint256 amount_value \<longrightarrow> sends_call k WrappedNativeTokenABI be
     opts ''approve'' [GAddr spender, GBig amount_value]
       (WrappedNativeTokenTransactor_Approve c opts spender amount_value)) \<and>
     sends_call k WrappedNativeTokenABI be opts ''deposit'' []
       (WrappedNativeTokenTransactor_Deposit c opts) \<and>
     (\<forall>to_addr amount_value. in_uint256 amount_value \<longrightarrow> sends_call k WrappedNativeTokenABI be
        opts ''transfer'' [GAddr to_addr, GBig amount_value]
       (WrappedNativeTokenTransactor_Transfer c opts to_addr amount_value)) \<and>
     (\<forall>from_addr to_addr amount_value. in_uint256 amount_value \<longrightarrow> sends_call k
        WrappedNativeTokenABI be opts ''transferFrom'' [GAddr from_addr, GAddr to_addr, GBig
        amount_value]
       (WrappedNativeTokenTransactor_TransferFrom c opts from_addr to_addr amount_value)) \<and>
     (\<forall>amount. in_uint256 amount \<longrightarrow> sends_call k WrappedNativeTokenABI be opts ''withdraw'' [GBig
        amount]
       (WrappedNativeTokenTransactor_Withdraw c opts amount))"
  unfolding WrappedNativeTokenTransactor_Approve_def WrappedNativeTokenTransactor_Deposit_def
     WrappedNativeTokenTransactor_Transfer_def WrappedNativeTokenTransactor_TransferFrom_def
     WrappedNativeTokenTransactor_Withdraw_def
  by ((intro conjI allI impI)?; rule transact_sends [OF assms], rule WrappedNativeToken_methods)
    (simp_all del: matches.simps(1))

lemma WrappedNativeToken_calls_return_outputs:
  assumes "codec_methods k" and "codec_roundtrip k" and "bound_spec k WrappedNativeTokenABI be
     c"
  shows "(\<forall>owner spender r0. in_uint256 r0 \<longrightarrow> reads_call k WrappedNativeTokenABI be opts
     ''allowance'' [GAddr owner, GAddr spender]
       [GBig r0] r0 (WrappedNativeTokenCaller_Allowance c opts owner spender)) \<and>
     (\<forall>account r0. in_uint256 r0 \<longrightarrow> reads_call k WrappedNativeTokenABI be opts ''balanceOf''
        [GAddr account]
       [GBig r0] r0 (WrappedNativeTokenCaller_BalanceOf c opts account)) \<and>
     (\<forall>r0. reads_call k WrappedNativeTokenABI be opts ''decimals'' []
       [GUint 8 (unat r0)] r0 (WrappedNativeTokenCaller_Decimals c opts)) \<and>
     (\<forall>r0. reads_call k WrappedNativeTokenABI be opts ''name'' []
       [GStr r0] r0 (WrappedNativeTokenCaller_Name c opts)) \<and>
     (\<forall>r0. reads_call k WrappedNativeTokenABI be opts ''symbol'' []
       [GStr r0] r0 (WrappedNativeTokenCaller_Symbol c opts)) \<and>
     (\<forall>r0. in_uint256 r0 \<longrightarrow> reads_call k WrappedNativeTokenABI be opts ''totalSupply'' []
       [GBig r0] r0 (WrappedNativeTokenCaller_TotalSupply c opts))"
  unfolding WrappedNativeTokenCaller_Allowance_def WrappedNativeTokenCaller_BalanceOf_def
     WrappedNativeTokenCaller_Decimals_def WrappedNativeTokenCaller_Name_def
     WrappedNativeTokenCaller_Symbol_def WrappedNativeTokenCaller_TotalSupply_def
  by ((intro conjI allI impI)?; rule call_reads [OF assms], rule WrappedNativeToken_methods)
    (simp_all del: matches.simps(1))

lemma WrappedNativeToken_parsers_decode:
  assumes "codec_events k" and "event_ids k WrappedNativeTokenABI" and "bound_spec k
     WrappedNativeTokenABI be c"
  shows "parser_decodes k WrappedNativeTokenABI ''Approval''
     (WrappedNativeTokenFilterer_ParseApproval c) \<and>
     parser_decodes k WrappedNativeTokenABI ''Deposit'' (WrappedNativeTokenFilterer_ParseDeposit
        c) \<and>
     parser_decodes k WrappedNativeTokenABI ''Transfer''
        (WrappedNativeTokenFilterer_ParseTransfer c) \<and>
     parser_decodes k WrappedNativeTokenABI ''Withdrawal''
        (WrappedNativeTokenFilterer_ParseWithdrawal c)"
proof -
  note parses = parse_log_decodes [OF assms]
  show ?thesis
    unfolding WrappedNativeTokenFilterer_ParseApproval_def
       WrappedNativeTokenFilterer_ParseDeposit_def WrappedNativeTokenFilterer_ParseTransfer_def
       WrappedNativeTokenFilterer_ParseWithdrawal_def
    by ((intro conjI)?; rule parses, rule WrappedNativeToken_events, rule
       WrappedNativeToken_decodable)
qed

end
