(* ===== verification/MockERC20SendAndCallReceiverBinding.thy ===== *)
theory MockERC20SendAndCallReceiverBinding
  imports Binding
begin

text \<open>
  The generated binding \<open>abi-bindings/go/ictt/mocks/MockERC20SendAndCallReceiver/MockERC20SendAndCallReceiver.go\<close> over the generic
  definitions of theory \<open>Binding\<close>: its ABI, every method with its session wrappers, every event with
  its iterator, filter, watch and parser. The bytecode is a parameter of deployment; the aliases
  \<open>Raw\<close> of the untyped calls are not modelled.
\<close>

section \<open>The contract's ABI (MockERC20SendAndCallReceiverMetaData)\<close>

definition MockERC20SendAndCallReceiverABI :: contract_abi where
  "MockERC20SendAndCallReceiverABI = \<lparr>
      Methods = [
        (''blockSender'', [(''blockchainID'', TBytes32), (''senderAddress'', TAddress)],
           []),
        (''blockedSenders'', [(''blockchainID'', TBytes32), (''senderAddress'', TAddress)],
           [(''blocked'', TBool)]),
        (''receiveTokens'', [(''sourceBlockchainID'', TBytes32),
           (''originTokenTransferrerAddress'', TAddress), (''originSenderAddress'', TAddress),
           (''token'', TAddress), (''amount'', TUint 256), (''payload'', TBytes)],
           [])],
      Events = [
        (''TokensReceived'', [(''sourceBlockchainID'', TBytes32, True),
           (''originTokenTransferrerAddress'', TAddress, True), (''originSenderAddress'',
           TAddress, True), (''token'', TAddress, False), (''amount'', TUint 256, False),
           (''payload'', TBytes, False)])]\<rparr>"

section \<open>Binding and deployment\<close>

definition bindMockERC20SendAndCallReceiver :: "'w bind_lib \<Rightarrow> address \<Rightarrow> goerr + 'w
   bound_contract" where
  "bindMockERC20SendAndCallReceiver lib addr = bind_contract lib MockERC20SendAndCallReceiverABI
     addr"

definition NewMockERC20SendAndCallReceiver :: "'w bind_lib \<Rightarrow> address \<Rightarrow> goerr + 'w
   bound_contract" where
  "NewMockERC20SendAndCallReceiver lib addr = bindMockERC20SendAndCallReceiver lib addr"

definition DeployMockERC20SendAndCallReceiver ::
  "'w bind_lib \<Rightarrow> string \<Rightarrow> TransactOpts \<Rightarrow> 
   ('w, goerr + address \<times> hash \<times> 'w bound_contract) prog" where
  "DeployMockERC20SendAndCallReceiver lib bin auth = deploy_contract lib auth
     MockERC20SendAndCallReceiverABI bin []"

section \<open>Methods\<close>

definition MockERC20SendAndCallReceiverTransactor_BlockSender ::
  "'w bound_contract \<Rightarrow> TransactOpts \<Rightarrow> hash \<Rightarrow> address \<Rightarrow> ('w, goerr + hash) prog" where
  "MockERC20SendAndCallReceiverTransactor_BlockSender c opts blockchainID senderAddress =
     contract_transact c opts ''blockSender'' [GArr32 blockchainID, GAddr senderAddress]"

definition MockERC20SendAndCallReceiverSession_BlockSender ::
  "'w session \<Rightarrow> hash \<Rightarrow> address \<Rightarrow> ('w, goerr + hash) prog" where
  "MockERC20SendAndCallReceiverSession_BlockSender s blockchainID senderAddress =
     MockERC20SendAndCallReceiverTransactor_BlockSender (SessionContract s) (SessionTransactOpts
     s) blockchainID senderAddress"

definition MockERC20SendAndCallReceiverCaller_BlockedSenders ::
  "'w bound_contract \<Rightarrow> CallOpts \<Rightarrow> hash \<Rightarrow> address \<Rightarrow> ('w, goerr + bool) prog" where
  "MockERC20SendAndCallReceiverCaller_BlockedSenders c opts blockchainID senderAddress =
     call_method c opts ''blockedSenders'' [GArr32 blockchainID, GAddr senderAddress] (out1
        go_bool)"

definition MockERC20SendAndCallReceiverSession_BlockedSenders ::
  "'w session \<Rightarrow> hash \<Rightarrow> address \<Rightarrow> ('w, goerr + bool) prog" where
  "MockERC20SendAndCallReceiverSession_BlockedSenders s blockchainID senderAddress =
     MockERC20SendAndCallReceiverCaller_BlockedSenders (SessionContract s) (SessionCallOpts s)
     blockchainID senderAddress"

definition MockERC20SendAndCallReceiverTransactor_ReceiveTokens ::
  "'w bound_contract \<Rightarrow> TransactOpts \<Rightarrow> hash \<Rightarrow> address \<Rightarrow> address \<Rightarrow> address \<Rightarrow> int \<Rightarrow> bytes \<Rightarrow> ('w,
     goerr + hash) prog" where
  "MockERC20SendAndCallReceiverTransactor_ReceiveTokens c opts sourceBlockchainID
     originTokenTransferrerAddress originSenderAddress token amount payload =
     contract_transact c opts ''receiveTokens'' [GArr32 sourceBlockchainID, GAddr
        originTokenTransferrerAddress, GAddr originSenderAddress, GAddr token, GBig amount,
        GBytes payload]"

definition MockERC20SendAndCallReceiverSession_ReceiveTokens ::
  "'w session \<Rightarrow> hash \<Rightarrow> address \<Rightarrow> address \<Rightarrow> address \<Rightarrow> int \<Rightarrow> bytes \<Rightarrow> ('w, goerr + hash) prog"
     where
  "MockERC20SendAndCallReceiverSession_ReceiveTokens s sourceBlockchainID
     originTokenTransferrerAddress originSenderAddress token amount payload =
     MockERC20SendAndCallReceiverTransactor_ReceiveTokens (SessionContract s)
     (SessionTransactOpts s) sourceBlockchainID originTokenTransferrerAddress
     originSenderAddress token amount payload"

section \<open>Events\<close>

definition MockERC20SendAndCallReceiverTokensReceived :: event_fields where
  "MockERC20SendAndCallReceiverTokensReceived = [(''SourceBlockchainID'', GArr32 0),
     (''OriginTokenTransferrerAddress'', GAddr 0), (''OriginSenderAddress'', GAddr 0),
     (''Token'', GAddr 0), (''Amount'', GNil), (''Payload'', GNil), (''Raw'', zero_Log)]"

definition MockERC20SendAndCallReceiverTokensReceivedIterator_Next ::
  "'w bound_contract \<Rightarrow> bool \<Rightarrow> iterator \<Rightarrow> (bool \<times> iterator) option" where
  "MockERC20SendAndCallReceiverTokensReceivedIterator_Next c pick it = iterator_Next (parse_log
     c ''TokensReceived'' MockERC20SendAndCallReceiverTokensReceived)
     MockERC20SendAndCallReceiverTokensReceived pick it"

definition MockERC20SendAndCallReceiverTokensReceivedIterator_Error :: "iterator \<Rightarrow> goerr option"
   where
  "MockERC20SendAndCallReceiverTokensReceivedIterator_Error it = iterator_Error it"

definition MockERC20SendAndCallReceiverTokensReceivedIterator_Close :: "iterator \<Rightarrow> goerr option
   \<times> iterator" where
  "MockERC20SendAndCallReceiverTokensReceivedIterator_Close it = iterator_Close it"

definition MockERC20SendAndCallReceiverFilterer_FilterTokensReceived ::
  "'w bound_contract \<Rightarrow> FilterOpts \<Rightarrow> hash list \<Rightarrow> address list \<Rightarrow> address list \<Rightarrow> ('w, goerr +
     iterator) prog" where
  "MockERC20SendAndCallReceiverFilterer_FilterTokensReceived c opts sourceBlockchainID
     originTokenTransferrerAddress originSenderAddress =
     filter_events c opts ''TokensReceived'' [map GArr32 sourceBlockchainID, map GAddr
        originTokenTransferrerAddress, map GAddr originSenderAddress]"

definition MockERC20SendAndCallReceiverFilterer_WatchTokensReceived ::
  "'w bound_contract \<Rightarrow> hash list \<Rightarrow> address list \<Rightarrow> address list \<Rightarrow> ('w, goerr + (evm_log \<Rightarrow> goerr +
     event_fields)) prog" where
  "MockERC20SendAndCallReceiverFilterer_WatchTokensReceived c sourceBlockchainID
     originTokenTransferrerAddress originSenderAddress =
     watch_events c ''TokensReceived'' MockERC20SendAndCallReceiverTokensReceived [map GArr32
        sourceBlockchainID, map GAddr originTokenTransferrerAddress, map GAddr
        originSenderAddress]"

definition MockERC20SendAndCallReceiverFilterer_ParseTokensReceived ::
  "'w bound_contract \<Rightarrow> evm_log \<Rightarrow> goerr + event_fields" where
  "MockERC20SendAndCallReceiverFilterer_ParseTokensReceived c = parse_log c ''TokensReceived''
     MockERC20SendAndCallReceiverTokensReceived"

section \<open>Correctness\<close>

lemma MockERC20SendAndCallReceiver_methods:
  "map_of (Methods MockERC20SendAndCallReceiverABI) ''blockSender'' =
     Some ([(''blockchainID'', TBytes32), (''senderAddress'', TAddress)], [])"
  "map_of (Methods MockERC20SendAndCallReceiverABI) ''blockedSenders'' =
     Some ([(''blockchainID'', TBytes32), (''senderAddress'', TAddress)], [(''blocked'',
        TBool)])"
  "map_of (Methods MockERC20SendAndCallReceiverABI) ''receiveTokens'' =
     Some ([(''sourceBlockchainID'', TBytes32), (''originTokenTransferrerAddress'', TAddress),
        (''originSenderAddress'', TAddress), (''token'', TAddress), (''amount'', TUint 256),
        (''payload'', TBytes)], [])"
  unfolding MockERC20SendAndCallReceiverABI_def contract_abi.select_convs
  by (simp_all only: table_lookup)

lemma MockERC20SendAndCallReceiver_decodable:
  "decodable [(''sourceBlockchainID'', TBytes32, True), (''originTokenTransferrerAddress'',
     TAddress, True), (''originSenderAddress'', TAddress, True), (''token'', TAddress, False),
     (''amount'', TUint 256, False), (''payload'', TBytes, False)]
     MockERC20SendAndCallReceiverTokensReceived"
  by (simp_all add: decodable_def has_fields_def fits_def
     MockERC20SendAndCallReceiverTokensReceived_def )

lemma MockERC20SendAndCallReceiver_events:
  "map_of (Events MockERC20SendAndCallReceiverABI) ''TokensReceived'' =
     Some [(''sourceBlockchainID'', TBytes32, True), (''originTokenTransferrerAddress'',
        TAddress, True), (''originSenderAddress'', TAddress, True), (''token'', TAddress,
        False), (''amount'', TUint 256, False), (''payload'', TBytes, False)]"
  unfolding MockERC20SendAndCallReceiverABI_def contract_abi.select_convs
  by (simp_all only: table_lookup)

lemma MockERC20SendAndCallReceiver_transactions_decode:
  assumes "codec_methods k" and "codec_roundtrip k" and "bound_spec k
     MockERC20SendAndCallReceiverABI be c"
  shows "(\<forall>blockchainID senderAddress. sends_call k MockERC20SendAndCallReceiverABI be opts
     ''blockSender'' [GArr32 blockchainID, GAddr senderAddress]
       (MockERC20SendAndCallReceiverTransactor_BlockSender c opts blockchainID senderAddress)) \<and>
     (\<forall>sourceBlockchainID originTokenTransferrerAddress originSenderAddress token amount
        payload. in_uint256 amount \<longrightarrow> sends_call k MockERC20SendAndCallReceiverABI be opts
        ''receiveTokens'' [GArr32 sourceBlockchainID, GAddr originTokenTransferrerAddress, GAddr
        originSenderAddress, GAddr token, GBig amount, GBytes payload]
       (MockERC20SendAndCallReceiverTransactor_ReceiveTokens c opts sourceBlockchainID
          originTokenTransferrerAddress originSenderAddress token amount payload))"
  unfolding MockERC20SendAndCallReceiverTransactor_BlockSender_def
     MockERC20SendAndCallReceiverTransactor_ReceiveTokens_def
  by ((intro conjI allI impI)?; rule transact_sends [OF assms], rule
     MockERC20SendAndCallReceiver_methods)
    (simp_all del: matches.simps(1))

lemma MockERC20SendAndCallReceiver_calls_return_outputs:
  assumes "codec_methods k" and "codec_roundtrip k" and "bound_spec k
     MockERC20SendAndCallReceiverABI be c"
  shows "(\<forall>blockchainID senderAddress r0. reads_call k MockERC20SendAndCallReceiverABI be opts
     ''blockedSenders'' [GArr32 blockchainID, GAddr senderAddress]
       [GBool r0] r0 (MockERC20SendAndCallReceiverCaller_BlockedSenders c opts blockchainID
          senderAddress))"
  unfolding MockERC20SendAndCallReceiverCaller_BlockedSenders_def
  by ((intro conjI allI impI)?; rule call_reads [OF assms], rule
     MockERC20SendAndCallReceiver_methods)
    (simp_all del: matches.simps(1))

lemma MockERC20SendAndCallReceiver_parsers_decode:
  assumes "codec_events k" and "event_ids k MockERC20SendAndCallReceiverABI" and "bound_spec k
     MockERC20SendAndCallReceiverABI be c"
  shows "parser_decodes k MockERC20SendAndCallReceiverABI ''TokensReceived''
     (MockERC20SendAndCallReceiverFilterer_ParseTokensReceived c)"
proof -
  note parses = parse_log_decodes [OF assms]
  show ?thesis
    unfolding MockERC20SendAndCallReceiverFilterer_ParseTokensReceived_def
    by ((intro conjI)?; rule parses, rule MockERC20SendAndCallReceiver_events, rule
       MockERC20SendAndCallReceiver_decodable)
qed

end
