(* ===== verification/MockNativeSendAndCallReceiverBinding.thy ===== *)
theory MockNativeSendAndCallReceiverBinding
  imports Binding
begin

text \<open>
  The generated binding \<open>abi-bindings/go/ictt/mocks/MockNativeSendAndCallReceiver/MockNativeSendAndCallReceiver.go\<close> over the generic
  definitions of theory \<open>Binding\<close>: its ABI, every method with its session wrappers, every event with
  its iterator, filter, watch and parser. The bytecode is a parameter of deployment; the aliases
  \<open>Raw\<close> of the untyped calls are not modelled.
\<close>

section \<open>The contract's ABI (MockNativeSendAndCallReceiverMetaData)\<close>

definition MockNativeSendAndCallReceiverABI :: contract_abi where
  "MockNativeSendAndCallReceiverABI = \<lparr>
      Methods = [
        (''blockSender'', [(''blockchainID'', TBytes32), (''senderAddress'', TAddress)],
           []),
        (''blockedSenders'', [(''blockchainID'', TBytes32), (''senderAddress'', TAddress)],
           [(''blocked'', TBool)]),
        (''receiveTokens'', [(''sourceBlockchainID'', TBytes32),
           (''originTokenTransferrerAddress'', TAddress), (''originSenderAddress'', TAddress),
           (''payload'', TBytes)],
           [])],
      Events = [
        (''TokensReceived'', [(''sourceBlockchainID'', TBytes32, True),
           (''originTokenTransferrerAddress'', TAddress, True), (''originSenderAddress'',
           TAddress, True), (''amount'', TUint 256, False), (''payload'', TBytes, False)])]\<rparr>"

section \<open>Binding and deployment\<close>

definition bindMockNativeSendAndCallReceiver :: "'w bind_lib \<Rightarrow> address \<Rightarrow> goerr + 'w
   bound_contract" where
  "bindMockNativeSendAndCallReceiver lib addr = bind_contract lib
     MockNativeSendAndCallReceiverABI addr"

definition NewMockNativeSendAndCallReceiver :: "'w bind_lib \<Rightarrow> address \<Rightarrow> goerr + 'w
   bound_contract" where
  "NewMockNativeSendAndCallReceiver lib addr = bindMockNativeSendAndCallReceiver lib addr"

definition DeployMockNativeSendAndCallReceiver ::
  "'w bind_lib \<Rightarrow> string \<Rightarrow> TransactOpts \<Rightarrow> 
   ('w, goerr + address \<times> hash \<times> 'w bound_contract) prog" where
  "DeployMockNativeSendAndCallReceiver lib bin auth = deploy_contract lib auth
     MockNativeSendAndCallReceiverABI bin []"

section \<open>Methods\<close>

definition MockNativeSendAndCallReceiverTransactor_BlockSender ::
  "'w bound_contract \<Rightarrow> TransactOpts \<Rightarrow> hash \<Rightarrow> address \<Rightarrow> ('w, goerr + hash) prog" where
  "MockNativeSendAndCallReceiverTransactor_BlockSender c opts blockchainID senderAddress =
     contract_transact c opts ''blockSender'' [GArr32 blockchainID, GAddr senderAddress]"

definition MockNativeSendAndCallReceiverSession_BlockSender ::
  "'w session \<Rightarrow> hash \<Rightarrow> address \<Rightarrow> ('w, goerr + hash) prog" where
  "MockNativeSendAndCallReceiverSession_BlockSender s blockchainID senderAddress =
     MockNativeSendAndCallReceiverTransactor_BlockSender (SessionContract s)
     (SessionTransactOpts s) blockchainID senderAddress"

definition MockNativeSendAndCallReceiverCaller_BlockedSenders ::
  "'w bound_contract \<Rightarrow> CallOpts \<Rightarrow> hash \<Rightarrow> address \<Rightarrow> ('w, goerr + bool) prog" where
  "MockNativeSendAndCallReceiverCaller_BlockedSenders c opts blockchainID senderAddress =
     call_method c opts ''blockedSenders'' [GArr32 blockchainID, GAddr senderAddress] (out1
        go_bool)"

definition MockNativeSendAndCallReceiverSession_BlockedSenders ::
  "'w session \<Rightarrow> hash \<Rightarrow> address \<Rightarrow> ('w, goerr + bool) prog" where
  "MockNativeSendAndCallReceiverSession_BlockedSenders s blockchainID senderAddress =
     MockNativeSendAndCallReceiverCaller_BlockedSenders (SessionContract s) (SessionCallOpts s)
     blockchainID senderAddress"

definition MockNativeSendAndCallReceiverTransactor_ReceiveTokens ::
  "'w bound_contract \<Rightarrow> TransactOpts \<Rightarrow> hash \<Rightarrow> address \<Rightarrow> address \<Rightarrow> bytes \<Rightarrow> ('w, goerr + hash)
     prog" where
  "MockNativeSendAndCallReceiverTransactor_ReceiveTokens c opts sourceBlockchainID
     originTokenTransferrerAddress originSenderAddress payload =
     contract_transact c opts ''receiveTokens'' [GArr32 sourceBlockchainID, GAddr
        originTokenTransferrerAddress, GAddr originSenderAddress, GBytes payload]"

definition MockNativeSendAndCallReceiverSession_ReceiveTokens ::
  "'w session \<Rightarrow> hash \<Rightarrow> address \<Rightarrow> address \<Rightarrow> bytes \<Rightarrow> ('w, goerr + hash) prog" where
  "MockNativeSendAndCallReceiverSession_ReceiveTokens s sourceBlockchainID
     originTokenTransferrerAddress originSenderAddress payload =
     MockNativeSendAndCallReceiverTransactor_ReceiveTokens (SessionContract s)
     (SessionTransactOpts s) sourceBlockchainID originTokenTransferrerAddress
     originSenderAddress payload"

section \<open>Events\<close>

definition MockNativeSendAndCallReceiverTokensReceived :: event_fields where
  "MockNativeSendAndCallReceiverTokensReceived = [(''SourceBlockchainID'', GArr32 0),
     (''OriginTokenTransferrerAddress'', GAddr 0), (''OriginSenderAddress'', GAddr 0),
     (''Amount'', GNil), (''Payload'', GNil), (''Raw'', zero_Log)]"

definition MockNativeSendAndCallReceiverTokensReceivedIterator_Next ::
  "'w bound_contract \<Rightarrow> bool \<Rightarrow> iterator \<Rightarrow> (bool \<times> iterator) option" where
  "MockNativeSendAndCallReceiverTokensReceivedIterator_Next c pick it = iterator_Next (parse_log
     c ''TokensReceived'' MockNativeSendAndCallReceiverTokensReceived)
     MockNativeSendAndCallReceiverTokensReceived pick it"

definition MockNativeSendAndCallReceiverTokensReceivedIterator_Error :: "iterator \<Rightarrow> goerr
   option" where
  "MockNativeSendAndCallReceiverTokensReceivedIterator_Error it = iterator_Error it"

definition MockNativeSendAndCallReceiverTokensReceivedIterator_Close :: "iterator \<Rightarrow> goerr option
   \<times> iterator" where
  "MockNativeSendAndCallReceiverTokensReceivedIterator_Close it = iterator_Close it"

definition MockNativeSendAndCallReceiverFilterer_FilterTokensReceived ::
  "'w bound_contract \<Rightarrow> FilterOpts \<Rightarrow> hash list \<Rightarrow> address list \<Rightarrow> address list \<Rightarrow> ('w, goerr +
     iterator) prog" where
  "MockNativeSendAndCallReceiverFilterer_FilterTokensReceived c opts sourceBlockchainID
     originTokenTransferrerAddress originSenderAddress =
     filter_events c opts ''TokensReceived'' [map GArr32 sourceBlockchainID, map GAddr
        originTokenTransferrerAddress, map GAddr originSenderAddress]"

definition MockNativeSendAndCallReceiverFilterer_WatchTokensReceived ::
  "'w bound_contract \<Rightarrow> hash list \<Rightarrow> address list \<Rightarrow> address list \<Rightarrow> ('w, goerr + (evm_log \<Rightarrow> goerr +
     event_fields)) prog" where
  "MockNativeSendAndCallReceiverFilterer_WatchTokensReceived c sourceBlockchainID
     originTokenTransferrerAddress originSenderAddress =
     watch_events c ''TokensReceived'' MockNativeSendAndCallReceiverTokensReceived [map GArr32
        sourceBlockchainID, map GAddr originTokenTransferrerAddress, map GAddr
        originSenderAddress]"

definition MockNativeSendAndCallReceiverFilterer_ParseTokensReceived ::
  "'w bound_contract \<Rightarrow> evm_log \<Rightarrow> goerr + event_fields" where
  "MockNativeSendAndCallReceiverFilterer_ParseTokensReceived c = parse_log c ''TokensReceived''
     MockNativeSendAndCallReceiverTokensReceived"

section \<open>Correctness\<close>

lemma MockNativeSendAndCallReceiver_methods:
  "map_of (Methods MockNativeSendAndCallReceiverABI) ''blockSender'' =
     Some ([(''blockchainID'', TBytes32), (''senderAddress'', TAddress)], [])"
  "map_of (Methods MockNativeSendAndCallReceiverABI) ''blockedSenders'' =
     Some ([(''blockchainID'', TBytes32), (''senderAddress'', TAddress)], [(''blocked'',
        TBool)])"
  "map_of (Methods MockNativeSendAndCallReceiverABI) ''receiveTokens'' =
     Some ([(''sourceBlockchainID'', TBytes32), (''originTokenTransferrerAddress'', TAddress),
        (''originSenderAddress'', TAddress), (''payload'', TBytes)], [])"
  unfolding MockNativeSendAndCallReceiverABI_def contract_abi.select_convs
  by (simp_all only: table_lookup)

lemma MockNativeSendAndCallReceiver_decodable:
  "decodable [(''sourceBlockchainID'', TBytes32, True), (''originTokenTransferrerAddress'',
     TAddress, True), (''originSenderAddress'', TAddress, True), (''amount'', TUint 256, False),
     (''payload'', TBytes, False)]
     MockNativeSendAndCallReceiverTokensReceived"
  by (simp_all add: decodable_def has_fields_def fits_def
     MockNativeSendAndCallReceiverTokensReceived_def )

lemma MockNativeSendAndCallReceiver_events:
  "map_of (Events MockNativeSendAndCallReceiverABI) ''TokensReceived'' =
     Some [(''sourceBlockchainID'', TBytes32, True), (''originTokenTransferrerAddress'',
        TAddress, True), (''originSenderAddress'', TAddress, True), (''amount'', TUint 256,
        False), (''payload'', TBytes, False)]"
  unfolding MockNativeSendAndCallReceiverABI_def contract_abi.select_convs
  by (simp_all only: table_lookup)

lemma MockNativeSendAndCallReceiver_transactions_decode:
  assumes "codec_methods k" and "codec_roundtrip k" and "bound_spec k
     MockNativeSendAndCallReceiverABI be c"
  shows "(\<forall>blockchainID senderAddress. sends_call k MockNativeSendAndCallReceiverABI be opts
     ''blockSender'' [GArr32 blockchainID, GAddr senderAddress]
       (MockNativeSendAndCallReceiverTransactor_BlockSender c opts blockchainID senderAddress))
          \<and>
     (\<forall>sourceBlockchainID originTokenTransferrerAddress originSenderAddress payload. sends_call
        k MockNativeSendAndCallReceiverABI be opts ''receiveTokens'' [GArr32 sourceBlockchainID,
        GAddr originTokenTransferrerAddress, GAddr originSenderAddress, GBytes payload]
       (MockNativeSendAndCallReceiverTransactor_ReceiveTokens c opts sourceBlockchainID
          originTokenTransferrerAddress originSenderAddress payload))"
  unfolding MockNativeSendAndCallReceiverTransactor_BlockSender_def
     MockNativeSendAndCallReceiverTransactor_ReceiveTokens_def
  by ((intro conjI allI impI)?; rule transact_sends [OF assms], rule
     MockNativeSendAndCallReceiver_methods)
    (simp_all del: matches.simps(1))

lemma MockNativeSendAndCallReceiver_calls_return_outputs:
  assumes "codec_methods k" and "codec_roundtrip k" and "bound_spec k
     MockNativeSendAndCallReceiverABI be c"
  shows "(\<forall>blockchainID senderAddress r0. reads_call k MockNativeSendAndCallReceiverABI be opts
     ''blockedSenders'' [GArr32 blockchainID, GAddr senderAddress]
       [GBool r0] r0 (MockNativeSendAndCallReceiverCaller_BlockedSenders c opts blockchainID
          senderAddress))"
  unfolding MockNativeSendAndCallReceiverCaller_BlockedSenders_def
  by ((intro conjI allI impI)?; rule call_reads [OF assms], rule
     MockNativeSendAndCallReceiver_methods)
    (simp_all del: matches.simps(1))

lemma MockNativeSendAndCallReceiver_parsers_decode:
  assumes "codec_events k" and "event_ids k MockNativeSendAndCallReceiverABI" and "bound_spec k
     MockNativeSendAndCallReceiverABI be c"
  shows "parser_decodes k MockNativeSendAndCallReceiverABI ''TokensReceived''
     (MockNativeSendAndCallReceiverFilterer_ParseTokensReceived c)"
proof -
  note parses = parse_log_decodes [OF assms]
  show ?thesis
    unfolding MockNativeSendAndCallReceiverFilterer_ParseTokensReceived_def
    by ((intro conjI)?; rule parses, rule MockNativeSendAndCallReceiver_events, rule
       MockNativeSendAndCallReceiver_decodable)
qed

end
