(* ===== verification/Loops.thy ===== *)
theory Loops
  imports Effects
begin

text \<open>
  Loops that may not end: the polling loops of the test utilities. A run is a command that may not
  return: \<open>None\<close> is a run that goes on for ever. \<open>forever\<close> is Go's \<open>for { ... }\<close>: a body that returns
  \<open>Some x\<close> leaves the loop with \<open>x\<close>, \<open>None\<close> starts the next round.
\<close>

type_synonym ('s, 'a) run = "'s \<Rightarrow> ('a outcome \<times> 's) option"

definition run_of :: "('s, 'a) prog \<Rightarrow> ('s, 'a) run" where
  "run_of p s = Some (p s)"

definition rbnd :: "('s, 'a) run \<Rightarrow> ('a \<Rightarrow> ('s, 'b) run) \<Rightarrow> ('s, 'b) run" where
  "rbnd m f s =
     (case m s of
        None \<Rightarrow> None
      | Some (r, s') \<Rightarrow>
          (case r of
             Returned x \<Rightarrow> f x s'
           | Failed e \<Rightarrow> Some (Failed e, s')
           | Panicked e \<Rightarrow> Some (Panicked e, s')))"

definition rret :: "'a \<Rightarrow> ('s, 'a) run" where
  "rret x = run_of (ret x)"

definition rfail :: "string \<Rightarrow> ('s, 'a) run" where
  "rfail msg = run_of (failed msg)"

text \<open>A query of a service: it may change the state and answers with a value or an error.\<close>

type_synonym ('s, 'e, 'a) query = "'s \<Rightarrow> ('e + 'a) \<times> 's"

definition ask :: "('s, 'e, 'a) query \<Rightarrow> ('s, 'e + 'a) run" where
  "ask q s = (case q s of (r, s') \<Rightarrow> Some (Returned r, s'))"

text \<open>\<open>Expect(err).Should(BeNil())\<close> and \<open>Expect(b).Should(BeTrue())\<close>.\<close>

definition expect :: "goerr + 'a \<Rightarrow> ('s, 'a) run" where
  "expect r = run_of (check r)"

definition expect_that :: "bool \<Rightarrow> ('s, unit) run" where
  "expect_that b = (if b then rret () else rfail ''unexpected value'')"

definition call_ok :: "('s, goerr, 'a) query \<Rightarrow> ('s, 'a) run" where
  "call_ok q = rbnd (ask q) expect"

text \<open>A run on a part of the state.\<close>

definition focus :: "('t \<Rightarrow> 's) \<Rightarrow> ('s \<Rightarrow> 't \<Rightarrow> 't) \<Rightarrow> ('s, 'a) run \<Rightarrow> ('t, 'a) run" where
  "focus part put m t = (case m (part t) of None \<Rightarrow> None | Some (r, s) \<Rightarrow> Some (r, put s t))"

primrec each_run :: "('x \<Rightarrow> ('s, unit) run) \<Rightarrow> 'x list \<Rightarrow> ('s, unit) run" where
  "each_run f [] = rret ()"
| "each_run f (x # xs) = rbnd (f x) (\<lambda>_. each_run f xs)"

section \<open>Loops\<close>

definition stops_with :: "'a option outcome \<Rightarrow> 'a outcome option" where
  "stops_with r =
     (case r of
        Returned None \<Rightarrow> None
      | Returned (Some x) \<Rightarrow> Some (Returned x)
      | Failed e \<Rightarrow> Some (Failed e)
      | Panicked e \<Rightarrow> Some (Panicked e))"

partial_function (option) forever :: "('s, 'a option) run \<Rightarrow> 's \<Rightarrow> ('a outcome \<times> 's) option" where
  "forever body s =
     (case body s of
        None \<Rightarrow> None
      | Some (r, s') \<Rightarrow>
          (case stops_with r of
             None \<Rightarrow> forever body s'
           | Some r' \<Rightarrow> Some (r', s')))"

text \<open>The rounds of a loop that did not end it, \<open>n\<close> of them.\<close>

inductive rounds :: "('s, 'a option) run \<Rightarrow> nat \<Rightarrow> 's \<Rightarrow> 's \<Rightarrow> bool" for body where
  none: "rounds body 0 s s"
| one: "body s = Some (Returned None, s1) \<Longrightarrow> rounds body n s1 s2 \<Longrightarrow> rounds body (Suc n) s s2"

inductive_cases rounds_0E: "rounds body 0 s s'"
inductive_cases rounds_SucE: "rounds body (Suc n) s s'"
inductive_simps rounds_0_iff [simp]: "rounds body 0 s s'"

section \<open>Evaluation\<close>

lemma run_simps [simp, go_simps]:
  "run_of p s = Some (p s)" "rret x s = Some (Returned x, s)" "rfail msg s = Some (Failed msg, s)"
  by (simp_all add: run_of_def rret_def rfail_def)

lemma ask_eval [simp, go_simps]: "q s = (r, s') \<Longrightarrow> ask q s = Some (Returned r, s')"
  by (simp add: ask_def)

lemma rbnd_eval [simp, go_simps]:
  "m s = None \<Longrightarrow> rbnd m f s = None"
  "m s = Some (Returned x, s') \<Longrightarrow> rbnd m f s = f x s'"
  "m s = Some (Failed e, s') \<Longrightarrow> rbnd m f s = Some (Failed e, s')"
  "m s = Some (Panicked e, s') \<Longrightarrow> rbnd m f s = Some (Panicked e, s')"
  by (simp_all add: rbnd_def)

lemma expect_simps [simp, go_simps]:
  "expect (Inr x) = rret x" "expect (Inl e) = rfail (hd (e @ [[]]))"
  "expect_that True = rret ()" "expect_that False = rfail ''unexpected value''"
  by (simp_all add: expect_def expect_that_def rret_def rfail_def)

lemma call_ok_eval [simp, go_simps]:
  "q s = (Inr x, s') \<Longrightarrow> call_ok q s = Some (Returned x, s')"
  "q s = (Inl e, s') \<Longrightarrow> call_ok q s = Some (Failed (hd (e @ [[]])), s')"
  by (simp_all add: call_ok_def)

lemma rbnd_rret [simp]: "rbnd (rret x) f = f x"
  by (simp add: fun_eq_iff rbnd_def)

lemma rbnd_Returned_iff [go_splits]:
  "rbnd m f s = Some (Returned y, s') \<longleftrightarrow>
   (\<exists>x s1. m s = Some (Returned x, s1) \<and> f x s1 = Some (Returned y, s'))"
  by (auto simp: rbnd_def split: option.splits prod.splits outcome.splits)

lemma ask_Returned_iff [go_splits]: "ask q s = Some (Returned r, s') \<longleftrightarrow> q s = (r, s')"
  by (auto simp: ask_def split: prod.splits)

lemma expect_Returned_iff [go_splits]:
  "expect r s = Some (Returned x, s') \<longleftrightarrow> r = Inr x \<and> s' = s"
  by (cases r) auto

lemma expect_that_Returned_iff [go_splits]:
  "expect_that b s = Some (Returned x, s') \<longleftrightarrow> b \<and> s' = s"
  by (cases b) auto

lemma call_ok_Returned_iff [go_splits]:
  "call_ok q s = Some (Returned x, s') \<longleftrightarrow> q s = (Inr x, s')"
  by (auto simp: call_ok_def go_splits)

lemma focus_eval [simp, go_simps]: "m (part t) = Some (r, s) \<Longrightarrow> focus part put m t = Some (r, put s t)"
  by (simp add: focus_def)

lemma focus_Returned_iff [go_splits]:
  "focus part put m t = Some (Returned x, t') \<longleftrightarrow> (\<exists>s. m (part t) = Some (Returned x, s) \<and> t' = put s t)"
  by (auto simp: focus_def split: option.splits prod.splits)

text \<open>A run of basic commands always returns.\<close>

definition returns :: "('s, 'a) run \<Rightarrow> bool" where
  "returns m \<longleftrightarrow> (\<forall>s. m s \<noteq> None)"

lemma returns_simps [simp, intro]:
  "returns (run_of p)" "returns (rret x)" "returns (rfail msg)" "returns (ask q)"
  "returns (expect r)" "returns (expect_that b)"
  by (auto simp: returns_def ask_def expect_def expect_that_def rret_def rfail_def split: prod.splits)

lemma returns_rbnd [intro]: "returns m \<Longrightarrow> (\<And>x. returns (f x)) \<Longrightarrow> returns (rbnd m f)"
  by (auto simp: returns_def rbnd_def split: option.splits prod.splits outcome.splits)

lemma returns_call_ok [simp, intro]: "returns (call_ok q)"
  by (auto simp: call_ok_def)

section \<open>What a loop does\<close>

lemma stops_with_simps [simp]:
  "stops_with (Returned None) = None" "stops_with (Returned (Some x)) = Some (Returned x)"
  "stops_with (Failed e) = Some (Failed e)" "stops_with (Panicked e) = Some (Panicked e)"
  by (simp_all add: stops_with_def)

lemma stops_with_None: "stops_with r = None \<longleftrightarrow> r = Returned None"
  by (auto simp: stops_with_def split: outcome.splits option.splits)

lemma forever_goes_on: "body s = Some (Returned None, s1) \<Longrightarrow> forever body s = forever body s1"
  by (subst forever.simps) simp

lemma forever_stops:
  "body s = Some (r, s1) \<Longrightarrow> stops_with r = Some r' \<Longrightarrow> forever body s = Some (r', s1)"
  by (subst forever.simps) simp

lemma forever_after_rounds: "rounds body n s s1 \<Longrightarrow> forever body s = forever body s1"
  by (induction rule: rounds.induct) (simp_all add: forever_goes_on)

lemma forever_last_round:
  fixes body :: "('s, 'a option) run"
  assumes "forever body s = Some out"
  shows "\<exists>n s1 r1. rounds body n s s1 \<and> body s1 = Some (r1, snd out) \<and>
    stops_with r1 = Some (fst out)"
proof (rule forever.raw_induct [where P = "\<lambda>body s out. \<exists>n s1 r1. rounds body n s s1 \<and>
    body s1 = Some (r1, snd out) \<and> stops_with r1 = Some (fst out)", OF _ assms])
  fix loop :: "('s, 'a option) run \<Rightarrow> 's \<Rightarrow> ('a outcome \<times> 's) option"
    and body :: "('s, 'a option) run" and s out
  assume IH: "\<And>body s out. loop body s = Some out \<Longrightarrow> \<exists>n s1 r1. rounds body n s s1 \<and>
      body s1 = Some (r1, snd out) \<and> stops_with r1 = Some (fst out)"
    and eq: "(case body s of None \<Rightarrow> None
      | Some (r, s') \<Rightarrow>
          (case stops_with r of None \<Rightarrow> loop body s' | Some r' \<Rightarrow> Some (r', s'))) = Some out"
  from eq obtain r s1 where body: "body s = Some (r, s1)"
    by (auto split: option.splits)
  show "\<exists>n s1 r1. rounds body n s s1 \<and> body s1 = Some (r1, snd out) \<and> stops_with r1 = Some (fst out)"
  proof (cases "stops_with r")
    case None
    with body have go: "body s = Some (Returned None, s1)"
      by (simp add: stops_with_None)
    have "loop body s1 = Some out"
      using eq body None by simp
    from IH [OF this] show ?thesis
      using rounds.one [of body s s1, OF go] by blast
  next
    case (Some r')
    then have "out = (r', s1)"
      using eq body by simp
    with body Some show ?thesis
      by (intro exI [of _ 0] exI [of _ s] exI [of _ r]) simp
  qed
qed

text \<open>The exact meaning of a loop: some number of rounds that go on, then one that leaves it.\<close>

lemma forever_iff:
  "forever body s = Some (r, s') \<longleftrightarrow>
   (\<exists>n s1 r1. rounds body n s s1 \<and> body s1 = Some (r1, s') \<and> stops_with r1 = Some r)"
proof
  assume "forever body s = Some (r, s')"
  then show "\<exists>n s1 r1. rounds body n s s1 \<and> body s1 = Some (r1, s') \<and> stops_with r1 = Some r"
    using forever_last_round [of body s "(r, s')"] by simp
next
  assume "\<exists>n s1 r1. rounds body n s s1 \<and> body s1 = Some (r1, s') \<and> stops_with r1 = Some r"
  then obtain n s1 r1 where "rounds body n s s1" and "body s1 = Some (r1, s')"
      and "stops_with r1 = Some r"
    by blast
  then show "forever body s = Some (r, s')"
    using forever_after_rounds forever_stops by metis
qed

lemma rounds_keep:
  assumes "rounds body n s s'" and "P s"
    and "\<And>a b. P a \<Longrightarrow> body a = Some (Returned None, b) \<Longrightarrow> P b"
  shows "P s'"
  using assms by (induction rule: rounds.induct) blast+

lemma rounds_step: "rounds body n s s1 \<Longrightarrow> body s1 = Some (Returned None, s2) \<Longrightarrow> rounds body (Suc n) s s2"
  by (induction rule: rounds.induct) (auto intro: rounds.intros)

section \<open>Loops that end\<close>

text \<open>A loop ends if every round returns and each round that goes on lowers a number.\<close>

lemma forever_returns:
  fixes left :: "'s \<Rightarrow> nat"
  assumes "P s"
    and round: "\<And>s. P s \<Longrightarrow> \<exists>r s'. body s = Some (r, s') \<and> P s'"
    and decrease: "\<And>s s'. P s \<Longrightarrow> body s = Some (Returned None, s') \<Longrightarrow> left s' < left s"
  shows "\<exists>r s'. forever body s = Some (r, s') \<and> P s'"
  using assms(1)
proof (induction "left s" arbitrary: s rule: less_induct)
  case less
  obtain r s1 where body: "body s = Some (r, s1)" and P: "P s1"
    using round [OF less.prems] by blast
  show ?case
  proof (cases "stops_with r")
    case None
    with body have go: "body s = Some (Returned None, s1)"
      by (simp add: stops_with_None)
    with less.hyps [OF decrease [OF less.prems go] P] show ?thesis
      by (simp add: forever_goes_on)
  next
    case (Some r')
    with body P show ?thesis
      by (auto simp: forever_stops)
  qed
qed

lemma forever_returns_run:
  fixes left :: "'s \<Rightarrow> nat"
  assumes "returns body" and "\<And>s s'. body s = Some (Returned None, s') \<Longrightarrow> left s' < left s"
  shows "returns (forever body)"
  unfolding returns_def
proof
  fix s
  show "forever body s \<noteq> None"
    using forever_returns [of "\<lambda>_. True" s body left] assms by (auto simp: returns_def)
qed

end
