(* ===== verification/TestEnv.thy ===== *)
theory TestEnv
  imports Loops Evm Binding GasUtils
begin

text \<open>
  What the utilities of the end-to-end tests (\<open>tests/utils\<close>, \<open>tests/interfaces\<close>) work with: nodes,
  transactions, Warp messages and the L1 under test. The node clients (\<open>subnet-evm/ethclient\<close>), contexts,
  signing, and the Warp messages of \<open>avalanchego\<close> are not part of the repository: they are the fields of
  the parameters \<open>eth_client\<close> and \<open>e2e_lib\<close>, over a state \<open>'w\<close> of the network, the clock included. A
  context is named by a number. A failed \<open>Expect\<close> of Gomega ends the test with the outcome \<open>Failed\<close>;
  the package's \<open>log\<close> calls are not modelled.
\<close>

type_synonym ctx = nat
type_synonym priv_key = "256 word"

section \<open>Transactions and messages\<close>

text \<open>\<open>types.DynamicFeeTx\<close>; \<open>Predicate\<close> is what \<open>predicateutils.NewPredicateTx\<close> adds to the access list.\<close>

record dynamic_fee_tx =
  TxChainID :: int
  TxNonce :: u64
  TxTo :: address
  TxGas :: u64
  TxGasFeeCap :: int
  TxGasTipCap :: int
  TxValue :: int
  TxData :: bytes
  TxPredicate :: "(address \<times> bytes) option"

record signed_tx =
  SignedTx :: dynamic_fee_tx
  TxSignature :: bytes

text \<open>A receipt with the hash of its block.\<close>

record mined_receipt = evm_receipt +
  RcptBlockHash :: hash

text \<open>\<open>warp.UnsignedMessage\<close> and \<open>warp.Message\<close> of \<open>avalanchego/vms/platformvm\<close>.\<close>

record unsigned_message =
  MsgNetworkID :: u32
  MsgSourceChainID :: hash
  MsgPayload :: bytes

record warp_message =
  MsgUnsigned :: unsigned_message
  MsgSignature :: bytes

text \<open>The request and the response of \<open>signature_aggregator.go\<close>, which JSON marshals.\<close>

record AggregateSignaturesRequest =
  ReqMessage :: string
  ReqJustification :: string
  ReqSigningSubnetID :: string
  ReqQuorumPercentage :: u64

record SignatureAggregatorResponse =
  SignedMessage :: string

section \<open>Clients and libraries\<close>

text \<open>\<open>errors.Is(err, NotFound)\<close> tells the first kind of error from the others.\<close>

datatype query_err = NotFound | QueryErr goerr

definition query_error :: "query_err \<Rightarrow> goerr" where
  "query_error e = (case e of NotFound \<Rightarrow> [''not found''] | QueryErr err \<Rightarrow> err)"

record 'w eth_client =
  GetReceipt :: "ctx \<Rightarrow> hash \<Rightarrow> ('w, query_err, mined_receipt) query"
  BlockNumber :: "ctx \<Rightarrow> ('w, goerr, u64) query"
  LatestBlock :: "ctx \<Rightarrow> ('w, goerr, u64) query"
  SendTransaction :: "ctx \<Rightarrow> signed_tx \<Rightarrow> ('w, goerr, unit) query"
  EstimateBaseFee :: "ctx \<Rightarrow> ('w, goerr, int) query"
  SuggestGasTipCap :: "ctx \<Rightarrow> ('w, goerr, int) query"
  NonceAt :: "ctx \<Rightarrow> address \<Rightarrow> ('w, goerr, u64) query"
  BalanceAt :: "ctx \<Rightarrow> address \<Rightarrow> ('w, goerr, int) query"
  CodeAt :: "ctx \<Rightarrow> address \<Rightarrow> ('w, goerr, bytes) query"
  BlockLogs :: "ctx \<Rightarrow> hash \<Rightarrow> address list \<Rightarrow> ('w, goerr, evm_log list) query"
  CallTracer :: "hash \<Rightarrow> ('w, goerr, string) query"
  SendRaw :: "ctx \<Rightarrow> bytes \<Rightarrow> ('w, goerr, hash) query"

text \<open>
  \<open>NextTick c ms\<close> is the \<open>select\<close> between \<open>c.Done()\<close>, which gives \<open>c.Err()\<close>, and a ticker of period \<open>ms\<close>.
\<close>

record 'w e2e_lib =
  codec_lib :: abi_codec
  warpGas :: warp_gas
  Background :: ctx
  WithTimeout :: "ctx \<Rightarrow> nat \<Rightarrow> 'w \<Rightarrow> ctx \<times> 'w"
  NextTick :: "ctx \<Rightarrow> nat \<Rightarrow> ('w, goerr, unit) query"
  DialClient :: "string \<Rightarrow> ('w, goerr, 'w eth_client) query"
  PubkeyToAddress :: "priv_key \<Rightarrow> address"
  SignTx :: "dynamic_fee_tx \<Rightarrow> int \<Rightarrow> priv_key \<Rightarrow> goerr + signed_tx"
  TxHash :: "signed_tx \<Rightarrow> hash"
  NewKeyedTransactorWithChainID :: "priv_key \<Rightarrow> int \<Rightarrow> goerr + TransactOpts"
  IDString :: "hash \<Rightarrow> string"
  AddressText :: "address \<Rightarrow> string"
  UnsignedBytes :: "unsigned_message \<Rightarrow> bytes"
  MessageBytes :: "warp_message \<Rightarrow> bytes"
  ParseMessage :: "bytes \<Rightarrow> goerr + warp_message"
  NumSigners :: "warp_message \<Rightarrow> goerr + int"
  NewUnsignedMessage :: "u32 \<Rightarrow> hash \<Rightarrow> bytes \<Rightarrow> goerr + unsigned_message"
  NewAddressedCall :: "bytes \<Rightarrow> bytes \<Rightarrow> goerr + bytes"
  ParseAddressedCall :: "bytes \<Rightarrow> goerr + bytes \<times> bytes"
  UnpackWarpLog :: "bytes \<Rightarrow> goerr + unsigned_message"
  WarpAddress :: address
  ContractBin :: "string \<Rightarrow> string"
  WarpQuorumNumerator :: u64
  MarshalRequest :: "AggregateSignaturesRequest \<Rightarrow> goerr + bytes"
  UnmarshalResponse :: "bytes \<Rightarrow> goerr + SignatureAggregatorResponse"
  Post :: "string \<Rightarrow> bytes \<Rightarrow> ('w, goerr, nat \<times> (goerr + bytes)) query"

text \<open>\<open>constants.PrimaryNetworkID\<close> and \<open>ids.Empty\<close> are zero.\<close>

definition PrimaryNetworkID :: hash where
  "PrimaryNetworkID = 0"

text \<open>
  \<open>interfaces.L1TestInfo\<close>. \<open>Backend\<close> is \<open>RPCClient\<close> as the backend of contract bindings.
\<close>

record 'w L1TestInfo =
  SubnetID :: hash
  BlockchainID :: hash
  NodeURIs :: "string list"
  WSClient :: "'w eth_client"
  RPCClient :: "'w eth_client"
  Backend :: "'w bind_lib"
  EVMChainID :: int
  RequirePrimaryNetworkSigners :: bool

end
