(* ===== verification/SigAggregator.thy ===== *)
theory SigAggregator
  imports TestEnv GoStrings
begin

text \<open>
  \<open>tests/utils/signature_aggregator.go\<close>: the request to the signature aggregator for the signature of a
  Warp message. The process itself is a service behind \<open>Post\<close>; \<open>Shutdown\<close>, which cancels it, is in \<open>SubnetConversion\<close>.
\<close>

definition DEFAULT_API_PORT :: nat where
  "DEFAULT_API_PORT = 8080"

definition SIG_AGG_API_PATH :: string where
  "SIG_AGG_API_PATH = ''/aggregate-signatures''"

text \<open>The configuration the process is started with; its maps of parameters and headers are nil.\<close>

record ApiConfig =
  BaseURL :: string
  QueryParams :: "string \<rightharpoonup> string"
  HTTPHeaders :: "string \<rightharpoonup> string"

record SignatureAggregatorConfig =
  PChainAPI :: ApiConfig
  InfoAPI :: ApiConfig
  SubnetIDs :: "string list"
  ApiPort :: nat
  AllowPrivateIPs :: bool

definition api_config :: "string \<Rightarrow> ApiConfig" where
  "api_config apiUri = \<lparr>BaseURL = apiUri, QueryParams = Map.empty, HTTPHeaders = Map.empty\<rparr>"

definition aggregator_config :: "'w e2e_lib \<Rightarrow> string \<Rightarrow> hash list \<Rightarrow> SignatureAggregatorConfig" where
  "aggregator_config lib apiUri subnetIDs =
     \<lparr>PChainAPI = api_config apiUri, InfoAPI = api_config apiUri, SubnetIDs = map (IDString lib) subnetIDs,
      ApiPort = DEFAULT_API_PORT, AllowPrivateIPs = True\<rparr>"

text \<open>
  \<open>NewSignatureAggregator\<close>: \<open>start\<close> looks up the path of the binary, writes the configuration and starts the
  process.
\<close>

definition NewSignatureAggregator ::
  "'w e2e_lib \<Rightarrow> (SignatureAggregatorConfig \<Rightarrow> ('w, goerr, unit) query) \<Rightarrow> string \<Rightarrow> hash list \<Rightarrow> ('w, unit) run" where
  "NewSignatureAggregator lib start apiUri subnetIDs = call_ok (start (aggregator_config lib apiUri subnetIDs))"

definition request_url :: string where
  "request_url = ''http://localhost:'' @ FormatUint DEFAULT_API_PORT @ SIG_AGG_API_PATH"

definition aggregate_request ::
  "'w e2e_lib \<Rightarrow> unsigned_message \<Rightarrow> bytes \<Rightarrow> hash \<Rightarrow> u64 \<Rightarrow> AggregateSignaturesRequest" where
  "aggregate_request lib unsignedMessage justification inputSigningSubnet quorumPercentage =
     \<lparr>ReqMessage = hex_encode (UnsignedBytes lib unsignedMessage),
      ReqJustification = hex_encode justification,
      ReqSigningSubnetID = IDString lib inputSigningSubnet,
      ReqQuorumPercentage = quorumPercentage\<rparr>"

text \<open>What is made of the response: its status, its body, the JSON, the hexadecimal text, the message.\<close>

definition read_response :: "'w e2e_lib \<Rightarrow> nat \<times> (goerr + bytes) \<Rightarrow> goerr + warp_message" where
  "read_response lib res =
     (if fst res \<noteq> 200
      then Inl [''expected status code 200, got '' @ FormatUint (fst res)]
      else rbind (snd res) (\<lambda>body.
           rbind (UnmarshalResponse lib body) (\<lambda>response.
           rbind (hex_decode (SignedMessage response)) (ParseMessage lib))))"

definition CreateSignedMessage ::
  "'w e2e_lib \<Rightarrow> unsigned_message \<Rightarrow> bytes \<Rightarrow> hash \<Rightarrow> u64 \<Rightarrow> ('w, goerr, warp_message) query" where
  "CreateSignedMessage lib unsignedMessage justification inputSigningSubnet quorumPercentage w =
     (case MarshalRequest lib
         (aggregate_request lib unsignedMessage justification inputSigningSubnet quorumPercentage) of
        Inl e \<Rightarrow> (Inl e, w)
      | Inr b \<Rightarrow>
          (case Post lib request_url b w of
             (Inl e, w1) \<Rightarrow> (Inl e, w1)
           | (Inr res, w1) \<Rightarrow> (read_response lib res, w1)))"

text \<open>
  The contract of an aggregator that answers with the signed form of a message: what comes back is
  the message that was asked for.
\<close>

definition signs :: "'w e2e_lib \<Rightarrow> (AggregateSignaturesRequest \<Rightarrow> 'w \<Rightarrow> (goerr + warp_message) \<times> 'w) \<Rightarrow> bool" where
  "signs lib aggregate \<longleftrightarrow>
     (\<forall>req b w m w1. MarshalRequest lib req = Inr b \<longrightarrow> aggregate req w = (Inr m, w1) \<longrightarrow>
        (\<exists>body. Post lib request_url b w = (Inr (200, Inr body), w1) \<and>
           UnmarshalResponse lib body = Inr \<lparr>SignedMessage = hex_encode (MessageBytes lib m)\<rparr>)) \<and>
     (\<forall>m. ParseMessage lib (MessageBytes lib m) = Inr m)"

lemma signed_message_is_aggregated:
  assumes "signs lib aggregate"
    and "MarshalRequest lib (aggregate_request lib u j subnet quorum) = Inr b"
    and "aggregate (aggregate_request lib u j subnet quorum) w = (Inr m, w1)"
  shows "CreateSignedMessage lib u j subnet quorum w = (Inr m, w1)"
proof -
  obtain body where "Post lib request_url b w = (Inr (200, Inr body), w1)"
      and "UnmarshalResponse lib body = Inr \<lparr>SignedMessage = hex_encode (MessageBytes lib m)\<rparr>"
    using assms unfolding signs_def by blast
  moreover have "ParseMessage lib (MessageBytes lib m) = Inr m"
    using assms(1) by (simp add: signs_def)
  ultimately show ?thesis
    using assms(2) by (simp add: CreateSignedMessage_def read_response_def hex_decode_encode)
qed

end
