(* ===== verification/ChainUtils.thy ===== *)
theory ChainUtils
  imports SigAggregator INativeMinterBinding
begin

text \<open>
  \<open>tests/utils/chain.go\<close>: addresses of nodes, sending transactions and waiting for them, finding events in
  receipts, collecting the signatures of a Warp message, and the configuration of chains.
\<close>

section \<open>URL utils\<close>

definition HttpToWebsocketURI :: "string \<Rightarrow> string \<Rightarrow> string" where
  "HttpToWebsocketURI uri blockchainID =
     ''ws://'' @ TrimPrefix uri ''http://'' @ ''/ext/bc/'' @ blockchainID @ ''/ws''"

definition HttpToRPCURI :: "string \<Rightarrow> string \<Rightarrow> string" where
  "HttpToRPCURI uri blockchainID =
     ''http://'' @ TrimPrefix uri ''http://'' @ ''/ext/bc/'' @ blockchainID @ ''/rpc''"

text \<open>The host and the port of what follows the scheme; the test ends unless there is one colon.\<close>

definition host_and_port :: "string \<Rightarrow> ('w, goerr + string \<times> nat) run" where
  "host_and_port uri =
     (let hostAndPort = Split uri CHR '':'' in
      rbnd (expect_that (length hostAndPort = 2)) (\<lambda>_.
      rret (case ParseUint 32 (hostAndPort ! 1) of
              Inl e \<Rightarrow> Inl (''failed to parse port'' # e)
            | Inr port \<Rightarrow> Inr (hostAndPort ! 0, port))))"

definition GetURIHostAndPort :: "string \<Rightarrow> ('w, goerr + string \<times> nat) run" where
  "GetURIHostAndPort uri =
     rbnd (expect_that (7 < length uri)) (\<lambda>_.
     if take 7 uri = ''http://'' then host_and_port (drop 7 uri)
     else if take 8 uri = ''https://'' then host_and_port (drop 8 uri)
     else rret (Inl [''invalid uri: '' @ uri]))"

text \<open>\<open>xs[0]\<close>.\<close>

definition first_of :: "'a list \<Rightarrow> ('s, 'a) run" where
  "first_of xs =
     (case xs of
        [] \<Rightarrow> run_of (panicked ''index out of range [0] with length 0'')
      | x # _ \<Rightarrow> rret x)"

lemma first_of_simps [simp, go_simps]:
  "first_of (x # xs) = rret x" "first_of [] = run_of (panicked ''index out of range [0] with length 0'')"
  by (simp_all add: first_of_def)

lemma first_of_Returned_iff [go_splits]:
  "first_of xs s = Some (Returned x, s') \<longleftrightarrow> (\<exists>rest. xs = x # rest) \<and> s' = s"
  by (cases xs) auto

section \<open>Transaction utils\<close>

definition NativeTransferGas :: u64 where
  "NativeTransferGas = 21000"

definition with_timeout :: "'w e2e_lib \<Rightarrow> ctx \<Rightarrow> nat \<Rightarrow> ('w, ctx) run" where
  "with_timeout lib c ms w = (case WithTimeout lib c ms w of (c', w') \<Rightarrow> Some (Returned c', w'))"

definition SignTransaction :: "'w e2e_lib \<Rightarrow> dynamic_fee_tx \<Rightarrow> priv_key \<Rightarrow> int \<Rightarrow> ('w, signed_tx) run" where
  "SignTransaction lib tx key chainID = expect (SignTx lib tx chainID key)"

text \<open>Fee cap, tip cap and nonce of the next transaction of an account.\<close>

definition CalculateTxParams ::
  "'w e2e_lib \<Rightarrow> ctx \<Rightarrow> 'w L1TestInfo \<Rightarrow> address \<Rightarrow> ('w, int \<times> int \<times> u64) run" where
  "CalculateTxParams lib c l1Info fundedAddress =
     rbnd (call_ok (EstimateBaseFee (RPCClient l1Info) c)) (\<lambda>baseFee.
     rbnd (call_ok (SuggestGasTipCap (RPCClient l1Info) c)) (\<lambda>gasTipCap.
     rbnd (call_ok (NonceAt (RPCClient l1Info) c fundedAddress)) (\<lambda>nonce.
     rret (baseFee * BaseFeeFactor + MaxPriorityFeePerGas, gasTipCap, nonce))))"

definition CreateNativeTransferTransaction ::
  "'w e2e_lib \<Rightarrow> ctx \<Rightarrow> 'w L1TestInfo \<Rightarrow> priv_key \<Rightarrow> address \<Rightarrow> int \<Rightarrow> ('w, signed_tx) run" where
  "CreateNativeTransferTransaction lib c l1Info fromKey recipient amount =
     rbnd (CalculateTxParams lib c l1Info (PubkeyToAddress lib fromKey)) (\<lambda>(gasFeeCap, gasTipCap, nonce).
     SignTransaction lib
       \<lparr>TxChainID = EVMChainID l1Info, TxNonce = nonce, TxTo = recipient, TxGas = NativeTransferGas,
        TxGasFeeCap = gasFeeCap, TxGasTipCap = gasTipCap, TxValue = amount, TxData = [],
        TxPredicate = None\<rparr>
       fromKey (EVMChainID l1Info))"

definition TraceTransaction :: "'w eth_client \<Rightarrow> hash \<Rightarrow> ('w, string) run" where
  "TraceTransaction rpcClient txHash = call_ok (CallTracer rpcClient txHash)"

text \<open>The test ends with the trace in the failure message, unless the trace is the empty text.\<close>

definition TraceTransactionAndExit :: "'w eth_client \<Rightarrow> hash \<Rightarrow> ('w, unit) run" where
  "TraceTransactionAndExit rpcClient txHash =
     rbnd (TraceTransaction rpcClient txHash) (\<lambda>trace. expect_that (trace = []))"

subsection \<open>Waiting\<close>

text \<open>One round of the polling loop for a receipt.\<close>

definition receipt_round ::
  "'w e2e_lib \<Rightarrow> 'w eth_client \<Rightarrow> ctx \<Rightarrow> hash \<Rightarrow> ('w, (goerr + mined_receipt) option) run" where
  "receipt_round lib rpcClient cctx txHash =
     rbnd (ask (GetReceipt rpcClient cctx txHash)) (\<lambda>r.
     case r of
       Inr receipt \<Rightarrow> rret (Some (Inr receipt))
     | Inl NotFound \<Rightarrow>
         rbnd (ask (NextTick lib cctx 200)) (\<lambda>t.
         case t of Inl e \<Rightarrow> rret (Some (Inl e)) | Inr _ \<Rightarrow> rret None)
     | Inl (QueryErr e) \<Rightarrow> rret (Some (Inl e)))"

definition waitForTransactionReceipt ::
  "'w e2e_lib \<Rightarrow> ctx \<Rightarrow> 'w eth_client \<Rightarrow> hash \<Rightarrow> ('w, goerr + mined_receipt) run" where
  "waitForTransactionReceipt lib cctx rpcClient txHash = forever (receipt_round lib rpcClient cctx txHash)"

definition height_round ::
  "'w e2e_lib \<Rightarrow> 'w eth_client \<Rightarrow> ctx \<Rightarrow> u64 \<Rightarrow> ('w, (goerr + unit) option) run" where
  "height_round lib rpcClient cctx expectedBlockNumber =
     rbnd (ask (BlockNumber rpcClient cctx)) (\<lambda>r.
     case r of
       Inl e \<Rightarrow> rret (Some (Inl e))
     | Inr currentBlockNumber \<Rightarrow>
         if expectedBlockNumber \<le> currentBlockNumber then rret (Some (Inr ()))
         else
           rbnd (ask (NextTick lib cctx 2000)) (\<lambda>t.
           case t of Inl e \<Rightarrow> rret (Some (Inl e)) | Inr _ \<Rightarrow> rret None))"

definition waitForBlockHeight ::
  "'w e2e_lib \<Rightarrow> ctx \<Rightarrow> 'w eth_client \<Rightarrow> u64 \<Rightarrow> ('w, goerr + unit) run" where
  "waitForBlockHeight lib cctx rpcClient expectedBlockNumber =
     forever (height_round lib rpcClient cctx expectedBlockNumber)"

definition WaitMined ::
  "'w e2e_lib \<Rightarrow> ctx \<Rightarrow> 'w eth_client \<Rightarrow> hash \<Rightarrow> ('w, goerr + mined_receipt) run" where
  "WaitMined lib c rpcClient txHash =
     rbnd (waitForTransactionReceipt lib c rpcClient txHash) (\<lambda>r.
     case r of
       Inl e \<Rightarrow> rret (Inl e)
     | Inr receipt \<Rightarrow>
         rbnd (waitForBlockHeight lib c rpcClient (word_of_int (RcptBlockNumber receipt))) (\<lambda>h.
         case h of Inl e \<Rightarrow> rret (Inl e) | Inr _ \<Rightarrow> rret (Inr receipt)))"

definition waitForTransaction ::
  "'w e2e_lib \<Rightarrow> ctx \<Rightarrow> 'w L1TestInfo \<Rightarrow> hash \<Rightarrow> bool \<Rightarrow> ('w, mined_receipt) run" where
  "waitForTransaction lib c l1Info txHash success =
     rbnd (with_timeout lib c 20000) (\<lambda>cctx.
     rbnd (WaitMined lib cctx (RPCClient l1Info) txHash) (\<lambda>r.
     rbnd (expect r) (\<lambda>receipt.
     rbnd
       (if success then
          if RcptStatus receipt = ReceiptStatusFailed
          then TraceTransactionAndExit (RPCClient l1Info) (RcptTxHash receipt)
          else rret ()
        else expect_that (RcptStatus receipt = ReceiptStatusFailed)) (\<lambda>_.
     rret receipt))))"

definition WaitForTransactionSuccess ::
  "'w e2e_lib \<Rightarrow> ctx \<Rightarrow> 'w L1TestInfo \<Rightarrow> hash \<Rightarrow> ('w, mined_receipt) run" where
  "WaitForTransactionSuccess lib c l1Info txHash = waitForTransaction lib c l1Info txHash True"

definition WaitForTransactionFailure ::
  "'w e2e_lib \<Rightarrow> ctx \<Rightarrow> 'w L1TestInfo \<Rightarrow> hash \<Rightarrow> ('w, mined_receipt) run" where
  "WaitForTransactionFailure lib c l1Info txHash = waitForTransaction lib c l1Info txHash False"

definition sendAndWaitForTransaction ::
  "'w e2e_lib \<Rightarrow> ctx \<Rightarrow> 'w L1TestInfo \<Rightarrow> signed_tx \<Rightarrow> bool \<Rightarrow> ('w, mined_receipt) run" where
  "sendAndWaitForTransaction lib c l1Info tx success =
     rbnd (call_ok (SendTransaction (RPCClient l1Info) c tx)) (\<lambda>_.
     waitForTransaction lib c l1Info (TxHash lib tx) success)"

definition SendTransactionAndWaitForFailure ::
  "'w e2e_lib \<Rightarrow> ctx \<Rightarrow> 'w L1TestInfo \<Rightarrow> signed_tx \<Rightarrow> ('w, mined_receipt) run" where
  "SendTransactionAndWaitForFailure lib c l1Info tx = sendAndWaitForTransaction lib c l1Info tx False"

definition SendTransactionAndWaitForSuccess ::
  "'w e2e_lib \<Rightarrow> ctx \<Rightarrow> 'w L1TestInfo \<Rightarrow> signed_tx \<Rightarrow> ('w, mined_receipt) run" where
  "SendTransactionAndWaitForSuccess lib c l1Info tx = sendAndWaitForTransaction lib c l1Info tx True"

definition SendNativeTransfer ::
  "'w e2e_lib \<Rightarrow> ctx \<Rightarrow> 'w L1TestInfo \<Rightarrow> priv_key \<Rightarrow> address \<Rightarrow> int \<Rightarrow> ('w, mined_receipt) run" where
  "SendNativeTransfer lib c l1Info fromKey recipient amount =
     rbnd (CreateNativeTransferTransaction lib c l1Info fromKey recipient amount)
       (SendTransactionAndWaitForSuccess lib c l1Info)"

text \<open>
  What most utilities do with a method of a binding: options for the key, the method, and the wait
  for its transaction.
\<close>

definition transact_and_wait ::
  "'w e2e_lib \<Rightarrow> ctx \<Rightarrow> 'w L1TestInfo \<Rightarrow> priv_key \<Rightarrow> (TransactOpts \<Rightarrow> ('w, goerr + hash) prog) \<Rightarrow>
   ('w, mined_receipt) run" where
  "transact_and_wait lib c l1 key method =
     rbnd (expect (NewKeyedTransactorWithChainID lib key (EVMChainID l1))) (\<lambda>opts.
     rbnd (run_of (method opts)) (\<lambda>r.
     rbnd (expect r) (WaitForTransactionSuccess lib c l1)))"

definition deploy_and_wait ::
  "'w e2e_lib \<Rightarrow> ctx \<Rightarrow> 'w L1TestInfo \<Rightarrow> priv_key \<Rightarrow>
   (TransactOpts \<Rightarrow> ('w, goerr + address \<times> hash \<times> 'w bound_contract) prog) \<Rightarrow>
   ('w, address \<times> 'w bound_contract \<times> mined_receipt) run" where
  "deploy_and_wait lib c l1 key deploy =
     rbnd (expect (NewKeyedTransactorWithChainID lib key (EVMChainID l1))) (\<lambda>opts.
     rbnd (run_of (deploy opts)) (\<lambda>r.
     rbnd (expect r) (\<lambda>(addr, tx, contract).
     rbnd (WaitForTransactionSuccess lib c l1 tx) (\<lambda>receipt. rret (addr, contract, receipt)))))"

definition call_contract :: "('w, goerr + 'a) prog \<Rightarrow> ('w, 'a) run" where
  "call_contract method = rbnd (run_of method) expect"

text \<open>A field of an event, of the type the Go struct gives it.\<close>

definition field :: "string \<Rightarrow> (go_val \<Rightarrow> 'a option) \<Rightarrow> event_fields \<Rightarrow> ('w, 'a) run" where
  "field name conv event =
     (case Option.bind (map_of event name) conv of
        None \<Rightarrow> run_of (panicked ''ill-typed event'')
      | Some x \<Rightarrow> rret x)"

lemma field_Returned_iff:
  "field name conv event s = Some (Returned x, s') \<longleftrightarrow>
   (\<exists>v. map_of event name = Some v \<and> conv v = Some x) \<and> s' = s"
  by (auto simp: field_def panicked_def split: option.splits bind_splits)

section \<open>Log utils\<close>

text \<open>The first log the parser accepts; \<open>type_name\<close> is what \<open>%T\<close> prints in the error.\<close>

fun GetEventFromLogs ::
  "string \<Rightarrow> evm_log list \<Rightarrow> (evm_log \<Rightarrow> goerr + 'e) \<Rightarrow> goerr + 'e" where
  "GetEventFromLogs type_name [] parser =
     Inl [''failed to find '' @ type_name @ '' event in receipt logs'']"
| "GetEventFromLogs type_name (log # logs) parser =
     (case parser log of Inr event \<Rightarrow> Inr event | Inl _ \<Rightarrow> GetEventFromLogs type_name logs parser)"

text \<open>\<open>None\<close> is the nil event that is returned when the trace is the empty text.\<close>

definition GetEventFromLogsOrTrace ::
  "string \<Rightarrow> mined_receipt \<Rightarrow> 'w L1TestInfo \<Rightarrow> (evm_log \<Rightarrow> goerr + 'e) \<Rightarrow> ('w, 'e option) run" where
  "GetEventFromLogsOrTrace type_name receipt l1Info parser =
     (case GetEventFromLogs type_name (RcptLogs receipt) parser of
        Inr event \<Rightarrow> rret (Some event)
      | Inl _ \<Rightarrow>
          rbnd (TraceTransactionAndExit (RPCClient l1Info) (RcptTxHash receipt)) (\<lambda>_. rret None))"

section \<open>Account and number utils\<close>

definition PrivateKeyToAddress :: "'w e2e_lib \<Rightarrow> priv_key \<Rightarrow> address" where
  "PrivateKeyToAddress lib k = PubkeyToAddress lib k"

definition ExpectBigEqual :: "int \<Rightarrow> int \<Rightarrow> ('w, unit) run" where
  "ExpectBigEqual v1 v2 = expect_that (v1 = v2)"

definition CheckBalance :: "ctx \<Rightarrow> address \<Rightarrow> int \<Rightarrow> 'w eth_client \<Rightarrow> ('w, unit) run" where
  "CheckBalance c addr expectedBalance rpcClient =
     rbnd (call_ok (BalanceAt rpcClient c addr)) (\<lambda>bal. ExpectBigEqual bal expectedBalance)"

definition BigIntSub :: "int \<Rightarrow> int \<Rightarrow> int" where
  "BigIntSub v1 v2 = v1 - v2"

definition BigIntMul :: "int \<Rightarrow> int \<Rightarrow> int" where
  "BigIntMul v1 v2 = v1 * v2"

section \<open>Native minter\<close>

text \<open>\<open>minterAddress\<close> is the address of the precompile (\<open>nativeminter.ContractAddress\<close>).\<close>

definition AddNativeMinterAdmin ::
  "'w e2e_lib \<Rightarrow> ctx \<Rightarrow> address \<Rightarrow> 'w L1TestInfo \<Rightarrow> priv_key \<Rightarrow> address \<Rightarrow> ('w, unit) run" where
  "AddNativeMinterAdmin lib c minterAddress l1 fundedKey addr =
     rbnd (expect (NewINativeMinter (Backend l1) minterAddress)) (\<lambda>nativeMinterPrecompile.
     rbnd (transact_and_wait lib c l1 fundedKey (\<lambda>opts.
         INativeMinterTransactor_SetAdmin nativeMinterPrecompile opts addr)) (\<lambda>_. rret ()))"

section \<open>Warp messages\<close>

definition block_round ::
  "'w eth_client \<Rightarrow> ctx \<Rightarrow> u64 \<Rightarrow> ('w, unit option) run" where
  "block_round client cctx height =
     rbnd (call_ok (LatestBlock client cctx)) (\<lambda>block.
     rret (if height \<le> block then Some () else None))"

definition wait_for_validator ::
  "'w e2e_lib \<Rightarrow> ctx \<Rightarrow> hash \<Rightarrow> u64 \<Rightarrow> string \<Rightarrow> ('w, unit) run" where
  "wait_for_validator lib cctx blockchainID height uri =
     rbnd (call_ok (DialClient lib (HttpToWebsocketURI uri (IDString lib blockchainID)))) (\<lambda>client.
     forever (block_round client cctx height))"

definition WaitForAllValidatorsToAcceptBlock ::
  "'w e2e_lib \<Rightarrow> ctx \<Rightarrow> string list \<Rightarrow> hash \<Rightarrow> u64 \<Rightarrow> ('w, unit) run" where
  "WaitForAllValidatorsToAcceptBlock lib c nodeURIs blockchainID height =
     rbnd (with_timeout lib c 10000) (\<lambda>cctx.
     each_run (wait_for_validator lib cctx blockchainID height) nodeURIs)"

definition ExtractWarpMessageFromLog ::
  "'w e2e_lib \<Rightarrow> ctx \<Rightarrow> mined_receipt \<Rightarrow> 'w L1TestInfo \<Rightarrow> ('w, unsigned_message) run" where
  "ExtractWarpMessageFromLog lib c sourceReceipt source =
     rbnd (call_ok (BlockLogs (RPCClient source) c (RcptBlockHash sourceReceipt) [WarpAddress lib])) (\<lambda>logs.
     rbnd (expect_that (length logs = 1)) (\<lambda>_.
     expect (UnpackWarpLog lib (LogData (hd logs)))))"

text \<open>The L1 whose validators sign: the destination's, if the primary network is not required to sign.\<close>

definition signing_subnet :: "'w L1TestInfo \<Rightarrow> 'w L1TestInfo \<Rightarrow> hash" where
  "signing_subnet source destination =
     (if SubnetID source = PrimaryNetworkID \<and> \<not> RequirePrimaryNetworkSigners destination
      then SubnetID destination else SubnetID source)"

definition GetSignedMessage ::
  "'w e2e_lib \<Rightarrow> 'w L1TestInfo \<Rightarrow> 'w L1TestInfo \<Rightarrow> unsigned_message \<Rightarrow> bytes \<Rightarrow> ('w, warp_message) run" where
  "GetSignedMessage lib source destination unsignedWarpMessage justification =
     call_ok (CreateSignedMessage lib unsignedWarpMessage justification
       (signing_subnet source destination) (WarpQuorumNumerator lib))"

definition ConstructSignedWarpMessage ::
  "'w e2e_lib \<Rightarrow> ctx \<Rightarrow> mined_receipt \<Rightarrow> 'w L1TestInfo \<Rightarrow> 'w L1TestInfo \<Rightarrow> bytes \<Rightarrow> ('w, warp_message) run" where
  "ConstructSignedWarpMessage lib c sourceReceipt source destination justification =
     rbnd (ExtractWarpMessageFromLog lib c sourceReceipt source) (\<lambda>unsignedMsg.
     rbnd (WaitForAllValidatorsToAcceptBlock lib c (NodeURIs source) (BlockchainID source)
         (word_of_int (RcptBlockNumber sourceReceipt))) (\<lambda>_.
     GetSignedMessage lib source destination unsignedMsg justification))"

section \<open>Addresses of nodes\<close>

lemma host_and_port_eval:
  assumes "CHR '':'' \<notin> set host" and "port < 2 ^ 32"
  shows "host_and_port (host @ CHR '':'' # FormatUint port) s = Some (Returned (Inr (host, port)), s)"
proof -
  have "CHR '':'' \<notin> set (FormatUint port)"
    using set_FormatUint [of "CHR '':''" port] by auto
  then have "Split (host @ CHR '':'' # FormatUint port) CHR '':'' = [host, FormatUint port]"
    using assms(1) by (simp add: Split_append Split_no_sep)
  then show ?thesis
    using uint32_text.parse_print [OF assms(2)] by (simp add: host_and_port_def)
qed

text \<open>
  Host and port of an address are read back from it, with either scheme; the addresses of a chain's
  endpoints keep both, but only the plain scheme is replaced: from a secure address the websocket
  address still has the old scheme inside.
\<close>

theorem node_address_round_trip:
  assumes "CHR '':'' \<notin> set host" and "port < 2 ^ 32" and "addr = host @ CHR '':'' # FormatUint port"
  shows "GetURIHostAndPort (''http://'' @ addr) s = Some (Returned (Inr (host, port)), s) \<and>
     GetURIHostAndPort (''https://'' @ addr) s = Some (Returned (Inr (host, port)), s) \<and>
     HttpToWebsocketURI (''http://'' @ addr) chain = ''ws://'' @ addr @ ''/ext/bc/'' @ chain @ ''/ws'' \<and>
     HttpToRPCURI (''http://'' @ addr) chain = ''http://'' @ addr @ ''/ext/bc/'' @ chain @ ''/rpc'' \<and>
     HttpToWebsocketURI (''https://'' @ addr) chain =
       ''ws://https://'' @ addr @ ''/ext/bc/'' @ chain @ ''/ws''"
  using host_and_port_eval [OF assms(1,2)] assms(3)
  by (simp add: GetURIHostAndPort_def HttpToWebsocketURI_def HttpToRPCURI_def TrimPrefix_def)

theorem node_address_round_trip_witness:
  "GetURIHostAndPort ''https://127.0.0.1:9650'' () = Some (Returned (Inr (''127.0.0.1'', 9650)), ()) \<and>
   HttpToRPCURI ''http://127.0.0.1:9650'' ''C'' = ''http://127.0.0.1:9650/ext/bc/C/rpc''"
proof -
  have "FormatUint 9650 = ''9650''"
    by (simp add: FormatUint.simps [of 9650] FormatUint.simps [of 965] FormatUint.simps [of 96]
        FormatUint.simps [of 9] digit_char_def char_of_def bit_0)
  then show ?thesis
    using node_address_round_trip [of "''127.0.0.1''" 9650 "''127.0.0.1:9650''" "()" "''C''"] by simp
qed

section \<open>Waiting for a transaction\<close>

lemma receipt_round_cases:
  obtains (found) r s1 where "GetReceipt cl c h s = (Inr r, s1)"
      and "receipt_round lib cl c h s = Some (Returned (Some (Inr r)), s1)"
  | (error) e s1 where "GetReceipt cl c h s = (Inl (QueryErr e), s1)"
      and "receipt_round lib cl c h s = Some (Returned (Some (Inl e)), s1)"
  | (expired) s1 e s2 where "GetReceipt cl c h s = (Inl NotFound, s1)" and "NextTick lib c 200 s1 = (Inl e, s2)"
      and "receipt_round lib cl c h s = Some (Returned (Some (Inl e)), s2)"
  | (tick) s1 s2 where "GetReceipt cl c h s = (Inl NotFound, s1)" and "NextTick lib c 200 s1 = (Inr (), s2)"
      and "receipt_round lib cl c h s = Some (Returned None, s2)"
proof -
  obtain a s1 where g: "GetReceipt cl c h s = (a, s1)"
    by fastforce
  obtain t s2 where t: "NextTick lib c 200 s1 = (t, s2)"
    by fastforce
  show ?thesis
  proof (cases a)
    case (Inr r)
    then show ?thesis
      using g by (intro found) (simp_all add: receipt_round_def)
  next
    case (Inl q)
    show ?thesis
    proof (cases q)
      case (QueryErr e)
      then show ?thesis
        using g Inl by (intro error) (simp_all add: receipt_round_def)
    next
      case NotFound
      then show ?thesis
        using g t Inl expired [of s1 _ s2] tick [of s1 s2] by (cases t) (simp_all add: receipt_round_def)
    qed
  qed
qed

lemma height_round_cases:
  obtains (reached) k s1 where "BlockNumber cl c s = (Inr k, s1)" and "n \<le> k"
      and "height_round lib cl c n s = Some (Returned (Some (Inr ())), s1)"
  | (error) e s1 where "BlockNumber cl c s = (Inl e, s1)"
      and "height_round lib cl c n s = Some (Returned (Some (Inl e)), s1)"
  | (expired) k s1 e s2 where "BlockNumber cl c s = (Inr k, s1)" and "NextTick lib c 2000 s1 = (Inl e, s2)"
      and "height_round lib cl c n s = Some (Returned (Some (Inl e)), s2)"
  | (tick) k s1 s2 where "BlockNumber cl c s = (Inr k, s1)" and "NextTick lib c 2000 s1 = (Inr (), s2)"
      and "height_round lib cl c n s = Some (Returned None, s2)"
proof -
  obtain a s1 where g: "BlockNumber cl c s = (a, s1)"
    by fastforce
  obtain t s2 where t: "NextTick lib c 2000 s1 = (t, s2)"
    by fastforce
  show ?thesis
  proof (cases a)
    case (Inl e)
    then show ?thesis
      using g by (intro error) (simp_all add: height_round_def)
  next
    case (Inr k)
    show ?thesis
    proof (cases "n \<le> k")
      case True
      then show ?thesis
        using g Inr by (intro reached) (simp_all add: height_round_def)
    next
      case False
      then show ?thesis
        using g t Inr expired [of k s1 _ s2] tick [of k s1 s2] by (cases t) (simp_all add: height_round_def)
    qed
  qed
qed

lemma WaitMined_Inr:
  assumes "WaitMined lib c cl h s = Some (Returned (Inr receipt), s')"
  obtains s1 s2 s3 k where "GetReceipt cl c h s1 = (Inr receipt, s2)"
    and "BlockNumber cl c s3 = (Inr k, s')" and "word_of_int (RcptBlockNumber receipt) \<le> k"
proof -
  obtain r s2 where w0: "waitForTransactionReceipt lib c cl h s = Some (Returned r, s2)"
      and rest: "(case r of
        Inl e \<Rightarrow> rret (Inl e)
      | Inr receipt \<Rightarrow>
          rbnd (waitForBlockHeight lib c cl (word_of_int (RcptBlockNumber receipt))) (\<lambda>h.
          case h of Inl e \<Rightarrow> rret (Inl e) | Inr _ \<Rightarrow> rret (Inr receipt))) s2 =
        Some (Returned (Inr receipt), s')"
    using assms unfolding WaitMined_def rbnd_Returned_iff by blast
  then obtain rc where r: "r = Inr rc"
    by (cases r) simp_all
  with rest obtain x where "waitForBlockHeight lib c cl (word_of_int (RcptBlockNumber rc)) s2 = Some (Returned x, s')"
      and x: "x = Inr ()" and rc: "rc = receipt"
    by (auto simp: rbnd_Returned_iff split: sum.splits) (metis (full_types) old.unit.exhaust sumE)
  then have b: "waitForBlockHeight lib c cl (word_of_int (RcptBlockNumber receipt)) s2 = Some (Returned (Inr ()), s')"
    by simp
  have w: "waitForTransactionReceipt lib c cl h s = Some (Returned (Inr receipt), s2)"
    using w0 by (simp add: r rc)
  obtain s1 r1 where "receipt_round lib cl c h s1 = Some (r1, s2)"
      and "stops_with r1 = Some (Returned (Inr receipt))"
    using w unfolding waitForTransactionReceipt_def forever_iff by blast
  then have r: "receipt_round lib cl c h s1 = Some (Returned (Some (Inr receipt)), s2)"
    by (auto simp: stops_with_def split: outcome.splits option.splits)
  then have 1: "GetReceipt cl c h s1 = (Inr receipt, s2)"
    by (cases rule: receipt_round_cases [of cl c h s1 lib]) simp_all
  obtain s3 r3 where "height_round lib cl c (word_of_int (RcptBlockNumber receipt)) s3 = Some (r3, s')"
      and "stops_with r3 = Some (Returned (Inr ()))"
    using b unfolding waitForBlockHeight_def forever_iff by blast
  then have "height_round lib cl c (word_of_int (RcptBlockNumber receipt)) s3 =
      Some (Returned (Some (Inr ())), s')"
    by (auto simp: stops_with_def split: outcome.splits option.splits)
  then obtain k where "BlockNumber cl c s3 = (Inr k, s')" and "word_of_int (RcptBlockNumber receipt) \<le> k"
    by (cases rule: height_round_cases [of cl c s3 "word_of_int (RcptBlockNumber receipt)" lib]) simp_all
  with 1 show ?thesis
    by (rule that)
qed

text \<open>
  A wait for a transaction that returns has seen it mined: the receipt is one the node answered
  with for this transaction, a node reported a height at least as high as the receipt's block
  afterwards, and the status is the expected one, unless a failed transaction has an empty trace.
\<close>

theorem waited_transaction_is_mined:
  assumes "waitForTransaction lib c l1 h success s = Some (Returned receipt, s')"
  shows "\<exists>cctx s1 s2 s3 s4 k.
     GetReceipt (RPCClient l1) cctx h s1 = (Inr receipt, s2) \<and>
     BlockNumber (RPCClient l1) cctx s3 = (Inr k, s4) \<and> word_of_int (RcptBlockNumber receipt) \<le> k \<and>
     (if \<not> success then RcptStatus receipt = ReceiptStatusFailed \<and> s' = s4
      else if RcptStatus receipt = ReceiptStatusFailed
      then CallTracer (RPCClient l1) (RcptTxHash receipt) s4 = (Inr [], s')
      else s' = s4)"
proof -
  obtain cctx s0 s4 where mined: "WaitMined lib cctx (RPCClient l1) h s0 = Some (Returned (Inr receipt), s4)"
      and status: "(if success then
          if RcptStatus receipt = ReceiptStatusFailed
          then TraceTransactionAndExit (RPCClient l1) (RcptTxHash receipt)
          else rret ()
        else expect_that (RcptStatus receipt = ReceiptStatusFailed)) s4 = Some (Returned (), s')"
    using assms by (auto simp: waitForTransaction_def go_splits)
  obtain s1 s2 s3 k where "GetReceipt (RPCClient l1) cctx h s1 = (Inr receipt, s2)"
      and "BlockNumber (RPCClient l1) cctx s3 = (Inr k, s4)"
      and "word_of_int (RcptBlockNumber receipt) \<le> k"
    by (rule WaitMined_Inr [OF mined])
  moreover have "if \<not> success then RcptStatus receipt = ReceiptStatusFailed \<and> s' = s4
      else if RcptStatus receipt = ReceiptStatusFailed
      then CallTracer (RPCClient l1) (RcptTxHash receipt) s4 = (Inr [], s')
      else s' = s4"
    using status
    by (auto simp: TraceTransactionAndExit_def TraceTransaction_def go_splits split: if_splits)
  ultimately show ?thesis
    by blast
qed

subsection \<open>Ends and progress\<close>

text \<open>
  What the loops rely on: no query gives a context more time, and each tick uses some of it up. \<open>left\<close>
  is the number of ticks before the context is done.
\<close>

definition context_expires :: "'w e2e_lib \<Rightarrow> 'w eth_client \<Rightarrow> ctx \<Rightarrow> ('w \<Rightarrow> nat) \<Rightarrow> bool" where
  "context_expires lib cl c left \<longleftrightarrow>
     (\<forall>h s. left (snd (GetReceipt cl c h s)) \<le> left s) \<and>
     (\<forall>s. left (snd (BlockNumber cl c s)) \<le> left s) \<and>
     (\<forall>ms s s'. NextTick lib c ms s = (Inr (), s') \<longrightarrow> left s' < left s)"

lemma returns_receipt_round: "returns (receipt_round lib cl c h)"
  unfolding returns_def
proof
  fix s
  show "receipt_round lib cl c h s \<noteq> None"
    by (cases rule: receipt_round_cases [of cl c h s lib]) simp_all
qed

lemma returns_height_round: "returns (height_round lib cl c n)"
  unfolding returns_def
proof
  fix s
  show "height_round lib cl c n s \<noteq> None"
    by (cases rule: height_round_cases [of cl c s n lib]) simp_all
qed

lemma receipt_round_uses:
  assumes "context_expires lib cl c left" and "receipt_round lib cl c h s = Some (Returned None, s')"
  shows "left s' < left s"
  using assms(2,1) unfolding context_expires_def
  by (cases rule: receipt_round_cases [of cl c h s lib]) (auto, metis le_less_trans snd_conv order.strict_trans2)

lemma height_round_uses:
  assumes "context_expires lib cl c left" and "height_round lib cl c n s = Some (Returned None, s')"
  shows "left s' < left s"
  using assms(2,1) unfolding context_expires_def
  by (cases rule: height_round_cases [of cl c s n lib]) (auto, metis le_less_trans snd_conv order.strict_trans2)

lemma returns_WaitMined:
  assumes "context_expires lib cl c left"
  shows "returns (WaitMined lib c cl h)"
proof -
  have "returns (waitForTransactionReceipt lib c cl h)"
    unfolding waitForTransactionReceipt_def
    by (rule forever_returns_run [OF returns_receipt_round receipt_round_uses [OF assms]])
  moreover have "returns (waitForBlockHeight lib c cl n)" for n
    unfolding waitForBlockHeight_def
    by (rule forever_returns_run [OF returns_height_round height_round_uses [OF assms]])
  ultimately show ?thesis
    unfolding WaitMined_def by (intro returns_rbnd) (auto split: sum.split)
qed

lemma returns_TraceTransactionAndExit: "returns (TraceTransactionAndExit cl h)"
  unfolding TraceTransactionAndExit_def TraceTransaction_def by (intro returns_rbnd) auto

text \<open>
  C5. Waiting for a transaction ends, whatever the node answers and whether the transaction is ever
  mined, because the context of the wait expires.
\<close>

theorem waiting_ends:
  assumes "context_expires lib (RPCClient l1) (fst (WithTimeout lib c 20000 s)) left"
  shows "waitForTransaction lib c l1 h success s \<noteq> None"
proof -
  obtain cctx s0 where t: "WithTimeout lib c 20000 s = (cctx, s0)"
    by fastforce
  let ?after = "\<lambda>receipt. if success then
      if RcptStatus receipt = ReceiptStatusFailed
      then TraceTransactionAndExit (RPCClient l1) (RcptTxHash receipt) else rret ()
      else expect_that (RcptStatus receipt = ReceiptStatusFailed)"
  have "returns (WaitMined lib cctx (RPCClient l1) h)"
    using assms t by (intro returns_WaitMined [of _ _ _ left]) simp
  then have "returns (rbnd (WaitMined lib cctx (RPCClient l1) h) (\<lambda>r.
      rbnd (expect r) (\<lambda>receipt. rbnd (?after receipt) (\<lambda>_. rret receipt))))"
    by (intro returns_rbnd) (auto simp: returns_TraceTransactionAndExit)
  then show ?thesis
    by (simp add: waitForTransaction_def with_timeout_def t returns_def)
qed

text \<open>
  Time, in milliseconds. A context with a timeout is done at its own deadline or at that of its parent,
  whichever is earlier. Waiting for a ticker ends within its period, and with the context's error only if
  the context's deadline is not after that.
\<close>

definition ends_by :: "nat option \<Rightarrow> nat \<Rightarrow> nat" where
  "ends_by parent own = (case parent of None \<Rightarrow> own | Some d \<Rightarrow> min d own)"

definition keeps_time :: "'w e2e_lib \<Rightarrow> ('w \<Rightarrow> nat) \<Rightarrow> (ctx \<Rightarrow> nat option) \<Rightarrow> bool" where
  "keeps_time lib clock deadline \<longleftrightarrow>
     (\<forall>c ms s c' s'. WithTimeout lib c ms s = (c', s') \<longrightarrow>
        clock s' = clock s \<and> deadline c' = Some (ends_by (deadline c) (clock s + ms))) \<and>
     (\<forall>c ms d s t s'. 0 < ms \<longrightarrow> deadline c = Some d \<longrightarrow> clock s < d \<longrightarrow> NextTick lib c ms s = (t, s') \<longrightarrow>
        clock s' \<le> clock s + ms \<and> (t = Inr () \<or> d \<le> clock s + ms))"

text \<open>
  A node on which the transaction is mined at time \<open>t\<close> and which sees its block at time \<open>t'\<close>: it answers
  within \<open>lat\<close>, if the context allows that, and a query that is made at \<open>t\<close> or \<open>t'\<close> or later shows it.
\<close>

definition serves ::
  "'w eth_client \<Rightarrow> hash \<Rightarrow> mined_receipt \<Rightarrow> nat \<Rightarrow> nat \<Rightarrow> nat \<Rightarrow> ('w \<Rightarrow> nat) \<Rightarrow> (ctx \<Rightarrow> nat option) \<Rightarrow> bool" where
  "serves cl h receipt t t' lat clock deadline \<longleftrightarrow>
     (\<forall>c d s. deadline c = Some d \<longrightarrow> clock s + lat < d \<longrightarrow>
        (\<exists>r s'. GetReceipt cl c h s = (r, s') \<and> clock s' \<le> clock s + lat \<and>
           (r = Inr receipt \<or> r = Inl NotFound \<and> clock s < t)) \<and>
        (\<exists>k s'. BlockNumber cl c s = (Inr k, s') \<and> clock s' \<le> clock s + lat \<and>
           (word_of_int (RcptBlockNumber receipt) \<le> k \<or> clock s < t')))"

lemma keeps_timeD:
  assumes "keeps_time lib clock deadline"
  shows "WithTimeout lib c ms s = (c', s') \<Longrightarrow>
      clock s' = clock s \<and> deadline c' = Some (ends_by (deadline c) (clock s + ms))"
    and "NextTick lib c ms s = (t, s') \<Longrightarrow> 0 < ms \<Longrightarrow> deadline c = Some d \<Longrightarrow> clock s + ms < d \<Longrightarrow>
      t = Inr () \<and> clock s' \<le> clock s + ms"
proof -
  show "WithTimeout lib c ms s = (c', s') \<Longrightarrow>
      clock s' = clock s \<and> deadline c' = Some (ends_by (deadline c) (clock s + ms))"
    using assms unfolding keeps_time_def by blast
  assume "NextTick lib c ms s = (t, s')" and "0 < ms" and "deadline c = Some d" and "clock s + ms < d"
  moreover from this have "clock s < d"
    by simp
  ultimately have "clock s' \<le> clock s + ms \<and> (t = Inr () \<or> d \<le> clock s + ms)"
    using assms unfolding keeps_time_def by blast
  then show "t = Inr () \<and> clock s' \<le> clock s + ms"
    using \<open>clock s + ms < d\<close> by simp
qed

lemma receipt_round_in_time:
  assumes "keeps_time lib clock deadline" and "serves cl h receipt t t' lat clock deadline"
    and "deadline c = Some d" and "max (clock s) (t + 200 + lat) + lat < d"
  shows "\<exists>s'. receipt_round lib cl c h s = Some (Returned (Some (Inr receipt)), s') \<and> clock s' \<le> clock s + lat \<or>
    receipt_round lib cl c h s = Some (Returned None, s') \<and> clock s' \<le> t + 200 + lat"
proof -
  have "clock s + lat < d"
    using assms(4) by simp
  then obtain r s1 where g: "GetReceipt cl c h s = (r, s1)" and s1: "clock s1 \<le> clock s + lat"
      and r: "r = Inr receipt \<or> r = Inl NotFound \<and> clock s < t"
    using assms(2,3) unfolding serves_def by blast
  obtain tick s2 where tick: "NextTick lib c 200 s1 = (tick, s2)"
    by fastforce
  from r show ?thesis
  proof
    assume "r = Inr receipt"
    with g s1 show ?thesis
      by (simp add: receipt_round_def)
  next
    assume missing: "r = Inl NotFound \<and> clock s < t"
    then have "clock s1 + 200 < d"
      using s1 assms(4) by simp
    from keeps_timeD(2) [OF assms(1) tick _ assms(3) this] show ?thesis
      using g tick missing s1 by (intro exI [of _ s2]) (simp add: receipt_round_def)
  qed
qed

lemma height_round_in_time:
  assumes "keeps_time lib clock deadline" and "serves cl h receipt t t' lat clock deadline"
    and "deadline c = Some d" and "max (clock s) (t' + 2000 + lat) + lat < d"
    and n: "n = word_of_int (RcptBlockNumber receipt)"
  shows "\<exists>s'. height_round lib cl c n s = Some (Returned (Some (Inr ())), s') \<and> clock s' \<le> clock s + lat \<or>
    height_round lib cl c n s = Some (Returned None, s') \<and> clock s' \<le> t' + 2000 + lat"
proof -
  have "clock s + lat < d"
    using assms(4) by simp
  then obtain k s1 where g: "BlockNumber cl c s = (Inr k, s1)" and s1: "clock s1 \<le> clock s + lat"
      and k: "n \<le> k \<or> clock s < t'"
    using assms(2,3) unfolding serves_def n by blast
  obtain tick s2 where tick: "NextTick lib c 2000 s1 = (tick, s2)"
    by fastforce
  show ?thesis
  proof (cases "n \<le> k")
    case True
    with g s1 show ?thesis
      by (simp add: height_round_def)
  next
    case False
    then have "clock s1 + 2000 < d" and "clock s < t'"
      using k s1 assms(4) by simp_all
    with keeps_timeD(2) [OF assms(1) tick _ assms(3)] show ?thesis
      using g tick False s1 by (intro exI [of _ s2]) (simp add: height_round_def)
  qed
qed

text \<open>
  A polling loop whose rounds from times up to \<open>B\<close> either end it within \<open>lat\<close> with \<open>x\<close>, or go on at a time
  up to \<open>B\<close> with some of the context used up.
\<close>

lemma poll_in_time:
  fixes left clock :: "'w \<Rightarrow> nat" and body :: "('w, 'a option) run"
  assumes round: "\<And>s. clock s \<le> B \<Longrightarrow>
      \<exists>s'. body s = Some (Returned (Some x), s') \<and> clock s' \<le> clock s + lat \<or>
        body s = Some (Returned None, s') \<and> clock s' \<le> B"
    and uses: "\<And>s s'. body s = Some (Returned None, s') \<Longrightarrow> left s' < left s"
    and "clock s \<le> B"
  shows "\<exists>s'. forever body s = Some (Returned x, s') \<and> clock s' \<le> B + lat"
  using assms(3)
proof (induction "left s" arbitrary: s rule: less_induct)
  case less
  from round [OF less.prems] obtain s1 where "body s = Some (Returned (Some x), s1) \<and> clock s1 \<le> clock s + lat \<or>
      body s = Some (Returned None, s1) \<and> clock s1 \<le> B"
    by blast
  then show ?case
  proof
    assume found: "body s = Some (Returned (Some x), s1) \<and> clock s1 \<le> clock s + lat"
    then have "clock s1 \<le> B + lat"
      using less.prems by linarith
    with found show ?thesis
      by (intro exI [of _ s1]) (simp add: forever_stops)
  next
    assume go: "body s = Some (Returned None, s1) \<and> clock s1 \<le> B"
    then have "left s1 < left s"
      using uses by blast
    with less.hyps [of s1] go show ?thesis
      by (simp add: forever_goes_on)
  qed
qed

text \<open>
  C4. A transaction that is mined in time is awaited: if the node answers within \<open>lat\<close>, has the
  receipt at \<open>t\<close> and shows its block at \<open>t'\<close>, the wait returns the receipt at the latest one poll
  and two answers after that (a poll of 200 ms for the receipt, of 2 s for the block), provided
  this is before the 20 s of the wait are over and before the deadline of the caller's context, and
  the status is the expected one.
\<close>

theorem mined_transaction_is_awaited:
  assumes "keeps_time lib clock deadline"
    and "serves (RPCClient l1) h receipt t t' lat clock deadline"
    and "context_expires lib (RPCClient l1) (fst (WithTimeout lib c 20000 s)) left"
    and "finish = max (max (clock s) (t + 200 + lat) + lat) (t' + 2000 + lat) + lat"
    and "finish < ends_by (deadline c) (clock s + 20000)"
    and "success \<longleftrightarrow> RcptStatus receipt \<noteq> ReceiptStatusFailed"
  shows "\<exists>s'. waitForTransaction lib c l1 h success s = Some (Returned receipt, s') \<and> clock s' \<le> finish"
proof -
  let ?cl = "RPCClient l1" and ?n = "word_of_int (RcptBlockNumber receipt)"
  obtain cctx s0 where w: "WithTimeout lib c 20000 s = (cctx, s0)"
    by fastforce
  let ?B1 = "max (clock s) (t + 200 + lat)" and ?d = "ends_by (deadline c) (clock s + 20000)"
  let ?B2 = "max (?B1 + lat) (t' + 2000 + lat)"
  have s0: "clock s0 = clock s" and d: "deadline cctx = Some ?d"
    using keeps_timeD(1) [OF assms(1) w] by simp_all
  have expires: "context_expires lib ?cl cctx left"
    using assms(3) w by simp
  have in_time: "?B2 + lat < ?d"
    using assms(4,5) by simp
  have "\<exists>s'. forever (receipt_round lib ?cl cctx h) s0 = Some (Returned (Inr receipt), s') \<and> clock s' \<le> ?B1 + lat"
  proof (rule poll_in_time [of clock ?B1 _ "Inr receipt" lat left])
    fix s assume "clock s \<le> ?B1"
    then have "max (clock s) (t + 200 + lat) + lat < ?d"
      using in_time by simp
    from receipt_round_in_time [OF assms(1,2) d this]
    show "\<exists>s'. receipt_round lib ?cl cctx h s = Some (Returned (Some (Inr receipt)), s') \<and> clock s' \<le> clock s + lat \<or>
        receipt_round lib ?cl cctx h s = Some (Returned None, s') \<and> clock s' \<le> ?B1"
      by (auto simp: le_max_iff_disj)
  qed (use s0 receipt_round_uses [OF expires] in simp_all)
  then obtain s1 where 1: "waitForTransactionReceipt lib cctx ?cl h s0 = Some (Returned (Inr receipt), s1)"
      and s1: "clock s1 \<le> ?B1 + lat"
    unfolding waitForTransactionReceipt_def by blast
  have "\<exists>s'. forever (height_round lib ?cl cctx ?n) s1 = Some (Returned (Inr ()), s') \<and> clock s' \<le> ?B2 + lat"
  proof (rule poll_in_time [of clock ?B2 _ "Inr ()" lat left])
    fix s assume "clock s \<le> ?B2"
    then have "max (clock s) (t' + 2000 + lat) + lat < ?d"
      using in_time by simp
    from height_round_in_time [OF assms(1,2) d this refl]
    show "\<exists>s'. height_round lib ?cl cctx ?n s = Some (Returned (Some (Inr ())), s') \<and> clock s' \<le> clock s + lat \<or>
        height_round lib ?cl cctx ?n s = Some (Returned None, s') \<and> clock s' \<le> ?B2"
      by (auto simp: le_max_iff_disj)
  qed (use s1 height_round_uses [OF expires] in \<open>simp_all add: le_max_iff_disj\<close>)
  then obtain s2 where 2: "waitForBlockHeight lib cctx ?cl ?n s1 = Some (Returned (Inr ()), s2)"
      and "clock s2 \<le> finish"
    unfolding waitForBlockHeight_def assms(4) by blast
  with 1 w assms(6) show ?thesis
    by (intro exI [of _ s2]) (auto simp: waitForTransaction_def WaitMined_def with_timeout_def)
qed

end
