(* ===== verification/ChainConfig.thy ===== *)
theory ChainConfig
  imports TestEnv GoStrings
begin

text \<open>
  The configuration of the chains under test (\<open>tests/utils/chain.go\<close>): the map of configurations, the
  configuration with off-chain messages, and the genesis file made from a template. The package
  variable \<open>WarpEnabledChainConfig\<close> is a Go map, shared by everything that was handed it: it is the
  state of the functions that use it. The files are the state of \<open>InstantiateGenesisTemplate\<close>.
\<close>

section \<open>Chain configurations\<close>

datatype flag = FBool bool | FText string | FTexts "string list"

type_synonym flags_map = "string \<rightharpoonup> flag"

definition WarpEnabledChainConfig :: flags_map where
  "WarpEnabledChainConfig =
     [''log-level'' \<mapsto> FText ''debug'', ''warp-api-enabled'' \<mapsto> FBool True,
      ''local-txs-enabled'' \<mapsto> FBool True,
      ''eth-apis'' \<mapsto> FTexts [''eth'', ''eth-filter'', ''net'', ''admin'', ''web3'', ''internal-eth'',
        ''internal-blockchain'', ''internal-transaction'', ''internal-debug'', ''internal-account'',
        ''internal-personal'', ''debug'', ''debug-tracer'', ''debug-file-tracer'', ''debug-handler'']]"

definition hex_message :: "'w e2e_lib \<Rightarrow> unsigned_message \<Rightarrow> string" where
  "hex_message lib message = ''0x'' @ hex_encode (UnsignedBytes lib message)"

text \<open>\<open>chainConfig := WarpEnabledChainConfig\<close> copies the reference: the assignment changes the variable.\<close>

definition GetChainConfigWithOffChainMessages ::
  "'w e2e_lib \<Rightarrow> (flags_map \<Rightarrow> goerr + string) \<Rightarrow> unsigned_message list \<Rightarrow> (flags_map, string) run" where
  "GetChainConfigWithOffChainMessages lib DefaultJSONMarshal offChainMessages =
     rbnd (run_of (upd (\<lambda>chainConfig. chainConfig(''warp-off-chain-messages'' \<mapsto>
         FTexts (map (hex_message lib) offChainMessages))))) (\<lambda>_.
     rbnd (run_of (gets DefaultJSONMarshal)) expect)"

definition CChainPathSpecifier :: string where
  "CChainPathSpecifier = ''C''"

definition ChainConfigMap_Add ::
  "'w e2e_lib \<Rightarrow> 'w L1TestInfo \<Rightarrow> string \<Rightarrow> (string \<rightharpoonup> string) \<Rightarrow> (string \<rightharpoonup> string)" where
  "ChainConfigMap_Add lib l1 chainConfig m =
     (if SubnetID l1 = PrimaryNetworkID then m(CChainPathSpecifier \<mapsto> chainConfig)
      else m(IDString lib (BlockchainID l1) \<mapsto> chainConfig))"

section \<open>The genesis template\<close>

definition default_contract :: "address \<Rightarrow> address" where
  "default_contract a = (if a = 0 then 0xffffffffffffffffffffffffffffffffffffffff else a)"

definition default_deployer :: "address \<Rightarrow> address" where
  "default_deployer a = (if a = 0 then 0xaaaaaaaaaaaaaaaaaaaaaaaaaaaaaaaaaaaaaaaa else a)"

definition default_bytecode :: "string \<Rightarrow> string" where
  "default_bytecode code = (if code = [] then ''0x00'' else code)"

definition substitutions ::
  "'w e2e_lib \<Rightarrow> u64 \<Rightarrow> address \<Rightarrow> string \<Rightarrow> address \<Rightarrow> bool \<Rightarrow> (string \<times> string) list" where
  "substitutions lib chainID contract code deployer signers =
     [(''<EVM_CHAIN_ID>'', FormatUint (unat chainID)),
      (''<TELEPORTER_MESSENGER_CONTRACT_ADDRESS>'', AddressText lib (default_contract contract)),
      (''<TELEPORTER_MESSENGER_DEPLOYED_BYTECODE>'', default_bytecode code),
      (''<TELEPORTER_MESSENGER_DEPLOYER_ADDRESS>'', AddressText lib (default_deployer deployer)),
      (''<REQUIRE_PRIMARY_NETWORK_SIGNERS>'', FormatBool signers)]"

fun substitute :: "(string \<times> string) list \<Rightarrow> string \<Rightarrow> string" where
  "substitute [] text = text"
| "substitute ((target, v) # ss) text = substitute ss (ReplaceAll text target v)"

text \<open>\<open>CreateTemp\<close> picks the name of a new file; an error of \<open>WriteString\<close> is ignored by the code.\<close>

definition InstantiateGenesisTemplate ::
  "'w e2e_lib \<Rightarrow> ((string \<rightharpoonup> string) \<Rightarrow> goerr + string) \<Rightarrow> string \<Rightarrow> u64 \<Rightarrow> address \<Rightarrow> string \<Rightarrow> address \<Rightarrow>
   bool \<Rightarrow> (string \<rightharpoonup> string, string) run" where
  "InstantiateGenesisTemplate lib CreateTemp templateFileName chainID contract code deployer signers =
     rbnd (run_of (gets (\<lambda>files. files templateFileName))) (\<lambda>content.
     rbnd (expect (case content of None \<Rightarrow> Inl [''no such file or directory''] | Some text \<Rightarrow> Inr text)) (\<lambda>text.
     rbnd (run_of (gets CreateTemp)) (\<lambda>name.
     rbnd (expect name) (\<lambda>l1GenesisFile.
     rbnd (run_of (upd (\<lambda>files. files(l1GenesisFile \<mapsto>
         substitute (substitutions lib chainID contract code deployer signers) text)))) (\<lambda>_.
     rret l1GenesisFile)))))"

section \<open>Properties\<close>

text \<open>
  The variable after the call: as declared, with exactly these messages. It is what is marshalled.
\<close>

lemma off_chain_messages_set:
  assumes "GetChainConfigWithOffChainMessages lib marshal msgs (WarpEnabledChainConfig ++ earlier) =
      Some (Returned content, config)"
    and "dom earlier \<subseteq> {''warp-off-chain-messages''}"
  shows "config = WarpEnabledChainConfig(''warp-off-chain-messages'' \<mapsto> FTexts (map (hex_message lib) msgs)) \<and>
     marshal config = Inr content \<and> config \<noteq> WarpEnabledChainConfig"
proof -
  let ?v = "FTexts (map (hex_message lib) msgs)"
  have "config = (WarpEnabledChainConfig ++ earlier)(''warp-off-chain-messages'' \<mapsto> ?v)"
      and "marshal config = Inr content"
    using assms(1) by (simp_all add: GetChainConfigWithOffChainMessages_def go_splits)
  moreover have "earlier k = None" if "k \<noteq> ''warp-off-chain-messages''" for k
    using assms(2) that by (auto simp: dom_def)
  ultimately have config: "config = WarpEnabledChainConfig(''warp-off-chain-messages'' \<mapsto> ?v)"
    by (simp add: fun_eq_iff map_add_def)
  moreover have "WarpEnabledChainConfig ''warp-off-chain-messages'' = None"
    by (simp add: WarpEnabledChainConfig_def)
  ultimately have "config \<noteq> WarpEnabledChainConfig"
    by (metis fun_upd_same option.distinct(1))
  then show ?thesis
    using config \<open>marshal config = Inr content\<close> by (simp only: fun_upd_same simp_thms)
qed

lemma substitution_targets:
  "map fst (substitutions lib chainID contract code deployer signers) =
     [''<EVM_CHAIN_ID>'', ''<TELEPORTER_MESSENGER_CONTRACT_ADDRESS>'',
      ''<TELEPORTER_MESSENGER_DEPLOYED_BYTECODE>'', ''<TELEPORTER_MESSENGER_DEPLOYER_ADDRESS>'',
      ''<REQUIRE_PRIMARY_NETWORK_SIGNERS>'']"
  by (simp add: substitutions_def)

text \<open>
  The placeholders are upper-case letters, underscores and angle brackets; what replaces them starts
  with a digit or a lower-case letter and has no opening bracket.
\<close>

definition plain_char :: "char \<Rightarrow> bool" where
  "plain_char c \<longleftrightarrow> (of_char c :: nat) < 60 \<or> 97 \<le> (of_char c :: nat)"

definition inert :: "string \<Rightarrow> bool" where
  "inert v \<longleftrightarrow> v \<noteq> [] \<and> plain_char (hd v) \<and> CHR ''<'' \<notin> set v"

definition placeholder :: "string \<Rightarrow> bool" where
  "placeholder t \<longleftrightarrow> t \<noteq> [] \<and> hd t = CHR ''<'' \<and> (\<forall>c \<in> set t. \<not> plain_char c)"

lemma substitute_creates_none:
  "\<forall>(t, v) \<in> set ss. placeholder t \<and> inert v \<Longrightarrow> placeholder t \<Longrightarrow> occurs t (substitute ss content) \<Longrightarrow>
   occurs t content"
proof (induction ss content rule: substitute.induct)
  case (2 u v ss content)
  then have "occurs t (ReplaceAll content u v)"
    by auto
  moreover have "placeholder u" and "inert v"
    using "2.prems"(1) by auto
  then have "hd v \<notin> set t" and "hd t \<notin> set v" and "u \<noteq> []" and "v \<noteq> []" and "t \<noteq> []"
    using "2.prems"(2) by (auto simp: placeholder_def inert_def)
  ultimately show ?case
    using ReplaceAll_creates_none [of u v t content] by simp
qed simp

lemma substitute_removes:
  "\<forall>(t, v) \<in> set ss. placeholder t \<and> inert v \<Longrightarrow> t \<in> fst ` set ss \<Longrightarrow> \<not> occurs t (substitute ss content)"
proof (induction ss content rule: substitute.induct)
  case (2 u v ss content)
  show ?case
  proof (cases "t \<in> fst ` set ss")
    case True
    with 2 show ?thesis by auto
  next
    case False
    with "2.prems"(2) have t: "t = u" by simp
    have "placeholder u" and "inert v"
      using "2.prems"(1) by auto
    then have "\<not> occurs u (ReplaceAll content u v)"
      by (intro ReplaceAll_removes) (auto simp: placeholder_def inert_def)
    then show ?thesis
      using substitute_creates_none [of ss u "ReplaceAll content u v"] "2.prems"(1) \<open>placeholder u\<close>
      by (auto simp: t)
  qed
qed simp

lemma substitute_absent:
  "\<forall>(t, v) \<in> set ss. t \<noteq> [] \<and> \<not> occurs t content \<Longrightarrow> substitute ss content = content"
  by (induction ss content rule: substitute.induct) (auto simp: ReplaceAll_no_occurrence)

lemma inert_FormatUint: "inert (FormatUint n)"
proof -
  have "CHR ''<'' \<notin> set (FormatUint n)"
    using set_FormatUint [of "CHR ''<''" n] by auto
  moreover have "plain_char (hd (FormatUint n))"
    using set_FormatUint [OF hd_in_set [OF FormatUint_nonempty [of n]]] by (simp add: plain_char_def)
  ultimately show ?thesis
    by (simp add: inert_def FormatUint_nonempty)
qed

lemma inert_texts: "inert ''0x00''" "inert ''true''" "inert ''false''"
  by (simp_all add: inert_def plain_char_def)

lemma placeholders:
  "placeholder ''<EVM_CHAIN_ID>''" "placeholder ''<TELEPORTER_MESSENGER_CONTRACT_ADDRESS>''"
  "placeholder ''<TELEPORTER_MESSENGER_DEPLOYED_BYTECODE>''"
  "placeholder ''<TELEPORTER_MESSENGER_DEPLOYER_ADDRESS>''"
  "placeholder ''<REQUIRE_PRIMARY_NETWORK_SIGNERS>''"
  by (simp_all add: placeholder_def plain_char_def)

lemma substitutions_inert:
  assumes "\<And>a. inert (AddressText lib a)" and "code = [] \<or> inert code"
  shows "\<forall>(t, v) \<in> set (substitutions lib chainID contract code deployer signers). placeholder t \<and> inert v"
proof -
  have "inert (default_bytecode code)" and "inert (FormatBool signers)"
    using assms(2) inert_texts by (auto simp only: default_bytecode_def FormatBool_def split: if_splits)
  then show ?thesis
    unfolding substitutions_def list.set
    by (intro ballI) (elim insertE emptyE; simp only: case_prod_conv placeholders inert_FormatUint assms(1))
qed

text \<open>
  The genesis file made from a template has no placeholder left, whatever the template, the chain
  and the contracts (absent ones are replaced by defaults); a template without placeholders is copied;
  no other file changes.
\<close>

theorem genesis_has_no_placeholders:
  assumes "\<And>a. inert (AddressText lib a)" and "code = [] \<or> inert code"
    and "files template = Some content" and "CreateTemp files = Inr name"
    and "t \<in> fst ` set (substitutions lib chainID contract code deployer signers)"
  shows "\<exists>genesis. InstantiateGenesisTemplate lib CreateTemp template chainID contract code deployer
         signers files = Some (Returned name, files(name \<mapsto> genesis)) \<and>
       \<not> occurs t genesis \<and>
       ((\<forall>u \<in> fst ` set (substitutions lib chainID contract code deployer signers). \<not> occurs u content) \<longrightarrow>
          genesis = content)"
proof -
  let ?ss = "substitutions lib chainID contract code deployer signers"
  have ss: "\<forall>(t, v) \<in> set ?ss. placeholder t \<and> inert v"
    by (rule substitutions_inert [OF assms(1,2)])
  have "substitute ?ss content = content" if "\<forall>u \<in> fst ` set ?ss. \<not> occurs u content"
    using ss that by (intro substitute_absent) (auto simp: placeholder_def)
  moreover have "InstantiateGenesisTemplate lib CreateTemp template chainID contract code deployer signers
      files = Some (Returned name, files(name \<mapsto> substitute ?ss content))"
    using assms(3,4) by (simp add: InstantiateGenesisTemplate_def)
  ultimately show ?thesis
    using substitute_removes [OF ss assms(5)] by blast
qed

end
