(* ===== verification/TeleporterUtils.thy ===== *)
theory TeleporterUtils
  imports ChainUtils TeleporterMessengerBinding TeleporterRegistryBinding ValidatorSetSigBinding
    TestMessengerBinding ExampleERC20Binding ChainConfig
begin

text \<open>
  \<open>tests/utils/teleporter.go\<close>: the contracts known on each L1, sending and relaying Teleporter messages,
  clearing a receipt queue, and the transactions and off-chain messages the tests build. The map
  \<open>TeleporterTestInfo\<close> is passed and returned updated.
\<close>

section \<open>Known contracts\<close>

record 'w ChainTeleporterInfo =
  TeleporterRegistry :: "'w bound_contract option"
  TeleporterRegistryAddress :: address
  TeleporterMessenger :: "'w bound_contract option"
  TeleporterMessengerAddress :: address

type_synonym 'w TeleporterTestInfo = "hash \<rightharpoonup> 'w ChainTeleporterInfo"

definition DefaultTeleporterTransactionGas :: u64 where
  "DefaultTeleporterTransactionGas = 300000"

definition empty_info :: "'w ChainTeleporterInfo" where
  "empty_info = \<lparr>TeleporterRegistry = None, TeleporterRegistryAddress = 0, TeleporterMessenger = None,
     TeleporterMessengerAddress = 0\<rparr>"

fun NewTeleporterTestInfo :: "'w L1TestInfo list \<Rightarrow> 'w TeleporterTestInfo" where
  "NewTeleporterTestInfo [] = Map.empty"
| "NewTeleporterTestInfo (l1 # l1s) = (NewTeleporterTestInfo l1s)(BlockchainID l1 \<mapsto> empty_info)"

text \<open>A nil pointer: an L1 the map does not have, a contract that was not set.\<close>

definition deref_nil :: "'a option \<Rightarrow> ('w, 'a) run" where
  "deref_nil p =
     (case p of
        None \<Rightarrow> run_of (panicked ''invalid memory address or nil pointer dereference'')
      | Some x \<Rightarrow> rret x)"

definition info_of :: "'w TeleporterTestInfo \<Rightarrow> 'w L1TestInfo \<Rightarrow> ('w, 'w ChainTeleporterInfo) run" where
  "info_of t l1 = deref_nil (t (BlockchainID l1))"

definition messenger_of :: "'w TeleporterTestInfo \<Rightarrow> 'w L1TestInfo \<Rightarrow> ('w, 'w bound_contract) run" where
  "messenger_of t l1 = rbnd (info_of t l1) (\<lambda>info. deref_nil (TeleporterMessenger info))"

definition messenger_address_of :: "'w TeleporterTestInfo \<Rightarrow> 'w L1TestInfo \<Rightarrow> ('w, address) run" where
  "messenger_address_of t l1 = rbnd (info_of t l1) (\<lambda>info. rret (TeleporterMessengerAddress info))"

definition registry_of :: "'w TeleporterTestInfo \<Rightarrow> 'w L1TestInfo \<Rightarrow> ('w, 'w bound_contract) run" where
  "registry_of t l1 = rbnd (info_of t l1) (\<lambda>info. deref_nil (TeleporterRegistry info))"

definition registry_address_of :: "'w TeleporterTestInfo \<Rightarrow> 'w L1TestInfo \<Rightarrow> ('w, address) run" where
  "registry_address_of t l1 = rbnd (info_of t l1) (\<lambda>info. rret (TeleporterRegistryAddress info))"

definition SetTeleporter ::
  "'w TeleporterTestInfo \<Rightarrow> address \<Rightarrow> 'w L1TestInfo \<Rightarrow> ('w, 'w TeleporterTestInfo) run" where
  "SetTeleporter t addr l1 =
     rbnd (expect (NewTeleporterMessenger (Backend l1) addr)) (\<lambda>messenger.
     rbnd (info_of t l1) (\<lambda>info.
     rret (t(BlockchainID l1 \<mapsto> info\<lparr>TeleporterMessengerAddress := addr,
       TeleporterMessenger := Some messenger\<rparr>))))"

definition InitializeBlockchainID ::
  "'w e2e_lib \<Rightarrow> 'w TeleporterTestInfo \<Rightarrow> 'w L1TestInfo \<Rightarrow> priv_key \<Rightarrow> ('w, unit) run" where
  "InitializeBlockchainID lib t l1 fundedKey =
     rbnd (messenger_of t l1) (\<lambda>messenger.
     rbnd (transact_and_wait lib (Background lib) l1 fundedKey
         (TeleporterMessengerTransactor_InitializeBlockchainID messenger)) (\<lambda>_. rret ()))"

definition DeployRegistry ::
  "'w e2e_lib \<Rightarrow> 'w TeleporterTestInfo \<Rightarrow> 'w L1TestInfo \<Rightarrow> priv_key \<Rightarrow> ('w, 'w TeleporterTestInfo) run" where
  "DeployRegistry lib t l1 deployerKey =
     rbnd (messenger_address_of t l1) (\<lambda>messengerAddress.
     rbnd (deploy_and_wait lib (Background lib) l1 deployerKey (\<lambda>opts.
         DeployTeleporterRegistry (Backend l1) (ContractBin lib ''TeleporterRegistry'') opts
           [\<lparr>Version = 1, ProtocolAddress = messengerAddress\<rparr>])) (\<lambda>(addr, registry, receipt).
     rbnd (info_of t l1) (\<lambda>info.
     rret (t(BlockchainID l1 \<mapsto> info\<lparr>TeleporterRegistryAddress := addr,
       TeleporterRegistry := Some registry\<rparr>)))))"

text \<open>\<open>big.NewInt(0).Mul(big.NewInt(1e18), big.NewInt(11))\<close>.\<close>

definition fundAmount :: int where
  "fundAmount = 1000000000000000000 * 11"

definition DeployMessengerContract ::
  "'w e2e_lib \<Rightarrow> ctx \<Rightarrow> 'w L1TestInfo \<Rightarrow> bytes \<Rightarrow> address \<Rightarrow> address \<Rightarrow> priv_key \<Rightarrow> ('w, unit) run" where
  "DeployMessengerContract lib c l1 transactionBytes deployerAddress contractAddress fundedKey =
     rbnd (CreateNativeTransferTransaction lib c l1 fundedKey deployerAddress fundAmount) (\<lambda>fundDeployerTx.
     rbnd (SendTransactionAndWaitForSuccess lib c l1 fundDeployerTx) (\<lambda>_.
     rbnd (first_of (NodeURIs l1)) (\<lambda>uri.
     rbnd (call_ok (DialClient lib (HttpToRPCURI uri (IDString lib (BlockchainID l1))))) (\<lambda>rpcClient.
     rbnd (call_ok (SendRaw rpcClient c transactionBytes)) (\<lambda>txHash.
     rbnd (WaitForTransactionSuccess lib c l1 txHash) (\<lambda>_.
     rbnd (call_ok (CodeAt (RPCClient l1) c contractAddress)) (\<lambda>teleporterCode.
     expect_that (2 < length teleporterCode))))))))"

definition DeployTestMessengerAndWait ::
  "'w e2e_lib \<Rightarrow> ctx \<Rightarrow> priv_key \<Rightarrow> address \<Rightarrow> address \<Rightarrow> 'w L1TestInfo \<Rightarrow> ('w, address \<times> 'w bound_contract) run" where
  "DeployTestMessengerAndWait lib c senderKey teleporterManager registryAddress l1 =
     rbnd (deploy_and_wait lib c l1 senderKey (\<lambda>opts.
         DeployTestMessenger (Backend l1) (ContractBin lib ''TestMessenger'') opts registryAddress
           teleporterManager 1)) (\<lambda>(addr, messenger, receipt).
     rret (addr, messenger))"

section \<open>Parsing\<close>

definition ParseTeleporterMessage :: "'w e2e_lib \<Rightarrow> unsigned_message \<Rightarrow> ('w, TeleporterMessage) run" where
  "ParseTeleporterMessage lib unsignedMessage =
     rbnd (expect (ParseAddressedCall lib (MsgPayload unsignedMessage))) (\<lambda>(source, addressedPayload).
     expect (TeleporterMessage_Unpack (codec_lib lib) addressedPayload))"

section \<open>Function calls\<close>

definition no_call_opts :: CallOpts where
  "no_call_opts = \<lparr>CallPending = False, CallFrom = 0, CallBlockNumber = None\<rparr>"

definition find_event ::
  "string \<Rightarrow> mined_receipt \<Rightarrow> (evm_log \<Rightarrow> goerr + event_fields) \<Rightarrow> ('w, event_fields) run" where
  "find_event type_name receipt parser = expect (GetEventFromLogs type_name (RcptLogs receipt) parser)"

definition find_send_event :: "'w bound_contract \<Rightarrow> mined_receipt \<Rightarrow> ('w, event_fields) run" where
  "find_send_event messenger receipt =
     find_event ''*teleportermessenger.TeleporterMessengerSendCrossChainMessage'' receipt
       (TeleporterMessengerFilterer_ParseSendCrossChainMessage messenger)"

definition SendAddFeeAmountAndWaitForAcceptance ::
  "'w e2e_lib \<Rightarrow> ctx \<Rightarrow> 'w L1TestInfo \<Rightarrow> hash \<Rightarrow> int \<Rightarrow> address \<Rightarrow> priv_key \<Rightarrow> 'w bound_contract \<Rightarrow>
   ('w, mined_receipt) run" where
  "SendAddFeeAmountAndWaitForAcceptance lib c source messageID amount feeContractAddress senderKey
       transactor =
     rbnd (transact_and_wait lib c source senderKey (\<lambda>opts.
         TeleporterMessengerTransactor_AddFeeAmount transactor opts messageID feeContractAddress amount))
       (\<lambda>receipt.
     rbnd (find_event ''*teleportermessenger.TeleporterMessengerAddFeeAmount'' receipt
         (TeleporterMessengerFilterer_ParseAddFeeAmount transactor)) (\<lambda>addFeeAmountEvent.
     rbnd (field ''MessageID'' go_arr32 addFeeAmountEvent) (\<lambda>eventMessageID.
     rbnd (expect_that (eventMessageID = messageID)) (\<lambda>_. rret receipt))))"

definition RetryMessageExecutionAndWaitForAcceptance ::
  "'w e2e_lib \<Rightarrow> ctx \<Rightarrow> hash \<Rightarrow> 'w bound_contract \<Rightarrow> 'w L1TestInfo \<Rightarrow> TeleporterMessage \<Rightarrow> priv_key \<Rightarrow>
   ('w, mined_receipt) run" where
  "RetryMessageExecutionAndWaitForAcceptance lib c sourceBlockchainID destinationTeleporterMessenger
       destinationL1 message senderKey =
     transact_and_wait lib c destinationL1 senderKey (\<lambda>opts.
       TeleporterMessengerTransactor_RetryMessageExecution destinationTeleporterMessenger opts
         sourceBlockchainID message)"

definition SendCrossChainMessageAndWaitForAcceptance ::
  "'w e2e_lib \<Rightarrow> ctx \<Rightarrow> 'w bound_contract \<Rightarrow> 'w L1TestInfo \<Rightarrow> TeleporterMessageInput \<Rightarrow> priv_key \<Rightarrow>
   ('w, mined_receipt \<times> hash) run" where
  "SendCrossChainMessageAndWaitForAcceptance lib c sourceTeleporterMessenger source input senderKey =
     rbnd (transact_and_wait lib c source senderKey (\<lambda>opts.
         TeleporterMessengerTransactor_SendCrossChainMessage sourceTeleporterMessenger opts input))
       (\<lambda>receipt.
     rbnd (find_send_event sourceTeleporterMessenger receipt) (\<lambda>event.
     rbnd (field ''MessageID'' go_arr32 event) (\<lambda>messageID. rret (receipt, messageID))))"

definition SendSpecifiedReceiptsAndWaitForAcceptance ::
  "'w e2e_lib \<Rightarrow> ctx \<Rightarrow> 'w bound_contract \<Rightarrow> 'w L1TestInfo \<Rightarrow> hash \<Rightarrow> hash list \<Rightarrow> TeleporterFeeInfo \<Rightarrow>
   address list \<Rightarrow> priv_key \<Rightarrow> ('w, mined_receipt \<times> hash) run" where
  "SendSpecifiedReceiptsAndWaitForAcceptance lib c sourceTeleporterMessenger source
       destinationBlockchainID messageIDs feeInfo allowedRelayerAddresses senderKey =
     rbnd (transact_and_wait lib c source senderKey (\<lambda>opts.
         TeleporterMessengerTransactor_SendSpecifiedReceipts sourceTeleporterMessenger opts
           destinationBlockchainID messageIDs feeInfo allowedRelayerAddresses)) (\<lambda>receipt.
     rbnd (find_send_event sourceTeleporterMessenger receipt) (\<lambda>event.
     rbnd (field ''DestinationBlockchainID'' go_arr32 event) (\<lambda>destination.
     rbnd (expect_that (destination = destinationBlockchainID)) (\<lambda>_.
     rbnd (field ''MessageID'' go_arr32 event) (\<lambda>messageID. rret (receipt, messageID))))))"

text \<open>A parse error or another message identifier lets the loop go on.\<close>

definition CheckReceiptReceived :: "mined_receipt \<Rightarrow> hash \<Rightarrow> 'w bound_contract \<Rightarrow> bool" where
  "CheckReceiptReceived receipt messageID transactor =
     list_ex (\<lambda>log. case TeleporterMessengerFilterer_ParseReceiptReceived transactor log of
         Inl _ \<Rightarrow> False
       | Inr event \<Rightarrow> map_of event ''MessageID'' = Some (GArr32 messageID)) (RcptLogs receipt)"

definition GetOutstandingReceiptCount :: "'w bound_contract \<Rightarrow> hash \<Rightarrow> ('w, int) run" where
  "GetOutstandingReceiptCount teleporterMessenger destinationBlockchainID =
     call_contract (TeleporterMessengerCaller_GetReceiptQueueSize teleporterMessenger no_call_opts
       destinationBlockchainID)"

definition RedeemRelayerRewardsAndConfirm ::
  "'w e2e_lib \<Rightarrow> ctx \<Rightarrow> 'w bound_contract \<Rightarrow> 'w L1TestInfo \<Rightarrow> 'w bound_contract \<Rightarrow> address \<Rightarrow> priv_key \<Rightarrow>
   int \<Rightarrow> ('w, mined_receipt) run" where
  "RedeemRelayerRewardsAndConfirm lib c teleporterMessenger l1 feeToken feeTokenAddress redeemerKey
       expectedAmount =
     (let redeemerAddress = PubkeyToAddress lib redeemerKey in
      rbnd (call_contract (ExampleERC20Caller_BalanceOf feeToken no_call_opts redeemerAddress)) (\<lambda>before.
      rbnd (transact_and_wait lib c l1 redeemerKey (\<lambda>opts.
          TeleporterMessengerTransactor_RedeemRelayerRewards teleporterMessenger opts feeTokenAddress))
        (\<lambda>receipt.
      rbnd (call_contract (ExampleERC20Caller_BalanceOf feeToken no_call_opts redeemerAddress)) (\<lambda>after.
      rbnd (expect_that (after = before + expectedAmount)) (\<lambda>_.
      rbnd (call_contract (TeleporterMessengerCaller_CheckRelayerRewardAmount teleporterMessenger
          no_call_opts redeemerAddress feeTokenAddress)) (\<lambda>updatedRewardAmount.
      rbnd (expect_that (updatedRewardAmount = 0)) (\<lambda>_. rret receipt)))))))"

section \<open>Transactions\<close>

definition CreateSendCrossChainMessageTransaction ::
  "'w e2e_lib \<Rightarrow> ctx \<Rightarrow> 'w L1TestInfo \<Rightarrow> TeleporterMessageInput \<Rightarrow> priv_key \<Rightarrow> address \<Rightarrow> ('w, signed_tx) run" where
  "CreateSendCrossChainMessageTransaction lib c source input senderKey teleporterContractAddress =
     rbnd (expect (PackSendCrossChainMessage (codec_lib lib) input)) (\<lambda>callData.
     rbnd (CalculateTxParams lib c source (PrivateKeyToAddress lib senderKey)) (\<lambda>(gasFeeCap, gasTipCap, nonce).
     SignTransaction lib
       \<lparr>TxChainID = EVMChainID source, TxNonce = nonce, TxTo = teleporterContractAddress,
        TxGas = DefaultTeleporterTransactionGas, TxGasFeeCap = gasFeeCap, TxGasTipCap = gasTipCap,
        TxValue = 0, TxData = callData, TxPredicate = None\<rparr>
       senderKey (EVMChainID source)))"

text \<open>
  The transactions that carry a Warp message as a predicate: to a contract, with a gas limit and call
  data, signed for the chain.
\<close>

definition predicate_transaction ::
  "'w e2e_lib \<Rightarrow> ctx \<Rightarrow> warp_message \<Rightarrow> address \<Rightarrow> u64 \<Rightarrow> bytes \<Rightarrow> priv_key \<Rightarrow> 'w L1TestInfo \<Rightarrow>
   ('w, signed_tx) run" where
  "predicate_transaction lib c signedMessage contract gasLimit callData senderKey l1Info =
     rbnd (CalculateTxParams lib c l1Info (PrivateKeyToAddress lib senderKey)) (\<lambda>(gasFeeCap, gasTipCap, nonce).
     SignTransaction lib
       \<lparr>TxChainID = EVMChainID l1Info, TxNonce = nonce, TxTo = contract, TxGas = gasLimit,
        TxGasFeeCap = gasFeeCap, TxGasTipCap = gasTipCap, TxValue = 0, TxData = callData,
        TxPredicate = Some (WarpAddress lib, MessageBytes lib signedMessage)\<rparr>
       senderKey (EVMChainID l1Info))"

definition CreateReceiveCrossChainMessageTransaction ::
  "'w e2e_lib \<Rightarrow> ctx \<Rightarrow> warp_message \<Rightarrow> int \<Rightarrow> address \<Rightarrow> priv_key \<Rightarrow> 'w L1TestInfo \<Rightarrow> ('w, signed_tx) run" where
  "CreateReceiveCrossChainMessageTransaction lib c signedMessage requiredGasLimit
       teleporterContractAddress senderKey l1Info =
     rbnd (expect (NumSigners lib signedMessage)) (\<lambda>numSigners.
     rbnd (ParseTeleporterMessage lib (MsgUnsigned signedMessage)) (\<lambda>teleporterMessage.
     rbnd (expect (CalculateReceiveMessageGasLimit (warpGas lib) numSigners requiredGasLimit
         (int (length (MessageBytes lib signedMessage)))
         (int (length (MsgPayload (MsgUnsigned signedMessage))))
         (int (length (Receipts teleporterMessage))))) (\<lambda>gasLimit.
     rbnd (expect (PackReceiveCrossChainMessage (codec_lib lib) 0 (PrivateKeyToAddress lib senderKey))) (\<lambda>callData.
     predicate_transaction lib c signedMessage teleporterContractAddress gasLimit callData senderKey
       l1Info))))"

definition CreateAddProtocolVersionTransaction ::
  "'w e2e_lib \<Rightarrow> ctx \<Rightarrow> warp_message \<Rightarrow> address \<Rightarrow> priv_key \<Rightarrow> 'w L1TestInfo \<Rightarrow> ('w, signed_tx) run" where
  "CreateAddProtocolVersionTransaction lib c signedMessage teleporterRegistryAddress senderKey l1Info =
     rbnd (expect (PackAddProtocolVersion (codec_lib lib) 0)) (\<lambda>callData.
     predicate_transaction lib c signedMessage teleporterRegistryAddress 500000 callData senderKey l1Info)"

definition CreateExecuteCallPredicateTransaction ::
  "'w e2e_lib \<Rightarrow> ctx \<Rightarrow> warp_message \<Rightarrow> address \<Rightarrow> priv_key \<Rightarrow> 'w L1TestInfo \<Rightarrow> ('w, signed_tx) run" where
  "CreateExecuteCallPredicateTransaction lib c signedMessage validatorSetSigAddress senderKey l1Info =
     rbnd (expect (PackExecuteCall (codec_lib lib) 0)) (\<lambda>callData.
     predicate_transaction lib c signedMessage validatorSetSigAddress 500000 callData senderKey l1Info)"

section \<open>Relaying\<close>

definition RelayTeleporterMessage ::
  "'w e2e_lib \<Rightarrow> ctx \<Rightarrow> 'w TeleporterTestInfo \<Rightarrow> mined_receipt \<Rightarrow> 'w L1TestInfo \<Rightarrow> 'w L1TestInfo \<Rightarrow> bool \<Rightarrow>
   priv_key \<Rightarrow> bytes \<Rightarrow> ('w, mined_receipt) run" where
  "RelayTeleporterMessage lib c t sourceReceipt source destination expectSuccess fundedKey justification =
     rbnd (messenger_of t source) (\<lambda>sourceMessenger.
     rbnd (find_send_event sourceMessenger sourceReceipt) (\<lambda>sendEvent.
     rbnd (ConstructSignedWarpMessage lib c sourceReceipt source destination justification)
       (\<lambda>signedWarpMessage.
     rbnd (field ''Message'' message_of sendEvent) (\<lambda>message.
     rbnd (messenger_address_of t source) (\<lambda>messengerAddress.
     rbnd (CreateReceiveCrossChainMessageTransaction lib c signedWarpMessage (RequiredGasLimit message)
         messengerAddress fundedKey destination) (\<lambda>signedTx.
     if \<not> expectSuccess then SendTransactionAndWaitForFailure lib c destination signedTx
     else
       rbnd (SendTransactionAndWaitForSuccess lib c destination signedTx) (\<lambda>receipt.
       rbnd (messenger_of t destination) (\<lambda>destinationMessenger.
       rbnd (find_event ''*teleportermessenger.TeleporterMessengerReceiveCrossChainMessage'' receipt
           (TeleporterMessengerFilterer_ParseReceiveCrossChainMessage destinationMessenger)) (\<lambda>receiveEvent.
       rbnd (field ''SourceBlockchainID'' go_arr32 receiveEvent) (\<lambda>sourceBlockchainID.
       rbnd (expect_that (sourceBlockchainID = BlockchainID source)) (\<lambda>_. rret receipt)))))))))))"

definition clear_input :: "'w L1TestInfo \<Rightarrow> TeleporterMessageInput" where
  "clear_input destination =
     \<lparr>InputDestinationBlockchainID = BlockchainID destination,
      InputDestinationAddress = 0x1111111111111111111111111111111111111111,
      InputFeeInfo = \<lparr>FeeTokenAddress = 0, Amount = 0\<rparr>, InputRequiredGasLimit = 1,
      InputAllowedRelayerAddresses = [], InputMessage = [1, 2, 3, 4]\<rparr>"

text \<open>
  One round of \<open>ClearReceiptQueue\<close>: the loop's test, and its body. The queue size the code keeps in a
  variable is read at the head of the loop.
\<close>

definition clear_round ::
  "'w e2e_lib \<Rightarrow> ctx \<Rightarrow> 'w TeleporterTestInfo \<Rightarrow> 'w bound_contract \<Rightarrow> priv_key \<Rightarrow> 'w L1TestInfo \<Rightarrow> 'w L1TestInfo \<Rightarrow>
   ('w, unit option) run" where
  "clear_round lib c t sourceTeleporterMessenger fundedKey source destination =
     rbnd (GetOutstandingReceiptCount sourceTeleporterMessenger (BlockchainID destination)) (\<lambda>count.
     if count = 0 then rret (Some ())
     else
       rbnd (SendCrossChainMessageAndWaitForAcceptance lib c sourceTeleporterMessenger source
           (clear_input destination) fundedKey) (\<lambda>(receipt, messageID).
       rbnd (RelayTeleporterMessage lib c t receipt source destination True fundedKey []) (\<lambda>_.
       rret None)))"

definition ClearReceiptQueue ::
  "'w e2e_lib \<Rightarrow> ctx \<Rightarrow> 'w TeleporterTestInfo \<Rightarrow> priv_key \<Rightarrow> 'w L1TestInfo \<Rightarrow> 'w L1TestInfo \<Rightarrow> ('w, unit) run" where
  "ClearReceiptQueue lib c t fundedKey source destination =
     rbnd (messenger_of t source) (\<lambda>sourceTeleporterMessenger.
     forever (clear_round lib c t sourceTeleporterMessenger fundedKey source destination))"

section \<open>Protocol versions\<close>

definition GetLatestTeleporterVersion :: "'w TeleporterTestInfo \<Rightarrow> 'w L1TestInfo \<Rightarrow> ('w, int) run" where
  "GetLatestTeleporterVersion t l1 =
     rbnd (registry_of t l1) (\<lambda>registry. call_contract (TeleporterRegistryCaller_LatestVersion registry no_call_opts))"

text \<open>\<open>big.NewInt(v.Int64() + 1)\<close>: the sum wraps in 64 bits.\<close>

definition next_version :: "int \<Rightarrow> int" where
  "next_version v = sint (word_of_int v + 1 :: 64 word)"

definition AddProtocolVersionAndWaitForAcceptance ::
  "'w e2e_lib \<Rightarrow> ctx \<Rightarrow> 'w TeleporterTestInfo \<Rightarrow> 'w L1TestInfo \<Rightarrow> address \<Rightarrow> priv_key \<Rightarrow> unsigned_message \<Rightarrow>
   ('w, unit) run" where
  "AddProtocolVersionAndWaitForAcceptance lib c t l1 newTeleporterAddress senderKey unsignedMessage =
     rbnd (GetSignedMessage lib l1 l1 unsignedMessage []) (\<lambda>signedWarpMsg.
     rbnd (registry_address_of t l1) (\<lambda>registryAddress.
     rbnd (CreateAddProtocolVersionTransaction lib c signedWarpMsg registryAddress senderKey l1) (\<lambda>signedTx.
     rbnd (GetLatestTeleporterVersion t l1) (\<lambda>curLatestVersion.
     rbnd (SendTransactionAndWaitForSuccess lib c l1 signedTx) (\<lambda>receipt.
     rbnd (registry_of t l1) (\<lambda>teleporterRegistry.
     rbnd (find_event ''*teleporterregistry.TeleporterRegistryAddProtocolVersion'' receipt
         (TeleporterRegistryFilterer_ParseAddProtocolVersion teleporterRegistry)) (\<lambda>added.
     rbnd (field ''Version'' go_big added) (\<lambda>version.
     rbnd (expect_that (version = next_version curLatestVersion)) (\<lambda>_.
     rbnd (field ''ProtocolAddress'' go_addr added) (\<lambda>protocolAddress.
     rbnd (expect_that (protocolAddress = newTeleporterAddress)) (\<lambda>_.
     rbnd (find_event ''*teleporterregistry.TeleporterRegistryLatestVersionUpdated'' receipt
         (TeleporterRegistryFilterer_ParseLatestVersionUpdated teleporterRegistry)) (\<lambda>updated.
     rbnd (field ''OldVersion'' go_big updated) (\<lambda>oldVersion.
     rbnd (expect_that (oldVersion = curLatestVersion)) (\<lambda>_.
     rbnd (field ''NewVersion'' go_big updated) (\<lambda>newVersion.
     expect_that (newVersion = next_version curLatestVersion))))))))))))))))"

definition SendMessageRequiredGas :: int where
  "SendMessageRequiredGas = 300000"

definition SendExampleCrossChainMessageAndVerify ::
  "'w e2e_lib \<Rightarrow> ctx \<Rightarrow> 'w TeleporterTestInfo \<Rightarrow> 'w L1TestInfo \<Rightarrow> 'w bound_contract \<Rightarrow> 'w L1TestInfo \<Rightarrow>
   address \<Rightarrow> 'w bound_contract \<Rightarrow> priv_key \<Rightarrow> string \<Rightarrow> bool \<Rightarrow> ('w, unit) run" where
  "SendExampleCrossChainMessageAndVerify lib c t source sourceExampleMessenger destination
       destExampleMessengerAddress destExampleMessenger senderKey message expectSuccess =
     rbnd (transact_and_wait lib c source senderKey (\<lambda>opts.
         TestMessengerTransactor_SendMessage sourceExampleMessenger opts (BlockchainID destination)
           destExampleMessengerAddress 0 0 SendMessageRequiredGas message)) (\<lambda>sent.
     rbnd (messenger_of t source) (\<lambda>sourceTeleporterMessenger.
     rbnd (messenger_of t destination) (\<lambda>destTeleporterMessenger.
     rbnd (find_send_event sourceTeleporterMessenger sent) (\<lambda>event.
     rbnd (field ''DestinationBlockchainID'' go_arr32 event) (\<lambda>destinationBlockchainID.
     rbnd (expect_that (destinationBlockchainID = BlockchainID destination)) (\<lambda>_.
     rbnd (field ''MessageID'' go_arr32 event) (\<lambda>teleporterMessageID.
     rbnd (RelayTeleporterMessage lib c t sent source destination True senderKey []) (\<lambda>receipt.
     rbnd (call_contract (TeleporterMessengerCaller_MessageReceived destTeleporterMessenger no_call_opts
         teleporterMessageID)) (\<lambda>delivered.
     rbnd (expect_that delivered) (\<lambda>_.
     rbnd (if expectSuccess
           then find_event ''*teleportermessenger.TeleporterMessengerMessageExecuted'' receipt
             (TeleporterMessengerFilterer_ParseMessageExecuted destTeleporterMessenger)
           else find_event ''*teleportermessenger.TeleporterMessengerMessageExecutionFailed'' receipt
             (TeleporterMessengerFilterer_ParseMessageExecutionFailed destTeleporterMessenger)) (\<lambda>outcome.
     rbnd (field ''MessageID'' go_arr32 outcome) (\<lambda>outcomeMessageID.
     rbnd (expect_that (outcomeMessageID = teleporterMessageID)) (\<lambda>_.
     rbnd (call_contract (TestMessengerCaller_GetCurrentMessage destExampleMessenger no_call_opts
         (BlockchainID source))) (\<lambda>(sender, currMessage).
     expect_that (if expectSuccess then currMessage = message else currMessage \<noteq> message)))))))))))))))"

section \<open>Off-chain messages\<close>

definition off_chain_message ::
  "'w e2e_lib \<Rightarrow> u32 \<Rightarrow> 'w L1TestInfo \<Rightarrow> bytes \<Rightarrow> ('s, unsigned_message) run" where
  "off_chain_message lib networkID l1 payloadBytes =
     rbnd (expect (NewAddressedCall lib [] payloadBytes)) (\<lambda>addressedPayload.
     expect (NewUnsignedMessage lib networkID (BlockchainID l1) addressedPayload))"

definition CreateOffChainRegistryMessage ::
  "'w e2e_lib \<Rightarrow> u32 \<Rightarrow> 'w L1TestInfo \<Rightarrow> address \<Rightarrow> ProtocolRegistryEntry \<Rightarrow> ('s, unsigned_message) run" where
  "CreateOffChainRegistryMessage lib networkID l1 registryAddress entry =
     rbnd (expect (PackTeleporterRegistryWarpPayload (codec_lib lib) entry registryAddress))
       (off_chain_message lib networkID l1)"

text \<open>\<open>big.NewInt(int64(version))\<close>; the state is the shared chain configuration.\<close>

definition InitOffChainMessageChainConfig ::
  "'w e2e_lib \<Rightarrow> (flags_map \<Rightarrow> goerr + string) \<Rightarrow> u32 \<Rightarrow> 'w L1TestInfo \<Rightarrow> address \<Rightarrow> address \<Rightarrow> u64 \<Rightarrow>
   (flags_map, unsigned_message \<times> string) run" where
  "InitOffChainMessageChainConfig lib marshal networkID l1 registryAddress teleporterAddress version =
     rbnd (CreateOffChainRegistryMessage lib networkID l1 registryAddress
         \<lparr>Version = sint version, ProtocolAddress = teleporterAddress\<rparr>) (\<lambda>unsignedMessage.
     rbnd (GetChainConfigWithOffChainMessages lib marshal [unsignedMessage]) (\<lambda>config.
     rret (unsignedMessage, config)))"

section \<open>Building a delivery\<close>

text \<open>What the code relies on of \<open>types.SignTx\<close>: the signed transaction is the transaction.\<close>

definition signs_tx :: "'w e2e_lib \<Rightarrow> bool" where
  "signs_tx lib \<longleftrightarrow> (\<forall>tx chainID key signed. SignTx lib tx chainID key = Inr signed \<longrightarrow> SignedTx signed = tx)"

lemma ParseTeleporterMessage_packed:
  assumes "codec_roundtrip (codec_lib lib)" and "message_ok m" and "TeleporterMessage_Pack (codec_lib lib) m = Inr p"
    and "ParseAddressedCall lib (MsgPayload u) = Inr (src, p)"
  shows "ParseTeleporterMessage lib u s = Some (Returned m, s)"
  using teleporter_message.pack_unpack [OF assms(1,2)] assms(3,4)
  by (simp add: ParseTeleporterMessage_def)

lemma predicate_transaction_Returned:
  assumes "predicate_transaction lib c sm contract gas callData key l1 s = Some (Returned tx, s')"
    and "signs_tx lib"
  obtains baseFee tipCap nonce s1 s2 s3 where "EstimateBaseFee (RPCClient l1) c s = (Inr baseFee, s1)"
    and "SignedTx tx = \<lparr>TxChainID = EVMChainID l1, TxNonce = nonce, TxTo = contract, TxGas = gas,
      TxGasFeeCap = baseFee * 2 + 2500000000, TxGasTipCap = tipCap, TxValue = 0, TxData = callData,
      TxPredicate = Some (WarpAddress lib, MessageBytes lib sm)\<rparr>"
  using assms
  by (auto simp: predicate_transaction_def CalculateTxParams_def SignTransaction_def signs_tx_def go_splits
      BaseFeeFactor_def MaxPriorityFeePerGas_def)

text \<open>
  C13. The transaction that delivers a Warp message to the messenger: its call data call
  \<open>receiveCrossChainMessage\<close> with index 0 and the sender as the relayer to reward, the message is its
  predicate, and its gas limit is the exact cost of delivering the Teleporter message that the Warp
  message carries, with the number of receipts packed in it; the fee cap is above twice the base fee.
\<close>

theorem delivery_transaction_pays_for_its_message:
  assumes "codec_methods (codec_lib lib)" and "codec_roundtrip (codec_lib lib)" and "signs_tx lib"
    and "add64_spec (Add64 (warpGas lib))" and "message_ok m"
    and "TeleporterMessage_Pack (codec_lib lib) m = Inr p"
    and "ParseAddressedCall lib (MsgPayload (MsgUnsigned sm)) = Inr (src, p)"
    and "NumSigners lib sm = Inr n"
    and "gas_in_range (warpGas lib) n (int (length (MessageBytes lib sm)))
      (int (length (MsgPayload (MsgUnsigned sm)))) (int (length (Receipts m)))"
    and "CreateReceiveCrossChainMessageTransaction lib c sm required contract key l1 s =
      Some (Returned tx, s')"
  shows "TxTo (SignedTx tx) = contract \<and> TxChainID (SignedTx tx) = EVMChainID l1 \<and>
     call_of (codec_lib lib) TeleporterMessengerABI ''receiveCrossChainMessage''
       [GUint 32 0, GAddr (PubkeyToAddress lib key)] (Inr (TxData (SignedTx tx))) \<and>
     TxPredicate (SignedTx tx) = Some (WarpAddress lib, MessageBytes lib sm) \<and>
     uint (TxGas (SignedTx tx)) = receive_gas (warpGas lib) n required (int (length (MessageBytes lib sm)))
       (int (length (MsgPayload (MsgUnsigned sm)))) (int (length (Receipts m))) \<and>
     (\<exists>baseFee s1. EstimateBaseFee (RPCClient l1) c s = (Inr baseFee, s1) \<and>
        TxGasFeeCap (SignedTx tx) = 2 * baseFee + 2500000000)"
proof -
  let ?gas = "CalculateReceiveMessageGasLimit (warpGas lib) n required (int (length (MessageBytes lib sm)))
      (int (length (MsgPayload (MsgUnsigned sm)))) (int (length (Receipts m)))"
  obtain gas callData where gas: "?gas = Inr gas"
      and data: "PackReceiveCrossChainMessage (codec_lib lib) 0 (PrivateKeyToAddress lib key) = Inr callData"
      and tx: "predicate_transaction lib c sm contract gas callData key l1 s = Some (Returned tx, s')"
    using assms(8,10) ParseTeleporterMessage_packed [OF assms(2,5,6,7)]
    unfolding CreateReceiveCrossChainMessageTransaction_def rbnd_Returned_iff expect_Returned_iff by fastforce
  have "uint gas = receive_gas (warpGas lib) n required (int (length (MessageBytes lib sm)))
      (int (length (MsgPayload (MsgUnsigned sm)))) (int (length (Receipts m)))"
    by (rule gas_limit_value [OF assms(4,9) gas])
  moreover have "call_of (codec_lib lib) TeleporterMessengerABI ''receiveCrossChainMessage''
      [GUint 32 0, GAddr (PubkeyToAddress lib key)] (Inr callData)"
    using call_of_pack_method [OF assms(1,2) teleporter_methods(3), of "[GUint 32 0, GAddr (PubkeyToAddress lib key)]"]
      data assms(1)
    by (simp add: PackReceiveCrossChainMessage_def teleporter_abi_ok PrivateKeyToAddress_def)
  moreover obtain baseFee tipCap nonce s1 where "EstimateBaseFee (RPCClient l1) c s = (Inr baseFee, s1)"
      and "SignedTx tx = \<lparr>TxChainID = EVMChainID l1, TxNonce = nonce, TxTo = contract, TxGas = gas,
        TxGasFeeCap = baseFee * 2 + 2500000000, TxGasTipCap = tipCap, TxValue = 0, TxData = callData,
        TxPredicate = Some (WarpAddress lib, MessageBytes lib sm)\<rparr>"
    by (rule predicate_transaction_Returned [OF tx assms(3)])
  ultimately show ?thesis
    by simp
qed

end
