(* ===== verification/Relaying.thy ===== *)
theory Relaying
  imports TeleporterUtils
begin

text \<open>
  What the utilities of \<open>teleporter.go\<close> achieve: the event a receipt search finds, when clearing a receipt
  queue ends, what an off-chain message carries. The last section is a simulated network on which the
  properties of this theory and of \<open>ChainUtils\<close>, \<open>ChainConfig\<close> and \<open>TeleporterUtils\<close> are applied.
\<close>

section \<open>Finding an event\<close>

lemma GetEventFromLogs_skip:
  "\<forall>log \<in> set pre. \<not> is_Ok (parser log) \<Longrightarrow>
   GetEventFromLogs ty (pre @ logs) parser = GetEventFromLogs ty logs parser"
  by (induction pre) (auto simp: is_Ok_iff split: sum.splits)

text \<open>
  Searching the logs of a receipt with the parser of an event gives the first emitted log of that
  event, with every argument in the field of its name, whatever precedes it: logs without topics and
  logs of other events are skipped. The emitting contract plays no part: a log of another contract
  with the same event is found as well.
\<close>

theorem first_log_of_event_is_found:
  assumes "codec_methods k" and "codec_events k" and "event_ids k TeleporterMessengerABI"
    and "bound_spec k TeleporterMessengerABI be c" and "e \<in> set known_events"
    and "\<forall>l \<in> set pre. LogTopics l = [] \<or>
      event_by_id k TeleporterMessengerABI (hd (LogTopics l)) \<noteq> Inr (Event_String e)"
    and "matches_args (event_args (declared e)) args"
    and "pack_event k TeleporterMessengerABI (Event_String e) args = Inr (LogTopics log, LogData log)"
  shows "\<exists>fs. GetEventFromLogs ty (pre @ log\<lparr>LogAddress := anyone\<rparr> # post) (messenger_parse c e) = Inr fs \<and>
     (\<forall>i < length (declared e). map_of fs (export_name (fst (declared e ! i))) = Some (args ! i)) \<and>
     map_of fs ''Raw'' = Some (log_val (log\<lparr>LogAddress := anyone\<rparr>))"
proof -
  let ?log = "log\<lparr>LogAddress := anyone\<rparr>"
  obtain zero where new: "new_event e = Inr (''TeleporterMessenger'' @ Event_String e, zero)"
      and zero: "decodable (declared e) zero"
    using new_event_known [OF assms(5)] by blast
  have "messenger_parse c e = parse_log c (Event_String e) zero"
    by (rule ext) (rule messenger_parse_eq [OF assms(5) new])
  then have dec: "parser_decodes k TeleporterMessengerABI (Event_String e) (messenger_parse c e)"
    using parse_log_decodes [OF assms(2-4) declared_in_abi [OF assms(5)] zero] by simp
  have "pack_event k TeleporterMessengerABI (Event_String e) args = Inr (LogTopics ?log, LogData ?log)"
    using assms(8) by simp
  then obtain fs where fs: "messenger_parse c e ?log = Inr fs"
      and fields: "\<forall>i < length (declared e). map_of fs (export_name (fst (declared e ! i))) = Some (args ! i)"
        "map_of fs ''Raw'' = Some (log_val ?log)"
    using parser_decodesD(1) [OF dec declared_in_abi [OF assms(5)] assms(7)] by blast
  have "\<forall>l \<in> set pre. \<not> is_Ok (messenger_parse c e l)"
    using parser_decodesD(2) [OF dec declared_in_abi [OF assms(5)]] assms(6) by blast
  then have "GetEventFromLogs ty (pre @ ?log # post) (messenger_parse c e) = Inr fs"
    using fs by (simp add: GetEventFromLogs_skip)
  with fields show ?thesis
    by blast
qed

section \<open>Clearing a receipt queue\<close>

subsection \<open>Runs that end and keep a number from growing\<close>

definition settles :: "('s \<Rightarrow> nat) \<Rightarrow> ('s, 'a) run \<Rightarrow> bool" where
  "settles q m \<longleftrightarrow> (\<forall>s. \<exists>r s'. m s = Some (r, s') \<and> q s' \<le> q s)"

definition calm :: "('s \<Rightarrow> nat) \<Rightarrow> ('s, 'e, 'a) query \<Rightarrow> bool" where
  "calm q op \<longleftrightarrow> (\<forall>s. q (snd (op s)) \<le> q s)"

lemma settlesD: "settles q m \<Longrightarrow> m s = Some (r, s') \<Longrightarrow> q s' \<le> q s"
  unfolding settles_def by (metis option.inject prod.inject)

lemma settles_basic [simp, intro]:
  "settles q (rret x)" "settles q (expect r)" "settles q (expect_that b)" "settles q (run_of (panicked msg))"
  by (auto simp: settles_def expect_def check_def expect_that_def panicked_def failed_def ret_def rret_def
      rfail_def split: sum.splits)

lemma settles_ask [intro]: "calm q op \<Longrightarrow> settles q (ask op)"
  unfolding settles_def calm_def ask_def by (metis case_prod_conv prod.collapse)

text \<open>What follows a step only has to settle for the values the step can return.\<close>

lemma settles_rbnd:
  assumes "settles q m" and "\<And>x s s1. m s = Some (Returned x, s1) \<Longrightarrow> settles q (f x)"
  shows "settles q (rbnd m f)"
  unfolding settles_def
proof
  fix s
  obtain r s1 where m: "m s = Some (r, s1)" and q: "q s1 \<le> q s"
    using assms(1) unfolding settles_def by blast
  show "\<exists>r s'. rbnd m f s = Some (r, s') \<and> q s' \<le> q s"
  proof (cases r)
    case (Returned x)
    then obtain r' s' where "f x s1 = Some (r', s')" and "q s' \<le> q s1"
      using assms(2) m unfolding settles_def by blast
    with m q Returned show ?thesis
      by (auto intro: order_trans)
  qed (use m q in simp_all)
qed

lemma settles_call_ok [intro]: "calm q op \<Longrightarrow> settles q (call_ok op)"
  unfolding call_ok_def by (intro settles_rbnd settles_ask) simp_all

lemma settles_forever:
  fixes left :: "'s \<Rightarrow> nat"
  assumes "settles q body" and "\<And>s s'. body s = Some (Returned None, s') \<Longrightarrow> left s' < left s"
  shows "settles q (forever body)"
  unfolding settles_def
proof
  fix s
  show "\<exists>r s'. forever body s = Some (r, s') \<and> q s' \<le> q s"
  proof (rule forever_returns [of "\<lambda>a. q a \<le> q s" s body left])
    fix a assume "q a \<le> q s"
    then show "\<exists>r s'. body a = Some (r, s') \<and> q s' \<le> q s"
      using assms(1) unfolding settles_def by (meson order_trans)
  qed (use assms(2) in simp_all)
qed

lemma settles_each [intro]: "(\<And>x. x \<in> set xs \<Longrightarrow> settles q (f x)) \<Longrightarrow> settles q (each_run f xs)"
  by (induction xs) (auto intro: settles_rbnd)

subsection \<open>The services\<close>

text \<open>
  A client none of whose answers adds a receipt to the queue, and with which contexts expire; a node
  whose polls for a block of the source either show it or use up the context.
\<close>

definition calm_client :: "'w e2e_lib \<Rightarrow> ('w \<Rightarrow> nat) \<Rightarrow> (ctx \<Rightarrow> 'w \<Rightarrow> nat) \<Rightarrow> 'w eth_client \<Rightarrow> bool" where
  "calm_client lib q left cl \<longleftrightarrow>
     (\<forall>c. context_expires lib cl c (left c)) \<and>
     (\<forall>c h. calm q (GetReceipt cl c h)) \<and> (\<forall>c. calm q (BlockNumber cl c)) \<and>
     (\<forall>c tx. calm q (SendTransaction cl c tx)) \<and> (\<forall>c. calm q (EstimateBaseFee cl c)) \<and>
     (\<forall>c. calm q (SuggestGasTipCap cl c)) \<and> (\<forall>c a. calm q (NonceAt cl c a)) \<and>
     (\<forall>c h as. calm q (BlockLogs cl c h as)) \<and> (\<forall>h. calm q (CallTracer cl h))"

definition calm_node ::
  "'w L1TestInfo \<Rightarrow> ('w \<Rightarrow> nat) \<Rightarrow> (ctx \<Rightarrow> 'w \<Rightarrow> nat) \<Rightarrow> 'w eth_client \<Rightarrow> bool" where
  "calm_node source q left cl \<longleftrightarrow>
     (\<forall>c. calm q (LatestBlock cl c)) \<and>
     (\<forall>c c' h a b receipt s k s'. GetReceipt (RPCClient source) c' h a = (Inr receipt, b) \<longrightarrow>
        LatestBlock cl c s = (Inr k, s') \<longrightarrow>
        word_of_int (RcptBlockNumber receipt) \<le> k \<or> left c s' < left c s)"

text \<open>
  The messenger contract on the source (\<open>ReceiptQueue.sol\<close>, \<open>TeleporterMessenger.sol\<close>): its
  \<open>getReceiptQueueSize\<close> is the number of waiting receipts, and a \<open>sendCrossChainMessage\<close> to the
  destination that is accepted takes up to five of them along (\<open>MAXIMUM_RECEIPT_COUNT\<close>).
\<close>

definition takes_receipts :: "'w bound_contract \<Rightarrow> hash \<Rightarrow> ('w \<Rightarrow> nat) \<Rightarrow> bool" where
  "takes_receipts messenger chain q \<longleftrightarrow>
     (\<forall>opts s r s'. contract_call messenger opts ''getReceiptQueueSize'' [GArr32 chain] s = (r, s') \<longrightarrow>
        q s' \<le> q s \<and> (\<forall>out. r = Returned (Inr out) \<longrightarrow> out = [GBig (int (q s))])) \<and>
     (\<forall>opts input s r s'. InputDestinationBlockchainID input = chain \<longrightarrow>
        contract_transact messenger opts ''sendCrossChainMessage'' [input_val input] s = (r, s') \<longrightarrow>
        q s' \<le> q s \<and> (\<forall>tx. r = Returned (Inr tx) \<longrightarrow> q s' \<le> q s - 5))"

definition clearing_services ::
  "'w e2e_lib \<Rightarrow> 'w bound_contract \<Rightarrow> 'w L1TestInfo \<Rightarrow> 'w L1TestInfo \<Rightarrow> ('w \<Rightarrow> nat) \<Rightarrow> (ctx \<Rightarrow> 'w \<Rightarrow> nat) \<Rightarrow> bool" where
  "clearing_services lib messenger source destination q left \<longleftrightarrow>
     takes_receipts messenger (BlockchainID destination) q \<and>
     calm_client lib q left (RPCClient source) \<and> calm_client lib q left (RPCClient destination) \<and>
     (\<forall>uri s r s'. DialClient lib uri s = (r, s') \<longrightarrow> q s' \<le> q s \<and> (\<forall>cl. r = Inr cl \<longrightarrow> calm_node source q left cl)) \<and>
     (\<forall>c ms s. q (snd (WithTimeout lib c ms s)) \<le> q s) \<and>
     (\<forall>c ms. calm q (NextTick lib c ms)) \<and> (\<forall>url b. calm q (Post lib url b))"

subsection \<open>Every step settles\<close>

lemma settles_case:
  "(\<And>x. r = Inl x \<Longrightarrow> settles q (f x)) \<Longrightarrow> (\<And>y. r = Inr y \<Longrightarrow> settles q (g y)) \<Longrightarrow> settles q (case r of Inl x \<Rightarrow> f x | Inr y \<Rightarrow> g y)"
  by (cases r) auto

lemma settles_field [simp, intro]: "settles q (field name conv event)"
  by (simp add: field_def split: option.split)

lemma settles_find_event [simp, intro]: "settles q (find_event ty receipt parser)"
  by (simp add: find_event_def)

lemma settles_nil [simp, intro]: "settles q (deref_nil p)"
  by (simp add: deref_nil_def split: option.split)

lemma settles_info [simp, intro]:
  "settles q (messenger_of t l1)" "settles q (messenger_address_of t l1)"
  by (auto simp: messenger_of_def messenger_address_of_def info_of_def intro!: settles_rbnd)

lemma settles_timeout:
  assumes "\<forall>s. q (snd (WithTimeout lib c ms s)) \<le> q s"
  shows "settles q (with_timeout lib c ms)"
  using assms unfolding settles_def with_timeout_def by (metis case_prod_conv prod.collapse)

lemma settles_wait:
  assumes "calm_client lib q left (RPCClient l1)" and "\<forall>c ms. calm q (NextTick lib c ms)"
    and "\<forall>c ms s. q (snd (WithTimeout lib c ms s)) \<le> q s"
  shows "settles q (waitForTransaction lib c l1 h success)"
proof -
  let ?cl = "RPCClient l1"
  have client: "context_expires lib ?cl c (left c)" "calm q (GetReceipt ?cl c h)" "calm q (BlockNumber ?cl c)"
      "calm q (CallTracer ?cl h)" and tick: "calm q (NextTick lib c ms)" for c h ms
    using assms(1,2) unfolding calm_client_def by simp_all
  have "settles q (receipt_round lib ?cl c h)" for c
    unfolding receipt_round_def
    by (intro settles_rbnd settles_ask client) (auto intro!: settles_rbnd settles_ask tick split: sum.split query_err.split)
  then have "settles q (waitForTransactionReceipt lib c ?cl h)" for c
    unfolding waitForTransactionReceipt_def by (rule settles_forever) (rule receipt_round_uses [OF client(1)])
  moreover have "settles q (height_round lib ?cl c n)" for c n
    unfolding height_round_def
    by (intro settles_rbnd settles_ask client) (auto intro!: settles_rbnd settles_ask tick split: sum.split)
  then have "settles q (waitForBlockHeight lib c ?cl n)" for c n
    unfolding waitForBlockHeight_def by (rule settles_forever) (rule height_round_uses [OF client(1)])
  ultimately have "settles q (WaitMined lib c ?cl h)" for c
    unfolding WaitMined_def by (auto intro!: settles_rbnd split: sum.split)
  moreover have "settles q (TraceTransactionAndExit ?cl h)" for h
    unfolding TraceTransactionAndExit_def TraceTransaction_def by (intro settles_rbnd settles_call_ok client) simp
  ultimately show ?thesis
    using assms(3) unfolding waitForTransaction_def by (auto intro!: settles_rbnd settles_timeout)
qed

lemma settles_transaction:
  assumes "clearing_services lib messenger source destination q left"
  shows "settles q (predicate_transaction lib c sm contract gas data key destination)"
    and "settles q (CreateReceiveCrossChainMessageTransaction lib c sm required contract key destination)"
    and "settles q (SendTransactionAndWaitForSuccess lib c destination tx)"
    and "settles q (SendTransactionAndWaitForFailure lib c destination tx)"
proof -
  have cl: "calm_client lib q left (RPCClient destination)"
      and tick: "\<forall>c ms. calm q (NextTick lib c ms)" and timeout: "\<forall>c ms s. q (snd (WithTimeout lib c ms s)) \<le> q s"
    using assms unfolding clearing_services_def by simp_all
  then have calls: "calm q (EstimateBaseFee (RPCClient destination) c)" "calm q (SuggestGasTipCap (RPCClient destination) c)"
      "calm q (NonceAt (RPCClient destination) c a)" "calm q (SendTransaction (RPCClient destination) c tx)" for c a tx
    unfolding calm_client_def by simp_all
  show predicate: "settles q (predicate_transaction lib c sm contract gas data key destination)" for gas data
    unfolding predicate_transaction_def CalculateTxParams_def SignTransaction_def
    by (auto intro!: settles_rbnd settles_call_ok calls)
  show "settles q (CreateReceiveCrossChainMessageTransaction lib c sm required contract key destination)"
    unfolding CreateReceiveCrossChainMessageTransaction_def ParseTeleporterMessage_def
    by (auto intro!: settles_rbnd predicate)
  show "settles q (SendTransactionAndWaitForSuccess lib c destination tx)"
      and "settles q (SendTransactionAndWaitForFailure lib c destination tx)"
    unfolding SendTransactionAndWaitForSuccess_def SendTransactionAndWaitForFailure_def sendAndWaitForTransaction_def
    by (intro settles_rbnd settles_call_ok calls settles_wait [OF cl tick timeout])+
qed

lemma block_round_uses:
  assumes "calm_node source q left cl" and "GetReceipt (RPCClient source) c' h a = (Inr receipt, b)"
    and "block_round cl c (word_of_int (RcptBlockNumber receipt)) s = Some (Returned None, s')"
  shows "left c s' < left c s"
proof -
  obtain k where "LatestBlock cl c s = (Inr k, s')" and "\<not> word_of_int (RcptBlockNumber receipt) \<le> k"
    using assms(3) by (auto simp: block_round_def go_splits split: if_splits)
  with assms(1,2) show ?thesis
    unfolding calm_node_def by blast
qed

lemma settles_signed_message:
  assumes "clearing_services lib messenger source destination q left"
    and "GetReceipt (RPCClient source) c' h a = (Inr receipt, b)"
  shows "settles q (ConstructSignedWarpMessage lib c receipt source destination j)"
proof -
  let ?n = "word_of_int (RcptBlockNumber receipt)"
  have dial: "calm q (DialClient lib uri)" and post: "calm q (Post lib url b)"
      and node: "DialClient lib uri s = (Inr cl, s') \<Longrightarrow> calm_node source q left cl"
      and logs: "calm q (BlockLogs (RPCClient source) c h as)"
      and timeout: "\<forall>s. q (snd (WithTimeout lib c ms s)) \<le> q s" for uri url b s cl s' c h as ms
    using assms(1) unfolding clearing_services_def calm_client_def calm_def by (auto simp: prod_eq_iff)
  have "settles q (forever (block_round cl cctx ?n))" if "calm_node source q left cl" for cl cctx
  proof (rule settles_forever [of q _ "left cctx"])
    show "settles q (block_round cl cctx ?n)"
      using that unfolding block_round_def calm_node_def by (intro settles_rbnd settles_call_ok) auto
  qed (rule block_round_uses [OF that assms(2)])
  then have "settles q (wait_for_validator lib cctx chain ?n uri)" for cctx chain uri
    unfolding wait_for_validator_def using node
    by (intro settles_rbnd settles_call_ok dial) (auto simp: call_ok_Returned_iff)
  then have "settles q (WaitForAllValidatorsToAcceptBlock lib c uris chain ?n)" for uris chain
    unfolding WaitForAllValidatorsToAcceptBlock_def by (intro settles_rbnd settles_timeout [OF timeout] settles_each)
  moreover have "settles q (ExtractWarpMessageFromLog lib c receipt source)"
    unfolding ExtractWarpMessageFromLog_def by (intro settles_rbnd settles_call_ok logs) auto
  moreover have "calm q (CreateSignedMessage lib u j subnet quorum)" for u subnet quorum
    using post unfolding calm_def CreateSignedMessage_def by (auto split: sum.split prod.split) (metis snd_conv)+
  then have "settles q (GetSignedMessage lib source destination u j)" for u
    unfolding GetSignedMessage_def by (rule settles_call_ok)
  ultimately show ?thesis
    unfolding ConstructSignedWarpMessage_def by (intro settles_rbnd)
qed

lemma settles_relay:
  assumes "clearing_services lib messenger source destination q left"
    and "GetReceipt (RPCClient source) c' h a = (Inr receipt, b)"
  shows "settles q (RelayTeleporterMessage lib c t receipt source destination success key j)"
  unfolding RelayTeleporterMessage_def find_send_event_def
  using settles_transaction [OF assms(1)] settles_signed_message [OF assms]
  by (auto intro!: settles_rbnd)


subsection \<open>A round\<close>

text \<open>
  A message sent with the receipt \<open>sent\<close> has been delivered when the state \<open>b\<close> is reached: the one Warp
  message in the block of its receipt was signed for the destination, a transaction with the signed message
  as its predicate was sent on the destination and then awaited, and the receipt of that transaction holds
  the event of a message received from the source.
\<close>

definition delivered ::
  "'w e2e_lib \<Rightarrow> ctx \<Rightarrow> 'w TeleporterTestInfo \<Rightarrow> 'w L1TestInfo \<Rightarrow> 'w L1TestInfo \<Rightarrow> mined_receipt \<Rightarrow> 'w \<Rightarrow> bool" where
  "delivered lib c t source destination sent b \<longleftrightarrow>
     (\<exists>log u w1 w2 w3 w4 w5 w6 sm tx receipt destinationMessenger event.
        BlockLogs (RPCClient source) c (RcptBlockHash sent) [WarpAddress lib] w1 = (Inr [log], w2) \<and>
        UnpackWarpLog lib (LogData log) = Inr u \<and>
        CreateSignedMessage lib u [] (signing_subnet source destination) (WarpQuorumNumerator lib) w3 =
          (Inr sm, w4) \<and>
        TxPredicate (SignedTx tx) = Some (WarpAddress lib, MessageBytes lib sm) \<and>
        SendTransaction (RPCClient destination) c tx w5 = (Inr (), w6) \<and>
        waitForTransaction lib c destination (TxHash lib tx) True w6 = Some (Returned receipt, b) \<and>
        messenger_of t destination b = Some (Returned destinationMessenger, b) \<and>
        GetEventFromLogs ''*teleportermessenger.TeleporterMessengerReceiveCrossChainMessage'' (RcptLogs receipt)
          (TeleporterMessengerFilterer_ParseReceiveCrossChainMessage destinationMessenger) = Inr event \<and>
        map_of event ''SourceBlockchainID'' = Some (GArr32 (BlockchainID source)))"

lemma info_Returned:
  "messenger_of t l1 s = Some (Returned m, s') \<Longrightarrow> s' = s"
  "messenger_address_of t l1 s = Some (Returned a, s') \<Longrightarrow> s' = s"
  by (auto simp: messenger_of_def messenger_address_of_def info_of_def deref_nil_def go_splits panicked_def
      split: option.splits)

lemma signed_message_Returned:
  assumes "ConstructSignedWarpMessage lib c sent source destination j s = Some (Returned sm, s')"
  obtains log u w1 w2 w3 where
    "BlockLogs (RPCClient source) c (RcptBlockHash sent) [WarpAddress lib] w1 = (Inr [log], w2)"
    and "UnpackWarpLog lib (LogData log) = Inr u"
    and "CreateSignedMessage lib u j (signing_subnet source destination) (WarpQuorumNumerator lib) w3 =
      (Inr sm, s')"
proof -
  obtain u s1 s2 where u: "ExtractWarpMessageFromLog lib c sent source s = Some (Returned u, s1)"
      and sign: "GetSignedMessage lib source destination u j s2 = Some (Returned sm, s')"
    using assms unfolding ConstructSignedWarpMessage_def rbnd_Returned_iff by blast
  then obtain logs s3 where "BlockLogs (RPCClient source) c (RcptBlockHash sent) [WarpAddress lib] s = (Inr logs, s3)"
      and "length logs = 1" and "UnpackWarpLog lib (LogData (hd logs)) = Inr u"
    by (auto simp: ExtractWarpMessageFromLog_def go_splits)
  moreover from this(2) obtain log where "logs = [log]"
    by (cases logs) auto
  ultimately show ?thesis
    using sign by (intro that) (auto simp: GetSignedMessage_def go_splits)
qed

lemma delivery_Returned:
  assumes "CreateReceiveCrossChainMessageTransaction lib c sm required contract key l1 s = Some (Returned tx, s')"
    and "signs_tx lib"
  shows "TxPredicate (SignedTx tx) = Some (WarpAddress lib, MessageBytes lib sm)"
proof -
  obtain gas data s1 where "predicate_transaction lib c sm contract gas data key l1 s1 = Some (Returned tx, s')"
    using assms(1) unfolding CreateReceiveCrossChainMessageTransaction_def rbnd_Returned_iff by blast
  from predicate_transaction_Returned [OF this assms(2)] show ?thesis
    by (metis dynamic_fee_tx.select_convs(9))
qed

lemma go_arr32_Some: "go_arr32 v = Some h \<longleftrightarrow> v = GArr32 h"
  by (cases v) auto

lemma relay_delivers:
  assumes "RelayTeleporterMessage lib c t sent source destination True key [] s = Some (Returned r, s')"
    and "signs_tx lib"
  shows "delivered lib c t source destination sent s'"
proof -
  obtain sm s1 s2 required contract tx s3 s4 receipt s5 m s6 ev s7 v where
    sign: "ConstructSignedWarpMessage lib c sent source destination [] s1 = Some (Returned sm, s2)"
    and tx: "CreateReceiveCrossChainMessageTransaction lib c sm required contract key destination s3 = Some (Returned tx, s4)"
    and send: "SendTransactionAndWaitForSuccess lib c destination tx s4 = Some (Returned receipt, s5)"
    and m: "messenger_of t destination s5 = Some (Returned m, s6)"
    and ev: "find_event ''*teleportermessenger.TeleporterMessengerReceiveCrossChainMessage'' receipt
      (TeleporterMessengerFilterer_ParseReceiveCrossChainMessage m) s6 = Some (Returned ev, s7)"
    and v: "map_of ev ''SourceBlockchainID'' = Some v" "go_arr32 v = Some (BlockchainID source)" and "s' = s7"
    using assms(1) unfolding RelayTeleporterMessage_def rbnd_Returned_iff field_Returned_iff expect_that_Returned_iff
    by (simp add: rbnd_Returned_iff field_Returned_iff expect_that_Returned_iff) blast
  obtain log u w1 w2 w3 where
    "BlockLogs (RPCClient source) c (RcptBlockHash sent) [WarpAddress lib] w1 = (Inr [log], w2)"
    and "UnpackWarpLog lib (LogData log) = Inr u"
    and "CreateSignedMessage lib u [] (signing_subnet source destination) (WarpQuorumNumerator lib) w3 = (Inr sm, s2)"
    by (rule signed_message_Returned [OF sign])
  moreover have "TxPredicate (SignedTx tx) = Some (WarpAddress lib, MessageBytes lib sm)"
    by (rule delivery_Returned [OF tx assms(2)])
  moreover obtain w where "SendTransaction (RPCClient destination) c tx s4 = (Inr (), w)"
      and "waitForTransaction lib c destination (TxHash lib tx) True w = Some (Returned receipt, s5)"
    using send by (auto simp: SendTransactionAndWaitForSuccess_def sendAndWaitForTransaction_def go_splits)
  moreover have "s6 = s5" and "s7 = s5"
      and "GetEventFromLogs ''*teleportermessenger.TeleporterMessengerReceiveCrossChainMessage'' (RcptLogs receipt)
        (TeleporterMessengerFilterer_ParseReceiveCrossChainMessage m) = Inr ev"
    using ev info_Returned(1) [OF m] by (auto simp: find_event_def expect_Returned_iff)
  ultimately show ?thesis
    using m v \<open>s' = s7\<close> unfolding delivered_def go_arr32_Some by blast
qed

text \<open>
  A round either leaves the loop or goes on; it leaves the loop in the normal way only if the queue is empty,
  and it goes on only if the queue was not empty, up to five receipts went with a message, and that message
  was delivered.
\<close>

lemma send_Returned:
  assumes "clearing_services lib messenger source destination q left"
    and "InputDestinationBlockchainID input = BlockchainID destination"
    and "SendCrossChainMessageAndWaitForAcceptance lib c messenger source input key s = Some (Returned (sent, messageID), s')"
  shows "q s' \<le> q s - 5" and "\<exists>c' h a b. GetReceipt (RPCClient source) c' h a = (Inr sent, b)"
proof -
  obtain opts tx s1 where tx: "contract_transact messenger opts ''sendCrossChainMessage'' [input_val input] s = (Returned (Inr tx), s1)"
      and w: "waitForTransaction lib c source tx True s1 = Some (Returned sent, s')"
    using assms(3)
    by (auto simp: SendCrossChainMessageAndWaitForAcceptance_def transact_and_wait_def WaitForTransactionSuccess_def
        TeleporterMessengerTransactor_SendCrossChainMessage_def find_send_event_def find_event_def go_splits field_Returned_iff)
  have "takes_receipts messenger (BlockchainID destination) q"
    using assms(1) by (simp add: clearing_services_def)
  then have "q s1 \<le> q s - 5"
    using assms(2) tx unfolding takes_receipts_def by metis
  moreover have "settles q (waitForTransaction lib c source tx True)"
    using assms(1) unfolding clearing_services_def by (intro settles_wait) auto
  with w have "q s' \<le> q s1"
    by (intro settlesD)
  ultimately show "q s' \<le> q s - 5"
    by simp
  show "\<exists>c' h a b. GetReceipt (RPCClient source) c' h a = (Inr sent, b)"
    using waited_transaction_is_mined [OF w] by blast
qed

lemma settles_send:
  assumes "clearing_services lib messenger source destination q left"
    and "InputDestinationBlockchainID input = BlockchainID destination"
  shows "settles q (SendCrossChainMessageAndWaitForAcceptance lib c messenger source input key)"
proof -
  have "settles q (run_of (TeleporterMessengerTransactor_SendCrossChainMessage messenger opts input))" for opts
    using assms unfolding settles_def clearing_services_def takes_receipts_def TeleporterMessengerTransactor_SendCrossChainMessage_def
    by (metis prod.collapse run_simps(1))
  moreover have "settles q (waitForTransaction lib c source tx True)" for tx
    using assms(1) unfolding clearing_services_def by (intro settles_wait) auto
  ultimately show ?thesis
    unfolding SendCrossChainMessageAndWaitForAcceptance_def transact_and_wait_def WaitForTransactionSuccess_def
      find_send_event_def
    by (auto intro!: settles_rbnd)
qed

lemma count_receipts:
  assumes "takes_receipts messenger chain q"
  shows "settles q (GetOutstandingReceiptCount messenger chain)"
    and "GetOutstandingReceiptCount messenger chain s = Some (Returned n, s') \<Longrightarrow> n = int (q s)"
proof -
  have call: "q s1 \<le> q s" "r = Returned (Inr out) \<Longrightarrow> out = [GBig (int (q s))]"
    if "contract_call messenger no_call_opts ''getReceiptQueueSize'' [GArr32 chain] s = (r, s1)" for s r s1 out
    using assms that unfolding takes_receipts_def by blast+
  let ?size = "TeleporterMessengerCaller_GetReceiptQueueSize messenger no_call_opts chain"
  have "q (snd (?size s)) \<le> q s" for s
  proof -
    obtain r s1 where r: "contract_call messenger no_call_opts ''getReceiptQueueSize'' [GArr32 chain] s = (r, s1)"
      by fastforce
    then have "snd (?size s) = s1"
      by (auto simp: TeleporterMessengerCaller_GetReceiptQueueSize_def call_method_def bnd_def ret_def panicked_def
          split: outcome.split sum.split option.split)
    with call(1) [OF r] show ?thesis
      by simp
  qed
  then have "settles q (run_of ?size)"
    unfolding settles_def by (metis prod.collapse run_simps(1))
  then show "settles q (GetOutstandingReceiptCount messenger chain)"
    unfolding GetOutstandingReceiptCount_def call_contract_def by (intro settles_rbnd) auto
  assume "GetOutstandingReceiptCount messenger chain s = Some (Returned n, s')"
  then have "?size s = (Returned (Inr n), s')"
    by (auto simp: GetOutstandingReceiptCount_def call_contract_def go_splits)
  then obtain out where "contract_call messenger no_call_opts ''getReceiptQueueSize'' [GArr32 chain] s = (Returned (Inr out), s')"
      and n: "out1 go_big out = Some n"
    by (auto simp: TeleporterMessengerCaller_GetReceiptQueueSize_def call_method_def bnd_def ret_def panicked_def
        split: outcome.splits prod.splits sum.splits option.splits)
  with call(2) have "out = [GBig (int (q s))]"
    by blast
  with n show "n = int (q s)"
    by (simp add: out1_def out_at_def)
qed

lemma clear_round_settles:
  assumes "clearing_services lib messenger source destination q left"
  shows "settles q (clear_round lib c t messenger key source destination)"
proof -
  have "takes_receipts messenger (BlockchainID destination) q"
    using assms by (simp add: clearing_services_def)
  moreover have "settles q (RelayTeleporterMessage lib c t sent source destination True key [])"
    if "SendCrossChainMessageAndWaitForAcceptance lib c messenger source (clear_input destination) key s =
      Some (Returned (sent, messageID), s1)" for sent messageID s s1
    using send_Returned(2) [OF assms _ that] settles_relay [OF assms] by (auto simp: clear_input_def)
  ultimately show ?thesis
    unfolding clear_round_def using settles_send [OF assms, of "clear_input destination"]
    by (auto intro!: settles_rbnd count_receipts simp: clear_input_def)
qed

lemma clear_round_Returned:
  assumes "clearing_services lib messenger source destination q left"
    and "clear_round lib c t messenger key source destination s = Some (Returned r, s')"
  shows "r = Some () \<and> q s' = 0 \<or>
    r = None \<and> q s \<noteq> 0 \<and> q s' \<le> q s - 5 \<and>
    (\<exists>sent messageID s0 s1 receipt.
      SendCrossChainMessageAndWaitForAcceptance lib c messenger source (clear_input destination) key s0 =
        Some (Returned (sent, messageID), s1) \<and>
      RelayTeleporterMessage lib c t sent source destination True key [] s1 = Some (Returned receipt, s'))"
proof -
  have takes: "takes_receipts messenger (BlockchainID destination) q"
    using assms(1) by (simp add: clearing_services_def)
  obtain n s0 where count: "GetOutstandingReceiptCount messenger (BlockchainID destination) s = Some (Returned n, s0)"
      and rest: "(if n = 0 then rret (Some ()) else
        rbnd (SendCrossChainMessageAndWaitForAcceptance lib c messenger source (clear_input destination) key)
          (\<lambda>(receipt, messageID). rbnd (RelayTeleporterMessage lib c t receipt source destination True key []) (\<lambda>_.
          rret None))) s0 = Some (Returned r, s')"
    using assms(2) unfolding clear_round_def rbnd_Returned_iff by blast
  have n: "n = int (q s)" and s0: "q s0 \<le> q s"
    using count_receipts [OF takes] settlesD [OF count_receipts(1) [OF takes] count] count by simp_all
  show ?thesis
  proof (cases "n = 0")
    case True
    then show ?thesis
      using rest n s0 by simp
  next
    case False
    then obtain sent messageID s1 receipt where
        send: "SendCrossChainMessageAndWaitForAcceptance lib c messenger source (clear_input destination) key s0 =
          Some (Returned (sent, messageID), s1)"
        and relay: "RelayTeleporterMessage lib c t sent source destination True key [] s1 = Some (Returned receipt, s')"
        and r: "r = None"
      using rest by (auto simp: rbnd_Returned_iff)
    have input: "InputDestinationBlockchainID (clear_input destination) = BlockchainID destination"
      by (simp add: clear_input_def)
    obtain c' h a b where "GetReceipt (RPCClient source) c' h a = (Inr sent, b)"
      using send_Returned(2) [OF assms(1) input send] by blast
    then have "q s' \<le> q s1"
      using settlesD [OF settles_relay [OF assms(1)] relay] by blast
    moreover have "q s1 \<le> q s0 - 5"
      by (rule send_Returned(1) [OF assms(1) input send])
    ultimately have "q s' \<le> q s - 5"
      using s0 by linarith
    moreover have "q s \<noteq> 0"
      using False n by simp
    ultimately show ?thesis
      using send relay r by blast
  qed
qed

lemma batches:
  assumes "q \<noteq> (0::nat)"
  shows "(q + 4) div 5 = Suc ((q - 5 + 4) div 5)"
proof (cases "q \<le> 5")
  case True
  then have "(q + 4) div 5 = 1"
    using assms by (intro div_nat_eqI) simp_all
  with True show ?thesis
    by simp
next
  case False
  then obtain r where "q = r + 5"
    using le_Suc_ex [of 5 q] by auto
  then show ?thesis
    by simp
qed

lemma clear_rounds:
  assumes "clearing_services lib messenger source destination q left"
    and "rounds (clear_round lib c t messenger key source destination) n s s'"
  shows "n \<le> (q s + 4) div 5"
  using assms(2)
proof (induction rule: rounds.induct)
  case (one s s1 n s2)
  have "q s \<noteq> 0" and "q s1 \<le> q s - 5"
    using clear_round_Returned [OF assms(1) one.hyps(1)] by auto
  then have "Suc ((q s1 + 4) div 5) \<le> (q s + 4) div 5"
    by (simp add: batches div_le_mono del: One_nat_def)
  with one.IH show ?case
    by simp
qed simp


section \<open>Off-chain messages\<close>

text \<open>What the code relies on of the constructors of \<open>avalanchego\<close>'s Warp messages.\<close>

definition warp_messages :: "'w e2e_lib \<Rightarrow> bool" where
  "warp_messages lib \<longleftrightarrow>
     (\<forall>src p b. NewAddressedCall lib src p = Inr b \<longrightarrow> ParseAddressedCall lib b = Inr (src, p)) \<and>
     (\<forall>n chain p u. NewUnsignedMessage lib n chain p = Inr u \<longrightarrow>
        u = \<lparr>MsgNetworkID = n, MsgSourceChainID = chain, MsgPayload = p\<rparr>)"

lemma off_chain_message_Returned:
  assumes "warp_messages lib" and "off_chain_message lib networkID l1 payload s = Some (Returned u, s')"
  shows "s' = s \<and> MsgNetworkID u = networkID \<and> MsgSourceChainID u = BlockchainID l1 \<and>
    ParseAddressedCall lib (MsgPayload u) = Inr ([], payload)"
  using assms unfolding warp_messages_def off_chain_message_def rbnd_Returned_iff expect_Returned_iff
  by fastforce

text \<open>
  C33. The off-chain message that registers a protocol version reaches the registry as it was meant:
  the message of the returned configuration is the returned one, from the L1's blockchain, with no
  source address, and its payload unpacks to the version, the protocol's address and the registry the
  message is for. A version from 2^63 on would be packed as a negative number.
\<close>

theorem off_chain_registration_decodes:
  assumes "codec_roundtrip (codec_lib lib)" and "warp_messages lib" and "unat version < 2 ^ 63"
    and "InitOffChainMessageChainConfig lib marshal networkID l1 registryAddress teleporterAddress version s =
      Some (Returned (u, config), s')"
  shows "MsgNetworkID u = networkID \<and> MsgSourceChainID u = BlockchainID l1 \<and>
     (\<exists>p. ParseAddressedCall lib (MsgPayload u) = Inr ([], p) \<and>
        UnpackTeleporterRegistryWarpPayload (codec_lib lib) p =
          Inr (\<lparr>Version = uint version, ProtocolAddress = teleporterAddress\<rparr>, registryAddress)) \<and>
     s' = s(''warp-off-chain-messages'' \<mapsto> FTexts [''0x'' @ hex_encode (UnsignedBytes lib u)]) \<and>
     marshal s' = Inr config"
proof -
  let ?entry = "\<lparr>Version = sint version, ProtocolAddress = teleporterAddress\<rparr>"
  have sint: "sint version = uint version"
  proof -
    have "int (unat version) < int (2 ^ 63)"
      using assms(3) by (simp only: of_nat_less_iff)
    then have "uint version < 2 ^ 63"
      by (simp only: uint_nat [symmetric] of_nat_power of_nat_numeral)
    moreover have "- (2 ^ 63) \<le> uint version"
      using uint_ge_0 [of version] by (rule order_trans [rotated]) simp
    ultimately show ?thesis
      by (simp add: sint_uint signed_take_bit_int_eq_self)
  qed
  have "uint version < 2 ^ 256"
    using uint_bounded [of version] by (rule less_trans) simp
  then have "registry_entry_ok ?entry"
    by (simp add: registry_entry_ok_def sint)
  then obtain p where p: "PackTeleporterRegistryWarpPayload (codec_lib lib) ?entry registryAddress = Inr p"
      and unpack: "UnpackTeleporterRegistryWarpPayload (codec_lib lib) p = Inr (?entry, registryAddress)"
    by (rule warp_payload_roundtrip [OF assms(1)])
  obtain s1 where created: "off_chain_message lib networkID l1 p s = Some (Returned u, s1)"
      and config: "GetChainConfigWithOffChainMessages lib marshal [u] s1 = Some (Returned config, s')"
    using assms(4) p
    by (auto simp: InitOffChainMessageChainConfig_def CreateOffChainRegistryMessage_def rbnd_Returned_iff)
  have "s' = s1(''warp-off-chain-messages'' \<mapsto> FTexts [''0x'' @ hex_encode (UnsignedBytes lib u)])"
      and "marshal s' = Inr config"
    using config by (simp_all add: GetChainConfigWithOffChainMessages_def hex_message_def go_splits)
  then show ?thesis
    using off_chain_message_Returned [OF assms(2) created] unpack by (simp add: sint)
qed

end
