(* ===== verification/NewVersion.thy ===== *)
theory NewVersion
  imports Deployment TeleporterUtils
begin

text \<open>
  \<open>DeployNewTeleporterVersion\<close> of \<open>tests/utils/teleporter.go\<close>, which joins the keyless deployment of
  \<open>utils/deployment-utils\<close> with the transactions of the test utilities: another gas price gives another
  deployer and another contract. The state has the process (files and log), the heap of \<open>big.Int\<close> cells
  and the network.
\<close>

record 'w deployer =
  DeployHost :: host
  DeployHeap :: big_heap
  DeployWorld :: 'w

text \<open>\<open>Add(GetDefaultContractCreationGasPrice(), big.NewInt(1))\<close>, into a new number.\<close>

definition new_gas_price :: "big_heap \<Rightarrow> int outcome \<times> big_heap" where
  "new_gas_price h = (let (p, h') = GetDefaultContractCreationGasPrice h in (Returned (h' ! p + 1), h'))"

definition DeployNewTeleporterVersion ::
  "'w e2e_lib \<Rightarrow> chain_lib \<Rightarrow> ctx \<Rightarrow> 'w L1TestInfo \<Rightarrow> priv_key \<Rightarrow> string \<Rightarrow> ('w deployer, address) run" where
  "DeployNewTeleporterVersion lib dlib c l1 fundedKey teleporterByteCodeFile =
     rbnd (focus DeployHeap (\<lambda>h s. s\<lparr>DeployHeap := h\<rparr>) (run_of new_gas_price)) (\<lambda>gasPrice.
     rbnd (focus DeployHost (\<lambda>h s. s\<lparr>DeployHost := h\<rparr>)
         (ask (ConstructKeylessTransaction dlib teleporterByteCodeFile False gasPrice))) (\<lambda>r.
     rbnd (expect r) (\<lambda>(transactionBytes, deployedBytecode, deployerAddress, contractAddress).
     rbnd (focus DeployWorld (\<lambda>w s. s\<lparr>DeployWorld := w\<rparr>)
         (DeployMessengerContract lib c l1 transactionBytes deployerAddress contractAddress fundedKey)) (\<lambda>_.
     rret contractAddress))))"

lemma new_gas_price_value:
  assumes "defaultContractCreationGasPrice < length h"
  shows "new_gas_price h = (Returned (h ! defaultContractCreationGasPrice + 1), h @ [h ! defaultContractCreationGasPrice])"
  using assms
  by (simp add: new_gas_price_def GetDefaultContractCreationGasPrice_def NewInt_def big_Set_def nth_append
      list_update_append)

text \<open>What the deployment sends, awaits and checks, in this order.\<close>

lemma DeployMessengerContract_Returned:
  assumes "DeployMessengerContract lib c l1 b deployer contract key w = Some (Returned (), w')" and "signs_tx lib"
  obtains ftx w1 w2 funded w3 uri raw w4 h w5 deployed w6 code where
    "CreateNativeTransferTransaction lib c l1 key deployer fundAmount w = Some (Returned ftx, w1)"
    and "TxTo (SignedTx ftx) = deployer" and "TxValue (SignedTx ftx) = fundAmount"
    and "SendTransaction (RPCClient l1) c ftx w1 = (Inr (), w2)"
    and "waitForTransaction lib c l1 (TxHash lib ftx) True w2 = Some (Returned funded, w3)"
    and "DialClient lib uri w3 = (Inr raw, w4)" and "SendRaw raw c b w4 = (Inr h, w5)"
    and "waitForTransaction lib c l1 h True w5 = Some (Returned deployed, w6)"
    and "CodeAt (RPCClient l1) c contract w6 = (Inr code, w')" and "2 < length code"
proof -
  obtain ftx w1 w2 funded w3 uri raw w4 h w5 deployed w6 code where
      fund: "CreateNativeTransferTransaction lib c l1 key deployer fundAmount w = Some (Returned ftx, w1)"
      and "SendTransaction (RPCClient l1) c ftx w1 = (Inr (), w2)"
      and "waitForTransaction lib c l1 (TxHash lib ftx) True w2 = Some (Returned funded, w3)"
      and "DialClient lib uri w3 = (Inr raw, w4)" and "SendRaw raw c b w4 = (Inr h, w5)"
      and "waitForTransaction lib c l1 h True w5 = Some (Returned deployed, w6)"
      and "CodeAt (RPCClient l1) c contract w6 = (Inr code, w')" and "2 < length code"
    using assms(1)
    by (auto simp: DeployMessengerContract_def SendTransactionAndWaitForSuccess_def
        sendAndWaitForTransaction_def WaitForTransactionSuccess_def go_splits)
  moreover have "TxTo (SignedTx ftx) = deployer" and "TxValue (SignedTx ftx) = fundAmount"
    using fund assms(2)
    by (auto simp: CreateNativeTransferTransaction_def SignTransaction_def signs_tx_def go_splits)
  ultimately show ?thesis
    by (intro that)
qed

text \<open>
  C24. A new version is deployed from an account that can pay for it: the keyless transaction is the one
  for the file's bytecode at the default gas price plus one, and the contract is its sender's first.
  The sender is first funded with 11 tokens, which cover the transaction's gas limit at that price;
  only after the wait for that transfer is the keyless transaction sent, and after the wait for the
  latter code is found at the contract's address. No file is written.
\<close>

theorem new_version_is_funded:
  assumes "DeployNewTeleporterVersion lib dlib c l1 key file s = Some (Returned contract, s')"
    and "signs_tx lib" and "defaultContractCreationGasPrice < length (DeployHeap s)"
    and "DeployHeap s ! defaultContractCreationGasPrice = 2500000000000"
  shows "\<exists>tx bytecode sender b ftx w1 w2 funded w3 uri raw w4 h w5 deployed w6 code.
     keyless_tx dlib file 2500000000001 (DeployHost s) tx bytecode \<and> MarshalBinary dlib tx = Inr b \<and>
     HomesteadSender dlib tx = Inr sender \<and> contract = CreateAddress dlib sender 0 \<and>
     CreateNativeTransferTransaction lib c l1 key sender fundAmount (DeployWorld s) = Some (Returned ftx, w1) \<and>
     TxTo (SignedTx ftx) = sender \<and>
     uint (LegacyTx.TxGas tx) * TxGasPrice tx + LegacyTx.TxValue tx \<le> TxValue (SignedTx ftx) \<and>
     SendTransaction (RPCClient l1) c ftx w1 = (Inr (), w2) \<and>
     waitForTransaction lib c l1 (TxHash lib ftx) True w2 = Some (Returned funded, w3) \<and>
     DialClient lib uri w3 = (Inr raw, w4) \<and> SendRaw raw c b w4 = (Inr h, w5) \<and>
     waitForTransaction lib c l1 h True w5 = Some (Returned deployed, w6) \<and>
     CodeAt (RPCClient l1) c contract w6 = (Inr code, DeployWorld s') \<and> 2 < length code \<and>
     files (DeployHost s') = files (DeployHost s)"
proof -
  obtain b bin sender h1 w' where
      made: "ConstructKeylessTransaction dlib file False 2500000000001 (DeployHost s) =
        (Inr (b, bin, sender, contract), h1)"
      and deploy: "DeployMessengerContract lib c l1 b sender contract key (DeployWorld s) = Some (Returned (), w')"
      and host: "DeployHost s' = h1" and world: "DeployWorld s' = w'"
    using assms(1,4) new_gas_price_value [OF assms(3)]
    by (auto simp: DeployNewTeleporterVersion_def go_splits)
  obtain tx bytecode where tx: "keyless_tx dlib file 2500000000001 (DeployHost s) tx bytecode"
      "HomesteadSender dlib tx = Inr sender" "MarshalBinary dlib tx = Inr b" "contract = CreateAddress dlib sender 0"
      and files: "files h1 = files (DeployHost s)"
    using Construct_Inr [OF made] by auto
  obtain ftx w1 w2 funded w3 uri raw w4 h w5 deployed w6 code where
      steps: "CreateNativeTransferTransaction lib c l1 key sender fundAmount (DeployWorld s) = Some (Returned ftx, w1)"
      "TxTo (SignedTx ftx) = sender" "SendTransaction (RPCClient l1) c ftx w1 = (Inr (), w2)"
      "waitForTransaction lib c l1 (TxHash lib ftx) True w2 = Some (Returned funded, w3)"
      "DialClient lib uri w3 = (Inr raw, w4)" "SendRaw raw c b w4 = (Inr h, w5)"
      "waitForTransaction lib c l1 h True w5 = Some (Returned deployed, w6)"
      "CodeAt (RPCClient l1) c contract w6 = (Inr code, w')" "2 < length code"
      and fund: "TxValue (SignedTx ftx) = fundAmount"
    by (rule DeployMessengerContract_Returned [OF deploy assms(2)])
  have "uint (LegacyTx.TxGas tx) * TxGasPrice tx + LegacyTx.TxValue tx \<le> TxValue (SignedTx ftx)"
    using tx(1) by (auto simp: keyless_tx_def contractCreationTx_def defaultContractCreationGasLimit_def
        fund fundAmount_def)
  with tx files host world steps show ?thesis
    by metis
qed

end
