(* ===== verification/ContractUtils.thy ===== *)
theory ContractUtils
  imports Relaying TransparentUpgradeableProxyBinding ProxyAdminBinding
begin

text \<open>
  \<open>tests/utils/erc20.go\<close>, \<open>tests/utils/proxy.go\<close> and \<open>tests/utils/governance.go\<close>: deploying and using the
  example token, a proxy with its admin, and the contract \<open>ValidatorSetSig\<close> with its messages.
\<close>

section \<open>erc20.go\<close>

definition ExpectedExampleERC20DeployerBalance :: int where
  "ExpectedExampleERC20DeployerBalance = 1000000000000000000 * 10000000000"

definition DeployERC20 ::
  "'w e2e_lib \<Rightarrow> ctx \<Rightarrow> priv_key \<Rightarrow> 'w L1TestInfo \<Rightarrow> ('w, address \<times> 'w bound_contract) run" where
  "DeployERC20 lib c senderKey source =
     rbnd (deploy_and_wait lib c source senderKey
         (DeployExampleERC20 (Backend source) (ContractBin lib ''ExampleERC20''))) (\<lambda>(addr, token, receipt).
     rbnd (call_contract (ExampleERC20Caller_BalanceOf token no_call_opts (PubkeyToAddress lib senderKey)))
       (\<lambda>balance.
     rbnd (expect_that (balance = ExpectedExampleERC20DeployerBalance)) (\<lambda>_. rret (addr, token))))"

definition ERC20Approve ::
  "'w e2e_lib \<Rightarrow> ctx \<Rightarrow> 'w bound_contract \<Rightarrow> address \<Rightarrow> int \<Rightarrow> 'w L1TestInfo \<Rightarrow> priv_key \<Rightarrow> ('w, unit) run" where
  "ERC20Approve lib c token spender amount source senderKey =
     rbnd (transact_and_wait lib c source senderKey (\<lambda>opts.
         ExampleERC20Transactor_Approve token opts spender amount)) (\<lambda>_. rret ())"

section \<open>proxy.go\<close>

definition DeployProxy ::
  "'w e2e_lib \<Rightarrow> ctx \<Rightarrow> 'w L1TestInfo \<Rightarrow> priv_key \<Rightarrow> address \<Rightarrow> ('w, address \<times> 'w bound_contract) run" where
  "DeployProxy lib c l1 senderKey implAddress =
     rbnd (deploy_and_wait lib c l1 senderKey (\<lambda>opts.
         DeployTransparentUpgradeableProxy (Backend l1) (ContractBin lib ''TransparentUpgradeableProxy'') opts
           implAddress (PubkeyToAddress lib senderKey) [])) (\<lambda>(proxyAddress, proxy, receipt).
     rbnd (find_event ''*transparentupgradeableproxy.TransparentUpgradeableProxyAdminChanged'' receipt
         (TransparentUpgradeableProxyFilterer_ParseAdminChanged proxy)) (\<lambda>proxyAdminEvent.
     rbnd (field ''NewAdmin'' go_addr proxyAdminEvent) (\<lambda>newAdmin.
     rbnd (expect (NewProxyAdmin (Backend l1) newAdmin)) (\<lambda>proxyAdmin.
     rret (proxyAddress, proxyAdmin)))))"

section \<open>governance.go\<close>

definition DeployValidatorSetSigAndWait ::
  "'w e2e_lib \<Rightarrow> ctx \<Rightarrow> priv_key \<Rightarrow> 'w L1TestInfo \<Rightarrow> 'w L1TestInfo \<Rightarrow> ('w, address \<times> 'w bound_contract) run" where
  "DeployValidatorSetSigAndWait lib c senderKey contractL1 validatorL1 =
     rbnd (deploy_and_wait lib c contractL1 senderKey (\<lambda>opts.
         DeployValidatorSetSig (Backend contractL1) (ContractBin lib ''ValidatorSetSig'') opts
           (BlockchainID validatorL1))) (\<lambda>(addr, validatorSetSig, receipt).
     rret (addr, validatorSetSig))"

definition ExecuteValidatorSetSigCallAndVerify ::
  "'w e2e_lib \<Rightarrow> ctx \<Rightarrow> 'w L1TestInfo \<Rightarrow> 'w L1TestInfo \<Rightarrow> address \<Rightarrow> priv_key \<Rightarrow> unsigned_message \<Rightarrow> bool \<Rightarrow>
   ('w, mined_receipt) run" where
  "ExecuteValidatorSetSigCallAndVerify lib c source destination validatorSetSigAddress senderKey
       unsignedMessage expectSuccess =
     rbnd (GetSignedMessage lib source destination unsignedMessage []) (\<lambda>signedWarpMsg.
     rbnd (CreateExecuteCallPredicateTransaction lib c signedWarpMsg validatorSetSigAddress senderKey
         destination) (\<lambda>signedPredicateTx.
     if expectSuccess then SendTransactionAndWaitForSuccess lib c destination signedPredicateTx
     else SendTransactionAndWaitForFailure lib c destination signedPredicateTx))"

definition CreateOffChainValidatorSetSigMessage ::
  "'w e2e_lib \<Rightarrow> u32 \<Rightarrow> 'w L1TestInfo \<Rightarrow> ValidatorSetSigMessage \<Rightarrow> ('s, unsigned_message) run" where
  "CreateOffChainValidatorSetSigMessage lib networkID l1 message =
     rbnd (expect (ValidatorSetSigMessage_Pack (codec_lib lib) message)) (off_chain_message lib networkID l1)"

primrec set_sig_messages ::
  "'w e2e_lib \<Rightarrow> u32 \<Rightarrow> 'w L1TestInfo \<Rightarrow> ValidatorSetSigMessage list \<Rightarrow> ('s, unsigned_message list) run" where
  "set_sig_messages lib networkID l1 [] = rret []"
| "set_sig_messages lib networkID l1 (message # messages) =
     rbnd (CreateOffChainValidatorSetSigMessage lib networkID l1 message) (\<lambda>unsignedMessage.
     rbnd (set_sig_messages lib networkID l1 messages) (\<lambda>unsignedMessages.
     rret (unsignedMessage # unsignedMessages)))"

definition InitOffChainMessageChainConfigValidatorSetSig ::
  "'w e2e_lib \<Rightarrow> (flags_map \<Rightarrow> goerr + string) \<Rightarrow> u32 \<Rightarrow> 'w L1TestInfo \<Rightarrow> ValidatorSetSigMessage list \<Rightarrow>
   (flags_map, unsigned_message list \<times> string) run" where
  "InitOffChainMessageChainConfigValidatorSetSig lib marshal networkID l1 validatorSetSigMessages =
     rbnd (set_sig_messages lib networkID l1 validatorSetSigMessages) (\<lambda>unsignedMessages.
     rbnd (GetChainConfigWithOffChainMessages lib marshal unsignedMessages) (\<lambda>config.
     rret (unsignedMessages, config)))"

section \<open>Off-chain governance messages\<close>

lemma set_sig_message_created:
  assumes "codec_roundtrip (codec_lib lib)" and "warp_messages lib" and "set_sig_ok m"
    and "CreateOffChainValidatorSetSigMessage lib networkID l1 m s = Some (Returned u, s')"
  shows "s' = s \<and> MsgNetworkID u = networkID \<and> MsgSourceChainID u = BlockchainID l1 \<and>
    (\<exists>p. ParseAddressedCall lib (MsgPayload u) = Inr ([], p) \<and>
       ValidatorSetSigMessage_Unpack (codec_lib lib) p = Inr m)"
proof -
  obtain p where p: "ValidatorSetSigMessage_Pack (codec_lib lib) m = Inr p"
      and created: "off_chain_message lib networkID l1 p s = Some (Returned u, s')"
    using assms(4) by (auto simp: CreateOffChainValidatorSetSigMessage_def go_splits)
  show ?thesis
    using set_sig_message.pack_unpack [OF assms(1,3)] p off_chain_message_Returned [OF assms(2) created] by auto
qed

text \<open>
  The off-chain governance messages of a chain reach the contract as they were meant, in order, one
  Warp message for each: from the L1's blockchain, without a source address, the payload unpacking to
  the message; and the chain's configuration lists exactly these messages, in hexadecimal.
\<close>

theorem off_chain_governance_messages_decode:
  assumes "codec_roundtrip (codec_lib lib)" and "warp_messages lib" and "\<forall>m \<in> set ms. set_sig_ok m"
    and "InitOffChainMessageChainConfigValidatorSetSig lib marshal networkID l1 ms s =
      Some (Returned (us, config), s')"
  shows "list_all2 (\<lambda>m u. MsgNetworkID u = networkID \<and> MsgSourceChainID u = BlockchainID l1 \<and>
       (\<exists>p. ParseAddressedCall lib (MsgPayload u) = Inr ([], p) \<and>
          ValidatorSetSigMessage_Unpack (codec_lib lib) p = Inr m)) ms us \<and>
     s' = s(''warp-off-chain-messages'' \<mapsto>
       FTexts (map (\<lambda>u. ''0x'' @ hex_encode (UnsignedBytes lib u)) us)) \<and>
     marshal s' = Inr config"
proof -
  let ?made = "\<lambda>m u. MsgNetworkID u = networkID \<and> MsgSourceChainID u = BlockchainID l1 \<and>
      (\<exists>p. ParseAddressedCall lib (MsgPayload u) = Inr ([], p) \<and>
         ValidatorSetSigMessage_Unpack (codec_lib lib) p = Inr m)"
  obtain s1 where created: "set_sig_messages lib networkID l1 ms s = Some (Returned us, s1)"
      and config: "GetChainConfigWithOffChainMessages lib marshal us s1 = Some (Returned config, s')"
    using assms(4) by (auto simp: InitOffChainMessageChainConfigValidatorSetSig_def go_splits)
  have "list_all2 ?made ms us \<and> s1 = s"
    using created assms(3)
  proof (induction ms arbitrary: s us)
    case (Cons m ms)
    then obtain u s2 rest where first: "CreateOffChainValidatorSetSigMessage lib networkID l1 m s = Some (Returned u, s2)"
        and rest: "set_sig_messages lib networkID l1 ms s2 = Some (Returned rest, s1)" and "us = u # rest"
      by (auto simp: go_splits)
    moreover have "set_sig_ok m"
      using Cons.prems(2) by simp
    note set_sig_message_created [OF assms(1,2) this first]
    ultimately show ?case
      using Cons.IH [OF rest] Cons.prems(2) by simp
  qed simp
  moreover have "s' = s1(''warp-off-chain-messages'' \<mapsto> FTexts (map (\<lambda>u. ''0x'' @ hex_encode (UnsignedBytes lib u)) us))"
      and "marshal s' = Inr config"
    using config by (simp_all add: GetChainConfigWithOffChainMessages_def hex_message_def [abs_def] go_splits)
  ultimately show ?thesis
    by simp
qed

end
