(* ===== verification/LocalNetwork.thy ===== *)
theory LocalNetwork
  imports ChainUtils ChainConfig
begin

text \<open>
  \<open>tests/network/network.go\<close>: the local network of the end-to-end tests. The nodes are shared pointers
  (the same node is an extra node first and a node of the network later): they live in a store, and
  the lists hold their references. Starting nodes and dialling clients are parameters; \<open>on_world\<close> runs a
  command on the network's services.
\<close>

section \<open>State\<close>

type_synonym node_id = "160 word"
type_synonym node_ref = nat

text \<open>\<open>TrackedSubnets\<close> is the flag \<open>track-subnets\<close>, the empty text if it is not set.\<close>

record tmp_node =
  TmpNodeID :: node_id
  NodeURI :: string
  TrackedSubnets :: string
  PartialSync :: bool

record tmp_chain =
  ChainID :: hash
  ChainConfigText :: string

record tmp_subnet =
  SubnetName :: string
  TmpSubnetID :: hash
  ValidatorIDs :: "node_id list"
  Chains :: "tmp_chain list"

record 'w LocalNetwork =
  World :: 'w
  Store :: "node_ref \<Rightarrow> tmp_node"
  NetNodes :: "node_ref list"
  NetSubnets :: "tmp_subnet list"
  ChainConfigs :: "string \<rightharpoonup> flags_map"
  extraNodes :: "node_ref list"
  primaryNetworkValidators :: "node_ref list"
  validatorManagers :: "hash \<rightharpoonup> address"
  deployedL1Specs :: "string \<rightharpoonup> bool"

record 'w net_lib =
  E2E :: "'w e2e_lib"
  StartNodes :: "node_ref list \<Rightarrow> (node_ref \<Rightarrow> tmp_node) \<Rightarrow> goerr + (node_ref \<Rightarrow> tmp_node)"
  ClientBackend :: "'w eth_client \<Rightarrow> 'w bind_lib"
  GetBlockchainID :: "string \<Rightarrow> string \<Rightarrow> ('w, goerr, hash) query"
  ClientChainID :: "'w eth_client \<Rightarrow> ('w, goerr, int) query"
  IssueTxsToActivateProposerVMFork :: "int \<Rightarrow> priv_key \<Rightarrow> 'w eth_client \<Rightarrow> ('w, goerr, unit) query"
  StartAggregator :: "SignatureAggregatorConfig \<Rightarrow> ('w, goerr, unit) query"
  UnmarshalConfig :: "string \<Rightarrow> goerr option \<times> flags_map"
  RestartNetwork :: "'w LocalNetwork \<Rightarrow> (goerr + unit) \<times> 'w LocalNetwork"

definition on_world :: "('w, 'a) run \<Rightarrow> ('w LocalNetwork, 'a) run" where
  "on_world = focus World (\<lambda>w n. n\<lparr>World := w\<rparr>)"

section \<open>Nodes\<close>

definition GetExtraNodes :: "int \<Rightarrow> ('w LocalNetwork, node_ref list) run" where
  "GetExtraNodes count n =
     (if \<not> count \<le> int (length (extraNodes n)) then rfail ''not enough extra nodes to use'' n
      else if count < 0 then run_of (panicked ''slice bounds out of range'') n
      else Some (Returned (take (nat count) (extraNodes n)),
             n\<lparr>extraNodes := drop (nat count) (extraNodes n)\<rparr>))"

text \<open>
  One iteration of the first loop of \<open>AddSubnetValidators\<close>: \<open>continue\<close> if the node tracks the L1, else its
  flags change and it joins the network.
\<close>

definition add_flags :: "string \<Rightarrow> bool \<Rightarrow> tmp_node \<Rightarrow> tmp_node" where
  "add_flags subnet partialSync node =
     (let node' = node\<lparr>TrackedSubnets := subnet\<rparr> in
      if partialSync then node'\<lparr>PartialSync := True\<rparr> else node')"

definition track_node ::
  "string \<Rightarrow> bool \<Rightarrow> 'w LocalNetwork \<Rightarrow> node_ref \<Rightarrow> 'w LocalNetwork" where
  "track_node subnet partialSync n node =
     (if TrackedSubnets (Store n node) = subnet then n
      else n\<lparr>Store := (Store n)(node := add_flags subnet partialSync (Store n node)),
        NetNodes := NetNodes n @ [node]\<rparr>)"

definition add_validators :: "hash \<Rightarrow> node_id list \<Rightarrow> tmp_subnet \<Rightarrow> tmp_subnet" where
  "add_validators subnetID ids s =
     (if TmpSubnetID s = subnetID then s\<lparr>ValidatorIDs := ValidatorIDs s @ ids\<rparr> else s)"

text \<open>\<open>AddSubnetValidators\<close> up to the refresh of the L1's description.\<close>

definition register_validators ::
  "'w net_lib \<Rightarrow> node_ref list \<Rightarrow> 'w L1TestInfo \<Rightarrow> bool \<Rightarrow> ('w LocalNetwork, unit) run" where
  "register_validators lib nodes l1 partialSync n =
     (let n1 = foldl (track_node (IDString (E2E lib) (SubnetID l1)) partialSync) n nodes in
      case StartNodes lib nodes (Store n1) of
        Inl e \<Rightarrow> rfail (hd (e @ [[]])) n1
      | Inr store \<Rightarrow>
          let n2 = n1\<lparr>Store := store\<rparr>;
              ids = map (\<lambda>node. TmpNodeID (store node)) nodes
          in Some (Returned (), n2\<lparr>NetSubnets := map (add_validators (SubnetID l1) ids) (NetSubnets n2)\<rparr>))"

section \<open>Descriptions of L1s\<close>

text \<open>\<open>GetURIForNodeID\<close> of \<open>tmpnet\<close>: the address of the first node with the identifier.\<close>

definition uri_for_node :: "'w LocalNetwork \<Rightarrow> node_id \<Rightarrow> goerr + string" where
  "uri_for_node n nodeID =
     (case find (\<lambda>node. TmpNodeID (Store n node) = nodeID) (NetNodes n) of
        None \<Rightarrow> Inl [''node not found'']
      | Some node \<Rightarrow> Inr (NodeURI (Store n node)))"

fun all_uris :: "'w LocalNetwork \<Rightarrow> node_id list \<Rightarrow> goerr + string list" where
  "all_uris n [] = Inr []"
| "all_uris n (i # is) = rbind (uri_for_node n i) (\<lambda>u. rbind (all_uris n is) (\<lambda>us. Inr (u # us)))"

text \<open>\<open>signers\<close> is read from the specification of the L1, after the clients are dialled.\<close>

definition l1_info ::
  "'w net_lib \<Rightarrow> hash \<Rightarrow> hash \<Rightarrow> string list \<Rightarrow> ('w LocalNetwork, bool) run \<Rightarrow>
   ('w LocalNetwork, 'w L1TestInfo) run" where
  "l1_info lib subnetID blockchainID nodeURIs signers =
     rbnd (first_of nodeURIs) (\<lambda>uri.
     rbnd (on_world (call_ok (DialClient (E2E lib)
         (HttpToWebsocketURI uri (IDString (E2E lib) blockchainID))))) (\<lambda>wsClient.
     rbnd (on_world (call_ok (DialClient (E2E lib)
         (HttpToRPCURI uri (IDString (E2E lib) blockchainID))))) (\<lambda>rpcClient.
     rbnd (on_world (call_ok (ClientChainID lib rpcClient))) (\<lambda>evmChainID.
     rbnd signers (\<lambda>requirePrimaryNetworkSigners.
     rret \<lparr>SubnetID = subnetID, BlockchainID = blockchainID, NodeURIs = nodeURIs,
       WSClient = wsClient, RPCClient = rpcClient, Backend = ClientBackend lib rpcClient,
       EVMChainID = evmChainID, RequirePrimaryNetworkSigners = requirePrimaryNetworkSigners\<rparr>)))))"

definition spec_signers :: "string \<Rightarrow> ('w LocalNetwork, bool) run" where
  "spec_signers l1Name =
     rbnd (run_of (gets (\<lambda>n. deployedL1Specs n l1Name))) (\<lambda>spec.
     expect (case spec of None \<Rightarrow> Inl [''unexpected value''] | Some signers \<Rightarrow> Inr signers))"

definition subnet_info :: "'w net_lib \<Rightarrow> tmp_subnet \<Rightarrow> ('w LocalNetwork, 'w L1TestInfo) run" where
  "subnet_info lib l1 =
     rbnd (run_of (gets (\<lambda>n. all_uris n (ValidatorIDs l1)))) (\<lambda>uris.
     rbnd (expect uris) (\<lambda>nodeURIs.
     rbnd (first_of (Chains l1)) (\<lambda>chain.
     l1_info lib (TmpSubnetID l1) (ChainID chain) nodeURIs (spec_signers (SubnetName l1)))))"

text \<open>\<open>None\<close> is the zero \<open>L1TestInfo\<close> of a subnet the network does not have.\<close>

definition GetL1Info :: "'w net_lib \<Rightarrow> hash \<Rightarrow> ('w LocalNetwork, 'w L1TestInfo option) run" where
  "GetL1Info lib subnetID =
     rbnd (run_of (gets (\<lambda>n. find (\<lambda>l1. TmpSubnetID l1 = subnetID) (NetSubnets n)))) (\<lambda>l1.
     case l1 of None \<Rightarrow> rret None | Some l1 \<Rightarrow> rbnd (subnet_info lib l1) (\<lambda>info. rret (Some info)))"

primrec subnet_infos :: "'w net_lib \<Rightarrow> tmp_subnet list \<Rightarrow> ('w LocalNetwork, 'w L1TestInfo list) run" where
  "subnet_infos lib [] = rret []"
| "subnet_infos lib (l1 # l1s) =
     rbnd (subnet_info lib l1) (\<lambda>info. rbnd (subnet_infos lib l1s) (\<lambda>infos. rret (info # infos)))"

definition GetL1Infos :: "'w net_lib \<Rightarrow> ('w LocalNetwork, 'w L1TestInfo list) run" where
  "GetL1Infos lib = rbnd (run_of (gets NetSubnets)) (subnet_infos lib)"

definition AddSubnetValidators ::
  "'w net_lib \<Rightarrow> node_ref list \<Rightarrow> 'w L1TestInfo \<Rightarrow> bool \<Rightarrow> ('w LocalNetwork, 'w L1TestInfo option) run" where
  "AddSubnetValidators lib nodes l1 partialSync =
     rbnd (register_validators lib nodes l1 partialSync) (\<lambda>_. GetL1Info lib (SubnetID l1))"

definition GetPrimaryNetworkInfo :: "'w net_lib \<Rightarrow> ('w LocalNetwork, 'w L1TestInfo) run" where
  "GetPrimaryNetworkInfo lib =
     rbnd (run_of (gets (\<lambda>n. map (\<lambda>node. NodeURI (Store n node)) (primaryNetworkValidators n)))) (\<lambda>nodeURIs.
     rbnd (first_of nodeURIs) (\<lambda>uri.
     rbnd (on_world (call_ok (GetBlockchainID lib uri ''C''))) (\<lambda>cChainBlockchainID.
     l1_info lib PrimaryNetworkID cChainBlockchainID nodeURIs (rret False))))"

definition GetAllL1Infos :: "'w net_lib \<Rightarrow> ('w LocalNetwork, 'w L1TestInfo list) run" where
  "GetAllL1Infos lib =
     rbnd (GetL1Infos lib) (\<lambda>l1s. rbnd (GetPrimaryNetworkInfo lib) (\<lambda>primary. rret (l1s @ [primary])))"

definition GetTwoL1s :: "'w net_lib \<Rightarrow> ('w LocalNetwork, 'w L1TestInfo \<times> 'w L1TestInfo) run" where
  "GetTwoL1s lib =
     rbnd (GetL1Infos lib) (\<lambda>l1s.
     rbnd (expect_that (2 \<le> length l1s)) (\<lambda>_. rret (l1s ! 0, l1s ! 1)))"

definition GetValidatorManager :: "'w LocalNetwork \<Rightarrow> hash \<Rightarrow> address" where
  "GetValidatorManager n subnetID = (case validatorManagers n subnetID of None \<Rightarrow> 0 | Some a \<Rightarrow> a)"

text \<open>The validators' services: the aggregator tracks every L1 and asks the first primary node.\<close>

definition GetSignatureAggregator :: "'w net_lib \<Rightarrow> ('w LocalNetwork, unit) run" where
  "GetSignatureAggregator lib =
     rbnd (GetL1Infos lib) (\<lambda>l1s.
     rbnd (GetPrimaryNetworkInfo lib) (\<lambda>primary.
     rbnd (first_of (NodeURIs primary)) (\<lambda>uri.
     on_world (NewSignatureAggregator (E2E lib) (StartAggregator lib) uri (map SubnetID l1s)))))"

text \<open>
  \<open>GetPChainInfo\<close> and \<open>SetupProposerVM\<close> of \<open>tests/utils/chain.go\<close>. The description of the P-Chain has only
  its blockchain and the primary network's identifier.
\<close>

definition GetPChainInfo :: "'w net_lib \<Rightarrow> 'w L1TestInfo \<Rightarrow> ('w, hash \<times> hash) run" where
  "GetPChainInfo lib cChainInfo =
     rbnd (first_of (NodeURIs cChainInfo)) (\<lambda>uri.
     rbnd (call_ok (GetBlockchainID lib uri ''P'')) (\<lambda>pChainBlockchainID.
     rret (pChainBlockchainID, PrimaryNetworkID)))"

definition SetupProposerVM :: "'w net_lib \<Rightarrow> ctx \<Rightarrow> priv_key \<Rightarrow> hash \<Rightarrow> ('w LocalNetwork, unit) run" where
  "SetupProposerVM lib c fundedKey subnetID =
     rbnd (run_of (gets (\<lambda>n. find (\<lambda>s. TmpSubnetID s = subnetID) (NetSubnets n)))) (\<lambda>found.
     rbnd (case found of None \<Rightarrow> run_of (panicked ''index out of range [-1]'') | Some s \<Rightarrow> rret s) (\<lambda>l1Details.
     rbnd (first_of (Chains l1Details)) (\<lambda>chain.
     rbnd (first_of (ValidatorIDs l1Details)) (\<lambda>nodeID.
     rbnd (run_of (gets (\<lambda>n. uri_for_node n nodeID))) (\<lambda>r.
     rbnd (expect r) (\<lambda>nodeURI.
     rbnd (on_world (call_ok (DialClient (E2E lib)
         (HttpToWebsocketURI nodeURI (IDString (E2E lib) (ChainID chain)))))) (\<lambda>client.
     rbnd (on_world (call_ok (ClientChainID lib client))) (\<lambda>chainIDInt.
     on_world (call_ok (IssueTxsToActivateProposerVMFork lib chainIDInt fundedKey client))))))))))"

section \<open>Chain configurations\<close>

definition set_chain :: "'w net_lib \<Rightarrow> string \<Rightarrow> string \<Rightarrow> tmp_chain \<Rightarrow> tmp_chain" where
  "set_chain lib chainIDStr chainConfig chain =
     (if IDString (E2E lib) (ChainID chain) = chainIDStr then chain\<lparr>ChainConfigText := chainConfig\<rparr> else chain)"

text \<open>An error of \<open>Unmarshal\<close> is logged, and what was decoded is stored all the same.\<close>

definition set_chain_config ::
  "'w net_lib \<Rightarrow> string \<times> string \<Rightarrow> 'w LocalNetwork \<Rightarrow> 'w LocalNetwork" where
  "set_chain_config lib entry n =
     (if fst entry = CChainPathSpecifier
      then n\<lparr>ChainConfigs := (ChainConfigs n)(CChainPathSpecifier \<mapsto> snd (UnmarshalConfig lib (snd entry)))\<rparr>
      else n\<lparr>NetSubnets := map (\<lambda>l1. l1\<lparr>Chains := map (set_chain lib (fst entry) (snd entry)) (Chains l1)\<rparr>)
        (NetSubnets n)\<rparr>)"

text \<open>\<open>visited\<close> is the order in which Go visits the map; errors of writing the files are only logged.\<close>

definition SetChainConfigs ::
  "'w net_lib \<Rightarrow> (string \<times> string) list \<Rightarrow> ('w LocalNetwork, unit) run" where
  "SetChainConfigs lib visited n =
     (case RestartNetwork lib (fold (set_chain_config lib) visited n) of
        (Inl e, n') \<Rightarrow> rfail (hd (e @ [[]])) n'
      | (Inr _, n') \<Rightarrow> Some (Returned (), n'))"

section \<open>Registering validators\<close>

text \<open>What the code relies on of \<open>StartNodes\<close>: the nodes keep their identifiers and flags.\<close>

definition keeps_nodes :: "'w net_lib \<Rightarrow> bool" where
  "keeps_nodes lib \<longleftrightarrow>
     (\<forall>nodes store store' x. StartNodes lib nodes store = Inr store' \<longrightarrow>
        TmpNodeID (store' x) = TmpNodeID (store x) \<and> TrackedSubnets (store' x) = TrackedSubnets (store x))"

definition tracked :: "string \<Rightarrow> bool \<Rightarrow> tmp_node \<Rightarrow> tmp_node" where
  "tracked subnet partialSync node =
     (if TrackedSubnets node = subnet then node else add_flags subnet partialSync node)"

lemma add_flags_simps [simp]:
  "TmpNodeID (add_flags subnet partialSync node) = TmpNodeID node"
  "TrackedSubnets (add_flags subnet partialSync node) = subnet"
  by (simp_all add: add_flags_def Let_def)

lemma tracked_simps [simp]:
  "TmpNodeID (tracked subnet partialSync node) = TmpNodeID node"
  "TrackedSubnets (tracked subnet partialSync node) = subnet"
  by (simp_all add: tracked_def)

lemma track_nodes:
  "distinct nodes \<Longrightarrow> foldl (track_node subnet partialSync) n nodes =
     n\<lparr>Store := \<lambda>x. if x \<in> set nodes then tracked subnet partialSync (Store n x) else Store n x,
       NetNodes := NetNodes n @ filter (\<lambda>x. TrackedSubnets (Store n x) \<noteq> subnet) nodes\<rparr>"
proof (induction nodes arbitrary: n)
  case (Cons node nodes)
  have "filter (\<lambda>x. TrackedSubnets (Store (track_node subnet partialSync n node) x) \<noteq> subnet) nodes =
      filter (\<lambda>x. TrackedSubnets (Store n x) \<noteq> subnet) nodes"
    using Cons.prems by (intro filter_cong) (auto simp: track_node_def)
  then show ?case
    using Cons by (auto simp: track_node_def tracked_def fun_eq_iff)
qed (simp add: fun_eq_iff)

definition node_ids :: "'w LocalNetwork \<Rightarrow> node_ref list \<Rightarrow> node_id list" where
  "node_ids n nodes = map (\<lambda>x. TmpNodeID (Store n x)) nodes"

text \<open>What registering does: the nodes that did not track the L1 join, all of them become validators.\<close>

lemma register_validators_effect:
  assumes "keeps_nodes lib" and "distinct nodes"
    and "register_validators lib nodes l1 partialSync n = Some (Returned (), n')"
  shows "NetNodes n' = NetNodes n @
      filter (\<lambda>x. TrackedSubnets (Store n x) \<noteq> IDString (E2E lib) (SubnetID l1)) nodes"
    and "NetSubnets n' = map (add_validators (SubnetID l1) (node_ids n nodes)) (NetSubnets n)"
    and "extraNodes n' = extraNodes n"
    and "TmpNodeID (Store n' x) = TmpNodeID (Store n x)"
    and "TrackedSubnets (Store n' x) =
      (if x \<in> set nodes then IDString (E2E lib) (SubnetID l1) else TrackedSubnets (Store n x))"
    and "validatorManagers n' = validatorManagers n"
proof -
  let ?subnet = "IDString (E2E lib) (SubnetID l1)"
  let ?n1 = "foldl (track_node ?subnet partialSync) n nodes"
  obtain store where start: "StartNodes lib nodes (Store ?n1) = Inr store"
    and n': "n' = ?n1\<lparr>Store := store,
      NetSubnets := map (add_validators (SubnetID l1) (map (\<lambda>node. TmpNodeID (store node)) nodes)) (NetSubnets ?n1)\<rparr>"
    using assms(3) by (auto simp: register_validators_def Let_def split: sum.splits)
  have keep: "TmpNodeID (store y) = TmpNodeID (Store ?n1 y)" "TrackedSubnets (store y) = TrackedSubnets (Store ?n1 y)" for y
    using assms(1) start unfolding keeps_nodes_def by blast+
  note n1 = track_nodes [OF assms(2), of ?subnet partialSync n]
  have ids: "TmpNodeID (store y) = TmpNodeID (Store n y)" for y
    unfolding keep n1 by simp
  show "NetNodes n' = NetNodes n @ filter (\<lambda>x. TrackedSubnets (Store n x) \<noteq> ?subnet) nodes"
    and "extraNodes n' = extraNodes n" and "validatorManagers n' = validatorManagers n"
    unfolding n' n1 by simp_all
  show "NetSubnets n' = map (add_validators (SubnetID l1) (node_ids n nodes)) (NetSubnets n)"
    unfolding n' ids n1 by (simp add: node_ids_def)
  show "TmpNodeID (Store n' x) = TmpNodeID (Store n x)"
    unfolding n' by (simp add: ids)
  show "TrackedSubnets (Store n' x) = (if x \<in> set nodes then ?subnet else TrackedSubnets (Store n x))"
    unfolding n' by (simp add: keep) (simp add: n1)
qed

text \<open>
  The invariant of a network: no node is listed twice, an extra node is not part of the network yet
  and tracks nothing, node identifiers are unique, and the validators of every L1 are nodes of the
  network, each once.
\<close>

definition network_ok :: "'w LocalNetwork \<Rightarrow> bool" where
  "network_ok n \<longleftrightarrow>
     distinct (NetNodes n @ extraNodes n) \<and> distinct (node_ids n (NetNodes n @ extraNodes n)) \<and>
     (\<forall>x \<in> set (extraNodes n). TrackedSubnets (Store n x) = []) \<and>
     (\<forall>l1 \<in> set (NetSubnets n). distinct (ValidatorIDs l1) \<and>
        set (ValidatorIDs l1) \<subseteq> set (node_ids n (NetNodes n)))"

lemma GetExtraNodes_Returned:
  assumes "GetExtraNodes count n = Some (Returned nodes, n1)"
  shows "int (length nodes) = count" and "extraNodes n = nodes @ extraNodes n1"
    and "n1 = n\<lparr>extraNodes := extraNodes n1\<rparr>"
  using assms by (auto simp: GetExtraNodes_def run_of_def panicked_def split: if_splits)

lemma all_uris_Ok: "set is \<subseteq> set (node_ids n (NetNodes n)) \<Longrightarrow> is_Ok (all_uris n is)"
proof (induction "is")
  case (Cons i "is")
  then have "find (\<lambda>node. TmpNodeID (Store n node) = i) (NetNodes n) \<noteq> None"
    by (auto simp: find_None_iff node_ids_def)
  with Cons show ?case
    by (auto simp: uri_for_node_def is_Ok_iff go_splits)
qed simp

text \<open>Registering the nodes taken, in any order, keeps the network consistent.\<close>

lemma registered_network:
  assumes "keeps_nodes lib" and "network_ok n" and "IDString (E2E lib) (SubnetID l1) \<noteq> []"
    and "extraNodes n = taken @ rest" and "distinct nodes" and "set nodes = set taken"
    and "register_validators lib nodes l1 partialSync (n\<lparr>extraNodes := rest\<rparr>) = Some (Returned (), n2)"
  shows "network_ok n2" and "NetNodes n2 = NetNodes n @ nodes" and "extraNodes n2 = rest"
    and "NetSubnets n2 = map (add_validators (SubnetID l1) (node_ids n nodes)) (NetSubnets n)"
    and "validatorManagers n2 = validatorManagers n"
    and "\<forall>s \<in> set (NetSubnets n2). is_Ok (all_uris n2 (ValidatorIDs s))"
proof -
  let ?n1 = "n\<lparr>extraNodes := rest\<rparr>"
  have ids1: "node_ids ?n1 xs = node_ids n xs" for xs
    by (simp add: node_ids_def)
  have set_ids: "set (node_ids n taken) = set (node_ids n nodes)"
    by (simp add: node_ids_def assms(6))
  have ok: "distinct (NetNodes n @ nodes @ rest)" "distinct (node_ids n (NetNodes n @ nodes @ rest))"
      "\<forall>x \<in> set nodes \<union> set rest. TrackedSubnets (Store n x) = []"
      "\<forall>s \<in> set (NetSubnets n). distinct (ValidatorIDs s) \<and> set (ValidatorIDs s) \<subseteq> set (node_ids n (NetNodes n))"
    using assms(2,5,6) by (auto simp: network_ok_def assms(4) node_ids_def distinct_map inj_on_def)
  note effect = register_validators_effect [OF assms(1,5,7), unfolded ids1]
  show nodes: "NetNodes n2 = NetNodes n @ nodes" and rest: "extraNodes n2 = rest"
    and subnets: "NetSubnets n2 = map (add_validators (SubnetID l1) (node_ids n nodes)) (NetSubnets n)"
    and "validatorManagers n2 = validatorManagers n"
    using ok(3) assms(3) effect(1-3,6) by simp_all
  have ids: "node_ids n2 xs = node_ids n xs" for xs
    by (simp add: node_ids_def effect(4))
  have "distinct (ValidatorIDs s) \<and> set (ValidatorIDs s) \<subseteq> set (node_ids n (NetNodes n @ nodes))"
    if "s \<in> set (NetSubnets n2)" for s
    using that ok(2,4) by (fastforce simp: subnets add_validators_def node_ids_def)
  moreover have "TrackedSubnets (Store n2 x) = []" if "x \<in> set rest" for x
    using that ok(1,3) by (auto simp: effect(5))
  ultimately show "network_ok n2"
    using ok(1,2) by (simp add: network_ok_def ids nodes rest)
  then show "\<forall>s \<in> set (NetSubnets n2). is_Ok (all_uris n2 (ValidatorIDs s))"
    by (simp add: network_ok_def all_uris_Ok)
qed

text \<open>
  C17. Taking extra nodes and registering them as validators of an L1 keeps the network consistent: no
  node is listed twice, no node is at once extra and in use, every L1's validators are nodes of the
  network, each once, so that the endpoints of every L1 are found. The nodes taken are the next ones,
  as many as asked for; they join the network and the L1, and no other L1 changes.
\<close>

theorem registering_extra_nodes_keeps_network:
  assumes "keeps_nodes lib" and "network_ok n" and "IDString (E2E lib) (SubnetID l1) \<noteq> []"
    and "GetExtraNodes count n = Some (Returned nodes, n1)"
    and "register_validators lib nodes l1 partialSync n1 = Some (Returned (), n2)"
  shows "network_ok n2 \<and> (\<forall>s \<in> set (NetSubnets n2). is_Ok (all_uris n2 (ValidatorIDs s))) \<and>
     int (length nodes) = count \<and> extraNodes n = nodes @ extraNodes n2 \<and>
     NetNodes n2 = NetNodes n @ nodes \<and>
     NetSubnets n2 = map (add_validators (SubnetID l1) (node_ids n nodes)) (NetSubnets n)"
proof -
  note taken = GetExtraNodes_Returned [OF assms(4)]
  have "distinct nodes"
    using assms(2) by (simp add: network_ok_def taken(2))
  note registered = registered_network [OF assms(1-3) taken(2) this refl, of partialSync n2]
  have "register_validators lib nodes l1 partialSync (n\<lparr>extraNodes := extraNodes n1\<rparr>) = Some (Returned (), n2)"
    using assms(5) taken(3) by simp
  from registered [OF this] taken(1,2) show ?thesis
    by simp
qed

text \<open>
  C37. Registering validators that an L1 already has leaves the nodes of the network alone, because the
  loop skips nodes that track the L1, but lists them a second time as validators of the L1: the second
  loop of \<open>AddSubnetValidators\<close> has no such test.
\<close>

theorem registering_again_repeats_validators:
  assumes "keeps_nodes lib" and "network_ok n" and "nodes \<noteq> []" and "distinct nodes"
    and "\<forall>x \<in> set nodes. TrackedSubnets (Store n x) = IDString (E2E lib) (SubnetID l1)"
    and "s \<in> set (NetSubnets n)" and "TmpSubnetID s = SubnetID l1"
    and "set (node_ids n nodes) \<subseteq> set (ValidatorIDs s)"
    and "register_validators lib nodes l1 partialSync n = Some (Returned (), n')"
  shows "NetNodes n' = NetNodes n \<and> \<not> network_ok n' \<and>
     (\<exists>s' \<in> set (NetSubnets n'). TmpSubnetID s' = SubnetID l1 \<and>
        ValidatorIDs s' = ValidatorIDs s @ node_ids n nodes \<and> \<not> distinct (ValidatorIDs s'))"
proof -
  note effect = register_validators_effect [OF assms(1,4,9)]
  let ?s' = "add_validators (SubnetID l1) (node_ids n nodes) s"
  have s': "?s' \<in> set (NetSubnets n')" "TmpSubnetID ?s' = SubnetID l1"
      "ValidatorIDs ?s' = ValidatorIDs s @ node_ids n nodes"
    using assms(6,7) by (simp_all add: effect(2) add_validators_def)
  obtain i where "i \<in> set (node_ids n nodes)"
    using assms(3) by (cases nodes) (auto simp: node_ids_def)
  then have repeated: "\<not> distinct (ValidatorIDs ?s')"
    using assms(8) by (auto simp: s'(3))
  moreover have "NetNodes n' = NetNodes n"
    using assms(5) by (simp add: effect(1))
  moreover have "\<not> network_ok n'"
    using s'(1) repeated by (auto simp: network_ok_def)
  ultimately show ?thesis
    using s' by blast
qed

section \<open>Descriptions and configurations\<close>

lemma on_world_Returned_iff:
  "on_world m n = Some (Returned x, n') \<longleftrightarrow> (\<exists>w. m (World n) = Some (Returned x, w) \<and> n' = n\<lparr>World := w\<rparr>)"
  by (simp add: on_world_def focus_Returned_iff)

definition describes :: "'w LocalNetwork \<Rightarrow> tmp_subnet \<Rightarrow> 'w L1TestInfo \<Rightarrow> bool" where
  "describes n l1 info \<longleftrightarrow>
     SubnetID info = TmpSubnetID l1 \<and> all_uris n (ValidatorIDs l1) = Inr (NodeURIs info) \<and>
     NodeURIs info \<noteq> [] \<and> (\<exists>chain rest. Chains l1 = chain # rest \<and> BlockchainID info = ChainID chain) \<and>
     deployedL1Specs n (SubnetName l1) = Some (RequirePrimaryNetworkSigners info)"

lemma all_uris_World [simp]: "all_uris (n\<lparr>World := w\<rparr>) is = all_uris n is"
  by (induction "is") (simp_all add: uri_for_node_def cong: option.case_cong)

lemma subnet_info_Returned:
  assumes "subnet_info lib l1 n = Some (Returned info, n')"
  shows "describes n l1 info" and "\<exists>w. n' = n\<lparr>World := w\<rparr>"
proof -
  obtain uris where "all_uris n (ValidatorIDs l1) = Inr uris"
      and "\<exists>chain rest. Chains l1 = chain # rest \<and>
        l1_info lib (TmpSubnetID l1) (ChainID chain) uris (spec_signers (SubnetName l1)) n = Some (Returned info, n')"
    using assms by (auto simp: subnet_info_def go_splits)
  then show "describes n l1 info" and "\<exists>w. n' = n\<lparr>World := w\<rparr>"
    by (auto simp: l1_info_def spec_signers_def describes_def on_world_Returned_iff go_splits
        split: option.splits)
qed

lemma describes_World [simp]: "describes (n\<lparr>World := w\<rparr>) = describes n"
  by (simp add: describes_def fun_eq_iff)

lemma subnet_infos_Returned:
  "subnet_infos lib l1s n = Some (Returned infos, n') \<Longrightarrow>
   list_all2 (describes n) l1s infos \<and> (\<exists>w. n' = n\<lparr>World := w\<rparr>)"
proof (induction l1s arbitrary: n infos)
  case (Cons l1 l1s)
  then obtain info n1 rest where 1: "subnet_info lib l1 n = Some (Returned info, n1)"
      and 2: "subnet_infos lib l1s n1 = Some (Returned rest, n')" and "infos = info # rest"
    by (auto simp: go_splits)
  moreover obtain w where "n1 = n\<lparr>World := w\<rparr>"
    using subnet_info_Returned(2) [OF 1] by blast
  ultimately show ?case
    using Cons.IH [OF 2] subnet_info_Returned(1) [OF 1] by auto
qed (auto intro: exI [of _ "World n'"])

text \<open>
  \<open>GetL1Infos\<close> describes the L1s in the order of the network's list, which the order of the
  specifications gave it, not in the order of their names; each description has the endpoints of the
  L1's validators, its first chain and its specification, and nothing of the network but the services
  it asked changes. Only the first two of the list are what \<open>GetTwoL1s\<close> returns.
\<close>

theorem l1_infos_follow_the_network:
  assumes "GetL1Infos lib n = Some (Returned infos, n')"
  shows "map SubnetID infos = map TmpSubnetID (NetSubnets n) \<and>
     list_all2 (\<lambda>l1 info. all_uris n (ValidatorIDs l1) = Inr (NodeURIs info) \<and> NodeURIs info \<noteq> [] \<and>
       (\<exists>chain rest. Chains l1 = chain # rest \<and> BlockchainID info = ChainID chain) \<and>
       deployedL1Specs n (SubnetName l1) = Some (RequirePrimaryNetworkSigners info)) (NetSubnets n) infos \<and>
     n' = n\<lparr>World := World n'\<rparr> \<and>
     (2 \<le> length infos \<longrightarrow> GetTwoL1s lib n = Some (Returned (infos ! 0, infos ! 1), n'))"
proof -
  have l: "subnet_infos lib (NetSubnets n) n = Some (Returned infos, n')"
    using assms by (simp add: GetL1Infos_def)
  note infos = subnet_infos_Returned [OF l]
  have "map SubnetID infos = map TmpSubnetID (NetSubnets n)"
    using conjunct1 [OF infos] by (induction rule: list_all2_induct) (simp_all add: describes_def)
  moreover have "n' = n\<lparr>World := World n'\<rparr>"
    using infos by auto
  moreover have "GetTwoL1s lib n = Some (Returned (infos ! 0, infos ! 1), n')" if "2 \<le> length infos"
    using that assms by (simp add: GetTwoL1s_def)
  ultimately show ?thesis
    using conjunct1 [OF infos] by (simp add: describes_def list_all2_conv_all_nth)
qed

text \<open>The configurations after all entries were visited, entry by entry.\<close>

definition config_after :: "'w net_lib \<Rightarrow> (string \<rightharpoonup> string) \<Rightarrow> tmp_chain \<Rightarrow> tmp_chain" where
  "config_after lib configs chain =
     (let k = IDString (E2E lib) (ChainID chain) in
      if k = CChainPathSpecifier then chain
      else case configs k of None \<Rightarrow> chain | Some config \<Rightarrow> chain\<lparr>ChainConfigText := config\<rparr>)"

definition c_chain_after ::
  "'w net_lib \<Rightarrow> (string \<rightharpoonup> string) \<Rightarrow> (string \<rightharpoonup> flags_map) \<Rightarrow> (string \<rightharpoonup> flags_map)" where
  "c_chain_after lib configs m =
     (case configs CChainPathSpecifier of
        None \<Rightarrow> m
      | Some config \<Rightarrow> m(CChainPathSpecifier \<mapsto> snd (UnmarshalConfig lib config)))"

definition configured :: "'w net_lib \<Rightarrow> (string \<rightharpoonup> string) \<Rightarrow> 'w LocalNetwork \<Rightarrow> 'w LocalNetwork" where
  "configured lib configs n =
     n\<lparr>ChainConfigs := c_chain_after lib configs (ChainConfigs n),
       NetSubnets := map (\<lambda>l1. l1\<lparr>Chains := map (config_after lib configs) (Chains l1)\<rparr>) (NetSubnets n)\<rparr>"

lemma config_after_Cons:
  assumes "k \<notin> fst ` set xs"
  shows "config_after lib (map_of ((k, v) # xs)) =
    config_after lib (map_of xs) \<circ> (if k = CChainPathSpecifier then id else set_chain lib k v)"
proof
  fix chain
  have "map_of xs k = None"
    using assms by (simp add: map_of_eq_None_iff)
  then show "config_after lib (map_of ((k, v) # xs)) chain =
      (config_after lib (map_of xs) \<circ> (if k = CChainPathSpecifier then id else set_chain lib k v)) chain"
    by (auto simp: config_after_def set_chain_def Let_def split: option.split)
qed

lemma configured_Cons:
  assumes "k \<notin> fst ` set xs"
  shows "configured lib (map_of xs) (set_chain_config lib (k, v) n) = configured lib (map_of ((k, v) # xs)) n"
proof -
  have "map_of xs k = None"
    using assms by (simp add: map_of_eq_None_iff)
  then show ?thesis
    unfolding configured_def config_after_Cons [OF assms]
    by (cases "k = CChainPathSpecifier") (simp_all add: set_chain_config_def c_chain_after_def comp_def)
qed

lemma set_chain_configs:
  "distinct (map fst xs) \<Longrightarrow> fold (set_chain_config lib) xs n = configured lib (map_of xs) n"
proof (induction xs arbitrary: n)
  case Nil
  have "config_after lib Map.empty = id"
    by (simp add: fun_eq_iff config_after_def)
  then show ?case
    by (simp add: configured_def c_chain_after_def)
next
  case (Cons x xs)
  then show ?case
    by (cases x) (simp add: configured_Cons del: map_of.simps)
qed

text \<open>
  Setting chain configurations gives the C-chain what its entry decodes to, every chain of an L1
  the configuration under its identifier, and leaves all others alone, before the network restarts.
  Hence the order in which Go visits the map of configurations plays no part.
\<close>

theorem chain_configs_ignore_map_order:
  assumes "set xs = set ys" and "distinct (map fst xs)" and "distinct (map fst ys)"
  shows "SetChainConfigs lib xs = SetChainConfigs lib ys \<and>
     SetChainConfigs lib xs n =
       (case RestartNetwork lib (configured lib (map_of xs) n) of
          (Inl e, n') \<Rightarrow> Some (Failed (hd (e @ [[]])), n')
        | (Inr _, n') \<Rightarrow> Some (Returned (), n'))"
proof -
  have "map_of xs = map_of ys"
    by (rule map_of_eqI) (use assms in \<open>auto simp: map_of_eq_Some_iff\<close>)
  then have "fold (set_chain_config lib) xs = fold (set_chain_config lib) ys"
    using assms(2,3) by (intro ext) (simp add: set_chain_configs)
  then have "SetChainConfigs lib xs = SetChainConfigs lib ys"
    by (intro ext) (simp add: SetChainConfigs_def)
  moreover have "SetChainConfigs lib xs n =
       (case RestartNetwork lib (configured lib (map_of xs) n) of
          (Inl e, n') \<Rightarrow> Some (Failed (hd (e @ [[]])), n')
        | (Inr _, n') \<Rightarrow> Some (Returned (), n'))"
    unfolding SetChainConfigs_def set_chain_configs [OF assms(2)]
    by (auto split: prod.split sum.split)
  ultimately show ?thesis
    by blast
qed

end
