(* ===== verification/IcttUtils.thy ===== *)
theory IcttUtils
  imports TeleporterUtils ContractUtils ERC20TokenHomeBinding NativeTokenHomeBinding TokenHomeBinding
    ERC20TokenRemoteBinding NativeTokenRemoteBinding TokenRemoteBinding WrappedNativeTokenBinding
    MockERC20SendAndCallReceiverBinding MockNativeSendAndCallReceiverBinding ExampleERC20DecimalsBinding
begin

text \<open>
  \<open>tests/utils/ictt.go\<close>: deploying token homes and remotes, registering a remote with its home, adding
  collateral, sending tokens between chains and checking what arrived. The index of the next deployer
  key of a native remote is a package variable, part of the state of \<open>DeployNativeRemote\<close>; a
  \<open>*big.Int\<close> argument that the code changes is returned with its value afterwards.
\<close>

section \<open>Constants\<close>

definition DefaultERC20RequiredGas :: int where
  "DefaultERC20RequiredGas = 100000"

definition DefaultNativeTokenRequiredGas :: int where
  "DefaultNativeTokenRequiredGas = 135000"

definition NativeTokenDecimals :: u8 where
  "NativeTokenDecimals = 18"

definition nativeTokenRemoteDeployerKeys :: "string list" where
  "nativeTokenRemoteDeployerKeys =
     [''aad7440febfc8f9d73a58c3cb1f1754779a566978f9ebffcd4f4698e9b043985'',
      ''81e5e98c89023dabbe43e1081314eaae174330aae6b44c9d1371b6c0bb7ae74a'',
      ''5ded9cacaca7b88d6a3dc24641cfe41ef00186f98e7fa65135eac50fd5977f7a'',
      ''a6c530cb407778d10e1f70be6624aa57d0c724f6f9cb585e9744052d7f48ba19'',
      ''e95fa6fd1d2a6b02890b75062bed583ce6256c5b473b3323b93ac4cbf20dbe7a'',
      ''8a92f3f468ce5b0d99f9aaa55695f93e03dbbb6d5e3faba80f92a7876be740d6'',
      ''ebb7f0cf71e0b6fd880326e5f5061b8456b0aef81901566cbe578b5024852ec9'']"

section \<open>Deployments\<close>

text \<open>
  What the deployments of homes and remotes share: options, the registry of the L1 and its latest
  version, the deployment, and the wait for it.
\<close>

definition deploy_transferrer ::
  "'w e2e_lib \<Rightarrow> ctx \<Rightarrow> 'w TeleporterTestInfo \<Rightarrow> priv_key \<Rightarrow> 'w L1TestInfo \<Rightarrow>
   (TransactOpts \<Rightarrow> address \<Rightarrow> int \<Rightarrow> ('w, goerr + address \<times> hash \<times> 'w bound_contract) prog) \<Rightarrow>
   ('w, address \<times> 'w bound_contract) run" where
  "deploy_transferrer lib c t senderKey l1 deploy =
     rbnd (expect (NewKeyedTransactorWithChainID lib senderKey (EVMChainID l1))) (\<lambda>opts.
     rbnd (registry_address_of t l1) (\<lambda>registryAddress.
     rbnd (GetLatestTeleporterVersion t l1) (\<lambda>version.
     rbnd (run_of (deploy opts registryAddress version)) (\<lambda>r.
     rbnd (expect r) (\<lambda>(implAddress, tx, transferrer).
     rbnd (WaitForTransactionSuccess lib c l1 tx) (\<lambda>_. rret (implAddress, transferrer)))))))"

definition DeployERC20Home ::
  "'w e2e_lib \<Rightarrow> ctx \<Rightarrow> 'w TeleporterTestInfo \<Rightarrow> priv_key \<Rightarrow> 'w L1TestInfo \<Rightarrow> address \<Rightarrow> address \<Rightarrow> u8 \<Rightarrow>
   ('w, address \<times> 'w bound_contract) run" where
  "DeployERC20Home lib c t senderKey l1 teleporterManager tokenAddress tokenHomeDecimals =
     deploy_transferrer lib c t senderKey l1 (\<lambda>opts registryAddress version.
       DeployERC20TokenHome (Backend l1) (ContractBin lib ''ERC20TokenHome'') opts registryAddress
         teleporterManager version tokenAddress tokenHomeDecimals)"

definition remote_settings :: "address \<Rightarrow> address \<Rightarrow> int \<Rightarrow> hash \<Rightarrow> address \<Rightarrow> u8 \<Rightarrow> TokenRemoteSettings" where
  "remote_settings registryAddress teleporterManager version tokenHomeBlockchainID tokenHomeAddress
       tokenHomeDecimals =
     \<lparr>TokenRemoteSettings_TeleporterRegistryAddress = registryAddress,
      TokenRemoteSettings_TeleporterManager = teleporterManager,
      TokenRemoteSettings_MinTeleporterVersion = version,
      TokenRemoteSettings_TokenHomeBlockchainID = tokenHomeBlockchainID,
      TokenRemoteSettings_TokenHomeAddress = tokenHomeAddress,
      TokenRemoteSettings_TokenHomeDecimals = tokenHomeDecimals\<rparr>"

definition DeployERC20Remote ::
  "'w e2e_lib \<Rightarrow> ctx \<Rightarrow> 'w TeleporterTestInfo \<Rightarrow> priv_key \<Rightarrow> 'w L1TestInfo \<Rightarrow> address \<Rightarrow> hash \<Rightarrow> address \<Rightarrow>
   u8 \<Rightarrow> string \<Rightarrow> string \<Rightarrow> u8 \<Rightarrow> ('w, address \<times> 'w bound_contract) run" where
  "DeployERC20Remote lib c t senderKey l1 teleporterManager tokenHomeBlockchainID tokenHomeAddress
       tokenHomeDecimals tokenName tokenSymbol tokenDecimals =
     deploy_transferrer lib c t senderKey l1 (\<lambda>opts registryAddress version.
       DeployERC20TokenRemote (Backend l1) (ContractBin lib ''ERC20TokenRemote'') opts
         (remote_settings registryAddress teleporterManager version tokenHomeBlockchainID tokenHomeAddress
           tokenHomeDecimals)
         tokenName tokenSymbol tokenDecimals)"

definition DeployNativeHome ::
  "'w e2e_lib \<Rightarrow> ctx \<Rightarrow> 'w TeleporterTestInfo \<Rightarrow> priv_key \<Rightarrow> 'w L1TestInfo \<Rightarrow> address \<Rightarrow> address \<Rightarrow>
   ('w, address \<times> 'w bound_contract) run" where
  "DeployNativeHome lib c t senderKey l1 teleporterManager tokenAddress =
     deploy_transferrer lib c t senderKey l1 (\<lambda>opts registryAddress version.
       DeployNativeTokenHome (Backend l1) (ContractBin lib ''NativeTokenHome'') opts registryAddress
         teleporterManager version tokenAddress)"

text \<open>The package variable \<open>nativeTokenRemoteDeployerKeyIndex\<close>, 0 at the start, and the network.\<close>

record 'w remote_deployer =
  KeyIndex :: nat
  KeyWorld :: 'w

abbreviation on_key_world :: "('w, 'a) run \<Rightarrow> ('w remote_deployer, 'a) run" where
  "on_key_world \<equiv> focus KeyWorld (\<lambda>w s. s\<lparr>KeyWorld := w\<rparr>)"

text \<open>\<open>HexToECDSA\<close> is the parser of keys of \<open>go-ethereum\<close>.\<close>

definition DeployNativeRemote ::
  "'w e2e_lib \<Rightarrow> (string \<Rightarrow> goerr + priv_key) \<Rightarrow> ctx \<Rightarrow> 'w TeleporterTestInfo \<Rightarrow> 'w L1TestInfo \<Rightarrow> string \<Rightarrow>
   address \<Rightarrow> hash \<Rightarrow> address \<Rightarrow> u8 \<Rightarrow> int \<Rightarrow> int \<Rightarrow> ('w remote_deployer, address \<times> 'w bound_contract) run" where
  "DeployNativeRemote lib HexToECDSA c t l1 symbol teleporterManager tokenHomeBlockchainID tokenHomeAddress
       tokenHomeDecimals initialReserveImbalance burnedFeesReportingRewardPercentage =
     rbnd (run_of (gets KeyIndex)) (\<lambda>i.
     rbnd (expect_that (i < length nativeTokenRemoteDeployerKeys)) (\<lambda>_.
     rbnd (expect (HexToECDSA (nativeTokenRemoteDeployerKeys ! i))) (\<lambda>deployerPK.
     rbnd (on_key_world (deploy_transferrer lib c t deployerPK l1 (\<lambda>opts registryAddress version.
         DeployNativeTokenRemote (Backend l1) (ContractBin lib ''NativeTokenRemote'') opts
           (remote_settings registryAddress teleporterManager version tokenHomeBlockchainID tokenHomeAddress
             tokenHomeDecimals)
           symbol initialReserveImbalance burnedFeesReportingRewardPercentage))) (\<lambda>deployed.
     rbnd (run_of (upd (\<lambda>s. s\<lparr>KeyIndex := Suc (KeyIndex s)\<rparr>))) (\<lambda>_. rret deployed)))))"

definition DeployWrappedNative ::
  "'w e2e_lib \<Rightarrow> ctx \<Rightarrow> priv_key \<Rightarrow> 'w L1TestInfo \<Rightarrow> string \<Rightarrow> ('w, address \<times> 'w bound_contract) run" where
  "DeployWrappedNative lib c senderKey l1 tokenSymbol =
     rbnd (deploy_and_wait lib c l1 senderKey (\<lambda>opts.
         DeployWrappedNativeToken (Backend l1) (ContractBin lib ''WrappedNativeToken'') opts tokenSymbol))
       (\<lambda>(addr, token, receipt). rret (addr, token))"

definition DeployNativeReceiver ::
  "'w e2e_lib \<Rightarrow> ctx \<Rightarrow> priv_key \<Rightarrow> 'w L1TestInfo \<Rightarrow> ('w, address \<times> 'w bound_contract) run" where
  "DeployNativeReceiver lib c senderKey l1 =
     rbnd (deploy_and_wait lib c l1 senderKey
         (DeployMockNativeSendAndCallReceiver (Backend l1) (ContractBin lib ''MockNativeSendAndCallReceiver'')))
       (\<lambda>(addr, contract, receipt). rret (addr, contract))"

definition DeployERC20Receiver ::
  "'w e2e_lib \<Rightarrow> ctx \<Rightarrow> priv_key \<Rightarrow> 'w L1TestInfo \<Rightarrow> ('w, address \<times> 'w bound_contract) run" where
  "DeployERC20Receiver lib c senderKey l1 =
     rbnd (deploy_and_wait lib c l1 senderKey
         (DeployMockERC20SendAndCallReceiver (Backend l1) (ContractBin lib ''MockERC20SendAndCallReceiver'')))
       (\<lambda>(addr, contract, receipt). rret (addr, contract))"

definition DeployERC20Decimals ::
  "'w e2e_lib \<Rightarrow> ctx \<Rightarrow> priv_key \<Rightarrow> 'w L1TestInfo \<Rightarrow> u8 \<Rightarrow> ('w, address \<times> 'w bound_contract) run" where
  "DeployERC20Decimals lib c senderKey l1 tokenDecimals =
     rbnd (deploy_and_wait lib c l1 senderKey (\<lambda>opts.
         DeployExampleERC20Decimals (Backend l1) (ContractBin lib ''ExampleERC20Decimals'') opts tokenDecimals))
       (\<lambda>(addr, token, receipt).
     rbnd (call_contract (ExampleERC20DecimalsCaller_BalanceOf token no_call_opts
         (PubkeyToAddress lib senderKey))) (\<lambda>balance.
     rbnd (expect_that (balance = ExpectedExampleERC20DeployerBalance)) (\<lambda>_. rret (addr, token))))"

section \<open>Approvals\<close>

definition ERC20DecimalsApprove ::
  "'w e2e_lib \<Rightarrow> ctx \<Rightarrow> 'w bound_contract \<Rightarrow> address \<Rightarrow> int \<Rightarrow> 'w L1TestInfo \<Rightarrow> priv_key \<Rightarrow> ('w, unit) run" where
  "ERC20DecimalsApprove lib c token spender amount l1 senderKey =
     rbnd (transact_and_wait lib c l1 senderKey (\<lambda>opts.
         ExampleERC20DecimalsTransactor_Approve token opts spender amount)) (\<lambda>_. rret ())"

text \<open>The interface \<open>WrappedToken\<close> and the two contracts the code uses as one.\<close>

record 'w WrappedToken =
  WrappedDeposit :: "TransactOpts \<Rightarrow> ('w, goerr + hash) prog"
  WrappedApprove :: "TransactOpts \<Rightarrow> address \<Rightarrow> int \<Rightarrow> ('w, goerr + hash) prog"

definition wrapped_token :: "'w bound_contract \<Rightarrow> 'w WrappedToken" where
  "wrapped_token c = \<lparr>WrappedDeposit = WrappedNativeTokenTransactor_Deposit c,
     WrappedApprove = WrappedNativeTokenTransactor_Approve c\<rparr>"

definition wrapped_remote :: "'w bound_contract \<Rightarrow> 'w WrappedToken" where
  "wrapped_remote c = \<lparr>WrappedDeposit = NativeTokenRemoteTransactor_Deposit c,
     WrappedApprove = NativeTokenRemoteTransactor_Approve c\<rparr>"

definition DepositAndApproveWrappedTokenForFees ::
  "'w e2e_lib \<Rightarrow> ctx \<Rightarrow> 'w L1TestInfo \<Rightarrow> 'w WrappedToken \<Rightarrow> int \<Rightarrow> address \<Rightarrow> priv_key \<Rightarrow> ('w, unit) run" where
  "DepositAndApproveWrappedTokenForFees lib c l1 wrappedToken amount spender senderKey =
     (if amount = 0 then rret ()
      else
        rbnd (transact_and_wait lib c l1 senderKey (\<lambda>opts.
            WrappedDeposit wrappedToken (opts\<lparr>TransactValue := amount\<rparr>))) (\<lambda>_.
        rbnd (transact_and_wait lib c l1 senderKey (\<lambda>opts.
            WrappedApprove wrappedToken opts spender amount)) (\<lambda>_. rret ())))"

section \<open>Registration\<close>

text \<open>The search for \<open>MessageExecuted\<close>: without it, the trace is printed and the test ends.\<close>

definition expect_executed ::
  "'w TeleporterTestInfo \<Rightarrow> 'w L1TestInfo \<Rightarrow> mined_receipt \<Rightarrow> ('w, unit) run" where
  "expect_executed t l1 receipt =
     rbnd (messenger_of t l1) (\<lambda>messenger.
     case GetEventFromLogs ''*teleportermessenger.TeleporterMessengerMessageExecuted'' (RcptLogs receipt)
         (TeleporterMessengerFilterer_ParseMessageExecuted messenger) of
       Inl _ \<Rightarrow> TraceTransactionAndExit (RPCClient l1) (RcptTxHash receipt)
     | Inr _ \<Rightarrow> rret ())"

definition registration_fee :: int where
  "registration_fee = 1000000000000000000"

text \<open>From the deployment of the fee token to the receipt of the delivery on the home's chain.\<close>

definition send_registration ::
  "'w e2e_lib \<Rightarrow> ctx \<Rightarrow> 'w TeleporterTestInfo \<Rightarrow> 'w L1TestInfo \<Rightarrow> 'w L1TestInfo \<Rightarrow> address \<Rightarrow> priv_key \<Rightarrow>
   ('w, mined_receipt) run" where
  "send_registration lib c t homeL1 remoteL1 remoteAddress fundedKey =
     rbnd (expect (NewTokenRemote (Backend remoteL1) remoteAddress)) (\<lambda>tokenRemote.
     rbnd (DeployERC20Decimals lib c fundedKey remoteL1 18) (\<lambda>(feeTokenAddress, feeToken).
     rbnd (ERC20DecimalsApprove lib c feeToken remoteAddress registration_fee remoteL1 fundedKey) (\<lambda>_.
     rbnd (transact_and_wait lib c remoteL1 fundedKey (\<lambda>opts.
         TokenRemoteTransactor_RegisterWithHome tokenRemote opts
           \<lparr>FeeTokenAddress = feeTokenAddress, Amount = registration_fee\<rparr>)) (\<lambda>sent.
     rbnd (RelayTeleporterMessage lib c t sent remoteL1 homeL1 True fundedKey []) (\<lambda>receipt.
     rbnd (expect_executed t homeL1 receipt) (\<lambda>_. rret receipt))))))"

text \<open>The checks of the registration event. \<open>calculateCollateralNeeded\<close> panics on a zero multiplier.\<close>

definition check_registration ::
  "'w L1TestInfo \<Rightarrow> address \<Rightarrow> 'w L1TestInfo \<Rightarrow> address \<Rightarrow> int \<Rightarrow> int \<Rightarrow> bool \<Rightarrow> mined_receipt \<Rightarrow> ('w, int) run" where
  "check_registration homeL1 homeAddress remoteL1 remoteAddress expectedInitialReserveBalance
       expectedTokenMultiplier expectedmultiplyOnRemote receipt =
     rbnd (expect (NewTokenHome (Backend homeL1) homeAddress)) (\<lambda>tokenHome.
     rbnd (find_event ''*tokenhome.TokenHomeRemoteRegistered'' receipt
         (TokenHomeFilterer_ParseRemoteRegistered tokenHome)) (\<lambda>registerEvent.
     rbnd (field ''RemoteBlockchainID'' go_arr32 registerEvent) (\<lambda>remoteBlockchainID.
     rbnd (expect_that (remoteBlockchainID = BlockchainID remoteL1)) (\<lambda>_.
     rbnd (field ''RemoteTokenTransferrerAddress'' go_addr registerEvent) (\<lambda>transferrer.
     rbnd (expect_that (transferrer = remoteAddress)) (\<lambda>_.
     rbnd (run_of (lift_go (calculateCollateralNeeded expectedInitialReserveBalance
         expectedTokenMultiplier expectedmultiplyOnRemote))) (\<lambda>collateralNeeded.
     rbnd (field ''InitialCollateralNeeded'' go_big registerEvent) (\<lambda>initialCollateralNeeded.
     rbnd (ExpectBigEqual initialCollateralNeeded collateralNeeded) (\<lambda>_.
     rret collateralNeeded)))))))))"

definition RegisterTokenRemoteOnHome ::
  "'w e2e_lib \<Rightarrow> ctx \<Rightarrow> 'w TeleporterTestInfo \<Rightarrow> 'w L1TestInfo \<Rightarrow> address \<Rightarrow> 'w L1TestInfo \<Rightarrow> address \<Rightarrow>
   int \<Rightarrow> int \<Rightarrow> bool \<Rightarrow> priv_key \<Rightarrow> ('w, int) run" where
  "RegisterTokenRemoteOnHome lib c t homeL1 homeAddress remoteL1 remoteAddress
       expectedInitialReserveBalance expectedTokenMultiplier expectedmultiplyOnRemote fundedKey =
     rbnd (send_registration lib c t homeL1 remoteL1 remoteAddress fundedKey)
       (check_registration homeL1 homeAddress remoteL1 remoteAddress expectedInitialReserveBalance
         expectedTokenMultiplier expectedmultiplyOnRemote)"

definition RegisterERC20TokenRemoteOnHome ::
  "'w e2e_lib \<Rightarrow> ctx \<Rightarrow> 'w TeleporterTestInfo \<Rightarrow> 'w L1TestInfo \<Rightarrow> address \<Rightarrow> 'w L1TestInfo \<Rightarrow> address \<Rightarrow>
   priv_key \<Rightarrow> ('w, unit) run" where
  "RegisterERC20TokenRemoteOnHome lib c t homeL1 homeAddress remoteL1 remoteAddress fundedKey =
     rbnd (RegisterTokenRemoteOnHome lib c t homeL1 homeAddress remoteL1 remoteAddress 0 1 False fundedKey)
       (\<lambda>_. rret ())"

section \<open>Collateral\<close>

text \<open>
  The checks after a transaction that adds collateral. The amount is changed in place if it exceeds the
  collateral still needed, so the result is the value the caller's variable has afterwards.
\<close>

definition check_collateral ::
  "string \<Rightarrow> (evm_log \<Rightarrow> goerr + event_fields) \<Rightarrow> ('w, goerr + RemoteTokenTransferrerSettings) prog \<Rightarrow>
   hash \<Rightarrow> address \<Rightarrow> int \<Rightarrow> mined_receipt \<Rightarrow> ('w, int) run" where
  "check_collateral type_name parser getSettings remoteBlockchainID remoteAddress collateralAmount receipt =
     rbnd (find_event type_name receipt parser) (\<lambda>event.
     rbnd (field ''RemoteBlockchainID'' go_arr32 event) (\<lambda>chain.
     rbnd (expect_that (chain = remoteBlockchainID)) (\<lambda>_.
     rbnd (field ''RemoteTokenTransferrerAddress'' go_addr event) (\<lambda>transferrer.
     rbnd (expect_that (transferrer = remoteAddress)) (\<lambda>_.
     rbnd (call_contract getSettings) (\<lambda>remoteSettings.
     let collateralAmount' =
       (if CollateralNeeded remoteSettings < collateralAmount
        then collateralAmount - CollateralNeeded remoteSettings else collateralAmount) in
     rbnd (field ''Amount'' go_big event) (\<lambda>amount.
     rbnd (ExpectBigEqual amount collateralAmount') (\<lambda>_.
     rbnd (field ''Remaining'' go_big event) (\<lambda>remaining.
     rbnd (ExpectBigEqual remaining 0) (\<lambda>_. rret collateralAmount'))))))))))"

definition AddCollateralToERC20TokenHome ::
  "'w e2e_lib \<Rightarrow> ctx \<Rightarrow> 'w L1TestInfo \<Rightarrow> 'w bound_contract \<Rightarrow> address \<Rightarrow> 'w bound_contract \<Rightarrow> hash \<Rightarrow>
   address \<Rightarrow> int \<Rightarrow> priv_key \<Rightarrow> ('w, int) run" where
  "AddCollateralToERC20TokenHome lib c l1 erc20TokenHome erc20TokenHomeAddress exampleERC20
       remoteBlockchainID remoteAddress collateralAmount senderKey =
     rbnd (ERC20DecimalsApprove lib c exampleERC20 erc20TokenHomeAddress collateralAmount l1 senderKey) (\<lambda>_.
     rbnd (transact_and_wait lib c l1 senderKey (\<lambda>opts.
         ERC20TokenHomeTransactor_AddCollateral erc20TokenHome opts remoteBlockchainID remoteAddress
           collateralAmount))
       (check_collateral ''*erc20tokenhome.ERC20TokenHomeCollateralAdded''
         (ERC20TokenHomeFilterer_ParseCollateralAdded erc20TokenHome)
         (ERC20TokenHomeCaller_GetRemoteTokenTransferrerSettings erc20TokenHome no_call_opts
           remoteBlockchainID remoteAddress)
         remoteBlockchainID remoteAddress collateralAmount))"

definition AddCollateralToNativeTokenHome ::
  "'w e2e_lib \<Rightarrow> ctx \<Rightarrow> 'w L1TestInfo \<Rightarrow> 'w bound_contract \<Rightarrow> hash \<Rightarrow> address \<Rightarrow> int \<Rightarrow> priv_key \<Rightarrow>
   ('w, int) run" where
  "AddCollateralToNativeTokenHome lib c l1 nativeTokenHome remoteBlockchainID remoteAddress
       collateralAmount senderKey =
     rbnd (transact_and_wait lib c l1 senderKey (\<lambda>opts.
         NativeTokenHomeTransactor_AddCollateral nativeTokenHome (opts\<lparr>TransactValue := collateralAmount\<rparr>)
           remoteBlockchainID remoteAddress))
       (check_collateral ''*nativetokenhome.NativeTokenHomeCollateralAdded''
         (NativeTokenHomeFilterer_ParseCollateralAdded nativeTokenHome)
         (NativeTokenHomeCaller_GetRemoteTokenTransferrerSettings nativeTokenHome no_call_opts
           remoteBlockchainID remoteAddress)
         remoteBlockchainID remoteAddress collateralAmount)"

section \<open>Sending tokens\<close>

text \<open>The checks of a \<open>TokensSent\<close> event: the sender, and the amount that is computed after it.\<close>

definition check_sent ::
  "'w e2e_lib \<Rightarrow> string \<Rightarrow> (evm_log \<Rightarrow> goerr + event_fields) \<Rightarrow> priv_key \<Rightarrow> ('w, int) run \<Rightarrow> mined_receipt \<Rightarrow>
   ('w, mined_receipt \<times> int) run" where
  "check_sent lib type_name parser senderKey expectedAmount receipt =
     rbnd (find_event type_name receipt parser) (\<lambda>event.
     rbnd (field ''Sender'' go_addr event) (\<lambda>sender.
     rbnd (expect_that (sender = PubkeyToAddress lib senderKey)) (\<lambda>_.
     rbnd expectedAmount (\<lambda>expected.
     rbnd (field ''Amount'' go_big event) (\<lambda>amount.
     rbnd (ExpectBigEqual amount expected) (\<lambda>_. rret (receipt, amount)))))))"

text \<open>The same of a \<open>TokensAndCallSent\<close> event, whose input names the contract that is called.\<close>

definition check_call_sent ::
  "string \<Rightarrow> (evm_log \<Rightarrow> goerr + event_fields) \<Rightarrow> address \<Rightarrow> ('w, int) run \<Rightarrow> mined_receipt \<Rightarrow>
   ('w, mined_receipt \<times> int) run" where
  "check_call_sent type_name parser recipientContract expectedAmount receipt =
     rbnd (find_event type_name receipt parser) (\<lambda>event.
     rbnd (field ''Input'' (\<lambda>input. Option.bind (go_field ''RecipientContract'' input) go_addr) event)
       (\<lambda>recipient.
     rbnd (expect_that (recipient = recipientContract)) (\<lambda>_.
     rbnd expectedAmount (\<lambda>expected.
     rbnd (field ''Amount'' go_big event) (\<lambda>amount.
     rbnd (ExpectBigEqual amount expected) (\<lambda>_. rret (receipt, amount)))))))"

definition erc20_scaled :: "'w bound_contract \<Rightarrow> hash \<Rightarrow> address \<Rightarrow> int \<Rightarrow> ('w, int) run" where
  "erc20_scaled home chain remoteAddress amount =
     run_of (GetScaledAmountFromERC20TokenHome
       (ERC20TokenHomeCaller_GetRemoteTokenTransferrerSettings home no_call_opts) chain remoteAddress amount)"

definition native_scaled :: "'w bound_contract \<Rightarrow> hash \<Rightarrow> address \<Rightarrow> int \<Rightarrow> ('w, int) run" where
  "native_scaled home chain remoteAddress amount =
     run_of (GetScaledAmountFromNativeTokenHome
       (NativeTokenHomeCaller_GetRemoteTokenTransferrerSettings home no_call_opts) chain remoteAddress amount)"

definition SendERC20TokenHome ::
  "'w e2e_lib \<Rightarrow> ctx \<Rightarrow> 'w L1TestInfo \<Rightarrow> 'w bound_contract \<Rightarrow> address \<Rightarrow> 'w bound_contract \<Rightarrow>
   SendTokensInput \<Rightarrow> int \<Rightarrow> priv_key \<Rightarrow> ('w, mined_receipt \<times> int) run" where
  "SendERC20TokenHome lib c l1 erc20TokenHome erc20TokenHomeAddress token input amount senderKey =
     rbnd (ERC20DecimalsApprove lib c token erc20TokenHomeAddress (amount + SendTokensInput_PrimaryFee input)
         l1 senderKey) (\<lambda>_.
     rbnd (transact_and_wait lib c l1 senderKey (\<lambda>opts.
         ERC20TokenHomeTransactor_Send erc20TokenHome opts input amount))
       (check_sent lib ''*erc20tokenhome.ERC20TokenHomeTokensSent''
         (ERC20TokenHomeFilterer_ParseTokensSent erc20TokenHome) senderKey
         (erc20_scaled erc20TokenHome (SendTokensInput_DestinationBlockchainID input)
           (SendTokensInput_DestinationTokenTransferrerAddress input) amount)))"

definition SendNativeTokenHome ::
  "'w e2e_lib \<Rightarrow> ctx \<Rightarrow> 'w L1TestInfo \<Rightarrow> 'w bound_contract \<Rightarrow> address \<Rightarrow> 'w bound_contract \<Rightarrow>
   SendTokensInput \<Rightarrow> int \<Rightarrow> priv_key \<Rightarrow> ('w, mined_receipt \<times> int) run" where
  "SendNativeTokenHome lib c l1 nativeTokenHome nativeTokenHomeAddress wrappedToken input amount senderKey =
     rbnd (DepositAndApproveWrappedTokenForFees lib c l1 (wrapped_token wrappedToken)
         (SendTokensInput_PrimaryFee input) nativeTokenHomeAddress senderKey) (\<lambda>_.
     rbnd (transact_and_wait lib c l1 senderKey (\<lambda>opts.
         NativeTokenHomeTransactor_Send nativeTokenHome (opts\<lparr>TransactValue := amount\<rparr>) input))
       (check_sent lib ''*nativetokenhome.NativeTokenHomeTokensSent''
         (NativeTokenHomeFilterer_ParseTokensSent nativeTokenHome) senderKey
         (native_scaled nativeTokenHome (SendTokensInput_DestinationBlockchainID input)
           (SendTokensInput_DestinationTokenTransferrerAddress input) amount)))"

definition SendNativeTokenRemote ::
  "'w e2e_lib \<Rightarrow> ctx \<Rightarrow> 'w L1TestInfo \<Rightarrow> 'w bound_contract \<Rightarrow> address \<Rightarrow> SendTokensInput \<Rightarrow> int \<Rightarrow> priv_key \<Rightarrow>
   ('w, mined_receipt \<times> int) run" where
  "SendNativeTokenRemote lib c l1 nativeTokenRemote nativeTokenRemoteAddress input amount senderKey =
     rbnd (DepositAndApproveWrappedTokenForFees lib c l1 (wrapped_remote nativeTokenRemote)
         (SendTokensInput_PrimaryFee input) nativeTokenRemoteAddress senderKey) (\<lambda>_.
     rbnd (transact_and_wait lib c l1 senderKey (\<lambda>opts.
         NativeTokenRemoteTransactor_Send nativeTokenRemote (opts\<lparr>TransactValue := amount\<rparr>) input))
       (check_sent lib ''*nativetokenremote.NativeTokenRemoteTokensSent''
         (NativeTokenRemoteFilterer_ParseTokensSent nativeTokenRemote) senderKey (rret amount)))"

text \<open>The two transactions share one set of options.\<close>

definition approve_then ::
  "'w e2e_lib \<Rightarrow> ctx \<Rightarrow> 'w L1TestInfo \<Rightarrow> 'w bound_contract \<Rightarrow> address \<Rightarrow> int \<Rightarrow> priv_key \<Rightarrow>
   (TransactOpts \<Rightarrow> ('w, goerr + hash) prog) \<Rightarrow> ('w, mined_receipt) run" where
  "approve_then lib c l1 erc20TokenRemote spender allowance senderKey method =
     rbnd (expect (NewKeyedTransactorWithChainID lib senderKey (EVMChainID l1))) (\<lambda>opts.
     rbnd (call_contract (ERC20TokenRemoteTransactor_Approve erc20TokenRemote opts spender allowance)) (\<lambda>tx.
     rbnd (WaitForTransactionSuccess lib c l1 tx) (\<lambda>_.
     rbnd (call_contract (method opts)) (WaitForTransactionSuccess lib c l1))))"

definition SendERC20TokenRemote ::
  "'w e2e_lib \<Rightarrow> ctx \<Rightarrow> 'w L1TestInfo \<Rightarrow> 'w bound_contract \<Rightarrow> address \<Rightarrow> SendTokensInput \<Rightarrow> int \<Rightarrow> priv_key \<Rightarrow>
   ('w, mined_receipt \<times> int) run" where
  "SendERC20TokenRemote lib c l1 erc20TokenRemote erc20TokenRemoteAddress input amount senderKey =
     rbnd (approve_then lib c l1 erc20TokenRemote erc20TokenRemoteAddress
         (amount + SendTokensInput_PrimaryFee input) senderKey (\<lambda>opts.
           ERC20TokenRemoteTransactor_Send erc20TokenRemote opts input amount))
       (check_sent lib ''*erc20tokenremote.ERC20TokenRemoteTokensSent''
         (ERC20TokenRemoteFilterer_ParseTokensSent erc20TokenRemote) senderKey (rret amount))"

definition SendAndCallERC20TokenHome ::
  "'w e2e_lib \<Rightarrow> ctx \<Rightarrow> 'w L1TestInfo \<Rightarrow> 'w bound_contract \<Rightarrow> address \<Rightarrow> 'w bound_contract \<Rightarrow>
   SendAndCallInput \<Rightarrow> int \<Rightarrow> priv_key \<Rightarrow> ('w, mined_receipt \<times> int) run" where
  "SendAndCallERC20TokenHome lib c l1 erc20TokenHome erc20TokenHomeAddress exampleToken input amount
       senderKey =
     rbnd (ERC20DecimalsApprove lib c exampleToken erc20TokenHomeAddress
         (amount + SendAndCallInput_PrimaryFee input) l1 senderKey) (\<lambda>_.
     rbnd (transact_and_wait lib c l1 senderKey (\<lambda>opts.
         ERC20TokenHomeTransactor_SendAndCall erc20TokenHome opts input amount))
       (check_call_sent ''*erc20tokenhome.ERC20TokenHomeTokensAndCallSent''
         (ERC20TokenHomeFilterer_ParseTokensAndCallSent erc20TokenHome)
         (SendAndCallInput_RecipientContract input)
         (erc20_scaled erc20TokenHome (SendAndCallInput_DestinationBlockchainID input)
           (SendAndCallInput_DestinationTokenTransferrerAddress input) amount)))"

definition SendAndCallNativeTokenHome ::
  "'w e2e_lib \<Rightarrow> ctx \<Rightarrow> 'w L1TestInfo \<Rightarrow> 'w bound_contract \<Rightarrow> SendAndCallInput \<Rightarrow> int \<Rightarrow> priv_key \<Rightarrow>
   ('w, mined_receipt \<times> int) run" where
  "SendAndCallNativeTokenHome lib c l1 nativeTokenHome input amount senderKey =
     rbnd (transact_and_wait lib c l1 senderKey (\<lambda>opts.
         NativeTokenHomeTransactor_SendAndCall nativeTokenHome (opts\<lparr>TransactValue := amount\<rparr>) input))
       (check_call_sent ''*nativetokenhome.NativeTokenHomeTokensAndCallSent''
         (NativeTokenHomeFilterer_ParseTokensAndCallSent nativeTokenHome)
         (SendAndCallInput_RecipientContract input)
         (native_scaled nativeTokenHome (SendAndCallInput_DestinationBlockchainID input)
           (SendAndCallInput_DestinationTokenTransferrerAddress input) amount))"

text \<open>The code also takes the scaling of the remote, which it does not use.\<close>

definition SendAndCallNativeTokenRemote ::
  "'w e2e_lib \<Rightarrow> ctx \<Rightarrow> 'w L1TestInfo \<Rightarrow> 'w bound_contract \<Rightarrow> SendAndCallInput \<Rightarrow> int \<Rightarrow> priv_key \<Rightarrow>
   ('w, mined_receipt \<times> int) run" where
  "SendAndCallNativeTokenRemote lib c l1 nativeTokenRemote input amount senderKey =
     rbnd (transact_and_wait lib c l1 senderKey (\<lambda>opts.
         NativeTokenRemoteTransactor_SendAndCall nativeTokenRemote (opts\<lparr>TransactValue := amount\<rparr>) input))
       (check_call_sent ''*nativetokenremote.NativeTokenRemoteTokensAndCallSent''
         (NativeTokenRemoteFilterer_ParseTokensAndCallSent nativeTokenRemote)
         (SendAndCallInput_RecipientContract input) (rret (amount - SendAndCallInput_PrimaryFee input)))"

definition SendAndCallERC20TokenRemote ::
  "'w e2e_lib \<Rightarrow> ctx \<Rightarrow> 'w L1TestInfo \<Rightarrow> 'w bound_contract \<Rightarrow> address \<Rightarrow> SendAndCallInput \<Rightarrow> int \<Rightarrow> priv_key \<Rightarrow>
   ('w, mined_receipt \<times> int) run" where
  "SendAndCallERC20TokenRemote lib c l1 erc20TokenRemote erc20TokenRemoteAddress input amount senderKey =
     rbnd (approve_then lib c l1 erc20TokenRemote erc20TokenRemoteAddress
         (amount + SendAndCallInput_PrimaryFee input) senderKey (\<lambda>opts.
           ERC20TokenRemoteTransactor_SendAndCall erc20TokenRemote opts input amount))
       (check_call_sent ''*erc20tokenremote.ERC20TokenRemoteTokensAndCallSent''
         (ERC20TokenRemoteFilterer_ParseTokensAndCallSent erc20TokenRemote)
         (SendAndCallInput_RecipientContract input) (rret amount))"

section \<open>Withdrawals\<close>

definition check_transfer ::
  "string \<Rightarrow> (evm_log \<Rightarrow> goerr + event_fields) \<Rightarrow> address \<Rightarrow> mined_receipt \<Rightarrow> address \<Rightarrow> int \<Rightarrow>
   ('w, unit) run" where
  "check_transfer type_name parser sender receipt expectedRecipientAddress expectedAmount =
     rbnd (find_event type_name receipt parser) (\<lambda>event.
     rbnd (field ''From'' go_addr event) (\<lambda>from.
     rbnd (expect_that (from = sender)) (\<lambda>_.
     rbnd (field ''To'' go_addr event) (\<lambda>to.
     rbnd (expect_that (to = expectedRecipientAddress)) (\<lambda>_.
     rbnd (field ''Value'' go_big event) (\<lambda>value. ExpectBigEqual value expectedAmount))))))"

definition CheckERC20TokenHomeWithdrawal ::
  "address \<Rightarrow> 'w bound_contract \<Rightarrow> mined_receipt \<Rightarrow> address \<Rightarrow> int \<Rightarrow> ('w, unit) run" where
  "CheckERC20TokenHomeWithdrawal erc20TokenHomeAddress exampleERC20 =
     check_transfer ''*exampleerc20decimals.ExampleERC20DecimalsTransfer''
       (ExampleERC20DecimalsFilterer_ParseTransfer exampleERC20) erc20TokenHomeAddress"

text \<open>A remote mints: the transfer comes from the zero address.\<close>

definition CheckERC20TokenRemoteWithdrawal ::
  "'w bound_contract \<Rightarrow> mined_receipt \<Rightarrow> address \<Rightarrow> int \<Rightarrow> ('w, unit) run" where
  "CheckERC20TokenRemoteWithdrawal erc20TokenRemote =
     check_transfer ''*erc20tokenremote.ERC20TokenRemoteTransfer''
       (ERC20TokenRemoteFilterer_ParseTransfer erc20TokenRemote) 0"

definition CheckNativeTokenHomeWithdrawal ::
  "address \<Rightarrow> 'w bound_contract \<Rightarrow> mined_receipt \<Rightarrow> int \<Rightarrow> ('w, unit) run" where
  "CheckNativeTokenHomeWithdrawal nativeTokenHomeAddress wrappedNativeToken receipt expectedAmount =
     rbnd (find_event ''*wrappednativetoken.WrappedNativeTokenWithdrawal'' receipt
         (WrappedNativeTokenFilterer_ParseWithdrawal wrappedNativeToken)) (\<lambda>event.
     rbnd (field ''Sender'' go_addr event) (\<lambda>sender.
     rbnd (expect_that (sender = nativeTokenHomeAddress)) (\<lambda>_.
     rbnd (field ''Amount'' go_big event) (\<lambda>amount. ExpectBigEqual amount expectedAmount))))"

section \<open>Multi-hop transfers\<close>

definition multi_hop_input ::
  "hash \<Rightarrow> address \<Rightarrow> address \<Rightarrow> address \<Rightarrow> int \<Rightarrow> int \<Rightarrow> SendTokensInput" where
  "multi_hop_input toChain toTokenTransferrerAddress recipientAddress feeTokenAddress secondaryFeeAmount
       requiredGas =
     \<lparr>SendTokensInput_DestinationBlockchainID = toChain,
      SendTokensInput_DestinationTokenTransferrerAddress = toTokenTransferrerAddress,
      SendTokensInput_Recipient = recipientAddress,
      SendTokensInput_PrimaryFeeTokenAddress = feeTokenAddress,
      SendTokensInput_PrimaryFee = 0,
      SendTokensInput_SecondaryFee = secondaryFeeAmount,
      SendTokensInput_RequiredGasLimit = requiredGas,
      SendTokensInput_MultiHopFallback = recipientAddress\<rparr>"

text \<open>The variable \<open>amount\<close> is assigned again: from then on it is the amount of the event.\<close>

definition SendNativeMultiHopAndVerify ::
  "'w e2e_lib \<Rightarrow> ctx \<Rightarrow> 'w TeleporterTestInfo \<Rightarrow> priv_key \<Rightarrow> address \<Rightarrow> 'w L1TestInfo \<Rightarrow> 'w bound_contract \<Rightarrow>
   address \<Rightarrow> 'w L1TestInfo \<Rightarrow> address \<Rightarrow> 'w L1TestInfo \<Rightarrow> int \<Rightarrow> int \<Rightarrow> ('w, unit) run" where
  "SendNativeMultiHopAndVerify lib c t sendingKey recipientAddress fromL1 fromTokenTransferrer
       fromTokenTransferrerAddress toL1 toTokenTransferrerAddress cChainInfo amount secondaryFeeAmount =
     rbnd (SendNativeTokenRemote lib c fromL1 fromTokenTransferrer fromTokenTransferrerAddress
         (multi_hop_input (BlockchainID toL1) toTokenTransferrerAddress recipientAddress
           fromTokenTransferrerAddress secondaryFeeAmount DefaultNativeTokenRequiredGas)
         amount sendingKey) (\<lambda>(originReceipt, sentAmount).
     rbnd (RelayTeleporterMessage lib c t originReceipt fromL1 cChainInfo True sendingKey [])
       (\<lambda>intermediateReceipt.
     rbnd (call_ok (BalanceAt (RPCClient toL1) c recipientAddress)) (\<lambda>initialBalance.
     rbnd (RelayTeleporterMessage lib c t intermediateReceipt cChainInfo toL1 True sendingKey []) (\<lambda>_.
     CheckBalance c recipientAddress (initialBalance + (sentAmount - secondaryFeeAmount)) (RPCClient toL1)))))"

definition SendERC20TokenMultiHopAndVerify ::
  "'w e2e_lib \<Rightarrow> ctx \<Rightarrow> 'w TeleporterTestInfo \<Rightarrow> priv_key \<Rightarrow> priv_key \<Rightarrow> address \<Rightarrow> 'w L1TestInfo \<Rightarrow>
   'w bound_contract \<Rightarrow> address \<Rightarrow> 'w L1TestInfo \<Rightarrow> 'w bound_contract \<Rightarrow> address \<Rightarrow> 'w L1TestInfo \<Rightarrow> int \<Rightarrow> int \<Rightarrow>
   ('w, unit) run" where
  "SendERC20TokenMultiHopAndVerify lib c t fundedKey sendingKey recipientAddress fromL1
       fromTokenTransferrer fromTokenTransferrerAddress toL1 toTokenTransferrer toTokenTransferrerAddress
       cChainInfo amount secondaryFeeAmount =
     rbnd (SendNativeTransfer lib c fromL1 fundedKey (PubkeyToAddress lib sendingKey) 1000000000000000000) (\<lambda>_.
     rbnd (SendERC20TokenRemote lib c fromL1 fromTokenTransferrer fromTokenTransferrerAddress
         (multi_hop_input (BlockchainID toL1) toTokenTransferrerAddress recipientAddress 0
           secondaryFeeAmount DefaultERC20RequiredGas)
         amount sendingKey) (\<lambda>(originReceipt, sentAmount).
     rbnd (RelayTeleporterMessage lib c t originReceipt fromL1 cChainInfo True fundedKey [])
       (\<lambda>intermediateReceipt.
     rbnd (expect_executed t cChainInfo intermediateReceipt) (\<lambda>_.
     rbnd (call_contract (ERC20TokenRemoteCaller_BalanceOf toTokenTransferrer no_call_opts recipientAddress))
       (\<lambda>initialBalance.
     rbnd (RelayTeleporterMessage lib c t intermediateReceipt cChainInfo toL1 True fundedKey [])
       (\<lambda>remoteReceipt.
     rbnd (expect_executed t toL1 remoteReceipt) (\<lambda>_.
     rbnd (CheckERC20TokenRemoteWithdrawal toTokenTransferrer remoteReceipt recipientAddress
         (sentAmount - secondaryFeeAmount)) (\<lambda>_.
     rbnd (call_contract (ERC20TokenRemoteCaller_BalanceOf toTokenTransferrer no_call_opts recipientAddress))
       (\<lambda>balance.
     ExpectBigEqual balance (initialBalance + (sentAmount - secondaryFeeAmount)))))))))))"

end
