(* ===== verification/IcttChecks.thy ===== *)
theory IcttChecks
  imports IcttUtils
begin

text \<open>
  What the utilities of \<open>ictt.go\<close> establish: the deployer keys of native remotes, when the registration of
  a remote and the collateral added for it pass the checks against the contract \<open>TokenHome.sol\<close>, and
  the two transactions of a transfer.
\<close>

section \<open>Deployer keys\<close>

text \<open>The deployment of one native remote, as the test flows do it.\<close>

record 'w native_remote =
  RemoteL1 :: "'w L1TestInfo"
  RemoteSymbol :: string
  RemoteManager :: address
  RemoteHomeChain :: hash
  RemoteHome :: address
  RemoteHomeDecimals :: u8
  RemoteImbalance :: int
  RemoteReward :: int

definition deploy_native ::
  "'w e2e_lib \<Rightarrow> (string \<Rightarrow> goerr + priv_key) \<Rightarrow> ctx \<Rightarrow> 'w TeleporterTestInfo \<Rightarrow> 'w native_remote \<Rightarrow>
   ('w remote_deployer, address \<times> 'w bound_contract) run" where
  "deploy_native lib hex c t d = DeployNativeRemote lib hex c t (RemoteL1 d) (RemoteSymbol d) (RemoteManager d)
     (RemoteHomeChain d) (RemoteHome d) (RemoteHomeDecimals d) (RemoteImbalance d) (RemoteReward d)"

primrec deploy_natives ::
  "'w e2e_lib \<Rightarrow> (string \<Rightarrow> goerr + priv_key) \<Rightarrow> ctx \<Rightarrow> 'w TeleporterTestInfo \<Rightarrow> 'w native_remote list \<Rightarrow>
   ('w remote_deployer, (address \<times> 'w bound_contract) list) run" where
  "deploy_natives lib hex c t [] = rret []"
| "deploy_natives lib hex c t (d # ds) =
     rbnd (deploy_native lib hex c t d) (\<lambda>r. rbnd (deploy_natives lib hex c t ds) (\<lambda>rs. rret (r # rs)))"

text \<open>The same contract deployed with a given key, on the network alone.\<close>

definition native_deployed_with ::
  "'w e2e_lib \<Rightarrow> ctx \<Rightarrow> 'w TeleporterTestInfo \<Rightarrow> 'w native_remote \<Rightarrow> priv_key \<Rightarrow>
   ('w, address \<times> 'w bound_contract) run" where
  "native_deployed_with lib c t d key =
     deploy_transferrer lib c t key (RemoteL1 d) (\<lambda>opts registryAddress version.
       DeployNativeTokenRemote (Backend (RemoteL1 d)) (ContractBin lib ''NativeTokenRemote'') opts
         (remote_settings registryAddress (RemoteManager d) version (RemoteHomeChain d) (RemoteHome d)
           (RemoteHomeDecimals d))
         (RemoteSymbol d) (RemoteImbalance d) (RemoteReward d))"

lemma deploy_native_Returned:
  "deploy_native lib hex c t d s = Some (Returned r, s') \<longleftrightarrow>
   KeyIndex s < length nativeTokenRemoteDeployerKeys \<and>
   (\<exists>key w. hex (nativeTokenRemoteDeployerKeys ! KeyIndex s) = Inr key \<and>
      native_deployed_with lib c t d key (KeyWorld s) = Some (Returned r, w) \<and>
      s' = \<lparr>KeyIndex = Suc (KeyIndex s), KeyWorld = w\<rparr>)"
  by (cases s)
    (fastforce simp: deploy_native_def DeployNativeRemote_def native_deployed_with_def go_splits)

lemma deploy_native_exhausted:
  "length nativeTokenRemoteDeployerKeys \<le> KeyIndex s \<Longrightarrow>
   deploy_native lib hex c t d s = Some (Failed ''unexpected value'', s)"
  by (simp add: deploy_native_def DeployNativeRemote_def)

lemma deploy_native_failed_keeps_index:
  "deploy_native lib hex c t d s = Some (r, s') \<Longrightarrow> \<forall>x. r \<noteq> Returned x \<Longrightarrow> KeyIndex s' = KeyIndex s"
  by (auto simp: deploy_native_def DeployNativeRemote_def rbnd_def run_of_def gets_def upd_def ret_def
      focus_def expect_def expect_that_def check_def failed_def rret_def rfail_def
      split: option.splits prod.splits outcome.splits if_splits sum.splits)

lemma deployer_keys_distinct: "distinct nativeTokenRemoteDeployerKeys" "length nativeTokenRemoteDeployerKeys = 7"
  by (simp_all add: nativeTokenRemoteDeployerKeys_def)

lemma deploy_natives_steps:
  "deploy_natives lib hex c t ds s = Some (Returned rs, s') \<Longrightarrow>
   KeyIndex s' = KeyIndex s + length ds \<and> length rs = length ds \<and>
   (KeyIndex s \<le> length nativeTokenRemoteDeployerKeys \<longrightarrow> KeyIndex s' \<le> length nativeTokenRemoteDeployerKeys) \<and>
   (\<exists>ws. length ws = Suc (length ds) \<and> hd ws = KeyWorld s \<and> last ws = KeyWorld s' \<and>
      (\<forall>i < length ds. \<exists>key. hex (nativeTokenRemoteDeployerKeys ! (KeyIndex s + i)) = Inr key \<and>
         native_deployed_with lib c t (ds ! i) key (ws ! i) = Some (Returned (rs ! i), ws ! Suc i)))"
proof (induction ds arbitrary: s rs)
  case Nil
  then show ?case
    by (auto intro: exI [of _ "[KeyWorld s]"])
next
  case (Cons d ds)
  then obtain r s1 rest where first: "deploy_native lib hex c t d s = Some (Returned r, s1)"
      and rest: "deploy_natives lib hex c t ds s1 = Some (Returned rest, s')" and rs: "rs = r # rest"
    by (auto simp: go_splits)
  obtain key w where key: "hex (nativeTokenRemoteDeployerKeys ! KeyIndex s) = Inr key"
      and run: "native_deployed_with lib c t d key (KeyWorld s) = Some (Returned r, w)"
      and s1: "s1 = \<lparr>KeyIndex = Suc (KeyIndex s), KeyWorld = w\<rparr>"
      and bound: "KeyIndex s < length nativeTokenRemoteDeployerKeys"
    using first by (auto simp: deploy_native_Returned)
  obtain ws where ws: "length ws = Suc (length ds)" "hd ws = w" "last ws = KeyWorld s'"
      and steps: "\<forall>i < length ds. \<exists>key. hex (nativeTokenRemoteDeployerKeys ! (Suc (KeyIndex s) + i)) = Inr key \<and>
         native_deployed_with lib c t (ds ! i) key (ws ! i) = Some (Returned (rest ! i), ws ! Suc i)"
      and len: "KeyIndex s' = Suc (KeyIndex s) + length ds" "length rest = length ds"
      and le: "KeyIndex s' \<le> length nativeTokenRemoteDeployerKeys"
    using Cons.IH [OF rest] bound by (auto simp: s1)
  have "ws ! 0 = w"
    using ws(1,2) by (cases ws) auto
  have "\<exists>key. hex (nativeTokenRemoteDeployerKeys ! (KeyIndex s + i)) = Inr key \<and>
      native_deployed_with lib c t ((d # ds) ! i) key ((KeyWorld s # ws) ! i) =
        Some (Returned (rs ! i), (KeyWorld s # ws) ! Suc i)" if "i < length (d # ds)" for i
    using that key run steps \<open>ws ! 0 = w\<close> rs by (cases i) auto
  then show ?case
    using ws len le rs bound by (intro conjI exI [of _ "KeyWorld s # ws"]) (auto simp: last_ConsR)
qed

text \<open>
  C7. Native remotes deployed one after another each use a deployer key of their own, the keys in the
  order of the list, at most seven in a run of the tests; a further deployment fails before anything
  is sent. A deployment that fails leaves its key for the next.
\<close>

theorem native_remotes_use_distinct_keys:
  assumes "deploy_natives lib hex c t ds s = Some (Returned rs, s')" and "KeyIndex s = 0"
  shows "length ds \<le> 7 \<and> KeyIndex s' = length ds \<and> distinct (take (length ds) nativeTokenRemoteDeployerKeys) \<and>
     (\<exists>ws. length ws = Suc (length ds) \<and> hd ws = KeyWorld s \<and> last ws = KeyWorld s' \<and>
        (\<forall>i < length ds. \<exists>key. hex (nativeTokenRemoteDeployerKeys ! i) = Inr key \<and>
           native_deployed_with lib c t (ds ! i) key (ws ! i) = Some (Returned (rs ! i), ws ! Suc i))) \<and>
     (length ds = 7 \<longrightarrow> (\<forall>d. deploy_native lib hex c t d s' = Some (Failed ''unexpected value'', s'))) \<and>
     (\<forall>d r s2. deploy_native lib hex c t d s' = Some (r, s2) \<longrightarrow> (\<forall>x. r \<noteq> Returned x) \<longrightarrow>
        KeyIndex s2 = length ds)"
  using deploy_natives_steps [OF assms(1)] assms(2) deployer_keys_distinct
    deploy_native_failed_keeps_index [of lib hex c t _ s'] deploy_native_exhausted [of s' lib hex c t]
  by simp

section \<open>Registration\<close>

text \<open>An event with the given fields.\<close>

definition has_fields :: "event_fields \<Rightarrow> (string \<times> go_val) list \<Rightarrow> bool" where
  "has_fields event fs \<longleftrightarrow> (\<forall>(name, v) \<in> set fs. map_of event name = Some v)"

lemma has_fields_simps [simp]:
  "has_fields event []" "has_fields event ((name, v) # fs) \<longleftrightarrow> map_of event name = Some v \<and> has_fields event fs"
  by (auto simp: has_fields_def)

lemma field_eval [simp]: "map_of event name = Some v \<Longrightarrow> conv v = Some x \<Longrightarrow> field name conv event = rret x"
  by (simp add: field_def fun_eq_iff)

lemma find_event_eval [simp]:
  "GetEventFromLogs ty (RcptLogs receipt) parser = Inr event \<Longrightarrow> find_event ty receipt parser = rret event"
  by (simp add: find_event_def)

text \<open>
  C34. A registration whose event reports the collateral that \<open>TokenHome.sol\<close> computes passes the final
  check of the test, and gives that collateral, exactly if the remote does not multiply or the
  remainders of the reserve imbalance and of the already divided collateral vanish together. Otherwise
  the test fails although the contract is right.
\<close>

theorem registration_check_rejects_correct_home:
  assumes "send_registration lib c t homeL1 remoteL1 remoteAddress key s = Some (Returned receipt, s1)"
    and "NewTokenHome (Backend homeL1) homeAddress = Inr tokenHome"
    and "GetEventFromLogs ''*tokenhome.TokenHomeRemoteRegistered'' (RcptLogs receipt)
      (TokenHomeFilterer_ParseRemoteRegistered tokenHome) = Inr event"
    and "has_fields event [(''RemoteBlockchainID'', GArr32 (BlockchainID remoteL1)),
      (''RemoteTokenTransferrerAddress'', GAddr remoteAddress), (''InitialCollateralNeeded'', GBig x)]"
    and "sol_collateralNeeded imbalance m mul = Inr x" and "0 < m" and "0 \<le> imbalance"
  shows "RegisterTokenRemoteOnHome lib c t homeL1 homeAddress remoteL1 remoteAddress imbalance m mul key s =
     (if \<not> mul \<or> (imbalance mod m = 0 \<longleftrightarrow> imbalance div m mod m = 0) then Some (Returned x, s1)
      else Some (Failed ''unexpected value'', s1))"
proof -
  obtain y where y: "calculateCollateralNeeded imbalance m mul = Done y"
      and iff: "y = x \<longleftrightarrow> \<not> mul \<or> (imbalance mod m = 0 \<longleftrightarrow> imbalance div m mod m = 0)"
    using collateral_differs_from_contract [OF assms(6,7,5)] by (elim exE conjE)
  have "check_registration homeL1 homeAddress remoteL1 remoteAddress imbalance m mul receipt s1 =
      (if x = y then Some (Returned y, s1) else Some (Failed ''unexpected value'', s1))"
    using assms(2-4) y by (simp add: check_registration_def lift_go_def ExpectBigEqual_def)
  then show ?thesis
    using assms(1) iff by (auto simp: RegisterTokenRemoteOnHome_def)
qed

section \<open>Collateral\<close>

text \<open>
  \<open>_addCollateral\<close> of \<open>TokenHome.sol\<close> for a remote with these settings, on a token without transfer fees
  (\<open>_deposit\<close> gives the amount): the collateral added, the collateral still needed and the amount that
  goes back to the sender.
\<close>

definition sol_addCollateral :: "bool \<Rightarrow> int \<Rightarrow> int \<Rightarrow> goerr + int \<times> int \<times> int" where
  "sol_addCollateral registered collateralNeeded amount =
     (if \<not> registered then Inl [''TokenHome: remote not registered'']
      else if \<not> 0 < collateralNeeded then Inl [''TokenHome: zero collateral needed'']
      else if collateralNeeded \<le> amount then Inr (collateralNeeded, 0, amount - collateralNeeded)
      else Inr (amount, collateralNeeded - amount, 0))"

text \<open>
  What a home did that followed the contract: the event it emitted and the settings it keeps, in which
  only \<open>CollateralNeeded\<close> has changed.
\<close>

definition collateral_added ::
  "hash \<Rightarrow> address \<Rightarrow> int \<Rightarrow> int \<Rightarrow> event_fields \<Rightarrow> RemoteTokenTransferrerSettings \<Rightarrow> bool" where
  "collateral_added chain remoteAddress needed amount event settings \<longleftrightarrow>
     (\<exists>added remaining excess. sol_addCollateral (Registered settings) needed amount = Inr (added, remaining, excess) \<and>
        has_fields event [(''RemoteBlockchainID'', GArr32 chain),
          (''RemoteTokenTransferrerAddress'', GAddr remoteAddress), (''Amount'', GBig added),
          (''Remaining'', GBig remaining)] \<and>
        CollateralNeeded settings = remaining)"

lemma check_collateral_exact:
  assumes "collateral_added chain remoteAddress needed amount event settings"
    and "GetEventFromLogs ty (RcptLogs receipt) parser = Inr event"
    and "getSettings s = (Returned (Inr settings), s1)"
  shows "check_collateral ty parser getSettings chain remoteAddress amount receipt s =
    (if amount = needed then Some (Returned amount, s1) else Some (Failed ''unexpected value'', s1))"
proof -
  obtain added remaining excess where sol: "sol_addCollateral (Registered settings) needed amount = Inr (added, remaining, excess)"
      and event: "has_fields event [(''RemoteBlockchainID'', GArr32 chain),
          (''RemoteTokenTransferrerAddress'', GAddr remoteAddress), (''Amount'', GBig added),
          (''Remaining'', GBig remaining)]"
      and settings: "CollateralNeeded settings = remaining"
    using assms(1) by (auto simp: collateral_added_def)
  have "check_collateral ty parser getSettings chain remoteAddress amount receipt s =
      rbnd (ExpectBigEqual added (if remaining < amount then amount - remaining else amount)) (\<lambda>_.
      rbnd (ExpectBigEqual remaining 0) (\<lambda>_. rret (if remaining < amount then amount - remaining else amount))) s1"
    using event assms(2,3) settings by (simp add: check_collateral_def call_contract_def Let_def)
  then show ?thesis
    using sol by (auto simp: sol_addCollateral_def ExpectBigEqual_def split: if_splits)
qed

text \<open>
  C20. Adding collateral to a home that follows \<open>_addCollateral\<close> passes the checks of the test exactly if
  the amount is the collateral needed. With more, which the contract accepts and pays back, the test
  fails: the settings are read after the collateral was added, so nothing is subtracted from the
  amount, and the amount of the event is smaller. With less it fails as well, since some remains.
\<close>

theorem only_exact_collateral_passes:
  assumes "ERC20DecimalsApprove lib c token homeAddress amount l1 key s = Some (Returned (), s1)"
    and "transact_and_wait lib c l1 key (\<lambda>opts.
        ERC20TokenHomeTransactor_AddCollateral home opts chain remoteAddress amount) s1 = Some (Returned receipt, s2)"
    and "GetEventFromLogs ''*erc20tokenhome.ERC20TokenHomeCollateralAdded'' (RcptLogs receipt)
      (ERC20TokenHomeFilterer_ParseCollateralAdded home) = Inr event"
    and "ERC20TokenHomeCaller_GetRemoteTokenTransferrerSettings home no_call_opts chain remoteAddress s2 =
      (Returned (Inr settings), s3)"
    and "collateral_added chain remoteAddress needed amount event settings"
  shows "AddCollateralToERC20TokenHome lib c l1 home homeAddress token chain remoteAddress amount key s =
     (if amount = needed then Some (Returned amount, s3) else Some (Failed ''unexpected value'', s3))"
  using check_collateral_exact [OF assms(5,3), where
      getSettings = "ERC20TokenHomeCaller_GetRemoteTokenTransferrerSettings home no_call_opts chain remoteAddress",
      OF assms(4)] assms(1,2)
  by (simp add: AddCollateralToERC20TokenHome_def)

lemma only_exact_native_collateral_passes:
  assumes "transact_and_wait lib c l1 key (\<lambda>opts. NativeTokenHomeTransactor_AddCollateral home
        (opts\<lparr>TransactValue := amount\<rparr>) chain remoteAddress) s = Some (Returned receipt, s1)"
    and "GetEventFromLogs ''*nativetokenhome.NativeTokenHomeCollateralAdded'' (RcptLogs receipt)
      (NativeTokenHomeFilterer_ParseCollateralAdded home) = Inr event"
    and "NativeTokenHomeCaller_GetRemoteTokenTransferrerSettings home no_call_opts chain remoteAddress s1 =
      (Returned (Inr settings), s2)"
    and "collateral_added chain remoteAddress needed amount event settings"
  shows "AddCollateralToNativeTokenHome lib c l1 home chain remoteAddress amount key s =
     (if amount = needed then Some (Returned amount, s2) else Some (Failed ''unexpected value'', s2))"
  using check_collateral_exact [OF assms(4,2), where
      getSettings = "NativeTokenHomeCaller_GetRemoteTokenTransferrerSettings home no_call_opts chain remoteAddress",
      OF assms(3)] assms(1)
  by (simp add: AddCollateralToNativeTokenHome_def)

section \<open>Transfers\<close>

lemma lift_go_Returned_iff [go_splits]: "lift_go m s = (Returned x, s') \<longleftrightarrow> m = Done x \<and> s' = s"
  by (auto simp: lift_go_def split: go.splits)

text \<open>A transaction that was sent to a contract, with the call data of a method, and awaited.\<close>

definition transaction_made ::
  "'w e2e_lib \<Rightarrow> ctx \<Rightarrow> 'w L1TestInfo \<Rightarrow> priv_key \<Rightarrow> 'w backend \<Rightarrow> contract_abi \<Rightarrow> string \<Rightarrow> go_val list \<Rightarrow>
   'w \<Rightarrow> mined_receipt \<Rightarrow> 'w \<Rightarrow> bool" where
  "transaction_made lib c l1 key be abi m vals s receipt s' \<longleftrightarrow>
     (\<exists>opts data h s1. NewKeyedTransactorWithChainID lib key (EVMChainID l1) = Inr opts \<and>
        call_of (codec_lib lib) abi m vals (Inr data) \<and> send_data be opts data s = (Returned (Inr h), s1) \<and>
        WaitForTransactionSuccess lib c l1 h s1 = Some (Returned receipt, s'))"

lemma transact_and_wait_made:
  assumes "transact_and_wait lib c l1 key method s = Some (Returned receipt, s')"
    and "\<And>opts. sends_call (codec_lib lib) abi be opts m vals (method opts)"
  shows "transaction_made lib c l1 key be abi m vals s receipt s'"
proof -
  obtain opts h s1 where opts: "NewKeyedTransactorWithChainID lib key (EVMChainID l1) = Inr opts"
      and sent: "method opts s = (Returned (Inr h), s1)"
      and waited: "WaitForTransactionSuccess lib c l1 h s1 = Some (Returned receipt, s')"
    using assms(1) by (auto simp: transact_and_wait_def go_splits)
  obtain data where "call_of (codec_lib lib) abi m vals (Inr data)" and "method opts = send_data be opts data"
    using assms(2) [of opts] by (auto simp: sends_call_def)
  then show ?thesis
    using opts sent waited unfolding transaction_made_def by metis
qed

text \<open>
  C11. A transfer of tokens from a home that returns has made two transactions, the second only after
  the first was mined: an approval that lets the home take the amount and the primary fee together,
  then the transfer with the given input and amount. The amount it reports is the amount scaled with
  the settings the home has for the destination, so it is what the remote receives.
\<close>

theorem home_transfer_is_approved_and_scaled:
  assumes "codec_methods (codec_lib lib)" and "codec_roundtrip (codec_lib lib)"
    and "bound_spec (codec_lib lib) ExampleERC20DecimalsABI tokenBackend token"
    and "bound_spec (codec_lib lib) ERC20TokenHomeABI homeBackend home"
    and "SendTokensInput_ok input" and "in_uint256 amount"
    and "in_uint256 (amount + SendTokensInput_PrimaryFee input)"
    and "SendERC20TokenHome lib c l1 home homeAddress token input amount key s =
      Some (Returned (receipt, sent), s')"
  shows "\<exists>r1 s1 s2 settings.
     transaction_made lib c l1 key tokenBackend ExampleERC20DecimalsABI ''approve''
       [GAddr homeAddress, GBig (amount + SendTokensInput_PrimaryFee input)] s r1 s1 \<and>
     transaction_made lib c l1 key homeBackend ERC20TokenHomeABI ''send''
       [SendTokensInput_val input, GBig amount] s1 receipt s2 \<and>
     ERC20TokenHomeCaller_GetRemoteTokenTransferrerSettings home no_call_opts
       (SendTokensInput_DestinationBlockchainID input)
       (SendTokensInput_DestinationTokenTransferrerAddress input) s2 = (Returned (Inr settings), s') \<and>
     ApplyTokenScaling (TokenMultiplier settings) (MultiplyOnRemote settings) amount = Done sent"
proof -
  obtain s1 s2 where approve: "ERC20DecimalsApprove lib c token homeAddress
        (amount + SendTokensInput_PrimaryFee input) l1 key s = Some (Returned (), s1)"
      and send: "transact_and_wait lib c l1 key (\<lambda>opts. ERC20TokenHomeTransactor_Send home opts input amount) s1 =
        Some (Returned receipt, s2)"
      and scaled: "erc20_scaled home (SendTokensInput_DestinationBlockchainID input)
        (SendTokensInput_DestinationTokenTransferrerAddress input) amount s2 = Some (Returned sent, s')"
    using assms(8)
    by (auto simp: SendERC20TokenHome_def check_sent_def find_event_def ExpectBigEqual_def field_def go_splits
        split: option.splits)
  obtain r1 where "transact_and_wait lib c l1 key (\<lambda>opts. ExampleERC20DecimalsTransactor_Approve token opts
      homeAddress (amount + SendTokensInput_PrimaryFee input)) s = Some (Returned r1, s1)"
    using approve by (auto simp: ERC20DecimalsApprove_def go_splits)
  then have "transaction_made lib c l1 key tokenBackend ExampleERC20DecimalsABI ''approve''
       [GAddr homeAddress, GBig (amount + SendTokensInput_PrimaryFee input)] s r1 s1"
    by (rule transact_and_wait_made) (use ExampleERC20Decimals_transactions_decode [OF assms(1-3)] assms(7) in blast)
  moreover have "transaction_made lib c l1 key homeBackend ERC20TokenHomeABI ''send''
       [SendTokensInput_val input, GBig amount] s1 receipt s2"
    using send by (rule transact_and_wait_made)
      (use ERC20TokenHome_transactions_decode [OF assms(1,2,4)] assms(5,6) in blast)
  moreover obtain settings where "ERC20TokenHomeCaller_GetRemoteTokenTransferrerSettings home no_call_opts
       (SendTokensInput_DestinationBlockchainID input)
       (SendTokensInput_DestinationTokenTransferrerAddress input) s2 = (Returned (Inr settings), s')"
      and "ApplyTokenScaling (TokenMultiplier settings) (MultiplyOnRemote settings) amount = Done sent"
    using scaled by (auto simp: erc20_scaled_def GetScaledAmountFromERC20TokenHome_def go_splits)
  ultimately show ?thesis
    by blast
qed

end
