(* ===== verification/ValidatorFlows.thy ===== *)
theory ValidatorFlows
  imports ContractUtils PoAValidatorManagerBinding ERC20TokenStakingManagerBinding
    NativeTokenStakingManagerBinding IValidatorManagerBinding IPoSValidatorManagerBinding
    ExampleRewardCalculatorBinding
begin

text \<open>
  The transactions and messages of \<open>tests/utils/validator_manager.go\<close>: deploying a validator manager,
  initializing its validator set, registering and removing validators and delegators, and the Warp
  messages of the P-Chain these need. The packing of the same file is in \<open>ValidatorPacking\<close>.
\<close>

section \<open>Constants, nodes and parameters\<close>

definition DefaultMinDelegateFeeBips :: u16 where
  "DefaultMinDelegateFeeBips = 1"

definition DefaultMinStakeDurationSeconds :: u64 where
  "DefaultMinStakeDurationSeconds = 1"

definition DefaultMinStakeAmount :: u64 where
  "DefaultMinStakeAmount = 10000000000000000"

definition DefaultMaxStakeAmount :: u64 where
  "DefaultMaxStakeAmount = 10000000000000000000"

definition DefaultMaxStakeMultiplier :: u8 where
  "DefaultMaxStakeMultiplier = 4"

definition DefaultMaxChurnPercentage :: u8 where
  "DefaultMaxChurnPercentage = 20"

definition DefaultChurnPeriodSeconds :: u64 where
  "DefaultChurnPeriodSeconds = 1"

definition DefaultWeightToValueFactor :: u64 where
  "DefaultWeightToValueFactor = 1000000000000"

definition DefaultPChainAddress :: string where
  "DefaultPChainAddress = ''P-local18jma8ppw3nhx5r4ap8clazz0dps7rv5u00z96u''"

text \<open>The three values of the Go type; a \<open>switch\<close> on it has no other case.\<close>

datatype ValidatorManagerConcreteType = PoAManager | ERC20Manager | NativeManager

text \<open>\<open>signer.ProofOfPossession\<close> and \<open>Node\<close> of \<open>chain.go\<close>, which holds a pointer to it.\<close>

record proof_of_possession =
  PopPublicKey :: bytes
  PopProof :: bytes

record Node =
  NodeNodeID :: "160 word"
  NodeNodePoP :: "proof_of_possession option"
  NodeWeight :: u64

definition zero_Node :: Node where
  "zero_Node = \<lparr>NodeNodeID = 0, NodeNodePoP = None, NodeWeight = 0\<rparr>"

definition node_bytes :: "Node \<Rightarrow> bytes" where
  "node_bytes node = be_bytes 20 (unat (NodeNodeID node))"

definition pop_of :: "Node \<Rightarrow> ('w, proof_of_possession) run" where
  "pop_of node = deref_nil (NodeNodePoP node)"

text \<open>\<open>platformvm.L1ValidatorRegistrationJustification\<close>: its two kinds of preimage.\<close>

datatype justification =
    ConvertSubnetToL1TxData hash u32
  | RegisterL1ValidatorMessage bytes

text \<open>
  The payloads of \<open>warpMessage\<close> that are looked into; \<open>RegNodeIDIs\<close> is whether Gomega finds the node's
  identifier equal to one of 32 bytes.
\<close>

record register_payload =
  RegNodeIDIs :: "hash \<Rightarrow> bool"
  RegWeight :: u64
  RegSubnetID :: hash
  RegPublicKey :: bytes

datatype warp_payload =
    PayloadRegister register_payload
  | PayloadWeight hash u64 u64
  | PayloadOther

text \<open>
  Parameters: the bytecodes, the constructors of \<open>avalanchego\<close>'s messages (a constructor and its
  \<open>Bytes\<close>), the P-Chain wallet, the clock. The wallet's base transactions have one output in AVAX,
  locked until a time, for one address.
\<close>

record 'w manager_lib =
  MetaBin :: "ValidatorManagerConcreteType \<Rightarrow> string"
  IDAppend :: "hash \<Rightarrow> u32 \<Rightarrow> hash"
  SubnetToL1ConversionID :: "hash \<Rightarrow> hash \<Rightarrow> address \<Rightarrow> (bytes \<times> bytes \<times> u64) list \<Rightarrow> goerr + hash"
  NewSubnetToL1Conversion :: "hash \<Rightarrow> goerr + bytes"
  NewL1ValidatorRegistration :: "hash \<Rightarrow> bool \<Rightarrow> goerr + bytes"
  NewRegisterL1Validator :: "hash \<Rightarrow> 160 word \<Rightarrow> bytes \<Rightarrow> u64 \<Rightarrow> u64 \<Rightarrow> goerr + bytes"
  NewL1ValidatorWeight :: "hash \<Rightarrow> u64 \<Rightarrow> u64 \<Rightarrow> goerr + bytes"
  NewValidatorUptime :: "hash \<Rightarrow> u64 \<Rightarrow> goerr + bytes"
  MarshalJustification :: "justification \<Rightarrow> goerr + bytes"
  UnmarshalPayload :: "bytes \<Rightarrow> goerr + u16 \<times> warp_payload"
  WarpCodecVersion :: u16
  Avax :: u64
  MilliAvax :: u64
  IssueRegisterL1ValidatorTx :: "u64 \<Rightarrow> bytes \<Rightarrow> bytes \<Rightarrow> ('w, goerr, unit) query"
  IssueSetL1ValidatorWeightTx :: "bytes \<Rightarrow> ('w, goerr, unit) query"
  IssueBaseTx :: "u64 \<Rightarrow> u64 \<Rightarrow> 160 word \<Rightarrow> ('w, goerr, unit) query"
  ParseToID :: "string \<Rightarrow> goerr + 160 word"
  ActivateProposerVMFork :: "int \<Rightarrow> priv_key \<Rightarrow> 'w eth_client \<Rightarrow> ('w, goerr, unit) query"
  SleepSeconds :: "nat \<Rightarrow> 'w \<Rightarrow> 'w"
  SecondsSince :: "nat \<Rightarrow> 'w \<Rightarrow> u64 \<times> 'w"

definition sleep :: "'w manager_lib \<Rightarrow> nat \<Rightarrow> ('w, unit) run" where
  "sleep mlib n = run_of (upd (SleepSeconds mlib n))"

section \<open>Deployment\<close>

text \<open>The bytecode variables of the three binding packages, and the network.\<close>

record 'w manager_state =
  ManagerBin :: "ValidatorManagerConcreteType \<Rightarrow> string"
  ManagerWorld :: 'w

abbreviation on_manager_world :: "('w, 'a) run \<Rightarrow> ('w manager_state, 'a) run" where
  "on_manager_world \<equiv> focus ManagerWorld (\<lambda>w s. s\<lparr>ManagerWorld := w\<rparr>)"

definition on_link :: "ValidatorManagerConcreteType \<Rightarrow> ('w link_state, 'a) run \<Rightarrow> ('w manager_state, 'a) run" where
  "on_link managerType =
     focus (\<lambda>s. \<lparr>LinkBin = ManagerBin s managerType, LinkChain = ManagerWorld s\<rparr>)
       (\<lambda>l s. \<lparr>ManagerBin = (ManagerBin s)(managerType := LinkBin l), ManagerWorld = LinkChain l\<rparr>)"

definition linked_lib_of :: "'w e2e_lib \<Rightarrow> 'w L1TestInfo \<Rightarrow> 'w linked_lib" where
  "linked_lib_of lib l1 = \<lparr>LinkLib = Backend l1, MessagesBin = ContractBin lib ''ValidatorMessages'',
     AddressString = AddressText lib\<rparr>"

fun deploy_manager_contract ::
  "ValidatorManagerConcreteType \<Rightarrow> 'w linked_lib \<Rightarrow> TransactOpts \<Rightarrow> u8 \<Rightarrow>
   ('w link_state, goerr + address \<times> hash \<times> 'w bound_contract) prog" where
  "deploy_manager_contract PoAManager = DeployPoAValidatorManager"
| "deploy_manager_contract ERC20Manager = DeployERC20TokenStakingManager"
| "deploy_manager_contract NativeManager = DeployNativeTokenStakingManager"

text \<open>The bytecode variable is reset first. \<open>0\<close> is \<open>ICMInitializable.Allowed\<close>.\<close>

definition DeployValidatorManager ::
  "'w e2e_lib \<Rightarrow> 'w manager_lib \<Rightarrow> ctx \<Rightarrow> priv_key \<Rightarrow> 'w L1TestInfo \<Rightarrow> ValidatorManagerConcreteType \<Rightarrow>
   ('w manager_state, address \<times> 'w bound_contract) run" where
  "DeployValidatorManager lib mlib c senderKey l1 managerType =
     rbnd (expect (NewKeyedTransactorWithChainID lib senderKey (EVMChainID l1))) (\<lambda>opts.
     rbnd (run_of (upd (\<lambda>s. s\<lparr>ManagerBin := (ManagerBin s)(managerType := MetaBin mlib managerType)\<rparr>))) (\<lambda>_.
     rbnd (on_link managerType (run_of
         (deploy_manager_contract managerType (linked_lib_of lib l1) opts 0))) (\<lambda>r.
     rbnd (expect r) (\<lambda>(addr, tx, _).
     rbnd (expect (NewIValidatorManager (Backend l1) addr)) (\<lambda>validatorManager.
     rbnd (on_manager_world (WaitForTransactionSuccess lib c l1 tx)) (\<lambda>_.
     rret (addr, validatorManager)))))))"

definition DeployRewardCalculator ::
  "'w e2e_lib \<Rightarrow> ctx \<Rightarrow> priv_key \<Rightarrow> 'w L1TestInfo \<Rightarrow> u64 \<Rightarrow> ('w, address \<times> 'w bound_contract) run" where
  "DeployRewardCalculator lib c senderKey l1 rewardBasisPoints =
     rbnd (deploy_and_wait lib c l1 senderKey (\<lambda>opts.
         DeployExampleRewardCalculator (Backend l1) (ContractBin lib ''ExampleRewardCalculator'') opts
           rewardBasisPoints)) (\<lambda>(addr, calculator, receipt). rret (addr, calculator))"

definition pos_settings :: "'w L1TestInfo \<Rightarrow> address \<Rightarrow> PoSValidatorManagerSettings" where
  "pos_settings l1 rewardCalculatorAddress =
     \<lparr>PoSValidatorManagerSettings_BaseSettings =
        \<lparr>ValidatorManagerSettings_SubnetID = L1TestInfo.SubnetID l1,
         ValidatorManagerSettings_ChurnPeriodSeconds = DefaultChurnPeriodSeconds,
         ValidatorManagerSettings_MaximumChurnPercentage = DefaultMaxChurnPercentage\<rparr>,
      PoSValidatorManagerSettings_MinimumStakeAmount = uint DefaultMinStakeAmount,
      PoSValidatorManagerSettings_MaximumStakeAmount = uint DefaultMaxStakeAmount,
      PoSValidatorManagerSettings_MinimumStakeDuration = DefaultMinStakeDurationSeconds,
      PoSValidatorManagerSettings_MinimumDelegationFeeBips = DefaultMinDelegateFeeBips,
      PoSValidatorManagerSettings_MaximumStakeMultiplier = DefaultMaxStakeMultiplier,
      PoSValidatorManagerSettings_WeightToValueFactor = uint DefaultWeightToValueFactor,
      PoSValidatorManagerSettings_RewardCalculator = rewardCalculatorAddress,
      PoSValidatorManagerSettings_UptimeBlockchainID = BlockchainID l1\<rparr>"

text \<open>The initialization of a manager of each kind: what it deploys first, and the transaction.\<close>

fun initialize_manager ::
  "'w e2e_lib \<Rightarrow> ctx \<Rightarrow> priv_key \<Rightarrow> 'w L1TestInfo \<Rightarrow> address \<Rightarrow> TransactOpts \<Rightarrow> ValidatorManagerConcreteType \<Rightarrow>
   ('w, hash) run" where
  "initialize_manager lib c senderKey l1 managerAddress opts PoAManager =
     rbnd (expect (NewPoAValidatorManager (Backend l1) managerAddress)) (\<lambda>manager.
     call_contract (PoAValidatorManagerTransactor_Initialize manager opts
       \<lparr>ValidatorManagerSettings_SubnetID = L1TestInfo.SubnetID l1,
        ValidatorManagerSettings_ChurnPeriodSeconds = 0,
        ValidatorManagerSettings_MaximumChurnPercentage = 20\<rparr>
       (PrivateKeyToAddress lib senderKey)))"
| "initialize_manager lib c senderKey l1 managerAddress opts ERC20Manager =
     rbnd (DeployERC20 lib c senderKey l1) (\<lambda>(erc20Address, _).
     rbnd (DeployRewardCalculator lib c senderKey l1 10) (\<lambda>(rewardCalculatorAddress, _).
     rbnd (expect (NewERC20TokenStakingManager (Backend l1) managerAddress)) (\<lambda>manager.
     call_contract (ERC20TokenStakingManagerTransactor_Initialize manager opts
       (pos_settings l1 rewardCalculatorAddress) erc20Address))))"
| "initialize_manager lib c senderKey l1 managerAddress opts NativeManager =
     rbnd (DeployRewardCalculator lib c senderKey l1 10) (\<lambda>(rewardCalculatorAddress, _).
     rbnd (expect (NewNativeTokenStakingManager (Backend l1) managerAddress)) (\<lambda>manager.
     call_contract (NativeTokenStakingManagerTransactor_Initialize manager opts
       (pos_settings l1 rewardCalculatorAddress))))"

definition DeployAndInitializeValidatorManager ::
  "'w e2e_lib \<Rightarrow> 'w manager_lib \<Rightarrow> ctx \<Rightarrow> priv_key \<Rightarrow> 'w L1TestInfo \<Rightarrow> ValidatorManagerConcreteType \<Rightarrow> bool \<Rightarrow>
   ('w manager_state, address \<times> 'w bound_contract option) run" where
  "DeployAndInitializeValidatorManager lib mlib c senderKey l1 managerType proxy =
     rbnd (DeployValidatorManager lib mlib c senderKey l1 managerType) (\<lambda>(implementation, _).
     rbnd (expect (NewKeyedTransactorWithChainID lib senderKey (EVMChainID l1))) (\<lambda>opts.
     rbnd
       (if proxy then
          rbnd (on_manager_world (DeployProxy lib c l1 senderKey implementation))
            (\<lambda>(proxyAddress, admin). rret (proxyAddress, Some admin))
        else rret (implementation, None)) (\<lambda>(managerAddress, proxyAdmin).
     rbnd (on_manager_world (initialize_manager lib c senderKey l1 managerAddress opts managerType)) (\<lambda>tx.
     rbnd (on_manager_world (WaitForTransactionSuccess lib c l1 tx)) (\<lambda>_.
     rret (managerAddress, proxyAdmin))))))"

section \<open>Warp messages of the P-Chain\<close>

text \<open>
  A message without a source address from a blockchain, signed by the validators of a subnet with a
  quorum of 67.
\<close>

definition construct_message ::
  "'w e2e_lib \<Rightarrow> u32 \<Rightarrow> hash \<Rightarrow> goerr + bytes \<Rightarrow> bytes \<Rightarrow> hash \<Rightarrow> ('w, warp_message) run" where
  "construct_message lib networkID chain payload justification subnetID =
     rbnd (expect payload) (\<lambda>payloadBytes.
     rbnd (expect (NewAddressedCall lib [] payloadBytes)) (\<lambda>addressedCall.
     rbnd (expect (NewUnsignedMessage lib networkID chain addressedCall)) (\<lambda>unsignedMessage.
     call_ok (CreateSignedMessage lib unsignedMessage justification subnetID 67))))"

definition ConstructL1ValidatorRegistrationMessageForInitialValidator ::
  "'w e2e_lib \<Rightarrow> 'w manager_lib \<Rightarrow> hash \<Rightarrow> u32 \<Rightarrow> bool \<Rightarrow> 'w L1TestInfo \<Rightarrow> 'w L1TestInfo \<Rightarrow> u32 \<Rightarrow>
   ('w, warp_message) run" where
  "ConstructL1ValidatorRegistrationMessageForInitialValidator lib mlib validationID index valid l1
       pChainInfo networkID =
     rbnd (expect (MarshalJustification mlib (ConvertSubnetToL1TxData (L1TestInfo.SubnetID l1) index)))
       (\<lambda>justificationBytes.
     construct_message lib networkID (BlockchainID pChainInfo)
       (NewL1ValidatorRegistration mlib validationID valid) justificationBytes (L1TestInfo.SubnetID l1))"

definition ConstructL1ValidatorRegistrationMessage ::
  "'w e2e_lib \<Rightarrow> 'w manager_lib \<Rightarrow> hash \<Rightarrow> u64 \<Rightarrow> Node \<Rightarrow> bool \<Rightarrow> 'w L1TestInfo \<Rightarrow> 'w L1TestInfo \<Rightarrow> u32 \<Rightarrow>
   ('w, warp_message) run" where
  "ConstructL1ValidatorRegistrationMessage lib mlib validationID expiry node valid l1 pChainInfo networkID =
     rbnd (pop_of node) (\<lambda>pop.
     rbnd (expect (NewRegisterL1Validator mlib (L1TestInfo.SubnetID l1) (NodeNodeID node) (PopPublicKey pop)
         expiry (NodeWeight node))) (\<lambda>msgBytes.
     rbnd (expect (MarshalJustification mlib (RegisterL1ValidatorMessage msgBytes))) (\<lambda>justificationBytes.
     construct_message lib networkID (BlockchainID pChainInfo)
       (NewL1ValidatorRegistration mlib validationID valid) justificationBytes (L1TestInfo.SubnetID l1))))"

definition ConstructL1ValidatorWeightMessage ::
  "'w e2e_lib \<Rightarrow> 'w manager_lib \<Rightarrow> hash \<Rightarrow> u64 \<Rightarrow> u64 \<Rightarrow> 'w L1TestInfo \<Rightarrow> 'w L1TestInfo \<Rightarrow> u32 \<Rightarrow>
   ('w, warp_message) run" where
  "ConstructL1ValidatorWeightMessage lib mlib validationID nonce weight l1 pChainInfo networkID =
     construct_message lib networkID (BlockchainID pChainInfo)
       (NewL1ValidatorWeight mlib validationID nonce weight) [] (L1TestInfo.SubnetID l1)"

definition ConstructL1ConversionMessage ::
  "'w e2e_lib \<Rightarrow> 'w manager_lib \<Rightarrow> hash \<Rightarrow> 'w L1TestInfo \<Rightarrow> 'w L1TestInfo \<Rightarrow> u32 \<Rightarrow> ('w, warp_message) run" where
  "ConstructL1ConversionMessage lib mlib l1ConversionID l1 pChainInfo networkID =
     construct_message lib networkID (BlockchainID pChainInfo) (NewSubnetToL1Conversion mlib l1ConversionID)
       (hash_bytes (L1TestInfo.SubnetID l1)) (L1TestInfo.SubnetID l1)"

definition ConstructUptimeProofMessage ::
  "'w e2e_lib \<Rightarrow> 'w manager_lib \<Rightarrow> hash \<Rightarrow> u64 \<Rightarrow> 'w L1TestInfo \<Rightarrow> u32 \<Rightarrow> ('w, warp_message) run" where
  "ConstructUptimeProofMessage lib mlib validationID uptime l1 networkID =
     construct_message lib networkID (BlockchainID l1) (NewValidatorUptime mlib validationID uptime) []
       (L1TestInfo.SubnetID l1)"

definition ValidateRegisterL1ValidatorMessage ::
  "'w e2e_lib \<Rightarrow> 'w manager_lib \<Rightarrow> warp_message \<Rightarrow> hash \<Rightarrow> u64 \<Rightarrow> hash \<Rightarrow> bytes \<Rightarrow> ('w, unit) run" where
  "ValidateRegisterL1ValidatorMessage lib mlib signedWarpMessage nodeID weight subnetID blsPublicKey =
     rbnd (expect (ParseAddressedCall lib (MsgPayload (MsgUnsigned signedWarpMessage)))) (\<lambda>(_, msgPayload).
     rbnd (expect (UnmarshalPayload mlib msgPayload)) (\<lambda>(ver, payload).
     case payload of
       PayloadRegister p \<Rightarrow>
         rbnd (expect_that (ver = WarpCodecVersion mlib)) (\<lambda>_.
         rbnd (expect_that (RegNodeIDIs p nodeID)) (\<lambda>_.
         rbnd (expect_that (RegWeight p = weight)) (\<lambda>_.
         rbnd (expect_that (RegSubnetID p = subnetID)) (\<lambda>_.
         expect_that (RegPublicKey p = blsPublicKey)))))
     | _ \<Rightarrow> expect_that False))"

definition ValidateL1ValidatorWeightMessage ::
  "'w e2e_lib \<Rightarrow> 'w manager_lib \<Rightarrow> warp_message \<Rightarrow> hash \<Rightarrow> u64 \<Rightarrow> u64 \<Rightarrow> ('w, unit) run" where
  "ValidateL1ValidatorWeightMessage lib mlib signedWarpMessage validationID weight nonce =
     rbnd (expect (ParseAddressedCall lib (MsgPayload (MsgUnsigned signedWarpMessage)))) (\<lambda>(_, msgPayload).
     rbnd (expect (UnmarshalPayload mlib msgPayload)) (\<lambda>(ver, payload).
     case payload of
       PayloadWeight payloadID payloadNonce payloadWeight \<Rightarrow>
         rbnd (expect_that (ver = WarpCodecVersion mlib)) (\<lambda>_.
         rbnd (expect_that (payloadID = validationID)) (\<lambda>_.
         rbnd (expect_that (payloadWeight = weight)) (\<lambda>_.
         expect_that (payloadNonce = nonce))))
     | _ \<Rightarrow> expect_that False))"

section \<open>Waiting for the chains\<close>

definition WaitMinStakeDuration ::
  "'w e2e_lib \<Rightarrow> 'w manager_lib \<Rightarrow> ctx \<Rightarrow> 'w L1TestInfo \<Rightarrow> priv_key \<Rightarrow> ('w, unit) run" where
  "WaitMinStakeDuration lib mlib c l1 fundedKey =
     rbnd (sleep mlib (unat DefaultMinStakeDurationSeconds)) (\<lambda>_.
     rbnd (SendNativeTransfer lib c l1 fundedKey 0 10) (\<lambda>_. rret ()))"

text \<open>\<open>time.Date(2030, 1, 1, 0, 0, 0, 0, time.UTC).Unix()\<close>.\<close>

definition workaround_locktime :: u64 where
  "workaround_locktime = 1893456000"

definition PChainProposerVMWorkaround :: "'w manager_lib \<Rightarrow> ('w, unit) run" where
  "PChainProposerVMWorkaround mlib =
     rbnd (expect (ParseToID mlib DefaultPChainAddress)) (\<lambda>destAddr.
     rbnd (sleep mlib 30) (\<lambda>_.
     rbnd (call_ok (IssueBaseTx mlib workaround_locktime (500 * MilliAvax mlib) destAddr)) (\<lambda>_.
     call_ok (IssueBaseTx mlib workaround_locktime (500 * MilliAvax mlib) destAddr))))"

primrec AdvanceProposerVM ::
  "'w manager_lib \<Rightarrow> 'w L1TestInfo \<Rightarrow> priv_key \<Rightarrow> nat \<Rightarrow> ('w, unit) run" where
  "AdvanceProposerVM mlib l1 fundedKey 0 = rret ()"
| "AdvanceProposerVM mlib l1 fundedKey (Suc blocks) =
     rbnd (call_ok (ActivateProposerVMFork mlib (EVMChainID l1) fundedKey (WSClient l1))) (\<lambda>_.
     AdvanceProposerVM mlib l1 fundedKey blocks)"

section \<open>Delivering messages to a manager\<close>

text \<open>The message whose bytes are the predicate of the transaction.\<close>

definition CallWarpReceiver ::
  "'w e2e_lib \<Rightarrow> ctx \<Rightarrow> bytes \<Rightarrow> priv_key \<Rightarrow> 'w L1TestInfo \<Rightarrow> address \<Rightarrow> warp_message \<Rightarrow> ('w, mined_receipt) run" where
  "CallWarpReceiver lib c callData senderKey l1 contract signedMessage =
     rbnd (predicate_transaction lib c signedMessage contract 2000000 callData senderKey l1)
       (SendTransactionAndWaitForSuccess lib c l1)"

text \<open>The calls of this file pack the arguments by the name the ABI gives the method.\<close>

definition pack_and_deliver ::
  "'w e2e_lib \<Rightarrow> ctx \<Rightarrow> contract_abi \<Rightarrow> string \<Rightarrow> go_val list \<Rightarrow> priv_key \<Rightarrow> 'w L1TestInfo \<Rightarrow> address \<Rightarrow>
   warp_message \<Rightarrow> ('w, mined_receipt) run" where
  "pack_and_deliver lib c meta m args senderKey l1 contract signedMessage =
     rbnd (expect (GetAbi (codec_lib lib) meta)) (\<lambda>abi.
     rbnd (expect (pack_method (codec_lib lib) abi m args)) (\<lambda>callData.
     CallWarpReceiver lib c callData senderKey l1 contract signedMessage))"

definition DeliverL1Conversion ::
  "'w e2e_lib \<Rightarrow> ctx \<Rightarrow> priv_key \<Rightarrow> 'w L1TestInfo \<Rightarrow> address \<Rightarrow> warp_message \<Rightarrow> ConversionData \<Rightarrow>
   ('w, mined_receipt) run" where
  "DeliverL1Conversion lib c senderKey l1 validatorManagerAddress signedMessage l1ConversionData =
     pack_and_deliver lib c IValidatorManagerABI ''initializeValidatorSet''
       [ConversionData_val l1ConversionData, GUint 32 0] senderKey l1 validatorManagerAddress signedMessage"

definition CompleteValidatorRegistration ::
  "'w e2e_lib \<Rightarrow> ctx \<Rightarrow> priv_key \<Rightarrow> 'w L1TestInfo \<Rightarrow> address \<Rightarrow> warp_message \<Rightarrow> ('w, mined_receipt) run" where
  "CompleteValidatorRegistration lib c senderKey l1 contract signedMessage =
     pack_and_deliver lib c IValidatorManagerABI ''completeValidatorRegistration'' [GUint 32 0] senderKey l1
       contract signedMessage"

definition CompleteEndValidation ::
  "'w e2e_lib \<Rightarrow> ctx \<Rightarrow> priv_key \<Rightarrow> 'w L1TestInfo \<Rightarrow> address \<Rightarrow> warp_message \<Rightarrow> ('w, mined_receipt) run" where
  "CompleteEndValidation lib c senderKey l1 contract signedMessage =
     pack_and_deliver lib c IValidatorManagerABI ''completeEndValidation'' [GUint 32 0] senderKey l1
       contract signedMessage"

definition CompleteDelegatorRegistration ::
  "'w e2e_lib \<Rightarrow> ctx \<Rightarrow> priv_key \<Rightarrow> hash \<Rightarrow> 'w L1TestInfo \<Rightarrow> address \<Rightarrow> warp_message \<Rightarrow> ('w, mined_receipt) run" where
  "CompleteDelegatorRegistration lib c senderKey delegationID l1 contract signedMessage =
     pack_and_deliver lib c IPoSValidatorManagerABI ''completeDelegatorRegistration''
       [GArr32 delegationID, GUint 32 0] senderKey l1 contract signedMessage"

definition CompleteEndDelegation ::
  "'w e2e_lib \<Rightarrow> ctx \<Rightarrow> priv_key \<Rightarrow> hash \<Rightarrow> 'w L1TestInfo \<Rightarrow> address \<Rightarrow> warp_message \<Rightarrow> ('w, mined_receipt) run" where
  "CompleteEndDelegation lib c senderKey delegationID l1 contract signedMessage =
     pack_and_deliver lib c IPoSValidatorManagerABI ''completeEndDelegation''
       [GArr32 delegationID, GUint 32 0] senderKey l1 contract signedMessage"

section \<open>The initial validators\<close>

text \<open>What the loop over the nodes builds: an entry per node, with its proof of possession's key.\<close>

definition initial_validator :: "Node \<Rightarrow> ('w, InitialValidator) run" where
  "initial_validator node =
     rbnd (pop_of node) (\<lambda>pop.
     rret \<lparr>NodeID = node_bytes node, BlsPublicKey = PopPublicKey pop, Weight = NodeWeight node\<rparr>)"

primrec initial_validators :: "Node list \<Rightarrow> ('w, InitialValidator list) run" where
  "initial_validators [] = rret []"
| "initial_validators (node # nodes) =
     rbnd (initial_validator node) (\<lambda>v.
     rbnd (initial_validators nodes) (\<lambda>vs. rret (v # vs)))"

definition validation_ids :: "'w manager_lib \<Rightarrow> hash \<Rightarrow> Node list \<Rightarrow> hash list" where
  "validation_ids mlib subnetID nodes = map (\<lambda>i. IDAppend mlib subnetID (of_nat i)) [0..<length nodes]"

definition InitializeValidatorSet ::
  "'w e2e_lib \<Rightarrow> 'w manager_lib \<Rightarrow> ctx \<Rightarrow> priv_key \<Rightarrow> 'w L1TestInfo \<Rightarrow> 'w L1TestInfo \<Rightarrow> address \<Rightarrow> u32 \<Rightarrow>
   Node list \<Rightarrow> ('w, hash list) run" where
  "InitializeValidatorSet lib mlib c senderKey l1Info pChainInfo validatorManagerAddress networkID nodes =
     rbnd (initial_validators nodes) (\<lambda>validators.
     rbnd (expect (SubnetToL1ConversionID mlib (L1TestInfo.SubnetID l1Info) (BlockchainID l1Info)
         validatorManagerAddress (map (\<lambda>v. (NodeID v, BlsPublicKey v, Weight v)) validators))) (\<lambda>l1ConversionID.
     rbnd (ConstructL1ConversionMessage lib mlib l1ConversionID l1Info pChainInfo networkID) (\<lambda>signedMessage.
     rbnd (DeliverL1Conversion lib c senderKey l1Info validatorManagerAddress signedMessage
         \<lparr>SubnetID = L1TestInfo.SubnetID l1Info, ValidatorManagerBlockchainID = BlockchainID l1Info,
          ValidatorManagerAddress = validatorManagerAddress, InitialValidators = validators\<rparr>) (\<lambda>receipt.
     rbnd (expect (NewIValidatorManager (Backend l1Info) validatorManagerAddress)) (\<lambda>manager.
     rbnd (find_event ''*ivalidatormanager.IValidatorManagerInitialValidatorCreated'' receipt
         (IValidatorManagerFilterer_ParseInitialValidatorCreated manager)) (\<lambda>event.
     rbnd (first_of nodes) (\<lambda>first.
     rbnd (field ''NodeID'' go_bytes event) (\<lambda>nodeID.
     rbnd (expect_that (nodeID = node_bytes first)) (\<lambda>_.
     let validationIDs = validation_ids mlib (L1TestInfo.SubnetID l1Info) nodes in
     rbnd (field ''Weight'' (go_word 64) event) (\<lambda>eventWeight.
     rbnd (expect_that (eventWeight = NodeWeight first)) (\<lambda>_.
     rbnd (field ''ValidationID'' go_arr32 event) (\<lambda>emittedValidationID.
     rbnd (expect_that (emittedValidationID = hd validationIDs)) (\<lambda>_.
     rret validationIDs)))))))))))))"

section \<open>Registering a validator\<close>

text \<open>The input of the contract, with the owners left at their zero values.\<close>

definition zero_owner :: PChainOwner where
  "zero_owner = \<lparr>PChainOwner_Threshold = 0, PChainOwner_Addresses = []\<rparr>"

definition registration_of :: "Node \<Rightarrow> proof_of_possession \<Rightarrow> u64 \<Rightarrow> ValidatorRegistrationInput" where
  "registration_of node pop expiry =
     \<lparr>ValidatorRegistrationInput_NodeID = node_bytes node,
      ValidatorRegistrationInput_BlsPublicKey = PopPublicKey pop,
      ValidatorRegistrationInput_RegistrationExpiry = expiry,
      ValidatorRegistrationInput_RemainingBalanceOwner = zero_owner,
      ValidatorRegistrationInput_DisableOwner = zero_owner\<rparr>"

definition registration_input :: "Node \<Rightarrow> u64 \<Rightarrow> ('w, ValidatorRegistrationInput) run" where
  "registration_input node expiry = rbnd (pop_of node) (\<lambda>pop. rret (registration_of node pop expiry))"

text \<open>What follows the transaction: the validation the contract created, for this node.\<close>

definition created_validation ::
  "string \<Rightarrow> (evm_log \<Rightarrow> goerr + event_fields) \<Rightarrow> Node \<Rightarrow> mined_receipt \<Rightarrow> ('w, mined_receipt \<times> hash) run" where
  "created_validation ty parser node receipt =
     rbnd (find_event ty receipt parser) (\<lambda>event.
     rbnd (field ''NodeID'' go_bytes event) (\<lambda>nodeID.
     rbnd (expect_that (nodeID = node_bytes node)) (\<lambda>_.
     rbnd (field ''ValidationID'' go_arr32 event) (\<lambda>validationID. rret (receipt, validationID)))))"

text \<open>The transaction that registers: options for the key, the input, the method, the wait and the event.\<close>

definition register_and_wait ::
  "'w e2e_lib \<Rightarrow> ctx \<Rightarrow> priv_key \<Rightarrow> 'w L1TestInfo \<Rightarrow> Node \<Rightarrow> u64 \<Rightarrow>
   (TransactOpts \<Rightarrow> ValidatorRegistrationInput \<Rightarrow> ('w, goerr + hash) prog) \<Rightarrow>
   string \<Rightarrow> (evm_log \<Rightarrow> goerr + event_fields) \<Rightarrow> ('w, mined_receipt \<times> hash) run" where
  "register_and_wait lib c senderKey l1 node expiry method ty parser =
     rbnd (expect (NewKeyedTransactorWithChainID lib senderKey (EVMChainID l1))) (\<lambda>opts.
     rbnd (registration_input node expiry) (\<lambda>input.
     rbnd (call_contract (method opts input)) (\<lambda>tx.
     rbnd (WaitForTransactionSuccess lib c l1 tx) (created_validation ty parser node))))"

definition InitializeNativeValidatorRegistration ::
  "'w e2e_lib \<Rightarrow> ctx \<Rightarrow> priv_key \<Rightarrow> 'w L1TestInfo \<Rightarrow> int \<Rightarrow> Node \<Rightarrow> u64 \<Rightarrow> 'w bound_contract \<Rightarrow>
   ('w, mined_receipt \<times> hash) run" where
  "InitializeNativeValidatorRegistration lib c senderKey l1 stakeAmount node expiry stakingManager =
     register_and_wait lib c senderKey l1 node expiry
       (\<lambda>opts input. NativeTokenStakingManagerTransactor_InitializeValidatorRegistration stakingManager
         (opts\<lparr>TransactValue := stakeAmount\<rparr>) input DefaultMinDelegateFeeBips DefaultMinStakeDurationSeconds)
       ''*nativetokenstakingmanager.NativeTokenStakingManagerValidationPeriodCreated''
       (NativeTokenStakingManagerFilterer_ParseValidationPeriodCreated stakingManager)"

definition InitializeERC20ValidatorRegistration ::
  "'w e2e_lib \<Rightarrow> ctx \<Rightarrow> priv_key \<Rightarrow> 'w L1TestInfo \<Rightarrow> int \<Rightarrow> 'w bound_contract \<Rightarrow> address \<Rightarrow> Node \<Rightarrow> u64 \<Rightarrow>
   'w bound_contract \<Rightarrow> ('w, mined_receipt \<times> hash) run" where
  "InitializeERC20ValidatorRegistration lib c senderKey l1 stakeAmount token stakingManagerAddress node
       expiry stakingManager =
     rbnd (ERC20Approve lib c token stakingManagerAddress stakeAmount l1 senderKey) (\<lambda>_.
     register_and_wait lib c senderKey l1 node expiry
       (\<lambda>opts input. ERC20TokenStakingManagerTransactor_InitializeValidatorRegistration stakingManager opts
         input DefaultMinDelegateFeeBips DefaultMinStakeDurationSeconds stakeAmount)
       ''*erc20tokenstakingmanager.ERC20TokenStakingManagerValidationPeriodCreated''
       (ERC20TokenStakingManagerFilterer_ParseValidationPeriodCreated stakingManager))"

definition InitializePoAValidatorRegistration ::
  "'w e2e_lib \<Rightarrow> ctx \<Rightarrow> priv_key \<Rightarrow> 'w L1TestInfo \<Rightarrow> Node \<Rightarrow> u64 \<Rightarrow> 'w bound_contract \<Rightarrow>
   ('w, mined_receipt \<times> hash) run" where
  "InitializePoAValidatorRegistration lib c senderKey l1 node expiry validatorManager =
     register_and_wait lib c senderKey l1 node expiry
       (\<lambda>opts input. PoAValidatorManagerTransactor_InitializeValidatorRegistration validatorManager opts
         input (NodeWeight node))
       ''*poavalidatormanager.PoAValidatorManagerValidationPeriodCreated''
       (PoAValidatorManagerFilterer_ParseValidationPeriodCreated validatorManager)"

text \<open>
  What the three complete registrations share. The P-Chain gets the message the contract sent about the
  validator, is moved on, and its acknowledgement is delivered to the contract.
\<close>

definition advance_chains ::
  "'w manager_lib \<Rightarrow> 'w L1TestInfo \<Rightarrow> priv_key \<Rightarrow> ('w, unit) run" where
  "advance_chains mlib l1Info fundedKey =
     rbnd (PChainProposerVMWorkaround mlib) (\<lambda>_. AdvanceProposerVM mlib l1Info fundedKey 5)"

text \<open>The last check of a registration or a removal: the event is about the validation.\<close>

definition expect_validation ::
  "string \<Rightarrow> (evm_log \<Rightarrow> goerr + event_fields) \<Rightarrow> hash \<Rightarrow> mined_receipt \<Rightarrow> ('w, event_fields) run" where
  "expect_validation ty parser validationID receipt =
     rbnd (find_event ty receipt parser) (\<lambda>event.
     rbnd (field ''ValidationID'' go_arr32 event) (\<lambda>emitted.
     rbnd (expect_that (emitted = validationID)) (\<lambda>_. rret event)))"

definition complete_registration ::
  "'w e2e_lib \<Rightarrow> 'w manager_lib \<Rightarrow> ctx \<Rightarrow> priv_key \<Rightarrow> 'w L1TestInfo \<Rightarrow> 'w L1TestInfo \<Rightarrow> address \<Rightarrow> u64 \<Rightarrow>
   Node \<Rightarrow> u32 \<Rightarrow> string \<Rightarrow> (evm_log \<Rightarrow> goerr + event_fields) \<Rightarrow> mined_receipt \<times> hash \<Rightarrow> ('w, hash) run" where
  "complete_registration lib mlib c fundedKey l1Info pChainInfo managerAddress expiry node networkID
       ty parser = (\<lambda>(sent, validationID).
     rbnd (ConstructSignedWarpMessage lib c sent l1Info pChainInfo []) (\<lambda>signedWarpMessage.
     rbnd (pop_of node) (\<lambda>pop.
     rbnd (call_ok (IssueRegisterL1ValidatorTx mlib (100 * Avax mlib) (PopProof pop)
         (MessageBytes lib signedWarpMessage))) (\<lambda>_.
     rbnd (advance_chains mlib l1Info fundedKey) (\<lambda>_.
     rbnd (ConstructL1ValidatorRegistrationMessage lib mlib validationID expiry node True l1Info
         pChainInfo networkID) (\<lambda>registrationSignedMessage.
     rbnd (CompleteValidatorRegistration lib c fundedKey l1Info managerAddress registrationSignedMessage)
       (\<lambda>receipt.
     rbnd (expect_validation ty parser validationID receipt) (\<lambda>_.
     rret validationID))))))))"

definition InitializeAndCompleteNativeValidatorRegistration ::
  "'w e2e_lib \<Rightarrow> 'w manager_lib \<Rightarrow> ctx \<Rightarrow> priv_key \<Rightarrow> 'w L1TestInfo \<Rightarrow> 'w L1TestInfo \<Rightarrow> 'w bound_contract \<Rightarrow>
   address \<Rightarrow> u64 \<Rightarrow> Node \<Rightarrow> u32 \<Rightarrow> ('w, hash) run" where
  "InitializeAndCompleteNativeValidatorRegistration lib mlib c fundedKey l1Info pChainInfo stakingManager
       stakingManagerContractAddress expiry node networkID =
     rbnd (call_contract (NativeTokenStakingManagerCaller_WeightToValue stakingManager no_call_opts
         (NodeWeight node))) (\<lambda>stakeAmount.
     rbnd (InitializeNativeValidatorRegistration lib c fundedKey l1Info stakeAmount node expiry
         stakingManager)
       (complete_registration lib mlib c fundedKey l1Info pChainInfo stakingManagerContractAddress expiry
         node networkID ''*nativetokenstakingmanager.NativeTokenStakingManagerValidationPeriodRegistered''
         (NativeTokenStakingManagerFilterer_ParseValidationPeriodRegistered stakingManager)))"

definition InitializeAndCompleteERC20ValidatorRegistration ::
  "'w e2e_lib \<Rightarrow> 'w manager_lib \<Rightarrow> ctx \<Rightarrow> priv_key \<Rightarrow> 'w L1TestInfo \<Rightarrow> 'w L1TestInfo \<Rightarrow> 'w bound_contract \<Rightarrow>
   address \<Rightarrow> 'w bound_contract \<Rightarrow> u64 \<Rightarrow> Node \<Rightarrow> u32 \<Rightarrow> ('w, hash) run" where
  "InitializeAndCompleteERC20ValidatorRegistration lib mlib c fundedKey l1Info pChainInfo stakingManager
       stakingManagerAddress erc20 expiry node networkID =
     rbnd (call_contract (ERC20TokenStakingManagerCaller_WeightToValue stakingManager no_call_opts
         (NodeWeight node))) (\<lambda>stakeAmount.
     rbnd (InitializeERC20ValidatorRegistration lib c fundedKey l1Info stakeAmount erc20
         stakingManagerAddress node expiry stakingManager)
       (complete_registration lib mlib c fundedKey l1Info pChainInfo stakingManagerAddress expiry node
         networkID ''*erc20tokenstakingmanager.ERC20TokenStakingManagerValidationPeriodRegistered''
         (ERC20TokenStakingManagerFilterer_ParseValidationPeriodRegistered stakingManager)))"

definition InitializeAndCompletePoAValidatorRegistration ::
  "'w e2e_lib \<Rightarrow> 'w manager_lib \<Rightarrow> ctx \<Rightarrow> priv_key \<Rightarrow> priv_key \<Rightarrow> 'w L1TestInfo \<Rightarrow> 'w L1TestInfo \<Rightarrow>
   'w bound_contract \<Rightarrow> address \<Rightarrow> u64 \<Rightarrow> Node \<Rightarrow> u32 \<Rightarrow> ('w, hash) run" where
  "InitializeAndCompletePoAValidatorRegistration lib mlib c ownerKey fundedKey l1Info pChainInfo
       validatorManager validatorManagerAddress expiry node networkID =
     rbnd (InitializePoAValidatorRegistration lib c ownerKey l1Info node expiry validatorManager)
       (complete_registration lib mlib c fundedKey l1Info pChainInfo validatorManagerAddress expiry node
         networkID ''*poavalidatormanager.PoAValidatorManagerValidationPeriodRegistered''
         (PoAValidatorManagerFilterer_ParseValidationPeriodRegistered validatorManager))"

end
