(* ===== verification/ValidatorRemovals.thy ===== *)
theory ValidatorRemovals
  imports ValidatorFlows
begin

text \<open>
  Delegators and the removal of validators in \<open>tests/utils/validator_manager.go\<close>: the transactions that
  begin a removal, with or without a proof of uptime, and the flows that take it through the P-Chain.
\<close>

section \<open>Beginning a removal\<close>

definition InitializeEndPoSValidation ::
  "'w e2e_lib \<Rightarrow> ctx \<Rightarrow> priv_key \<Rightarrow> 'w L1TestInfo \<Rightarrow> 'w bound_contract \<Rightarrow> hash \<Rightarrow> ('w, mined_receipt) run" where
  "InitializeEndPoSValidation lib c senderKey l1 stakingManager validationID =
     transact_and_wait lib c l1 senderKey (\<lambda>opts.
       IPoSValidatorManagerTransactor_InitializeEndValidation0 stakingManager opts validationID False 0)"

definition ForceInitializeEndPoSValidation ::
  "'w e2e_lib \<Rightarrow> ctx \<Rightarrow> priv_key \<Rightarrow> 'w L1TestInfo \<Rightarrow> 'w bound_contract \<Rightarrow> hash \<Rightarrow> ('w, mined_receipt) run" where
  "ForceInitializeEndPoSValidation lib c senderKey l1 stakingManager validationID =
     transact_and_wait lib c l1 senderKey (\<lambda>opts.
       IPoSValidatorManagerTransactor_ForceInitializeEndValidation stakingManager opts validationID False 0)"

text \<open>With uptime, the method is packed by its name and the transaction carries the signed proof.\<close>

definition ForceInitializeEndPoSValidationWithUptime ::
  "'w e2e_lib \<Rightarrow> 'w manager_lib \<Rightarrow> ctx \<Rightarrow> u32 \<Rightarrow> priv_key \<Rightarrow> 'w L1TestInfo \<Rightarrow> address \<Rightarrow> hash \<Rightarrow> u64 \<Rightarrow>
   ('w, mined_receipt) run" where
  "ForceInitializeEndPoSValidationWithUptime lib mlib c networkID senderKey l1 stakingManagerAddress
       validationID uptime =
     rbnd (ConstructUptimeProofMessage lib mlib validationID uptime l1 networkID)
       (pack_and_deliver lib c IPoSValidatorManagerABI ''forceInitializeEndValidation''
         [GArr32 validationID, GBool True, GUint 32 0] senderKey l1 stakingManagerAddress)"

definition InitializeEndPoSValidationWithUptime ::
  "'w e2e_lib \<Rightarrow> 'w manager_lib \<Rightarrow> ctx \<Rightarrow> u32 \<Rightarrow> priv_key \<Rightarrow> 'w L1TestInfo \<Rightarrow> address \<Rightarrow> hash \<Rightarrow> u64 \<Rightarrow>
   ('w, mined_receipt) run" where
  "InitializeEndPoSValidationWithUptime lib mlib c networkID senderKey l1 stakingManagerAddress
       validationID uptime =
     rbnd (ConstructUptimeProofMessage lib mlib validationID uptime l1 networkID)
       (pack_and_deliver lib c IPoSValidatorManagerABI ''initializeEndValidation''
         [GArr32 validationID, GBool True, GUint 32 0] senderKey l1 stakingManagerAddress)"

definition InitializeEndPoAValidation ::
  "'w e2e_lib \<Rightarrow> ctx \<Rightarrow> priv_key \<Rightarrow> 'w L1TestInfo \<Rightarrow> 'w bound_contract \<Rightarrow> hash \<Rightarrow> ('w, mined_receipt) run" where
  "InitializeEndPoAValidation lib c senderKey l1 validatorManager validationID =
     transact_and_wait lib c l1 senderKey (\<lambda>opts.
       PoAValidatorManagerTransactor_InitializeEndValidation validatorManager opts validationID)"

section \<open>Delegators\<close>

definition InitializeERC20DelegatorRegistration ::
  "'w e2e_lib \<Rightarrow> ctx \<Rightarrow> priv_key \<Rightarrow> 'w L1TestInfo \<Rightarrow> hash \<Rightarrow> int \<Rightarrow> 'w bound_contract \<Rightarrow> address \<Rightarrow>
   'w bound_contract \<Rightarrow> ('w, mined_receipt) run" where
  "InitializeERC20DelegatorRegistration lib c senderKey l1 validationID delegationAmount token
       stakingManagerAddress stakingManager =
     rbnd (ERC20Approve lib c token stakingManagerAddress delegationAmount l1 senderKey) (\<lambda>_.
     rbnd (transact_and_wait lib c l1 senderKey (\<lambda>opts.
         ERC20TokenStakingManagerTransactor_InitializeDelegatorRegistration stakingManager opts validationID
           delegationAmount)) (\<lambda>receipt.
     rbnd (find_event ''*erc20tokenstakingmanager.ERC20TokenStakingManagerDelegatorAdded'' receipt
         (ERC20TokenStakingManagerFilterer_ParseDelegatorAdded stakingManager)) (\<lambda>_.
     rret receipt)))"

text \<open>The address of the manager is not used.\<close>

definition InitializeNativeDelegatorRegistration ::
  "'w e2e_lib \<Rightarrow> ctx \<Rightarrow> priv_key \<Rightarrow> 'w L1TestInfo \<Rightarrow> hash \<Rightarrow> int \<Rightarrow> address \<Rightarrow> 'w bound_contract \<Rightarrow>
   ('w, mined_receipt) run" where
  "InitializeNativeDelegatorRegistration lib c senderKey l1 validationID delegationAmount
       stakingManagerAddress stakingManager =
     rbnd (transact_and_wait lib c l1 senderKey (\<lambda>opts.
         NativeTokenStakingManagerTransactor_InitializeDelegatorRegistration stakingManager
           (opts\<lparr>TransactValue := delegationAmount\<rparr>) validationID)) (\<lambda>receipt.
     rbnd (find_event ''*nativetokenstakingmanager.NativeTokenStakingManagerDelegatorAdded'' receipt
         (NativeTokenStakingManagerFilterer_ParseDelegatorAdded stakingManager)) (\<lambda>_.
     rret receipt))"

definition InitializeEndDelegation ::
  "'w e2e_lib \<Rightarrow> 'w manager_lib \<Rightarrow> ctx \<Rightarrow> priv_key \<Rightarrow> 'w L1TestInfo \<Rightarrow> address \<Rightarrow> hash \<Rightarrow>
   ('w, mined_receipt) run" where
  "InitializeEndDelegation lib mlib c senderKey l1 stakingManagerAddress delegationID =
     rbnd (expect (NewIPoSValidatorManager (Backend l1) stakingManagerAddress)) (\<lambda>stakingManager.
     rbnd (WaitMinStakeDuration lib mlib c l1 senderKey) (\<lambda>_.
     transact_and_wait lib c l1 senderKey (\<lambda>opts.
       IPoSValidatorManagerTransactor_ForceInitializeEndDelegation stakingManager opts delegationID False 0)))"

section \<open>Removing a validator\<close>

text \<open>
  What the removals share. The event must be about the validation and its weight; the contract's message
  is signed and given to the P-Chain, whose error is not looked at; the P-Chain's acknowledgement is
  delivered, and the contract must have ended the validation.
\<close>

definition removal_begun ::
  "string \<Rightarrow> (evm_log \<Rightarrow> goerr + event_fields) \<Rightarrow> hash \<Rightarrow> u64 \<Rightarrow> mined_receipt \<Rightarrow> ('w, unit) run" where
  "removal_begun ty parser validationID weight receipt =
     rbnd (expect_validation ty parser validationID receipt) (\<lambda>event.
     rbnd (field ''Weight'' (go_word 64) event) (\<lambda>removed. expect_that (removed = weight)))"

definition tell_pchain ::
  "'w e2e_lib \<Rightarrow> 'w manager_lib \<Rightarrow> ctx \<Rightarrow> priv_key \<Rightarrow> 'w L1TestInfo \<Rightarrow> mined_receipt \<Rightarrow> ('w, unit) run" where
  "tell_pchain lib mlib c fundedKey l1Info receipt =
     rbnd (ExtractWarpMessageFromLog lib c receipt l1Info) (\<lambda>unsignedMessage.
     rbnd (call_ok (CreateSignedMessage lib unsignedMessage [] (L1TestInfo.SubnetID l1Info) 67))
       (\<lambda>signedWarpMessage.
     rbnd (ask (IssueSetL1ValidatorWeightTx mlib (MessageBytes lib signedWarpMessage))) (\<lambda>_.
     advance_chains mlib l1Info fundedKey)))"

definition removal_ended ::
  "'w e2e_lib \<Rightarrow> ctx \<Rightarrow> priv_key \<Rightarrow> 'w L1TestInfo \<Rightarrow> address \<Rightarrow> string \<Rightarrow> (evm_log \<Rightarrow> goerr + event_fields) \<Rightarrow>
   hash \<Rightarrow> warp_message \<Rightarrow> ('w, unit) run" where
  "removal_ended lib c senderKey l1Info managerAddress ty parser validationID signedMessage =
     rbnd (CompleteEndValidation lib c senderKey l1Info managerAddress signedMessage) (\<lambda>receipt.
     rbnd (expect_validation ty parser validationID receipt) (\<lambda>_. rret ()))"

definition InitializeAndCompleteEndInitialPoSValidation ::
  "'w e2e_lib \<Rightarrow> 'w manager_lib \<Rightarrow> ctx \<Rightarrow> priv_key \<Rightarrow> 'w L1TestInfo \<Rightarrow> 'w L1TestInfo \<Rightarrow> 'w bound_contract \<Rightarrow>
   address \<Rightarrow> hash \<Rightarrow> u32 \<Rightarrow> u64 \<Rightarrow> u32 \<Rightarrow> ('w, unit) run" where
  "InitializeAndCompleteEndInitialPoSValidation lib mlib c fundedKey l1Info pChainInfo stakingManager
       stakingManagerAddress validationID index weight networkID =
     rbnd (WaitMinStakeDuration lib mlib c l1Info fundedKey) (\<lambda>_.
     rbnd (ForceInitializeEndPoSValidation lib c fundedKey l1Info stakingManager validationID) (\<lambda>receipt.
     rbnd (removal_begun ''*iposvalidatormanager.IPoSValidatorManagerValidatorRemovalInitialized''
         (IPoSValidatorManagerFilterer_ParseValidatorRemovalInitialized stakingManager) validationID weight
         receipt) (\<lambda>_.
     rbnd (tell_pchain lib mlib c fundedKey l1Info receipt) (\<lambda>_.
     rbnd (ConstructL1ValidatorRegistrationMessageForInitialValidator lib mlib validationID index False
         l1Info pChainInfo networkID)
       (removal_ended lib c fundedKey l1Info stakingManagerAddress
         ''*iposvalidatormanager.IPoSValidatorManagerValidationPeriodEnded''
         (IPoSValidatorManagerFilterer_ParseValidationPeriodEnded stakingManager) validationID)))))"

text \<open>\<open>time.Since\<close> in seconds: the uptime claimed is the time since the validator's start.\<close>

definition since :: "'w manager_lib \<Rightarrow> nat \<Rightarrow> ('w, u64) run" where
  "since mlib start s = (case SecondsSince mlib start s of (n, s') \<Rightarrow> Some (Returned n, s'))"

definition InitializeAndCompleteEndPoSValidation ::
  "'w e2e_lib \<Rightarrow> 'w manager_lib \<Rightarrow> ctx \<Rightarrow> priv_key \<Rightarrow> 'w L1TestInfo \<Rightarrow> 'w L1TestInfo \<Rightarrow> 'w bound_contract \<Rightarrow>
   address \<Rightarrow> hash \<Rightarrow> u64 \<Rightarrow> Node \<Rightarrow> u64 \<Rightarrow> bool \<Rightarrow> nat \<Rightarrow> u32 \<Rightarrow> ('w, unit) run" where
  "InitializeAndCompleteEndPoSValidation lib mlib c fundedKey l1Info pChainInfo stakingManager
       stakingManagerAddress validationID expiry node nonce includeUptime validatorStartTime networkID =
     rbnd (WaitMinStakeDuration lib mlib c l1Info fundedKey) (\<lambda>_.
     rbnd
       (if includeUptime then
          rbnd (since mlib validatorStartTime) (\<lambda>uptime.
          ForceInitializeEndPoSValidationWithUptime lib mlib c networkID fundedKey l1Info
            stakingManagerAddress validationID uptime)
        else ForceInitializeEndPoSValidation lib c fundedKey l1Info stakingManager validationID)
       (\<lambda>receipt.
     rbnd (removal_begun ''*iposvalidatormanager.IPoSValidatorManagerValidatorRemovalInitialized''
         (IPoSValidatorManagerFilterer_ParseValidatorRemovalInitialized stakingManager) validationID
         (NodeWeight node) receipt) (\<lambda>_.
     rbnd (tell_pchain lib mlib c fundedKey l1Info receipt) (\<lambda>_.
     rbnd (ConstructL1ValidatorRegistrationMessage lib mlib validationID expiry node False l1Info
         pChainInfo networkID)
       (removal_ended lib c fundedKey l1Info stakingManagerAddress
         ''*iposvalidatormanager.IPoSValidatorManagerValidationPeriodEnded''
         (IPoSValidatorManagerFilterer_ParseValidationPeriodEnded stakingManager) validationID)))))"

definition InitializeAndCompleteEndInitialPoAValidation ::
  "'w e2e_lib \<Rightarrow> 'w manager_lib \<Rightarrow> ctx \<Rightarrow> priv_key \<Rightarrow> priv_key \<Rightarrow> 'w L1TestInfo \<Rightarrow> 'w L1TestInfo \<Rightarrow>
   'w bound_contract \<Rightarrow> address \<Rightarrow> hash \<Rightarrow> u32 \<Rightarrow> u64 \<Rightarrow> u32 \<Rightarrow> ('w, unit) run" where
  "InitializeAndCompleteEndInitialPoAValidation lib mlib c ownerKey fundedKey l1Info pChainInfo
       stakingManager stakingManagerAddress validationID index weight networkID =
     rbnd (WaitMinStakeDuration lib mlib c l1Info fundedKey) (\<lambda>_.
     rbnd (InitializeEndPoAValidation lib c ownerKey l1Info stakingManager validationID) (\<lambda>receipt.
     rbnd (removal_begun ''*poavalidatormanager.PoAValidatorManagerValidatorRemovalInitialized''
         (PoAValidatorManagerFilterer_ParseValidatorRemovalInitialized stakingManager) validationID weight
         receipt) (\<lambda>_.
     rbnd (tell_pchain lib mlib c fundedKey l1Info receipt) (\<lambda>_.
     rbnd (ConstructL1ValidatorRegistrationMessageForInitialValidator lib mlib validationID index False
         l1Info pChainInfo networkID)
       (removal_ended lib c fundedKey l1Info stakingManagerAddress
         ''*poavalidatormanager.PoAValidatorManagerValidationPeriodEnded''
         (PoAValidatorManagerFilterer_ParseValidationPeriodEnded stakingManager) validationID)))))"

text \<open>
  This one does not reach the P-Chain: it looks into the signed message, and asks for the
  acknowledgement of the zero \<open>Node\<close>.
\<close>

definition InitializeAndCompleteEndPoAValidation ::
  "'w e2e_lib \<Rightarrow> 'w manager_lib \<Rightarrow> ctx \<Rightarrow> priv_key \<Rightarrow> priv_key \<Rightarrow> 'w L1TestInfo \<Rightarrow> 'w L1TestInfo \<Rightarrow>
   'w bound_contract \<Rightarrow> address \<Rightarrow> hash \<Rightarrow> u64 \<Rightarrow> u64 \<Rightarrow> u32 \<Rightarrow> ('w, unit) run" where
  "InitializeAndCompleteEndPoAValidation lib mlib c ownerKey fundedKey l1Info pChainInfo validatorManager
       validatorManagerAddress validationID weight nonce networkID =
     rbnd (InitializeEndPoAValidation lib c ownerKey l1Info validatorManager validationID) (\<lambda>receipt.
     rbnd (removal_begun ''*poavalidatormanager.PoAValidatorManagerValidatorRemovalInitialized''
         (PoAValidatorManagerFilterer_ParseValidatorRemovalInitialized validatorManager) validationID weight
         receipt) (\<lambda>_.
     rbnd (ConstructSignedWarpMessage lib c receipt l1Info pChainInfo []) (\<lambda>signedWarpMessage.
     rbnd (ValidateL1ValidatorWeightMessage lib mlib signedWarpMessage validationID 0 nonce) (\<lambda>_.
     rbnd (ConstructL1ValidatorRegistrationMessage lib mlib validationID 0 zero_Node False l1Info pChainInfo
         networkID)
       (removal_ended lib c ownerKey l1Info validatorManagerAddress
         ''*poavalidatormanager.PoAValidatorManagerValidationPeriodEnded''
         (PoAValidatorManagerFilterer_ParseValidationPeriodEnded validatorManager) validationID)))))"

end
