(* ===== verification/ValidatorChecks.thy ===== *)
theory ValidatorChecks
  imports ValidatorRemovals IcttChecks
begin

text \<open>
  What the utilities of \<open>validator_manager.go\<close> do: the library each deployed manager is linked to, the steps
  of a registration that returns, and two removals that cannot return.
\<close>

section \<open>Deployment\<close>

fun manager_abi :: "ValidatorManagerConcreteType \<Rightarrow> contract_abi" where
  "manager_abi PoAManager = PoAValidatorManagerABI"
| "manager_abi ERC20Manager = ERC20TokenStakingManagerABI"
| "manager_abi NativeManager = NativeTokenStakingManagerABI"

lemma deploy_manager_contract_eq:
  "deploy_manager_contract ty ll opts mode = deploy_linked ll opts (manager_abi ty) [GUint 8 (unat mode)]"
  by (cases ty) (simp_all add: DeployPoAValidatorManager_def DeployERC20TokenStakingManager_def
      DeployNativeTokenStakingManager_def)

text \<open>A linked deployment that succeeds, step by step.\<close>

definition linked_deployment ::
  "'w linked_lib \<Rightarrow> TransactOpts \<Rightarrow> contract_abi \<Rightarrow> go_val list \<Rightarrow> string \<Rightarrow> 'w \<Rightarrow> string \<Rightarrow>
   address \<Rightarrow> hash \<Rightarrow> 'w \<Rightarrow> bool" where
  "linked_deployment ll opts meta params template w bin addr tx w' \<longleftrightarrow>
     (\<exists>abi r w1. GetAbi (lib_codec (LinkLib ll)) meta = Inr abi \<and>
        DeployValidatorMessages (LinkLib ll) (MessagesBin ll) opts w = (Returned r, w1) \<and>
        bin = ReplaceAll template library_placeholder (drop 2 (AddressString ll (library_address r))) \<and>
        DeployContract (LinkLib ll) opts abi bin params w1 = (Returned (Inr (addr, tx)), w'))"

lemma deploy_linked_Returned:
  "deploy_linked ll opts meta params s = (Returned (Inr (addr, tx, contract)), s') \<longleftrightarrow>
   (\<exists>bin w. linked_deployment ll opts meta params (LinkBin s) (LinkChain s) bin addr tx w \<and>
      (\<exists>abi. GetAbi (lib_codec (LinkLib ll)) meta = Inr abi \<and>
         contract = NewBoundContract (LinkLib ll) abi addr) \<and>
      s' = \<lparr>LinkBin = bin, LinkChain = w\<rparr>)"
  by (cases s) (auto simp: linked_deployment_def deploy_linked_def deploy_code_def on_chain_def bnd_def
      andThen_def upd_def gets_def ret_def split: sum.splits prod.splits outcome.splits)

definition manager_deployment ::
  "'w e2e_lib \<Rightarrow> 'w manager_lib \<Rightarrow> ctx \<Rightarrow> priv_key \<Rightarrow> 'w L1TestInfo \<Rightarrow> ValidatorManagerConcreteType \<Rightarrow> 'w \<Rightarrow>
   string \<Rightarrow> address \<Rightarrow> 'w bound_contract \<Rightarrow> 'w \<Rightarrow> bool" where
  "manager_deployment lib mlib c key l1 ty w bin addr manager w' \<longleftrightarrow>
     (\<exists>opts tx w1 receipt. NewKeyedTransactorWithChainID lib key (EVMChainID l1) = Inr opts \<and>
        linked_deployment (linked_lib_of lib l1) opts (manager_abi ty) [GUint 8 0] (MetaBin mlib ty) w
          bin addr tx w1 \<and>
        NewIValidatorManager (Backend l1) addr = Inr manager \<and>
        WaitForTransactionSuccess lib c l1 tx w1 = Some (Returned receipt, w'))"

lemma run_of_Returned_iff: "run_of p s = Some (Returned x, s') \<longleftrightarrow> p s = (Returned x, s')"
  by simp

lemma link_Returned_iff:
  "on_link ty (run_of (deploy_linked ll opts meta params)) s = Some (Returned (Inr (addr, tx, contract)), s') \<longleftrightarrow>
   (\<exists>bin w abi. linked_deployment ll opts meta params (ManagerBin s ty) (ManagerWorld s) bin addr tx w \<and>
      GetAbi (lib_codec (LinkLib ll)) meta = Inr abi \<and> contract = NewBoundContract (LinkLib ll) abi addr \<and>
      s' = s\<lparr>ManagerBin := (ManagerBin s)(ty := bin), ManagerWorld := w\<rparr>)"
  by (cases s) (fastforce simp: on_link_def focus_Returned_iff run_of_Returned_iff deploy_linked_Returned)

lemma DeployValidatorManager_Returned:
  "DeployValidatorManager lib mlib c key l1 ty s = Some (Returned (addr, manager), s') \<longleftrightarrow>
   (\<exists>bin w. manager_deployment lib mlib c key l1 ty (ManagerWorld s) bin addr manager w \<and>
      s' = s\<lparr>ManagerBin := (ManagerBin s)(ty := bin), ManagerWorld := w\<rparr>)"
  (is "?run = Some (_, s') \<longleftrightarrow> ?spec")
proof
  assume "?run = Some (Returned (addr, manager), s')"
  then show ?spec
    unfolding DeployValidatorManager_def deploy_manager_contract_eq manager_deployment_def
    by (auto simp: go_splits run_of_Returned_iff upd_def link_Returned_iff) blast
next
  assume ?spec
  then obtain bin w opts tx w1 receipt where opts: "NewKeyedTransactorWithChainID lib key (EVMChainID l1) = Inr opts"
      and linked: "linked_deployment (linked_lib_of lib l1) opts (manager_abi ty) [GUint 8 0] (MetaBin mlib ty)
          (ManagerWorld s) bin addr tx w1"
      and manager: "NewIValidatorManager (Backend l1) addr = Inr manager"
      and wait: "WaitForTransactionSuccess lib c l1 tx w1 = Some (Returned receipt, w)"
      and s': "s' = s\<lparr>ManagerBin := (ManagerBin s)(ty := bin), ManagerWorld := w\<rparr>"
    unfolding manager_deployment_def by blast
  let ?t = "s\<lparr>ManagerBin := (ManagerBin s)(ty := MetaBin mlib ty)\<rparr>"
  obtain abi where "GetAbi (lib_codec (LinkLib (linked_lib_of lib l1))) (manager_abi ty) = Inr abi"
    using linked unfolding linked_deployment_def by blast
  then have "\<exists>contract. on_link ty (run_of (deploy_linked (linked_lib_of lib l1) opts (manager_abi ty) [GUint 8 0])) ?t =
      Some (Returned (Inr (addr, tx, contract)), s\<lparr>ManagerBin := (ManagerBin s)(ty := bin), ManagerWorld := w1\<rparr>)"
    using linked by (simp add: link_Returned_iff) blast
  then show "?run = Some (Returned (addr, manager), s')"
    using opts manager wait s'
    by (auto simp: DeployValidatorManager_def deploy_manager_contract_eq upd_def)
qed

text \<open>
  C18. A validator manager is linked to the library that its own deployment deployed, whatever was
  deployed before: the bytecode variable is reset to the bytecode of the binding first. What a
  deployment does to the network does not depend on the bytecode variables, and it changes only that
  of its kind.
\<close>

theorem manager_links_its_own_library:
  assumes "DeployValidatorManager lib mlib c key l1 ty s = Some (Returned (addr, manager), s')"
  shows "\<exists>opts abi r w1 tx w2 receipt.
     NewKeyedTransactorWithChainID lib key (EVMChainID l1) = Inr opts \<and>
     GetAbi (lib_codec (Backend l1)) (manager_abi ty) = Inr abi \<and>
     DeployValidatorMessages (Backend l1) (ContractBin lib ''ValidatorMessages'') opts (ManagerWorld s) =
       (Returned r, w1) \<and>
     ManagerBin s' ty = ReplaceAll (MetaBin mlib ty) library_placeholder
       (drop 2 (AddressText lib (library_address r))) \<and>
     DeployContract (Backend l1) opts abi (ManagerBin s' ty) [GUint 8 0] w1 = (Returned (Inr (addr, tx)), w2) \<and>
     WaitForTransactionSuccess lib c l1 tx w2 = Some (Returned receipt, ManagerWorld s') \<and>
     (\<forall>ty'. ty' \<noteq> ty \<longrightarrow> ManagerBin s' ty' = ManagerBin s ty') \<and>
     (\<forall>bins. \<exists>bins'. DeployValidatorManager lib mlib c key l1 ty (s\<lparr>ManagerBin := bins\<rparr>) =
        Some (Returned (addr, manager), s'\<lparr>ManagerBin := bins'\<rparr>))"
proof -
  obtain bin w where dep: "manager_deployment lib mlib c key l1 ty (ManagerWorld s) bin addr manager w"
      and s': "s' = s\<lparr>ManagerBin := (ManagerBin s)(ty := bin), ManagerWorld := w\<rparr>"
    using assms unfolding DeployValidatorManager_Returned by blast
  have "DeployValidatorManager lib mlib c key l1 ty (s\<lparr>ManagerBin := bins\<rparr>) =
      Some (Returned (addr, manager), s'\<lparr>ManagerBin := bins(ty := bin)\<rparr>)" for bins
    unfolding DeployValidatorManager_Returned using dep s' by (intro exI [of _ bin] exI [of _ w]) simp
  then show ?thesis
    using dep s' by (auto simp: manager_deployment_def linked_deployment_def linked_lib_of_def)
qed

section \<open>Removals that cannot return\<close>

text \<open>\<open>Arguments.Pack\<close> of \<open>go-ethereum\<close> fails if there are more or fewer values than arguments.\<close>

definition codec_arity :: "abi_codec \<Rightarrow> bool" where
  "codec_arity c \<longleftrightarrow> (\<forall>as vs b. pack_args c as vs = Inr b \<longrightarrow> length vs = length as)"

lemma wrong_arity_fails:
  assumes "codec_methods c" and "codec_arity c" and "map_of (Methods abi) m = Some (ins, outs)"
    and "length args \<noteq> length ins"
  shows "\<exists>e. pack_method c abi m args = Inl e"
proof (cases "pack_args c ins args")
  case (Inl e)
  then show ?thesis
    using assms(1,3) by (simp add: codec_methods_def)
next
  case (Inr b)
  then show ?thesis
    using assms(2,4) unfolding codec_arity_def by blast
qed

lemma uptime_overloads:
  "map_of (Methods IPoSValidatorManagerABI) ''initializeEndValidation'' =
     Some ([(''validationID'', TBytes32), (''includeUptimeProof'', TBool), (''messageIndex'', TUint 32),
       (''recipientAddress'', TAddress)], [])"
  "map_of (Methods IPoSValidatorManagerABI) ''forceInitializeEndValidation'' =
     Some ([(''validationID'', TBytes32), (''includeUptimeProof'', TBool), (''messageIndex'', TUint 32)], [])"
  by (simp_all add: IPoSValidatorManager_methods)

text \<open>
  C21. Ending a validation with a proof of uptime fails after the proof has been signed, and sends
  nothing, unless it is forced: by its name \<open>initializeEndValidation\<close> the ABI finds the overload with a
  recipient, so that three arguments cannot be packed. The forced variant is found with three, and
  its call data is what the contract decodes.
\<close>

theorem unforced_removal_with_uptime_fails:
  assumes "codec_methods (codec_lib lib)" and "codec_roundtrip (codec_lib lib)" and "codec_arity (codec_lib lib)"
    and "ConstructUptimeProofMessage lib mlib validationID uptime l1 networkID s = Some (Returned proof, s1)"
  shows "\<exists>e. InitializeEndPoSValidationWithUptime lib mlib c networkID key l1 manager validationID uptime s =
       Some (Failed e, s1) \<and>
     (\<exists>callData. call_of (codec_lib lib) IPoSValidatorManagerABI ''forceInitializeEndValidation''
         [GArr32 validationID, GBool True, GUint 32 0] (Inr callData) \<and>
       ForceInitializeEndPoSValidationWithUptime lib mlib c networkID key l1 manager validationID uptime s =
         CallWarpReceiver lib c callData key l1 manager proof s1)"
proof -
  let ?args = "[GArr32 validationID, GBool True, GUint 32 0]" and ?k = "codec_lib lib"
  obtain e where e: "pack_method ?k IPoSValidatorManagerABI ''initializeEndValidation'' ?args = Inl e"
    using wrong_arity_fails [OF assms(1,3) uptime_overloads(1), of ?args] by auto
  have "call_of ?k IPoSValidatorManagerABI ''forceInitializeEndValidation'' ?args
      (pack_method ?k IPoSValidatorManagerABI ''forceInitializeEndValidation'' ?args)"
    by (rule call_of_pack_method [OF assms(1,2) uptime_overloads(2)]) simp
  then obtain callData where data: "pack_method ?k IPoSValidatorManagerABI ''forceInitializeEndValidation'' ?args =
        Inr callData"
      and call: "call_of ?k IPoSValidatorManagerABI ''forceInitializeEndValidation'' ?args (Inr callData)"
    by (auto simp: call_of_def)
  have "ForceInitializeEndPoSValidationWithUptime lib mlib c networkID key l1 manager validationID uptime s =
      CallWarpReceiver lib c callData key l1 manager proof s1"
    using assms(4) data by (simp add: ForceInitializeEndPoSValidationWithUptime_def pack_and_deliver_def
        GetAbi_ok [OF assms(1)])
  with call show ?thesis
    using assms(4) e by (auto simp: InitializeEndPoSValidationWithUptime_def pack_and_deliver_def
        GetAbi_ok [OF assms(1)])
qed

lemma rbnd_panicked [simp]: "rbnd (run_of (panicked e)) f = run_of (panicked e)"
  by (simp add: fun_eq_iff rbnd_def run_of_def panicked_def)

lemma ack_for_zero_Node:
  "ConstructL1ValidatorRegistrationMessage lib mlib validationID expiry zero_Node valid l1 pChainInfo networkID =
   run_of (panicked ''invalid memory address or nil pointer dereference'')"
  by (simp add: ConstructL1ValidatorRegistrationMessage_def pop_of_def zero_Node_def deref_nil_def)

text \<open>
  C22. The removal of a validator that was added to a proof-of-authority manager never completes: after
  the contract has begun the removal and the message about it was signed and checked, asking the P-Chain
  for its acknowledgement dereferences the nil proof of possession of the zero node, and the run panics.
\<close>

theorem poa_removal_panics:
  "InitializeAndCompleteEndPoAValidation lib mlib c ownerKey fundedKey l1Info pChainInfo manager
       managerAddress validationID weight nonce networkID =
     rbnd (InitializeEndPoAValidation lib c ownerKey l1Info manager validationID) (\<lambda>receipt.
     rbnd (removal_begun ''*poavalidatormanager.PoAValidatorManagerValidatorRemovalInitialized''
         (PoAValidatorManagerFilterer_ParseValidatorRemovalInitialized manager) validationID weight receipt) (\<lambda>_.
     rbnd (ConstructSignedWarpMessage lib c receipt l1Info pChainInfo []) (\<lambda>signedWarpMessage.
     rbnd (ValidateL1ValidatorWeightMessage lib mlib signedWarpMessage validationID 0 nonce) (\<lambda>_.
     run_of (panicked ''invalid memory address or nil pointer dereference''))))) \<and>
   InitializeAndCompleteEndPoAValidation lib mlib c ownerKey fundedKey l1Info pChainInfo manager
       managerAddress validationID weight nonce networkID s \<noteq> Some (Returned (), s')"
  by (simp add: InitializeAndCompleteEndPoAValidation_def ack_for_zero_Node)
    (auto simp: go_splits run_of_def panicked_def)

section \<open>Registration\<close>

text \<open>The event a parser finds in a receipt.\<close>

definition emitted :: "mined_receipt \<Rightarrow> string \<Rightarrow> (evm_log \<Rightarrow> goerr + event_fields) \<Rightarrow> (string \<times> go_val) list \<Rightarrow> bool" where
  "emitted receipt ty parser fs \<longleftrightarrow>
     (\<exists>event. GetEventFromLogs ty (RcptLogs receipt) parser = Inr event \<and> has_fields event fs)"

lemma go_conv_iff: "go_arr32 v = Some h \<longleftrightarrow> v = GArr32 h" "go_bytes v = Some b \<longleftrightarrow> v = GBytes b"
  by (cases v; simp; fail)+

declare field_Returned_iff [go_splits]

lemma expect_validation_Returned:
  "expect_validation ty parser validationID receipt s = Some (Returned event, s') \<longleftrightarrow>
   GetEventFromLogs ty (RcptLogs receipt) parser = Inr event \<and>
   has_fields event [(''ValidationID'', GArr32 validationID)] \<and> s' = s"
  by (auto simp: expect_validation_def find_event_def go_splits go_conv_iff)

lemma created_validation_Returned:
  "created_validation ty parser node receipt s = Some (Returned (receipt', validationID), s') \<longleftrightarrow>
   receipt' = receipt \<and> s' = s \<and>
   emitted receipt ty parser [(''NodeID'', GBytes (node_bytes node)), (''ValidationID'', GArr32 validationID)]"
  by (auto simp: created_validation_def emitted_def find_event_def go_splits go_conv_iff)

lemma pop_of_Returned [go_splits]:
  "pop_of node s = Some (Returned pop, s') \<longleftrightarrow> NodeNodePoP node = Some pop \<and> s' = s"
  by (auto simp: pop_of_def deref_nil_def run_of_def panicked_def split: option.splits)

text \<open>The transaction of a registration, whose method is called with options for the key.\<close>

lemma register_and_wait_made:
  assumes "register_and_wait lib c key l1 node expiry method ty parser s = Some (Returned (sent, validationID), s1)"
    and "\<And>opts input. sends_call (codec_lib lib) abi be opts m (vals input) (method opts input)"
  shows "\<exists>pop. NodeNodePoP node = Some pop \<and>
     transaction_made lib c l1 key be abi m (vals (registration_of node pop expiry)) s sent s1 \<and>
     emitted sent ty parser [(''NodeID'', GBytes (node_bytes node)), (''ValidationID'', GArr32 validationID)]"
proof -
  obtain opts pop tx w receipt where opts: "NewKeyedTransactorWithChainID lib key (EVMChainID l1) = Inr opts"
      and pop: "NodeNodePoP node = Some pop"
      and tx: "method opts (registration_of node pop expiry) s = (Returned (Inr tx), w)"
      and wait: "WaitForTransactionSuccess lib c l1 tx w = Some (Returned receipt, s1)"
      and created: "created_validation ty parser node receipt s1 = Some (Returned (sent, validationID), s1)"
    using assms(1)
    by (auto simp: register_and_wait_def registration_input_def call_contract_def go_splits run_of_Returned_iff
        created_validation_Returned)
  let ?input = "registration_of node pop expiry"
  obtain data where "call_of (codec_lib lib) abi m (vals ?input) (Inr data)"
      and "method opts ?input = send_data be opts data"
    using assms(2) [of opts ?input] by (auto simp: sends_call_def)
  then have "transaction_made lib c l1 key be abi m (vals ?input) s receipt s1"
    using opts tx wait unfolding transaction_made_def by metis
  then show ?thesis
    using pop created by (auto simp: created_validation_Returned)
qed

text \<open>
  C12. A registration with a proof-of-authority manager that returns an identifier has gone through these
  steps, in this order: the owner's transaction, with the node's identifier, key and weight, after which
  the contract created the validation of that identifier for that node; the P-Chain transaction with
  the contract's signed message and the node's proof of possession; after the chains were moved on, a
  message of the P-Chain that the validation is valid, justified by the registration of the same node,
  signed by the L1's validators; and its delivery, in which the contract registered the validation.
\<close>

theorem registration_returns_the_registered_validation:
  assumes "codec_methods (codec_lib lib)" and "codec_roundtrip (codec_lib lib)"
    and "bound_spec (codec_lib lib) PoAValidatorManagerABI be manager"
    and "InitializeAndCompletePoAValidatorRegistration lib mlib c ownerKey fundedKey l1 pChain manager
      managerAddress expiry node networkID s = Some (Returned validationID, s')"
  shows "\<exists>pop sent signed msg justification ack receipt s1 s2 s3 s4 s5.
     NodeNodePoP node = Some pop \<and>
     transaction_made lib c l1 ownerKey be PoAValidatorManagerABI ''initializeValidatorRegistration''
       [ValidatorRegistrationInput_val (registration_of node pop expiry), GUint 64 (unat (NodeWeight node))]
       s sent s1 \<and>
     emitted sent ''*poavalidatormanager.PoAValidatorManagerValidationPeriodCreated''
       (PoAValidatorManagerFilterer_ParseValidationPeriodCreated manager)
       [(''NodeID'', GBytes (node_bytes node)), (''ValidationID'', GArr32 validationID)] \<and>
     ConstructSignedWarpMessage lib c sent l1 pChain [] s1 = Some (Returned signed, s2) \<and>
     IssueRegisterL1ValidatorTx mlib (100 * Avax mlib) (PopProof pop) (MessageBytes lib signed) s2 = (Inr (), s3) \<and>
     advance_chains mlib l1 fundedKey s3 = Some (Returned (), s4) \<and>
     NewRegisterL1Validator mlib (L1TestInfo.SubnetID l1) (NodeNodeID node) (PopPublicKey pop) expiry
       (NodeWeight node) = Inr msg \<and>
     MarshalJustification mlib (RegisterL1ValidatorMessage msg) = Inr justification \<and>
     construct_message lib networkID (BlockchainID pChain) (NewL1ValidatorRegistration mlib validationID True)
       justification (L1TestInfo.SubnetID l1) s4 = Some (Returned ack, s5) \<and>
     CompleteValidatorRegistration lib c fundedKey l1 managerAddress ack s5 = Some (Returned receipt, s') \<and>
     emitted receipt ''*poavalidatormanager.PoAValidatorManagerValidationPeriodRegistered''
       (PoAValidatorManagerFilterer_ParseValidationPeriodRegistered manager)
       [(''ValidationID'', GArr32 validationID)]"
proof -
  obtain sent s1 where first: "InitializePoAValidatorRegistration lib c ownerKey l1 node expiry manager s =
        Some (Returned (sent, validationID), s1)"
      and rest: "complete_registration lib mlib c fundedKey l1 pChain managerAddress expiry node networkID
        ''*poavalidatormanager.PoAValidatorManagerValidationPeriodRegistered''
        (PoAValidatorManagerFilterer_ParseValidationPeriodRegistered manager) (sent, validationID) s1 =
        Some (Returned validationID, s')"
    using assms(4) by (auto simp: InitializeAndCompletePoAValidatorRegistration_def complete_registration_def go_splits)
  have sends: "sends_call (codec_lib lib) PoAValidatorManagerABI be opts ''initializeValidatorRegistration''
      [ValidatorRegistrationInput_val input, GUint 64 (unat (NodeWeight node))]
      (PoAValidatorManagerTransactor_InitializeValidatorRegistration manager opts input (NodeWeight node))"
    for opts input
    using PoAValidatorManager_transactions_decode [OF assms(1-3), of opts] by (elim conjE allE)
  obtain pop where made: "NodeNodePoP node = Some pop"
      "transaction_made lib c l1 ownerKey be PoAValidatorManagerABI ''initializeValidatorRegistration''
        [ValidatorRegistrationInput_val (registration_of node pop expiry), GUint 64 (unat (NodeWeight node))]
        s sent s1"
      "emitted sent ''*poavalidatormanager.PoAValidatorManagerValidationPeriodCreated''
       (PoAValidatorManagerFilterer_ParseValidationPeriodCreated manager)
       [(''NodeID'', GBytes (node_bytes node)), (''ValidationID'', GArr32 validationID)]"
    using register_and_wait_made [OF first [unfolded InitializePoAValidatorRegistration_def] sends] by blast
  obtain signed s2 s3 s4 msg justification ack s5 receipt where later:
      "ConstructSignedWarpMessage lib c sent l1 pChain [] s1 = Some (Returned signed, s2)"
      "IssueRegisterL1ValidatorTx mlib (100 * Avax mlib) (PopProof pop) (MessageBytes lib signed) s2 = (Inr (), s3)"
      "advance_chains mlib l1 fundedKey s3 = Some (Returned (), s4)"
      "NewRegisterL1Validator mlib (L1TestInfo.SubnetID l1) (NodeNodeID node) (PopPublicKey pop) expiry
        (NodeWeight node) = Inr msg"
      "MarshalJustification mlib (RegisterL1ValidatorMessage msg) = Inr justification"
      "construct_message lib networkID (BlockchainID pChain) (NewL1ValidatorRegistration mlib validationID True)
        justification (L1TestInfo.SubnetID l1) s4 = Some (Returned ack, s5)"
      "CompleteValidatorRegistration lib c fundedKey l1 managerAddress ack s5 = Some (Returned receipt, s')"
      "emitted receipt ''*poavalidatormanager.PoAValidatorManagerValidationPeriodRegistered''
        (PoAValidatorManagerFilterer_ParseValidationPeriodRegistered manager)
        [(''ValidationID'', GArr32 validationID)]"
    using rest made(1)
    by (auto simp: complete_registration_def ConstructL1ValidatorRegistrationMessage_def go_splits
        expect_validation_Returned emitted_def)
  show ?thesis
    by (intro exI conjI) (rule made later)+
qed

section \<open>The initial validators\<close>

definition validator_of :: "Node \<times> proof_of_possession \<Rightarrow> InitialValidator" where
  "validator_of = (\<lambda>(node, pop). \<lparr>NodeID = node_bytes node, BlsPublicKey = PopPublicKey pop, Weight = NodeWeight node\<rparr>)"

lemma initial_validator_Returned:
  "initial_validator node s = Some (Returned v, s') \<longleftrightarrow>
   (\<exists>pop. NodeNodePoP node = Some pop \<and> v = validator_of (node, pop)) \<and> s' = s"
  by (auto simp: initial_validator_def validator_of_def go_splits)

lemma initial_validators_Returned:
  "initial_validators nodes s = Some (Returned vs, s') \<longleftrightarrow>
   (\<exists>pops. map NodeNodePoP nodes = map Some pops \<and> vs = map validator_of (zip nodes pops)) \<and> s' = s"
proof (induction nodes arbitrary: vs)
  case (Cons node nodes)
  have step: "initial_validators (node # nodes) s = Some (Returned vs, s') \<longleftrightarrow>
      (\<exists>v rest. initial_validator node s = Some (Returned v, s) \<and>
        initial_validators nodes s = Some (Returned rest, s') \<and> vs = v # rest)"
    by (auto simp: go_splits initial_validator_Returned)
  have split: "(\<exists>pops. map NodeNodePoP (node # nodes) = map Some pops \<and>
        vs = map validator_of (zip (node # nodes) pops)) \<longleftrightarrow>
      (\<exists>pop pops. NodeNodePoP node = Some pop \<and> map NodeNodePoP nodes = map Some pops \<and>
        vs = validator_of (node, pop) # map validator_of (zip nodes pops))" (is "?all \<longleftrightarrow> ?split")
  proof
    assume ?all
    then obtain pops where "map NodeNodePoP (node # nodes) = map Some pops"
        and "vs = map validator_of (zip (node # nodes) pops)"
      by blast
    then show ?split
      by (cases pops) auto
  next
    assume ?split
    then obtain pop pops where "NodeNodePoP node = Some pop" and "map NodeNodePoP nodes = map Some pops"
        and "vs = validator_of (node, pop) # map validator_of (zip nodes pops)"
      by blast
    then show ?all
      by (intro exI [of _ "pop # pops"]) simp
  qed
  show ?case
    unfolding step split Cons.IH initial_validator_Returned by auto
qed auto

text \<open>
  C10. Initializing the validator set of an L1, when it returns, has delivered to the manager exactly the
  validators whose conversion identifier the P-Chain's message is about: each node with its identifier,
  the key of its proof of possession and its weight, in order. The identifiers it returns are the
  subnet's identifier extended by the position of each node, and the first is the one the contract
  created, for the first node with its weight. There is at least one node.
\<close>

theorem delivered_validators_are_the_converted_ones:
  assumes "codec_methods (codec_lib lib)" and "codec_roundtrip (codec_lib lib)"
    and "InitializeValidatorSet lib mlib c key l1 pChain managerAddress networkID nodes s = Some (Returned ids, s')"
  shows "\<exists>first rest pops conversionID signed callData receipt contract event s1.
     nodes = first # rest \<and> map NodeNodePoP nodes = map Some pops \<and>
     SubnetToL1ConversionID mlib (L1TestInfo.SubnetID l1) (BlockchainID l1) managerAddress
       (map (\<lambda>(node, pop). (node_bytes node, PopPublicKey pop, NodeWeight node)) (zip nodes pops)) = Inr conversionID \<and>
     construct_message lib networkID (BlockchainID pChain) (NewSubnetToL1Conversion mlib conversionID)
       (hash_bytes (L1TestInfo.SubnetID l1)) (L1TestInfo.SubnetID l1) s = Some (Returned signed, s1) \<and>
     call_of (codec_lib lib) IValidatorManagerABI ''initializeValidatorSet''
       [ConversionData_val \<lparr>SubnetID = L1TestInfo.SubnetID l1, ValidatorManagerBlockchainID = BlockchainID l1,
          ValidatorManagerAddress = managerAddress, InitialValidators = map validator_of (zip nodes pops)\<rparr>,
        GUint 32 0] (Inr callData) \<and>
     CallWarpReceiver lib c callData key l1 managerAddress signed s1 = Some (Returned receipt, s') \<and>
     ids = map (\<lambda>i. IDAppend mlib (L1TestInfo.SubnetID l1) (of_nat i)) [0..<length nodes] \<and>
     NewIValidatorManager (Backend l1) managerAddress = Inr contract \<and>
     GetEventFromLogs ''*ivalidatormanager.IValidatorManagerInitialValidatorCreated'' (RcptLogs receipt)
       (IValidatorManagerFilterer_ParseInitialValidatorCreated contract) = Inr event \<and>
     has_fields event [(''NodeID'', GBytes (node_bytes first)),
       (''ValidationID'', GArr32 (IDAppend mlib (L1TestInfo.SubnetID l1) 0))] \<and>
     Option.bind (map_of event ''Weight'') (go_word 64) = Some (NodeWeight first)"
proof -
  have pack: "\<exists>callData. pack_method (codec_lib lib) IValidatorManagerABI ''initializeValidatorSet''
        [ConversionData_val d, GUint 32 0] = Inr callData \<and>
      call_of (codec_lib lib) IValidatorManagerABI ''initializeValidatorSet'' [ConversionData_val d, GUint 32 0]
        (Inr callData)" for d
  proof -
    have "map_of (Methods IValidatorManagerABI) ''initializeValidatorSet'' =
        Some ([(''conversionData'', ConversionData_tuple), (''messsageIndex'', TUint 32)], [])"
      by (rule IValidatorManager_methods)
    from call_of_pack_method [OF assms(1,2) this, of "[ConversionData_val d, GUint 32 0]"] show ?thesis
      by (auto simp: call_of_def)
  qed
  have hashed: "map (\<lambda>v. (NodeID v, BlsPublicKey v, Weight v)) (map validator_of ps) =
      map (\<lambda>(node, pop). (node_bytes node, PopPublicKey pop, NodeWeight node)) ps" for ps
    by (simp add: validator_of_def split_def)
  have ids: "hd (validation_ids mlib subnet (first # rest)) = IDAppend mlib subnet 0" for subnet first rest
    by (simp add: validation_ids_def upt_conv_Cons del: upt_Suc)
  let ?subnet = "L1TestInfo.SubnetID l1"
  obtain pops where pops: "map NodeNodePoP nodes = map Some pops"
      and run: "initial_validators nodes s = Some (Returned (map validator_of (zip nodes pops)), s)"
    using assms(3) by (auto simp: InitializeValidatorSet_def go_splits initial_validators_Returned)
  let ?vs = "map validator_of (zip nodes pops)"
  let ?data = "\<lparr>SubnetID = ?subnet, ValidatorManagerBlockchainID = BlockchainID l1,
          ValidatorManagerAddress = managerAddress, InitialValidators = ?vs\<rparr>"
  obtain callData where data: "pack_method (codec_lib lib) IValidatorManagerABI ''initializeValidatorSet''
        [ConversionData_val ?data, GUint 32 0] = Inr callData"
      and call: "call_of (codec_lib lib) IValidatorManagerABI ''initializeValidatorSet''
        [ConversionData_val ?data, GUint 32 0] (Inr callData)"
    using pack by blast
  have deliver: "DeliverL1Conversion lib c key l1 managerAddress m ?data =
      CallWarpReceiver lib c callData key l1 managerAddress m" for m
    by (simp add: DeliverL1Conversion_def pack_and_deliver_def GetAbi_ok [OF assms(1)] data)
  obtain conversionID signed receipt contract event first rest s1 where
      "SubnetToL1ConversionID mlib ?subnet (BlockchainID l1) managerAddress
        (map (\<lambda>(node, pop). (node_bytes node, PopPublicKey pop, NodeWeight node)) (zip nodes pops)) = Inr conversionID"
      and "ConstructL1ConversionMessage lib mlib conversionID l1 pChain networkID s = Some (Returned signed, s1)"
      and "CallWarpReceiver lib c callData key l1 managerAddress signed s1 = Some (Returned receipt, s')"
      and "NewIValidatorManager (Backend l1) managerAddress = Inr contract"
      and "GetEventFromLogs ''*ivalidatormanager.IValidatorManagerInitialValidatorCreated'' (RcptLogs receipt)
        (IValidatorManagerFilterer_ParseInitialValidatorCreated contract) = Inr event"
      and nodes: "nodes = first # rest"
      and "map_of event ''NodeID'' = Some (GBytes (node_bytes first))"
      and "Option.bind (map_of event ''Weight'') (go_word 64) = Some (NodeWeight first)"
      and "map_of event ''ValidationID'' = Some (GArr32 (hd (validation_ids mlib ?subnet nodes)))"
      and "ids = validation_ids mlib ?subnet nodes"
    using assms(3) [unfolded InitializeValidatorSet_def rbnd_eval(2) [where m = "initial_validators nodes" and s = s, OF run] hashed deliver Let_def]
    by (auto simp: go_splits find_event_def go_conv_iff simp del: map_map zip_Cons_Cons)
  then show ?thesis
    using pops call ids [of ?subnet first rest]
    unfolding ConstructL1ConversionMessage_def validation_ids_def has_fields_simps
    by (intro exI conjI) (assumption | simp)+
qed

end
