(* ===== verification/Simulation.thy ===== *)
theory Simulation
  imports LinkedDeployment NewVersion ContractUtils LocalNetwork IcttChecks
begin

text \<open>
  A simulated network on which the properties of the end-to-end utilities are applied: a node that mines
  a transaction at a given time, a clock that contexts are compared with (a context is named by its
  deadline), a messenger with a receipt queue, and the Warp and signing libraries by simple invertible
  encodings. The codec is \<open>ref_codec\<close>.
\<close>

section \<open>Nodes and libraries\<close>

record sim =
  SimClock :: nat
  SimQueue :: nat

definition sim_log :: evm_log where
  "sim_log = example_log\<lparr>LogTopics := [1], LogData := [9]\<rparr>"

definition sim_receipt :: mined_receipt where
  "sim_receipt = \<lparr>RcptStatus = 1, RcptTxHash = 7, RcptContractAddress = 0, RcptGasUsed = 21000,
     RcptEffectiveGasPrice = 1, RcptBlockNumber = 5, RcptLogs = [sim_log], RcptBlockHash = 3\<rparr>"

text \<open>Transactions are mined at time \<open>t\<close> and their block is seen at time \<open>t'\<close>.\<close>

definition sim_client :: "nat \<Rightarrow> nat \<Rightarrow> sim eth_client" where
  "sim_client t t' = \<lparr>
     GetReceipt = (\<lambda>c h s. (if t \<le> SimClock s then Inr sim_receipt else Inl NotFound, s)),
     BlockNumber = (\<lambda>c s. (Inr (if t' \<le> SimClock s then 7 else 4), s)),
     LatestBlock = (\<lambda>c s. (Inr 7, s)),
     SendTransaction = (\<lambda>c tx s. (Inr (), s)),
     EstimateBaseFee = (\<lambda>c s. (Inr 25000000000, s)),
     SuggestGasTipCap = (\<lambda>c s. (Inr 1, s)),
     NonceAt = (\<lambda>c a s. (Inr 0, s)),
     BalanceAt = (\<lambda>c a s. (Inr 0, s)),
     CodeAt = (\<lambda>c a s. (Inr [96, 128, 96], s)),
     BlockLogs = (\<lambda>c h as s. (Inr [sim_log], s)),
     CallTracer = (\<lambda>h s. (Inr ''trace'', s)),
     SendRaw = (\<lambda>c b s. (Inr 7, s))\<rparr>"

text \<open>An addressed call is the length of the source, the source and the payload.\<close>

definition sim_addressed_call :: "bytes \<Rightarrow> bytes \<Rightarrow> goerr + bytes" where
  "sim_addressed_call src p =
     (if length src < 256 then Inr (of_nat (length src) # src @ p) else Inl [''source too long''])"

definition sim_parse_call :: "bytes \<Rightarrow> goerr + bytes \<times> bytes" where
  "sim_parse_call b =
     (case b of [] \<Rightarrow> Inl [''short payload''] | n # r \<Rightarrow> Inr (take (unat n) r, drop (unat n) r))"

definition sim_unsigned :: unsigned_message where
  "sim_unsigned = \<lparr>MsgNetworkID = 1, MsgSourceChainID = 5,
     MsgPayload = 0 # enc_val (message_val example_message)\<rparr>"

definition sim_signed :: warp_message where
  "sim_signed = \<lparr>MsgUnsigned = sim_unsigned, MsgSignature = [8]\<rparr>"

definition sim_lib :: "sim e2e_lib" where
  "sim_lib = \<lparr>
     codec_lib = ref_codec, warpGas = warp_gas_example, Background = 1000000,
     WithTimeout = (\<lambda>c ms s. (min c (SimClock s + ms), s)),
     NextTick = (\<lambda>c ms s.
       if SimClock s + ms < c then (Inr (), s\<lparr>SimClock := SimClock s + max 1 ms\<rparr>)
       else (Inl [''context deadline exceeded''], s\<lparr>SimClock := max (SimClock s) c\<rparr>)),
     DialClient = (\<lambda>uri s. (Inr (sim_client 0 0), s)),
     PubkeyToAddress = (\<lambda>k. 4),
     SignTx = (\<lambda>tx chainID k. Inr \<lparr>SignedTx = tx, TxSignature = [1]\<rparr>),
     TxHash = (\<lambda>tx. 7),
     NewKeyedTransactorWithChainID = (\<lambda>k chainID. Inr example_transact_opts),
     IDString = (\<lambda>h. ''id'' @ FormatUint (unat h)),
     AddressText = (\<lambda>a. ''0x'' @ hex_encode (be_bytes 20 (unat a))),
     UnsignedBytes = (\<lambda>u. hash_bytes (MsgSourceChainID u)),
     MessageBytes = (\<lambda>m. [1, 2, 3]),
     ParseMessage = (\<lambda>b. Inr sim_signed),
     NumSigners = (\<lambda>m. Inr 5),
     NewUnsignedMessage = (\<lambda>n chain p. Inr \<lparr>MsgNetworkID = n, MsgSourceChainID = chain, MsgPayload = p\<rparr>),
     NewAddressedCall = sim_addressed_call,
     ParseAddressedCall = sim_parse_call,
     UnpackWarpLog = (\<lambda>b. Inr sim_unsigned),
     WarpAddress = 5,
     ContractBin = (\<lambda>contract. ''0x''),
     WarpQuorumNumerator = 67,
     MarshalRequest = (\<lambda>r. Inr []),
     UnmarshalResponse = (\<lambda>b. Inr \<lparr>SignedMessage = hex_encode [1, 2, 3]\<rparr>),
     Post = (\<lambda>url b s. (Inr (200, Inr []), s))\<rparr>"

text \<open>
  One contract plays all parts: it answers a call for the settings of a remote with those of a remote whose
  collateral is complete, any other call with the queue, and reads every log as an event with these fields.
\<close>

definition sim_settings :: RemoteTokenTransferrerSettings where
  "sim_settings = \<lparr>Registered = True, CollateralNeeded = 0, TokenMultiplier = 10, MultiplyOnRemote = True\<rparr>"

definition sim_fields :: event_fields where
  "sim_fields = [(''MessageID'', GArr32 7), (''SourceBlockchainID'', GArr32 5),
     (''Message'', message_val example_message), (''RemoteBlockchainID'', GArr32 5),
     (''RemoteTokenTransferrerAddress'', GAddr 3), (''InitialCollateralNeeded'', GBig 2),
     (''Amount'', GBig 2), (''Remaining'', GBig 0)]"

definition sim_messenger :: "sim bound_contract" where
  "sim_messenger = \<lparr>
     contract_call = (\<lambda>opts m ps. gets (\<lambda>s. Inr [if m = ''getRemoteTokenTransferrerSettings''
       then RemoteTokenTransferrerSettings_val sim_settings else GBig (int (SimQueue s))])),
     contract_transact = (\<lambda>opts m ps s. (Returned (Inr 7), s\<lparr>SimQueue := SimQueue s - 5\<rparr>)),
     contract_raw_transact = (\<lambda>opts b. ret (Inr 7)),
     FilterLogs = (\<lambda>opts ev rules. ret (Inr [])),
     WatchLogs = (\<lambda>ev rules. ret (Inr ())),
     UnpackLog = (\<lambda>fs ev log. Inr sim_fields)\<rparr>"

definition sim_backend :: "sim bind_lib" where
  "sim_backend = \<lparr>lib_codec = ref_codec, NewBoundContract = (\<lambda>abi a. sim_messenger),
     DeployContract = (\<lambda>opts abi bin ps. ret (Inr (9, 7)))\<rparr>"

definition sim_l1 :: "nat \<Rightarrow> nat \<Rightarrow> hash \<Rightarrow> sim L1TestInfo" where
  "sim_l1 t t' chain = \<lparr>SubnetID = 2, BlockchainID = chain, NodeURIs = [''http://127.0.0.1:9650''],
     WSClient = sim_client t t', RPCClient = sim_client t t', Backend = sim_backend, EVMChainID = 99,
     RequirePrimaryNetworkSigners = False\<rparr>"

definition sim_info :: "sim TeleporterTestInfo" where
  "sim_info = (\<lambda>chain. Some (empty_info\<lparr>TeleporterMessenger := Some sim_messenger,
     TeleporterMessengerAddress := 6\<rparr>))"

lemmas sim_defs = sim_lib_def sim_client_def sim_l1_def sim_receipt_def sim_messenger_def sim_info_def

section \<open>The hypotheses hold\<close>

lemma sim_expires:
  "context_expires sim_lib (RPCClient (sim_l1 t t' chain)) c (\<lambda>s. c - SimClock s)"
  by (auto simp: context_expires_def sim_defs)

lemma sim_time: "keeps_time sim_lib SimClock Some"
  by (auto simp: keeps_time_def sim_lib_def ends_by_def)

lemma sim_serves:
  "serves (RPCClient (sim_l1 t t' chain)) h sim_receipt t t' lat SimClock Some"
  by (auto simp: serves_def sim_defs)

lemma sim_signs: "signs_tx sim_lib"
  by (simp add: signs_tx_def sim_lib_def)

lemma sim_warp: "warp_messages sim_lib"
  by (auto simp: warp_messages_def sim_lib_def sim_addressed_call_def sim_parse_call_def unat_of_nat_byte
      split: if_splits)

section \<open>Waiting\<close>

theorem mined_transaction_is_awaited_witness:
  "\<exists>s'. waitForTransaction sim_lib (Background sim_lib) (sim_l1 3000 5000 5) 7 True \<lparr>SimClock = 0, SimQueue = 0\<rparr> =
     Some (Returned sim_receipt, s') \<and> SimClock s' \<le> 7100"
  using mined_transaction_is_awaited [OF sim_time sim_serves sim_expires refl, of "\<lparr>SimClock = 0, SimQueue = 0\<rparr>"
      3000 50 5000 "Background sim_lib" True 5 7]
  by (simp add: sim_lib_def sim_receipt_def ReceiptStatusFailed_def ends_by_def)

theorem waiting_ends_witness:
  "waitForTransaction sim_lib (Background sim_lib) (sim_l1 50000 50000 5) 7 True \<lparr>SimClock = 0, SimQueue = 0\<rparr> \<noteq> None"
  by (rule waiting_ends [OF sim_expires])

lemma sim_wait:
  "waitForTransaction sim_lib c (sim_l1 0 0 chain) h True s = Some (Returned sim_receipt, s)"
proof -
  let ?c = "min c (SimClock s + 20000)" and ?cl = "sim_client 0 0"
  have "receipt_round sim_lib ?cl ?c h s = Some (Returned (Some (Inr sim_receipt)), s)"
    by (simp add: receipt_round_def sim_client_def)
  then have "waitForTransactionReceipt sim_lib ?c ?cl h s = Some (Returned (Inr sim_receipt), s)"
    unfolding waitForTransactionReceipt_def by (rule forever_stops) simp
  moreover have "height_round sim_lib ?cl ?c 5 s = Some (Returned (Some (Inr ())), s)"
    by (simp add: height_round_def sim_client_def)
  then have "waitForBlockHeight sim_lib ?c ?cl 5 s = Some (Returned (Inr ()), s)"
    unfolding waitForBlockHeight_def by (rule forever_stops) simp
  moreover have "WithTimeout sim_lib c 20000 s = (?c, s)" and "RPCClient (sim_l1 0 0 chain) = ?cl"
    by (simp_all add: sim_lib_def sim_l1_def)
  moreover have "RcptBlockNumber sim_receipt = 5" and "RcptStatus sim_receipt \<noteq> ReceiptStatusFailed"
    by (simp_all add: sim_receipt_def ReceiptStatusFailed_def)
  ultimately show ?thesis
    by (simp add: waitForTransaction_def WaitMined_def with_timeout_def)
qed

theorem waited_transaction_is_mined_witness:
  "\<exists>cctx s1 s2 s3 s4 k. GetReceipt (RPCClient (sim_l1 0 0 5)) cctx 7 s1 = (Inr sim_receipt, s2) \<and>
     BlockNumber (RPCClient (sim_l1 0 0 5)) cctx s3 = (Inr k, s4) \<and> 5 \<le> k"
  using waited_transaction_is_mined [OF sim_wait [of 0 5 7 "\<lparr>SimClock = 0, SimQueue = 0\<rparr>"]]
  by (auto simp: sim_receipt_def)

section \<open>Configurations\<close>

lemma inert_hex: "inert (''0x'' @ hex_encode b)"
proof -
  have "CHR ''<'' \<notin> set (hex_encode b)"
    using hex_encode_digits [of b] by (auto simp: hex_digits_def)
  then show ?thesis
    by (simp add: inert_def plain_char_def)
qed

theorem genesis_has_no_placeholders_witness:
  "\<exists>genesis. InstantiateGenesisTemplate sim_lib (\<lambda>_. Inr ''l1.json'') ''t.json'' 99 0 [] 0 True
       [''t.json'' \<mapsto> ''{id: <EVM_CHAIN_ID>}''] =
       Some (Returned ''l1.json'', [''t.json'' \<mapsto> ''{id: <EVM_CHAIN_ID>}'', ''l1.json'' \<mapsto> genesis]) \<and>
     \<not> occurs ''<EVM_CHAIN_ID>'' genesis"
proof -
  have "AddressText sim_lib a = ''0x'' @ hex_encode (be_bytes 20 (unat a))" for a
    by (simp add: sim_lib_def)
  then have "inert (AddressText sim_lib a)" for a
    using inert_hex by (simp only:)
  moreover have "''<EVM_CHAIN_ID>'' \<in> fst ` set (substitutions sim_lib 99 0 [] 0 True)"
    by (simp add: substitutions_def)
  ultimately show ?thesis
    using genesis_has_no_placeholders [where lib = sim_lib and code = "[]" and CreateTemp = "\<lambda>_. Inr ''l1.json''"
        and files = "[''t.json'' \<mapsto> ''{id: <EVM_CHAIN_ID>}'']" and template = "''t.json''" and signers = True]
    by (fastforce simp del: substitute.simps)
qed

section \<open>Delivering a message\<close>

lemma sim_packed:
  "TeleporterMessage_Pack (codec_lib sim_lib) example_message = Inr (enc_val (message_val example_message))"
proof -
  have "matches teleporterMessageType (message_val example_message)"
    by (simp add: teleporterMessageType_eq)
  then show ?thesis
    by (simp add: TeleporterMessage_Pack_def sim_lib_def ref_codec_def ref_pack_def)
qed

lemma sim_payload: "ParseAddressedCall sim_lib (MsgPayload sim_unsigned) = Inr ([], enc_val (message_val example_message))"
  by (simp add: sim_lib_def sim_parse_call_def sim_unsigned_def)

lemma sim_payload_length: "length (MsgPayload sim_unsigned) < 2000"
  by (simp add: sim_unsigned_def message_val_def receipt_val_def example_message_def unary_def)

lemma sim_add64: "add64_spec (Add64 (warpGas sim_lib))"
  by (simp add: sim_lib_def warp_gas_example_def checked_add64_spec)

lemma sim_gas_in_range:
  "gas_in_range (warpGas sim_lib) 5 (int (length (MessageBytes sim_lib sim_signed)))
     (int (length (MsgPayload (MsgUnsigned sim_signed)))) (int (length (Receipts example_message)))"
  using sim_payload_length
  by (simp add: gas_in_range_def sim_lib_def warp_gas_example_def sim_signed_def example_message_def)

lemma sim_delivery:
  obtains tx where "CreateReceiveCrossChainMessageTransaction sim_lib c sim_signed 2 a key (sim_l1 0 0 chain) s =
    Some (Returned tx, s)"
proof -
  let ?receive = "receive_gas (warpGas sim_lib) 5 2 (int (length (MessageBytes sim_lib sim_signed)))
      (int (length (MsgPayload (MsgUnsigned sim_signed)))) (int (length (Receipts example_message)))"
  have "?receive < 2 ^ 64"
    using sim_payload_length
    by (simp add: receive_gas_def sim_lib_def warp_gas_example_def sim_signed_def example_message_def)
  then obtain g where gas: "CalculateReceiveMessageGasLimit (warpGas sim_lib) 5 2
      (int (length (MessageBytes sim_lib sim_signed)))
      (int (length (MsgPayload (MsgUnsigned sim_signed)))) (int (length (Receipts example_message))) = Inr g"
    using gas_limit_sum [OF sim_add64 _ _ sim_gas_in_range, of 2] by auto
  have parse: "ParseTeleporterMessage sim_lib (MsgUnsigned sim_signed) s = Some (Returned example_message, s)"
    using ParseTeleporterMessage_packed [of sim_lib example_message] sim_packed sim_payload ref_roundtrip
    by (simp add: sim_signed_def sim_lib_def)
  have codec: "codec_lib sim_lib = ref_codec" and n: "NumSigners sim_lib sim_signed = Inr 5"
    by (simp_all add: sim_lib_def)
  obtain callData where data: "PackReceiveCrossChainMessage (codec_lib sim_lib) 0 (PrivateKeyToAddress sim_lib key) = Inr callData"
    by (simp add: PackReceiveCrossChainMessage_def teleporter_abi_def codec ref_codec_def ref_pack_def
        teleporter_methods)
  have "\<exists>tx. predicate_transaction sim_lib c sim_signed a g callData key (sim_l1 0 0 chain) s = Some (Returned tx, s)"
    by (simp add: predicate_transaction_def CalculateTxParams_def SignTransaction_def sim_defs)
  with gas parse n data show ?thesis
    by (auto simp: CreateReceiveCrossChainMessageTransaction_def intro: that)
qed

theorem delivery_transaction_pays_for_its_message_witness:
  "\<exists>tx. CreateReceiveCrossChainMessageTransaction sim_lib 0 sim_signed 2 6 8 (sim_l1 0 0 5)
       \<lparr>SimClock = 0, SimQueue = 0\<rparr> = Some (Returned tx, \<lparr>SimClock = 0, SimQueue = 0\<rparr>) \<and>
     TxTo (SignedTx tx) = 6 \<and> TxPredicate (SignedTx tx) = Some (5, [1, 2, 3]) \<and>
     call_of ref_codec TeleporterMessengerABI ''receiveCrossChainMessage'' [GUint 32 0, GAddr 4]
       (Inr (TxData (SignedTx tx)))"
proof -
  obtain tx where tx: "CreateReceiveCrossChainMessageTransaction sim_lib 0 sim_signed 2 6 8 (sim_l1 0 0 5)
      \<lparr>SimClock = 0, SimQueue = 0\<rparr> = Some (Returned tx, \<lparr>SimClock = 0, SimQueue = 0\<rparr>)"
    by (rule sim_delivery)
  have codec: "codec_methods (codec_lib sim_lib)" "codec_roundtrip (codec_lib sim_lib)"
    using ref_methods ref_roundtrip by (simp_all add: sim_lib_def)
  have "ParseAddressedCall sim_lib (MsgPayload (MsgUnsigned sim_signed)) = Inr ([], enc_val (message_val example_message))"
    and "NumSigners sim_lib sim_signed = Inr 5"
    using sim_payload by (simp_all add: sim_signed_def) (simp add: sim_lib_def)
  from delivery_transaction_pays_for_its_message [OF codec sim_signs sim_add64 example_ok(1) sim_packed this
      sim_gas_in_range tx] tx
  show ?thesis
    by (auto simp: sim_lib_def)
qed

section \<open>Clearing a receipt queue\<close>

lemma sim_find_event [simp]: "find_event ty sim_receipt (parse_log sim_messenger ev zero) s =
   Some (Returned (set_field ''Raw'' (log_val sim_log) sim_fields), s)"
  by (simp add: find_event_def sim_receipt_def parse_log_def sim_messenger_def)

lemma sim_find_send [simp]: "find_send_event sim_messenger sim_receipt s =
   Some (Returned (set_field ''Raw'' (log_val sim_log) sim_fields), s)"
  by (simp add: find_send_event_def TeleporterMessengerFilterer_ParseSendCrossChainMessage_def [abs_def])

lemma sim_messenger_of [simp]:
  "messenger_of sim_info l1 s = Some (Returned sim_messenger, s)"
  "messenger_address_of sim_info l1 s = Some (Returned 6, s)"
  by (simp_all add: messenger_of_def messenger_address_of_def info_of_def deref_nil_def sim_info_def)

lemma sim_send:
  "SendCrossChainMessageAndWaitForAcceptance sim_lib c sim_messenger (sim_l1 0 0 5) input key s =
     Some (Returned (sim_receipt, 7), s\<lparr>SimQueue := SimQueue s - 5\<rparr>)"
proof -
  have "NewKeyedTransactorWithChainID sim_lib key (EVMChainID (sim_l1 0 0 5)) = Inr example_transact_opts"
    by (simp add: sim_lib_def)
  moreover have "TeleporterMessengerTransactor_SendCrossChainMessage sim_messenger opts input s =
      (Returned (Inr 7), s\<lparr>SimQueue := SimQueue s - 5\<rparr>)" for opts
    by (simp add: TeleporterMessengerTransactor_SendCrossChainMessage_def sim_messenger_def)
  ultimately show ?thesis
    by (simp add: SendCrossChainMessageAndWaitForAcceptance_def transact_and_wait_def sim_wait
        WaitForTransactionSuccess_def field_def sim_fields_def)
qed

lemma sim_signed_message:
  "ConstructSignedWarpMessage sim_lib c sim_receipt (sim_l1 0 0 5) destination j s = Some (Returned sim_signed, s)"
proof -
  have "block_round (sim_client 0 0) cctx 5 s = Some (Returned (Some ()), s)" for cctx
    by (simp add: block_round_def sim_client_def)
  then have "forever (block_round (sim_client 0 0) cctx 5) s = Some (Returned (), s)" for cctx
    by (rule forever_stops) simp
  then have "WaitForAllValidatorsToAcceptBlock sim_lib c [uri] chain 5 s = Some (Returned (), s)" for uri chain
    by (simp add: WaitForAllValidatorsToAcceptBlock_def wait_for_validator_def with_timeout_def sim_lib_def)
  moreover have "ExtractWarpMessageFromLog sim_lib c sim_receipt (sim_l1 0 0 5) s = Some (Returned sim_unsigned, s)"
    by (simp add: ExtractWarpMessageFromLog_def sim_defs)
  moreover have "CreateSignedMessage sim_lib u j subnet q s = (Inr sim_signed, s)" for u subnet q
    by (simp add: CreateSignedMessage_def read_response_def sim_lib_def hex_decode_encode
        del: hex_encode.simps)
  ultimately show ?thesis
    by (simp add: ConstructSignedWarpMessage_def GetSignedMessage_def sim_l1_def sim_receipt_def)
qed

lemma sim_relay:
  "RelayTeleporterMessage sim_lib c sim_info sim_receipt (sim_l1 0 0 5) (sim_l1 0 0 chain) True key [] s =
     Some (Returned sim_receipt, s)"
proof -
  obtain tx where "CreateReceiveCrossChainMessageTransaction sim_lib c sim_signed 2 6 key (sim_l1 0 0 chain) s =
      Some (Returned tx, s)"
    by (rule sim_delivery)
  moreover have "SendTransactionAndWaitForSuccess sim_lib c (sim_l1 0 0 chain) tx s = Some (Returned sim_receipt, s)" for tx
  proof -
    have "SendTransaction (RPCClient (sim_l1 0 0 chain)) c tx s = (Inr (), s)"
      by (simp add: sim_l1_def sim_client_def)
    then show ?thesis
      by (simp add: SendTransactionAndWaitForSuccess_def sendAndWaitForTransaction_def sim_wait)
  qed
  moreover have "RequiredGasLimit example_message = 2" and "BlockchainID (sim_l1 0 0 5) = 5"
    by (simp_all add: example_message_def sim_l1_def)
  ultimately show ?thesis
    by (simp add: RelayTeleporterMessage_def sim_signed_message field_def sim_fields_def
        TeleporterMessengerFilterer_ParseReceiveCrossChainMessage_def [abs_def])
qed

lemma sim_count:
  "GetOutstandingReceiptCount sim_messenger h s = Some (Returned (int (SimQueue s)), s)"
  by (simp add: GetOutstandingReceiptCount_def call_contract_def TeleporterMessengerCaller_GetReceiptQueueSize_def
      call_method_def sim_messenger_def out1_def out_at_def)

lemma sim_round:
  "clear_round sim_lib c sim_info sim_messenger key (sim_l1 0 0 5) (sim_l1 0 0 chain) s =
     (if SimQueue s = 0 then Some (Returned (Some ()), s) else Some (Returned None, s\<lparr>SimQueue := SimQueue s - 5\<rparr>))"
  by (simp add: clear_round_def sim_count sim_send sim_relay)

lemma sim_clears:
  "ClearReceiptQueue sim_lib c sim_info key (sim_l1 0 0 5) (sim_l1 0 0 chain) s = Some (Returned (), s\<lparr>SimQueue := 0\<rparr>)"
proof -
  have "forever (clear_round sim_lib c sim_info sim_messenger key (sim_l1 0 0 5) (sim_l1 0 0 chain)) s =
      Some (Returned (), s\<lparr>SimQueue := 0\<rparr>)"
  proof (induction "SimQueue s" arbitrary: s rule: less_induct)
    case less
    show ?case
    proof (cases "SimQueue s = 0")
      case True
      then have "s\<lparr>SimQueue := 0\<rparr> = s"
        by simp
      with True show ?thesis
        by (simp add: forever_stops sim_round)
    next
      case False
      with less show ?thesis
        by (simp add: forever_goes_on sim_round)
    qed
  qed
  then show ?thesis
    by (simp add: ClearReceiptQueue_def)
qed

lemma sim_services:
  "clearing_services sim_lib sim_messenger (sim_l1 0 0 5) (sim_l1 0 0 chain) SimQueue (\<lambda>c s. c - SimClock s)"
proof -
  have client: "calm_client sim_lib SimQueue (\<lambda>c s. c - SimClock s) (RPCClient (sim_l1 0 0 h))" for h
    unfolding calm_client_def by (simp only: sim_expires) (simp add: calm_def sim_l1_def sim_client_def)
  have "takes_receipts sim_messenger h SimQueue" for h
    by (auto simp: takes_receipts_def sim_messenger_def)
  moreover have "calm_node (sim_l1 0 0 5) SimQueue (\<lambda>c s. c - SimClock s) (sim_client 0 0)"
    by (auto simp: calm_node_def calm_def sim_l1_def sim_client_def sim_receipt_def)
  moreover have "DialClient sim_lib uri s = (Inr (sim_client 0 0), s)" for uri s
    by (simp add: sim_lib_def)
  moreover have "SimQueue (snd (WithTimeout sim_lib c ms s)) = SimQueue s"
      and "calm SimQueue (NextTick sim_lib c ms)" and "calm SimQueue (Post sim_lib url b)" for c ms s url b
    by (simp_all add: sim_lib_def calm_def)
  ultimately show ?thesis
    unfolding clearing_services_def using client by simp
qed


section \<open>Finding an event\<close>

theorem first_log_of_event_is_found_witness:
  "\<exists>topics data fs.
     pack_event ref_codec TeleporterMessengerABI ''MessageExecuted'' [GArr32 9, GArr32 5] = Inr (topics, data) \<and>
     GetEventFromLogs ''MessageExecuted''
       [example_log, example_log\<lparr>LogTopics := topics, LogData := data, LogAddress := 77\<rparr>, example_log]
       (messenger_parse (spec_contract ref_codec TeleporterMessengerABI (example_backend [])) MessageExecuted) = Inr fs \<and>
     map_of fs ''MessageID'' = Some (GArr32 9)"
proof -
  let ?c = "spec_contract ref_codec TeleporterMessengerABI (example_backend [])"
  have name: "Event_String MessageExecuted = ''MessageExecuted''"
    by (simp add: Event_String_simps messageExecutedStr_def)
  have known: "MessageExecuted \<in> set known_events"
    by (simp add: known_events_def)
  obtain topics data where pack: "pack_event ref_codec TeleporterMessengerABI ''MessageExecuted'' [GArr32 9, GArr32 5] =
      Inr (topics, data)"
    using declared_in_abi [OF known] by (simp add: name ref_codec_def)
  let ?log = "example_log\<lparr>LogTopics := topics, LogData := data\<rparr>"
  have args: "matches_args (event_args (declared MessageExecuted)) [GArr32 9, GArr32 5]"
    by (simp add: declared_simps event_args_Cons)
  have before: "\<forall>l \<in> set [example_log]. LogTopics l = [] \<or>
      event_by_id ref_codec TeleporterMessengerABI (hd (LogTopics l)) \<noteq> Inr (Event_String MessageExecuted)"
    by (simp add: example_log_def)
  have "pack_event ref_codec TeleporterMessengerABI (Event_String MessageExecuted) [GArr32 9, GArr32 5] =
      Inr (LogTopics ?log, LogData ?log)"
    using pack by (simp add: name)
  from first_log_of_event_is_found [OF ref_methods ref_events ref_event_ids spec_contract_ok known before args this,
      of "''MessageExecuted''" 77 "[example_log]" "example_backend []"]
  obtain fs where "GetEventFromLogs ''MessageExecuted'' ([example_log] @ ?log\<lparr>LogAddress := 77\<rparr> # [example_log])
        (messenger_parse ?c MessageExecuted) = Inr fs"
      and "\<forall>i < length (declared MessageExecuted). map_of fs (export_name (fst (declared MessageExecuted ! i))) =
        Some ([GArr32 9, GArr32 5] ! i)"
    by blast
  moreover from this(2) have "map_of fs ''MessageID'' = Some (GArr32 9)"
    by (auto simp: declared_simps dest: spec [of _ 0])
  ultimately show ?thesis
    using pack by auto
qed

section \<open>Off-chain messages\<close>

theorem off_chain_registration_decodes_witness:
  "\<exists>u config s'. InitOffChainMessageChainConfig sim_lib (\<lambda>_. Inr ''{}'') 1 (sim_l1 0 0 5) 11 12 2
       WarpEnabledChainConfig = Some (Returned (u, config), s') \<and>
     (\<exists>p. ParseAddressedCall sim_lib (MsgPayload u) = Inr ([], p) \<and>
        UnpackTeleporterRegistryWarpPayload ref_codec p = Inr (\<lparr>Version = 2, ProtocolAddress = 12\<rparr>, 11))"
proof -
  have codec: "codec_lib sim_lib = ref_codec"
    by (simp add: sim_lib_def)
  have "\<exists>u config s'. InitOffChainMessageChainConfig sim_lib (\<lambda>_. Inr ''{}'') 1 (sim_l1 0 0 5) 11 12 2
       WarpEnabledChainConfig = Some (Returned (u, config), s')"
  proof -
    have "registry_entry_ok \<lparr>Version = 2, ProtocolAddress = 12\<rparr>"
      by (simp add: registry_entry_ok_def)
    then obtain p where "PackTeleporterRegistryWarpPayload ref_codec \<lparr>Version = 2, ProtocolAddress = 12\<rparr> 11 = Inr p"
      by (rule warp_payload_roundtrip [OF ref_roundtrip])
    then show ?thesis
      by (simp add: InitOffChainMessageChainConfig_def CreateOffChainRegistryMessage_def off_chain_message_def
          GetChainConfigWithOffChainMessages_def codec) (simp add: sim_lib_def sim_addressed_call_def)
  qed
  then obtain u config s' where init: "InitOffChainMessageChainConfig sim_lib (\<lambda>_. Inr ''{}'') 1 (sim_l1 0 0 5) 11 12 2
       WarpEnabledChainConfig = Some (Returned (u, config), s')"
    by blast
  from off_chain_registration_decodes [OF _ sim_warp _ init] init ref_roundtrip show ?thesis
    by (auto simp: codec)
qed

theorem off_chain_governance_messages_decode_witness:
  "\<exists>u config s'. InitOffChainMessageChainConfigValidatorSetSig sim_lib (\<lambda>_. Inr ''{}'') 1 (sim_l1 0 0 5)
       [example_set_sig] WarpEnabledChainConfig = Some (Returned ([u], config), s') \<and>
     s' ''warp-off-chain-messages'' = Some (FTexts [''0x'' @ hex_encode (hash_bytes 5)]) \<and>
     (\<exists>p. ParseAddressedCall sim_lib (MsgPayload u) = Inr ([], p) \<and>
        ValidatorSetSigMessage_Unpack ref_codec p = Inr example_set_sig)"
proof -
  have codec: "codec_lib sim_lib = ref_codec"
    by (simp add: sim_lib_def)
  have ok: "set_sig_ok example_set_sig"
    by (simp add: set_sig_ok_def example_set_sig_def)
  obtain p where "ValidatorSetSigMessage_Pack ref_codec example_set_sig = Inr p"
    using set_sig_message.pack_unpack [OF ref_roundtrip ok] by blast
  then have "\<exists>u config s'. InitOffChainMessageChainConfigValidatorSetSig sim_lib (\<lambda>_. Inr ''{}'') 1 (sim_l1 0 0 5)
      [example_set_sig] WarpEnabledChainConfig = Some (Returned ([u], config), s') \<and> MsgSourceChainID u = 5"
    by (simp add: InitOffChainMessageChainConfigValidatorSetSig_def CreateOffChainValidatorSetSigMessage_def
        off_chain_message_def GetChainConfigWithOffChainMessages_def codec)
      (simp add: sim_lib_def sim_addressed_call_def sim_l1_def)
  then obtain u config s' where init: "InitOffChainMessageChainConfigValidatorSetSig sim_lib (\<lambda>_. Inr ''{}'') 1
      (sim_l1 0 0 5) [example_set_sig] WarpEnabledChainConfig = Some (Returned ([u], config), s')"
      and chain: "MsgSourceChainID u = 5"
    by blast
  from off_chain_governance_messages_decode [OF _ sim_warp _ init] init ref_roundtrip ok chain show ?thesis
    by (auto simp: codec) (simp add: sim_lib_def)
qed

section \<open>A new version\<close>

definition sim_deployer :: "sim deployer" where
  "sim_deployer = \<lparr>DeployHost = example_host, DeployHeap = init_heap, DeployWorld = \<lparr>SimClock = 0, SimQueue = 0\<rparr>\<rparr>"

lemma sim_construct:
  "\<exists>h. ConstructKeylessTransaction example_lib ''T.json'' False p example_host = (Inr ([0x60, 0x80], ''0x60'', 7, 8), h)"
  unfolding ConstructKeylessTransaction_def SetString16_rsValueHex
  by (simp add: extractByteCode_def ReadFile_def example_lib_def example_host_def TrimPrefix_def
      example_decode contractCreationTx_def log_Println_def Let_def del: hex_decode.simps)

lemma sim_deploy_messenger:
  "\<exists>w'. DeployMessengerContract sim_lib c (sim_l1 0 0 5) b deployer contract key w = Some (Returned (), w')"
proof -
  have send: "SendTransactionAndWaitForSuccess sim_lib c (sim_l1 0 0 5) tx s = Some (Returned sim_receipt, s)" for tx s
  proof -
    have "SendTransaction (RPCClient (sim_l1 0 0 5)) c tx s = (Inr (), s)"
      by (simp add: sim_l1_def sim_client_def)
    then show ?thesis
      by (simp add: SendTransactionAndWaitForSuccess_def sendAndWaitForTransaction_def sim_wait)
  qed
  have "\<exists>tx. CreateNativeTransferTransaction sim_lib c (sim_l1 0 0 5) key a n s = Some (Returned tx, s)" for a n s
    by (simp add: CreateNativeTransferTransaction_def CalculateTxParams_def SignTransaction_def sim_defs)
  then obtain tx where "CreateNativeTransferTransaction sim_lib c (sim_l1 0 0 5) key deployer fundAmount w = Some (Returned tx, w)"
    by blast
  moreover have "NodeURIs (sim_l1 0 0 5) = [''http://127.0.0.1:9650'']"
      and "DialClient sim_lib u s = (Inr (sim_client 0 0), s)" and "SendRaw (sim_client 0 0) c b s = (Inr 7, s)"
      and "CodeAt (RPCClient (sim_l1 0 0 5)) c a s = (Inr [96, 128, 96], s)" for u s a
    by (simp_all add: sim_defs)
  ultimately show ?thesis
    by (simp add: DeployMessengerContract_def send sim_wait WaitForTransactionSuccess_def)
qed

theorem new_version_is_funded_witness:
  "\<exists>s' tx bytecode sender b ftx w1 w2 funded w3 uri raw w4 h w5.
     DeployNewTeleporterVersion sim_lib example_lib 0 (sim_l1 0 0 5) 8 ''T.json'' sim_deployer = Some (Returned 8, s') \<and>
     keyless_tx example_lib ''T.json'' 2500000000001 example_host tx bytecode \<and>
     MarshalBinary example_lib tx = Inr b \<and> HomesteadSender example_lib tx = Inr sender \<and>
     8 = CreateAddress example_lib sender 0 \<and> TxTo (SignedTx ftx) = sender \<and>
     uint (LegacyTx.TxGas tx) * TxGasPrice tx + LegacyTx.TxValue tx \<le> TxValue (SignedTx ftx) \<and>
     SendTransaction (RPCClient (sim_l1 0 0 5)) 0 ftx w1 = (Inr (), w2) \<and>
     waitForTransaction sim_lib 0 (sim_l1 0 0 5) (TxHash sim_lib ftx) True w2 = Some (Returned funded, w3) \<and>
     DialClient sim_lib uri w3 = (Inr raw, w4) \<and> SendRaw raw 0 b w4 = (Inr h, w5)"
proof -
  have price: "defaultContractCreationGasPrice < length (DeployHeap sim_deployer)"
      "DeployHeap sim_deployer ! defaultContractCreationGasPrice = 2500000000000"
    by (simp_all add: sim_deployer_def init_heap_def defaultContractCreationGasPrice_def)
  obtain h where h: "ConstructKeylessTransaction example_lib ''T.json'' False 2500000000001 example_host =
      (Inr ([0x60, 0x80], ''0x60'', 7, 8), h)"
    using sim_construct by blast
  have host: "DeployHost sim_deployer = example_host"
    by (simp add: sim_deployer_def)
  obtain w' where w': "DeployMessengerContract sim_lib 0 (sim_l1 0 0 5) [0x60, 0x80] 7 8 8 (DeployWorld sim_deployer) =
      Some (Returned (), w')"
    using sim_deploy_messenger by blast
  have "\<exists>s'. DeployNewTeleporterVersion sim_lib example_lib 0 (sim_l1 0 0 5) 8 ''T.json'' sim_deployer = Some (Returned 8, s')"
    using new_gas_price_value [OF price(1)] price(2) h host w'
    by (simp add: DeployNewTeleporterVersion_def)
  then obtain s' where run: "DeployNewTeleporterVersion sim_lib example_lib 0 (sim_l1 0 0 5) 8 ''T.json'' sim_deployer =
      Some (Returned 8, s')"
    by blast
  from new_version_is_funded [OF run sim_signs price] run show ?thesis
    unfolding host by metis
qed

section \<open>A local network\<close>

definition sim_net_lib :: "sim net_lib" where
  "sim_net_lib = \<lparr>E2E = sim_lib, StartNodes = (\<lambda>nodes store. Inr store), ClientBackend = (\<lambda>cl. sim_backend),
     GetBlockchainID = (\<lambda>uri chain s. (Inr 6, s)), ClientChainID = (\<lambda>cl s. (Inr 99, s)),
     IssueTxsToActivateProposerVMFork = (\<lambda>chainID k cl s. (Inr (), s)), StartAggregator = (\<lambda>cfg s. (Inr (), s)),
     UnmarshalConfig = (\<lambda>config. (None, [''log-level'' \<mapsto> FText config])),
     RestartNetwork = (\<lambda>n. (Inr (), n))\<rparr>"

text \<open>Two L1s, not in the order of their names, validated by node 0; nodes 1 and 2 are extra nodes.\<close>

definition sim_net :: "sim LocalNetwork" where
  "sim_net = \<lparr>
     World = \<lparr>SimClock = 0, SimQueue = 0\<rparr>,
     Store = (\<lambda>x. \<lparr>TmpNodeID = of_nat x, NodeURI = ''http://127.0.0.1:9650'',
       TrackedSubnets = (if x = 0 then IDString sim_lib 2 else []), PartialSync = False\<rparr>),
     NetNodes = [0],
     NetSubnets = [\<lparr>SubnetName = ''B'', TmpSubnetID = 2, ValidatorIDs = [0],
         Chains = [\<lparr>ChainID = 5, ChainConfigText = ''{}''\<rparr>]\<rparr>,
       \<lparr>SubnetName = ''A'', TmpSubnetID = 3, ValidatorIDs = [0],
         Chains = [\<lparr>ChainID = 6, ChainConfigText = ''{}''\<rparr>]\<rparr>],
     ChainConfigs = Map.empty, extraNodes = [1, 2], primaryNetworkValidators = [0],
     validatorManagers = Map.empty, deployedL1Specs = [''A'' \<mapsto> True, ''B'' \<mapsto> False]\<rparr>"

lemma sim_net_ok: "network_ok sim_net"
  by (simp add: network_ok_def sim_net_def node_ids_def)

lemma sim_keeps_nodes: "keeps_nodes sim_net_lib"
  by (simp add: keeps_nodes_def sim_net_lib_def)

theorem registering_extra_nodes_keeps_network_witness:
  "\<exists>n1 n2. GetExtraNodes 1 sim_net = Some (Returned [1], n1) \<and>
     register_validators sim_net_lib [1] (sim_l1 0 0 5) True n1 = Some (Returned (), n2) \<and>
     network_ok n2 \<and> NetNodes n2 = [0, 1] \<and> map ValidatorIDs (NetSubnets n2) = [[0, 1], [0]]"
proof -
  let ?n1 = "sim_net\<lparr>extraNodes := [2]\<rparr>"
  have taken: "GetExtraNodes 1 sim_net = Some (Returned [1], ?n1)"
    by (simp add: GetExtraNodes_def sim_net_def)
  obtain n2 where reg: "register_validators sim_net_lib [1] (sim_l1 0 0 5) True ?n1 = Some (Returned (), n2)"
    by (simp add: register_validators_def sim_net_lib_def Let_def)
  have "IDString (E2E sim_net_lib) (SubnetID (sim_l1 0 0 5)) \<noteq> []"
    by (simp add: sim_net_lib_def sim_lib_def)
  from registering_extra_nodes_keeps_network [OF sim_keeps_nodes sim_net_ok this taken reg] taken reg
  show ?thesis
    by (auto simp: sim_net_def sim_l1_def add_validators_def node_ids_def)
qed

theorem registering_again_repeats_validators_witness:
  "\<exists>n'. register_validators sim_net_lib [0] (sim_l1 0 0 5) False sim_net = Some (Returned (), n') \<and>
     NetNodes n' = [0] \<and> \<not> network_ok n'"
proof -
  obtain n' where reg: "register_validators sim_net_lib [0] (sim_l1 0 0 5) False sim_net = Some (Returned (), n')"
    by (simp add: register_validators_def sim_net_lib_def Let_def)
  let ?s = "\<lparr>SubnetName = ''B'', TmpSubnetID = 2, ValidatorIDs = [0],
      Chains = [\<lparr>ChainID = 5, ChainConfigText = ''{}''\<rparr>]\<rparr>"
  have "\<forall>x \<in> set [0]. TrackedSubnets (Store sim_net x) = IDString (E2E sim_net_lib) (SubnetID (sim_l1 0 0 5))"
      and "?s \<in> set (NetSubnets sim_net)" and "TmpSubnetID ?s = SubnetID (sim_l1 0 0 5)"
      and "set (node_ids sim_net [0]) \<subseteq> set (ValidatorIDs ?s)"
    by (simp_all add: sim_net_def sim_net_lib_def sim_l1_def node_ids_def)
  from registering_again_repeats_validators [OF sim_keeps_nodes sim_net_ok _ _ this reg] reg show ?thesis
    by (auto simp: sim_net_def)
qed

lemma sim_l1_info:
  assumes "signers n = Some (Returned b, n)"
  shows "\<exists>info. l1_info sim_net_lib subnetID blockchainID (uri # uris) signers n = Some (Returned info, n)"
proof -
  have "DialClient (E2E sim_net_lib) u w = (Inr (sim_client 0 0), w)"
      and "ClientChainID sim_net_lib (sim_client 0 0) w = (Inr 99, w)" for u w
    by (simp_all add: sim_net_lib_def sim_lib_def)
  then show ?thesis
    using assms by (simp add: l1_info_def on_world_def)
qed

lemma sim_subnet_info:
  assumes "l1 \<in> set (NetSubnets sim_net)"
  shows "\<exists>info. subnet_info sim_net_lib l1 sim_net = Some (Returned info, sim_net)"
proof -
  have "all_uris sim_net [0] = Inr [''http://127.0.0.1:9650'']"
    by (simp add: uri_for_node_def) (simp add: sim_net_def)
  moreover have "\<exists>b. spec_signers (SubnetName l1) sim_net = Some (Returned b, sim_net)"
    using assms by (auto simp: spec_signers_def sim_net_def)
  moreover have "ValidatorIDs l1 = [0]" and "\<exists>chain. Chains l1 = [chain]"
    using assms by (auto simp: sim_net_def)
  ultimately show ?thesis
    using sim_l1_info by (fastforce simp: subnet_info_def simp del: all_uris.simps)
qed

lemma sim_l1_infos: "\<exists>infos. GetL1Infos sim_net_lib sim_net = Some (Returned infos, sim_net)"
proof -
  have "\<exists>infos. subnet_infos sim_net_lib l1s sim_net = Some (Returned infos, sim_net)"
    if "set l1s \<subseteq> set (NetSubnets sim_net)" for l1s
    using that
  proof (induction l1s)
    case (Cons l1 l1s)
    then obtain info infos where "subnet_info sim_net_lib l1 sim_net = Some (Returned info, sim_net)"
        and "subnet_infos sim_net_lib l1s sim_net = Some (Returned infos, sim_net)"
      using sim_subnet_info [of l1] by auto
    then show ?case
      by simp
  qed simp
  then show ?thesis
    by (simp add: GetL1Infos_def)
qed

theorem l1_infos_follow_the_network_witness:
  "\<exists>infos n'. GetL1Infos sim_net_lib sim_net = Some (Returned infos, n') \<and> map SubnetID infos = [2, 3]"
proof -
  obtain infos n' where "GetL1Infos sim_net_lib sim_net = Some (Returned infos, n')"
    using sim_l1_infos by blast
  with l1_infos_follow_the_network [OF this] show ?thesis
    by (simp add: sim_net_def)
qed

theorem chain_configs_ignore_map_order_witness:
  "SetChainConfigs sim_net_lib [(''C'', ''{}''), (''id5'', ''{a}'')] =
   SetChainConfigs sim_net_lib [(''id5'', ''{a}''), (''C'', ''{}'')]"
  using chain_configs_ignore_map_order [of "[(''C'', ''{}''), (''id5'', ''{a}'')]"
      "[(''id5'', ''{a}''), (''C'', ''{}'')]" sim_net_lib]
  by auto

end
