(* ===== verification/IcttSimulation.thy ===== *)
theory IcttSimulation
  imports Simulation
begin

text \<open>The properties of \<open>IcttChecks\<close> applied on the simulated network of \<open>Simulation\<close>.\<close>

section \<open>Deployer keys\<close>

definition ictt_info :: "sim TeleporterTestInfo" where
  "ictt_info = (\<lambda>chain. Some \<lparr>TeleporterRegistry = Some sim_messenger, TeleporterRegistryAddress = 11,
     TeleporterMessenger = Some sim_messenger, TeleporterMessengerAddress = 6\<rparr>)"

definition sim_remote :: "sim native_remote" where
  "sim_remote = \<lparr>RemoteL1 = sim_l1 0 0 6, RemoteSymbol = ''NAT'', RemoteManager = 4, RemoteHomeChain = 5,
     RemoteHome = 12, RemoteHomeDecimals = 18, RemoteImbalance = 20, RemoteReward = 1\<rparr>"

lemma sim_deploy_transferrer:
  assumes "\<And>opts registry version. deploy opts registry version w = (Returned (Inr (9, 7, sim_messenger)), w)"
  shows "deploy_transferrer sim_lib c ictt_info key (sim_l1 0 0 chain) deploy w =
    Some (Returned (9, sim_messenger), w)"
proof -
  have "registry_address_of ictt_info (sim_l1 0 0 chain) w = Some (Returned 11, w)"
    by (simp add: registry_address_of_def info_of_def deref_nil_def ictt_info_def)
  moreover have "GetLatestTeleporterVersion ictt_info (sim_l1 0 0 chain) w = Some (Returned (int (SimQueue w)), w)"
    by (simp add: GetLatestTeleporterVersion_def registry_of_def info_of_def deref_nil_def ictt_info_def
        call_contract_def TeleporterRegistryCaller_LatestVersion_def call_method_def sim_messenger_def
        out1_def out_at_def)
  moreover have "NewKeyedTransactorWithChainID sim_lib key (EVMChainID (sim_l1 0 0 chain)) = Inr example_transact_opts"
    by (simp add: sim_lib_def)
  ultimately show ?thesis
    using assms by (simp add: deploy_transferrer_def WaitForTransactionSuccess_def sim_wait)
qed

lemma sim_deploy_native:
  assumes "KeyIndex s < 7"
  shows "deploy_native sim_lib (\<lambda>_. Inr 8) c ictt_info sim_remote s =
    Some (Returned (9, sim_messenger), s\<lparr>KeyIndex := Suc (KeyIndex s)\<rparr>)"
proof -
  have "native_deployed_with sim_lib c ictt_info sim_remote 8 w = Some (Returned (9, sim_messenger), w)" for w
    unfolding native_deployed_with_def
    by (simp add: sim_remote_def)
      (rule sim_deploy_transferrer, simp add: DeployNativeTokenRemote_def deploy_contract_def sim_l1_def
        sim_backend_def ref_codec_def)
  then show ?thesis
    using assms deployer_keys_distinct by (cases s) (simp add: deploy_native_Returned)
qed

theorem native_remotes_use_distinct_keys_witness:
  "\<exists>rs s'. deploy_natives sim_lib (\<lambda>_. Inr 8) 0 ictt_info [sim_remote, sim_remote]
       \<lparr>KeyIndex = 0, KeyWorld = \<lparr>SimClock = 0, SimQueue = 1\<rparr>\<rparr> = Some (Returned rs, s') \<and> KeyIndex s' = 2 \<and>
     (\<exists>w w'. native_deployed_with sim_lib 0 ictt_info sim_remote 8 w = Some (Returned (rs ! 1), w'))"
proof -
  let ?s = "\<lparr>KeyIndex = 0, KeyWorld = \<lparr>SimClock = 0, SimQueue = 1\<rparr>\<rparr>"
  obtain rs s' where run: "deploy_natives sim_lib (\<lambda>_. Inr 8) 0 ictt_info [sim_remote, sim_remote] ?s =
      Some (Returned rs, s')"
    by (simp add: sim_deploy_native)
  note steps = native_remotes_use_distinct_keys [OF run]
  have index: "KeyIndex s' = 2"
    using steps by simp
  obtain w w' where "native_deployed_with sim_lib 0 ictt_info sim_remote 8 w = Some (Returned (rs ! 1), w')"
    using steps by (fastforce dest: spec [of _ 1])
  then show ?thesis
    using run index by blast
qed

section \<open>Registration and collateral\<close>

lemma sim_transact:
  assumes "\<And>opts. method opts s = (Returned (Inr 7), s')"
  shows "transact_and_wait sim_lib c (sim_l1 0 0 chain) key method s = Some (Returned sim_receipt, s')"
proof -
  have "NewKeyedTransactorWithChainID sim_lib key (EVMChainID (sim_l1 0 0 chain)) = Inr example_transact_opts"
    by (simp add: sim_lib_def)
  then show ?thesis
    using assms by (simp add: transact_and_wait_def WaitForTransactionSuccess_def sim_wait)
qed

lemma sim_approve:
  "ERC20DecimalsApprove sim_lib c sim_messenger a n (sim_l1 0 0 chain) key w =
    Some (Returned (), w\<lparr>SimQueue := SimQueue w - 5\<rparr>)"
proof -
  have "transact_and_wait sim_lib c (sim_l1 0 0 chain) key
      (\<lambda>opts. ExampleERC20DecimalsTransactor_Approve sim_messenger opts a n) w =
      Some (Returned sim_receipt, w\<lparr>SimQueue := SimQueue w - 5\<rparr>)"
    by (rule sim_transact) (simp add: ExampleERC20DecimalsTransactor_Approve_def sim_messenger_def)
  then show ?thesis
    by (simp add: ERC20DecimalsApprove_def)
qed

lemma sim_fee_token:
  assumes "SimQueue s = 10000000000000000000000000000"
  shows "DeployERC20Decimals sim_lib c key (sim_l1 0 0 chain) d s = Some (Returned (9, sim_messenger), s)"
proof -
  have "NewKeyedTransactorWithChainID sim_lib key (EVMChainID (sim_l1 0 0 chain)) = Inr example_transact_opts"
    by (simp add: sim_lib_def)
  moreover have "DeployExampleERC20Decimals (Backend (sim_l1 0 0 chain)) bin opts d s =
      (Returned (Inr (9, 7, sim_messenger)), s)" for bin opts
    by (simp add: DeployExampleERC20Decimals_def deploy_contract_def sim_l1_def sim_backend_def ref_codec_def)
  moreover have "call_contract (ExampleERC20DecimalsCaller_BalanceOf sim_messenger no_call_opts a) s =
      Some (Returned ExpectedExampleERC20DeployerBalance, s)" for a
    using assms by (simp add: call_contract_def ExampleERC20DecimalsCaller_BalanceOf_def call_method_def
        sim_messenger_def out1_def out_at_def ExpectedExampleERC20DeployerBalance_def)
  ultimately show ?thesis
    by (simp add: DeployERC20Decimals_def deploy_and_wait_def WaitForTransactionSuccess_def sim_wait)
qed

lemma sim_registration:
  assumes "SimQueue s = 10000000000000000000000000000"
  shows "\<exists>s1. send_registration sim_lib c sim_info (sim_l1 0 0 6) (sim_l1 0 0 5) 3 key s =
    Some (Returned sim_receipt, s1)"
proof -
  have "NewTokenRemote (Backend (sim_l1 0 0 5)) 3 = Inr sim_messenger"
    by (simp add: NewTokenRemote_def bindTokenRemote_def bind_contract_def sim_l1_def sim_backend_def ref_codec_def)
  moreover have "transact_and_wait sim_lib c (sim_l1 0 0 5) key
      (\<lambda>opts. TokenRemoteTransactor_RegisterWithHome sim_messenger opts fee) w =
      Some (Returned sim_receipt, w\<lparr>SimQueue := SimQueue w - 5\<rparr>)" for fee w
    by (rule sim_transact) (simp add: TokenRemoteTransactor_RegisterWithHome_def sim_messenger_def)
  moreover have "expect_executed sim_info (sim_l1 0 0 6) sim_receipt w = Some (Returned (), w)" for w
    by (simp add: expect_executed_def TeleporterMessengerFilterer_ParseMessageExecuted_def sim_receipt_def
        parse_log_def sim_messenger_def)
  ultimately show ?thesis
    by (simp add: send_registration_def sim_fee_token [OF assms] sim_approve sim_relay)
qed

lemma sim_event [simp]:
  "GetEventFromLogs ty (RcptLogs sim_receipt) (parse_log sim_messenger ev zero) =
    Inr (set_field ''Raw'' (log_val sim_log) sim_fields)"
  by (simp add: sim_receipt_def parse_log_def sim_messenger_def)

theorem registration_check_rejects_correct_home_witness:
  "\<exists>s1. sol_collateralNeeded 20 10 True = Inr 2 \<and>
     RegisterTokenRemoteOnHome sim_lib 0 sim_info (sim_l1 0 0 6) 12 (sim_l1 0 0 5) 3 20 10 True 8
       \<lparr>SimClock = 0, SimQueue = 10000000000000000000000000000\<rparr> = Some (Failed ''unexpected value'', s1)"
proof -
  obtain s1 where sent: "send_registration sim_lib 0 sim_info (sim_l1 0 0 6) (sim_l1 0 0 5) 3 8
      \<lparr>SimClock = 0, SimQueue = 10000000000000000000000000000\<rparr> = Some (Returned sim_receipt, s1)"
    using sim_registration by fastforce
  have home: "NewTokenHome (Backend (sim_l1 0 0 6)) 12 = Inr sim_messenger"
    by (simp add: NewTokenHome_def bindTokenHome_def bind_contract_def sim_l1_def sim_backend_def ref_codec_def)
  have event: "GetEventFromLogs ''*tokenhome.TokenHomeRemoteRegistered'' (RcptLogs sim_receipt)
      (TokenHomeFilterer_ParseRemoteRegistered sim_messenger) = Inr (set_field ''Raw'' (log_val sim_log) sim_fields)"
    by (simp add: TokenHomeFilterer_ParseRemoteRegistered_def)
  have fields: "has_fields (set_field ''Raw'' (log_val sim_log) sim_fields)
      [(''RemoteBlockchainID'', GArr32 (BlockchainID (sim_l1 0 0 5))),
       (''RemoteTokenTransferrerAddress'', GAddr 3), (''InitialCollateralNeeded'', GBig 2)]"
    by (simp add: sim_fields_def sim_l1_def)
  have sol: "sol_collateralNeeded 20 10 True = Inr 2"
    by (simp add: sol_collateralNeeded_def sol_removeTokenScale_def sol_scaleTokens_def sol_div_def)
  from registration_check_rejects_correct_home [OF sent home event fields sol] sol show ?thesis
    by simp
qed

theorem only_exact_collateral_passes_witness:
  "\<exists>s'. AddCollateralToERC20TokenHome sim_lib 0 (sim_l1 0 0 5) sim_messenger 12 sim_messenger 5 3 3 8
       \<lparr>SimClock = 0, SimQueue = 0\<rparr> = Some (Failed ''unexpected value'', s') \<and>
     sol_addCollateral True 2 3 = Inr (2, 0, 1)"
proof -
  let ?s = "\<lparr>SimClock = 0, SimQueue = 0\<rparr>"
  have approve: "ERC20DecimalsApprove sim_lib 0 sim_messenger 12 3 (sim_l1 0 0 5) 8 ?s = Some (Returned (), ?s)"
    by (simp add: sim_approve)
  have tx: "transact_and_wait sim_lib 0 (sim_l1 0 0 5) 8
      (\<lambda>opts. ERC20TokenHomeTransactor_AddCollateral sim_messenger opts 5 3 3) ?s = Some (Returned sim_receipt, ?s)"
    by (rule sim_transact) (simp add: ERC20TokenHomeTransactor_AddCollateral_def sim_messenger_def)
  have event: "GetEventFromLogs ''*erc20tokenhome.ERC20TokenHomeCollateralAdded'' (RcptLogs sim_receipt)
      (ERC20TokenHomeFilterer_ParseCollateralAdded sim_messenger) = Inr (set_field ''Raw'' (log_val sim_log) sim_fields)"
    by (simp add: ERC20TokenHomeFilterer_ParseCollateralAdded_def)
  have settings: "ERC20TokenHomeCaller_GetRemoteTokenTransferrerSettings sim_messenger no_call_opts 5 3 ?s =
      (Returned (Inr sim_settings), ?s)"
    by (simp add: ERC20TokenHomeCaller_GetRemoteTokenTransferrerSettings_def call_method_def sim_messenger_def
        out1_def out_at_def)
  have sol: "sol_addCollateral True 2 3 = Inr (2, 0, 1)"
    by (simp add: sol_addCollateral_def)
  then have "collateral_added 5 3 2 3 (set_field ''Raw'' (log_val sim_log) sim_fields) sim_settings"
    by (simp add: collateral_added_def sim_fields_def sim_settings_def)
  from only_exact_collateral_passes [OF approve tx event settings this] sol show ?thesis
    by simp
qed

section \<open>A transfer\<close>

text \<open>A chain whose receipts carry the given logs, and contracts that follow their ABI over one backend.\<close>

definition logs_l1 :: "evm_log list \<Rightarrow> sim L1TestInfo" where
  "logs_l1 ls = (sim_l1 0 0 5)\<lparr>RPCClient := (sim_client 0 0)\<lparr>GetReceipt :=
     (\<lambda>c h s. (Inr (sim_receipt\<lparr>RcptLogs := ls\<rparr>), s))\<rparr>\<rparr>"

definition sim_calls :: "bytes \<Rightarrow> sim backend" where
  "sim_calls out = \<lparr>call_data = (\<lambda>opts d. ret (Inr out)), send_data = (\<lambda>opts d. ret (Inr 7))\<rparr>"

definition sim_input :: SendTokensInput where
  "sim_input = multi_hop_input 6 3 4 0 0 100000\<lparr>SendTokensInput_PrimaryFee := 1\<rparr>"

lemma logs_wait:
  "waitForTransaction sim_lib c (logs_l1 ls) h True s = Some (Returned (sim_receipt\<lparr>RcptLogs := ls\<rparr>), s)"
proof -
  let ?c = "min c (SimClock s + 20000)" and ?cl = "RPCClient (logs_l1 ls)" and ?r = "sim_receipt\<lparr>RcptLogs := ls\<rparr>"
  have "receipt_round sim_lib ?cl ?c h s = Some (Returned (Some (Inr ?r)), s)"
    by (simp add: receipt_round_def logs_l1_def)
  then have "waitForTransactionReceipt sim_lib ?c ?cl h s = Some (Returned (Inr ?r), s)"
    unfolding waitForTransactionReceipt_def by (rule forever_stops) simp
  moreover have "height_round sim_lib ?cl ?c 5 s = Some (Returned (Some (Inr ())), s)"
    by (simp add: height_round_def logs_l1_def sim_client_def)
  then have "waitForBlockHeight sim_lib ?c ?cl 5 s = Some (Returned (Inr ()), s)"
    unfolding waitForBlockHeight_def by (rule forever_stops) simp
  moreover have "WithTimeout sim_lib c 20000 s = (?c, s)"
    by (simp add: sim_lib_def)
  moreover have "RcptBlockNumber ?r = 5" and "RcptStatus ?r \<noteq> ReceiptStatusFailed"
    by (simp_all add: sim_receipt_def ReceiptStatusFailed_def)
  ultimately show ?thesis
    by (simp add: waitForTransaction_def WaitMined_def with_timeout_def)
qed

lemma logs_transact:
  assumes "\<And>opts. sends_call ref_codec abi (sim_calls out) opts m vals (method opts)"
  shows "transact_and_wait sim_lib c (logs_l1 ls) key method s =
    Some (Returned (sim_receipt\<lparr>RcptLogs := ls\<rparr>), s)"
proof -
  have "method opts s = (Returned (Inr 7), s)" for opts
    using assms [of opts] by (auto simp: sends_call_def sim_calls_def)
  moreover have "NewKeyedTransactorWithChainID sim_lib key (EVMChainID (logs_l1 ls)) = Inr example_transact_opts"
    by (simp add: sim_lib_def)
  ultimately show ?thesis
    by (simp add: transact_and_wait_def WaitForTransactionSuccess_def logs_wait)
qed

lemma sim_input_ok: "SendTokensInput_ok sim_input" "SendTokensInput_PrimaryFee sim_input = 1"
  by (simp_all add: sim_input_def multi_hop_input_def SendTokensInput_ok_def in_uint256_def)

lemma sim_sent_log:
  obtains log event where "ERC20TokenHomeFilterer_ParseTokensSent (spec_contract ref_codec ERC20TokenHomeABI be) log = Inr event"
    and "map_of event ''Sender'' = Some (GAddr 4)" and "map_of event ''Amount'' = Some (GBig 50)"
proof -
  let ?ins = "[(''teleporterMessageID'', TBytes32, True), (''sender'', TAddress, True),
      (''input'', SendTokensInput_tuple, False), (''amount'', TUint 256, False)]"
  let ?args = "[GArr32 9, GAddr 4, SendTokensInput_val sim_input, GBig 50]"
  have ids: "event_ids ref_codec ERC20TokenHomeABI"
    by (rule ref_event_ids_if) (simp add: ERC20TokenHomeABI_def topic_name_def)
  have ins: "map_of (Events ERC20TokenHomeABI) ''TokensSent'' = Some ?ins"
    by (rule ERC20TokenHome_events)
  have dec: "parser_decodes ref_codec ERC20TokenHomeABI ''TokensSent''
      (ERC20TokenHomeFilterer_ParseTokensSent (spec_contract ref_codec ERC20TokenHomeABI be))"
    using ERC20TokenHome_parsers_decode [OF ref_events ids spec_contract_ok] by blast
  obtain topics data where "pack_event ref_codec ERC20TokenHomeABI ''TokensSent'' ?args = Inr (topics, data)"
    using ins by (simp add: ref_codec_def)
  then have pack: "pack_event ref_codec ERC20TokenHomeABI ''TokensSent'' ?args =
      Inr (LogTopics (example_log\<lparr>LogTopics := topics, LogData := data\<rparr>),
        LogData (example_log\<lparr>LogTopics := topics, LogData := data\<rparr>))"
    by simp
  have "matches_args (event_args ?ins) ?args"
    by (simp add: event_args_Cons sim_input_ok)
  from parser_decodesD(1) [OF dec ins this pack] obtain event where
      "ERC20TokenHomeFilterer_ParseTokensSent (spec_contract ref_codec ERC20TokenHomeABI be)
        (example_log\<lparr>LogTopics := topics, LogData := data\<rparr>) = Inr event"
      and "\<forall>i < length ?ins. map_of event (export_name (fst (?ins ! i))) = Some (?args ! i)"
    by blast
  moreover from this(2) have "map_of event ''Sender'' = Some (GAddr 4)" and "map_of event ''Amount'' = Some (GBig 50)"
    by (auto dest: spec [of _ 1] spec [of _ 3])
  ultimately show ?thesis
    by (intro that)
qed

theorem home_transfer_is_approved_and_scaled_witness:
  "\<exists>ls be token home receipt s s1 s2.
     SendERC20TokenHome sim_lib 0 (logs_l1 ls) home 12 token sim_input 5 8 s = Some (Returned (receipt, 50), s) \<and>
     transaction_made sim_lib 0 (logs_l1 ls) 8 be ExampleERC20DecimalsABI ''approve'' [GAddr 12, GBig 6] s receipt s1 \<and>
     transaction_made sim_lib 0 (logs_l1 ls) 8 be ERC20TokenHomeABI ''send''
       [SendTokensInput_val sim_input, GBig 5] s1 receipt s2"
proof -
  let ?settings = "sim_settings"
  have ok: "RemoteTokenTransferrerSettings_ok ?settings"
    by (simp add: RemoteTokenTransferrerSettings_ok_def sim_settings_def in_uint256_def)
  obtain out where out: "pack_output ref_codec ERC20TokenHomeABI ''getRemoteTokenTransferrerSettings''
      [RemoteTokenTransferrerSettings_val ?settings] = Inr out"
    using ok by (simp add: ref_codec_def ref_pack_def ERC20TokenHome_methods)
  let ?be = "sim_calls out"
  let ?token = "spec_contract ref_codec ExampleERC20DecimalsABI ?be"
  let ?home = "spec_contract ref_codec ERC20TokenHomeABI ?be"
  obtain log event where log: "ERC20TokenHomeFilterer_ParseTokensSent ?home log = Inr event"
      "map_of event ''Sender'' = Some (GAddr 4)" "map_of event ''Amount'' = Some (GBig 50)"
    by (rule sim_sent_log)
  let ?l1 = "logs_l1 [log]" and ?s = "\<lparr>SimClock = 0, SimQueue = 0\<rparr>" and ?r = "sim_receipt\<lparr>RcptLogs := [log]\<rparr>"
  have codec: "codec_lib sim_lib = ref_codec"
    by (simp add: sim_lib_def)
  have approve: "transact_and_wait sim_lib 0 ?l1 8 (\<lambda>opts. ExampleERC20DecimalsTransactor_Approve ?token opts 12 6) s =
      Some (Returned ?r, s)" for s
  proof (rule logs_transact)
    show "sends_call ref_codec ExampleERC20DecimalsABI ?be opts ''approve'' [GAddr 12, GBig 6]
        (ExampleERC20DecimalsTransactor_Approve ?token opts 12 6)" for opts
      using ExampleERC20Decimals_transactions_decode [OF ref_methods ref_roundtrip spec_contract_ok, of ?be opts]
      by (simp add: in_uint256_def)
  qed
  have send: "transact_and_wait sim_lib 0 ?l1 8 (\<lambda>opts. ERC20TokenHomeTransactor_Send ?home opts sim_input 5) s =
      Some (Returned ?r, s)" for s
  proof (rule logs_transact)
    show "sends_call ref_codec ERC20TokenHomeABI ?be opts ''send'' [SendTokensInput_val sim_input, GBig 5]
        (ERC20TokenHomeTransactor_Send ?home opts sim_input 5)" for opts
      using ERC20TokenHome_transactions_decode [OF ref_methods ref_roundtrip spec_contract_ok, of ?be opts] sim_input_ok
      by (simp add: in_uint256_def)
  qed
  have "reads_call ref_codec ERC20TokenHomeABI ?be no_call_opts ''getRemoteTokenTransferrerSettings''
      [GArr32 6, GAddr 3] [RemoteTokenTransferrerSettings_val ?settings] ?settings
      (ERC20TokenHomeCaller_GetRemoteTokenTransferrerSettings ?home no_call_opts 6 3)"
    using ERC20TokenHome_calls_return_outputs [OF ref_methods ref_roundtrip spec_contract_ok] ok by blast
  then have settings: "ERC20TokenHomeCaller_GetRemoteTokenTransferrerSettings ?home no_call_opts 6 3 s =
      (Returned (Inr ?settings), s)" for s
    using out by (auto simp: reads_call_def sim_calls_def)
  have run: "SendERC20TokenHome sim_lib 0 ?l1 ?home 12 ?token sim_input 5 8 ?s = Some (Returned (?r, 50), ?s)"
  proof -
    have "erc20_scaled ?home 6 3 5 s = Some (Returned 50, s)" for s
      by (simp add: erc20_scaled_def GetScaledAmountFromERC20TokenHome_def settings ApplyTokenScaling_def
          scaleTokens_def sim_settings_def lift_go_def)
    moreover have "SendTokensInput_DestinationBlockchainID sim_input = 6"
        and "SendTokensInput_DestinationTokenTransferrerAddress sim_input = 3" and "PubkeyToAddress sim_lib 8 = 4"
      by (simp_all add: sim_input_def multi_hop_input_def sim_lib_def)
    ultimately show ?thesis
      using log by (simp add: SendERC20TokenHome_def ERC20DecimalsApprove_def approve send sim_input_ok
          check_sent_def ExpectBigEqual_def)
  qed
  have "codec_methods (codec_lib sim_lib)" and "codec_roundtrip (codec_lib sim_lib)"
      and "bound_spec (codec_lib sim_lib) ExampleERC20DecimalsABI ?be ?token"
      and "bound_spec (codec_lib sim_lib) ERC20TokenHomeABI ?be ?home"
    by (simp_all add: codec ref_methods ref_roundtrip spec_contract_ok)
  from home_transfer_is_approved_and_scaled [OF this sim_input_ok(1) _ _ run] obtain r1 s1 s2 where
      made: "transaction_made sim_lib 0 ?l1 8 ?be ExampleERC20DecimalsABI ''approve'' [GAddr 12, GBig 6] ?s r1 s1"
      "transaction_made sim_lib 0 ?l1 8 ?be ERC20TokenHomeABI ''send'' [SendTokensInput_val sim_input, GBig 5] s1 ?r s2"
    using sim_input_ok(2) by (auto simp: in_uint256_def)
  then have "r1 = ?r"
    by (auto simp: transaction_made_def WaitForTransactionSuccess_def logs_wait)
  with made run show ?thesis
    by blast
qed

end
