(* ===== verification/ValidatorSimulation.thy ===== *)
theory ValidatorSimulation
  imports IcttSimulation ValidatorChecks
begin

text \<open>The properties of \<open>ValidatorChecks\<close> applied on the simulated network of \<open>Simulation\<close>.\<close>

definition sim_manager :: "sim manager_lib" where
  "sim_manager = \<lparr>
     MetaBin = (\<lambda>ty. ''6001'' @ library_placeholder),
     IDAppend = (\<lambda>h i. h + 1 + word_of_int (uint i)),
     SubnetToL1ConversionID = (\<lambda>subnet chain manager vs. Inr 3),
     NewSubnetToL1Conversion = (\<lambda>h. Inr (hash_bytes h)),
     NewL1ValidatorRegistration = (\<lambda>h valid. Inr (of_bool valid # hash_bytes h)),
     NewRegisterL1Validator = (\<lambda>subnet node key expiry weight. Inr key),
     NewL1ValidatorWeight = (\<lambda>h nonce weight. Inr (hash_bytes h)),
     NewValidatorUptime = (\<lambda>h uptime. Inr (hash_bytes h)),
     MarshalJustification = (\<lambda>j. Inr [1]),
     UnmarshalPayload = (\<lambda>b. Inr (0, PayloadOther)),
     WarpCodecVersion = 0, Avax = 1000000000, MilliAvax = 1000000,
     IssueRegisterL1ValidatorTx = (\<lambda>balance pop msg s. (Inr (), s)),
     IssueSetL1ValidatorWeightTx = (\<lambda>msg s. (Inr (), s)),
     IssueBaseTx = (\<lambda>locktime amount addr s. (Inr (), s)),
     ParseToID = (\<lambda>addr. Inr 4),
     ActivateProposerVMFork = (\<lambda>chainID key client s. (Inr (), s)),
     SleepSeconds = (\<lambda>n s. s\<lparr>SimClock := SimClock s + n\<rparr>),
     SecondsSince = (\<lambda>start s. (of_nat (SimClock s - start), s))\<rparr>"

section \<open>Deployment\<close>

lemma sim_linked_deployment:
  "linked_deployment (linked_lib_of sim_lib (sim_l1 0 0 5)) opts meta params (''6001'' @ library_placeholder) w
     (''6001'' @ hex_encode (be_bytes 20 9)) 9 7 w"
proof -
  have "DeployValidatorMessages (Backend (sim_l1 0 0 5)) bin opts w = (Returned (Inr (9, 7, sim_messenger)), w)" for bin
    by (simp add: DeployValidatorMessages_def deploy_contract_def sim_l1_def sim_backend_def ref_codec_def)
  moreover have "DeployContract (Backend (sim_l1 0 0 5)) opts abi bin params w = (Returned (Inr (9, 7)), w)" for abi bin
    by (simp add: sim_l1_def sim_backend_def)
  moreover have "GetAbi (lib_codec (Backend (sim_l1 0 0 5))) meta = Inr meta"
    by (simp add: sim_l1_def sim_backend_def ref_codec_def)
  moreover have "ReplaceAll (''6001'' @ library_placeholder) library_placeholder new = ''6001'' @ new" for new
    using ReplaceAll_at [of library_placeholder "[]" new]
    by (subst ReplaceAll_skip) (simp_all add: library_placeholder_def)
  moreover have "drop 2 (AddressText sim_lib 9) = hex_encode (be_bytes 20 9)"
    by (simp add: sim_lib_def)
  ultimately show ?thesis
    by (simp add: linked_deployment_def linked_lib_of_def library_address_def)
qed

lemma sim_deployed:
  "DeployValidatorManager sim_lib sim_manager 0 8 (sim_l1 0 0 5) PoAManager s =
     Some (Returned (9, sim_messenger), s\<lparr>ManagerBin := (ManagerBin s)(PoAManager := ''6001'' @ hex_encode (be_bytes 20 9)),
       ManagerWorld := ManagerWorld s\<rparr>)"
proof -
  have "NewIValidatorManager (Backend (sim_l1 0 0 5)) 9 = Inr sim_messenger"
    by (simp add: NewIValidatorManager_def bindIValidatorManager_def bind_contract_def sim_l1_def sim_backend_def
        ref_codec_def)
  moreover have "NewKeyedTransactorWithChainID sim_lib 8 (EVMChainID (sim_l1 0 0 5)) = Inr example_transact_opts"
    by (simp add: sim_lib_def)
  moreover have "MetaBin sim_manager PoAManager = ''6001'' @ library_placeholder"
    by (simp add: sim_manager_def)
  ultimately have "manager_deployment sim_lib sim_manager 0 8 (sim_l1 0 0 5) PoAManager (ManagerWorld s)
      (''6001'' @ hex_encode (be_bytes 20 9)) 9 sim_messenger (ManagerWorld s)"
    unfolding manager_deployment_def WaitForTransactionSuccess_def
    using sim_linked_deployment [of example_transact_opts "manager_abi PoAManager" "[GUint 8 0]" "ManagerWorld s"]
      sim_wait [of 0 5 7 "ManagerWorld s"] by metis
  then show ?thesis
    unfolding DeployValidatorManager_Returned by (intro exI conjI) (assumption, rule refl)
qed

theorem manager_links_its_own_library_witness:
  "\<exists>s' (r :: goerr + address \<times> hash \<times> sim bound_contract). DeployValidatorManager sim_lib sim_manager 0 8 (sim_l1 0 0 5) PoAManager
       \<lparr>ManagerBin = (\<lambda>ty. ''6002''), ManagerWorld = \<lparr>SimClock = 0, SimQueue = 0\<rparr>\<rparr> =
       Some (Returned (9, sim_messenger), s') \<and>
     ManagerBin s' PoAManager = ReplaceAll (''6001'' @ library_placeholder) library_placeholder
       (drop 2 (AddressText sim_lib (library_address r))) \<and>
     ManagerBin s' NativeManager = ''6002''"
proof -
  define s :: "sim manager_state" where
    "s = \<lparr>ManagerBin = (\<lambda>ty. ''6002''), ManagerWorld = \<lparr>SimClock = 0, SimQueue = 0\<rparr>\<rparr>"
  define s' where "s' = s\<lparr>ManagerBin := (ManagerBin s)(PoAManager := ''6001'' @ hex_encode (be_bytes 20 9)),
    ManagerWorld := ManagerWorld s\<rparr>"
  have run: "DeployValidatorManager sim_lib sim_manager 0 8 (sim_l1 0 0 5) PoAManager s =
      Some (Returned (9, sim_messenger), s')"
    unfolding s'_def by (rule sim_deployed)
  from manager_links_its_own_library [OF run]
  obtain r :: "goerr + address \<times> hash \<times> sim bound_contract" where
      bin: "ManagerBin s' PoAManager = ReplaceAll (MetaBin sim_manager PoAManager) library_placeholder
        (drop 2 (AddressText sim_lib (library_address r)))"
      and other: "\<forall>ty. ty \<noteq> PoAManager \<longrightarrow> ManagerBin s' ty = ManagerBin s ty"
    by (elim exE conjE) (rule that, assumption+)
  have "MetaBin sim_manager PoAManager = ''6001'' @ library_placeholder"
    by (simp add: sim_manager_def)
  moreover have "ManagerBin s' NativeManager = ''6002''"
    using other by (simp add: s_def)
  ultimately show ?thesis
    using run bin unfolding s_def by metis
qed

section \<open>Removal with uptime\<close>

lemma matches_args_length: "matches_args as vs \<Longrightarrow> length vs = length as"
  by (induction as vs rule: matches_args.induct) auto

lemma ref_arity: "codec_arity ref_codec"
  by (auto simp: codec_arity_def ref_codec_def ref_pack_def dest: matches_args_length split: if_splits)

lemma sim_create: "CreateSignedMessage sim_lib u j subnet q s = (Inr sim_signed, s)"
  by (simp add: CreateSignedMessage_def read_response_def sim_lib_def hex_decode_encode del: hex_encode.simps)

lemma sim_construct_message [simp]:
  "construct_message sim_lib net chain (Inr payload) j subnet s = Some (Returned sim_signed, s)"
proof -
  have "NewAddressedCall sim_lib [] payload = Inr (0 # payload)"
    and "NewUnsignedMessage sim_lib net chain p = Inr \<lparr>MsgNetworkID = net, MsgSourceChainID = chain, MsgPayload = p\<rparr>" for p
    by (simp_all add: sim_lib_def sim_addressed_call_def)
  then show ?thesis
    by (simp add: construct_message_def sim_create)
qed

lemma sim_codec: "codec_methods (codec_lib sim_lib)" "codec_roundtrip (codec_lib sim_lib)"
  "codec_arity (codec_lib sim_lib)" "codec_lib sim_lib = ref_codec"
  by (simp_all add: sim_lib_def ref_methods ref_roundtrip ref_arity)

theorem unforced_removal_with_uptime_fails_witness:
  "\<exists>e callData. InitializeEndPoSValidationWithUptime sim_lib sim_manager 0 1 8 (sim_l1 0 0 5) 12 7 100
       \<lparr>SimClock = 0, SimQueue = 0\<rparr> = Some (Failed e, \<lparr>SimClock = 0, SimQueue = 0\<rparr>) \<and>
     call_of ref_codec IPoSValidatorManagerABI ''forceInitializeEndValidation''
       [GArr32 7, GBool True, GUint 32 0] (Inr callData)"
proof -
  have "ConstructUptimeProofMessage sim_lib sim_manager 7 100 (sim_l1 0 0 5) 1 \<lparr>SimClock = 0, SimQueue = 0\<rparr> =
      Some (Returned sim_signed, \<lparr>SimClock = 0, SimQueue = 0\<rparr>)"
    by (simp add: ConstructUptimeProofMessage_def sim_manager_def)
  from unforced_removal_with_uptime_fails [OF sim_codec(1-3) this] show ?thesis
    unfolding sim_codec(4) by blast
qed

section \<open>Registration\<close>

definition sim_node :: Node where
  "sim_node = \<lparr>NodeNodeID = 9, NodeNodePoP = Some \<lparr>PopPublicKey = [1, 2], PopProof = [3]\<rparr>, NodeWeight = 20\<rparr>"

abbreviation sim_poa :: "sim bound_contract" where
  "sim_poa \<equiv> spec_contract ref_codec PoAValidatorManagerABI (sim_calls [])"

lemma poa_event_ids: "event_ids ref_codec PoAValidatorManagerABI"
  by (rule ref_event_ids_if) (simp add: PoAValidatorManagerABI_def topic_name_def)

text \<open>A log of an event with the given arguments, as the contract emits it.\<close>

lemma ref_log:
  assumes "parser_decodes ref_codec abi ev parse" and "event_ids ref_codec abi"
    and "map_of (Events abi) ev = Some ins" and "matches_args (event_args ins) args"
  obtains log event where "parse log = Inr event" and "LogTopics log \<noteq> []"
    and "event_by_id ref_codec abi (hd (LogTopics log)) = Inr ev"
    and "\<forall>i < length ins. map_of event (export_name (fst (ins ! i))) = Some (args ! i)"
proof -
  obtain topic topics data where pack: "pack_event ref_codec abi ev args = Inr (topic # topics, data)"
    using assms(3) by (simp add: ref_codec_def)
  let ?log = "example_log\<lparr>LogTopics := topic # topics, LogData := data\<rparr>"
  have "pack_event ref_codec abi ev args = Inr (LogTopics ?log, LogData ?log)"
    using pack by simp
  from parser_decodesD(1) [OF assms(1,3,4) this] obtain event where "parse ?log = Inr event"
      and "\<forall>i < length ins. map_of event (export_name (fst (ins ! i))) = Some (args ! i)"
    by blast
  moreover have "event_by_id ref_codec abi topic = Inr ev"
    using assms(2) pack unfolding event_ids_def by blast
  ultimately show ?thesis
    by (intro that [of ?log]) simp_all
qed

lemma sim_registration_logs:
  obtains created registered
    where "emitted (sim_receipt\<lparr>RcptLogs := [created, registered]\<rparr>) ty
        (PoAValidatorManagerFilterer_ParseValidationPeriodCreated sim_poa)
        [(''NodeID'', GBytes (node_bytes sim_node)), (''ValidationID'', GArr32 7)]"
    and "emitted (sim_receipt\<lparr>RcptLogs := [created, registered]\<rparr>) ty'
        (PoAValidatorManagerFilterer_ParseValidationPeriodRegistered sim_poa) [(''ValidationID'', GArr32 7)]"
proof -
  let ?created = "PoAValidatorManagerFilterer_ParseValidationPeriodCreated sim_poa"
    and ?registered = "PoAValidatorManagerFilterer_ParseValidationPeriodRegistered sim_poa"
  note decode = PoAValidatorManager_parsers_decode [OF ref_events poa_event_ids spec_contract_ok, of "sim_calls []"]
  have created: "parser_decodes ref_codec PoAValidatorManagerABI ''ValidationPeriodCreated'' ?created"
    using decode by (elim conjE)
  have registered: "parser_decodes ref_codec PoAValidatorManagerABI ''ValidationPeriodRegistered'' ?registered"
    using decode by (elim conjE)
  obtain log1 event1 where log1: "?created log1 = Inr event1" "LogTopics log1 \<noteq> []"
      "event_by_id ref_codec PoAValidatorManagerABI (hd (LogTopics log1)) = Inr ''ValidationPeriodCreated''"
      and fields1: "\<forall>i < 5. map_of event1 (export_name (fst ([(''validationID'', TBytes32, True),
        (''registerValidationMessageID'', TBytes32, True), (''weight'', TUint 64, False),
        (''nodeID'', TBytes, False), (''registrationExpiry'', TUint 64, False)] ! i))) =
        Some ([GArr32 7, GArr32 8, GUint 64 20, GBytes (node_bytes sim_node), GUint 64 100] ! i)"
    by (rule ref_log [OF created poa_event_ids PoAValidatorManager_events(4),
        of "[GArr32 7, GArr32 8, GUint 64 20, GBytes (node_bytes sim_node), GUint 64 100]"])
      (simp_all add: event_args_Cons)
  obtain log2 event2 where log2: "?registered log2 = Inr event2" "LogTopics log2 \<noteq> []"
      "event_by_id ref_codec PoAValidatorManagerABI (hd (LogTopics log2)) = Inr ''ValidationPeriodRegistered''"
      and fields2: "\<forall>i < 3. map_of event2 (export_name (fst ([(''validationID'', TBytes32, True),
        (''weight'', TUint 64, False), (''timestamp'', TUint 256, False)] ! i))) =
        Some ([GArr32 7, GUint 64 20, GBig 5] ! i)"
    by (rule ref_log [OF registered poa_event_ids PoAValidatorManager_events(6),
        of "[GArr32 7, GUint 64 20, GBig 5]"])
      (simp_all add: event_args_Cons)
  have "\<not> is_Ok (?registered log1)"
    using parser_decodesD(2) [OF registered PoAValidatorManager_events(6), of log1] log1 by simp
  then have "GetEventFromLogs ty' [log1, log2] ?registered = Inr event2"
    using log2 by (simp add: is_Ok_iff split: sum.splits)
  moreover have "map_of event2 ''ValidationID'' = Some (GArr32 7)"
    using fields2 by (auto dest: spec [of _ 0])
  moreover have "GetEventFromLogs ty [log1, log2] ?created = Inr event1"
    using log1 by simp
  moreover have "map_of event1 ''ValidationID'' = Some (GArr32 7)"
    and "map_of event1 ''NodeID'' = Some (GBytes (node_bytes sim_node))"
    using fields1 by (auto dest: spec [of _ 0] spec [of _ 3])
  ultimately show ?thesis
    by (intro that [of log1 log2]) (simp_all add: emitted_def del: GetEventFromLogs.simps)
qed

lemma logs_signed_message:
  "ConstructSignedWarpMessage sim_lib c (sim_receipt\<lparr>RcptLogs := ls\<rparr>) (logs_l1 ls) destination j s =
     Some (Returned sim_signed, s)"
proof -
  have "block_round (sim_client 0 0) cctx 5 s = Some (Returned (Some ()), s)" for cctx
    by (simp add: block_round_def sim_client_def)
  then have "forever (block_round (sim_client 0 0) cctx 5) s = Some (Returned (), s)" for cctx
    by (rule forever_stops) simp
  then have "WaitForAllValidatorsToAcceptBlock sim_lib c [uri] chain 5 s = Some (Returned (), s)" for uri chain
    by (simp add: WaitForAllValidatorsToAcceptBlock_def wait_for_validator_def with_timeout_def sim_lib_def)
  moreover have "ExtractWarpMessageFromLog sim_lib c (sim_receipt\<lparr>RcptLogs := ls\<rparr>) (logs_l1 ls) s =
      Some (Returned sim_unsigned, s)"
    by (simp add: ExtractWarpMessageFromLog_def logs_l1_def sim_defs)
  ultimately show ?thesis
    by (simp add: ConstructSignedWarpMessage_def GetSignedMessage_def sim_create logs_l1_def sim_l1_def sim_receipt_def)
qed

lemma logs_deliver:
  "CallWarpReceiver sim_lib c callData key (logs_l1 ls) manager m s =
     Some (Returned (sim_receipt\<lparr>RcptLogs := ls\<rparr>), s)"
proof -
  obtain tx where "predicate_transaction sim_lib c m manager 2000000 callData key (logs_l1 ls) s = Some (Returned tx, s)"
    by (simp add: predicate_transaction_def CalculateTxParams_def SignTransaction_def logs_l1_def sim_defs)
  moreover have "SendTransaction (RPCClient (logs_l1 ls)) c tx s = (Inr (), s)"
    by (simp add: logs_l1_def sim_client_def)
  ultimately show ?thesis
    by (simp add: CallWarpReceiver_def SendTransactionAndWaitForSuccess_def sendAndWaitForTransaction_def logs_wait)
qed

lemma logs_complete:
  "CompleteValidatorRegistration sim_lib c key (logs_l1 ls) manager m s =
     Some (Returned (sim_receipt\<lparr>RcptLogs := ls\<rparr>), s)"
proof -
  have "map_of (Methods IValidatorManagerABI) ''completeValidatorRegistration'' = Some ([(''messageIndex'', TUint 32)], [])"
    by (rule IValidatorManager_methods)
  then obtain callData where "pack_method ref_codec IValidatorManagerABI ''completeValidatorRegistration'' [GUint 32 0] =
      Inr callData"
    by (simp add: ref_codec_def ref_pack_def)
  then show ?thesis
    by (simp add: CompleteValidatorRegistration_def pack_and_deliver_def sim_codec(4) GetAbi_ok [OF ref_methods]
        logs_deliver)
qed

lemma sim_advance: "advance_chains sim_manager l1 key s = Some (Returned (), s\<lparr>SimClock := SimClock s + 30\<rparr>)"
proof -
  have "AdvanceProposerVM sim_manager l1 key n w = Some (Returned (), w)" for n w
    by (induction n) (simp_all add: sim_manager_def)
  moreover have "PChainProposerVMWorkaround sim_manager s = Some (Returned (), s\<lparr>SimClock := SimClock s + 30\<rparr>)"
    by (simp add: PChainProposerVMWorkaround_def sim_manager_def sleep_def upd_def)
  ultimately show ?thesis
    by (simp add: advance_chains_def)
qed

lemma logs_begin_registration:
  assumes "emitted (sim_receipt\<lparr>RcptLogs := ls\<rparr>) ''*poavalidatormanager.PoAValidatorManagerValidationPeriodCreated''
      (PoAValidatorManagerFilterer_ParseValidationPeriodCreated sim_poa)
      [(''NodeID'', GBytes (node_bytes sim_node)), (''ValidationID'', GArr32 7)]"
  shows "InitializePoAValidatorRegistration sim_lib c key (logs_l1 ls) sim_node expiry sim_poa s =
    Some (Returned (sim_receipt\<lparr>RcptLogs := ls\<rparr>, 7), s)"
proof -
  have "PoAValidatorManagerTransactor_InitializeValidatorRegistration sim_poa opts input weight s = (Returned (Inr 7), s)"
    for opts input weight
  proof -
    have "sends_call ref_codec PoAValidatorManagerABI (sim_calls []) opts ''initializeValidatorRegistration''
        [ValidatorRegistrationInput_val input, GUint 64 (unat weight)]
        (PoAValidatorManagerTransactor_InitializeValidatorRegistration sim_poa opts input weight)"
      using PoAValidatorManager_transactions_decode [OF ref_methods ref_roundtrip spec_contract_ok, of "sim_calls []" opts]
      by (elim conjE allE)
    then show ?thesis
      by (auto simp: sends_call_def sim_calls_def)
  qed
  moreover have "NewKeyedTransactorWithChainID sim_lib key (EVMChainID (logs_l1 ls)) = Inr example_transact_opts"
    by (simp add: sim_lib_def)
  moreover have "registration_input sim_node expiry s =
      Some (Returned (registration_of sim_node \<lparr>PopPublicKey = [1, 2], PopProof = [3]\<rparr> expiry), s)"
    by (simp add: registration_input_def pop_of_def deref_nil_def sim_node_def)
  moreover have "created_validation ''*poavalidatormanager.PoAValidatorManagerValidationPeriodCreated''
      (PoAValidatorManagerFilterer_ParseValidationPeriodCreated sim_poa) sim_node (sim_receipt\<lparr>RcptLogs := ls\<rparr>) s =
      Some (Returned (sim_receipt\<lparr>RcptLogs := ls\<rparr>, 7), s)"
    using assms by (simp add: created_validation_Returned)
  ultimately show ?thesis
    by (simp add: InitializePoAValidatorRegistration_def register_and_wait_def call_contract_def
        WaitForTransactionSuccess_def logs_wait)
qed

theorem registration_returns_the_registered_validation_witness:
  "\<exists>ls s' sent s1. InitializeAndCompletePoAValidatorRegistration sim_lib sim_manager 0 8 8 (logs_l1 ls) (logs_l1 ls)
       sim_poa 12 100 sim_node 1 \<lparr>SimClock = 0, SimQueue = 0\<rparr> = Some (Returned 7, s') \<and> SimClock s' = 30 \<and>
     transaction_made sim_lib 0 (logs_l1 ls) 8 (sim_calls []) PoAValidatorManagerABI ''initializeValidatorRegistration''
       [ValidatorRegistrationInput_val (registration_of sim_node \<lparr>PopPublicKey = [1, 2], PopProof = [3]\<rparr> 100),
        GUint 64 20] \<lparr>SimClock = 0, SimQueue = 0\<rparr> sent s1"
proof -
  define s :: sim where "s = \<lparr>SimClock = 0, SimQueue = 0\<rparr>"
  let ?created = "''*poavalidatormanager.PoAValidatorManagerValidationPeriodCreated''"
    and ?registered = "''*poavalidatormanager.PoAValidatorManagerValidationPeriodRegistered''"
  obtain log1 log2 where created: "emitted (sim_receipt\<lparr>RcptLogs := [log1, log2]\<rparr>) ?created
        (PoAValidatorManagerFilterer_ParseValidationPeriodCreated sim_poa)
        [(''NodeID'', GBytes (node_bytes sim_node)), (''ValidationID'', GArr32 7)]"
      and registered: "emitted (sim_receipt\<lparr>RcptLogs := [log1, log2]\<rparr>) ?registered
        (PoAValidatorManagerFilterer_ParseValidationPeriodRegistered sim_poa) [(''ValidationID'', GArr32 7)]"
    by (rule sim_registration_logs)
  define ls where "ls = [log1, log2]"
  define s' where "s' = s\<lparr>SimClock := SimClock s + 30\<rparr>"
  obtain event where "expect_validation ?registered (PoAValidatorManagerFilterer_ParseValidationPeriodRegistered sim_poa)
      7 (sim_receipt\<lparr>RcptLogs := ls\<rparr>) s' = Some (Returned event, s')"
    using registered unfolding expect_validation_Returned emitted_def ls_def by blast
  moreover have "pop_of sim_node s = Some (Returned \<lparr>PopPublicKey = [1, 2], PopProof = [3]\<rparr>, s)"
    by (simp add: pop_of_def deref_nil_def sim_node_def)
  moreover have "IssueRegisterL1ValidatorTx sim_manager b p m w = (Inr (), w)" for b p m w
    by (simp add: sim_manager_def)
  moreover have "ConstructL1ValidatorRegistrationMessage sim_lib sim_manager 7 100 sim_node True l1 l1 1 w =
      Some (Returned sim_signed, w)" for l1 w
    by (simp add: ConstructL1ValidatorRegistrationMessage_def pop_of_def deref_nil_def sim_node_def)
      (simp add: sim_manager_def)
  ultimately have run: "InitializeAndCompletePoAValidatorRegistration sim_lib sim_manager 0 8 8 (logs_l1 ls) (logs_l1 ls)
       sim_poa 12 100 sim_node 1 s = Some (Returned 7, s')"
    using logs_begin_registration [OF created [folded ls_def], of 0 8 100 s] sim_advance [of "logs_l1 ls" 8 s]
    by (simp add: InitializeAndCompletePoAValidatorRegistration_def complete_registration_def logs_signed_message
        logs_complete s'_def)
  have "bound_spec (codec_lib sim_lib) PoAValidatorManagerABI (sim_calls []) sim_poa"
    by (simp add: sim_codec spec_contract_ok)
  from registration_returns_the_registered_validation [OF sim_codec(1,2) this run] obtain pop sent s1 where
      "NodeNodePoP sim_node = Some pop"
      and "transaction_made sim_lib 0 (logs_l1 ls) 8 (sim_calls []) PoAValidatorManagerABI
       ''initializeValidatorRegistration'' [ValidatorRegistrationInput_val (registration_of sim_node pop 100),
        GUint 64 (unat (NodeWeight sim_node))] s sent s1"
    by (elim exE conjE) (rule that, assumption+)
  moreover from this(1) have "pop = \<lparr>PopPublicKey = [1, 2], PopProof = [3]\<rparr>" and "unat (NodeWeight sim_node) = 20"
    by (simp_all add: sim_node_def)
  moreover have "SimClock s' = 30"
    by (simp add: s'_def s_def)
  ultimately show ?thesis
    using run unfolding s_def by metis
qed

section \<open>The initial validators\<close>

text \<open>The chain of \<open>logs_l1\<close> with contracts that follow their ABI.\<close>

definition set_l1 :: "evm_log list \<Rightarrow> sim L1TestInfo" where
  "set_l1 ls = (logs_l1 ls)\<lparr>Backend := sim_backend\<lparr>NewBoundContract :=
     (\<lambda>abi a. spec_contract ref_codec abi (sim_calls []))\<rparr>\<rparr>"

lemma set_deliver:
  "CallWarpReceiver sim_lib c callData key (set_l1 ls) manager m s =
     Some (Returned (sim_receipt\<lparr>RcptLogs := ls\<rparr>), s)"
proof -
  have client: "RPCClient (l1\<lparr>Backend := b\<rparr>) = RPCClient l1" for b and l1 :: "sim L1TestInfo"
    by simp
  have "waitForTransaction sim_lib c (l1\<lparr>Backend := b\<rparr>) h ok = waitForTransaction sim_lib c l1 h ok"
    for b h ok and l1 :: "sim L1TestInfo"
    unfolding waitForTransaction_def WaitMined_def client by (rule refl)
  then have "SendTransactionAndWaitForSuccess sim_lib c (l1\<lparr>Backend := b\<rparr>) =
      SendTransactionAndWaitForSuccess sim_lib c l1" for b and l1 :: "sim L1TestInfo"
    by (intro ext) (simp add: SendTransactionAndWaitForSuccess_def sendAndWaitForTransaction_def)
  then have "CallWarpReceiver sim_lib c callData key (l1\<lparr>Backend := b\<rparr>) manager m =
      CallWarpReceiver sim_lib c callData key l1 manager m" for b and l1 :: "sim L1TestInfo"
    by (simp add: CallWarpReceiver_def predicate_transaction_def CalculateTxParams_def)
  then show ?thesis
    by (simp add: set_l1_def logs_deliver)
qed

abbreviation sim_ivm :: "sim bound_contract" where
  "sim_ivm \<equiv> spec_contract ref_codec IValidatorManagerABI (sim_calls [])"

lemma sim_initial_log:
  obtains log event where "IValidatorManagerFilterer_ParseInitialValidatorCreated sim_ivm log = Inr event"
    and "map_of event ''NodeID'' = Some (GBytes (node_bytes sim_node))"
    and "map_of event ''Weight'' = Some (GUint 64 20)" and "map_of event ''ValidationID'' = Some (GArr32 3)"
proof -
  have ids: "event_ids ref_codec IValidatorManagerABI"
    by (rule ref_event_ids_if) (simp add: IValidatorManagerABI_def topic_name_def)
  have decode: "parser_decodes ref_codec IValidatorManagerABI ''InitialValidatorCreated''
      (IValidatorManagerFilterer_ParseInitialValidatorCreated sim_ivm)"
    using IValidatorManager_parsers_decode [OF ref_events ids spec_contract_ok, of "sim_calls []"] by (elim conjE)
  obtain log event where "IValidatorManagerFilterer_ParseInitialValidatorCreated sim_ivm log = Inr event"
      and fields: "\<forall>i < 3. map_of event (export_name (fst ([(''validationID'', TBytes32, True),
        (''weight'', TUint 64, False), (''nodeID'', TBytes, False)] ! i))) =
        Some ([GArr32 3, GUint 64 20, GBytes (node_bytes sim_node)] ! i)"
    by (rule ref_log [OF decode ids IValidatorManager_events(1),
        of "[GArr32 3, GUint 64 20, GBytes (node_bytes sim_node)]"])
      (simp_all add: event_args_Cons)
  then show ?thesis
    by (intro that [of log event]) (auto dest: spec [of _ 0] spec [of _ 1] spec [of _ 2])
qed

theorem delivered_validators_are_the_converted_ones_witness:
  "\<exists>ls s. InitializeValidatorSet sim_lib sim_manager 0 8 (set_l1 ls) (set_l1 ls) 12 1 [sim_node, sim_node] s =
       Some (Returned [3, 4], s) \<and>
     (\<exists>callData. call_of ref_codec IValidatorManagerABI ''initializeValidatorSet''
        [ConversionData_val \<lparr>ConversionData.SubnetID = 2, ValidatorManagerBlockchainID = 5, ValidatorManagerAddress = 12,
          InitialValidators = replicate 2 \<lparr>NodeID = node_bytes sim_node, BlsPublicKey = [1, 2], Weight = 20\<rparr>\<rparr>,
         GUint 32 0] (Inr callData))"
proof -
  define s :: sim where "s = \<lparr>SimClock = 0, SimQueue = 0\<rparr>"
  obtain log event where log: "IValidatorManagerFilterer_ParseInitialValidatorCreated sim_ivm log = Inr event"
      "map_of event ''NodeID'' = Some (GBytes (node_bytes sim_node))"
      "map_of event ''Weight'' = Some (GUint 64 20)" "map_of event ''ValidationID'' = Some (GArr32 3)"
    by (rule sim_initial_log)
  have l1: "L1TestInfo.SubnetID (set_l1 [log]) = 2" "BlockchainID (set_l1 [log]) = 5"
    by (simp_all add: set_l1_def logs_l1_def sim_l1_def)
  have "DeliverL1Conversion sim_lib 0 8 (set_l1 [log]) 12 m d s = Some (Returned (sim_receipt\<lparr>RcptLogs := [log]\<rparr>), s)"
    for m d
  proof -
    have "map_of (Methods IValidatorManagerABI) ''initializeValidatorSet'' =
        Some ([(''conversionData'', ConversionData_tuple), (''messsageIndex'', TUint 32)], [])"
      by (rule IValidatorManager_methods)
    then obtain callData where "pack_method ref_codec IValidatorManagerABI ''initializeValidatorSet''
        [ConversionData_val d, GUint 32 0] = Inr callData"
      by (simp add: ref_codec_def ref_pack_def)
    then show ?thesis
      by (simp add: DeliverL1Conversion_def pack_and_deliver_def sim_codec(4) GetAbi_ok [OF ref_methods] set_deliver)
  qed
  moreover have "ConstructL1ConversionMessage sim_lib sim_manager 3 l1 l1 1 s = Some (Returned sim_signed, s)" for l1
    by (simp add: ConstructL1ConversionMessage_def) (simp add: sim_manager_def)
  moreover have "initial_validators [sim_node, sim_node] s =
      Some (Returned (replicate 2 \<lparr>NodeID = node_bytes sim_node, BlsPublicKey = [1, 2], Weight = 20\<rparr>), s)"
    by (simp add: initial_validator_def pop_of_def deref_nil_def numeral_2_eq_2) (simp add: sim_node_def)
  moreover have "SubnetToL1ConversionID sim_manager a b c d = Inr 3" for a b c d
    by (simp add: sim_manager_def)
  moreover have "NewIValidatorManager (Backend (set_l1 [log])) 12 = Inr sim_ivm"
    by (simp add: NewIValidatorManager_def bindIValidatorManager_def bind_contract_def set_l1_def sim_backend_def
        ref_codec_def)
  moreover have "validation_ids sim_manager 2 [sim_node, sim_node] = [3, 4]"
    by (simp add: validation_ids_def sim_manager_def)
  moreover have "NodeWeight sim_node = 20"
    by (simp add: sim_node_def)
  ultimately have run: "InitializeValidatorSet sim_lib sim_manager 0 8 (set_l1 [log]) (set_l1 [log]) 12 1
      [sim_node, sim_node] s = Some (Returned [3, 4], s)"
    using log by (simp add: InitializeValidatorSet_def l1 Let_def del: initial_validators.simps)
  from delivered_validators_are_the_converted_ones [OF sim_codec(1,2) this] obtain pops callData where
      pops: "map NodeNodePoP [sim_node, sim_node] = map Some pops"
      and call: "call_of ref_codec IValidatorManagerABI ''initializeValidatorSet''
       [ConversionData_val \<lparr>ConversionData.SubnetID = 2, ValidatorManagerBlockchainID = 5,
          ValidatorManagerAddress = 12, InitialValidators = map validator_of (zip [sim_node, sim_node] pops)\<rparr>,
        GUint 32 0] (Inr callData)"
    unfolding l1 sim_codec(4) by (elim exE conjE) (rule that, assumption+)
  have "pops = replicate 2 \<lparr>PopPublicKey = [1, 2], PopProof = [3]\<rparr>"
    using pops by (auto simp: sim_node_def Cons_eq_map_conv numeral_2_eq_2)
  then have "map validator_of (zip [sim_node, sim_node] pops) =
      replicate 2 \<lparr>NodeID = node_bytes sim_node, BlsPublicKey = [1, 2], Weight = 20\<rparr>"
    using \<open>NodeWeight sim_node = 20\<close> by (simp add: validator_of_def numeral_2_eq_2)
  with run call show ?thesis
    by metis
qed

end
