(* ===== verification/NetworkSetup.thy ===== *)
theory NetworkSetup
  imports LocalNetwork
begin

text \<open>
  \<open>NewLocalNetwork\<close> of \<open>tests/network/network.go\<close>: the nodes, the L1s and the bootstrap of a local network.
  \<open>tmpnet\<close> and the helpers of \<open>subnet-evm\<close> around it are parameters.
\<close>

section \<open>State and parameters\<close>

definition fundedKeyStr :: string where
  "fundedKeyStr = ''56289e99c94b6912bfc12adc093c9b51124f0dc54ac7a766b2bc5ccf558d8027''"

record L1Spec =
  L1Name :: string
  L1EVMChainID :: u64
  NodeCount :: int
  TeleporterContractAddress :: address
  TeleporterDeployedBytecode :: string
  TeleporterDeployerAddress :: address
  SpecRequirePrimaryNetworkSigners :: bool

text \<open>
  The nodes made so far (the next reference is free), the files, the services, and the package variable
  \<open>utils.WarpEnabledChainConfig\<close>: a Go map, which \<open>GetChainConfigWithOffChainMessages\<close> writes to.
\<close>

record 'w setup_state =
  SetupWorld :: 'w
  SetupFiles :: "string \<rightharpoonup> string"
  SetupStore :: "node_ref \<Rightarrow> tmp_node"
  NextRef :: node_ref
  SharedConfig :: flags_map

text \<open>\<open>tmpnet.Network\<close> before it is part of a \<open>LocalNetwork\<close>.\<close>

record tmp_network =
  TmpNodes :: "node_ref list"
  TmpSubnets :: "tmp_subnet list"
  TmpChainConfigs :: "string \<rightharpoonup> flags_map"
  PreFundedKeys :: "priv_key list"

text \<open>
  Parameters: new nodes; a subnet from its genesis file and its nodes; a network, which may be nil; the
  environment; the genesis of the primary network (here a text) with the accounts it funds; the
  bootstrap, which also gives the subnets their identifiers and their chains.
\<close>

record 'w setup_lib =
  ToPrivateKey :: "bytes \<Rightarrow> goerr + priv_key"
  TestKeys :: "priv_key list"
  NewTmpnetNodes :: "int \<Rightarrow> 'w \<Rightarrow> tmp_node list \<times> 'w"
  CreateTempFile :: "(string \<rightharpoonup> string) \<Rightarrow> goerr + string"
  NewTmpnetSubnet :: "(string \<rightharpoonup> string) \<Rightarrow> string \<Rightarrow> string \<Rightarrow> flags_map \<Rightarrow> tmp_node \<Rightarrow> tmp_subnet"
  NewTmpnetNetwork :: "string \<Rightarrow> node_ref list \<Rightarrow> flags_map \<Rightarrow> tmp_subnet list \<Rightarrow> tmp_network option"
  LookupEnv :: "string \<Rightarrow> string option"
  NewTestGenesis :: "nat \<Rightarrow> tmp_node list \<Rightarrow> priv_key list \<Rightarrow> goerr + string"
  BootstrapNewNetwork :: "string \<Rightarrow> string \<Rightarrow> string \<Rightarrow> tmp_network \<Rightarrow> (node_ref \<Rightarrow> tmp_node) \<Rightarrow>
    ('w, goerr, tmp_network \<times> (node_ref \<Rightarrow> tmp_node)) query"

section \<open>Nodes and L1s\<close>

text \<open>New nodes get the next references.\<close>

definition new_nodes :: "'w setup_lib \<Rightarrow> int \<Rightarrow> ('w setup_state, node_ref list) run" where
  "new_nodes slib count s =
     (case NewTmpnetNodes slib count (SetupWorld s) of
        (nodes, w) \<Rightarrow>
          Some (Returned [NextRef s..<NextRef s + length nodes],
            s\<lparr>SetupWorld := w, NextRef := NextRef s + length nodes,
              SetupStore := (\<lambda>x. if NextRef s \<le> x \<and> x < NextRef s + length nodes then nodes ! (x - NextRef s)
                else SetupStore s x)\<rparr>))"

text \<open>One iteration over the specifications, with the bootstrap node of its position.\<close>

definition setup_l1 ::
  "'w e2e_lib \<Rightarrow> 'w setup_lib \<Rightarrow> string \<Rightarrow> node_ref \<Rightarrow> L1Spec \<Rightarrow> ('w setup_state, node_ref list \<times> tmp_subnet) run" where
  "setup_l1 lib slib warpGenesisTemplateFile initialL1Bootstrapper l1Spec =
     rbnd (new_nodes slib (NodeCount l1Spec)) (\<lambda>initialVdrNodes.
     rbnd (focus SetupFiles (\<lambda>files s. s\<lparr>SetupFiles := files\<rparr>)
       (InstantiateGenesisTemplate lib (CreateTempFile slib) warpGenesisTemplateFile (L1EVMChainID l1Spec)
         (TeleporterContractAddress l1Spec) (TeleporterDeployedBytecode l1Spec)
         (TeleporterDeployerAddress l1Spec) (SpecRequirePrimaryNetworkSigners l1Spec))) (\<lambda>genesisFile.
     rbnd (run_of (gets (\<lambda>s. NewTmpnetSubnet slib (SetupFiles s) (L1Name l1Spec) genesisFile (SharedConfig s)
       (SetupStore s initialL1Bootstrapper)))) (\<lambda>l1.
     rret (initialVdrNodes, l1))))"

fun setup_l1s ::
  "'w e2e_lib \<Rightarrow> 'w setup_lib \<Rightarrow> string \<Rightarrow> node_ref list \<Rightarrow> L1Spec list \<Rightarrow>
   ('w setup_state, node_ref list \<times> tmp_subnet list) run" where
  "setup_l1s lib slib template bootstrapNodes [] = rret ([], [])"
| "setup_l1s lib slib template [] (spec # specs) = run_of (panicked ''index out of range'')"
| "setup_l1s lib slib template (node # nodes) (spec # specs) =
     rbnd (setup_l1 lib slib template node spec) (\<lambda>(vdrs, l1).
     rbnd (setup_l1s lib slib template nodes specs) (\<lambda>(rest, l1s).
     rret (vdrs @ rest, l1 # l1s)))"

text \<open>The specifications by name; only the flag is read later.\<close>

definition specs_by_name :: "L1Spec list \<Rightarrow> string \<rightharpoonup> bool" where
  "specs_by_name l1Specs = foldl (\<lambda>m l1Spec. m(L1Name l1Spec \<mapsto> SpecRequirePrimaryNetworkSigners l1Spec)) Map.empty l1Specs"

section \<open>The network\<close>

text \<open>The genesis, and the bootstrap with the paths of the binary and its plugins.\<close>

definition bootstrapped ::
  "'w setup_lib \<Rightarrow> node_ref list \<Rightarrow> tmp_network \<Rightarrow> ('w setup_state, tmp_network) run" where
  "bootstrapped slib bootstrapNodes network =
     rbnd (expect (case LookupEnv slib ''AVALANCHEGO_BUILD_PATH'' of
         None \<Rightarrow> Inl [''unexpected value''] | Some path \<Rightarrow> Inr path)) (\<lambda>avalancheGoBuildPath.
     rbnd (run_of (gets (\<lambda>s. map (SetupStore s) bootstrapNodes))) (\<lambda>nodes.
     rbnd (expect (NewTestGenesis slib 88888 nodes (TestKeys slib @ PreFundedKeys network))) (\<lambda>genesis.
     rbnd (run_of (gets SetupStore)) (\<lambda>store.
     rbnd (focus SetupWorld (\<lambda>w s. s\<lparr>SetupWorld := w\<rparr>)
       (call_ok (BootstrapNewNetwork slib genesis (avalancheGoBuildPath @ ''/avalanchego'')
         (avalancheGoBuildPath @ ''/plugins'') network store))) (\<lambda>(network', store').
     rbnd (run_of (upd (\<lambda>s. s\<lparr>SetupStore := store'\<rparr>))) (\<lambda>_. rret network'))))))"

text \<open>
  A command on the network that was built. The struct is made after the proposers of the L1s were set
  up, from values which that does not change; here it comes first, as the state of \<open>SetupProposerVM\<close>.
\<close>

definition run_network ::
  "('w LocalNetwork, unit) run \<Rightarrow> 'w LocalNetwork \<Rightarrow> ('w setup_state, 'w LocalNetwork) run" where
  "run_network m n s =
     (case m n of
        None \<Rightarrow> None
      | Some (r, n') \<Rightarrow>
          Some (case r of Returned _ \<Rightarrow> Returned n' | Failed e \<Rightarrow> Failed e | Panicked e \<Rightarrow> Panicked e,
            s\<lparr>SetupWorld := World n'\<rparr>))"

definition NewLocalNetwork ::
  "'w net_lib \<Rightarrow> 'w setup_lib \<Rightarrow> ctx \<Rightarrow> string \<Rightarrow> string \<Rightarrow> L1Spec list \<Rightarrow> int \<Rightarrow> int \<Rightarrow>
   ('w setup_state, 'w LocalNetwork) run" where
  "NewLocalNetwork lib slib c name warpGenesisTemplateFile l1Specs numPrimaryNetworkValidators extraNodeCount =
     rbnd (expect_that (int (length l1Specs) \<le> numPrimaryNetworkValidators)) (\<lambda>_.
     rbnd (new_nodes slib extraNodeCount) (\<lambda>extra.
     rbnd (expect (hex_decode fundedKeyStr)) (\<lambda>fundedKey.
     rbnd (expect (ToPrivateKey slib fundedKey)) (\<lambda>globalFundedKey.
     rbnd (new_nodes slib numPrimaryNetworkValidators) (\<lambda>bootstrapNodes.
     rbnd (setup_l1s (E2E lib) slib warpGenesisTemplateFile bootstrapNodes l1Specs) (\<lambda>(vdrs, l1s).
     rbnd (run_of (gets SharedConfig)) (\<lambda>warpEnabledChainConfig.
     rbnd (expect (case NewTmpnetNetwork slib name bootstrapNodes warpEnabledChainConfig l1s of
         None \<Rightarrow> Inl [''unexpected value''] | Some network \<Rightarrow> Inr network)) (\<lambda>network.
     rbnd (bootstrapped slib bootstrapNodes network) (\<lambda>network.
     rbnd (run_of (gets (\<lambda>s. \<lparr>World = SetupWorld s, Store = SetupStore s, NetNodes = TmpNodes network,
       NetSubnets = TmpSubnets network, ChainConfigs = TmpChainConfigs network, extraNodes = extra @ vdrs,
       primaryNetworkValidators = TmpNodes network, validatorManagers = Map.empty,
       deployedL1Specs = specs_by_name l1Specs\<rparr>)))
       (run_network (\<lambda>n. each_run (\<lambda>l1. SetupProposerVM lib c globalFundedKey (TmpSubnetID l1)) (NetSubnets n) n)))))))))))"

text \<open>\<open>stop\<close> ends the processes of the nodes.\<close>

definition TearDownNetwork :: "('w LocalNetwork, goerr, unit) query \<Rightarrow> ('w LocalNetwork, unit) run" where
  "TearDownNetwork stop = call_ok stop"

section \<open>What the code relies on\<close>

text \<open>
  New nodes have identifiers that no node has yet, as long as there are any left, and track nothing;
  a subnet is validated by its node; a network has the nodes and subnets it was made of; the bootstrap
  keeps them, gives the network's nodes what to track and leaves all others alone.
\<close>

definition fresh_nodes :: "'w setup_lib \<Rightarrow> ('w \<Rightarrow> node_id set) \<Rightarrow> ('w \<Rightarrow> int) \<Rightarrow> bool" where
  "fresh_nodes slib used room \<longleftrightarrow>
     (\<forall>k w nodes w'. NewTmpnetNodes slib k w = (nodes, w') \<longrightarrow> 0 \<le> k \<longrightarrow> k \<le> room w \<longrightarrow>
        int (length nodes) = k \<and> distinct (map TmpNodeID nodes) \<and> (\<forall>node \<in> set nodes. TrackedSubnets node = []) \<and>
        set (map TmpNodeID nodes) \<inter> used w = {} \<and> used w' = used w \<union> set (map TmpNodeID nodes) \<and> room w' = room w - k)"

definition makes_networks :: "'w setup_lib \<Rightarrow> bool" where
  "makes_networks slib \<longleftrightarrow>
     (\<forall>files name file config node. let l1 = NewTmpnetSubnet slib files name file config node in
        SubnetName l1 = name \<and> ValidatorIDs l1 = [TmpNodeID node]) \<and>
     (\<forall>name nodes config l1s network. NewTmpnetNetwork slib name nodes config l1s = Some network \<longrightarrow>
        TmpNodes network = nodes \<and> TmpSubnets network = l1s) \<and>
     (\<forall>g p q network store w network' store' w'.
        BootstrapNewNetwork slib g p q network store w = (Inr (network', store'), w') \<longrightarrow>
        TmpNodes network' = TmpNodes network \<and>
        map SubnetName (TmpSubnets network') = map SubnetName (TmpSubnets network) \<and>
        map ValidatorIDs (TmpSubnets network') = map ValidatorIDs (TmpSubnets network) \<and>
        (\<forall>x. TmpNodeID (store' x) = TmpNodeID (store x)) \<and>
        (\<forall>x. x \<notin> set (TmpNodes network) \<longrightarrow> TrackedSubnets (store' x) = TrackedSubnets (store x)))"

section \<open>New nodes\<close>

text \<open>The nodes from a reference on: their identifiers are distinct and used, and they track nothing.\<close>

definition nodes_ok :: "('w \<Rightarrow> node_id set) \<Rightarrow> node_ref \<Rightarrow> 'w setup_state \<Rightarrow> bool" where
  "nodes_ok used first s \<longleftrightarrow>
     (let nodes = map (SetupStore s) [first..<NextRef s] in
      first \<le> NextRef s \<and> distinct (map TmpNodeID nodes) \<and> set (map TmpNodeID nodes) \<subseteq> used (SetupWorld s) \<and>
      (\<forall>node \<in> set nodes. TrackedSubnets node = []))"

text \<open>What adding \<open>k\<close> nodes does to the references.\<close>

definition adds_nodes ::
  "('w \<Rightarrow> node_id set) \<Rightarrow> ('w \<Rightarrow> int) \<Rightarrow> node_ref \<Rightarrow> int \<Rightarrow> 'w setup_state \<Rightarrow> 'w setup_state \<Rightarrow> bool" where
  "adds_nodes used room first k s s' \<longleftrightarrow>
     nodes_ok used first s' \<and> int (NextRef s') = int (NextRef s) + k \<and> room (SetupWorld s') = room (SetupWorld s) - k \<and>
     (\<forall>x < NextRef s. SetupStore s' x = SetupStore s x)"

lemma adds_nodes_trans:
  "adds_nodes used room first k s s1 \<Longrightarrow> adds_nodes used room first l s1 s2 \<Longrightarrow> 0 \<le> k \<Longrightarrow>
   adds_nodes used room first (k + l) s s2"
  by (auto simp: adds_nodes_def)

lemma new_nodes_adds:
  assumes "fresh_nodes slib used room" and "nodes_ok used first s" and "0 \<le> k" and "k \<le> room (SetupWorld s)"
    and "new_nodes slib k s = Some (Returned nodes, s')"
  shows "nodes = [NextRef s..<NextRef s']" and "adds_nodes used room first k s s'"
proof -
  obtain made w where made: "NewTmpnetNodes slib k (SetupWorld s) = (made, w)"
    by (cases "NewTmpnetNodes slib k (SetupWorld s)")
  have s': "NextRef s' = NextRef s + length made" "SetupWorld s' = w" "nodes = [NextRef s..<NextRef s + length made]"
      and store: "SetupStore s' = (\<lambda>x. if NextRef s \<le> x \<and> x < NextRef s + length made then made ! (x - NextRef s)
        else SetupStore s x)"
    using assms(5) by (auto simp: new_nodes_def made)
  have new: "int (length made) = k" "distinct (map TmpNodeID made)" "\<forall>node \<in> set made. TrackedSubnets node = []"
      "set (map TmpNodeID made) \<inter> used (SetupWorld s) = {}"
      "used w = used (SetupWorld s) \<union> set (map TmpNodeID made)" "room w = room (SetupWorld s) - k"
    using assms(1,3,4) made unfolding fresh_nodes_def by blast+
  show "nodes = [NextRef s..<NextRef s']"
    by (simp add: s')
  have "map (SetupStore s') [NextRef s..<NextRef s + length made] = made"
    by (rule nth_equalityI) (simp_all add: store)
  moreover have "map (SetupStore s') [first..<NextRef s] = map (SetupStore s) [first..<NextRef s]"
    by (simp add: store)
  moreover have "first \<le> NextRef s"
    using assms(2) by (simp add: nodes_ok_def Let_def)
  ultimately have all: "map (SetupStore s') [first..<NextRef s'] = map (SetupStore s) [first..<NextRef s] @ made"
    by (simp add: s'(1) upt_add_eq_append [of first "NextRef s"])
  let ?old = "map (SetupStore s) [first..<NextRef s]"
  have old: "first \<le> NextRef s" "distinct (map TmpNodeID ?old)" "set (map TmpNodeID ?old) \<subseteq> used (SetupWorld s)"
      "\<forall>node \<in> set ?old. TrackedSubnets node = []"
    using assms(2) unfolding nodes_ok_def Let_def by blast+
  have "distinct (map TmpNodeID (?old @ made))"
    using old(2,3) new(2,4) by (simp only: map_append distinct_append) blast
  moreover have "set (map TmpNodeID (?old @ made)) \<subseteq> used w"
    using old(3) new(5) by (simp only: map_append set_append) blast
  moreover have "\<forall>node \<in> set (?old @ made). TrackedSubnets node = []"
    using old(4) new(3) by (simp only: set_append) blast
  moreover have "first \<le> NextRef s'"
    using old(1) by (simp add: s')
  ultimately have "nodes_ok used first s'"
    unfolding nodes_ok_def Let_def all s'(2) by blast
  then show "adds_nodes used room first k s s'"
    using new(1,6) by (simp add: adds_nodes_def s' store)
qed

section \<open>The new network\<close>

lemma setup_l1_adds:
  assumes "fresh_nodes slib used room" and "makes_networks slib" and "nodes_ok used first s"
    and "0 \<le> NodeCount spec" and "NodeCount spec \<le> room (SetupWorld s)"
    and "setup_l1 lib slib template node spec s = Some (Returned (vdrs, l1), s')"
  shows "vdrs = [NextRef s..<NextRef s']" and "adds_nodes used room first (NodeCount spec) s s'"
    and "SubnetName l1 = L1Name spec" and "node < NextRef s \<Longrightarrow> ValidatorIDs l1 = [TmpNodeID (SetupStore s node)]"
proof -
  obtain s1 files genesis where new: "new_nodes slib (NodeCount spec) s = Some (Returned vdrs, s1)"
      and s': "s' = s1\<lparr>SetupFiles := files\<rparr>"
      and l1: "l1 = NewTmpnetSubnet slib files (L1Name spec) genesis (SharedConfig s1) (SetupStore s1 node)"
    using assms(6) by (auto simp: setup_l1_def gets_def go_splits)
  note added = new_nodes_adds [OF assms(1,3-5) new]
  show "vdrs = [NextRef s..<NextRef s']" and "adds_nodes used room first (NodeCount spec) s s'"
    using added by (simp_all add: s' adds_nodes_def nodes_ok_def)
  show "ValidatorIDs l1 = [TmpNodeID (SetupStore s node)]" if "node < NextRef s"
    using l1 assms(2) that added(2) by (auto simp: makes_networks_def Let_def adds_nodes_def)
  show "SubnetName l1 = L1Name spec"
    using l1 assms(2) by (auto simp: makes_networks_def Let_def)
qed

text \<open>The nodes the specifications ask for.\<close>

definition nodes_of :: "L1Spec list \<Rightarrow> int" where
  "nodes_of specs = sum_list (map NodeCount specs)"

lemma setup_l1s_adds:
  assumes "fresh_nodes slib used room" and "makes_networks slib"
  shows "setup_l1s lib slib template nodes specs s = Some (Returned (vdrs, l1s), s') \<Longrightarrow> nodes_ok used first s \<Longrightarrow>
    \<forall>spec \<in> set specs. 0 \<le> NodeCount spec \<Longrightarrow> nodes_of specs \<le> room (SetupWorld s) \<Longrightarrow>
    vdrs = [NextRef s..<NextRef s'] \<and> adds_nodes used room first (nodes_of specs) s s' \<and>
    map SubnetName l1s = map L1Name specs \<and> length specs \<le> length nodes \<and>
    (\<forall>i < length specs. nodes ! i < NextRef s \<longrightarrow> ValidatorIDs (l1s ! i) = [TmpNodeID (SetupStore s (nodes ! i))])"
proof (induction specs arbitrary: nodes vdrs l1s s)
  case Nil
  then show ?case
    by (auto simp: nodes_of_def adds_nodes_def)
next
  case (Cons spec specs)
  obtain node rest where nodes: "nodes = node # rest"
    using Cons.prems(1) by (cases nodes) (auto simp: run_of_def panicked_def)
  then obtain vdrs1 l1 s1 vdrs2 l1s2 where
      first: "setup_l1 lib slib template node spec s = Some (Returned (vdrs1, l1), s1)"
      and later: "setup_l1s lib slib template rest specs s1 = Some (Returned (vdrs2, l1s2), s')"
      and both: "vdrs = vdrs1 @ vdrs2" "l1s = l1 # l1s2"
    using Cons.prems(1) by (auto simp: go_splits)
  have count: "0 \<le> NodeCount spec" "0 \<le> nodes_of specs" "nodes_of (spec # specs) = NodeCount spec + nodes_of specs"
    using Cons.prems(3) by (auto simp: nodes_of_def intro!: sum_list_nonneg)
  then have room: "NodeCount spec \<le> room (SetupWorld s)"
    using Cons.prems(4) by simp
  note added1 = setup_l1_adds [OF assms Cons.prems(2) count(1) room first]
  have s1: "nodes_ok used first s1" "room (SetupWorld s1) = room (SetupWorld s) - NodeCount spec"
      "NextRef s \<le> NextRef s1" "\<And>x. x < NextRef s \<Longrightarrow> SetupStore s1 x = SetupStore s x"
    using added1(2) count(1) by (auto simp: adds_nodes_def)
  note added2 = Cons.IH [OF later s1(1)]
  then have "vdrs2 = [NextRef s1..<NextRef s']" and rest: "adds_nodes used room first (nodes_of specs) s1 s'"
      and names: "map SubnetName l1s2 = map L1Name specs" "length specs \<le> length rest"
      and ids: "\<forall>i < length specs. rest ! i < NextRef s1 \<longrightarrow> ValidatorIDs (l1s2 ! i) = [TmpNodeID (SetupStore s1 (rest ! i))]"
    using Cons.prems(3,4) count(3) s1(2) by auto
  then have "vdrs = [NextRef s..<NextRef s']"
    using added1(1) s1(3) count(2) upt_add_eq_append [of "NextRef s" "NextRef s1" "NextRef s' - NextRef s1"]
    by (auto simp: both adds_nodes_def)
  moreover have "adds_nodes used room first (nodes_of (spec # specs)) s s'"
    unfolding count(3) by (rule adds_nodes_trans [OF added1(2) rest count(1)])
  moreover have "ValidatorIDs (l1s ! i) = [TmpNodeID (SetupStore s (nodes ! i))]"
    if "i < length (spec # specs)" "nodes ! i < NextRef s" for i
    using that ids added1(4) s1(3,4) by (cases i) (auto simp: both nodes)
  ultimately show ?case
    using names added1(3) by (simp add: both nodes)
qed

lemma upt_split: "i \<le> j \<Longrightarrow> j \<le> k \<Longrightarrow> [i..<k] = [i..<j] @ [j..<k]" for i j k :: nat
  using upt_add_eq_append [of i j "k - j"] by simp

lemma SetupProposerVM_Returned:
  "SetupProposerVM lib c key subnetID n = Some (Returned u, n') \<Longrightarrow> \<exists>w. n' = n\<lparr>World := w\<rparr>"
  by (auto simp: SetupProposerVM_def on_world_Returned_iff run_of_def panicked_def go_splits split: option.splits)

lemma setup_proposers_Returned:
  "each_run (\<lambda>l1. SetupProposerVM lib c key (TmpSubnetID l1)) l1s n = Some (Returned u, n') \<Longrightarrow> \<exists>w. n' = n\<lparr>World := w\<rparr>"
proof (induction l1s arbitrary: n)
  case (Cons l1 l1s)
  then obtain u1 n1 where "SetupProposerVM lib c key (TmpSubnetID l1) n = Some (Returned u1, n1)"
      and "each_run (\<lambda>l1. SetupProposerVM lib c key (TmpSubnetID l1)) l1s n1 = Some (Returned u, n')"
    by (auto simp: rbnd_Returned_iff)
  then obtain w1 w2 where "n1 = n\<lparr>World := w1\<rparr>" and "n' = n1\<lparr>World := w2\<rparr>"
    using SetupProposerVM_Returned Cons.IH by blast
  then show ?case
    by simp blast
qed (auto intro: exI [of _ "World n'"])

lemma run_network_Returned_iff:
  "run_network m n s = Some (Returned n', s') \<longleftrightarrow> m n = Some (Returned (), n') \<and> s' = s\<lparr>SetupWorld := World n'\<rparr>"
  by (auto simp: run_network_def split: option.splits outcome.splits)

lemma specs_by_name_known: "spec \<in> set specs \<Longrightarrow> specs_by_name specs (L1Name spec) \<noteq> None"
proof -
  have "foldl (\<lambda>m l1Spec. m(L1Name l1Spec \<mapsto> SpecRequirePrimaryNetworkSigners l1Spec)) m specs (L1Name spec) \<noteq> None"
    if "spec \<in> set specs \<or> m (L1Name spec) \<noteq> None" for m
    using that by (induction specs arbitrary: m) auto
  then show "spec \<in> set specs \<Longrightarrow> specs_by_name specs (L1Name spec) \<noteq> None"
    by (simp add: specs_by_name_def)
qed

text \<open>The steps of \<open>NewLocalNetwork\<close>, when it returns.\<close>

lemma NewLocalNetwork_Returned:
  assumes "NewLocalNetwork lib slib c name template specs num extraCount s = Some (Returned n, s')"
  obtains extra s1 boot s2 vdrs l1s s3 network genesis p q network' store w
  where "int (length specs) \<le> num" and "new_nodes slib extraCount s = Some (Returned extra, s1)"
    and "new_nodes slib num s1 = Some (Returned boot, s2)"
    and "setup_l1s (E2E lib) slib template boot specs s2 = Some (Returned (vdrs, l1s), s3)"
    and "NewTmpnetNetwork slib name boot (SharedConfig s3) l1s = Some network"
    and "BootstrapNewNetwork slib genesis p q network (SetupStore s3) (SetupWorld s3) = (Inr (network', store), w)"
    and "n = \<lparr>World = World n, Store = store, NetNodes = TmpNodes network', NetSubnets = TmpSubnets network',
      ChainConfigs = TmpChainConfigs network', extraNodes = extra @ vdrs,
      primaryNetworkValidators = TmpNodes network', validatorManagers = Map.empty,
      deployedL1Specs = specs_by_name specs\<rparr>"
    and "SharedConfig s' = SharedConfig s3"
  using assms unfolding NewLocalNetwork_def bootstrapped_def
  by (auto simp: go_splits upd_def gets_def run_network_Returned_iff dest!: setup_proposers_Returned
      split: option.splits)

text \<open>The three groups of nodes made, with the L1s.\<close>

lemma setup_nodes:
  assumes "fresh_nodes slib used room" and "makes_networks slib"
    and "0 \<le> extraCount" and "0 \<le> num" and "\<forall>spec \<in> set specs. 0 \<le> NodeCount spec"
    and "extraCount + num + nodes_of specs \<le> room (SetupWorld s)"
    and "new_nodes slib extraCount s = Some (Returned extra, s1)" and "new_nodes slib num s1 = Some (Returned boot, s2)"
    and "setup_l1s lib slib template boot specs s2 = Some (Returned (vdrs, l1s), s3)"
  shows "int (length extra) = extraCount" and "int (length boot) = num" and "int (length vdrs) = nodes_of specs"
    and "distinct (extra @ boot @ vdrs)" and "distinct (map (\<lambda>x. TmpNodeID (SetupStore s3 x)) (extra @ boot @ vdrs))"
    and "\<forall>x \<in> set (extra @ boot @ vdrs). TrackedSubnets (SetupStore s3 x) = []"
    and "map SubnetName l1s = map L1Name specs" and "length specs \<le> length boot"
    and "\<forall>i < length specs. ValidatorIDs (l1s ! i) = [TmpNodeID (SetupStore s3 (boot ! i))]"
proof -
  let ?first = "NextRef s"
  have count: "0 \<le> nodes_of specs"
    using assms(5) by (auto simp: nodes_of_def intro!: sum_list_nonneg)
  have "nodes_ok used ?first s"
    by (simp add: nodes_ok_def)
  note added1 = new_nodes_adds [OF assms(1) this assms(3) _ assms(7)]
  have s1: "extra = [?first..<NextRef s1]" "nodes_ok used ?first s1" "room (SetupWorld s1) = room (SetupWorld s) - extraCount"
      "int (NextRef s1) = int ?first + extraCount"
    using added1 assms(4,6) count by (simp_all add: adds_nodes_def)
  note added2 = new_nodes_adds [OF assms(1) s1(2) assms(4) _ assms(8)]
  have s2: "boot = [NextRef s1..<NextRef s2]" "nodes_ok used ?first s2" "room (SetupWorld s2) = room (SetupWorld s1) - num"
      "int (NextRef s2) = int (NextRef s1) + num"
    using added2 assms(6) count s1(3) by (simp_all add: adds_nodes_def)
  have s3: "vdrs = [NextRef s2..<NextRef s3]" "nodes_ok used ?first s3" "int (NextRef s3) = int (NextRef s2) + nodes_of specs"
    and "map SubnetName l1s = map L1Name specs" and "length specs \<le> length boot"
    and "\<forall>i < length specs. ValidatorIDs (l1s ! i) = [TmpNodeID (SetupStore s3 (boot ! i))]"
    using setup_l1s_adds [OF assms(1,2,9) s2(2) assms(5)] assms(6) s1(3) s2(1,3) by (auto simp: adds_nodes_def)
  then show "map SubnetName l1s = map L1Name specs" and "length specs \<le> length boot"
    and "\<forall>i < length specs. ValidatorIDs (l1s ! i) = [TmpNodeID (SetupStore s3 (boot ! i))]"
    by blast+
  have le: "?first \<le> NextRef s1" "NextRef s1 \<le> NextRef s2" "NextRef s2 \<le> NextRef s3"
    using s1(4) s2(4) s3(3) assms(3,4) count by linarith+
  then show "int (length extra) = extraCount" and "int (length boot) = num" and "int (length vdrs) = nodes_of specs"
    using s1(4) s2(4) s3(3) by (simp_all add: s1(1) s2(1) s3(1) of_nat_diff)
  have all: "[?first..<NextRef s3] = extra @ boot @ vdrs"
    using le unfolding s1(1) s2(1) s3(1) by (metis upt_split le_trans)
  show "distinct (extra @ boot @ vdrs)"
    unfolding all [symmetric] by simp
  have nodes: "distinct (map TmpNodeID (map (SetupStore s3) (extra @ boot @ vdrs)))"
      "\<forall>node \<in> set (map (SetupStore s3) (extra @ boot @ vdrs)). TrackedSubnets node = []"
    using s3(2) unfolding nodes_ok_def Let_def all by blast+
  show "distinct (map (\<lambda>x. TmpNodeID (SetupStore s3 x)) (extra @ boot @ vdrs))"
    using nodes(1) by (simp only: map_map comp_def)
  show "\<forall>x \<in> set (extra @ boot @ vdrs). TrackedSubnets (SetupStore s3 x) = []"
    using nodes(2) by (simp only: set_map ball_simps)
qed

lemma made_network_ok:
  assumes "distinct (extra @ boot @ vdrs)" and "distinct (map (\<lambda>x. TmpNodeID (store x)) (extra @ boot @ vdrs))"
    and "\<forall>x \<in> set (extra @ vdrs). TrackedSubnets (store x) = []"
    and "NetNodes n = boot" and "extraNodes n = extra @ vdrs" and "Store n = store"
    and "\<forall>l1 \<in> set (NetSubnets n). \<exists>x \<in> set boot. ValidatorIDs l1 = [TmpNodeID (store x)]"
  shows "network_ok n"
proof -
  have "distinct (boot @ extra @ vdrs)" and "distinct (map (\<lambda>x. TmpNodeID (store x)) (boot @ extra @ vdrs))"
    using assms(1,2) unfolding map_append distinct_append set_append by blast+
  moreover have "distinct (ValidatorIDs l1) \<and> set (ValidatorIDs l1) \<subseteq> set (map (\<lambda>x. TmpNodeID (store x)) boot)"
    if "l1 \<in> set (NetSubnets n)" for l1
    using that assms(7) by fastforce
  ultimately show ?thesis
    using assms(3) unfolding network_ok_def node_ids_def assms(4-6) by blast
qed

text \<open>
  C16. A new local network, when it is made, is consistent: no node is listed twice, the extra nodes track
  nothing and are not part of it yet, identifiers are unique and every L1's validators are nodes. It has
  the validators asked for, an L1 for each specification, in their order and validated by the node of its
  position alone, the extra nodes asked for and those of every specification, and a specification for
  the name of each L1; no validator manager is known.
\<close>

theorem new_network_is_consistent:
  assumes "fresh_nodes slib used room" and "makes_networks slib"
    and "0 \<le> extraCount" and "\<forall>spec \<in> set specs. 0 \<le> NodeCount spec"
    and "extraCount + num + nodes_of specs \<le> room (SetupWorld s)"
    and "NewLocalNetwork lib slib c name template specs num extraCount s = Some (Returned n, s')"
  shows "network_ok n \<and> int (length (NetNodes n)) = num \<and> primaryNetworkValidators n = NetNodes n \<and>
     int (length (extraNodes n)) = extraCount + nodes_of specs \<and> map SubnetName (NetSubnets n) = map L1Name specs \<and>
     map ValidatorIDs (NetSubnets n) = map (\<lambda>x. [TmpNodeID (Store n x)]) (take (length specs) (NetNodes n)) \<and>
     (\<forall>l1 \<in> set (NetSubnets n). deployedL1Specs n (SubnetName l1) \<noteq> None) \<and> validatorManagers n = Map.empty"
  using assms(6)
proof (rule NewLocalNetwork_Returned)
  fix extra s1 boot s2 vdrs l1s s3 network genesis p q network' store w
  assume num: "int (length specs) \<le> num"
    and steps: "new_nodes slib extraCount s = Some (Returned extra, s1)"
      "new_nodes slib num s1 = Some (Returned boot, s2)"
      "setup_l1s (E2E lib) slib template boot specs s2 = Some (Returned (vdrs, l1s), s3)"
    and net: "NewTmpnetNetwork slib name boot (SharedConfig s3) l1s = Some network"
    and start: "BootstrapNewNetwork slib genesis p q network (SetupStore s3) (SetupWorld s3) = (Inr (network', store), w)"
    and n: "n = \<lparr>World = World n, Store = store, NetNodes = TmpNodes network', NetSubnets = TmpSubnets network',
      ChainConfigs = TmpChainConfigs network', extraNodes = extra @ vdrs,
      primaryNetworkValidators = TmpNodes network', validatorManagers = Map.empty,
      deployedL1Specs = specs_by_name specs\<rparr>"
  have "0 \<le> num"
    using num by simp
  note made = setup_nodes [OF assms(1-3) this assms(4,5) steps]
  have net': "TmpNodes network' = boot" "map SubnetName (TmpSubnets network') = map L1Name specs"
      "map ValidatorIDs (TmpSubnets network') = map ValidatorIDs l1s"
      "\<And>x. TmpNodeID (store x) = TmpNodeID (SetupStore s3 x)"
      "\<And>x. x \<notin> set boot \<Longrightarrow> TrackedSubnets (store x) = TrackedSubnets (SetupStore s3 x)"
    using assms(2) net start made(7) unfolding makes_networks_def by metis+
  have sel: "NetNodes n = boot" "extraNodes n = extra @ vdrs" "Store n = store" "NetSubnets n = TmpSubnets network'"
      "primaryNetworkValidators n = boot" "validatorManagers n = Map.empty" "deployedL1Specs n = specs_by_name specs"
    by (subst n, simp add: net'(1))+
  have vids: "map ValidatorIDs (NetSubnets n) = map (\<lambda>x. [TmpNodeID (Store n x)]) (take (length specs) (NetNodes n))"
    unfolding sel(1,3,4) net'(3) using made(8,9) arg_cong [OF made(7), of length]
    by (intro nth_equalityI) (simp_all add: net'(4))
  have "\<forall>x \<in> set (extra @ vdrs). TrackedSubnets (store x) = []"
  proof
    fix x assume x: "x \<in> set (extra @ vdrs)"
    then have "x \<notin> set boot"
      using made(4) by auto
    then show "TrackedSubnets (store x) = []"
      using net'(5) made(6) x by simp
  qed
  moreover have "\<exists>x \<in> set boot. ValidatorIDs l1 = [TmpNodeID (store x)]" if "l1 \<in> set (NetSubnets n)" for l1
  proof -
    have "ValidatorIDs l1 \<in> set (map ValidatorIDs (NetSubnets n))"
      using that by simp
    then show ?thesis
      unfolding vids sel(1,3) by (auto dest: in_set_takeD)
  qed
  ultimately have "network_ok n"
    using made_network_ok [OF made(4) made(5) [folded net'(4)] _ sel(1-3)] by blast
  moreover have "specs_by_name specs (SubnetName l1) \<noteq> None" if "l1 \<in> set (NetSubnets n)" for l1
  proof -
    have "SubnetName l1 \<in> set (map L1Name specs)"
      unfolding net'(2) [symmetric] using that by (simp add: sel(4))
    then show ?thesis
      using specs_by_name_known by auto
  qed
  ultimately show ?thesis
    using vids sel net'(2) made(1-3) by simp
qed

section \<open>The shared configuration\<close>

text \<open>
  What the code relies on: the description of an L1 carries the configuration it was made with, written out
  by \<open>text\<close>, and the bootstrap keeps it.
\<close>

definition configures :: "'w setup_lib \<Rightarrow> (flags_map \<Rightarrow> string) \<Rightarrow> bool" where
  "configures slib text \<longleftrightarrow>
     (\<forall>files name file config node.
        map ChainConfigText (Chains (NewTmpnetSubnet slib files name file config node)) = [text config]) \<and>
     (\<forall>g p q network store w network' store' w'.
        BootstrapNewNetwork slib g p q network store w = (Inr (network', store'), w') \<longrightarrow>
        map (\<lambda>l1. map ChainConfigText (Chains l1)) (TmpSubnets network') =
        map (\<lambda>l1. map ChainConfigText (Chains l1)) (TmpSubnets network))"

lemma new_nodes_shared: "new_nodes slib k s = Some (r, s') \<Longrightarrow> SharedConfig s' = SharedConfig s"
  by (auto simp: new_nodes_def split: prod.splits)

lemma setup_l1_shared:
  assumes "setup_l1 lib slib template node spec s = Some (Returned (vdrs, l1), s')"
  shows "SharedConfig s' = SharedConfig s \<and>
    (\<exists>files genesis node. l1 = NewTmpnetSubnet slib files (L1Name spec) genesis (SharedConfig s) node)"
proof -
  obtain s1 files genesis where "new_nodes slib (NodeCount spec) s = Some (Returned vdrs, s1)"
      and "s' = s1\<lparr>SetupFiles := files\<rparr>"
      and "l1 = NewTmpnetSubnet slib files (L1Name spec) genesis (SharedConfig s1) (SetupStore s1 node)"
    using assms by (auto simp: setup_l1_def gets_def go_splits)
  then show ?thesis
    using new_nodes_shared by fastforce
qed

lemma setup_l1s_shared:
  "setup_l1s lib slib template nodes specs s = Some (Returned (vdrs, l1s), s') \<Longrightarrow>
   SharedConfig s' = SharedConfig s \<and> length l1s = length specs \<and>
   (\<forall>l1 \<in> set l1s. \<exists>files name genesis node. l1 = NewTmpnetSubnet slib files name genesis (SharedConfig s) node)"
proof (induction specs arbitrary: nodes vdrs l1s s)
  case (Cons spec specs)
  obtain node rest where "nodes = node # rest"
    using Cons.prems by (cases nodes) (auto simp: run_of_def panicked_def)
  then obtain vdrs1 l1 s1 vdrs2 l1s2 where "setup_l1 lib slib template node spec s = Some (Returned (vdrs1, l1), s1)"
      and "setup_l1s lib slib template rest specs s1 = Some (Returned (vdrs2, l1s2), s')" and "l1s = l1 # l1s2"
    using Cons.prems by (auto simp: go_splits)
  then show ?case
    using setup_l1_shared Cons.IH by fastforce
qed simp

text \<open>
  C32. Off-chain messages reach every network that is made later in the process. The configuration
  returned for some messages is the package variable's with exactly these messages, marshalled; the
  variable keeps them (its other entries are as declared, the messages of an earlier call are gone).
  When \<open>NewLocalNetwork\<close> runs afterwards, \<open>tmpnet\<close> gets the configuration with these messages, not the
  declared one, for the network it bootstraps and for each of its L1s, whose chains all carry it.
\<close>

theorem later_networks_carry_off_chain_messages:
  assumes "makes_networks slib" and "configures slib text"
    and "SharedConfig s = WarpEnabledChainConfig ++ earlier" and "dom earlier \<subseteq> {''warp-off-chain-messages''}"
    and "focus SharedConfig (\<lambda>shared s. s\<lparr>SharedConfig := shared\<rparr>)
      (GetChainConfigWithOffChainMessages (E2E lib) marshal msgs) s = Some (Returned content, s1)"
    and "SharedConfig s2 = SharedConfig s1"
    and "NewLocalNetwork lib slib c name template specs num extraCount s2 = Some (Returned n, s3)"
    and "config = WarpEnabledChainConfig(''warp-off-chain-messages'' \<mapsto> FTexts (map (hex_message (E2E lib)) msgs))"
  shows "marshal config = Inr content \<and> config \<noteq> WarpEnabledChainConfig \<and>
     length (NetSubnets n) = length specs \<and>
     (\<forall>l1 \<in> set (NetSubnets n). map ChainConfigText (Chains l1) = [text config]) \<and>
     (\<exists>boot l1s network genesis p q store w network' w'.
        NewTmpnetNetwork slib name boot config l1s = Some network \<and>
        BootstrapNewNetwork slib genesis p q network store w = (Inr (network', Store n), w') \<and>
        NetNodes n = TmpNodes network' \<and> NetSubnets n = TmpSubnets network' \<and>
        ChainConfigs n = TmpChainConfigs network') \<and>
     SharedConfig s3 = config"
proof -
  obtain shared where call: "GetChainConfigWithOffChainMessages (E2E lib) marshal msgs (WarpEnabledChainConfig ++ earlier) =
      Some (Returned content, shared)" and "SharedConfig s1 = shared"
    using assms(3,5) by (auto simp: focus_Returned_iff)
  note written = off_chain_messages_set [OF call assms(4), folded assms(8)]
  have s2: "SharedConfig s2 = config"
    using assms(6) written \<open>SharedConfig s1 = shared\<close> by simp
  from assms(7) show ?thesis
  proof (rule NewLocalNetwork_Returned)
    fix extra t1 boot t2 vdrs l1s t3 network genesis p q network' store w
    assume steps: "new_nodes slib extraCount s2 = Some (Returned extra, t1)" "new_nodes slib num t1 = Some (Returned boot, t2)"
        "setup_l1s (E2E lib) slib template boot specs t2 = Some (Returned (vdrs, l1s), t3)"
      and net: "NewTmpnetNetwork slib name boot (SharedConfig t3) l1s = Some network"
      and start: "BootstrapNewNetwork slib genesis p q network (SetupStore t3) (SetupWorld t3) = (Inr (network', store), w)"
      and n: "n = \<lparr>World = World n, Store = store, NetNodes = TmpNodes network', NetSubnets = TmpSubnets network',
        ChainConfigs = TmpChainConfigs network', extraNodes = extra @ vdrs,
        primaryNetworkValidators = TmpNodes network', validatorManagers = Map.empty,
        deployedL1Specs = specs_by_name specs\<rparr>"
      and s3: "SharedConfig s3 = SharedConfig t3"
    have t2: "SharedConfig t2 = config"
      using new_nodes_shared [OF steps(1)] new_nodes_shared [OF steps(2)] s2 by simp
    have t3: "SharedConfig t3 = config" and len: "length l1s = length specs"
        and made: "\<forall>l1 \<in> set l1s. \<exists>files name genesis node. l1 = NewTmpnetSubnet slib files name genesis config node"
      using setup_l1s_shared [OF steps(3)] t2 by simp_all
    have subnets: "NetSubnets n = TmpSubnets network'"
      by (subst n) simp
    have "TmpSubnets network = l1s" and names: "map SubnetName (TmpSubnets network') = map SubnetName (TmpSubnets network)"
      using assms(1) net start unfolding makes_networks_def by blast+
    then have "map (\<lambda>l1. map ChainConfigText (Chains l1)) (NetSubnets n) = map (\<lambda>l1. map ChainConfigText (Chains l1)) l1s"
      using assms(2) start unfolding configures_def subnets by metis
    then have "\<forall>l1 \<in> set (NetSubnets n). \<exists>l1' \<in> set l1s. map ChainConfigText (Chains l1) = map ChainConfigText (Chains l1')"
      by (metis (mono_tags, lifting) image_iff list.set_map)
    then have "\<forall>l1 \<in> set (NetSubnets n). map ChainConfigText (Chains l1) = [text config]"
      using made assms(2) unfolding configures_def by metis
    moreover have "length (NetSubnets n) = length specs"
      using names len \<open>TmpSubnets network = l1s\<close> unfolding subnets by (metis length_map)
    moreover have "Store n = store" and "NetNodes n = TmpNodes network'" and "ChainConfigs n = TmpChainConfigs network'"
      by (subst n, simp)+
    moreover from this have "BootstrapNewNetwork slib genesis p q network (SetupStore t3) (SetupWorld t3) =
        (Inr (network', Store n), w)"
      using start by simp
    ultimately show ?thesis
      using written net s3 subnets unfolding t3 by blast
  qed
qed

end
