(* ===== verification/SetupSimulation.thy ===== *)
theory SetupSimulation
  imports Simulation NetworkSetup
begin

text \<open>The properties of \<open>NetworkSetup\<close> applied with the services of \<open>Simulation\<close>: a network of one L1.\<close>

definition sim_tmp_node :: "nat \<Rightarrow> tmp_node" where
  "sim_tmp_node i = \<lparr>TmpNodeID = of_nat i, NodeURI = ''http://127.0.0.1:9650'', TrackedSubnets = [], PartialSync = False\<rparr>"

text \<open>
  The counter of the services numbers the nodes; an L1 has one chain, whose configuration is the text of its
  off-chain messages and which the bootstrap gives an identifier.
\<close>

definition sim_config_text :: "flags_map \<Rightarrow> string" where
  "sim_config_text config =
     (case config ''warp-off-chain-messages'' of Some (FTexts ms) \<Rightarrow> ''{'' @ concat ms @ ''}'' | _ \<Rightarrow> ''{}'')"

definition sim_setup :: "sim setup_lib" where
  "sim_setup = \<lparr>
     ToPrivateKey = (\<lambda>b. Inr 8), TestKeys = [1, 2, 3],
     NewTmpnetNodes = (\<lambda>k s. (map (\<lambda>i. sim_tmp_node (SimQueue s + i)) [0..<nat k], s\<lparr>SimQueue := SimQueue s + nat k\<rparr>)),
     CreateTempFile = (\<lambda>fs. Inr ''l1.json''),
     NewTmpnetSubnet = (\<lambda>fs name file config node.
       \<lparr>SubnetName = name, TmpSubnetID = 2, ValidatorIDs = [TmpNodeID node],
         Chains = [\<lparr>ChainID = 0, ChainConfigText = sim_config_text config\<rparr>]\<rparr>),
     NewTmpnetNetwork = (\<lambda>name nodes config l1s.
       Some \<lparr>TmpNodes = nodes, TmpSubnets = l1s, TmpChainConfigs = Map.empty, PreFundedKeys = []\<rparr>),
     LookupEnv = (\<lambda>v. Some ''/avalanchego/build''),
     NewTestGenesis = (\<lambda>networkID nodes keys. Inr ''{}''),
     BootstrapNewNetwork = (\<lambda>genesis p q network store s.
       (Inr (network\<lparr>TmpSubnets := map (\<lambda>l1. l1\<lparr>Chains := map (ChainID_update (\<lambda>_. 5)) (Chains l1)\<rparr>)
         (TmpSubnets network)\<rparr>, store), s))\<rparr>"

definition sim_used :: "sim \<Rightarrow> node_id set" where
  "sim_used s = of_nat ` {..<SimQueue s}"

definition sim_room :: "sim \<Rightarrow> int" where
  "sim_room s = 2 ^ 160 - int (SimQueue s)"

lemma sim_fresh: "fresh_nodes sim_setup sim_used sim_room"
proof -
  have "int (length nodes) = k \<and> distinct (map TmpNodeID nodes) \<and> (\<forall>node \<in> set nodes. TrackedSubnets node = []) \<and>
      set (map TmpNodeID nodes) \<inter> sim_used s = {} \<and> sim_used s' = sim_used s \<union> set (map TmpNodeID nodes) \<and>
      sim_room s' = sim_room s - k"
    if new: "NewTmpnetNodes sim_setup k s = (nodes, s')" and k: "0 \<le> k" "k \<le> sim_room s" for k s nodes s'
  proof -
    let ?q = "SimQueue s"
    have nodes: "map TmpNodeID nodes = map of_nat [?q..<?q + nat k]" "SimQueue s' = ?q + nat k"
        "length nodes = nat k" "\<forall>node \<in> set nodes. TrackedSubnets node = []"
      using new by (auto simp: sim_setup_def sim_tmp_node_def comp_def map_add_upt [symmetric] add.commute)
    have "int (?q + nat k) \<le> 2 ^ 160"
      using k by (simp add: sim_room_def)
    then have room: "?q + nat k \<le> 2 ^ 160"
      by (simp flip: of_nat_le_iff [where 'a = int])
    have inj: "inj_on (of_nat :: nat \<Rightarrow> node_id) {..<?q + nat k}"
      using room by (intro inj_onI) (simp add: word_of_nat_eq_iff take_bit_nat_eq_self)
    have "distinct (map TmpNodeID nodes)"
      unfolding nodes(1) using inj by (auto simp: distinct_map intro: inj_on_subset)
    moreover have "set (map TmpNodeID nodes) = of_nat ` {?q..<?q + nat k}"
      unfolding nodes(1) by simp
    moreover have "of_nat ` {?q..<?q + nat k} \<inter> sim_used s = {}"
      unfolding sim_used_def using inj by (subst inj_on_image_Int [symmetric]) auto
    moreover have "sim_used s' = sim_used s \<union> of_nat ` {?q..<?q + nat k}"
      unfolding sim_used_def nodes(2) image_Un [symmetric] by (rule arg_cong [where f = "image of_nat"]) auto
    ultimately show ?thesis
      using nodes(2-4) k by (simp add: sim_room_def)
  qed
  then show ?thesis
    unfolding fresh_nodes_def by blast
qed

lemma sim_makes_networks: "makes_networks sim_setup"
  by (auto simp: makes_networks_def sim_setup_def Let_def comp_def)

lemma sim_configures: "configures sim_setup sim_config_text"
  by (auto simp: configures_def sim_setup_def comp_def)

definition sim_spec :: L1Spec where
  "sim_spec = \<lparr>L1Name = ''A'', L1EVMChainID = 12345, NodeCount = 2, TeleporterContractAddress = 6,
     TeleporterDeployedBytecode = [], TeleporterDeployerAddress = 7, SpecRequirePrimaryNetworkSigners = True\<rparr>"

lemma sim_funded_key: obtains key where "hex_decode fundedKeyStr = Inr key"
proof -
  have "is_Ok (hex_decode fundedKeyStr)"
    by code_simp
  then show ?thesis
    using that by (auto simp: is_Ok_iff)
qed

text \<open>The references are the numbers: a store that says so, with a counter equal to the next reference.\<close>

definition numbered :: "flags_map \<Rightarrow> nat \<Rightarrow> (string \<rightharpoonup> string) \<Rightarrow> sim setup_state" where
  "numbered config k fs = \<lparr>SetupWorld = \<lparr>SimClock = 0, SimQueue = k\<rparr>, SetupFiles = fs, SetupStore = sim_tmp_node,
     NextRef = k, SharedConfig = config\<rparr>"

lemma numbered_new_nodes:
  "new_nodes sim_setup (int k) (numbered config m fs) = Some (Returned [m..<m + k], numbered config (m + k) fs)"
proof -
  have "(\<lambda>x. if m \<le> x \<and> x < m + k then map (\<lambda>i. sim_tmp_node (m + i)) [0..<k] ! (x - m) else sim_tmp_node x) =
      sim_tmp_node"
    by (auto simp: fun_eq_iff)
  then show ?thesis
    by (simp add: new_nodes_def sim_setup_def numbered_def cong: if_cong)
qed

text \<open>The L1 that is described with a configuration, and the network.\<close>

definition sim_subnet :: "hash \<Rightarrow> flags_map \<Rightarrow> tmp_subnet" where
  "sim_subnet chain config = \<lparr>SubnetName = ''A'', TmpSubnetID = 2, ValidatorIDs = [2],
     Chains = [\<lparr>ChainID = chain, ChainConfigText = sim_config_text config\<rparr>]\<rparr>"

definition sim_network :: "flags_map \<Rightarrow> sim LocalNetwork" where
  "sim_network config = \<lparr>World = \<lparr>SimClock = 0, SimQueue = 5\<rparr>, Store = sim_tmp_node, NetNodes = [2],
     NetSubnets = [sim_subnet 5 config], ChainConfigs = Map.empty, extraNodes = [0, 1, 3, 4],
     primaryNetworkValidators = [2], validatorManagers = Map.empty, deployedL1Specs = specs_by_name [sim_spec]\<rparr>"

lemma numbered_setup_l1:
  "\<exists>fs'. setup_l1 sim_lib sim_setup ''t.json'' 2 sim_spec (numbered config m [''t.json'' \<mapsto> ''{}'']) =
     Some (Returned ([m, Suc m], sim_subnet 0 config), numbered config (m + 2) fs')"
proof -
  have new: "new_nodes sim_setup 2 (numbered config m fs) = Some (Returned [m, Suc m], numbered config (m + 2) fs)" for fs
    using numbered_new_nodes [of 2 config m fs] by (simp add: upt_rec)
  have "CreateTempFile sim_setup fs = Inr ''l1.json''" for fs
    by (simp add: sim_setup_def)
  then show ?thesis
    by (simp add: setup_l1_def sim_spec_def new InstantiateGenesisTemplate_def) (simp add: numbered_def sim_setup_def
        sim_tmp_node_def upd_def sim_subnet_def)
qed

lemma sim_new_network:
  "\<exists>fs'. NewLocalNetwork sim_net_lib sim_setup 0 ''net'' ''t.json'' [sim_spec] 1 2
       (numbered config 0 [''t.json'' \<mapsto> ''{}'']) = Some (Returned (sim_network config), numbered config 5 fs')"
proof -
  let ?files = "[''t.json'' \<mapsto> ''{}'']" and ?n = "sim_network config"
  obtain key where key: "hex_decode fundedKeyStr = Inr key"
    by (rule sim_funded_key)
  obtain fs' where l1: "setup_l1 sim_lib sim_setup ''t.json'' 2 sim_spec (numbered config 3 ?files) =
      Some (Returned ([3, Suc 3], sim_subnet 0 config), numbered config (3 + 2) fs')"
    using numbered_setup_l1 [of config 3] by blast
  have new1: "new_nodes sim_setup 2 (numbered config 0 ?files) = Some (Returned [0, 1], numbered config 2 ?files)"
    using numbered_new_nodes [of 2 config 0 ?files] by (simp add: upt_rec numeral_2_eq_2)
  have new2: "new_nodes sim_setup 1 (numbered config 2 ?files) = Some (Returned [2], numbered config 3 ?files)"
    using numbered_new_nodes [of 1 config 2 ?files] by (simp add: upt_rec)
  have boot: "bootstrapped sim_setup [2] \<lparr>TmpNodes = [2], TmpSubnets = [sim_subnet 0 config],
        TmpChainConfigs = Map.empty, PreFundedKeys = []\<rparr> (numbered config 5 fs') =
      Some (Returned \<lparr>TmpNodes = [2], TmpSubnets = [sim_subnet 5 config], TmpChainConfigs = Map.empty,
        PreFundedKeys = []\<rparr>, numbered config 5 fs')"
    by (simp add: bootstrapped_def sim_setup_def numbered_def upd_def sim_subnet_def)
  have proposer: "SetupProposerVM sim_net_lib 0 8 2 ?n = Some (Returned (), ?n)"
  proof -
    have "DialClient (E2E sim_net_lib) u w = (Inr (sim_client 0 0), w)"
        and "ClientChainID sim_net_lib (sim_client 0 0) w = (Inr 99, w)"
        and "IssueTxsToActivateProposerVMFork sim_net_lib chain k cl w = (Inr (), w)" for u w chain k cl
      by (simp_all add: sim_net_lib_def sim_lib_def)
    moreover have "uri_for_node ?n 2 = Inr ''http://127.0.0.1:9650''"
      by (simp add: uri_for_node_def sim_network_def sim_tmp_node_def)
    ultimately show ?thesis
      by (simp add: SetupProposerVM_def on_world_def) (simp add: sim_network_def sim_subnet_def on_world_def)
  qed
  have libs: "NewTmpnetNetwork sim_setup ''net'' nodes flags ls = Some \<lparr>TmpNodes = nodes, TmpSubnets = ls,
      TmpChainConfigs = Map.empty, PreFundedKeys = []\<rparr>" "ToPrivateKey sim_setup b = Inr 8" for nodes flags ls b
    by (simp_all add: sim_setup_def)
  have "run_network (\<lambda>n. each_run (\<lambda>l1. SetupProposerVM sim_net_lib 0 8 (TmpSubnetID l1)) (NetSubnets n) n) ?n
      (numbered config 5 fs') = Some (Returned ?n, numbered config 5 fs')"
    using proposer by (simp add: run_network_def sim_network_def sim_subnet_def) (simp add: numbered_def)
  moreover have "\<lparr>World = SetupWorld (numbered config 5 fs'), Store = SetupStore (numbered config 5 fs'), NetNodes = [2],
      NetSubnets = [sim_subnet 5 config], ChainConfigs = Map.empty, extraNodes = [0, 1, 3, 4],
      primaryNetworkValidators = [2], validatorManagers = Map.empty, deployedL1Specs = specs_by_name [sim_spec]\<rparr> = ?n"
    by (simp add: sim_network_def numbered_def)
  moreover have "E2E sim_net_lib = sim_lib"
    by (simp add: sim_net_lib_def)
  ultimately show ?thesis
    using key libs l1 new1 new2 boot by (intro exI [of _ fs']) (simp add: NewLocalNetwork_def gets_def)
qed

theorem new_network_is_consistent_witness:
  "\<exists>n s'. NewLocalNetwork sim_net_lib sim_setup 0 ''net'' ''t.json'' [sim_spec] 1 2
       (numbered WarpEnabledChainConfig 0 [''t.json'' \<mapsto> ''{}'']) = Some (Returned n, s') \<and>
     network_ok n \<and> length (NetNodes n) = 1 \<and> length (extraNodes n) = 4 \<and>
     map ValidatorIDs (NetSubnets n) = [[2]] \<and> deployedL1Specs n ''A'' = Some True"
proof -
  let ?s = "numbered WarpEnabledChainConfig 0 [''t.json'' \<mapsto> ''{}'']" and ?n = "sim_network WarpEnabledChainConfig"
  obtain s' where run: "NewLocalNetwork sim_net_lib sim_setup 0 ''net'' ''t.json'' [sim_spec] 1 2 ?s = Some (Returned ?n, s')"
    using sim_new_network [of WarpEnabledChainConfig] by blast
  have "\<forall>spec \<in> set [sim_spec]. 0 \<le> NodeCount spec" and "nodes_of [sim_spec] = 2"
      and "2 + 1 + nodes_of [sim_spec] \<le> sim_room (SetupWorld ?s)"
    by (simp_all add: sim_spec_def nodes_of_def sim_room_def numbered_def)
  with new_network_is_consistent [OF sim_fresh sim_makes_networks _ this(1) this(3) run]
  have "network_ok ?n" and "length (NetNodes ?n) = 1" and "length (extraNodes ?n) = 4"
      and vids: "map ValidatorIDs (NetSubnets ?n) = map (\<lambda>x. [TmpNodeID (Store ?n x)]) (take 1 (NetNodes ?n))"
    by auto
  moreover have "map ValidatorIDs (NetSubnets ?n) = [[2]]"
    unfolding vids by (simp add: sim_network_def sim_tmp_node_def)
  moreover have "deployedL1Specs ?n ''A'' = Some True"
    by (simp add: sim_network_def specs_by_name_def sim_spec_def)
  ultimately show ?thesis
    using run by (intro exI conjI)
qed

text \<open>One off-chain message, then a new network: its chain is configured with that message.\<close>

theorem later_networks_carry_off_chain_messages_witness:
  "\<exists>s1 n s3. focus SharedConfig (\<lambda>shared s. s\<lparr>SharedConfig := shared\<rparr>)
       (GetChainConfigWithOffChainMessages sim_lib (\<lambda>_. Inr ''{}'') [sim_unsigned])
       (numbered WarpEnabledChainConfig 0 [''t.json'' \<mapsto> ''{}'']) = Some (Returned ''{}'', s1) \<and>
     NewLocalNetwork sim_net_lib sim_setup 0 ''net'' ''t.json'' [sim_spec] 1 2 s1 = Some (Returned n, s3) \<and>
     map (\<lambda>l1. map ChainConfigText (Chains l1)) (NetSubnets n) = [[''{'' @ hex_message sim_lib sim_unsigned @ ''}'']]"
proof -
  let ?config = "WarpEnabledChainConfig(''warp-off-chain-messages'' \<mapsto> FTexts [hex_message sim_lib sim_unsigned])"
  let ?s = "numbered WarpEnabledChainConfig 0 [''t.json'' \<mapsto> ''{}'']" and ?s1 = "numbered ?config 0 [''t.json'' \<mapsto> ''{}'']"
  have call: "focus SharedConfig (\<lambda>shared s. s\<lparr>SharedConfig := shared\<rparr>)
      (GetChainConfigWithOffChainMessages sim_lib (\<lambda>_. Inr ''{}'') [sim_unsigned]) ?s = Some (Returned ''{}'', ?s1)"
    by (simp add: focus_def GetChainConfigWithOffChainMessages_def numbered_def upd_def gets_def)
  obtain s3 where run: "NewLocalNetwork sim_net_lib sim_setup 0 ''net'' ''t.json'' [sim_spec] 1 2 ?s1 =
      Some (Returned (sim_network ?config), s3)"
    using sim_new_network [of ?config] by blast
  have "E2E sim_net_lib = sim_lib"
    by (simp add: sim_net_lib_def)
  moreover have "SharedConfig ?s = WarpEnabledChainConfig ++ Map.empty"
    by (simp add: numbered_def)
  ultimately have "length (NetSubnets (sim_network ?config)) = 1"
      and texts: "\<forall>l1 \<in> set (NetSubnets (sim_network ?config)). map ChainConfigText (Chains l1) = [sim_config_text ?config]"
    using later_networks_carry_off_chain_messages [where lib = sim_net_lib and earlier = Map.empty and s = ?s,
        OF sim_makes_networks sim_configures _ _ _ refl run, of "\<lambda>_. Inr ''{}''" "[sim_unsigned]" "''{}''"] call
    by simp_all
  then have "map (\<lambda>l1. map ChainConfigText (Chains l1)) (NetSubnets (sim_network ?config)) = [[sim_config_text ?config]]"
    by (cases "NetSubnets (sim_network ?config)") auto
  moreover have "sim_config_text ?config = ''{'' @ hex_message sim_lib sim_unsigned @ ''}''"
    by (simp add: sim_config_text_def)
  ultimately show ?thesis
    using call run by metis
qed

end
