(* ===== verification/SubnetConversion.thy ===== *)
theory SubnetConversion
  imports LocalNetwork ValidatorChecks
begin

text \<open>
  \<open>ConvertSubnet\<close> of \<open>tests/network/network.go\<close>: the conversion of a subnet to an L1, which joins the local
  network, the deployment of a validator manager and the initialization of its validators.
\<close>

section \<open>State and parameters\<close>

text \<open>The bytecode variables of the manager bindings, and the network.\<close>

record 'w conv_state =
  ConvBin :: "ValidatorManagerConcreteType \<Rightarrow> string"
  ConvNet :: "'w LocalNetwork"

definition on_net :: "('w LocalNetwork, 'a) run \<Rightarrow> ('w conv_state, 'a) run" where
  "on_net = focus ConvNet (\<lambda>n s. s\<lparr>ConvNet := n\<rparr>)"

definition on_managers :: "('w manager_state, 'a) run \<Rightarrow> ('w conv_state, 'a) run" where
  "on_managers =
     focus (\<lambda>s. \<lparr>ManagerBin = ConvBin s, ManagerWorld = World (ConvNet s)\<rparr>)
       (\<lambda>m s. \<lparr>ConvBin = ManagerBin m, ConvNet = (ConvNet s)\<lparr>World := ManagerWorld m\<rparr>\<rparr>)"

text \<open>\<open>txs.ConvertSubnetToL1Validator\<close>; an owner is its threshold and its addresses.\<close>

record ConvertValidator =
  VdrNodeID :: bytes
  VdrWeight :: u64
  VdrBalance :: u64
  VdrSigner :: proof_of_possession
  VdrRemainingBalanceOwner :: "u32 \<times> (160 word) list"
  VdrDeactivationOwner :: "u32 \<times> (160 word) list"

text \<open>
  Parameters: the P-Chain's client and wallet (the wallet is made for the funded key, an endpoint and the
  subnets, and kept by the services), a node's proof of possession, restarting a node, whose error is not
  looked at, and ending the process of the signature aggregator.
\<close>

record 'w conv_lib =
  GetCurrentValidators :: "string \<Rightarrow> hash \<Rightarrow> ('w, goerr, node_id list) query"
  GetProofOfPossession :: "tmp_node \<Rightarrow> goerr + proof_of_possession"
  MakeWallet :: "string \<Rightarrow> hash list \<Rightarrow> ('w, goerr, unit) query"
  IssueConvertSubnetToL1Tx :: "hash \<Rightarrow> hash \<Rightarrow> bytes \<Rightarrow> ConvertValidator list \<Rightarrow> ('w, goerr, unit) query"
  IssueRemoveSubnetValidatorTx :: "node_id \<Rightarrow> hash \<Rightarrow> ('w, goerr, unit) query"
  RestartNode :: "node_ref \<Rightarrow> (node_ref \<Rightarrow> tmp_node) \<Rightarrow> goerr option \<times> (node_ref \<Rightarrow> tmp_node)"
  GetNetworkID :: u32
  CancelAggregator :: "'w \<Rightarrow> 'w"

section \<open>Steps\<close>

definition GetPChainWallet :: "'w net_lib \<Rightarrow> 'w conv_lib \<Rightarrow> ('w LocalNetwork, unit) run" where
  "GetPChainWallet lib clib =
     rbnd (GetL1Infos lib) (\<lambda>l1s.
     rbnd (GetPrimaryNetworkInfo lib) (\<lambda>primary.
     rbnd (first_of (NodeURIs primary)) (\<lambda>uri.
     on_world (call_ok (MakeWallet clib uri (map L1TestInfo.SubnetID l1s))))))"

text \<open>\<open>Shutdown\<close>, and a deferred call: it is made after the rest, however that ends if it ends.\<close>

definition Shutdown :: "'w conv_lib \<Rightarrow> 'w LocalNetwork \<Rightarrow> 'w LocalNetwork" where
  "Shutdown clib n = n\<lparr>World := CancelAggregator clib (World n)\<rparr>"

definition deferred :: "('s \<Rightarrow> 's) \<Rightarrow> ('s, 'a) run \<Rightarrow> ('s, 'a) run" where
  "deferred f m s = map_option (\<lambda>(r, s'). (r, f s')) (m s)"

text \<open>
  The extra nodes are sorted by identifier, as texts of bytes, in the part of the slice they were
  taken from (\<open>sort.Slice\<close> leaves the order of equal identifiers open; a network has none).
\<close>

definition sorted_nodes :: "'w LocalNetwork \<Rightarrow> node_ref list \<Rightarrow> node_ref list" where
  "sorted_nodes n = sort_key (\<lambda>x. TmpNodeID (Store n x))"

text \<open>What the loop makes of a node and its weight: a \<open>utils.Node\<close> and a validator of the P-Chain.\<close>

definition converted_node :: "node_id \<Rightarrow> proof_of_possession \<Rightarrow> u64 \<Rightarrow> Node" where
  "converted_node nodeID pop weight = \<lparr>NodeNodeID = nodeID, NodeNodePoP = Some pop, NodeWeight = weight\<rparr>"

definition converted_validator ::
  "'w manager_lib \<Rightarrow> 160 word \<Rightarrow> node_id \<Rightarrow> proof_of_possession \<Rightarrow> u64 \<Rightarrow> ConvertValidator" where
  "converted_validator mlib destAddr nodeID pop weight =
     \<lparr>VdrNodeID = be_bytes 20 (unat nodeID), VdrWeight = weight, VdrBalance = Avax mlib * 100, VdrSigner = pop,
      VdrRemainingBalanceOwner = (1, [destAddr]), VdrDeactivationOwner = (1, [destAddr])\<rparr>"

primrec converted ::
  "'w manager_lib \<Rightarrow> 'w conv_lib \<Rightarrow> (node_ref \<Rightarrow> tmp_node) \<Rightarrow> 160 word \<Rightarrow> (node_ref \<times> u64) list \<Rightarrow>
   goerr + (Node \<times> ConvertValidator) list" where
  "converted mlib clib store destAddr [] = Inr []"
| "converted mlib clib store destAddr (x # xs) =
     rbind (GetProofOfPossession clib (store (fst x))) (\<lambda>pop.
     rbind (converted mlib clib store destAddr xs) (\<lambda>rest.
     Inr ((converted_node (TmpNodeID (store (fst x))) pop (snd x),
       converted_validator mlib destAddr (TmpNodeID (store (fst x))) pop (snd x)) # rest)))"

text \<open>
  The removal of a validator of the subnet, after which every node with its identifier restarts; and of
  all that validated the subnet before the conversion.
\<close>

definition restart_node :: "'w conv_lib \<Rightarrow> node_id \<Rightarrow> 'w LocalNetwork \<Rightarrow> node_ref \<Rightarrow> 'w LocalNetwork" where
  "restart_node clib nodeID n node =
     (if TmpNodeID (Store n node) = nodeID then n\<lparr>Store := snd (RestartNode clib node (Store n))\<rparr> else n)"

definition remove_validator :: "'w conv_lib \<Rightarrow> hash \<Rightarrow> node_id \<Rightarrow> ('w LocalNetwork, unit) run" where
  "remove_validator clib subnetID nodeID =
     rbnd (on_world (call_ok (IssueRemoveSubnetValidatorTx clib nodeID subnetID))) (\<lambda>_.
     run_of (upd (\<lambda>n. foldl (restart_node clib nodeID) n (NetNodes n))))"

text \<open>The proposers of the P-Chain and of the L1, whose clients a zero description does not have.\<close>

definition advance_l1 ::
  "'w manager_lib \<Rightarrow> 'w L1TestInfo option \<Rightarrow> priv_key \<Rightarrow> ('w LocalNetwork, 'w L1TestInfo) run" where
  "advance_l1 mlib l1 senderKey =
     rbnd (on_world (PChainProposerVMWorkaround mlib)) (\<lambda>_.
     rbnd (deref_nil l1) (\<lambda>l1.
     rbnd (on_world (AdvanceProposerVM mlib l1 senderKey 5)) (\<lambda>_. rret l1)))"

text \<open>The P-Chain's description has no clients; none of them is used.\<close>

definition p_chain :: "'w L1TestInfo \<Rightarrow> hash \<times> hash \<Rightarrow> 'w L1TestInfo" where
  "p_chain cChainInfo ids =
     L1TestInfo.SubnetID_update (\<lambda>_. snd ids) (cChainInfo\<lparr>BlockchainID := fst ids, NodeURIs := []\<rparr>)"

section \<open>The conversion\<close>

text \<open>From the description of the converted L1 on; the aggregator runs until the end.\<close>

definition initialize_converted ::
  "'w net_lib \<Rightarrow> 'w manager_lib \<Rightarrow> 'w conv_lib \<Rightarrow> ctx \<Rightarrow> priv_key \<Rightarrow> 'w L1TestInfo \<Rightarrow> 'w L1TestInfo \<Rightarrow> address \<Rightarrow>
   node_id list \<Rightarrow> Node list \<Rightarrow> ('w LocalNetwork, hash list) run" where
  "initialize_converted lib mlib clib c senderKey cChainInfo l1 vdrManagerAddress currentValidators nodes =
     rbnd (GetSignatureAggregator lib) (\<lambda>_.
     deferred (Shutdown clib)
      (rbnd (on_world (GetPChainInfo lib cChainInfo)) (\<lambda>pChain.
       rbnd (on_world (InitializeValidatorSet (E2E lib) mlib c senderKey l1 (p_chain cChainInfo pChain)
           vdrManagerAddress (GetNetworkID clib) nodes)) (\<lambda>validationIDs.
       rbnd (each_run (remove_validator clib (L1TestInfo.SubnetID l1)) currentValidators) (\<lambda>_.
       rbnd (advance_l1 mlib (Some l1) senderKey) (\<lambda>_.
       rret validationIDs))))))"

definition ConvertSubnet ::
  "'w net_lib \<Rightarrow> 'w manager_lib \<Rightarrow> 'w conv_lib \<Rightarrow> ctx \<Rightarrow> 'w L1TestInfo \<Rightarrow> ValidatorManagerConcreteType \<Rightarrow>
   u64 list \<Rightarrow> priv_key \<Rightarrow> bool \<Rightarrow>
   ('w conv_state, Node list \<times> hash list \<times> 'w bound_contract option) run" where
  "ConvertSubnet lib mlib clib c l1 managerType weights senderKey proxy =
     rbnd (on_net (GetPrimaryNetworkInfo lib)) (\<lambda>cChainInfo.
     rbnd (first_of (NodeURIs cChainInfo)) (\<lambda>uri.
     rbnd (on_net (on_world (call_ok (GetCurrentValidators clib uri (L1TestInfo.SubnetID l1))))) (\<lambda>currentValidators.
     rbnd (on_managers (DeployAndInitializeValidatorManager (E2E lib) mlib c senderKey l1 managerType proxy))
       (\<lambda>(vdrManagerAddress, proxyAdmin).
     rbnd (on_net (run_of (upd (\<lambda>n. n\<lparr>validatorManagers :=
         (validatorManagers n)(L1TestInfo.SubnetID l1 \<mapsto> vdrManagerAddress)\<rparr>)))) (\<lambda>_.
     rbnd (on_net (GetExtraNodes (int (length weights)))) (\<lambda>extra.
     rbnd (on_net (run_of (gets (\<lambda>n. (sorted_nodes n extra, Store n))))) (\<lambda>(tmpnetNodes, store).
     rbnd (expect (ParseToID mlib DefaultPChainAddress)) (\<lambda>destAddr.
     rbnd (expect (converted mlib clib store destAddr (zip tmpnetNodes weights))) (\<lambda>built.
     rbnd (on_net (GetPChainWallet lib clib)) (\<lambda>_.
     rbnd (on_net (on_world (call_ok (IssueConvertSubnetToL1Tx clib (L1TestInfo.SubnetID l1) (BlockchainID l1)
         (be_bytes 20 (unat vdrManagerAddress)) (map snd built))))) (\<lambda>_.
     rbnd (on_net (AddSubnetValidators lib tmpnetNodes l1 True)) (\<lambda>l1.
     rbnd (on_net (advance_l1 mlib l1 senderKey)) (\<lambda>l1.
     rbnd (on_net (initialize_converted lib mlib clib c senderKey cChainInfo l1 vdrManagerAddress
         currentValidators (map fst built))) (\<lambda>validationIDs.
     rret (map fst built, validationIDs, proxyAdmin)))))))))))))))"

section \<open>What stays the same\<close>

text \<open>
  Two states of a network that differ at most in its services and in what a restart changes of a node.
\<close>

definition alike :: "'w LocalNetwork \<Rightarrow> 'w LocalNetwork \<Rightarrow> bool" where
  "alike n n' \<longleftrightarrow>
     NetNodes n' = NetNodes n \<and> extraNodes n' = extraNodes n \<and> NetSubnets n' = NetSubnets n \<and>
     validatorManagers n' = validatorManagers n \<and>
     (\<forall>x. TmpNodeID (Store n' x) = TmpNodeID (Store n x) \<and>
        TrackedSubnets (Store n' x) = TrackedSubnets (Store n x))"

named_theorems same_network \<open>runs that leave a network as it is\<close>

lemma alike_refl [simp]: "alike n n"
  by (simp add: alike_def)

lemma alike_trans [trans]: "alike n n1 \<Longrightarrow> alike n1 n2 \<Longrightarrow> alike n n2"
  by (simp add: alike_def)

lemma alike_World [simp]: "alike n (n\<lparr>World := w\<rparr>)"
  by (simp add: alike_def)

lemma alike_World_left [simp]: "alike (n\<lparr>World := w\<rparr>) n' \<longleftrightarrow> alike n n'"
  by (simp add: alike_def)

lemma alike_node_ids: "alike n n' \<Longrightarrow> node_ids n' = node_ids n"
  by (simp add: alike_def node_ids_def fun_eq_iff)

lemma alike_network_ok: "alike n n' \<Longrightarrow> network_ok n' \<longleftrightarrow> network_ok n"
  using alike_node_ids [of n n'] by (simp add: network_ok_def alike_def)

lemma on_world_alike [same_network]: "on_world m n = Some (Returned x, n') \<Longrightarrow> alike n n'"
  by (auto simp: on_world_Returned_iff)

lemma l1_info_alike:
  assumes "l1_info lib subnetID blockchainID uris signers n = Some (Returned info, n')"
    and "\<And>n b n'. signers n = Some (Returned b, n') \<Longrightarrow> alike n n'"
  shows "alike n n'"
  using assms(1) by (auto simp: l1_info_def go_splits on_world_Returned_iff dest: assms(2))

lemma subnet_info_alike: "subnet_info lib l1 n = Some (Returned info, n') \<Longrightarrow> alike n n'"
  using subnet_info_Returned(2) [of lib l1 n info n'] by auto

lemma GetL1Infos_alike [same_network]: "GetL1Infos lib n = Some (Returned infos, n') \<Longrightarrow> alike n n'"
  using subnet_infos_Returned [of lib "NetSubnets n" n infos n'] by (auto simp: GetL1Infos_def)

lemma GetL1Info_Returned:
  assumes "GetL1Info lib subnetID n = Some (Returned info, n')"
  shows "alike n n'" and "info = Some l1 \<Longrightarrow> L1TestInfo.SubnetID l1 = subnetID"
proof -
  have "alike n n' \<and> (\<forall>l1. info = Some l1 \<longrightarrow> L1TestInfo.SubnetID l1 = subnetID)"
  proof (cases "find (\<lambda>l1. TmpSubnetID l1 = subnetID) (NetSubnets n)")
    case (Some l1)
    then have "TmpSubnetID l1 = subnetID"
      by (auto simp: find_Some_iff)
    then show ?thesis
      using assms Some subnet_info_alike [of lib l1 n _ n'] subnet_info_Returned(1) [of lib l1 n _ n']
      by (auto simp: GetL1Info_def describes_def go_splits)
  qed (use assms in \<open>simp add: GetL1Info_def\<close>)
  then show "alike n n'" and "info = Some l1 \<Longrightarrow> L1TestInfo.SubnetID l1 = subnetID"
    by blast+
qed

lemma GetPrimaryNetworkInfo_alike [same_network]:
  "GetPrimaryNetworkInfo lib n = Some (Returned info, n') \<Longrightarrow> alike n n'"
  by (auto simp: GetPrimaryNetworkInfo_def go_splits on_world_Returned_iff dest!: l1_info_alike)

lemma wallet_alike [same_network]:
  "GetPChainWallet lib clib n = Some (Returned u, n') \<Longrightarrow> alike n n'"
  "GetSignatureAggregator lib n = Some (Returned u, n') \<Longrightarrow> alike n n'"
  by (auto simp: GetPChainWallet_def GetSignatureAggregator_def go_splits dest!: same_network intro: alike_trans)

lemma advance_l1_Returned:
  "advance_l1 mlib l1 key n = Some (Returned l1', n') \<Longrightarrow> l1 = Some l1' \<and> alike n n'"
  by (auto simp: advance_l1_def deref_nil_def run_of_def panicked_def go_splits dest!: same_network
      intro: alike_trans split: option.splits)

text \<open>What the code relies on of \<open>RestartNode\<close>: the nodes keep their identifiers and flags.\<close>

definition restart_keeps_nodes :: "'w conv_lib \<Rightarrow> bool" where
  "restart_keeps_nodes clib \<longleftrightarrow>
     (\<forall>node store x. TmpNodeID (snd (RestartNode clib node store) x) = TmpNodeID (store x) \<and>
        TrackedSubnets (snd (RestartNode clib node store) x) = TrackedSubnets (store x))"

lemma restart_nodes_alike:
  assumes "restart_keeps_nodes clib"
  shows "alike n (foldl (restart_node clib nodeID) n nodes)"
proof (induction nodes arbitrary: n)
  case (Cons node nodes)
  have "alike n (restart_node clib nodeID n node)"
    using assms by (simp add: restart_node_def alike_def restart_keeps_nodes_def)
  then show ?case
    using Cons.IH alike_trans by simp blast
qed simp

lemma remove_validator_alike:
  assumes "restart_keeps_nodes clib" and "remove_validator clib subnetID vdr n = Some (Returned u, n')"
  shows "alike n n'"
proof -
  obtain w where "n' = foldl (restart_node clib vdr) (n\<lparr>World := w\<rparr>) (NetNodes n)"
    using assms(2) by (auto simp: remove_validator_def go_splits on_world_Returned_iff)
  then show ?thesis
    using restart_nodes_alike [OF assms(1), of "n\<lparr>World := w\<rparr>" vdr "NetNodes n"] by simp
qed

lemma remove_validators_alike:
  assumes "restart_keeps_nodes clib"
  shows "each_run (remove_validator clib subnetID) vdrs n = Some (Returned u, n') \<Longrightarrow> alike n n'"
proof (induction vdrs arbitrary: n)
  case (Cons vdr vdrs)
  then obtain u1 n1 where "remove_validator clib subnetID vdr n = Some (Returned u1, n1)"
      and "each_run (remove_validator clib subnetID) vdrs n1 = Some (Returned u, n')"
    by (auto simp: rbnd_Returned_iff)
  then show ?case
    using remove_validator_alike [OF assms] Cons.IH alike_trans by metis
qed auto

section \<open>What the conversion does\<close>

lemma converted_Ok:
  "converted mlib clib store destAddr (zip nodes weights) = Inr built \<Longrightarrow> length nodes = length weights \<Longrightarrow>
   map NodeNodeID (map fst built) = map (\<lambda>x. TmpNodeID (store x)) nodes \<and>
   map NodeWeight (map fst built) = weights \<and>
   list_all2 (\<lambda>node vdr. \<exists>pop. NodeNodePoP node = Some pop \<and>
     vdr = converted_validator mlib destAddr (NodeNodeID node) pop (NodeWeight node)) (map fst built) (map snd built)"
proof (induction nodes arbitrary: weights built)
  case (Cons x nodes)
  then obtain weight rest where "weights = weight # rest"
    by (cases weights) auto
  then show ?case
    using Cons by (auto simp: go_splits converted_node_def)
qed auto

lemma deferred_Returned_iff [go_splits]:
  "deferred f m s = Some (Returned x, s') \<longleftrightarrow> (\<exists>s1. m s = Some (Returned x, s1) \<and> s' = f s1)"
  by (auto simp: deferred_def)

lemma InitializeValidatorSet_ids:
  "InitializeValidatorSet lib mlib c key l1 pChain manager networkID nodes s = Some (Returned ids, s') \<Longrightarrow>
   ids = validation_ids mlib (L1TestInfo.SubnetID l1) nodes"
  by (auto simp: InitializeValidatorSet_def go_splits Let_def)

lemma initialize_converted_Returned:
  assumes "restart_keeps_nodes clib"
    and "initialize_converted lib mlib clib c key cChain l1 manager vdrs nodes n = Some (Returned ids, n')"
  shows "alike n n' \<and> (\<exists>pChain w w'. InitializeValidatorSet (E2E lib) mlib c key l1 (p_chain cChain pChain) manager
    (GetNetworkID clib) nodes w = Some (Returned ids, w'))"
proof -
  obtain u1 u2 n1 n2 n3 n4 n5 l1' pChain where agg: "GetSignatureAggregator lib n = Some (Returned u1, n1)"
      and chain: "on_world (GetPChainInfo lib cChain) n1 = Some (Returned pChain, n2)"
      and set: "on_world (InitializeValidatorSet (E2E lib) mlib c key l1 (p_chain cChain pChain) manager
        (GetNetworkID clib) nodes) n2 = Some (Returned ids, n3)"
      and remove: "each_run (remove_validator clib (L1TestInfo.SubnetID l1)) vdrs n3 = Some (Returned u2, n4)"
      and advance: "advance_l1 mlib (Some l1) key n4 = Some (Returned l1', n5)" and n': "n' = Shutdown clib n5"
    using assms(2) unfolding initialize_converted_def
    by (auto simp: go_splits)
  note wallet_alike(2) [OF agg]
  also note on_world_alike [OF chain]
  also note on_world_alike [OF set]
  also note remove_validators_alike [OF assms(1) remove]
  also note conjunct2 [OF advance_l1_Returned [OF advance]]
  also have "alike n5 n'"
    by (simp add: n' Shutdown_def)
  finally show ?thesis
    using set unfolding on_world_Returned_iff by blast
qed

text \<open>The network when the weights are given their nodes, after the manager was deployed.\<close>

lemma conversion_registers:
  assumes "keeps_nodes lib" and "network_ok n" and "IDString (E2E lib) (L1TestInfo.SubnetID l1) \<noteq> []"
    and "extraNodes n = taken @ rest" and "alike (n\<lparr>extraNodes := rest\<rparr>) n2"
    and "AddSubnetValidators lib (sorted_nodes n taken) l1 partialSync n2 = Some (Returned l1', n3)"
  defines "nodes \<equiv> sorted_nodes n taken"
  shows "network_ok n3" and "extraNodes n3 = rest" and "NetNodes n3 = NetNodes n @ nodes"
    and "validatorManagers n3 = validatorManagers n"
    and "NetSubnets n3 = map (add_validators (L1TestInfo.SubnetID l1) (node_ids n nodes)) (NetSubnets n)"
    and "sorted_wrt (<) (node_ids n nodes)"
    and "l1' = Some info \<Longrightarrow> L1TestInfo.SubnetID info = L1TestInfo.SubnetID l1"
proof -
  let ?n2 = "n2\<lparr>extraNodes := extraNodes n\<rparr>"
  obtain n2' where reg: "register_validators lib nodes l1 partialSync n2 = Some (Returned (), n2')"
      and info: "GetL1Info lib (L1TestInfo.SubnetID l1) n2' = Some (Returned l1', n3)"
    using assms(6) by (auto simp: AddSubnetValidators_def nodes_def go_splits)
  have alike: "alike n ?n2" and rest: "extraNodes n2 = rest"
    using assms(5) by (auto simp: alike_def)
  have "n2\<lparr>extraNodes := rest\<rparr> = n2"
    using rest by (cases n2) simp
  then have reg': "register_validators lib nodes l1 partialSync (?n2\<lparr>extraNodes := rest\<rparr>) = Some (Returned (), n2')"
    using reg by simp
  have "distinct taken" and "distinct (node_ids n taken)"
    using assms(2) by (auto simp: network_ok_def assms(4) node_ids_def)
  then have nodup: "distinct nodes" and same: "set nodes = set taken" and ids: "distinct (node_ids n nodes)"
    by (simp_all add: nodes_def sorted_nodes_def node_ids_def distinct_map)
  have "network_ok ?n2" and "extraNodes ?n2 = taken @ rest"
    using alike_network_ok [OF alike] assms(2,4) by simp_all
  note net = registered_network [OF assms(1) this(1) assms(3) this(2) nodup same reg']
  note later = GetL1Info_Returned(1) [OF info]
  show "network_ok n3"
    using net(1) alike_network_ok [OF later] by simp
  show "extraNodes n3 = rest" and "NetNodes n3 = NetNodes n @ nodes" and "validatorManagers n3 = validatorManagers n"
    and "NetSubnets n3 = map (add_validators (L1TestInfo.SubnetID l1) (node_ids n nodes)) (NetSubnets n)"
    using net(2-5) later alike alike_node_ids [OF alike] by (simp_all add: alike_def)
  have "sorted (node_ids n nodes)"
    unfolding nodes_def sorted_nodes_def node_ids_def by simp
  with ids show "sorted_wrt (<) (node_ids n nodes)"
    by (simp add: strict_sorted_iff)
  show "l1' = Some info \<Longrightarrow> L1TestInfo.SubnetID info = L1TestInfo.SubnetID l1"
    using GetL1Info_Returned(2) [OF info] .
qed

lemma on_net_Returned_iff [go_splits]:
  "on_net m s = Some (Returned x, s') \<longleftrightarrow> (\<exists>n. m (ConvNet s) = Some (Returned x, n) \<and> s' = s\<lparr>ConvNet := n\<rparr>)"
  by (simp add: on_net_def focus_Returned_iff)

lemma on_managers_Returned_iff [go_splits]:
  "on_managers m s = Some (Returned x, s') \<longleftrightarrow>
   (\<exists>t. m \<lparr>ManagerBin = ConvBin s, ManagerWorld = World (ConvNet s)\<rparr> = Some (Returned x, t) \<and>
      s' = \<lparr>ConvBin = ManagerBin t, ConvNet = (ConvNet s)\<lparr>World := ManagerWorld t\<rparr>\<rparr>)"
  by (simp add: on_managers_def focus_Returned_iff)

text \<open>The steps of a conversion that returns, on the states of the network between them.\<close>

lemma ConvertSubnet_Returned:
  assumes "ConvertSubnet lib mlib clib c l1 ty weights key proxy s = Some (Returned (nodes, ids, admin), s')"
  obtains cChain uri vdrs manager t n1 n2 n3 taken n4 destAddr built u1 n5 n6 l1' n7 info n8
  where "GetPrimaryNetworkInfo lib (ConvNet s) = Some (Returned cChain, n1)"
    and "on_world (call_ok (GetCurrentValidators clib uri (L1TestInfo.SubnetID l1))) n1 = Some (Returned vdrs, n2)"
    and "DeployAndInitializeValidatorManager (E2E lib) mlib c key l1 ty proxy
      \<lparr>ManagerBin = ConvBin s, ManagerWorld = World n2\<rparr> = Some (Returned (manager, admin), t)"
    and "n3 = n2\<lparr>World := ManagerWorld t, validatorManagers :=
      (validatorManagers n2)(L1TestInfo.SubnetID l1 \<mapsto> manager)\<rparr>"
    and "GetExtraNodes (int (length weights)) n3 = Some (Returned taken, n4)"
    and "converted mlib clib (Store n4) destAddr (zip (sorted_nodes n4 taken) weights) = Inr built"
    and "GetPChainWallet lib clib n4 = Some (Returned u1, n5)"
    and "on_world (call_ok (IssueConvertSubnetToL1Tx clib (L1TestInfo.SubnetID l1) (BlockchainID l1)
      (be_bytes 20 (unat manager)) (map snd built))) n5 = Some (Returned (), n6)"
    and "AddSubnetValidators lib (sorted_nodes n4 taken) l1 True n6 = Some (Returned l1', n7)"
    and "advance_l1 mlib l1' key n7 = Some (Returned info, n8)"
    and "initialize_converted lib mlib clib c key cChain info manager vdrs (map fst built) n8 =
      Some (Returned ids, ConvNet s')"
    and "nodes = map fst built"
  using assms unfolding ConvertSubnet_def
  by (auto simp: go_splits run_of_Returned_iff upd_def gets_def)

text \<open>
  C9. Converting a subnet, when it returns, gives the next extra nodes to the L1, each once and in the order of
  their identifiers, with the weights by position. The manager it deployed is the one the network records,
  the P-Chain's conversion names and the initial validators are delivered to; the conversion is about
  exactly the nodes returned, with their proofs of possession, and so is the initialization that gave
  the validation identifiers, one for each node. The network stays consistent, the nodes join it, and
  those that validated the subnet before stay listed as its validators.
\<close>

theorem conversion_is_about_the_returned_nodes:
  assumes "keeps_nodes lib" and "restart_keeps_nodes clib" and "network_ok (ConvNet s)"
    and "IDString (E2E lib) (L1TestInfo.SubnetID l1) \<noteq> []"
    and "ConvertSubnet lib mlib clib c l1 ty weights key proxy s = Some (Returned (nodes, ids, admin), s')"
  shows "\<exists>taken manager w0 t w1 w2 w3 w4 vdrs destAddr info pInfo.
     extraNodes (ConvNet s) = taken @ extraNodes (ConvNet s') \<and>
     set (map NodeNodeID nodes) = set (node_ids (ConvNet s) taken) \<and> sorted_wrt (<) (map NodeNodeID nodes) \<and>
     map NodeWeight nodes = weights \<and>
     DeployAndInitializeValidatorManager (E2E lib) mlib c key l1 ty proxy \<lparr>ManagerBin = ConvBin s, ManagerWorld = w0\<rparr> =
       Some (Returned (manager, admin), t) \<and>
     validatorManagers (ConvNet s') = (validatorManagers (ConvNet s))(L1TestInfo.SubnetID l1 \<mapsto> manager) \<and>
     IssueConvertSubnetToL1Tx clib (L1TestInfo.SubnetID l1) (BlockchainID l1) (be_bytes 20 (unat manager)) vdrs w1 =
       (Inr (), w2) \<and>
     list_all2 (\<lambda>node vdr. \<exists>pop. NodeNodePoP node = Some pop \<and>
       vdr = converted_validator mlib destAddr (NodeNodeID node) pop (NodeWeight node)) nodes vdrs \<and>
     L1TestInfo.SubnetID info = L1TestInfo.SubnetID l1 \<and>
     InitializeValidatorSet (E2E lib) mlib c key info pInfo manager (GetNetworkID clib) nodes w3 =
       Some (Returned ids, w4) \<and>
     ids = map (\<lambda>i. IDAppend mlib (L1TestInfo.SubnetID l1) (of_nat i)) [0..<length weights] \<and>
     network_ok (ConvNet s') \<and> set (NetNodes (ConvNet s')) = set (NetNodes (ConvNet s)) \<union> set taken \<and>
     NetSubnets (ConvNet s') =
       map (add_validators (L1TestInfo.SubnetID l1) (map NodeNodeID nodes)) (NetSubnets (ConvNet s))"
  using assms(5)
proof (rule ConvertSubnet_Returned)
  fix cChain uri currents manager t n1 n2 n3 taken n4 destAddr built u1 n5 n6 l1' n7 info n8
  assume primary: "GetPrimaryNetworkInfo lib (ConvNet s) = Some (Returned cChain, n1)"
    and current: "on_world (call_ok (GetCurrentValidators clib uri (L1TestInfo.SubnetID l1))) n1 =
      Some (Returned currents, n2)"
    and deploy: "DeployAndInitializeValidatorManager (E2E lib) mlib c key l1 ty proxy
      \<lparr>ManagerBin = ConvBin s, ManagerWorld = World n2\<rparr> = Some (Returned (manager, admin), t)"
    and n3: "n3 = n2\<lparr>World := ManagerWorld t, validatorManagers :=
      (validatorManagers n2)(L1TestInfo.SubnetID l1 \<mapsto> manager)\<rparr>"
    and extra: "GetExtraNodes (int (length weights)) n3 = Some (Returned taken, n4)"
    and built: "converted mlib clib (Store n4) destAddr (zip (sorted_nodes n4 taken) weights) = Inr built"
    and wallet: "GetPChainWallet lib clib n4 = Some (Returned u1, n5)"
    and convert: "on_world (call_ok (IssueConvertSubnetToL1Tx clib (L1TestInfo.SubnetID l1) (BlockchainID l1)
      (be_bytes 20 (unat manager)) (map snd built))) n5 = Some (Returned (), n6)"
    and add: "AddSubnetValidators lib (sorted_nodes n4 taken) l1 True n6 = Some (Returned l1', n7)"
    and advance: "advance_l1 mlib l1' key n7 = Some (Returned info, n8)"
    and initialize: "initialize_converted lib mlib clib c key cChain info manager currents (map fst built) n8 =
      Some (Returned ids, ConvNet s')"
    and nodes: "nodes = map fst built"
  have same: "alike (ConvNet s) n2"
    using GetPrimaryNetworkInfo_alike [OF primary] on_world_alike [OF current] by (rule alike_trans)
  then have ok: "network_ok n3" and ids3: "node_ids n3 = node_ids (ConvNet s)"
      and n3_same: "extraNodes n3 = extraNodes (ConvNet s)" "NetNodes n3 = NetNodes (ConvNet s)"
        "NetSubnets n3 = NetSubnets (ConvNet s)"
        "validatorManagers n3 = (validatorManagers (ConvNet s))(L1TestInfo.SubnetID l1 \<mapsto> manager)"
    using assms(3) alike_network_ok [OF same] alike_node_ids [OF same]
    by (auto simp: n3 alike_def network_ok_def node_ids_def fun_eq_iff)
  note took = GetExtraNodes_Returned [OF extra]
  have n4: "sorted_nodes n4 = sorted_nodes n3" "Store n4 = Store n3"
    by (subst took(3), simp add: sorted_nodes_def fun_eq_iff)+
  have "alike (n3\<lparr>extraNodes := extraNodes n4\<rparr>) n6"
    using wallet_alike(1) [OF wallet] on_world_alike [OF convert] took(3) alike_trans by metis
  note net = conversion_registers [OF assms(1) ok assms(4) took(2) this add [unfolded n4], unfolded ids3 n3_same]
  have l1': "l1' = Some info" and "alike n7 n8"
    using advance_l1_Returned [OF advance] by blast+
  then obtain pInfo w3 w4 where later: "alike n7 (ConvNet s')"
      and set: "InitializeValidatorSet (E2E lib) mlib c key info pInfo manager (GetNetworkID clib) nodes w3 =
        Some (Returned ids, w4)"
    using initialize_converted_Returned [OF assms(2) initialize] alike_trans unfolding nodes by blast
  have info: "L1TestInfo.SubnetID info = L1TestInfo.SubnetID l1"
    using net(7) [OF l1'] .
  have "length (sorted_nodes n3 taken) = length weights"
    using took(1) by (simp add: sorted_nodes_def)
  note conv = converted_Ok [OF built [unfolded n4] this]
  have ids: "map NodeNodeID nodes = node_ids (ConvNet s) (sorted_nodes n3 taken)"
    using conv ids3 by (simp add: nodes node_ids_def fun_eq_iff)
  have perm: "set (sorted_nodes n3 taken) = set taken"
    by (simp add: sorted_nodes_def)
  have "extraNodes (ConvNet s) = taken @ extraNodes (ConvNet s')"
    using took(2) net(2) later n3_same(1) by (simp add: alike_def)
  moreover have "set (map NodeNodeID nodes) = set (node_ids (ConvNet s) taken)"
    unfolding ids by (simp add: node_ids_def perm)
  moreover have "sorted_wrt (<) (map NodeNodeID nodes)"
    unfolding ids by (rule net(6))
  moreover have weights: "map NodeWeight nodes = weights"
    using conv by (simp add: nodes)
  moreover have "ids = map (\<lambda>i. IDAppend mlib (L1TestInfo.SubnetID l1) (of_nat i)) [0..<length weights]"
    using InitializeValidatorSet_ids [OF set] info length_map [of NodeWeight nodes] weights by (simp add: validation_ids_def)
  moreover have "network_ok (ConvNet s')" and
      "set (NetNodes (ConvNet s')) = set (NetNodes (ConvNet s)) \<union> set taken"
      "validatorManagers (ConvNet s') = (validatorManagers (ConvNet s))(L1TestInfo.SubnetID l1 \<mapsto> manager)"
      "NetSubnets (ConvNet s') =
       map (add_validators (L1TestInfo.SubnetID l1) (map NodeNodeID nodes)) (NetSubnets (ConvNet s))"
    using net(1,3-5) later alike_network_ok [OF later] perm unfolding ids by (simp_all add: alike_def)
  moreover obtain w2 where "IssueConvertSubnetToL1Tx clib (L1TestInfo.SubnetID l1) (BlockchainID l1)
      (be_bytes 20 (unat manager)) (map snd built) (World n5) = (Inr (), w2)"
    using convert by (auto simp: on_world_Returned_iff go_splits)
  ultimately show ?thesis
    using deploy conv info set unfolding nodes by blast
qed

end
