(* ===== verification/ConversionSimulation.thy ===== *)
theory ConversionSimulation
  imports ValidatorSimulation SubnetConversion
begin

text \<open>The property of \<open>SubnetConversion\<close> applied on the simulated network of \<open>Simulation\<close>.\<close>

section \<open>The network of the conversion\<close>

text \<open>
  The contracts read every log as the event of the first validator: node 1, with weight 20. The extra
  nodes are 2 and 1, in this order.
\<close>

definition conv_contract :: "sim bound_contract" where
  "conv_contract = sim_messenger\<lparr>UnpackLog := (\<lambda>fs ev log. Inr [(''NodeID'', GBytes (be_bytes 20 1)),
     (''Weight'', GUint 64 20), (''ValidationID'', GArr32 3)])\<rparr>"

definition conv_backend :: "sim bind_lib" where
  "conv_backend = sim_backend\<lparr>NewBoundContract := (\<lambda>abi a. conv_contract)\<rparr>"

definition conv_net_lib :: "sim net_lib" where
  "conv_net_lib = sim_net_lib\<lparr>ClientBackend := (\<lambda>cl. conv_backend)\<rparr>"

definition conv_net :: "sim LocalNetwork" where
  "conv_net = sim_net\<lparr>extraNodes := [2, 1]\<rparr>"

definition conv_pop :: "tmp_node \<Rightarrow> proof_of_possession" where
  "conv_pop node = \<lparr>PopPublicKey = be_bytes 48 (unat (TmpNodeID node)), PopProof = [3]\<rparr>"

definition sim_conv :: "sim conv_lib" where
  "sim_conv = \<lparr>
     GetCurrentValidators = (\<lambda>uri subnet s. (Inr [0], s)),
     GetProofOfPossession = (\<lambda>node. Inr (conv_pop node)),
     MakeWallet = (\<lambda>uri subnets s. (Inr (), s)),
     IssueConvertSubnetToL1Tx = (\<lambda>subnet chain manager vdrs s. (Inr (), s)),
     IssueRemoveSubnetValidatorTx = (\<lambda>node subnet s. (Inr (), s)),
     RestartNode = (\<lambda>node store. (None, store)),
     GetNetworkID = 1,
     CancelAggregator = (\<lambda>s. s)\<rparr>"

definition conv_info :: "hash \<Rightarrow> hash \<Rightarrow> string list \<Rightarrow> bool \<Rightarrow> sim L1TestInfo" where
  "conv_info subnetID chain uris signers = \<lparr>SubnetID = subnetID, BlockchainID = chain, NodeURIs = uris,
     WSClient = sim_client 0 0, RPCClient = sim_client 0 0, Backend = conv_backend, EVMChainID = 99,
     RequirePrimaryNetworkSigners = signers\<rparr>"

lemma conv_l1_info:
  assumes "signers n = Some (Returned b, n)"
  shows "l1_info conv_net_lib subnetID chain (uri # uris) signers n =
    Some (Returned (conv_info subnetID chain (uri # uris) b), n)"
proof -
  have "DialClient (E2E conv_net_lib) u w = (Inr (sim_client 0 0), w)"
      and "ClientChainID conv_net_lib (sim_client 0 0) w = (Inr 99, w)"
      and "ClientBackend conv_net_lib cl = conv_backend" for u w cl
    by (simp_all add: conv_net_lib_def sim_net_lib_def sim_lib_def)
  then show ?thesis
    using assms by (simp add: l1_info_def on_world_def conv_info_def)
qed

text \<open>A network all of whose L1s can be described.\<close>

definition described :: "sim LocalNetwork \<Rightarrow> bool" where
  "described n \<longleftrightarrow> primaryNetworkValidators n = [0] \<and>
     (\<forall>l1 \<in> set (NetSubnets n). \<exists>uri uris chain chains b. all_uris n (ValidatorIDs l1) = Inr (uri # uris) \<and>
        Chains l1 = chain # chains \<and> deployedL1Specs n (SubnetName l1) = Some b)"

lemma conv_subnet_info:
  assumes "described n" and "l1 \<in> set (NetSubnets n)"
  obtains uris b where "subnet_info conv_net_lib l1 n =
    Some (Returned (conv_info (TmpSubnetID l1) (ChainID (hd (Chains l1))) uris b), n)" and "uris \<noteq> []"
proof -
  obtain uri uris chain chains b where "all_uris n (ValidatorIDs l1) = Inr (uri # uris)"
      and "Chains l1 = chain # chains" and "deployedL1Specs n (SubnetName l1) = Some b"
    using assms by (fastforce simp: described_def)
  then have "subnet_info conv_net_lib l1 n = Some (Returned (conv_info (TmpSubnetID l1) (ChainID chain) (uri # uris) b), n)"
    by (simp add: subnet_info_def conv_l1_info spec_signers_def)
  then show ?thesis
    using that \<open>Chains l1 = chain # chains\<close> by simp
qed

lemma conv_l1_infos:
  assumes "described n"
  shows "\<exists>infos. GetL1Infos conv_net_lib n = Some (Returned infos, n)"
proof -
  have "\<exists>infos. subnet_infos conv_net_lib l1s n = Some (Returned infos, n)" if "set l1s \<subseteq> set (NetSubnets n)" for l1s
    using that
  proof (induction l1s)
    case (Cons l1 l1s)
    then obtain infos where "subnet_infos conv_net_lib l1s n = Some (Returned infos, n)"
      by auto
    moreover obtain info where "subnet_info conv_net_lib l1 n = Some (Returned info, n)"
      using conv_subnet_info [OF assms, of l1] Cons.prems by (metis list.set_intros(1) subsetD)
    ultimately show ?case
      by simp
  qed simp
  then show ?thesis
    by (simp add: GetL1Infos_def)
qed

lemma conv_primary:
  assumes "described n"
  obtains uri where "GetPrimaryNetworkInfo conv_net_lib n =
    Some (Returned (conv_info PrimaryNetworkID 6 [uri] False), n)"
proof -
  have "GetBlockchainID conv_net_lib uri chain w = (Inr 6, w)" for uri chain w
    by (simp add: conv_net_lib_def sim_net_lib_def)
  moreover have "l1_info conv_net_lib PrimaryNetworkID 6 [uri] (rret False) n =
      Some (Returned (conv_info PrimaryNetworkID 6 [uri] False), n)" for uri
    by (rule conv_l1_info) simp
  ultimately show ?thesis
    using assms that by (simp add: GetPrimaryNetworkInfo_def described_def on_world_def)
qed

lemma conv_services:
  assumes "described n"
  shows "GetPChainWallet conv_net_lib sim_conv n = Some (Returned (), n)"
    and "GetSignatureAggregator conv_net_lib n = Some (Returned (), n)"
proof -
  obtain infos where "GetL1Infos conv_net_lib n = Some (Returned infos, n)"
    using conv_l1_infos [OF assms] by blast
  moreover obtain uri where "GetPrimaryNetworkInfo conv_net_lib n =
      Some (Returned (conv_info PrimaryNetworkID 6 [uri] False), n)"
    by (rule conv_primary [OF assms])
  moreover have "MakeWallet sim_conv u subnets w = (Inr (), w)" and "StartAggregator conv_net_lib cfg w = (Inr (), w)"
    for u subnets cfg w
    by (simp_all add: sim_conv_def conv_net_lib_def sim_net_lib_def)
  ultimately show "GetPChainWallet conv_net_lib sim_conv n = Some (Returned (), n)"
      and "GetSignatureAggregator conv_net_lib n = Some (Returned (), n)"
    by (simp_all add: GetPChainWallet_def GetSignatureAggregator_def NewSignatureAggregator_def conv_info_def on_world_def)
qed

section \<open>The manager\<close>

lemma conv_manager:
  assumes "SimQueue (ManagerWorld m) = 0"
  obtains m' where "DeployAndInitializeValidatorManager sim_lib sim_manager 0 8 (sim_l1 0 0 5) PoAManager False m =
    Some (Returned (9, None), m')" and "ManagerWorld m' = ManagerWorld m"
proof -
  let ?m = "m\<lparr>ManagerBin := (ManagerBin m)(PoAManager := ''6001'' @ hex_encode (be_bytes 20 9)),
    ManagerWorld := ManagerWorld m\<rparr>"
  have "NewPoAValidatorManager (Backend (sim_l1 0 0 5)) 9 = Inr sim_messenger"
    by (simp add: NewPoAValidatorManager_def bindPoAValidatorManager_def bind_contract_def sim_l1_def sim_backend_def
        ref_codec_def)
  moreover have "PoAValidatorManagerTransactor_Initialize sim_messenger opts settings owner (ManagerWorld m) =
      (Returned (Inr 7), ManagerWorld m)" for opts settings owner
    using assms by (simp add: PoAValidatorManagerTransactor_Initialize_def sim_messenger_def)
  ultimately have "initialize_manager sim_lib 0 8 (sim_l1 0 0 5) 9 opts PoAManager (ManagerWorld m) =
      Some (Returned 7, ManagerWorld m)" for opts
    by (simp add: call_contract_def)
  moreover have "NewKeyedTransactorWithChainID sim_lib 8 (EVMChainID (sim_l1 0 0 5)) = Inr example_transact_opts"
    by (simp add: sim_lib_def)
  ultimately have "DeployAndInitializeValidatorManager sim_lib sim_manager 0 8 (sim_l1 0 0 5) PoAManager False m =
      Some (Returned (9, None), ?m)"
    by (simp add: DeployAndInitializeValidatorManager_def sim_deployed WaitForTransactionSuccess_def sim_wait
        del: initialize_manager.simps)
  then show ?thesis
    by (rule that) simp
qed

section \<open>The validators\<close>

lemma conv_wait:
  assumes "RPCClient l1 = sim_client 0 0"
  shows "waitForTransaction sim_lib c l1 h True s = Some (Returned sim_receipt, s)"
proof -
  have client: "RPCClient (sim_l1 0 0 5) = sim_client 0 0"
    by (simp add: sim_l1_def)
  have "waitForTransaction sim_lib c l1 h True = waitForTransaction sim_lib c (sim_l1 0 0 5) h True"
    unfolding waitForTransaction_def WaitMined_def assms client by (rule refl)
  then show ?thesis
    using sim_wait by metis
qed

lemma conv_deliver:
  assumes "RPCClient l1 = sim_client 0 0"
  shows "CallWarpReceiver sim_lib c callData key l1 manager m s = Some (Returned sim_receipt, s)"
proof -
  obtain tx where "predicate_transaction sim_lib c m manager 2000000 callData key l1 s = Some (Returned tx, s)"
    using assms by (simp add: predicate_transaction_def CalculateTxParams_def SignTransaction_def sim_defs)
  moreover have "SendTransaction (RPCClient l1) c tx s = (Inr (), s)"
    using assms by (simp add: sim_client_def)
  ultimately show ?thesis
    using assms by (simp add: CallWarpReceiver_def SendTransactionAndWaitForSuccess_def sendAndWaitForTransaction_def
        conv_wait)
qed

definition conv_nodes :: "Node list" where
  "conv_nodes = [converted_node 1 \<lparr>PopPublicKey = be_bytes 48 1, PopProof = [3]\<rparr> 20,
     converted_node 2 \<lparr>PopPublicKey = be_bytes 48 2, PopProof = [3]\<rparr> 30]"

lemma conv_initialize:
  assumes "SubnetID info = 2" and "RPCClient info = sim_client 0 0" and "Backend info = conv_backend"
  shows "InitializeValidatorSet sim_lib sim_manager 0 8 info pInfo 9 1 conv_nodes s = Some (Returned [3, 4], s)"
proof -
  have "\<exists>vs. initial_validators conv_nodes s = Some (Returned vs, s)"
    unfolding initial_validators_Returned
    by (intro exI conjI [OF exI [of _ "[\<lparr>PopPublicKey = be_bytes 48 1, PopProof = [3]\<rparr>,
      \<lparr>PopPublicKey = be_bytes 48 2, PopProof = [3]\<rparr>]"]]) (simp_all add: conv_nodes_def converted_node_def)
  then obtain vs where vs: "initial_validators conv_nodes s = Some (Returned vs, s)"
    by blast
  have deliver: "DeliverL1Conversion sim_lib 0 8 info 9 m d s = Some (Returned sim_receipt, s)" for m d
  proof -
    have "map_of (Methods IValidatorManagerABI) ''initializeValidatorSet'' =
        Some ([(''conversionData'', ConversionData_tuple), (''messsageIndex'', TUint 32)], [])"
      by (rule IValidatorManager_methods)
    then obtain callData where "pack_method ref_codec IValidatorManagerABI ''initializeValidatorSet''
        [ConversionData_val d, GUint 32 0] = Inr callData"
      by (simp add: ref_codec_def ref_pack_def)
    then show ?thesis
      by (simp add: DeliverL1Conversion_def pack_and_deliver_def sim_codec(4) GetAbi_ok [OF ref_methods]
          conv_deliver [OF assms(2)])
  qed
  have "ConstructL1ConversionMessage sim_lib sim_manager 3 info pInfo 1 s = Some (Returned sim_signed, s)"
    by (simp add: ConstructL1ConversionMessage_def) (simp add: sim_manager_def)
  moreover have "SubnetToL1ConversionID sim_manager a b c d = Inr 3" for a b c d
    by (simp add: sim_manager_def)
  moreover have "NewIValidatorManager (Backend info) 9 = Inr conv_contract"
    by (simp add: NewIValidatorManager_def bindIValidatorManager_def bind_contract_def assms(3) conv_backend_def
        sim_backend_def ref_codec_def)
  moreover have "IValidatorManagerFilterer_ParseInitialValidatorCreated conv_contract sim_log =
      Inr [(''NodeID'', GBytes (be_bytes 20 1)), (''Weight'', GUint 64 20), (''ValidationID'', GArr32 3)]"
    by (simp add: IValidatorManagerFilterer_ParseInitialValidatorCreated_def parse_log_def conv_contract_def)
  moreover have "validation_ids sim_manager 2 conv_nodes = [3, 4]"
    by (simp add: validation_ids_def sim_manager_def conv_nodes_def)
  moreover have "RcptLogs sim_receipt = [sim_log]"
    by (simp add: sim_receipt_def)
  moreover have "first_of conv_nodes s = Some (Returned (hd conv_nodes), s)" and "node_bytes (hd conv_nodes) = be_bytes 20 1"
      and "NodeWeight (hd conv_nodes) = 20"
    by (simp_all add: conv_nodes_def node_bytes_def converted_node_def)
  ultimately show ?thesis
    by (simp add: InitializeValidatorSet_def assms(1) vs deliver Let_def)
qed

section \<open>The conversion\<close>

lemma conv_net_ok: "network_ok conv_net" "described conv_net"
proof -
  show "network_ok conv_net"
    by (simp add: network_ok_def conv_net_def sim_net_def node_ids_def)
  show "described conv_net"
    by (simp add: described_def conv_net_def sim_net_def uri_for_node_def) blast
qed

text \<open>The network once the extra nodes joined it, at a time.\<close>

definition conv_net_after :: "nat \<Rightarrow> sim LocalNetwork" where
  "conv_net_after clock = conv_net\<lparr>World := \<lparr>SimClock = clock, SimQueue = 0\<rparr>,
     Store := (\<lambda>x. if x \<in> {1, 2} then add_flags (IDString sim_lib 2) True (Store conv_net x) else Store conv_net x),
     NetNodes := [0, 1, 2], extraNodes := [], validatorManagers := [2 \<mapsto> 9],
     NetSubnets := map (add_validators 2 [1, 2]) (NetSubnets conv_net)\<rparr>"

lemma conv_net_after_described: "described (conv_net_after clock)"
  by (simp add: described_def conv_net_after_def conv_net_def sim_net_def uri_for_node_def add_validators_def
      add_flags_def Let_def) blast

lemma conv_joined:
  obtains info where "AddSubnetValidators conv_net_lib [1, 2] (sim_l1 0 0 5) True
      (conv_net\<lparr>extraNodes := [], validatorManagers := [2 \<mapsto> 9]\<rparr>) = Some (Returned (Some info), conv_net_after 0)"
    and "SubnetID info = 2" and "RPCClient info = sim_client 0 0" and "Backend info = conv_backend"
proof -
  have "StartNodes conv_net_lib nodes store = Inr store" for nodes store
    by (simp add: conv_net_lib_def sim_net_lib_def)
  then have "register_validators conv_net_lib [1, 2] (sim_l1 0 0 5) True
      (conv_net\<lparr>extraNodes := [], validatorManagers := [2 \<mapsto> 9]\<rparr>) = Some (Returned (), conv_net_after 0)"
    by (simp add: register_validators_def track_node_def Let_def)
       (simp add: conv_net_after_def conv_net_def sim_net_def sim_l1_def conv_net_lib_def sim_net_lib_def
        sim_lib_def add_flags_def Let_def fun_eq_iff)
  moreover obtain l1 where "find (\<lambda>l1. TmpSubnetID l1 = 2) (NetSubnets (conv_net_after 0)) = Some l1"
      and "l1 \<in> set (NetSubnets (conv_net_after 0))" and "TmpSubnetID l1 = 2"
    by (simp add: conv_net_after_def conv_net_def sim_net_def add_validators_def)
  moreover obtain uris b where "subnet_info conv_net_lib l1 (conv_net_after 0) =
      Some (Returned (conv_info (TmpSubnetID l1) (ChainID (hd (Chains l1))) uris b), conv_net_after 0)"
    using conv_subnet_info [OF conv_net_after_described] \<open>l1 \<in> _\<close> by metis
  moreover have "SubnetID (sim_l1 0 0 5) = 2"
    by (simp add: sim_l1_def)
  ultimately have "AddSubnetValidators conv_net_lib [1, 2] (sim_l1 0 0 5) True
      (conv_net\<lparr>extraNodes := [], validatorManagers := [2 \<mapsto> 9]\<rparr>) =
      Some (Returned (Some (conv_info 2 (ChainID (hd (Chains l1))) uris b)), conv_net_after 0)"
    by (simp add: AddSubnetValidators_def GetL1Info_def)
  then show ?thesis
    by (rule that) (simp_all add: conv_info_def)
qed

lemma conv_advance:
  "advance_l1 sim_manager (Some info) key (conv_net_after t) = Some (Returned info, conv_net_after (t + 30))"
proof -
  have "advance_chains sim_manager info key w = Some (Returned (), w\<lparr>SimClock := SimClock w + 30\<rparr>)" for w
    by (rule sim_advance)
  then have "AdvanceProposerVM sim_manager info key 5 w = Some (Returned (), w)"
      and "PChainProposerVMWorkaround sim_manager w = Some (Returned (), w\<lparr>SimClock := SimClock w + 30\<rparr>)" for w
    by (simp_all add: numeral_eq_Suc PChainProposerVMWorkaround_def sim_manager_def sleep_def upd_def)
  then show ?thesis
    by (simp add: advance_l1_def deref_nil_def on_world_def conv_net_after_def)
qed

lemma conv_initialize_converted:
  assumes "SubnetID info = 2" and "RPCClient info = sim_client 0 0" and "Backend info = conv_backend"
    and "NodeURIs cChain = [uri]"
  shows "initialize_converted conv_net_lib sim_manager sim_conv 0 8 cChain info 9 [0] conv_nodes (conv_net_after t) =
    Some (Returned [3, 4], conv_net_after (t + 30))"
proof -
  note conv_services(2) [OF conv_net_after_described, of t]
  moreover have "GetPChainInfo conv_net_lib cChain w = Some (Returned (6, PrimaryNetworkID), w)" for w
    using assms(4) by (simp add: GetPChainInfo_def conv_net_lib_def sim_net_lib_def)
  moreover have "IssueRemoveSubnetValidatorTx sim_conv node subnet w = (Inr (), w)" and "GetNetworkID sim_conv = 1"
      and "E2E conv_net_lib = sim_lib" for node subnet w
    by (simp_all add: sim_conv_def conv_net_lib_def sim_net_lib_def)
  moreover have "foldl (restart_node sim_conv 0) n nodes = n" for n nodes
    by (induction nodes) (simp_all add: restart_node_def sim_conv_def)
  moreover have "Shutdown sim_conv n = n" for n
    by (simp add: Shutdown_def sim_conv_def)
  ultimately show ?thesis
    by (simp add: initialize_converted_def deferred_def on_world_def conv_initialize [OF assms(1-3)]
        remove_validator_def conv_advance upd_def)
qed

theorem conversion_is_about_the_returned_nodes_witness:
  "\<exists>s'. ConvertSubnet conv_net_lib sim_manager sim_conv 0 (sim_l1 0 0 5) PoAManager [20, 30] 8 False
       \<lparr>ConvBin = (\<lambda>ty. ''6002''), ConvNet = conv_net\<rparr> = Some (Returned (conv_nodes, [3, 4], None), s') \<and>
     map NodeNodeID conv_nodes = [1, 2] \<and> map NodeWeight conv_nodes = [20, 30] \<and> network_ok (ConvNet s') \<and>
     map ValidatorIDs (NetSubnets (ConvNet s')) = [[0, 1, 2], [0]]"
proof -
  have world: "World conv_net = \<lparr>SimClock = 0, SimQueue = 0\<rparr>"
      and same: "conv_net\<lparr>World := \<lparr>SimClock = 0, SimQueue = 0\<rparr>\<rparr> = conv_net"
    by (simp_all add: conv_net_def sim_net_def)
  obtain uri where primary: "GetPrimaryNetworkInfo conv_net_lib conv_net =
      Some (Returned (conv_info PrimaryNetworkID 6 [uri] False), conv_net)"
    by (rule conv_primary [OF conv_net_ok(2)])
  obtain m where manager: "DeployAndInitializeValidatorManager sim_lib sim_manager 0 8 (sim_l1 0 0 5) PoAManager False
      \<lparr>ManagerBin = (\<lambda>ty. ''6002''), ManagerWorld = World conv_net\<rparr> = Some (Returned (9, None), m)"
      and m: "ManagerWorld m = World conv_net"
    using conv_manager [of "\<lparr>ManagerBin = (\<lambda>ty. ''6002''), ManagerWorld = World conv_net\<rparr>"] world by auto
  let ?n = "conv_net\<lparr>extraNodes := [], validatorManagers := [2 \<mapsto> 9]\<rparr>"
  have "?n\<lparr>World := \<lparr>SimClock = 0, SimQueue = 0\<rparr>\<rparr> = ?n"
    by (simp add: conv_net_def sim_net_def)
  note same = same this
  obtain info where joined: "AddSubnetValidators conv_net_lib [1, 2] (sim_l1 0 0 5) True ?n =
      Some (Returned (Some info), conv_net_after 0)"
      and info: "SubnetID info = 2" "RPCClient info = sim_client 0 0" "Backend info = conv_backend"
    by (rule conv_joined)
  have "GetExtraNodes 2 (conv_net\<lparr>validatorManagers := [2 \<mapsto> 9]\<rparr>) = Some (Returned [2, 1], ?n)"
      and "sorted_nodes ?n [2, 1] = [1, 2]"
    by (simp_all add: GetExtraNodes_def conv_net_def sorted_nodes_def sim_net_def word_le_nat_alt)
  moreover have "GetPChainWallet conv_net_lib sim_conv ?n = Some (Returned (), ?n)"
    by (rule conv_services(1)) (use conv_net_ok(2) in \<open>simp add: described_def conv_net_def sim_net_def uri_for_node_def\<close>)
  moreover have "ParseToID sim_manager DefaultPChainAddress = Inr 4"
    by (simp add: sim_manager_def)
  moreover obtain vdrs where "converted sim_manager sim_conv (Store ?n) 4 (zip [1, 2] [20, 30]) = Inr (zip conv_nodes vdrs)"
      and "length vdrs = 2"
    by (rule that [of "map (\<lambda>node. converted_validator sim_manager 4 (NodeNodeID node) (the (NodeNodePoP node))
        (NodeWeight node)) conv_nodes"])
      (simp_all add: sim_conv_def conv_nodes_def conv_net_def sim_net_def conv_pop_def converted_node_def)
  moreover have "length conv_nodes = 2"
    by (simp add: conv_nodes_def)
  moreover have "GetCurrentValidators sim_conv u subnet w = (Inr [0], w)"
      and "IssueConvertSubnetToL1Tx sim_conv subnet chain a vs w = (Inr (), w)" for u subnet chain a vs w
    by (simp_all add: sim_conv_def)
  moreover have "SubnetID (sim_l1 0 0 5) = 2" and "E2E conv_net_lib = sim_lib"
      and "NodeURIs (conv_info PrimaryNetworkID 6 [uri] False) = [uri]"
    by (simp_all add: sim_l1_def conv_net_lib_def sim_net_lib_def conv_info_def)
  moreover have "validatorManagers conv_net = Map.empty"
    by (simp add: conv_net_def sim_net_def)
  ultimately have run: "ConvertSubnet conv_net_lib sim_manager sim_conv 0 (sim_l1 0 0 5) PoAManager [20, 30] 8 False
      \<lparr>ConvBin = (\<lambda>ty. ''6002''), ConvNet = conv_net\<rparr> =
      Some (Returned (conv_nodes, [3, 4], None), \<lparr>ConvBin = ManagerBin m, ConvNet = conv_net_after 60\<rparr>)"
    using primary manager m joined conv_advance [of info 8 0]
      conv_initialize_converted [OF info, of "conv_info PrimaryNetworkID 6 [uri] False" uri 30]
    by (simp add: ConvertSubnet_def on_net_def on_managers_def on_world_def upd_def world same del: converted.simps)
  have "keeps_nodes conv_net_lib" and "restart_keeps_nodes sim_conv"
      and "IDString (E2E conv_net_lib) (SubnetID (sim_l1 0 0 5)) \<noteq> []"
    by (simp_all add: keeps_nodes_def restart_keeps_nodes_def conv_net_lib_def sim_net_lib_def sim_conv_def sim_lib_def)
  from conversion_is_about_the_returned_nodes [OF this(1,2) _ this(3) run] conv_net_ok(1)
  have "map NodeWeight conv_nodes = [20, 30]" and "network_ok (conv_net_after 60)"
      and "NetSubnets (conv_net_after 60) = map (add_validators 2 (map NodeNodeID conv_nodes)) (NetSubnets conv_net)"
    using \<open>SubnetID (sim_l1 0 0 5) = 2\<close> by auto
  then show ?thesis
    using run by (simp add: conv_net_def sim_net_def add_validators_def) (simp add: conv_nodes_def converted_node_def)
qed

end
