(* ===== verification/Spec2Isabelle.thy ===== *)
theory Spec2Isabelle
  imports Prelude GasUtils GoStrings TeleporterPacking RegistryPacking GovernancePacking Events
    Deployment Cli Binding IteratorLoop LinkedDeployment TeleporterMessengerBinding MessengerAgreement
    TeleporterRegistryBinding ValidatorSetSigBinding TokenScaling ValidatorPacking
    ERC20TokenHomeBinding NativeTokenHomeBinding TokenHomeBinding
    ERC20TokenHomeUpgradeableBinding NativeTokenHomeUpgradeableBinding ERC20TokenRemoteBinding
    NativeTokenRemoteBinding TokenRemoteBinding ERC20TokenRemoteUpgradeableBinding
    NativeTokenRemoteUpgradeableBinding ValidatorMessagesBinding PoAValidatorManagerBinding
    ERC20TokenStakingManagerBinding NativeTokenStakingManagerBinding IValidatorManagerBinding
    IPoSValidatorManagerBinding ExampleRewardCalculatorBinding TestMessengerBinding
    ProxyAdminBinding TransparentUpgradeableProxyBinding INativeMinterBinding
    ExampleERC20Binding ExampleERC20DecimalsBinding WrappedNativeTokenBinding
    MockERC20SendAndCallReceiverBinding MockNativeSendAndCallReceiverBinding
    Relaying NewVersion ContractUtils LocalNetwork IcttChecks ValidatorChecks Simulation
    IcttSimulation ValidatorSimulation SetupSimulation ConversionSimulation
begin

text \<open>
  A verification model of the Go code of the repository: the packers of Teleporter messages, the
  generated contract bindings, the utilities for gas and deployment, the command line tool, and the
  library of the end-to-end tests, with its waits, deliveries, local network and validator managers.

  \<^bold>\<open>The program.\<close> Smart contracts (under \<open>contracts/\<close>, in Solidity) exchange messages between blockchains;
  the Go code is what talks to them. \<open>abi-bindings/go\<close> holds one generated binding for each contract
  (calls, transactions, log filters and watches over \<open>bind.BoundContract\<close>) and, beside three of them,
  hand-written packers and an event enumeration. \<open>utils/\<close> has the gas limit of a delivery, the
  identifier of a message and the keyless deployment of the messenger contract. \<open>cmd/teleporter-cli\<close>
  prints the messages and events of a transaction; it decodes logs with \<open>event.go\<close> and Warp payloads with
  \<open>packing.go\<close>. \<open>tests/utils\<close> is the library of the end-to-end tests.

  \<^bold>\<open>Theories and what they model.\<close>
  \<^item> \<open>Prelude\<close>, \<open>GoStrings\<close>, \<open>Effects\<close>: Go integers as words, \<open>*big.Int\<close> as \<open>int\<close>, errors as a list of
    messages in a sum, panics as \<open>Panic\<close>; \<open>copy\<close>, big-endian integers and the functions of \<open>strings\<close>;
    commands over an explicit state that return, fail (the program exits) or panic.
  \<^item> \<open>Abi\<close>, \<open>AbiRef\<close>, \<open>AbiEvents\<close>, \<open>Evm\<close>: the values and types of package \<open>accounts/abi\<close>, and the package itself
    as the record \<open>abi_codec\<close>, an argument of everything that packs or unpacks. The hypotheses on it are
    \<open>codec_methods\<close> (a packed call is a selector followed by the packed arguments), \<open>codec_roundtrip\<close>
    (unpacking with the same types inverts packing), \<open>codec_static\<close> (static types take whole words),
    \<open>codec_events\<close> (the arguments of an emitted log are stored in the fields of their names) and
    \<open>event_ids\<close> (an emitted log starts with the identifier of its event). \<open>AbiRef\<close> defines a concrete codec and
    proves all of them for it (\<open>ref_laws\<close>, \<open>ref_event_ids_if\<close>); the witnesses run on that codec.
    The locale \<open>abi_packer\<close> is the interface \<open>ABIPacker\<close> of \<open>packer/packer.go\<close>, interpreted on each of the three
    types that implement it.
  \<^item> \<open>TeleporterAbi\<close>, \<open>TeleporterPacking\<close>: the structs and ABI of \<open>TeleporterMessenger.go\<close>, \<open>packing.go\<close> and
    \<open>utils/teleporter-utils\<close>. \<open>RegistryPacking\<close> and \<open>GovernancePacking\<close>: the \<open>packing.go\<close> of
    \<open>TeleporterRegistry\<close> and \<open>ValidatorSetSig\<close>.
  \<^item> \<open>Events\<close>: \<open>TeleporterMessenger/event.go\<close>, the enumeration, \<open>FilterTeleporterEvents\<close> and the printable structs.
  \<^item> \<open>GasUtils\<close>: \<open>utils/gas-utils\<close>, on 64-bit words.
  \<^item> \<open>Deployment\<close>: \<open>utils/deployment-utils\<close> and \<open>utils/contract-deployment\<close>; the state is the files, the log
    and the standard output.
  \<^item> \<open>Cli\<close>: \<open>cmd/teleporter-cli\<close>; the state is the package variables, and the console.
  \<^item> \<open>Binding\<close>: what every generated binding shares. \<open>bind.BoundContract\<close> is the record \<open>bound_contract\<close>
    over the state of a chain; \<open>bound_spec\<close> says what it does in terms of the codec and a node. An iterator
    is a record of the channel, the logs not yet sent, the flags and the error; a watch loop is a machine
    over the inputs its \<open>select\<close> statements take. \<open>IteratorLoop\<close>: the steps of iterator and subscription
    in any order, which refine a cursor over the filtered logs, and the loop of a caller.
  \<^item> \<open>TeleporterMessengerBinding\<close>, \<open>TeleporterRegistryBinding\<close>, \<open>ValidatorSetSigBinding\<close> and the
    other theories named \<open>XBinding\<close>: the file \<open>X.go\<close> of \<open>abi-bindings/go\<close>, its metadata as a \<open>contract_abi\<close>,
    and each method, session method, filter, watch and parser by its Go name (\<open>X\<close> and the receiver as
    prefix). \<open>IcttStructs\<close> and \<open>ManagerStructs\<close>: the structs that several of these files each declare.
    Each proves, as far as its contract has methods or events, \<open>X_methods\<close> and \<open>X_events\<close> (what a name
    resolves to),
    \<open>X_transactions_decode\<close>, \<open>X_calls_return_outputs\<close> and \<open>X_parsers_decode\<close>, over the lemmas
    \<open>transact_sends\<close>, \<open>call_reads\<close> and \<open>parse_log_decodes\<close> of \<open>Binding\<close>.
  \<^item> \<open>MessengerAgreement\<close>: the code that exists twice for the messenger. The hand-written packers and the
    generated binding send the same bytes, and \<open>event.go\<close> and the binding decode logs alike.
  \<^item> \<open>LinkedDeployment\<close>: the deployment of the contracts that call the library \<open>ValidatorMessages\<close>; the package
    variable that holds the bytecode is part of the state.
  \<^item> \<open>TokenScaling\<close>, \<open>ValidatorPacking\<close>: the arithmetic of \<open>tests/utils/token_scaling.go\<close> and the packing of
    conversion data in \<open>tests/utils/validator_manager.go\<close>, each beside the Solidity code it must agree with.
  \<^item> \<open>Loops\<close>, \<open>TestEnv\<close>: the test library talks to a running network. Its state \<open>'w\<close> is abstract; clients, keys,
    Warp messages and the clock are records of functions on it (\<open>eth_client\<close>, \<open>e2e_lib\<close>). A \<open>run\<close> is a command that
    may not return: \<open>None\<close> goes on for ever, \<open>Some\<close> is a return, a failed expectation of Gomega or a panic.
    \<open>forever\<close> is Go's \<open>for\<close> without a condition, by \<open>partial_function\<close>; \<open>rounds\<close> are its steps, and \<open>forever_iff\<close>
    and \<open>forever_returns\<close> say what a loop does and when it ends.
  \<^item> \<open>ChainUtils\<close>, \<open>ChainConfig\<close>: \<open>tests/utils/chain.go\<close>, waiting for transactions, blocks and events, sending
    them, with time in milliseconds; the shared configuration, a package variable, and the genesis template. \<open>SigAggregator\<close>: \<open>signature_aggregator.go\<close>.
  \<^item> \<open>TeleporterUtils\<close>, \<open>Relaying\<close>, \<open>NewVersion\<close>: \<open>tests/utils/teleporter.go\<close>, delivering, relaying, clearing the
    receipt queue with what settles that it ends, and a new version of the protocol. \<open>ContractUtils\<close>: \<open>erc20.go\<close>, \<open>proxy.go\<close>, \<open>governance.go\<close>.
    \<open>IcttUtils\<close>, \<open>IcttChecks\<close>: \<open>ictt.go\<close>, and its properties.
  \<^item> \<open>LocalNetwork\<close>, \<open>NetworkSetup\<close>, \<open>SubnetConversion\<close>: \<open>tests/network/network.go\<close>. Nodes are shared pointers:
    they live in a store (\<open>Store\<close>), lists hold their references. \<open>network_ok\<close> is the invariant: a new network has it
    and registering validators and converting a subnet keep it. The shared configuration is part of the state.
  \<^item> \<open>ValidatorFlows\<close>, \<open>ValidatorRemovals\<close>, \<open>ValidatorChecks\<close>: the rest of \<open>validator_manager.go\<close>, deployment of the
    managers, the initial validators, registrations and removals, delegators; and their properties. The
    bytecode variables of the bindings are part of the state (\<open>manager_state\<close>).
  \<^item> \<open>Simulation\<close>, \<open>IcttSimulation\<close>, \<open>ValidatorSimulation\<close>, \<open>SetupSimulation\<close>, \<open>ConversionSimulation\<close>: services simple
    enough to compute with, on which the properties of the test library are applied.

  \<^bold>\<open>What the lemmas show.\<close> Round trips of every packer and parser; that a call or transaction carries
  the selector and the arguments of its own method and a log is stored field by field; that hand-written
  types equal those of the contracts; that equal message or validation identifiers mean equal inputs or a
  hash collision; an exact gas limit below the wrap-around and a lower bound above it; that an iterator
  delivers every log up to the first it cannot parse under each interleaving, keeps its invariant, refines
  a cursor, also when it is closed, and that the loop of its caller ends; what each command prints, and the error path of
  each: which files a failed deployment leaves, and when decoding panics. Where the code departs from the
  contract it mirrors (the collateral of a remote, conversion data, the linked bytecode), the lemma gives
  the exact condition of the difference.

  Of the test library: a wait ends whatever the node answers, and returns the receipt of a transaction
  that is mined in time; clearing a receipt queue ends, and normally with the queue empty; a delivery pays the exact gas
  of its message; a token transfer is approved for amount and fee and scaled as the home scales it; native
  remotes are deployed with distinct keys; a registration or conversion that returns went through its
  steps in order, about one and the same validator, manager and message. Some theorems state what the
  code gets wrong: calls with the wrong number of arguments, a nil pointer, validators listed twice.

  \<^bold>\<open>Hypotheses on services.\<close> \<open>context_expires\<close>: a context ends after a number of ticks.
  \<open>keeps_time\<close>: a timeout sets a deadline in milliseconds, a tick comes within its period or not before the
  deadline. \<open>serves\<close>: a node answers within a latency, gives the receipt from one time on and the height from
  another. \<open>clearing_services\<close>: the messenger contract counts its waiting receipts and an accepted message
  takes up to five of them (\<open>takes_receipts\<close>), no other answer adds one, contexts end; no service is assumed
  to succeed. \<open>codec_scalars\<close>: unpacking one output gives one value of its type. \<open>signs\<close>, \<open>signs_tx\<close>, \<open>warp_messages\<close>: signing keeps the message, parsing inverts
  encoding. \<open>collateral_added\<close>, \<open>codec_arity\<close>: the home's event and settings follow the rule of its
  contract, packing counts its arguments. \<open>keeps_nodes\<close>, \<open>restart_keeps_nodes\<close>, \<open>makes_networks\<close>, \<open>fresh_nodes\<close>: what \<open>tmpnet\<close> does to nodes;
  \<open>configures\<close>: it gives a chain the text of the configuration it gets. Each
  property with one of these has a witness on a concrete service.

  \<^bold>\<open>Bounds.\<close> Integers read by the contracts are bounded by the predicates \<open>in_uint256\<close>, \<open>message_ok\<close>,
  \<open>input_ok\<close> and their like, as the ABI types demand; indices of type \<open>uint32\<close> and gas of type \<open>uint64\<close> are
  words. The caller's loop over an iterator of \<open>n\<close> logs ends within \<open>2n + 1\<close> steps of any schedule: each
  step either sends a log, or takes one, or is the last. No other definition uses fuel. The order in
  which Go visits a map, and the choice a \<open>select\<close> makes, are arguments of the definitions, and the
  properties hold for all of them.

  \<^bold>\<open>Not modelled.\<close>
  \<^item> The Solidity contracts, the excerpts of \<open>TokenScalingUtils.sol\<close>, \<open>TokenHome.sol\<close>, \<open>ValidatorMessages.sol\<close>
    and \<open>ITeleporterMessenger.sol\<close> named above apart: this is a model of the Go code.
  \<^item> In the bindings, the untyped aliases (\<open>Raw\<close> types) are modelled once, in \<open>Binding\<close>: those of every file
    forward to the bound contract in the same way. The bytecode texts and the blocks that silence
    unused imports hold no logic. The three files that contain a copy of the \<open>ValidatorMessages\<close> binding are
    modelled without it: \<open>ValidatorMessagesBinding\<close> is the model of the original.
  \<^item> Code that is not in the repository: \<open>subnet-evm\<close>, \<open>avalanchego\<close> (its P-Chain wallet, \<open>tmpnet\<close>, the signature
    aggregator's process), \<open>go-ethereum\<close>, \<open>cobra\<close> and JSON are parameters. The transmission of logs is abstracted to
    the list of logs a filter returns.
  \<^item> The log output of the test library, the accessors of single fields of the local network, and the
    goroutine that logs how the aggregator's process ended.
  \<^item> The scenarios of the end-to-end tests (\<open>tests/flows\<close>, \<open>tests/suites\<close>): sequences of the operations above with
    assertions on what a running network answers.
  \<^item> Scripts, build files, documents and recorded deployments.
\<close>

end
